(* ===== verification/Prelude.thy ===== *)
theory Prelude
  imports Complex_Main "HOL-Library.Multiset"
begin

text \<open>
  Shared vocabulary of the development: Python's exceptions as values, the numeric functions
  of the standard library and of numpy that the modelled code calls (\<open>int\<close>, \<open>round\<close>,
  \<open>np.clip\<close>, \<open>np.interp\<close>), \<open>bisect.insort\<close>, \<open>min\<close> with a key, the time steps of
  \<^verbatim>\<open>common/realtime.py\<close> and the unit conversions of \<^verbatim>\<open>common/constants.py\<close>.
  Python floats that the code never tests for finiteness are modelled by exact reals.
\<close>

named_theorems py_num \<open>evaluation of the numeric functions on closed terms\<close>

datatype py_error = KeyError | IndexError | NotImplementedError

section \<open>Time steps and unit conversions\<close>

abbreviation DT_CTRL :: real where "DT_CTRL \<equiv> 1 / 100"
abbreviation DT_MDL :: real where "DT_MDL \<equiv> 1 / 20"
abbreviation DT_DMON :: real where "DT_DMON \<equiv> 1 / 20"

abbreviation MPH_TO_KPH :: real where "MPH_TO_KPH \<equiv> 1609344 / 1000000"
abbreviation KPH_TO_MPH :: real where "KPH_TO_MPH \<equiv> 1 / MPH_TO_KPH"
abbreviation MS_TO_KPH :: real where "MS_TO_KPH \<equiv> 36 / 10"
abbreviation KPH_TO_MS :: real where "KPH_TO_MS \<equiv> 1 / MS_TO_KPH"
abbreviation MS_TO_MPH :: real where "MS_TO_MPH \<equiv> MS_TO_KPH * KPH_TO_MPH"
abbreviation MPH_TO_MS :: real where "MPH_TO_MS \<equiv> MPH_TO_KPH * KPH_TO_MS"

section \<open>Rounding and clipping\<close>

text \<open>\<open>int(x)\<close> truncates towards zero; \<open>round(x)\<close> rounds half to even.\<close>

definition py_int :: "real \<Rightarrow> int" where
  "py_int x = (if 0 \<le> x then \<lfloor>x\<rfloor> else \<lceil>x\<rceil>)"

definition py_round :: "real \<Rightarrow> int" where
  "py_round x =
     (let f = \<lfloor>x\<rfloor>; d = x - of_int f
      in if d < 1 / 2 then f
         else if 1 / 2 < d then f + 1
         else if even f then f else f + 1)"

definition py_round1 :: "real \<Rightarrow> real" where
  \<comment> \<open>\<open>round(x, 1)\<close>\<close>
  "py_round1 x = of_int (py_round (10 * x)) / 10"

definition np_clip :: "'a::linorder \<Rightarrow> 'a \<Rightarrow> 'a \<Rightarrow> 'a" where
  \<comment> \<open>numpy's order of the two bounds: the upper one wins when they cross\<close>
  "np_clip x lo hi = min (max x lo) hi"

declare py_int_def [py_num] py_round_def [py_num] py_round1_def [py_num] np_clip_def [py_num]

lemma np_clip_upper [simp]: "np_clip x lo hi \<le> hi"
  by (simp add: np_clip_def)

lemma np_clip_lower: "lo \<le> hi \<Longrightarrow> lo \<le> np_clip x lo hi"
  by (simp add: np_clip_def)

lemma np_clip_inside: "lo \<le> x \<Longrightarrow> x \<le> hi \<Longrightarrow> np_clip x lo hi = x"
  by (simp add: np_clip_def)

lemma np_clip_idem [simp]: "lo \<le> hi \<Longrightarrow> np_clip (np_clip x lo hi) lo hi = np_clip x lo hi"
  by (simp add: np_clip_inside np_clip_lower)

lemma np_clip_mono: "x \<le> y \<Longrightarrow> np_clip x lo hi \<le> np_clip y lo hi"
  unfolding np_clip_def by (intro min.mono max.mono order_refl)

lemma py_int_of_int [simp]: "py_int (of_int i) = i"
  by (simp add: py_int_def)

lemma py_int_nonneg: "0 \<le> x \<Longrightarrow> 0 \<le> py_int x"
  by (simp add: py_int_def)

lemma py_round_of_int [simp]: "py_round (of_int i) = i"
  by (simp add: py_round_def)

lemma py_round_near: "\<bar>of_int (py_round x) - x\<bar> \<le> 1 / 2"
proof -
  have "of_int \<lfloor>x\<rfloor> \<le> x" "x < of_int \<lfloor>x\<rfloor> + 1" by linarith+
  then show ?thesis by (auto simp: py_round_def Let_def abs_le_iff)
qed

lemma py_round_mono:
  assumes "x \<le> y" shows "py_round x \<le> py_round y"
proof (cases "\<lfloor>x\<rfloor> = \<lfloor>y\<rfloor>")
  case True
  with assms show ?thesis by (auto simp: py_round_def Let_def)
next
  case False
  with assms floor_mono [OF assms] have "\<lfloor>x\<rfloor> + 1 \<le> \<lfloor>y\<rfloor>" by linarith
  moreover have "py_round x \<le> \<lfloor>x\<rfloor> + 1" "\<lfloor>y\<rfloor> \<le> py_round y"
    by (auto simp: py_round_def Let_def)
  ultimately show ?thesis by linarith
qed

lemma py_round1_near: "\<bar>py_round1 x - x\<bar> \<le> 1 / 20"
  using py_round_near [of "10 * x"] unfolding py_round1_def abs_le_iff by linarith

lemma py_round1_mono: "x \<le> y \<Longrightarrow> py_round1 x \<le> py_round1 y"
  using py_round_mono [of "10 * x" "10 * y"] by (simp add: py_round1_def divide_right_mono)

section \<open>Piecewise linear interpolation\<close>

text \<open>
  \<open>np.interp(x, xp, fp)\<close> over the sample points as pairs: constant outside the points,
  linear between two neighbours. The code only calls it with at least one point.
\<close>

fun interp_from :: "real \<Rightarrow> real \<times> real \<Rightarrow> (real \<times> real) list \<Rightarrow> real" where
  "interp_from x (x0, y0) [] = y0"
| "interp_from x (x0, y0) ((x1, y1) # ps) =
     (if x1 \<le> x then interp_from x (x1, y1) ps
      else y0 + (x - x0) * ((y1 - y0) / (x1 - x0)))"

fun np_interp :: "real \<Rightarrow> (real \<times> real) list \<Rightarrow> real" where
  "np_interp x [] = 0"
| "np_interp x ((x0, y0) # ps) = (if x \<le> x0 then y0 else interp_from x (x0, y0) ps)"

section \<open>Sorted insertion\<close>

text \<open>\<open>bisect.insort\<close>: insert to the right of equal elements of a sorted list.\<close>

fun insort_right :: "'a::linorder \<Rightarrow> 'a list \<Rightarrow> 'a list" where
  "insort_right x [] = [x]"
| "insort_right x (y # ys) = (if y \<le> x then y # insort_right x ys else x # y # ys)"

lemma set_insort_right [simp]: "set (insort_right x xs) = insert x (set xs)"
  by (induction xs) auto

lemma mset_insort_right [simp]: "mset (insort_right x xs) = add_mset x (mset xs)"
  by (induction xs) auto

lemma length_insort_right [simp]: "length (insort_right x xs) = Suc (length xs)"
  by (induction xs) auto

lemma sorted_insort_right: "sorted xs \<Longrightarrow> sorted (insort_right x xs)"
  by (induction xs) auto

section \<open>The first minimum\<close>

text \<open>\<open>min(x # xs, key=f)\<close> returns the first element with the least key.\<close>

fun min_by :: "('a \<Rightarrow> 'b::linorder) \<Rightarrow> 'a \<Rightarrow> 'a list \<Rightarrow> 'a" where
  "min_by f x [] = x"
| "min_by f x (y # ys) = min_by f (if f y < f x then y else x) ys"

lemma min_by_in: "min_by f x xs \<in> insert x (set xs)"
  by (induction xs arbitrary: x) (auto split: if_splits)

lemma min_by_least_aux: "f (min_by f x xs) \<le> f x \<and> (\<forall>y \<in> set xs. f (min_by f x xs) \<le> f y)"
proof (induction xs arbitrary: x)
  case (Cons y ys)
  from Cons [of "if f y < f x then y else x"] show ?case by (auto split: if_splits)
qed simp

lemma min_by_least: "y \<in> insert x (set xs) \<Longrightarrow> f (min_by f x xs) \<le> f y"
  using min_by_least_aux [of f x xs] by auto

end
