(* ===== verification/PyText.thy ===== *)
theory PyText
  imports Prelude
begin

text \<open>
  The string operations the alert texts use: \<open>str\<close> of an integer, the format
  specifications \<open>:.0f\<close> and \<open>:.1f\<close>, \<open>str.title\<close>, \<open>str.join\<close>,
  the \<open>in\<close> test for substrings and \<open>str.replace\<close> by the empty string. A string is
  the list of its UTF-8 bytes, so the degree sign is two characters.
\<close>

definition digit_char :: "nat \<Rightarrow> char" where
  "digit_char d = char_of (48 + d)"

fun nat_str :: "nat \<Rightarrow> string" where
  "nat_str n = (if n < 10 then [digit_char n] else nat_str (n div 10) @ [digit_char (n mod 10)])"

declare nat_str.simps [simp del]

definition int_str :: "int \<Rightarrow> string" where
  "int_str i = (if i < 0 then CHR ''-'' # nat_str (nat (- i)) else nat_str (nat i))"

definition fmt_0f :: "real \<Rightarrow> string" where
  "fmt_0f x = (if x < 0 then [CHR ''-''] else []) @ nat_str (nat (py_round \<bar>x\<bar>))"

definition fmt_1f :: "real \<Rightarrow> string" where
  "fmt_1f x =
     (let t = nat (py_round (10 * \<bar>x\<bar>))
      in (if x < 0 then [CHR ''-''] else []) @ nat_str (t div 10) @ CHR ''.'' # nat_str (t mod 10))"

definition fmt_1f_nan :: "real option \<Rightarrow> string" where
  \<comment> \<open>\<open>None\<close> is \<open>math.nan\<close>\<close>
  "fmt_1f_nan x = (case x of None \<Rightarrow> ''nan'' | Some r \<Rightarrow> fmt_1f r)"

definition is_lower_char :: "char \<Rightarrow> bool" where
  "is_lower_char c \<longleftrightarrow> 97 \<le> (of_char c :: nat) \<and> (of_char c :: nat) \<le> 122"

definition is_upper_char :: "char \<Rightarrow> bool" where
  "is_upper_char c \<longleftrightarrow> 65 \<le> (of_char c :: nat) \<and> (of_char c :: nat) \<le> 90"

definition upper_char :: "char \<Rightarrow> char" where
  "upper_char c = (if is_lower_char c then char_of ((of_char c :: nat) - 32) else c)"

definition lower_char :: "char \<Rightarrow> char" where
  "lower_char c = (if is_upper_char c then char_of ((of_char c :: nat) + 32) else c)"

fun title_from :: "bool \<Rightarrow> string \<Rightarrow> string" where
  \<comment> \<open>the flag says whether the previous character was a letter\<close>
  "title_from _ [] = []"
| "title_from prev (c # cs) =
     (if is_lower_char c \<or> is_upper_char c
      then (if prev then lower_char c else upper_char c) # title_from True cs
      else c # title_from False cs)"

definition py_title :: "string \<Rightarrow> string" where
  "py_title s = title_from False s"

definition py_upper :: "string \<Rightarrow> string" where
  "py_upper s = map upper_char s"

fun py_join :: "string \<Rightarrow> string list \<Rightarrow> string" where
  "py_join sep [] = []"
| "py_join sep [s] = s"
| "py_join sep (s # t # ts) = s @ sep @ py_join sep (t # ts)"

fun starts_with :: "string \<Rightarrow> string \<Rightarrow> bool" where
  "starts_with [] _ = True"
| "starts_with (p # ps) [] = False"
| "starts_with (p # ps) (c # cs) = (p = c \<and> starts_with ps cs)"

fun substring_in :: "string \<Rightarrow> string \<Rightarrow> bool" where
  \<comment> \<open>\<open>p in s\<close>\<close>
  "substring_in p [] = (p = [])"
| "substring_in p (c # cs) = (starts_with p (c # cs) \<or> substring_in p cs)"

function remove_all :: "string \<Rightarrow> string \<Rightarrow> string" where
  \<comment> \<open>\<open>s.replace(p, "")\<close> for a non-empty \<open>p\<close>\<close>
  "remove_all p s =
     (case s of [] \<Rightarrow> []
      | c # cs \<Rightarrow> if p \<noteq> [] \<and> starts_with p s then remove_all p (drop (length p) s)
                 else c # remove_all p cs)"
  by pat_completeness auto
termination
  by (relation "measure (length \<circ> snd)") auto

declare remove_all.simps [simp del]

lemma nat_str_small: "n < 10 \<Longrightarrow> nat_str n = [digit_char n]"
  by (simp add: nat_str.simps)

lemma nat_str_big: "\<not> n < 10 \<Longrightarrow> nat_str n = nat_str (n div 10) @ [digit_char (n mod 10)]"
  by (simp add: nat_str.simps [of n])

lemma starts_with_append [simp]: "starts_with p (p @ s)"
  by (induction p) auto

lemma starts_with_iff: "starts_with p s \<longleftrightarrow> (\<exists>t. s = p @ t)"
  by (induction p s rule: starts_with.induct) auto

lemma substring_in_iff: "substring_in p s \<longleftrightarrow> (\<exists>a b. s = a @ p @ b)"
proof (induction s)
  case Nil
  show ?case by auto
next
  case (Cons c cs)
  show ?case
    by (simp add: Cons starts_with_iff) (metis append_Cons append_Nil append_eq_Cons_conv)
qed

end
