(* ===== verification/Events.thy ===== *)
theory Events
  imports PyText "HOL-Library.Monad_Syntax"
begin

text \<open>
  The alerts and the event store of \<^verbatim>\<open>sunnypilot/selfdrive/selfdrived/events_base.py\<close>:
  priorities, event types, the \<open>Alert\<close> class and its subclasses, and \<open>EventsBase\<close>
  with its sorted list of event numbers, its static events and its counters. A dictionary from
  event numbers to alerts is a parameter of the operations that look events up; \<open>None\<close> is a
  raised \<open>KeyError\<close>.
\<close>

section \<open>Priorities and event types\<close>

datatype priority = LOWEST | LOWER | LOW | MID | HIGH | HIGHEST

fun priority_value :: "priority \<Rightarrow> nat" where
  "priority_value LOWEST = 0"
| "priority_value LOWER = 1"
| "priority_value LOW = 2"
| "priority_value MID = 3"
| "priority_value HIGH = 4"
| "priority_value HIGHEST = 5"

lemma priority_value_inject: "priority_value p = priority_value q \<Longrightarrow> p = q"
  by (cases p; cases q) auto

instantiation priority :: linorder
begin

definition less_eq_priority :: "priority \<Rightarrow> priority \<Rightarrow> bool" where
  "less_eq_priority p q \<longleftrightarrow> priority_value p \<le> priority_value q"

definition less_priority :: "priority \<Rightarrow> priority \<Rightarrow> bool" where
  "less_priority p q \<longleftrightarrow> priority_value p < priority_value q"

instance
  by standard
    (auto simp: less_eq_priority_def less_priority_def dest: priority_value_inject)

end

datatype ET = ENABLE | PRE_ENABLE | OVERRIDE_LATERAL | OVERRIDE_LONGITUDINAL | NO_ENTRY | WARNING
  | USER_DISABLE | SOFT_DISABLE | IMMEDIATE_DISABLE | PERMANENT

fun et_str :: "ET \<Rightarrow> string" where
  "et_str ENABLE = ''enable''"
| "et_str PRE_ENABLE = ''preEnable''"
| "et_str OVERRIDE_LATERAL = ''overrideLateral''"
| "et_str OVERRIDE_LONGITUDINAL = ''overrideLongitudinal''"
| "et_str NO_ENTRY = ''noEntry''"
| "et_str WARNING = ''warning''"
| "et_str USER_DISABLE = ''userDisable''"
| "et_str SOFT_DISABLE = ''softDisable''"
| "et_str IMMEDIATE_DISABLE = ''immediateDisable''"
| "et_str PERMANENT = ''permanent''"

section \<open>Alerts\<close>

datatype alert_status = Status_normal | Status_userPrompt | Status_critical
datatype alert_size = Size_none | Size_small | Size_mid | Size_full
datatype visual_alert = Visual_none | Visual_fcw | Visual_steerRequired | Visual_brakePressed | Visual_ldw
datatype audible_alert = Audible_none | Audible_engage | Audible_disengage | Audible_refuse
  | Audible_warningSoft | Audible_warningImmediate | Audible_prompt | Audible_promptRepeat
  | Audible_promptDistracted | Audible_preAlert | AudibleSP_promptSingleLow | AudibleSP_promptSingleHigh

record alert =
  alert_text_1 :: string
  alert_text_2 :: string
  alert_status :: alert_status
  alert_size :: alert_size
  alert_priority :: priority
  visual_alert :: visual_alert
  audible_alert :: audible_alert
  alert_duration :: int
  creation_delay :: real
  alert_type :: string
  event_type :: "ET option"

text \<open>\<open>Alert.__init__\<close>: the duration in seconds becomes a number of control frames.\<close>

definition Alert :: "string \<Rightarrow> string \<Rightarrow> alert_status \<Rightarrow> alert_size \<Rightarrow> priority \<Rightarrow> visual_alert \<Rightarrow>
    audible_alert \<Rightarrow> real \<Rightarrow> real \<Rightarrow> alert" where
  "Alert t1 t2 status sz prio visual audible dur delay =
     \<lparr>alert_text_1 = t1, alert_text_2 = t2, alert_status = status, alert_size = sz,
      alert_priority = prio, visual_alert = visual, audible_alert = audible,
      alert_duration = py_int (dur / DT_CTRL), creation_delay = delay,
      alert_type = [], event_type = None\<rparr>"

definition alert_gt :: "alert \<Rightarrow> alert \<Rightarrow> bool" where
  "alert_gt a b \<longleftrightarrow> alert_priority b < alert_priority a"

definition EmptyAlert :: alert where
  "EmptyAlert = Alert [] [] Status_normal Size_none LOWEST Visual_none Audible_none 0 0"

text \<open>The subclasses; \<open>mici\<close> says whether \<open>HARDWARE.get_device_type()\<close> is \<open>'mici'\<close>.\<close>

definition NoEntryAlert_full :: "bool \<Rightarrow> string \<Rightarrow> string \<Rightarrow> visual_alert \<Rightarrow> priority \<Rightarrow> alert" where
  "NoEntryAlert_full mici t2 t1 visual prio =
     (if mici then Alert t2 t1 Status_normal Size_mid prio visual Audible_refuse 3 0
      else Alert t1 t2 Status_normal Size_mid prio visual Audible_refuse 3 0)"

definition NoEntryAlert :: "bool \<Rightarrow> string \<Rightarrow> alert" where
  "NoEntryAlert mici t2 = NoEntryAlert_full mici t2 ''openpilot Unavailable'' Visual_none LOW"

definition SoftDisableAlert :: "string \<Rightarrow> alert" where
  "SoftDisableAlert t2 = Alert ''TAKE CONTROL IMMEDIATELY'' t2 Status_userPrompt Size_full MID
     Visual_steerRequired Audible_warningSoft 2 0"

definition UserSoftDisableAlert :: "string \<Rightarrow> alert" where
  "UserSoftDisableAlert t2 = (SoftDisableAlert t2)\<lparr>alert_text_1 := ''openpilot will disengage''\<rparr>"

definition ImmediateDisableAlert :: "string \<Rightarrow> alert" where
  "ImmediateDisableAlert t2 = Alert ''TAKE CONTROL IMMEDIATELY'' t2 Status_critical Size_full HIGHEST
     Visual_steerRequired Audible_warningImmediate 4 0"

definition EngagementAlert :: "audible_alert \<Rightarrow> alert" where
  "EngagementAlert audible = Alert [] [] Status_normal Size_none MID Visual_none audible (2 / 10) 0"

definition NormalPermanentAlert_full :: "string \<Rightarrow> string \<Rightarrow> real \<Rightarrow> priority \<Rightarrow> real \<Rightarrow> alert" where
  "NormalPermanentAlert_full t1 t2 dur prio delay =
     Alert t1 t2 Status_normal (if t2 \<noteq> [] then Size_mid else Size_small) prio Visual_none
       Audible_none dur delay"

definition NormalPermanentAlert :: "string \<Rightarrow> string \<Rightarrow> alert" where
  "NormalPermanentAlert t1 t2 = NormalPermanentAlert_full t1 t2 (2 / 10) LOWER 0"

definition StartupAlert_full :: "bool \<Rightarrow> string \<Rightarrow> string \<Rightarrow> alert_status \<Rightarrow> alert" where
  "StartupAlert_full mici t1 t2 status =
     (let t2' = (if mici \<and> t2 = ''Always keep hands on wheel and eyes on road'' then [] else t2);
          sz = (if mici then Size_small else Size_mid)
      in Alert t1 t2' status sz LOWER Visual_none Audible_none 5 0)"

definition StartupAlert :: "bool \<Rightarrow> string \<Rightarrow> alert" where
  "StartupAlert mici t1 =
     StartupAlert_full mici t1 ''Always keep hands on wheel and eyes on road'' Status_normal"

section \<open>EventsBase\<close>

text \<open>
  An entry of an event dictionary is an alert or a callback that builds one from the callback
  arguments (here of type \<open>'c\<close>). A dictionary maps an event number to its entries, in the
  order they are written.
\<close>

datatype 'c alert_def = StaticAlert alert | CallbackAlert "'c \<Rightarrow> alert"

fun resolve_alert :: "'c \<Rightarrow> 'c alert_def \<Rightarrow> alert" where
  "resolve_alert _ (StaticAlert a) = a"
| "resolve_alert c (CallbackAlert f) = f c"

type_synonym 'c events_mapping = "nat \<Rightarrow> (ET \<times> 'c alert_def) list option"

record events_state =
  ev_events :: "nat list"
  ev_static :: "nat list"
  ev_counters :: "nat \<Rightarrow> nat option"

definition ev_init :: "nat list \<Rightarrow> events_state" where
  \<comment> \<open>\<open>dict.fromkeys(EVENTS.keys(), 0)\<close>\<close>
  "ev_init ks = \<lparr>ev_events = [], ev_static = [],
     ev_counters = (\<lambda>k. if k \<in> set ks then Some 0 else None)\<rparr>"

definition ev_add :: "nat \<Rightarrow> events_state \<Rightarrow> events_state" where
  "ev_add e s = s\<lparr>ev_events := insort_right e (ev_events s)\<rparr>"

definition ev_add_static :: "nat \<Rightarrow> events_state \<Rightarrow> events_state" where
  "ev_add_static e s = ev_add e (s\<lparr>ev_static := insort_right e (ev_static s)\<rparr>)"

definition ev_clear :: "events_state \<Rightarrow> events_state" where
  "ev_clear s = s\<lparr>ev_counters := (\<lambda>k. map_option (\<lambda>v. if k \<in> set (ev_events s) then v + 1 else 0)
                                       (ev_counters s k)),
                ev_events := ev_static s\<rparr>"

definition mapping_types :: "'c events_mapping \<Rightarrow> nat \<Rightarrow> ET list" where
  \<comment> \<open>the keys of \<open>get_events_mapping().get(e, {})\<close>\<close>
  "mapping_types m e = (case m e of None \<Rightarrow> [] | Some ds \<Rightarrow> map fst ds)"

definition ev_contains :: "'c events_mapping \<Rightarrow> events_state \<Rightarrow> ET \<Rightarrow> bool" where
  "ev_contains m s et = list_ex (\<lambda>e. et \<in> set (mapping_types m e)) (ev_events s)"

text \<open>
  \<open>contains\<close> is written for event types, but takes any key: the dictionaries of the table
  are keyed by the strings of the event types, so an event number is never found.
\<close>

datatype py_key = Key_str string | Key_int nat

definition ev_contains_key :: "'c events_mapping \<Rightarrow> events_state \<Rightarrow> py_key \<Rightarrow> bool" where
  "ev_contains_key m s k = list_ex (\<lambda>e. k \<in> set (map (\<lambda>et. Key_str (et_str et)) (mapping_types m e))) (ev_events s)"

definition ev_has :: "nat \<Rightarrow> events_state \<Rightarrow> bool" where
  "ev_has e s \<longleftrightarrow> e \<in> set (ev_events s)"

definition ev_contains_in_list :: "nat list \<Rightarrow> events_state \<Rightarrow> bool" where
  "ev_contains_in_list es s = list_ex (\<lambda>e. ev_has e s) es"

definition ev_remove :: "nat \<Rightarrow> events_state \<Rightarrow> events_state option" where
  "ev_remove e s =
     (if e \<in> set (ev_events s)
      then case ev_counters s e of
             None \<Rightarrow> None
           | Some c \<Rightarrow> Some (s\<lparr>ev_counters := (ev_counters s)(e \<mapsto> c + 1),
                              ev_events := remove1 e (ev_events s)\<rparr>)
      else Some s)"

definition ev_remove_static :: "nat \<Rightarrow> events_state \<Rightarrow> events_state option" where
  \<comment> \<open>\<open>remove(event_name, static=True)\<close>\<close>
  "ev_remove_static e s =
     ev_remove e (if e \<in> set (ev_static s) then s\<lparr>ev_static := remove1 e (ev_static s)\<rparr> else s)"

primrec ev_remove_list :: "nat list \<Rightarrow> events_state \<Rightarrow> events_state option" where
  \<comment> \<open>several calls of \<open>remove\<close> in a row\<close>
  "ev_remove_list [] s = Some s"
| "ev_remove_list (e # es) s = do { t \<leftarrow> ev_remove e s; ev_remove_list es t }"

fun ev_add_from_msg :: "nat list \<Rightarrow> events_state \<Rightarrow> events_state" where
  "ev_add_from_msg [] s = s"
| "ev_add_from_msg (e # es) s = ev_add_from_msg es (ev_add e s)"

definition ev_to_msg :: "'c events_mapping \<Rightarrow> events_state \<Rightarrow> (nat \<times> ET list) list" where
  \<comment> \<open>an event message: its number and the flags that are set\<close>
  "ev_to_msg m s = map (\<lambda>e. (e, mapping_types m e)) (ev_events s)"

text \<open>\<open>create_alerts\<close>: \<open>name\<close> is \<open>get_event_name\<close>.\<close>

definition alert_for_type :: "(nat \<Rightarrow> string option) \<Rightarrow> 'c \<Rightarrow> events_state \<Rightarrow> nat \<Rightarrow>
    (ET \<times> 'c alert_def) list \<Rightarrow> ET \<Rightarrow> alert list option" where
  "alert_for_type name ctx s e ds et =
     (case map_of ds et of
        None \<Rightarrow> Some []
      | Some d \<Rightarrow>
          (let a = resolve_alert ctx d
           in do { c \<leftarrow> ev_counters s e;
                   if creation_delay a \<le> DT_CTRL * of_nat (c + 1)
                   then do { n \<leftarrow> name e;
                             Some [a\<lparr>alert_type := n @ ''/'' @ et_str et, event_type := Some et\<rparr>] }
                   else Some [] }))"

definition alerts_of_event :: "'c events_mapping \<Rightarrow> (nat \<Rightarrow> string option) \<Rightarrow> 'c \<Rightarrow> events_state \<Rightarrow>
    ET list \<Rightarrow> nat \<Rightarrow> alert list option" where
  "alerts_of_event m name ctx s ets e =
     do { ds \<leftarrow> m e; map_option concat (those (map (alert_for_type name ctx s e ds) ets)) }"

definition create_alerts :: "'c events_mapping \<Rightarrow> (nat \<Rightarrow> string option) \<Rightarrow> 'c \<Rightarrow> ET list \<Rightarrow>
    events_state \<Rightarrow> alert list option" where
  "create_alerts m name ctx ets s =
     map_option concat (those (map (alerts_of_event m name ctx s ets) (ev_events s)))"

section \<open>Facts about the store\<close>

definition ev_ok :: "nat set \<Rightarrow> events_state \<Rightarrow> bool" where
  \<comment> \<open>the lists are sorted, and every event in them has a counter\<close>
  "ev_ok K s \<longleftrightarrow> sorted (ev_events s) \<and> sorted (ev_static s) \<and> dom (ev_counters s) = K \<and>
     set (ev_events s) \<subseteq> K \<and> set (ev_static s) \<subseteq> K"

definition ev_abs :: "events_state \<Rightarrow> nat multiset" where
  "ev_abs s = mset (ev_events s)"

lemma those_map_Some: "(\<And>x. x \<in> set xs \<Longrightarrow> \<exists>y. f x = Some y) \<Longrightarrow> \<exists>ys. those (map f xs) = Some ys"
proof (induction xs)
  case Nil
  show ?case by simp
next
  case (Cons x xs)
  obtain y where "f x = Some y" using Cons.prems [of x] by auto
  moreover obtain ys where "those (map f xs) = Some ys" using Cons by auto
  ultimately show ?case by simp
qed

lemma those_map_mem:
  "those (map f xs) = Some ys \<Longrightarrow> y \<in> set ys \<Longrightarrow> \<exists>x \<in> set xs. f x = Some y"
  by (induction xs arbitrary: ys) (auto split: option.splits)

lemma ev_ok_init: "ev_ok (set ks) (ev_init ks)"
  by (auto simp: ev_ok_def ev_init_def dom_def)

lemma ev_ok_add: "ev_ok K s \<Longrightarrow> e \<in> K \<Longrightarrow> ev_ok K (ev_add e s)"
  by (auto simp: ev_ok_def ev_add_def sorted_insort_right)

lemma ev_ok_add_static: "ev_ok K s \<Longrightarrow> e \<in> K \<Longrightarrow> ev_ok K (ev_add_static e s)"
  unfolding ev_add_static_def
  by (rule ev_ok_add) (auto simp: ev_ok_def sorted_insort_right)

lemma ev_ok_clear: "ev_ok K s \<Longrightarrow> ev_ok K (ev_clear s)"
  by (auto simp: ev_ok_def ev_clear_def dom_def)

lemma ev_remove_total: "ev_ok K s \<Longrightarrow> \<exists>t. ev_remove e s = Some t"
  by (auto simp: ev_ok_def ev_remove_def split: option.splits)

lemma ev_ok_remove: "ev_ok K s \<Longrightarrow> ev_remove e s = Some t \<Longrightarrow> ev_ok K t"
  by (auto simp: ev_ok_def ev_remove_def sorted_remove1 dest: notin_set_remove1
      split: if_splits option.splits dest!: set_mp [OF set_remove1_subset])

lemma ev_abs_add: "ev_abs (ev_add e s) = add_mset e (ev_abs s)"
  by (simp add: ev_abs_def ev_add_def)

lemma ev_abs_remove: "ev_remove e s = Some t \<Longrightarrow> ev_abs t = ev_abs s - {#e#}"
  by (auto simp: ev_abs_def ev_remove_def split: if_splits option.splits)

lemma ev_has_abs: "ev_has e s \<longleftrightarrow> e \<in># ev_abs s"
  by (simp add: ev_abs_def ev_has_def)

lemma ev_contains_iff:
  "ev_contains m s et \<longleftrightarrow> (\<exists>e. ev_has e s \<and> et \<in> set (mapping_types m e))"
  by (auto simp: ev_contains_def ev_has_def list_ex_iff)

lemma et_str_inject: "et_str a = et_str b \<longleftrightarrow> a = b"
  by (cases a; cases b) simp_all

lemma ev_contains_key_str: "ev_contains_key m s (Key_str (et_str et)) = ev_contains m s et"
  by (auto simp: ev_contains_key_def ev_contains_def list_ex_iff et_str_inject)

lemma ev_contains_key_int [simp]: "ev_contains_key m s (Key_int n) = False"
  by (auto simp: ev_contains_key_def list_ex_iff)

lemma ev_remove_list_total: "ev_ok K s \<Longrightarrow> \<exists>t. ev_remove_list es s = Some t \<and> ev_ok K t"
proof (induction es arbitrary: s)
  case Nil
  then show ?case by simp
next
  case (Cons e es)
  from ev_remove_total [OF Cons.prems] obtain t where t: "ev_remove e s = Some t" ..
  with Cons show ?case by (auto dest: ev_ok_remove)
qed

lemma ev_contains_in_list_iff: "ev_contains_in_list es s \<longleftrightarrow> (\<exists>e \<in> set es. ev_has e s)"
  by (simp add: ev_contains_in_list_def list_ex_iff)

lemma mapping_types_Some [simp]: "m e = Some ds \<Longrightarrow> mapping_types m e = map fst ds"
  by (simp add: mapping_types_def)

section \<open>The interface of the store\<close>

text \<open>
  What the producers of events (the engagement machines, the speed limit assistant, the drive
  loop) rely on: the store is a multiset of event numbers, removal takes one occurrence away and
  never fails on a well-formed store.
\<close>

locale event_store =
  fixes add :: "nat \<Rightarrow> 's \<Rightarrow> 's"
    and remove :: "nat \<Rightarrow> 's \<Rightarrow> 's option"
    and has :: "nat \<Rightarrow> 's \<Rightarrow> bool"
    and bag :: "'s \<Rightarrow> nat multiset"
    and ok :: "'s \<Rightarrow> bool"
    and known :: "nat set"
  assumes bag_add: "bag (add e s) = add_mset e (bag s)"
    and bag_remove: "remove e s = Some t \<Longrightarrow> bag t = bag s - {#e#}"
    and has_bag: "has e s \<longleftrightarrow> e \<in># bag s"
    and ok_add: "ok s \<Longrightarrow> e \<in> known \<Longrightarrow> ok (add e s)"
    and ok_remove: "ok s \<Longrightarrow> remove e s = Some t \<Longrightarrow> ok t"
    and remove_total: "ok s \<Longrightarrow> \<exists>t. remove e s = Some t"
begin

lemma has_add [simp]: "has e (add d s) \<longleftrightarrow> e = d \<or> has e s"
  by (auto simp: has_bag bag_add)

lemma has_remove_other: "remove d s = Some t \<Longrightarrow> e \<noteq> d \<Longrightarrow> has e t \<longleftrightarrow> has e s"
  by (auto simp: has_bag bag_remove in_diff_count)

lemma has_remove_mono: "remove d s = Some t \<Longrightarrow> has e t \<Longrightarrow> has e s"
  by (auto simp: has_bag bag_remove dest: in_diffD)

lemma remove_single: "remove e s = Some t \<Longrightarrow> count (bag s) e \<le> 1 \<Longrightarrow> \<not> has e t"
  by (simp add: has_bag bag_remove count_eq_zero_iff [symmetric])

lemma remove_absent: "remove e s = Some t \<Longrightarrow> \<not> has e s \<Longrightarrow> bag t = bag s"
  by (simp add: bag_remove has_bag diff_single_trivial)

end

interpretation ev: event_store ev_add ev_remove ev_has ev_abs "ev_ok K" K for K
  by unfold_locales
    (auto simp: ev_abs_add ev_abs_remove ev_has_abs ev_ok_add ev_ok_remove ev_remove_total)

lemma ev_has_add_from_msg [simp]: "ev_has e (ev_add_from_msg es s) \<longleftrightarrow> e \<in> set es \<or> ev_has e s"
  by (induction es s rule: ev_add_from_msg.induct) auto

lemma ev_ok_add_from_msg: "ev_ok K s \<Longrightarrow> set es \<subseteq> K \<Longrightarrow> ev_ok K (ev_add_from_msg es s)"
  by (induction es s rule: ev_add_from_msg.induct) (auto intro: ev.ok_add)

text \<open>Alerts are built without a \<open>KeyError\<close> when the dictionaries know every event.\<close>

lemma alert_for_type_total:
  assumes "ev_ok K s" "e \<in> K" "\<exists>n. name e = Some n"
  shows "\<exists>as. alert_for_type name ctx s e ds et = Some as"
proof -
  from assms(1,2) obtain c where "ev_counters s e = Some c" by (auto simp: ev_ok_def dom_def)
  with assms(3) show ?thesis
    by (auto simp: alert_for_type_def Let_def split: option.split)
qed

lemma create_alerts_total:
  assumes ok: "ev_ok K s" and keys: "\<And>e. e \<in> K \<Longrightarrow> (\<exists>ds. m e = Some ds) \<and> (\<exists>n. name e = Some n)"
  shows "\<exists>as. create_alerts m name ctx ets s = Some as"
proof -
  have "\<exists>as. alerts_of_event m name ctx s ets e = Some as" if "e \<in> set (ev_events s)" for e
  proof -
    from ok that have "e \<in> K" by (auto simp: ev_ok_def)
    with keys obtain ds where "m e = Some ds" and n: "\<exists>n. name e = Some n" by blast
    moreover obtain ass where "those (map (alert_for_type name ctx s e ds) ets) = Some ass"
      using those_map_Some [of ets "alert_for_type name ctx s e ds"]
        alert_for_type_total [of K s e name ctx ds] ok \<open>e \<in> K\<close> n by blast
    ultimately show ?thesis by (simp add: alerts_of_event_def)
  qed
  then show ?thesis
    using those_map_Some [of "ev_events s" "alerts_of_event m name ctx s ets"]
    by (auto simp: create_alerts_def)
qed

lemma alert_for_type_event_type:
  "alert_for_type name ctx s e ds et = Some as \<Longrightarrow> a \<in> set as \<Longrightarrow> event_type a = Some et"
  by (auto simp: alert_for_type_def Let_def split: option.splits if_splits bind_splits)

lemma create_alerts_event_type:
  assumes "create_alerts m name ctx ets s = Some as" "a \<in> set as"
  shows "\<exists>et \<in> set ets. event_type a = Some et \<and> ev_contains m s et"
proof -
  from assms obtain ass xs where "those (map (alerts_of_event m name ctx s ets) (ev_events s)) = Some ass"
    and "xs \<in> set ass" "a \<in> set xs" by (auto simp: create_alerts_def)
  then obtain e where e: "e \<in> set (ev_events s)" "alerts_of_event m name ctx s ets e = Some xs"
    by (blast dest: those_map_mem)
  then obtain ds yss where ds: "m e = Some ds" "those (map (alert_for_type name ctx s e ds) ets) = Some yss"
    and xs: "xs = concat yss"
    by (auto simp: alerts_of_event_def split: bind_splits)
  with \<open>a \<in> set xs\<close> obtain ys where "ys \<in> set yss" "a \<in> set ys" by auto
  with ds(2) obtain et where et: "et \<in> set ets" "alert_for_type name ctx s e ds et = Some ys"
    by (blast dest: those_map_mem)
  then have "event_type a = Some et" using \<open>a \<in> set ys\<close> by (blast dest: alert_for_type_event_type)
  moreover have "map_of ds et \<noteq> None"
    using et(2) \<open>a \<in> set ys\<close> by (auto simp: alert_for_type_def split: option.splits)
  ultimately show ?thesis using e(1) ds(1) et(1)
    by (auto simp: ev_contains_iff ev_has_def dest!: map_of_SomeD
        intro!: bexI [of _ et] exI [of _ e] rev_image_eqI)
qed

end
