(* ===== verification/AlertCallbacks.thy ===== *)
theory AlertCallbacks
  imports Events
begin

text \<open>
  The alert callbacks of \<^verbatim>\<open>selfdrive/selfdrived/events.py\<close>, of
  \<^verbatim>\<open>sunnypilot/selfdrive/selfdrived/events.py\<close> and of \<^verbatim>\<open>events_base.py\<close>.
  A callback is a function of the callback arguments; the record \<open>alert_ctx\<close> holds the
  fields of \<open>CP\<close>, \<open>CS\<close> and \<open>sm\<close> the callbacks read, the process environment
  (\<open>REPLAY\<close>, the branch name, the device type), the metric flag, the soft disable timer and
  the personality's name.
\<close>

record alert_ctx =
  cp_brand :: string
  cp_minEnableSpeed :: real
  cp_minSteerSpeed :: real
  cp_openpilotLongitudinalControl :: bool
  cp_pcmCruise :: bool
  cs_vEgo :: real
  cs_vCruiseCluster :: real
  env_mici :: bool
  env_replay :: bool
  env_short_branch :: string
  sm_recalibrating :: bool
  sm_calPerc :: int
  sm_rpyCalib :: "real list"
  sm_lockout :: bool
  sm_lockoutMinutesRemaining :: int
  sm_freeSpacePercent :: real
  sm_cpuTempC :: "real list"
  sm_gpuTempC :: "real list"
  sm_memoryTempC :: real
  sm_memoryUsagePercent :: int
  sm_velocity_x :: "real list"
  sm_frameDropPerc :: real
  sm_processes :: "(string \<times> bool \<times> bool) list"
  sm_services :: "(string \<times> bool) list"
  sm_angleOffsetValid :: bool
  sm_angleOffsetDeg :: real
  sm_steerRatioValid :: bool
  sm_steerRatio :: real
  sm_stiffnessFactorValid :: bool
  sm_stiffnessFactor :: real
  sm_accel :: real
  sm_torque :: real
  sm_alertText1 :: string
  sm_alertText2 :: string
  sm_vCruise :: real
  sm_speedLimit :: real
  sm_speedLimitFinalLast :: real
  ctx_metric :: bool
  ctx_soft_disable_time :: int
  ctx_personality :: string

type_synonym alert_entry = "alert_ctx alert_def"

definition degree_sign :: string where
  "degree_sign = [CHR 0xC2, CHR 0xB0]"

definition get_display_speed :: "real \<Rightarrow> bool \<Rightarrow> string" where
  "get_display_speed speed_ms metric =
     int_str (py_round (speed_ms * (if metric then MS_TO_KPH else MS_TO_MPH))) @ '' '' @
     (if metric then ''km/h'' else ''mph'')"

definition soft_disable_alert :: "string \<Rightarrow> alert_entry" where
  "soft_disable_alert t2 = CallbackAlert (\<lambda>c.
     if ctx_soft_disable_time c < py_int ((5 / 10) / DT_CTRL) then ImmediateDisableAlert t2
     else SoftDisableAlert t2)"

definition user_soft_disable_alert :: "string \<Rightarrow> alert_entry" where
  "user_soft_disable_alert t2 = CallbackAlert (\<lambda>c.
     if ctx_soft_disable_time c < py_int ((5 / 10) / DT_CTRL) then ImmediateDisableAlert t2
     else UserSoftDisableAlert t2)"

definition startup_master_alert :: "alert_ctx \<Rightarrow> alert" where
  "startup_master_alert c =
     StartupAlert_full (env_mici c) ''WARNING: This branch is not tested''
       (if env_replay c then ''replay'' else env_short_branch c) Status_userPrompt"

definition below_engage_speed_alert :: "alert_ctx \<Rightarrow> alert" where
  "below_engage_speed_alert c = NoEntryAlert (env_mici c)
     (''Drive above '' @ get_display_speed (cp_minEnableSpeed c) (ctx_metric c) @ '' to engage'')"

definition below_steer_speed_alert :: "alert_ctx \<Rightarrow> alert" where
  "below_steer_speed_alert c = Alert
     (''Steer Assist Unavailable Below '' @ get_display_speed (cp_minSteerSpeed c) (ctx_metric c))
     [] Status_userPrompt Size_small LOW Visual_none Audible_prompt (4 / 10) 0"

definition MIN_SPEED_FILTER :: real where
  "MIN_SPEED_FILTER = 15 * MPH_TO_MS"

definition calibration_incomplete_alert :: "alert_ctx \<Rightarrow> alert" where
  "calibration_incomplete_alert c =
     (let first_word = (if sm_recalibrating c then ''Recalibrating'' else ''Calibrating'')
      in Alert (first_word @ '': '' @ fmt_0f (of_int (sm_calPerc c)) @ ''%'')
           (''Drive Above '' @ get_display_speed MIN_SPEED_FILTER (ctx_metric c))
           Status_normal Size_mid LOWEST Visual_none Audible_none (2 / 10) 0)"

definition too_distracted_alert :: "alert_ctx \<Rightarrow> alert" where
  "too_distracted_alert c =
     (if sm_lockout c then
        (let mins_left = sm_lockoutMinutesRemaining c
         in NoEntryAlert_full (env_mici c) ''Too Distracted''
              (int_str mins_left @ '' minute'' @ (if mins_left \<noteq> 1 then ''s'' else []) @ '' Left'')
              Visual_none HIGH)
      else NoEntryAlert_full (env_mici c) ''Pay Attention to Engage'' ''openpilot Unavailable''
             Visual_none HIGH)"

definition out_of_space_alert :: "alert_ctx \<Rightarrow> alert" where
  "out_of_space_alert c = NormalPermanentAlert ''Out of Storage''
     (int_str (py_round (100 - sm_freeSpacePercent c)) @ ''% full'')"

definition posenet_invalid_alert :: "alert_ctx \<Rightarrow> alert" where
  "posenet_invalid_alert c =
     (let err = (case sm_velocity_x c of [] \<Rightarrow> None | v # _ \<Rightarrow> Some (cs_vEgo c - v))
      in NoEntryAlert_full (env_mici c) (''Speed Error: '' @ fmt_1f_nan err @ '' m/s'')
           ''Posenet Speed Invalid'' Visual_none LOW)"

definition process_not_running_alert :: "alert_ctx \<Rightarrow> alert" where
  "process_not_running_alert c =
     (let not_running = map fst (filter (\<lambda>(n, running, shouldBeRunning). \<not> running \<and> shouldBeRunning)
                                   (sm_processes c))
      in NoEntryAlert_full (env_mici c) (py_join '', '' not_running) ''Process Not Running'' Visual_none LOW)"

definition comm_issue_alert :: "alert_ctx \<Rightarrow> alert" where
  "comm_issue_alert c =
     (let bs = map fst (filter (\<lambda>(s, ok). \<not> ok) (sm_services c))
      in NoEntryAlert_full (env_mici c) (py_join '', '' (take 4 bs))
           ''Communication Issue Between Processes'' Visual_none LOW)"

definition camera_malfunction_alert :: "alert_ctx \<Rightarrow> alert" where
  "camera_malfunction_alert c =
     (let bad_cams = map (remove_all ''State'')
            (filter (\<lambda>s. map_of (sm_services c) s = Some False)
               [''narrowRoadCameraState'', ''cabinCameraState'', ''wideRoadCameraState''])
      in NormalPermanentAlert ''Camera Malfunction'' (py_join '', '' bad_cams))"

definition MATH_PI :: real where
  \<comment> \<open>\<open>math.pi\<close>, the double nearest to the circle's number\<close>
  "MATH_PI = 884279719003555 / 281474976710656"

definition calibration_invalid_alert :: "alert_ctx \<Rightarrow> alert" where
  "calibration_invalid_alert c =
     (let rpy = sm_rpyCalib c;
          angle = (\<lambda>i. if length rpy = 3 then Some (rpy ! i * (180 / MATH_PI)) else None)
      in NormalPermanentAlert ''Calibration Invalid''
           (''Remount Device (Pitch: '' @ fmt_1f_nan (angle 1) @ degree_sign @ '', Yaw: '' @
            fmt_1f_nan (angle 2) @ degree_sign @ '')''))"

definition paramsd_invalid_alert :: "alert_ctx \<Rightarrow> alert" where
  "paramsd_invalid_alert c =
     (if \<not> sm_angleOffsetValid c then
        NoEntryAlert_full (env_mici c)
          (''Angle offset too high (Offset: '' @ fmt_1f (sm_angleOffsetDeg c) @ degree_sign @ '')'')
          ''Steering misalignment detected'' Visual_none LOW
      else if \<not> sm_steerRatioValid c then
        NoEntryAlert_full (env_mici c)
          (''Steering rack geometry may be off (Ratio: '' @ fmt_1f (sm_steerRatio c) @ '')'')
          ''Steer ratio mismatch'' Visual_none LOW
      else if \<not> sm_stiffnessFactorValid c then
        NoEntryAlert_full (env_mici c)
          (''Check tires, pressure, or alignment (Factor: '' @ fmt_1f (sm_stiffnessFactor c) @ '')'')
          ''Abnormal tire stiffness'' Visual_none LOW
      else NoEntryAlert (env_mici c) ''paramsd Temporary Error'')"

fun py_max_default :: "real list \<Rightarrow> real \<Rightarrow> real" where
  \<comment> \<open>\<open>max(xs, default=d)\<close>\<close>
  "py_max_default [] d = d"
| "py_max_default (x # xs) d = fold max xs x"

definition overheat_alert :: "alert_ctx \<Rightarrow> alert" where
  "overheat_alert c =
     (let cpu = py_max_default (sm_cpuTempC c) 0;
          gpu = py_max_default (sm_gpuTempC c) 0;
          temp = max (max cpu gpu) (sm_memoryTempC c)
      in NormalPermanentAlert ''System Overheated'' (fmt_0f temp @ '' '' @ degree_sign @ ''C''))"

definition low_memory_alert :: "alert_ctx \<Rightarrow> alert" where
  "low_memory_alert c =
     NormalPermanentAlert ''Low Memory'' (int_str (sm_memoryUsagePercent c) @ ''% used'')"

definition modeld_lagging_alert :: "alert_ctx \<Rightarrow> alert" where
  "modeld_lagging_alert c = NormalPermanentAlert ''Driving Model Lagging''
     (fmt_1f (sm_frameDropPerc c) @ ''% frames dropped'')"

definition joystick_alert :: "alert_ctx \<Rightarrow> alert" where
  "joystick_alert c =
     (let gb = sm_accel c / 4; steer = sm_torque c
      in NormalPermanentAlert ''Joystick Mode''
           (''Gas: '' @ int_str (py_round (gb * 100)) @ ''%, Steer: '' @
            int_str (py_round (steer * 100)) @ ''%''))"

definition longitudinal_maneuver_alert :: "alert_ctx \<Rightarrow> alert" where
  "longitudinal_maneuver_alert c =
     (let active = substring_in ''Active'' (sm_alertText1 c)
      in Alert (sm_alertText1 c) (sm_alertText2 c)
           (if active then Status_userPrompt else Status_normal)
           (if sm_alertText2 c \<noteq> [] then Size_mid else Size_small)
           LOW Visual_none (if active then Audible_prompt else Audible_none) (2 / 10) 0)"

definition personality_changed_alert :: "alert_ctx \<Rightarrow> alert" where
  "personality_changed_alert c =
     NormalPermanentAlert_full (''Driving Personality: '' @ py_title (ctx_personality c)) []
       (15 / 10) LOWER 0"

definition invalid_lkas_setting_alert :: "alert_ctx \<Rightarrow> alert" where
  "invalid_lkas_setting_alert c = NormalPermanentAlert ''Invalid LKAS setting''
     (if cp_brand c = ''tesla'' then ''Switch to Traffic-Aware Cruise Control to engage''
      else if cp_brand c = ''mazda'' then ''Enable your car's LKAS to engage''
      else if cp_brand c = ''nissan'' then ''Disable your car's stock LKAS to engage''
      else ''Toggle stock LKAS on or off to engage'')"

definition wrong_car_mode_alert :: "alert_ctx \<Rightarrow> alert" where
  "wrong_car_mode_alert c = NoEntryAlert (env_mici c)
     (if cp_brand c = ''honda'' then ''Enable Main Switch to Engage''
      else ''Enable Adaptive Cruise to Engage'')"

text \<open>The two callbacks of the sunnypilot event table; the constants are those of
  \<^verbatim>\<open>controls/lib/speed_limit/__init__.py\<close>.\<close>

definition PCM_LONG_REQUIRED_MAX_SET_SPEED :: "bool \<Rightarrow> real \<times> real" where
  "PCM_LONG_REQUIRED_MAX_SET_SPEED metric =
     (if metric then (333333 / 10000, 361111 / 10000) else (312928 / 10000, 357632 / 10000))"

definition CONFIRM_SPEED_THRESHOLD :: "bool \<Rightarrow> int" where
  "CONFIRM_SPEED_THRESHOLD metric = (if metric then 80 else 50)"

definition speed_limit_adjust_alert :: "alert_ctx \<Rightarrow> alert" where
  "speed_limit_adjust_alert c =
     (let speed = py_round (sm_speedLimit c * (if ctx_metric c then MS_TO_KPH else MS_TO_MPH))
      in Alert (''Adjusting to '' @ int_str speed @ '' '' @
                (if ctx_metric c then ''km/h'' else ''mph'') @ '' speed limit'')
           [] Status_normal Size_small LOW Visual_none Audible_none 4 0)"

definition speed_limit_pre_active_alert :: "alert_ctx \<Rightarrow> alert" where
  "speed_limit_pre_active_alert c =
     (let metric = ctx_metric c;
          speed_conv = (if metric then MS_TO_KPH else MS_TO_MPH);
          set_speed = (if cs_vCruiseCluster c = 0 then sm_vCruise c else cs_vCruiseCluster c);
          set_speed_conv = py_round (set_speed * speed_conv);
          final_last_conv = py_round (sm_speedLimitFinalLast c * speed_conv);
          (cst_low, cst_high) = PCM_LONG_REQUIRED_MAX_SET_SPEED metric;
          required_max = (if final_last_conv < CONFIRM_SPEED_THRESHOLD metric then cst_low else cst_high);
          (text1, sz) =
            (if cp_openpilotLongitudinalControl c \<and> cp_pcmCruise c then
               (''Speed Limit Assist: set to '' @ int_str (py_round (required_max * speed_conv)) @ '' '' @
                (if metric then ''km/h'' else ''mph'') @ '' to engage'', Size_small)
             else if env_mici c then
               (if set_speed_conv < final_last_conv then ''Press + to confirm speed limit''
                else if final_last_conv < set_speed_conv then ''Press - to confirm speed limit''
                else [], Size_small)
             else ([], Size_none))
      in Alert text1 [] Status_normal sz LOW Visual_none AudibleSP_promptSingleLow (1 / 10) 0)"

lemma alert_durations_nonneg: "0 \<le> dur \<Longrightarrow> 0 \<le> alert_duration (Alert t1 t2 st sz p v a dur d)"
  by (simp add: Alert_def py_int_nonneg)

end
