(* ===== verification/EventTable.thy ===== *)
theory EventTable
  imports AlertCallbacks
begin

text \<open>
  The event numbers of \<^verbatim>\<open>cereal/log.capnp\<close> (\<open>OnroadEvent.EventName\<close>), their
  names, and the table \<open>EVENTS\<close> of \<^verbatim>\<open>selfdrive/selfdrived/events.py\<close>, entry by entry in
  the order of the source. The table depends on the device type through \<open>NoEntryAlert\<close>,
  \<open>StartupAlert\<close> and the entries that replace the main ones on a \<open>mici\<close>.
\<close>

section \<open>Event numbers\<close>

abbreviation (input) EN_canError :: nat where "EN_canError \<equiv> 0"
abbreviation (input) EN_steerUnavailable :: nat where "EN_steerUnavailable \<equiv> 1"
abbreviation (input) EN_wrongGear :: nat where "EN_wrongGear \<equiv> 2"
abbreviation (input) EN_doorOpen :: nat where "EN_doorOpen \<equiv> 3"
abbreviation (input) EN_seatbeltNotLatched :: nat where "EN_seatbeltNotLatched \<equiv> 4"
abbreviation (input) EN_espDisabled :: nat where "EN_espDisabled \<equiv> 5"
abbreviation (input) EN_wrongCarMode :: nat where "EN_wrongCarMode \<equiv> 6"
abbreviation (input) EN_steerTempUnavailable :: nat where "EN_steerTempUnavailable \<equiv> 7"
abbreviation (input) EN_reverseGear :: nat where "EN_reverseGear \<equiv> 8"
abbreviation (input) EN_buttonCancel :: nat where "EN_buttonCancel \<equiv> 9"
abbreviation (input) EN_buttonEnable :: nat where "EN_buttonEnable \<equiv> 10"
abbreviation (input) EN_pedalPressed :: nat where "EN_pedalPressed \<equiv> 11"
abbreviation (input) EN_preEnableStandstill :: nat where "EN_preEnableStandstill \<equiv> 12"
abbreviation (input) EN_gasPressedOverride :: nat where "EN_gasPressedOverride \<equiv> 13"
abbreviation (input) EN_steerOverride :: nat where "EN_steerOverride \<equiv> 14"
abbreviation (input) EN_steerDisengage :: nat where "EN_steerDisengage \<equiv> 94"
abbreviation (input) EN_cruiseDisabled :: nat where "EN_cruiseDisabled \<equiv> 15"
abbreviation (input) EN_speedTooLow :: nat where "EN_speedTooLow \<equiv> 16"
abbreviation (input) EN_outOfSpace :: nat where "EN_outOfSpace \<equiv> 17"
abbreviation (input) EN_overheat :: nat where "EN_overheat \<equiv> 18"
abbreviation (input) EN_calibrationIncomplete :: nat where "EN_calibrationIncomplete \<equiv> 19"
abbreviation (input) EN_calibrationInvalid :: nat where "EN_calibrationInvalid \<equiv> 20"
abbreviation (input) EN_calibrationRecalibrating :: nat where "EN_calibrationRecalibrating \<equiv> 21"
abbreviation (input) EN_controlsMismatch :: nat where "EN_controlsMismatch \<equiv> 22"
abbreviation (input) EN_pcmEnable :: nat where "EN_pcmEnable \<equiv> 23"
abbreviation (input) EN_pcmDisable :: nat where "EN_pcmDisable \<equiv> 24"
abbreviation (input) EN_radarFault :: nat where "EN_radarFault \<equiv> 25"
abbreviation (input) EN_radarTempUnavailable :: nat where "EN_radarTempUnavailable \<equiv> 93"
abbreviation (input) EN_brakeHold :: nat where "EN_brakeHold \<equiv> 26"
abbreviation (input) EN_parkBrake :: nat where "EN_parkBrake \<equiv> 27"
abbreviation (input) EN_manualRestart :: nat where "EN_manualRestart \<equiv> 28"
abbreviation (input) EN_joystickDebug :: nat where "EN_joystickDebug \<equiv> 29"
abbreviation (input) EN_longitudinalManeuver :: nat where "EN_longitudinalManeuver \<equiv> 30"
abbreviation (input) EN_steerTempUnavailableSilent :: nat where "EN_steerTempUnavailableSilent \<equiv> 31"
abbreviation (input) EN_resumeRequired :: nat where "EN_resumeRequired \<equiv> 32"
abbreviation (input) EN_driverDistracted1 :: nat where "EN_driverDistracted1 \<equiv> 33"
abbreviation (input) EN_driverDistracted2 :: nat where "EN_driverDistracted2 \<equiv> 34"
abbreviation (input) EN_driverDistracted3 :: nat where "EN_driverDistracted3 \<equiv> 35"
abbreviation (input) EN_driverUnresponsive1 :: nat where "EN_driverUnresponsive1 \<equiv> 36"
abbreviation (input) EN_driverUnresponsive2 :: nat where "EN_driverUnresponsive2 \<equiv> 37"
abbreviation (input) EN_driverUnresponsive3 :: nat where "EN_driverUnresponsive3 \<equiv> 38"
abbreviation (input) EN_belowSteerSpeed :: nat where "EN_belowSteerSpeed \<equiv> 39"
abbreviation (input) EN_accFaulted :: nat where "EN_accFaulted \<equiv> 41"
abbreviation (input) EN_sensorDataInvalid :: nat where "EN_sensorDataInvalid \<equiv> 42"
abbreviation (input) EN_commIssue :: nat where "EN_commIssue \<equiv> 43"
abbreviation (input) EN_commIssueAvgFreq :: nat where "EN_commIssueAvgFreq \<equiv> 44"
abbreviation (input) EN_tooDistracted :: nat where "EN_tooDistracted \<equiv> 45"
abbreviation (input) EN_posenetInvalid :: nat where "EN_posenetInvalid \<equiv> 46"
abbreviation (input) EN_preLaneChangeLeft :: nat where "EN_preLaneChangeLeft \<equiv> 48"
abbreviation (input) EN_preLaneChangeRight :: nat where "EN_preLaneChangeRight \<equiv> 49"
abbreviation (input) EN_laneChange :: nat where "EN_laneChange \<equiv> 50"
abbreviation (input) EN_lowMemory :: nat where "EN_lowMemory \<equiv> 51"
abbreviation (input) EN_stockAeb :: nat where "EN_stockAeb \<equiv> 52"
abbreviation (input) EN_stockLkas :: nat where "EN_stockLkas \<equiv> 98"
abbreviation (input) EN_lateralManeuver :: nat where "EN_lateralManeuver \<equiv> 99"
abbreviation (input) EN_ldw :: nat where "EN_ldw \<equiv> 53"
abbreviation (input) EN_carUnrecognized :: nat where "EN_carUnrecognized \<equiv> 54"
abbreviation (input) EN_invalidLkasSetting :: nat where "EN_invalidLkasSetting \<equiv> 55"
abbreviation (input) EN_speedTooHigh :: nat where "EN_speedTooHigh \<equiv> 56"
abbreviation (input) EN_laneChangeBlocked :: nat where "EN_laneChangeBlocked \<equiv> 57"
abbreviation (input) EN_relayMalfunction :: nat where "EN_relayMalfunction \<equiv> 58"
abbreviation (input) EN_stockFcw :: nat where "EN_stockFcw \<equiv> 59"
abbreviation (input) EN_startup :: nat where "EN_startup \<equiv> 60"
abbreviation (input) EN_startupNoCar :: nat where "EN_startupNoCar \<equiv> 61"
abbreviation (input) EN_startupNoControl :: nat where "EN_startupNoControl \<equiv> 62"
abbreviation (input) EN_startupNoSecOcKey :: nat where "EN_startupNoSecOcKey \<equiv> 63"
abbreviation (input) EN_startupMaster :: nat where "EN_startupMaster \<equiv> 64"
abbreviation (input) EN_fcw :: nat where "EN_fcw \<equiv> 65"
abbreviation (input) EN_steerSaturated :: nat where "EN_steerSaturated \<equiv> 66"
abbreviation (input) EN_belowEngageSpeed :: nat where "EN_belowEngageSpeed \<equiv> 67"
abbreviation (input) EN_noGps :: nat where "EN_noGps \<equiv> 68"
abbreviation (input) EN_wrongCruiseMode :: nat where "EN_wrongCruiseMode \<equiv> 69"
abbreviation (input) EN_modeldLagging :: nat where "EN_modeldLagging \<equiv> 70"
abbreviation (input) EN_fanMalfunction :: nat where "EN_fanMalfunction \<equiv> 72"
abbreviation (input) EN_cameraMalfunction :: nat where "EN_cameraMalfunction \<equiv> 73"
abbreviation (input) EN_cameraFrameRate :: nat where "EN_cameraFrameRate \<equiv> 74"
abbreviation (input) EN_processNotRunning :: nat where "EN_processNotRunning \<equiv> 75"
abbreviation (input) EN_dashcamMode :: nat where "EN_dashcamMode \<equiv> 76"
abbreviation (input) EN_selfdriveInitializing :: nat where "EN_selfdriveInitializing \<equiv> 77"
abbreviation (input) EN_cruiseMismatch :: nat where "EN_cruiseMismatch \<equiv> 79"
abbreviation (input) EN_canBusMissing :: nat where "EN_canBusMissing \<equiv> 80"
abbreviation (input) EN_selfdrivedLagging :: nat where "EN_selfdrivedLagging \<equiv> 81"
abbreviation (input) EN_resumeBlocked :: nat where "EN_resumeBlocked \<equiv> 82"
abbreviation (input) EN_carNotReady :: nat where "EN_carNotReady \<equiv> 103"
abbreviation (input) EN_steerTimeLimit :: nat where "EN_steerTimeLimit \<equiv> 83"
abbreviation (input) EN_vehicleSensorsInvalid :: nat where "EN_vehicleSensorsInvalid \<equiv> 84"
abbreviation (input) EN_locationdTemporaryError :: nat where "EN_locationdTemporaryError \<equiv> 85"
abbreviation (input) EN_locationdPermanentError :: nat where "EN_locationdPermanentError \<equiv> 86"
abbreviation (input) EN_paramsdTemporaryError :: nat where "EN_paramsdTemporaryError \<equiv> 87"
abbreviation (input) EN_paramsdPermanentError :: nat where "EN_paramsdPermanentError \<equiv> 88"
abbreviation (input) EN_actuatorsApiUnavailable :: nat where "EN_actuatorsApiUnavailable \<equiv> 89"
abbreviation (input) EN_espActive :: nat where "EN_espActive \<equiv> 90"
abbreviation (input) EN_personalityChanged :: nat where "EN_personalityChanged \<equiv> 91"
abbreviation (input) EN_aeb :: nat where "EN_aeb \<equiv> 92"
abbreviation (input) EN_userBookmark :: nat where "EN_userBookmark \<equiv> 95"
abbreviation (input) EN_excessiveActuation :: nat where "EN_excessiveActuation \<equiv> 96"
abbreviation (input) EN_bigModelLoading :: nat where "EN_bigModelLoading \<equiv> 100"
abbreviation (input) EN_bigModelFailed :: nat where "EN_bigModelFailed \<equiv> 102"
abbreviation (input) EN_lowBatteryDEPRECATED :: nat where "EN_lowBatteryDEPRECATED \<equiv> 40"
abbreviation (input) EN_soundsUnavailableDEPRECATED :: nat where "EN_soundsUnavailableDEPRECATED \<equiv> 47"
abbreviation (input) EN_deviceFallingDEPRECATED :: nat where "EN_deviceFallingDEPRECATED \<equiv> 71"
abbreviation (input) EN_usbErrorDEPRECATED :: nat where "EN_usbErrorDEPRECATED \<equiv> 78"
abbreviation (input) EN_audioFeedbackDEPRECATED :: nat where "EN_audioFeedbackDEPRECATED \<equiv> 97"
abbreviation (input) EN_bigModelReadyDEPRECATED :: nat where "EN_bigModelReadyDEPRECATED \<equiv> 101"

section \<open>Event names\<close>

definition EVENT_NAMES :: "(nat \<times> string) list" where
  "EVENT_NAMES =
     [(EN_canError, ''canError''),
      (EN_steerUnavailable, ''steerUnavailable''),
      (EN_wrongGear, ''wrongGear''),
      (EN_doorOpen, ''doorOpen''),
      (EN_seatbeltNotLatched, ''seatbeltNotLatched''),
      (EN_espDisabled, ''espDisabled''),
      (EN_wrongCarMode, ''wrongCarMode''),
      (EN_steerTempUnavailable, ''steerTempUnavailable''),
      (EN_reverseGear, ''reverseGear''),
      (EN_buttonCancel, ''buttonCancel''),
      (EN_buttonEnable, ''buttonEnable''),
      (EN_pedalPressed, ''pedalPressed''),
      (EN_preEnableStandstill, ''preEnableStandstill''),
      (EN_gasPressedOverride, ''gasPressedOverride''),
      (EN_steerOverride, ''steerOverride''),
      (EN_steerDisengage, ''steerDisengage''),
      (EN_cruiseDisabled, ''cruiseDisabled''),
      (EN_speedTooLow, ''speedTooLow''),
      (EN_outOfSpace, ''outOfSpace''),
      (EN_overheat, ''overheat''),
      (EN_calibrationIncomplete, ''calibrationIncomplete''),
      (EN_calibrationInvalid, ''calibrationInvalid''),
      (EN_calibrationRecalibrating, ''calibrationRecalibrating''),
      (EN_controlsMismatch, ''controlsMismatch''),
      (EN_pcmEnable, ''pcmEnable''),
      (EN_pcmDisable, ''pcmDisable''),
      (EN_radarFault, ''radarFault''),
      (EN_radarTempUnavailable, ''radarTempUnavailable''),
      (EN_brakeHold, ''brakeHold''),
      (EN_parkBrake, ''parkBrake''),
      (EN_manualRestart, ''manualRestart''),
      (EN_joystickDebug, ''joystickDebug''),
      (EN_longitudinalManeuver, ''longitudinalManeuver''),
      (EN_steerTempUnavailableSilent, ''steerTempUnavailableSilent''),
      (EN_resumeRequired, ''resumeRequired''),
      (EN_driverDistracted1, ''driverDistracted1''),
      (EN_driverDistracted2, ''driverDistracted2''),
      (EN_driverDistracted3, ''driverDistracted3''),
      (EN_driverUnresponsive1, ''driverUnresponsive1''),
      (EN_driverUnresponsive2, ''driverUnresponsive2''),
      (EN_driverUnresponsive3, ''driverUnresponsive3''),
      (EN_belowSteerSpeed, ''belowSteerSpeed''),
      (EN_accFaulted, ''accFaulted''),
      (EN_sensorDataInvalid, ''sensorDataInvalid''),
      (EN_commIssue, ''commIssue''),
      (EN_commIssueAvgFreq, ''commIssueAvgFreq''),
      (EN_tooDistracted, ''tooDistracted''),
      (EN_posenetInvalid, ''posenetInvalid''),
      (EN_preLaneChangeLeft, ''preLaneChangeLeft''),
      (EN_preLaneChangeRight, ''preLaneChangeRight''),
      (EN_laneChange, ''laneChange''),
      (EN_lowMemory, ''lowMemory''),
      (EN_stockAeb, ''stockAeb''),
      (EN_stockLkas, ''stockLkas''),
      (EN_lateralManeuver, ''lateralManeuver''),
      (EN_ldw, ''ldw''),
      (EN_carUnrecognized, ''carUnrecognized''),
      (EN_invalidLkasSetting, ''invalidLkasSetting''),
      (EN_speedTooHigh, ''speedTooHigh''),
      (EN_laneChangeBlocked, ''laneChangeBlocked''),
      (EN_relayMalfunction, ''relayMalfunction''),
      (EN_stockFcw, ''stockFcw''),
      (EN_startup, ''startup''),
      (EN_startupNoCar, ''startupNoCar''),
      (EN_startupNoControl, ''startupNoControl''),
      (EN_startupNoSecOcKey, ''startupNoSecOcKey''),
      (EN_startupMaster, ''startupMaster''),
      (EN_fcw, ''fcw''),
      (EN_steerSaturated, ''steerSaturated''),
      (EN_belowEngageSpeed, ''belowEngageSpeed''),
      (EN_noGps, ''noGps''),
      (EN_wrongCruiseMode, ''wrongCruiseMode''),
      (EN_modeldLagging, ''modeldLagging''),
      (EN_fanMalfunction, ''fanMalfunction''),
      (EN_cameraMalfunction, ''cameraMalfunction''),
      (EN_cameraFrameRate, ''cameraFrameRate''),
      (EN_processNotRunning, ''processNotRunning''),
      (EN_dashcamMode, ''dashcamMode''),
      (EN_selfdriveInitializing, ''selfdriveInitializing''),
      (EN_cruiseMismatch, ''cruiseMismatch''),
      (EN_canBusMissing, ''canBusMissing''),
      (EN_selfdrivedLagging, ''selfdrivedLagging''),
      (EN_resumeBlocked, ''resumeBlocked''),
      (EN_carNotReady, ''carNotReady''),
      (EN_steerTimeLimit, ''steerTimeLimit''),
      (EN_vehicleSensorsInvalid, ''vehicleSensorsInvalid''),
      (EN_locationdTemporaryError, ''locationdTemporaryError''),
      (EN_locationdPermanentError, ''locationdPermanentError''),
      (EN_paramsdTemporaryError, ''paramsdTemporaryError''),
      (EN_paramsdPermanentError, ''paramsdPermanentError''),
      (EN_actuatorsApiUnavailable, ''actuatorsApiUnavailable''),
      (EN_espActive, ''espActive''),
      (EN_personalityChanged, ''personalityChanged''),
      (EN_aeb, ''aeb''),
      (EN_userBookmark, ''userBookmark''),
      (EN_excessiveActuation, ''excessiveActuation''),
      (EN_bigModelLoading, ''bigModelLoading''),
      (EN_bigModelFailed, ''bigModelFailed''),
      (EN_lowBatteryDEPRECATED, ''lowBatteryDEPRECATED''),
      (EN_soundsUnavailableDEPRECATED, ''soundsUnavailableDEPRECATED''),
      (EN_deviceFallingDEPRECATED, ''deviceFallingDEPRECATED''),
      (EN_usbErrorDEPRECATED, ''usbErrorDEPRECATED''),
      (EN_audioFeedbackDEPRECATED, ''audioFeedbackDEPRECATED''),
      (EN_bigModelReadyDEPRECATED, ''bigModelReadyDEPRECATED'')]"

definition EVENT_NAME :: "nat \<Rightarrow> string option" where
  "EVENT_NAME = map_of EVENT_NAMES"

section \<open>The table\<close>

definition EVENTS_1 :: "bool \<Rightarrow> (nat \<times> (ET \<times> alert_entry) list) list" where
  "EVENTS_1 mici =
     [(EN_noGps, []),
      (EN_stockFcw, []),
      (EN_actuatorsApiUnavailable, []),
      (EN_joystickDebug,
       [(WARNING, CallbackAlert joystick_alert),
        (PERMANENT, StaticAlert (NormalPermanentAlert ''Joystick Mode'' []))]),
      (EN_longitudinalManeuver,
       [(WARNING, CallbackAlert longitudinal_maneuver_alert),
        (PERMANENT, StaticAlert (NormalPermanentAlert ''Longitudinal Maneuver Mode'' ''Ensure road ahead is clear''))]),
      (EN_bigModelLoading,
       [(NO_ENTRY, StaticAlert (NoEntryAlert mici ''Big Model Loading''))]),
      (EN_bigModelFailed,
       [(SOFT_DISABLE, soft_disable_alert ''Big Model Failed''),
        (PERMANENT, StaticAlert (NormalPermanentAlert_full ''Big Model Failed '' (''Restart the car to retry,'' @ [CHR 0x0A] @ ''small model is still available'') 20 LOWER 0))]),
      (EN_lateralManeuver,
       [(WARNING, CallbackAlert longitudinal_maneuver_alert),
        (PERMANENT, StaticAlert (NormalPermanentAlert ''Lateral Maneuver Mode'' []))]),
      (EN_selfdriveInitializing,
       [(NO_ENTRY, StaticAlert (NoEntryAlert mici ''System Initializing''))]),
      (EN_startup,
       [(PERMANENT, StaticAlert (StartupAlert mici ''Be ready to take over at any time''))]),
      (EN_startupMaster,
       [(PERMANENT, CallbackAlert startup_master_alert)]),
      (EN_startupNoControl,
       [(PERMANENT, StaticAlert (StartupAlert mici ''Dashcam mode'')),
        (NO_ENTRY, StaticAlert (NoEntryAlert mici ''Dashcam mode''))]),
      (EN_startupNoCar,
       [(PERMANENT, StaticAlert (StartupAlert mici ''Dashcam mode for unsupported car''))]),
      (EN_startupNoSecOcKey,
       [(PERMANENT, StaticAlert (NormalPermanentAlert_full ''Dashcam Mode'' ''Security Key Not Available'' (2 / 10) HIGH 0))]),
      (EN_dashcamMode,
       [(PERMANENT, StaticAlert (NormalPermanentAlert_full ''Dashcam Mode'' [] (2 / 10) LOWEST 0))]),
      (EN_invalidLkasSetting,
       [(PERMANENT, CallbackAlert invalid_lkas_setting_alert),
        (NO_ENTRY, StaticAlert (NoEntryAlert mici ''Invalid LKAS setting''))]),
      (EN_cruiseMismatch, []),
      (EN_carUnrecognized,
       [(PERMANENT, StaticAlert (NormalPermanentAlert_full ''Dashcam Mode'' ''Car Unrecognized'' (2 / 10) LOWEST 0))]),
      (EN_aeb,
       [(PERMANENT, StaticAlert (Alert ''BRAKE!'' ''Emergency Braking: Risk of Collision'' Status_critical Size_full HIGHEST Visual_fcw Audible_none 2 0)),
        (NO_ENTRY, StaticAlert (NoEntryAlert mici ''AEB: Risk of Collision''))]),
      (EN_stockAeb,
       [(PERMANENT, StaticAlert (Alert ''BRAKE!'' ''Stock AEB: Risk of Collision'' Status_critical Size_full HIGHEST Visual_fcw Audible_none 2 0)),
        (NO_ENTRY, StaticAlert (NoEntryAlert mici ''Stock AEB: Risk of Collision''))]),
      (EN_stockLkas,
       [(NO_ENTRY, StaticAlert (NoEntryAlert mici ''Stock LKAS: Lane Departure Detected''))]),
      (EN_fcw,
       [(PERMANENT, StaticAlert (Alert ''BRAKE!'' ''Risk of Collision'' Status_critical Size_full HIGHEST Visual_fcw Audible_warningSoft 2 0))]),
      (EN_ldw,
       [(PERMANENT, StaticAlert (Alert ''Lane Departure Detected'' [] Status_userPrompt Size_small LOW Visual_ldw Audible_prompt 3 0))]),
      (EN_steerTempUnavailableSilent,
       [(WARNING, StaticAlert (Alert ''Steering Assist Temporarily Unavailable'' [] Status_userPrompt Size_small LOW Visual_steerRequired Audible_prompt (9 / 5) 0))]),
      (EN_driverDistracted1,
       [(PERMANENT, StaticAlert (Alert ''Pay Attention'' [] Status_normal Size_small LOW Visual_none Audible_preAlert (1 / 10) 0))]),
      (EN_driverDistracted2,
       [(PERMANENT, StaticAlert (Alert ''Pay Attention'' ''Driver Distracted'' Status_userPrompt Size_mid MID Visual_steerRequired Audible_promptDistracted (1 / 10) 0))])]"

definition EVENTS_2 :: "bool \<Rightarrow> (nat \<times> (ET \<times> alert_entry) list) list" where
  "EVENTS_2 mici =
     [(EN_driverDistracted3,
       [(PERMANENT, StaticAlert (Alert ''DISENGAGE IMMEDIATELY'' ''Driver Distracted'' Status_critical Size_full HIGH Visual_steerRequired Audible_warningImmediate (1 / 10) 0))]),
      (EN_driverUnresponsive1,
       [(PERMANENT, StaticAlert (Alert ''Touch Steering Wheel: No Face Detected'' [] Status_normal Size_small LOW Visual_steerRequired Audible_none (1 / 10) 0))]),
      (EN_driverUnresponsive2,
       [(PERMANENT, StaticAlert (Alert ''Touch Steering Wheel'' ''Driver Unresponsive'' Status_userPrompt Size_mid MID Visual_steerRequired Audible_promptDistracted (1 / 10) 0))]),
      (EN_driverUnresponsive3,
       [(PERMANENT, StaticAlert (Alert ''DISENGAGE IMMEDIATELY'' ''Driver Unresponsive'' Status_critical Size_full HIGH Visual_steerRequired Audible_warningImmediate (1 / 10) 0))]),
      (EN_manualRestart,
       [(WARNING, StaticAlert (Alert ''TAKE CONTROL'' ''Resume Driving Manually'' Status_userPrompt Size_mid LOW Visual_none Audible_none (1 / 5) 0))]),
      (EN_resumeRequired,
       [(WARNING, StaticAlert (Alert ''Press Resume to Exit Standstill'' [] Status_userPrompt Size_small LOW Visual_none Audible_none (1 / 5) 0))]),
      (EN_belowSteerSpeed,
       [(WARNING, CallbackAlert below_steer_speed_alert)]),
      (EN_preLaneChangeLeft,
       [(WARNING, StaticAlert (Alert ''Steer Left to Start Lane Change Once Safe'' [] Status_normal Size_small LOW Visual_none Audible_none (1 / 10) 0))]),
      (EN_preLaneChangeRight,
       [(WARNING, StaticAlert (Alert ''Steer Right to Start Lane Change Once Safe'' [] Status_normal Size_small LOW Visual_none Audible_none (1 / 10) 0))]),
      (EN_laneChangeBlocked,
       [(WARNING, StaticAlert (Alert ''Car Detected in Blindspot'' [] Status_userPrompt Size_small LOW Visual_none Audible_prompt (1 / 10) 0))]),
      (EN_laneChange,
       [(WARNING, StaticAlert (Alert ''Changing Lanes'' [] Status_normal Size_small LOW Visual_none Audible_none (1 / 10) 0))]),
      (EN_steerSaturated,
       [(WARNING, StaticAlert (Alert ''Take Control'' ''Turn Exceeds Steering Limit'' Status_userPrompt Size_mid LOW Visual_steerRequired Audible_promptRepeat 2 0))]),
      (EN_fanMalfunction,
       [(PERMANENT, StaticAlert (NormalPermanentAlert ''Fan Malfunction'' ''Contact comma.ai/support''))]),
      (EN_cameraMalfunction,
       [(PERMANENT, CallbackAlert camera_malfunction_alert),
        (SOFT_DISABLE, soft_disable_alert ''Camera Malfunction''),
        (NO_ENTRY, StaticAlert (NoEntryAlert mici ''Camera Malfunction: Reboot Your Device''))]),
      (EN_cameraFrameRate,
       [(PERMANENT, StaticAlert (NormalPermanentAlert ''Camera Frame Rate Low'' ''Reboot your Device'')),
        (SOFT_DISABLE, soft_disable_alert ''Camera Frame Rate Low''),
        (NO_ENTRY, StaticAlert (NoEntryAlert mici ''Camera Frame Rate Low: Reboot Your Device''))]),
      (EN_locationdTemporaryError,
       [(NO_ENTRY, StaticAlert (NoEntryAlert mici ''locationd Temporary Error'')),
        (SOFT_DISABLE, soft_disable_alert ''locationd Temporary Error'')]),
      (EN_locationdPermanentError,
       [(NO_ENTRY, StaticAlert (NoEntryAlert mici ''locationd Permanent Error'')),
        (IMMEDIATE_DISABLE, StaticAlert (ImmediateDisableAlert ''locationd Permanent Error'')),
        (PERMANENT, StaticAlert (NormalPermanentAlert ''locationd Permanent Error'' []))]),
      (EN_paramsdTemporaryError,
       [(NO_ENTRY, CallbackAlert paramsd_invalid_alert),
        (SOFT_DISABLE, soft_disable_alert ''paramsd Temporary Error'')]),
      (EN_paramsdPermanentError,
       [(NO_ENTRY, StaticAlert (NoEntryAlert mici ''paramsd Permanent Error'')),
        (IMMEDIATE_DISABLE, StaticAlert (ImmediateDisableAlert ''paramsd Permanent Error'')),
        (PERMANENT, StaticAlert (NormalPermanentAlert ''paramsd Permanent Error'' []))]),
      (EN_pcmEnable,
       [(ENABLE, StaticAlert (EngagementAlert Audible_engage))])]"

definition EVENTS_3 :: "bool \<Rightarrow> (nat \<times> (ET \<times> alert_entry) list) list" where
  "EVENTS_3 mici =
     [(EN_buttonEnable,
       [(ENABLE, StaticAlert (EngagementAlert Audible_engage))]),
      (EN_pcmDisable,
       [(USER_DISABLE, StaticAlert (EngagementAlert Audible_disengage))]),
      (EN_buttonCancel,
       [(USER_DISABLE, StaticAlert (EngagementAlert Audible_disengage)),
        (NO_ENTRY, StaticAlert (NoEntryAlert mici ''Cancel Pressed''))]),
      (EN_brakeHold,
       [(WARNING, StaticAlert (Alert ''Press Resume to Exit Brake Hold'' [] Status_userPrompt Size_small LOW Visual_none Audible_none (1 / 5) 0))]),
      (EN_parkBrake,
       [(USER_DISABLE, StaticAlert (EngagementAlert Audible_disengage)),
        (NO_ENTRY, StaticAlert (NoEntryAlert mici ''Parking Brake Engaged''))]),
      (EN_pedalPressed,
       [(USER_DISABLE, StaticAlert (EngagementAlert Audible_disengage)),
        (NO_ENTRY, StaticAlert (NoEntryAlert_full mici ''Pedal Pressed'' ''openpilot Unavailable'' Visual_brakePressed LOW))]),
      (EN_steerDisengage,
       [(USER_DISABLE, StaticAlert (EngagementAlert Audible_disengage)),
        (NO_ENTRY, StaticAlert (NoEntryAlert mici ''Steering Pressed''))]),
      (EN_preEnableStandstill,
       [(PRE_ENABLE, StaticAlert (Alert ''Release Brake to Engage'' [] Status_normal Size_small LOWEST Visual_none Audible_none (1 / 10) 1))]),
      (EN_gasPressedOverride,
       [(OVERRIDE_LONGITUDINAL, StaticAlert (Alert [] [] Status_normal Size_none LOWEST Visual_none Audible_none (1 / 10) 0))]),
      (EN_steerOverride,
       [(OVERRIDE_LATERAL, StaticAlert (Alert [] [] Status_normal Size_none LOWEST Visual_none Audible_none (1 / 10) 0))]),
      (EN_wrongCarMode,
       [(USER_DISABLE, StaticAlert (EngagementAlert Audible_disengage)),
        (NO_ENTRY, CallbackAlert wrong_car_mode_alert)]),
      (EN_resumeBlocked,
       [(NO_ENTRY, StaticAlert (NoEntryAlert mici ''Press Set to Engage''))]),
      (EN_carNotReady,
       [(NO_ENTRY, StaticAlert (NoEntryAlert mici ''Car Not Ready''))]),
      (EN_wrongCruiseMode,
       [(USER_DISABLE, StaticAlert (EngagementAlert Audible_disengage)),
        (NO_ENTRY, StaticAlert (NoEntryAlert mici ''Adaptive Cruise Disabled''))]),
      (EN_steerTempUnavailable,
       [(SOFT_DISABLE, soft_disable_alert ''Steering Assist Temporarily Unavailable''),
        (NO_ENTRY, StaticAlert (NoEntryAlert mici ''Steering Temporarily Unavailable''))]),
      (EN_steerTimeLimit,
       [(SOFT_DISABLE, soft_disable_alert ''Vehicle Steering Time Limit''),
        (NO_ENTRY, StaticAlert (NoEntryAlert mici ''Vehicle Steering Time Limit''))]),
      (EN_outOfSpace,
       [(PERMANENT, CallbackAlert out_of_space_alert),
        (NO_ENTRY, StaticAlert (NoEntryAlert mici ''Out of Storage''))]),
      (EN_belowEngageSpeed,
       [(NO_ENTRY, CallbackAlert below_engage_speed_alert)]),
      (EN_sensorDataInvalid,
       [(PERMANENT, StaticAlert (Alert ''Sensor Data Invalid'' ''Contact comma.ai/support'' Status_normal Size_mid LOWER Visual_none Audible_none (1 / 5) 1)),
        (NO_ENTRY, StaticAlert (NoEntryAlert mici ''Sensor Data Invalid'')),
        (SOFT_DISABLE, soft_disable_alert ''Sensor Data Invalid'')]),
      (EN_tooDistracted,
       [(NO_ENTRY, CallbackAlert too_distracted_alert)]),
      (EN_excessiveActuation,
       [(SOFT_DISABLE, soft_disable_alert ''Excessive Actuation''),
        (NO_ENTRY, StaticAlert (NoEntryAlert mici ''Excessive Actuation''))]),
      (EN_overheat,
       [(PERMANENT, CallbackAlert overheat_alert),
        (SOFT_DISABLE, soft_disable_alert ''System Overheated''),
        (NO_ENTRY, StaticAlert (NoEntryAlert mici ''System Overheated''))]),
      (EN_wrongGear,
       [(SOFT_DISABLE, user_soft_disable_alert ''Gear not D''),
        (NO_ENTRY, StaticAlert (NoEntryAlert mici ''Gear not D''))]),
      (EN_calibrationInvalid,
       [(PERMANENT, CallbackAlert calibration_invalid_alert),
        (SOFT_DISABLE, soft_disable_alert ''Calibration Invalid: Remount Device & Recalibrate''),
        (NO_ENTRY, StaticAlert (NoEntryAlert mici ''Calibration Invalid: Remount Device & Recalibrate''))]),
      (EN_calibrationIncomplete,
       [(PERMANENT, CallbackAlert calibration_incomplete_alert),
        (SOFT_DISABLE, soft_disable_alert ''Calibration Incomplete''),
        (NO_ENTRY, StaticAlert (NoEntryAlert mici ''Calibration in Progress''))])]"

definition EVENTS_4 :: "bool \<Rightarrow> (nat \<times> (ET \<times> alert_entry) list) list" where
  "EVENTS_4 mici =
     [(EN_calibrationRecalibrating,
       [(PERMANENT, CallbackAlert calibration_incomplete_alert),
        (SOFT_DISABLE, soft_disable_alert ''Device Remount Detected: Recalibrating''),
        (NO_ENTRY, StaticAlert (NoEntryAlert mici ''Remount Detected: Recalibrating''))]),
      (EN_doorOpen,
       [(SOFT_DISABLE, user_soft_disable_alert ''Door Open''),
        (NO_ENTRY, StaticAlert (NoEntryAlert mici ''Door Open''))]),
      (EN_seatbeltNotLatched,
       [(SOFT_DISABLE, user_soft_disable_alert ''Seatbelt Unlatched''),
        (NO_ENTRY, StaticAlert (NoEntryAlert mici ''Seatbelt Unlatched''))]),
      (EN_espDisabled,
       [(SOFT_DISABLE, soft_disable_alert ''Electronic Stability Control Disabled''),
        (NO_ENTRY, StaticAlert (NoEntryAlert mici ''Electronic Stability Control Disabled''))]),
      (EN_commIssue,
       [(SOFT_DISABLE, soft_disable_alert ''Communication Issue Between Processes''),
        (NO_ENTRY, CallbackAlert comm_issue_alert)]),
      (EN_commIssueAvgFreq,
       [(SOFT_DISABLE, soft_disable_alert ''Low Communication Rate Between Processes''),
        (NO_ENTRY, StaticAlert (NoEntryAlert mici ''Low Communication Rate Between Processes''))]),
      (EN_selfdrivedLagging,
       [(SOFT_DISABLE, soft_disable_alert ''System Lagging''),
        (NO_ENTRY, StaticAlert (NoEntryAlert mici ''Selfdrive Process Lagging: Reboot Your Device''))]),
      (EN_processNotRunning,
       [(NO_ENTRY, CallbackAlert process_not_running_alert),
        (SOFT_DISABLE, soft_disable_alert ''Process Not Running'')]),
      (EN_radarFault,
       [(SOFT_DISABLE, soft_disable_alert ''Radar Error: Restart the Car''),
        (NO_ENTRY, StaticAlert (NoEntryAlert mici ''Radar Error: Restart the Car''))]),
      (EN_radarTempUnavailable,
       [(SOFT_DISABLE, soft_disable_alert ''Radar Temporarily Unavailable''),
        (NO_ENTRY, StaticAlert (NoEntryAlert mici ''Radar Temporarily Unavailable''))]),
      (EN_modeldLagging,
       [(SOFT_DISABLE, soft_disable_alert ''Driving Model Lagging''),
        (NO_ENTRY, StaticAlert (NoEntryAlert mici ''Driving Model Lagging'')),
        (PERMANENT, CallbackAlert modeld_lagging_alert)]),
      (EN_posenetInvalid,
       [(SOFT_DISABLE, soft_disable_alert ''Posenet Speed Invalid''),
        (NO_ENTRY, CallbackAlert posenet_invalid_alert)]),
      (EN_lowMemory,
       [(SOFT_DISABLE, soft_disable_alert ''Low Memory: Reboot Your Device''),
        (PERMANENT, CallbackAlert low_memory_alert),
        (NO_ENTRY, StaticAlert (NoEntryAlert mici ''Low Memory: Reboot Your Device''))]),
      (EN_accFaulted,
       [(IMMEDIATE_DISABLE, StaticAlert (ImmediateDisableAlert ''Cruise Fault: Restart the Car'')),
        (PERMANENT, StaticAlert (NormalPermanentAlert ''Cruise Fault: Restart the car to engage'' [])),
        (NO_ENTRY, StaticAlert (NoEntryAlert mici ''Cruise Fault: Restart the Car''))]),
      (EN_espActive,
       [(SOFT_DISABLE, soft_disable_alert ''Electronic Stability Control Active''),
        (NO_ENTRY, StaticAlert (NoEntryAlert mici ''Electronic Stability Control Active''))]),
      (EN_controlsMismatch,
       [(IMMEDIATE_DISABLE, StaticAlert (ImmediateDisableAlert ''Controls Mismatch'')),
        (NO_ENTRY, StaticAlert (NoEntryAlert mici ''Controls Mismatch''))]),
      (EN_canError,
       [(IMMEDIATE_DISABLE, StaticAlert (ImmediateDisableAlert ''Unknown Vehicle Variant'')),
        (PERMANENT, StaticAlert (Alert ''Unknown Vehicle Variant'' [] Status_normal Size_small LOW Visual_none Audible_none 1 1)),
        (NO_ENTRY, StaticAlert (NoEntryAlert mici ''Unknown Vehicle Variant''))]),
      (EN_canBusMissing,
       [(IMMEDIATE_DISABLE, StaticAlert (ImmediateDisableAlert ''CAN Bus Disconnected'')),
        (PERMANENT, StaticAlert (Alert ''CAN Bus Disconnected: Likely Faulty Cable'' [] Status_normal Size_small LOW Visual_none Audible_none 1 1)),
        (NO_ENTRY, StaticAlert (NoEntryAlert mici ''CAN Bus Disconnected: Check Connections''))]),
      (EN_steerUnavailable,
       [(IMMEDIATE_DISABLE, StaticAlert (ImmediateDisableAlert ''LKAS Fault: Restart the Car'')),
        (PERMANENT, StaticAlert (NormalPermanentAlert ''LKAS Fault: Restart the car to engage'' [])),
        (NO_ENTRY, StaticAlert (NoEntryAlert mici ''LKAS Fault: Restart the Car''))]),
      (EN_reverseGear,
       [(PERMANENT, StaticAlert (Alert (''Reverse'' @ [CHR 0x0A] @ ''Gear'') [] Status_normal Size_full LOWEST Visual_none Audible_none (1 / 5) (1 / 2))),
        (USER_DISABLE, StaticAlert (ImmediateDisableAlert ''Reverse Gear'')),
        (NO_ENTRY, StaticAlert (NoEntryAlert mici ''Reverse Gear''))]),
      (EN_cruiseDisabled,
       [(IMMEDIATE_DISABLE, StaticAlert (ImmediateDisableAlert ''Cruise Is Off''))])]"

definition EVENTS_5 :: "bool \<Rightarrow> (nat \<times> (ET \<times> alert_entry) list) list" where
  "EVENTS_5 mici =
     [(EN_relayMalfunction,
       [(IMMEDIATE_DISABLE, StaticAlert (ImmediateDisableAlert ''Harness Relay Malfunction'')),
        (PERMANENT, StaticAlert (NormalPermanentAlert ''Harness Relay Malfunction'' ''Contact comma.ai/support'')),
        (NO_ENTRY, StaticAlert (NoEntryAlert mici ''Harness Relay Malfunction''))]),
      (EN_speedTooLow,
       [(IMMEDIATE_DISABLE, StaticAlert (Alert ''openpilot Canceled'' ''Speed too low'' Status_normal Size_mid HIGH Visual_none Audible_disengage 3 0))]),
      (EN_speedTooHigh,
       [(WARNING, StaticAlert (Alert ''Speed Too High'' ''Model uncertain at this speed'' Status_userPrompt Size_mid HIGH Visual_steerRequired Audible_promptRepeat 4 0)),
        (NO_ENTRY, StaticAlert (NoEntryAlert mici ''Slow down to engage''))]),
      (EN_vehicleSensorsInvalid,
       [(IMMEDIATE_DISABLE, StaticAlert (ImmediateDisableAlert ''Vehicle Sensors Invalid'')),
        (PERMANENT, StaticAlert (NormalPermanentAlert ''Vehicle Sensors Calibrating'' ''Drive to Calibrate'')),
        (NO_ENTRY, StaticAlert (NoEntryAlert mici ''Vehicle Sensors Calibrating''))]),
      (EN_personalityChanged,
       [(WARNING, CallbackAlert personality_changed_alert)]),
      (EN_userBookmark,
       [(PERMANENT, StaticAlert (NormalPermanentAlert_full ''Bookmark Saved'' [] (3 / 2) LOWER 0))])]"

definition EVENTS_MICI :: "bool \<Rightarrow> (nat \<times> (ET \<times> alert_entry) list) list" where
  "EVENTS_MICI mici =
     [(EN_driverDistracted1,
       [(PERMANENT, StaticAlert (Alert ''Pay Attention'' [] Status_normal Size_small LOW Visual_none Audible_preAlert 2 0))]),
      (EN_driverDistracted2,
       [(PERMANENT, StaticAlert (Alert ''Pay Attention'' ''Driver Distracted'' Status_userPrompt Size_mid MID Visual_steerRequired Audible_promptDistracted 1 0))]),
      (EN_resumeRequired,
       [(WARNING, StaticAlert (Alert ''Press Resume'' [] Status_userPrompt Size_small LOW Visual_none Audible_none (1 / 5) 0))]),
      (EN_preLaneChangeLeft,
       [(WARNING, StaticAlert (Alert ''Steer Left'' ''Confirm Lane Change'' Status_normal Size_mid LOW Visual_none Audible_none (1 / 10) 0))]),
      (EN_preLaneChangeRight,
       [(WARNING, StaticAlert (Alert ''Steer Right'' ''Confirm Lane Change'' Status_normal Size_mid LOW Visual_none Audible_none (1 / 10) 0))]),
      (EN_laneChangeBlocked,
       [(WARNING, StaticAlert (Alert ''Car in Blindspot'' [] Status_userPrompt Size_small LOW Visual_none Audible_prompt (1 / 10) 0))]),
      (EN_steerSaturated,
       [(WARNING, StaticAlert (Alert ''take control'' ''turn exceeds limit'' Status_userPrompt Size_mid LOW Visual_steerRequired Audible_promptRepeat 2 0))]),
      (EN_calibrationIncomplete,
       [(PERMANENT, CallbackAlert calibration_incomplete_alert),
        (SOFT_DISABLE, soft_disable_alert ''Calibration Incomplete''),
        (NO_ENTRY, StaticAlert (NoEntryAlert mici ''Calibrating''))]),
      (EN_reverseGear,
       [(PERMANENT, StaticAlert (Alert ''Reverse'' [] Status_normal Size_full LOWEST Visual_none Audible_none (1 / 5) (1 / 2))),
        (USER_DISABLE, StaticAlert (ImmediateDisableAlert ''Reverse'')),
        (NO_ENTRY, StaticAlert (NoEntryAlert mici ''Reverse''))])]"

definition EVENTS_base :: "bool \<Rightarrow> (nat \<times> (ET \<times> alert_entry) list) list" where
  "EVENTS_base mici = EVENTS_1 mici @ EVENTS_2 mici @ EVENTS_3 mici @ EVENTS_4 mici @ EVENTS_5 mici"

definition EVENTS_list :: "bool \<Rightarrow> (nat \<times> (ET \<times> alert_entry) list) list" where
  "EVENTS_list mici = (if mici then EVENTS_MICI mici else []) @ EVENTS_base mici"

definition EVENTS :: "bool \<Rightarrow> alert_ctx events_mapping" where
  "EVENTS mici = map_of (EVENTS_list mici)"

text \<open>\<open>Events.__init__\<close>: one counter per key of the table.\<close>

definition Events_init :: "bool \<Rightarrow> events_state" where
  "Events_init mici = ev_init (map fst (EVENTS_list mici))"

end
