(* ===== verification/EventTableSP.thy ===== *)
theory EventTableSP
  imports AlertCallbacks
begin

text \<open>
  The event numbers of \<^verbatim>\<open>cereal/custom.capnp\<close> (\<open>OnroadEventSP.EventName\<close>) and the
  table \<open>EVENTS_SP\<close> of \<^verbatim>\<open>sunnypilot/selfdrive/selfdrived/events.py\<close>.
\<close>

section \<open>Event numbers and names\<close>

abbreviation (input) SP_lkasEnable :: nat where "SP_lkasEnable \<equiv> 0"
abbreviation (input) SP_lkasDisable :: nat where "SP_lkasDisable \<equiv> 1"
abbreviation (input) SP_manualSteeringRequired :: nat where "SP_manualSteeringRequired \<equiv> 2"
abbreviation (input) SP_manualLongitudinalRequired :: nat where "SP_manualLongitudinalRequired \<equiv> 3"
abbreviation (input) SP_silentLkasEnable :: nat where "SP_silentLkasEnable \<equiv> 4"
abbreviation (input) SP_silentLkasDisable :: nat where "SP_silentLkasDisable \<equiv> 5"
abbreviation (input) SP_silentBrakeHold :: nat where "SP_silentBrakeHold \<equiv> 6"
abbreviation (input) SP_silentWrongGear :: nat where "SP_silentWrongGear \<equiv> 7"
abbreviation (input) SP_silentReverseGear :: nat where "SP_silentReverseGear \<equiv> 8"
abbreviation (input) SP_silentDoorOpen :: nat where "SP_silentDoorOpen \<equiv> 9"
abbreviation (input) SP_silentSeatbeltNotLatched :: nat where "SP_silentSeatbeltNotLatched \<equiv> 10"
abbreviation (input) SP_silentParkBrake :: nat where "SP_silentParkBrake \<equiv> 11"
abbreviation (input) SP_controlsMismatchLateral :: nat where "SP_controlsMismatchLateral \<equiv> 12"
abbreviation (input) SP_hyundaiRadarTracksConfirmed :: nat where "SP_hyundaiRadarTracksConfirmed \<equiv> 13"
abbreviation (input) SP_experimentalModeSwitched :: nat where "SP_experimentalModeSwitched \<equiv> 14"
abbreviation (input) SP_wrongCarModeAlertOnly :: nat where "SP_wrongCarModeAlertOnly \<equiv> 15"
abbreviation (input) SP_pedalPressedAlertOnly :: nat where "SP_pedalPressedAlertOnly \<equiv> 16"
abbreviation (input) SP_laneTurnLeft :: nat where "SP_laneTurnLeft \<equiv> 17"
abbreviation (input) SP_laneTurnRight :: nat where "SP_laneTurnRight \<equiv> 18"
abbreviation (input) SP_speedLimitPreActive :: nat where "SP_speedLimitPreActive \<equiv> 19"
abbreviation (input) SP_speedLimitActive :: nat where "SP_speedLimitActive \<equiv> 20"
abbreviation (input) SP_speedLimitChanged :: nat where "SP_speedLimitChanged \<equiv> 21"
abbreviation (input) SP_speedLimitPending :: nat where "SP_speedLimitPending \<equiv> 22"
abbreviation (input) SP_e2eChime :: nat where "SP_e2eChime \<equiv> 23"
abbreviation (input) SP_laneChangeRoadEdge :: nat where "SP_laneChangeRoadEdge \<equiv> 24"

definition EVENT_NAMES_SP :: "(nat \<times> string) list" where
  "EVENT_NAMES_SP =
     [(SP_lkasEnable, ''lkasEnable''),
      (SP_lkasDisable, ''lkasDisable''),
      (SP_manualSteeringRequired, ''manualSteeringRequired''),
      (SP_manualLongitudinalRequired, ''manualLongitudinalRequired''),
      (SP_silentLkasEnable, ''silentLkasEnable''),
      (SP_silentLkasDisable, ''silentLkasDisable''),
      (SP_silentBrakeHold, ''silentBrakeHold''),
      (SP_silentWrongGear, ''silentWrongGear''),
      (SP_silentReverseGear, ''silentReverseGear''),
      (SP_silentDoorOpen, ''silentDoorOpen''),
      (SP_silentSeatbeltNotLatched, ''silentSeatbeltNotLatched''),
      (SP_silentParkBrake, ''silentParkBrake''),
      (SP_controlsMismatchLateral, ''controlsMismatchLateral''),
      (SP_hyundaiRadarTracksConfirmed, ''hyundaiRadarTracksConfirmed''),
      (SP_experimentalModeSwitched, ''experimentalModeSwitched''),
      (SP_wrongCarModeAlertOnly, ''wrongCarModeAlertOnly''),
      (SP_pedalPressedAlertOnly, ''pedalPressedAlertOnly''),
      (SP_laneTurnLeft, ''laneTurnLeft''),
      (SP_laneTurnRight, ''laneTurnRight''),
      (SP_speedLimitPreActive, ''speedLimitPreActive''),
      (SP_speedLimitActive, ''speedLimitActive''),
      (SP_speedLimitChanged, ''speedLimitChanged''),
      (SP_speedLimitPending, ''speedLimitPending''),
      (SP_e2eChime, ''e2eChime''),
      (SP_laneChangeRoadEdge, ''laneChangeRoadEdge'')]"

definition EVENT_NAME_SP :: "nat \<Rightarrow> string option" where
  "EVENT_NAME_SP = map_of EVENT_NAMES_SP"

section \<open>The table\<close>

definition EVENTS_SP_1 :: "bool \<Rightarrow> (nat \<times> (ET \<times> alert_entry) list) list" where
  "EVENTS_SP_1 mici =
     [(SP_lkasEnable,
       [(ENABLE, StaticAlert (EngagementAlert Audible_engage))]),
      (SP_lkasDisable,
       [(USER_DISABLE, StaticAlert (EngagementAlert Audible_disengage))]),
      (SP_manualSteeringRequired,
       [(USER_DISABLE, StaticAlert (Alert ''Automatic Lane Centering is OFF'' ''Manual Steering Required'' Status_normal Size_mid LOW Visual_none Audible_disengage 1 0))]),
      (SP_manualLongitudinalRequired,
       [(WARNING, StaticAlert (Alert ''Smart/Adaptive Cruise Control: OFF'' ''Manual Speed Control Required'' Status_normal Size_mid LOW Visual_none Audible_none 1 0))]),
      (SP_silentLkasEnable,
       [(ENABLE, StaticAlert (EngagementAlert Audible_none))]),
      (SP_silentLkasDisable,
       [(USER_DISABLE, StaticAlert (EngagementAlert Audible_none))]),
      (SP_silentBrakeHold,
       [(WARNING, StaticAlert (EngagementAlert Audible_none)),
        (NO_ENTRY, StaticAlert (NoEntryAlert mici ''Brake Hold Active''))]),
      (SP_silentWrongGear,
       [(WARNING, StaticAlert (Alert [] [] Status_normal Size_none LOWEST Visual_none Audible_none 0 0)),
        (NO_ENTRY, StaticAlert (Alert ''Gear not D'' ''openpilot Unavailable'' Status_normal Size_mid LOW Visual_none Audible_none 0 0))]),
      (SP_silentReverseGear,
       [(PERMANENT, StaticAlert (Alert (''Reverse'' @ [CHR 0x0A] @ ''Gear'') [] Status_normal Size_full LOWEST Visual_none Audible_none (1 / 5) (1 / 2))),
        (NO_ENTRY, StaticAlert (NoEntryAlert mici ''Reverse Gear''))]),
      (SP_silentDoorOpen,
       [(WARNING, StaticAlert (Alert [] [] Status_normal Size_none LOWEST Visual_none Audible_none 0 0)),
        (NO_ENTRY, StaticAlert (NoEntryAlert mici ''Door Open''))]),
      (SP_silentSeatbeltNotLatched,
       [(WARNING, StaticAlert (Alert [] [] Status_normal Size_none LOWEST Visual_none Audible_none 0 0)),
        (NO_ENTRY, StaticAlert (NoEntryAlert mici ''Seatbelt Unlatched''))])]"

definition EVENTS_SP_2 :: "bool \<Rightarrow> (nat \<times> (ET \<times> alert_entry) list) list" where
  "EVENTS_SP_2 mici =
     [(SP_silentParkBrake,
       [(WARNING, StaticAlert (Alert [] [] Status_normal Size_none LOWEST Visual_none Audible_none 0 0)),
        (NO_ENTRY, StaticAlert (NoEntryAlert mici ''Parking Brake Engaged''))]),
      (SP_controlsMismatchLateral,
       [(IMMEDIATE_DISABLE, StaticAlert (ImmediateDisableAlert ''Controls Mismatch: Lateral'')),
        (NO_ENTRY, StaticAlert (NoEntryAlert mici ''Controls Mismatch: Lateral''))]),
      (SP_experimentalModeSwitched,
       [(WARNING, StaticAlert (NormalPermanentAlert_full ''Experimental Mode Switched'' [] (3 / 2) LOWER 0))]),
      (SP_wrongCarModeAlertOnly,
       [(WARNING, CallbackAlert wrong_car_mode_alert)]),
      (SP_pedalPressedAlertOnly,
       [(WARNING, StaticAlert (NoEntryAlert mici ''Pedal Pressed''))]),
      (SP_laneTurnLeft,
       [(WARNING, StaticAlert (Alert ''Turning Left'' [] Status_normal Size_small LOW Visual_none Audible_none 1 0))]),
      (SP_laneTurnRight,
       [(WARNING, StaticAlert (Alert ''Turning Right'' [] Status_normal Size_small LOW Visual_none Audible_none 1 0))]),
      (SP_speedLimitActive,
       [(WARNING, StaticAlert (Alert ''Auto adjusting to speed limit'' [] Status_normal Size_small LOW Visual_none AudibleSP_promptSingleHigh 5 0))]),
      (SP_speedLimitChanged,
       [(WARNING, StaticAlert (Alert ''Set speed changed'' [] Status_normal Size_small LOW Visual_none AudibleSP_promptSingleHigh 5 0))]),
      (SP_speedLimitPreActive,
       [(WARNING, CallbackAlert speed_limit_pre_active_alert)]),
      (SP_speedLimitPending,
       [(WARNING, StaticAlert (Alert ''Auto adjusting to last speed limit'' [] Status_normal Size_small LOW Visual_none AudibleSP_promptSingleHigh 5 0))]),
      (SP_e2eChime,
       [(PERMANENT, StaticAlert (Alert [] [] Status_normal Size_none MID Visual_none Audible_prompt 3 0))]),
      (SP_laneChangeRoadEdge,
       [(WARNING, StaticAlert (Alert ''Lane Change Unavailable: Road Edge'' [] Status_userPrompt Size_small LOW Visual_none Audible_prompt (1 / 10) 0))])]"

definition EVENTS_SP_list :: "bool \<Rightarrow> (nat \<times> (ET \<times> alert_entry) list) list" where
  "EVENTS_SP_list mici = EVENTS_SP_1 mici @ EVENTS_SP_2 mici"

definition EVENTS_SP :: "bool \<Rightarrow> alert_ctx events_mapping" where
  "EVENTS_SP mici = map_of (EVENTS_SP_list mici)"

definition EventsSP_init :: "bool \<Rightarrow> events_state" where
  "EventsSP_init mici = ev_init (map fst (EVENTS_SP_list mici))"

end
