(* ===== verification/EventFacts.thy ===== *)
theory EventFacts
  imports EventTable EventTableSP
begin

text \<open>
  Facts about the two event tables as a whole: which event types an event carries, that every
  event in use is in its table with a name, and which disengaging events do not block
  engagement. They are proved by evaluating the tables once, to lists of event types.
\<close>

lemmas EVENTS_defs = EVENTS_base_def EVENTS_1_def EVENTS_2_def EVENTS_3_def EVENTS_4_def EVENTS_5_def EVENTS_MICI_def
lemmas EVENTS_SP_defs = EVENTS_SP_1_def EVENTS_SP_2_def

definition table_types :: "(nat \<times> (ET \<times> 'c alert_def) list) list \<Rightarrow> (nat \<times> ET list) list" where
  "table_types = map (\<lambda>(e, ds). (e, map fst ds))"

lemma table_types_simps [simp]:
  "table_types [] = []"
  "table_types ((e, ds) # t) = (e, map fst ds) # table_types t"
  "table_types (t @ u) = table_types t @ table_types u"
  by (simp_all add: table_types_def)

lemma mapping_types_map_of:
  "mapping_types (map_of t) e = (case map_of (table_types t) e of None \<Rightarrow> [] | Some ts \<Rightarrow> ts)"
  by (induction t) (auto simp: mapping_types_def)

lemma mapping_types_key:
  assumes "list_all (\<lambda>(e, ts). P e ts) (table_types t)" and "e \<in> fst ` set t"
  shows "P e (mapping_types (map_of t) e)"
proof -
  from assms(2) obtain ds where ds: "map_of t e = Some ds"
    by (metis map_of_eq_None_iff not_None_eq)
  then have "(e, map fst ds) \<in> set (table_types t)"
    by (auto simp: table_types_def dest!: map_of_SomeD intro: rev_image_eqI)
  with assms(1) ds show ?thesis by (auto simp: list_all_iff)
qed

lemma mapping_types_all:
  assumes "list_all (\<lambda>(e, ts). P e ts) (table_types t)" and "mapping_types (map_of t) e \<noteq> []"
  shows "P e (mapping_types (map_of t) e)"
proof -
  from assms(2) have "e \<in> fst ` set t"
    by (auto simp: mapping_types_def split: option.splits dest!: map_of_SomeD intro: rev_image_eqI)
  with assms(1) show ?thesis by (rule mapping_types_key)
qed

lemma map_fst_table_types [simp]: "map fst (table_types t) = map fst t"
  by (induction t) auto

section \<open>Keys and names\<close>

definition EVENTS_keys :: "nat set" where
  "EVENTS_keys = {e. e \<le> 103 \<and> e \<notin> {40, 47, 71, 78, 97, 101}}"

definition EVENTS_SP_keys :: "nat set" where
  "EVENTS_SP_keys = {e. e \<le> 24 \<and> e \<noteq> 13}"

lemma EVENTS_has_keys:
  "list_all (\<lambda>e. e \<in> set (map fst (EVENTS_base mici))) (filter (\<lambda>e. e \<notin> {40, 47, 71, 78, 97, 101}) [0..<104])"
  by (simp add: EVENTS_defs upt_rec)

lemma EVENTS_only_keys: "list_all (\<lambda>e. e \<in> EVENTS_keys) (map fst (EVENTS_list mici))"
  by (simp add: EVENTS_list_def EVENTS_defs EVENTS_keys_def)

lemma EVENTS_list_keys: "fst ` set (EVENTS_list mici) = EVENTS_keys"
proof
  show "fst ` set (EVENTS_list mici) \<subseteq> EVENTS_keys"
    using EVENTS_only_keys [of mici] by (auto simp: list_all_iff)
  have "EVENTS_keys \<subseteq> fst ` set (EVENTS_base mici)"
    using EVENTS_has_keys [of mici] unfolding list_all_iff EVENTS_keys_def by (auto simp del: upt_Suc)
  then show "EVENTS_keys \<subseteq> fst ` set (EVENTS_list mici)"
    by (auto simp: EVENTS_list_def)
qed

lemma EVENTS_SP_has_keys:
  "list_all (\<lambda>e. e \<in> set (map fst (EVENTS_SP_list mici))) (filter (\<lambda>e. e \<noteq> 13) [0..<25])"
  by (simp add: EVENTS_SP_list_def EVENTS_SP_defs upt_rec)

lemma EVENTS_SP_only_keys: "list_all (\<lambda>e. e \<in> EVENTS_SP_keys) (map fst (EVENTS_SP_list mici))"
  by (simp add: EVENTS_SP_list_def EVENTS_SP_defs EVENTS_SP_keys_def)

lemma EVENTS_SP_list_keys: "fst ` set (EVENTS_SP_list mici) = EVENTS_SP_keys"
proof
  show "fst ` set (EVENTS_SP_list mici) \<subseteq> EVENTS_SP_keys"
    using EVENTS_SP_only_keys [of mici] by (auto simp: list_all_iff)
  show "EVENTS_SP_keys \<subseteq> fst ` set (EVENTS_SP_list mici)"
    using EVENTS_SP_has_keys [of mici] unfolding list_all_iff EVENTS_SP_keys_def
    by (auto simp del: upt_Suc)
qed

lemma Events_init_ok: "ev_ok EVENTS_keys (Events_init mici)"
  using ev_ok_init [of "map fst (EVENTS_list mici)"] by (simp add: Events_init_def EVENTS_list_keys)

lemma EventsSP_init_ok: "ev_ok EVENTS_SP_keys (EventsSP_init mici)"
  using ev_ok_init [of "map fst (EVENTS_SP_list mici)"]
  by (simp add: EventsSP_init_def EVENTS_SP_list_keys)

lemma EVENTS_total: "e \<in> EVENTS_keys \<Longrightarrow> \<exists>ds. EVENTS mici e = Some ds"
  using EVENTS_list_keys [of mici] unfolding EVENTS_def by (metis map_of_eq_None_iff not_None_eq)

lemma EVENTS_SP_total: "e \<in> EVENTS_SP_keys \<Longrightarrow> \<exists>ds. EVENTS_SP mici e = Some ds"
  using EVENTS_SP_list_keys [of mici] unfolding EVENTS_SP_def by (metis map_of_eq_None_iff not_None_eq)

lemma EVENT_NAMES_keys: "map fst EVENT_NAMES_SP = [0..<25]"
  by (simp add: EVENT_NAMES_SP_def upt_rec)

lemma EVENT_NAME_SP_total: "e \<in> EVENTS_SP_keys \<Longrightarrow> \<exists>n. EVENT_NAME_SP e = Some n"
proof -
  assume "e \<in> EVENTS_SP_keys"
  then have "e \<in> fst ` set EVENT_NAMES_SP"
    using arg_cong [OF EVENT_NAMES_keys, of set] by (simp add: EVENTS_SP_keys_def)
  then show ?thesis unfolding EVENT_NAME_SP_def by (metis map_of_eq_None_iff not_None_eq)
qed

text \<open>The names of the main table are listed in the order of the schema, not of the numbers.\<close>

lemma EVENT_NAMES_cover: "list_all (\<lambda>e. e \<in> set (map fst EVENT_NAMES)) [0..<104]"
  by (simp add: EVENT_NAMES_def upt_rec)

lemma EVENT_NAME_total: "e \<in> EVENTS_keys \<Longrightarrow> \<exists>n. EVENT_NAME e = Some n"
proof -
  assume "e \<in> EVENTS_keys"
  then have "e \<in> set (map fst EVENT_NAMES)"
    using EVENT_NAMES_cover unfolding list_all_iff by (auto simp: EVENTS_keys_def simp del: upt_Suc)
  then show ?thesis unfolding EVENT_NAME_def by (metis map_of_eq_None_iff not_None_eq set_map)
qed

text \<open>
  C30. No alert lookup fails: on any store whose events all come from the table, building the
  alerts for any list of event types returns (it raises no \<open>KeyError\<close>), and every alert
  it returns belongs to one of the requested types and to an event of the store that carries it.
\<close>

theorem create_alerts_never_raises:
  assumes "ev_ok EVENTS_keys s"
  shows "\<exists>as. create_alerts (EVENTS mici) EVENT_NAME ctx ets s = Some as \<and>
    (\<forall>a \<in> set as. \<exists>et \<in> set ets. event_type a = Some et \<and> ev_contains (EVENTS mici) s et)"
proof -
  obtain as where "create_alerts (EVENTS mici) EVENT_NAME ctx ets s = Some as"
    using create_alerts_total [OF assms, of "EVENTS mici" EVENT_NAME] EVENTS_total EVENT_NAME_total
    by blast
  then show ?thesis by (blast dest: create_alerts_event_type)
qed

theorem create_alerts_never_raises_witness:
  "\<forall>ctx. create_alerts (EVENTS False) EVENT_NAME ctx [NO_ENTRY, PERMANENT] (ev_add EN_overheat (Events_init False)) \<noteq> None"
proof
  fix ctx
  have "ev_ok EVENTS_keys (ev_add EN_overheat (Events_init False))"
    by (rule ev_ok_add [OF Events_init_ok]) (simp add: EVENTS_keys_def)
  from create_alerts_never_raises [OF this, of False ctx "[NO_ENTRY, PERMANENT]"]
  show "create_alerts (EVENTS False) EVENT_NAME ctx [NO_ENTRY, PERMANENT] (ev_add EN_overheat (Events_init False)) \<noteq> None"
    by blast
qed

section \<open>Event types\<close>

lemma disengaging_types:
  "list_all (\<lambda>(e, ts). (SOFT_DISABLE \<in> set ts \<or> IMMEDIATE_DISABLE \<in> set ts) \<and> NO_ENTRY \<notin> set ts \<longrightarrow>
     e \<in> {EN_cruiseDisabled, EN_speedTooLow, EN_bigModelFailed}) (table_types (EVENTS_list mici))"
  by (simp add: EVENTS_list_def EVENTS_defs)

lemma chosen_types:
  "list_all (\<lambda>(e, ts). (e = EN_cruiseDisabled \<longrightarrow> ts = [IMMEDIATE_DISABLE]) \<and>
     (e = EN_speedTooLow \<longrightarrow> ts = [IMMEDIATE_DISABLE]) \<and>
     (e = EN_bigModelFailed \<longrightarrow> ts = [SOFT_DISABLE, PERMANENT]) \<and>
     (e = EN_overheat \<longrightarrow> ts = [PERMANENT, SOFT_DISABLE, NO_ENTRY]) \<and>
     (e = EN_controlsMismatch \<longrightarrow> ts = [IMMEDIATE_DISABLE, NO_ENTRY]) \<and>
     (e = EN_tooDistracted \<longrightarrow> ts = [NO_ENTRY]) \<and>
     (e = EN_pedalPressed \<longrightarrow> ts = [USER_DISABLE, NO_ENTRY]) \<and>
     (e = EN_buttonEnable \<longrightarrow> ts = [ENABLE]) \<and>
     (e = EN_selfdriveInitializing \<longrightarrow> ts = [NO_ENTRY]))
     (table_types (EVENTS_list mici))"
  by (simp add: EVENTS_list_def EVENTS_defs)

lemma table_types_of [simp]:
  "mapping_types (EVENTS mici) EN_cruiseDisabled = [IMMEDIATE_DISABLE]"
  "mapping_types (EVENTS mici) EN_speedTooLow = [IMMEDIATE_DISABLE]"
  "mapping_types (EVENTS mici) EN_bigModelFailed = [SOFT_DISABLE, PERMANENT]"
  "mapping_types (EVENTS mici) EN_overheat = [PERMANENT, SOFT_DISABLE, NO_ENTRY]"
  "mapping_types (EVENTS mici) EN_controlsMismatch = [IMMEDIATE_DISABLE, NO_ENTRY]"
  "mapping_types (EVENTS mici) EN_tooDistracted = [NO_ENTRY]"
  "mapping_types (EVENTS mici) EN_pedalPressed = [USER_DISABLE, NO_ENTRY]"
  "mapping_types (EVENTS mici) EN_buttonEnable = [ENABLE]"
  "mapping_types (EVENTS mici) EN_selfdriveInitializing = [NO_ENTRY]"
  using mapping_types_key [OF chosen_types, of 15 mici] mapping_types_key [OF chosen_types, of 16 mici]
    mapping_types_key [OF chosen_types, of 102 mici] mapping_types_key [OF chosen_types, of 18 mici]
    mapping_types_key [OF chosen_types, of 22 mici] mapping_types_key [OF chosen_types, of 45 mici]
    mapping_types_key [OF chosen_types, of 11 mici] mapping_types_key [OF chosen_types, of 10 mici]
    mapping_types_key [OF chosen_types, of 77 mici]
  by (simp_all add: EVENTS_def EVENTS_list_keys EVENTS_keys_def)

lemma soft_disable_blocks_entry:
  assumes "SOFT_DISABLE \<in> set (mapping_types (EVENTS mici) e)" and "e \<noteq> EN_bigModelFailed"
  shows "NO_ENTRY \<in> set (mapping_types (EVENTS mici) e)"
proof (rule ccontr)
  assume "\<not> ?thesis"
  moreover have "mapping_types (EVENTS mici) e \<noteq> []" using assms(1) by auto
  ultimately have "e \<in> {EN_cruiseDisabled, EN_speedTooLow, EN_bigModelFailed}"
    using mapping_types_all [OF disengaging_types, of mici e] assms(1)
    unfolding EVENTS_def [symmetric] by auto
  with assms table_types_of [of mici] show False by auto
qed

lemma pre_enabling_events:
  "PRE_ENABLE \<in> set (mapping_types (EVENTS mici) e) \<Longrightarrow> e = EN_preEnableStandstill"
proof -
  have "list_all (\<lambda>(e, ts). PRE_ENABLE \<in> set ts \<longrightarrow> e = EN_preEnableStandstill)
      (table_types (EVENTS_list mici))"
    by (simp add: EVENTS_list_def EVENTS_defs)
  from mapping_types_all [OF this, of e]
  show "PRE_ENABLE \<in> set (mapping_types (EVENTS mici) e) \<Longrightarrow> ?thesis"
    unfolding EVENTS_def [symmetric] by fastforce
qed

text \<open>
  Every event that can end an engagement (soft or immediate disable) also blocks a new one
  (no entry), with three exceptions exactly: cruise disabled, speed too low and big model failed.
\<close>

theorem disengaging_events_block_entry:
  "let ts = set (mapping_types (EVENTS mici) e)
   in (SOFT_DISABLE \<in> ts \<or> IMMEDIATE_DISABLE \<in> ts) \<and> NO_ENTRY \<notin> ts \<longleftrightarrow>
      e \<in> {EN_cruiseDisabled, EN_speedTooLow, EN_bigModelFailed}"
proof (cases "mapping_types (EVENTS mici) e = []")
  case True
  then show ?thesis using table_types_of [of mici] by auto
next
  case False
  then show ?thesis
    using mapping_types_all [OF disengaging_types, of mici e] table_types_of [of mici]
    unfolding EVENTS_def [symmetric] Let_def by auto
qed

text \<open>
  The only events that ask for engagement are the cruise buttons' and the PCM's; none of them
  carries any other type, so a request alone never disengages, overrides or blocks anything.
\<close>

lemma enabling_types:
  "list_all (\<lambda>(e, ts). ENABLE \<in> set ts \<longrightarrow> e \<in> {EN_pcmEnable, EN_buttonEnable} \<and> ts = [ENABLE])
     (table_types (EVENTS_list mici))"
  by (simp add: EVENTS_list_def EVENTS_defs)

lemma enabling_events:
  "ENABLE \<in> set (mapping_types (EVENTS mici) e) \<Longrightarrow>
     e \<in> {EN_pcmEnable, EN_buttonEnable} \<and> mapping_types (EVENTS mici) e = [ENABLE]"
  using mapping_types_all [OF enabling_types, of mici e] unfolding EVENTS_def [symmetric] by fastforce

lemma enabling_types_SP:
  "list_all (\<lambda>(e, ts). ENABLE \<in> set ts \<longrightarrow> e \<in> {SP_lkasEnable, SP_silentLkasEnable} \<and> ts = [ENABLE])
     (table_types (EVENTS_SP_list mici))"
  by (simp add: EVENTS_SP_list_def EVENTS_SP_defs)

lemma soft_disable_SP: "SOFT_DISABLE \<notin> set (mapping_types (EVENTS_SP mici) e)"
proof -
  have "list_all (\<lambda>(e, ts). SOFT_DISABLE \<notin> set ts) (table_types (EVENTS_SP_list mici))"
    by (simp add: EVENTS_SP_list_def EVENTS_SP_defs)
  from mapping_types_all [OF this, of e] show ?thesis
    by (cases "mapping_types (EVENTS_SP mici) e = []") (auto simp: EVENTS_SP_def)
qed

end
