(* ===== verification/SelfdriveState.thy ===== *)
theory SelfdriveState
  imports EventFacts
begin

text \<open>
  The engagement state machine of \<^verbatim>\<open>selfdrive/selfdrived/state.py\<close>. The events of a frame are
  given by the test \<open>events.contains\<close>, a predicate on event types. The locale
  \<open>engagement\<close> states what every engagement machine of the program promises; the driving
  assistance machine of \<^verbatim>\<open>sunnypilot/mads/state.py\<close> is the other instance (theory Mads).
\<close>

datatype op_state = Op_disabled | Op_preEnabled | Op_enabled | Op_softDisabling | Op_overriding

record ss_machine =
  current_alert_types :: "ET list"
  ss_state :: op_state
  soft_disable_timer :: int

definition SOFT_DISABLE_TIME :: real where
  "SOFT_DISABLE_TIME = 3"

definition ACTIVE_STATES :: "op_state list" where
  "ACTIVE_STATES = [Op_enabled, Op_softDisabling, Op_overriding]"

definition ENABLED_STATES :: "op_state list" where
  "ENABLED_STATES = Op_preEnabled # ACTIVE_STATES"

definition ss_init :: ss_machine where
  "ss_init = \<lparr>current_alert_types = [PERMANENT], ss_state = Op_disabled, soft_disable_timer = 0\<rparr>"

definition add_alert_type :: "ET \<Rightarrow> ss_machine \<Rightarrow> ss_machine" where
  "add_alert_type et s = s\<lparr>current_alert_types := current_alert_types s @ [et]\<rparr>"

definition start_soft_disable :: "ss_machine \<Rightarrow> ss_machine" where
  \<comment> \<open>the timer and the alert of an entrance in soft disabling\<close>
  "start_soft_disable s =
     add_alert_type SOFT_DISABLE (s\<lparr>soft_disable_timer := py_int (SOFT_DISABLE_TIME / DT_CTRL)\<rparr>)"

definition ss_transition :: "(ET \<Rightarrow> bool) \<Rightarrow> ss_machine \<Rightarrow> ss_machine" where
  "ss_transition contains s =
     (let overriding = contains OVERRIDE_LATERAL \<or> contains OVERRIDE_LONGITUDINAL in
      if ss_state s \<noteq> Op_disabled then
        if contains IMMEDIATE_DISABLE then
          add_alert_type IMMEDIATE_DISABLE (s\<lparr>ss_state := Op_disabled\<rparr>)
        else if contains USER_DISABLE then
          add_alert_type USER_DISABLE (s\<lparr>ss_state := Op_disabled\<rparr>)
        else (case ss_state s of
            Op_enabled \<Rightarrow>
              if contains SOFT_DISABLE then start_soft_disable (s\<lparr>ss_state := Op_softDisabling\<rparr>)
              else if overriding then
                add_alert_type OVERRIDE_LONGITUDINAL
                  (add_alert_type OVERRIDE_LATERAL (s\<lparr>ss_state := Op_overriding\<rparr>))
              else s
          | Op_softDisabling \<Rightarrow>
              if \<not> contains SOFT_DISABLE then s\<lparr>ss_state := Op_enabled\<rparr>
              else if soft_disable_timer s > 0 then add_alert_type SOFT_DISABLE s
              else s\<lparr>ss_state := Op_disabled\<rparr>
          | Op_preEnabled \<Rightarrow>
              if \<not> contains PRE_ENABLE then s\<lparr>ss_state := Op_enabled\<rparr>
              else add_alert_type PRE_ENABLE s
          | Op_overriding \<Rightarrow>
              if contains SOFT_DISABLE then start_soft_disable (s\<lparr>ss_state := Op_softDisabling\<rparr>)
              else if \<not> overriding then s\<lparr>ss_state := Op_enabled\<rparr>
              else add_alert_type OVERRIDE_LONGITUDINAL (add_alert_type OVERRIDE_LATERAL s)
          | Op_disabled \<Rightarrow> s)
      else if contains ENABLE then
        if contains NO_ENTRY then add_alert_type NO_ENTRY s
        else add_alert_type ENABLE
               (s\<lparr>ss_state := (if contains PRE_ENABLE then Op_preEnabled
                              else if overriding then Op_overriding else Op_enabled)\<rparr>)
      else s)"

definition ss_update :: "(ET \<Rightarrow> bool) \<Rightarrow> ss_machine \<Rightarrow> ss_machine \<times> bool \<times> bool" where
  "ss_update contains s =
     (let s1 = ss_transition contains
                 (s\<lparr>soft_disable_timer := max 0 (soft_disable_timer s - 1),
                    current_alert_types := [PERMANENT]\<rparr>);
          enabled = ss_state s1 \<in> set ENABLED_STATES;
          active = ss_state s1 \<in> set ACTIVE_STATES;
          s2 = (if active then add_alert_type WARNING s1 else s1)
      in (s2, enabled, active))"

section \<open>Basic facts\<close>

lemma add_alert_type_simps [simp]:
  "ss_state (add_alert_type et s) = ss_state s"
  "soft_disable_timer (add_alert_type et s) = soft_disable_timer s"
  "current_alert_types (add_alert_type et s) = current_alert_types s @ [et]"
  by (simp_all add: add_alert_type_def)

lemma start_soft_disable_simps [simp]:
  "ss_state (start_soft_disable s) = ss_state s"
  "soft_disable_timer (start_soft_disable s) = 300"
  "current_alert_types (start_soft_disable s) = current_alert_types s @ [SOFT_DISABLE]"
  by (simp_all add: start_soft_disable_def SOFT_DISABLE_TIME_def py_int_def)

lemma state_sets [simp]:
  "st \<in> set ACTIVE_STATES \<longleftrightarrow> st \<in> {Op_enabled, Op_softDisabling, Op_overriding}"
  "st \<in> set ENABLED_STATES \<longleftrightarrow> st \<noteq> Op_disabled"
  by (cases st; simp add: ACTIVE_STATES_def ENABLED_STATES_def)+

definition ss_step :: "(ET \<Rightarrow> bool) \<Rightarrow> ss_machine \<Rightarrow> ss_machine" where
  "ss_step contains s = fst (ss_update contains s)"

definition ss_engaged :: "ss_machine \<Rightarrow> bool" where
  "ss_engaged s \<longleftrightarrow> ss_state s \<in> set ENABLED_STATES"

lemmas ss_step_defs = ss_step_def ss_update_def ss_transition_def Let_def

lemma ss_update_outputs:
  "snd (ss_update c s) = (ss_state (ss_step c s) \<in> set ENABLED_STATES, ss_state (ss_step c s) \<in> set ACTIVE_STATES)"
  by (simp add: ss_step_def ss_update_def Let_def)

lemma ss_step_disabled:
  "ss_state s = Op_disabled \<Longrightarrow> \<not> (c ENABLE \<and> \<not> c NO_ENTRY) \<Longrightarrow> ss_state (ss_step c s) = Op_disabled"
  by (auto simp: ss_step_defs)

lemma ss_step_kill:
  "ss_state s \<noteq> Op_disabled \<Longrightarrow> c IMMEDIATE_DISABLE \<or> c USER_DISABLE \<Longrightarrow> ss_state (ss_step c s) = Op_disabled"
  by (auto simp: ss_step_defs)

lemma ss_step_alerts: "\<exists>ets. current_alert_types (ss_step c s) = PERMANENT # ets"
  by (auto simp: ss_step_defs split: op_state.split)

section \<open>The interface of an engagement machine\<close>

text \<open>
  A machine steps on an input per frame. \<open>on\<close> says that it holds the controls;
  a \<open>kill\<close> input takes them away at once, and only an \<open>entry\<close> input gives them.
\<close>

locale engagement =
  fixes step :: "'i \<Rightarrow> 's \<Rightarrow> 's"
    and on :: "'s \<Rightarrow> bool"
    and kill :: "'i \<Rightarrow> bool"
    and entry :: "'i \<Rightarrow> bool"
  assumes off_stays: "\<not> on s \<Longrightarrow> \<not> entry i \<Longrightarrow> \<not> on (step i s)"
    and kill_off: "on s \<Longrightarrow> kill i \<Longrightarrow> \<not> on (step i s)"
begin

lemma run_off: "\<not> on s \<Longrightarrow> (\<And>i. i \<in> set is \<Longrightarrow> \<not> entry i) \<Longrightarrow> \<not> on (fold step is s)"
  by (induction "is" arbitrary: s) (auto simp: off_stays)

lemma killed_until_entry:
  "on s \<Longrightarrow> kill i \<Longrightarrow> (\<And>j. j \<in> set is \<Longrightarrow> \<not> entry j) \<Longrightarrow> \<not> on (fold step (i # is) s)"
  by (simp add: run_off kill_off)

lemma engaged_only_by_entry: "\<not> on s \<Longrightarrow> on (fold step is s) \<Longrightarrow> \<exists>i \<in> set is. entry i"
  using run_off by blast

end

text \<open>
  A machine with a soft disable: under a persistent fault the frames it may still hold the
  controls are counted down by \<open>left\<close>.
\<close>

locale soft_disabling = engagement step on kill entry
  for step :: "'i \<Rightarrow> 's \<Rightarrow> 's" and on :: "'s \<Rightarrow> bool" and kill :: "'i \<Rightarrow> bool" and entry :: "'i \<Rightarrow> bool" +
  fixes fault :: "'i \<Rightarrow> bool"
    and left :: "'s \<Rightarrow> nat"
  assumes fault_no_entry: "fault i \<Longrightarrow> \<not> entry i"
    and fault_counts: "fault i \<Longrightarrow> on s \<Longrightarrow> on (step i s) \<Longrightarrow> left (step i s) < left s"
begin

lemma fault_ends:
  "(\<And>i. i \<in> set is \<Longrightarrow> fault i) \<Longrightarrow> left s < length is \<Longrightarrow> \<not> on (fold step is s)"
proof (induction "is" arbitrary: s)
  case Nil
  then show ?case by simp
next
  case (Cons i js)
  show ?case
  proof (cases "on s \<and> on (step i s)")
    case True
    with Cons.prems have "left (step i s) < left s" by (simp add: fault_counts)
    with Cons show ?thesis by simp
  next
    case False
    then have "\<not> on (step i s)" using Cons.prems(1) by (auto simp: off_stays fault_no_entry)
    then show ?thesis using Cons.prems(1) by (simp add: run_off fault_no_entry)
  qed
qed

end

definition ss_kill :: "(ET \<Rightarrow> bool) \<Rightarrow> bool" where
  "ss_kill c \<longleftrightarrow> c IMMEDIATE_DISABLE \<or> c USER_DISABLE"

definition ss_entry :: "(ET \<Rightarrow> bool) \<Rightarrow> bool" where
  "ss_entry c \<longleftrightarrow> c ENABLE \<and> \<not> c NO_ENTRY"

definition ss_fault :: "(ET \<Rightarrow> bool) \<Rightarrow> bool" where
  "ss_fault c \<longleftrightarrow> c SOFT_DISABLE \<and> c NO_ENTRY \<and> \<not> c PRE_ENABLE"

definition ss_left :: "ss_machine \<Rightarrow> nat" where
  "ss_left s = (case ss_state s of Op_softDisabling \<Rightarrow> nat (soft_disable_timer s)
     | Op_preEnabled \<Rightarrow> 302 | Op_disabled \<Rightarrow> 0 | _ \<Rightarrow> 301)"

interpretation ss: soft_disabling ss_step ss_engaged ss_kill ss_entry ss_fault ss_left
proof
  fix s i
  assume "\<not> ss_engaged s" and "\<not> ss_entry i"
  then show "\<not> ss_engaged (ss_step i s)" by (auto simp: ss_engaged_def ss_entry_def ss_step_disabled)
next
  fix s i
  assume "ss_engaged s" and "ss_kill i"
  then show "\<not> ss_engaged (ss_step i s)" by (auto simp: ss_engaged_def ss_kill_def ss_step_kill)
next
  fix i
  assume "ss_fault i"
  then show "\<not> ss_entry i" by (simp add: ss_fault_def ss_entry_def)
next
  fix i s
  assume "ss_fault i" "ss_engaged s" "ss_engaged (ss_step i s)"
  then show "ss_left (ss_step i s) < ss_left s"
    by (auto simp: ss_fault_def ss_engaged_def ss_left_def ss_step_defs split: op_state.splits if_splits)
qed

section \<open>Reachable machines\<close>

inductive ss_reachable :: "ss_machine \<Rightarrow> bool" where
  ss_start: "ss_reachable ss_init"
| ss_next: "ss_reachable s \<Longrightarrow> ss_reachable (ss_step c s)"

definition ss_inv :: "ss_machine \<Rightarrow> bool" where
  "ss_inv s \<longleftrightarrow> 0 \<le> soft_disable_timer s \<and> soft_disable_timer s \<le> 300 \<and>
     (ss_state s = Op_softDisabling \<longrightarrow> 0 < soft_disable_timer s \<and> SOFT_DISABLE \<in> set (current_alert_types s)) \<and>
     (WARNING \<in> set (current_alert_types s) \<longleftrightarrow> ss_state s \<in> set ACTIVE_STATES)"

lemma ss_inv_init: "ss_inv ss_init"
  by (simp add: ss_inv_def ss_init_def)

lemma ss_inv_step: "ss_inv s \<Longrightarrow> ss_inv (ss_step c s)"
  by (auto simp: ss_inv_def ss_step_defs split: op_state.splits)

lemma ss_reachable_inv: "ss_reachable s \<Longrightarrow> ss_inv s"
  by (induction rule: ss_reachable.induct) (auto intro: ss_inv_init ss_inv_step)

lemma ss_left_bound: "ss_inv s \<Longrightarrow> ss_left s \<le> 302"
  by (auto simp: ss_inv_def ss_left_def split: op_state.split)

section \<open>The abstract engagement\<close>

text \<open>
  What a driver is promised: three levels, entered on request when nothing forbids it, left at
  once on a user or immediate disable, and otherwise only while a soft disable event is present.
\<close>

datatype level = Off | Pre | On

inductive eng_step :: "(ET \<Rightarrow> bool) \<Rightarrow> level \<Rightarrow> level \<Rightarrow> bool" for c where
  stay_off: "\<not> ss_entry c \<Longrightarrow> eng_step c Off Off"
| enter_pre: "ss_entry c \<Longrightarrow> c PRE_ENABLE \<Longrightarrow> eng_step c Off Pre"
| enter_on: "ss_entry c \<Longrightarrow> \<not> c PRE_ENABLE \<Longrightarrow> eng_step c Off On"
| cut: "ss_kill c \<Longrightarrow> l \<noteq> Off \<Longrightarrow> eng_step c l Off"
| hold_pre: "\<not> ss_kill c \<Longrightarrow> c PRE_ENABLE \<Longrightarrow> eng_step c Pre Pre"
| end_pre: "\<not> ss_kill c \<Longrightarrow> \<not> c PRE_ENABLE \<Longrightarrow> eng_step c Pre On"
| hold_on: "\<not> ss_kill c \<Longrightarrow> eng_step c On On"
| soft_end: "\<not> ss_kill c \<Longrightarrow> c SOFT_DISABLE \<Longrightarrow> eng_step c On Off"

inductive_simps eng_step_from_Off: "eng_step c Off l"
inductive_simps eng_step_from_Pre: "eng_step c Pre l"
inductive_simps eng_step_from_On: "eng_step c On l"

definition ss_level :: "ss_machine \<Rightarrow> level" where
  "ss_level s = (case ss_state s of Op_disabled \<Rightarrow> Off | Op_preEnabled \<Rightarrow> Pre | _ \<Rightarrow> On)"

text \<open>
  C31. The state machine implements the abstract engagement: every update, from any state and on
  any set of event types, is a step of it.
\<close>

theorem ss_update_refines_engagement:
  "eng_step c (ss_level s) (ss_level (fst (ss_update c s)))"
  unfolding ss_level_def ss_update_def ss_transition_def Let_def
  by (auto simp: eng_step_from_Off eng_step_from_Pre eng_step_from_On ss_entry_def ss_kill_def
      split: op_state.split)

text \<open>
  Every reachable state machine keeps its timer between 0 and 300 frames; while it is soft
  disabling the timer runs and the soft disable alert is requested; the warning alerts are
  requested in exactly the active states.
\<close>

theorem ss_reachable_invariant:
  assumes "ss_reachable s"
  shows "0 \<le> soft_disable_timer s \<and> soft_disable_timer s \<le> 300 \<and>
    (ss_state s = Op_softDisabling \<longrightarrow> 0 < soft_disable_timer s \<and> SOFT_DISABLE \<in> set (current_alert_types s)) \<and>
    (WARNING \<in> set (current_alert_types s) \<longleftrightarrow> ss_state s \<in> set ACTIVE_STATES)"
  using ss_reachable_inv [OF assms, unfolded ss_inv_def] .

definition ss_example :: ss_machine where
  "ss_example = ss_step (\<lambda>et. et = SOFT_DISABLE) (ss_step (\<lambda>et. et = ENABLE) ss_init)"

lemma ss_example_reachable: "ss_reachable ss_example"
  unfolding ss_example_def by (intro ss_reachable.intros)

lemma ss_example_state: "ss_state ss_example = Op_softDisabling" "soft_disable_timer ss_example = 300"
  by (simp_all add: ss_example_def ss_init_def ss_step_defs)

theorem ss_reachable_invariant_witness:
  "0 \<le> soft_disable_timer ss_example \<and> ss_state ss_example = Op_softDisabling \<and>
   SOFT_DISABLE \<in> set (current_alert_types ss_example)"
  using ss_reachable_invariant [OF ss_example_reachable] ss_example_state by blast

section \<open>Over the events of the drive loop\<close>

definition ss_event_step :: "bool \<Rightarrow> events_state \<Rightarrow> ss_machine \<Rightarrow> ss_machine" where
  "ss_event_step mici ev = ss_step (ev_contains (EVENTS mici) ev)"

lemma fold_ss_event_step:
  "fold (ss_event_step mici) evs s = fold ss_step (map (ev_contains (EVENTS mici)) evs) s"
  by (induction evs arbitrary: s) (auto simp: ss_event_step_def)

lemma ev_contains_ENABLE:
  "ev_contains (EVENTS mici) ev ENABLE \<Longrightarrow> ev_has EN_pcmEnable ev \<or> ev_has EN_buttonEnable ev"
  by (auto simp: ev_contains_iff dest: enabling_events)

lemma ev_contains_PRE_ENABLE:
  "ev_contains (EVENTS mici) ev PRE_ENABLE \<Longrightarrow> ev_has EN_preEnableStandstill ev"
  by (auto simp: ev_contains_iff dest: pre_enabling_events)

text \<open>
  A disengagement holds. Once an engaged machine sees a user or immediate disable event it is
  disabled, and it stays disabled through any number of further frames in which no enable event
  of a button or of the PCM comes without a no entry event.
\<close>

theorem disengagement_holds:
  assumes "ss_state s \<noteq> Op_disabled"
    and "ev_contains (EVENTS mici) ev USER_DISABLE \<or> ev_contains (EVENTS mici) ev IMMEDIATE_DISABLE"
    and "\<forall>e \<in> set evs. ev_has EN_pcmEnable e \<or> ev_has EN_buttonEnable e \<longrightarrow> ev_contains (EVENTS mici) e NO_ENTRY"
  shows "ss_state (fold (ss_event_step mici) (ev # evs) s) = Op_disabled"
proof -
  have "\<not> ss_entry (ev_contains (EVENTS mici) e)" if "e \<in> set evs" for e
    using assms(3) that by (auto simp: ss_entry_def dest: ev_contains_ENABLE)
  then have "\<not> ss_engaged (fold ss_step (map (ev_contains (EVENTS mici)) (ev # evs)) s)"
    using ss.killed_until_entry [of s "ev_contains (EVENTS mici) ev" "map (ev_contains (EVENTS mici)) evs"]
      assms(1,2) by (auto simp: ss_engaged_def ss_kill_def)
  then show ?thesis by (simp only: fold_ss_event_step ss_engaged_def state_sets not_not)
qed

text \<open>
  A soft disable ends within 303 frames (three seconds and the frames of the transitions): if
  one event that carries a soft disable persists, other than big model failed, and no pre-enable
  event does, then the machine is disabled after 303 frames or more, whatever else happens.
\<close>

theorem soft_disable_ends:
  assumes "ss_reachable s"
    and "SOFT_DISABLE \<in> set (mapping_types (EVENTS mici) d)" and "d \<noteq> EN_bigModelFailed"
    and "\<forall>e \<in> set evs. ev_has d e \<and> \<not> ev_has EN_preEnableStandstill e"
    and "303 \<le> length evs"
  shows "ss_state (fold (ss_event_step mici) evs s) = Op_disabled"
proof -
  have "ss_fault (ev_contains (EVENTS mici) e)" if "e \<in> set evs" for e
    using assms(2-4) that soft_disable_blocks_entry [OF assms(2,3)]
    by (auto simp: ss_fault_def ev_contains_iff dest: pre_enabling_events)
  moreover have "ss_left s < length evs"
    using ss_left_bound [OF ss_reachable_inv [OF assms(1)]] assms(5) by simp
  ultimately have "\<not> ss_engaged (fold ss_step (map (ev_contains (EVENTS mici)) evs) s)"
    by (intro ss.fault_ends) auto
  then show ?thesis by (simp only: fold_ss_event_step ss_engaged_def state_sets not_not)
qed

definition ev_store :: "nat list \<Rightarrow> events_state" where
  \<comment> \<open>a store that holds the given events, for concrete instances\<close>
  "ev_store es = ev_add_from_msg es (Events_init False)"

lemma ev_store_has [simp]: "ev_has e (ev_store es) \<longleftrightarrow> e \<in> set es"
  by (simp add: ev_store_def) (simp add: ev_has_def Events_init_def ev_init_def)

theorem disengagement_holds_witness:
  "ss_state (fold (ss_event_step False)
     (ev_store [EN_pedalPressed] # [ev_store [], ev_store [EN_buttonEnable, EN_overheat]]) ss_example) = Op_disabled"
  by (rule disengagement_holds) (auto simp: ss_example_state ev_contains_iff)

theorem soft_disable_ends_witness:
  "ss_state (fold (ss_event_step False) (replicate 303 (ev_store [EN_overheat, EN_buttonEnable])) ss_example) = Op_disabled"
  by (rule soft_disable_ends [where d = EN_overheat]) (simp_all add: ss_example_reachable)

end
