(* ===== verification/AlertManager.thy ===== *)
theory AlertManager
  imports SelfdriveState "HOL-Library.AList" "HOL-Library.Product_Lexorder" "HOL-Library.Option_ord"
begin

text \<open>
  The alert manager of \<^verbatim>\<open>selfdrive/selfdrived/alertmanager.py\<close>: the entries of the
  alerts seen so far, by alert type and in the order of their first appearance, and the choice of
  the alert to show. \<open>update_alerts\<close> of the drive loop is modelled with it.
\<close>

record alert_entry_state =
  ae_alert :: "alert option"
  start_frame :: int
  end_frame :: int
  added_frame :: int

record alert_manager =
  am_alerts :: "(string \<times> alert_entry_state) list"
  current_alert :: alert

definition AlertEntry :: alert_entry_state where
  "AlertEntry = \<lparr>ae_alert = None, start_frame = -1, end_frame = -1, added_frame = -1\<rparr>"

definition ae_active :: "int \<Rightarrow> alert_entry_state \<Rightarrow> bool" where
  "ae_active frame e \<longleftrightarrow> frame \<le> end_frame e"

definition just_added :: "int \<Rightarrow> alert_entry_state \<Rightarrow> bool" where
  "just_added frame e \<longleftrightarrow> ae_active frame e \<and> frame = added_frame e + 1"

definition am_init :: alert_manager where
  "am_init = \<lparr>am_alerts = [], current_alert = EmptyAlert\<rparr>"

definition am_entry :: "string \<Rightarrow> alert_manager \<Rightarrow> alert_entry_state" where
  \<comment> \<open>\<open>defaultdict(AlertEntry)\<close>\<close>
  "am_entry k am = (case map_of (am_alerts am) k of None \<Rightarrow> AlertEntry | Some e \<Rightarrow> e)"

definition entry_added :: "int \<Rightarrow> alert \<Rightarrow> alert_entry_state \<Rightarrow> alert_entry_state" where
  "entry_added frame a e =
     (let e = e\<lparr>ae_alert := Some a\<rparr>;
          e = (if \<not> just_added frame e then e\<lparr>start_frame := frame\<rparr> else e);
          min_end_frame = start_frame e + alert_duration a
      in e\<lparr>end_frame := max (frame + 1) min_end_frame, added_frame := frame\<rparr>)"

definition am_add :: "int \<Rightarrow> alert \<Rightarrow> alert_manager \<Rightarrow> alert_manager" where
  "am_add frame a am =
     am\<lparr>am_alerts := AList.update (alert_type a) (entry_added frame a (am_entry (alert_type a) am)) (am_alerts am)\<rparr>"

definition am_add_many :: "int \<Rightarrow> alert list \<Rightarrow> alert_manager \<Rightarrow> alert_manager" where
  "am_add_many frame alerts am = fold (am_add frame) alerts am"

definition clear_entry :: "ET option set \<Rightarrow> alert_entry_state \<Rightarrow> alert_entry_state" where
  "clear_entry clear e =
     (case ae_alert e of None \<Rightarrow> e
      | Some a \<Rightarrow> if event_type a \<in> clear then e\<lparr>end_frame := -1\<rparr> else e)"

definition entry_rank :: "alert_entry_state \<Rightarrow> (priority \<times> int) option" where
  \<comment> \<open>the pair of priority and start frame that entries are compared by; an empty entry is lowest\<close>
  "entry_rank e = map_option (\<lambda>a. (alert_priority a, start_frame e)) (ae_alert e)"

definition entry_greater :: "alert_entry_state \<Rightarrow> alert_entry_state \<Rightarrow> bool" where
  "entry_greater v ae \<longleftrightarrow> ae_alert ae = None \<or> entry_rank v > entry_rank ae"

definition choose_entry :: "int \<Rightarrow> alert_entry_state \<Rightarrow> alert_entry_state \<Rightarrow> alert_entry_state" where
  \<comment> \<open>one iteration over the (cleared) entries; the first argument is the entry, the last the best so far\<close>
  "choose_entry frame v ae =
     (if ae_alert v = None then ae
      else if ae_active frame v \<and> entry_greater v ae then v else ae)"

definition process_alerts :: "int \<Rightarrow> ET option set \<Rightarrow> alert_manager \<Rightarrow> alert_manager" where
  "process_alerts frame clear am =
     (let es = map (\<lambda>(k, e). (k, clear_entry clear e)) (am_alerts am);
          ae = fold (choose_entry frame) (map snd es) AlertEntry
      in \<lparr>am_alerts = es, current_alert = (case ae_alert ae of None \<Rightarrow> EmptyAlert | Some a \<Rightarrow> a)\<rparr>)"

text \<open>\<open>SelfdriveD.update_alerts\<close>, given the alerts created in the frame.\<close>

definition clear_event_types :: "bool \<Rightarrow> ET list \<Rightarrow> ET option set" where
  "clear_event_types enabled types =
     (if WARNING \<notin> set types then {Some WARNING} else {}) \<union> (if enabled then {Some NO_ENTRY} else {})"

definition am_frame :: "int \<Rightarrow> alert list \<Rightarrow> ET option set \<Rightarrow> alert_manager \<Rightarrow> alert_manager" where
  "am_frame frame alerts clear am = process_alerts frame clear (am_add_many frame alerts am)"

definition update_alerts :: "bool \<Rightarrow> alert_ctx \<Rightarrow> int \<Rightarrow> bool \<Rightarrow> ss_machine \<Rightarrow> events_state \<times> events_state \<Rightarrow>
    alert_manager \<Rightarrow> alert_manager option" where
  "update_alerts mici ctx frame enabled s st am =
     do { alerts \<leftarrow> create_alerts (EVENTS mici) EVENT_NAME ctx (current_alert_types s) (fst st);
          alerts_sp \<leftarrow> create_alerts (EVENTS_SP mici) EVENT_NAME_SP ctx (current_alert_types s) (snd st);
          Some (am_frame frame (alerts @ alerts_sp)
                  (clear_event_types enabled (current_alert_types s)) am) }"

section \<open>The choice\<close>

definition shown :: "int \<Rightarrow> alert_entry_state \<Rightarrow> bool" where
  \<comment> \<open>the entries that may be shown\<close>
  "shown frame e \<longleftrightarrow> ae_active frame e \<and> ae_alert e \<noteq> None"

lemma choose_fold:
  fixes frame
  defines "r \<equiv> fold (choose_entry frame)"
  shows "(r vs ae = ae \<or> r vs ae \<in> set vs \<and> shown frame (r vs ae)) \<and> entry_rank ae \<le> entry_rank (r vs ae) \<and>
     (\<forall>v \<in> set vs. shown frame v \<longrightarrow> entry_rank v \<le> entry_rank (r vs ae))"
proof (induction vs arbitrary: ae)
  case Nil
  show ?case by (simp add: r_def)
next
  case (Cons v vs)
  let ?ae = "choose_entry frame v ae"
  have "(?ae = ae \<or> ?ae = v \<and> shown frame v) \<and> entry_rank ae \<le> entry_rank ?ae \<and>
      (shown frame v \<longrightarrow> entry_rank v \<le> entry_rank ?ae)"
    by (auto simp: choose_entry_def shown_def entry_greater_def entry_rank_def)
  then show ?case using Cons [of ?ae] unfolding r_def by auto
qed

lemma clear_entry_shown:
  "0 \<le> frame \<Longrightarrow> shown frame (clear_entry clear e) \<longleftrightarrow>
     ae_active frame e \<and> (\<exists>a. ae_alert e = Some a \<and> event_type a \<notin> clear)"
  by (auto simp: shown_def clear_entry_def ae_active_def split: option.split)

lemma clear_entry_simps [simp]:
  "ae_alert (clear_entry clear e) = ae_alert e" "entry_rank (clear_entry clear e) = entry_rank e"
  by (auto simp: clear_entry_def entry_rank_def split: option.split)

definition candidates :: "int \<Rightarrow> ET option set \<Rightarrow> alert_manager \<Rightarrow> alert_entry_state set" where
  "candidates frame clear am = {e \<in> snd ` set (am_alerts am). ae_active frame e \<and>
     (\<exists>a. ae_alert e = Some a \<and> event_type a \<notin> clear)}"

lemma best_candidate:
  assumes "0 \<le> frame"
  shows "candidates frame clear am = {} \<and> current_alert (process_alerts frame clear am) = EmptyAlert \<or>
    (\<exists>e \<in> candidates frame clear am. ae_alert e = Some (current_alert (process_alerts frame clear am)) \<and>
       (\<forall>d \<in> candidates frame clear am. entry_rank d \<le> entry_rank e))"
proof -
  let ?vs = "map (clear_entry clear) (map snd (am_alerts am))"
  let ?r = "fold (choose_entry frame) ?vs AlertEntry"
  have cur: "current_alert (process_alerts frame clear am) = (case ae_alert ?r of None \<Rightarrow> EmptyAlert | Some a \<Rightarrow> a)"
    by (simp add: process_alerts_def Let_def case_prod_beta comp_def)
  have cand: "e \<in> candidates frame clear am \<longleftrightarrow> e \<in> snd ` set (am_alerts am) \<and> shown frame (clear_entry clear e)" for e
    using assms(1) by (auto simp: candidates_def clear_entry_shown)
  have r: "?r = AlertEntry \<or> ?r \<in> set ?vs \<and> shown frame ?r"
    and best: "\<forall>v \<in> set ?vs. shown frame v \<longrightarrow> entry_rank v \<le> entry_rank ?r"
    using choose_fold [of frame ?vs AlertEntry] by blast+
  have best': "entry_rank d \<le> entry_rank ?r" if "d \<in> candidates frame clear am" for d
    using best that by (auto simp: cand)
  show ?thesis
  proof (cases "?r \<in> set ?vs \<and> shown frame ?r")
    case True
    then obtain e where "e \<in> snd ` set (am_alerts am)" "?r = clear_entry clear e" by auto
    moreover from this True have "e \<in> candidates frame clear am" unfolding cand by metis
    ultimately have "e \<in> candidates frame clear am" "?r = clear_entry clear e" by blast+
    with best' True show ?thesis unfolding cur by (fastforce simp: shown_def)
  next
    case False
    with r have "?r = AlertEntry" by blast
    then have "entry_rank ?r = None" "ae_alert ?r = None" by (simp_all add: AlertEntry_def entry_rank_def)
    moreover have "candidates frame clear am = {}"
      using best' \<open>entry_rank ?r = None\<close>
      by (fastforce simp: candidates_def entry_rank_def less_eq_option_None_is_None)
    ultimately show ?thesis unfolding cur by simp
  qed
qed

text \<open>
  C33. The alert shown is the best one: it belongs to an entry that is active and whose event type
  is not cleared, and no such entry has a higher priority, or the same priority and a later start.
  When there is no such entry the empty alert is shown.
\<close>

theorem process_alerts_best:
  assumes "0 \<le> frame"
  shows "candidates frame clear am = {} \<and> current_alert (process_alerts frame clear am) = EmptyAlert \<or>
    (\<exists>e \<in> candidates frame clear am. ae_alert e = Some (current_alert (process_alerts frame clear am)) \<and>
       (\<forall>d \<in> candidates frame clear am. entry_rank d \<le> entry_rank e))"
  using assms by (rule best_candidate)

section \<open>Frames of the drive loop\<close>

lemma current_alert_frame:
  assumes "0 \<le> frame"
  shows "current_alert (am_frame frame alerts clear am) = EmptyAlert \<or>
    event_type (current_alert (am_frame frame alerts clear am)) \<notin> clear"
  using best_candidate [OF assms, of clear "am_add_many frame alerts am"]
  unfolding am_frame_def candidates_def by fastforce

text \<open>
  Stale alerts are not shown: whatever alerts earlier frames added and for however long, a
  frame whose state machine does not request warnings shows no warning alert, and a frame in which
  the system is enabled shows no alert that explains why it cannot be engaged.
\<close>

theorem stale_alerts_not_shown:
  assumes "update_alerts mici ctx frame enabled s st am = Some am'" and "0 \<le> frame"
  shows "(WARNING \<notin> set (current_alert_types s) \<longrightarrow> event_type (current_alert am') \<noteq> Some WARNING) \<and>
    (enabled \<longrightarrow> event_type (current_alert am') \<noteq> Some NO_ENTRY)"
proof -
  obtain alerts where "am' = am_frame frame alerts (clear_event_types enabled (current_alert_types s)) am"
    using assms(1) by (auto simp: update_alerts_def split: bind_splits)
  then have "current_alert am' = EmptyAlert \<or>
      event_type (current_alert am') \<notin> clear_event_types enabled (current_alert_types s)"
    using current_alert_frame [OF assms(2)] by blast
  then show ?thesis by (auto simp: clear_event_types_def EmptyAlert_def Alert_def split: if_splits)
qed

lemma map_of_am_add:
  "map_of (am_alerts (am_add frame a am)) k =
     (if k = alert_type a then Some (entry_added frame a (am_entry k am)) else map_of (am_alerts am) k)"
  by (simp add: am_add_def AList.update_conv')

lemma map_of_am_add_other:
  "(\<forall>a \<in> set as. alert_type a \<noteq> k) \<Longrightarrow> map_of (am_alerts (am_add_many frame as am)) k = map_of (am_alerts am) k"
  unfolding am_add_many_def by (induction as arbitrary: am) (auto simp: map_of_am_add)

lemma map_of_process:
  "map_of (am_alerts (process_alerts frame clear am)) k = map_option (clear_entry clear) (map_of (am_alerts am) k)"
  by (simp add: process_alerts_def Let_def map_of_map)

definition holds :: "alert \<Rightarrow> int \<Rightarrow> alert_manager \<Rightarrow> bool" where
  \<comment> \<open>the manager keeps the alert at least until the given frame\<close>
  "holds a until am \<longleftrightarrow> (\<exists>e. map_of (am_alerts am) (alert_type a) = Some e \<and> ae_alert e = Some a \<and> until \<le> end_frame e)"

lemma holds_frame:
  assumes "holds a until am" and "\<forall>b \<in> set as. alert_type b \<noteq> alert_type a" and "event_type a \<notin> clear"
  shows "holds a until (am_frame frame as clear am)"
proof -
  from assms(1) obtain e where e: "map_of (am_alerts am) (alert_type a) = Some e" "ae_alert e = Some a" "until \<le> end_frame e"
    by (auto simp: holds_def)
  moreover from e(2) assms(3) have "clear_entry clear e = e" by (simp add: clear_entry_def)
  ultimately show ?thesis
    using assms(2) by (simp add: holds_def am_frame_def map_of_process map_of_am_add_other)
qed

lemma holds_shown:
  assumes "holds a until am" and "\<forall>b \<in> set as. alert_type b \<noteq> alert_type a" and "event_type a \<notin> clear"
    and "0 \<le> frame" "frame \<le> until"
  shows "alert_priority a \<le> alert_priority (current_alert (am_frame frame as clear am))"
proof -
  let ?am = "am_add_many frame as am"
  from assms(1) obtain e where e: "map_of (am_alerts am) (alert_type a) = Some e" "ae_alert e = Some a" "until \<le> end_frame e"
    by (auto simp: holds_def)
  then have "e \<in> candidates frame clear ?am"
    using assms(2-5) map_of_am_add_other [of as "alert_type a" frame am]
    by (auto simp: candidates_def ae_active_def dest!: map_of_SomeD intro!: rev_image_eqI)
  then obtain d where d: "ae_alert d = Some (current_alert (am_frame frame as clear am))" "entry_rank e \<le> entry_rank d"
    using best_candidate [OF assms(4), of clear ?am] unfolding am_frame_def by blast
  then show ?thesis using e(2) by (auto simp: entry_rank_def less_eq_prod_def)
qed

primrec am_run :: "int \<Rightarrow> (alert list \<times> ET option set) list \<Rightarrow> alert_manager \<Rightarrow> alert_manager" where
  "am_run frame [] am = am"
| "am_run frame (f # fs) am = am_run (frame + 1) fs (am_frame frame (fst f) (snd f) am)"

lemma holds_am_run:
  assumes "holds a until am" and "fs \<noteq> []" and "0 \<le> frame" and "frame + int (length fs) \<le> until + 1"
    and "\<forall>f \<in> set fs. (\<forall>b \<in> set (fst f). alert_type b \<noteq> alert_type a) \<and> event_type a \<notin> snd f"
  shows "alert_priority a \<le> alert_priority (current_alert (am_run frame fs am))"
  using assms
proof (induction fs arbitrary: frame am)
  case Nil
  then show ?case by simp
next
  case (Cons f fs)
  show ?case
  proof (cases "fs = []")
    case True
    with Cons.prems show ?thesis by (auto intro: holds_shown)
  next
    case False
    moreover have "holds a until (am_frame frame (fst f) (snd f) am)"
      using Cons.prems by (auto intro: holds_frame)
    ultimately show ?thesis using Cons.prems Cons.IH [of _ "frame + 1"] by simp
  qed
qed

text \<open>
  An alert is not lost before its duration is over: once added, in every later frame up to its
  duration (and at least in the next one) in which its type was neither cleared nor added again,
  the alert shown has at least its priority, whatever else is added meanwhile.
\<close>

theorem alert_lasts:
  assumes "0 \<le> frame" and "fs \<noteq> []" and "int (length fs) \<le> max 1 (alert_duration a)"
    and "\<forall>f \<in> set fs. (\<forall>b \<in> set (fst f). alert_type b \<noteq> alert_type a) \<and> event_type a \<notin> snd f"
    and "\<not> just_added frame (am_entry (alert_type a) am)"
  shows "alert_priority a \<le> alert_priority (current_alert (am_run (frame + 1) fs (am_add frame a am)))"
proof (rule holds_am_run)
  show "holds a (frame + max 1 (alert_duration a)) (am_add frame a am)"
    using assms(5) by (auto simp: holds_def map_of_am_add entry_added_def Let_def just_added_def ae_active_def)
qed (use assms in auto)

section \<open>Concrete instances\<close>

definition alert_at :: "ET \<Rightarrow> string \<Rightarrow> priority \<Rightarrow> real \<Rightarrow> alert" where
  "alert_at et ty prio dur =
     (Alert [] [] Status_normal Size_none prio Visual_none Audible_none dur 0)\<lparr>alert_type := ty, event_type := Some et\<rparr>"

definition am_example :: alert_manager where
  \<comment> \<open>a manager that was given a warning of three seconds in frame 5\<close>
  "am_example = am_add 5 (alert_at WARNING ''w'' MID 3) am_init"

lemma alert_at_simps [simp]:
  "alert_type (alert_at et ty prio dur) = ty" "event_type (alert_at et ty prio dur) = Some et"
  "alert_priority (alert_at et ty prio dur) = prio" "alert_duration (alert_at et ty prio dur) = py_int (dur / DT_CTRL)"
  by (simp_all add: alert_at_def Alert_def)

theorem process_alerts_best_witness:
  "current_alert (process_alerts 10 {} am_example) = alert_at WARNING ''w'' MID 3"
proof -
  have "candidates 10 {} am_example = {entry_added 5 (alert_at WARNING ''w'' MID 3) AlertEntry}"
    by (auto simp: candidates_def am_example_def am_add_def am_init_def am_entry_def ae_active_def
        entry_added_def Let_def AlertEntry_def just_added_def py_num)
  then show ?thesis
    using process_alerts_best [of 10 "{}" am_example]
    by (auto simp: entry_added_def Let_def split: if_splits)
qed

theorem alert_lasts_witness:
  "MID \<le> alert_priority (current_alert (am_run 6 (replicate 300 ([alert_at NO_ENTRY ''n'' LOW 1], {Some NO_ENTRY})) am_example))"
  using alert_lasts [of 5 "replicate 300 ([alert_at NO_ENTRY ''n'' LOW 1], {Some NO_ENTRY})"
      "alert_at WARNING ''w'' MID 3" am_init]
  by (simp add: am_example_def am_init_def am_entry_def AlertEntry_def just_added_def ae_active_def py_num)

lemma no_events_no_alerts: "ev_events s = [] \<Longrightarrow> create_alerts m name ctx ets s = Some []"
  by (simp add: create_alerts_def)

theorem stale_alerts_not_shown_witness:
  "\<forall>ctx. event_type (current_alert (am_frame 6 [] (clear_event_types True [PERMANENT]) am_example)) \<noteq> Some WARNING"
proof
  fix ctx
  have "update_alerts False ctx 6 True ss_init (Events_init False, EventsSP_init False) am_example =
      Some (am_frame 6 [] (clear_event_types True [PERMANENT]) am_example)"
    by (simp add: update_alerts_def no_events_no_alerts Events_init_def EventsSP_init_def ev_init_def ss_init_def)
  from stale_alerts_not_shown [OF this]
  show "event_type (current_alert (am_frame 6 [] (clear_event_types True [PERMANENT]) am_example)) \<noteq> Some WARNING"
    by (simp add: ss_init_def)
qed

end
