(* ===== verification/CarState.thy ===== *)
theory CarState
  imports Prelude
begin

text \<open>
  The part of a \<open>carState\<close> message that the modelled code reads, with the source's field
  names. The message type itself is declared by the opendbc submodule; its enumerations keep the
  members the code under \<^verbatim>\<open>src/\<close> names and one constructor for all the others.
\<close>

datatype button_type = B_accelCruise | B_decelCruise | B_setCruise | B_resumeCruise | B_cancel
  | B_mainCruise | B_altButton2 | B_lkas | B_gapAdjustCruise | B_other

record button_event =
  be_type :: button_type
  be_pressed :: bool

datatype gear_shifter = Gear_unknown | Gear_park | Gear_drive | Gear_neutral | Gear_reverse
  | Gear_sport | Gear_low | Gear_brake | Gear_eco | Gear_manumatic

record cruise_state =
  cruise_available :: bool
  cruise_enabled :: bool
  cruise_speed :: real
  cruise_speedCluster :: real
  cruise_standstill :: bool

record car_state =
  vEgo :: real
  vEgoCluster :: real
  aEgo :: real
  standstill :: bool
  gasPressed :: bool
  brakePressed :: bool
  regenBraking :: bool
  steeringPressed :: bool
  steeringTorque :: real
  steeringAngleDeg :: real
  leftBlinker :: bool
  rightBlinker :: bool
  leftBlindspot :: bool
  rightBlindspot :: bool
  gearShifter :: gear_shifter
  cruiseState :: cruise_state
  buttonEvents :: "button_event list"
  canValid :: bool
  canTimeout :: bool
  vCruise :: real
  vCruiseCluster :: real

definition cs_default :: car_state where
  \<comment> \<open>the values of \<open>car.CarState.new_message()\<close>\<close>
  "cs_default = \<lparr>vEgo = 0, vEgoCluster = 0, aEgo = 0, standstill = False, gasPressed = False,
     brakePressed = False, regenBraking = False, steeringPressed = False, steeringTorque = 0,
     steeringAngleDeg = 0, leftBlinker = False, rightBlinker = False, leftBlindspot = False,
     rightBlindspot = False, gearShifter = Gear_unknown,
     cruiseState = \<lparr>cruise_available = False, cruise_enabled = False, cruise_speed = 0,
       cruise_speedCluster = 0, cruise_standstill = False\<rparr>,
     buttonEvents = [], canValid = False, canTimeout = False, vCruise = 0, vCruiseCluster = 0\<rparr>"

text \<open>A panda's state, with the safety models the code names.\<close>

datatype safety_model = Safety_silent | Safety_noOutput | Safety_other nat

record panda_state =
  safetyModel :: safety_model
  safetyParam :: nat
  alternativeExperience :: int
  controlsAllowed :: bool
  controlsAllowedLateral :: bool
  safetyRxChecksInvalid :: bool
  relayMalfunction :: bool

definition IGNORED_SAFETY_MODES :: "safety_model list" where
  "IGNORED_SAFETY_MODES = [Safety_silent, Safety_noOutput]"

definition button_pressed_or_released :: "button_type list \<Rightarrow> car_state \<Rightarrow> bool" where
  \<comment> \<open>\<open>any(be.type in ts for be in CS.buttonEvents)\<close>\<close>
  "button_pressed_or_released ts cs = list_ex (\<lambda>be. be_type be \<in> set ts) (buttonEvents cs)"

end
