(* ===== verification/MadsState.thy ===== *)
theory MadsState
  imports SelfdriveState CarState
begin

text \<open>
  The lateral engagement machine of \<^verbatim>\<open>sunnypilot/mads/state.py\<close>. It shares the soft
  disable timer and the list of alert types with the machine of theory SelfdriveState, runs after
  it in every frame, and reads the two event stores through \<open>check_contains\<close>. The locale
  \<open>soft_disabling\<close> is interpreted on the two machines running together.
\<close>

datatype mads_state = Ms_disabled | Ms_paused | Ms_enabled | Ms_softDisabling | Ms_overriding

definition MADS_ACTIVE_STATES :: "mads_state list" where
  "MADS_ACTIVE_STATES = [Ms_enabled, Ms_softDisabling, Ms_overriding]"

definition MADS_ENABLED_STATES :: "mads_state list" where
  "MADS_ENABLED_STATES = Ms_paused # MADS_ACTIVE_STATES"

definition GEARS_ALLOW_PAUSED_SILENT :: "nat list" where
  "GEARS_ALLOW_PAUSED_SILENT =
     [SP_silentWrongGear, SP_silentReverseGear, SP_silentBrakeHold,
      SP_silentDoorOpen, SP_silentSeatbeltNotLatched, SP_silentParkBrake]"

definition GEARS_ALLOW_PAUSED :: "nat list" where
  "GEARS_ALLOW_PAUSED =
     [EN_wrongGear, EN_reverseGear, EN_brakeHold, EN_doorOpen, EN_seatbeltNotLatched, EN_parkBrake]"

section \<open>What the machine reads from the stores\<close>

record mads_view =
  check_contains :: "ET \<Rightarrow> bool"
  has_silentLkasDisable :: bool
  check_contains_in_list :: bool

definition mads_look :: "bool \<Rightarrow> events_state \<Rightarrow> events_state \<Rightarrow> mads_view" where
  "mads_look mici ev sp =
     \<lparr>check_contains = (\<lambda>et. ev_contains (EVENTS mici) ev et \<or> ev_contains (EVENTS_SP mici) sp et),
      has_silentLkasDisable = ev_has SP_silentLkasDisable sp,
      check_contains_in_list =
        (ev_contains_in_list GEARS_ALLOW_PAUSED ev \<or> ev_contains_in_list GEARS_ALLOW_PAUSED_SILENT sp)\<rparr>"

section \<open>The machine\<close>

text \<open>
  The alert types are those of the drive machine: they are only added to while it is not enabled
  itself (\<open>sd_enabled\<close> is \<open>selfdrive.enabled\<close>).
\<close>

definition add_current_alert_types :: "bool \<Rightarrow> ET \<Rightarrow> ss_machine \<Rightarrow> ss_machine" where
  "add_current_alert_types sd_enabled et s = (if sd_enabled then s else add_alert_type et s)"

definition mads_start_soft_disable :: "bool \<Rightarrow> ss_machine \<Rightarrow> ss_machine" where
  "mads_start_soft_disable sd_enabled s = (if sd_enabled then s else start_soft_disable s)"

definition mads_transition :: "mads_view \<Rightarrow> bool \<Rightarrow> mads_state \<times> ss_machine \<Rightarrow> mads_state \<times> ss_machine" where
  "mads_transition v sd ms =
     (let (m, s) = ms; c = check_contains v in
      if m \<noteq> Ms_disabled then
        if c USER_DISABLE then
          (if has_silentLkasDisable v then Ms_paused else Ms_disabled, add_alert_type USER_DISABLE s)
        else if c IMMEDIATE_DISABLE then
          (Ms_disabled, add_current_alert_types sd IMMEDIATE_DISABLE s)
        else (case m of
            Ms_enabled \<Rightarrow>
              if c SOFT_DISABLE then (Ms_softDisabling, mads_start_soft_disable sd s)
              else if c OVERRIDE_LATERAL then (Ms_overriding, add_current_alert_types sd OVERRIDE_LATERAL s)
              else (m, s)
          | Ms_softDisabling \<Rightarrow>
              if \<not> c SOFT_DISABLE then (Ms_enabled, s)
              else if soft_disable_timer s > 0 then (m, add_current_alert_types sd SOFT_DISABLE s)
              else (Ms_disabled, s)
          | Ms_paused \<Rightarrow>
              if c ENABLE then
                if c NO_ENTRY then (m, add_current_alert_types sd NO_ENTRY s)
                else (if c OVERRIDE_LATERAL then Ms_overriding else Ms_enabled,
                      add_current_alert_types sd ENABLE s)
              else (m, s)
          | Ms_overriding \<Rightarrow>
              if c SOFT_DISABLE then (Ms_softDisabling, mads_start_soft_disable sd s)
              else if \<not> c OVERRIDE_LATERAL then (Ms_enabled, s)
              else (m, add_alert_type OVERRIDE_LATERAL s)
          | Ms_disabled \<Rightarrow> (m, s))
      else if c ENABLE then
        if c NO_ENTRY then
          (if check_contains_in_list v then Ms_paused else m, add_current_alert_types sd NO_ENTRY s)
        else (if c OVERRIDE_LATERAL then Ms_overriding else Ms_enabled,
              add_current_alert_types sd ENABLE s)
      else (m, s))"

definition mads_machine_update :: "mads_view \<Rightarrow> bool \<Rightarrow> mads_state \<times> ss_machine \<Rightarrow>
    (mads_state \<times> ss_machine) \<times> bool \<times> bool" where
  "mads_machine_update v sd ms =
     (let (m, s) = mads_transition v sd ms;
          enabled = m \<in> set MADS_ENABLED_STATES;
          active = m \<in> set MADS_ACTIVE_STATES
      in ((m, if active then add_current_alert_types sd WARNING s else s), enabled, active))"

lemma mads_sets [simp]:
  "m \<in> set MADS_ACTIVE_STATES \<longleftrightarrow> m \<in> {Ms_enabled, Ms_softDisabling, Ms_overriding}"
  "m \<in> set MADS_ENABLED_STATES \<longleftrightarrow> m \<noteq> Ms_disabled"
  by (cases m; simp add: MADS_ACTIVE_STATES_def MADS_ENABLED_STATES_def)+

lemma add_current_alert_types_simps [simp]:
  "ss_state (add_current_alert_types sd et s) = ss_state s"
  "soft_disable_timer (add_current_alert_types sd et s) = soft_disable_timer s"
  by (simp_all add: add_current_alert_types_def)

lemma mads_start_soft_disable_simps [simp]:
  "ss_state (mads_start_soft_disable sd s) = ss_state s"
  "soft_disable_timer (mads_start_soft_disable sd s) = (if sd then soft_disable_timer s else 300)"
  by (simp_all add: mads_start_soft_disable_def)

lemma mads_keeps_ss_state: "ss_state (snd (mads_transition v sd ms)) = ss_state (snd ms)"
  by (cases ms) (auto simp: mads_transition_def Let_def split: mads_state.split)

lemma mads_timer_bounds:
  "soft_disable_timer (snd (mads_transition v sd ms)) \<in> {soft_disable_timer (snd ms), 300}"
  by (cases ms) (auto simp: mads_transition_def Let_def split: mads_state.split)

section \<open>The two machines in one frame\<close>

text \<open>
  \<open>SelfdriveD.step\<close>: the drive machine sees the events before the driving assistance
  rewrites them (\<open>drive\<close>), the assistance machine after (\<open>assist\<close>), and the latter is told
  whether the drive machine is enabled.
\<close>

record duo_input =
  drive :: "ET \<Rightarrow> bool"
  assist :: mads_view

definition duo_step :: "duo_input \<Rightarrow> ss_machine \<times> mads_state \<Rightarrow> ss_machine \<times> mads_state" where
  "duo_step i = (\<lambda>(s, m).
     let (s1, enabled, active) = ss_update (drive i) s;
         ((m2, s2), m_enabled, m_active) = mads_machine_update (assist i) enabled (m, s1)
     in (s2, m2))"

definition lat_on :: "ss_machine \<times> mads_state \<Rightarrow> bool" where
  "lat_on sm \<longleftrightarrow> snd sm \<in> set MADS_ACTIVE_STATES"

definition lat_kill :: "duo_input \<Rightarrow> bool" where
  "lat_kill i \<longleftrightarrow> check_contains (assist i) IMMEDIATE_DISABLE \<or> check_contains (assist i) USER_DISABLE"

definition lat_entry :: "duo_input \<Rightarrow> bool" where
  "lat_entry i \<longleftrightarrow> check_contains (assist i) ENABLE \<and> \<not> check_contains (assist i) NO_ENTRY"

definition lat_fault :: "duo_input \<Rightarrow> bool" where
  \<comment> \<open>both machines see a soft disable that blocks entry, and nothing pre-enables\<close>
  "lat_fault i \<longleftrightarrow> ss_fault (drive i) \<and>
     check_contains (assist i) SOFT_DISABLE \<and> check_contains (assist i) NO_ENTRY"

definition lat_left :: "ss_machine \<times> mads_state \<Rightarrow> nat" where
  "lat_left sm = (case sm of (s, m) \<Rightarrow>
     case m of
       Ms_softDisabling \<Rightarrow>
         max (nat (soft_disable_timer s))
           (case ss_state s of Op_enabled \<Rightarrow> 301 | Op_overriding \<Rightarrow> 301 | Op_preEnabled \<Rightarrow> 302 | _ \<Rightarrow> 0)
     | _ \<Rightarrow> max 303 (nat (soft_disable_timer s) + 1))"

lemma duo_step_cases:
  "duo_step i (s, m) =
     (let s1 = ss_step (drive i) s; r = mads_transition (assist i) (ss_engaged s1) (m, s1)
      in (if fst r \<in> set MADS_ACTIVE_STATES
          then add_current_alert_types (ss_engaged s1) WARNING (snd r) else snd r, fst r))"
  by (simp add: duo_step_def mads_machine_update_def ss_step_def ss_engaged_def ss_update_def Let_def
      split: prod.split)

lemma duo_off_stays: "\<not> lat_on sm \<Longrightarrow> \<not> lat_entry i \<Longrightarrow> \<not> lat_on (duo_step i sm)"
  by (cases sm; cases "snd sm")
    (auto simp: lat_on_def lat_entry_def duo_step_cases Let_def mads_transition_def)

lemma duo_kill_off: "lat_on sm \<Longrightarrow> lat_kill i \<Longrightarrow> \<not> lat_on (duo_step i sm)"
  by (cases sm; cases "snd sm")
    (auto simp: lat_on_def lat_kill_def duo_step_cases Let_def mads_transition_def)

lemma duo_fault_counts:
  assumes "lat_fault i" "lat_on sm" "lat_on (duo_step i sm)"
  shows "lat_left (duo_step i sm) < lat_left sm"
proof -
  obtain s m where sm: "sm = (s, m)" by (cases sm)
  define s1 where "s1 = ss_step (drive i) s"
  have s1: "(case ss_state s of Op_enabled \<Rightarrow> P \<or> Q Op_softDisabling 300 | Op_overriding \<Rightarrow> P \<or> Q Op_softDisabling 300
      | Op_preEnabled \<Rightarrow> P \<or> Q Op_enabled t | Op_disabled \<Rightarrow> P
      | Op_softDisabling \<Rightarrow> P \<or> 0 < t \<and> Q Op_softDisabling t)"
    if "Q = (\<lambda>st u. ss_state s1 = st \<and> soft_disable_timer s1 = u)" "t = max 0 (soft_disable_timer s - 1)"
      "P = Q Op_disabled t" for P Q t
    using assms(1) unfolding that s1_def
    by (cases "ss_state s") (simp_all add: lat_fault_def ss_fault_def ss_step_defs, auto)
  show ?thesis
    using assms s1 [OF refl refl refl]
    by (cases m; cases "ss_state s")
      (auto simp: sm lat_on_def lat_fault_def duo_step_cases Let_def mads_transition_def lat_left_def
        s1_def [symmetric] ss_engaged_def split: if_splits)
qed

interpretation duo: soft_disabling duo_step lat_on lat_kill lat_entry lat_fault lat_left
  by unfold_locales
    (auto simp: duo_off_stays duo_kill_off duo_fault_counts, auto simp: lat_fault_def lat_entry_def)

section \<open>Reachable pairs\<close>

inductive duo_reachable :: "ss_machine \<times> mads_state \<Rightarrow> bool" where
  start: "duo_reachable (ss_init, Ms_disabled)"
| step: "duo_reachable sm \<Longrightarrow> duo_reachable (duo_step i sm)"

definition duo_inv :: "ss_machine \<times> mads_state \<Rightarrow> bool" where
  "duo_inv sm \<longleftrightarrow> 0 \<le> soft_disable_timer (fst sm) \<and> soft_disable_timer (fst sm) \<le> 300 \<and>
     (ss_state (fst sm) = Op_softDisabling \<longrightarrow> 0 < soft_disable_timer (fst sm)) \<and>
     (lat_on sm \<or> ss_state (fst sm) \<in> set ACTIVE_STATES \<longleftrightarrow>
        WARNING \<in> set (current_alert_types (fst sm)) \<or> lat_on sm \<and> ss_state (fst sm) = Op_preEnabled)"

lemma ss_step_warning:
  "WARNING \<in> set (current_alert_types (ss_step c s)) \<longleftrightarrow> ss_state (ss_step c s) \<in> set ACTIVE_STATES"
  by (cases "ss_state s") (simp_all add: ss_step_defs)

lemma ss_step_timer:
  "soft_disable_timer (ss_step c s) \<in> {max 0 (soft_disable_timer s - 1), 300}"
  by (cases "ss_state s") (simp_all add: ss_step_defs)

lemma ss_step_soft_timer:
  "ss_state (ss_step c s) = Op_softDisabling \<Longrightarrow> 0 < soft_disable_timer (ss_step c s)"
  by (cases "ss_state s") (simp_all add: ss_step_defs split: if_splits)

lemma mads_transition_warning:
  "WARNING \<in> set (current_alert_types (snd (mads_transition v sd (m, s)))) \<longleftrightarrow> WARNING \<in> set (current_alert_types s)"
  by (cases m; cases sd)
    (simp_all add: mads_transition_def Let_def add_current_alert_types_def mads_start_soft_disable_def)

lemma duo_inv_step:
  assumes "duo_inv sm"
  shows "duo_inv (duo_step i sm)"
proof -
  obtain s m where sm: "sm = (s, m)" by (cases sm)
  define s1 where "s1 = ss_step (drive i) s"
  define r where "r = mads_transition (assist i) (ss_engaged s1) (m, s1)"
  have inv: "0 \<le> soft_disable_timer s1" "soft_disable_timer s1 \<le> 300"
    "ss_state s1 = Op_softDisabling \<Longrightarrow> 0 < soft_disable_timer s1"
    using assms ss_step_timer [of "drive i" s] ss_step_soft_timer [of "drive i" s]
    unfolding s1_def by (auto simp: sm duo_inv_def)
  have warn: "WARNING \<in> set (current_alert_types (snd r)) \<longleftrightarrow> ss_state s1 \<in> set ACTIVE_STATES"
    unfolding r_def mads_transition_warning s1_def by (rule ss_step_warning)
  have "ss_state (snd r) = ss_state s1" "soft_disable_timer (snd r) \<in> {soft_disable_timer s1, 300}"
    using mads_keeps_ss_state [of "assist i" "ss_engaged s1" "(m, s1)"]
      mads_timer_bounds [of "assist i" "ss_engaged s1" "(m, s1)"] by (simp_all add: r_def)
  moreover obtain s2 where "duo_step i sm = (s2, fst r)"
      and "s2 = (if fst r \<in> set MADS_ACTIVE_STATES
                then add_current_alert_types (ss_engaged s1) WARNING (snd r) else snd r)"
    by (simp add: sm duo_step_cases Let_def s1_def [symmetric] r_def [symmetric])
  moreover from this(2) have "WARNING \<in> set (current_alert_types s2) \<longleftrightarrow>
      WARNING \<in> set (current_alert_types (snd r)) \<or> fst r \<in> set MADS_ACTIVE_STATES \<and> \<not> ss_engaged s1"
    by (simp add: add_current_alert_types_def del: mads_sets)
  ultimately show ?thesis
    using inv warn unfolding duo_inv_def lat_on_def ss_engaged_def
    by (cases "ss_state s1") (auto simp del: mads_sets)
qed

lemma duo_reachable_inv: "duo_reachable sm \<Longrightarrow> duo_inv sm"
  by (induction rule: duo_reachable.induct)
    (simp add: duo_inv_def ss_init_def lat_on_def, simp add: duo_inv_step)

end
