(* ===== verification/Returns.thy ===== *)
theory Returns
  imports Main "HOL-Library.Monad_Syntax"
begin

text \<open>
  Total correctness of code in the option monad: \<open>returns x P\<close> says that \<open>x\<close> raises
  nothing and that its result satisfies \<open>P\<close>. The collection \<open>wp\<close> holds the
  equations that push it through a program.
\<close>

named_theorems wp \<open>rules for total correctness in the option monad\<close>

definition returns :: "'a option \<Rightarrow> ('a \<Rightarrow> bool) \<Rightarrow> bool" where
  "returns x P = (case x of None \<Rightarrow> False | Some y \<Rightarrow> P y)"

lemma returns_Some [simp, wp]: "returns (Some y) P = P y"
  by (simp add: returns_def)

lemma returns_None [simp, wp]: "\<not> returns None P"
  by (simp add: returns_def)

lemma returns_bind [wp]: "returns (Option.bind x f) P = returns x (\<lambda>y. returns (f y) P)"
  by (cases x) (simp_all add: returns_def)

lemma returns_if [wp]: "returns (if b then x else y) P = (if b then returns x P else returns y P)"
  by simp

lemma returns_conj: "returns x P \<Longrightarrow> returns x Q \<Longrightarrow> returns x (\<lambda>y. P y \<and> Q y)"
  by (simp add: returns_def split: option.splits)

lemma returns_mono: "returns x P \<Longrightarrow> (\<And>y. P y \<Longrightarrow> Q y) \<Longrightarrow> returns x Q"
  by (simp add: returns_def split: option.splits)

lemma returns_ex: "returns x P \<longleftrightarrow> (\<exists>y. x = Some y \<and> P y)"
  by (cases x) auto

text \<open>Rules that go under \<open>let\<close> and pairs without unfolding them.\<close>

lemma returns_LetI: "(\<And>x. returns (f x) P) \<Longrightarrow> returns (Let e f) P"
  by (simp add: Let_def)

lemma returns_Let_eqI: "(\<And>x. x = e \<Longrightarrow> returns (f x) P) \<Longrightarrow> returns (Let e f) P"
  by simp

lemma returns_prodI: "(\<And>a b. returns (f a b) P) \<Longrightarrow> returns (case p of (a, b) \<Rightarrow> f a b) P"
  by (simp split: prod.split)

lemma returns_bindI: "returns x (\<lambda>_. True) \<Longrightarrow> (\<And>y. returns (f y) P) \<Longrightarrow> returns (Option.bind x f) P"
  by (cases x) simp_all

lemma returns_bind_mono: "returns x Q \<Longrightarrow> (\<And>y. Q y \<Longrightarrow> returns (f y) P) \<Longrightarrow> returns (Option.bind x f) P"
  by (cases x) simp_all

lemma returns_ifI: "(b \<Longrightarrow> returns x P) \<Longrightarrow> (\<not> b \<Longrightarrow> returns y P) \<Longrightarrow> returns (if b then x else y) P"
  by simp

lemma returns_bind_ex: "returns x (\<lambda>_. True) \<longleftrightarrow> (\<exists>y. x = Some y)"
  by (cases x) simp_all

lemmas returns_intros = returns_LetI returns_prodI returns_bindI returns_ifI

end
