(* ===== verification/Mads.thy ===== *)
theory Mads
  imports MadsState Returns
begin

text \<open>
  The modular assistive driving system of \<^verbatim>\<open>sunnypilot/mads/mads.py\<close> and
  \<^verbatim>\<open>helpers.py\<close>: how it rewrites the events of the frame before its state machine (theory
  MadsState) reads them, the mismatch counter, and the parameters of the brands. The two event
  stores are passed and returned; \<open>None\<close> is the \<open>KeyError\<close> of a store that does not know
  an event it is asked to remove.
\<close>

section \<open>Parameters\<close>

abbreviation REMAIN_ACTIVE :: int where "REMAIN_ACTIVE \<equiv> 0"
abbreviation PAUSE :: int where "PAUSE \<equiv> 1"
abbreviation DISENGAGE :: int where "DISENGAGE \<equiv> 2"

definition MADS_NO_ACC_MAIN_BUTTON :: "string list" where
  "MADS_NO_ACC_MAIN_BUTTON = [''rivian'', ''tesla'']"

text \<open>
  The car's parameters as the code tests them: the bits of the Hyundai and Tesla flags, whose
  values belong to the opendbc submodule, are given as booleans.
\<close>

record mads_car =
  brand :: string
  hyundai_lda_or_canfd :: bool
  tesla_has_vehicle_bus :: bool

record mads_params =
  p_Mads :: bool
  p_MadsMainCruiseAllowed :: bool
  p_MadsSteeringMode :: int
  p_MadsUnifiedEngagementMode :: bool
  p_DisengageOnAccelerator :: bool
  p_tesla_screen_button_off :: bool

definition get_mads_limited_brands :: "mads_car \<Rightarrow> mads_params \<Rightarrow> bool" where
  "get_mads_limited_brands cp ps =
     (if brand cp = ''rivian'' then True
      else if brand cp = ''tesla'' then
        if \<not> tesla_has_vehicle_bus cp then True else p_tesla_screen_button_off ps
      else False)"

definition read_steering_mode_param :: "mads_car \<Rightarrow> mads_params \<Rightarrow> int" where
  "read_steering_mode_param cp ps = (if get_mads_limited_brands cp ps then DISENGAGE else p_MadsSteeringMode ps)"

datatype alternative_experience_flag = ENABLE_MADS | MADS_DISENGAGE_LATERAL_ON_BRAKE | MADS_PAUSE_LATERAL_ON_BRAKE

definition set_alternative_experience :: "mads_car \<Rightarrow> mads_params \<Rightarrow> alternative_experience_flag set \<Rightarrow>
    alternative_experience_flag set" where
  \<comment> \<open>the flags of \<open>CP.alternativeExperience\<close>, as a set of named bits\<close>
  "set_alternative_experience cp ps flags =
     (let steering_mode = read_steering_mode_param cp ps in
      if p_Mads ps then
        let flags = insert ENABLE_MADS flags in
        if steering_mode = DISENGAGE then insert MADS_DISENGAGE_LATERAL_ON_BRAKE flags
        else if steering_mode = PAUSE then insert MADS_PAUSE_LATERAL_ON_BRAKE flags
        else flags
      else flags)"

definition set_car_specific_params :: "mads_car \<Rightarrow> mads_params \<Rightarrow> mads_params" where
  \<comment> \<open>the parameters it writes; removing \<open>MadsMainCruiseAllowed\<close> leaves it false. The bits it
      sets for Hyundai are read by no modelled code.\<close>
  "set_car_specific_params cp ps =
     (let ps1 = (if get_mads_limited_brands cp ps
                 then ps\<lparr>p_MadsSteeringMode := 2, p_MadsUnifiedEngagementMode := True\<rparr> else ps)
      in if brand cp \<in> set MADS_NO_ACC_MAIN_BUTTON then ps1\<lparr>p_MadsMainCruiseAllowed := False\<rparr> else ps1)"

section \<open>State\<close>

record mads =
  mads_enabled :: bool
  mads_active :: bool
  lateral_mismatch_counter :: nat
  mads_mode :: mads_state
  sd_enabled_prev :: bool
  allow_always :: bool
  no_main_cruise :: bool
  disengage_on_accelerator :: bool
  enabled_toggle :: bool
  main_enabled_toggle :: bool
  steering_mode_on_brake :: int
  unified_engagement_mode :: bool

definition mads_init :: "mads_car \<Rightarrow> mads_params \<Rightarrow> mads" where
  "mads_init cp ps =
     \<lparr>mads_enabled = False, mads_active = False, lateral_mismatch_counter = 0,
      mads_mode = Ms_disabled, sd_enabled_prev = False,
      allow_always = (brand cp = ''hyundai'' \<and> hyundai_lda_or_canfd cp \<or> brand cp = ''tesla''),
      no_main_cruise = (brand cp \<in> set MADS_NO_ACC_MAIN_BUTTON),
      disengage_on_accelerator = p_DisengageOnAccelerator ps,
      enabled_toggle = p_Mads ps,
      main_enabled_toggle = p_MadsMainCruiseAllowed ps,
      steering_mode_on_brake = read_steering_mode_param cp ps,
      unified_engagement_mode = p_MadsUnifiedEngagementMode ps\<rparr>"

definition mads_read_params :: "mads_params \<Rightarrow> mads \<Rightarrow> mads" where
  "mads_read_params ps m =
     m\<lparr>main_enabled_toggle := p_MadsMainCruiseAllowed ps,
       unified_engagement_mode := p_MadsUnifiedEngagementMode ps\<rparr>"

text \<open>What the system reads of the drive loop, and the messages of the frame.\<close>

record mads_env =
  sd_enabled :: bool
  sd_initialized :: bool
  sd_passive :: bool
  CS :: car_state
  CS_prev :: car_state
  pandaStates :: "panda_state list"

type_synonym stores = "events_state \<times> events_state"

section \<open>Rewriting the events\<close>

definition SET_SPEED_BUTTONS :: "button_type list" where
  "SET_SPEED_BUTTONS = [B_accelCruise, B_resumeCruise, B_decelCruise, B_setCruise]"

definition pedal_pressed_non_gas_pressed :: "mads \<Rightarrow> mads_env \<Rightarrow> events_state \<Rightarrow> bool" where
  "pedal_pressed_non_gas_pressed m env ev \<longleftrightarrow>
     ev_has EN_pedalPressed ev \<and>
     \<not> (gasPressed (CS env) \<and> \<not> gasPressed (CS_prev env) \<and> disengage_on_accelerator m)"

definition should_silent_lkas_enable :: "mads \<Rightarrow> mads_env \<Rightarrow> stores \<Rightarrow> bool" where
  "should_silent_lkas_enable m env st =
     (let (ev, sp) = st; cs = CS env in
      if steering_mode_on_brake m = PAUSE \<and>
         (brakePressed cs \<or> regenBraking cs \<or> pedal_pressed_non_gas_pressed m env ev) then False
      else if ev_contains_in_list GEARS_ALLOW_PAUSED_SILENT sp then False
      else True)"

definition block_unified_engagement_mode :: "mads \<Rightarrow> mads_env \<Rightarrow> bool" where
  "block_unified_engagement_mode m env =
     (if \<not> unified_engagement_mode m then True
      else if mads_enabled m then True
      else if sd_enabled env \<and> sd_enabled_prev m then True
      else False)"

definition add_sp :: "nat \<Rightarrow> stores \<Rightarrow> stores" where
  "add_sp e st = (fst st, ev_add e (snd st))"

definition remove_evs :: "nat list \<Rightarrow> stores \<Rightarrow> stores option" where
  "remove_evs es st = do { ev \<leftarrow> ev_remove_list es (fst st); Some (ev, snd st) }"

definition replace_event :: "nat \<Rightarrow> nat \<Rightarrow> stores \<Rightarrow> stores option" where
  "replace_event old new st = do { st \<leftarrow> remove_evs [old] st; Some (add_sp new st) }"

definition transition_paused_state :: "mads \<Rightarrow> stores \<Rightarrow> stores" where
  "transition_paused_state m st =
     (if mads_mode m \<noteq> Ms_paused then add_sp SP_silentLkasDisable st else st)"

definition get_wrong_car_mode :: "bool \<Rightarrow> stores \<Rightarrow> stores option" where
  "get_wrong_car_mode alert_only st =
     (if alert_only then
        if ev_has EN_wrongCarMode (fst st)
        then replace_event EN_wrongCarMode SP_wrongCarModeAlertOnly st
        else Some st
      else remove_evs [EN_wrongCarMode] st)"

definition pause_on :: "mads \<Rightarrow> bool \<Rightarrow> nat \<Rightarrow> nat \<Rightarrow> stores \<Rightarrow> stores option" where
  \<comment> \<open>\<open>if cond and self.events.has(old): replace_event(old, new); transition_paused_state()\<close>\<close>
  "pause_on m cond old new st =
     (if cond \<and> ev_has old (fst st)
      then do { st \<leftarrow> replace_event old new st; Some (transition_paused_state m st) }
      else Some st)"

definition wrong_gear_events :: "mads \<Rightarrow> car_state \<Rightarrow> stores \<Rightarrow> stores option" where
  "wrong_gear_events m cs st =
     (if gearShifter cs = Gear_park then
        do { st \<leftarrow> (if ev_has EN_wrongGear (fst st)
                  then replace_event EN_wrongGear SP_silentWrongGear st else Some st);
             Some (add_sp SP_lkasDisable st) }
      else pause_on m (vEgo cs < 5 / 2 \<or> gearShifter cs = Gear_reverse) EN_wrongGear SP_silentWrongGear st)"

definition lateral_only_events :: "mads \<Rightarrow> mads_env \<Rightarrow> stores \<Rightarrow> stores option" where
  \<comment> \<open>the block under \<open>if not self.selfdrive.enabled and self.enabled\<close>\<close>
  "lateral_only_events m env st =
     (let cs = CS env in
      do { st \<leftarrow> pause_on m (standstill cs) EN_doorOpen SP_silentDoorOpen st;
           st \<leftarrow> pause_on m (standstill cs) EN_seatbeltNotLatched SP_silentSeatbeltNotLatched st;
           st \<leftarrow> wrong_gear_events m cs st;
           st \<leftarrow> pause_on m True EN_reverseGear SP_silentReverseGear st;
           st \<leftarrow> pause_on m True EN_brakeHold SP_silentBrakeHold st;
           st \<leftarrow> pause_on m True EN_parkBrake SP_silentParkBrake st;
           let st = (if steering_mode_on_brake m = PAUSE \<and> pedal_pressed_non_gas_pressed m env (fst st)
                     then transition_paused_state m st else st);
           remove_evs [EN_preEnableStandstill, EN_belowEngageSpeed, EN_speedTooLow,
                       EN_cruiseDisabled, EN_manualRestart, EN_espActive] st })"

definition engagement_events :: "mads \<Rightarrow> mads_env \<Rightarrow> stores \<Rightarrow> stores option" where
  \<comment> \<open>wrong car mode, unified engagement and the main cruise switch\<close>
  "engagement_events m env st =
     (let cs = CS env;
          selfdrive_enable_events = ev_has EN_pcmEnable (fst st) \<or> ev_has EN_buttonEnable (fst st);
          set_speed_btns_enable = button_pressed_or_released SET_SPEED_BUTTONS cs
      in do { st \<leftarrow> get_wrong_car_mode (selfdrive_enable_events \<or> set_speed_btns_enable) st;
              if selfdrive_enable_events then
                do { let st = (if pedal_pressed_non_gas_pressed m env (fst st)
                               then add_sp SP_pedalPressedAlertOnly st else st);
                     if block_unified_engagement_mode m env
                     then remove_evs [EN_pcmEnable, EN_buttonEnable] st else Some st }
              else
                Some (if main_enabled_toggle m \<and> cruise_available (cruiseState cs) \<and>
                         \<not> cruise_available (cruiseState (CS_prev env))
                      then add_sp SP_lkasEnable st else st) })"

definition button_event_events :: "mads \<Rightarrow> mads_env \<Rightarrow> button_event \<Rightarrow> stores \<Rightarrow> stores" where
  "button_event_events m env be st =
     (let st = (if be_type be = B_cancel \<and> \<not> sd_enabled env \<and> sd_enabled_prev m
                then add_sp SP_manualLongitudinalRequired st else st)
      in if be_type be = B_lkas \<and> be_pressed be \<and>
            (cruise_available (cruiseState (CS env)) \<or> allow_always m) then
           if mads_enabled m then
             add_sp (if sd_enabled env then SP_manualSteeringRequired else SP_lkasDisable) st
           else add_sp SP_lkasEnable st
         else st)"

definition main_switch_events :: "mads \<Rightarrow> mads_env \<Rightarrow> stores \<Rightarrow> stores option" where
  "main_switch_events m env st =
     (if \<not> cruise_available (cruiseState (CS env)) \<and> \<not> no_main_cruise m then
        do { st \<leftarrow> remove_evs [EN_buttonEnable] st;
             Some (if cruise_available (cruiseState (CS_prev env)) then add_sp SP_lkasDisable st else st) }
      else Some st)"

definition brake_events :: "bool \<Rightarrow> mads \<Rightarrow> mads_env \<Rightarrow> stores \<Rightarrow> stores option" where
  \<comment> \<open>the block of the steering mode \<open>DISENGAGE\<close>; the store is asked whether it contains the
      number of an event as if it were an event type\<close>
  "brake_events mici m env st =
     (if steering_mode_on_brake m = DISENGAGE \<and> pedal_pressed_non_gas_pressed m env (fst st) then
        if mads_enabled m then Some (add_sp SP_lkasDisable st)
        else if ev_contains_key (EVENTS_SP mici) (snd st) (Key_int SP_lkasEnable) then
          do { sp \<leftarrow> ev_remove SP_lkasEnable (snd st);
               Some (add_sp SP_pedalPressedAlertOnly (fst st, sp)) }
        else Some st
      else Some st)"

definition common_events :: "bool \<Rightarrow> mads \<Rightarrow> mads_env \<Rightarrow> stores \<Rightarrow> stores option" where
  \<comment> \<open>the rest of \<open>update_events\<close>, after the block of the lateral only frames\<close>
  "common_events mici m env st =
     do { st \<leftarrow> engagement_events m env st;
          let st = fold (button_event_events m env) (buttonEvents (CS env)) st;
          st \<leftarrow> main_switch_events m env st;
          st \<leftarrow> brake_events mici m env st;
          let st = (if should_silent_lkas_enable m env st \<and> mads_mode m = Ms_paused
                    then add_sp SP_silentLkasEnable st else st);
          let st = (if 200 \<le> lateral_mismatch_counter m then add_sp SP_controlsMismatchLateral st else st);
          remove_evs [EN_pcmDisable, EN_buttonCancel, EN_pedalPressed, EN_wrongCruiseMode] st }"

definition mads_update_events :: "bool \<Rightarrow> mads \<Rightarrow> mads_env \<Rightarrow> stores \<Rightarrow> stores option" where
  "mads_update_events mici m env st =
     do { st \<leftarrow> (if \<not> sd_enabled env \<and> mads_enabled m then lateral_only_events m env st else Some st);
          common_events mici m env st }"

definition mads_data_sample :: "mads_env \<Rightarrow> mads \<Rightarrow> mads" where
  "mads_data_sample env m =
     (if \<not> mads_active m \<or> sd_enabled env then m\<lparr>lateral_mismatch_counter := 0\<rparr>
      else if list_ex (\<lambda>ps. \<not> controlsAllowedLateral ps)
                (filter (\<lambda>ps. safetyModel ps \<notin> set IGNORED_SAFETY_MODES) (pandaStates env))
      then m\<lparr>lateral_mismatch_counter := lateral_mismatch_counter m + 1\<rparr>
      else m)"

definition mads_update :: "bool \<Rightarrow> mads_env \<Rightarrow> mads \<times> ss_machine \<times> stores \<Rightarrow>
    (mads \<times> ss_machine \<times> stores) option" where
  "mads_update mici env mss =
     (let (m, s, st) = mss in
      if \<not> enabled_toggle m then Some (m, s, st)
      else
        let m = mads_data_sample env m in
        do { st \<leftarrow> mads_update_events mici m env st;
             let (m, s) =
               (if \<not> sd_passive env \<and> sd_initialized env then
                  let ((mm, s), enabled, active) =
                    mads_machine_update (mads_look mici (fst st) (snd st)) (sd_enabled env) (mads_mode m, s)
                  in (m\<lparr>mads_mode := mm, mads_enabled := enabled, mads_active := active\<rparr>, s)
                else (m, s));
             Some (m\<lparr>sd_enabled_prev := sd_enabled env\<rparr>, s, st) })"

section \<open>What the rewriting keeps\<close>

text \<open>
  The rewriting only removes events from the main store and only adds events to the other one.
  A property of the two stores that survives both is an invariant of the whole handler. The event
  \<open>silentLkasDisable\<close> is only added by a machine that is not paused, which the invariants of a
  paused machine may use.
\<close>

definition SP_added :: "nat set" where
  "SP_added = {e. e \<le> 24 \<and> e \<noteq> 13 \<and> e \<noteq> SP_silentLkasDisable}"

lemma SP_added_iff [simp]: "e \<in> SP_added \<longleftrightarrow> e \<le> 24 \<and> e \<noteq> 13 \<and> e \<noteq> SP_silentLkasDisable"
  by (simp add: SP_added_def)

locale stores_invariant =
  fixes P :: "stores \<Rightarrow> bool" and m :: mads
  assumes remove: "P st \<Longrightarrow> returns (remove_evs es st) P"
    and add: "P st \<Longrightarrow> e \<in> SP_added \<Longrightarrow> P (add_sp e st)"
    and add_silent: "P st \<Longrightarrow> mads_mode m \<noteq> Ms_paused \<Longrightarrow> P (add_sp SP_silentLkasDisable st)"
begin

lemma replace: "P st \<Longrightarrow> new \<in> SP_added \<Longrightarrow> returns (replace_event old new st) P"
  by (auto simp: replace_event_def wp add intro: returns_mono [OF remove])

lemma paused: "P st \<Longrightarrow> P (transition_paused_state m st)"
  by (simp add: transition_paused_state_def add_silent)

lemma pause_on: "P st \<Longrightarrow> new \<in> SP_added \<Longrightarrow> returns (pause_on m c old new st) P"
  by (auto simp: pause_on_def wp paused intro: returns_mono [OF replace])

lemma wrong_gear: "P st \<Longrightarrow> returns (wrong_gear_events m cs st) P"
  by (auto simp: wrong_gear_events_def wp add intro: pause_on returns_mono [OF replace])

lemma lateral_only: "P st \<Longrightarrow> returns (lateral_only_events m env st) P"
  unfolding lateral_only_events_def Let_def wp
  by (intro returns_mono [OF pause_on] returns_mono [OF wrong_gear] remove) (auto intro: paused)

lemma engagement_events: "P st \<Longrightarrow> returns (engagement_events m env st) P"
  unfolding engagement_events_def Let_def wp get_wrong_car_mode_def
  by (auto intro!: returns_mono [OF replace] returns_mono [OF remove] remove add)

lemma button_event: "P st \<Longrightarrow> P (button_event_events m env be st)"
  by (simp add: button_event_events_def Let_def add)

lemma button_events: "P st \<Longrightarrow> P (fold (button_event_events m env) bes st)"
  by (induction bes arbitrary: st) (simp_all add: button_event)

lemma main_switch: "P st \<Longrightarrow> returns (main_switch_events m env st) P"
  by (auto simp: main_switch_events_def wp add intro: returns_mono [OF remove])

lemma brake: "P st \<Longrightarrow> returns (brake_events mici m env st) P"
  by (simp add: brake_events_def add)

lemma common: "P st \<Longrightarrow> returns (common_events mici m env st) P"
  unfolding common_events_def Let_def wp
  by (intro returns_mono [OF engagement_events] returns_mono [OF main_switch] returns_mono [OF brake]
      remove button_events) (simp_all add: add)

lemma update_events: "P st \<Longrightarrow> returns (mads_update_events mici m env st) P"
  unfolding mads_update_events_def wp by (auto intro: common returns_mono [OF lateral_only])

end

definition stores_ok :: "stores \<Rightarrow> bool" where
  "stores_ok st \<longleftrightarrow> ev_ok EVENTS_keys (fst st) \<and> ev_ok EVENTS_SP_keys (snd st)"

lemma stores_ok_add_sp: "stores_ok st \<Longrightarrow> e \<le> 24 \<Longrightarrow> e \<noteq> 13 \<Longrightarrow> stores_ok (add_sp e st)"
  by (simp add: stores_ok_def add_sp_def ev_ok_add EVENTS_SP_keys_def)

lemma remove_evs_ok:
  "stores_ok st \<Longrightarrow> returns (remove_evs es st) (\<lambda>st'. stores_ok st' \<and> snd st' = snd st)"
  using ev_remove_list_total [of EVENTS_keys "fst st" es]
  by (auto simp: remove_evs_def stores_ok_def)

lemma ev_has_add_sp [simp]: "ev_has e (snd (add_sp d st)) \<longleftrightarrow> e = d \<or> ev_has e (snd st)"
  by (simp add: add_sp_def)

interpretation well_formed: stores_invariant stores_ok m for m
  by unfold_locales (auto simp: stores_ok_add_sp intro: returns_mono [OF remove_evs_ok])

interpretation keeps: stores_invariant "\<lambda>st. stores_ok st \<and> ev_has e (snd st)" m for e m
  by unfold_locales (auto simp: stores_ok_add_sp intro: returns_mono [OF remove_evs_ok])

interpretation not_silent: stores_invariant
    "\<lambda>st. stores_ok st \<and> (mads_mode m = Ms_paused \<longrightarrow> \<not> ev_has SP_silentLkasDisable (snd st))" m for m
  by unfold_locales (auto simp: stores_ok_add_sp intro: returns_mono [OF remove_evs_ok])

lemma SP_types:
  "list_all (\<lambda>(e, ts). (e = SP_lkasEnable \<longrightarrow> ts = [ENABLE]) \<and> (e = SP_silentLkasEnable \<longrightarrow> ts = [ENABLE]) \<and>
     (e = SP_lkasDisable \<longrightarrow> ts = [USER_DISABLE]) \<and> (e = SP_silentLkasDisable \<longrightarrow> ts = [USER_DISABLE]) \<and>
     (e = SP_silentParkBrake \<longrightarrow> ts = [WARNING, NO_ENTRY]) \<and>
     (e = SP_pedalPressedAlertOnly \<longrightarrow> ts = [WARNING])) (table_types (EVENTS_SP_list mici))"
  by (simp add: EVENTS_SP_list_def EVENTS_SP_defs)

lemma SP_types_of [simp]:
  "mapping_types (EVENTS_SP mici) SP_lkasEnable = [ENABLE]"
  "mapping_types (EVENTS_SP mici) SP_silentLkasEnable = [ENABLE]"
  "mapping_types (EVENTS_SP mici) SP_lkasDisable = [USER_DISABLE]"
  "mapping_types (EVENTS_SP mici) SP_silentLkasDisable = [USER_DISABLE]"
  "mapping_types (EVENTS_SP mici) SP_silentParkBrake = [WARNING, NO_ENTRY]"
  "mapping_types (EVENTS_SP mici) SP_pedalPressedAlertOnly = [WARNING]"
  using mapping_types_key [OF SP_types, of 0 mici] mapping_types_key [OF SP_types, of 4 mici]
    mapping_types_key [OF SP_types, of 1 mici] mapping_types_key [OF SP_types, of 5 mici]
    mapping_types_key [OF SP_types, of 11 mici] mapping_types_key [OF SP_types, of 16 mici]
  by (simp_all add: EVENTS_SP_def EVENTS_SP_list_keys EVENTS_SP_keys_def)

lemma SP_enabling_events:
  "ENABLE \<in> set (mapping_types (EVENTS_SP mici) e) \<Longrightarrow> e \<in> {SP_lkasEnable, SP_silentLkasEnable}"
  using mapping_types_all [OF enabling_types_SP, of mici e] unfolding EVENTS_SP_def [symmetric] by fastforce

lemma SP_lkasDisable_types [simp]: "mapping_types (EVENTS_SP mici) (Suc 0) = [USER_DISABLE]"
  using SP_types_of(3) by (simp only: One_nat_def)

section \<open>The update as a whole\<close>

definition mads_ok :: "mads \<Rightarrow> bool" where
  "mads_ok m \<longleftrightarrow> (mads_enabled m \<longleftrightarrow> mads_mode m \<in> set MADS_ENABLED_STATES) \<and>
     (mads_active m \<longleftrightarrow> mads_mode m \<in> set MADS_ACTIVE_STATES)"

definition mads_runs :: "mads \<Rightarrow> mads_env \<Rightarrow> bool" where
  \<comment> \<open>the frames in which the state machine is updated\<close>
  "mads_runs m env \<longleftrightarrow> enabled_toggle m \<and> \<not> sd_passive env \<and> sd_initialized env"

lemma mads_data_sample_simps [simp]:
  "mads_mode (mads_data_sample env m) = mads_mode m"
  "mads_enabled (mads_data_sample env m) = mads_enabled m"
  "mads_active (mads_data_sample env m) = mads_active m"
  "enabled_toggle (mads_data_sample env m) = enabled_toggle m"
  "steering_mode_on_brake (mads_data_sample env m) = steering_mode_on_brake m"
  by (simp_all add: mads_data_sample_def)

lemma mads_init_ok: "mads_ok (mads_init cp ps)"
  by (simp add: mads_ok_def mads_init_def)

lemma mads_frame:
  assumes "mads_runs m env"
    and "returns (mads_update_events mici (mads_data_sample env m) env st) Q"
    and "\<And>st' mm s' enabled active. Q st' \<Longrightarrow>
      mads_machine_update (mads_look mici (fst st') (snd st')) (sd_enabled env) (mads_mode m, s) =
        ((mm, s'), enabled, active) \<Longrightarrow>
      P ((mads_data_sample env m)\<lparr>mads_mode := mm, mads_enabled := enabled, mads_active := active,
           sd_enabled_prev := sd_enabled env\<rparr>, s', st')"
  shows "returns (mads_update mici env (m, s, st)) P"
proof -
  from assms(2) obtain st' where st': "mads_update_events mici (mads_data_sample env m) env st = Some st'" "Q st'"
    by (auto simp: returns_ex)
  obtain mm s' enabled active where
    u: "mads_machine_update (mads_look mici (fst st') (snd st')) (sd_enabled env) (mads_mode m, s) =
        ((mm, s'), enabled, active)" by (metis prod.exhaust)
  from assms(3) [OF st'(2) u] show ?thesis
    using assms(1) st'(1) u by (simp add: mads_runs_def mads_update_def Let_def)
qed

lemma mads_machine_flags:
  "mads_machine_update v sd ms = ((mm, s'), enabled, active) \<Longrightarrow>
     (enabled \<longleftrightarrow> mm \<noteq> Ms_disabled) \<and> (active \<longleftrightarrow> mm \<in> set MADS_ACTIVE_STATES)"
  by (auto simp: mads_machine_update_def Let_def simp del: mads_sets(1) split: prod.splits)

lemma mads_user_disable:
  "mads_machine_update v sd (m, s) = ((mm, s'), enabled, active) \<Longrightarrow> m \<noteq> Ms_disabled \<Longrightarrow>
     check_contains v USER_DISABLE \<Longrightarrow>
     mm = (if has_silentLkasDisable v then Ms_paused else Ms_disabled) \<and> \<not> active"
  by (cases "has_silentLkasDisable v") (auto simp: mads_machine_update_def mads_transition_def Let_def)

lemma mads_enters:
  "mads_machine_update v sd (Ms_disabled, s) = ((mm, s'), enabled, active) \<Longrightarrow>
     check_contains v ENABLE \<Longrightarrow> \<not> check_contains v NO_ENTRY \<Longrightarrow> active"
  by (auto simp: mads_machine_update_def mads_transition_def Let_def split: if_splits)

lemma mads_quiet:
  "mads_machine_update v sd (Ms_enabled, s) = ((mm, s'), enabled, active) \<Longrightarrow>
     (\<And>et. \<not> check_contains v et) \<Longrightarrow> mm = Ms_enabled"
  by (auto simp: mads_machine_update_def mads_transition_def Let_def)

lemma mads_machine_ss_state:
  assumes "mads_machine_update v sd ms = ((mm, s'), enabled, active)" shows "ss_state s' = ss_state (snd ms)"
proof -
  obtain m1 s1 where t: "mads_transition v sd ms = (m1, s1)" by fastforce
  have "ss_state s1 = ss_state (snd ms)" using mads_keeps_ss_state [of v sd ms] by (simp add: t)
  moreover have "s' = (if active then add_current_alert_types sd WARNING s1 else s1)"
    using assms by (auto simp: mads_machine_update_def t Let_def)
  ultimately show ?thesis by simp
qed

lemma mads_update_total:
  assumes "stores_ok st" and "mads_ok m"
  shows "returns (mads_update mici env (m, s, st)) (\<lambda>(m', s', st'). stores_ok st' \<and> mads_ok m' \<and> ss_state s' = ss_state s)"
proof (cases "mads_runs m env")
  case True
  show ?thesis
    by (rule mads_frame [OF True well_formed.update_events [OF assms(1)]])
      (use mads_machine_flags mads_machine_ss_state in \<open>auto simp: mads_ok_def\<close>)
next
  case False
  then show ?thesis
    using well_formed.update_events [OF assms(1), of mici "mads_data_sample env m" env] assms
    by (auto simp: mads_runs_def mads_update_def wp Let_def mads_ok_def elim!: returns_mono)
qed

text \<open>
  The assistance never raises: on well-formed stores, whatever the car state, the buttons and
  the parameters, its update of a frame returns; both stores stay well-formed, and its flags
  \<open>enabled\<close> and \<open>active\<close> agree with the state of its machine.
\<close>

theorem mads_update_returns:
  assumes "stores_ok st" and "mads_ok m"
  shows "returns (mads_update mici env (m, s, st)) (\<lambda>(m', s', st'). stores_ok st' \<and> mads_ok m')"
  by (rule returns_mono [OF mads_update_total [OF assms]]) auto

lemma park_disable_event:
  assumes "stores_ok st" and "gearShifter cs = Gear_park" and "e = SP_lkasDisable"
  shows "returns (wrong_gear_events m cs st) (\<lambda>st. stores_ok st \<and> ev_has e (snd st))"
  using assms
  by (auto simp: wrong_gear_events_def wp stores_ok_add_sp intro: returns_mono [OF well_formed.replace])

lemma park_lateral_only:
  assumes "stores_ok st" and "gearShifter (CS env) = Gear_park" and e: "e = SP_lkasDisable"
  shows "returns (lateral_only_events m env st) (\<lambda>st. stores_ok st \<and> ev_has e (snd st))"
  unfolding lateral_only_events_def Let_def wp
  by (rule returns_mono [OF well_formed.pause_on], rule assms, simp,
      rule returns_mono [OF well_formed.pause_on], assumption, simp,
      rule returns_mono [OF park_disable_event [OF _ assms(2) e]], assumption)
    (intro returns_mono [OF keeps.pause_on [where e = e]] keeps.remove [where e = e];
      use keeps.paused [of _ e m] in simp)

lemma park_events:
  assumes "stores_ok st" and "gearShifter (CS env) = Gear_park" and "\<not> sd_enabled env" "mads_enabled m"
  shows "returns (mads_update_events mici m env st) (\<lambda>st. stores_ok st \<and> ev_has SP_lkasDisable (snd st))"
  unfolding mads_update_events_def wp using assms(3,4)
  by (simp only: simp_thms if_True not_False_eq_True)
    (rule returns_mono [OF park_lateral_only [OF assms(1,2) refl]], erule keeps.common)

lemma not_silent_events:
  assumes "stores_ok st" and "mads_mode m = Ms_paused" and "\<not> ev_has SP_silentLkasDisable (snd st)"
  shows "returns (mads_update_events mici m env st) (\<lambda>st. \<not> ev_has SP_silentLkasDisable (snd st))"
  by (rule returns_mono [OF not_silent.update_events]) (use assms in auto)

text \<open>
  Park takes lateral control away. In a frame in which the car is in park, the assistance is
  enabled and the drive machine is not, lateral control is inactive after the update whatever the
  other events are; a machine that was paused is disabled, unless the car's own events ask for a
  silent disable. (A machine that was active may only be paused by this frame, when a door, a belt
  or the parking brake asks for a pause as well.)
\<close>

theorem park_stops_lateral:
  assumes "stores_ok st" and "mads_ok m" and "mads_enabled m" and "mads_runs m env"
    and "gearShifter (CS env) = Gear_park" and "\<not> sd_enabled env"
  shows "returns (mads_update mici env (m, s, st)) (\<lambda>(m', s', st'). \<not> mads_active m' \<and>
     (mads_mode m = Ms_paused \<longrightarrow> \<not> ev_has SP_silentLkasDisable (snd st) \<longrightarrow> mads_mode m' = Ms_disabled))"
proof -
  let ?m = "mads_data_sample env m"
  have events: "returns (mads_update_events mici ?m env st) (\<lambda>st'. ev_has SP_lkasDisable (snd st') \<and>
      (mads_mode m = Ms_paused \<longrightarrow> \<not> ev_has SP_silentLkasDisable (snd st) \<longrightarrow>
        \<not> ev_has SP_silentLkasDisable (snd st')))"
    using park_events [of st env ?m mici] not_silent_events [of st ?m mici env] assms
    by (auto simp: returns_ex)
  have "mads_mode m \<noteq> Ms_disabled" using assms(2,3) by (simp add: mads_ok_def)
  show ?thesis
  proof (rule mads_frame [OF assms(4) events])
    fix st' mm s' enabled active
    assume st': "ev_has SP_lkasDisable (snd st') \<and> (mads_mode m = Ms_paused \<longrightarrow>
        \<not> ev_has SP_silentLkasDisable (snd st) \<longrightarrow> \<not> ev_has SP_silentLkasDisable (snd st'))"
      and u: "mads_machine_update (mads_look mici (fst st') (snd st')) (sd_enabled env) (mads_mode m, s) =
        ((mm, s'), enabled, active)"
    from st' have "check_contains (mads_look mici (fst st') (snd st')) USER_DISABLE"
      by (auto simp: mads_look_def ev_contains_iff intro!: exI [of _ SP_lkasDisable])
    from mads_user_disable [OF u \<open>mads_mode m \<noteq> Ms_disabled\<close> this] st'
    show "case (?m\<lparr>mads_mode := mm, mads_enabled := enabled, mads_active := active,
             sd_enabled_prev := sd_enabled env\<rparr>, s', st') of (m', s', st') \<Rightarrow>
         \<not> mads_active m' \<and> (mads_mode m = Ms_paused \<longrightarrow> \<not> ev_has SP_silentLkasDisable (snd st) \<longrightarrow>
           mads_mode m' = Ms_disabled)"
      by (simp add: mads_look_def)
  qed
qed

section \<open>Single frames\<close>

text \<open>Evaluation of a frame whose stores hold few events.\<close>

lemma pedal_counter:
  assumes "stores_ok st"
  shows "\<exists>c. ev_counters (fst st) EN_pedalPressed = Some c"
proof -
  have "EN_pedalPressed \<in> EVENTS_keys" by (simp add: EVENTS_keys_def)
  then show ?thesis using assms unfolding stores_ok_def ev_ok_def by blast
qed

lemmas frame_defs = mads_update_events_def common_events_def engagement_events_def get_wrong_car_mode_def
  replace_event_def transition_paused_state_def pause_on_def wrong_gear_events_def lateral_only_events_def
  button_event_events_def main_switch_events_def brake_events_def remove_evs_def add_sp_def
  should_silent_lkas_enable_def pedal_pressed_non_gas_pressed_def button_pressed_or_released_def
  ev_has_def ev_remove_def ev_add_def ev_contains_in_list_def Let_def

text \<open>
  The brake does not hold back a request to engage. In the steering mode \<open>DISENGAGE\<close> the
  code means to drop a request that comes while the pedal is pressed and to alert instead, but it
  asks the store for an event type with the number of an event, which is never found: a press of
  the lane keeping button in the very frame of the brake press engages lateral control.
\<close>

theorem brake_press_does_not_block_engaging:
  assumes "stores_ok st" and "mads_ok m" and "mads_runs m env" and "mads_mode m = Ms_disabled"
    and "steering_mode_on_brake m = DISENGAGE" and "\<not> sd_enabled env"
    and "ev_events (fst st) = [EN_pedalPressed]" and "ev_events (snd st) = []"
    and "buttonEvents (CS env) = [\<lparr>be_type = B_lkas, be_pressed = True\<rparr>]"
    and "cruise_available (cruiseState (CS env))"
  shows "returns (mads_update mici env (m, s, st)) (\<lambda>(m', s', st'). mads_active m')"
proof -
  obtain c where c: "ev_counters (fst st) EN_pedalPressed = Some c"
    using pedal_counter [OF assms(1)] by blast
  let ?m = "mads_data_sample env m"
  have "\<not> mads_enabled m" "lateral_mismatch_counter ?m = 0"
    using assms(2,4) by (simp_all add: mads_ok_def mads_data_sample_def)
  then have "returns (mads_update_events mici ?m env st) (\<lambda>st'. ev_events (fst st') = [] \<and>
      ev_has SP_lkasEnable (snd st') \<and> set (ev_events (snd st')) \<subseteq> {SP_lkasEnable})"
    using assms c by (simp add: frame_defs)
  then show ?thesis
  proof (rule mads_frame [OF assms(3)], goal_cases)
    case (1 st' mm s' enabled active)
    then have "check_contains (mads_look mici (fst st') (snd st')) ENABLE"
      "\<not> check_contains (mads_look mici (fst st') (snd st')) NO_ENTRY"
      by (auto simp: mads_look_def ev_contains_def ev_has_def list_ex_iff intro!: bexI [of _ SP_lkasEnable])
    with 1(2) assms(4) mads_enters show ?case by auto
  qed
qed

text \<open>
  What a brake press does to lateral control while only the assistance is engaged is the
  steering mode's choice: it pauses, it ends, or it goes on.
\<close>

theorem brake_press_response:
  assumes "stores_ok st" and "mads_ok m" and "mads_runs m env" and "mads_mode m = Ms_enabled"
    and "\<not> sd_enabled env" and "lateral_mismatch_counter m < 199"
    and "ev_events (fst st) = [EN_pedalPressed]" and "ev_events (snd st) = []"
    and "buttonEvents (CS env) = []" and "gearShifter (CS env) = Gear_drive" and "\<not> gasPressed (CS env)"
    and "cruise_available (cruiseState (CS env))" and "cruise_available (cruiseState (CS_prev env))"
  shows "returns (mads_update mici env (m, s, st)) (\<lambda>(m', s', st'). mads_mode m' =
     (if steering_mode_on_brake m = PAUSE then Ms_paused
      else if steering_mode_on_brake m = DISENGAGE then Ms_disabled else Ms_enabled))"
proof -
  obtain c where c: "ev_counters (fst st) EN_pedalPressed = Some c"
    using pedal_counter [OF assms(1)] by blast
  let ?m = "mads_data_sample env m"
  have "mads_enabled m" "lateral_mismatch_counter ?m < 200"
    using assms(2,4,6) by (simp_all add: mads_ok_def mads_data_sample_def)
  then have "returns (mads_update_events mici ?m env st) (\<lambda>st'. ev_events (fst st') = [] \<and>
      ev_events (snd st') = (if steering_mode_on_brake m = PAUSE then [SP_silentLkasDisable]
        else if steering_mode_on_brake m = DISENGAGE then [SP_lkasDisable] else []))"
    using assms c by (simp add: frame_defs)
  then show ?thesis
  proof (rule mads_frame [OF assms(3)], goal_cases)
    case (1 st' mm s' enabled active)
    note u = 1(2) [unfolded assms(4)]
    show ?case
      using 1(1) mads_user_disable [OF u] mads_quiet [OF u]
      by (auto simp: mads_look_def ev_contains_def ev_has_def split: if_splits)
  qed
qed

section \<open>Runs over the events of the drive loop\<close>

text \<open>
  A frame of a run: the main store before the rewriting, and the two stores after it.
\<close>

record duo_frame =
  before :: events_state
  after :: events_state
  after_sp :: events_state

definition duo_frame_input :: "bool \<Rightarrow> duo_frame \<Rightarrow> duo_input" where
  "duo_frame_input mici f =
     \<lparr>drive = ev_contains (EVENTS mici) (before f), assist = mads_look mici (after f) (after_sp f)\<rparr>"

definition duo_run :: "bool \<Rightarrow> duo_frame list \<Rightarrow> ss_machine \<times> mads_state \<Rightarrow> ss_machine \<times> mads_state" where
  "duo_run mici fs = fold duo_step (map (duo_frame_input mici) fs)"

definition mads_contains :: "bool \<Rightarrow> duo_frame \<Rightarrow> ET \<Rightarrow> bool" where
  "mads_contains mici f = check_contains (mads_look mici (after f) (after_sp f))"

definition lateral_request :: "duo_frame \<Rightarrow> bool" where
  "lateral_request f \<longleftrightarrow> ev_has EN_pcmEnable (after f) \<or> ev_has EN_buttonEnable (after f) \<or>
     ev_has SP_lkasEnable (after_sp f) \<or> ev_has SP_silentLkasEnable (after_sp f)"

lemma mads_contains_ENABLE: "mads_contains mici f ENABLE \<Longrightarrow> lateral_request f"
  by (auto simp: mads_contains_def mads_look_def ev_contains_iff lateral_request_def
      dest!: enabling_events SP_enabling_events)

text \<open>
  C32. A lateral disengagement holds. Once an active assistance sees a user or immediate disable
  event, lateral control is inactive, and it stays so through any number of frames in which no
  request (of the buttons, the PCM, or a silent one) comes without a no entry event, whatever the
  drive machine does meanwhile.
\<close>

theorem lateral_disengagement_holds:
  assumes "snd sm \<in> set MADS_ACTIVE_STATES"
    and "mads_contains mici f USER_DISABLE \<or> mads_contains mici f IMMEDIATE_DISABLE"
    and "\<forall>g \<in> set fs. lateral_request g \<longrightarrow> mads_contains mici g NO_ENTRY"
  shows "snd (duo_run mici (f # fs) sm) \<notin> set MADS_ACTIVE_STATES"
proof -
  have "\<not> lat_entry (duo_frame_input mici g)" if "g \<in> set fs" for g
    using assms(3) that mads_contains_ENABLE [of mici g]
    by (auto simp: lat_entry_def duo_frame_input_def mads_contains_def)
  then have "\<not> lat_on (fold duo_step (map (duo_frame_input mici) (f # fs)) sm)"
    using duo.killed_until_entry [of sm "duo_frame_input mici f" "map (duo_frame_input mici) fs"] assms(1,2)
    by (auto simp: lat_on_def lat_kill_def duo_frame_input_def mads_contains_def)
  then show ?thesis by (simp add: duo_run_def lat_on_def)
qed

lemma duo_left_bound: "duo_inv sm \<Longrightarrow> lat_left sm \<le> 303"
  by (cases sm) (auto simp: duo_inv_def lat_left_def split: mads_state.split op_state.split)

text \<open>
  A soft disable ends lateral control too: if one soft disable event other than big model
  failed persists, before and after the rewriting, and no pre-enable event does, then lateral
  control is inactive after 304 frames or more, although the countdown belongs to the drive
  machine, which may be enabled, overriding, counting already or off.
\<close>

theorem lateral_soft_disable_ends:
  assumes "duo_reachable sm"
    and "SOFT_DISABLE \<in> set (mapping_types (EVENTS mici) d)" and "d \<noteq> EN_bigModelFailed"
    and "\<forall>f \<in> set fs. ev_has d (before f) \<and> ev_has d (after f) \<and> \<not> ev_has EN_preEnableStandstill (before f)"
    and "304 \<le> length fs"
  shows "snd (duo_run mici fs sm) \<notin> set MADS_ACTIVE_STATES"
proof -
  have "lat_fault (duo_frame_input mici f)" if "f \<in> set fs" for f
    using assms(2-4) that soft_disable_blocks_entry [OF assms(2,3)]
    by (auto simp: lat_fault_def ss_fault_def duo_frame_input_def mads_look_def ev_contains_iff
        dest: pre_enabling_events)
  moreover have "lat_left sm < length fs"
    using duo_left_bound [OF duo_reachable_inv [OF assms(1)]] assms(5) by simp
  ultimately have "\<not> lat_on (fold duo_step (map (duo_frame_input mici) fs) sm)"
    by (intro duo.fault_ends) auto
  then show ?thesis by (simp add: duo_run_def lat_on_def)
qed

section \<open>Concrete instances\<close>

definition mads_at :: "mads_state \<Rightarrow> int \<Rightarrow> mads" where
  \<comment> \<open>a system with the toggle on, in a given state of its machine and steering mode\<close>
  "mads_at mm mode = (mads_init \<lparr>brand = ''toyota'', hyundai_lda_or_canfd = False, tesla_has_vehicle_bus = False\<rparr>
       \<lparr>p_Mads = True, p_MadsMainCruiseAllowed = True, p_MadsSteeringMode = mode,
        p_MadsUnifiedEngagementMode = True, p_DisengageOnAccelerator = False,
        p_tesla_screen_button_off = False\<rparr>)
     \<lparr>mads_mode := mm, mads_enabled := mm \<in> set MADS_ENABLED_STATES, mads_active := mm \<in> set MADS_ACTIVE_STATES\<rparr>"

definition env_at :: "gear_shifter \<Rightarrow> button_event list \<Rightarrow> mads_env" where
  "env_at g bes =
     (let cs = cs_default\<lparr>gearShifter := g, buttonEvents := bes,
                cruiseState := (cruiseState cs_default)\<lparr>cruise_available := True\<rparr>\<rparr>
      in \<lparr>sd_enabled = False, sd_initialized = True, sd_passive = False, CS = cs, CS_prev = cs, pandaStates = []\<rparr>)"

definition stores_at :: "nat list \<Rightarrow> stores" where
  "stores_at es = (ev_store es, EventsSP_init False)"

lemma stores_at_ok [simp]: "set es \<subseteq> EVENTS_keys \<Longrightarrow> stores_ok (stores_at es)"
  by (simp add: stores_ok_def stores_at_def ev_store_def ev_ok_add_from_msg Events_init_ok EventsSP_init_ok)

lemma mads_at_simps [simp]:
  "mads_ok (mads_at mm mode)" "mads_mode (mads_at mm mode) = mm"
  "mads_enabled (mads_at mm mode) = (mm \<noteq> Ms_disabled)" "steering_mode_on_brake (mads_at mm mode) = mode"
  "lateral_mismatch_counter (mads_at mm mode) = 0" "enabled_toggle (mads_at mm mode)"
  by (simp_all add: mads_at_def mads_ok_def mads_init_def read_steering_mode_param_def get_mads_limited_brands_def)

lemma env_at_simps [simp]:
  "\<not> sd_enabled (env_at g bes)" "gearShifter (CS (env_at g bes)) = g" "buttonEvents (CS (env_at g bes)) = bes"
  "cruise_available (cruiseState (CS (env_at g bes)))" "cruise_available (cruiseState (CS_prev (env_at g bes)))"
  "\<not> gasPressed (CS (env_at g bes))" "\<not> sd_passive (env_at g bes)" "sd_initialized (env_at g bes)"
  by (simp_all add: env_at_def cs_default_def Let_def)

lemma stores_at_events [simp]:
  "ev_events (fst (stores_at [e])) = [e]" "ev_events (EventsSP_init False) = []" "snd (stores_at es) = EventsSP_init False"
  by (simp_all add: stores_at_def ev_store_def ev_add_def Events_init_def EventsSP_init_def ev_init_def)

theorem mads_update_returns_witness:
  "mads_update False (env_at Gear_park []) (mads_at Ms_paused PAUSE, ss_init, stores_at [EN_parkBrake]) \<noteq> None"
  using mads_update_returns [of "stores_at [EN_parkBrake]" "mads_at Ms_paused PAUSE" False "env_at Gear_park []" ss_init]
  by (auto simp: EVENTS_keys_def returns_ex)

theorem park_stops_lateral_witness:
  "returns (mads_update False (env_at Gear_park []) (mads_at Ms_paused PAUSE, ss_init, stores_at [EN_parkBrake]))
     (\<lambda>(m', s', st'). mads_mode m' = Ms_disabled)"
  by (rule returns_mono [OF park_stops_lateral])
    (auto simp: mads_runs_def EVENTS_keys_def ev_has_def EventsSP_init_def ev_init_def)

theorem brake_press_does_not_block_engaging_witness:
  "returns (mads_update False (env_at Gear_drive [\<lparr>be_type = B_lkas, be_pressed = True\<rparr>])
      (mads_at Ms_disabled DISENGAGE, ss_init, stores_at [EN_pedalPressed])) (\<lambda>(m', s', st'). mads_active m')"
  by (rule brake_press_does_not_block_engaging) (simp_all add: mads_runs_def EVENTS_keys_def)

theorem brake_press_response_witness:
  "returns (mads_update False (env_at Gear_drive []) (mads_at Ms_enabled PAUSE, ss_init, stores_at [EN_pedalPressed]))
     (\<lambda>(m', s', st'). mads_mode m' = Ms_paused)"
  using brake_press_response [of "stores_at [EN_pedalPressed]" "mads_at Ms_enabled PAUSE" "env_at Gear_drive []" False ss_init]
  by (simp add: mads_runs_def EVENTS_keys_def)

definition frame_at :: "nat list \<Rightarrow> nat list \<Rightarrow> duo_frame" where
  "frame_at es sps = \<lparr>before = ev_store es, after = ev_store es,
     after_sp = ev_add_from_msg sps (EventsSP_init False)\<rparr>"

lemma frame_at_simps [simp]:
  "ev_has e (before (frame_at es sps)) \<longleftrightarrow> e \<in> set es"
  "ev_has e (after (frame_at es sps)) \<longleftrightarrow> e \<in> set es"
  "ev_has e (after_sp (frame_at es sps)) \<longleftrightarrow> e \<in> set sps"
  by (simp_all add: frame_at_def) (simp add: ev_has_def EventsSP_init_def ev_init_def)

lemma mads_contains_frame_at:
  "mads_contains False (frame_at es sps) et \<longleftrightarrow>
     (\<exists>e \<in> set es. et \<in> set (mapping_types (EVENTS False) e)) \<or>
     (\<exists>e \<in> set sps. et \<in> set (mapping_types (EVENTS_SP False) e))"
  by (auto simp: mads_contains_def mads_look_def ev_contains_iff)

theorem lateral_disengagement_holds_witness:
  "snd (duo_run False [frame_at [] [SP_lkasDisable], frame_at [] [], frame_at [EN_overheat] [SP_lkasEnable]]
      (ss_init, Ms_enabled)) \<notin> set MADS_ACTIVE_STATES"
  by (rule lateral_disengagement_holds) (auto simp: mads_contains_frame_at lateral_request_def)

theorem lateral_soft_disable_ends_witness:
  "snd (duo_run False (replicate 304 (frame_at [EN_overheat] [SP_lkasEnable]))
      (duo_step \<lparr>drive = \<lambda>_. False, assist = mads_look False (ev_store []) (ev_store [SP_lkasEnable])\<rparr>
        (ss_init, Ms_disabled))) \<notin> set MADS_ACTIVE_STATES"
  by (rule lateral_soft_disable_ends [where d = EN_overheat])
    (simp_all add: duo_reachable.intros)

end
