(* ===== verification/StatLive.thy ===== *)
theory StatLive
  imports Prelude
begin

text \<open>
  The running statistics of \<^verbatim>\<open>common/stat_live.py\<close> (Welford's recurrences with a bounded
  memory) and the first order filter of \<^verbatim>\<open>common/filter_simple.py\<close>.
\<close>

section \<open>Running mean and variance\<close>

record running_stat =
  max_trackable :: int
  rs_M :: real
  rs_S :: real
  rs_M_last :: real
  rs_S_last :: real
  rs_n :: int

definition rs_reset :: "running_stat \<Rightarrow> running_stat" where
  "rs_reset s = s\<lparr>rs_M := 0, rs_S := 0, rs_M_last := 0, rs_S_last := 0, rs_n := 0\<rparr>"

definition RunningStat :: "(real \<times> real \<times> int) option \<Rightarrow> int \<Rightarrow> running_stat" where
  "RunningStat priors mt =
     (case priors of
        Some (M, S, n) \<Rightarrow> \<lparr>max_trackable = mt, rs_M = M, rs_S = S, rs_M_last = M, rs_S_last = S, rs_n = n\<rparr>
      | None \<Rightarrow> \<lparr>max_trackable = mt, rs_M = 0, rs_S = 0, rs_M_last = 0, rs_S_last = 0, rs_n = 0\<rparr>)"

definition push_data :: "real \<Rightarrow> running_stat \<Rightarrow> running_stat" where
  "push_data x s =
     (let n = (if max_trackable s < 0 \<or> rs_n s < max_trackable s then rs_n s + 1 else rs_n s);
          s = s\<lparr>rs_n := n\<rparr>
      in if n = 0 then s\<lparr>rs_M_last := x, rs_M := x, rs_S_last := 0\<rparr>
         else
           let M = rs_M_last s + (x - rs_M_last s) / of_int n;
               S = rs_S_last s + (x - rs_M_last s) * (x - M)
           in s\<lparr>rs_M := M, rs_S := S, rs_M_last := M, rs_S_last := S\<rparr>)"

definition rs_variance :: "running_stat \<Rightarrow> real" where
  "rs_variance s = (if 2 \<le> rs_n s then rs_S s / (of_int (rs_n s) - 1) else 0)"

definition rs_std :: "running_stat \<Rightarrow> real" where
  "rs_std s = sqrt (rs_variance s)"

record running_stat_filter =
  raw_stat :: running_stat
  filtered_stat :: running_stat

definition RunningStatFilter :: "(real \<times> real \<times> int) option \<Rightarrow> int \<Rightarrow> running_stat_filter" where
  \<comment> \<open>the code never gives priors to the filtered statistics\<close>
  "RunningStatFilter raw_priors mt =
     \<lparr>raw_stat = RunningStat raw_priors (-1), filtered_stat = RunningStat None mt\<rparr>"

definition rsf_reset :: "running_stat_filter \<Rightarrow> running_stat_filter" where
  "rsf_reset f = f\<lparr>raw_stat := rs_reset (raw_stat f), filtered_stat := rs_reset (filtered_stat f)\<rparr>"

definition push_and_update :: "real \<Rightarrow> running_stat_filter \<Rightarrow> running_stat_filter" where
  "push_and_update x f =
     (let std_last = rs_std (raw_stat f);
          f = f\<lparr>raw_stat := push_data x (raw_stat f)\<rparr>;
          delta_std = rs_std (raw_stat f) - std_last
      in if delta_std \<le> 0 then f\<lparr>filtered_stat := push_data x (filtered_stat f)\<rparr> else f)"

section \<open>First order filter\<close>

record first_order_filter =
  fo_x :: real
  fo_dt :: real
  fo_alpha :: real
  fo_initialized :: bool

definition FirstOrderFilter :: "real \<Rightarrow> real \<Rightarrow> real \<Rightarrow> bool \<Rightarrow> first_order_filter" where
  "FirstOrderFilter x0 rc dt init = \<lparr>fo_x = x0, fo_dt = dt, fo_alpha = dt / (rc + dt), fo_initialized = init\<rparr>"

definition fo_update_alpha :: "real \<Rightarrow> first_order_filter \<Rightarrow> first_order_filter" where
  "fo_update_alpha rc f = f\<lparr>fo_alpha := fo_dt f / (rc + fo_dt f)\<rparr>"

definition fo_update :: "real \<Rightarrow> first_order_filter \<Rightarrow> first_order_filter" where
  "fo_update x f =
     (if fo_initialized f then f\<lparr>fo_x := (1 - fo_alpha f) * fo_x f + fo_alpha f * x\<rparr>
      else f\<lparr>fo_initialized := True, fo_x := x\<rparr>)"

section \<open>Welford's recurrences\<close>

text \<open>The specification: the sum of the squared deviations from the mean of the data.\<close>

definition mean_of :: "real list \<Rightarrow> real" where
  "mean_of xs = sum_list xs / of_nat (length xs)"

definition sq_dev :: "real \<Rightarrow> real list \<Rightarrow> real" where
  "sq_dev m xs = (\<Sum>x\<leftarrow>xs. (x - m)\<^sup>2)"

lemma sq_dev_shift: "sq_dev m xs = (\<Sum>x\<leftarrow>xs. x\<^sup>2) - 2 * m * sum_list xs + of_nat (length xs) * m\<^sup>2"
  unfolding sq_dev_def by (induction xs) (simp_all add: power2_eq_square algebra_simps)

lemma sq_dev_snoc:
  assumes "xs \<noteq> []"
  shows "sq_dev (mean_of (xs @ [x])) (xs @ [x]) =
    sq_dev (mean_of xs) xs + (x - mean_of xs) * (x - mean_of (xs @ [x]))"
proof -
  define n where "n = real (length xs)"
  define a where "a = mean_of xs"
  have n: "n > 0" using assms by (simp add: n_def)
  have s: "sum_list xs = n * a" using n by (simp add: a_def mean_of_def n_def)
  have b: "mean_of (xs @ [x]) = (n * a + x) / (n + 1)"
    by (simp add: mean_of_def s n_def [symmetric] add.commute)
  define d where "d = mean_of (xs @ [x])"
  have nd: "(n + 1) * d = n * a + x" using n by (simp add: d_def b)
  then have x: "x = (n + 1) * d - n * a" by simp
  show ?thesis
    unfolding sq_dev_shift a_def [symmetric] d_def [symmetric] sum_list_append map_append length_append
    by (simp add: s n_def [symmetric]) (simp add: x power2_eq_square algebra_simps)
qed

lemma mean_snoc:
  assumes "xs \<noteq> []"
  shows "mean_of (xs @ [x]) = mean_of xs + (x - mean_of xs) / (real (length xs) + 1)"
proof -
  define n where "n = real (length xs)"
  have n: "n > 0" using assms by (simp add: n_def)
  have s: "sum_list xs = n * mean_of xs" using n by (simp add: mean_of_def n_def)
  have "mean_of (xs @ [x]) = (n * mean_of xs + x) / (n + 1)"
    by (simp add: mean_of_def [of "xs @ [x]"] s n_def [symmetric] add.commute)
  also have "\<dots> = mean_of xs + (x - mean_of xs) / (n + 1)" using n by (simp add: field_simps)
  finally show ?thesis by (simp add: n_def)
qed

lemma push_data_snoc:
  assumes "xs \<noteq> []" "max_trackable s < 0" "rs_n s = int (length xs)"
    and "rs_M s = mean_of xs" "rs_S s = sq_dev (mean_of xs) xs" "rs_M_last s = rs_M s" "rs_S_last s = rs_S s"
  shows "rs_M (push_data x s) = mean_of (xs @ [x]) \<and>
    rs_S (push_data x s) = sq_dev (mean_of (xs @ [x])) (xs @ [x])"
proof -
  have "rs_M (push_data x s) = mean_of (xs @ [x])"
    "rs_S (push_data x s) = sq_dev (mean_of xs) xs + (x - mean_of xs) * (x - rs_M (push_data x s))"
    using assms by (simp_all add: push_data_def Let_def mean_snoc add.commute)
  then show ?thesis using sq_dev_snoc [OF assms(1), of x] by simp
qed

lemma push_data_unbounded:
  assumes "max_trackable s < 0" "0 \<le> rs_n s"
  shows "rs_n (push_data x s) = rs_n s + 1" "max_trackable (push_data x s) = max_trackable s"
    "rs_M_last (push_data x s) = rs_M (push_data x s)" "rs_S_last (push_data x s) = rs_S (push_data x s)"
  using assms by (simp_all add: push_data_def Let_def)

lemma fold_push_data:
  assumes "xs \<noteq> []" "mt < 0"
  defines "s \<equiv> fold push_data xs (RunningStat None mt)"
  shows "max_trackable s = mt \<and> rs_n s = int (length xs) \<and> rs_M s = mean_of xs \<and>
    rs_S s = sq_dev (mean_of xs) xs \<and> rs_M_last s = rs_M s \<and> rs_S_last s = rs_S s"
  using assms(1) unfolding s_def
proof (induction xs rule: rev_nonempty_induct)
  case (single x)
  then show ?case
    using assms(2) by (simp add: push_data_def Let_def RunningStat_def mean_of_def sq_dev_def)
next
  case (snoc x xs)
  let ?s = "fold push_data xs (RunningStat None mt)"
  have "rs_M (push_data x ?s) = mean_of (xs @ [x]) \<and> rs_S (push_data x ?s) = sq_dev (mean_of (xs @ [x])) (xs @ [x])"
    using snoc assms(2) by (intro push_data_snoc) auto
  moreover have "max_trackable ?s < 0" "0 \<le> rs_n ?s" "rs_n ?s = int (length xs)" "max_trackable ?s = mt"
    using snoc assms(2) by auto
  ultimately show ?case using push_data_unbounded [of ?s x] by simp
qed

text \<open>
  The running statistics are the statistics: after any non-empty sequence of data, with no
  bound on the memory, the mean is the arithmetic mean of the data and the variance is the sample
  variance, although neither the data nor their sum is stored.
\<close>

theorem running_stat_correct:
  assumes "xs \<noteq> []"
  defines "s \<equiv> fold push_data xs (RunningStat None (-1))"
  shows "rs_M s = sum_list xs / real (length xs) \<and>
    (2 \<le> length xs \<longrightarrow> rs_variance s = (\<Sum>x\<leftarrow>xs. (x - sum_list xs / real (length xs))\<^sup>2) / (real (length xs) - 1))"
  using fold_push_data [OF assms(1), of "-1"] unfolding s_def
  by (simp add: rs_variance_def mean_of_def sq_dev_def)

theorem running_stat_correct_witness:
  "rs_M (fold push_data [1, 2, 6] (RunningStat None (-1))) = 3 \<and>
   rs_variance (fold push_data [1, 2, 6] (RunningStat None (-1))) = 7"
  using running_stat_correct [of "[1, 2, 6]"] by (simp add: power2_eq_square)

text \<open>A bounded memory keeps the mean between the data it has seen.\<close>

definition rs_within :: "real \<Rightarrow> real \<Rightarrow> running_stat \<Rightarrow> bool" where
  "rs_within lo hi s \<longleftrightarrow> 0 \<le> rs_n s \<and> rs_M_last s = rs_M s \<and> (rs_n s = 0 \<or> lo \<le> rs_M s \<and> rs_M s \<le> hi)"

lemma convex_step:
  fixes lo hi M x n :: real
  assumes "lo \<le> M" "M \<le> hi" "lo \<le> x" "x \<le> hi" "1 \<le> n"
  shows "lo \<le> M + (x - M) / n \<and> M + (x - M) / n \<le> hi"
proof -
  have e: "M + (x - M) / n = (1 - 1 / n) * M + (1 / n) * x" using assms(5) by (simp add: field_simps)
  have "0 \<le> 1 - 1 / n" "0 \<le> 1 / n" using assms(5) by simp_all
  then have "(1 - 1 / n) * lo + (1 / n) * lo \<le> (1 - 1 / n) * M + (1 / n) * x"
    "(1 - 1 / n) * M + (1 / n) * x \<le> (1 - 1 / n) * hi + (1 / n) * hi"
    using assms(1-4) by (intro add_mono mult_left_mono; simp)+
  then show ?thesis unfolding e by (simp add: algebra_simps)
qed

lemma push_data_within:
  assumes "rs_within lo hi s" "lo \<le> x" "x \<le> hi" "max_trackable s \<noteq> 0"
  shows "rs_within lo hi (push_data x s) \<and> 1 \<le> rs_n (push_data x s)"
proof -
  let ?n = "if max_trackable s < 0 \<or> rs_n s < max_trackable s then rs_n s + 1 else rs_n s"
  have n: "1 \<le> ?n" using assms(1,4) by (auto simp: rs_within_def)
  show ?thesis
  proof (cases "rs_n s = 0")
    case True
    with assms n show ?thesis by (auto simp: rs_within_def push_data_def Let_def)
  next
    case False
    with assms(1) have "lo \<le> rs_M s" "rs_M s \<le> hi" by (simp_all add: rs_within_def)
    from convex_step [OF this assms(2,3), of "of_int ?n"] n assms(1) show ?thesis
      by (auto simp: rs_within_def push_data_def Let_def)
  qed
qed

lemma fo_update_between:
  assumes "0 \<le> fo_alpha f" "fo_alpha f \<le> 1" "lo \<le> fo_x f" "fo_x f \<le> hi" "lo \<le> x" "x \<le> hi"
  shows "lo \<le> fo_x (fo_update x f) \<and> fo_x (fo_update x f) \<le> hi"
proof -
  have "(1 - fo_alpha f) * lo + fo_alpha f * lo \<le> (1 - fo_alpha f) * fo_x f + fo_alpha f * x"
    "(1 - fo_alpha f) * fo_x f + fo_alpha f * x \<le> (1 - fo_alpha f) * hi + fo_alpha f * hi"
    using assms by (intro add_mono mult_left_mono; simp)+
  then show ?thesis using assms by (simp add: fo_update_def algebra_simps)
qed

end
