(* ===== verification/Monitoring.thy ===== *)
theory Monitoring
  imports CarState StatLive Returns
begin

text \<open>
  Driver monitoring: the policy of \<^verbatim>\<open>selfdrive/monitoring/policy.py\<close>, which turns the
  output of the driver model into an awareness between -0.1 and 1, alert levels and lockouts, the
  loop of \<^verbatim>\<open>dmonitoringd.py\<close> around it, and the test alert mode of
  \<^verbatim>\<open>ascent_v8/test_alert_mode.py\<close>. \<open>None\<close> is the \<open>IndexError\<close> of model
  outputs that are too short. Floating point numbers are modelled by reals: a comparison at the
  boundary of a timeout may differ by one frame from the program's.
\<close>

section \<open>Settings\<close>

datatype alert_level = AL_none | AL_one | AL_two | AL_three
datatype mon_policy = Pol_vision | Pol_wheeltouch

text \<open>The settings that the test alert mode changes are a record, the others are constants.\<close>

record dm_settings =
  WHEELTOUCH_1 :: real
  WHEELTOUCH_2 :: real
  WHEELTOUCH_3 :: real
  VISION_1 :: real
  VISION_2 :: real
  VISION_3 :: real

definition DRIVER_MONITOR_SETTINGS :: dm_settings where
  "DRIVER_MONITOR_SETTINGS =
     \<lparr>WHEELTOUCH_1 = 5, WHEELTOUCH_2 = 15, WHEELTOUCH_3 = 25, VISION_1 = 5, VISION_2 = 8, VISION_3 = 13\<rparr>"

abbreviation (input) ALERT_MIN_SPEED :: real where "ALERT_MIN_SPEED \<equiv> 28 / 10"
abbreviation (input) NO_RESPONSE_TIMEOUT :: real where "NO_RESPONSE_TIMEOUT \<equiv> 5"
abbreviation (input) MAX_ALERT_3 :: int where "MAX_ALERT_3 \<equiv> 2"
abbreviation (input) MAX_NO_RESPONSE :: int where "MAX_NO_RESPONSE \<equiv> 1"

definition LOCKOUT_TIMES :: "int list" where
  "LOCKOUT_TIMES = map (\<lambda>n_min. py_int (60 * n_min / DT_DMON)) [1, 5, 15, 30]"

abbreviation (input) RECOVERY_FACTOR_MAX :: real where "RECOVERY_FACTOR_MAX \<equiv> 5"
abbreviation (input) RECOVERY_FACTOR_MIN :: real where "RECOVERY_FACTOR_MIN \<equiv> 125 / 100"

abbreviation (input) FACE_THRESHOLD :: real where "FACE_THRESHOLD \<equiv> 7 / 10"
abbreviation (input) EYE_THRESHOLD :: real where "EYE_THRESHOLD \<equiv> 65 / 100"
abbreviation (input) SG_THRESHOLD :: real where "SG_THRESHOLD \<equiv> 9 / 10"
abbreviation (input) BLINK_THRESHOLD :: real where "BLINK_THRESHOLD \<equiv> 865 / 1000"
abbreviation (input) PHONE_THRESH :: real where "PHONE_THRESH \<equiv> 5 / 10"
abbreviation (input) POSE_PITCH_THRESHOLD :: real where "POSE_PITCH_THRESHOLD \<equiv> 3133 / 10000"
abbreviation (input) POSE_PITCH_THRESHOLD_SLACK :: real where "POSE_PITCH_THRESHOLD_SLACK \<equiv> 3237 / 10000"
abbreviation (input) POSE_PITCH_THRESHOLD_STRICT :: real where "POSE_PITCH_THRESHOLD_STRICT \<equiv> POSE_PITCH_THRESHOLD"
abbreviation (input) POSE_YAW_THRESHOLD :: real where "POSE_YAW_THRESHOLD \<equiv> 4020 / 10000"
abbreviation (input) POSE_YAW_THRESHOLD_SLACK :: real where "POSE_YAW_THRESHOLD_SLACK \<equiv> 5042 / 10000"
abbreviation (input) POSE_YAW_THRESHOLD_STRICT :: real where "POSE_YAW_THRESHOLD_STRICT \<equiv> POSE_YAW_THRESHOLD"
abbreviation (input) POSE_YAW_MIN_STEER_DEG :: real where "POSE_YAW_MIN_STEER_DEG \<equiv> 30"
abbreviation (input) POSE_YAW_STEER_FACTOR :: real where "POSE_YAW_STEER_FACTOR \<equiv> 15 / 100"
abbreviation (input) POSE_YAW_STEER_MAX_OFFSET :: real where "POSE_YAW_STEER_MAX_OFFSET \<equiv> 3927 / 10000"
abbreviation (input) PITCH_NATURAL_OFFSET :: real where "PITCH_NATURAL_OFFSET \<equiv> 11 / 1000"
abbreviation (input) PITCH_NATURAL_THRESHOLD :: real where "PITCH_NATURAL_THRESHOLD \<equiv> 449 / 1000"
abbreviation (input) YAW_NATURAL_OFFSET :: real where "YAW_NATURAL_OFFSET \<equiv> 75 / 1000"
abbreviation (input) PITCH_NATURAL_VAR :: real where "PITCH_NATURAL_VAR \<equiv> 3 / 100"
abbreviation (input) YAW_NATURAL_VAR :: real where "YAW_NATURAL_VAR \<equiv> 15 / 100"
abbreviation (input) PITCH_MAX_OFFSET :: real where "PITCH_MAX_OFFSET \<equiv> 124 / 1000"
abbreviation (input) PITCH_MIN_OFFSET :: real where "PITCH_MIN_OFFSET \<equiv> - 881 / 10000"
abbreviation (input) YAW_MAX_OFFSET :: real where "YAW_MAX_OFFSET \<equiv> 289 / 1000"
abbreviation (input) YAW_MIN_OFFSET :: real where "YAW_MIN_OFFSET \<equiv> - 246 / 10000"
abbreviation (input) DCAM_UNCERTAIN_ALERT_THRESHOLD :: real where "DCAM_UNCERTAIN_ALERT_THRESHOLD \<equiv> 1 / 10"
abbreviation (input) DCAM_UNCERTAIN_ALERT_COUNT :: int where "DCAM_UNCERTAIN_ALERT_COUNT \<equiv> 1200"
abbreviation (input) DCAM_UNCERTAIN_RESET_COUNT :: int where "DCAM_UNCERTAIN_RESET_COUNT \<equiv> 40"
abbreviation (input) HI_STD_THRESHOLD :: real where "HI_STD_THRESHOLD \<equiv> 3 / 10"
abbreviation (input) HI_STD_FALLBACK_TIME :: int where "HI_STD_FALLBACK_TIME \<equiv> 200"
abbreviation (input) DISTRACTED_FILTER_TS :: real where "DISTRACTED_FILTER_TS \<equiv> 25 / 100"
abbreviation (input) POSE_CALIB_MIN_SPEED :: real where "POSE_CALIB_MIN_SPEED \<equiv> 13"
abbreviation (input) POSE_OFFSET_MIN_COUNT :: int where "POSE_OFFSET_MIN_COUNT \<equiv> 1200"
abbreviation (input) POSE_OFFSET_MAX_COUNT :: int where "POSE_OFFSET_MAX_COUNT \<equiv> 7200"
abbreviation (input) WHEELPOS_CALIB_MIN_SPEED :: real where "WHEELPOS_CALIB_MIN_SPEED \<equiv> 11"
abbreviation (input) WHEELPOS_THRESHOLD :: real where "WHEELPOS_THRESHOLD \<equiv> 5 / 10"
abbreviation (input) WHEELPOS_FILTER_MIN_COUNT :: int where "WHEELPOS_FILTER_MIN_COUNT \<equiv> 300"
abbreviation (input) WHEELPOS_DATA_AVG :: real where "WHEELPOS_DATA_AVG \<equiv> 3 / 100"
abbreviation (input) WHEELPOS_DATA_VAR :: real where "WHEELPOS_DATA_VAR \<equiv> 165 / 1000000"
abbreviation (input) WHEELPOS_MAX_COUNT :: int where "WHEELPOS_MAX_COUNT \<equiv> -1"

definition to_percent :: "real \<Rightarrow> int" where
  "to_percent v = py_int (min (max (v * 100) 0) 100)"

section \<open>State\<close>

record driver_pose =
  pose_yaw :: real
  pose_pitch :: real
  pitch_offsetter :: running_stat_filter
  yaw_offsetter :: running_stat_filter
  pose_calibrated :: bool
  low_std :: bool
  cfactor_pitch :: real
  cfactor_yaw :: real
  steer_yaw_offset :: real

definition DriverPose :: driver_pose where
  "DriverPose =
     \<lparr>pose_yaw = 0, pose_pitch = 0,
      pitch_offsetter = RunningStatFilter (Some (PITCH_NATURAL_OFFSET, PITCH_NATURAL_VAR, 2)) POSE_OFFSET_MAX_COUNT,
      yaw_offsetter = RunningStatFilter (Some (YAW_NATURAL_OFFSET, YAW_NATURAL_VAR, 2)) POSE_OFFSET_MAX_COUNT,
      pose_calibrated = False, low_std = True, cfactor_pitch = 1, cfactor_yaw = 1, steer_yaw_offset = 0\<rparr>"

record dm_types =
  distracted_pose :: bool
  distracted_eye :: bool
  distracted_phone :: bool

record dm_face =
  \<comment> \<open>what is known of the driver\<close>
  wheelpos_offsetter :: running_stat_filter
  pose :: driver_pose
  blink_left :: real
  blink_right :: real
  phone_prob :: real
  distracted_types :: dm_types
  driver_distracted :: bool
  driver_distraction_filter :: first_order_filter
  wheel_on_right :: bool
  wheel_on_right_last :: "bool option"
  wheel_on_right_default :: bool
  face_detected :: bool
  is_model_uncertain :: bool
  hi_stds :: int
  model_std_max :: real
  dcam_uncertain_cnt :: int
  dcam_reset_cnt :: int

record dm_lock =
  \<comment> \<open>the lockout\<close>
  alert_3_cnt :: int
  cnt_since_alert_3 :: int
  no_response_timeout :: int
  no_response_cnt :: int
  lockout_active :: bool
  lockout_count :: int
  lockout_duration :: int
  lockout_time_elapsed :: int

record dm =
  settings :: dm_settings
  face :: dm_face
  lock :: dm_lock
  alert_level :: alert_level
  always_on :: bool
  step_change :: real
  active_policy :: mon_policy
  driver_interacting :: bool
  threshold_alert_1 :: real
  threshold_alert_2 :: real
  awareness :: real
  last_vision_awareness :: real
  last_wheeltouch_awareness :: real

section \<open>Policies\<close>

definition reset_awareness :: "dm \<Rightarrow> dm" where
  "reset_awareness s = s\<lparr>awareness := 1, last_vision_awareness := 1, last_wheeltouch_awareness := 1\<rparr>"

definition set_policy :: "mon_policy \<Rightarrow> dm \<Rightarrow> dm" where
  "set_policy target s =
     (let st = settings s in
      if active_policy s = Pol_vision \<and> awareness s \<le> threshold_alert_2 s then
        s\<lparr>step_change := (if target = Pol_vision then DT_DMON / VISION_3 st else 0)\<rparr>
      else if awareness s \<le> 0 then s
      else if target = Pol_vision then
        let s = (if active_policy s \<noteq> Pol_vision
                 then s\<lparr>last_wheeltouch_awareness := awareness s, awareness := last_vision_awareness s\<rparr> else s)
        in s\<lparr>threshold_alert_1 := 1 - VISION_1 st / VISION_3 st,
             threshold_alert_2 := 1 - VISION_2 st / VISION_3 st,
             step_change := DT_DMON / VISION_3 st, active_policy := Pol_vision\<rparr>
      else
        let s = (if active_policy s = Pol_vision
                 then s\<lparr>last_vision_awareness := awareness s, awareness := last_wheeltouch_awareness s\<rparr> else s)
        in s\<lparr>threshold_alert_1 := 1 - WHEELTOUCH_1 st / WHEELTOUCH_3 st,
             threshold_alert_2 := 1 - WHEELTOUCH_2 st / WHEELTOUCH_3 st,
             step_change := DT_DMON / WHEELTOUCH_3 st, active_policy := Pol_wheeltouch\<rparr>)"

definition lockout_time :: "int \<Rightarrow> int" where
  "lockout_time i = LOCKOUT_TIMES ! nat (min i (int (length LOCKOUT_TIMES) - 1))"

definition dm_init :: "bool \<Rightarrow> dm_settings \<Rightarrow> bool \<Rightarrow> bool \<Rightarrow> int \<Rightarrow> dm" where
  \<comment> \<open>the last two are the parameters \<open>DriverTooDistracted\<close> and \<open>DriverLockoutCount\<close>\<close>
  "dm_init rhd_saved st always too_distracted lockouts =
     set_policy Pol_vision (reset_awareness
       \<lparr>settings = st,
        face = \<lparr>wheelpos_offsetter =
                  RunningStatFilter (Some (WHEELPOS_DATA_AVG, WHEELPOS_DATA_VAR, 2)) WHEELPOS_MAX_COUNT,
                pose = DriverPose, blink_left = 0, blink_right = 0, phone_prob = 0,
                distracted_types = \<lparr>distracted_pose = False, distracted_eye = False, distracted_phone = False\<rparr>,
                driver_distracted = False,
                driver_distraction_filter = FirstOrderFilter 0 DISTRACTED_FILTER_TS DT_DMON True,
                wheel_on_right = False, wheel_on_right_last = None, wheel_on_right_default = rhd_saved,
                face_detected = False, is_model_uncertain = False, hi_stds = 0, model_std_max = 0,
                dcam_uncertain_cnt = 0, dcam_reset_cnt = 0\<rparr>,
        lock = \<lparr>alert_3_cnt = 0, cnt_since_alert_3 = 0,
                no_response_timeout = py_int (NO_RESPONSE_TIMEOUT / DT_DMON), no_response_cnt = 0,
                lockout_active = too_distracted, lockout_count = lockouts,
                lockout_duration = lockout_time (max (lockouts - 1) 0), lockout_time_elapsed = 0\<rparr>,
        alert_level = AL_none, always_on = always, step_change = 0, active_policy = Pol_vision,
        driver_interacting = False, threshold_alert_1 = 0, threshold_alert_2 = 0,
        awareness = 1, last_vision_awareness = 1, last_wheeltouch_awareness = 1\<rparr>)"

section \<open>Reading the driver\<close>

definition py_nth :: "'a list \<Rightarrow> nat \<Rightarrow> 'a option" where
  \<comment> \<open>\<open>xs[i]\<close>\<close>
  "py_nth xs i = (if i < length xs then Some (xs ! i) else None)"

record driver_data =
  faceProb :: real
  faceOrientation :: "real list"
  facePosition :: "real list"
  faceOrientationStd :: "real list"
  facePositionStd :: "real list"
  leftBlinkProb :: real
  rightBlinkProb :: real
  leftEyeProb :: real
  rightEyeProb :: real
  sunglassesProb :: real
  phoneProb :: real

record driver_state =
  wheelOnRightProb :: real
  leftDriverData :: driver_data
  rightDriverData :: driver_data

abbreviation (input) cabin_undistorted_FL :: real where "cabin_undistorted_FL \<equiv> 598"
abbreviation (input) cabin_undistorted_W :: int where "cabin_undistorted_W \<equiv> 1928"
abbreviation (input) cabin_undistorted_H :: int where "cabin_undistorted_H \<equiv> 1208"

definition face_orientation_from_model :: "real list \<Rightarrow> real list \<Rightarrow> real list \<Rightarrow> (real \<times> real) option" where
  \<comment> \<open>\<open>atan2\<close> with its positive second argument is the arc tangent of the quotient\<close>
  "face_orientation_from_model orient pos rpy =
     do { pitch_model \<leftarrow> py_nth orient 0;
          yaw_model \<leftarrow> py_nth orient 1;
          p0 \<leftarrow> py_nth pos 0;
          p1 \<leftarrow> py_nth pos 1;
          let face_x = (p0 + 1 / 2) * of_int cabin_undistorted_W;
          let face_y = (p1 + 1 / 2) * of_int cabin_undistorted_H;
          let yaw_focal_angle = arctan ((face_x - of_int (cabin_undistorted_W div 2)) / cabin_undistorted_FL);
          let pitch_focal_angle = arctan ((face_y - of_int (cabin_undistorted_H div 2)) / cabin_undistorted_FL);
          r1 \<leftarrow> py_nth rpy 1;
          r2 \<leftarrow> py_nth rpy 2;
          Some (pitch_model + pitch_focal_angle - r1, - yaw_model + yaw_focal_angle - r2) }"

definition set_pose_strictness :: "real \<Rightarrow> real \<Rightarrow> driver_pose \<Rightarrow> driver_pose" where
  "set_pose_strictness bp car_speed po =
     (let k1 = max (- (156 / 100000) * (car_speed - 16)\<^sup>2 + 6 / 10) (2 / 10);
          bp_normal = max (min (bp / k1) (1 / 2)) 0
      in po\<lparr>cfactor_pitch := np_interp bp_normal
              [(0, POSE_PITCH_THRESHOLD_SLACK), (1 / 2, POSE_PITCH_THRESHOLD_STRICT)] / POSE_PITCH_THRESHOLD,
            cfactor_yaw := np_interp bp_normal
              [(0, POSE_YAW_THRESHOLD_SLACK), (1 / 2, POSE_YAW_THRESHOLD_STRICT)] / POSE_YAW_THRESHOLD\<rparr>)"

definition get_distracted_types :: "dm_face \<Rightarrow> dm_types" where
  "get_distracted_types f =
     (let po = pose f;
          (pitch_error, yaw_error) =
            (if \<not> pose_calibrated po then
               (pose_pitch po - PITCH_NATURAL_OFFSET, pose_yaw po - YAW_NATURAL_OFFSET)
             else
               (pose_pitch po - min (max (rs_M (filtered_stat (pitch_offsetter po))) PITCH_MIN_OFFSET) PITCH_MAX_OFFSET,
                pose_yaw po - min (max (rs_M (filtered_stat (yaw_offsetter po))) YAW_MIN_OFFSET) YAW_MAX_OFFSET));
          pitch_error = (if pitch_error > 0 then 0 else \<bar>pitch_error\<bar>);
          yaw_error = (if yaw_error * steer_yaw_offset po > 0
                       then max (\<bar>yaw_error\<bar> - min \<bar>steer_yaw_offset po\<bar> POSE_YAW_STEER_MAX_OFFSET) 0
                       else \<bar>yaw_error\<bar>);
          pitch_threshold = (if pose_calibrated po then POSE_PITCH_THRESHOLD * cfactor_pitch po
                             else PITCH_NATURAL_THRESHOLD);
          yaw_threshold = POSE_YAW_THRESHOLD * cfactor_yaw po
      in \<lparr>distracted_pose = (pitch_error > pitch_threshold \<or> yaw_error > yaw_threshold),
          distracted_eye = ((blink_left f + blink_right f) * (1 / 2) > BLINK_THRESHOLD),
          distracted_phone = (phone_prob f > PHONE_THRESH)\<rparr>)"

definition find_driver :: "driver_state \<Rightarrow> real \<Rightarrow> bool \<Rightarrow> bool \<Rightarrow> dm_face \<Rightarrow> dm_face" where
  \<comment> \<open>the side of the wheel\<close>
  "find_driver ds car_speed op_engaged demo f =
     (let f = (if car_speed > WHEELPOS_CALIB_MIN_SPEED \<and>
                  (faceProb (leftDriverData ds) > FACE_THRESHOLD \<or> faceProb (rightDriverData ds) > FACE_THRESHOLD)
               then f\<lparr>wheelpos_offsetter := push_and_update (wheelOnRightProb ds) (wheelpos_offsetter f)\<rparr> else f);
          calibrated = rs_n (filtered_stat (wheelpos_offsetter f)) \<ge> WHEELPOS_FILTER_MIN_COUNT;
          right = (if calibrated \<or> demo then rs_M (filtered_stat (wheelpos_offsetter f)) > WHEELPOS_THRESHOLD
                   else wheel_on_right_default f);
          right = (case wheel_on_right_last f of
                     Some prev \<Rightarrow> if op_engaged \<and> prev \<noteq> right \<and> \<not> demo then prev else right
                   | None \<Rightarrow> right)
      in f\<lparr>wheel_on_right := right\<rparr>)"

definition face_seen :: "driver_data \<Rightarrow> real \<Rightarrow> real \<Rightarrow> real \<Rightarrow> real \<Rightarrow> dm_face \<Rightarrow> dm_face" where
  \<comment> \<open>pose, blinks and phone as the model sees them\<close>
  "face_seen dd pitch yaw steering_angle std f =
     (let steer_d = max (\<bar>steering_angle\<bar> - POSE_YAW_MIN_STEER_DEG) 0;
          offset = steer_d * pi / 180 * - sgn steering_angle * POSE_YAW_STEER_FACTOR;
          sg = of_bool (sunglassesProb dd < SG_THRESHOLD)
      in f\<lparr>face_detected := faceProb dd > FACE_THRESHOLD,
           pose := (pose f)\<lparr>pose_pitch := pitch,
                            pose_yaw := (if wheel_on_right f then yaw * - 1 else yaw),
                            steer_yaw_offset := (if wheel_on_right f then offset * - 1 else offset),
                            low_std := std < HI_STD_THRESHOLD\<rparr>,
           wheel_on_right_last := Some (wheel_on_right f), model_std_max := std,
           blink_left := leftBlinkProb dd * of_bool (leftEyeProb dd > EYE_THRESHOLD) * sg,
           blink_right := rightBlinkProb dd * of_bool (rightEyeProb dd > EYE_THRESHOLD) * sg,
           phone_prob := phoneProb dd\<rparr>)"

definition judge_distraction :: "driver_data \<Rightarrow> dm_face \<Rightarrow> dm_face" where
  "judge_distraction dd f =
     (let types = get_distracted_types f;
          distracted = (distracted_pose types \<or> distracted_eye types \<or> distracted_phone types) \<and>
            faceProb dd > FACE_THRESHOLD \<and> low_std (pose f)
      in f\<lparr>distracted_types := types, driver_distracted := distracted,
           driver_distraction_filter := fo_update (of_bool distracted) (driver_distraction_filter f)\<rparr>)"

definition learn_pose :: "real \<Rightarrow> bool \<Rightarrow> dm_face \<Rightarrow> dm_face" where
  \<comment> \<open>the offsets are only learned from a driver who actively drives\<close>
  "learn_pose car_speed op_engaged f =
     (let po = pose f;
          po = (if face_detected f \<and> car_speed > POSE_CALIB_MIN_SPEED \<and> low_std po \<and> (\<not> op_engaged \<or> \<not> driver_distracted f)
                then po\<lparr>pitch_offsetter := push_and_update (pose_pitch po) (pitch_offsetter po),
                        yaw_offsetter := push_and_update (pose_yaw po) (yaw_offsetter po)\<rparr> else po)
      in f\<lparr>pose := po\<lparr>pose_calibrated :=
             rs_n (filtered_stat (pitch_offsetter po)) \<ge> POSE_OFFSET_MIN_COUNT \<and>
             rs_n (filtered_stat (yaw_offsetter po)) \<ge> POSE_OFFSET_MIN_COUNT\<rparr>\<rparr>)"

definition count_uncertain :: "bool \<Rightarrow> dm_face \<Rightarrow> dm_face" where
  "count_uncertain lowspeed f =
     (if face_detected f \<and> \<not> driver_distracted f then
        if model_std_max f > DCAM_UNCERTAIN_ALERT_THRESHOLD \<and> \<not> lowspeed
        then f\<lparr>dcam_uncertain_cnt := dcam_uncertain_cnt f + 1, dcam_reset_cnt := 0\<rparr>
        else f\<lparr>dcam_reset_cnt := dcam_reset_cnt f + 1,
               dcam_uncertain_cnt := (if dcam_reset_cnt f + 1 > DCAM_UNCERTAIN_RESET_COUNT
                                      then 0 else dcam_uncertain_cnt f)\<rparr>
      else f)"

definition read_face :: "driver_data \<Rightarrow> real list \<Rightarrow> real \<Rightarrow> bool \<Rightarrow> bool \<Rightarrow> real \<Rightarrow> dm_face \<Rightarrow> dm_face option" where
  \<comment> \<open>the part of \<open>_update_states\<close> on non-empty model outputs, up to the policy\<close>
  "read_face dd cal_rpy car_speed op_engaged lowspeed steering_angle f =
     do { (pitch, yaw) \<leftarrow> face_orientation_from_model (faceOrientation dd) (facePosition dd) cal_rpy;
          s0 \<leftarrow> py_nth (faceOrientationStd dd) 0;
          s1 \<leftarrow> py_nth (faceOrientationStd dd) 1;
          Some (count_uncertain lowspeed (learn_pose car_speed op_engaged
                 (judge_distraction dd (face_seen dd pitch yaw steering_angle (max s0 s1) f)))) }"

definition update_hi_stds :: "dm_face \<Rightarrow> dm_face" where
  "update_hi_stds f =
     (if face_detected f \<and> \<not> low_std (pose f) \<and> \<not> driver_distracted f then f\<lparr>hi_stds := hi_stds f + 1\<rparr>
      else if face_detected f \<and> low_std (pose f) then f\<lparr>hi_stds := 0\<rparr>
      else f)"

definition update_states :: "driver_state \<Rightarrow> real list \<Rightarrow> real \<Rightarrow> bool \<Rightarrow> bool \<Rightarrow> bool \<Rightarrow> real \<Rightarrow> dm \<Rightarrow> dm option" where
  "update_states ds cal_rpy car_speed op_engaged lowspeed demo steering_angle s =
     (let f = find_driver ds car_speed op_engaged demo (face s);
          dd = (if wheel_on_right f then rightDriverData ds else leftDriverData ds)
      in if faceOrientation dd = [] \<or> facePosition dd = [] \<or> faceOrientationStd dd = [] \<or> facePositionStd dd = []
         then Some (s\<lparr>face := f\<rparr>)
         else
           do { f \<leftarrow> read_face dd cal_rpy car_speed op_engaged lowspeed steering_angle f;
                let f = f\<lparr>is_model_uncertain := hi_stds f \<ge> HI_STD_FALLBACK_TIME\<rparr>;
                let s = set_policy (if face_detected f \<and> \<not> is_model_uncertain f then Pol_vision else Pol_wheeltouch) s;
                Some (s\<lparr>face := update_hi_stds f\<rparr>) })"

section \<open>Awareness, alerts and lockouts\<close>

definition update_lockout :: "dm_lock \<Rightarrow> dm_lock" where
  "update_lockout l =
     (let l = (if alert_3_cnt l \<ge> MAX_ALERT_3 \<or> no_response_cnt l \<ge> MAX_NO_RESPONSE then
                 let l = (if \<not> lockout_active l
                          then l\<lparr>lockout_count := lockout_count l + 1,
                                 lockout_duration := lockout_time (lockout_count l + 1 - 1)\<rparr> else l)
                 in l\<lparr>lockout_active := True\<rparr>
               else l)
      in if lockout_active l then
           let l = l\<lparr>lockout_time_elapsed := lockout_time_elapsed l + 1\<rparr>
           in if lockout_time_elapsed l > lockout_duration l
              then l\<lparr>lockout_active := False, alert_3_cnt := 0, cnt_since_alert_3 := 0, no_response_cnt := 0,
                     lockout_time_elapsed := 0\<rparr>
              else l
         else l)"

definition attentive :: "dm \<Rightarrow> bool" where
  \<comment> \<open>the driver is seen to pay attention\<close>
  "attentive s \<longleftrightarrow> fo_x (driver_distraction_filter (face s)) < 37 / 100 \<and> face_detected (face s) \<and> low_std (pose (face s))"

definition recovered :: "dm \<Rightarrow> dm" where
  "recovered s =
     (let a = min (awareness s + ((RECOVERY_FACTOR_MAX - RECOVERY_FACTOR_MIN) * (1 - awareness s) + RECOVERY_FACTOR_MIN) * step_change s) 1;
          s = s\<lparr>awareness := a\<rparr>
      in if a = 1 then s\<lparr>last_wheeltouch_awareness := min (last_wheeltouch_awareness s + step_change s) 1\<rparr> else s)"

definition update_alert :: "real \<Rightarrow> bool \<Rightarrow> dm \<Rightarrow> dm" where
  \<comment> \<open>the part from \<open>certainly_distracted\<close> on; the flag says whether an exemption holds\<close>
  "update_alert awareness_prev exempt s =
     (let certainly_distracted = fo_x (driver_distraction_filter (face s)) > 63 / 100 \<and>
            driver_distracted (face s) \<and> face_detected (face s);
          maybe_distracted = is_model_uncertain (face s) \<or> \<not> face_detected (face s);
          s = (if (certainly_distracted \<or> maybe_distracted) \<and> \<not> exempt
               then s\<lparr>awareness := max (awareness s - step_change s) (- (1 / 10))\<rparr> else s)
      in if awareness s \<le> 0 then
           let l = lock s;
               l = (if awareness_prev > 0 then l\<lparr>alert_3_cnt := alert_3_cnt l + 1, cnt_since_alert_3 := 0\<rparr>
                    else l\<lparr>cnt_since_alert_3 := cnt_since_alert_3 l + 1\<rparr>);
               l = (if cnt_since_alert_3 l = no_response_timeout l
                    then l\<lparr>no_response_cnt := no_response_cnt l + 1\<rparr> else l)
           in s\<lparr>alert_level := AL_three, lock := l\<rparr>
         else if awareness s \<le> threshold_alert_2 s then s\<lparr>alert_level := AL_two\<rparr>
         else if awareness s \<le> threshold_alert_1 s then s\<lparr>alert_level := AL_one\<rparr>
         else s)"

definition update_events :: "bool \<Rightarrow> bool \<Rightarrow> bool \<Rightarrow> bool \<Rightarrow> dm \<Rightarrow> dm" where
  "update_events driver_engaged op_engaged lowspeed wrong_gear s =
     (let s = s\<lparr>alert_level := AL_none, driver_interacting := driver_engaged, lock := update_lockout (lock s)\<rparr>;
          always_on_valid = always_on s \<and> \<not> wrong_gear
      in if (driver_engaged \<and> awareness s > 0 \<and> active_policy s = Pol_wheeltouch) \<or>
            (\<not> always_on_valid \<and> \<not> op_engaged) \<or>
            (always_on_valid \<and> \<not> op_engaged \<and> awareness s \<le> 0)
         then reset_awareness s
         else
           let awareness_prev = awareness s;
               reaching_alert_1 = awareness s - step_change s \<le> threshold_alert_1 s;
               reaching_alert_3 = awareness s - step_change s \<le> 0;
               lowspeed_exemption = lowspeed \<and> reaching_alert_1;
               always_on_exemption = always_on_valid \<and> \<not> op_engaged \<and> reaching_alert_3;
               exempt = lowspeed_exemption \<or> always_on_exemption
           in if awareness s > 0 \<and> (attentive s \<or> lowspeed_exemption) then
                if driver_engaged then reset_awareness s
                else
                  let s = recovered s
                  in if awareness s > threshold_alert_2 s then s else update_alert awareness_prev exempt s
              else update_alert awareness_prev exempt s)"

section \<open>A step, the message and the loop\<close>

record dm_input =
  driverStateV2 :: driver_state
  dm_CS :: car_state
  dm_enabled :: bool
  latActive :: bool
  brakeDisengageProbs :: "real list"
  rpyCalib :: "real list"

definition dm_run_step :: "bool \<Rightarrow> dm_input \<Rightarrow> dm \<Rightarrow> dm option" where
  "dm_run_step demo i s =
     do { (car_speed, enabled, wrong_gear, lowspeed, driver_engaged, bp, steering_angle, rpy) \<leftarrow>
            (if demo then Some (30, True, False, False, False, 1, 0, [0, 0, 0])
             else do { bp \<leftarrow> py_nth (brakeDisengageProbs i) 0;
                       Some (vEgo (dm_CS i), dm_enabled i \<or> latActive i,
                             gearShifter (dm_CS i) \<notin> {Gear_drive, Gear_low},
                             vEgo (dm_CS i) < ALERT_MIN_SPEED,
                             steeringPressed (dm_CS i) \<or> dm_enabled i \<and> gasPressed (dm_CS i),
                             bp, steeringAngleDeg (dm_CS i), rpyCalib i) });
          let s = s\<lparr>face := (face s)\<lparr>pose := set_pose_strictness bp car_speed (pose (face s))\<rparr>\<rparr>;
          s \<leftarrow> update_states (driverStateV2 i) rpy car_speed enabled lowspeed demo steering_angle s;
          Some (update_events driver_engaged enabled lowspeed wrong_gear s) }"

record dm_packet =
  \<comment> \<open>the fields of \<open>driverMonitoringState\<close> that other processes act on\<close>
  dm_lockout :: bool
  dm_lockoutCount :: int
  dm_lockoutMinutesRemaining :: "int option"
  dm_alert3Count :: int
  dm_noResponseCount :: int
  dm_noResponseForceDecel :: bool
  dm_alwaysOn :: bool
  dm_alwaysOnLockout :: bool
  dm_alertLevel :: alert_level
  dm_activePolicy :: mon_policy
  dm_isRHD :: bool
  dm_visionAwarenessPercent :: int
  dm_visionAwarenessStep :: real
  dm_isDistracted :: bool
  dm_distractedTypes :: dm_types
  dm_faceDetected :: bool
  dm_rhdCalibratedPercent :: int
  dm_rhdOffset :: real
  dm_pitchCalibratedPercent :: int
  dm_yawCalibratedPercent :: int
  dm_wheeltouchFallbackPercent :: int
  dm_uncertainOffroadAlertPercent :: int
  dm_wheeltouchAwarenessPercent :: int
  dm_wheeltouchAwarenessStep :: real
  dm_driverInteracting :: bool

definition get_state_packet :: "dm \<Rightarrow> dm_packet" where
  "get_state_packet s =
     (let l = lock s; f = face s; vision = (active_policy s = Pol_vision)
      in \<lparr>dm_lockout = lockout_active l,
          dm_lockoutCount = lockout_count l,
          dm_lockoutMinutesRemaining =
            (if lockout_active l
             then Some (max 1 (py_round (of_int (lockout_duration l - lockout_time_elapsed l) * DT_DMON / 60)))
             else None),
          dm_alert3Count = alert_3_cnt l,
          dm_noResponseCount = no_response_cnt l,
          dm_noResponseForceDecel = (alert_level s = AL_three \<and> cnt_since_alert_3 l \<ge> no_response_timeout l),
          dm_alwaysOn = always_on s,
          dm_alwaysOnLockout = (always_on s \<and> awareness s \<le> threshold_alert_2 s),
          dm_alertLevel = alert_level s,
          dm_activePolicy = active_policy s,
          dm_isRHD = wheel_on_right f,
          dm_visionAwarenessPercent = to_percent (if \<not> vision then last_vision_awareness s else awareness s),
          dm_visionAwarenessStep = (if vision then step_change s else 0),
          dm_isDistracted = driver_distracted f,
          dm_distractedTypes = distracted_types f,
          dm_faceDetected = face_detected f,
          dm_rhdCalibratedPercent =
            to_percent (of_int (rs_n (filtered_stat (wheelpos_offsetter f))) / of_int WHEELPOS_FILTER_MIN_COUNT),
          dm_rhdOffset = rs_M (filtered_stat (wheelpos_offsetter f)),
          dm_pitchCalibratedPercent =
            to_percent (of_int (rs_n (filtered_stat (pitch_offsetter (pose f)))) / of_int POSE_OFFSET_MIN_COUNT),
          dm_yawCalibratedPercent =
            to_percent (of_int (rs_n (filtered_stat (yaw_offsetter (pose f)))) / of_int POSE_OFFSET_MIN_COUNT),
          dm_wheeltouchFallbackPercent = to_percent (of_int (hi_stds f) / of_int HI_STD_FALLBACK_TIME),
          dm_uncertainOffroadAlertPercent = to_percent (of_int (dcam_uncertain_cnt f) / of_int DCAM_UNCERTAIN_ALERT_COUNT),
          dm_wheeltouchAwarenessPercent = to_percent (if vision then last_wheeltouch_awareness s else awareness s),
          dm_wheeltouchAwarenessStep = (if vision then 0 else step_change s),
          dm_driverInteracting = driver_interacting s\<rparr>)"

text \<open>
  The test alert mode. \<open>parse\<close> reads the fingerprint of a stored car, and fails on bytes it
  cannot decode.
\<close>

definition persistent_fingerprint :: "(string \<Rightarrow> string option) \<Rightarrow> string option list \<Rightarrow> string option" where
  \<comment> \<open>the stored values of \<open>CarParams\<close> and \<open>CarParamsPersistent\<close>, in this order\<close>
  "persistent_fingerprint parse raws =
     fold (\<lambda>raw found. case found of
              Some fp \<Rightarrow> Some fp
            | None \<Rightarrow> (case raw of None \<Rightarrow> None | Some b \<Rightarrow> if b = [] then None else parse b)) raws None"

definition is_test_alert_mode_enabled :: "bool \<Rightarrow> string \<Rightarrow> string option \<Rightarrow> bool" where
  \<comment> \<open>the toggle, the environment variable \<open>ALPHA_NO_DM\<close> and the resolved fingerprint\<close>
  "is_test_alert_mode_enabled toggle env fingerprint =
     (if \<not> toggle \<and> env \<noteq> ''1'' then False else fingerprint = Some ''SUBARU_ASCENT_2023'')"

definition apply_test_alert_delay :: "bool \<Rightarrow> dm_settings \<Rightarrow> dm_settings" where
  "apply_test_alert_delay enabled st =
     (if enabled
      then \<lparr>WHEELTOUCH_1 = 99 * 60, WHEELTOUCH_2 = 100 * 60, WHEELTOUCH_3 = 101 * 60,
            VISION_1 = 99 * 60, VISION_2 = 100 * 60, VISION_3 = 101 * 60\<rparr>
      else st)"

definition neutralize_test_alert_state :: "dm \<Rightarrow> dm" where
  "neutralize_test_alert_state s =
     s\<lparr>alert_level := AL_none,
       lock := (lock s)\<lparr>lockout_active := False, alert_3_cnt := 0, cnt_since_alert_3 := 0, no_response_cnt := 0\<rparr>\<rparr>"

text \<open>
  An iteration of the loop on a new model output: \<open>valid\<close> is \<open>sm.all_checks()\<close>,
  \<open>demo\<close> whether the driver view is on (and the model's message is valid). It returns the
  monitor and the message it sends.
\<close>

definition dm_loop :: "bool \<Rightarrow> bool \<Rightarrow> bool \<Rightarrow> dm_input \<Rightarrow> dm \<Rightarrow> (dm \<times> dm_packet) option" where
  "dm_loop test_mode valid demo i s =
     do { s \<leftarrow> (if demo then dm_run_step True i s else if valid then dm_run_step False i s else Some s);
          let s = (if test_mode then neutralize_test_alert_state s else s);
          Some (s, get_state_packet s) }"

end
