(* ===== verification/MonitoringFacts.thy ===== *)
theory MonitoringFacts
  imports Monitoring
begin

text \<open>
  What driver monitoring guarantees: bounds, the terminal red alert, how long alerts and lockouts
  take, that a policy switch is no way out, and what the test alert mode does to the messages.
\<close>

section \<open>Which step changes what\<close>

lemma LOCKOUT_TIMES_eq: "LOCKOUT_TIMES = [1200, 6000, 18000, 36000]"
  by (simp add: LOCKOUT_TIMES_def py_num)

lemma set_policy_simps [simp]:
  "settings (set_policy p s) = settings s" "lock (set_policy p s) = lock s" "face (set_policy p s) = face s"
  "alert_level (set_policy p s) = alert_level s" "always_on (set_policy p s) = always_on s"
  by (simp_all add: set_policy_def Let_def)

lemma update_states_shape:
  assumes "update_states ds rpy v op low demo st s = Some s'"
  obtains f where "s' = s\<lparr>face := f\<rparr>" | f p where "s' = (set_policy p s)\<lparr>face := f\<rparr>"
  using assms by (auto simp: update_states_def Let_def split: if_splits bind_splits)

lemma update_alert_lock [simp]:
  "lockout_active (lock (update_alert a e s)) = lockout_active (lock s)"
  "lockout_duration (lock (update_alert a e s)) = lockout_duration (lock s)"
  "lockout_time_elapsed (lock (update_alert a e s)) = lockout_time_elapsed (lock s)"
  "lockout_count (lock (update_alert a e s)) = lockout_count (lock s)"
  "no_response_timeout (lock (update_alert a e s)) = no_response_timeout (lock s)"
  by (simp_all add: update_alert_def Let_def)

lemma update_alert_simps [simp]:
  "settings (update_alert a e s) = settings s" "face (update_alert a e s) = face s"
  "active_policy (update_alert a e s) = active_policy s" "step_change (update_alert a e s) = step_change s"
  "threshold_alert_1 (update_alert a e s) = threshold_alert_1 s"
  "threshold_alert_2 (update_alert a e s) = threshold_alert_2 s"
  "last_vision_awareness (update_alert a e s) = last_vision_awareness s"
  "last_wheeltouch_awareness (update_alert a e s) = last_wheeltouch_awareness s"
  by (simp_all add: update_alert_def Let_def)

lemma recovered_simps [simp]:
  "settings (recovered s) = settings s" "lock (recovered s) = lock s" "face (recovered s) = face s"
  "active_policy (recovered s) = active_policy s" "step_change (recovered s) = step_change s"
  "alert_level (recovered s) = alert_level s"
  "threshold_alert_1 (recovered s) = threshold_alert_1 s" "threshold_alert_2 (recovered s) = threshold_alert_2 s"
  "last_vision_awareness (recovered s) = last_vision_awareness s"
  by (simp_all add: recovered_def Let_def)

lemma reset_awareness_simps [simp]:
  "settings (reset_awareness s) = settings s" "lock (reset_awareness s) = lock s" "face (reset_awareness s) = face s"
  "active_policy (reset_awareness s) = active_policy s" "step_change (reset_awareness s) = step_change s"
  "alert_level (reset_awareness s) = alert_level s" "awareness (reset_awareness s) = 1"
  "last_vision_awareness (reset_awareness s) = 1" "last_wheeltouch_awareness (reset_awareness s) = 1"
  "threshold_alert_1 (reset_awareness s) = threshold_alert_1 s" "threshold_alert_2 (reset_awareness s) = threshold_alert_2 s"
  by (simp_all add: reset_awareness_def)

text \<open>
  Every step ends in one of three ways. An invariant of the awareness is proved for each of them.
\<close>

definition entered :: "bool \<Rightarrow> dm \<Rightarrow> dm" where
  \<comment> \<open>the state after the first statements of \<open>update_events\<close>\<close>
  "entered de s = s\<lparr>alert_level := AL_none, driver_interacting := de, lock := update_lockout (lock s)\<rparr>"

definition exempted :: "bool \<Rightarrow> bool \<Rightarrow> bool \<Rightarrow> dm \<Rightarrow> bool" where
  "exempted op low wg s \<longleftrightarrow> low \<and> awareness s - step_change s \<le> threshold_alert_1 s \<or>
     always_on s \<and> \<not> wg \<and> \<not> op \<and> awareness s - step_change s \<le> 0"

definition may_recover :: "bool \<Rightarrow> dm \<Rightarrow> bool" where
  "may_recover low s \<longleftrightarrow>
     awareness s > 0 \<and> (attentive s \<or> low \<and> awareness s - step_change s \<le> threshold_alert_1 s)"

lemma entered_simps [simp]:
  "settings (entered de s) = settings s" "face (entered de s) = face s" "lock (entered de s) = update_lockout (lock s)"
  "active_policy (entered de s) = active_policy s" "step_change (entered de s) = step_change s"
  "alert_level (entered de s) = AL_none" "awareness (entered de s) = awareness s" "always_on (entered de s) = always_on s"
  "last_vision_awareness (entered de s) = last_vision_awareness s"
  "last_wheeltouch_awareness (entered de s) = last_wheeltouch_awareness s"
  "threshold_alert_1 (entered de s) = threshold_alert_1 s" "threshold_alert_2 (entered de s) = threshold_alert_2 s"
  "attentive (entered de s) = attentive s"
  by (simp_all add: entered_def attentive_def)

lemma update_events_eq:
  "update_events de op low wg s =
     (if de \<and> awareness s > 0 \<and> active_policy s = Pol_wheeltouch \<or>
         \<not> op \<and> (always_on s \<and> \<not> wg \<longrightarrow> awareness s \<le> 0) then reset_awareness (entered de s)
      else if may_recover low s then
        if de then reset_awareness (entered de s)
        else if awareness (recovered (entered de s)) > threshold_alert_2 s then recovered (entered de s)
        else update_alert (awareness s) (exempted op low wg s) (recovered (entered de s))
      else update_alert (awareness s) (exempted op low wg s) (entered de s))"
  unfolding update_events_def Let_def entered_def [symmetric]
  by (intro if_cong refl) (auto simp only: entered_simps recovered_simps may_recover_def exempted_def simp_thms)

lemma update_events_cases:
  obtains
    (reset) "update_events de op low wg s = reset_awareness (entered de s)" "\<not> op \<or> awareness s > 0 \<and> de"
  | (recover) "update_events de op low wg s = recovered (entered de s)" "may_recover low s" "\<not> de"
      "awareness (recovered (entered de s)) > threshold_alert_2 s"
  | (orange) "update_events de op low wg s = update_alert (awareness s) (exempted op low wg s) (recovered (entered de s))"
      "may_recover low s" "\<not> de" "awareness (recovered (entered de s)) \<le> threshold_alert_2 s"
  | (alert) "update_events de op low wg s = update_alert (awareness s) (exempted op low wg s) (entered de s)"
      "\<not> may_recover low s"
proof -
  let ?c = "de \<and> awareness s > 0 \<and> active_policy s = Pol_wheeltouch \<or>
         \<not> op \<and> (always_on s \<and> \<not> wg \<longrightarrow> awareness s \<le> 0)"
  let ?t = "awareness (recovered (entered de s)) > threshold_alert_2 s"
  note eq = update_events_eq [of de op low wg s]
  consider "?c" | "\<not> ?c" "may_recover low s" "de" | "\<not> ?c" "may_recover low s" "\<not> de" "?t"
    | "\<not> ?c" "may_recover low s" "\<not> de" "\<not> ?t" | "\<not> ?c" "\<not> may_recover low s" by blast
  then show ?thesis
  proof cases
    case 1
    with eq have "update_events de op low wg s = reset_awareness (entered de s)" by (simp only: if_True)
    then show ?thesis using 1 by (blast intro: reset)
  next
    case 2
    with eq have "update_events de op low wg s = reset_awareness (entered de s)" by (simp only: if_True if_False)
    then show ?thesis using 2 by (intro reset) (simp_all only: may_recover_def simp_thms)
  next
    case 3
    with eq show ?thesis by (intro recover) (simp_all only: if_True if_False simp_thms)
  next
    case 4
    with eq have "update_events de op low wg s = update_alert (awareness s) (exempted op low wg s) (recovered (entered de s))"
      by (simp only: if_True if_False)
    then show ?thesis using 4 by (intro orange) (simp_all only: not_less not_False_eq_True)
  next
    case 5
    with eq show ?thesis by (intro alert) (simp_all only: if_True if_False simp_thms)
  qed
qed

lemma update_events_lock [simp]:
  "lockout_active (lock (update_events de op low wg s)) = lockout_active (update_lockout (lock s))"
  "lockout_duration (lock (update_events de op low wg s)) = lockout_duration (update_lockout (lock s))"
  "lockout_time_elapsed (lock (update_events de op low wg s)) = lockout_time_elapsed (update_lockout (lock s))"
  "lockout_count (lock (update_events de op low wg s)) = lockout_count (update_lockout (lock s))"
  "no_response_timeout (lock (update_events de op low wg s)) = no_response_timeout (update_lockout (lock s))"
  by (simp_all add: update_events_eq)

section \<open>Runs\<close>

text \<open>Inputs on which no index is out of range: the lists are empty or long enough.\<close>

definition driver_data_ok :: "driver_data \<Rightarrow> bool" where
  "driver_data_ok d \<longleftrightarrow> 2 \<le> length (faceOrientation d) \<and> 2 \<le> length (facePosition d) \<and> 2 \<le> length (faceOrientationStd d)"

definition dm_input_ok :: "dm_input \<Rightarrow> bool" where
  "dm_input_ok i \<longleftrightarrow> driver_data_ok (leftDriverData (driverStateV2 i)) \<and> driver_data_ok (rightDriverData (driverStateV2 i)) \<and>
     brakeDisengageProbs i \<noteq> [] \<and> 3 \<le> length (rpyCalib i)"

lemma py_nth_returns: "i < length xs \<Longrightarrow> returns (py_nth xs i) (\<lambda>_. True)"
  by (simp add: py_nth_def)

lemma read_face_total:
  assumes "driver_data_ok d" "3 \<le> length rpy"
  shows "returns (read_face d rpy v op low st f) (\<lambda>_. True)"
proof -
  have i: "0 < length (faceOrientation d)" "1 < length (faceOrientation d)" "0 < length (facePosition d)"
    "1 < length (facePosition d)" "0 < length (faceOrientationStd d)" "1 < length (faceOrientationStd d)"
    "1 < length rpy" "2 < length rpy"
    using assms by (auto simp: driver_data_ok_def)
  show ?thesis
    unfolding read_face_def face_orientation_from_model_def
    by (intro returns_intros py_nth_returns i) simp_all
qed

lemma update_states_total:
  assumes "dm_input_ok i" "3 \<le> length rpy"
  shows "returns (update_states (driverStateV2 i) rpy v op low demo st s) (\<lambda>_. True)"
proof -
  have d: "driver_data_ok (if wheel_on_right f then rightDriverData (driverStateV2 i) else leftDriverData (driverStateV2 i))" for f
    using assms(1) by (simp add: dm_input_ok_def)
  show ?thesis
    unfolding update_states_def
    by (rule returns_Let_eqI, rule returns_Let_eqI, rule returns_ifI, simp, rule returns_bindI)
      (simp_all only: d read_face_total [OF _ assms(2)], simp_all add: Let_def)
qed

lemma dm_run_step_total:
  assumes "dm_input_ok i"
  shows "returns (dm_run_step False i s) (\<lambda>_. True)"
proof -
  obtain bp where "py_nth (brakeDisengageProbs i) 0 = Some bp" "3 \<le> length (rpyCalib i)"
    using assms by (auto simp: dm_input_ok_def py_nth_def)
  then show ?thesis
    using update_states_total [OF assms]
    by (simp add: dm_run_step_def wp Let_def)
qed

definition dm_engaged :: "dm_input \<Rightarrow> bool" where
  "dm_engaged i \<longleftrightarrow> dm_enabled i \<or> latActive i"

definition dm_interacting :: "dm_input \<Rightarrow> bool" where
  "dm_interacting i \<longleftrightarrow> steeringPressed (dm_CS i) \<or> dm_enabled i \<and> gasPressed (dm_CS i)"

definition dm_lowspeed :: "dm_input \<Rightarrow> bool" where
  "dm_lowspeed i \<longleftrightarrow> vEgo (dm_CS i) < ALERT_MIN_SPEED"

definition dm_wrong_gear :: "dm_input \<Rightarrow> bool" where
  "dm_wrong_gear i \<longleftrightarrow> gearShifter (dm_CS i) \<notin> {Gear_drive, Gear_low}"

primrec dm_run :: "dm_input list \<Rightarrow> dm \<Rightarrow> dm option" where
  "dm_run [] s = Some s"
| "dm_run (i # is) s = do { s \<leftarrow> dm_run_step False i s; dm_run is s }"

lemma set_policy_face: "(set_policy p (s\<lparr>face := g\<rparr>))\<lparr>face := f\<rparr> = (set_policy p s)\<lparr>face := f\<rparr>"
  by (simp add: set_policy_def Let_def)

definition policy_for :: "dm_face \<Rightarrow> mon_policy" where
  "policy_for f = (if face_detected f \<and> \<not> is_model_uncertain f then Pol_vision else Pol_wheeltouch)"

definition seen :: "mon_policy option \<Rightarrow> dm_face \<Rightarrow> dm \<Rightarrow> dm" where
  \<comment> \<open>what the reading of the driver does to the rest of the state: perhaps a policy is chosen\<close>
  "seen p f s = (case p of None \<Rightarrow> s | Some p \<Rightarrow> set_policy p s)\<lparr>face := f\<rparr>"

lemma dm_run_step_shape:
  assumes "dm_input_ok i"
  obtains p f where "dm_run_step False i s =
      Some (update_events (dm_interacting i) (dm_engaged i) (dm_lowspeed i) (dm_wrong_gear i) (seen p f s))"
proof -
  obtain bp where bp: "py_nth (brakeDisengageProbs i) 0 = Some bp" "3 \<le> length (rpyCalib i)"
    using assms by (auto simp: dm_input_ok_def py_nth_def)
  define s0 where "s0 = s\<lparr>face := (face s)\<lparr>pose := set_pose_strictness bp (vEgo (dm_CS i)) (pose (face s))\<rparr>\<rparr>"
  obtain s1 where s1: "update_states (driverStateV2 i) (rpyCalib i) (vEgo (dm_CS i)) (dm_engaged i) (dm_lowspeed i) False
      (steeringAngleDeg (dm_CS i)) s0 = Some s1"
    using update_states_total [OF assms bp(2)] by (fastforce simp: returns_bind_ex)
  then have "dm_run_step False i s =
      Some (update_events (dm_interacting i) (dm_engaged i) (dm_lowspeed i) (dm_wrong_gear i) s1)"
    using bp(1) by (simp add: dm_run_step_def s0_def dm_engaged_def dm_interacting_def dm_lowspeed_def dm_wrong_gear_def Let_def)
  moreover have "\<exists>p f. s1 = seen p f s"
    using s1
  proof (rule update_states_shape)
    fix f assume "s1 = s0\<lparr>face := f\<rparr>"
    then have "s1 = seen None f s" by (simp add: seen_def s0_def)
    then show ?thesis by blast
  next
    fix f p assume "s1 = (set_policy p s0)\<lparr>face := f\<rparr>"
    then have "s1 = seen (Some p) f s" by (simp add: seen_def s0_def set_policy_face)
    then show ?thesis by blast
  qed
  ultimately show ?thesis using that by blast
qed

lemma seen_simps [simp]:
  "settings (seen p f s) = settings s" "lock (seen p f s) = lock s" "face (seen p f s) = f"
  "alert_level (seen p f s) = alert_level s" "always_on (seen p f s) = always_on s"
  by (simp_all add: seen_def split: option.split)

section \<open>Lockouts\<close>

definition lock_ok :: "dm_lock \<Rightarrow> bool" where
  "lock_ok l \<longleftrightarrow> 0 \<le> lockout_time_elapsed l \<and> 0 \<le> lockout_count l \<and> lockout_duration l \<in> set LOCKOUT_TIMES \<and>
     no_response_timeout l = 100 \<and>
     (if lockout_active l then lockout_time_elapsed l \<le> lockout_duration l else lockout_time_elapsed l = 0)"

lemma lockout_time_mem: "0 \<le> i \<Longrightarrow> lockout_time i \<in> set LOCKOUT_TIMES"
  unfolding lockout_time_def by (rule nth_mem) (auto simp: LOCKOUT_TIMES_eq min_def)

lemma lockout_duration_pos: "lock_ok l \<Longrightarrow> 1200 \<le> lockout_duration l"
  by (auto simp: lock_ok_def LOCKOUT_TIMES_eq)

lemma update_lockout_ok: "lock_ok l \<Longrightarrow> lock_ok (update_lockout l)"
  using lockout_duration_pos [of l] lockout_time_mem [of "lockout_count l"]
  by (auto simp: lock_ok_def update_lockout_def Let_def LOCKOUT_TIMES_eq)

lemma update_lockout_active:
  "lock_ok l \<Longrightarrow> lockout_active l \<Longrightarrow>
     (if lockout_time_elapsed l < lockout_duration l
      then update_lockout l = l\<lparr>lockout_time_elapsed := lockout_time_elapsed l + 1\<rparr>
      else \<not> lockout_active (update_lockout l))"
  by (auto simp: lock_ok_def update_lockout_def Let_def)

lemma lock_ok_update_events: "lock_ok (lock s) \<Longrightarrow> lock_ok (lock (update_events de op low wg s))"
  using update_lockout_ok [of "lock s"] by (simp add: lock_ok_def)

lemma dm_run_step_lock:
  assumes "dm_input_ok i" and "lock_ok (lock s)"
  shows "returns (dm_run_step False i s) (\<lambda>t. lock_ok (lock t) \<and>
    (lockout_active (lock s) \<longrightarrow> lockout_duration (lock t) = lockout_duration (lock s) \<and>
      (if lockout_time_elapsed (lock s) < lockout_duration (lock s)
       then lockout_active (lock t) \<and> lockout_time_elapsed (lock t) = lockout_time_elapsed (lock s) + 1
       else \<not> lockout_active (lock t))))"
proof -
  obtain p f where *: "dm_run_step False i s =
      Some (update_events (dm_interacting i) (dm_engaged i) (dm_lowspeed i) (dm_wrong_gear i) (seen p f s))"
    by (rule dm_run_step_shape [OF assms(1)])
  show ?thesis
    unfolding * using update_lockout_active [OF assms(2)] lock_ok_update_events [of "seen p f s"] assms(2)
    by (auto simp: update_lockout_def Let_def split: if_splits)
qed

lemma dm_run_lock:
  assumes "\<forall>i \<in> set is. dm_input_ok i" and "lock_ok (lock s)" and "lockout_active (lock s)"
    and "int (length is) \<le> lockout_duration (lock s) - lockout_time_elapsed (lock s) + 1"
  shows "returns (dm_run is s) (\<lambda>t. lock_ok (lock t) \<and> (lockout_active (lock t) \<longleftrightarrow>
    int (length is) \<le> lockout_duration (lock s) - lockout_time_elapsed (lock s)))"
  using assms
proof (induction "is" arbitrary: s)
  case Nil
  then show ?case by (simp add: lock_ok_def)
next
  case (Cons i js)
  obtain t where t: "dm_run_step False i s = Some t" "lock_ok (lock t)"
    "lockout_duration (lock t) = lockout_duration (lock s)"
    "if lockout_time_elapsed (lock s) < lockout_duration (lock s)
     then lockout_active (lock t) \<and> lockout_time_elapsed (lock t) = lockout_time_elapsed (lock s) + 1
     else \<not> lockout_active (lock t)"
    using dm_run_step_lock [of i s] Cons.prems by (auto simp: returns_ex)
  show ?case
  proof (cases "lockout_time_elapsed (lock s) < lockout_duration (lock s)")
    case True
    with t Cons.prems Cons.IH [of t] have "returns (dm_run js t) (\<lambda>u. lock_ok (lock u) \<and> (lockout_active (lock u) \<longleftrightarrow>
        int (length js) \<le> lockout_duration (lock s) - (lockout_time_elapsed (lock s) + 1)))" by simp
    then show ?thesis using t(1) by (auto elim!: returns_mono)
  next
    case False
    with Cons.prems have "js = []" "lockout_time_elapsed (lock s) = lockout_duration (lock s)"
      by (auto simp: lock_ok_def)
    with t False show ?thesis by simp
  qed
qed

text \<open>
  A lockout lasts for its duration, to the frame. Whatever the driver, the car and the model do
  in the meantime, a monitor that is locked out is still locked out after any number of steps up to
  the time that is left, and no longer after one more.
\<close>

theorem lockout_lasts_its_duration:
  assumes "\<forall>i \<in> set is. dm_input_ok i" and "lock_ok (lock s)" and "lockout_active (lock s)"
    and "int (length is) \<le> lockout_duration (lock s) - lockout_time_elapsed (lock s) + 1"
  shows "returns (dm_run is s) (\<lambda>t. lockout_active (lock t) \<longleftrightarrow>
    int (length is) \<le> lockout_duration (lock s) - lockout_time_elapsed (lock s))"
  by (rule returns_mono [OF dm_run_lock [OF assms]]) simp

section \<open>The invariant\<close>

definition settings_ok :: "dm_settings \<Rightarrow> bool" where
  "settings_ok st \<longleftrightarrow> 0 < VISION_1 st \<and> VISION_1 st < VISION_2 st \<and> VISION_2 st < VISION_3 st \<and>
     0 < WHEELTOUCH_1 st \<and> WHEELTOUCH_1 st < WHEELTOUCH_2 st \<and> WHEELTOUCH_2 st < WHEELTOUCH_3 st"

definition aware_ok :: "dm \<Rightarrow> bool" where
  "aware_ok s \<longleftrightarrow> settings_ok (settings s) \<and> 0 \<le> step_change s \<and>
     - (1 / 10) \<le> awareness s \<and> awareness s \<le> 1 \<and>
     0 < last_vision_awareness s \<and> last_vision_awareness s \<le> 1 \<and>
     0 < last_wheeltouch_awareness s \<and> last_wheeltouch_awareness s \<le> 1 \<and>
     0 \<le> threshold_alert_2 s \<and> threshold_alert_2 s \<le> threshold_alert_1 s \<and> threshold_alert_1 s < 1"

definition level_of :: "dm \<Rightarrow> alert_level" where
  \<comment> \<open>the level that the awareness stands for\<close>
  "level_of s = (if awareness s \<le> 0 then AL_three else if awareness s \<le> threshold_alert_2 s then AL_two
     else if awareness s \<le> threshold_alert_1 s then AL_one else AL_none)"

lemma settings_ok_standard: "settings_ok DRIVER_MONITOR_SETTINGS" "settings_ok (apply_test_alert_delay b DRIVER_MONITOR_SETTINGS)"
  by (simp_all add: settings_ok_def DRIVER_MONITOR_SETTINGS_def apply_test_alert_delay_def)

lemma ratio_bounds:
  fixes a b c :: real
  assumes "0 < a" "a < b" "b < c"
  shows "0 \<le> 1 - b / c" "1 - b / c \<le> 1 - a / c" "1 - a / c < 1" "0 \<le> DT_DMON / c"
  using assms by (simp_all add: field_simps)

lemma aware_ok_set_policy: "aware_ok s \<Longrightarrow> aware_ok (set_policy p s)"
  unfolding aware_ok_def set_policy_def Let_def settings_ok_def
  using ratio_bounds [of "VISION_1 (settings s)" "VISION_2 (settings s)" "VISION_3 (settings s)"]
    ratio_bounds [of "WHEELTOUCH_1 (settings s)" "WHEELTOUCH_2 (settings s)" "WHEELTOUCH_3 (settings s)"]
  by (cases p; cases "active_policy s") (auto simp: not_le)

lemma aware_ok_seen: "aware_ok s \<Longrightarrow> aware_ok (seen p f s)"
proof -
  have "aware_ok (t\<lparr>face := f\<rparr>) = aware_ok t" for t by (simp add: aware_ok_def)
  then show "aware_ok s \<Longrightarrow> aware_ok (seen p f s)"
    by (auto simp: seen_def aware_ok_set_policy split: option.split)
qed

lemma recovered_awareness:
  assumes "aware_ok s"
  shows "awareness s \<le> awareness (recovered s)" "awareness (recovered s) \<le> 1"
    "last_wheeltouch_awareness s \<le> last_wheeltouch_awareness (recovered s)"
    "last_wheeltouch_awareness (recovered s) \<le> 1"
proof -
  define d where "d = ((RECOVERY_FACTOR_MAX - RECOVERY_FACTOR_MIN) * (1 - awareness s) + RECOVERY_FACTOR_MIN) * step_change s"
  have "0 \<le> d"
    using assms unfolding d_def by (intro mult_nonneg_nonneg) (auto simp: aware_ok_def)
  moreover have "awareness (recovered s) = min (awareness s + d) 1"
    "last_wheeltouch_awareness (recovered s) = (if min (awareness s + d) 1 = 1
       then min (last_wheeltouch_awareness s + step_change s) 1 else last_wheeltouch_awareness s)"
    unfolding recovered_def Let_def d_def [symmetric] by simp_all
  ultimately show "awareness s \<le> awareness (recovered s)" "awareness (recovered s) \<le> 1"
    "last_wheeltouch_awareness s \<le> last_wheeltouch_awareness (recovered s)"
    "last_wheeltouch_awareness (recovered s) \<le> 1"
    using assms by (simp_all add: aware_ok_def)
qed

lemma aware_ok_recovered: "aware_ok s \<Longrightarrow> aware_ok (recovered s)"
  using recovered_awareness [of s] by (simp add: aware_ok_def)

definition counts_down :: "dm_face \<Rightarrow> bool" where
  \<comment> \<open>certainly or maybe distracted\<close>
  "counts_down f \<longleftrightarrow> fo_x (driver_distraction_filter f) > 63 / 100 \<and> driver_distracted f \<and> face_detected f \<or>
     is_model_uncertain f \<or> \<not> face_detected f"

lemma update_alert_awareness:
  "awareness (update_alert a e s) =
     (if counts_down (face s) \<and> \<not> e then max (awareness s - step_change s) (- (1 / 10)) else awareness s)"
  unfolding update_alert_def Let_def counts_down_def [symmetric] by (cases "counts_down (face s)"; cases e) simp_all

lemma update_alert_bounds:
  assumes "aware_ok s"
  shows "- (1 / 10) \<le> awareness (update_alert a e s)" "awareness (update_alert a e s) \<le> awareness s"
  using assms by (auto simp: aware_ok_def update_alert_awareness)

lemma aware_ok_update_alert: "aware_ok s \<Longrightarrow> aware_ok (update_alert a e s)"
  using update_alert_bounds [of s a e] by (simp add: aware_ok_def)

lemma update_alert_level:
  "alert_level s = AL_none \<Longrightarrow> alert_level (update_alert a e s) = level_of (update_alert a e s)"
  unfolding update_alert_def Let_def counts_down_def [symmetric]
  by (cases "counts_down (face s)"; cases e) (simp_all add: level_of_def)

lemma aware_ok_reset: "aware_ok s \<Longrightarrow> aware_ok (reset_awareness s)"
  by (simp add: aware_ok_def)

lemma aware_ok_entered [simp]: "aware_ok (entered de s) = aware_ok s"
  by (simp add: aware_ok_def)

lemma update_events_ok:
  fixes de op low wg
  assumes "aware_ok s"
  defines "t \<equiv> update_events de op low wg s"
  shows "aware_ok t \<and> (alert_level t = level_of t \<or> alert_level t = AL_none \<and> awareness t > threshold_alert_2 t)"
proof (cases rule: update_events_cases [of de op low wg s])
  case reset
  have "level_of (reset_awareness (entered de s)) = AL_none" using assms(1) by (auto simp: level_of_def aware_ok_def)
  with reset assms(1) show ?thesis by (simp add: t_def aware_ok_reset)
next
  case recover
  then show ?thesis using assms(1) by (simp add: t_def aware_ok_recovered)
next
  case orange
  then show ?thesis
    using assms(1) by (simp add: t_def aware_ok_update_alert aware_ok_recovered update_alert_level)
next
  case alert
  then show ?thesis using assms(1) by (simp add: t_def aware_ok_update_alert update_alert_level)
qed

text \<open>An invariant of one step is an invariant of every run on inputs of the right shape.\<close>

lemma dm_run_inv:
  assumes "\<And>i s. Q i \<Longrightarrow> P s \<Longrightarrow> returns (dm_run_step False i s) P" and "\<forall>i \<in> set is. Q i" and "P s"
  shows "returns (dm_run is s) P"
  using assms(2,3)
proof (induction "is" arbitrary: s)
  case Nil
  then show ?case by simp
next
  case (Cons i js)
  then show ?case using assms(1) [of i s] by (auto simp: wp elim!: returns_mono)
qed

lemma dm_run_snoc: "dm_run (is @ [i]) s = do { s \<leftarrow> dm_run is s; dm_run_step False i s }"
  by (induction "is" arbitrary: s) simp_all

definition dm_ok :: "dm \<Rightarrow> bool" where
  "dm_ok s \<longleftrightarrow> aware_ok s \<and> lock_ok (lock s)"

lemma dm_step_ok:
  assumes "dm_input_ok i" "dm_ok s"
  shows "returns (dm_run_step False i s) (\<lambda>t. dm_ok t \<and>
    (alert_level t = level_of t \<or> alert_level t = AL_none \<and> awareness t > threshold_alert_2 t))"
proof -
  obtain p f where "dm_run_step False i s =
      Some (update_events (dm_interacting i) (dm_engaged i) (dm_lowspeed i) (dm_wrong_gear i) (seen p f s))"
    by (rule dm_run_step_shape [OF assms(1)])
  then show ?thesis
    using assms(2) update_events_ok [OF aware_ok_seen, of s] lock_ok_update_events [of "seen p f s"]
    by (simp add: dm_ok_def)
qed

lemma dm_run_ok: "\<forall>i \<in> set is. dm_input_ok i \<Longrightarrow> dm_ok s \<Longrightarrow> returns (dm_run is s) dm_ok"
  by (rule dm_run_inv [where Q = dm_input_ok]) (auto intro: returns_mono [OF dm_step_ok])

lemma dm_init_ok:
  assumes "settings_ok st" "0 \<le> lockouts"
  shows "dm_ok (dm_init rhd st al td lockouts)"
proof -
  have "aware_ok (dm_init rhd st al td lockouts)"
    unfolding dm_init_def using assms(1)
    by (intro aware_ok_set_policy aware_ok_reset) (simp add: aware_ok_def)
  moreover have "lockout_time (max (lockouts - 1) 0) \<in> set LOCKOUT_TIMES" by (rule lockout_time_mem) simp
  then have "lock_ok (lock (dm_init rhd st al td lockouts))"
    using assms(2) by (auto simp: dm_init_def lock_ok_def py_num LOCKOUT_TIMES_eq)
  ultimately show ?thesis by (simp add: dm_ok_def)
qed

text \<open>
  C34. Monitoring never raises and keeps its bounds. From the start, on any sequence of inputs whose
  model outputs are long enough, every step returns; the awareness stays between -0.1 and 1 and the
  thresholds in order; the alert level is the one the awareness stands for, except that a recovering
  driver is shown no alert above the second threshold; and a lockout never outlives its duration.
\<close>

theorem monitoring_invariant:
  assumes "\<forall>i \<in> set is. dm_input_ok i" and "is \<noteq> []" and "settings_ok st" and "0 \<le> lockouts"
  shows "returns (dm_run is (dm_init rhd st al td lockouts)) (\<lambda>t.
    - (1 / 10) \<le> awareness t \<and> awareness t \<le> 1 \<and>
    0 \<le> threshold_alert_2 t \<and> threshold_alert_2 t \<le> threshold_alert_1 t \<and> threshold_alert_1 t < 1 \<and>
    (alert_level t = level_of t \<or> alert_level t = AL_none \<and> awareness t > threshold_alert_2 t) \<and>
    (lockout_active (lock t) \<longrightarrow> lockout_time_elapsed (lock t) \<le> lockout_duration (lock t)))"
proof -
  obtain js i where "is": "is = js @ [i]" using assms(2) by (metis rev_exhaust)
  have "returns (dm_run js (dm_init rhd st al td lockouts)) dm_ok"
    using assms(1) by (intro dm_run_ok dm_init_ok assms(3,4)) (simp add: "is")
  then obtain s where s: "dm_run js (dm_init rhd st al td lockouts) = Some s" "dm_ok s" by (auto simp: returns_ex)
  have "returns (dm_run_step False i s) (\<lambda>t. dm_ok t \<and>
    (alert_level t = level_of t \<or> alert_level t = AL_none \<and> awareness t > threshold_alert_2 t))"
    using assms(1) s(2) by (intro dm_step_ok) (simp_all add: "is")
  then show ?thesis
    unfolding "is" dm_run_snoc using s(1)
    by (auto simp: dm_ok_def aware_ok_def lock_ok_def elim!: returns_mono)
qed

section \<open>The red alert\<close>

lemma set_policy_no_way_out:
  assumes "active_policy s = Pol_vision \<and> awareness s \<le> threshold_alert_2 s \<or> awareness s \<le> 0"
  shows "awareness (set_policy p s) = awareness s \<and> active_policy (set_policy p s) = active_policy s \<and>
    threshold_alert_2 (set_policy p s) = threshold_alert_2 s"
  using assms by (auto simp: set_policy_def Let_def)

lemma seen_no_way_out:
  assumes "active_policy s = Pol_vision \<and> awareness s \<le> threshold_alert_2 s \<or> awareness s \<le> 0"
  shows "awareness (seen p f s) = awareness s"
  using set_policy_no_way_out [OF assms] by (simp add: seen_def split: option.split)

definition red :: "dm \<Rightarrow> bool" where
  "red s \<longleftrightarrow> dm_ok s \<and> awareness s \<le> 0"

lemma red_update_events:
  assumes "aware_ok s" "awareness s \<le> 0"
  shows "\<exists>e. update_events de True low wg s = update_alert (awareness s) e (entered de s)"
  using assms(2) by (cases rule: update_events_cases [of de True low wg s]) (auto simp: may_recover_def)

lemma red_step:
  assumes "dm_input_ok i" "dm_engaged i" "red s"
  shows "returns (dm_run_step False i s) (\<lambda>t. red t \<and> alert_level t = AL_three)"
proof -
  obtain p f where step: "dm_run_step False i s =
      Some (update_events (dm_interacting i) (dm_engaged i) (dm_lowspeed i) (dm_wrong_gear i) (seen p f s))"
    by (rule dm_run_step_shape [OF assms(1)])
  have s: "aware_ok (seen p f s)" "awareness (seen p f s) \<le> 0"
    using assms(3) aware_ok_seen [of s p f] seen_no_way_out [of s p f] by (simp_all add: red_def dm_ok_def)
  obtain e where e: "update_events (dm_interacting i) True (dm_lowspeed i) (dm_wrong_gear i) (seen p f s) =
      update_alert (awareness (seen p f s)) e (entered (dm_interacting i) (seen p f s))"
    using red_update_events [OF s] by blast
  have "awareness (update_alert a e (entered de (seen p f s))) \<le> 0" for a de
    using update_alert_bounds(2) [of "entered de (seen p f s)" a e] s by simp
  moreover from this have "alert_level (update_alert a e (entered de (seen p f s))) = AL_three" for a de
    by (simp add: update_alert_level level_of_def)
  moreover have "returns (dm_run_step False i s) dm_ok"
    using assms(1,3) by (auto simp: red_def intro: returns_mono [OF dm_step_ok])
  ultimately show ?thesis using step e assms(2) by (simp add: red_def)
qed

text \<open>
  A red alert is terminal. Once the awareness has run out, no input brings it back while the
  system is engaged: touching the wheel, looking ahead, standing still or a change of policy leave
  the awareness at or below zero and the third alert on, for any number of steps.
\<close>

theorem red_alert_is_terminal:
  assumes "\<forall>i \<in> set is. dm_input_ok i \<and> dm_engaged i" and "is \<noteq> []" and "dm_ok s" and "awareness s \<le> 0"
  shows "returns (dm_run is s) (\<lambda>t. awareness t \<le> 0 \<and> alert_level t = AL_three)"
proof -
  obtain js i where "is": "is = js @ [i]" using assms(2) by (metis rev_exhaust)
  have "returns (dm_run js s) red"
    by (rule dm_run_inv [where Q = "\<lambda>i. dm_input_ok i \<and> dm_engaged i"])
      (use assms in \<open>auto simp: "is" red_def [of s] intro: returns_mono [OF red_step]\<close>)
  then obtain t where t: "dm_run js s = Some t" "red t" by (auto simp: returns_ex)
  have "returns (dm_run_step False i t) (\<lambda>t. red t \<and> alert_level t = AL_three)"
    using assms(1) t(2) by (intro red_step) (simp_all add: "is")
  then show ?thesis
    unfolding "is" dm_run_snoc using t(1) by (auto simp: red_def elim!: returns_mono)
qed

definition unanswered :: "dm_lock \<Rightarrow> dm_lock" where
  \<comment> \<open>a further frame of a red alert\<close>
  "unanswered l =
     (let l = l\<lparr>cnt_since_alert_3 := cnt_since_alert_3 l + 1\<rparr>
      in if cnt_since_alert_3 l = no_response_timeout l then l\<lparr>no_response_cnt := no_response_cnt l + 1\<rparr> else l)"

lemma update_alert_red_lock:
  assumes "aware_ok s" "awareness s \<le> 0" "a \<le> 0"
  shows "lock (update_alert a e s) = unanswered (lock s)"
proof -
  have "awareness (update_alert a e s) \<le> 0" using update_alert_bounds(2) [OF assms(1), of a e] assms(2) by simp
  then show ?thesis
    using assms(3) unfolding update_alert_awareness
    unfolding update_alert_def unanswered_def Let_def counts_down_def [symmetric]
    by (cases "counts_down (face s)"; cases e) simp_all
qed

definition counting_to :: "int \<Rightarrow> dm \<Rightarrow> bool" where
  \<comment> \<open>red for so many frames, or locked out within them\<close>
  "counting_to k s \<longleftrightarrow> red s \<and> (let l = lock s in
     if lockout_active l then lockout_time_elapsed l \<le> k
     else cnt_since_alert_3 l = k \<and> 0 \<le> no_response_cnt l \<and> (100 \<le> k \<longrightarrow> 1 \<le> no_response_cnt l))"

lemma counting_lock:
  assumes "lock_ok l" "0 \<le> k" "k < 1000"
    and "if lockout_active l then lockout_time_elapsed l \<le> k
         else cnt_since_alert_3 l = k \<and> 0 \<le> no_response_cnt l \<and> (100 \<le> k \<longrightarrow> 1 \<le> no_response_cnt l)"
  defines "m \<equiv> unanswered (update_lockout l)"
  shows "if lockout_active m then lockout_time_elapsed m \<le> k + 1
         else k < 100 \<and> cnt_since_alert_3 m = k + 1 \<and> 0 \<le> no_response_cnt m \<and> (100 \<le> k + 1 \<longrightarrow> 1 \<le> no_response_cnt m)"
  using assms(1-4) lockout_duration_pos [OF assms(1)] lockout_time_mem [of "lockout_count l"]
  unfolding m_def
  by (cases "lockout_active l"; cases "alert_3_cnt l \<ge> MAX_ALERT_3 \<or> no_response_cnt l \<ge> MAX_NO_RESPONSE")
    (auto simp: lock_ok_def update_lockout_def unanswered_def LOCKOUT_TIMES_eq Let_def)

lemma counting_step:
  assumes "dm_input_ok i" "dm_engaged i" "counting_to k s" "0 \<le> k" "k < 1000"
  shows "returns (dm_run_step False i s) (\<lambda>t. counting_to (k + 1) t \<and> (100 \<le> k \<longrightarrow> lockout_active (lock t)))"
proof -
  obtain p f where step: "dm_run_step False i s =
      Some (update_events (dm_interacting i) (dm_engaged i) (dm_lowspeed i) (dm_wrong_gear i) (seen p f s))"
    by (rule dm_run_step_shape [OF assms(1)])
  have r: "red s" using assms(3) by (simp add: counting_to_def)
  then have s: "aware_ok (seen p f s)" "awareness (seen p f s) \<le> 0" "lock_ok (lock s)"
    using aware_ok_seen [of s p f] seen_no_way_out [of s p f] by (simp_all add: red_def dm_ok_def)
  obtain e where e: "update_events (dm_interacting i) True (dm_lowspeed i) (dm_wrong_gear i) (seen p f s) =
      update_alert (awareness (seen p f s)) e (entered (dm_interacting i) (seen p f s))"
    using red_update_events [OF s(1,2)] by blast
  have "lock (update_alert (awareness (seen p f s)) e (entered (dm_interacting i) (seen p f s))) =
      unanswered (update_lockout (lock s))"
    using update_alert_red_lock [of "entered (dm_interacting i) (seen p f s)" "awareness (seen p f s)" e] s by simp
  moreover have "returns (dm_run_step False i s) red"
    by (rule returns_mono [OF red_step [OF assms(1,2) r]]) simp
  ultimately show ?thesis
    using step e assms(2) counting_lock [OF s(3) assms(4,5)] assms(3)
    by (simp add: counting_to_def Let_def split: if_splits)
qed

lemma counting_run:
  assumes "\<forall>i \<in> set is. dm_input_ok i \<and> dm_engaged i" "counting_to k s" "0 \<le> k" "k + int (length is) \<le> 1000"
  shows "returns (dm_run is s) (counting_to (k + int (length is)))"
  using assms
proof (induction "is" arbitrary: k s)
  case Nil
  then show ?case by simp
next
  case (Cons i js)
  then have "returns (dm_run_step False i s) (counting_to (k + 1))"
    by (intro returns_mono [OF counting_step]) auto
  moreover have "returns (dm_run js t) (counting_to (k + 1 + int (length js)))" if "counting_to (k + 1) t" for t
    using Cons.IH [of "k + 1" t] Cons.prems that by simp
  ultimately show ?case by (auto simp: wp add.assoc elim!: returns_mono)
qed

text \<open>
  A red alert that is not answered locks the driver out. When a red alert has just come on and
  no lockout is active, the system being engaged for 101 more steps (five seconds and a frame) ends
  in an active lockout, whatever else happens in these steps.
\<close>

theorem no_response_locks_out:
  assumes "\<forall>i \<in> set is. dm_input_ok i \<and> dm_engaged i" and "length is = 101" and "dm_ok s" and "awareness s \<le> 0"
    and "\<not> lockout_active (lock s)" and "cnt_since_alert_3 (lock s) = 0" and "0 \<le> no_response_cnt (lock s)"
  shows "returns (dm_run is s) (\<lambda>t. lockout_active (lock t))"
proof -
  obtain js i where "is": "is = js @ [i]" "length js = 100"
    using assms(2) by (metis length_append_singleton list.size(3) nat.inject numeral_eq_Suc pred_numeral_simps(2)
        pred_numeral_simps(3) rev_exhaust zero_neq_numeral eval_nat_numeral(3) semiring_norm(26) semiring_norm(27))
  have "counting_to 0 s" using assms(3-7) by (simp add: counting_to_def red_def Let_def)
  then have "returns (dm_run js s) (counting_to (0 + int (length js)))"
    by (intro counting_run) (use assms(1) "is" in auto)
  then obtain t where t: "dm_run js s = Some t" "counting_to 100 t" by (auto simp: returns_ex "is"(2))
  have "returns (dm_run_step False i t) (\<lambda>t. lockout_active (lock t))"
    by (rule returns_mono [OF counting_step [OF _ _ t(2)]]) (use assms(1) "is" in auto)
  then show ?thesis unfolding "is"(1) dm_run_snoc using t(1) by simp
qed

section \<open>How long an unseen driver has\<close>

lemma read_face_detected:
  assumes "driver_data_ok d" "3 \<le> length rpy"
  shows "returns (read_face d rpy v op low st f) (\<lambda>g. face_detected g \<longleftrightarrow> faceProb d > FACE_THRESHOLD)"
proof -
  have i: "0 < length (faceOrientation d)" "1 < length (faceOrientation d)" "0 < length (facePosition d)"
    "1 < length (facePosition d)" "0 < length (faceOrientationStd d)" "1 < length (faceOrientationStd d)"
    "1 < length rpy" "2 < length rpy"
    using assms by (auto simp: driver_data_ok_def)
  have keep: "face_detected (count_uncertain lo (learn_pose cs oe (judge_distraction d (face_seen d a b c e f)))) =
      (faceProb d > FACE_THRESHOLD)" for lo cs oe a b c e
    by (simp add: count_uncertain_def learn_pose_def judge_distraction_def face_seen_def Let_def)
  show ?thesis
    unfolding read_face_def face_orientation_from_model_def
    by (intro returns_LetI returns_prodI returns_bindI returns_ifI py_nth_returns i) (simp_all only: keep returns_Some)
qed

definition no_face :: "dm_input \<Rightarrow> bool" where
  "no_face i \<longleftrightarrow> (\<forall>d \<in> {leftDriverData (driverStateV2 i), rightDriverData (driverStateV2 i)}.
     faceProb d \<le> FACE_THRESHOLD \<and> facePositionStd d \<noteq> [])"

lemma no_face_step:
  assumes "dm_input_ok i" "no_face i"
  obtains f where "dm_run_step False i s = Some (update_events (dm_interacting i) (dm_engaged i) (dm_lowspeed i)
      (dm_wrong_gear i) (seen (Some Pol_wheeltouch) f s))" "\<not> face_detected f"
proof -
  obtain bp where bp: "py_nth (brakeDisengageProbs i) 0 = Some bp" "3 \<le> length (rpyCalib i)"
    using assms by (auto simp: dm_input_ok_def py_nth_def)
  define s0 where "s0 = s\<lparr>face := (face s)\<lparr>pose := set_pose_strictness bp (vEgo (dm_CS i)) (pose (face s))\<rparr>\<rparr>"
  define f0 where "f0 = find_driver (driverStateV2 i) (vEgo (dm_CS i)) (dm_engaged i) False (face s0)"
  define d where "d = (if wheel_on_right f0 then rightDriverData (driverStateV2 i) else leftDriverData (driverStateV2 i))"
  have d: "driver_data_ok d" "faceProb d \<le> FACE_THRESHOLD" "facePositionStd d \<noteq> []"
    using assms by (simp_all add: d_def dm_input_ok_def no_face_def)
  then have ne: "\<not> (faceOrientation d = [] \<or> facePosition d = [] \<or> faceOrientationStd d = [] \<or> facePositionStd d = [])"
    by (auto simp: driver_data_ok_def)
  obtain g where g: "read_face d (rpyCalib i) (vEgo (dm_CS i)) (dm_engaged i) (dm_lowspeed i) (steeringAngleDeg (dm_CS i)) f0 = Some g"
    "\<not> face_detected g"
    using read_face_detected [OF d(1) bp(2)] d(2) by (fastforce simp: returns_ex)
  define f where "f = update_hi_stds (g\<lparr>is_model_uncertain := hi_stds g \<ge> HI_STD_FALLBACK_TIME\<rparr>)"
  have "update_states (driverStateV2 i) (rpyCalib i) (vEgo (dm_CS i)) (dm_engaged i) (dm_lowspeed i) False
      (steeringAngleDeg (dm_CS i)) s0 = Some ((set_policy Pol_wheeltouch s0)\<lparr>face := f\<rparr>)"
    unfolding update_states_def f0_def [symmetric] using ne g
    by (simp add: Let_def d_def [symmetric] f_def)
  then have "dm_run_step False i s = Some (update_events (dm_interacting i) (dm_engaged i) (dm_lowspeed i)
      (dm_wrong_gear i) (seen (Some Pol_wheeltouch) f s))"
    using bp(1) by (simp add: dm_run_step_def s0_def dm_engaged_def dm_interacting_def dm_lowspeed_def dm_wrong_gear_def
        Let_def seen_def set_policy_face)
  moreover have "\<not> face_detected f" using g(2) by (simp add: f_def update_hi_stds_def)
  ultimately show ?thesis using that by blast
qed

definition unattended :: "dm_settings \<Rightarrow> nat \<Rightarrow> dm \<Rightarrow> bool" where
  \<comment> \<open>so many steps without a face\<close>
  "unattended st k s \<longleftrightarrow> dm_ok s \<and> settings s = st \<and>
     awareness s = max (1 - of_nat k * (DT_DMON / WHEELTOUCH_3 st)) (- (1 / 10)) \<and>
     (if k = 0 then last_wheeltouch_awareness s = 1 else
        active_policy s = Pol_wheeltouch \<and> step_change s = DT_DMON / WHEELTOUCH_3 st \<and>
        threshold_alert_1 s = 1 - WHEELTOUCH_1 st / WHEELTOUCH_3 st \<and>
        threshold_alert_2 s = 1 - WHEELTOUCH_2 st / WHEELTOUCH_3 st)"

lemma unattended_seen:
  fixes f
  assumes "unattended st k s"
  defines "t \<equiv> seen (Some Pol_wheeltouch) f s"
  shows "awareness t = max (1 - of_nat k * (DT_DMON / WHEELTOUCH_3 st)) (- (1 / 10)) \<and>
     active_policy t = Pol_wheeltouch \<and> step_change t = DT_DMON / WHEELTOUCH_3 st \<and>
     threshold_alert_1 t = 1 - WHEELTOUCH_1 st / WHEELTOUCH_3 st \<and>
     threshold_alert_2 t = 1 - WHEELTOUCH_2 st / WHEELTOUCH_3 st"
proof (cases k)
  case 0
  then have "awareness s = 1" "last_wheeltouch_awareness s = 1" "threshold_alert_2 s < 1" "settings s = st"
    using assms(1) by (auto simp: unattended_def dm_ok_def aware_ok_def)
  then show ?thesis using 0 by (simp add: t_def seen_def set_policy_def Let_def)
next
  case (Suc n)
  then show ?thesis using assms(1) by (simp add: unattended_def t_def seen_def set_policy_def Let_def)
qed

lemma count_down:
  fixes q :: real
  assumes "0 \<le> q"
  shows "max (max (1 - of_nat k * q) (- (1 / 10)) - q) (- (1 / 10)) = max (1 - of_nat (Suc k) * q) (- (1 / 10))"
proof -
  have "of_nat (Suc k) * q = of_nat k * q + q" by (simp add: algebra_simps)
  then show ?thesis using assms by (simp add: max_def)
qed

lemma unattended_step:
  assumes "dm_input_ok i" "no_face i" "dm_engaged i" "\<not> dm_interacting i" "\<not> dm_lowspeed i" "unattended st k s"
  shows "returns (dm_run_step False i s) (\<lambda>t. unattended st (Suc k) t \<and> alert_level t = level_of t)"
proof -
  obtain f where step: "dm_run_step False i s = Some (update_events (dm_interacting i) (dm_engaged i) (dm_lowspeed i)
      (dm_wrong_gear i) (seen (Some Pol_wheeltouch) f s))" and f: "\<not> face_detected f"
    by (rule no_face_step [OF assms(1,2)])
  let ?t = "seen (Some Pol_wheeltouch) f s"
  note t = unattended_seen [OF assms(6), of f]
  have ev: "update_events False True False (dm_wrong_gear i) ?t = update_alert (awareness ?t) False (entered False ?t)"
    using f by (simp add: update_events_eq may_recover_def attentive_def exempted_def)
  have c: "counts_down f" using f by (simp add: counts_down_def)
  have pos: "0 \<le> DT_DMON / WHEELTOUCH_3 st"
    using assms(6) by (auto simp: unattended_def dm_ok_def aware_ok_def settings_ok_def)
  have "awareness (update_alert (awareness ?t) False (entered False ?t)) =
      max (1 - of_nat (Suc k) * (DT_DMON / WHEELTOUCH_3 st)) (- (1 / 10))"
    using t c count_down [OF pos, of k] by (simp add: update_alert_awareness)
  moreover have "returns (dm_run_step False i s) dm_ok"
    using assms(1,6) by (auto simp: unattended_def intro: returns_mono [OF dm_step_ok])
  ultimately show ?thesis
    using step t assms(3-6) ev by (simp add: unattended_def update_alert_level)
qed

lemma unattended_run:
  assumes "\<forall>i \<in> set is. dm_input_ok i \<and> no_face i \<and> dm_engaged i \<and> \<not> dm_interacting i \<and> \<not> dm_lowspeed i"
    and "unattended st k s"
  shows "returns (dm_run is s) (\<lambda>t. unattended st (k + length is) t \<and> (is \<noteq> [] \<longrightarrow> alert_level t = level_of t))"
  using assms
proof (induction "is" arbitrary: k s)
  case Nil
  then show ?case by simp
next
  case (Cons i js)
  obtain t where t: "dm_run_step False i s = Some t" "unattended st (Suc k) t" "alert_level t = level_of t"
    using unattended_step [of i st k s] Cons.prems by (auto simp: returns_ex)
  have "returns (dm_run js t) (\<lambda>u. unattended st (Suc k + length js) u \<and> (js \<noteq> [] \<longrightarrow> alert_level u = level_of u))"
    using Cons.IH [OF _ t(2)] Cons.prems(1) by simp
  with t show ?case by (cases js) (auto elim!: returns_mono)
qed

text \<open>
  An unseen driver is warned on time. When no face is seen while the system is engaged above the
  minimum speed and the driver touches nothing, the alerts come on exactly when the timeouts of the
  wheel touch policy are over: none, the first, the second and the third.
\<close>

theorem unseen_driver_alerts:
  fixes "is" :: "dm_input list"
  assumes "\<forall>i \<in> set is. dm_input_ok i \<and> no_face i \<and> dm_engaged i \<and> \<not> dm_interacting i \<and> \<not> dm_lowspeed i"
    and "dm_ok s" and "awareness s = 1" and "last_wheeltouch_awareness s = 1" and "is \<noteq> []"
  defines "t \<equiv> of_nat (length is) * DT_DMON"
  shows "returns (dm_run is s) (\<lambda>s'. alert_level s' =
    (if t < WHEELTOUCH_1 (settings s) then AL_none else if t < WHEELTOUCH_2 (settings s) then AL_one
     else if t < WHEELTOUCH_3 (settings s) then AL_two else AL_three))"
proof -
  have st: "settings_ok (settings s)" using assms(2) by (simp add: dm_ok_def aware_ok_def)
  have start: "unattended (settings s) 0 s" using assms(2-4) by (simp add: unattended_def)
  from unattended_run [OF assms(1) start] show ?thesis
  proof (rule returns_mono)
    fix u assume u: "unattended (settings s) (0 + length is) u \<and> (is \<noteq> [] \<longrightarrow> alert_level u = level_of u)"
    define w where "w = WHEELTOUCH_3 (settings s)"
    have w: "0 < w" using st by (simp add: settings_ok_def w_def)
    have lt: "(1 - t / w \<le> 1 - x / w) = (x \<le> t)" for x using w by (simp add: divide_le_cancel)
    have "awareness u = max (1 - t / w) (- (1 / 10))" using u assms(5) by (simp add: unattended_def t_def w_def)
    then have "awareness u \<le> 1 - x / w \<longleftrightarrow> x \<le> t" if "x \<le> w" for x
      using that w by (simp add: lt field_simps)
    from this [of w] this [of "WHEELTOUCH_1 (settings s)"] this [of "WHEELTOUCH_2 (settings s)"]
    show "alert_level u = (if t < WHEELTOUCH_1 (settings s) then AL_none else if t < WHEELTOUCH_2 (settings s) then AL_one
        else if t < WHEELTOUCH_3 (settings s) then AL_two else AL_three)"
      using u assms(5) st w by (simp add: level_of_def unattended_def w_def settings_ok_def not_le)
  qed
qed

section \<open>The test alert mode\<close>

text \<open>
  The test alert mode silences the messages of monitoring, and only on the Ascent. On the exact
  fingerprint, with the toggle or the environment variable set, no message of the loop ever carries
  an alert, a lockout or a forced deceleration, whatever the driver does; on any other fingerprint,
  or with neither set, an iteration is that of the loop without the mode.
\<close>

theorem test_mode_silences_monitoring:
  assumes "dm_loop (is_test_alert_mode_enabled toggle env fp) valid demo i s = Some (t, msg)"
  shows "if fp = Some ''SUBARU_ASCENT_2023'' \<and> (toggle \<or> env = ''1'')
    then dm_alertLevel msg = AL_none \<and> \<not> dm_lockout msg \<and> \<not> dm_noResponseForceDecel msg \<and> \<not> lockout_active (lock t)
    else dm_loop False valid demo i s = Some (t, msg)"
proof (cases "is_test_alert_mode_enabled toggle env fp")
  case True
  then have "fp = Some ''SUBARU_ASCENT_2023'' \<and> (toggle \<or> env = ''1'')"
    by (auto simp: is_test_alert_mode_enabled_def split: if_splits)
  with True assms show ?thesis
    by (auto simp: dm_loop_def neutralize_test_alert_state_def get_state_packet_def Let_def split: bind_splits)
next
  case False
  then have "\<not> (fp = Some ''SUBARU_ASCENT_2023'' \<and> (toggle \<or> env = ''1''))"
    by (auto simp: is_test_alert_mode_enabled_def split: if_splits)
  with False assms show ?thesis by (simp only: if_False)
qed

section \<open>Concrete instances\<close>

definition input_at :: "real \<Rightarrow> dm_input" where
  \<comment> \<open>an engaged car at 20 m/s whose driver's face is seen with the given probability\<close>
  "input_at p =
     (let d = \<lparr>faceProb = p, faceOrientation = [0, 0], facePosition = [0, 0], faceOrientationStd = [0, 0],
               facePositionStd = [0, 0], leftBlinkProb = 0, rightBlinkProb = 0, leftEyeProb = 1, rightEyeProb = 1,
               sunglassesProb = 0, phoneProb = 0\<rparr>
      in \<lparr>driverStateV2 = \<lparr>wheelOnRightProb = 0, leftDriverData = d, rightDriverData = d\<rparr>,
          dm_CS = cs_default\<lparr>vEgo := 20, gearShifter := Gear_drive\<rparr>, dm_enabled = True, latActive = True,
          brakeDisengageProbs = [0], rpyCalib = [0, 0, 0]\<rparr>)"

definition dm_start :: dm where
  "dm_start = dm_init False DRIVER_MONITOR_SETTINGS False False 0"

lemma input_at_simps [simp]:
  "dm_input_ok (input_at p)" "dm_engaged (input_at p)" "\<not> dm_interacting (input_at p)" "\<not> dm_lowspeed (input_at p)"
  "no_face (input_at 0)"
  by (simp_all add: input_at_def dm_input_ok_def driver_data_ok_def dm_engaged_def dm_interacting_def dm_lowspeed_def
      no_face_def cs_default_def Let_def)

lemma dm_start_ok: "dm_ok dm_start"
  unfolding dm_start_def by (rule dm_init_ok) (simp_all add: settings_ok_standard)

lemma dm_start_simps [simp]:
  "awareness dm_start = 1" "last_wheeltouch_awareness dm_start = 1" "settings dm_start = DRIVER_MONITOR_SETTINGS"
  "\<not> lockout_active (lock dm_start)" "cnt_since_alert_3 (lock dm_start) = 0" "no_response_cnt (lock dm_start) = 0"
  by (simp_all add: dm_start_def dm_init_def) (simp_all add: set_policy_def reset_awareness_def Let_def)

lemma dm_red_ok: "dm_ok (dm_start\<lparr>awareness := 0\<rparr>)"
  using dm_start_ok by (simp add: dm_ok_def aware_ok_def)

theorem lockout_lasts_its_duration_witness:
  "returns (dm_run (replicate 1201 (input_at 1)) (dm_init False DRIVER_MONITOR_SETTINGS False True 1))
     (\<lambda>t. \<not> lockout_active (lock t))"
proof -
  let ?s = "dm_init False DRIVER_MONITOR_SETTINGS False True 1"
  have "lock_ok (lock ?s)" using dm_init_ok [OF settings_ok_standard(1), of 1] by (simp add: dm_ok_def)
  moreover have "lockout_active (lock ?s)" "lockout_time_elapsed (lock ?s) = 0" "lockout_duration (lock ?s) = 1200"
    by (simp_all add: dm_init_def lockout_time_def LOCKOUT_TIMES_eq)
  ultimately show ?thesis
    by (intro returns_mono [OF lockout_lasts_its_duration]) simp_all
qed

theorem monitoring_invariant_witness:
  "returns (dm_run [input_at 1, input_at 0] (dm_init False DRIVER_MONITOR_SETTINGS True False 0)) (\<lambda>t. awareness t \<le> 1)"
  by (rule returns_mono [OF monitoring_invariant]) (simp_all add: settings_ok_standard(1))

theorem red_alert_is_terminal_witness:
  "returns (dm_run [input_at 1, input_at 1, input_at 0] (dm_start\<lparr>awareness := 0\<rparr>)) (\<lambda>t. alert_level t = AL_three)"
  by (rule returns_mono [OF red_alert_is_terminal]) (simp_all add: dm_red_ok)

theorem no_response_locks_out_witness:
  "returns (dm_run (replicate 101 (input_at 1)) (dm_start\<lparr>awareness := 0\<rparr>)) (\<lambda>t. lockout_active (lock t))"
  by (rule no_response_locks_out) (simp_all add: dm_red_ok)

theorem unseen_driver_alerts_witness:
  "returns (dm_run (replicate 120 (input_at 0)) dm_start) (\<lambda>t. alert_level t = AL_one)"
  by (rule returns_mono [OF unseen_driver_alerts]) (simp_all add: DRIVER_MONITOR_SETTINGS_def dm_start_ok)

theorem test_mode_silences_monitoring_witness:
  "\<exists>t msg. dm_loop (is_test_alert_mode_enabled True ''0'' (Some ''SUBARU_ASCENT_2023'')) False False (input_at 0)
       (dm_start\<lparr>alert_level := AL_three\<rparr>) = Some (t, msg) \<and> dm_alertLevel msg = AL_none"
proof -
  obtain t msg where *: "dm_loop (is_test_alert_mode_enabled True ''0'' (Some ''SUBARU_ASCENT_2023'')) False False (input_at 0)
       (dm_start\<lparr>alert_level := AL_three\<rparr>) = Some (t, msg)"
    by (simp add: dm_loop_def Let_def)
  show ?thesis using test_mode_silences_monitoring [OF *] * by auto
qed

end
