(* ===== verification/SpeedLimit.thy ===== *)
theory SpeedLimit
  imports CarState Returns
begin

text \<open>
  The speed limit of \<^verbatim>\<open>sunnypilot/selfdrive/controls/lib/speed_limit\<close>: its constants, the
  comparison of the set speed with a target (\<^verbatim>\<open>helpers.py\<close>) and the resolver that chooses
  between the limit of the car and the limit of the map (\<^verbatim>\<open>speed_limit_resolver.py\<close>). A raised
  exception (\<open>ValueError\<close> of an unknown policy, \<open>NotImplementedError\<close> of an unknown
  offset type) is \<open>None\<close>; the two readings of the monotonic clock in one update are inputs.
\<close>

section \<open>Constants and helpers\<close>

abbreviation (input) LIMIT_ADAPT_ACC :: real where "LIMIT_ADAPT_ACC \<equiv> - 1"
abbreviation (input) LIMIT_MAX_MAP_DATA_AGE :: real where "LIMIT_MAX_MAP_DATA_AGE \<equiv> 10"

definition PCM_LONG_REQUIRED_MAX_SET_SPEED :: "bool \<Rightarrow> real \<times> real" where
  "PCM_LONG_REQUIRED_MAX_SET_SPEED is_metric =
     (if is_metric then (333333 / 10000, 361111 / 10000) else (312928 / 10000, 357632 / 10000))"

definition CONFIRM_SPEED_THRESHOLD :: "bool \<Rightarrow> int" where
  "CONFIRM_SPEED_THRESHOLD is_metric = (if is_metric then 80 else 50)"

datatype speed_limit_mode = Mode_off | Mode_information | Mode_warning | Mode_assist

datatype policy = car_state_only | map_data_only | car_state_priority | map_data_priority | combined

definition Policy :: "int \<Rightarrow> policy option" where
  \<comment> \<open>\<open>Policy(i)\<close>, which raises ValueError for a number that is no policy\<close>
  "Policy i =
     (if i = 0 then Some car_state_only else if i = 1 then Some map_data_only
      else if i = 2 then Some car_state_priority else if i = 3 then Some map_data_priority
      else if i = 4 then Some combined else None)"

abbreviation (input) OffsetType_off :: int where "OffsetType_off \<equiv> 0"
abbreviation (input) OffsetType_fixed :: int where "OffsetType_fixed \<equiv> 1"
abbreviation (input) OffsetType_percentage :: int where "OffsetType_percentage \<equiv> 2"

definition speed_conv :: "bool \<Rightarrow> real" where
  "speed_conv is_metric = (if is_metric then MS_TO_KPH else MS_TO_MPH)"

definition compare_cluster_target :: "real \<Rightarrow> real \<Rightarrow> bool \<Rightarrow> bool \<times> bool" where
  "compare_cluster_target v_cruise_cluster target_set_speed is_metric =
     (let v_cruise_cluster_conv = py_round (v_cruise_cluster * speed_conv is_metric);
          target_set_speed_conv = py_round (target_set_speed * speed_conv is_metric)
      in (v_cruise_cluster_conv < target_set_speed_conv, v_cruise_cluster_conv > target_set_speed_conv))"

record sla_car =
  \<comment> \<open>what the speed limit reads of \<open>CP\<close> and \<open>CP_SP\<close>\<close>
  sla_brand :: string
  sla_openpilotLongitudinalControl :: bool
  sla_pcmCruise :: bool
  sla_pcmCruiseSpeed :: bool

definition set_speed_limit_assist_availability :: "sla_car \<Rightarrow> bool \<Rightarrow> speed_limit_mode \<Rightarrow> bool \<times> speed_limit_mode" where
  \<comment> \<open>with the parameter \<open>SpeedLimitMode\<close> before and after\<close>
  "set_speed_limit_assist_availability cp is_release mode =
     (let disallow_in_release = (sla_brand cp = ''tesla'' \<and> is_release);
          always_disallow = (sla_brand cp = ''rivian'');
          allowed = (\<not> (disallow_in_release \<or> always_disallow) \<and>
                     \<not> (\<not> sla_openpilotLongitudinalControl cp \<and> sla_pcmCruiseSpeed cp))
      in (allowed, if \<not> allowed \<and> mode = Mode_assist then Mode_warning else mode))"

definition get_sanitize_int_param :: "int \<Rightarrow> int \<Rightarrow> int \<Rightarrow> int" where
  \<comment> \<open>the value returned, which is also written back\<close>
  "get_sanitize_int_param val min_val max_val = max min_val (min max_val val)"

section \<open>The resolver\<close>

datatype sl_source = Src_none | Src_car | Src_map

record resolver_params =
  p_SpeedLimitPolicy :: int
  p_IsMetric :: bool
  p_SpeedLimitOffsetType :: int
  p_SpeedLimitValueOffset :: real

record resolver =
  r_frame :: int
  r_policy :: int
  r_is_metric :: bool
  r_offset_type :: int
  r_offset_value :: real
  limit_solutions :: "sl_source \<Rightarrow> real"
  distance_solutions :: "sl_source \<Rightarrow> real"
  r_v_ego :: real
  speed_limit :: real
  speed_limit_last :: real
  speed_limit_final :: real
  speed_limit_final_last :: real
  r_distance :: real
  r_source :: sl_source
  speed_limit_offset :: real

record resolver_input =
  car_speedLimit :: real
  map_speedLimitValid :: bool
  map_speedLimit :: real
  map_speedLimitAheadValid :: bool
  map_speedLimitAhead :: real
  map_speedLimitAheadDistance :: real
  unixTimestampMillis :: int
  monotonic_1 :: real
  monotonic_2 :: real

definition policy_to_sources :: "policy \<Rightarrow> sl_source list" where
  "policy_to_sources p =
     (case p of car_state_only \<Rightarrow> [Src_car] | map_data_only \<Rightarrow> [Src_map]
      | car_state_priority \<Rightarrow> [Src_car, Src_map] | map_data_priority \<Rightarrow> [Src_map, Src_car]
      | combined \<Rightarrow> [Src_car, Src_map])"

definition resolver_init :: "resolver_params \<Rightarrow> resolver" where
  "resolver_init ps =
     \<lparr>r_frame = -1, r_policy = get_sanitize_int_param (p_SpeedLimitPolicy ps) 0 4,
      r_is_metric = p_IsMetric ps, r_offset_type = get_sanitize_int_param (p_SpeedLimitOffsetType ps) 0 2,
      r_offset_value = p_SpeedLimitValueOffset ps, limit_solutions = (\<lambda>_. 0), distance_solutions = (\<lambda>_. 0),
      r_v_ego = 0, speed_limit = 0, speed_limit_last = 0, speed_limit_final = 0,
      speed_limit_final_last = 0, r_distance = 0, r_source = Src_none, speed_limit_offset = 0\<rparr>"

definition update_speed_limit_states :: "resolver \<Rightarrow> resolver" where
  "update_speed_limit_states r =
     (let r = r\<lparr>speed_limit_final := speed_limit r + speed_limit_offset r\<rparr>
      in if speed_limit r > 0
         then r\<lparr>speed_limit_last := speed_limit r, speed_limit_final_last := speed_limit_final r\<rparr> else r)"

definition speed_limit_valid :: "resolver \<Rightarrow> bool" where
  "speed_limit_valid r \<longleftrightarrow> speed_limit r > 0"

definition speed_limit_last_valid :: "resolver \<Rightarrow> bool" where
  "speed_limit_last_valid r \<longleftrightarrow> speed_limit_last r > 0"

definition resolver_update_params :: "resolver_params \<Rightarrow> resolver \<Rightarrow> resolver" where
  \<comment> \<open>\<open>int(PARAMS_UPDATE_PERIOD / DT_MDL) = 60\<close>\<close>
  "resolver_update_params ps r =
     (if r_frame r mod 60 = 0
      then r\<lparr>r_policy := p_SpeedLimitPolicy ps, r_is_metric := p_IsMetric ps,
             r_offset_type := p_SpeedLimitOffsetType ps, r_offset_value := p_SpeedLimitValueOffset ps\<rparr>
      else r)"

definition get_speed_limit_offset :: "resolver \<Rightarrow> real option" where
  "get_speed_limit_offset r =
     (if r_offset_type r = OffsetType_off then Some 0
      else if r_offset_type r = OffsetType_fixed then
        Some (r_offset_value r * (if r_is_metric r then KPH_TO_MS else MPH_TO_MS))
      else if r_offset_type r = OffsetType_percentage then
        Some (r_offset_value r * (1 / 100) * speed_limit r)
      else None)"

definition reset_limit_sources :: "sl_source \<Rightarrow> resolver \<Rightarrow> resolver" where
  "reset_limit_sources src r =
     r\<lparr>limit_solutions := (limit_solutions r)(src := 0), distance_solutions := (distance_solutions r)(src := 0)\<rparr>"

definition get_from_car_state :: "resolver_input \<Rightarrow> resolver \<Rightarrow> resolver" where
  "get_from_car_state i r =
     (let r = reset_limit_sources Src_car r
      in r\<lparr>limit_solutions := (limit_solutions r)(Src_car := car_speedLimit i),
           distance_solutions := (distance_solutions r)(Src_car := 0)\<rparr>)"

definition calculate_map_data_limits :: "resolver_input \<Rightarrow> real \<Rightarrow> real \<Rightarrow> resolver \<Rightarrow> resolver" where
  "calculate_map_data_limits i limit next_limit r =
     (let v_ego = r_v_ego r;
          distance_since_fix = v_ego * (monotonic_2 i - of_int (unixTimestampMillis i) * (1 / 1000));
          distance_to_speed_limit_ahead = max 0 (map_speedLimitAheadDistance i - distance_since_fix);
          r = r\<lparr>limit_solutions := (limit_solutions r)(Src_map := limit),
                distance_solutions := (distance_solutions r)(Src_map := 0)\<rparr>
      in if 0 < next_limit \<and> next_limit < v_ego then
           let adapt_time = (next_limit - v_ego) / LIMIT_ADAPT_ACC;
               adapt_distance = v_ego * adapt_time + 1 / 2 * LIMIT_ADAPT_ACC * adapt_time\<^sup>2
           in if distance_to_speed_limit_ahead \<le> adapt_distance
              then r\<lparr>limit_solutions := (limit_solutions r)(Src_map := next_limit),
                     distance_solutions := (distance_solutions r)(Src_map := distance_to_speed_limit_ahead)\<rparr>
              else r
         else r)"

definition process_map_data :: "resolver_input \<Rightarrow> resolver \<Rightarrow> resolver" where
  "process_map_data i r =
     (let gps_fix_age = monotonic_1 i - of_int (unixTimestampMillis i) * (1 / 1000)
      in if gps_fix_age > LIMIT_MAX_MAP_DATA_AGE then r
         else calculate_map_data_limits i
                (if map_speedLimitValid i then map_speedLimit i else 0)
                (if map_speedLimitAheadValid i then map_speedLimitAhead i else 0) r)"

definition get_from_map_data :: "resolver_input \<Rightarrow> resolver \<Rightarrow> resolver" where
  "get_from_map_data i r = process_map_data i (reset_limit_sources Src_map r)"

definition get_source_solution_according_to_policy :: "resolver \<Rightarrow> sl_source option" where
  "get_source_solution_according_to_policy r =
     do {
       p \<leftarrow> Policy (r_policy r);
       let with_limits = filter (\<lambda>s. limit_solutions r s > 0) (policy_to_sources p);
       Some (case with_limits of
               [] \<Rightarrow> Src_none
             | s # ss \<Rightarrow> if p \<noteq> combined then s else min_by (limit_solutions r) s ss)
     }"

definition resolve_limit_sources :: "resolver_input \<Rightarrow> resolver \<Rightarrow> (resolver \<times> real \<times> real \<times> sl_source) option" where
  "resolve_limit_sources i r =
     do {
       let r = get_from_map_data i (get_from_car_state i r);
       src \<leftarrow> get_source_solution_according_to_policy r;
       Some (r, if src \<noteq> Src_none then limit_solutions r src else 0,
                if src \<noteq> Src_none then distance_solutions r src else 0, src)
     }"

definition resolver_update :: "resolver_params \<Rightarrow> real \<Rightarrow> resolver_input \<Rightarrow> resolver \<Rightarrow> resolver option" where
  "resolver_update ps v_ego i r =
     do {
       let r = resolver_update_params ps (r\<lparr>r_v_ego := v_ego\<rparr>);
       (r, limit, dist, src) \<leftarrow> resolve_limit_sources i r;
       let r = r\<lparr>speed_limit := limit, r_distance := dist, r_source := src\<rparr>;
       offset \<leftarrow> get_speed_limit_offset r;
       let r = update_speed_limit_states (r\<lparr>speed_limit_offset := offset\<rparr>);
       Some (r\<lparr>r_frame := r_frame r + 1\<rparr>)
     }"

section \<open>Choosing the limit\<close>

definition resolver_params_ok :: "resolver_params \<Rightarrow> bool" where
  "resolver_params_ok ps \<longleftrightarrow>
     p_SpeedLimitPolicy ps \<in> {0..4} \<and> p_SpeedLimitOffsetType ps \<in> {0..2}"

definition resolver_ok :: "resolver \<Rightarrow> bool" where
  "resolver_ok r \<longleftrightarrow> r_policy r \<in> {0..4} \<and> r_offset_type r \<in> {0..2}"

definition best_source :: "policy \<Rightarrow> (sl_source \<Rightarrow> real) \<Rightarrow> sl_source \<Rightarrow> bool" where
  \<comment> \<open>the source a policy asks for, given the limit of each source\<close>
  "best_source p lm src \<longleftrightarrow>
     (if \<forall>s \<in> set (policy_to_sources p). lm s \<le> 0 then src = Src_none
      else src \<in> set (policy_to_sources p) \<and> lm src > 0 \<and>
           (if p = combined then \<forall>s \<in> set (policy_to_sources p). lm s > 0 \<longrightarrow> lm src \<le> lm s
            else lm (hd (policy_to_sources p)) > 0 \<longrightarrow> src = hd (policy_to_sources p)))"

lemma Policy_total: "i \<in> {0..4} \<Longrightarrow> \<exists>p. Policy i = Some p"
  by (auto simp: Policy_def)

lemma policy_to_sources_ne: "policy_to_sources p \<noteq> []" "Src_none \<notin> set (policy_to_sources p)"
  by (cases p; simp add: policy_to_sources_def)+

lemma offset_total: "r_offset_type r \<in> {0..2} \<Longrightarrow> \<exists>x. get_speed_limit_offset r = Some x"
  unfolding get_speed_limit_offset_def by (auto simp only: atLeastAtMost_iff split: if_splits)

lemma source_best:
  assumes "Policy (r_policy r) = Some p"
  shows "\<exists>src. get_source_solution_according_to_policy r = Some src \<and> best_source p (limit_solutions r) src"
proof (cases "filter (\<lambda>s. limit_solutions r s > 0) (policy_to_sources p)")
  case Nil
  then have "\<forall>s \<in> set (policy_to_sources p). limit_solutions r s \<le> 0" by (simp add: filter_empty_conv not_less)
  with Nil assms show ?thesis by (simp add: get_source_solution_according_to_policy_def best_source_def)
next
  case (Cons s ss)
  let ?src = "if p \<noteq> combined then s else min_by (limit_solutions r) s ss"
  have mem: "insert s (set ss) = {x \<in> set (policy_to_sources p). limit_solutions r x > 0}"
    using arg_cong [OF Cons, of set] by simp
  have src: "?src \<in> insert s (set ss)" using min_by_in [of "limit_solutions r" s ss] by simp
  have least: "\<forall>x \<in> insert s (set ss). limit_solutions r (min_by (limit_solutions r) s ss) \<le> limit_solutions r x"
    using min_by_least [of _ s ss "limit_solutions r"] by blast
  have first: "limit_solutions r (hd (policy_to_sources p)) > 0 \<longrightarrow> s = hd (policy_to_sources p)"
    using Cons policy_to_sources_ne(1) [of p] by (cases "policy_to_sources p") (auto split: if_splits)
  have "best_source p (limit_solutions r) ?src"
    unfolding best_source_def using src least first mem by (auto simp: not_le)
  with Cons assms show ?thesis by (simp add: get_source_solution_according_to_policy_def)
qed

lemma from_map_params [simp]:
  "r_policy (get_from_map_data i (get_from_car_state i r)) = r_policy r"
  "r_offset_type (get_from_map_data i (get_from_car_state i r)) = r_offset_type r"
  "speed_limit_last (get_from_map_data i (get_from_car_state i r)) = speed_limit_last r"
  "speed_limit_final_last (get_from_map_data i (get_from_car_state i r)) = speed_limit_final_last r"
  "limit_solutions (get_from_map_data i (get_from_car_state i r)) Src_car = car_speedLimit i"
  by (simp_all add: get_from_map_data_def get_from_car_state_def process_map_data_def
      calculate_map_data_limits_def reset_limit_sources_def Let_def)

definition follows_policy :: "resolver \<Rightarrow> resolver \<Rightarrow> bool" where
  "follows_policy r r' \<longleftrightarrow>
     (\<exists>p. Policy (r_policy r') = Some p \<and> best_source p (limit_solutions r') (r_source r')) \<and>
     speed_limit r' = (if r_source r' = Src_none then 0 else limit_solutions r' (r_source r')) \<and>
     speed_limit_final r' = speed_limit r' + speed_limit_offset r' \<and>
     (if speed_limit r' > 0
      then speed_limit_last r' = speed_limit r' \<and> speed_limit_final_last r' = speed_limit_final r'
      else speed_limit_last r' = speed_limit_last r \<and> speed_limit_final_last r' = speed_limit_final_last r)"

lemma update_params_ok:
  "resolver_ok r \<Longrightarrow> resolver_params_ok ps \<Longrightarrow> resolver_ok (resolver_update_params ps (r\<lparr>r_v_ego := v\<rparr>))"
  by (auto simp: resolver_ok_def resolver_params_ok_def resolver_update_params_def)

lemma update_params_last [simp]:
  "speed_limit_last (resolver_update_params ps r) = speed_limit_last r"
  "speed_limit_final_last (resolver_update_params ps r) = speed_limit_final_last r"
  "r_v_ego (resolver_update_params ps r) = r_v_ego r"
  by (simp_all add: resolver_update_params_def)

lemma update_states_simps:
  "speed_limit (update_speed_limit_states r) = speed_limit r"
  "speed_limit_final (update_speed_limit_states r) = speed_limit r + speed_limit_offset r"
  "speed_limit_offset (update_speed_limit_states r) = speed_limit_offset r"
  "r_policy (update_speed_limit_states r) = r_policy r" "r_offset_type (update_speed_limit_states r) = r_offset_type r"
  "limit_solutions (update_speed_limit_states r) = limit_solutions r" "r_source (update_speed_limit_states r) = r_source r"
  "speed_limit_last (update_speed_limit_states r) = (if speed_limit r > 0 then speed_limit r else speed_limit_last r)"
  "speed_limit_final_last (update_speed_limit_states r) =
     (if speed_limit r > 0 then speed_limit r + speed_limit_offset r else speed_limit_final_last r)"
  by (simp_all add: update_speed_limit_states_def Let_def)

lemma resolver_update_eq:
  fixes v :: real and i :: resolver_input
  assumes "resolver_ok r" "resolver_params_ok ps"
  defines "r0 \<equiv> get_from_map_data i (get_from_car_state i (resolver_update_params ps (r\<lparr>r_v_ego := v\<rparr>)))"
  shows "\<exists>p src x. Policy (r_policy r0) = Some p \<and> best_source p (limit_solutions r0) src \<and>
    resolver_update ps v i r = Some (let r1 = update_speed_limit_states (r0\<lparr>
        speed_limit := if src \<noteq> Src_none then limit_solutions r0 src else 0,
        r_distance := if src \<noteq> Src_none then distance_solutions r0 src else 0,
        r_source := src, speed_limit_offset := x\<rparr>)
      in r1\<lparr>r_frame := r_frame r1 + 1\<rparr>)"
proof -
  let ?r = "resolver_update_params ps (r\<lparr>r_v_ego := v\<rparr>)"
  have ok: "resolver_ok ?r" by (rule update_params_ok [OF assms(1,2)])
  then obtain p where p: "Policy (r_policy r0) = Some p"
    using Policy_total [of "r_policy ?r"] by (auto simp: resolver_ok_def r0_def)
  then obtain src where src: "get_source_solution_according_to_policy r0 = Some src" "best_source p (limit_solutions r0) src"
    using source_best by blast
  let ?r1 = "r0\<lparr>speed_limit := if src \<noteq> Src_none then limit_solutions r0 src else 0,
    r_distance := if src \<noteq> Src_none then distance_solutions r0 src else 0, r_source := src\<rparr>"
  obtain x where x: "get_speed_limit_offset ?r1 = Some x"
    using offset_total [of ?r1] ok by (auto simp: resolver_ok_def r0_def)
  have R: "resolve_limit_sources i ?r = Some (r0, if src \<noteq> Src_none then limit_solutions r0 src else 0,
      if src \<noteq> Src_none then distance_solutions r0 src else 0, src)"
    unfolding resolve_limit_sources_def Let_def r0_def [symmetric] src(1) by simp
  have "resolver_update ps v i r = Some (let r1 = update_speed_limit_states (?r1\<lparr>speed_limit_offset := x\<rparr>)
      in r1\<lparr>r_frame := r_frame r1 + 1\<rparr>)"
    unfolding resolver_update_def Let_def R by (simp only: bind.bind_lunit prod.case x)
  with p src(2) show ?thesis by blast
qed

text \<open>
  The resolver follows the driver's policy. While the policy and the offset type are members of
  their enumerations, an update raises nothing, and the limit it settles on is the one of the
  preferred source when that has a limit, of the other allowed source otherwise, and of the lower
  one under the combined policy; it is zero exactly when no allowed source has a limit. The last
  valid limit is remembered while there is none, and the offset is added to every new one.
\<close>

theorem resolver_follows_policy:
  assumes "resolver_ok r" and "resolver_params_ok ps"
  shows "returns (resolver_update ps v i r) (\<lambda>r'. resolver_ok r' \<and> follows_policy r r')"
proof -
  let ?r0 = "get_from_map_data i (get_from_car_state i (resolver_update_params ps (r\<lparr>r_v_ego := v\<rparr>)))"
  have ok: "resolver_ok ?r0" using update_params_ok [OF assms, of v] by (simp add: resolver_ok_def)
  show ?thesis
    using resolver_update_eq [OF assms, of i v] ok
    by (auto simp: Let_def update_states_simps follows_policy_def resolver_ok_def)
qed

text \<open>
  The look ahead of the map is never used. \<open>time.monotonic()\<close> counts from the start
  of the device while \<open>unixTimestampMillis\<close> counts from 1970. As soon as the first is behind
  the second by half the speed of the car (in seconds), no fix is ever too old, however stale the
  data, and the limit of the map is always the one at the current position: a lower limit ahead is
  ignored however near it is.
\<close>

theorem map_lookahead_never_used:
  assumes "0 \<le> v" and "0 \<le> map_speedLimitAheadDistance i"
    and "monotonic_1 i \<le> of_int (unixTimestampMillis i) / 1000"
    and "monotonic_2 i + v / 2 < of_int (unixTimestampMillis i) / 1000"
    and "resolver_ok r" and "resolver_params_ok ps"
  shows "returns (resolver_update ps v i r) (\<lambda>r'.
    limit_solutions r' Src_map = (if map_speedLimitValid i then map_speedLimit i else 0) \<and>
    distance_solutions r' Src_map = 0)"
proof -
  let ?r = "resolver_update_params ps (r\<lparr>r_v_ego := v\<rparr>)"
  let ?r0 = "get_from_map_data i (get_from_car_state i ?r)"
  have far: "\<not> max 0 (map_speedLimitAheadDistance i - v * (monotonic_2 i - of_int (unixTimestampMillis i) * (1 / 1000)))
      \<le> v * ((n - v) / -1) + 1 / 2 * -1 * ((n - v) / -1)\<^sup>2" if n: "0 < n" "n < v" for n
  proof -
    have "v * (v / 2) < v * (of_int (unixTimestampMillis i) * (1 / 1000) - monotonic_2 i)"
      using assms(4) n by (intro mult_strict_left_mono) auto
    moreover have "v * ((n - v) / -1) + 1 / 2 * -1 * ((n - v) / -1)\<^sup>2 = v * (v / 2) - n\<^sup>2 / 2"
      by (simp add: power2_eq_square field_simps)
    moreover have "0 \<le> n\<^sup>2" by simp
    ultimately show ?thesis
      using assms(2) unfolding right_diff_distrib le_max_iff_disj max.bounded_iff not_le by linarith
  qed
  have "limit_solutions ?r0 Src_map = (if map_speedLimitValid i then map_speedLimit i else 0) \<and> distance_solutions ?r0 Src_map = 0"
    using assms(3) far [of "map_speedLimitAhead i"]
    by (simp add: get_from_map_data_def get_from_car_state_def process_map_data_def calculate_map_data_limits_def
        reset_limit_sources_def Let_def del: max.bounded_iff)
  then show ?thesis
    using resolver_update_eq [OF assms(5,6), of i v]
    by (auto simp: Let_def update_speed_limit_states_def)
qed

section \<open>Concrete runs\<close>

definition ex_resolver_params :: resolver_params where
  "ex_resolver_params = \<lparr>p_SpeedLimitPolicy = 4, p_IsMetric = True, p_SpeedLimitOffsetType = 1, p_SpeedLimitValueOffset = 36\<rparr>"

definition ex_road :: resolver_input where
  \<comment> \<open>the car says 25 m/s, the map 20 m/s, and 10 m/s in ten metres; the fix is old by the wall clock\<close>
  "ex_road = \<lparr>car_speedLimit = 25, map_speedLimitValid = True, map_speedLimit = 20, map_speedLimitAheadValid = True,
     map_speedLimitAhead = 10, map_speedLimitAheadDistance = 10, unixTimestampMillis = 1700000000000,
     monotonic_1 = 5000, monotonic_2 = 5000\<rparr>"

lemma ex_resolver_ok: "resolver_ok (resolver_init ex_resolver_params)" "resolver_params_ok ex_resolver_params"
  by (simp_all add: resolver_ok_def resolver_params_ok_def resolver_init_def ex_resolver_params_def get_sanitize_int_param_def)

theorem resolver_follows_policy_witness:
  "returns (resolver_update ex_resolver_params 22 ex_road (resolver_init ex_resolver_params))
     (\<lambda>r'. resolver_ok r' \<and> follows_policy (resolver_init ex_resolver_params) r')"
  by (rule resolver_follows_policy [OF ex_resolver_ok])

theorem map_lookahead_never_used_witness:
  "returns (resolver_update ex_resolver_params 22 ex_road (resolver_init ex_resolver_params))
     (\<lambda>r'. limit_solutions r' Src_map = 20 \<and> distance_solutions r' Src_map = 0)"
  using map_lookahead_never_used [of 22 ex_road "resolver_init ex_resolver_params" ex_resolver_params] ex_resolver_ok
  by (simp add: ex_road_def)

end
