(* ===== verification/SpeedLimitAssist.thy ===== *)
theory SpeedLimitAssist
  imports SpeedLimit EventTableSP
begin

unbundle bit_operations_syntax

text \<open>
  Speed limit assist, \<^verbatim>\<open>speed_limit_assist.py\<close> of the same directory: the calculations of a
  frame (record \<open>sla_seen\<close>), the two state machines, for cars whose set speed openpilot
  controls through the stock cruise (\<open>pcm_op_long\<close>) and for the others, on the record
  \<open>sla_machine\<close>, the events and the target, and the tracker of the buttons
  (\<^verbatim>\<open>button_state_tracker.py\<close>) whose release bits confirm a limit. The raw numbers of the button
  types belong to the opendbc submodule: they are the parameter \<open>raw\<close>.
\<close>

datatype assist_state = SLA_disabled | SLA_inactive | SLA_preActive | SLA_pending | SLA_adapting | SLA_active

definition SLA_ACTIVE_STATES :: "assist_state list" where
  "SLA_ACTIVE_STATES = [SLA_active, SLA_adapting]"

definition SLA_ENABLED_STATES :: "assist_state list" where
  "SLA_ENABLED_STATES = SLA_preActive # SLA_pending # SLA_ACTIVE_STATES"

abbreviation (input) LIMIT_SPEED_OFFSET_TH :: real where "LIMIT_SPEED_OFFSET_TH \<equiv> - 1"
abbreviation (input) V_CRUISE_UNSET_MS :: real where "V_CRUISE_UNSET_MS \<equiv> 255"
abbreviation (input) CRUISE_BUTTON_CONFIRM_HOLD :: real where "CRUISE_BUTTON_CONFIRM_HOLD \<equiv> 1 / 2"

definition DISABLED_GUARD_FRAMES :: int where
  "DISABLED_GUARD_FRAMES = py_int (1 / 2 / DT_MDL)"

definition PRE_ACTIVE_GUARD_FRAMES :: "bool \<Rightarrow> int" where
  \<comment> \<open>\<open>int(PRE_ACTIVE_GUARD_PERIOD[pcm_op_long] / DT_MDL)\<close>\<close>
  "PRE_ACTIVE_GUARD_FRAMES pcm = py_int ((if pcm then 15 else 5) / DT_MDL)"

definition CRUISE_BUTTONS_PLUS :: "button_type list" where
  "CRUISE_BUTTONS_PLUS = [B_accelCruise, B_resumeCruise]"

definition CRUISE_BUTTONS_MINUS :: "button_type list" where
  "CRUISE_BUTTONS_MINUS = [B_decelCruise, B_setCruise]"

section \<open>Buttons\<close>

record button_tracker =
  bt_pressed :: int
  bt_release_toggle :: int

fun track_buttons :: "(button_type \<Rightarrow> nat) \<Rightarrow> button_event list \<Rightarrow> button_tracker \<Rightarrow> button_tracker" where
  "track_buttons raw [] t = t"
| "track_buttons raw (b # bs) t =
     (let bt = push_bit (raw (be_type b)) (1 :: int)
      in track_buttons raw bs
           (if be_pressed b then t\<lparr>bt_pressed := bt_pressed t OR bt\<rparr>
            else t\<lparr>bt_pressed := bt_pressed t AND NOT bt, bt_release_toggle := bt_release_toggle t XOR bt\<rparr>))"

record sla_machine =
  sla_state :: assist_state
  long_engaged_timer :: int
  sla_pre_active_timer :: int
  plus_hold :: real
  minus_hold :: real

definition any_released :: "(button_type \<Rightarrow> nat) \<Rightarrow> button_type list \<Rightarrow> int \<Rightarrow> bool" where
  "any_released raw bts released = list_ex (\<lambda>b. bit released (raw b)) bts"

definition sla_update_buttons :: "(button_type \<Rightarrow> nat) \<Rightarrow> real \<Rightarrow> int \<Rightarrow> sla_machine \<Rightarrow> sla_machine" where
  \<comment> \<open>the last two arguments of the call: the released bits, \<open>prev ^ release_toggle\<close>, and the machine\<close>
  "sla_update_buttons raw now released m =
     (if released = 0 then m
      else let m = (if any_released raw CRUISE_BUTTONS_PLUS released
                    then m\<lparr>plus_hold := max (plus_hold m) (now + CRUISE_BUTTON_CONFIRM_HOLD)\<rparr> else m)
           in if any_released raw CRUISE_BUTTONS_MINUS released
              then m\<lparr>minus_hold := max (minus_hold m) (now + CRUISE_BUTTON_CONFIRM_HOLD)\<rparr> else m)"

definition get_button_release :: "real \<Rightarrow> bool \<Rightarrow> bool \<Rightarrow> sla_machine \<Rightarrow> bool \<times> sla_machine" where
  "get_button_release now req_plus req_minus m =
     (if req_plus \<and> now \<le> plus_hold m then (True, m\<lparr>plus_hold := 0\<rparr>)
      else if req_minus \<and> now \<le> minus_hold m then (True, m\<lparr>minus_hold := 0\<rparr>)
      else let m = (if now > plus_hold m then m\<lparr>plus_hold := 0\<rparr> else m)
           in (False, if now > minus_hold m then m\<lparr>minus_hold := 0\<rparr> else m))"

section \<open>The calculations of a frame\<close>

record sla_seen =
  sla_pcm_op_long :: bool
  sla_is_metric :: bool
  sla_enabled :: bool
  long_enabled :: bool
  long_enabled_prev :: bool
  sla_v_ego :: real
  sla_a_ego :: real
  v_offset :: real
  target_set_speed_conv :: int
  v_cruise_cluster :: real
  v_cruise_cluster_conv :: int
  prev_v_cruise_cluster_conv :: int
  has_speed_limit :: bool
  sla_speed_limit :: real
  sla_speed_limit_prev :: real
  sla_speed_limit_final_last :: real
  speed_limit_final_last_conv :: int
  sla_distance :: real

definition speed_limit_changed :: "sla_seen \<Rightarrow> bool" where
  "speed_limit_changed c \<longleftrightarrow> has_speed_limit c \<and> sla_speed_limit c \<noteq> sla_speed_limit_prev c"

definition v_cruise_cluster_changed :: "sla_seen \<Rightarrow> bool" where
  "v_cruise_cluster_changed c \<longleftrightarrow> v_cruise_cluster_conv c \<noteq> prev_v_cruise_cluster_conv c"

definition target_set_speed_confirmed :: "sla_seen \<Rightarrow> bool" where
  "target_set_speed_confirmed c \<longleftrightarrow> v_cruise_cluster_conv c = target_set_speed_conv c"

definition v_cruise_cluster_below_confirm_speed_threshold :: "sla_seen \<Rightarrow> bool" where
  "v_cruise_cluster_below_confirm_speed_threshold c \<longleftrightarrow>
     v_cruise_cluster_conv c < CONFIRM_SPEED_THRESHOLD (sla_is_metric c)"

definition apply_confirm_speed_threshold :: "sla_seen \<Rightarrow> bool" where
  "apply_confirm_speed_threshold c \<longleftrightarrow>
     (if v_cruise_cluster_below_confirm_speed_threshold c then True
      else speed_limit_final_last_conv c < CONFIRM_SPEED_THRESHOLD (sla_is_metric c))"

definition update_calculations :: "real \<Rightarrow> sla_seen \<Rightarrow> sla_seen" where
  "update_calculations vcc c =
     (let conv = speed_conv (sla_is_metric c);
          final_conv = py_round (sla_speed_limit_final_last c * conv);
          (cst_low, cst_high) = PCM_LONG_REQUIRED_MAX_SET_SPEED (sla_is_metric c);
          required_max = (if has_speed_limit c \<and> final_conv < CONFIRM_SPEED_THRESHOLD (sla_is_metric c)
                          then cst_low else cst_high)
      in c\<lparr>v_cruise_cluster := vcc,
           v_offset := sla_speed_limit_final_last c - sla_v_ego c,
           speed_limit_final_last_conv := final_conv,
           v_cruise_cluster_conv := py_round (vcc * conv),
           target_set_speed_conv := (if sla_pcm_op_long c then py_round (required_max * conv) else final_conv)\<rparr>)"

section \<open>The state machines\<close>

definition ask_driver :: "bool \<Rightarrow> sla_machine \<Rightarrow> sla_machine" where
  \<comment> \<open>entering \<open>preActive\<close>\<close>
  "ask_driver pcm m = m\<lparr>sla_state := SLA_preActive, sla_pre_active_timer := PRE_ACTIVE_GUARD_FRAMES pcm\<rparr>"

definition update_confirmed_state :: "sla_seen \<Rightarrow> sla_machine \<Rightarrow> sla_machine" where
  "update_confirmed_state c m =
     (if has_speed_limit c then
        if v_offset c < LIMIT_SPEED_OFFSET_TH then m\<lparr>sla_state := SLA_adapting\<rparr> else m\<lparr>sla_state := SLA_active\<rparr>
      else m\<lparr>sla_state := SLA_pending\<rparr>)"

definition update_non_pcm_long_confirmed_state :: "real \<Rightarrow> sla_seen \<Rightarrow> sla_machine \<Rightarrow> bool \<times> sla_machine" where
  "update_non_pcm_long_confirmed_state now c m =
     (if target_set_speed_confirmed c then (True, m)
      else if sla_state m \<noteq> SLA_preActive then (False, m)
      else let (req_plus, req_minus) =
                 compare_cluster_target (v_cruise_cluster c) (sla_speed_limit_final_last c) (sla_is_metric c)
           in get_button_release now req_plus req_minus m)"

definition sla_tick :: "sla_machine \<Rightarrow> sla_machine" where
  "sla_tick m = m\<lparr>long_engaged_timer := max 0 (long_engaged_timer m - 1),
                  sla_pre_active_timer := max 0 (sla_pre_active_timer m - 1)\<rparr>"

definition update_state_machine_pcm_op_long :: "sla_seen \<Rightarrow> sla_machine \<Rightarrow> sla_machine" where
  "update_state_machine_pcm_op_long c m0 =
     (let m = sla_tick m0 in
      if sla_state m \<noteq> SLA_disabled then
        if \<not> long_enabled c \<or> \<not> sla_enabled c then m\<lparr>sla_state := SLA_disabled\<rparr>
        else (case sla_state m of
            SLA_active \<Rightarrow>
              if v_cruise_cluster_changed c then m\<lparr>sla_state := SLA_inactive\<rparr>
              else if speed_limit_changed c \<and> apply_confirm_speed_threshold c then ask_driver (sla_pcm_op_long c) m
              else if has_speed_limit c \<and> v_offset c < LIMIT_SPEED_OFFSET_TH then m\<lparr>sla_state := SLA_adapting\<rparr>
              else m
          | SLA_adapting \<Rightarrow>
              if v_cruise_cluster_changed c then m\<lparr>sla_state := SLA_inactive\<rparr>
              else if speed_limit_changed c \<and> apply_confirm_speed_threshold c then ask_driver (sla_pcm_op_long c) m
              else if v_offset c \<ge> LIMIT_SPEED_OFFSET_TH then m\<lparr>sla_state := SLA_active\<rparr>
              else m
          | SLA_pending \<Rightarrow>
              if target_set_speed_confirmed c then update_confirmed_state c m
              else if speed_limit_changed c then ask_driver (sla_pcm_op_long c) m
              else m
          | SLA_preActive \<Rightarrow>
              if target_set_speed_confirmed c then update_confirmed_state c m
              else if sla_pre_active_timer m \<le> 0 then m\<lparr>sla_state := SLA_inactive\<rparr>
              else m
          | _ \<Rightarrow> m)
      else if long_enabled c \<and> sla_enabled c then
        if \<not> long_enabled_prev c \<or> v_cruise_cluster_changed c then m\<lparr>long_engaged_timer := DISABLED_GUARD_FRAMES\<rparr>
        else if long_engaged_timer m \<le> 0 then
          if target_set_speed_confirmed c then update_confirmed_state c m
          else if has_speed_limit c then ask_driver (sla_pcm_op_long c) m
          else m\<lparr>sla_state := SLA_pending\<rparr>
        else m
      else m)"

definition update_state_machine_non_pcm_long :: "real \<Rightarrow> sla_seen \<Rightarrow> sla_machine \<Rightarrow> sla_machine" where
  "update_state_machine_non_pcm_long now c m0 =
     (let m = sla_tick m0 in
      if sla_state m \<noteq> SLA_disabled then
        if \<not> long_enabled c \<or> \<not> sla_enabled c then m\<lparr>sla_state := SLA_disabled\<rparr>
        else (case sla_state m of
            SLA_active \<Rightarrow>
              if v_cruise_cluster_changed c then m\<lparr>sla_state := SLA_inactive\<rparr>
              else if speed_limit_changed c \<and> apply_confirm_speed_threshold c then ask_driver (sla_pcm_op_long c) m
              else m
          | SLA_preActive \<Rightarrow>
              (let (confirmed, m) = update_non_pcm_long_confirmed_state now c m in
               if confirmed then m\<lparr>sla_state := SLA_active\<rparr>
               else if sla_pre_active_timer m \<le> 0 then m\<lparr>sla_state := SLA_inactive\<rparr>
               else m)
          | SLA_inactive \<Rightarrow>
              if speed_limit_changed c then ask_driver (sla_pcm_op_long c) m
              else let (confirmed, m) = update_non_pcm_long_confirmed_state now c m in
                if confirmed then m\<lparr>sla_state := SLA_active\<rparr> else m
          | _ \<Rightarrow> m)
      else if long_enabled c \<and> sla_enabled c then
        if \<not> long_enabled_prev c \<or> v_cruise_cluster_changed c then m\<lparr>long_engaged_timer := DISABLED_GUARD_FRAMES\<rparr>
        else if long_engaged_timer m \<le> 0 then
          let (confirmed, m) = update_non_pcm_long_confirmed_state now c m in
          if confirmed then m\<lparr>sla_state := SLA_active\<rparr>
          else if has_speed_limit c then ask_driver (sla_pcm_op_long c) m
          else m\<lparr>sla_state := SLA_inactive\<rparr>
        else m
      else m)"

section \<open>Events and targets\<close>

record sla =
  seen :: sla_seen
  machine :: sla_machine
  sla_frame :: int
  sla_is_enabled :: bool
  sla_is_active :: bool
  output_v_target :: real
  output_a_target :: real
  prev_target_set_speed_conv :: int
  v_cruise_cluster_prev :: real
  prev_speed_limit_final_last_conv :: int
  sla_state_prev :: assist_state
  release_toggle_prev :: int

record sla_input =
  i_IsMetric :: bool
  i_IsReleaseSpBranch :: bool
  i_SpeedLimitMode :: speed_limit_mode
  i_long_enabled :: bool
  i_v_ego :: real
  i_a_ego :: real
  i_v_cruise_cluster :: real
  i_speed_limit :: real
  i_speed_limit_final_last :: real
  i_has_speed_limit :: bool
  i_distance :: real
  i_now :: real
  i_release_toggle :: int
  i_buttons_now :: real

definition assist_selected :: "sla_car \<Rightarrow> bool \<Rightarrow> speed_limit_mode \<Rightarrow> bool" where
  \<comment> \<open>the mode read back after \<open>set_speed_limit_assist_availability\<close> has written it\<close>
  "assist_selected cp is_release mode \<longleftrightarrow> snd (set_speed_limit_assist_availability cp is_release mode) = Mode_assist"

definition sla_init :: "sla_car \<Rightarrow> bool \<Rightarrow> bool \<Rightarrow> speed_limit_mode \<Rightarrow> sla" where
  "sla_init cp is_metric is_release mode =
     \<lparr>seen = \<lparr>sla_pcm_op_long = sla_openpilotLongitudinalControl cp \<and> sla_pcmCruise cp, sla_is_metric = is_metric,
        sla_enabled = assist_selected cp is_release mode, long_enabled = False, long_enabled_prev = False,
        sla_v_ego = 0, sla_a_ego = 0, v_offset = 0, target_set_speed_conv = 0, v_cruise_cluster = 0,
        v_cruise_cluster_conv = 0, prev_v_cruise_cluster_conv = 0, has_speed_limit = False, sla_speed_limit = 0,
        sla_speed_limit_prev = 0, sla_speed_limit_final_last = 0, speed_limit_final_last_conv = 0, sla_distance = 0\<rparr>,
      machine = \<lparr>sla_state = SLA_disabled, long_engaged_timer = 0, sla_pre_active_timer = 0, plus_hold = 0, minus_hold = 0\<rparr>,
      sla_frame = -1, sla_is_enabled = False, sla_is_active = False, output_v_target = V_CRUISE_UNSET_MS,
      output_a_target = 0, prev_target_set_speed_conv = 0, v_cruise_cluster_prev = 0,
      prev_speed_limit_final_last_conv = 0, sla_state_prev = SLA_disabled, release_toggle_prev = 0\<rparr>"

definition update_active_event :: "sla_seen \<Rightarrow> events_state \<Rightarrow> events_state" where
  "update_active_event c ev =
     (if v_cruise_cluster_below_confirm_speed_threshold c then ev_add SP_speedLimitChanged ev
      else ev_add SP_speedLimitActive ev)"

definition sla_update_events :: "sla \<Rightarrow> events_state \<Rightarrow> events_state" where
  "sla_update_events s ev =
     (let c = seen s; st = sla_state (machine s);
          ev = (if st = SLA_preActive then ev_add SP_speedLimitPreActive ev else ev);
          ev = (if st = SLA_pending \<and> sla_state_prev s \<noteq> SLA_pending then ev_add SP_speedLimitPending ev else ev)
      in if sla_is_active s then
           if sla_state_prev s \<notin> set SLA_ACTIVE_STATES then update_active_event c ev
           else if sla_speed_limit c \<noteq> sla_speed_limit_prev c then
             if sla_speed_limit_prev c \<le> 0 then update_active_event c ev
             else if sla_speed_limit_prev c > 0 \<and> sla_speed_limit c > 0 then update_active_event c ev
             else ev
           else ev
         else ev)"

definition get_v_target_from_control :: "sla \<Rightarrow> real" where
  "get_v_target_from_control s =
     (let c = seen s in
      if has_speed_limit c \<and> sla_pcm_op_long c \<and> sla_is_enabled s then sla_speed_limit_final_last c
      else if has_speed_limit c \<and> \<not> sla_pcm_op_long c \<and> sla_is_active s then sla_speed_limit_final_last c
      else V_CRUISE_UNSET_MS)"

definition see_frame :: "sla_car \<Rightarrow> sla_input \<Rightarrow> int \<Rightarrow> sla_seen \<Rightarrow> sla_seen" where
  \<comment> \<open>the inputs of the frame, \<open>update_params\<close> and \<open>update_calculations\<close>\<close>
  "see_frame cp i frame c =
     (let c = c\<lparr>long_enabled := i_long_enabled i, sla_v_ego := i_v_ego i, sla_a_ego := i_a_ego i,
                has_speed_limit := i_has_speed_limit i, sla_speed_limit := i_speed_limit i,
                sla_speed_limit_final_last := i_speed_limit_final_last i, sla_distance := i_distance i\<rparr>;
          c = (if frame mod 60 = 0
               then c\<lparr>sla_is_metric := i_IsMetric i,
                      sla_enabled := assist_selected cp (i_IsReleaseSpBranch i) (i_SpeedLimitMode i)\<rparr>
               else c)
      in update_calculations (i_v_cruise_cluster i) c)"

definition run_machine :: "real \<Rightarrow> sla_seen \<Rightarrow> sla_machine \<Rightarrow> sla_machine" where
  "run_machine now c m =
     (if sla_pcm_op_long c then update_state_machine_pcm_op_long c m
      else update_state_machine_non_pcm_long now c m)"

definition sla_update :: "sla_car \<Rightarrow> sla_input \<Rightarrow> sla \<times> events_state \<Rightarrow> sla \<times> events_state" where
  "sla_update cp i se =
     (let (s, ev) = se;
          c = see_frame cp i (sla_frame s) (seen s);
          m = run_machine (i_now i) c (machine s);
          s = s\<lparr>seen := c, machine := m, sla_state_prev := sla_state (machine s),
                sla_is_enabled := sla_state m \<in> set SLA_ENABLED_STATES,
                sla_is_active := sla_state m \<in> set SLA_ACTIVE_STATES\<rparr>;
          ev = sla_update_events s ev;
          c = c\<lparr>sla_speed_limit_prev := sla_speed_limit c, long_enabled_prev := long_enabled c,
                prev_v_cruise_cluster_conv := v_cruise_cluster_conv c\<rparr>;
          s = s\<lparr>seen := c, v_cruise_cluster_prev := v_cruise_cluster c,
                prev_target_set_speed_conv := target_set_speed_conv c,
                prev_speed_limit_final_last_conv := speed_limit_final_last_conv c\<rparr>
      in (s\<lparr>output_v_target := get_v_target_from_control s, output_a_target := sla_a_ego c,
            sla_frame := sla_frame s + 1\<rparr>, ev))"

definition plannerd_frame :: "sla_car \<Rightarrow> (button_type \<Rightarrow> nat) \<Rightarrow> sla_input \<Rightarrow> sla \<times> events_state \<Rightarrow> sla \<times> events_state" where
  \<comment> \<open>the loop of \<open>plannerd\<close> around the assist: the buttons first, then the update\<close>
  "plannerd_frame cp raw i se =
     (let (s, ev) = se;
          m = sla_update_buttons raw (i_buttons_now i) (release_toggle_prev s XOR i_release_toggle i) (machine s)
      in sla_update cp i (s\<lparr>machine := m, release_toggle_prev := i_release_toggle i\<rparr>, ev))"

end
