(* ===== verification/SpeedLimitAssistFacts.thy ===== *)
theory SpeedLimitAssistFacts
  imports SpeedLimitAssist
begin

unbundle bit_operations_syntax

text \<open>
  What speed limit assist promises: on cars with their own set speed it never follows a limit the
  driver has not agreed to, and a request for the driver's agreement ends in time.
\<close>

section \<open>One frame\<close>

lemma sla_tick_simps [simp]:
  "sla_state (sla_tick m) = sla_state m" "plus_hold (sla_tick m) = plus_hold m"
  "minus_hold (sla_tick m) = minus_hold m" "sla_pre_active_timer (sla_tick m) = max 0 (sla_pre_active_timer m - 1)"
  by (simp_all add: sla_tick_def)

definition agreed :: "real \<Rightarrow> sla_seen \<Rightarrow> sla_machine \<Rightarrow> bool" where
  \<comment> \<open>the set speed shows the limit already, or a button was released that moves it there\<close>
  "agreed now c m \<longleftrightarrow>
     target_set_speed_confirmed c \<or>
     fst (compare_cluster_target (v_cruise_cluster c) (sla_speed_limit_final_last c) (sla_is_metric c)) \<and> now \<le> plus_hold m \<or>
     snd (compare_cluster_target (v_cruise_cluster c) (sla_speed_limit_final_last c) (sla_is_metric c)) \<and> now \<le> minus_hold m"

lemma button_release_cases:
  "fst (get_button_release now p q m) \<Longrightarrow> p \<and> now \<le> plus_hold m \<or> q \<and> now \<le> minus_hold m"
  "plus_hold (snd (get_button_release now p q m)) \<in> {plus_hold m, 0}"
  "minus_hold (snd (get_button_release now p q m)) \<in> {minus_hold m, 0}"
  "sla_state (snd (get_button_release now p q m)) = sla_state m"
  "sla_pre_active_timer (snd (get_button_release now p q m)) = sla_pre_active_timer m"
  by (auto simp: get_button_release_def Let_def split: if_splits)

lemma confirmed_cases:
  "fst (update_non_pcm_long_confirmed_state now c m) \<Longrightarrow> agreed now c m"
  "plus_hold (snd (update_non_pcm_long_confirmed_state now c m)) \<in> {plus_hold m, 0}"
  "minus_hold (snd (update_non_pcm_long_confirmed_state now c m)) \<in> {minus_hold m, 0}"
  "sla_state (snd (update_non_pcm_long_confirmed_state now c m)) = sla_state m"
  "sla_pre_active_timer (snd (update_non_pcm_long_confirmed_state now c m)) = sla_pre_active_timer m"
  using button_release_cases [where now = now and m = m]
  by (auto simp: update_non_pcm_long_confirmed_state_def agreed_def split: prod.splits if_splits)

lemma agreed_tick [simp]: "agreed now c (sla_tick m) = agreed now c m"
  by (simp add: agreed_def)

lemma non_pcm_active:
  assumes "sla_state (update_state_machine_non_pcm_long now c m) = SLA_active"
  shows "agreed now c m \<or> sla_state m = SLA_active \<and> \<not> v_cruise_cluster_changed c \<and>
    \<not> (speed_limit_changed c \<and> apply_confirm_speed_threshold c)"
  using assms confirmed_cases(1,4) [of now c "sla_tick m"]
  by (auto simp: update_state_machine_non_pcm_long_def Let_def ask_driver_def
      split: if_splits assist_state.splits prod.splits)

lemma non_pcm_holds:
  "plus_hold (update_state_machine_non_pcm_long now c m) \<in> {plus_hold m, 0} \<and>
   minus_hold (update_state_machine_non_pcm_long now c m) \<in> {minus_hold m, 0}"
  using confirmed_cases(2,3) [of now c "sla_tick m"]
  by (auto simp: update_state_machine_non_pcm_long_def Let_def ask_driver_def
      split: if_splits assist_state.splits prod.splits)

lemma update_buttons_holds:
  defines "m' raw now r m \<equiv> sla_update_buttons raw now r m"
  shows "plus_hold (m' raw now r m) \<in> {plus_hold m, now + 1 / 2}"
    and "plus_hold (m' raw now r m) \<noteq> plus_hold m \<Longrightarrow> any_released raw CRUISE_BUTTONS_PLUS r"
    and "minus_hold (m' raw now r m) \<in> {minus_hold m, now + 1 / 2}"
    and "minus_hold (m' raw now r m) \<noteq> minus_hold m \<Longrightarrow> any_released raw CRUISE_BUTTONS_MINUS r"
    and "sla_state (m' raw now r m) = sla_state m"
    and "sla_pre_active_timer (m' raw now r m) = sla_pre_active_timer m"
  by (auto simp: m'_def sla_update_buttons_def Let_def max_def split: if_splits)

definition cluster_shown :: "bool \<Rightarrow> sla_input \<Rightarrow> int" where
  "cluster_shown M i = py_round (i_v_cruise_cluster i * speed_conv M)"

definition limit_shown :: "bool \<Rightarrow> sla_input \<Rightarrow> int" where
  "limit_shown M i = py_round (i_speed_limit_final_last i * speed_conv M)"

lemma see_frame_simps:
  assumes "sla_is_metric c = M" "i_IsMetric i = M"
  shows "sla_is_metric (see_frame cp i n c) = M" "sla_pcm_op_long (see_frame cp i n c) = sla_pcm_op_long c"
    "v_cruise_cluster_conv (see_frame cp i n c) = cluster_shown M i"
    "speed_limit_final_last_conv (see_frame cp i n c) = limit_shown M i"
    "\<not> sla_pcm_op_long c \<Longrightarrow> target_set_speed_conv (see_frame cp i n c) = limit_shown M i"
    "v_cruise_cluster (see_frame cp i n c) = i_v_cruise_cluster i"
    "sla_speed_limit_final_last (see_frame cp i n c) = i_speed_limit_final_last i"
    "sla_speed_limit (see_frame cp i n c) = i_speed_limit i"
    "sla_speed_limit_prev (see_frame cp i n c) = sla_speed_limit_prev c"
    "has_speed_limit (see_frame cp i n c) = i_has_speed_limit i"
    "long_enabled (see_frame cp i n c) = i_long_enabled i"
    "prev_v_cruise_cluster_conv (see_frame cp i n c) = prev_v_cruise_cluster_conv c"
  using assms
  by (simp_all add: see_frame_def update_calculations_def Let_def cluster_shown_def limit_shown_def split: prod.split)

definition frame_seen :: "sla_car \<Rightarrow> sla_input \<Rightarrow> sla \<Rightarrow> sla_seen" where
  "frame_seen cp i s = see_frame cp i (sla_frame s) (seen s)"

definition frame_buttons :: "(button_type \<Rightarrow> nat) \<Rightarrow> sla_input \<Rightarrow> sla \<Rightarrow> sla_machine" where
  "frame_buttons raw i s =
     sla_update_buttons raw (i_buttons_now i) (release_toggle_prev s XOR i_release_toggle i) (machine s)"

lemma plannerd_frame_simps:
  fixes cp raw i s ev
  defines "c \<equiv> frame_seen cp i s" and "s' \<equiv> fst (plannerd_frame cp raw i (s, ev))"
  shows "machine s' = run_machine (i_now i) c (frame_buttons raw i s)"
    "seen s' = c\<lparr>sla_speed_limit_prev := sla_speed_limit c, long_enabled_prev := long_enabled c,
       prev_v_cruise_cluster_conv := v_cruise_cluster_conv c\<rparr>"
    "release_toggle_prev s' = i_release_toggle i"
    "sla_frame s' = sla_frame s + 1"
    "sla_is_enabled s' = (sla_state (machine s') \<in> set SLA_ENABLED_STATES)"
    "sla_is_active s' = (sla_state (machine s') \<in> set SLA_ACTIVE_STATES)"
  by (simp_all add: assms plannerd_frame_def sla_update_def Let_def frame_seen_def frame_buttons_def)

section \<open>The history of a run\<close>

definition sla_run :: "sla_car \<Rightarrow> (button_type \<Rightarrow> nat) \<Rightarrow> sla_input list \<Rightarrow> sla \<times> events_state \<Rightarrow> sla \<times> events_state" where
  "sla_run cp raw is se = foldl (\<lambda>se i. plannerd_frame cp raw i se) se is"

lemma sla_run_simps [simp]:
  "sla_run cp raw [] se = se"
  "sla_run cp raw (is @ [i]) se = plannerd_frame cp raw i (sla_run cp raw is se)"
  "sla_run cp raw (i # is) se = sla_run cp raw is (plannerd_frame cp raw i se)"
  by (simp_all add: sla_run_def)

definition toggle_before :: "sla_input list \<Rightarrow> nat \<Rightarrow> int" where
  "toggle_before is k = (if k = 0 then 0 else i_release_toggle (is ! (k - 1)))"

definition released_at :: "(button_type \<Rightarrow> nat) \<Rightarrow> button_type list \<Rightarrow> sla_input list \<Rightarrow> nat \<Rightarrow> bool" where
  \<comment> \<open>a button of the list was released between the frame before and this one\<close>
  "released_at raw bts is k = any_released raw bts (toggle_before is k XOR i_release_toggle (is ! k))"

definition released_lately :: "(button_type \<Rightarrow> nat) \<Rightarrow> button_type list \<Rightarrow> sla_input list \<Rightarrow> nat \<Rightarrow> bool" where
  "released_lately raw bts is j \<longleftrightarrow>
     (\<exists>k \<le> j. released_at raw bts is k \<and> i_now (is ! j) \<le> i_buttons_now (is ! k) + 1 / 2)"

definition driver_agrees :: "(button_type \<Rightarrow> nat) \<Rightarrow> bool \<Rightarrow> sla_input list \<Rightarrow> nat \<Rightarrow> bool" where
  "driver_agrees raw M is j \<longleftrightarrow>
     cluster_shown M (is ! j) = limit_shown M (is ! j) \<or>
     cluster_shown M (is ! j) < limit_shown M (is ! j) \<and> released_lately raw CRUISE_BUTTONS_PLUS is j \<or>
     cluster_shown M (is ! j) > limit_shown M (is ! j) \<and> released_lately raw CRUISE_BUTTONS_MINUS is j"

definition limit_kept :: "bool \<Rightarrow> sla_input list \<Rightarrow> nat \<Rightarrow> bool" where
  \<comment> \<open>neither the set speed nor the limit changes, or both are fast enough to follow without asking\<close>
  "limit_kept M is j \<longleftrightarrow>
     j > 0 \<and> cluster_shown M (is ! j) = cluster_shown M (is ! (j - 1)) \<and>
     (\<not> i_has_speed_limit (is ! j) \<or> i_speed_limit (is ! j) = i_speed_limit (is ! (j - 1)) \<or>
      CONFIRM_SPEED_THRESHOLD M \<le> cluster_shown M (is ! j) \<and> CONFIRM_SPEED_THRESHOLD M \<le> limit_shown M (is ! j))"

definition agreed_since :: "(button_type \<Rightarrow> nat) \<Rightarrow> bool \<Rightarrow> sla_input list \<Rightarrow> bool" where
  "agreed_since raw M is \<longleftrightarrow>
     (\<exists>j < length is. driver_agrees raw M is j \<and> (\<forall>k. j < k \<and> k < length is \<longrightarrow> limit_kept M is k))"

lemma toggle_before_append: "k \<le> length is \<Longrightarrow> toggle_before (is @ [i]) k = toggle_before is k"
  by (auto simp: toggle_before_def nth_append)

lemma history_append:
  assumes "k < length is"
  shows "released_at raw bts (is @ [i]) k = released_at raw bts is k"
    "released_lately raw bts (is @ [i]) k = released_lately raw bts is k"
    "driver_agrees raw M (is @ [i]) k = driver_agrees raw M is k"
    "limit_kept M (is @ [i]) k = limit_kept M is k"
proof -
  have *: "released_at raw bts (is @ [i]) j = released_at raw bts is j" if "j \<le> k" for j bts
    using assms that by (simp add: released_at_def toggle_before_append nth_append)
  have lately: "released_lately raw bts (is @ [i]) k = released_lately raw bts is k" for bts
    using assms unfolding released_lately_def by (intro ex_cong1 conj_cong refl) (simp_all add: * nth_append)
  show "released_at raw bts (is @ [i]) k = released_at raw bts is k" by (simp add: *)
  show "released_lately raw bts (is @ [i]) k = released_lately raw bts is k" by (rule lately)
  show "driver_agrees raw M (is @ [i]) k = driver_agrees raw M is k"
    using assms by (simp add: driver_agrees_def lately nth_append)
  show "limit_kept M (is @ [i]) k = limit_kept M is k"
    using assms by (cases k) (simp_all add: limit_kept_def nth_append)
qed

definition hold_justified :: "(button_type \<Rightarrow> nat) \<Rightarrow> button_type list \<Rightarrow> sla_input list \<Rightarrow> real \<Rightarrow> bool" where
  "hold_justified raw bts is h \<longleftrightarrow> h \<le> 0 \<or> (\<exists>k < length is. released_at raw bts is k \<and> h = i_buttons_now (is ! k) + 1 / 2)"

definition sla_linked :: "(button_type \<Rightarrow> nat) \<Rightarrow> bool \<Rightarrow> sla_input list \<Rightarrow> sla \<Rightarrow> bool" where
  \<comment> \<open>what the state remembers of the inputs so far\<close>
  "sla_linked raw M is s \<longleftrightarrow>
     sla_is_metric (seen s) = M \<and> \<not> sla_pcm_op_long (seen s) \<and>
     release_toggle_prev s = toggle_before is (length is) \<and>
     (is \<noteq> [] \<longrightarrow> prev_v_cruise_cluster_conv (seen s) = cluster_shown M (last is) \<and>
                 sla_speed_limit_prev (seen s) = i_speed_limit (last is)) \<and>
     (is = [] \<longrightarrow> sla_state (machine s) = SLA_disabled) \<and>
     hold_justified raw CRUISE_BUTTONS_PLUS is (plus_hold (machine s)) \<and>
     hold_justified raw CRUISE_BUTTONS_MINUS is (minus_hold (machine s)) \<and>
     (sla_state (machine s) = SLA_active \<longrightarrow> agreed_since raw M is)"

lemma hold_justified_append:
  assumes "hold_justified raw bts is h"
  shows "hold_justified raw bts (is @ [i]) h"
proof (cases "h \<le> 0")
  case False
  with assms obtain k where "k < length is" "released_at raw bts is k" "h = i_buttons_now (is ! k) + 1 / 2"
    by (auto simp: hold_justified_def)
  then have "k < length (is @ [i])" "released_at raw bts (is @ [i]) k" "h = i_buttons_now ((is @ [i]) ! k) + 1 / 2"
    by (simp_all add: history_append nth_append)
  then show ?thesis unfolding hold_justified_def by blast
qed (simp add: hold_justified_def)

lemma hold_justified_new:
  "released_at raw bts (is @ [i]) (length is) \<Longrightarrow> hold_justified raw bts (is @ [i]) (i_buttons_now i + 1 / 2)"
  unfolding hold_justified_def by (auto intro!: exI [of _ "length is"])

lemma hold_lately:
  assumes "hold_justified raw bts is h" "i_now (is ! j) \<le> h" "0 < i_now (is ! j)" "j = length is - 1"
  shows "released_lately raw bts is j"
proof -
  from assms obtain k where "k < length is" "released_at raw bts is k" "h = i_buttons_now (is ! k) + 1 / 2"
    by (auto simp: hold_justified_def)
  with assms show ?thesis unfolding released_lately_def by (intro exI [of _ k]) simp
qed

lemma buttons_justified:
  assumes "release_toggle_prev s = toggle_before is (length is)"
  shows "hold_justified raw CRUISE_BUTTONS_PLUS is (plus_hold (machine s)) \<Longrightarrow>
      hold_justified raw CRUISE_BUTTONS_PLUS (is @ [i]) (plus_hold (frame_buttons raw i s))"
    and "hold_justified raw CRUISE_BUTTONS_MINUS is (minus_hold (machine s)) \<Longrightarrow>
      hold_justified raw CRUISE_BUTTONS_MINUS (is @ [i]) (minus_hold (frame_buttons raw i s))"
proof -
  have rel: "any_released raw bts (release_toggle_prev s XOR i_release_toggle i) = released_at raw bts (is @ [i]) (length is)" for bts
    using assms by (simp add: released_at_def toggle_before_append)
  note holds = update_buttons_holds(1-4) [of raw "i_buttons_now i" "release_toggle_prev s XOR i_release_toggle i" "machine s",
      folded frame_buttons_def, unfolded rel]
  show "hold_justified raw CRUISE_BUTTONS_PLUS (is @ [i]) (plus_hold (frame_buttons raw i s))"
    if "hold_justified raw CRUISE_BUTTONS_PLUS is (plus_hold (machine s))"
    using holds(1,2) hold_justified_append [OF that, of i] hold_justified_new [of raw CRUISE_BUTTONS_PLUS "is" i]
    by (cases "plus_hold (frame_buttons raw i s) = plus_hold (machine s)") auto
  show "hold_justified raw CRUISE_BUTTONS_MINUS (is @ [i]) (minus_hold (frame_buttons raw i s))"
    if "hold_justified raw CRUISE_BUTTONS_MINUS is (minus_hold (machine s))"
    using holds(3,4) hold_justified_append [OF that, of i] hold_justified_new [of raw CRUISE_BUTTONS_MINUS "is" i]
    by (cases "minus_hold (frame_buttons raw i s) = minus_hold (machine s)") auto
qed

lemma hold_justified_zero: "h \<in> {h', 0} \<Longrightarrow> hold_justified raw bts is h' \<Longrightarrow> hold_justified raw bts is h"
  by (auto simp: hold_justified_def)

lemma agreed_driver:
  assumes "agreed (i_now i) c m" "0 < i_now i"
    "hold_justified raw CRUISE_BUTTONS_PLUS (is @ [i]) (plus_hold m)"
    "hold_justified raw CRUISE_BUTTONS_MINUS (is @ [i]) (minus_hold m)"
    "v_cruise_cluster_conv c = cluster_shown M i" "target_set_speed_conv c = limit_shown M i"
    "v_cruise_cluster c = i_v_cruise_cluster i" "sla_speed_limit_final_last c = i_speed_limit_final_last i"
    "sla_is_metric c = M"
  shows "driver_agrees raw M (is @ [i]) (length is)"
proof -
  have now: "i_now ((is @ [i]) ! length is) = i_now i" by simp
  have plus: "released_lately raw CRUISE_BUTTONS_PLUS (is @ [i]) (length is)" if "i_now i \<le> plus_hold m"
    by (rule hold_lately [OF assms(3)]) (simp_all only: now that assms(2) length_append_singleton diff_Suc_1)
  have minus: "released_lately raw CRUISE_BUTTONS_MINUS (is @ [i]) (length is)" if "i_now i \<le> minus_hold m"
    by (rule hold_lately [OF assms(4)]) (simp_all only: now that assms(2) length_append_singleton diff_Suc_1)
  from assms(1) show ?thesis
    unfolding agreed_def target_set_speed_confirmed_def compare_cluster_target_def Let_def fst_conv snd_conv assms(5-9)
      cluster_shown_def [symmetric] limit_shown_def [symmetric]
    by (elim disjE conjE) (simp_all add: driver_agrees_def plus minus)
qed

lemma sla_linked_step:
  assumes linked: "sla_linked raw M is s" and i: "i_IsMetric i = M" "0 < i_now i"
  shows "sla_linked raw M (is @ [i]) (fst (plannerd_frame cp raw i (s, ev)))"
proof -
  let ?c = "frame_seen cp i s" and ?m = "frame_buttons raw i s" and ?s = "fst (plannerd_frame cp raw i (s, ev))"
  from linked have L: "sla_is_metric (seen s) = M" "\<not> sla_pcm_op_long (seen s)"
    "release_toggle_prev s = toggle_before is (length is)"
    "is \<noteq> [] \<Longrightarrow> prev_v_cruise_cluster_conv (seen s) = cluster_shown M (last is)"
    "is \<noteq> [] \<Longrightarrow> sla_speed_limit_prev (seen s) = i_speed_limit (last is)"
    "is = [] \<Longrightarrow> sla_state (machine s) = SLA_disabled"
    "hold_justified raw CRUISE_BUTTONS_PLUS is (plus_hold (machine s))"
    "hold_justified raw CRUISE_BUTTONS_MINUS is (minus_hold (machine s))"
    "sla_state (machine s) = SLA_active \<Longrightarrow> agreed_since raw M is"
    unfolding sla_linked_def by blast+
  note c = see_frame_simps [OF L(1) i(1), of cp "sla_frame s", folded frame_seen_def] and c5 = see_frame_simps(5) [OF L(1) i(1) L(2), of cp "sla_frame s", folded frame_seen_def]
  note B = buttons_justified [OF L(3)]
  have mach: "machine ?s = update_state_machine_non_pcm_long (i_now i) ?c ?m"
    using L(2) c(2) by (simp add: plannerd_frame_simps run_machine_def)
  have holds: "hold_justified raw CRUISE_BUTTONS_PLUS (is @ [i]) (plus_hold (machine ?s))"
    "hold_justified raw CRUISE_BUTTONS_MINUS (is @ [i]) (minus_hold (machine ?s))"
    unfolding mach using non_pcm_holds [of "i_now i" ?c ?m] B(1) [OF L(7), of i] B(2) [OF L(8), of i]
    by (blast intro: hold_justified_zero)+
  have state: "sla_state ?m = sla_state (machine s)" by (simp add: frame_buttons_def update_buttons_holds)
  have "agreed_since raw M (is @ [i])" if active: "sla_state (machine ?s) = SLA_active"
    using non_pcm_active [OF active [unfolded mach]]
  proof
    assume "agreed (i_now i) ?c ?m"
    then have "driver_agrees raw M (is @ [i]) (length is)"
      by (rule agreed_driver [OF _ i(2) B(1) [OF L(7)] B(2) [OF L(8)] c(3) c5 c(6,7,1)])
    then show ?thesis unfolding agreed_since_def by (intro exI [of _ "length is"]) auto
  next
    assume *: "sla_state ?m = SLA_active \<and> \<not> v_cruise_cluster_changed ?c \<and>
      \<not> (speed_limit_changed ?c \<and> apply_confirm_speed_threshold ?c)"
    with state L(6) have ne: "is \<noteq> []" by auto
    from * state L(9) obtain j where j: "j < length is" "driver_agrees raw M is j"
      "\<And>k. j < k \<Longrightarrow> k < length is \<Longrightarrow> limit_kept M is k" by (auto simp: agreed_since_def)
    have "limit_kept M (is @ [i]) (length is)"
      using * ne c L(4,5) [OF ne]
      by (auto simp: limit_kept_def nth_append last_conv_nth v_cruise_cluster_changed_def speed_limit_changed_def
          apply_confirm_speed_threshold_def v_cruise_cluster_below_confirm_speed_threshold_def split: if_splits)
    with j have "j < length (is @ [i])" "driver_agrees raw M (is @ [i]) j"
      "\<forall>k. j < k \<and> k < length (is @ [i]) \<longrightarrow> limit_kept M (is @ [i]) k"
      by (auto simp: history_append less_Suc_eq)
    then show ?thesis unfolding agreed_since_def by blast
  qed
  with holds c L(2) show ?thesis
    unfolding sla_linked_def by (simp add: plannerd_frame_simps toggle_before_def)
qed

lemma sla_linked_init:
  "\<not> (sla_openpilotLongitudinalControl cp \<and> sla_pcmCruise cp) \<Longrightarrow> sla_linked raw M [] (sla_init cp M rel mode)"
  by (auto simp: sla_linked_def sla_init_def toggle_before_def hold_justified_def)

lemma sla_linked_run:
  assumes "\<not> (sla_openpilotLongitudinalControl cp \<and> sla_pcmCruise cp)"
    and "\<forall>i \<in> set is. i_IsMetric i = M \<and> 0 < i_now i"
  shows "sla_linked raw M is (fst (sla_run cp raw is (sla_init cp M rel mode, ev)))"
  using assms(2)
proof (induction "is" rule: rev_induct)
  case Nil
  with sla_linked_init [OF assms(1)] show ?case by simp
next
  case (snoc i js)
  then have "sla_linked raw M js (fst (sla_run cp raw js (sla_init cp M rel mode, ev)))" by simp
  from sla_linked_step [OF this, of i cp "snd (sla_run cp raw js (sla_init cp M rel mode, ev))"] snoc.prems
  show ?case by simp
qed

text \<open>
  C35. An active speed limit assist goes back to an agreement of the driver. On a car for which openpilot does not both
  control the pedals and set the speed through stock cruise (that machine is another one), in every run with one unit of
  speed and a positive clock, whenever the assist is active there is a frame in which the driver agreed to the limit of that frame - the set
  speed shown was already the limit, or a button that moves it towards the limit had been released in the
  last half second - and in every frame since then the set speed shown is unchanged, and a limit that is known has only changed
  where the set speed and the new limit were both at the confirmation threshold or above: such a change is
  followed without a new agreement.
\<close>

theorem assist_follows_agreed_limits:
  assumes "\<not> (sla_openpilotLongitudinalControl cp \<and> sla_pcmCruise cp)"
    and "\<forall>i \<in> set is. i_IsMetric i = M \<and> 0 < i_now i"
    and "sla_state (machine (fst (sla_run cp raw is (sla_init cp M rel mode, ev)))) = SLA_active"
  shows "\<exists>j < length is. driver_agrees raw M is j \<and> (\<forall>k. j < k \<and> k < length is \<longrightarrow> limit_kept M is k)"
  using sla_linked_run [OF assms(1,2), of raw rel mode ev] assms(3) by (simp add: sla_linked_def agreed_since_def)

section \<open>Requests end\<close>

lemma guard_frames [simp]: "PRE_ACTIVE_GUARD_FRAMES True = 300" "PRE_ACTIVE_GUARD_FRAMES False = 100"
  by (simp_all add: PRE_ACTIVE_GUARD_FRAMES_def py_int_def)

lemma guard_nonneg [simp]: "0 \<le> PRE_ACTIVE_GUARD_FRAMES pcm"
  by (cases pcm) simp_all

lemma pre_active_step:
  assumes "sla_state (run_machine now c m) = SLA_preActive" "sla_state m = SLA_preActive"
  shows "sla_pre_active_timer (run_machine now c m) = sla_pre_active_timer m - 1 \<and>
    0 < sla_pre_active_timer (run_machine now c m)"
  using assms confirmed_cases(4,5) [of now c "sla_tick m"]
  by (auto simp: run_machine_def update_state_machine_non_pcm_long_def update_state_machine_pcm_op_long_def
      update_confirmed_state_def Let_def split: if_splits prod.splits)

definition timer_within :: "int \<Rightarrow> sla_machine \<Rightarrow> bool" where
  "timer_within n m \<longleftrightarrow> sla_pre_active_timer m \<le> n"

lemma timer_within_intros:
  "timer_within n m1 \<Longrightarrow> timer_within n m2 \<Longrightarrow> timer_within n (if b then m1 else m2)"
  "(\<And>b m1. p = (b, m1) \<Longrightarrow> timer_within n (g b m1)) \<Longrightarrow> timer_within n (case p of (b, m1) \<Rightarrow> g b m1)"
  "timer_within n a1 \<Longrightarrow> timer_within n a2 \<Longrightarrow> timer_within n a3 \<Longrightarrow> timer_within n a4 \<Longrightarrow> timer_within n a5 \<Longrightarrow>
     timer_within n a6 \<Longrightarrow> timer_within n (case st of SLA_disabled \<Rightarrow> a1 | SLA_inactive \<Rightarrow> a2 | SLA_preActive \<Rightarrow> a3
       | SLA_pending \<Rightarrow> a4 | SLA_adapting \<Rightarrow> a5 | SLA_active \<Rightarrow> a6)"
  "timer_within n m \<Longrightarrow> timer_within n (m\<lparr>sla_state := st\<rparr>)"
  "timer_within n m \<Longrightarrow> timer_within n (m\<lparr>long_engaged_timer := t\<rparr>)"
  "n = PRE_ACTIVE_GUARD_FRAMES pcm \<Longrightarrow> timer_within n (ask_driver pcm m)"
  by (auto simp: timer_within_def ask_driver_def split: assist_state.splits prod.splits)

lemma pre_active_timer_bound:
  assumes "sla_pre_active_timer m \<le> PRE_ACTIVE_GUARD_FRAMES (sla_pcm_op_long c)"
  shows "sla_pre_active_timer (run_machine now c m) \<le> PRE_ACTIVE_GUARD_FRAMES (sla_pcm_op_long c)"
proof -
  have t: "timer_within (PRE_ACTIVE_GUARD_FRAMES (sla_pcm_op_long c)) (sla_tick m)"
    unfolding timer_within_def sla_tick_simps using assms guard_nonneg [of "sla_pcm_op_long c"] by linarith
  then have c: "timer_within (PRE_ACTIVE_GUARD_FRAMES (sla_pcm_op_long c)) m'"
    if "update_non_pcm_long_confirmed_state now c (sla_tick m) = (b, m')" for b m'
    using confirmed_cases(5) [of now c "sla_tick m"] that by (simp add: timer_within_def)
  have "timer_within (PRE_ACTIVE_GUARD_FRAMES (sla_pcm_op_long c)) (run_machine now c m)"
    unfolding run_machine_def update_state_machine_non_pcm_long_def update_state_machine_pcm_op_long_def
      update_confirmed_state_def Let_def
    by (intro timer_within_intros refl t) (erule c)+
  then show ?thesis by (simp add: timer_within_def)
qed

definition timer_bounded :: "bool \<Rightarrow> sla \<Rightarrow> bool" where
  "timer_bounded pcm s \<longleftrightarrow>
     sla_pcm_op_long (seen s) = pcm \<and> sla_pre_active_timer (machine s) \<le> PRE_ACTIVE_GUARD_FRAMES pcm"

lemma see_frame_pcm [simp]: "sla_pcm_op_long (frame_seen cp i s) = sla_pcm_op_long (seen s)"
  by (simp add: frame_seen_def see_frame_def update_calculations_def Let_def split: prod.split)

lemma frame_buttons_simps [simp]:
  "sla_state (frame_buttons raw i s) = sla_state (machine s)"
  "sla_pre_active_timer (frame_buttons raw i s) = sla_pre_active_timer (machine s)"
  by (simp_all add: frame_buttons_def update_buttons_holds)

lemma timer_bounded_step: "timer_bounded pcm s \<Longrightarrow> timer_bounded pcm (fst (plannerd_frame cp raw i (s, ev)))"
  using pre_active_timer_bound [of "frame_buttons raw i s" "frame_seen cp i s" "i_now i"]
  by (simp add: timer_bounded_def plannerd_frame_simps)

lemma timer_bounded_run: "timer_bounded pcm (fst se) \<Longrightarrow> timer_bounded pcm (fst (sla_run cp raw is se))"
proof (induction "is" arbitrary: se)
  case (Cons i js)
  from timer_bounded_step [OF Cons.prems, of cp raw i "snd se"] show ?case
    using Cons.IH [of "plannerd_frame cp raw i se"] by simp
qed simp

lemma request_ends_aux:
  assumes "timer_bounded pcm (fst se)" "0 < sla_pre_active_timer (machine (fst se)) \<longrightarrow> sla_pre_active_timer (machine (fst se)) \<le> int (length js)"
    and "js \<noteq> []"
  shows "\<exists>k \<le> length js. sla_state (machine (fst (sla_run cp raw (take k js) se))) \<noteq> SLA_preActive"
  using assms
proof (induction js arbitrary: se)
  case (Cons i js)
  let ?se = "plannerd_frame cp raw i se"
  show ?case
  proof (cases "sla_state (machine (fst se)) = SLA_preActive \<and> sla_state (machine (fst ?se)) = SLA_preActive")
    case False
    then have "sla_state (machine (fst (sla_run cp raw (take 0 (i # js)) se))) \<noteq> SLA_preActive \<or>
      sla_state (machine (fst (sla_run cp raw (take 1 (i # js)) se))) \<noteq> SLA_preActive" by simp
    then show ?thesis by (metis le0 le_add1 length_Cons plus_1_eq_Suc)
  next
    case True
    then have t: "sla_pre_active_timer (machine (fst ?se)) = sla_pre_active_timer (machine (fst se)) - 1"
      "0 < sla_pre_active_timer (machine (fst ?se))"
      using pre_active_step [of "i_now i" "frame_seen cp i (fst se)" "frame_buttons raw i (fst se)"]
        plannerd_frame_simps(1) [of cp raw i "fst se" "snd se"] by simp_all
    with Cons.prems(2) have js: "sla_pre_active_timer (machine (fst ?se)) \<le> int (length js)" "js \<noteq> []" by auto
    from Cons.IH [of ?se] timer_bounded_step [OF Cons.prems(1), of cp raw i "snd se"] js obtain k where
      "k \<le> length js" "sla_state (machine (fst (sla_run cp raw (take k js) ?se))) \<noteq> SLA_preActive" by auto
    then show ?thesis by (intro exI [of _ "Suc k"]) simp
  qed
qed simp

text \<open>
  A request for the driver's agreement ends. Whatever has happened since the start and whatever
  happens next, the assist does not stay in \<open>preActive\<close> for more than fifteen seconds (300
  frames) on cars with the stock set speed and five seconds (100 frames) on the others.
\<close>

theorem agreement_request_ends:
  assumes "length js = (if sla_openpilotLongitudinalControl cp \<and> sla_pcmCruise cp then 300 else 100)"
  shows "\<exists>k \<le> length js. sla_state (machine (fst
    (sla_run cp raw (is @ take k js) (sla_init cp M rel mode, ev)))) \<noteq> SLA_preActive"
proof -
  let ?pcm = "sla_openpilotLongitudinalControl cp \<and> sla_pcmCruise cp"
  let ?se = "sla_run cp raw is (sla_init cp M rel mode, ev)"
  have "timer_bounded ?pcm (fst ?se)"
    by (rule timer_bounded_run) (simp add: timer_bounded_def sla_init_def)
  moreover from this assms have "sla_pre_active_timer (machine (fst ?se)) \<le> int (length js)" "js \<noteq> []"
    by (auto simp: timer_bounded_def split: if_splits)
  ultimately show ?thesis
    using request_ends_aux [of ?pcm ?se js cp raw] by (simp add: sla_run_def)
qed

section \<open>Concrete runs\<close>

definition ex_sla_car :: sla_car where
  "ex_sla_car = \<lparr>sla_brand = ''subaru'', sla_openpilotLongitudinalControl = True, sla_pcmCruise = False, sla_pcmCruiseSpeed = False\<rparr>"

definition ex_sla_input :: "real \<Rightarrow> sla_input" where
  "ex_sla_input now = \<lparr>i_IsMetric = True, i_IsReleaseSpBranch = False, i_SpeedLimitMode = Mode_assist, i_long_enabled = True,
     i_v_ego = 20, i_a_ego = 0, i_v_cruise_cluster = 20, i_speed_limit = 20, i_speed_limit_final_last = 20,
     i_has_speed_limit = True, i_distance = 0, i_now = now, i_release_toggle = 0, i_buttons_now = now\<rparr>"

definition ex_seen :: "bool \<Rightarrow> bool \<Rightarrow> sla_seen" where
  \<comment> \<open>what is seen at the end of a frame; the flags say whether it was shown in the frame before\<close>
  "ex_seen prev end = \<lparr>sla_pcm_op_long = False, sla_is_metric = True, sla_enabled = True, long_enabled = True,
     long_enabled_prev = prev, sla_v_ego = 20, sla_a_ego = 0, v_offset = 0, target_set_speed_conv = 72, v_cruise_cluster = 20,
     v_cruise_cluster_conv = 72, prev_v_cruise_cluster_conv = (if end then 72 else 0), has_speed_limit = True,
     sla_speed_limit = 20, sla_speed_limit_prev = (if end then 20 else 0), sla_speed_limit_final_last = 20,
     speed_limit_final_last_conv = 72, sla_distance = 0\<rparr>"

definition ex_machine :: "int \<Rightarrow> assist_state \<Rightarrow> sla_machine" where
  "ex_machine t st = \<lparr>sla_state = st, long_engaged_timer = t, sla_pre_active_timer = 0, plus_hold = 0, minus_hold = 0\<rparr>"

definition ex_waiting :: "int \<Rightarrow> sla \<Rightarrow> bool" where
  "ex_waiting t s \<longleftrightarrow> seen s = ex_seen True True \<and> machine s = ex_machine t SLA_disabled \<and> release_toggle_prev s = 0"

lemmas ex_sla_defs = ex_sla_car_def ex_sla_input_def ex_seen_def ex_machine_def see_frame_def update_calculations_def
  assist_selected_def set_speed_limit_assist_availability_def PCM_LONG_REQUIRED_MAX_SET_SPEED_def
  CONFIRM_SPEED_THRESHOLD_def speed_conv_def

lemma ex_see_first:
  "frame_seen ex_sla_car (ex_sla_input 1) (sla_init ex_sla_car True False Mode_assist) = ex_seen False False"
  by (simp add: frame_seen_def sla_init_def ex_sla_defs py_round_def)

lemma ex_see_next: "seen s = ex_seen True True \<Longrightarrow> frame_seen ex_sla_car (ex_sla_input 1) s = ex_seen True True"
  by (cases "sla_frame s mod 60 = 0") (simp_all add: frame_seen_def ex_sla_defs py_round_def)

lemma ex_buttons_first: "frame_buttons raw (ex_sla_input 1) (sla_init ex_sla_car True False Mode_assist) = ex_machine 0 SLA_disabled"
  by (simp add: frame_buttons_def sla_update_buttons_def ex_sla_input_def sla_init_def ex_machine_def)

lemma ex_buttons: "release_toggle_prev s = 0 \<Longrightarrow> frame_buttons raw (ex_sla_input 1) s = machine s"
  by (simp add: frame_buttons_def sla_update_buttons_def ex_sla_input_def)

lemma ex_run_first: "run_machine now (ex_seen False False) (ex_machine 0 SLA_disabled) = ex_machine 10 SLA_disabled"
  by (simp add: run_machine_def ex_seen_def ex_machine_def update_state_machine_non_pcm_long_def sla_tick_def
      DISABLED_GUARD_FRAMES_def py_int_def)

lemma ex_run_next:
  "1 < t \<Longrightarrow> run_machine now (ex_seen True True) (ex_machine t SLA_disabled) = ex_machine (t - 1) SLA_disabled"
  "run_machine now (ex_seen True True) (ex_machine 1 SLA_disabled) = ex_machine 0 SLA_active"
  by (simp_all add: run_machine_def ex_seen_def ex_machine_def update_state_machine_non_pcm_long_def sla_tick_def
      v_cruise_cluster_changed_def update_non_pcm_long_confirmed_state_def target_set_speed_confirmed_def)

lemma ex_frame_first:
  "ex_waiting 10 (fst (plannerd_frame ex_sla_car raw (ex_sla_input 1) (sla_init ex_sla_car True False Mode_assist, ev)))"
  unfolding ex_waiting_def plannerd_frame_simps ex_see_first ex_buttons_first ex_run_first
  by (simp add: ex_seen_def ex_sla_input_def)

lemma ex_frame_next:
  assumes "ex_waiting t s"
  shows "1 < t \<Longrightarrow> ex_waiting (t - 1) (fst (plannerd_frame ex_sla_car raw (ex_sla_input 1) (s, ev)))"
    "t = 1 \<Longrightarrow> sla_state (machine (fst (plannerd_frame ex_sla_car raw (ex_sla_input 1) (s, ev)))) = SLA_active"
proof -
  have s: "seen s = ex_seen True True" "machine s = ex_machine t SLA_disabled" "release_toggle_prev s = 0"
    using assms by (simp_all add: ex_waiting_def)
  note step = plannerd_frame_simps [of ex_sla_car raw "ex_sla_input 1" s ev] ex_see_next [OF s(1)] ex_buttons [OF s(3), of raw]
  show "ex_waiting (t - 1) (fst (plannerd_frame ex_sla_car raw (ex_sla_input 1) (s, ev)))" if "1 < t"
    using ex_run_next(1) [OF that] by (simp add: step s(2) ex_waiting_def) (simp add: ex_seen_def ex_sla_input_def)
  show "sla_state (machine (fst (plannerd_frame ex_sla_car raw (ex_sla_input 1) (s, ev)))) = SLA_active" if "t = 1"
    unfolding step s(2) that ex_run_next(2) by (simp add: ex_machine_def)
qed

lemma ex_run_wait:
  "ex_waiting (1 + int n) (fst se) \<Longrightarrow>
   sla_state (machine (fst (sla_run ex_sla_car raw (replicate (Suc n) (ex_sla_input 1)) se))) = SLA_active"
proof (induction n arbitrary: se)
  case 0
  then show ?case using ex_frame_next(2) [of 1 "fst se" raw "snd se"] by simp
next
  case (Suc n)
  from ex_frame_next(1) [OF Suc.prems, of raw "snd se"] have
    "ex_waiting (1 + int n) (fst (plannerd_frame ex_sla_car raw (ex_sla_input 1) se))" by simp
  from Suc.IH [OF this] show ?case by simp
qed

lemma ex_run_active:
  "sla_state (machine (fst (sla_run ex_sla_car raw (replicate 11 (ex_sla_input 1)) (sla_init ex_sla_car True False Mode_assist, ev)))) = SLA_active"
  using ex_run_wait [of 9 "plannerd_frame ex_sla_car raw (ex_sla_input 1) (sla_init ex_sla_car True False Mode_assist, ev)" raw]
    ex_frame_first [of raw ev] by (simp add: numeral_eq_Suc)

theorem assist_follows_agreed_limits_witness:
  "\<forall>raw. \<exists>j < 11. driver_agrees raw True (replicate 11 (ex_sla_input 1)) j \<and>
     (\<forall>k. j < k \<and> k < 11 \<longrightarrow> limit_kept True (replicate 11 (ex_sla_input 1)) k)"
proof
  fix raw
  show "\<exists>j < 11. driver_agrees raw True (replicate 11 (ex_sla_input 1)) j \<and>
     (\<forall>k. j < k \<and> k < 11 \<longrightarrow> limit_kept True (replicate 11 (ex_sla_input 1)) k)"
    using assist_follows_agreed_limits [OF _ _ ex_run_active [of raw "ev_init []"]]
    by (simp add: ex_sla_car_def ex_sla_input_def)
qed

theorem agreement_request_ends_witness:
  "\<exists>k \<le> 100. sla_state (machine (fst (sla_run ex_sla_car (\<lambda>_. 3) (replicate 5 (ex_sla_input 1) @ take k (replicate 100 (ex_sla_input 2)))
     (sla_init ex_sla_car True False Mode_assist, ev_init [])))) \<noteq> SLA_preActive"
  using agreement_request_ends [of "replicate 100 (ex_sla_input 2)" ex_sla_car "\<lambda>_. 3" "replicate 5 (ex_sla_input 1)"
      True False Mode_assist "ev_init []"]
  by (simp add: ex_sla_car_def del: take_replicate)

end
