(* ===== verification/ButtonManagement.thy ===== *)
theory ButtonManagement
  imports CarState
begin

text \<open>
  Intelligent cruise button management
  (\<^verbatim>\<open>sunnypilot/selfdrive/car/intelligent_cruise_button_management\<close>): on cars whose set speed
  openpilot cannot write, it presses the buttons of the stock cruise control until the set speed of
  the cluster is the target. The button timers are those of
  \<^verbatim>\<open>sunnypilot/selfdrive/car/cruise_ext.py\<close>, a dictionary over a fixed list of buttons. The
  hysteresis of the target, \<open>apply_hysteresis\<close>, belongs to the opendbc submodule and is the
  parameter \<open>hyst\<close>.
\<close>

section \<open>Button timers\<close>

type_synonym button_timers = "(button_type \<times> int) list"

definition CRUISE_BUTTON_TIMER :: button_timers where
  "CRUISE_BUTTON_TIMER = [(B_decelCruise, 0), (B_accelCruise, 0), (B_setCruise, 0), (B_resumeCruise, 0),
     (B_cancel, 0), (B_mainCruise, 0)]"

definition count_timers :: "button_timers \<Rightarrow> button_timers" where
  "count_timers = map (\<lambda>(k, n). (k, if n > 0 then n + 1 else n))"

definition set_timer :: "button_event \<Rightarrow> button_timers \<Rightarrow> button_timers" where
  \<comment> \<open>no effect on a button that is not a key\<close>
  "set_timer b = map (\<lambda>(k, n). (k, if k = be_type b then (if be_pressed b then 1 else 0) else n))"

definition update_manual_button_timers :: "button_event list \<Rightarrow> button_timers \<Rightarrow> button_timers" where
  "update_manual_button_timers bs ts = fold set_timer bs (count_timers ts)"

definition timer_running :: "button_timers \<Rightarrow> bool" where
  \<comment> \<open>\<open>any(timers[k] > 0 for k in timers)\<close>\<close>
  "timer_running ts = list_ex (\<lambda>(k, n). n > 0) ts"

definition get_minimum_set_speed :: "bool \<Rightarrow> int" where
  "get_minimum_set_speed is_metric = (if is_metric then 30 else 20)"

section \<open>The controller\<close>

datatype icbm_state = Icbm_inactive | Icbm_preActive | Icbm_increasing | Icbm_decreasing | Icbm_holding
datatype send_button = Send_none | Send_increase | Send_decrease

abbreviation (input) HYST_GAP :: real where "HYST_GAP \<equiv> 0"
abbreviation (input) INACTIVE_TIMER :: real where "INACTIVE_TIMER \<equiv> 4 / 10"

definition SEND_BUTTONS :: "icbm_state \<Rightarrow> send_button" where
  \<comment> \<open>\<open>SEND_BUTTONS.get(state, none)\<close>\<close>
  "SEND_BUTTONS st = (case st of Icbm_increasing \<Rightarrow> Send_increase | Icbm_decreasing \<Rightarrow> Send_decrease | _ \<Rightarrow> Send_none)"

record icbm =
  v_target :: int
  icbm_v_cruise_cluster :: int
  icbm_v_cruise_min :: int
  cruise_button :: send_button
  icbm_state :: icbm_state
  icbm_pre_active_timer :: int
  is_ready :: bool
  is_ready_prev :: bool
  v_target_ms_last :: real
  icbm_is_metric :: bool
  cruise_button_timers :: button_timers

definition icbm_init :: icbm where
  "icbm_init = \<lparr>v_target = 0, icbm_v_cruise_cluster = 0, icbm_v_cruise_min = 0, cruise_button = Send_none,
     icbm_state = Icbm_inactive, icbm_pre_active_timer = 0, is_ready = False, is_ready_prev = False,
     v_target_ms_last = 0, icbm_is_metric = False, cruise_button_timers = CRUISE_BUTTON_TIMER\<rparr>"

record icbm_control =
  \<comment> \<open>what it reads of \<open>carControl\<close>\<close>
  cc_enabled :: bool
  cc_override :: bool
  cc_cancel :: bool
  cc_resume :: bool

definition v_cruise_equal :: "icbm \<Rightarrow> bool" where
  "v_cruise_equal s \<longleftrightarrow> v_target s = icbm_v_cruise_cluster s"

definition icbm_update_calculations :: "(real \<Rightarrow> real \<Rightarrow> real \<Rightarrow> real) \<Rightarrow> real \<Rightarrow> real \<Rightarrow> icbm \<Rightarrow> icbm" where
  "icbm_update_calculations hyst speed_cluster vTarget s =
     (let conv = (if icbm_is_metric s then MS_TO_KPH else MS_TO_MPH);
          ms_conv = (if icbm_is_metric s then KPH_TO_MS else MPH_TO_MS);
          last = hyst vTarget (v_target_ms_last s) (HYST_GAP * ms_conv)
      in s\<lparr>v_target_ms_last := last, v_target := py_round (last * conv),
           icbm_v_cruise_min := get_minimum_set_speed (icbm_is_metric s),
           icbm_v_cruise_cluster := py_round (speed_cluster * conv)\<rparr>)"

definition icbm_update_state_machine :: "icbm \<Rightarrow> icbm \<times> send_button" where
  "icbm_update_state_machine s0 =
     (let s = s0\<lparr>icbm_pre_active_timer := max 0 (icbm_pre_active_timer s0 - 1)\<rparr>;
          s = (if icbm_state s \<noteq> Icbm_inactive then
                 if \<not> is_ready s then s\<lparr>icbm_state := Icbm_inactive\<rparr>
                 else (case icbm_state s of
                     Icbm_preActive \<Rightarrow>
                       if icbm_pre_active_timer s \<le> 0 then
                         if v_cruise_equal s then s\<lparr>icbm_state := Icbm_holding\<rparr>
                         else if v_target s > icbm_v_cruise_cluster s then s\<lparr>icbm_state := Icbm_increasing\<rparr>
                         else if v_target s < icbm_v_cruise_cluster s \<and> icbm_v_cruise_cluster s > icbm_v_cruise_min s
                         then s\<lparr>icbm_state := Icbm_decreasing\<rparr>
                         else s
                       else s
                   | Icbm_holding \<Rightarrow> if \<not> v_cruise_equal s then s\<lparr>icbm_state := Icbm_preActive\<rparr> else s
                   | Icbm_increasing \<Rightarrow>
                       if v_target s \<le> icbm_v_cruise_cluster s then s\<lparr>icbm_state := Icbm_holding\<rparr> else s
                   | Icbm_decreasing \<Rightarrow>
                       if v_target s \<ge> icbm_v_cruise_cluster s \<or> icbm_v_cruise_cluster s \<le> icbm_v_cruise_min s
                       then s\<lparr>icbm_state := Icbm_holding\<rparr> else s
                   | Icbm_inactive \<Rightarrow> s)
               else if is_ready s \<and> \<not> is_ready_prev s
               then s\<lparr>icbm_pre_active_timer := py_int (INACTIVE_TIMER / DT_CTRL), icbm_state := Icbm_preActive\<rparr>
               else s)
      in (s, SEND_BUTTONS (icbm_state s)))"

definition icbm_update_readiness :: "button_event list \<Rightarrow> icbm_control \<Rightarrow> icbm \<Rightarrow> icbm" where
  "icbm_update_readiness bs cc s =
     (let ts = update_manual_button_timers bs (cruise_button_timers s);
          ready = (cc_enabled cc \<and> \<not> cc_override cc \<and> \<not> cc_cancel cc \<and> \<not> cc_resume cc)
      in s\<lparr>cruise_button_timers := ts, is_ready := ready \<and> \<not> timer_running ts\<rparr>)"

record icbm_input =
  ic_events :: "button_event list"
  ic_speedCluster :: real
  ic_control :: icbm_control
  ic_vTarget :: real
  ic_is_metric :: bool

definition icbm_run :: "(real \<Rightarrow> real \<Rightarrow> real \<Rightarrow> real) \<Rightarrow> bool \<Rightarrow> icbm_input \<Rightarrow> icbm \<Rightarrow> icbm" where
  \<comment> \<open>the flag is \<open>CP_SP.pcmCruiseSpeed\<close>\<close>
  "icbm_run hyst pcmCruiseSpeed i s =
     (if pcmCruiseSpeed then s
      else let s = icbm_update_calculations hyst (ic_speedCluster i) (ic_vTarget i) (s\<lparr>icbm_is_metric := ic_is_metric i\<rparr>);
               s = icbm_update_readiness (ic_events i) (ic_control i) s;
               (s, button) = icbm_update_state_machine s
           in s\<lparr>cruise_button := button, is_ready_prev := is_ready s\<rparr>)"

section \<open>Runs of the controller\<close>

text \<open>
  The frames of a run are given, the driver's buttons and the speed of the cluster included: nothing
  is assumed of how the car answers a press.
\<close>

definition icbm_frames :: "(real \<Rightarrow> real \<Rightarrow> real \<Rightarrow> real) \<Rightarrow> bool \<Rightarrow> icbm_input list \<Rightarrow> icbm" where
  "icbm_frames hyst pcmCruiseSpeed is = fold (icbm_run hyst pcmCruiseSpeed) is icbm_init"

definition held :: "button_type \<Rightarrow> button_event list \<Rightarrow> bool" where
  \<comment> \<open>the last event of the button is a press\<close>
  "held b es = fold (\<lambda>e h. if be_type e = b then be_pressed e else h) es False"

definition hands_off :: "icbm_input list \<Rightarrow> bool" where
  "hands_off is \<longleftrightarrow>
     list_all (\<lambda>b. \<not> held b (concat (map ic_events is))) [B_decelCruise, B_accelCruise, B_setCruise, B_resumeCruise, B_cancel, B_mainCruise]"

definition allows :: "icbm_control \<Rightarrow> bool" where
  "allows cc \<longleftrightarrow> cc_enabled cc \<and> \<not> cc_override cc \<and> \<not> cc_cancel cc \<and> \<not> cc_resume cc"

fun ready_for :: "nat \<Rightarrow> icbm_input list \<Rightarrow> bool" where
  \<comment> \<open>in each of the last frames, given in reverse, the driver held no cruise button and the system was engaged, with no override, cancel or resume\<close>
  "ready_for 0 ri \<longleftrightarrow> True"
| "ready_for (Suc n) [] \<longleftrightarrow> False"
| "ready_for (Suc n) (i # ri) \<longleftrightarrow> allows (ic_control i) \<and> hands_off (rev (i # ri)) \<and> ready_for n ri"

lemma ready_for_less: "ready_for n ri \<Longrightarrow> m \<le> n \<Longrightarrow> ready_for m ri"
proof (induction n ri arbitrary: m rule: ready_for.induct)
  case (3 n i ri)
  then show ?case by (cases m) simp_all
qed simp_all

lemma icbm_frames_simps [simp]:
  "icbm_frames hyst pcm [] = icbm_init" "icbm_frames hyst pcm (is @ [i]) = icbm_run hyst pcm i (icbm_frames hyst pcm is)"
  by (simp_all add: icbm_frames_def)

subsection \<open>Timers\<close>

definition running :: "button_timers \<Rightarrow> (button_type \<times> bool) list" where
  "running = map (\<lambda>(k, n). (k, n > 0))"

lemma running_count: "running (count_timers ts) = running ts"
  by (induction ts) (auto simp: running_def count_timers_def split: if_splits)

lemma running_set: "running (set_timer e ts) = map (\<lambda>(k, h). (k, if be_type e = k then be_pressed e else h)) (running ts)"
  by (induction ts) (auto simp: running_def set_timer_def)

lemma running_events:
  "running (fold set_timer es ts) = map (\<lambda>(k, h). (k, fold (\<lambda>e h. if be_type e = k then be_pressed e else h) es h)) (running ts)"
proof (induction es arbitrary: ts)
  case Nil
  show ?case by (induction ts) (simp_all add: running_def split: prod.split)
next
  case (Cons e es)
  then show ?case by (simp add: running_set split_def)
qed

lemma running_frames:
  "running (fold (\<lambda>i. update_manual_button_timers (ic_events i)) is CRUISE_BUTTON_TIMER) =
     map (\<lambda>b. (b, held b (concat (map ic_events is)))) [B_decelCruise, B_accelCruise, B_setCruise, B_resumeCruise, B_cancel, B_mainCruise]"
proof (induction "is" rule: rev_induct)
  case Nil
  show ?case by (simp add: running_def CRUISE_BUTTON_TIMER_def held_def)
qed (simp add: update_manual_button_timers_def running_events running_count held_def)

lemma timer_running_held:
  "timer_running (fold (\<lambda>i. update_manual_button_timers (ic_events i)) is CRUISE_BUTTON_TIMER) \<longleftrightarrow> \<not> hands_off is"
proof -
  have "timer_running ts = list_ex snd (running ts)" for ts
    by (induction ts) (auto simp: timer_running_def running_def)
  then show ?thesis by (simp add: running_frames hands_off_def)
qed

subsection \<open>The machine of a frame\<close>

lemmas machine_defs = icbm_update_state_machine_def Let_def v_cruise_equal_def py_int_def

lemma machine_kept [simp]:
  "is_ready (fst (icbm_update_state_machine s)) = is_ready s"
  "cruise_button_timers (fst (icbm_update_state_machine s)) = cruise_button_timers s"
  "v_target (fst (icbm_update_state_machine s)) = v_target s"
  "icbm_v_cruise_cluster (fst (icbm_update_state_machine s)) = icbm_v_cruise_cluster s"
  "icbm_v_cruise_min (fst (icbm_update_state_machine s)) = icbm_v_cruise_min s"
  by (cases "icbm_state s"; simp add: machine_defs)+

lemma machine_button: "snd (icbm_update_state_machine s) = SEND_BUTTONS (icbm_state (fst (icbm_update_state_machine s)))"
  by (simp add: icbm_update_state_machine_def Let_def)

lemma machine_waits:
  assumes "icbm_state s \<noteq> Icbm_inactive"
  shows "icbm_pre_active_timer (fst (icbm_update_state_machine s)) = max 0 (icbm_pre_active_timer s - 1)"
  using assms by (cases "icbm_state s"; simp add: machine_defs)

lemma machine_starts:
  assumes "icbm_state s = Icbm_inactive" "\<not> is_ready_prev s"
  shows "is_ready s \<Longrightarrow> icbm_state (fst (icbm_update_state_machine s)) = Icbm_preActive"
    "is_ready s \<Longrightarrow> icbm_pre_active_timer (fst (icbm_update_state_machine s)) = 40"
    "\<not> is_ready s \<Longrightarrow> icbm_state (fst (icbm_update_state_machine s)) = Icbm_inactive"
  using assms by (simp_all add: machine_defs)

lemma machine_stops:
  "\<not> is_ready s \<Longrightarrow> icbm_state (fst (icbm_update_state_machine s)) = Icbm_inactive"
  by (simp add: machine_defs)

lemma machine_moves:
  assumes "is_ready s"
  shows "icbm_state s = Icbm_preActive \<Longrightarrow> icbm_state (fst (icbm_update_state_machine s)) =
      (if 1 < icbm_pre_active_timer s then Icbm_preActive
       else if v_target s = icbm_v_cruise_cluster s then Icbm_holding
       else if v_target s > icbm_v_cruise_cluster s then Icbm_increasing
       else if icbm_v_cruise_cluster s > icbm_v_cruise_min s then Icbm_decreasing else Icbm_preActive)"
    "icbm_state s = Icbm_holding \<Longrightarrow> icbm_state (fst (icbm_update_state_machine s)) =
      (if v_target s = icbm_v_cruise_cluster s then Icbm_holding else Icbm_preActive)"
    "icbm_state s = Icbm_increasing \<Longrightarrow> icbm_state (fst (icbm_update_state_machine s)) =
      (if v_target s \<le> icbm_v_cruise_cluster s then Icbm_holding else Icbm_increasing)"
    "icbm_state s = Icbm_decreasing \<Longrightarrow> icbm_state (fst (icbm_update_state_machine s)) =
      (if v_target s \<ge> icbm_v_cruise_cluster s \<or> icbm_v_cruise_cluster s \<le> icbm_v_cruise_min s
       then Icbm_holding else Icbm_decreasing)"
  using assms by (simp_all add: machine_defs)

lemma machine_stays: "is_ready s \<Longrightarrow> icbm_state s \<noteq> Icbm_inactive \<Longrightarrow> icbm_state (fst (icbm_update_state_machine s)) \<noteq> Icbm_inactive"
  using machine_moves [of s] by (cases "icbm_state s") simp_all

definition shown :: "icbm_input \<Rightarrow> real \<Rightarrow> int" where
  \<comment> \<open>a speed in m/s as the cluster shows it\<close>
  "shown i v = py_round (v * (if ic_is_metric i then MS_TO_KPH else MS_TO_MPH))"

definition press_due :: "icbm_input \<Rightarrow> int \<Rightarrow> send_button \<Rightarrow> bool" where
  \<comment> \<open>the button moves the shown set speed towards the target, and not below the least set speed\<close>
  "press_due i target b \<longleftrightarrow>
     (case b of
        Send_none \<Rightarrow> True
      | Send_increase \<Rightarrow> shown i (ic_speedCluster i) < target
      | Send_decrease \<Rightarrow> target < shown i (ic_speedCluster i) \<and> (if ic_is_metric i then 30 else 20) < shown i (ic_speedCluster i))"

definition seen_frame :: "(real \<Rightarrow> real \<Rightarrow> real \<Rightarrow> real) \<Rightarrow> icbm_input \<Rightarrow> icbm \<Rightarrow> icbm" where
  \<comment> \<open>what the machine sees of a frame\<close>
  "seen_frame hyst i s =
     icbm_update_readiness (ic_events i) (ic_control i)
       (icbm_update_calculations hyst (ic_speedCluster i) (ic_vTarget i) (s\<lparr>icbm_is_metric := ic_is_metric i\<rparr>))"

lemma icbm_run_machine:
  "icbm_run hyst False i s =
     (let m = fst (icbm_update_state_machine (seen_frame hyst i s))
      in m\<lparr>cruise_button := SEND_BUTTONS (icbm_state m), is_ready_prev := is_ready m\<rparr>)"
  unfolding icbm_run_def seen_frame_def Let_def by (simp only: if_False machine_button split_def fst_conv snd_conv)

lemma seen_frame_simps [simp]:
  "icbm_state (seen_frame hyst i s) = icbm_state s" "is_ready_prev (seen_frame hyst i s) = is_ready_prev s"
  "icbm_pre_active_timer (seen_frame hyst i s) = icbm_pre_active_timer s"
  "cruise_button_timers (seen_frame hyst i s) = update_manual_button_timers (ic_events i) (cruise_button_timers s)"
  "is_ready (seen_frame hyst i s) \<longleftrightarrow> allows (ic_control i) \<and> \<not> timer_running (update_manual_button_timers (ic_events i) (cruise_button_timers s))"
  "icbm_v_cruise_cluster (seen_frame hyst i s) = shown i (ic_speedCluster i)"
  "icbm_v_cruise_min (seen_frame hyst i s) = (if ic_is_metric i then 30 else 20)"
  by (simp_all add: seen_frame_def icbm_update_readiness_def icbm_update_calculations_def allows_def shown_def get_minimum_set_speed_def Let_def)

lemma frames_timers: "cruise_button_timers (icbm_frames hyst False is) = fold (\<lambda>i. update_manual_button_timers (ic_events i)) is CRUISE_BUTTON_TIMER"
proof (induction "is" rule: rev_induct)
  case (snoc i "is")
  then show ?case by (simp add: icbm_run_machine Let_def)
qed (simp add: icbm_init_def)

lemma frame_ready:
  "is_ready (seen_frame hyst i (icbm_frames hyst False is)) \<longleftrightarrow> ready_for 1 (i # rev is)"
proof -
  have "update_manual_button_timers (ic_events i) (cruise_button_timers (icbm_frames hyst False is)) =
      fold (\<lambda>i. update_manual_button_timers (ic_events i)) (is @ [i]) CRUISE_BUTTON_TIMER"
    by (simp add: frames_timers)
  then have "timer_running (update_manual_button_timers (ic_events i) (cruise_button_timers (icbm_frames hyst False is))) \<longleftrightarrow> \<not> hands_off (is @ [i])"
    by (simp only: timer_running_held)
  then show ?thesis by simp
qed

subsection \<open>What holds in every run\<close>

definition icbm_inv :: "icbm_input list \<Rightarrow> icbm \<Rightarrow> bool" where
  \<comment> \<open>an active controller has been ready for as many frames as its timer has counted\<close>
  "icbm_inv is s \<longleftrightarrow>
     0 \<le> icbm_pre_active_timer s \<and> icbm_pre_active_timer s \<le> 40 \<and>
     (is_ready_prev s \<longleftrightarrow> icbm_state s \<noteq> Icbm_inactive) \<and> (is_ready_prev s \<longleftrightarrow> ready_for 1 (rev is)) \<and>
     (icbm_state s \<noteq> Icbm_inactive \<longrightarrow> ready_for (41 - nat (icbm_pre_active_timer s)) (rev is)) \<and>
     (icbm_state s \<in> {Icbm_holding, Icbm_increasing, Icbm_decreasing} \<longrightarrow> icbm_pre_active_timer s = 0)"

lemma icbm_invD:
  assumes "icbm_inv is s"
  shows "0 \<le> icbm_pre_active_timer s" "icbm_pre_active_timer s \<le> 40" "is_ready_prev s \<longleftrightarrow> icbm_state s \<noteq> Icbm_inactive"
    "icbm_state s \<noteq> Icbm_inactive \<longleftrightarrow> ready_for 1 (rev is)"
    "icbm_state s \<noteq> Icbm_inactive \<Longrightarrow> ready_for (41 - nat (icbm_pre_active_timer s)) (rev is)"
    "icbm_state s \<in> {Icbm_holding, Icbm_increasing, Icbm_decreasing} \<Longrightarrow> icbm_pre_active_timer s = 0"
  using assms unfolding icbm_inv_def by blast+

lemma machine_timer_bounds:
  "0 \<le> icbm_pre_active_timer s \<Longrightarrow> icbm_pre_active_timer s \<le> 40 \<Longrightarrow>
     0 \<le> icbm_pre_active_timer (fst (icbm_update_state_machine s)) \<and> icbm_pre_active_timer (fst (icbm_update_state_machine s)) \<le> 40"
  by (cases "icbm_state s"; simp add: machine_defs)

lemma machine_timer_done:
  assumes "is_ready s" "icbm_state s \<noteq> Icbm_inactive"
    "icbm_state s \<in> {Icbm_holding, Icbm_increasing, Icbm_decreasing} \<longrightarrow> icbm_pre_active_timer s = 0"
    "icbm_state (fst (icbm_update_state_machine s)) \<in> {Icbm_holding, Icbm_increasing, Icbm_decreasing}"
  shows "icbm_pre_active_timer (fst (icbm_update_state_machine s)) = 0"
  using assms machine_moves [OF assms(1)] machine_waits [OF assms(2)] by (cases "icbm_state s") (auto split: if_splits)

lemma icbm_inv_frame:
  assumes "icbm_inv is (icbm_frames hyst False is)"
  shows "icbm_inv (is @ [i]) (icbm_frames hyst False (is @ [i]))"
proof -
  define s where "s = seen_frame hyst i (icbm_frames hyst False is)"
  define m where "m = fst (icbm_update_state_machine s)"
  have inv: "0 \<le> icbm_pre_active_timer s" "icbm_pre_active_timer s \<le> 40" "is_ready_prev s \<longleftrightarrow> icbm_state s \<noteq> Icbm_inactive"
    "icbm_state s \<noteq> Icbm_inactive \<Longrightarrow> ready_for (41 - nat (icbm_pre_active_timer s)) (rev is)"
    "icbm_state s \<in> {Icbm_holding, Icbm_increasing, Icbm_decreasing} \<longrightarrow> icbm_pre_active_timer s = 0"
    unfolding s_def seen_frame_simps using icbm_invD [OF assms] by blast+
  have r: "is_ready s \<longleftrightarrow> ready_for 1 (i # rev is)" unfolding s_def by (rule frame_ready)
  have frame: "icbm_frames hyst False (is @ [i]) = m\<lparr>cruise_button := SEND_BUTTONS (icbm_state m), is_ready_prev := is_ready m\<rparr>"
    by (simp add: icbm_run_machine m_def s_def Let_def)
  have m: "is_ready m = is_ready s" by (simp add: m_def)
  have b: "0 \<le> icbm_pre_active_timer m" "icbm_pre_active_timer m \<le> 40"
    using machine_timer_bounds [OF inv(1,2)] by (simp_all add: m_def)
  have "(is_ready s \<longleftrightarrow> icbm_state m \<noteq> Icbm_inactive) \<and>
      (icbm_state m \<noteq> Icbm_inactive \<longrightarrow> ready_for (41 - nat (icbm_pre_active_timer m)) (i # rev is)) \<and>
      (icbm_state m \<in> {Icbm_holding, Icbm_increasing, Icbm_decreasing} \<longrightarrow> icbm_pre_active_timer m = 0)"
  proof (cases "is_ready s")
    case False
    then show ?thesis using machine_stops [of s] by (simp add: m_def)
  next
    case ready: True
    show ?thesis
    proof (cases "icbm_state s = Icbm_inactive")
      case True
      then have "icbm_state m = Icbm_preActive" "icbm_pre_active_timer m = 40"
        using machine_starts [of s] inv(3) ready by (simp_all add: m_def)
      then show ?thesis using ready r by simp
    next
      case False
      have t: "icbm_pre_active_timer m = max 0 (icbm_pre_active_timer s - 1)" using machine_waits [OF False] by (simp add: m_def)
      have "ready_for (Suc (41 - nat (icbm_pre_active_timer s))) (i # rev is)"
        using inv(4) [OF False] r ready by simp
      then have "ready_for (41 - nat (icbm_pre_active_timer m)) (i # rev is)"
        by (rule ready_for_less) (use t inv(1,2) in linarith)
      then show ?thesis using machine_stays [OF ready False] machine_timer_done [OF ready False inv(5)] ready by (simp add: m_def)
    qed
  qed
  then show ?thesis using b m r unfolding icbm_inv_def frame by (simp del: ready_for.simps)
qed

lemma icbm_inv_frames: "icbm_inv is (icbm_frames hyst False is)"
proof (induction "is" rule: rev_induct)
  case Nil
  show ?case by (simp add: icbm_inv_def icbm_init_def)
qed (rule icbm_inv_frame)

lemma frame_machine:
  fixes hyst fs i
  defines "s \<equiv> seen_frame hyst i (icbm_frames hyst False fs)"
  shows "cruise_button (icbm_frames hyst False (fs @ [i])) = SEND_BUTTONS (icbm_state (fst (icbm_update_state_machine s)))"
    "icbm_state (icbm_frames hyst False (fs @ [i])) = icbm_state (fst (icbm_update_state_machine s))"
    "v_target (icbm_frames hyst False (fs @ [i])) = v_target s"
    "icbm_v_cruise_cluster s = shown i (ic_speedCluster i)" "icbm_v_cruise_min s = (if ic_is_metric i then 30 else 20)"
    "icbm_state s = icbm_state (icbm_frames hyst False fs)" "icbm_pre_active_timer s = icbm_pre_active_timer (icbm_frames hyst False fs)"
  by (simp_all add: icbm_run_machine s_def Let_def)

lemma pcm_never_presses: "icbm_frames hyst True is = icbm_init"
  by (induction "is" rule: rev_induct) (simp_all add: icbm_run_def)

lemma press_due_frame:
  "cruise_button (icbm_frames hyst False (is @ [i])) = Send_none \<or>
     ready_for 41 (i # rev is) \<and> press_due i (v_target (icbm_frames hyst False (is @ [i]))) (cruise_button (icbm_frames hyst False (is @ [i])))"
proof -
  define s where "s = seen_frame hyst i (icbm_frames hyst False is)"
  note f = frame_machine [where hyst = hyst and fs = "is" and i = i, folded s_def]
  have inv: "icbm_inv (is @ [i]) (icbm_frames hyst False (is @ [i]))" by (rule icbm_inv_frames)
  consider (ready) "is_ready s" "icbm_state s \<noteq> Icbm_inactive" | (none) "icbm_state (fst (icbm_update_state_machine s)) \<in> {Icbm_inactive, Icbm_preActive}"
    using machine_stops [of s] machine_starts(1,3) [of s] icbm_inv_frames [of "is" hyst] by (auto simp: icbm_inv_def s_def)
  then show ?thesis
  proof cases
    case ready
    show ?thesis
    proof (cases "icbm_state (fst (icbm_update_state_machine s)) \<in> {Icbm_increasing, Icbm_decreasing}")
      case True
      then have "icbm_state (icbm_frames hyst False (is @ [i])) \<in> {Icbm_increasing, Icbm_decreasing}" by (simp only: f(2))
      then have "ready_for 41 (i # rev is)" using icbm_invD(5,6) [OF inv] by (auto simp del: icbm_frames_simps ready_for.simps)
      moreover have "press_due i (v_target s) (SEND_BUTTONS (icbm_state (fst (icbm_update_state_machine s))))"
        using machine_moves [OF ready(1)] ready(2) f(4,5)
        by (cases "icbm_state s") (auto simp: press_due_def SEND_BUTTONS_def)
      ultimately show ?thesis unfolding f(1,3) by blast
    next
      case False
      then have "SEND_BUTTONS (icbm_state (fst (icbm_update_state_machine s))) = Send_none"
        by (simp add: SEND_BUTTONS_def split: icbm_state.split)
      then show ?thesis unfolding f(1) by blast
    qed
  next
    case none
    then have "SEND_BUTTONS (icbm_state (fst (icbm_update_state_machine s))) = Send_none" by (auto simp: SEND_BUTTONS_def)
    then show ?thesis unfolding f(1) by blast
  qed
qed

text \<open>
  C36. A button of stock cruise is pressed only when it is due: whatever the frames of a run are, if one
  is sent in a frame, then in this and each of the 40 frames before it (0.4 s) the driver held no
  cruise button and the system was engaged with no override, cancel or resume; and the set speed the
  cluster shows is below the rounded target if the button is the increase one, and above both the target and the least
  set speed (30 km/h or 20 mph) if it is the decrease one. The hysteresis of opendbc is arbitrary here.
\<close>
theorem presses_are_due:
  "cruise_button (icbm_frames hyst pcmCruiseSpeed (is @ [i])) = Send_none \<or>
   ready_for 41 (i # rev is) \<and>
   press_due i (v_target (icbm_frames hyst pcmCruiseSpeed (is @ [i]))) (cruise_button (icbm_frames hyst pcmCruiseSpeed (is @ [i])))"
proof (cases pcmCruiseSpeed)
  case True
  then show ?thesis by (simp only: pcm_never_presses) (simp add: icbm_init_def)
next
  case False
  then show ?thesis using press_due_frame [of hyst "is" i] by simp
qed

lemma ready_for_counts:
  "ready_for n (rev is) \<Longrightarrow> 0 < n \<Longrightarrow> icbm_pre_active_timer (icbm_frames hyst False is) \<le> max 0 (41 - int n)"
proof (induction n arbitrary: "is")
  case (Suc n)
  then obtain js i where js: "is = js @ [i]" by (cases "is" rule: rev_cases) auto
  define s where "s = seen_frame hyst i (icbm_frames hyst False js)"
  have r: "is_ready s" unfolding s_def frame_ready using Suc.prems(1) by (simp add: js)
  have frame: "icbm_pre_active_timer (icbm_frames hyst False is) = icbm_pre_active_timer (fst (icbm_update_state_machine s))"
    by (simp add: js icbm_run_machine Let_def s_def)
  have inv: "icbm_inv js (icbm_frames hyst False js)" by (rule icbm_inv_frames)
  show ?case
  proof (cases n)
    case 0
    then show ?thesis using icbm_invD(2) [OF icbm_inv_frames [of "is" hyst]] by simp
  next
    case (Suc k)
    have "ready_for n (rev js)" using Suc.prems(1) by (simp add: js)
    then have "ready_for 1 (rev js)" by (rule ready_for_less) (simp add: Suc)
    then have a: "icbm_state s \<noteq> Icbm_inactive" unfolding s_def seen_frame_simps using icbm_invD(4) [OF inv] by blast
    have "icbm_pre_active_timer (icbm_frames hyst False js) \<le> max 0 (41 - int n)"
      using Suc.IH [OF \<open>ready_for n (rev js)\<close>] Suc by simp
    then show ?thesis unfolding frame machine_waits [OF a] by (simp add: s_def)
  qed
qed simp

lemma ready_settled:
  assumes "ready_for 41 (i # rev is)"
  shows "is_ready (seen_frame hyst i (icbm_frames hyst False is))" "icbm_state (icbm_frames hyst False is) \<noteq> Icbm_inactive"
    "icbm_pre_active_timer (icbm_frames hyst False is) \<le> 1"
proof -
  have r: "ready_for 40 (rev is)" "ready_for 1 (i # rev is)" using assms by (simp_all add: numeral_eq_Suc)
  show "is_ready (seen_frame hyst i (icbm_frames hyst False is))" using r(2) by (simp only: frame_ready)
  have "ready_for 1 (rev is)" using r(1) by (rule ready_for_less) simp
  then show "icbm_state (icbm_frames hyst False is) \<noteq> Icbm_inactive" using icbm_invD(4) [OF icbm_inv_frames] by blast
  show "icbm_pre_active_timer (icbm_frames hyst False is) \<le> 1" using ready_for_counts [OF r(1), of hyst] by simp
qed

definition shown_below :: "(real \<Rightarrow> real \<Rightarrow> real \<Rightarrow> real) \<Rightarrow> icbm_input list \<Rightarrow> bool" where
  \<comment> \<open>in the last frame the shown set speed is below the target\<close>
  "shown_below hyst is \<longleftrightarrow> shown (last is) (ic_speedCluster (last is)) < v_target (icbm_frames hyst False is)"

definition shown_above :: "(real \<Rightarrow> real \<Rightarrow> real \<Rightarrow> real) \<Rightarrow> icbm_input list \<Rightarrow> bool" where
  \<comment> \<open>in the last frame the shown set speed is above the target and the least set speed\<close>
  "shown_above hyst is \<longleftrightarrow>
     v_target (icbm_frames hyst False is) < shown (last is) (ic_speedCluster (last is)) \<and>
     (if ic_is_metric (last is) then 30 else 20) < shown (last is) (ic_speedCluster (last is))"

definition next_state :: "bool \<Rightarrow> icbm_state \<Rightarrow> icbm_state" where
  \<comment> \<open>the state after a frame in which the set speed shown is too low (or too high)\<close>
  "next_state low st =
     (case st of
        Icbm_holding \<Rightarrow> Icbm_preActive
      | Icbm_increasing \<Rightarrow> if low then Icbm_increasing else Icbm_holding
      | Icbm_decreasing \<Rightarrow> if low then Icbm_holding else Icbm_decreasing
      | _ \<Rightarrow> if low then Icbm_increasing else Icbm_decreasing)"

lemma settled_state:
  assumes "ready_for 41 (i # rev is)" "if low then shown_below hyst (is @ [i]) else shown_above hyst (is @ [i])"
  shows "icbm_state (icbm_frames hyst False (is @ [i])) = next_state low (icbm_state (icbm_frames hyst False is))"
proof -
  define s where "s = seen_frame hyst i (icbm_frames hyst False is)"
  note f = frame_machine [where hyst = hyst and fs = "is" and i = i, folded s_def]
  have t: "icbm_v_cruise_cluster s < v_target s \<and> low \<or> v_target s < icbm_v_cruise_cluster s \<and> icbm_v_cruise_min s < icbm_v_cruise_cluster s \<and> \<not> low"
    using assms(2) unfolding shown_below_def shown_above_def last_snoc f(3,4,5) by (cases low) simp_all
  note a = ready_settled [OF assms(1), of hyst, folded s_def]
  show ?thesis
    using machine_moves [OF a(1)] a(2,3) t unfolding f(2) f(6) [symmetric] f(7) [symmetric]
    by (cases "icbm_state s") (auto simp: next_state_def)
qed

text \<open>
  C37. The presses that are due come, within three frames: on a car whose set speed openpilot cannot write, when in
  each of the last 43 frames the driver held no cruise button and the system was engaged with no
  override, cancel or resume, and in the last three of them the set speed shown was below the
  target, the increase button is sent; and if it was above the target and the least set speed in the last
  three of them, the decrease button is sent. The hysteresis of opendbc is arbitrary here.
\<close>
theorem presses_come:
  assumes "ready_for 43 (i # j # k # rev is)"
  shows "(shown_below hyst (is @ [k]) \<and> shown_below hyst (is @ [k, j]) \<and> shown_below hyst (is @ [k, j, i]) \<longrightarrow>
      cruise_button (icbm_frames hyst False (is @ [k, j, i])) = Send_increase) \<and>
    (shown_above hyst (is @ [k]) \<and> shown_above hyst (is @ [k, j]) \<and> shown_above hyst (is @ [k, j, i]) \<longrightarrow>
      cruise_button (icbm_frames hyst False (is @ [k, j, i])) = Send_decrease)"
proof -
  have r: "ready_for 41 (k # rev is)" "ready_for 41 (j # rev (is @ [k]))" "ready_for 41 (i # rev (is @ [k, j]))"
    using assms ready_for_less [of 42 "j # k # rev is" 41] ready_for_less [of 43 "i # j # k # rev is" 41]
    by (simp_all add: numeral_eq_Suc)
  have press: "cruise_button (icbm_frames hyst False (is @ [k, j, i])) = (if low then Send_increase else Send_decrease)"
    if w: "if low then shown_below hyst (is @ [k]) else shown_above hyst (is @ [k])"
      "if low then shown_below hyst (is @ [k, j]) else shown_above hyst (is @ [k, j])"
      "if low then shown_below hyst (is @ [k, j, i]) else shown_above hyst (is @ [k, j, i])" for low
  proof -
    let ?st = "icbm_state (icbm_frames hyst False is)"
    have "icbm_state (icbm_frames hyst False (is @ [k, j, i])) = next_state low (next_state low (next_state low ?st))"
      using settled_state [OF r(1), of low hyst] settled_state [OF r(2), of low hyst] settled_state [OF r(3), of low hyst] w
      by (simp del: icbm_frames_simps)
    moreover have "next_state low (next_state low (next_state low st)) = (if low then Icbm_increasing else Icbm_decreasing)" for st
      by (cases st) (simp_all add: next_state_def)
    moreover have "cruise_button (icbm_frames hyst False (is @ [k, j, i])) = SEND_BUTTONS (icbm_state (icbm_frames hyst False (is @ [k, j, i])))"
      using frame_machine(1,2) [where hyst = hyst and fs = "is @ [k, j]" and i = i] by simp
    ultimately show ?thesis by (simp add: SEND_BUTTONS_def)
  qed
  show ?thesis using press [of True] press [of False] by simp
qed

definition icbm_example :: icbm_input where
  \<comment> \<open>engaged at 72 km/h, with 90 km/h wanted\<close>
  "icbm_example = \<lparr>ic_events = [], ic_speedCluster = 20, ic_control = \<lparr>cc_enabled = True, cc_override = False, cc_cancel = False, cc_resume = False\<rparr>,
     ic_vTarget = 25, ic_is_metric = True\<rparr>"

lemma example_ready: "ready_for n (replicate n icbm_example)"
proof (induction n)
  case (Suc n)
  have "concat (map ic_events (replicate n icbm_example @ [icbm_example])) = []" by (simp add: icbm_example_def)
  then have "hands_off (rev (icbm_example # replicate n icbm_example))" unfolding hands_off_def held_def by simp
  then show ?case using Suc by (simp add: allows_def icbm_example_def del: rev.simps)
qed simp

lemma example_below: "shown_below (\<lambda>v _ _. v) (is @ [icbm_example])"
  by (simp add: shown_below_def icbm_run_machine Let_def seen_frame_def icbm_update_readiness_def icbm_update_calculations_def
      shown_def icbm_example_def py_round_def)

theorem presses_come_witness:
  "cruise_button (icbm_frames (\<lambda>v _ _. v) False (replicate 43 icbm_example)) = Send_increase"
proof -
  have "replicate 43 icbm_example = replicate 40 icbm_example @ [icbm_example, icbm_example, icbm_example]"
    "replicate 43 icbm_example = icbm_example # icbm_example # icbm_example # rev (replicate 40 icbm_example)"
    by (simp_all add: numeral_eq_Suc)
  with presses_come [of icbm_example icbm_example icbm_example "replicate 40 icbm_example" "\<lambda>v _ _. v"] example_ready [of 43]
    example_below [of "replicate 40 icbm_example"] example_below [of "replicate 40 icbm_example @ [icbm_example]"]
    example_below [of "replicate 40 icbm_example @ [icbm_example, icbm_example]"]
  show ?thesis by (simp del: replicate.simps)
qed

end
