(* ===== verification/Cruise.thy ===== *)
theory Cruise
  imports ButtonManagement SpeedLimitAssist
begin

text \<open>
  The set speed, \<^verbatim>\<open>selfdrive/car/cruise.py\<close> with its extension
  \<^verbatim>\<open>sunnypilot/selfdrive/car/cruise_ext.py\<close> and the use \<^verbatim>\<open>selfdrive/car/card.py\<close> makes of
  it in every frame, and the distance button of \<^verbatim>\<open>cruise_helpers.py\<close>. Speeds are in km/h. The
  two dictionaries over the accelerate and decelerate buttons keep the order of the source; the
  per-button states are functions, read only at these two buttons.
\<close>

abbreviation (input) V_CRUISE_MIN :: int where "V_CRUISE_MIN \<equiv> 8"
abbreviation (input) V_CRUISE_MAX :: real where "V_CRUISE_MAX \<equiv> 145"
abbreviation (input) V_CRUISE_UNSET :: real where "V_CRUISE_UNSET \<equiv> 255"
abbreviation (input) V_CRUISE_INITIAL :: real where "V_CRUISE_INITIAL \<equiv> 40"
abbreviation (input) V_CRUISE_INITIAL_EXPERIMENTAL_MODE :: real where "V_CRUISE_INITIAL_EXPERIMENTAL_MODE \<equiv> 105"
abbreviation (input) IMPERIAL_INCREMENT :: real where "IMPERIAL_INCREMENT \<equiv> 16 / 10"
abbreviation (input) CRUISE_LONG_PRESS :: int where "CRUISE_LONG_PRESS \<equiv> 50"

definition CRUISE_NEAREST_FUNC :: "button_type \<Rightarrow> real \<Rightarrow> int" where
  "CRUISE_NEAREST_FUNC b x = (if b = B_accelCruise then \<lceil>x\<rceil> else \<lfloor>x\<rfloor>)"

definition CRUISE_INTERVAL_SIGN :: "button_type \<Rightarrow> real" where
  "CRUISE_INTERVAL_SIGN b = (if b = B_accelCruise then 1 else -1)"

definition py_fmod :: "real \<Rightarrow> real \<Rightarrow> real" where
  \<comment> \<open>\<open>x % d\<close>\<close>
  "py_fmod x d = x - d * of_int \<lfloor>x / d\<rfloor>"

section \<open>State\<close>

record v_cruise_sla =
  \<comment> \<open>what the helper knows of speed limit assist\<close>
  vc_sla_state :: assist_state
  vc_prev_sla_state :: assist_state
  vc_has_speed_limit :: bool
  vc_speed_limit_final_last :: real
  speed_limit_final_last_kph :: real
  prev_speed_limit_final_last_kph :: real
  req_plus :: bool
  req_minus :: bool

record v_cruise =
  v_cruise_kph :: real
  v_cruise_cluster_kph :: real
  v_cruise_kph_last :: real
  v_button_timers :: button_timers
  change_standstill :: "button_type \<Rightarrow> bool"
  change_enabled :: "button_type \<Rightarrow> bool"
  v_cruise_min :: int
  enabled_prev :: bool
  custom_acc_enabled :: bool
  short_increment :: int
  long_increment :: int
  enable_button_timers :: button_timers
  vsla :: v_cruise_sla

definition v_cruise_init :: "bool \<Rightarrow> int \<Rightarrow> int \<Rightarrow> v_cruise" where
  \<comment> \<open>with the parameters of the custom increments\<close>
  "v_cruise_init custom short long =
     \<lparr>v_cruise_kph = V_CRUISE_UNSET, v_cruise_cluster_kph = V_CRUISE_UNSET, v_cruise_kph_last = 0,
      v_button_timers = [(B_decelCruise, 0), (B_accelCruise, 0)], change_standstill = (\<lambda>_. False),
      change_enabled = (\<lambda>_. False), v_cruise_min = 0, enabled_prev = False, custom_acc_enabled = custom,
      short_increment = short, long_increment = long, enable_button_timers = CRUISE_BUTTON_TIMER,
      vsla = \<lparr>vc_sla_state = SLA_disabled, vc_prev_sla_state = SLA_disabled, vc_has_speed_limit = False,
        vc_speed_limit_final_last = 0, speed_limit_final_last_kph = 0, prev_speed_limit_final_last_kph = 0,
        req_plus = False, req_minus = False\<rparr>\<rparr>"

definition read_custom_set_speed_params :: "bool \<Rightarrow> int \<Rightarrow> int \<Rightarrow> v_cruise \<Rightarrow> v_cruise" where
  "read_custom_set_speed_params custom short long s =
     s\<lparr>custom_acc_enabled := custom, short_increment := short, long_increment := long\<rparr>"

definition v_cruise_initialized :: "v_cruise \<Rightarrow> bool" where
  "v_cruise_initialized s \<longleftrightarrow> v_cruise_kph s \<noteq> V_CRUISE_UNSET"

section \<open>The extension\<close>

definition update_v_cruise_delta :: "v_cruise \<Rightarrow> bool \<Rightarrow> real \<Rightarrow> bool \<times> real" where
  "update_v_cruise_delta s long_press delta =
     (if \<not> custom_acc_enabled s then (long_press, delta * (if long_press then 5 else 1))
      else let short = np_clip (short_increment s) 1 10; long = np_clip (long_increment s) 1 10;
               actual = (if long_press then long else short)
           in (actual = 5 \<or> actual = 10, delta * of_int actual))"

definition vc_get_minimum_set_speed :: "sla_car \<Rightarrow> bool \<Rightarrow> v_cruise \<Rightarrow> v_cruise" where
  "vc_get_minimum_set_speed cp is_metric s =
     (if sla_pcmCruiseSpeed cp then s\<lparr>v_cruise_min := V_CRUISE_MIN\<rparr>
      else s\<lparr>v_cruise_min := get_minimum_set_speed is_metric\<rparr>)"

definition update_enabled_state :: "sla_car \<Rightarrow> button_event list \<Rightarrow> bool \<Rightarrow> v_cruise \<Rightarrow> bool \<times> v_cruise" where
  "update_enabled_state cp bs enabled s =
     (if \<not> sla_pcmCruiseSpeed cp then
        let s = s\<lparr>enable_button_timers := update_manual_button_timers bs (enable_button_timers s)\<rparr>;
            button_pressed = timer_running (enable_button_timers s);
            (enabled, s) = (if enabled \<and> \<not> enabled_prev s then (False, s\<lparr>enabled_prev := \<not> button_pressed\<rparr>)
                            else if \<not> enabled then (enabled, s\<lparr>enabled_prev := enabled\<rparr>)
                            else (enabled, s))
        in (enabled \<and> enabled_prev s, s)
      else (enabled, s))"

definition update_speed_limit_assist :: "bool \<Rightarrow> bool \<Rightarrow> bool \<Rightarrow> real \<Rightarrow> assist_state \<Rightarrow> v_cruise \<Rightarrow> v_cruise" where
  \<comment> \<open>with the resolver's validity flags and last limit and the state of the assist\<close>
  "update_speed_limit_assist is_metric valid last_valid final_last st s =
     (let (plus, minus) = compare_cluster_target (v_cruise_cluster_kph s * KPH_TO_MS) final_last is_metric
      in s\<lparr>vsla := (vsla s)\<lparr>vc_has_speed_limit := valid \<or> last_valid, vc_speed_limit_final_last := final_last,
             speed_limit_final_last_kph := final_last * MS_TO_KPH, vc_sla_state := st,
             req_plus := plus, req_minus := minus\<rparr>\<rparr>)"

definition update_speed_limit_final_last_changed :: "v_cruise_sla \<Rightarrow> bool" where
  "update_speed_limit_final_last_changed a \<longleftrightarrow>
     vc_has_speed_limit a \<and> speed_limit_final_last_kph a \<noteq> prev_speed_limit_final_last_kph a"

definition update_speed_limit_assist_pre_active_confirmed :: "v_cruise_sla \<Rightarrow> button_type \<Rightarrow> bool" where
  "update_speed_limit_assist_pre_active_confirmed a b =
     (if vc_sla_state a = SLA_preActive \<or> vc_prev_sla_state a = SLA_preActive then
        if b = B_decelCruise \<and> req_minus a then True
        else if b = B_accelCruise \<and> req_plus a then True
        else False
      else False)"

definition update_speed_limit_assist_v_cruise_non_pcm :: "v_cruise \<Rightarrow> v_cruise" where
  "update_speed_limit_assist_v_cruise_non_pcm s =
     (let a = vsla s;
          s = (if vc_sla_state a \<in> set SLA_ACTIVE_STATES \<and>
                  (vc_prev_sla_state a \<notin> set SLA_ACTIVE_STATES \<or> update_speed_limit_final_last_changed a)
               then s\<lparr>v_cruise_kph := np_clip (py_round1 (speed_limit_final_last_kph a)) (of_int (v_cruise_min s)) V_CRUISE_MAX\<rparr>
               else s)
      in s\<lparr>vsla := a\<lparr>vc_prev_sla_state := vc_sla_state a,
             prev_speed_limit_final_last_kph := speed_limit_final_last_kph a\<rparr>\<rparr>)"

section \<open>The buttons\<close>

definition pick_button :: "button_event list \<Rightarrow> button_timers \<Rightarrow> (button_type \<times> bool) option" where
  \<comment> \<open>the button to act on and whether its press is long; the first release decides\<close>
  "pick_button bs ts =
     (case List.find (\<lambda>b. map_of ts (be_type b) \<noteq> None \<and> \<not> be_pressed b) bs of
        Some b \<Rightarrow> if the (map_of ts (be_type b)) > CRUISE_LONG_PRESS then None else Some (be_type b, False)
      | None \<Rightarrow>
          map_option (\<lambda>(k, _). (k, True)) (List.find (\<lambda>(_, n). n \<noteq> 0 \<and> n mod CRUISE_LONG_PRESS = 0) ts))"

definition press_speed :: "car_state \<Rightarrow> bool \<Rightarrow> button_type \<Rightarrow> bool \<Rightarrow> v_cruise \<Rightarrow> v_cruise" where
  \<comment> \<open>the change of the speed by an accepted press\<close>
  "press_speed cs is_metric b long_press s =
     (let (nearest, delta) = update_v_cruise_delta s long_press (if is_metric then 1 else IMPERIAL_INCREMENT);
          v = (if nearest \<and> py_fmod (v_cruise_kph s) delta \<noteq> 0
               then of_int (CRUISE_NEAREST_FUNC b (v_cruise_kph s / delta)) * delta
               else v_cruise_kph s + delta * CRUISE_INTERVAL_SIGN b);
          v = (if gasPressed cs \<and> b \<in> {B_decelCruise, B_setCruise} then max v (vEgo cs * MS_TO_KPH) else v)
      in s\<lparr>v_cruise_kph := np_clip (py_round1 v) (of_int (v_cruise_min s)) V_CRUISE_MAX\<rparr>)"

definition update_v_cruise_non_pcm :: "car_state \<Rightarrow> bool \<Rightarrow> bool \<Rightarrow> v_cruise \<Rightarrow> v_cruise" where
  "update_v_cruise_non_pcm cs enabled is_metric s =
     (if \<not> enabled then s
      else case pick_button (buttonEvents cs) (v_button_timers s) of
          None \<Rightarrow> s
        | Some (b, long_press) \<Rightarrow>
            if b = B_accelCruise \<and> (change_standstill s b \<or> cruise_standstill (cruiseState cs)) then s
            else if \<not> change_enabled s b then s
            else if update_speed_limit_assist_pre_active_confirmed (vsla s) b then s
            else press_speed cs is_metric b long_press s)"

definition note_button :: "bool \<Rightarrow> bool \<Rightarrow> button_event \<Rightarrow> v_cruise \<Rightarrow> v_cruise" where
  "note_button stand enabled b s =
     (if map_of (v_button_timers s) (be_type b) \<noteq> None
      then s\<lparr>v_button_timers := set_timer b (v_button_timers s),
             change_standstill := (change_standstill s)(be_type b := stand),
             change_enabled := (change_enabled s)(be_type b := enabled)\<rparr>
      else s)"

definition update_button_timers :: "car_state \<Rightarrow> bool \<Rightarrow> v_cruise \<Rightarrow> v_cruise" where
  "update_button_timers cs enabled s =
     fold (note_button (cruise_standstill (cruiseState cs)) enabled) (buttonEvents cs)
       (s\<lparr>v_button_timers := count_timers (v_button_timers s)\<rparr>)"

section \<open>A frame\<close>

definition pcm_speed :: "cruise_state \<Rightarrow> v_cruise \<Rightarrow> v_cruise" where
  \<comment> \<open>the set speed of the stock cruise control\<close>
  "pcm_speed c s =
     (if cruise_speed c = 0 then s\<lparr>v_cruise_kph := V_CRUISE_UNSET, v_cruise_cluster_kph := V_CRUISE_UNSET\<rparr>
      else if cruise_speed c = -1 then s\<lparr>v_cruise_kph := -1, v_cruise_cluster_kph := -1\<rparr>
      else s\<lparr>v_cruise_kph := cruise_speed c * MS_TO_KPH, v_cruise_cluster_kph := cruise_speedCluster c * MS_TO_KPH\<rparr>)"

definition update_v_cruise :: "sla_car \<Rightarrow> car_state \<Rightarrow> bool \<Rightarrow> bool \<Rightarrow> v_cruise \<Rightarrow> v_cruise" where
  "update_v_cruise cp cs enabled is_metric s =
     (let s = vc_get_minimum_set_speed cp is_metric (s\<lparr>v_cruise_kph_last := v_cruise_kph s\<rparr>);
          (enabled', s) = update_enabled_state cp (buttonEvents cs) enabled s;
          s = (if cruise_available (cruiseState cs) then
                 if \<not> sla_pcmCruise cp \<or> \<not> sla_pcmCruiseSpeed cp \<and> enabled' then
                   let s = update_speed_limit_assist_v_cruise_non_pcm (update_v_cruise_non_pcm cs enabled' is_metric s)
                   in s\<lparr>v_cruise_cluster_kph := v_cruise_kph s\<rparr>
                 else pcm_speed (cruiseState cs) s
               else s\<lparr>v_cruise_kph := V_CRUISE_UNSET, v_cruise_cluster_kph := V_CRUISE_UNSET\<rparr>)
      in if \<not> sla_pcmCruise cp \<or> \<not> sla_pcmCruiseSpeed cp then update_button_timers cs enabled s else s)"

definition initialize_v_cruise :: "sla_car \<Rightarrow> car_state \<Rightarrow> bool \<Rightarrow> bool \<Rightarrow> v_cruise \<Rightarrow> v_cruise" where
  "initialize_v_cruise cp cs experimental_mode dynamic_experimental_control s =
     (if sla_pcmCruise cp then s
      else let initial = (if experimental_mode \<and> \<not> dynamic_experimental_control
                          then V_CRUISE_INITIAL_EXPERIMENTAL_MODE else V_CRUISE_INITIAL);
               v = (if button_pressed_or_released [B_accelCruise, B_resumeCruise] cs \<and> v_cruise_initialized s
                    then v_cruise_kph_last s
                    else of_int (py_round (np_clip (vEgo cs * MS_TO_KPH) initial V_CRUISE_MAX)))
           in s\<lparr>v_cruise_kph := v, v_cruise_cluster_kph := v\<rparr>)"

record card_input =
  ca_car :: car_state
  ca_enabled :: bool
  ca_is_metric :: bool
  ca_limit_valid :: bool
  ca_limit_last_valid :: bool
  ca_limit_final_last :: real
  ca_sla_state :: assist_state
  ca_experimental_mode :: bool
  ca_dynamic_experimental_control :: bool
  ca_controls_update :: bool
    \<comment> \<open>whether \<open>controls_update\<close> reaches the car in this frame and keeps \<open>carControl\<close>\<close>

record card =
  card_v_cruise :: v_cruise
  card_CS_prev :: car_state
  card_enabled_prev :: bool

definition card_state_update :: "sla_car \<Rightarrow> card_input \<Rightarrow> card \<Rightarrow> card" where
  \<comment> \<open>the part of \<open>Car.state_update\<close> about the set speed, and the frame's state kept for the next\<close>
  "card_state_update cp i k =
     (let s = update_speed_limit_assist (ca_is_metric i) (ca_limit_valid i) (ca_limit_last_valid i)
                (ca_limit_final_last i) (ca_sla_state i) (card_v_cruise k);
          s = update_v_cruise cp (ca_car i) (ca_enabled i) (ca_is_metric i) s;
          s = (if ca_enabled i \<and> \<not> card_enabled_prev k
               then initialize_v_cruise cp (card_CS_prev k) (ca_experimental_mode i) (ca_dynamic_experimental_control i) s
               else s)
      in \<lparr>card_v_cruise = s, card_CS_prev = ca_car i, 
          card_enabled_prev = (if ca_controls_update i then ca_enabled i else card_enabled_prev k)\<rparr>)"

section \<open>The distance button\<close>

abbreviation (input) DISTANCE_LONG_PRESS :: int where "DISTANCE_LONG_PRESS \<equiv> 50"

record cruise_helper =
  button_frame_count :: int
  ch_experimental_mode :: bool
  experimental_mode_switched :: bool

definition cruise_helper_init :: cruise_helper where
  "cruise_helper_init = \<lparr>button_frame_count = 0, ch_experimental_mode = False, experimental_mode_switched = False\<rparr>"

definition update_button_frame_counts :: "button_event list \<Rightarrow> cruise_helper \<Rightarrow> cruise_helper" where
  "update_button_frame_counts bs h =
     (let n = (if button_frame_count h > 0 then button_frame_count h + 1 else button_frame_count h)
      in h\<lparr>button_frame_count :=
           fold (\<lambda>b n. if be_type b = B_gapAdjustCruise then (if be_pressed b then 1 else 0) else n) bs n\<rparr>)"

definition update_experimental_mode :: "bool \<Rightarrow> cruise_helper \<times> events_state \<Rightarrow> cruise_helper \<times> events_state" where
  "update_experimental_mode experimental_mode he =
     (let (h, ev) = he in
      if button_frame_count h \<ge> DISTANCE_LONG_PRESS \<and> \<not> experimental_mode_switched h
      then (h\<lparr>ch_experimental_mode := \<not> experimental_mode, experimental_mode_switched := True\<rparr>,
            ev_add SP_experimentalModeSwitched ev)
      else he)"

definition cruise_helper_update :: "bool \<Rightarrow> car_state \<Rightarrow> bool \<Rightarrow> cruise_helper \<times> events_state \<Rightarrow> cruise_helper \<times> events_state" where
  \<comment> \<open>the first argument is \<open>CP.openpilotLongitudinalControl\<close>\<close>
  "cruise_helper_update op_long cs experimental_mode he =
     (if op_long \<and> cruise_available (cruiseState cs)
      then update_experimental_mode experimental_mode
             (update_button_frame_counts (buttonEvents cs) (fst he), snd he)
      else he)"

end
