(* ===== verification/CruiseFacts.thy ===== *)
theory CruiseFacts
  imports Cruise
begin

text \<open>
  The set speed stays in its bounds on cars whose set speed is openpilot's own, and a short press
  changes it once.
\<close>

section \<open>Bounds\<close>

definition speed_ok :: "real \<Rightarrow> bool" where
  "speed_ok v \<longleftrightarrow> v = V_CRUISE_UNSET \<or> of_int V_CRUISE_MIN \<le> v \<and> v \<le> V_CRUISE_MAX"

definition set_speed_ok :: "v_cruise \<Rightarrow> bool" where
  "set_speed_ok s \<longleftrightarrow> speed_ok (v_cruise_kph s) \<and> v_cruise_cluster_kph s = v_cruise_kph s"

lemma clipped_ok: "8 \<le> m \<Longrightarrow> m \<le> 145 \<Longrightarrow> speed_ok (np_clip x (of_int m) V_CRUISE_MAX)"
  using np_clip_lower [of "of_int m" "145 :: real" x] np_clip_upper [of x "of_int m" "145 :: real"]
  by (simp add: speed_ok_def)

lemma press_speed_ok: "8 \<le> v_cruise_min s \<Longrightarrow> v_cruise_min s \<le> 145 \<Longrightarrow> speed_ok (v_cruise_kph (press_speed cs m b l s))"
  by (simp add: press_speed_def Let_def split_def clipped_ok)

lemma press_speed_kept [simp]:
  "v_cruise_min (press_speed cs m b l s) = v_cruise_min s"
  "v_cruise_kph_last (press_speed cs m b l s) = v_cruise_kph_last s" "vsla (press_speed cs m b l s) = vsla s"
  "v_button_timers (press_speed cs m b l s) = v_button_timers s"
  by (simp_all add: press_speed_def Let_def split_def)

lemma update_non_pcm_cases:
  "update_v_cruise_non_pcm cs en m s = s \<or> (\<exists>b l. update_v_cruise_non_pcm cs en m s = press_speed cs m b l s)"
  by (auto simp: update_v_cruise_non_pcm_def split: option.splits)

lemma assist_speed_ok:
  assumes "8 \<le> v_cruise_min s" "v_cruise_min s \<le> 145" "speed_ok (v_cruise_kph s)"
  shows "speed_ok (v_cruise_kph (update_speed_limit_assist_v_cruise_non_pcm s))"
  using assms by (simp add: update_speed_limit_assist_v_cruise_non_pcm_def Let_def clipped_ok)

lemma assist_speed_kept [simp]:
  "v_cruise_kph_last (update_speed_limit_assist_v_cruise_non_pcm s) = v_cruise_kph_last s"
  by (simp add: update_speed_limit_assist_v_cruise_non_pcm_def Let_def)

lemma note_button_kept [simp]:
  "v_cruise_kph (note_button a en b s) = v_cruise_kph s" "v_cruise_cluster_kph (note_button a en b s) = v_cruise_cluster_kph s"
  "v_cruise_kph_last (note_button a en b s) = v_cruise_kph_last s"
  by (simp_all add: note_button_def)

lemma update_button_timers_kept [simp]:
  "v_cruise_kph (update_button_timers cs en s) = v_cruise_kph s"
  "v_cruise_cluster_kph (update_button_timers cs en s) = v_cruise_cluster_kph s"
  "v_cruise_kph_last (update_button_timers cs en s) = v_cruise_kph_last s"
proof -
  have "v_cruise_kph (fold (note_button a en) bs s) = v_cruise_kph s \<and>
    v_cruise_cluster_kph (fold (note_button a en) bs s) = v_cruise_cluster_kph s \<and>
    v_cruise_kph_last (fold (note_button a en) bs s) = v_cruise_kph_last s" for a bs s
    by (induction bs arbitrary: s) simp_all
  then show "v_cruise_kph (update_button_timers cs en s) = v_cruise_kph s"
    "v_cruise_cluster_kph (update_button_timers cs en s) = v_cruise_cluster_kph s"
    "v_cruise_kph_last (update_button_timers cs en s) = v_cruise_kph_last s"
    by (simp_all add: update_button_timers_def)
qed

lemma update_enabled_kept [simp]:
  "v_cruise_kph (snd (update_enabled_state cp bs en s)) = v_cruise_kph s"
  "v_cruise_cluster_kph (snd (update_enabled_state cp bs en s)) = v_cruise_cluster_kph s"
  "v_cruise_kph_last (snd (update_enabled_state cp bs en s)) = v_cruise_kph_last s"
  "v_cruise_min (snd (update_enabled_state cp bs en s)) = v_cruise_min s"
  by (simp_all add: update_enabled_state_def Let_def)

lemma minimum_ok:
  "8 \<le> v_cruise_min (vc_get_minimum_set_speed cp m s)" "v_cruise_min (vc_get_minimum_set_speed cp m s) \<le> 145"
  "v_cruise_kph (vc_get_minimum_set_speed cp m s) = v_cruise_kph s"
  "v_cruise_kph_last (vc_get_minimum_set_speed cp m s) = v_cruise_kph_last s"
  by (simp_all add: vc_get_minimum_set_speed_def get_minimum_set_speed_def)

definition own_speed :: "sla_car \<Rightarrow> car_state \<Rightarrow> bool \<Rightarrow> bool \<Rightarrow> v_cruise \<Rightarrow> v_cruise" where
  \<comment> \<open>the speed part of a frame of a car without stock cruise control\<close>
  "own_speed cp cs en m s =
     (let s = vc_get_minimum_set_speed cp m (s\<lparr>v_cruise_kph_last := v_cruise_kph s\<rparr>);
          (en', s) = update_enabled_state cp (buttonEvents cs) en s
      in if cruise_available (cruiseState cs)
         then update_speed_limit_assist_v_cruise_non_pcm (update_v_cruise_non_pcm cs en' m s)
         else s\<lparr>v_cruise_kph := V_CRUISE_UNSET\<rparr>)"

lemma update_v_cruise_own:
  assumes "\<not> sla_pcmCruise cp"
  shows "update_v_cruise cp cs en m s =
    (let t = own_speed cp cs en m s in update_button_timers cs en (t\<lparr>v_cruise_cluster_kph := v_cruise_kph t\<rparr>))"
  using assms by (simp add: update_v_cruise_def own_speed_def Let_def split_def)

lemma own_speed_ok:
  assumes "speed_ok (v_cruise_kph s)"
  shows "speed_ok (v_cruise_kph (own_speed cp cs en m s))" "v_cruise_kph_last (own_speed cp cs en m s) = v_cruise_kph s"
proof -
  define t where "t = snd (update_enabled_state cp (buttonEvents cs) en (vc_get_minimum_set_speed cp m (s\<lparr>v_cruise_kph_last := v_cruise_kph s\<rparr>)))"
  define en' where "en' = fst (update_enabled_state cp (buttonEvents cs) en (vc_get_minimum_set_speed cp m (s\<lparr>v_cruise_kph_last := v_cruise_kph s\<rparr>)))"
  have t: "8 \<le> v_cruise_min t" "v_cruise_min t \<le> 145" "v_cruise_kph t = v_cruise_kph s" "v_cruise_kph_last t = v_cruise_kph s"
    by (simp_all add: t_def minimum_ok)
  have u: "8 \<le> v_cruise_min u \<and> v_cruise_min u \<le> 145 \<and> speed_ok (v_cruise_kph u) \<and> v_cruise_kph_last u = v_cruise_kph s"
    if "u = update_v_cruise_non_pcm cs en' m t" for u
    using update_non_pcm_cases [of cs en' m t] t assms press_speed_ok [OF t(1,2)] unfolding that by auto
  have o: "own_speed cp cs en m s = (if cruise_available (cruiseState cs)
      then update_speed_limit_assist_v_cruise_non_pcm (update_v_cruise_non_pcm cs en' m t)
      else t\<lparr>v_cruise_kph := V_CRUISE_UNSET\<rparr>)"
    by (simp add: own_speed_def t_def en'_def Let_def split_def)
  show "speed_ok (v_cruise_kph (own_speed cp cs en m s))"
    using u [OF refl] unfolding o by (auto simp: assist_speed_ok) (simp add: speed_ok_def)
  show "v_cruise_kph_last (own_speed cp cs en m s) = v_cruise_kph s"
    using u [OF refl] t(4) unfolding o by simp
qed

lemma initial_ok: "initial = 40 \<or> initial = 105 \<Longrightarrow> speed_ok (of_int (py_round (np_clip x initial V_CRUISE_MAX)))"
proof -
  assume i: "initial = 40 \<or> initial = 105"
  have "py_round (of_int 40) \<le> py_round (np_clip x initial 145)"
    unfolding of_int_numeral by (rule py_round_mono) (use i np_clip_lower [of initial 145 x] in auto)
  moreover have "py_round (np_clip x initial 145) \<le> py_round (of_int 145)"
    unfolding of_int_numeral by (rule py_round_mono) simp
  ultimately show "speed_ok (of_int (py_round (np_clip x initial V_CRUISE_MAX)))"
    unfolding py_round_of_int speed_ok_def by linarith
qed

lemma initialize_ok:
  assumes "set_speed_ok s" "speed_ok (v_cruise_kph_last s)"
  shows "set_speed_ok (initialize_v_cruise cp cs e d s)"
  using assms initial_ok by (simp add: initialize_v_cruise_def set_speed_ok_def Let_def)

definition card_run :: "sla_car \<Rightarrow> card_input list \<Rightarrow> card \<Rightarrow> card" where
  "card_run cp is k = fold (card_state_update cp) is k"

lemma update_assist_kept [simp]:
  "v_cruise_kph (update_speed_limit_assist m a b c st s) = v_cruise_kph s"
  "v_cruise_cluster_kph (update_speed_limit_assist m a b c st s) = v_cruise_cluster_kph s"
  by (simp_all add: update_speed_limit_assist_def Let_def split_def)

lemma card_step_ok:
  assumes "\<not> sla_pcmCruise cp" "set_speed_ok (card_v_cruise k)"
  shows "set_speed_ok (card_v_cruise (card_state_update cp i k))"
proof -
  let ?s = "update_speed_limit_assist (ca_is_metric i) (ca_limit_valid i) (ca_limit_last_valid i)
                (ca_limit_final_last i) (ca_sla_state i) (card_v_cruise k)"
  let ?u = "update_v_cruise cp (ca_car i) (ca_enabled i) (ca_is_metric i) ?s"
  have "speed_ok (v_cruise_kph ?s)" using assms(2) by (simp add: set_speed_ok_def)
  from own_speed_ok [OF this] \<open>speed_ok (v_cruise_kph ?s)\<close> have "set_speed_ok ?u" "speed_ok (v_cruise_kph_last ?u)"
    by (simp_all add: update_v_cruise_own [OF assms(1)] set_speed_ok_def Let_def)
  then show ?thesis
    unfolding card_state_update_def Let_def card.simps
    by (cases "ca_enabled i \<and> \<not> card_enabled_prev k") (simp_all only: if_True if_False simp_thms initialize_ok)
qed

text \<open>
  The set speed stays in its bounds. On a car without stock cruise control, from the start and
  whatever the driver, the car and speed limit assist do, the set speed is either unset or between
  8 and 145 km/h, and the speed shown in the cluster is the set speed.
\<close>

theorem set_speed_bounded:
  assumes "\<not> sla_pcmCruise cp"
  shows "set_speed_ok (card_v_cruise (card_run cp is \<lparr>card_v_cruise = v_cruise_init custom short long,
    card_CS_prev = cs_default, card_enabled_prev = False\<rparr>))"
proof -
  have "set_speed_ok (card_v_cruise (card_run cp is k))" if "set_speed_ok (card_v_cruise k)" for k
    using that by (induction "is" arbitrary: k) (simp_all add: card_run_def card_step_ok [OF assms])
  then show ?thesis by (simp add: v_cruise_init_def set_speed_ok_def speed_ok_def)
qed

section \<open>A short press\<close>

definition quiet_car :: "car_state \<Rightarrow> bool" where
  \<comment> \<open>stock cruise available, no pedal, not at a standstill\<close>
  "quiet_car cs \<longleftrightarrow> cruise_available (cruiseState cs) \<and> \<not> gasPressed cs \<and> \<not> cruise_standstill (cruiseState cs)"

definition press_timers :: "button_type \<Rightarrow> int \<Rightarrow> button_timers" where
  "press_timers b n = [(B_decelCruise, if b = B_decelCruise then n else 0), (B_accelCruise, if b = B_accelCruise then n else 0)]"

definition holding :: "button_type \<Rightarrow> int \<Rightarrow> real \<Rightarrow> v_cruise \<Rightarrow> bool" where
  \<comment> \<open>the speed is \<open>v\<close> and the button has been down for \<open>n\<close> frames, since the system was enabled\<close>
  "holding b n v s \<longleftrightarrow>
     v_cruise_kph s = v \<and> v_button_timers s = press_timers b n \<and> \<not> custom_acc_enabled s \<and>
     vc_sla_state (vsla s) = SLA_disabled \<and> vc_prev_sla_state (vsla s) = SLA_disabled \<and>
     (n > 0 \<longrightarrow> change_enabled s b \<and> \<not> change_standstill s b)"

definition short_step :: "button_type \<Rightarrow> bool \<Rightarrow> real \<Rightarrow> real" where
  "short_step b is_metric v =
     np_clip (py_round1 (v + (if is_metric then 1 else IMPERIAL_INCREMENT) * CRUISE_INTERVAL_SIGN b)) (of_int V_CRUISE_MIN) V_CRUISE_MAX"

definition set_button :: "button_type \<Rightarrow> bool" where
  "set_button b \<longleftrightarrow> b = B_accelCruise \<or> b = B_decelCruise"

lemma own_frame:
  assumes "\<not> sla_pcmCruise cp" "sla_pcmCruiseSpeed cp" "quiet_car cs" "vc_sla_state (vsla s) = SLA_disabled"
    "vc_prev_sla_state (vsla s) = SLA_disabled"
  shows "\<exists>a last. update_v_cruise cp cs True m s =
    (let t = update_v_cruise_non_pcm cs True m (s\<lparr>v_cruise_kph_last := last, v_cruise_min := V_CRUISE_MIN\<rparr>)
     in update_button_timers cs True (t\<lparr>vsla := a, v_cruise_cluster_kph := v_cruise_kph t\<rparr>)) \<and>
     vc_sla_state a = SLA_disabled \<and> vc_prev_sla_state a = SLA_disabled"
proof -
  let ?t = "update_v_cruise_non_pcm cs True m (s\<lparr>v_cruise_kph_last := v_cruise_kph s, v_cruise_min := V_CRUISE_MIN\<rparr>)"
  have a: "vsla ?t = vsla s" using update_non_pcm_cases [of cs True m "s\<lparr>v_cruise_kph_last := v_cruise_kph s, v_cruise_min := V_CRUISE_MIN\<rparr>"]
    by auto
  have "update_v_cruise cp cs True m s = update_button_timers cs True
    (?t\<lparr>vsla := (vsla s)\<lparr>vc_prev_sla_state := SLA_disabled, prev_speed_limit_final_last_kph := speed_limit_final_last_kph (vsla s)\<rparr>,
      v_cruise_cluster_kph := v_cruise_kph ?t\<rparr>)"
    using assms a by (simp add: update_v_cruise_def vc_get_minimum_set_speed_def update_enabled_state_def quiet_car_def
        update_speed_limit_assist_v_cruise_non_pcm_def SLA_ACTIVE_STATES_def Let_def)
  then show ?thesis
    using assms(4) by (intro exI [of _ "(vsla s)\<lparr>vc_prev_sla_state := SLA_disabled,
      prev_speed_limit_final_last_kph := speed_limit_final_last_kph (vsla s)\<rparr>"] exI [of _ "v_cruise_kph s"]) (simp add: Let_def)
qed

lemma press_timers_simps:
  assumes "set_button b"
  shows "count_timers (press_timers b n) = press_timers b (if n > 0 then n + 1 else n)"
    "set_timer \<lparr>be_type = b, be_pressed = p\<rparr> (press_timers b n) = press_timers b (if p then 1 else 0)"
    "map_of (press_timers b n) b = Some n"
    "n \<noteq> 0 \<and> n mod 50 = 0 \<or> pick_button [] (press_timers b n) = None"
    "pick_button [\<lparr>be_type = b, be_pressed = True\<rparr>] (press_timers b 0) = None"
    "n \<le> 50 \<Longrightarrow> pick_button [\<lparr>be_type = b, be_pressed = False\<rparr>] (press_timers b n) = Some (b, False)"
  using assms by (auto simp: press_timers_def count_timers_def set_timer_def set_button_def pick_button_def)

lemma press_frame:
  assumes cp: "\<not> sla_pcmCruise cp" "sla_pcmCruiseSpeed cp" and cs: "quiet_car cs" and b: "set_button b"
  shows "holding b 0 v s \<Longrightarrow> buttonEvents cs = [\<lparr>be_type = b, be_pressed = True\<rparr>] \<Longrightarrow> holding b 1 v (update_v_cruise cp cs True m s)"
    "holding b n v s \<Longrightarrow> 0 < n \<Longrightarrow> n < 50 \<Longrightarrow> buttonEvents cs = [] \<Longrightarrow> holding b (n + 1) v (update_v_cruise cp cs True m s)"
    "holding b n v s \<Longrightarrow> 0 < n \<Longrightarrow> n \<le> 50 \<Longrightarrow> buttonEvents cs = [\<lparr>be_type = b, be_pressed = False\<rparr>] \<Longrightarrow>
       v_cruise_kph (update_v_cruise cp cs True m s) = short_step b m v"
proof -
  have sla: "vc_sla_state (vsla s) = SLA_disabled" "vc_prev_sla_state (vsla s) = SLA_disabled" if "holding b k v s" for k
    using that by (simp_all add: holding_def)
  note frame = own_frame [OF cp cs]
  show "holding b 1 v (update_v_cruise cp cs True m s)"
    if h: "holding b 0 v s" and ev: "buttonEvents cs = [\<lparr>be_type = b, be_pressed = True\<rparr>]"
  proof -
    from frame [OF sla [OF h], of m] obtain a last where f: "update_v_cruise cp cs True m s =
      (let t = update_v_cruise_non_pcm cs True m (s\<lparr>v_cruise_kph_last := last, v_cruise_min := V_CRUISE_MIN\<rparr>)
       in update_button_timers cs True (t\<lparr>vsla := a, v_cruise_cluster_kph := v_cruise_kph t\<rparr>))"
      "vc_sla_state a = SLA_disabled" "vc_prev_sla_state a = SLA_disabled" by blast
    from h cs f(2,3) show ?thesis
      by (simp add: f(1) holding_def update_v_cruise_non_pcm_def ev press_timers_simps [OF b] update_button_timers_def
          note_button_def Let_def quiet_car_def)
  qed
  show "holding b (n + 1) v (update_v_cruise cp cs True m s)"
    if h: "holding b n v s" and n: "0 < n" "n < 50" and ev: "buttonEvents cs = []"
  proof -
    from frame [OF sla [OF h], of m] obtain a last where f: "update_v_cruise cp cs True m s =
      (let t = update_v_cruise_non_pcm cs True m (s\<lparr>v_cruise_kph_last := last, v_cruise_min := V_CRUISE_MIN\<rparr>)
       in update_button_timers cs True (t\<lparr>vsla := a, v_cruise_cluster_kph := v_cruise_kph t\<rparr>))"
      "vc_sla_state a = SLA_disabled" "vc_prev_sla_state a = SLA_disabled" by blast
    have "pick_button [] (press_timers b n) = None" using press_timers_simps(4) [OF b, of n] n by auto
    with h n f(2,3) show ?thesis
      by (simp add: f(1) holding_def update_v_cruise_non_pcm_def ev press_timers_simps(1) [OF b] update_button_timers_def Let_def)
  qed
  show "v_cruise_kph (update_v_cruise cp cs True m s) = short_step b m v"
    if h: "holding b n v s" and n: "0 < n" "n \<le> 50" and ev: "buttonEvents cs = [\<lparr>be_type = b, be_pressed = False\<rparr>]"
  proof -
    from frame [OF sla [OF h], of m] obtain a last where f: "update_v_cruise cp cs True m s =
      (let t = update_v_cruise_non_pcm cs True m (s\<lparr>v_cruise_kph_last := last, v_cruise_min := V_CRUISE_MIN\<rparr>)
       in update_button_timers cs True (t\<lparr>vsla := a, v_cruise_cluster_kph := v_cruise_kph t\<rparr>))" by blast
    from h n cs b show ?thesis
      by (simp add: f Let_def holding_def update_v_cruise_non_pcm_def ev press_timers_simps(6) [OF b] quiet_car_def
          update_speed_limit_assist_pre_active_confirmed_def press_speed_def update_v_cruise_delta_def short_step_def)
  qed
qed

definition drive_frames :: "sla_car \<Rightarrow> bool \<Rightarrow> car_state list \<Rightarrow> v_cruise \<Rightarrow> v_cruise" where
  "drive_frames cp m css s = fold (\<lambda>cs. update_v_cruise cp cs True m) css s"

lemma hold_frames:
  assumes cp: "\<not> sla_pcmCruise cp" "sla_pcmCruiseSpeed cp" and b: "set_button b"
  shows "holding b n v s \<Longrightarrow> 0 < n \<Longrightarrow> n + int (length css) \<le> 50 \<Longrightarrow> \<forall>cs \<in> set css. quiet_car cs \<and> buttonEvents cs = [] \<Longrightarrow>
    holding b (n + int (length css)) v (drive_frames cp m css s)"
proof (induction css arbitrary: n s)
  case (Cons cs css)
  from Cons.prems have "holding b (n + 1) v (update_v_cruise cp cs True m s)"
    by (intro press_frame(2) [OF cp _ b]) auto
  from Cons.IH [OF this] Cons.prems show ?case by (simp add: drive_frames_def add.assoc)
qed (simp add: drive_frames_def)

text \<open>
  A short press changes the set speed once. On an engaged car without stock cruise control,
  whose assist is off and whose increments are the default ones, pressing the accelerate or the
  decelerate button and releasing it within half a second (50 frames) changes nothing before the
  release, and at the release moves the set speed by one km/h, or 1.6 km/h on imperial units, up or
  down, within 8 and 145 km/h.
\<close>

theorem short_press_steps_once:
  assumes "\<not> sla_pcmCruise cp" "sla_pcmCruiseSpeed cp" "set_button b" "holding b 0 v s"
    and "quiet_car press" "buttonEvents press = [\<lparr>be_type = b, be_pressed = True\<rparr>]"
    and "\<forall>cs \<in> set css. quiet_car cs \<and> buttonEvents cs = []" "length css < 50"
    and "quiet_car release" "buttonEvents release = [\<lparr>be_type = b, be_pressed = False\<rparr>]"
  shows "v_cruise_kph (drive_frames cp m (press # css) s) = v \<and>
    v_cruise_kph (drive_frames cp m (press # css @ [release]) s) = short_step b m v"
proof
  note cp = assms(1,2)
  have "holding b 1 v (update_v_cruise cp press True m s)"
    by (rule press_frame(1) [OF cp assms(5,3,4,6)])
  from hold_frames [OF cp assms(3) this, of css m] assms(7,8)
  have h: "holding b (1 + int (length css)) v (drive_frames cp m (press # css) s)" by (simp add: drive_frames_def)
  then show "v_cruise_kph (drive_frames cp m (press # css) s) = v" by (simp add: holding_def)
  from press_frame(3) [OF cp assms(9,3) h _ _ assms(10), of m] assms(8)
  show "v_cruise_kph (drive_frames cp m (press # css @ [release]) s) = short_step b m v"
    by (simp add: drive_frames_def)
qed

section \<open>Concrete runs\<close>

definition ex_cruise_car :: sla_car where
  "ex_cruise_car = \<lparr>sla_brand = ''subaru'', sla_openpilotLongitudinalControl = True, sla_pcmCruise = False, sla_pcmCruiseSpeed = True\<rparr>"

definition ex_quiet :: "button_event list \<Rightarrow> car_state" where
  "ex_quiet bs = cs_default\<lparr>buttonEvents := bs, cruiseState := (cruiseState cs_default)\<lparr>cruise_available := True\<rparr>\<rparr>"

definition ex_set_speed :: v_cruise where
  "ex_set_speed = (v_cruise_init False 1 5)\<lparr>v_cruise_kph := 100, v_cruise_cluster_kph := 100\<rparr>"

theorem short_press_steps_once_witness:
  "v_cruise_kph (drive_frames ex_cruise_car True (ex_quiet [\<lparr>be_type = B_accelCruise, be_pressed = True\<rparr>] #
     replicate 20 (ex_quiet []) @ [ex_quiet [\<lparr>be_type = B_accelCruise, be_pressed = False\<rparr>]]) ex_set_speed) = 101"
proof -
  have "holding B_accelCruise 0 100 ex_set_speed"
    by (simp add: holding_def ex_set_speed_def v_cruise_init_def press_timers_def)
  moreover have "short_step B_accelCruise True 100 = 101"
    by (simp add: short_step_def CRUISE_INTERVAL_SIGN_def py_num)
  ultimately show ?thesis
    using short_press_steps_once [of ex_cruise_car B_accelCruise 100 ex_set_speed
        "ex_quiet [\<lparr>be_type = B_accelCruise, be_pressed = True\<rparr>]" "replicate 20 (ex_quiet [])"
        "ex_quiet [\<lparr>be_type = B_accelCruise, be_pressed = False\<rparr>]" True]
    by (simp add: ex_cruise_car_def set_button_def quiet_car_def ex_quiet_def cs_default_def)
qed

theorem set_speed_bounded_witness:
  "set_speed_ok (card_v_cruise (card_run ex_cruise_car
     [\<lparr>ca_car = ex_quiet [], ca_enabled = True, ca_is_metric = True, ca_limit_valid = True, ca_limit_last_valid = True,
       ca_limit_final_last = 300, ca_sla_state = SLA_active, ca_experimental_mode = False,
       ca_dynamic_experimental_control = False, ca_controls_update = True\<rparr>]
     \<lparr>card_v_cruise = v_cruise_init False 1 5, card_CS_prev = cs_default, card_enabled_prev = False\<rparr>))"
  by (rule set_speed_bounded) (simp add: ex_cruise_car_def)

end
