(* ===== verification/LaneChange.thy ===== *)
theory LaneChange
  imports CarState
begin

text \<open>
  Lane changes and turns: the desire helper of \<^verbatim>\<open>selfdrive/controls/lib/desire_helper.py\<close> with
  the automatic lane change controller (\<^verbatim>\<open>auto_lane_change.py\<close>) and the turn controller
  (\<^verbatim>\<open>lane_turn_desire.py\<close>) of \<^verbatim>\<open>sunnypilot/selfdrive/controls/lib\<close>, and the pause of lateral
  control while a blinker is on (\<^verbatim>\<open>blinker_pause_lateral.py\<close>). The two controllers hold a reference
  to the helper and read its state: here they are fields of it.
\<close>

datatype lane_change_state_t = LC_off | LC_preLaneChange | LC_laneChangeStarting | LC_laneChangeFinishing
datatype lane_change_direction_t = Dir_none | Dir_left | Dir_right
datatype turn_direction_t = Turn_none | Turn_left | Turn_right
datatype desire_t = Desire_none | Desire_turnLeft | Desire_turnRight | Desire_laneChangeLeft | Desire_laneChangeRight

abbreviation (input) LANE_CHANGE_SPEED_MIN :: real where "LANE_CHANGE_SPEED_MIN \<equiv> 20 * MPH_TO_MS"
abbreviation (input) LANE_CHANGE_TIME_MAX :: real where "LANE_CHANGE_TIME_MAX \<equiv> 10"
abbreviation (input) LANE_CHANGE_START_TIME :: real where "LANE_CHANGE_START_TIME \<equiv> 1 / 2"

definition TURN_DESIRES :: "turn_direction_t \<Rightarrow> desire_t" where
  "TURN_DESIRES t = (case t of Turn_none \<Rightarrow> Desire_none | Turn_left \<Rightarrow> Desire_turnLeft | Turn_right \<Rightarrow> Desire_turnRight)"

section \<open>Automatic lane changes\<close>

abbreviation (input) ALC_OFF :: int where "ALC_OFF \<equiv> -1"
abbreviation (input) ALC_NUDGE :: int where "ALC_NUDGE \<equiv> 0"
abbreviation (input) ONE_SECOND_DELAY :: real where "ONE_SECOND_DELAY \<equiv> -1"
abbreviation (input) NUDGELESS_TIME :: real where "NUDGELESS_TIME \<equiv> 5 / 100"

definition AUTO_LANE_CHANGE_TIMER :: "int \<Rightarrow> real option" where
  "AUTO_LANE_CHANGE_TIMER =
     map_of [(-1, 0), (0, 0), (1, NUDGELESS_TIME), (2, 5 / 10), (3, 1), (4, 2), (5, 3)]"

record alc =
  lane_change_wait_timer :: real
  alc_param_read_counter :: nat
  lane_change_delay :: real
  lane_change_set_timer :: int
  lane_change_bsm_delay :: bool
  prev_brake_pressed :: bool
  auto_lane_change_allowed :: bool
  prev_lane_change :: bool

record lane_params =
  p_AutoLaneChangeBsmDelay :: bool
  p_AutoLaneChangeTimer :: int
  p_LaneTurnDesire :: bool
  p_LaneTurnValue :: real

definition alc_read_params :: "lane_params \<Rightarrow> alc \<Rightarrow> alc" where
  "alc_read_params ps a =
     a\<lparr>lane_change_bsm_delay := p_AutoLaneChangeBsmDelay ps, lane_change_set_timer := p_AutoLaneChangeTimer ps\<rparr>"

definition alc_init :: "lane_params \<Rightarrow> alc" where
  "alc_init ps = alc_read_params ps
     \<lparr>lane_change_wait_timer = 0, alc_param_read_counter = 0, lane_change_delay = 0,
      lane_change_set_timer = p_AutoLaneChangeTimer ps, lane_change_bsm_delay = False,
      prev_brake_pressed = False, auto_lane_change_allowed = False, prev_lane_change = False\<rparr>"

definition alc_update_params :: "lane_params \<Rightarrow> alc \<Rightarrow> alc" where
  "alc_update_params ps a =
     (let a = (if alc_param_read_counter a mod 50 = 0 then alc_read_params ps a else a)
      in a\<lparr>alc_param_read_counter := alc_param_read_counter a + 1\<rparr>)"

definition alc_reset :: "lane_change_state_t \<Rightarrow> lane_change_direction_t \<Rightarrow> alc \<Rightarrow> alc" where
  "alc_reset st dir a =
     (if st = LC_off \<and> dir = Dir_none
      then a\<lparr>lane_change_wait_timer := 0, prev_brake_pressed := False, prev_lane_change := False\<rparr> else a)"

definition update_lane_change_timers :: "bool \<Rightarrow> alc \<Rightarrow> alc" where
  "update_lane_change_timers blindspot_detected a =
     (let delay = (case AUTO_LANE_CHANGE_TIMER (lane_change_set_timer a) of Some t \<Rightarrow> t | None \<Rightarrow> 0);
          a = a\<lparr>lane_change_delay := delay, lane_change_wait_timer := lane_change_wait_timer a + DT_MDL\<rparr>
      in if lane_change_bsm_delay a \<and> blindspot_detected \<and> delay > 0 then
           if delay = NUDGELESS_TIME then a\<lparr>lane_change_wait_timer := ONE_SECOND_DELAY\<rparr>
           else a\<lparr>lane_change_wait_timer := delay + ONE_SECOND_DELAY\<rparr>
         else a)"

definition update_allowed :: "alc \<Rightarrow> bool" where
  "update_allowed a =
     (if lane_change_set_timer a \<in> {ALC_OFF, ALC_NUDGE} then False
      else if prev_brake_pressed a then False
      else if prev_lane_change a then False
      else lane_change_wait_timer a > lane_change_delay a)"

definition alc_update_lane_change :: "bool \<Rightarrow> bool \<Rightarrow> alc \<Rightarrow> alc" where
  "alc_update_lane_change blindspot_detected brake_pressed a =
     (let a = (if brake_pressed \<and> \<not> prev_brake_pressed a then a\<lparr>prev_brake_pressed := brake_pressed\<rparr> else a);
          a = update_lane_change_timers blindspot_detected a
      in a\<lparr>auto_lane_change_allowed := update_allowed a\<rparr>)"

definition alc_update_state :: "lane_change_state_t \<Rightarrow> lane_change_direction_t \<Rightarrow> alc \<Rightarrow> alc" where
  "alc_update_state st dir a =
     alc_reset st dir (if st = LC_laneChangeStarting then a\<lparr>prev_lane_change := True\<rparr> else a)"

section \<open>Turns\<close>

record lane_turn =
  turn_direction :: turn_direction_t
  lane_turn_value :: real
  lt_param_read_counter :: nat
  lt_enabled :: bool

definition lane_turn_init :: "lane_params \<Rightarrow> lane_turn" where
  "lane_turn_init ps = \<lparr>turn_direction = Turn_none, lane_turn_value = p_LaneTurnValue ps * MPH_TO_MS,
     lt_param_read_counter = 0, lt_enabled = p_LaneTurnDesire ps\<rparr>"

definition lt_read_params :: "lane_params \<Rightarrow> lane_turn \<Rightarrow> lane_turn" where
  "lt_read_params ps t =
     t\<lparr>lt_enabled := p_LaneTurnDesire ps, lane_turn_value := min LANE_CHANGE_SPEED_MIN (p_LaneTurnValue ps * MPH_TO_MS)\<rparr>"

definition lt_update_params :: "lane_params \<Rightarrow> lane_turn \<Rightarrow> lane_turn" where
  "lt_update_params ps t =
     (let t = (if lt_param_read_counter t mod 50 = 0 then lt_read_params ps t else t)
      in t\<lparr>lt_param_read_counter := lt_param_read_counter t + 1\<rparr>)"

definition update_lane_turn :: "car_state \<Rightarrow> lane_turn \<Rightarrow> lane_turn" where
  "update_lane_turn cs t =
     (if leftBlinker cs \<and> \<not> rightBlinker cs \<and> vEgo cs < lane_turn_value t \<and> \<not> leftBlindspot cs
      then t\<lparr>turn_direction := Turn_left\<rparr>
      else if rightBlinker cs \<and> \<not> leftBlinker cs \<and> vEgo cs < lane_turn_value t \<and> \<not> rightBlindspot cs
      then t\<lparr>turn_direction := Turn_right\<rparr>
      else t\<lparr>turn_direction := Turn_none\<rparr>)"

definition get_turn_direction :: "lane_turn \<Rightarrow> turn_direction_t" where
  "get_turn_direction t = (if \<not> lt_enabled t then Turn_none else turn_direction t)"

section \<open>The desire helper\<close>

record desire_helper =
  lane_change_state :: lane_change_state_t
  lane_change_direction :: lane_change_direction_t
  lane_change_timer :: real
  prev_one_blinker :: bool
  desire :: desire_t
  dh_alc :: alc
  lane_turn_controller :: lane_turn
  lane_turn_direction :: turn_direction_t

definition dh_init :: "lane_params \<Rightarrow> desire_helper" where
  "dh_init ps = \<lparr>lane_change_state = LC_off, lane_change_direction = Dir_none, lane_change_timer = 0,
     prev_one_blinker = False, desire = Desire_none, dh_alc = alc_init ps,
     lane_turn_controller = lane_turn_init ps, lane_turn_direction = Turn_none\<rparr>"

record dh_input =
  dh_params :: lane_params
  dh_carstate :: car_state
  dh_lateral_active :: bool
  dh_lane_change_prob :: real
  dh_left_edge :: bool
  dh_right_edge :: bool

definition get_lane_change_direction :: "car_state \<Rightarrow> lane_change_direction_t" where
  "get_lane_change_direction cs = (if leftBlinker cs then Dir_left else Dir_right)"

definition one_blinker :: "car_state \<Rightarrow> bool" where
  "one_blinker cs \<longleftrightarrow> leftBlinker cs \<noteq> rightBlinker cs"

definition below_lane_change_speed :: "car_state \<Rightarrow> bool" where
  "below_lane_change_speed cs \<longleftrightarrow> vEgo cs < LANE_CHANGE_SPEED_MIN"

definition torque_applied :: "car_state \<Rightarrow> bool" where
  \<comment> \<open>in the direction of the blinker\<close>
  "torque_applied cs \<longleftrightarrow> steeringPressed cs \<and>
     (steeringTorque cs > 0 \<and> get_lane_change_direction cs = Dir_left \<or>
      steeringTorque cs < 0 \<and> get_lane_change_direction cs = Dir_right)"

definition dh_blindspot_detected :: "dh_input \<Rightarrow> bool" where
  "dh_blindspot_detected i \<longleftrightarrow>
     (leftBlindspot (dh_carstate i) \<or> dh_left_edge i) \<and> get_lane_change_direction (dh_carstate i) = Dir_left \<or>
     (rightBlindspot (dh_carstate i) \<or> dh_right_edge i) \<and> get_lane_change_direction (dh_carstate i) = Dir_right"

definition lane_change_off :: "desire_helper \<Rightarrow> desire_helper" where
  "lane_change_off s = s\<lparr>lane_change_state := LC_off, lane_change_direction := Dir_none\<rparr>"

definition pre_lane_change :: "dh_input \<Rightarrow> desire_helper \<Rightarrow> desire_helper" where
  \<comment> \<open>the branch of \<open>preLaneChange\<close>\<close>
  "pre_lane_change i s =
     (let cs = dh_carstate i;
          blindspot = dh_blindspot_detected i;
          s = s\<lparr>lane_change_direction := get_lane_change_direction cs,
                dh_alc := alc_update_lane_change blindspot (brakePressed cs) (dh_alc s)\<rparr>
      in if \<not> one_blinker cs \<or> below_lane_change_speed cs then lane_change_off (s\<lparr>lane_change_timer := 0\<rparr>)
         else if (torque_applied cs \<or> auto_lane_change_allowed (dh_alc s)) \<and> \<not> blindspot
         then s\<lparr>lane_change_state := LC_laneChangeStarting, lane_change_timer := 0\<rparr>
         else s)"

definition lane_change_starting :: "dh_input \<Rightarrow> desire_helper \<Rightarrow> desire_helper" where
  \<comment> \<open>the branch of \<open>laneChangeStarting\<close>\<close>
  "lane_change_starting i s =
     (let cs = dh_carstate i;
          s = s\<lparr>lane_change_timer := lane_change_timer s + DT_MDL\<rparr>
      in if dh_lane_change_prob i < 2 / 100 \<and> lane_change_timer s \<ge> LANE_CHANGE_START_TIME then
           let s = s\<lparr>lane_change_timer := 0\<rparr>
           in if one_blinker cs
              then s\<lparr>lane_change_state := LC_preLaneChange, lane_change_direction := get_lane_change_direction cs\<rparr>
              else lane_change_off s
         else s)"

definition dh_transition :: "dh_input \<Rightarrow> desire_helper \<Rightarrow> desire_helper" where
  "dh_transition i s =
     (let cs = dh_carstate i in
      if \<not> dh_lateral_active i \<or> lane_change_timer s > LANE_CHANGE_TIME_MAX \<or> lane_change_set_timer (dh_alc s) = ALC_OFF
      then lane_change_off (s\<lparr>lane_change_timer := 0\<rparr>)
      else if lane_change_state s = LC_off \<and> one_blinker cs \<and> \<not> prev_one_blinker s \<and> \<not> below_lane_change_speed cs
      then s\<lparr>lane_change_state := LC_preLaneChange, lane_change_timer := 0,
             lane_change_direction := get_lane_change_direction cs\<rparr>
      else if lane_change_state s = LC_preLaneChange then pre_lane_change i s
      else if lane_change_state s = LC_laneChangeStarting then lane_change_starting i s
      else s)"

definition choose_desire :: "desire_helper \<Rightarrow> desire_t" where
  "choose_desire s =
     (if lane_turn_direction s \<noteq> Turn_none then TURN_DESIRES (lane_turn_direction s)
      else if lane_change_state s = LC_laneChangeStarting then
        if lane_change_direction s = Dir_left then Desire_laneChangeLeft
        else if lane_change_direction s = Dir_right then Desire_laneChangeRight
        else Desire_none
      else Desire_none)"

definition dh_read :: "dh_input \<Rightarrow> desire_helper \<Rightarrow> desire_helper" where
  \<comment> \<open>the parameters and the turn controller\<close>
  "dh_read i s =
     (let t = update_lane_turn (dh_carstate i) (lt_update_params (dh_params i) (lane_turn_controller s))
      in s\<lparr>dh_alc := alc_update_params (dh_params i) (dh_alc s), lane_turn_controller := t,
           lane_turn_direction := get_turn_direction t\<rparr>)"

definition dh_update :: "dh_input \<Rightarrow> desire_helper \<Rightarrow> desire_helper" where
  "dh_update i s =
     (let s = dh_transition i (dh_read i s);
          s = s\<lparr>prev_one_blinker := one_blinker (dh_carstate i) \<and> dh_lateral_active i\<rparr>;
          s = s\<lparr>desire := choose_desire s\<rparr>
      in s\<lparr>dh_alc := alc_update_state (lane_change_state s) (lane_change_direction s) (dh_alc s)\<rparr>)"

section \<open>Pausing lateral control\<close>

record blinker_pause =
  bp_enabled :: bool
  bp_is_metric :: bool
  bp_min_speed :: real
  bp_reengage_delay :: real
  blinker_off_timer :: real

definition blinker_pause_init :: "bool \<Rightarrow> bool \<Rightarrow> blinker_pause" where
  "blinker_pause_init en metric =
     \<lparr>bp_enabled = en, bp_is_metric = metric, bp_min_speed = 0, bp_reengage_delay = 0, blinker_off_timer = 0\<rparr>"

definition blinker_get_params :: "bool \<Rightarrow> bool \<Rightarrow> real \<Rightarrow> real \<Rightarrow> blinker_pause \<Rightarrow> blinker_pause" where
  "blinker_get_params en metric speed delay b =
     b\<lparr>bp_enabled := en, bp_is_metric := metric, bp_min_speed := speed, bp_reengage_delay := delay\<rparr>"

definition blinker_pause_update :: "car_state \<Rightarrow> real \<Rightarrow> blinker_pause \<Rightarrow> bool \<times> blinker_pause" where
  "blinker_pause_update cs dt b =
     (if \<not> bp_enabled b then (False, b)
      else let one = one_blinker cs;
               below_speed = (vEgo cs < bp_min_speed b * (if bp_is_metric b then KPH_TO_MS else MPH_TO_MS));
               b = (if one \<and> below_speed then b\<lparr>blinker_off_timer := bp_reengage_delay b\<rparr>
                    else if blinker_off_timer b > 0 then b\<lparr>blinker_off_timer := blinker_off_timer b - dt\<rparr>
                    else b)
           in (one \<and> below_speed \<or> blinker_off_timer b > 0, b))"

end
