(* ===== verification/LaneChangeFacts.thy ===== *)
theory LaneChangeFacts
  imports LaneChange
begin

text \<open>
  When a lane change may start, and how often the controller may start one by itself.
\<close>

lemma alc_update_lane_change_simps:
  "auto_lane_change_allowed (alc_update_lane_change b br a) \<longleftrightarrow>
     lane_change_set_timer a \<notin> {ALC_OFF, ALC_NUDGE} \<and> \<not> (prev_brake_pressed a \<or> br) \<and> \<not> prev_lane_change a \<and>
     lane_change_wait_timer (alc_update_lane_change b br a) > lane_change_delay (alc_update_lane_change b br a)"
  "prev_brake_pressed (alc_update_lane_change b br a) \<longleftrightarrow> prev_brake_pressed a \<or> br"
  "prev_lane_change (alc_update_lane_change b br a) = prev_lane_change a"
  "lane_change_set_timer (alc_update_lane_change b br a) = lane_change_set_timer a"
  by (auto simp: alc_update_lane_change_def update_allowed_def update_lane_change_timers_def Let_def)

lemma alc_params_simps [simp]:
  "prev_brake_pressed (alc_update_params ps a) = prev_brake_pressed a"
  "prev_lane_change (alc_update_params ps a) = prev_lane_change a"
  by (simp_all add: alc_update_params_def alc_read_params_def Let_def)

lemma dh_read_simps [simp]:
  "lane_change_state (dh_read i s) = lane_change_state s" "lane_change_direction (dh_read i s) = lane_change_direction s"
  "lane_change_timer (dh_read i s) = lane_change_timer s" "prev_one_blinker (dh_read i s) = prev_one_blinker s"
  "dh_alc (dh_read i s) = alc_update_params (dh_params i) (dh_alc s)"
  by (simp_all add: dh_read_def Let_def)

lemma dh_update_simps:
  "lane_change_state (dh_update i s) = lane_change_state (dh_transition i (dh_read i s))"
  "lane_change_direction (dh_update i s) = lane_change_direction (dh_transition i (dh_read i s))"
  "dh_alc (dh_update i s) = alc_update_state (lane_change_state (dh_transition i (dh_read i s)))
     (lane_change_direction (dh_transition i (dh_read i s))) (dh_alc (dh_transition i (dh_read i s)))"
  by (simp_all add: dh_update_def Let_def)

text \<open>What a frame does with the memory of the brake and of lane changes.\<close>

lemma transition_memory:
  "prev_lane_change (dh_alc (dh_transition i s)) = prev_lane_change (dh_alc s)"
  "prev_brake_pressed (dh_alc s) \<Longrightarrow> prev_brake_pressed (dh_alc (dh_transition i s))"
  "lane_change_state s = LC_preLaneChange \<Longrightarrow> brakePressed (dh_carstate i) \<Longrightarrow>
     lane_change_state (dh_transition i s) \<noteq> LC_off \<Longrightarrow> prev_brake_pressed (dh_alc (dh_transition i s))"
  by (auto simp: dh_transition_def pre_lane_change_def lane_change_starting_def lane_change_off_def Let_def
      alc_update_lane_change_simps)

lemma memory_step:
  assumes "lane_change_state (dh_update i s) \<noteq> LC_off"
  shows "prev_lane_change (dh_alc s) \<or> lane_change_state (dh_update i s) = LC_laneChangeStarting \<Longrightarrow>
      prev_lane_change (dh_alc (dh_update i s))"
    "prev_brake_pressed (dh_alc s) \<or> lane_change_state s = LC_preLaneChange \<and> brakePressed (dh_carstate i) \<Longrightarrow>
      prev_brake_pressed (dh_alc (dh_update i s))"
  using assms transition_memory [where i = i and s = "dh_read i s"]
  by (auto simp: dh_update_simps alc_update_state_def alc_reset_def)

lemma starting_cases:
  assumes "lane_change_state (dh_transition i s) = LC_laneChangeStarting" "lane_change_state s \<noteq> LC_laneChangeStarting"
  shows "lane_change_state s = LC_preLaneChange" "dh_lateral_active i" "one_blinker (dh_carstate i)"
    "\<not> below_lane_change_speed (dh_carstate i)" "\<not> dh_blindspot_detected i"
    "lane_change_direction (dh_transition i s) = get_lane_change_direction (dh_carstate i)"
    "torque_applied (dh_carstate i) \<or>
      auto_lane_change_allowed (alc_update_lane_change False (brakePressed (dh_carstate i)) (dh_alc s))"
  using assms
  by (auto simp: dh_transition_def pre_lane_change_def lane_change_off_def Let_def split: if_splits)

text \<open>
  C38. A lane change starts only when it may. It starts out of \<open>preLaneChange\<close>, with lateral
  control active, exactly one blinker on, at 20 mph or more, with neither a car in the blind spot
  nor a road edge on the side of the blinker, in the direction of the blinker; and either the driver
  is turning the wheel to that side, or an automatic mode is selected, the brake is not pressed and
  no lane change has been made since the blinker came on.
\<close>

theorem lane_change_starts_safely:
  assumes "lane_change_state s \<noteq> LC_laneChangeStarting" and "lane_change_state (dh_update i s) = LC_laneChangeStarting"
  shows "let cs = dh_carstate i in
    lane_change_state s = LC_preLaneChange \<and> dh_lateral_active i \<and> leftBlinker cs \<noteq> rightBlinker cs \<and>
    vEgo cs \<ge> LANE_CHANGE_SPEED_MIN \<and>
    (if leftBlinker cs then \<not> leftBlindspot cs \<and> \<not> dh_left_edge i \<and> lane_change_direction (dh_update i s) = Dir_left
     else \<not> rightBlindspot cs \<and> \<not> dh_right_edge i \<and> lane_change_direction (dh_update i s) = Dir_right) \<and>
    (torque_applied cs \<or> lane_change_set_timer (dh_alc (dh_read i s)) > 0 \<or> lane_change_set_timer (dh_alc (dh_read i s)) < -1) \<and>
    (torque_applied cs \<or> \<not> brakePressed cs \<and> \<not> prev_brake_pressed (dh_alc s) \<and> \<not> prev_lane_change (dh_alc s))"
  using starting_cases [where i = i and s = "dh_read i s"] assms
  by (auto simp: dh_update_simps Let_def one_blinker_def below_lane_change_speed_def dh_blindspot_detected_def
      get_lane_change_direction_def alc_update_lane_change_simps)

section \<open>Once for each signal\<close>

definition dh_run :: "dh_input list \<Rightarrow> desire_helper \<Rightarrow> desire_helper" where
  "dh_run inp s = fold dh_update inp s"

lemma dh_run_simps [simp]:
  "dh_run [] s = s" "dh_run (i # inp) s = dh_run inp (dh_update i s)"
  by (simp_all add: dh_run_def)

lemma dh_run_append: "dh_run (inp @ js) s = dh_run js (dh_run inp s)"
  by (simp add: dh_run_def)

definition stays_on :: "dh_input list \<Rightarrow> desire_helper \<Rightarrow> bool" where
  \<comment> \<open>the lane change is not called off in any of the frames\<close>
  "stays_on inp s \<longleftrightarrow> (\<forall>k. 0 < k \<and> k \<le> length inp \<longrightarrow> lane_change_state (dh_run (take k inp) s) \<noteq> LC_off)"

lemma stays_on_Cons: "stays_on (i # inp) s \<longleftrightarrow> lane_change_state (dh_update i s) \<noteq> LC_off \<and> stays_on inp (dh_update i s)"
proof
  assume *: "stays_on (i # inp) s"
  show "lane_change_state (dh_update i s) \<noteq> LC_off \<and> stays_on inp (dh_update i s)"
    unfolding stays_on_def
  proof (intro conjI allI impI)
    show "lane_change_state (dh_update i s) \<noteq> LC_off" using *[unfolded stays_on_def, rule_format, of 1] by simp
    fix k assume "0 < k \<and> k \<le> length inp"
    then show "lane_change_state (dh_run (take k inp) (dh_update i s)) \<noteq> LC_off"
      using *[unfolded stays_on_def, rule_format, of "Suc k"] by simp
  qed
next
  assume *: "lane_change_state (dh_update i s) \<noteq> LC_off \<and> stays_on inp (dh_update i s)"
  show "stays_on (i # inp) s"
    unfolding stays_on_def
  proof (intro allI impI)
    fix k assume "0 < k \<and> k \<le> length (i # inp)"
    with * show "lane_change_state (dh_run (take k (i # inp)) s) \<noteq> LC_off"
      by (cases k; cases "k = 1") (auto simp: stays_on_def)
  qed
qed

lemma memory_kept:
  "stays_on inp s \<Longrightarrow> prev_lane_change (dh_alc s) \<Longrightarrow> prev_lane_change (dh_alc (dh_run inp s))"
  "stays_on inp s \<Longrightarrow> prev_brake_pressed (dh_alc s) \<Longrightarrow> prev_brake_pressed (dh_alc (dh_run inp s))"
  by (induction inp arbitrary: s) (simp_all add: stays_on_Cons memory_step)

lemma memory_of_run:
  assumes "stays_on inp s" "k < length inp"
  shows "lane_change_state (dh_run (take (Suc k) inp) s) = LC_laneChangeStarting \<Longrightarrow> prev_lane_change (dh_alc (dh_run inp s))"
    "lane_change_state (dh_run (take k inp) s) = LC_preLaneChange \<Longrightarrow> brakePressed (dh_carstate (inp ! k)) \<Longrightarrow>
      prev_brake_pressed (dh_alc (dh_run inp s))"
  using assms
proof (induction inp arbitrary: s k)
  case (Cons i js)
  {
    case 1
    then have "lane_change_state (dh_update i s) \<noteq> LC_off" "stays_on js (dh_update i s)" by (simp_all add: stays_on_Cons)
    with 1 Cons.IH(1) [where s = "dh_update i s" and k = "k - 1"] memory_step(1) [where i = i and s = s] memory_kept(1) [where inp = js and s = "dh_update i s"]
    show ?case by (cases k) auto
  next
    case 2
    then have "lane_change_state (dh_update i s) \<noteq> LC_off" "stays_on js (dh_update i s)" by (simp_all add: stays_on_Cons)
    with 2 Cons.IH(2) [where s = "dh_update i s" and k = "k - 1"] memory_step(2) [where i = i and s = s] memory_kept(2) [where inp = js and s = "dh_update i s"]
    show ?case by (cases k) auto
  }
qed simp_all

text \<open>
  The car changes lanes by itself at most once for each signal, and not after the brake. When a
  lane change starts without the driver turning the wheel, then in no earlier frame since the signal
  was last called off has a lane change been under way, and in no frame in which one was being
  prepared was the brake pressed.
\<close>

theorem automatic_lane_change_once:
  assumes "stays_on inp s" and "lane_change_state (dh_run inp s) \<noteq> LC_laneChangeStarting"
    and "lane_change_state (dh_update i (dh_run inp s)) = LC_laneChangeStarting" and "\<not> torque_applied (dh_carstate i)"
  shows "\<forall>k < length inp. lane_change_state (dh_run (take (Suc k) inp) s) \<noteq> LC_laneChangeStarting \<and>
    \<not> (lane_change_state (dh_run (take k inp) s) = LC_preLaneChange \<and> brakePressed (dh_carstate (inp ! k)))"
proof -
  have "\<not> prev_brake_pressed (dh_alc (dh_run inp s)) \<and> \<not> prev_lane_change (dh_alc (dh_run inp s))"
    using starting_cases [where i = i and s = "dh_read i (dh_run inp s)"] assms(2-4)
    by (auto simp: dh_update_simps alc_update_lane_change_simps)
  with memory_of_run [OF assms(1)] show ?thesis by blast
qed

section \<open>Concrete runs\<close>

definition ex_lane_params :: lane_params where
  "ex_lane_params = \<lparr>p_AutoLaneChangeBsmDelay = False, p_AutoLaneChangeTimer = 1, p_LaneTurnDesire = False, p_LaneTurnValue = 19\<rparr>"

definition ex_signal :: dh_input where
  \<comment> \<open>the left blinker at 25 m/s with an automatic mode\<close>
  "ex_signal = \<lparr>dh_params = ex_lane_params, dh_carstate = cs_default\<lparr>vEgo := 25, leftBlinker := True\<rparr>, dh_lateral_active = True,
     dh_lane_change_prob = 1, dh_left_edge = False, dh_right_edge = False\<rparr>"

definition ex_lane :: "nat \<Rightarrow> lane_change_state_t \<Rightarrow> real \<Rightarrow> bool \<Rightarrow> desire_helper \<Rightarrow> bool" where
  "ex_lane n st w blinker s \<longleftrightarrow>
     lane_change_state s = st \<and> lane_change_timer s = 0 \<and> prev_one_blinker s = blinker \<and>
     lane_change_set_timer (dh_alc s) = 1 \<and> lane_change_wait_timer (dh_alc s) = w \<and> \<not> prev_brake_pressed (dh_alc s) \<and>
     \<not> prev_lane_change (dh_alc s) \<and> \<not> lane_change_bsm_delay (dh_alc s) \<and> alc_param_read_counter (dh_alc s) = n"

lemmas ex_lane_defs = ex_lane_def ex_signal_def ex_lane_params_def cs_default_def dh_update_simps dh_transition_def
  alc_update_params_def alc_read_params_def one_blinker_def below_lane_change_speed_def get_lane_change_direction_def

lemma ex_lane_0: "ex_lane 0 LC_off 0 False (dh_init ex_lane_params)"
  by (simp add: ex_lane_defs dh_init_def alc_init_def)

lemma ex_lane_1:
  assumes "ex_lane 0 LC_off 0 False s" shows "ex_lane 1 LC_preLaneChange 0 True (dh_update ex_signal s)"
  using assms by (simp add: ex_lane_defs alc_update_state_def alc_reset_def Let_def dh_update_def)

lemma ex_lane_2:
  assumes "ex_lane 1 LC_preLaneChange 0 True s" shows "ex_lane 2 LC_preLaneChange (1 / 20) True (dh_update ex_signal s)"
  using assms by (simp add: ex_lane_defs alc_update_state_def alc_reset_def Let_def dh_update_def pre_lane_change_def
      dh_blindspot_detected_def alc_update_lane_change_def update_lane_change_timers_def AUTO_LANE_CHANGE_TIMER_def
      update_allowed_def torque_applied_def)

lemma ex_lane_3:
  assumes "ex_lane 2 LC_preLaneChange (1 / 20) True s" shows "lane_change_state (dh_update ex_signal s) = LC_laneChangeStarting"
  using assms by (simp add: ex_lane_defs Let_def pre_lane_change_def dh_blindspot_detected_def alc_update_lane_change_def
      update_lane_change_timers_def AUTO_LANE_CHANGE_TIMER_def update_allowed_def torque_applied_def)

lemmas ex_lane_run = ex_lane_0 ex_lane_1 [OF ex_lane_0] ex_lane_2 [OF ex_lane_1 [OF ex_lane_0]]

lemma ex_no_torque: "\<not> torque_applied (dh_carstate ex_signal)"
  by (simp add: torque_applied_def ex_signal_def cs_default_def)

theorem lane_change_starts_safely_witness:
  "\<not> brakePressed (dh_carstate ex_signal) \<and> \<not> prev_brake_pressed (dh_alc (dh_run [ex_signal, ex_signal] (dh_init ex_lane_params)))"
  using lane_change_starts_safely [of "dh_run [ex_signal, ex_signal] (dh_init ex_lane_params)" ex_signal]
    ex_lane_3 [OF ex_lane_run(3)] ex_lane_run(3) ex_no_torque
  by (simp add: ex_lane_def Let_def)

theorem automatic_lane_change_once_witness:
  "lane_change_state (dh_run [ex_signal] (dh_init ex_lane_params)) \<noteq> LC_laneChangeStarting \<and>
   lane_change_state (dh_run [ex_signal, ex_signal] (dh_init ex_lane_params)) \<noteq> LC_laneChangeStarting"
proof -
  have st: "lane_change_state (dh_update ex_signal (dh_init ex_lane_params)) = LC_preLaneChange"
    "lane_change_state (dh_update ex_signal (dh_update ex_signal (dh_init ex_lane_params))) = LC_preLaneChange"
    using ex_lane_run(2,3) by (simp_all add: ex_lane_def)
  have "stays_on [ex_signal, ex_signal] (dh_init ex_lane_params)"
    using st by (simp add: stays_on_Cons) (simp add: stays_on_def)
  with automatic_lane_change_once [of "[ex_signal, ex_signal]" "dh_init ex_lane_params" ex_signal]
    ex_lane_3 [OF ex_lane_run(3)] ex_no_torque st
  have "\<forall>k < 2. lane_change_state (dh_run (take (Suc k) [ex_signal, ex_signal]) (dh_init ex_lane_params)) \<noteq> LC_laneChangeStarting"
    by simp
  from spec [OF this, of 0] spec [OF this, of 1] show ?thesis by simp
qed

end
