(* ===== verification/LongControl.thy ===== *)
theory LongControl
  imports CarState Returns
begin

text \<open>
  Longitudinal control: the PID controller of \<^verbatim>\<open>common/pid.py\<close>, the states of
  \<^verbatim>\<open>selfdrive/controls/lib/longcontrol.py\<close>, and the helpers of \<^verbatim>\<open>drive_helpers.py\<close> that
  limit the curvature and read accelerations and curvatures from a plan. Gains are lists of sample
  points; a list the code indexes at zero raises on the empty list.
\<close>

section \<open>PID controller\<close>

record pid =
  pid_k_p :: "(real \<times> real) list"
  pid_k_i :: "(real \<times> real) list"
  pid_k_d :: "(real \<times> real) list"
  pos_limit :: real
  neg_limit :: real
  i_dt :: real
  pid_speed :: real
  pid_p :: real
  pid_i :: real
  pid_d :: real
  pid_f :: real
  pid_control :: real

definition pid_reset :: "pid \<Rightarrow> pid" where
  "pid_reset c = c\<lparr>pid_p := 0, pid_i := 0, pid_d := 0, pid_f := 0, pid_control := 0\<rparr>"

definition set_limits :: "real \<Rightarrow> real \<Rightarrow> pid \<Rightarrow> pid" where
  "set_limits pos neg c = c\<lparr>pos_limit := pos, neg_limit := neg\<rparr>"

definition scalar_gain :: "real \<Rightarrow> (real \<times> real) list" where
  "scalar_gain k = [(0, k)]"

definition PIDController :: "(real \<times> real) list \<Rightarrow> (real \<times> real) list \<Rightarrow> (real \<times> real) list \<Rightarrow> real \<Rightarrow> real \<Rightarrow> real \<Rightarrow> pid" where
  "PIDController kp ki kd pos neg rate =
     pid_reset (set_limits pos neg \<lparr>pid_k_p = kp, pid_k_i = ki, pid_k_d = kd, pos_limit = 0, neg_limit = 0,
       i_dt = 1 / rate, pid_speed = 0, pid_p = 0, pid_i = 0, pid_d = 0, pid_f = 0, pid_control = 0\<rparr>)"

definition k_p :: "pid \<Rightarrow> real" where "k_p c = np_interp (pid_speed c) (pid_k_p c)"
definition k_i :: "pid \<Rightarrow> real" where "k_i c = np_interp (pid_speed c) (pid_k_i c)"
definition k_d :: "pid \<Rightarrow> real" where "k_d c = np_interp (pid_speed c) (pid_k_d c)"

definition pid_integrate :: "real \<Rightarrow> pid \<Rightarrow> pid" where
  "pid_integrate error c =
     (let i = pid_i c + k_i c * i_dt c * error;
          test_control = pid_p c + i + pid_d c + pid_f c;
          upper = (if test_control > pos_limit c then pid_i c else pos_limit c);
          lower = (if test_control < neg_limit c then pid_i c else neg_limit c)
      in c\<lparr>pid_i := np_clip i lower upper\<rparr>)"

definition pid_update :: "real \<Rightarrow> real \<Rightarrow> real \<Rightarrow> real \<Rightarrow> bool \<Rightarrow> pid \<Rightarrow> pid" where
  \<comment> \<open>error, error rate, speed, feedforward; the control is the field \<open>pid_control\<close>\<close>
  "pid_update error error_rate speed feedforward freeze_integrator c =
     (let c = c\<lparr>pid_speed := speed\<rparr>;
          c = c\<lparr>pid_p := k_p c * error, pid_d := k_d c * error_rate, pid_f := feedforward\<rparr>;
          c = (if \<not> freeze_integrator then pid_integrate error c else c)
      in c\<lparr>pid_control := np_clip (pid_p c + pid_i c + pid_d c + pid_f c) (neg_limit c) (pos_limit c)\<rparr>)"

section \<open>Longitudinal control\<close>

datatype long_ctrl_state = LCS_off | LCS_pid | LCS_stopping | LCS_starting

definition long_control_state_trans :: "bool \<Rightarrow> bool \<Rightarrow> long_ctrl_state \<Rightarrow> bool \<Rightarrow> bool \<Rightarrow> bool \<Rightarrow> long_ctrl_state" where
  \<comment> \<open>the first argument is \<open>CP_SP.enableGasInterceptor\<close>\<close>
  "long_control_state_trans gas_interceptor active st should_stop brake_pressed standing =
     (let standing = (standing \<and> \<not> gas_interceptor);
          starting_condition = (\<not> should_stop \<and> \<not> standing \<and> \<not> brake_pressed)
      in if \<not> active then LCS_off
         else case st of
             LCS_off \<Rightarrow> if \<not> starting_condition then LCS_stopping else LCS_pid
           | LCS_stopping \<Rightarrow> if starting_condition then LCS_pid else LCS_stopping
           | LCS_pid \<Rightarrow> if should_stop then LCS_stopping else LCS_pid
           | LCS_starting \<Rightarrow> LCS_starting)"

record long_car =
  lc_gas_interceptor :: bool
  lc_stopAccel :: real
  lc_ki :: "(real \<times> real) list"

record long_control =
  long_control_state :: long_ctrl_state
  lc_pid :: pid
  last_output_accel :: real

definition long_control_init :: "long_car \<Rightarrow> long_control" where
  \<comment> \<open>the default limits of the controller are \<open>1e308\<close> and \<open>-1e308\<close>\<close>
  "long_control_init cp =
     \<lparr>long_control_state = LCS_off,
      lc_pid = PIDController (scalar_gain 0) (lc_ki cp) (scalar_gain 0) (10 ^ 308) (- (10 ^ 308)) (1 / DT_CTRL),
      last_output_accel = 0\<rparr>"

definition long_control_reset :: "long_control \<Rightarrow> long_control" where
  "long_control_reset s = s\<lparr>lc_pid := pid_reset (lc_pid s)\<rparr>"

definition stopping_accel :: "real \<Rightarrow> real \<Rightarrow> real" where
  \<comment> \<open>the acceleration of the stopping state, from the last one\<close>
  "stopping_accel stopAccel accel = (if accel > stopAccel then min accel 0 - 1 * DT_CTRL else accel)"

definition long_control_update :: "long_car \<Rightarrow> bool \<Rightarrow> car_state \<Rightarrow> real \<Rightarrow> bool \<Rightarrow> real \<times> real \<Rightarrow> long_control \<Rightarrow> long_control" where
  \<comment> \<open>the output is the field \<open>last_output_accel\<close>\<close>
  "long_control_update cp active cs a_target should_stop limits s =
     (let s = s\<lparr>lc_pid := set_limits (snd limits) (fst limits) (lc_pid s),
                long_control_state := long_control_state_trans (lc_gas_interceptor cp) active (long_control_state s)
                  should_stop (brakePressed cs) (cruise_standstill (cruiseState cs))\<rparr>;
          (output, s) =
            (if long_control_state s = LCS_off then (0, long_control_reset s)
             else if long_control_state s = LCS_stopping
             then (stopping_accel (lc_stopAccel cp) (last_output_accel s), long_control_reset s)
             else let c = pid_update (a_target - aEgo cs) 0 (vEgo cs) a_target False (lc_pid s)
                  in (pid_control c, s\<lparr>lc_pid := c\<rparr>))
      in s\<lparr>last_output_accel := np_clip output (fst limits) (snd limits)\<rparr>)"

section \<open>Limits and plans\<close>

abbreviation (input) MIN_SPEED :: real where "MIN_SPEED \<equiv> 1"
abbreviation (input) MAX_CURVATURE :: real where "MAX_CURVATURE \<equiv> 2 / 10"
abbreviation (input) MIN_STABLE_DELAY :: real where "MIN_STABLE_DELAY \<equiv> 3 / 10"
abbreviation (input) MAX_LATERAL_JERK :: real where "MAX_LATERAL_JERK \<equiv> 5"
abbreviation (input) MAX_LATERAL_ACCEL_NO_ROLL :: real where "MAX_LATERAL_ACCEL_NO_ROLL \<equiv> 3"
abbreviation (input) ACCELERATION_DUE_TO_GRAVITY :: real where "ACCELERATION_DUE_TO_GRAVITY \<equiv> 981 / 100"

definition should_stop_at :: "real \<Rightarrow> real \<Rightarrow> bool" where
  "should_stop_at v_ego a_target \<longleftrightarrow> v_ego < 3 / 10 \<and> a_target < 1 / 10"

definition clamp :: "real \<Rightarrow> real \<Rightarrow> real \<Rightarrow> real \<times> bool" where
  "clamp val min_val max_val = (let c = np_clip val min_val max_val in (c, c \<noteq> val))"

definition smooth_value :: "real \<Rightarrow> real \<Rightarrow> real \<Rightarrow> real \<Rightarrow> real" where
  "smooth_value val prev_val tau dt =
     (let alpha = (if tau > 0 then 1 - exp (- dt / tau) else 1) in alpha * val + (1 - alpha) * prev_val)"

definition clip_curvature :: "real \<Rightarrow> real \<Rightarrow> real \<Rightarrow> real \<Rightarrow> real \<times> bool" where
  "clip_curvature v_ego prev_curvature new_curvature roll =
     (let v_ego = max v_ego MIN_SPEED;
          max_curvature_rate = MAX_LATERAL_JERK / v_ego\<^sup>2;
          new = np_clip new_curvature (prev_curvature - max_curvature_rate * DT_CTRL) (prev_curvature + max_curvature_rate * DT_CTRL);
          roll_compensation = roll * ACCELERATION_DUE_TO_GRAVITY;
          max_lat_accel = MAX_LATERAL_ACCEL_NO_ROLL + roll_compensation;
          min_lat_accel = - MAX_LATERAL_ACCEL_NO_ROLL + roll_compensation;
          (new, limited_accel) = clamp new (min_lat_accel / v_ego\<^sup>2) (max_lat_accel / v_ego\<^sup>2);
          (new, limited_max_curv) = clamp new (- MAX_CURVATURE) MAX_CURVATURE
      in (new, limited_accel \<or> limited_max_curv))"

definition head_of :: "'a list \<Rightarrow> 'a option" where
  \<comment> \<open>\<open>xs[0]\<close>\<close>
  "head_of xs = (case xs of [] \<Rightarrow> None | x # _ \<Rightarrow> Some x)"

definition get_accel_from_plan :: "real list \<Rightarrow> real list \<Rightarrow> real list \<Rightarrow> real \<Rightarrow> real option" where
  "get_accel_from_plan speeds accels t_idxs action_t =
     (if length speeds = length t_idxs then do {
        v_now \<leftarrow> head_of speeds;
        a_now \<leftarrow> head_of accels;
        let v_target = (if action_t < MIN_STABLE_DELAY
          then v_now + (action_t / MIN_STABLE_DELAY) * (np_interp MIN_STABLE_DELAY (zip t_idxs speeds) - v_now)
          else np_interp action_t (zip t_idxs speeds));
        Some (2 * (v_target - v_now) / action_t - a_now)
      } else Some 0)"

definition curv_from_psis :: "real \<Rightarrow> real \<Rightarrow> real \<Rightarrow> real \<Rightarrow> real" where
  "curv_from_psis psi_target psi_rate vego action_t =
     (let vego = max vego MIN_SPEED; curv_from_psi = psi_target / (vego * action_t)
      in 2 * curv_from_psi - psi_rate / vego)"

definition get_curvature_from_plan :: "real list \<Rightarrow> real list \<Rightarrow> real list \<Rightarrow> real \<Rightarrow> real \<Rightarrow> real option" where
  "get_curvature_from_plan yaws yaw_rates t_idxs vego action_t =
     do {
       let psi_target = (if action_t < MIN_STABLE_DELAY
         then (action_t / MIN_STABLE_DELAY) * np_interp MIN_STABLE_DELAY (zip t_idxs yaws)
         else np_interp action_t (zip t_idxs yaws));
       psi_rate \<leftarrow> head_of yaw_rates;
       Some (curv_from_psis psi_target psi_rate vego action_t)
     }"

section \<open>The controller stays in its limits\<close>

definition in_limits :: "real \<Rightarrow> real \<Rightarrow> real \<Rightarrow> bool" where
  "in_limits lo hi x \<longleftrightarrow> lo \<le> x \<and> x \<le> hi"

lemma np_clip_in: "lo \<le> hi \<Longrightarrow> in_limits lo hi (np_clip x lo hi)"
  by (simp add: in_limits_def np_clip_lower)

lemma pid_integrate_bounds:
  fixes error :: real
  assumes "neg_limit c \<le> pid_i c" "pid_i c \<le> pos_limit c"
  defines "test \<equiv> pid_p c + (pid_i c + k_i c * i_dt c * error) + pid_d c + pid_f c"
  shows "in_limits (neg_limit c) (pos_limit c) (pid_i (pid_integrate error c))"
    "test > pos_limit c \<Longrightarrow> pid_i (pid_integrate error c) \<le> pid_i c"
    "test < neg_limit c \<Longrightarrow> pid_i c \<le> pid_i (pid_integrate error c)"
  using assms by (auto simp: pid_integrate_def Let_def in_limits_def np_clip_def min_def max_def)

lemma pid_update_simps:
  "pos_limit (pid_update e r v f fr c) = pos_limit c" "neg_limit (pid_update e r v f fr c) = neg_limit c"
  "pid_k_i (pid_update e r v f fr c) = pid_k_i c" "i_dt (pid_update e r v f fr c) = i_dt c"
  by (simp_all add: pid_update_def pid_integrate_def Let_def)

lemma pid_update_i:
  "pid_i (pid_update e r v f False c) =
    pid_i (pid_integrate e (c\<lparr>pid_speed := v, pid_p := np_interp v (pid_k_p c) * e, pid_d := np_interp v (pid_k_d c) * r, pid_f := f\<rparr>))"
  by (simp add: pid_update_def pid_integrate_def Let_def k_p_def k_d_def k_i_def)

text \<open>
  The PID controller stays in its limits and does not wind up. With the lower limit below the
  upper and the integral inside, an update keeps the control and the integral between the limits,
  and when the control that the new integral would give exceeds a limit, the integral does not move
  further in that direction.
\<close>

theorem pid_bounded:
  assumes "neg_limit c \<le> pid_i c" and "pid_i c \<le> pos_limit c"
  shows "let c' = pid_update e r v f False c;
      wanted = np_interp v (pid_k_p c) * e + (pid_i c + np_interp v (pid_k_i c) * i_dt c * e) + np_interp v (pid_k_d c) * r + f
    in in_limits (neg_limit c) (pos_limit c) (pid_control c') \<and> in_limits (neg_limit c) (pos_limit c) (pid_i c') \<and>
      (wanted > pos_limit c \<longrightarrow> pid_i c' \<le> pid_i c) \<and> (wanted < neg_limit c \<longrightarrow> pid_i c \<le> pid_i c')"
proof -
  let ?c = "c\<lparr>pid_speed := v, pid_p := np_interp v (pid_k_p c) * e, pid_d := np_interp v (pid_k_d c) * r, pid_f := f\<rparr>"
  have "in_limits (neg_limit c) (pos_limit c) (pid_control (pid_update e r v f False c))"
    using assms by (simp add: pid_update_def pid_integrate_def Let_def np_clip_in)
  with pid_integrate_bounds [of ?c e] assms show ?thesis
    unfolding Let_def pid_update_i by (simp add: k_i_def)
qed

section \<open>Stopping\<close>

lemma update_stopping:
  fixes cp :: long_car
  assumes "long_control_state s \<noteq> LCS_starting" "lo \<le> hi"
  defines "s' \<equiv> \<lambda>cs a. long_control_update cp True cs a True (lo, hi) s"
  shows "long_control_state (s' cs a) = LCS_stopping"
    "last_output_accel (s' cs a) = np_clip (stopping_accel (lc_stopAccel cp) (last_output_accel s)) lo hi"
  using assms by (cases "long_control_state s"; simp add: long_control_update_def long_control_state_trans_def
      long_control_reset_def Let_def)+

definition stop_frames :: "long_car \<Rightarrow> real \<times> real \<Rightarrow> (car_state \<times> real) list \<Rightarrow> long_control \<Rightarrow> long_control" where
  \<comment> \<open>frames in which the plan says to stop\<close>
  "stop_frames cp limits fs s = fold (\<lambda>(cs, a). long_control_update cp True cs a True limits) fs s"

lemma stop_above:
  fixes x a st n :: real
  assumes "x \<le> max st (min a 0 - 1 / 100)" "n = 0 \<or> a \<le> max st (- (n / 100))" "0 \<le> n"
  shows "x \<le> max st (- ((n + 1) / 100))"
  using assms by (auto simp: max_def min_def add_divide_distrib split: if_splits)

lemma stop_below:
  fixes x a st lo b :: real
  assumes "max lo (min a (st - 1 / 100)) \<le> x" "a = b \<or> max lo (min b (st - 1 / 100)) \<le> a"
  shows "max lo (min b (st - 1 / 100)) \<le> x"
  using assms by (auto simp: max_def min_def split: if_splits)

text \<open>
  A stopping car brakes to the stop acceleration. While longitudinal control is active and the
  plan says to stop, whatever the car and the driver do, after \<open>n\<close> frames the output is at most
  \<open>- n / 100\<close> m/s\<open>\<^sup>2\<close> or the stop acceleration, whichever is higher; and it never falls below
  the lower limit, nor more than a step below the stop acceleration unless it was there already.
\<close>

theorem stopping_reaches_stop_accel:
  assumes "lo \<le> lc_stopAccel cp - 1 / 100" and "0 \<le> hi" and "lc_stopAccel cp \<le> 0"
    and "long_control_state s \<noteq> LCS_starting" and "fs \<noteq> []"
  shows "last_output_accel (stop_frames cp (lo, hi) fs s) \<le> max (lc_stopAccel cp) (- (real (length fs) / 100)) \<and>
    max lo (min (last_output_accel s) (lc_stopAccel cp - 1 / 100)) \<le> last_output_accel (stop_frames cp (lo, hi) fs s)"
proof -
  have step: "np_clip (stopping_accel (lc_stopAccel cp) a) lo hi \<le> max (lc_stopAccel cp) (min a 0 - 1 / 100)"
    "max lo (min a (lc_stopAccel cp - 1 / 100)) \<le> np_clip (stopping_accel (lc_stopAccel cp) a) lo hi" for a
    using assms(1-3) by (auto simp: stopping_accel_def np_clip_def min_def max_def)
  have "fs \<noteq> [] \<longrightarrow> long_control_state (stop_frames cp (lo, hi) fs s) = LCS_stopping \<and>
    last_output_accel (stop_frames cp (lo, hi) fs s) \<le> max (lc_stopAccel cp) (- (real (length fs) / 100)) \<and>
    max lo (min (last_output_accel s) (lc_stopAccel cp - 1 / 100)) \<le> last_output_accel (stop_frames cp (lo, hi) fs s)"
  proof (induction fs rule: rev_induct)
    case (snoc f fs)
    let ?s = "stop_frames cp (lo, hi) fs s"
    have ok: "long_control_state ?s \<noteq> LCS_starting"
      using snoc assms(4) by (cases "fs = []") (auto simp: stop_frames_def)
    have upd: "stop_frames cp (lo, hi) (fs @ [f]) s = long_control_update cp True (fst f) (snd f) True (lo, hi) ?s"
      by (simp add: stop_frames_def split_def)
    note upd2 = update_stopping [OF ok, of lo hi cp "fst f" "snd f"]
    have lohi: "lo \<le> hi" using assms(1-3) by linarith
    let ?x = "last_output_accel (stop_frames cp (lo, hi) (fs @ [f]) s)"
    have x: "?x \<le> max (lc_stopAccel cp) (min (last_output_accel ?s) 0 - 1 / 100)"
      "max lo (min (last_output_accel ?s) (lc_stopAccel cp - 1 / 100)) \<le> ?x"
      unfolding upd upd2(2) [OF lohi] by (rule step)+
    have "?x \<le> max (lc_stopAccel cp) (- ((real (length fs) + 1) / 100))"
      by (rule stop_above [OF x(1)]) (use snoc in auto)
    moreover have "max lo (min (last_output_accel s) (lc_stopAccel cp - 1 / 100)) \<le> ?x"
      by (rule stop_below [OF x(2)]) (use snoc in \<open>cases "fs = []"; auto simp: stop_frames_def\<close>)
    ultimately show ?case using upd2(1) [OF lohi] by (simp add: upd add.commute)
  qed simp
  with assms(5) show ?thesis by simp
qed

section \<open>Curvature\<close>

lemma clip_within:
  fixes x lo hi a b :: real
  assumes "in_limits lo hi x" "lo \<le> 0" "0 \<le> hi" "0 \<le> b"
  shows "in_limits lo hi (np_clip x (- b) b)"
  using assms by (auto simp: in_limits_def np_clip_def min_def max_def)

lemma clip_near:
  fixes x p d lo hi :: real
  assumes "\<bar>x - p\<bar> \<le> d" "in_limits lo hi p"
  shows "\<bar>np_clip x lo hi - p\<bar> \<le> d"
  using assms by (auto simp: in_limits_def np_clip_def min_def max_def abs_le_iff)

lemma clip_changes:
  fixes x lo hi b :: real
  assumes "lo \<le> 0" "0 \<le> hi" "0 \<le> b"
  shows "(np_clip x lo hi \<noteq> x \<or> np_clip (np_clip x lo hi) (- b) b \<noteq> np_clip x lo hi) = (\<not> (\<bar>x\<bar> \<le> b \<and> in_limits lo hi x))"
proof -
  have a: "np_clip x lo hi = x \<longleftrightarrow> in_limits lo hi x"
    using assms by (auto simp: in_limits_def np_clip_def min_def max_def)
  have "np_clip x (- b) b = x \<longleftrightarrow> \<bar>x\<bar> \<le> b" using assms(3) by (auto simp: np_clip_def min_def max_def abs_le_iff)
  with a show ?thesis by auto
qed

definition lateral_limits :: "real \<Rightarrow> real \<Rightarrow> real \<Rightarrow> bool" where
  \<comment> \<open>the lateral acceleration, less what the roll of the road gives, is within the ISO limit\<close>
  "lateral_limits v roll c \<longleftrightarrow>
     in_limits ((roll * ACCELERATION_DUE_TO_GRAVITY - MAX_LATERAL_ACCEL_NO_ROLL) / (max v MIN_SPEED)\<^sup>2)
       ((roll * ACCELERATION_DUE_TO_GRAVITY + MAX_LATERAL_ACCEL_NO_ROLL) / (max v MIN_SPEED)\<^sup>2) c"

definition jerk_step :: "real \<Rightarrow> real" where
  \<comment> \<open>how far the lateral jerk limit lets the curvature move in a frame\<close>
  "jerk_step v = MAX_LATERAL_JERK / (max v MIN_SPEED)\<^sup>2 * DT_CTRL"

text \<open>
  The curvature command respects its limits. It is never above the largest curvature; on roads
  whose roll does not take more than 3 m/s\<open>\<^sup>2\<close> it keeps the lateral acceleration within 3
  m/s\<open>\<^sup>2\<close> of what the roll gives; from a curvature that was within the limits it moves by no
  more than the lateral jerk allows in one frame; and a curvature within all the limits is passed on
  as it is, and only then without being reported as limited.
\<close>

theorem curvature_limited:
  assumes "\<bar>roll * ACCELERATION_DUE_TO_GRAVITY\<bar> \<le> MAX_LATERAL_ACCEL_NO_ROLL"
  shows "let (c, limited) = clip_curvature v prev new roll in
    \<bar>c\<bar> \<le> MAX_CURVATURE \<and> lateral_limits v roll c \<and>
    (\<bar>prev\<bar> \<le> MAX_CURVATURE \<and> lateral_limits v roll prev \<longrightarrow> \<bar>c - prev\<bar> \<le> jerk_step v) \<and>
    (\<bar>new - prev\<bar> \<le> jerk_step v \<longrightarrow> (limited \<longleftrightarrow> \<not> (\<bar>new\<bar> \<le> MAX_CURVATURE \<and> lateral_limits v roll new)) \<and>
      (\<not> limited \<longrightarrow> c = new))"
proof -
  let ?V = "(max v MIN_SPEED)\<^sup>2"
  define lo where "lo = (roll * ACCELERATION_DUE_TO_GRAVITY - MAX_LATERAL_ACCEL_NO_ROLL) / ?V"
  define hi where "hi = (roll * ACCELERATION_DUE_TO_GRAVITY + MAX_LATERAL_ACCEL_NO_ROLL) / ?V"
  have V: "0 < ?V" by (simp add: max_def)
  have b: "lo \<le> 0" "0 \<le> hi"
    using assms(1) V by (auto simp: lo_def hi_def abs_le_iff divide_nonpos_pos)
  define x where "x = np_clip new (prev - jerk_step v) (prev + jerk_step v)"
  define y where "y = np_clip x lo hi"
  define c where "c = np_clip y (- MAX_CURVATURE) MAX_CURVATURE"
  have step: "0 \<le> jerk_step v" using V by (simp add: jerk_step_def)
  have eq: "clip_curvature v prev new roll = (c, y \<noteq> x \<or> c \<noteq> y)"
    by (simp add: clip_curvature_def clamp_def c_def y_def x_def jerk_step_def lo_def hi_def Let_def algebra_simps)
  have y: "in_limits lo hi y" unfolding y_def using b by (intro np_clip_in) linarith
  have c: "in_limits lo hi c" unfolding c_def by (rule clip_within [OF y b]) simp
  have small: "\<bar>c\<bar> \<le> MAX_CURVATURE" by (auto simp: c_def np_clip_def min_def max_def)
  have near: "\<bar>c - prev\<bar> \<le> jerk_step v" if "\<bar>prev\<bar> \<le> MAX_CURVATURE" "in_limits lo hi prev"
  proof -
    have "\<bar>x - prev\<bar> \<le> jerk_step v" using step by (auto simp: x_def np_clip_def min_def max_def)
    from clip_near [OF this that(2)] have "\<bar>y - prev\<bar> \<le> jerk_step v" by (simp add: y_def)
    moreover have "in_limits (- MAX_CURVATURE) MAX_CURVATURE prev" using that(1) unfolding in_limits_def by linarith
    ultimately show ?thesis unfolding c_def by (rule clip_near)
  qed
  have free: "x = new" if "\<bar>new - prev\<bar> \<le> jerk_step v" using that by (auto simp: x_def np_clip_def min_def max_def)
  have lim: "(y \<noteq> new \<or> c \<noteq> y) = (\<not> (\<bar>new\<bar> \<le> MAX_CURVATURE \<and> in_limits lo hi new))" if "x = new"
    unfolding c_def that y_def by (rule clip_changes [OF b]) simp
  show ?thesis
    unfolding eq Let_def prod.case lateral_limits_def lo_def [symmetric] hi_def [symmetric]
    using c small near free lim by auto
qed

section \<open>Concrete values\<close>

theorem pid_bounded_witness:
  "let c = PIDController (scalar_gain 1) (scalar_gain 1) (scalar_gain 0) 1 (-1) 100
   in in_limits (-1) 1 (pid_control (pid_update 5 0 10 0 False c)) \<and> pid_i (pid_update 5 0 10 0 False c) \<le> 0"
  using pid_bounded [of "PIDController (scalar_gain 1) (scalar_gain 1) (scalar_gain 0) 1 (-1) 100" 5 0 10 0]
  by (simp add: PIDController_def scalar_gain_def pid_reset_def set_limits_def Let_def)

definition ex_long_car :: long_car where
  "ex_long_car = \<lparr>lc_gas_interceptor = False, lc_stopAccel = -2, lc_ki = [(0, 1)]\<rparr>"

theorem stopping_reaches_stop_accel_witness:
  "last_output_accel (stop_frames ex_long_car (-3, 2) (replicate 200 (cs_default, 1)) (long_control_init ex_long_car)) \<le> -2"
proof -
  have "long_control_state (long_control_init ex_long_car) = LCS_off" "lc_stopAccel ex_long_car = -2"
    "replicate 200 (cs_default, 1 :: real) \<noteq> []" "length (replicate 200 (cs_default, 1 :: real)) = 200"
    by (simp_all add: long_control_init_def ex_long_car_def)
  with stopping_reaches_stop_accel [of "-3" ex_long_car 2 "long_control_init ex_long_car" "replicate 200 (cs_default, 1)"]
  show ?thesis by (simp)
qed

theorem curvature_limited_witness: "\<bar>fst (clip_curvature 20 0 1 0)\<bar> \<le> MAX_CURVATURE \<and> lateral_limits 20 0 (fst (clip_curvature 20 0 1 0))"
  using curvature_limited [of 0 20 0 1] by (simp add: split_def Let_def)

end
