(* ===== verification/ByteStrings.thy ===== *)
theory ByteStrings
  imports Main "HOL-Library.Word" "HOL-Library.Sublist"
begin

text \<open>
  Byte strings: the operations of Python's \<open>bytes\<close> that the protocol code uses
  (\<open>replace\<close>, \<open>find\<close>, \<open>split\<close> at the first separator, little endian integers).
  Substrings to look for are not empty.
\<close>

type_synonym byte = "8 word"

function bytes_replace :: "'a list \<Rightarrow> 'a list \<Rightarrow> 'a list \<Rightarrow> 'a list" where
  \<comment> \<open>\<open>xs.replace(pat, rep)\<close>: from the left, without overlaps\<close>
  "bytes_replace pat rep xs =
     (case xs of [] \<Rightarrow> []
      | y # ys \<Rightarrow> if pat \<noteq> [] \<and> prefix pat xs then rep @ bytes_replace pat rep (drop (length pat) xs)
                else y # bytes_replace pat rep ys)"
  by pat_completeness auto
termination
  by (relation "measure (\<lambda>(pat, rep, xs). length xs)") auto

declare bytes_replace.simps [simp del]

fun bytes_find :: "'a list \<Rightarrow> 'a list \<Rightarrow> nat option" where
  \<comment> \<open>\<open>xs.find(pat)\<close>; a miss is \<open>-1\<close> in the source\<close>
  "bytes_find pat [] = None"
| "bytes_find pat (x # xs) = (if prefix pat (x # xs) then Some 0 else map_option Suc (bytes_find pat xs))"

definition split_first :: "'a \<Rightarrow> 'a list \<Rightarrow> 'a list \<times> 'a list" where
  \<comment> \<open>\<open>xs.split(c, 1)\<close> of a string that contains \<open>c\<close>\<close>
  "split_first c xs = (takeWhile (\<lambda>x. x \<noteq> c) xs, tl (dropWhile (\<lambda>x. x \<noteq> c) xs))"

definition nat_of_le :: "byte list \<Rightarrow> nat" where
  "nat_of_le bs = foldr (\<lambda>b n. unat b + 256 * n) bs 0"

definition le_of_nat2 :: "nat \<Rightarrow> byte list" where
  \<comment> \<open>\<open>pack('<H', n)\<close> for \<open>n < 65536\<close>\<close>
  "le_of_nat2 n = [of_nat (n mod 256), of_nat (n div 256 mod 256)]"

lemma bytes_replace_Nil [simp]: "bytes_replace pat rep [] = []"
  by (simp add: bytes_replace.simps)

lemma bytes_replace_Cons:
  "bytes_replace pat rep (x # xs) =
    (if pat \<noteq> [] \<and> prefix pat (x # xs) then rep @ bytes_replace pat rep (drop (length pat) (x # xs))
     else x # bytes_replace pat rep xs)"
  by (subst bytes_replace.simps) simp

lemma replace_single: "bytes_replace [c] rep xs = concat (map (\<lambda>x. if x = c then rep else [x]) xs)"
  by (induction xs) (auto simp: bytes_replace_Cons)

lemma replace_pair_match: "bytes_replace [a, b] rep (a # b # xs) = rep @ bytes_replace [a, b] rep xs"
  by (simp add: bytes_replace_Cons [of "[a, b]" rep a])

lemma replace_pair_other: "x \<noteq> a \<Longrightarrow> bytes_replace [a, b] rep (x # xs) = x # bytes_replace [a, b] rep xs"
  by (simp add: bytes_replace_Cons [of "[a, b]" rep x])

lemma replace_pair_other2: "y \<noteq> b \<Longrightarrow> bytes_replace [a, b] rep (a # y # xs) = a # bytes_replace [a, b] rep (y # xs)"
  by (simp add: bytes_replace_Cons [of "[a, b]" rep a])

lemma length_le_of_nat2 [simp]: "length (le_of_nat2 n) = 2"
  by (simp add: le_of_nat2_def)

lemma find_self: "pat \<noteq> [] \<Longrightarrow> prefix pat xs \<Longrightarrow> bytes_find pat xs = Some 0"
  by (cases xs) auto

lemma find_bound: "bytes_find pat xs = Some k \<Longrightarrow> k < length xs"
  by (induction xs arbitrary: k) (auto split: if_splits)

lemma split_first_append:
  assumes "c \<notin> set xs" shows "split_first c (xs @ c # ys) = (xs, ys)"
  using assms by (induction xs) (auto simp: split_first_def)

lemma split_unique:
  assumes "c \<notin> set a" "c \<notin> set a'" "a @ c # b = a' @ c # b'"
  shows "a = a' \<and> b = b'"
proof -
  have "(a, b) = split_first c (a @ c # b)" by (rule split_first_append [OF assms(1), symmetric])
  also have "\<dots> = split_first c (a' @ c # b')" unfolding assms(3) ..
  also have "\<dots> = (a', b')" by (rule split_first_append [OF assms(2)])
  finally show ?thesis by blast
qed

end
