(* ===== verification/Hdlc.thy ===== *)
theory Hdlc
  imports ByteStrings
begin

unbundle bit_operations_syntax

text \<open>
  The diagnostic protocol of the modem, \<^verbatim>\<open>system/qcomgpsd/modemdiag.py\<close>: the table driven CRC,
  the HDLC frames, and the receiver that cuts the byte stream of the serial port into frames. The
  chunks that reads of the port return are the input; running out of them is waiting.
\<close>

section \<open>CRC\<close>

definition crc_shift :: "nat \<Rightarrow> nat \<Rightarrow> nat" where
  "crc_shift poly crc = (if odd crc then drop_bit 1 crc XOR poly else drop_bit 1 crc)"

definition gen_crc16_reflected_table :: "nat \<Rightarrow> nat list" where
  "gen_crc16_reflected_table poly = map (\<lambda>i. (crc_shift poly ^^ 8) i) [0..<256]"

definition CRC16_X25_TABLE :: "nat list" where
  "CRC16_X25_TABLE = gen_crc16_reflected_table 0x8408"

definition crc_byte :: "byte \<Rightarrow> nat \<Rightarrow> nat" where
  "crc_byte b crc = CRC16_X25_TABLE ! ((crc XOR unat b) AND 0xFF) XOR drop_bit 8 crc"

definition crc16_x25 :: "byte list \<Rightarrow> nat" where
  "crc16_x25 data = fold crc_byte data 0xFFFF XOR 0xFFFF"

section \<open>Frames\<close>

abbreviation ESCAPE_CHAR :: byte where "ESCAPE_CHAR \<equiv> 0x7d"
abbreviation TRAILER_CHAR :: byte where "TRAILER_CHAR \<equiv> 0x7e"

datatype diag_error = Diag_AssertionError | Diag_IndexError

definition hdlc_encapsulate :: "byte list \<Rightarrow> byte list" where
  "hdlc_encapsulate payload =
     (let payload = payload @ le_of_nat2 (crc16_x25 payload);
          payload = bytes_replace [ESCAPE_CHAR] [ESCAPE_CHAR, ESCAPE_CHAR XOR 0x20] payload;
          payload = bytes_replace [TRAILER_CHAR] [ESCAPE_CHAR, TRAILER_CHAR XOR 0x20] payload
      in payload @ [TRAILER_CHAR])"

definition hdlc_decapsulate :: "byte list \<Rightarrow> diag_error + byte list" where
  "hdlc_decapsulate payload =
     (if length payload < 3 then Inl Diag_AssertionError
      else if last payload \<noteq> TRAILER_CHAR then Inl Diag_AssertionError
      else let payload = butlast payload;
               payload = bytes_replace [ESCAPE_CHAR, TRAILER_CHAR XOR 0x20] [TRAILER_CHAR] payload;
               payload = bytes_replace [ESCAPE_CHAR, ESCAPE_CHAR XOR 0x20] [ESCAPE_CHAR] payload;
               body = take (length payload - 2) payload
           in if drop (length payload - 2) payload \<noteq> le_of_nat2 (crc16_x25 body) then Inl Diag_AssertionError
              else Inr body)"

section \<open>The receiver\<close>

fun read_until_trailer :: "byte list \<Rightarrow> byte list list \<Rightarrow> (byte list \<times> byte list list) option" where
  \<comment> \<open>the loop of \<open>recv\<close>: the bytes read so far, joined, and the chunks left; the test is on the last chunk\<close>
  "read_until_trailer last_chunk chunks =
     (if TRAILER_CHAR \<in> set last_chunk then Some (last_chunk, chunks)
      else case chunks of [] \<Rightarrow> None
           | raw # rest \<Rightarrow> map_option (\<lambda>(joined, left). (last_chunk @ joined, left)) (read_until_trailer raw rest))"

declare read_until_trailer.simps [simp del]

definition recv :: "byte list \<Rightarrow> byte list list \<Rightarrow>
    ((diag_error + byte \<times> byte list) \<times> byte list \<times> byte list list) option" where
  \<comment> \<open>the message or the exception, the new \<open>pend\<close> and the chunks left\<close>
  "recv pend chunks =
     (case read_until_trailer pend chunks of
        None \<Rightarrow> None
      | Some (raw, rest) \<Rightarrow>
          let (raw_payload, pend) = split_first TRAILER_CHAR raw in
          Some (case hdlc_decapsulate (raw_payload @ [TRAILER_CHAR]) of
                  Inl e \<Rightarrow> Inl e
                | Inr [] \<Rightarrow> Inl Diag_IndexError
                | Inr (opcode # payload) \<Rightarrow> Inr (opcode, payload),
                pend, rest))"

definition send :: "byte \<Rightarrow> byte list \<Rightarrow> byte list" where
  \<comment> \<open>the bytes written to the port\<close>
  "send packet_type packet_payload = hdlc_encapsulate (packet_type # packet_payload)"

section \<open>The table is the polynomial division\<close>

definition crc_bitwise :: "byte \<Rightarrow> nat \<Rightarrow> nat" where
  \<comment> \<open>the reference: the byte enters at the low end and is divided bit by bit\<close>
  "crc_bitwise b crc = (crc_shift 0x8408 ^^ 8) (crc XOR unat b)"

lemma xor_cancel: "(p :: nat) XOR (p XOR z) = z"
  by (simp add: xor.assoc [symmetric])

lemma crc_shift_xor: "crc_shift p (x XOR y) = crc_shift p x XOR crc_shift p y"
  by (auto simp: crc_shift_def drop_bit_xor ac_simps even_xor_iff xor_cancel)

lemma crc_shift_funpow_xor: "(crc_shift p ^^ n) (x XOR y) = (crc_shift p ^^ n) x XOR (crc_shift p ^^ n) y"
  by (induction n) (simp_all add: crc_shift_xor)

lemma crc_shift_high: "n \<le> m \<Longrightarrow> (crc_shift p ^^ n) (push_bit m x) = push_bit (m - n) x"
proof (induction n)
  case (Suc n)
  then have "push_bit (m - n) x = 2 * push_bit (m - Suc n) x"
    by (simp add: push_bit_eq_mult flip: power_Suc) (metis Suc_diff_Suc Suc_le_lessD mult.left_commute power_Suc)
  with Suc show ?case by (simp add: crc_shift_def drop_bit_Suc)
qed simp

lemma byte_and: "(x :: nat) AND 0xFF = take_bit 8 x"
  by (simp add: take_bit_eq_mask mask_eq_exp_minus_1)

lemma unat_byte: "take_bit 8 (unat (b :: byte)) = unat b" "drop_bit 8 (unat (b :: byte)) = 0"
proof -
  have "unat b < 2 ^ LENGTH(8)" by (rule unsigned_less)
  then show "take_bit 8 (unat b) = unat b" "drop_bit 8 (unat b) = 0"
    by (simp_all add: take_bit_eq_mod drop_bit_eq_div)
qed

lemma table_entry: "i < 256 \<Longrightarrow> CRC16_X25_TABLE ! i = (crc_shift 0x8408 ^^ 8) i"
  by (simp add: CRC16_X25_TABLE_def gen_crc16_reflected_table_def)

lemma crc_byte_bitwise: "crc_byte b crc = crc_bitwise b crc"
proof -
  let ?x = "crc XOR unat b"
  have split: "?x = take_bit 8 ?x XOR push_bit 8 (drop_bit 8 ?x)"
    by (rule bit_eqI, rename_tac n, case_tac "n < 8") (auto simp: bit_simps not_less)
  have "(crc_shift 0x8408 ^^ 8) (take_bit 8 ?x XOR push_bit 8 (drop_bit 8 ?x)) =
      (crc_shift 0x8408 ^^ 8) (take_bit 8 ?x) XOR push_bit (8 - 8) (drop_bit 8 ?x)"
    by (simp only: crc_shift_funpow_xor crc_shift_high order_refl)
  then have "(crc_shift 0x8408 ^^ 8) ?x = (crc_shift 0x8408 ^^ 8) (take_bit 8 ?x) XOR drop_bit 8 ?x"
    unfolding split [symmetric] by (simp only: diff_self_eq_0 push_bit_0_id id_apply)
  moreover have "take_bit 8 ?x < 256" by (simp add: take_bit_eq_mod)
  ultimately show ?thesis
    unfolding crc_byte_def crc_bitwise_def byte_and by (simp add: table_entry drop_bit_xor unat_byte)
qed

lemma crc16_bitwise: "crc16_x25 data = fold crc_bitwise data 0xFFFF XOR 0xFFFF"
proof -
  have "crc_byte = crc_bitwise" by (intro ext) (rule crc_byte_bitwise)
  then show ?thesis by (simp add: crc16_x25_def)
qed

text \<open>
  The table driven CRC is the bitwise one. For any data, the checksum computed with the generated
  table is the one of the division of the data by the polynomial, bit by bit.
\<close>

theorem crc_table_correct: "crc16_x25 data = fold crc_bitwise data 0xFFFF XOR 0xFFFF"
  by (rule crc16_bitwise)

section \<open>The checksum fits in its field\<close>

lemma take_bit_16: "(x :: nat) < 65536 \<longleftrightarrow> take_bit 16 x = x"
  by (simp add: take_bit_nat_eq_self_iff)

lemma crc_shift_bound: "x < 65536 \<Longrightarrow> crc_shift 0x8408 x < 65536"
  by (auto simp: crc_shift_def take_bit_16 take_bit_drop_bit) (simp_all add: take_bit_eq_mod drop_bit_eq_div)

lemma crc16_x25_bound: "crc16_x25 data < 65536"
proof -
  have shift: "(crc_shift 0x8408 ^^ n) x < 65536" if "x < 65536" for n x
    using that by (induction n) (simp_all add: crc_shift_bound)
  have "crc_bitwise b x < 65536" if "x < 65536" for b x
  proof -
    have "unat b < 2 ^ LENGTH(8)" by (rule unsigned_less)
    then have "take_bit 16 (unat b) = unat b" by (simp add: take_bit_nat_eq_self_iff)
    then have "x XOR unat b < 65536" using that by (simp add: take_bit_16)
    then show ?thesis unfolding crc_bitwise_def by (rule shift)
  qed
  then have "fold crc_bitwise data x < 65536" if "x < 65536" for x
    using that by (induction data arbitrary: x) simp_all
  then have "fold crc_bitwise data 0xFFFF < 65536" by simp
  then show ?thesis by (simp add: crc16_bitwise take_bit_16)
qed

section \<open>Escaping\<close>

definition esc_byte :: "byte \<Rightarrow> byte list" where
  "esc_byte x = (if x = ESCAPE_CHAR then [0x7d, 0x5d] else if x = TRAILER_CHAR then [0x7d, 0x5e] else [x])"

definition esc :: "byte list \<Rightarrow> byte list" where
  "esc xs = concat (map esc_byte xs)"

lemma esc_simps [simp]: "esc [] = []" "esc (x # xs) = esc_byte x @ esc xs"
  by (simp_all add: esc_def)

lemma escape_chars: "(0x7d :: byte) XOR 0x20 = 0x5d" "(0x7e :: byte) XOR 0x20 = 0x5e"
  by simp_all

lemma escape_is_esc:
  "bytes_replace [TRAILER_CHAR] [0x7d, 0x5e] (bytes_replace [ESCAPE_CHAR] [0x7d, 0x5d] xs) = esc xs"
  unfolding replace_single by (induction xs) (auto simp: esc_byte_def)

lemma unescape_trailer:
  "bytes_replace [ESCAPE_CHAR, 0x5e] [TRAILER_CHAR] (esc xs) =
    concat (map (\<lambda>x. if x = ESCAPE_CHAR then [0x7d, 0x5d] else [x]) xs)"
proof (induction xs)
  case (Cons x xs)
  then show ?case
    by (cases "x = ESCAPE_CHAR"; cases "x = TRAILER_CHAR")
      (simp_all add: esc_byte_def replace_pair_match replace_pair_other2 replace_pair_other)
qed simp

lemma unescape_escape:
  "bytes_replace [ESCAPE_CHAR, 0x5d] [ESCAPE_CHAR]
    (concat (map (\<lambda>x. if x = ESCAPE_CHAR then [0x7d, 0x5d] else [x]) xs)) = xs"
proof (induction xs)
  case (Cons x xs)
  then show ?case by (cases "x = ESCAPE_CHAR") (simp_all add: replace_pair_match replace_pair_other)
qed simp

lemma no_trailer_in_esc: "TRAILER_CHAR \<notin> set (esc xs)"
  by (induction xs) (auto simp: esc_byte_def)

lemma length_esc: "length xs \<le> length (esc xs)"
  by (induction xs) (auto simp: esc_byte_def)

lemma encapsulate_eq: "hdlc_encapsulate p = esc (p @ le_of_nat2 (crc16_x25 p)) @ [TRAILER_CHAR]"
  unfolding hdlc_encapsulate_def Let_def escape_chars escape_is_esc ..

lemma decapsulate_encapsulate: "hdlc_decapsulate (hdlc_encapsulate p) = Inr p"
proof -
  let ?q = "p @ le_of_nat2 (crc16_x25 p)"
  have "2 \<le> length (esc ?q)" using length_esc [of ?q] by simp
  then show ?thesis
    unfolding encapsulate_eq hdlc_decapsulate_def Let_def escape_chars
    by (simp add: unescape_trailer unescape_escape del: map_append concat_append)
qed

section \<open>The stream\<close>

lemma read_until_trailer_total:
  assumes "TRAILER_CHAR \<in> set (c @ concat cs)"
  shows "\<exists>joined left. read_until_trailer c cs = Some (joined, left) \<and> joined @ concat left = c @ concat cs \<and>
    TRAILER_CHAR \<in> set joined"
  using assms
proof (induction cs arbitrary: c)
  case Nil
  then show ?case by (simp add: read_until_trailer.simps)
next
  case (Cons d cs)
  show ?case
  proof (cases "TRAILER_CHAR \<in> set c")
    case True
    then show ?thesis by (simp add: read_until_trailer.simps [of c])
  next
    case False
    with Cons.prems have "TRAILER_CHAR \<in> set (d @ concat cs)" by simp
    from Cons.IH [OF this] obtain joined left where "read_until_trailer d cs = Some (joined, left)"
      "joined @ concat left = d @ concat cs" "TRAILER_CHAR \<in> set joined" by blast
    with False show ?thesis by (simp add: read_until_trailer.simps [of c])
  qed
qed

lemma recv_frame:
  assumes "pend @ concat chunks = send op payload @ rest"
  shows "\<exists>pend' chunks'. recv pend chunks = Some (Inr (op, payload), pend', chunks') \<and> pend' @ concat chunks' = rest"
proof -
  let ?body = "esc ((op # payload) @ le_of_nat2 (crc16_x25 (op # payload)))"
  have stream: "pend @ concat chunks = ?body @ TRAILER_CHAR # rest"
    using assms unfolding send_def encapsulate_eq by simp
  then have "TRAILER_CHAR \<in> set (pend @ concat chunks)" by simp
  then obtain joined left where r: "read_until_trailer pend chunks = Some (joined, left)"
    "joined @ concat left = pend @ concat chunks" "TRAILER_CHAR \<in> set joined"
    using read_until_trailer_total by blast
  from split_list_first [OF r(3)] obtain a b where ab: "joined = a @ TRAILER_CHAR # b" "TRAILER_CHAR \<notin> set a" by blast
  with r(2) stream have "a @ TRAILER_CHAR # (b @ concat left) = ?body @ TRAILER_CHAR # rest" by simp
  then have "a = ?body \<and> b @ concat left = rest"
    by (rule split_unique [OF ab(2) no_trailer_in_esc])
  moreover have "split_first TRAILER_CHAR joined = (a, b)" unfolding ab(1) by (rule split_first_append [OF ab(2)])
  moreover have "hdlc_decapsulate (?body @ [TRAILER_CHAR]) = Inr (op # payload)"
    using decapsulate_encapsulate [of "op # payload"] unfolding encapsulate_eq .
  ultimately show ?thesis by (simp add: recv_def r(1) Let_def)
qed

fun recv_many :: "nat \<Rightarrow> byte list \<Rightarrow> byte list list \<Rightarrow> ((diag_error + byte \<times> byte list) list \<times> byte list \<times> byte list list) option" where
  \<comment> \<open>that many calls of \<open>recv\<close>\<close>
  "recv_many 0 pend chunks = Some ([], pend, chunks)"
| "recv_many (Suc n) pend chunks =
     (case recv pend chunks of
        None \<Rightarrow> None
      | Some (m, pend, chunks) \<Rightarrow> map_option (\<lambda>(ms, r). (m # ms, r)) (recv_many n pend chunks))"

lemma recv_many_frames:
  "pend @ concat chunks = concat (map (\<lambda>(op, p). send op p) ms) @ rest \<Longrightarrow>
   \<exists>pend' chunks'. recv_many (length ms) pend chunks = Some (map Inr ms, pend', chunks') \<and> pend' @ concat chunks' = rest"
proof (induction ms arbitrary: pend chunks)
  case (Cons m ms)
  obtain op p where m: "m = (op, p)" by fastforce
  with Cons.prems have "pend @ concat chunks = send op p @ (concat (map (\<lambda>(op, p). send op p) ms) @ rest)" by simp
  from recv_frame [OF this] obtain pend1 chunks1 where r: "recv pend chunks = Some (Inr (op, p), pend1, chunks1)"
    "pend1 @ concat chunks1 = concat (map (\<lambda>(op, p). send op p) ms) @ rest" by blast
  from Cons.IH [OF r(2)] r(1) show ?case by (auto simp: m)
qed simp

text \<open>
  C39. Messages survive the wire. However the reads of the port cut the stream of sent messages into
  chunks - inside an escape, inside the checksum, several messages in one chunk - the receiver
  returns exactly the messages, in order and without an exception, and keeps the bytes that follow
  the last one.
\<close>

theorem messages_survive_the_wire:
  assumes "concat chunks = concat (map (\<lambda>(op, payload). send op payload) ms) @ rest"
  shows "\<exists>pend' chunks'. recv_many (length ms) [] chunks = Some (map Inr ms, pend', chunks') \<and> pend' @ concat chunks' = rest"
  using assms by (intro recv_many_frames) simp

theorem messages_survive_the_wire_witness:
  "\<exists>pend' chunks'. recv_many 2 [] [take 3 (send 115 [0x7e, 0x7d]), drop 3 (send 115 [0x7e, 0x7d]) @ send 16 [], [1]] =
     Some ([Inr (115, [0x7e, 0x7d]), Inr (16, [])], pend', chunks') \<and> pend' @ concat chunks' = [1]"
  using messages_survive_the_wire [of "[take 3 (send 115 [0x7e, 0x7d]), drop 3 (send 115 [0x7e, 0x7d]) @ send 16 [], [1]]"
      "[(115, [0x7e, 0x7d]), (16, [])]" "[1]"]
  by (simp add: numeral_2_eq_2)

end
