(* ===== verification/UbxFramer.thy ===== *)
theory UbxFramer
  imports Complex_Main ByteStrings
begin

text \<open>
  The framer of the u-blox receiver, class \<^verbatim>\<open>UbxFramer\<close> of
  \<^verbatim>\<open>system/ubloxd/ubloxd.py\<close>: it cuts the bytes that arrive in arbitrary chunks into frames,
  skipping garbage and frames whose checksum is wrong. The loop of \<open>add_data\<close> carries fuel, and the
  length of the buffer plus one is proved to be enough.
\<close>

section \<open>The class\<close>

abbreviation PREAMBLE :: "byte list" where "PREAMBLE \<equiv> [0xb5, 0x62]"
abbreviation HEADER_SIZE :: nat where "HEADER_SIZE \<equiv> 6"
abbreviation CHECKSUM_SIZE :: nat where "CHECKSUM_SIZE \<equiv> 2"

record ubx_framer =
  framer_buf :: "byte list"
  framer_last_log_time :: real

definition framer_init :: ubx_framer where
  "framer_init = \<lparr>framer_buf = [], framer_last_log_time = 0\<rparr>"

definition framer_reset :: "ubx_framer \<Rightarrow> ubx_framer" where
  "framer_reset s = s\<lparr>framer_buf := []\<rparr>"

definition checksum_step :: "byte \<Rightarrow> byte \<times> byte \<Rightarrow> byte \<times> byte" where
  \<comment> \<open>\<open>& 0xFF\<close> is the wrap of the byte\<close>
  "checksum_step b ck = (fst ck + b, snd ck + (fst ck + b))"

definition checksum_ok :: "byte list \<Rightarrow> bool" where
  "checksum_ok frame =
     (fold checksum_step (drop 2 (take (length frame - 2) frame)) (0, 0) =
       (frame ! (length frame - 2), frame ! (length frame - 1)))"

definition total_len :: "byte list \<Rightarrow> nat" where
  "total_len buf = HEADER_SIZE + nat_of_le (take 2 (drop 4 buf)) + CHECKSUM_SIZE"

fun framer_loop :: "nat \<Rightarrow> byte list \<Rightarrow> byte list list \<Rightarrow> (byte list \<times> byte list list) option" where
  \<comment> \<open>the buffer and the frames when the loop ends\<close>
  "framer_loop 0 buf out = None"
| "framer_loop (Suc fuel) buf out =
     (if length buf < 2 then Some (buf, out)
      else case bytes_find PREAMBLE buf of
        None \<Rightarrow> Some ([], out)
      | Some start \<Rightarrow>
          let buf = drop start buf in
          if length buf < HEADER_SIZE then Some (buf, out)
          else if length buf < total_len buf then Some (buf, out)
          else let candidate = take (total_len buf) buf in
               if checksum_ok candidate then framer_loop fuel (drop (total_len buf) buf) (out @ [candidate])
               else framer_loop fuel (drop 1 buf) out)"

definition add_data :: "nat \<Rightarrow> real \<Rightarrow> byte list \<Rightarrow> ubx_framer \<Rightarrow> (ubx_framer \<times> byte list list) option" where
  \<comment> \<open>with that much fuel for the loop\<close>
  "add_data fuel log_time incoming s =
     (let s = s\<lparr>framer_last_log_time := log_time\<rparr> in
      if incoming = [] then Some (s, [])
      else map_option (\<lambda>(buf, out). (s\<lparr>framer_buf := buf\<rparr>, out)) (framer_loop fuel (framer_buf s @ incoming) []))"

definition enough_fuel :: "byte list \<Rightarrow> ubx_framer \<Rightarrow> nat" where
  "enough_fuel incoming s = length (framer_buf s) + length incoming + 1"

fun feed :: "(real \<times> byte list) list \<Rightarrow> ubx_framer \<Rightarrow> (ubx_framer \<times> byte list list) option" where
  \<comment> \<open>one call of \<open>add_data\<close> per chunk; the frames of all calls\<close>
  "feed [] s = Some (s, [])"
| "feed ((t, c) # cs) s =
     (case add_data (enough_fuel c s) t c s of
        None \<Rightarrow> None
      | Some (s, fs) \<Rightarrow> map_option (\<lambda>(s, fs'). (s, fs @ fs')) (feed cs s))"

declare framer_loop.simps(2) [simp del]

section \<open>Frames\<close>

definition ubx_frame :: "byte list \<Rightarrow> bool" where
  \<comment> \<open>preamble, header, payload of the announced length, checksum\<close>
  "ubx_frame f \<longleftrightarrow> prefix PREAMBLE f \<and> HEADER_SIZE + CHECKSUM_SIZE \<le> length f \<and> length f = total_len f \<and> checksum_ok f"

lemma total_len_ge: "8 \<le> total_len buf"
  by (simp add: total_len_def)

lemma total_len_append: "6 \<le> length f \<Longrightarrow> total_len (f @ r) = total_len f"
  by (simp add: total_len_def)

lemma total_len_take: "total_len (take (total_len buf) buf) = total_len buf"
proof -
  have "take 2 (drop 4 (take (total_len buf) buf)) = take 2 (drop 4 buf)"
    using total_len_ge [of buf] by (simp add: drop_take)
  then show ?thesis by (simp only: total_len_def)
qed

lemma find_prefix: "bytes_find pat xs = Some k \<Longrightarrow> prefix pat (drop k xs)"
  by (induction xs arbitrary: k) (auto split: if_splits)

lemma prefix_take: "prefix p xs \<Longrightarrow> length p \<le> n \<Longrightarrow> prefix p (take n xs)"
  by (auto simp: prefix_def)

lemma frame_length: "ubx_frame f \<Longrightarrow> 8 \<le> length f"
  by (simp add: ubx_frame_def)

section \<open>The loop ends\<close>

lemma framer_loop_total:
  "length buf < fuel \<Longrightarrow> \<exists>buf' out'. framer_loop fuel buf out = Some (buf', out @ out') \<and>
     (\<forall>f \<in> set out'. ubx_frame f) \<and> length buf' + length (concat out') \<le> length buf"
proof (induction fuel arbitrary: buf out)
  case (Suc fuel)
  show ?case
  proof (cases "length buf < 2")
    case True
    then show ?thesis by (simp add: framer_loop.simps)
  next
    case long: False
    show ?thesis
    proof (cases "bytes_find PREAMBLE buf")
      case None
      with long show ?thesis by (simp add: framer_loop.simps)
    next
      case (Some k)
      let ?b = "drop k buf" let ?n = "total_len (drop k buf)" let ?f = "take ?n ?b"
      note step = framer_loop.simps(2) [of fuel buf out]
      from Some have pre: "prefix PREAMBLE ?b" by (rule find_prefix)
      show ?thesis
      proof (cases "length ?b < 6 \<or> length ?b < ?n")
        case True
        with long Some show ?thesis by (auto simp: step Let_def)
      next
        case False
        then have n: "?n \<le> length ?b" "6 \<le> length ?b" by simp_all
        have n8: "8 \<le> ?n" by (rule total_len_ge)
        with n(1) have lt: "length (drop ?n ?b) < fuel" "length (drop 1 ?b) < fuel"
          using Suc.prems by simp_all
        show ?thesis
        proof (cases "checksum_ok ?f")
          case True
          have "prefix PREAMBLE ?f" by (rule prefix_take [OF pre]) (use n8 in simp)
          with True n(1) n8 have frame: "ubx_frame ?f" by (simp add: ubx_frame_def total_len_take)
          from Suc.IH [OF lt(1), of "out @ [?f]"] obtain buf' out' where
            r: "framer_loop fuel (drop ?n ?b) (out @ [?f]) = Some (buf', (out @ [?f]) @ out')"
            "\<forall>f \<in> set out'. ubx_frame f" "length buf' + length (concat out') \<le> length (drop ?n ?b)" by blast
          have "framer_loop (Suc fuel) buf out = Some (buf', out @ (?f # out'))"
            using long Some False True r(1) by (simp add: step Let_def)
          moreover have "length buf' + length (concat (?f # out')) \<le> length buf"
            using r(3) n(1) n8 by simp
          ultimately show ?thesis using r(2) frame by (metis set_ConsD)
        next
          case bad: False
          have "framer_loop (Suc fuel) buf out = framer_loop fuel (drop 1 ?b) out"
            using long Some False bad by (simp add: step Let_def)
          with Suc.IH [OF lt(2), of out] show ?thesis by fastforce
        qed
      qed
    qed
  qed
qed simp

lemma framer_loop_more:
  "framer_loop fuel buf out = Some r \<Longrightarrow> framer_loop (fuel + extra) buf out = Some r"
  by (induction fuel buf out rule: framer_loop.induct)
    (auto simp: framer_loop.simps Let_def split: if_splits option.splits)

text \<open>
  C40. The framer always returns. Whatever the buffer holds and whatever arrives, the loop of
  \<open>add_data\<close> ends within one iteration more than the buffer has bytes, and more fuel gives the same
  result; every returned frame has the preamble, the announced length and a correct checksum; and the
  bytes returned and kept are never more than the bytes received and held before.
\<close>

theorem add_data_returns:
  "\<exists>s' out. (\<forall>extra. add_data (enough_fuel incoming s + extra) t incoming s = Some (s', out)) \<and>
     list_all ubx_frame out \<and>
     length (framer_buf s') + length (concat out) \<le> length (framer_buf s) + length incoming"
proof (cases "incoming = []")
  case True
  then show ?thesis by (simp add: add_data_def)
next
  case False
  have "length (framer_buf s @ incoming) < enough_fuel incoming s" by (simp add: enough_fuel_def)
  from framer_loop_total [OF this, of "[]"] obtain buf' out where
    r: "framer_loop (enough_fuel incoming s) (framer_buf s @ incoming) [] = Some (buf', out)"
    "\<forall>f \<in> set out. ubx_frame f" "length buf' + length (concat out) \<le> length (framer_buf s @ incoming)" by auto
  from framer_loop_more [OF r(1)] False
  have "add_data (enough_fuel incoming s + extra) t incoming s =
      Some (s\<lparr>framer_last_log_time := t, framer_buf := buf'\<rparr>, out)" for extra
    by (simp add: add_data_def Let_def)
  with r(2,3) show ?thesis by (fastforce simp: list_all_iff)
qed

section \<open>Clean streams\<close>

lemma frame_head:
  assumes "ubx_frame f" shows "bytes_find PREAMBLE (f @ r) = Some 0"
  using assms unfolding ubx_frame_def by (intro find_self) (auto simp: prefix_def)

lemma framer_loop_frame:
  assumes "ubx_frame f"
  shows "framer_loop (Suc fuel) (f @ r) out = framer_loop fuel r (out @ [f])"
proof -
  from assms have "8 \<le> length f" "length f = total_len f" "checksum_ok f" by (simp_all add: ubx_frame_def)
  moreover from this have "total_len (f @ r) = length f" by (simp add: total_len_append)
  ultimately show ?thesis by (simp add: framer_loop.simps frame_head [OF assms] Let_def)
qed

lemma framer_loop_part:
  assumes "ubx_frame f" "strict_prefix r f"
  shows "framer_loop (Suc fuel) r out = Some (r, out)"
proof (cases "length r < 2")
  case True
  then show ?thesis by (simp add: framer_loop.simps)
next
  case False
  from assms(2) obtain y where y: "f = r @ y" "y \<noteq> []" by (auto simp: strict_prefix_def prefix_def)
  from assms(1) y have "prefix PREAMBLE (r @ y)" by (simp add: ubx_frame_def)
  with False have "prefix PREAMBLE r" by (auto simp: prefix_def append_eq_Cons_conv Cons_eq_append_conv)
  then have "bytes_find PREAMBLE r = Some 0" by (simp add: find_self)
  moreover have "length r < total_len r" if "6 \<le> length r"
    using assms(1) y total_len_append [OF that, of y] by (cases y) (simp_all add: ubx_frame_def)
  ultimately show ?thesis by (auto simp: framer_loop.simps Let_def)
qed

lemma framer_loop_frames:
  "\<forall>f \<in> set fs. ubx_frame f \<Longrightarrow> r = [] \<or> (\<exists>f. ubx_frame f \<and> strict_prefix r f) \<Longrightarrow> length fs < fuel \<Longrightarrow>
   framer_loop fuel (concat fs @ r) out = Some (r, out @ fs)"
proof (induction fs arbitrary: fuel out)
  case Nil
  then obtain n where "fuel = Suc n" by (metis less_imp_Suc_add)
  show ?case
  proof (cases "r = []")
    case True
    with \<open>fuel = Suc n\<close> show ?thesis by (simp add: framer_loop.simps)
  next
    case False
    with Nil obtain f where "ubx_frame f" "strict_prefix r f" by blast
    with \<open>fuel = Suc n\<close> show ?thesis by (simp add: framer_loop_part)
  qed
next
  case (Cons f fs)
  then obtain n where "fuel = Suc n" "length fs < n" by (cases fuel) auto
  with Cons show ?case by (simp add: framer_loop_frame)
qed

lemma prefix_of_frames:
  "p @ q = concat fs \<Longrightarrow> \<exists>k r. k \<le> length fs \<and> p = concat (take k fs) @ r \<and> r @ q = concat (drop k fs) \<and>
     (r = [] \<or> (k < length fs \<and> strict_prefix r (fs ! k)))"
proof (induction fs arbitrary: p)
  case (Cons f fs)
  show ?case
  proof (cases "length p < length f")
    case True
    with Cons.prems have "strict_prefix p f"
      by (auto simp: append_eq_append_conv2 strict_prefix_def prefix_def)
    with Cons.prems show ?thesis by (intro exI [of _ 0] exI [of _ p]) simp
  next
    case False
    with Cons.prems obtain p' where p': "p = f @ p'" "p' @ q = concat fs"
      by (auto simp: append_eq_append_conv2)
    from Cons.IH [OF p'(2)] obtain k r where
      "k \<le> length fs" "p' = concat (take k fs) @ r" "r @ q = concat (drop k fs)"
      "r = [] \<or> (k < length fs \<and> strict_prefix r (fs ! k))" by blast
    with p' show ?thesis by (intro exI [of _ "Suc k"] exI [of _ r]) simp
  qed
qed simp

lemma length_frames: "\<forall>f \<in> set fs. ubx_frame f \<Longrightarrow> length fs \<le> length (concat fs)"
  by (induction fs) (auto dest!: frame_length)

lemma feed_frames:
  "\<forall>f \<in> set fs. ubx_frame f \<Longrightarrow> framer_buf s @ concat (map snd cs) = concat fs \<Longrightarrow>
   framer_buf s = [] \<or> (fs \<noteq> [] \<and> strict_prefix (framer_buf s) (hd fs)) \<Longrightarrow>
   \<exists>s'. feed cs s = Some (s', fs) \<and> framer_buf s' = []"
proof (induction cs arbitrary: s fs)
  case Nil
  show ?case
  proof (cases fs)
    case (Cons f fs')
    with Nil have "framer_buf s = f @ concat fs'" "f \<noteq> []" by (auto simp: ubx_frame_def)
    with Nil Cons show ?thesis by (auto simp: strict_prefix_def prefix_def)
  qed (use Nil in simp)
next
  case (Cons tc cs)
  obtain t c where tc: "tc = (t, c)" by fastforce
  let ?s = "s\<lparr>framer_last_log_time := t\<rparr>"
  show ?case
  proof (cases "c = []")
    case True
    with Cons.IH [of fs ?s] Cons.prems show ?thesis by (auto simp: tc add_data_def)
  next
    case False
    from Cons.prems(2) have "(framer_buf s @ c) @ concat (map snd cs) = concat fs" by (simp add: tc)
    from prefix_of_frames [OF this] obtain k r where
      k: "k \<le> length fs" "framer_buf s @ c = concat (take k fs) @ r"
      "r @ concat (map snd cs) = concat (drop k fs)" "r = [] \<or> (k < length fs \<and> strict_prefix r (fs ! k))" by blast
    have part: "r = [] \<or> (\<exists>f. ubx_frame f \<and> strict_prefix r f)" using k(4) Cons.prems(1) by auto
    have frames: "\<forall>f \<in> set (take k fs). ubx_frame f" using Cons.prems(1) by (auto dest: in_set_takeD)
    have "length (take k fs) < enough_fuel c s"
      using length_frames [OF frames] arg_cong [OF k(2), of length] by (simp add: enough_fuel_def)
    from framer_loop_frames [OF frames part this, of "[]"] False
    have add: "add_data (enough_fuel c s) t c s = Some (?s\<lparr>framer_buf := r\<rparr>, take k fs)"
      by (simp add: add_data_def Let_def k(2))
    have "r = [] \<or> (drop k fs \<noteq> [] \<and> strict_prefix r (hd (drop k fs)))"
      using k(4) by (auto simp: hd_drop_conv_nth)
    moreover have "\<forall>f \<in> set (drop k fs). ubx_frame f" using Cons.prems(1) by (auto dest: in_set_dropD)
    ultimately obtain s' where "feed cs (?s\<lparr>framer_buf := r\<rparr>) = Some (s', drop k fs)" "framer_buf s' = []"
      using Cons.IH [of "drop k fs" "?s\<lparr>framer_buf := r\<rparr>"] k(3) by auto
    with add show ?thesis by (simp add: tc)
  qed
qed

text \<open>
  A clean stream is framed exactly. However the reads cut a stream of valid frames into chunks -
  inside the preamble, the header, the payload or the checksum, empty chunks included - the framer
  returns exactly the frames, in order, and ends with an empty buffer.
\<close>

theorem frames_survive_chunking:
  assumes "\<forall>f \<in> set fs. ubx_frame f" "concat (map snd chunks) = concat fs"
  shows "\<exists>s'. feed chunks framer_init = Some (s', fs) \<and> framer_buf s' = []"
  using assms by (intro feed_frames) (simp_all add: framer_init_def)

theorem frames_survive_chunking_witness:
  "\<exists>s'. feed [(1, [0xb5]), (2, [0x62, 5, 1, 2]), (3, [0, 6, 2, 16, 57, 0xb5, 0x62]), (4, [5, 1, 0, 0, 6, 0x17])] framer_init =
     Some (s', [[0xb5, 0x62, 5, 1, 2, 0, 6, 2, 16, 57], [0xb5, 0x62, 5, 1, 0, 0, 6, 0x17]]) \<and> framer_buf s' = []"
  using frames_survive_chunking [of "[[0xb5, 0x62, 5, 1, 2, 0, 6, 2, 16, 57], [0xb5, 0x62, 5, 1, 0, 0, 6, 0x17]]"
    "[(1, [0xb5]), (2, [0x62, 5, 1, 2]), (3, [0, 6, 2, 16, 57, 0xb5, 0x62]), (4, [5, 1, 0, 0, 6, 0x17])]"]
  by (simp del: feed.simps add: ubx_frame_def checksum_ok_def checksum_step_def total_len_def nat_of_le_def)

section \<open>Garbage before a frame\<close>

lemma loop_no_preamble:
  "2 \<le> length buf \<Longrightarrow> bytes_find PREAMBLE buf = None \<Longrightarrow> framer_loop (Suc fuel) buf out = Some ([], out)"
  by (simp add: framer_loop.simps)

lemma find_garbage_frame:
  assumes "bytes_find PREAMBLE (g @ [0xb5]) = None" "ubx_frame f"
  shows "bytes_find PREAMBLE (g @ f) = Some (length g)"
  using assms(1)
proof (induction g)
  case Nil
  then show ?case using frame_head [OF assms(2), of "[]"] by simp
next
  case (Cons x g)
  then have "\<not> prefix PREAMBLE (x # g @ [0xb5])" "bytes_find PREAMBLE (g @ [0xb5]) = None"
    by (auto split: if_splits)
  moreover from this(1) have "\<not> prefix PREAMBLE (x # g @ f)"
    using assms(2) by (cases g) (auto simp: ubx_frame_def prefix_def)
  ultimately show ?case using Cons.IH by simp
qed

lemma loop_garbage_frame:
  assumes "bytes_find PREAMBLE (g @ [0xb5]) = None" "ubx_frame f"
  shows "framer_loop (Suc (Suc fuel)) (g @ f) out = Some ([], out @ [f])"
proof -
  have "framer_loop (Suc (Suc fuel)) (g @ f) out = framer_loop (Suc (Suc fuel)) f out"
    using find_garbage_frame [OF assms] frame_head [OF assms(2), of "[]"] assms(2)
    by (simp add: framer_loop.simps(2) ubx_frame_def Let_def)
  also have "\<dots> = Some ([], out @ [f])"
    using framer_loop_frame [OF assms(2), of "Suc fuel" "[]"] by (simp add: framer_loop.simps)
  finally show ?thesis .
qed

text \<open>
  A frame that follows garbage is found, unless the read ends inside its preamble. When bytes that
  contain no preamble precede a valid frame in one chunk, the frame is returned; when the chunk ends
  after the first byte of the preamble, the whole buffer is cleared, that byte included, and the rest
  of the frame - having no preamble of its own - is dropped too: the frame is lost.
\<close>

theorem split_preamble_loses_frame:
  assumes "g \<noteq> []" "bytes_find PREAMBLE (g @ [0xb5]) = None" "ubx_frame f" "bytes_find PREAMBLE (tl f) = None"
  shows "(\<exists>s'. feed [(t, g @ f)] framer_init = Some (s', [f])) \<and>
    (\<exists>s'. feed [(t, g @ [0xb5]), (t', tl f)] framer_init = Some (s', []) \<and> framer_buf s' = [])"
proof -
  from assms(3) have "prefix PREAMBLE f" "8 \<le> length f" by (simp_all add: ubx_frame_def)
  then obtain zs where f: "f = 0xb5 # 0x62 # zs" by (elim prefixE) simp
  with \<open>8 \<le> length f\<close> have zs: "zs \<noteq> []" by (cases zs) simp_all
  obtain h g' where g: "g = h # g'" using assms(1) by (cases g) auto
  have "framer_loop (enough_fuel (g @ f) framer_init) (g @ f) [] = Some ([], [f])"
    using loop_garbage_frame [OF assms(2,3), of "Suc (length g + length zs)" "[]"]
    by (simp add: enough_fuel_def framer_init_def f)
  then have "\<exists>s'. feed [(t, g @ f)] framer_init = Some (s', [f])"
    by (simp add: add_data_def g framer_init_def)
  moreover have "framer_loop (enough_fuel (g @ [0xb5]) framer_init) (g @ [0xb5]) [] = Some ([], [])"
    using loop_no_preamble [OF _ assms(2)] by (simp add: enough_fuel_def g)
  moreover have "framer_loop (length (tl f) + 1) (tl f) [] = Some ([], [])"
    using loop_no_preamble [OF _ assms(4)] zs by (simp add: f Suc_le_eq)
  ultimately show ?thesis using f
    by (simp add: add_data_def framer_init_def enough_fuel_def)
qed

theorem split_preamble_loses_frame_witness:
  "(\<exists>s'. feed [(0, [0x24] @ [0xb5, 0x62, 5, 1, 0, 0, 6, 0x17])] framer_init = Some (s', [[0xb5, 0x62, 5, 1, 0, 0, 6, 0x17]])) \<and>
   (\<exists>s'. feed [(0, [0x24] @ [0xb5]), (1, [0x62, 5, 1, 0, 0, 6, 0x17])] framer_init = Some (s', []) \<and> framer_buf s' = [])"
  using split_preamble_loses_frame [of "[0x24]" "[0xb5, 0x62, 5, 1, 0, 0, 6, 0x17]" 0 1]
  by (simp del: feed.simps add: ubx_frame_def checksum_ok_def checksum_step_def total_len_def nat_of_le_def)

end
