(* ===== verification/CarEvents.thy ===== *)
theory CarEvents
  imports EventFacts CarState
begin

text \<open>
  The events of the car state: \<^verbatim>\<open>selfdrive/car/car_events.py\<close> (class \<open>CarEvents\<close>) and
  \<^verbatim>\<open>sunnypilot/selfdrive/car/car_specific.py\<close> (class \<open>CarSpecificEventsSP\<close>). What the code takes
  from opendbc - the speed limit of control, the gears of the car's interface, flags of the car - is
  in the record of the car parameters.
\<close>

section \<open>Adding events under conditions\<close>

definition add_if :: "bool \<Rightarrow> nat \<Rightarrow> events_state \<Rightarrow> events_state" where
  \<comment> \<open>\<open>if c: events.add(e)\<close>\<close>
  "add_if c e s = (if c then ev_add e s else s)"

definition add_listed :: "(bool \<times> nat) list \<Rightarrow> events_state \<Rightarrow> events_state" where
  \<comment> \<open>a sequence of such statements\<close>
  "add_listed ces s = fold (\<lambda>(c, e). add_if c e) ces s"

lemma ev_has_add_if [simp]: "ev_has e (add_if c e' s) \<longleftrightarrow> ev_has e s \<or> (c \<and> e = e')"
  by (auto simp: add_if_def ev_has_def ev_add_def)

lemma ev_ok_add_if: "ev_ok K s \<Longrightarrow> e \<in> K \<Longrightarrow> ev_ok K (add_if c e s)"
  by (simp add: add_if_def ev_ok_add)

lemma add_listed_simps [simp]:
  "add_listed [] s = s"
  "add_listed ((c, e) # ces) s = add_listed ces (add_if c e s)"
  by (simp_all add: add_listed_def)

lemma ev_has_add_listed [simp]: "ev_has e (add_listed ces s) \<longleftrightarrow> ev_has e s \<or> (True, e) \<in> set ces"
proof (induction ces arbitrary: s)
  case (Cons ce ces)
  show ?case by (cases ce) (auto simp: Cons.IH)
qed simp

lemma ev_ok_add_listed: "ev_ok K s \<Longrightarrow> list_all (\<lambda>ce. snd ce \<in> K) ces \<Longrightarrow> ev_ok K (add_listed ces s)"
proof (induction ces arbitrary: s)
  case (Cons ce ces)
  from Cons.prems have "ev_ok K (add_if (fst ce) (snd ce) s)" by (simp add: ev_ok_add_if)
  with Cons.IH [of "add_if (fst ce) (snd ce) s"] Cons.prems(2) show ?case by (cases ce) simp
qed simp

section \<open>Inputs\<close>

record car_params =
  ce_brand :: string
  ce_pcmCruise :: bool
  ce_openpilotLongitudinalControl :: bool
  ce_minEnableSpeed :: real
  ce_minSteerSpeed :: real
  ce_networkLocation_fwdCamera :: bool
  ce_toyota_hybrid :: bool
  ce_RAM_DT :: bool
  ce_enableGasInterceptor :: bool
  ce_DRIVABLE_GEARS :: "gear_shifter list"
  ce_MAX_CTRL_SPEED :: real

record car_flags =
  \<comment> \<open>fields of \<open>carState\<close> that only this component reads\<close>
  doorOpen :: bool
  seatbeltUnlatched :: bool
  espDisabled :: bool
  espActive :: bool
  stockFcw :: bool
  stockAeb :: bool
  stockLkas :: bool
  cruise_nonAdaptive :: bool
  brakeHoldActive :: bool
  parkingBrake :: bool
  accFaulted :: bool
  carNotReady :: bool
  steeringDisengage :: bool
  vehicleSensorsInvalid :: bool
  invalidLkasSetting :: bool
  lowSpeedAlert :: bool
  buttonEnable :: bool
  steerFaultTemporary :: bool
  steerFaultPermanent :: bool
  blockPcmEnable :: bool

record car_sample =
  cur :: car_state
  cur_flags :: car_flags
  prev :: car_state
  prev_flags :: car_flags
  cc_accel :: real
  cc_is_enabled :: bool
  cc_cruise_resume :: bool

record car_events =
  steering_unpressed :: nat
  low_speed_alert :: bool
  no_steer_warning :: bool
  silent_steer_warning :: bool

definition car_events_init :: car_events where
  "car_events_init = \<lparr>steering_unpressed = 0, low_speed_alert = False, no_steer_warning = False,
     silent_steer_warning = True\<rparr>"

section \<open>Common events\<close>

definition plain_events :: "car_params \<Rightarrow> car_sample \<Rightarrow> (bool \<times> nat) list" where
  "plain_events cp x =
     (let cs = cur x; f = cur_flags x in
      [(doorOpen f, EN_doorOpen),
       (seatbeltUnlatched f, EN_seatbeltNotLatched),
       (gearShifter cs \<noteq> Gear_drive \<and> gearShifter cs \<notin> set (ce_DRIVABLE_GEARS cp), EN_wrongGear),
       (gearShifter cs = Gear_reverse, EN_reverseGear),
       (\<not> cruise_available (cruiseState cs), EN_wrongCarMode),
       (espDisabled f, EN_espDisabled),
       (espActive f, EN_espActive),
       (stockFcw f, EN_stockFcw),
       (stockAeb f, EN_stockAeb),
       (stockLkas f, EN_stockLkas),
       (vEgo cs > ce_MAX_CTRL_SPEED cp, EN_speedTooHigh),
       (cruise_nonAdaptive f, EN_wrongCruiseMode),
       (brakeHoldActive f \<and> ce_openpilotLongitudinalControl cp, EN_brakeHold),
       (parkingBrake f, EN_parkBrake),
       (accFaulted f, EN_accFaulted),
       (carNotReady f, EN_carNotReady),
       (steeringPressed cs, EN_steerOverride),
       (steeringDisengage f \<and> \<not> steeringDisengage (prev_flags x), EN_steerDisengage),
       (brakePressed cs \<and> standstill cs, EN_preEnableStandstill),
       (gasPressed cs, EN_gasPressedOverride),
       (vehicleSensorsInvalid f, EN_vehicleSensorsInvalid),
       (invalidLkasSetting f, EN_invalidLkasSetting),
       (lowSpeedAlert f, EN_belowSteerSpeed),
       (buttonEnable f, EN_buttonEnable)])"

definition cancel_events :: "car_params \<Rightarrow> car_sample \<Rightarrow> (bool \<times> nat) list" where
  "cancel_events cp x =
     map (\<lambda>b. (be_type b = B_cancel \<and> (ce_brand cp \<noteq> ''hyundai'' \<or> \<not> ce_pcmCruise cp), EN_buttonCancel))
       (buttonEvents (cur x))"

definition steer_fault_events :: "car_sample \<Rightarrow> car_events \<Rightarrow> car_events \<times> (bool \<times> nat) list" where
  "steer_fault_events x s =
     (let cs = cur x; f = cur_flags x;
          s = s\<lparr>steering_unpressed := (if steeringPressed cs then 0 else steering_unpressed s + 1)\<rparr>
      in if steerFaultTemporary f then
           if steeringPressed cs \<and> (\<not> steerFaultTemporary (prev_flags x) \<or> no_steer_warning s)
           then (s\<lparr>no_steer_warning := True\<rparr>, [])
           else
             let s = s\<lparr>no_steer_warning := False\<rparr> in
             if silent_steer_warning s \<or> standstill cs \<or> int (steering_unpressed s) < py_int (3 / 2 / DT_CTRL)
             then (s\<lparr>silent_steer_warning := True\<rparr>, [(True, EN_steerTempUnavailableSilent)])
             else (s, [(True, EN_steerTempUnavailable)])
         else (s\<lparr>no_steer_warning := False, silent_steer_warning := False\<rparr>, []))"

definition pcm_events :: "car_params \<Rightarrow> car_sample \<Rightarrow> (bool \<times> nat) list" where
  "pcm_events cp x =
     (let on = cruise_enabled (cruiseState (cur x)); was_on = cruise_enabled (cruiseState (prev x)) in
      if ce_pcmCruise cp \<and> ce_brand cp \<noteq> ''honda'' then
        if on \<and> \<not> was_on \<and> \<not> blockPcmEnable (cur_flags x) then [(True, EN_pcmEnable)]
        else if \<not> on then [(True, EN_pcmDisable)] else []
      else [])"

definition create_common_events :: "bool \<Rightarrow> car_params \<Rightarrow> car_sample \<Rightarrow> car_events \<Rightarrow> car_events \<times> events_state" where
  "create_common_events mici cp x s =
     (let (s, steer) = steer_fault_events x s
      in (s, add_listed (plain_events cp x @ cancel_events cp x @ steer @
                [(steerFaultPermanent (cur_flags x), EN_steerUnavailable)] @ pcm_events cp x) (Events_init mici)))"

section \<open>Brands\<close>

definition chrysler_events :: "car_params \<Rightarrow> car_sample \<Rightarrow> car_events \<Rightarrow> car_events \<times> (bool \<times> nat) list" where
  "chrysler_events cp x s =
     (let v = vEgo (cur x);
          s = (if ce_minSteerSpeed cp > 0 \<and> v < ce_minSteerSpeed cp + 1 / 2 then s\<lparr>low_speed_alert := True\<rparr>
               else if v > ce_minSteerSpeed cp + 1 then s\<lparr>low_speed_alert := False\<rparr> else s)
      in (s, [(low_speed_alert s, EN_belowSteerSpeed)]))"

definition honda_events :: "car_params \<Rightarrow> car_sample \<Rightarrow> (bool \<times> nat) list" where
  "honda_events cp x =
     (let cs = cur x; on = cruise_enabled (cruiseState cs); was_on = cruise_enabled (cruiseState (prev x)) in
      [(ce_pcmCruise cp \<and> vEgo cs < ce_minEnableSpeed cp, EN_belowEngageSpeed)] @
      (if ce_pcmCruise cp then
         if on \<and> \<not> was_on then [(True, EN_pcmEnable)]
         else if \<not> on \<and> (cc_accel x \<ge> 0 \<or> \<not> ce_openpilotLongitudinalControl cp) then
           [(True, if vEgo cs < ce_minEnableSpeed cp + 2 then EN_speedTooLow else EN_cruiseDisabled)]
         else []
       else []) @
      [(ce_minEnableSpeed cp > 0 \<and> vEgo cs < 1 / 1000, EN_manualRestart),
       (brakeHoldActive (cur_flags x) \<and> blockPcmEnable (cur_flags x), EN_belowEngageSpeed)])"

definition toyota_events :: "car_params \<Rightarrow> car_sample \<Rightarrow> (bool \<times> nat) list" where
  "toyota_events cp x =
     (let cs = cur x; slow = (vEgo cs < ce_minEnableSpeed cp) in
      if ce_openpilotLongitudinalControl cp then
        [(cruise_standstill (cruiseState cs) \<and> \<not> brakePressed cs \<and> (cc_cruise_resume x \<or> ce_toyota_hybrid cp), EN_resumeRequired),
         (slow, EN_belowEngageSpeed),
         (slow \<and> cc_accel x > 3 / 10, EN_speedTooLow),
         (slow \<and> vEgo cs < 1 / 1000, EN_manualRestart)]
      else [])"

definition gm_events :: "car_params \<Rightarrow> car_sample \<Rightarrow> (bool \<times> nat) list" where
  "gm_events cp x =
     (let cs = cur x in
      [(vEgo cs < ce_minEnableSpeed cp \<and> \<not> (standstill cs \<and> brakePressed cs \<and> ce_networkLocation_fwdCamera cp), EN_belowEngageSpeed),
       (cruise_standstill (cruiseState cs), EN_resumeRequired)])"

definition volkswagen_events :: "car_params \<Rightarrow> car_sample \<Rightarrow> (bool \<times> nat) list" where
  "volkswagen_events cp x =
     (let v = vEgo (cur x) in
      if ce_openpilotLongitudinalControl cp then
        [(v < ce_minEnableSpeed cp + 1 / 2, EN_belowEngageSpeed),
         (cc_is_enabled x \<and> v < ce_minEnableSpeed cp, EN_speedTooLow)]
      else [])"

definition car_events_update :: "bool \<Rightarrow> car_params \<Rightarrow> car_sample \<Rightarrow> car_events \<Rightarrow> car_events \<times> events_state" where
  "car_events_update mici cp x s =
     (if ce_brand cp \<in> {''body'', ''mock''} then (s, Events_init mici)
      else
        let (s, ev) = create_common_events mici cp x s in
        if ce_brand cp = ''chrysler'' then let (s, es) = chrysler_events cp x s in (s, add_listed es ev)
        else if ce_brand cp = ''honda'' then (s, add_listed (honda_events cp x) ev)
        else if ce_brand cp = ''toyota'' then (s, add_listed (toyota_events cp x) ev)
        else if ce_brand cp = ''gm'' then (s, add_listed (gm_events cp x) ev)
        else if ce_brand cp = ''volkswagen'' then (s, add_listed (volkswagen_events cp x) ev)
        else (s, ev))"

section \<open>\<open>CarSpecificEventsSP\<close>\<close>

definition car_specific_sp :: "car_params \<Rightarrow> car_state \<Rightarrow> bool \<times> events_state \<Rightarrow> (bool \<times> events_state) option" where
  \<comment> \<open>its \<open>low_speed_alert\<close> and the store of the loop; the events it returns are always none\<close>
  "car_specific_sp cp cs st =
     (let (low, ev) = st in
      if ce_brand cp = ''chrysler'' then
        do { (low, ev) \<leftarrow>
               (if ce_RAM_DT cp then
                  do { ev \<leftarrow> (if ev_has EN_belowSteerSpeed ev then ev_remove EN_belowSteerSpeed ev else Some ev);
                       let low = (if vEgo cs \<ge> ce_minEnableSpeed cp then False else low);
                       Some (if ce_minEnableSpeed cp \<ge> 145 / 10 \<and> gearShifter cs \<noteq> Gear_drive then True else low, ev) }
                else Some (low, ev));
             Some (low, add_if low EN_belowSteerSpeed ev) }
      else if ce_brand cp = ''toyota'' then
        if ce_openpilotLongitudinalControl cp \<and> cruise_standstill (cruiseState cs) \<and> \<not> brakePressed cs \<and>
           ce_enableGasInterceptor cp \<and> ev_has EN_resumeRequired ev
        then do { ev \<leftarrow> ev_remove EN_resumeRequired ev; Some (low, ev) }
        else Some (low, ev)
      else Some (low, ev))"

section \<open>Facts\<close>

lemma EVENTS_keys_iff: "e \<in> EVENTS_keys \<longleftrightarrow> e \<le> 103 \<and> e \<notin> {40, 47, 71, 78, 97, 101}"
  by (simp add: EVENTS_keys_def)

lemma plain_events_keys: "list_all (\<lambda>ce. snd ce \<in> EVENTS_keys) (plain_events cp x)"
  by (simp add: plain_events_def Let_def EVENTS_keys_iff)

lemma cancel_events_keys: "list_all (\<lambda>ce. snd ce \<in> EVENTS_keys) (cancel_events cp x)"
  by (simp add: cancel_events_def list_all_iff EVENTS_keys_iff)

lemma steer_fault_events_keys: "list_all (\<lambda>ce. snd ce \<in> EVENTS_keys) (snd (steer_fault_events x s))"
  by (simp add: steer_fault_events_def Let_def EVENTS_keys_iff)

lemma pcm_events_keys: "list_all (\<lambda>ce. snd ce \<in> EVENTS_keys) (pcm_events cp x)"
  by (simp add: pcm_events_def Let_def EVENTS_keys_iff)

lemma brand_events_keys:
  "list_all (\<lambda>ce. snd ce \<in> EVENTS_keys) (snd (chrysler_events cp x s))"
  "list_all (\<lambda>ce. snd ce \<in> EVENTS_keys) (honda_events cp x)"
  "list_all (\<lambda>ce. snd ce \<in> EVENTS_keys) (toyota_events cp x)"
  "list_all (\<lambda>ce. snd ce \<in> EVENTS_keys) (gm_events cp x)"
  "list_all (\<lambda>ce. snd ce \<in> EVENTS_keys) (volkswagen_events cp x)"
  by (simp_all add: chrysler_events_def honda_events_def toyota_events_def gm_events_def
      volkswagen_events_def EVENTS_keys_iff Let_def)

lemmas car_event_keys = plain_events_keys cancel_events_keys steer_fault_events_keys pcm_events_keys brand_events_keys

lemma create_common_events_ok: "ev_ok EVENTS_keys (snd (create_common_events mici cp x s))"
  unfolding create_common_events_def Let_def case_prod_beta snd_conv
  by (rule ev_ok_add_listed [OF Events_init_ok]) (simp add: car_event_keys, simp add: EVENTS_keys_iff)

lemma car_events_update_ok: "ev_ok EVENTS_keys (snd (car_events_update mici cp x s))"
proof -
  obtain s' ev where c: "create_common_events mici cp x s = (s', ev)" by fastforce
  have "ev_ok EVENTS_keys ev" using create_common_events_ok [of mici cp x s] by (simp add: c)
  then have "ev_ok EVENTS_keys (add_listed (snd (chrysler_events cp x s')) ev)"
    "ev_ok EVENTS_keys (add_listed (honda_events cp x) ev)" "ev_ok EVENTS_keys (add_listed (toyota_events cp x) ev)"
    "ev_ok EVENTS_keys (add_listed (gm_events cp x) ev)" "ev_ok EVENTS_keys (add_listed (volkswagen_events cp x) ev)"
    by (simp_all add: ev_ok_add_listed car_event_keys)
  with \<open>ev_ok EVENTS_keys ev\<close> show ?thesis
    by (simp add: car_events_update_def c Events_init_ok case_prod_beta)
qed

lemma remove_ok:
  assumes "ev_ok K ev"
  obtains ev' where "ev_remove e ev = Some ev'" "ev_ok K ev'" "\<And>d. d \<noteq> e \<Longrightarrow> ev_has d ev' = ev_has d ev"
  using ev_remove_total [OF assms, of e] assms by (auto dest: ev_ok_remove ev.has_remove_other)

lemma car_specific_sp_ok:
  assumes "ev_ok EVENTS_keys ev"
  shows "\<exists>low' ev'. car_specific_sp cp cs (low, ev) = Some (low', ev') \<and> ev_ok EVENTS_keys ev' \<and>
    (\<forall>e. e \<notin> {EN_belowSteerSpeed, EN_resumeRequired} \<longrightarrow> ev_has e ev' = ev_has e ev)"
proof -
  obtain ev1 where 1: "ev_remove EN_belowSteerSpeed ev = Some ev1" "ev_ok EVENTS_keys ev1"
    "\<And>d. d \<noteq> EN_belowSteerSpeed \<Longrightarrow> ev_has d ev1 = ev_has d ev" using remove_ok [OF assms] by blast
  obtain ev2 where 2: "ev_remove EN_resumeRequired ev = Some ev2" "ev_ok EVENTS_keys ev2"
    "\<And>d. d \<noteq> EN_resumeRequired \<Longrightarrow> ev_has d ev2 = ev_has d ev" using remove_ok [OF assms] by blast
  have "EN_belowSteerSpeed \<in> EVENTS_keys" by (simp add: EVENTS_keys_iff)
  note add_ok = ev_ok_add_if [OF assms this] ev_ok_add_if [OF 1(2) this]
  show ?thesis
  proof (cases "ce_brand cp = ''chrysler''")
    case True
    then show ?thesis using add_ok 1
      by (cases "ce_RAM_DT cp"; cases "ev_has EN_belowSteerSpeed ev") (simp_all add: car_specific_sp_def)
  next
    case False
    then show ?thesis using assms 2 by (simp add: car_specific_sp_def)
  qed
qed

end
