(* ===== verification/SelfdriveD.thy ===== *)
theory SelfdriveD
  imports CarEvents AlertManager Mads ButtonManagement Cruise LaneChange
begin

text \<open>
  The drive loop, class \<open>SelfdriveD\<close> of \<^verbatim>\<open>selfdrive/selfdrived/selfdrived.py\<close>, which composes
  the event sources, both engagement machines and the alert manager in every control frame, and the
  check for excessive actuation of \<^verbatim>\<open>selfdrive/selfdrived/helpers.py\<close>. The messages of a frame, the
  clock and the parameters it reads are the input of the frame; the parameters and offroad alerts it
  writes are a list of writes in the state. \<open>None\<close> is an exception. One definition models each block
  of \<open>update_events\<close>, in the order of the source.
\<close>

section \<open>Configuration, input and state\<close>

record sd_config =
  SIMULATION :: bool
  REPLAY :: bool
  TESTING_CLOSET :: bool
  c_mici :: bool
  c_car :: car_params
  c_passive :: bool
  c_notCar :: bool
  c_safetyConfigs :: "(safety_model \<times> nat) list"
  c_alternativeExperience :: int
  c_pcmCruiseSpeed :: bool
  c_hyst :: "real \<Rightarrow> real \<Rightarrow> real \<Rightarrow> real"
  c_ACCELERATION_DUE_TO_GRAVITY :: real
  c_ISO_LATERAL_ACCEL :: real
  c_ACCEL_MIN :: real
  c_ACCEL_MAX :: real
  ascent_v8_test_alert_mode :: bool

abbreviation op_long :: "sd_config \<Rightarrow> bool" where
  "op_long c \<equiv> ce_openpilotLongitudinalControl (c_car c)"

datatype cal_status = Cal_uncalibrated | Cal_calibrated | Cal_invalid | Cal_recalibrating

record sd_frame =
  fr_frame :: nat
  fr_received :: bool
  fr_CS :: car_state
  fr_flags :: car_flags
  fr_debugState :: bool
  fr_UsbGpuLoading :: bool
  fr_UsbGpuActive :: "bool option"
  fr_chestnutPresent :: bool
  fr_modelV2_seen :: bool
  fr_modelV2_alive :: bool
  fr_now :: real
  fr_now_later :: real
  fr_lateralManeuverPlan :: bool
  fr_alertDebug :: bool
  fr_userBookmark :: bool
  dm_lockout :: bool
  dm_alwaysOnLockout :: bool
  dm_activePolicy_vision :: bool
  dm_alertLevel :: nat
  dm_uncertainPercent :: int
  fr_planSP_events :: "nat list"
  fr_accel :: real
  fr_longActive :: bool
  fr_latActive :: bool
  fr_control :: icbm_control
  fr_thermalStatus :: nat
  fr_freeSpacePercent :: real
  fr_memoryUsagePercent :: int
  fr_panda_known :: bool
  fr_fanSpeedRpm :: int
  fr_fanSpeedPercentDesired :: int
  fr_calStatus :: cal_status
  fr_ldw_valid :: bool
  fr_leftLaneDeparture :: bool
  fr_rightLaneDeparture :: bool
  fr_calibrated_pose :: "(real \<times> real) option"
  fr_roll :: real
  fr_laneChangeState :: lane_change_state_t
  fr_laneChangeDirection :: lane_change_direction_t
  fr_leftEdgeBlock :: bool
  fr_rightEdgeBlock :: bool
  fr_laneTurnDirection :: turn_direction_t
  fr_pandaStates :: "panda_state list"
  fr_managerState :: bool
  fr_not_running :: "string list"
  fr_lagging :: bool
  fr_camera_alive :: bool
  fr_camera_freq_ok :: bool
  radar_canError :: bool
  radar_unavailableTemporary :: bool
  radar_any :: bool
  fr_all_checks :: bool
  fr_all_alive :: bool
  fr_all_freq_ok :: bool
  fr_posenetOK :: bool
  fr_inputsOK :: bool
  fr_vehicleParameters_valid :: bool
  fr_sensor_recv :: "nat list"
  fr_lac_active :: bool
  fr_lac_saturated :: bool
  fr_curvature :: real
  fr_desiredCurvature :: real
  fr_hardBrakePredicted :: bool
  fr_plan_fcw :: bool
  fr_gps_recv :: nat
  fr_frameDropPerc :: real
  fr_vTarget :: real
  fr_ctx :: alert_ctx

datatype sd_write = Put_DriverTooDistracted | Remove_DriverTooDistracted | Put_LongitudinalPersonality int
  | Offroad_DriverMonitoringUncertain | Offroad_Recalibration | Offroad_ExcessiveActuation

record excessive_check =
  excessive_counter :: nat
  engaged_counter :: nat

record selfdrived =
  sd_events :: events_state
  sd_events_sp :: events_state
  sd_machine :: ss_machine
  sd_mads :: mads
  sd_AM :: alert_manager
  sd_icbm :: icbm
  sd_cruise_helper :: cruise_helper
  sd_car_events :: car_events
  sd_car_sp_low :: bool
  sd_excessive_check :: excessive_check
  excessive_actuation :: bool
  big_model_loading :: bool
  big_model_active :: bool
  big_model_failed :: bool
  big_model_ready_t :: real
  sd_CS_prev :: "car_state \<times> car_flags"
  is_initialized :: bool
  is_enabled :: bool
  is_active :: bool
  mismatch_counter :: nat
  cruise_mismatch_counter :: nat
  last_steering_pressed_frame :: nat
  distance_traveled :: real
  last_functional_fan_frame :: nat
  experimental_mode :: bool
  personality :: int
  recalibrating_seen :: bool
  dm_lockout_set :: bool
  dm_uncertain_alerted :: bool
  startup_event :: "nat option"
  is_metric :: bool
  is_ldw_enabled :: bool
  disengage_on_accelerator_param :: bool
  sd_writes :: "sd_write list"

definition add_events :: "(bool \<times> nat) list \<Rightarrow> selfdrived \<Rightarrow> selfdrived" where
  \<comment> \<open>statements \<open>if c: self.events.add(e)\<close> in a row\<close>
  "add_events ces s = s\<lparr>sd_events := add_listed ces (sd_events s)\<rparr>"

definition add_events_sp :: "(bool \<times> nat) list \<Rightarrow> selfdrived \<Rightarrow> selfdrived" where
  "add_events_sp ces s = s\<lparr>sd_events_sp := add_listed ces (sd_events_sp s)\<rparr>"

definition write_if :: "bool \<Rightarrow> sd_write \<Rightarrow> selfdrived \<Rightarrow> selfdrived" where
  "write_if c w s = (if c then s\<lparr>sd_writes := sd_writes s @ [w]\<rparr> else s)"

section \<open>Excessive actuation\<close>

definition excessive_check_init :: excessive_check where
  "excessive_check_init = \<lparr>excessive_counter = 0, engaged_counter = 0\<rparr>"

definition excessive_check_update :: "sd_config \<Rightarrow> sd_frame \<Rightarrow> real \<times> real \<Rightarrow> excessive_check \<Rightarrow> excessive_check \<times> bool" where
  \<comment> \<open>the pose is the calibrated acceleration and yaw rate; the flag is \<open>excessive_type is not None\<close>\<close>
  "excessive_check_update c fr pose k =
     (let (accel_calibrated, yaw_rate) = pose; cs = fr_CS fr;
          long = (fr_longActive fr \<and> (accel_calibrated > c_ACCEL_MAX c * 2 \<or> accel_calibrated < c_ACCEL_MIN c * 2));
          roll_compensated = vEgo cs * yaw_rate - sin (fr_roll fr) * c_ACCELERATION_DUE_TO_GRAVITY c;
          k = k\<lparr>engaged_counter := (if fr_latActive fr \<and> \<not> steeringPressed cs then engaged_counter k + 1 else 0)\<rparr>;
          lat = (int (engaged_counter k) > py_int (1 / DT_CTRL) \<and> \<bar>roll_compensated\<bar> > c_ISO_LATERAL_ACCEL c * 2);
          device_motion_valid = (\<bar>aEgo cs - accel_calibrated\<bar> < 2);
          k = k\<lparr>excessive_counter := (if device_motion_valid \<and> (long \<or> lat) then excessive_counter k + 1 else 0)\<rparr>
      in (k, int (excessive_counter k) > py_int (25 / 100 / DT_CTRL)))"

section \<open>The blocks of \<open>update_events\<close>\<close>

definition big_model_events :: "sd_frame \<Rightarrow> selfdrived \<Rightarrow> selfdrived" where
  "big_model_events fr s =
     (let loading = fr_UsbGpuLoading fr;
          s = (if big_model_loading s \<and> \<not> loading then s\<lparr>big_model_ready_t := fr_now fr\<rparr> else s);
          s = add_events [(loading, EN_bigModelLoading)] (s\<lparr>big_model_loading := loading\<rparr>);
          model_unavailable = (fr_UsbGpuActive fr = Some True \<and> fr_modelV2_seen fr \<and> \<not> fr_modelV2_alive fr);
          big_failed = (fr_UsbGpuActive fr = Some False \<or> model_unavailable \<or>
                        (big_model_active s \<and> \<not> fr_chestnutPresent fr));
          s = add_events [(big_failed \<and> \<not> big_model_failed s, EN_bigModelFailed)] s;
          s = s\<lparr>big_model_failed := big_failed\<rparr>;
          s = (if fr_UsbGpuActive fr = Some True then s\<lparr>big_model_active := True\<rparr> else s)
      in if \<not> is_enabled s \<and> \<not> model_unavailable then s\<lparr>big_model_active := False\<rparr> else s)"

definition startup_events :: "sd_frame \<Rightarrow> selfdrived \<Rightarrow> selfdrived" where
  \<comment> \<open>the maneuver reports and the startup event\<close>
  "startup_events fr s =
     (let s = (if fr_lateralManeuverPlan fr then (add_events [(True, EN_lateralManeuver)] s)\<lparr>startup_event := None\<rparr>
               else if fr_alertDebug fr then (add_events [(True, EN_longitudinalManeuver)] s)\<lparr>startup_event := None\<rparr>
               else s)
      in case startup_event s of None \<Rightarrow> s
         | Some e \<Rightarrow> (add_events [(True, e)] s)\<lparr>startup_event := None\<rparr>)"

definition start_events :: "sd_frame \<Rightarrow> selfdrived \<Rightarrow> selfdrived" where
  \<comment> \<open>everything before the test of \<open>self.initialized\<close>\<close>
  "start_events fr s =
     (let s = s\<lparr>sd_events := ev_clear (sd_events s), sd_events_sp := ev_clear (sd_events_sp s)\<rparr>;
          s = (if fr_debugState fr then (add_events [(True, EN_joystickDebug)] s)\<lparr>startup_event := None\<rparr> else s)
      in startup_events fr (big_model_events fr s))"

definition resume_events :: "sd_config \<Rightarrow> sd_frame \<Rightarrow> selfdrived \<Rightarrow> selfdrived" where
  "resume_events c fr s =
     add_events [(\<not> ce_pcmCruise (c_car c) \<and> vCruise (fr_CS fr) > 250 \<and>
                  button_pressed_or_released [B_accelCruise, B_resumeCruise] (fr_CS fr), EN_resumeBlocked)] s"

definition driver_alert :: "bool \<Rightarrow> nat \<Rightarrow> (bool \<times> nat) list" where
  "driver_alert vision level =
     (if level = 1 then [(True, if vision then EN_driverDistracted1 else EN_driverUnresponsive1)]
      else if level = 2 then [(True, if vision then EN_driverDistracted2 else EN_driverUnresponsive2)]
      else if level = 3 then [(True, if vision then EN_driverDistracted3 else EN_driverUnresponsive3)]
      else [])"

definition lockout_param :: "sd_frame \<Rightarrow> selfdrived \<Rightarrow> selfdrived" where
  "lockout_param fr s =
     (if dm_lockout fr \<and> \<not> dm_lockout_set s then (write_if True Put_DriverTooDistracted s)\<lparr>dm_lockout_set := True\<rparr>
      else if \<not> dm_lockout fr \<and> dm_lockout_set s then (write_if True Remove_DriverTooDistracted s)\<lparr>dm_lockout_set := False\<rparr>
      else s)"

definition monitoring_events :: "sd_config \<Rightarrow> sd_frame \<Rightarrow> selfdrived \<Rightarrow> selfdrived" where
  "monitoring_events c fr s =
     (if c_notCar c then s
      else
        let s = (if ascent_v8_test_alert_mode c then s
                 else
                   let s = lockout_param fr s;
                       s = add_events ((dm_lockout fr \<or> dm_alwaysOnLockout fr, EN_tooDistracted) #
                             driver_alert (dm_activePolicy_vision fr) (dm_alertLevel fr)) s
                   in if dm_uncertainPercent fr \<ge> 100 \<and> \<not> dm_uncertain_alerted s
                      then (write_if True Offroad_DriverMonitoringUncertain s)\<lparr>dm_uncertain_alerted := True\<rparr>
                      else s)
        in s\<lparr>sd_events_sp := ev_add_from_msg (fr_planSP_events fr) (sd_events_sp s)\<rparr>)"

definition pedal_event :: "sd_frame \<Rightarrow> selfdrived \<Rightarrow> bool" where
  "pedal_event fr s =
     (let cs = fr_CS fr; p = fst (sd_CS_prev s) in
      (gasPressed cs \<and> \<not> gasPressed p \<and> disengage_on_accelerator_param s) \<or>
      (brakePressed cs \<and> (\<not> brakePressed p \<or> \<not> standstill cs)) \<or>
      (regenBraking cs \<and> (\<not> regenBraking p \<or> \<not> standstill cs)))"

definition car_sample_of :: "sd_frame \<Rightarrow> selfdrived \<Rightarrow> car_sample" where
  "car_sample_of fr s =
     \<lparr>cur = fr_CS fr, cur_flags = fr_flags fr, prev = fst (sd_CS_prev s), prev_flags = snd (sd_CS_prev s),
      cc_accel = fr_accel fr, cc_is_enabled = cc_enabled (fr_control fr), cc_cruise_resume = cc_resume (fr_control fr)\<rparr>"

definition car_state_events :: "sd_config \<Rightarrow> sd_frame \<Rightarrow> selfdrived \<Rightarrow> selfdrived option" where
  \<comment> \<open>the block under \<open>if CS.canValid\<close>\<close>
  "car_state_events c fr s =
     (if canValid (fr_CS fr) then
        let (ce, evs) = car_events_update (c_mici c) (c_car c) (car_sample_of fr s) (sd_car_events s);
            s = s\<lparr>sd_car_events := ce, sd_events := ev_add_from_msg (ev_events evs) (sd_events s)\<rparr>
        in do { (low, ev) \<leftarrow> car_specific_sp (c_car c) (fr_CS fr) (sd_car_sp_low s, sd_events s);
                let s = s\<lparr>sd_car_sp_low := low, sd_events := ev\<rparr>;
                Some (add_events [(c_notCar c \<and> int (fr_frame fr) > py_int (2 / DT_CTRL) \<and> is_initialized s, EN_pcmEnable),
                                  (pedal_event fr s, EN_pedalPressed)] s) }
      else Some s)"

definition device_events :: "sd_config \<Rightarrow> sd_frame \<Rightarrow> selfdrived \<Rightarrow> selfdrived" where
  "device_events c fr s =
     (let s = add_events [(fr_thermalStatus fr \<ge> 2, EN_overheat),
                          (fr_freeSpacePercent fr < 7 \<and> \<not> SIMULATION c, EN_outOfSpace),
                          (fr_memoryUsagePercent fr > 90 \<and> \<not> SIMULATION c, EN_lowMemory)] s
      in if fr_panda_known fr then
           if fr_fanSpeedRpm fr < 500 \<and> fr_fanSpeedPercentDesired fr > 50
           then add_events [((of_nat (fr_frame fr) - of_nat (last_functional_fan_frame s)) * DT_CTRL > 15, EN_fanMalfunction)] s
           else s\<lparr>last_functional_fan_frame := fr_frame fr\<rparr>
         else s)"

definition calibration_events :: "sd_frame \<Rightarrow> selfdrived \<Rightarrow> selfdrived" where
  "calibration_events fr s =
     (case fr_calStatus fr of
        Cal_calibrated \<Rightarrow> s
      | Cal_uncalibrated \<Rightarrow> add_events [(True, EN_calibrationIncomplete)] s
      | Cal_recalibrating \<Rightarrow>
          add_events [(True, EN_calibrationRecalibrating)]
            ((write_if (\<not> recalibrating_seen s) Offroad_Recalibration s)\<lparr>recalibrating_seen := True\<rparr>)
      | Cal_invalid \<Rightarrow> add_events [(True, EN_calibrationInvalid)] s)"

definition ldw_events :: "sd_frame \<Rightarrow> selfdrived \<Rightarrow> selfdrived" where
  "ldw_events fr s =
     add_events [(is_ldw_enabled s \<and> fr_ldw_valid fr \<and> (fr_leftLaneDeparture fr \<or> fr_rightLaneDeparture fr), EN_ldw)] s"

definition actuation_events :: "sd_config \<Rightarrow> sd_frame \<Rightarrow> selfdrived \<Rightarrow> selfdrived" where
  "actuation_events c fr s =
     (let s = (case fr_calibrated_pose fr of
                 None \<Rightarrow> s
               | Some pose \<Rightarrow>
                   if c_notCar c then s
                   else let (k, excessive) = excessive_check_update c fr pose (sd_excessive_check s);
                            s = s\<lparr>sd_excessive_check := k\<rparr>
                        in if \<not> excessive_actuation s \<and> excessive
                           then (write_if True Offroad_ExcessiveActuation s)\<lparr>excessive_actuation := True\<rparr>
                           else s)
      in add_events [(excessive_actuation s, EN_excessiveActuation)] s)"

definition lane_change_events :: "sd_frame \<Rightarrow> selfdrived \<Rightarrow> selfdrived" where
  "lane_change_events fr s =
     (let cs = fr_CS fr; d = fr_laneChangeDirection fr;
          s = (case fr_laneChangeState fr of
                 LC_preLaneChange \<Rightarrow>
                   if (leftBlindspot cs \<and> d = Dir_left) \<or> (rightBlindspot cs \<and> d = Dir_right)
                   then add_events [(True, EN_laneChangeBlocked)] s
                   else if (fr_leftEdgeBlock fr \<and> d = Dir_left) \<or> (fr_rightEdgeBlock fr \<and> d = Dir_right)
                   then add_events_sp [(True, SP_laneChangeRoadEdge)] s
                   else add_events [(True, if d = Dir_left then EN_preLaneChangeLeft else EN_preLaneChangeRight)] s
               | LC_off \<Rightarrow> s
               | _ \<Rightarrow> add_events [(True, EN_laneChange)] s)
      in case fr_laneTurnDirection fr of
           Turn_left \<Rightarrow> add_events_sp [(True, SP_laneTurnLeft)] s
         | Turn_right \<Rightarrow> add_events_sp [(True, SP_laneTurnRight)] s
         | Turn_none \<Rightarrow> s)"

definition safety_mismatch :: "sd_config \<Rightarrow> nat \<Rightarrow> panda_state \<Rightarrow> bool" where
  "safety_mismatch c i p =
     (if i < length (c_safetyConfigs c) then
        safetyModel p \<noteq> fst (c_safetyConfigs c ! i) \<or> safetyParam p \<noteq> snd (c_safetyConfigs c ! i) \<or>
        alternativeExperience p \<noteq> c_alternativeExperience c
      else safetyModel p \<notin> set IGNORED_SAFETY_MODES)"

definition panda_events :: "sd_config \<Rightarrow> sd_frame \<Rightarrow> selfdrived \<Rightarrow> selfdrived" where
  "panda_events c fr s =
     add_events
       (concat (map (\<lambda>(i, p).
          [((safety_mismatch c i p \<and> of_nat (fr_frame fr) * DT_CTRL > 10) \<or> safetyRxChecksInvalid p \<or>
              mismatch_counter s \<ge> 200, EN_controlsMismatch),
           (relayMalfunction p, EN_relayMalfunction)])
        (List.enumerate 0 (fr_pandaStates fr)))) s"

definition process_events :: "sd_config \<Rightarrow> sd_frame \<Rightarrow> (bool \<times> nat) list" where
  "process_events c fr =
     (if fr_managerState fr \<and> filter (\<lambda>p. p \<noteq> ''mapd'') (fr_not_running fr) \<noteq> [] then [(True, EN_processNotRunning)]
      else if \<not> SIMULATION c \<and> \<not> fr_lagging fr then
        if \<not> fr_camera_alive fr then [(True, EN_cameraMalfunction)]
        else if \<not> fr_camera_freq_ok fr then [(True, EN_cameraFrameRate)] else []
      else [])"

definition radar_events :: "sd_config \<Rightarrow> sd_frame \<Rightarrow> (bool \<times> nat) list" where
  "radar_events c fr =
     (if op_long c then
        if radar_canError fr then [(True, EN_canError)]
        else if radar_unavailableTemporary fr then [(True, EN_radarTempUnavailable)]
        else if radar_any fr then [(True, EN_radarFault)] else []
      else [])"

definition can_events :: "sd_frame \<Rightarrow> (bool \<times> nat) list" where
  "can_events fr =
     (if canTimeout (fr_CS fr) then [(True, EN_canBusMissing)]
      else if \<not> canValid (fr_CS fr) then [(True, EN_canError)] else [])"

definition malfunction_events :: "sd_config \<Rightarrow> sd_frame \<Rightarrow> selfdrived \<Rightarrow> selfdrived" where
  "malfunction_events c fr s =
     add_events ((big_model_active s \<and> big_model_failed s, EN_bigModelFailed) #
        process_events c fr @ (\<not> REPLAY c \<and> fr_lagging fr, EN_selfdrivedLagging) # radar_events c fr @ can_events fr) s"

definition big_model_settling :: "sd_frame \<Rightarrow> selfdrived \<Rightarrow> bool" where
  "big_model_settling fr s \<longleftrightarrow> big_model_loading s \<or> fr_now_later fr < big_model_ready_t s + 5"

definition comm_events :: "sd_config \<Rightarrow> sd_frame \<Rightarrow> nat \<Rightarrow> selfdrived \<Rightarrow> selfdrived" where
  \<comment> \<open>the generic catch-all; the number is \<open>num_events\<close>\<close>
  "comm_events c fr num_events s =
     (let has = ev_contains (EVENTS (c_mici c)) (sd_events s);
          has_disable_events = (has NO_ENTRY \<and> (has SOFT_DISABLE \<or> has IMMEDIATE_DISABLE));
          no_system_errors = (\<not> has_disable_events \<or> length (ev_events (sd_events s)) = num_events)
      in if \<not> fr_all_checks fr \<and> no_system_errors \<and> \<not> big_model_settling fr s
         then add_events [(True, if \<not> fr_all_alive fr then EN_commIssue
                                 else if \<not> fr_all_freq_ok fr then EN_commIssueAvgFreq else EN_commIssue)] s
         else s)"

definition localization_events :: "sd_config \<Rightarrow> sd_frame \<Rightarrow> selfdrived \<Rightarrow> selfdrived" where
  "localization_events c fr s =
     (let ok = (\<not> c_notCar c \<and> \<not> big_model_settling fr s) in
      add_events
        [(ok \<and> \<not> fr_posenetOK fr, EN_posenetInvalid),
         (ok \<and> \<not> fr_inputsOK fr, EN_locationdTemporaryError),
         (ok \<and> \<not> fr_vehicleParameters_valid fr \<and> fr_calStatus fr = Cal_calibrated \<and> \<not> TESTING_CLOSET c \<and>
            (\<not> SIMULATION c \<or> REPLAY c), EN_paramsdTemporaryError),
         (list_ex (\<lambda>r. (of_nat (fr_frame fr) - of_nat r) * DT_CTRL > (10 :: real)) (fr_sensor_recv fr), EN_sensorDataInvalid)] s)"

definition cruise_mismatch_events :: "sd_config \<Rightarrow> sd_frame \<Rightarrow> selfdrived \<Rightarrow> selfdrived" where
  "cruise_mismatch_events c fr s =
     (if REPLAY c then s
      else
        let mismatch = (cruise_enabled (cruiseState (fr_CS fr)) \<and> (\<not> is_enabled s \<or> \<not> ce_pcmCruise (c_car c)));
            n = (if mismatch then cruise_mismatch_counter s + 1 else 0)
        in add_events [(int n > py_int (6 / DT_CTRL), EN_cruiseMismatch)] (s\<lparr>cruise_mismatch_counter := n\<rparr>))"

definition saturation_events :: "sd_config \<Rightarrow> sd_frame \<Rightarrow> selfdrived \<Rightarrow> selfdrived option" where
  \<comment> \<open>a zero divisor raises\<close>
  "saturation_events c fr s =
     (let cs = fr_CS fr;
          s = (if steeringPressed cs then s\<lparr>last_steering_pressed_frame := fr_frame fr\<rparr> else s);
          recent_steer_pressed = ((of_nat (fr_frame fr) - of_nat (last_steering_pressed_frame s)) * DT_CTRL < (2 :: real))
      in if fr_lac_active fr \<and> \<not> recent_steer_pressed \<and> \<not> c_notCar c then
           let clipped_speed = max (vEgo cs) (3 / 10);
               actual = fr_curvature fr * clipped_speed ^ 2;
               desired = fr_desiredCurvature fr * clipped_speed ^ 2;
               divisor = \<bar>1 / 1000 + actual\<bar>
           in if divisor = 0 then None
              else Some (add_events [(\<bar>desired\<bar> / divisor > 12 / 10 \<and> \<bar>desired\<bar> > 1 \<and> fr_lac_saturated fr \<and>
                                      \<not> ascent_v8_test_alert_mode c, EN_steerSaturated)] s)
         else Some s)"

definition fcw_events :: "sd_config \<Rightarrow> sd_frame \<Rightarrow> selfdrived \<Rightarrow> selfdrived" where
  "fcw_events c fr s =
     (let cs = fr_CS fr;
          stock_long_is_braking = (is_enabled s \<and> \<not> op_long c \<and> aEgo cs < - 125 / 100);
          model_fcw = (fr_hardBrakePredicted fr \<and> \<not> brakePressed cs \<and> \<not> stock_long_is_braking);
          planner_fcw = (fr_plan_fcw fr \<and> is_enabled s)
      in add_events [((planner_fcw \<or> model_fcw) \<and> \<not> c_notCar c, EN_fcw)] s)"

definition gps_events :: "sd_frame \<Rightarrow> selfdrived \<Rightarrow> selfdrived" where
  "gps_events fr s =
     (let gps_ok = (fr_gps_recv fr > 0 \<and> (of_nat (fr_frame fr) - of_nat (fr_gps_recv fr)) * DT_CTRL < (2 :: real));
          s = add_events [(\<not> gps_ok \<and> fr_inputsOK fr \<and> distance_traveled s > 1500, EN_noGps)] s;
          s = (if gps_ok then s\<lparr>distance_traveled := 0\<rparr> else s)
      in s\<lparr>distance_traveled := distance_traveled s + \<bar>vEgo (fr_CS fr)\<bar> * DT_CTRL\<rparr>)"

definition mute_can_event :: "sd_frame \<Rightarrow> selfdrived \<Rightarrow> selfdrived option" where
  "mute_can_event fr s =
     (if gearShifter (fr_CS fr) = Gear_park \<and> mads_enabled (sd_mads s)
      then do { ev \<leftarrow> ev_remove EN_canBusMissing (sd_events s); Some (s\<lparr>sd_events := ev\<rparr>) }
      else Some s)"

definition personality_events :: "sd_config \<Rightarrow> sd_frame \<Rightarrow> selfdrived \<Rightarrow> selfdrived" where
  "personality_events c fr s =
     (if op_long c \<and> list_ex (\<lambda>b. \<not> be_pressed b \<and> be_type b = B_gapAdjustCruise) (buttonEvents (fr_CS fr)) then
        let s = (if \<not> experimental_mode_switched (sd_cruise_helper s) then
                   let p = (personality s - 1) mod 3 in
                   add_events [(True, EN_personalityChanged)]
                     (write_if True (Put_LongitudinalPersonality p) (s\<lparr>personality := p\<rparr>))
                 else s)
        in s\<lparr>sd_cruise_helper := (sd_cruise_helper s)\<lparr>experimental_mode_switched := False\<rparr>\<rparr>
      else s)"

definition helper_events :: "sd_config \<Rightarrow> sd_frame \<Rightarrow> selfdrived \<Rightarrow> selfdrived" where
  \<comment> \<open>\<open>CruiseHelper.update\<close> on \<open>self\<close>\<close>
  "helper_events c fr s =
     (let (h, sp) = cruise_helper_update (op_long c) (fr_CS fr) (experimental_mode s) (sd_cruise_helper s, sd_events_sp s)
      in s\<lparr>sd_cruise_helper := h, sd_events_sp := sp\<rparr>)"

definition button_management :: "sd_config \<Rightarrow> sd_frame \<Rightarrow> selfdrived \<Rightarrow> selfdrived" where
  "button_management c fr s =
     s\<lparr>sd_icbm := icbm_run (c_hyst c) (c_pcmCruiseSpeed c)
        \<lparr>ic_events = buttonEvents (fr_CS fr), ic_speedCluster = cruise_speedCluster (cruiseState (fr_CS fr)),
         ic_control = fr_control fr, ic_vTarget = fr_vTarget fr, ic_is_metric = is_metric s\<rparr> (sd_icbm s)\<rparr>"

definition driver_and_car_events :: "sd_config \<Rightarrow> sd_frame \<Rightarrow> selfdrived \<Rightarrow> selfdrived option" where
  "driver_and_car_events c fr s = car_state_events c fr (monitoring_events c fr (resume_events c fr s))"

definition watch_events :: "sd_config \<Rightarrow> sd_frame \<Rightarrow> selfdrived \<Rightarrow> selfdrived" where
  "watch_events c fr s =
     panda_events c fr (lane_change_events fr (actuation_events c fr (ldw_events fr
       (calibration_events fr (device_events c fr s)))))"

definition fault_events :: "sd_config \<Rightarrow> sd_frame \<Rightarrow> selfdrived \<Rightarrow> selfdrived" where
  "fault_events c fr s =
     (let num_events = length (ev_events (sd_events s))
      in cruise_mismatch_events c fr (localization_events c fr (comm_events c fr num_events (malfunction_events c fr s))))"

definition late_events :: "sd_config \<Rightarrow> sd_frame \<Rightarrow> selfdrived \<Rightarrow> selfdrived" where
  "late_events c fr s =
     add_events [((\<not> SIMULATION c \<or> REPLAY c) \<and> fr_frameDropPerc fr > 1, EN_modeldLagging)]
       (gps_events fr (fcw_events c fr s))"

definition running_events :: "sd_config \<Rightarrow> sd_frame \<Rightarrow> selfdrived \<Rightarrow> selfdrived option" where
  \<comment> \<open>what follows the test of \<open>self.CP.passive\<close>\<close>
  "running_events c fr s =
     do { s \<leftarrow> driver_and_car_events c fr s;
          s \<leftarrow> saturation_events c fr (fault_events c fr (watch_events c fr s));
          s \<leftarrow> mute_can_event fr (late_events c fr s);
          Some (button_management c fr (personality_events c fr (helper_events c fr s))) }"

definition update_events :: "sd_config \<Rightarrow> sd_frame \<Rightarrow> selfdrived \<Rightarrow> selfdrived option" where
  "update_events c fr s =
     (let s = start_events fr s in
      if \<not> is_initialized s then Some (add_events [(True, EN_selfdriveInitializing)] s)
      else
        let s = add_events [(fr_userBookmark fr, EN_userBookmark)] s in
        if c_passive c then Some s else running_events c fr s)"

section \<open>The step\<close>

definition with_car_state :: "sd_frame \<Rightarrow> selfdrived \<Rightarrow> sd_frame" where
  \<comment> \<open>without a new message the last car state is used\<close>
  "with_car_state fr s =
     (if fr_received fr then fr else fr\<lparr>fr_CS := fst (sd_CS_prev s), fr_flags := snd (sd_CS_prev s)\<rparr>)"

definition data_sample :: "sd_config \<Rightarrow> sd_frame \<Rightarrow> selfdrived \<Rightarrow> selfdrived" where
  "data_sample c fr s =
     (let s = (if \<not> is_initialized s \<and>
                  (canValid (fr_CS fr) \<and> fr_all_checks fr \<or> of_nat (fr_frame fr) * DT_CTRL > (6 :: real) \<or> SIMULATION c \<and> \<not> REPLAY c)
               then (if REPLAY c \<and> list_ex controlsAllowed (fr_pandaStates fr)
                     then s\<lparr>sd_machine := (sd_machine s)\<lparr>ss_state := Op_enabled\<rparr>\<rparr> else s)\<lparr>is_initialized := True\<rparr>
               else s);
          s = (if \<not> is_enabled s then s\<lparr>mismatch_counter := 0\<rparr> else s)
      in if is_enabled s \<and> list_ex (\<lambda>p. safetyModel p \<notin> set IGNORED_SAFETY_MODES \<and> \<not> controlsAllowed p) (fr_pandaStates fr)
         then s\<lparr>mismatch_counter := mismatch_counter s + 1\<rparr> else s)"

definition machine_step :: "sd_config \<Rightarrow> selfdrived \<Rightarrow> selfdrived" where
  "machine_step c s =
     (if \<not> c_passive c \<and> is_initialized s then
        let (m, enabled, active) = ss_update (ev_contains (EVENTS (c_mici c)) (sd_events s)) (sd_machine s)
        in s\<lparr>sd_machine := m, is_enabled := enabled, is_active := active\<rparr>
      else s)"

definition mads_env_of :: "sd_config \<Rightarrow> sd_frame \<Rightarrow> selfdrived \<Rightarrow> mads_env" where
  "mads_env_of c fr s =
     \<lparr>sd_enabled = is_enabled s, sd_initialized = is_initialized s, sd_passive = c_passive c, CS = fr_CS fr,
      CS_prev = fst (sd_CS_prev s), pandaStates = fr_pandaStates fr\<rparr>"

definition mads_step :: "sd_config \<Rightarrow> sd_frame \<Rightarrow> selfdrived \<Rightarrow> selfdrived option" where
  "mads_step c fr s =
     (if c_notCar c then Some s
      else do { (m, sm, st) \<leftarrow> mads_update (c_mici c) (mads_env_of c fr s) (sd_mads s, sd_machine s, (sd_events s, sd_events_sp s));
                Some (s\<lparr>sd_mads := m, sd_machine := sm, sd_events := fst st, sd_events_sp := snd st\<rparr>) })"

definition LONGITUDINAL_PERSONALITY_MAP :: "int \<Rightarrow> string option" where
  "LONGITUDINAL_PERSONALITY_MAP = map_of [(0, ''aggressive''), (1, ''standard''), (2, ''relaxed'')]"

definition alerts_step :: "sd_config \<Rightarrow> sd_frame \<Rightarrow> selfdrived \<Rightarrow> selfdrived option" where
  \<comment> \<open>\<open>update_alerts\<close>, with the callback arguments\<close>
  "alerts_step c fr s =
     do { pers \<leftarrow> LONGITUDINAL_PERSONALITY_MAP (personality s);
          am \<leftarrow> update_alerts (c_mici c)
                 ((fr_ctx fr)\<lparr>ctx_metric := is_metric s, ctx_soft_disable_time := soft_disable_timer (sd_machine s),
                             ctx_personality := pers\<rparr>)
                 (int (fr_frame fr)) (is_enabled s) (sd_machine s) (sd_events s, sd_events_sp s) (sd_AM s);
          Some (s\<lparr>sd_AM := am\<rparr>) }"

definition sd_step :: "sd_config \<Rightarrow> sd_frame \<Rightarrow> selfdrived \<Rightarrow> selfdrived option" where
  "sd_step c fr s =
     (let fr = with_car_state fr s in
      do { s \<leftarrow> update_events c fr (data_sample c fr s);
           s \<leftarrow> mads_step c fr (machine_step c s);
           s \<leftarrow> alerts_step c fr s;
           Some (s\<lparr>sd_CS_prev := (fr_CS fr, fr_flags fr)\<rparr>) })"

fun sd_run :: "sd_config \<Rightarrow> sd_frame list \<Rightarrow> selfdrived \<Rightarrow> selfdrived option" where
  "sd_run c [] s = Some s"
| "sd_run c (fr # frs) s = do { s \<leftarrow> sd_step c fr s; sd_run c frs s }"

section \<open>Start and parameters\<close>

record sd_params =
  q_IsMetric :: bool
  q_IsLdwEnabled :: bool
  q_DisengageOnAccelerator :: bool
  q_ExperimentalMode :: bool
  q_LongitudinalPersonality :: int
  q_mads :: mads_params

definition params_thread_pass :: "sd_config \<Rightarrow> sd_params \<Rightarrow> selfdrived \<Rightarrow> selfdrived" where
  \<comment> \<open>one pass of the loop of \<open>params_thread\<close>\<close>
  "params_thread_pass c q s =
     s\<lparr>is_metric := q_IsMetric q, is_ldw_enabled := q_IsLdwEnabled q,
       disengage_on_accelerator_param := q_DisengageOnAccelerator q,
       experimental_mode := (q_ExperimentalMode q \<and> op_long c),
       personality := q_LongitudinalPersonality q, sd_mads := mads_read_params (q_mads q) (sd_mads s)\<rparr>"

record sd_build =
  b_remote_tested :: bool
  b_car_recognized :: bool
  b_secOc_key_missing :: bool
  b_Offroad_ExcessiveActuation :: bool

definition initial_startup_event :: "sd_config \<Rightarrow> sd_build \<Rightarrow> nat option" where
  "initial_startup_event c b =
     (let e = Some (if b_remote_tested b then EN_startup else EN_startupMaster);
          e = (if c_mici c then None else e)
      in if \<not> b_car_recognized b then Some EN_startupNoCar
         else if c_passive c then Some EN_startupNoControl
         else if b_secOc_key_missing b then Some EN_startupNoSecOcKey
         else e)"

definition sd_init :: "sd_config \<Rightarrow> sd_build \<Rightarrow> sd_params \<Rightarrow> mads_car \<Rightarrow> car_flags \<Rightarrow> selfdrived" where
  \<comment> \<open>the flags are those of a new message\<close>
  "sd_init c b q mc flags =
     (let ev = Events_init (c_mici c);
          ev = (if \<not> b_car_recognized b then ev_add_static EN_carUnrecognized ev
                else if c_passive c then ev_add_static EN_dashcamMode ev else ev)
      in \<lparr>sd_events = ev, sd_events_sp = EventsSP_init (c_mici c), sd_machine = ss_init, sd_mads = mads_init mc (q_mads q),
          sd_AM = am_init, sd_icbm = icbm_init, sd_cruise_helper = cruise_helper_init, sd_car_events = car_events_init,
          sd_car_sp_low = False, sd_excessive_check = excessive_check_init,
          excessive_actuation = b_Offroad_ExcessiveActuation b, big_model_loading = False, big_model_active = False,
          big_model_failed = False, big_model_ready_t = 0, sd_CS_prev = (cs_default, flags), is_initialized = False,
          is_enabled = False, is_active = False, mismatch_counter = 0, cruise_mismatch_counter = 0,
          last_steering_pressed_frame = 0, distance_traveled = 0, last_functional_fan_frame = 0,
          experimental_mode = False, personality = max 0 (min 2 (q_LongitudinalPersonality q)), recalibrating_seen = False,
          dm_lockout_set = False, dm_uncertain_alerted = False, startup_event = initial_startup_event c b,
          is_metric = q_IsMetric q, is_ldw_enabled = q_IsLdwEnabled q,
          disengage_on_accelerator_param = q_DisengageOnAccelerator q, sd_writes = []\<rparr>)"

end
