(* ===== verification/SelfdriveDFacts.thy ===== *)
theory SelfdriveDFacts
  imports SelfdriveD
begin

text \<open>
  The drive loop as a whole: a frame returns and keeps the invariant of the loop; a critical fault
  disengages in its frame; and the drive machine engages only when nothing the loop watches speaks
  against it.
\<close>

section \<open>What every block of \<open>update_events\<close> keeps\<close>

definition MUTABLE_EVENTS :: "nat set" where
  \<comment> \<open>the events a block may take away\<close>
  "MUTABLE_EVENTS = {EN_canBusMissing, EN_belowSteerSpeed, EN_resumeRequired}"

definition stores_fine :: "selfdrived \<Rightarrow> bool" where
  "stores_fine s \<longleftrightarrow> ev_ok EVENTS_keys (sd_events s) \<and> ev_ok EVENTS_SP_keys (sd_events_sp s) \<and>
     (\<forall>e. startup_event s = Some e \<longrightarrow> e \<in> EVENTS_keys) \<and> 0 \<le> personality s \<and> personality s \<le> 2"

definition machines :: "selfdrived \<Rightarrow> ss_machine \<times> mads \<times> alert_manager \<times> bool \<times> bool \<times> nat \<times> (car_state \<times> car_flags) \<times> bool" where
  \<comment> \<open>what no block changes\<close>
  "machines s = (sd_machine s, sd_mads s, sd_AM s, is_initialized s, is_enabled s, mismatch_counter s, sd_CS_prev s,
     disengage_on_accelerator_param s)"

definition lasting :: "selfdrived \<Rightarrow> nat option set" where
  \<comment> \<open>what blocks only add to: events, and the mark of excessive actuation\<close>
  "lasting s = Some ` {e. ev_has e (sd_events s) \<and> e \<notin> MUTABLE_EVENTS} \<union> {x. x = None \<and> excessive_actuation s}"

definition block :: "selfdrived \<Rightarrow> selfdrived \<Rightarrow> bool" where
  "block s s' \<longleftrightarrow> machines s' = machines s \<and> (stores_fine s \<longrightarrow> stores_fine s') \<and> lasting s \<le> lasting s'"

lemma block_refl [simp]: "block s s"
  by (simp add: block_def)

lemma block_trans: assumes "block s t" "block t u" shows "block s u"
proof -
  from assms have "machines u = machines s" unfolding block_def by (elim conjE) (rule trans)
  moreover from assms have "lasting s \<le> lasting u" unfolding block_def by (elim conjE) (rule order_trans)
  ultimately show ?thesis using assms unfolding block_def by blast
qed

lemma blockI: "machines t = machines s \<Longrightarrow> (stores_fine s \<Longrightarrow> stores_fine t) \<Longrightarrow> lasting s \<le> lasting t \<Longrightarrow> block s t"
  unfolding block_def by blast

lemma block_machines: "block s t \<Longrightarrow> machines t = machines s"
  by (simp add: block_def)

lemma block_fine: "block s t \<Longrightarrow> stores_fine s \<Longrightarrow> stores_fine t"
  by (simp add: block_def)

lemma block_has:
  assumes "block s t" "ev_has e (sd_events s)" "e \<notin> MUTABLE_EVENTS"
  shows "ev_has e (sd_events t)"
proof -
  have "Some e \<in> lasting s" using assms(2,3) by (simp add: lasting_def)
  with assms(1) have "Some e \<in> lasting t" unfolding block_def by blast
  then show ?thesis by (auto simp: lasting_def)
qed

text \<open>Updates of fields that the predicate does not read.\<close>

lemma machines_fields [simp]:
  "machines (t\<lparr>startup_event := o'\<rparr>) = machines t" "machines (t\<lparr>big_model_ready_t := a\<rparr>) = machines t"
  "machines (t\<lparr>big_model_loading := b\<rparr>) = machines t" "machines (t\<lparr>big_model_failed := b\<rparr>) = machines t"
  "machines (t\<lparr>big_model_active := b\<rparr>) = machines t" "machines (t\<lparr>dm_lockout_set := b\<rparr>) = machines t"
  "machines (t\<lparr>dm_uncertain_alerted := b\<rparr>) = machines t" "machines (t\<lparr>last_functional_fan_frame := n\<rparr>) = machines t"
  "machines (t\<lparr>recalibrating_seen := b\<rparr>) = machines t" "machines (t\<lparr>sd_excessive_check := k\<rparr>) = machines t"
  "machines (t\<lparr>excessive_actuation := b\<rparr>) = machines t" "machines (t\<lparr>cruise_mismatch_counter := n\<rparr>) = machines t"
  "machines (t\<lparr>last_steering_pressed_frame := n\<rparr>) = machines t" "machines (t\<lparr>distance_traveled := a\<rparr>) = machines t"
  "machines (t\<lparr>sd_cruise_helper := h\<rparr>) = machines t" "machines (t\<lparr>sd_icbm := i\<rparr>) = machines t"
  "machines (t\<lparr>sd_car_events := ce\<rparr>) = machines t" "machines (t\<lparr>sd_car_sp_low := b\<rparr>) = machines t"
  "machines (t\<lparr>sd_events := ev\<rparr>) = machines t" "machines (t\<lparr>sd_events_sp := ev\<rparr>) = machines t"
  "machines (t\<lparr>sd_writes := ws\<rparr>) = machines t" "machines (t\<lparr>personality := i'\<rparr>) = machines t"
  by (simp_all add: machines_def)

lemma fine_fields [simp]:
  "stores_fine (t\<lparr>big_model_ready_t := a\<rparr>) = stores_fine t" "stores_fine (t\<lparr>big_model_loading := b\<rparr>) = stores_fine t"
  "stores_fine (t\<lparr>big_model_failed := b\<rparr>) = stores_fine t" "stores_fine (t\<lparr>big_model_active := b\<rparr>) = stores_fine t"
  "stores_fine (t\<lparr>dm_lockout_set := b\<rparr>) = stores_fine t" "stores_fine (t\<lparr>dm_uncertain_alerted := b\<rparr>) = stores_fine t"
  "stores_fine (t\<lparr>last_functional_fan_frame := n\<rparr>) = stores_fine t" "stores_fine (t\<lparr>recalibrating_seen := b\<rparr>) = stores_fine t"
  "stores_fine (t\<lparr>sd_excessive_check := k\<rparr>) = stores_fine t" "stores_fine (t\<lparr>excessive_actuation := b\<rparr>) = stores_fine t"
  "stores_fine (t\<lparr>cruise_mismatch_counter := n\<rparr>) = stores_fine t" "stores_fine (t\<lparr>last_steering_pressed_frame := n\<rparr>) = stores_fine t"
  "stores_fine (t\<lparr>distance_traveled := a\<rparr>) = stores_fine t" "stores_fine (t\<lparr>sd_cruise_helper := h\<rparr>) = stores_fine t"
  "stores_fine (t\<lparr>sd_icbm := i\<rparr>) = stores_fine t" "stores_fine (t\<lparr>sd_car_events := ce\<rparr>) = stores_fine t"
  "stores_fine (t\<lparr>sd_car_sp_low := b\<rparr>) = stores_fine t" "stores_fine (t\<lparr>sd_writes := ws\<rparr>) = stores_fine t"
  by (simp_all add: stores_fine_def)

lemma lasting_fields [simp]:
  "lasting (t\<lparr>startup_event := o'\<rparr>) = lasting t" "lasting (t\<lparr>big_model_ready_t := a\<rparr>) = lasting t"
  "lasting (t\<lparr>big_model_loading := b\<rparr>) = lasting t" "lasting (t\<lparr>big_model_failed := b\<rparr>) = lasting t"
  "lasting (t\<lparr>big_model_active := b\<rparr>) = lasting t" "lasting (t\<lparr>dm_lockout_set := b\<rparr>) = lasting t"
  "lasting (t\<lparr>dm_uncertain_alerted := b\<rparr>) = lasting t" "lasting (t\<lparr>last_functional_fan_frame := n\<rparr>) = lasting t"
  "lasting (t\<lparr>recalibrating_seen := b\<rparr>) = lasting t" "lasting (t\<lparr>sd_excessive_check := k\<rparr>) = lasting t"
  "lasting (t\<lparr>cruise_mismatch_counter := n\<rparr>) = lasting t" "lasting (t\<lparr>last_steering_pressed_frame := n\<rparr>) = lasting t"
  "lasting (t\<lparr>distance_traveled := a\<rparr>) = lasting t" "lasting (t\<lparr>sd_cruise_helper := h\<rparr>) = lasting t"
  "lasting (t\<lparr>sd_icbm := i\<rparr>) = lasting t" "lasting (t\<lparr>sd_car_events := ce\<rparr>) = lasting t"
  "lasting (t\<lparr>sd_car_sp_low := b\<rparr>) = lasting t" "lasting (t\<lparr>sd_events_sp := ev\<rparr>) = lasting t"
  "lasting (t\<lparr>sd_writes := ws\<rparr>) = lasting t" "lasting (t\<lparr>personality := i'\<rparr>) = lasting t"
  by (simp_all add: lasting_def)

lemma block_fields [simp]:
  "block s (t\<lparr>big_model_ready_t := a\<rparr>) = block s t" "block s (t\<lparr>big_model_loading := b\<rparr>) = block s t"
  "block s (t\<lparr>big_model_failed := b\<rparr>) = block s t" "block s (t\<lparr>big_model_active := b\<rparr>) = block s t"
  "block s (t\<lparr>dm_lockout_set := b\<rparr>) = block s t" "block s (t\<lparr>dm_uncertain_alerted := b\<rparr>) = block s t"
  "block s (t\<lparr>last_functional_fan_frame := n\<rparr>) = block s t" "block s (t\<lparr>recalibrating_seen := b\<rparr>) = block s t"
  "block s (t\<lparr>sd_excessive_check := k\<rparr>) = block s t" "block s (t\<lparr>cruise_mismatch_counter := n\<rparr>) = block s t"
  "block s (t\<lparr>last_steering_pressed_frame := n\<rparr>) = block s t" "block s (t\<lparr>distance_traveled := a\<rparr>) = block s t"
  "block s (t\<lparr>sd_cruise_helper := h\<rparr>) = block s t" "block s (t\<lparr>sd_icbm := i\<rparr>) = block s t"
  "block s (t\<lparr>sd_car_events := ce\<rparr>) = block s t" "block s (t\<lparr>sd_car_sp_low := b\<rparr>) = block s t"
  "block s (t\<lparr>sd_writes := ws\<rparr>) = block s t"
  by (simp_all only: block_def machines_fields fine_fields lasting_fields)

definition known :: "(bool \<times> nat) list \<Rightarrow> bool" where
  "known ces = list_all (\<lambda>ce. snd ce \<in> EVENTS_keys) ces"

lemma known_simps [simp]:
  "known []" "known ((b, e) # ces) \<longleftrightarrow> e \<in> EVENTS_keys \<and> known ces" "known (xs @ ys) \<longleftrightarrow> known xs \<and> known ys"
  by (simp_all add: known_def)

lemma fine_events: "stores_fine t \<Longrightarrow> known ces \<Longrightarrow> stores_fine (add_events ces t)"
  by (simp add: stores_fine_def add_events_def ev_ok_add_listed known_def)

lemma fine_events_sp: "stores_fine t \<Longrightarrow> list_all (\<lambda>ce. snd ce \<in> EVENTS_SP_keys) ces \<Longrightarrow> stores_fine (add_events_sp ces t)"
  by (simp add: stores_fine_def add_events_sp_def ev_ok_add_listed)

lemma lasting_add_events: "lasting t \<le> lasting (add_events ces t)"
  by (auto simp: lasting_def add_events_def split: option.splits)

lemma machines_add [simp]: "machines (add_events ces t) = machines t" "machines (add_events_sp ces t) = machines t"
  by (simp_all add: add_events_def add_events_sp_def)

lemma lasting_add_events_sp [simp]: "lasting (add_events_sp ces t) = lasting t"
  by (simp add: add_events_sp_def)

lemma block_add_events: "block s t \<Longrightarrow> known ces \<Longrightarrow> block s (add_events ces t)"
  by (erule block_trans, rule blockI) (simp_all add: fine_events lasting_add_events)

lemma block_add_events_sp:
  "block s t \<Longrightarrow> list_all (\<lambda>ce. snd ce \<in> EVENTS_SP_keys) ces \<Longrightarrow> block s (add_events_sp ces t)"
  by (erule block_trans, rule blockI) (simp_all add: fine_events_sp)

lemma block_write: "block s t \<Longrightarrow> block s (write_if b w t)"
  by (simp add: write_if_def)

lemma block_startup: "block s t \<Longrightarrow> block s (t\<lparr>startup_event := None\<rparr>)"
  by (erule block_trans, rule blockI) (simp_all add: stores_fine_def)

lemma block_excessive: "block s t \<Longrightarrow> block s (t\<lparr>excessive_actuation := True\<rparr>)"
  by (erule block_trans, rule blockI) (auto simp: lasting_def split: option.splits)

lemma block_if: "(c \<Longrightarrow> block s t) \<Longrightarrow> (\<not> c \<Longrightarrow> block s u) \<Longrightarrow> block s (if c then t else u)"
  by simp

lemmas block_intros = block_add_events block_add_events_sp block_write block_startup block_excessive block_if block_refl

lemma EVENTS_SP_keys_iff: "e \<in> EVENTS_SP_keys \<longleftrightarrow> e \<le> 24 \<and> e \<noteq> 13"
  by (simp add: EVENTS_SP_keys_def)

section \<open>The blocks\<close>

lemma driver_alert_known: "known (driver_alert v l)"
  by (simp add: driver_alert_def EVENTS_keys_iff)

lemma process_events_known: "known (process_events c fr)"
  by (simp add: process_events_def EVENTS_keys_iff)

lemma radar_events_known: "known (radar_events c fr)"
  by (simp add: radar_events_def EVENTS_keys_iff)

lemma can_events_known: "known (can_events fr)"
  by (simp add: can_events_def EVENTS_keys_iff)

lemmas knowns = driver_alert_known process_events_known radar_events_known can_events_known EVENTS_keys_iff

lemma block_resume: "block s (resume_events c fr s)"
  unfolding resume_events_def by (intro block_intros) (simp add: knowns)

lemma block_lockout: "block s (lockout_param fr s)"
  unfolding lockout_param_def by (intro block_intros) (simp_all add: block_write)

lemma fine_msg:
  "stores_fine t \<Longrightarrow> set es \<subseteq> EVENTS_SP_keys \<Longrightarrow> stores_fine (t\<lparr>sd_events_sp := ev_add_from_msg es (sd_events_sp t)\<rparr>)"
  by (simp add: stores_fine_def ev_ok_add_from_msg)

lemma block_msg:
  "block s t \<Longrightarrow> set es \<subseteq> EVENTS_SP_keys \<Longrightarrow> block s (t\<lparr>sd_events_sp := ev_add_from_msg es (sd_events_sp t)\<rparr>)"
  by (erule block_trans, rule blockI) (simp_all add: fine_msg)

lemma block_alerts:
  "block s (add_events ((b, EN_tooDistracted) # driver_alert v l) (lockout_param fr s))"
  by (rule block_add_events [OF block_lockout]) (simp add: knowns)

lemma block_monitoring: "set (fr_planSP_events fr) \<subseteq> EVENTS_SP_keys \<Longrightarrow> block s (monitoring_events c fr s)"
  unfolding monitoring_events_def Let_def
  by (intro block_if block_refl block_msg) (simp_all add: block_alerts block_write)

lemma ev_events_known: "ev_ok K ev \<Longrightarrow> set (ev_events ev) \<subseteq> K"
  by (simp add: ev_ok_def)

lemma fine_set_events: "stores_fine t \<Longrightarrow> ev_ok EVENTS_keys ev \<Longrightarrow> stores_fine (t\<lparr>sd_events := ev\<rparr>)"
  by (simp add: stores_fine_def)

lemma fine_ev_ok: "stores_fine t \<Longrightarrow> ev_ok EVENTS_keys (sd_events t)"
  by (simp add: stores_fine_def)

lemma lasting_set_events:
  "(\<And>e. e \<notin> MUTABLE_EVENTS \<Longrightarrow> ev_has e (sd_events t) \<Longrightarrow> ev_has e ev) \<Longrightarrow> lasting t \<le> lasting (t\<lparr>sd_events := ev\<rparr>)"
  by (auto simp: lasting_def split: option.splits)

lemma block_set_events:
  assumes "ev_ok EVENTS_keys ev" "\<And>e. e \<notin> MUTABLE_EVENTS \<Longrightarrow> ev_has e (sd_events t) \<Longrightarrow> ev_has e ev"
  shows "block t (t\<lparr>sd_events := ev\<rparr>)"
  by (rule blockI) (simp_all add: fine_set_events assms lasting_set_events)

lemma pedal_event_fields:
  "pedal_event fr (s\<lparr>sd_events := ev\<rparr>) = pedal_event fr s" "pedal_event fr (s\<lparr>sd_car_events := ce\<rparr>) = pedal_event fr s"
  "pedal_event fr (s\<lparr>sd_car_sp_low := b\<rparr>) = pedal_event fr s"
  by (simp_all add: pedal_event_def)

definition car_events_of :: "sd_config \<Rightarrow> sd_frame \<Rightarrow> selfdrived \<Rightarrow> nat list" where
  \<comment> \<open>the events of the car state in this frame\<close>
  "car_events_of c fr s = ev_events (snd (car_events_update (c_mici c) (c_car c) (car_sample_of fr s) (sd_car_events s)))"

lemma block_car_state:
  assumes "stores_fine s"
  shows "\<exists>s'. car_state_events c fr s = Some s' \<and> block s s' \<and>
    (canValid (fr_CS fr) \<longrightarrow> (pedal_event fr s \<longrightarrow> ev_has EN_pedalPressed (sd_events s')) \<and>
      (\<forall>e \<in> set (car_events_of c fr s). e \<notin> MUTABLE_EVENTS \<longrightarrow> ev_has e (sd_events s')))"
proof (cases "canValid (fr_CS fr)")
  case False
  then show ?thesis by (simp add: car_state_events_def)
next
  case True
  obtain ce evs where u: "car_events_update (c_mici c) (c_car c) (car_sample_of fr s) (sd_car_events s) = (ce, evs)" by fastforce
  let ?ev = "ev_add_from_msg (ev_events evs) (sd_events s)"
  have "ev_ok EVENTS_keys evs" using car_events_update_ok [of "c_mici c" "c_car c" "car_sample_of fr s" "sd_car_events s"] by (simp add: u)
  then have ok: "ev_ok EVENTS_keys ?ev" by (intro ev_ok_add_from_msg fine_ev_ok assms ev_events_known)
  from car_specific_sp_ok [OF ok] obtain low ev where
    sp: "car_specific_sp (c_car c) (fr_CS fr) (sd_car_sp_low s, ?ev) = Some (low, ev)" "ev_ok EVENTS_keys ev"
    "\<forall>e. e \<notin> {EN_belowSteerSpeed, EN_resumeRequired} \<longrightarrow> ev_has e ev = ev_has e ?ev" by blast
  let ?u = "s\<lparr>sd_car_events := ce, sd_car_sp_low := low\<rparr>" let ?t = "?u\<lparr>sd_events := ev\<rparr>"
  let ?ces = "[(c_notCar c \<and> int (fr_frame fr) > py_int (2 / DT_CTRL) \<and> is_initialized s, EN_pcmEnable), (pedal_event fr s, EN_pedalPressed)]"
  have "car_state_events c fr s = Some (add_events ?ces ?t)"
    using True sp(1) by (simp add: car_state_events_def u pedal_event_fields Let_def)
  moreover have "block ?u ?t"
    by (rule block_set_events [OF sp(2)]) (use sp(3) in \<open>simp add: MUTABLE_EVENTS_def\<close>)
  with block_trans [of s ?u ?t] have "block s ?t" by simp
  then have "block s (add_events ?ces ?t)" by (rule block_add_events) (simp add: EVENTS_keys_iff)
  moreover have "ev_has e (sd_events (add_events ?ces ?t))" if "e \<in> set (ev_events evs)" "e \<notin> MUTABLE_EVENTS" for e
    using that sp(3) by (simp add: add_events_def MUTABLE_EVENTS_def)
  ultimately show ?thesis by (auto simp: car_events_of_def u add_events_def)
qed

lemma block_device: "block s (device_events c fr s)"
  unfolding device_events_def Let_def
  by (intro block_if block_add_events block_refl) (simp_all add: knowns block_add_events)

lemma block_calibration: "block s (calibration_events fr s)"
  unfolding calibration_events_def
  by (cases "fr_calStatus fr") (auto intro!: block_add_events simp: knowns block_write)

lemma block_ldw: "block s (ldw_events fr s)"
  unfolding ldw_events_def by (intro block_intros) (simp add: knowns)

lemma block_actuation: "block s (actuation_events c fr s)"
  unfolding actuation_events_def Let_def
  by (intro block_add_events) (auto simp: knowns block_write split: option.split prod.split intro!: block_excessive block_write)

lemma block_lane_change: "block s (lane_change_events fr s)"
proof -
  have turn: "block s (case d of Turn_left \<Rightarrow> add_events_sp [(True, SP_laneTurnLeft)] t
      | Turn_right \<Rightarrow> add_events_sp [(True, SP_laneTurnRight)] t | Turn_none \<Rightarrow> t)" if "block s t" for t d
    using that by (cases d) (auto intro!: block_add_events_sp simp: EVENTS_SP_keys_iff)
  show ?thesis
    unfolding lane_change_events_def Let_def
    by (rule turn, cases "fr_laneChangeState fr")
      (auto intro!: block_if block_add_events block_add_events_sp simp: knowns EVENTS_SP_keys_iff)
qed

lemma block_panda: "block s (panda_events c fr s)"
  unfolding panda_events_def by (intro block_intros) (auto simp: known_def list_all_iff EVENTS_keys_iff)

lemma block_malfunction: "block s (malfunction_events c fr s)"
  unfolding malfunction_events_def by (intro block_intros) (simp add: knowns)

lemma block_comm: "block s (comm_events c fr n s)"
  unfolding comm_events_def Let_def by (intro block_if block_refl block_add_events) (simp add: knowns)

lemma block_localization: "block s (localization_events c fr s)"
  unfolding localization_events_def Let_def by (intro block_intros) (simp add: knowns)

lemma block_cruise_mismatch: "block s (cruise_mismatch_events c fr s)"
  unfolding cruise_mismatch_events_def Let_def by (intro block_intros) (simp_all add: knowns)

lemma block_fcw: "block s (fcw_events c fr s)"
  unfolding fcw_events_def Let_def by (intro block_intros) (simp add: knowns)

lemma block_gps: "block s (gps_events fr s)"
  unfolding gps_events_def Let_def by (simp, intro impI conjI block_add_events block_refl) (simp_all add: knowns)

lemma block_buttons: "block s (button_management c fr s)"
  unfolding button_management_def by simp

definition no_zero_divisor :: "sd_frame \<Rightarrow> bool" where
  \<comment> \<open>the measured lateral acceleration is not the negative of the code's offset\<close>
  "no_zero_divisor fr \<longleftrightarrow> 1 / 1000 + fr_curvature fr * (max (vEgo (fr_CS fr)) (3 / 10)) ^ 2 \<noteq> 0"

lemma block_saturation:
  assumes "no_zero_divisor fr"
  shows "\<exists>s'. saturation_events c fr s = Some s' \<and> block s s'"
proof -
  have known: "known [(b, EN_steerSaturated)]" for b by (simp add: EVENTS_keys_iff)
  show ?thesis
    using assms block_add_events [OF _ known, of s]
    by (simp add: saturation_events_def no_zero_divisor_def Let_def)
qed

lemma block_mute:
  assumes "stores_fine s"
  shows "\<exists>s'. mute_can_event fr s = Some s' \<and> block s s' \<and>
    (\<not> (gearShifter (fr_CS fr) = Gear_park \<and> mads_enabled (sd_mads s)) \<longrightarrow> s' = s)"
proof -
  obtain ev' where r: "ev_remove EN_canBusMissing (sd_events s) = Some ev'" "ev_ok EVENTS_keys ev'"
    "\<And>d. d \<noteq> EN_canBusMissing \<Longrightarrow> ev_has d ev' = ev_has d (sd_events s)"
    using remove_ok [OF fine_ev_ok [OF assms]] by blast
  have "block s (s\<lparr>sd_events := ev'\<rparr>)"
    by (rule block_set_events [OF r(2)]) (use r(3) in \<open>auto simp: MUTABLE_EVENTS_def\<close>)
  with r(1) show ?thesis by (simp add: mute_can_event_def)
qed

lemma block_set_personality: "block s (s\<lparr>personality := p mod 3\<rparr>)"
  by (rule blockI) (simp_all add: stores_fine_def)

lemma block_personality: "block s (personality_events c fr s)"
  unfolding personality_events_def Let_def
  by (auto intro!: block_add_events block_write block_set_personality simp: knowns)

lemma block_set_sp:
  "ev_ok EVENTS_SP_keys (sd_events_sp t) \<longrightarrow> ev_ok EVENTS_SP_keys sp \<Longrightarrow> block t (t\<lparr>sd_events_sp := sp\<rparr>)"
  by (rule blockI) (simp_all add: stores_fine_def)

lemma helper_sp_ok:
  "ev_ok EVENTS_SP_keys sp \<Longrightarrow> ev_ok EVENTS_SP_keys (snd (cruise_helper_update b cs e (h, sp)))"
  by (simp add: cruise_helper_update_def update_experimental_mode_def ev_ok_add EVENTS_SP_keys_iff)

lemma block_helper: "block s (helper_events c fr s)"
proof -
  obtain h sp where h: "cruise_helper_update (op_long c) (fr_CS fr) (experimental_mode s) (sd_cruise_helper s, sd_events_sp s) = (h, sp)"
    by fastforce
  let ?t = "s\<lparr>sd_cruise_helper := h\<rparr>"
  have "block ?t (?t\<lparr>sd_events_sp := sp\<rparr>)"
    using helper_sp_ok [of "sd_events_sp s" "op_long c" "fr_CS fr" "experimental_mode s" "sd_cruise_helper s"]
    by (intro block_set_sp) (simp add: h)
  with block_trans [of s ?t] have "block s (?t\<lparr>sd_events_sp := sp\<rparr>)" by simp
  then show ?thesis by (simp add: helper_events_def h)
qed

lemma block_big_model: "block s (big_model_events fr s)"
  unfolding big_model_events_def Let_def
  by (simp, intro impI conjI block_add_events) (simp_all add: knowns)

lemma block_startup_event: "block s (case startup_event s of None \<Rightarrow> s | Some e \<Rightarrow> (add_events [(True, e)] s)\<lparr>startup_event := None\<rparr>)"
proof (cases "startup_event s")
  case (Some e)
  have fine: "stores_fine s \<Longrightarrow> e \<in> EVENTS_keys" using Some by (simp add: stores_fine_def)
  have "block s (add_events [(True, e)] s)"
    by (rule blockI) (use fine in \<open>simp_all add: fine_events lasting_add_events\<close>)
  then show ?thesis by (simp add: Some block_startup)
qed simp

lemma block_startup_events: "block s (startup_events fr s)"
  unfolding startup_events_def Let_def
  by (rule block_trans [OF _ block_startup_event])
    (intro block_if block_startup block_add_events block_refl; simp add: EVENTS_keys_iff)

definition cleared :: "selfdrived \<Rightarrow> selfdrived" where
  "cleared s = s\<lparr>sd_events := ev_clear (sd_events s), sd_events_sp := ev_clear (sd_events_sp s)\<rparr>"

lemma block_start: "block (cleared s) (start_events fr s)"
proof -
  have "block s (if b then (add_events [(True, EN_joystickDebug)] s)\<lparr>startup_event := None\<rparr> else s)" for b s
    by (intro block_if block_startup block_add_events block_refl) (simp add: EVENTS_keys_iff)
  then show ?thesis unfolding start_events_def Let_def cleared_def
    by (rule block_trans [OF block_trans [OF _ block_big_model] block_startup_events])
qed

lemma cleared_fine: "stores_fine s \<Longrightarrow> stores_fine (cleared s)"
  by (simp add: stores_fine_def cleared_def ev_ok_clear)

lemma cleared_machines: "machines (cleared s) = machines s"
  by (simp add: cleared_def)

section \<open>What the events say\<close>

definition watched :: "sd_config \<Rightarrow> sd_frame \<Rightarrow> selfdrived \<Rightarrow> (bool \<times> nat) list" where
  \<comment> \<open>conditions of a frame and the events they are certain to raise\<close>
  "watched c fr s =
     [(\<not> c_notCar c \<and> \<not> ascent_v8_test_alert_mode c \<and> (dm_lockout fr \<or> dm_alwaysOnLockout fr), EN_tooDistracted),
      (canValid (fr_CS fr) \<and> pedal_event fr s, EN_pedalPressed),
      (fr_thermalStatus fr \<ge> 2, EN_overheat),
      (fr_freeSpacePercent fr < 7 \<and> \<not> SIMULATION c, EN_outOfSpace),
      (fr_memoryUsagePercent fr > 90 \<and> \<not> SIMULATION c, EN_lowMemory),
      (fr_calStatus fr = Cal_uncalibrated, EN_calibrationIncomplete),
      (fr_calStatus fr = Cal_recalibrating, EN_calibrationRecalibrating),
      (fr_calStatus fr = Cal_invalid, EN_calibrationInvalid),
      (excessive_actuation s, EN_excessiveActuation),
      (list_ex safetyRxChecksInvalid (fr_pandaStates fr), EN_controlsMismatch),
      (fr_pandaStates fr \<noteq> [] \<and> mismatch_counter s \<ge> 200, EN_controlsMismatch),
      (list_ex relayMalfunction (fr_pandaStates fr), EN_relayMalfunction),
      (fr_managerState fr \<and> filter (\<lambda>p. p \<noteq> ''mapd'') (fr_not_running fr) \<noteq> [], EN_processNotRunning),
      (\<not> canTimeout (fr_CS fr) \<and> \<not> canValid (fr_CS fr), EN_canError)]"

definition raises :: "(bool \<times> nat) list \<Rightarrow> selfdrived \<Rightarrow> bool" where
  "raises ces s = list_all (\<lambda>(b, e). b \<longrightarrow> ev_has e (sd_events s)) ces"

lemma raises_simps [simp]: "raises [] s" "raises ((b, e) # ces) s \<longleftrightarrow> (b \<longrightarrow> ev_has e (sd_events s)) \<and> raises ces s"
  by (simp_all add: raises_def)

lemma raises_block: "raises ces s \<Longrightarrow> block s t \<Longrightarrow> set (map snd ces) \<inter> MUTABLE_EVENTS = {} \<Longrightarrow> raises ces t"
  by (induction ces) (auto simp: block_has)

lemma raises_add [simp]: "raises ces (add_events ces s)"
  unfolding raises_def list_all_iff by (auto simp: add_events_def)

lemma has_monitoring:
  "\<not> c_notCar c \<Longrightarrow> \<not> ascent_v8_test_alert_mode c \<Longrightarrow> dm_lockout fr \<or> dm_alwaysOnLockout fr \<Longrightarrow>
   ev_has EN_tooDistracted (sd_events (monitoring_events c fr s))"
  by (simp add: monitoring_events_def Let_def add_events_def write_if_def)

lemma watch_raises:
  "raises [(fr_thermalStatus fr \<ge> 2, EN_overheat), (fr_freeSpacePercent fr < 7 \<and> \<not> SIMULATION c, EN_outOfSpace),
     (fr_memoryUsagePercent fr > 90 \<and> \<not> SIMULATION c, EN_lowMemory)] (device_events c fr s)"
  by (simp add: device_events_def Let_def add_events_def)

lemma calibration_raises:
  "raises [(fr_calStatus fr = Cal_uncalibrated, EN_calibrationIncomplete),
      (fr_calStatus fr = Cal_recalibrating, EN_calibrationRecalibrating),
      (fr_calStatus fr = Cal_invalid, EN_calibrationInvalid)] (calibration_events fr s)"
  by (simp add: calibration_events_def add_events_def)

lemma actuation_raises: "raises [(excessive_actuation s, EN_excessiveActuation)] (actuation_events c fr s)"
  by (auto simp: actuation_events_def Let_def add_events_def split: option.split prod.split)

lemma enumerate_mem: "x \<in> set xs \<Longrightarrow> \<exists>i. (i, x) \<in> set (List.enumerate n xs)"
  by (metis in_set_impl_in_set_zip2 length_upt length_enumerate enumerate_eq_zip add_diff_cancel_left')

lemma panda_has:
  assumes "p \<in> set (fr_pandaStates fr)"
  shows "safetyRxChecksInvalid p \<or> mismatch_counter s \<ge> 200 \<Longrightarrow> ev_has EN_controlsMismatch (sd_events (panda_events c fr s))"
    "relayMalfunction p \<Longrightarrow> ev_has EN_relayMalfunction (sd_events (panda_events c fr s))"
proof -
  obtain i where i: "(i, p) \<in> set (List.enumerate 0 (fr_pandaStates fr))" using enumerate_mem [OF assms] by blast
  show "safetyRxChecksInvalid p \<or> mismatch_counter s \<ge> 200 \<Longrightarrow> ev_has EN_controlsMismatch (sd_events (panda_events c fr s))"
    unfolding panda_events_def add_events_def using bexI [OF _ i] by fastforce
  show "relayMalfunction p \<Longrightarrow> ev_has EN_relayMalfunction (sd_events (panda_events c fr s))"
    unfolding panda_events_def add_events_def using bexI [OF _ i] by fastforce
qed

lemma panda_raises:
  "raises [(list_ex safetyRxChecksInvalid (fr_pandaStates fr), EN_controlsMismatch),
      (fr_pandaStates fr \<noteq> [] \<and> mismatch_counter s \<ge> 200, EN_controlsMismatch),
      (list_ex relayMalfunction (fr_pandaStates fr), EN_relayMalfunction)] (panda_events c fr s)"
proof -
  have "fr_pandaStates fr \<noteq> [] \<Longrightarrow> hd (fr_pandaStates fr) \<in> set (fr_pandaStates fr)" by simp
  then have "fr_pandaStates fr \<noteq> [] \<Longrightarrow> mismatch_counter s \<ge> 200 \<Longrightarrow> ev_has EN_controlsMismatch (sd_events (panda_events c fr s))"
    using panda_has(1) [where fr = fr and s = s and c = c] by blast
  then show ?thesis using panda_has [where fr = fr and s = s and c = c] by (auto simp: list_ex_iff)
qed

lemma malfunction_raises:
  "raises [(fr_managerState fr \<and> filter (\<lambda>p. p \<noteq> ''mapd'') (fr_not_running fr) \<noteq> [], EN_processNotRunning),
      (\<not> canTimeout (fr_CS fr) \<and> \<not> canValid (fr_CS fr), EN_canError)] (malfunction_events c fr s)"
  by (simp add: malfunction_events_def process_events_def can_events_def add_events_def)

lemma machines_simps:
  assumes "machines t = machines s"
  shows "mismatch_counter t = mismatch_counter s" "sd_CS_prev t = sd_CS_prev s" "is_enabled t = is_enabled s"
    "is_initialized t = is_initialized s" "sd_machine t = sd_machine s" "sd_mads t = sd_mads s" "sd_AM t = sd_AM s"
    "disengage_on_accelerator_param t = disengage_on_accelerator_param s"
  using assms by (simp_all add: machines_def)

lemma pedal_event_block: "block s t \<Longrightarrow> pedal_event fr t = pedal_event fr s"
  using machines_simps(2,8) [OF block_machines, of s t] by (simp add: pedal_event_def)

lemma block_excessive_mono:
  assumes "block s t" "excessive_actuation s" shows "excessive_actuation t"
proof -
  have "None \<in> lasting s" using assms(2) by (simp add: lasting_def)
  with assms(1) have "None \<in> lasting t" unfolding block_def by blast
  then show ?thesis by (auto simp: lasting_def)
qed

section \<open>The other conditions that block an entry\<close>

definition car_heard :: "sd_config \<Rightarrow> sd_frame \<Rightarrow> bool" where
  \<comment> \<open>the events of the car state are taken over\<close>
  "car_heard c fr \<longleftrightarrow> canValid (fr_CS fr) \<and> ce_brand (c_car c) \<notin> {''body'', ''mock''}"

definition car_signs :: "sd_config \<Rightarrow> sd_frame \<Rightarrow> selfdrived \<Rightarrow> (bool \<times> nat) list" where
  \<comment> \<open>what the car state says against an entry\<close>
  "car_signs c fr s =
     [(doorOpen (fr_flags fr), EN_doorOpen),
      (seatbeltUnlatched (fr_flags fr), EN_seatbeltNotLatched),
      (gearShifter (fr_CS fr) \<noteq> Gear_drive \<and> gearShifter (fr_CS fr) \<notin> set (ce_DRIVABLE_GEARS (c_car c)), EN_wrongGear),
      (gearShifter (fr_CS fr) = Gear_reverse, EN_reverseGear),
      (\<not> cruise_available (cruiseState (fr_CS fr)), EN_wrongCarMode),
      (espDisabled (fr_flags fr), EN_espDisabled),
      (espActive (fr_flags fr), EN_espActive),
      (stockAeb (fr_flags fr), EN_stockAeb),
      (stockLkas (fr_flags fr), EN_stockLkas),
      (vEgo (fr_CS fr) > ce_MAX_CTRL_SPEED (c_car c), EN_speedTooHigh),
      (cruise_nonAdaptive (fr_flags fr), EN_wrongCruiseMode),
      (parkingBrake (fr_flags fr), EN_parkBrake),
      (accFaulted (fr_flags fr), EN_accFaulted),
      (carNotReady (fr_flags fr), EN_carNotReady),
      (steeringDisengage (fr_flags fr) \<and> \<not> steeringDisengage (snd (sd_CS_prev s)), EN_steerDisengage),
      (vehicleSensorsInvalid (fr_flags fr), EN_vehicleSensorsInvalid),
      (invalidLkasSetting (fr_flags fr), EN_invalidLkasSetting)]"

definition car_cautions :: "sd_config \<Rightarrow> sd_frame \<Rightarrow> selfdrived \<Rightarrow> (bool \<times> nat) list" where
  "car_cautions c fr s =
     map (\<lambda>(b, e). (car_heard c fr \<and> b, e))
       (car_signs c fr s @
        [(list_ex (\<lambda>b. be_type b = B_cancel) (buttonEvents (fr_CS fr)) \<and>
            (ce_brand (c_car c) \<noteq> ''hyundai'' \<or> \<not> ce_pcmCruise (c_car c)), EN_buttonCancel),
         (steerFaultPermanent (fr_flags fr), EN_steerUnavailable)])"

definition resume_caution :: "sd_config \<Rightarrow> sd_frame \<Rightarrow> (bool \<times> nat) list" where
  "resume_caution c fr =
     [(\<not> ce_pcmCruise (c_car c) \<and> vCruise (fr_CS fr) > 250 \<and>
       button_pressed_or_released [B_accelCruise, B_resumeCruise] (fr_CS fr), EN_resumeBlocked)]"

definition panda_mode_wrong :: "sd_config \<Rightarrow> sd_frame \<Rightarrow> bool" where
  \<comment> \<open>after ten seconds\<close>
  "panda_mode_wrong c fr \<longleftrightarrow> of_nat (fr_frame fr) * DT_CTRL > 10 \<and>
     list_ex (\<lambda>(i, p). safety_mismatch c i p) (List.enumerate 0 (fr_pandaStates fr))"

definition processes_missing :: "sd_frame \<Rightarrow> bool" where
  "processes_missing fr \<longleftrightarrow> fr_managerState fr \<and> filter (\<lambda>p. p \<noteq> ''mapd'') (fr_not_running fr) \<noteq> []"

definition source_cautions :: "sd_config \<Rightarrow> sd_frame \<Rightarrow> (bool \<times> nat) list" where
  \<comment> \<open>the camera, the loop's own lag and the radar\<close>
  "source_cautions c fr =
     [(\<not> processes_missing fr \<and> \<not> SIMULATION c \<and> \<not> fr_lagging fr \<and> \<not> fr_camera_alive fr, EN_cameraMalfunction),
      (\<not> processes_missing fr \<and> \<not> SIMULATION c \<and> \<not> fr_lagging fr \<and> fr_camera_alive fr \<and> \<not> fr_camera_freq_ok fr,
       EN_cameraFrameRate),
      (\<not> REPLAY c \<and> fr_lagging fr, EN_selfdrivedLagging),
      (op_long c \<and> radar_canError fr, EN_canError),
      (op_long c \<and> \<not> radar_canError fr \<and> radar_unavailableTemporary fr, EN_radarTempUnavailable),
      (op_long c \<and> \<not> radar_canError fr \<and> \<not> radar_unavailableTemporary fr \<and> radar_any fr, EN_radarFault)]"

definition pose_cautions :: "sd_config \<Rightarrow> sd_frame \<Rightarrow> bool \<Rightarrow> (bool \<times> nat) list" where
  \<comment> \<open>the flag says that no big model is loading or settling\<close>
  "pose_cautions c fr calm =
     [(calm \<and> \<not> c_notCar c \<and> \<not> fr_posenetOK fr, EN_posenetInvalid),
      (calm \<and> \<not> c_notCar c \<and> \<not> fr_inputsOK fr, EN_locationdTemporaryError),
      (calm \<and> \<not> c_notCar c \<and> \<not> fr_vehicleParameters_valid fr \<and> fr_calStatus fr = Cal_calibrated \<and>
         \<not> TESTING_CLOSET c \<and> (\<not> SIMULATION c \<or> REPLAY c), EN_paramsdTemporaryError),
      (list_ex (\<lambda>r. (of_nat (fr_frame fr) - of_nat r) * DT_CTRL > (10 :: real)) (fr_sensor_recv fr), EN_sensorDataInvalid)]"

definition lag_caution :: "sd_config \<Rightarrow> sd_frame \<Rightarrow> (bool \<times> nat) list" where
  "lag_caution c fr = [((\<not> SIMULATION c \<or> REPLAY c) \<and> fr_frameDropPerc fr > 1, EN_modeldLagging)]"

definition timeout_muted :: "sd_frame \<Rightarrow> selfdrived \<Rightarrow> bool" where
  \<comment> \<open>a missing CAN bus is passed over in park with MADS engaged\<close>
  "timeout_muted fr s \<longleftrightarrow> gearShifter (fr_CS fr) = Gear_park \<and> mads_enabled (sd_mads s)"

definition timeout_caution :: "sd_frame \<Rightarrow> selfdrived \<Rightarrow> (bool \<times> nat) list" where
  "timeout_caution fr s = [(canTimeout (fr_CS fr) \<and> \<not> timeout_muted fr s, EN_canBusMissing)]"

definition cautions :: "sd_config \<Rightarrow> sd_frame \<Rightarrow> bool \<Rightarrow> selfdrived \<Rightarrow> (bool \<times> nat) list" where
  "cautions c fr calm s =
     car_cautions c fr s @ resume_caution c fr @ [(panda_mode_wrong c fr, EN_controlsMismatch)] @
     source_cautions c fr @ pose_cautions c fr calm @ lag_caution c fr @ timeout_caution fr s"

lemma raises_weaken: "raises [(b, e)] s \<Longrightarrow> (a \<Longrightarrow> b) \<Longrightarrow> raises [(a, e)] s"
  by simp

lemma car_update_has:
  assumes "ce_brand cp \<notin> {''body'', ''mock''}"
    and "(True, e) \<in> set (plain_events cp x @ cancel_events cp x @ [(steerFaultPermanent (cur_flags x), EN_steerUnavailable)])"
  shows "e \<in> set (ev_events (snd (car_events_update mici cp x s)))"
proof -
  obtain s' ev where c: "create_common_events mici cp x s = (s', ev)" by fastforce
  have "ev_has e (snd (create_common_events mici cp x s))"
    unfolding create_common_events_def Let_def case_prod_beta snd_conv ev_has_add_listed using assms(2) by auto
  then have "ev_has e ev" by (simp add: c)
  then have "ev_has e (snd (car_events_update mici cp x s))"
    using assms(1) by (simp add: car_events_update_def c case_prod_beta)
  then show ?thesis by (simp add: ev_has_def)
qed

lemma car_signs_plain: "set (car_signs c fr s) \<subseteq> set (plain_events (c_car c) (car_sample_of fr s))"
  by (simp only: car_signs_def plain_events_def car_sample_of_def Let_def car_sample.simps list.set insert_subset insert_iff
      simp_thms empty_subsetI)

lemma car_signs_events: "list_all (\<lambda>ce. snd ce \<notin> MUTABLE_EVENTS) (car_signs c fr s)"
  by (simp add: car_signs_def MUTABLE_EVENTS_def)

lemma cancel_sign:
  "list_ex (\<lambda>b. be_type b = B_cancel) (buttonEvents (fr_CS fr)) \<and> (ce_brand cp \<noteq> ''hyundai'' \<or> \<not> ce_pcmCruise cp) \<Longrightarrow>
   (True, EN_buttonCancel) \<in> set (cancel_events cp (car_sample_of fr s))"
  by (auto simp: cancel_events_def car_sample_of_def list_ex_iff image_iff)

lemma guarded_mem: "(True, e) \<in> set (map (\<lambda>(b, e). (a \<and> b, e)) ces) \<longleftrightarrow> a \<and> (True, e) \<in> set ces"
  by force

lemma car_cautions_mem:
  assumes "(True, e) \<in> set (car_cautions c fr s)"
  shows "car_heard c fr" "(True, e) \<in> set (car_signs c fr s) \<or>
    e = EN_buttonCancel \<and> (True, EN_buttonCancel) \<in> set (cancel_events (c_car c) (car_sample_of fr s)) \<or>
    e = EN_steerUnavailable \<and> steerFaultPermanent (fr_flags fr)"
  using assms cancel_sign [of fr "c_car c" s]
  unfolding car_cautions_def guarded_mem set_append list.set Un_iff insert_iff prod.inject by blast+

lemma car_cautions_events:
  assumes "(True, e) \<in> set (car_cautions c fr s)"
  shows "canValid (fr_CS fr)" "e \<in> set (car_events_of c fr s)" "e \<notin> MUTABLE_EVENTS"
proof -
  note mem = car_cautions_mem [OF assms]
  from mem(1) have h: "canValid (fr_CS fr)" "ce_brand (c_car c) \<notin> {''body'', ''mock''}" by (simp_all add: car_heard_def)
  then show "canValid (fr_CS fr)" by simp
  have "(True, e) \<in> set (plain_events (c_car c) (car_sample_of fr s) @ cancel_events (c_car c) (car_sample_of fr s) @
      [(steerFaultPermanent (cur_flags (car_sample_of fr s)), EN_steerUnavailable)])"
    using mem(2) car_signs_plain [of c fr s] by (auto simp: car_sample_of_def)
  from car_update_has [OF h(2) this] show "e \<in> set (car_events_of c fr s)" by (simp add: car_events_of_def)
  have "e \<notin> MUTABLE_EVENTS" if "(True, e) \<in> set (car_signs c fr s)"
    using bspec [OF car_signs_events [of c fr s, unfolded list_all_iff] that] by simp
  then show "e \<notin> MUTABLE_EVENTS" using mem(2) by (auto simp: MUTABLE_EVENTS_def)
qed

lemma car_cautions_cong: "sd_CS_prev t = sd_CS_prev s \<Longrightarrow> car_cautions c fr t = car_cautions c fr s"
  by (simp add: car_cautions_def car_signs_def)

lemma raises_mem: "raises ces s \<longleftrightarrow> (\<forall>e. (True, e) \<in> set ces \<longrightarrow> ev_has e (sd_events s))"
  unfolding raises_def list_all_iff by auto

lemma cautions_ok:
  assumes "stores_fine s" "set (fr_planSP_events fr) \<subseteq> EVENTS_SP_keys" "driver_and_car_events c fr s = Some s'"
  shows "raises (car_cautions c fr s @ resume_caution c fr) s'"
proof -
  let ?r = "resume_events c fr s" let ?m = "monitoring_events c fr ?r"
  have m: "block s ?m" by (rule block_trans [OF block_resume block_monitoring [OF assms(2)]])
  from block_car_state [OF block_fine [OF m assms(1)], of c fr] assms(3) have
    s': "block ?m s'" "canValid (fr_CS fr) \<longrightarrow> (\<forall>e \<in> set (car_events_of c fr ?m). e \<notin> MUTABLE_EVENTS \<longrightarrow> ev_has e (sd_events s'))"
    by (auto simp: driver_and_car_events_def)
  have "raises (resume_caution c fr) ?r" by (simp add: resume_caution_def resume_events_def add_events_def)
  from raises_block [OF this block_trans [OF block_monitoring [OF assms(2)] s'(1)]]
  have r: "raises (resume_caution c fr) s'" by (simp add: resume_caution_def MUTABLE_EVENTS_def)
  have "ev_has e (sd_events s')" if "(True, e) \<in> set (car_cautions c fr s)" for e
    using car_cautions_events [of e c fr ?m] s'(2) that
    by (simp add: car_cautions_cong [OF machines_simps(2) [OF block_machines [OF m]]])
  then have "raises (car_cautions c fr s) s'"
    unfolding raises_mem by blast
  with r show ?thesis unfolding raises_def list_all_append by blast
qed

lemma panda_mode_raises: "raises [(panda_mode_wrong c fr, EN_controlsMismatch)] (panda_events c fr s)"
proof -
  have "ev_has EN_controlsMismatch (sd_events (panda_events c fr s))" if w: "panda_mode_wrong c fr"
  proof -
    from w obtain i p where i: "(i, p) \<in> set (List.enumerate 0 (fr_pandaStates fr))" "safety_mismatch c i p"
      "of_nat (fr_frame fr) * DT_CTRL > 10" by (auto simp: panda_mode_wrong_def list_ex_iff)
    show ?thesis unfolding panda_events_def add_events_def using bexI [OF _ i(1)] i(2,3) by fastforce
  qed
  then show ?thesis by simp
qed

lemma panda_mode_watch: "raises [(panda_mode_wrong c fr, EN_controlsMismatch)] (watch_events c fr s)"
  unfolding watch_events_def by (rule panda_mode_raises)

lemma source_raises: "raises (source_cautions c fr @ [(canTimeout (fr_CS fr), EN_canBusMissing)]) (malfunction_events c fr s)"
  by (simp add: source_cautions_def malfunction_events_def process_events_def radar_events_def can_events_def add_events_def
      processes_missing_def)

text \<open>The stores of the loop only grow between the CAN events and the muting.\<close>

definition grows :: "selfdrived \<Rightarrow> selfdrived \<Rightarrow> bool" where
  "grows s t \<longleftrightarrow> set (ev_events (sd_events s)) \<subseteq> set (ev_events (sd_events t))"

lemma grows_trans: "grows s t \<Longrightarrow> grows t u \<Longrightarrow> grows s u"
  by (auto simp: grows_def)

lemma grows_has: "grows s t \<Longrightarrow> ev_has e (sd_events s) \<Longrightarrow> ev_has e (sd_events t)"
  by (auto simp: grows_def ev_has_def)

lemma growsI: "(\<And>e. ev_has e (sd_events s) \<Longrightarrow> ev_has e (sd_events t)) \<Longrightarrow> grows s t"
  by (auto simp: grows_def ev_has_def)

lemma grows_comm: "grows s (comm_events c fr n s)"
  by (rule growsI) (simp add: comm_events_def add_events_def Let_def)

lemma grows_localization: "grows s (localization_events c fr s)"
  by (rule growsI) (simp add: localization_events_def add_events_def Let_def)

lemma grows_cruise: "grows s (cruise_mismatch_events c fr s)"
  by (rule growsI) (simp add: cruise_mismatch_events_def add_events_def Let_def)

lemma grows_saturation: "saturation_events c fr s = Some t \<Longrightarrow> grows s t"
  by (rule growsI) (auto simp: saturation_events_def add_events_def Let_def split: if_splits)

lemma grows_late: "grows s (late_events c fr s)"
  by (rule growsI) (simp add: late_events_def gps_events_def fcw_events_def add_events_def Let_def)

lemma grows_end: "grows s (button_management c fr (personality_events c fr (helper_events c fr s)))"
  by (rule growsI) (simp add: button_management_def personality_events_def helper_events_def add_events_def write_if_def Let_def
      split: prod.split)

lemma settling_add [simp]: "big_model_settling fr (add_events ces s) = big_model_settling fr s"
  by (simp add: big_model_settling_def add_events_def)

lemma settling_fields [simp]:
  "big_model_settling fr (s\<lparr>sd_events := ev\<rparr>) = big_model_settling fr s" "big_model_settling fr (s\<lparr>sd_events_sp := ev\<rparr>) = big_model_settling fr s"
  "big_model_settling fr (s\<lparr>sd_car_events := ce\<rparr>) = big_model_settling fr s" "big_model_settling fr (s\<lparr>sd_car_sp_low := b\<rparr>) = big_model_settling fr s"
  "big_model_settling fr (s\<lparr>dm_lockout_set := b\<rparr>) = big_model_settling fr s" "big_model_settling fr (s\<lparr>dm_uncertain_alerted := b\<rparr>) = big_model_settling fr s"
  "big_model_settling fr (s\<lparr>last_functional_fan_frame := n\<rparr>) = big_model_settling fr s" "big_model_settling fr (s\<lparr>recalibrating_seen := b\<rparr>) = big_model_settling fr s"
  "big_model_settling fr (s\<lparr>sd_excessive_check := k\<rparr>) = big_model_settling fr s" "big_model_settling fr (s\<lparr>excessive_actuation := b\<rparr>) = big_model_settling fr s"
  "big_model_settling fr (s\<lparr>sd_writes := ws\<rparr>) = big_model_settling fr s"
  by (simp_all add: big_model_settling_def)

lemma settling_add_sp [simp]: "big_model_settling fr (add_events_sp ces s) = big_model_settling fr s"
  by (simp add: add_events_sp_def)

lemma settling_write [simp]: "big_model_settling fr (write_if b w s) = big_model_settling fr s"
  by (simp add: write_if_def)

lemma settling_driver:
  "driver_and_car_events c fr s = Some t \<Longrightarrow> big_model_settling fr t = big_model_settling fr s"
  by (auto simp: driver_and_car_events_def car_state_events_def monitoring_events_def resume_events_def lockout_param_def Let_def
      bind_eq_Some_conv split: if_splits prod.splits)

lemma settling_watch: "big_model_settling fr (watch_events c fr s) = big_model_settling fr s"
proof -
  have "big_model_settling fr (device_events c fr t) = big_model_settling fr t" for t by (simp add: device_events_def Let_def)
  moreover have "big_model_settling fr (calibration_events fr t) = big_model_settling fr t" for t
    by (simp add: calibration_events_def split: cal_status.split)
  moreover have "big_model_settling fr (actuation_events c fr t) = big_model_settling fr t" for t
    by (simp add: actuation_events_def Let_def split: option.split prod.split)
  moreover have "big_model_settling fr (lane_change_events fr t) = big_model_settling fr t" for t
    by (simp add: lane_change_events_def Let_def split: turn_direction_t.split lane_change_state_t.split)
  ultimately show ?thesis by (simp add: watch_events_def panda_events_def ldw_events_def)
qed

lemma settling_malfunction: "big_model_settling fr (malfunction_events c fr s) = big_model_settling fr s"
  by (simp add: malfunction_events_def)

lemma settling_comm: "big_model_settling fr (comm_events c fr n s) = big_model_settling fr s"
  by (simp add: comm_events_def Let_def)

lemma pose_raises: "raises (pose_cautions c fr (\<not> big_model_settling fr s)) (localization_events c fr s)"
  by (simp add: pose_cautions_def localization_events_def add_events_def)

text \<open>What is not alive: the catch-all speaks, or another event already does.\<close>

lemma comm_speaks:
  assumes "\<not> fr_all_checks fr" "\<not> big_model_settling fr s"
  shows "ev_contains (EVENTS (c_mici c)) (sd_events s) NO_ENTRY \<or> ev_has EN_commIssue (sd_events (comm_events c fr n s)) \<or>
    ev_has EN_commIssueAvgFreq (sd_events (comm_events c fr n s))"
  using assms by (auto simp: comm_events_def add_events_def Let_def)

lemma driver_and_car_ok:
  assumes "stores_fine s" "set (fr_planSP_events fr) \<subseteq> EVENTS_SP_keys"
  shows "\<exists>s'. driver_and_car_events c fr s = Some s' \<and> block s s' \<and>
    raises [(\<not> c_notCar c \<and> \<not> ascent_v8_test_alert_mode c \<and> (dm_lockout fr \<or> dm_alwaysOnLockout fr), EN_tooDistracted),
      (canValid (fr_CS fr) \<and> pedal_event fr s, EN_pedalPressed)] s'"
proof -
  let ?m = "monitoring_events c fr (resume_events c fr s)"
  have m: "block s ?m" by (rule block_trans [OF block_resume block_monitoring [OF assms(2)]])
  from block_car_state [OF block_fine [OF m assms(1)], of c fr] obtain s' where
    s': "car_state_events c fr ?m = Some s'" "block ?m s'" "canValid (fr_CS fr) \<and> pedal_event fr ?m \<longrightarrow> ev_has EN_pedalPressed (sd_events s')"
    by blast
  moreover have "raises [(\<not> c_notCar c \<and> \<not> ascent_v8_test_alert_mode c \<and> (dm_lockout fr \<or> dm_alwaysOnLockout fr), EN_tooDistracted)] s'"
    by (rule raises_block [OF _ s'(2)]) (simp_all add: has_monitoring MUTABLE_EVENTS_def)
  ultimately show ?thesis
    using block_trans [OF m s'(2)] pedal_event_block [OF m, of fr] by (auto simp: driver_and_car_events_def)
qed

lemma watch_ok:
  "block s (watch_events c fr s) \<and>
   raises [(fr_thermalStatus fr \<ge> 2, EN_overheat), (fr_freeSpacePercent fr < 7 \<and> \<not> SIMULATION c, EN_outOfSpace),
     (fr_memoryUsagePercent fr > 90 \<and> \<not> SIMULATION c, EN_lowMemory)] (watch_events c fr s) \<and>
   raises [(fr_calStatus fr = Cal_uncalibrated, EN_calibrationIncomplete),
      (fr_calStatus fr = Cal_recalibrating, EN_calibrationRecalibrating),
      (fr_calStatus fr = Cal_invalid, EN_calibrationInvalid)] (watch_events c fr s) \<and>
   raises [(excessive_actuation s, EN_excessiveActuation)] (watch_events c fr s) \<and>
   raises [(list_ex safetyRxChecksInvalid (fr_pandaStates fr), EN_controlsMismatch),
      (fr_pandaStates fr \<noteq> [] \<and> mismatch_counter s \<ge> 200, EN_controlsMismatch),
      (list_ex relayMalfunction (fr_pandaStates fr), EN_relayMalfunction)] (watch_events c fr s)"
proof -
  let ?d = "device_events c fr s" let ?k = "calibration_events fr ?d" let ?l = "ldw_events fr ?k"
  let ?a = "actuation_events c fr ?l" let ?n = "lane_change_events fr ?a"
  have w: "watch_events c fr s = panda_events c fr ?n" by (simp add: watch_events_def)
  note b1 = block_device [of s c fr] and b2 = block_calibration [of ?d fr] and b3 = block_ldw [of ?k fr]
    and b4 = block_actuation [of ?l c fr] and b5 = block_lane_change [of ?a fr] and b6 = block_panda [of ?n c fr]
  note to_a = block_trans [OF block_trans [OF block_trans [OF b1 b2] b3] b4]
  note from_a = block_trans [OF b5 b6]
  note whole = block_trans [OF block_trans [OF to_a b5] b6]
  have "mismatch_counter ?n = mismatch_counter s"
    by (rule machines_simps(1) [OF block_machines [OF block_trans [OF to_a b5]]])
  with panda_raises [of fr ?n c]
  have p: "raises [(list_ex safetyRxChecksInvalid (fr_pandaStates fr), EN_controlsMismatch),
      (fr_pandaStates fr \<noteq> [] \<and> mismatch_counter s \<ge> 200, EN_controlsMismatch),
      (list_ex relayMalfunction (fr_pandaStates fr), EN_relayMalfunction)] (panda_events c fr ?n)" by simp
  have d: "raises [(fr_thermalStatus fr \<ge> 2, EN_overheat), (fr_freeSpacePercent fr < 7 \<and> \<not> SIMULATION c, EN_outOfSpace),
     (fr_memoryUsagePercent fr > 90 \<and> \<not> SIMULATION c, EN_lowMemory)] (panda_events c fr ?n)"
    by (rule raises_block [OF watch_raises block_trans [OF block_trans [OF block_trans [OF b2 b3] b4] from_a]])
      (simp add: MUTABLE_EVENTS_def)
  have k: "raises [(fr_calStatus fr = Cal_uncalibrated, EN_calibrationIncomplete),
      (fr_calStatus fr = Cal_recalibrating, EN_calibrationRecalibrating),
      (fr_calStatus fr = Cal_invalid, EN_calibrationInvalid)] (panda_events c fr ?n)"
    by (rule raises_block [OF calibration_raises block_trans [OF block_trans [OF b3 b4] from_a]])
      (simp add: MUTABLE_EVENTS_def)
  have "raises [(excessive_actuation ?l, EN_excessiveActuation)] (panda_events c fr ?n)"
    by (rule raises_block [OF actuation_raises from_a]) (simp add: MUTABLE_EVENTS_def)
  then have a: "raises [(excessive_actuation s, EN_excessiveActuation)] (panda_events c fr ?n)"
    using block_excessive_mono [OF block_trans [OF block_trans [OF b1 b2] b3]] by simp
  show ?thesis unfolding w using whole d k a p by blast
qed

lemma fault_ok:
  "block s (fault_events c fr s) \<and>
   raises [(fr_managerState fr \<and> filter (\<lambda>p. p \<noteq> ''mapd'') (fr_not_running fr) \<noteq> [], EN_processNotRunning),
      (\<not> canTimeout (fr_CS fr) \<and> \<not> canValid (fr_CS fr), EN_canError)] (fault_events c fr s)"
proof -
  have rest: "block (malfunction_events c fr s) (fault_events c fr s)"
    unfolding fault_events_def Let_def
    by (rule block_trans [OF block_trans [OF block_comm block_localization] block_cruise_mismatch])
  have "raises [(fr_managerState fr \<and> filter (\<lambda>p. p \<noteq> ''mapd'') (fr_not_running fr) \<noteq> [], EN_processNotRunning),
      (\<not> canTimeout (fr_CS fr) \<and> \<not> canValid (fr_CS fr), EN_canError)] (fault_events c fr s)"
    by (rule raises_block [OF malfunction_raises rest]) (simp add: MUTABLE_EVENTS_def)
  with block_trans [OF block_malfunction rest] show ?thesis by blast
qed

lemma block_late: "block s (late_events c fr s)"
  unfolding late_events_def
  by (rule block_add_events [OF block_trans [OF block_fcw block_gps]]) (simp add: EVENTS_keys_iff)

lemma raises_append [simp]: "raises (xs @ ys) s \<longleftrightarrow> raises xs s \<and> raises ys s"
  by (simp add: raises_def)

lemma running_ok:
  assumes "stores_fine s" "set (fr_planSP_events fr) \<subseteq> EVENTS_SP_keys" "no_zero_divisor fr"
  shows "\<exists>s'. running_events c fr s = Some s' \<and> block s s' \<and> raises (watched c fr s) s'"
proof -
  from driver_and_car_ok [OF assms(1,2), of c] obtain s1 where
    s1: "driver_and_car_events c fr s = Some s1" "block s s1"
    "raises [(\<not> c_notCar c \<and> \<not> ascent_v8_test_alert_mode c \<and> (dm_lockout fr \<or> dm_alwaysOnLockout fr), EN_tooDistracted),
      (canValid (fr_CS fr) \<and> pedal_event fr s, EN_pedalPressed)] s1" by blast
  let ?w = "watch_events c fr s1"
  note w = watch_ok [of s1 c fr] and f = fault_ok [of ?w c fr]
  from block_saturation [OF assms(3), of c "fault_events c fr ?w"] obtain s2 where
    s2: "saturation_events c fr (fault_events c fr ?w) = Some s2" "block (fault_events c fr ?w) s2" by blast
  note wf = conjunct1 [OF w] conjunct1 [OF f]
  have b2: "block s s2" by (rule block_trans [OF block_trans [OF block_trans [OF s1(2) wf(1)] wf(2)] s2(2)])
  have b3: "block s (late_events c fr s2)" by (rule block_trans [OF b2 block_late])
  from block_mute [OF block_fine [OF b3 assms(1)], of fr] obtain s4 where
    s4: "mute_can_event fr (late_events c fr s2) = Some s4" "block (late_events c fr s2) s4" by blast
  let ?s = "button_management c fr (personality_events c fr (helper_events c fr s4))"
  have end_: "block s4 ?s" by (rule block_trans [OF block_trans [OF block_helper block_personality] block_buttons])
  have fs: "block (fault_events c fr ?w) ?s"
    by (rule block_trans [OF block_trans [OF block_trans [OF s2(2) block_late] s4(2)] end_])
  have ws: "block ?w ?s" by (rule block_trans [OF wf(2) fs])
  have ss: "block s1 ?s" by (rule block_trans [OF wf(1) ws])
  have "excessive_actuation s \<Longrightarrow> excessive_actuation s1" "mismatch_counter s1 = mismatch_counter s"
    using block_excessive_mono [OF s1(2)] machines_simps(1) [OF block_machines [OF s1(2)]] by simp_all
  then have "raises (watched c fr s) ?s"
    using raises_block [OF s1(3) ss] raises_block [OF conjunct1 [OF conjunct2 [OF w]] ws]
      raises_block [OF conjunct1 [OF conjunct2 [OF conjunct2 [OF w]]] ws]
      raises_block [OF conjunct1 [OF conjunct2 [OF conjunct2 [OF conjunct2 [OF w]]]] ws]
      raises_block [OF conjunct2 [OF conjunct2 [OF conjunct2 [OF conjunct2 [OF w]]]] ws]
      raises_block [OF conjunct2 [OF f] fs]
    by (simp add: watched_def MUTABLE_EVENTS_def)
  moreover have "running_events c fr s = Some ?s"
    by (simp add: running_events_def s1(1) s2(1) s4(1))
  moreover have "block s ?s" by (rule block_trans [OF s1(2) ss])
  ultimately show ?thesis by blast
qed

lemma running_parts:
  assumes "stores_fine s" "set (fr_planSP_events fr) \<subseteq> EVENTS_SP_keys" "no_zero_divisor fr" "running_events c fr s = Some s'"
  obtains s1 s2 s4 where "driver_and_car_events c fr s = Some s1" "block s s1"
    "block (fault_events c fr (watch_events c fr s1)) s'" "grows (fault_events c fr (watch_events c fr s1)) s2"
    "mute_can_event fr (late_events c fr s2) = Some s4" "block (late_events c fr s2) s'" "grows s4 s'"
    "timeout_muted fr (late_events c fr s2) = timeout_muted fr s"
proof -
  from driver_and_car_ok [OF assms(1,2), of c] obtain s1 where s1: "driver_and_car_events c fr s = Some s1" "block s s1" by blast
  let ?w = "watch_events c fr s1" let ?f = "fault_events c fr ?w"
  from block_saturation [OF assms(3), of c ?f] obtain s2 where s2: "saturation_events c fr ?f = Some s2" "block ?f s2" by blast
  note to_f = block_trans [OF block_trans [OF s1(2) conjunct1 [OF watch_ok [of s1 c fr]]] conjunct1 [OF fault_ok [of ?w c fr]]]
  note to_late = block_trans [OF block_trans [OF to_f s2(2)] block_late [of s2 c fr]]
  from block_mute [OF block_fine [OF to_late assms(1)], of fr] obtain s4 where
    s4: "mute_can_event fr (late_events c fr s2) = Some s4" "block (late_events c fr s2) s4" by blast
  have s': "s' = button_management c fr (personality_events c fr (helper_events c fr s4))"
    using assms(4) by (simp add: running_events_def s1(1) s2(1) s4(1))
  have end_: "block s4 s'" unfolding s' by (rule block_trans [OF block_trans [OF block_helper block_personality] block_buttons])
  have "timeout_muted fr (late_events c fr s2) = timeout_muted fr s"
    using machines_simps(6) [OF block_machines [OF to_late]] by (simp add: timeout_muted_def)
  with that [OF s1 _ grows_saturation [OF s2(1)] s4(1) block_trans [OF s4(2) end_]] grows_end [of s4 c fr]
  show thesis
    unfolding s' [symmetric] using block_trans [OF block_trans [OF block_trans [OF s2(2) block_late] s4(2)] end_] by blast
qed

lemma running_cautions:
  assumes "stores_fine s" "set (fr_planSP_events fr) \<subseteq> EVENTS_SP_keys" "no_zero_divisor fr" "running_events c fr s = Some s'"
  shows "raises (cautions c fr (\<not> big_model_settling fr s) s) s' \<and>
    (\<not> fr_all_checks fr \<and> \<not> big_model_settling fr s \<and> \<not> timeout_muted fr s \<longrightarrow>
      (\<exists>e. ev_has e (sd_events s') \<and> (e = EN_commIssue \<or> e = EN_commIssueAvgFreq \<or> NO_ENTRY \<in> set (mapping_types (EVENTS (c_mici c)) e))))"
proof -
  from running_parts [OF assms] obtain s1 s2 s4 where
    s1: "driver_and_car_events c fr s = Some s1" "block s s1"
    and fs: "block (fault_events c fr (watch_events c fr s1)) s'" and g2: "grows (fault_events c fr (watch_events c fr s1)) s2"
    and s4: "mute_can_event fr (late_events c fr s2) = Some s4" and ls: "block (late_events c fr s2) s'" and g4: "grows s4 s'"
    and tm: "timeout_muted fr (late_events c fr s2) = timeout_muted fr s" by blast
  let ?w = "watch_events c fr s1" let ?m = "malfunction_events c fr ?w" let ?n = "length (ev_events (sd_events ?w))"
  let ?k = "comm_events c fr ?n ?m" let ?l = "localization_events c fr ?k"
  have f: "fault_events c fr ?w = cruise_mismatch_events c fr ?l" by (simp add: fault_events_def Let_def)
  have ks: "block ?k s'" and lcs: "block ?l s'"
    using block_trans [OF block_trans [OF block_localization block_cruise_mismatch] fs [unfolded f]]
      block_trans [OF block_cruise_mismatch fs [unfolded f]] by blast+
  have ms: "block ?m s'" by (rule block_trans [OF block_comm ks])
  have ws: "block ?w s'" by (rule block_trans [OF block_malfunction ms])
  have s1s: "block s1 s'" by (rule block_trans [OF conjunct1 [OF watch_ok] ws])
  have set_m: "big_model_settling fr ?m = big_model_settling fr s"
    by (simp add: settling_malfunction settling_watch settling_driver [OF s1(1)])
  have grow: "grows ?m s'" if "\<not> timeout_muted fr s"
  proof -
    have late: "s4 = late_events c fr s2"
      using s4 that unfolding tm [symmetric] by (auto simp: mute_can_event_def timeout_muted_def split: if_splits)
    have "grows s2 s'" by (rule grows_trans [OF grows_late g4 [unfolded late]])
    from grows_trans [OF grows_trans [OF grows_comm grows_trans [OF grows_localization grows_cruise]] grows_trans [OF g2 [unfolded f] this]]
    show ?thesis .
  qed
  have "raises (car_cautions c fr s) s'"
    using cautions_ok [OF assms(1,2) s1(1)] block_has [OF s1s] car_cautions_events(3)
    unfolding raises_mem set_append by blast
  moreover have "raises (resume_caution c fr) s'"
    using cautions_ok [OF assms(1,2) s1(1)] raises_block [OF _ s1s, of "resume_caution c fr"]
    by (simp add: resume_caution_def MUTABLE_EVENTS_def)
  moreover have "raises [(panda_mode_wrong c fr, EN_controlsMismatch)] s'"
    by (rule raises_block [OF panda_mode_watch ws]) (simp add: MUTABLE_EVENTS_def)
  moreover have "raises (source_cautions c fr) s'"
    by (rule raises_block [OF conjunct1 [OF source_raises [of c fr ?w, unfolded raises_append]] ms])
      (simp add: source_cautions_def MUTABLE_EVENTS_def)
  moreover have "raises (pose_cautions c fr (\<not> big_model_settling fr s)) s'"
    by (rule raises_block [OF pose_raises [of c fr ?k, unfolded settling_comm set_m] lcs]) (simp add: pose_cautions_def MUTABLE_EVENTS_def)
  moreover have "raises (lag_caution c fr) (late_events c fr s2)" by (simp add: lag_caution_def late_events_def)
  from raises_block [OF this ls] have "raises (lag_caution c fr) s'" by (simp add: lag_caution_def MUTABLE_EVENTS_def)
  moreover have "raises (timeout_caution fr s) s'"
    using source_raises [of c fr ?w] grows_has [OF grow, of EN_canBusMissing] by (auto simp: timeout_caution_def)
  moreover have "\<exists>e. ev_has e (sd_events s') \<and>
      (e = EN_commIssue \<or> e = EN_commIssueAvgFreq \<or> NO_ENTRY \<in> set (mapping_types (EVENTS (c_mici c)) e))"
    if "\<not> fr_all_checks fr" "\<not> big_model_settling fr s" "\<not> timeout_muted fr s"
    using comm_speaks [OF that(1), of ?m c ?n] that(2) grows_has [OF grow [OF that(3)]]
      block_has [OF ks, of EN_commIssue] block_has [OF ks, of EN_commIssueAvgFreq]
    unfolding set_m ev_contains_iff by (auto simp: MUTABLE_EVENTS_def)
  ultimately show ?thesis unfolding cautions_def raises_append by blast
qed

section \<open>The step\<close>

definition frame_ok :: "sd_frame \<Rightarrow> bool" where
  \<comment> \<open>the planner sends known events, and no division by zero\<close>
  "frame_ok fr \<longleftrightarrow> set (fr_planSP_events fr) \<subseteq> EVENTS_SP_keys \<and> no_zero_divisor fr"

lemma watched_block: "block u t \<Longrightarrow> raises (watched c fr t) s \<Longrightarrow> raises (watched c fr u) s"
  using block_excessive_mono [of u t] pedal_event_block [of u t fr] machines_simps(1) [OF block_machines, of u t]
  by (simp add: watched_def)

lemma watched_cleared: "watched c fr (cleared s) = watched c fr s"
  by (simp add: watched_def cleared_def pedal_event_def)

lemma sd_update_events_ok:
  assumes "stores_fine s" "frame_ok fr"
  shows "\<exists>s'. update_events c fr s = Some s' \<and> machines s' = machines s \<and> stores_fine s' \<and>
    (is_initialized s \<and> \<not> c_passive c \<longrightarrow> raises (watched c fr s) s')"
proof -
  let ?a = "start_events fr s"
  have a: "block (cleared s) ?a" by (rule block_start)
  have init: "is_initialized ?a = is_initialized s"
    using machines_simps(4) [OF block_machines [OF a]] machines_simps(4) [OF cleared_machines, of s] by simp
  have add: "block (cleared s) (add_events [(x, e)] t)" if "block (cleared s) t" "e \<in> EVENTS_keys" for x e t
    using that by (intro block_add_events) simp_all
  have fin: "machines t = machines s \<and> stores_fine t" if "block (cleared s) t" for t
    using block_machines [OF that] block_fine [OF that cleared_fine [OF assms(1)]] cleared_machines by metis
  let ?b = "add_events [(fr_userBookmark fr, EN_userBookmark)] ?a"
  have b: "block (cleared s) ?b" by (rule add [OF a]) (simp add: EVENTS_keys_iff)
  from running_ok [OF conjunct2 [OF fin [OF b]]] assms(2) obtain s' where
    s': "running_events c fr ?b = Some s'" "block ?b s'" "raises (watched c fr ?b) s'"
    unfolding frame_ok_def by blast
  have "raises (watched c fr s) s'"
    using watched_block [OF b s'(3)] by (simp only: watched_cleared)
  moreover note fin [OF block_trans [OF b s'(2)]] fin [OF b] fin [OF add [OF a, of EN_selfdriveInitializing True]]
  ultimately show ?thesis
    using s'(1) init by (cases "is_initialized s"; cases "c_passive c") (simp_all add: update_events_def Let_def EVENTS_keys_iff)
qed

definition calm_model :: "sd_frame \<Rightarrow> selfdrived \<Rightarrow> bool" where
  \<comment> \<open>no big model is loading, and the last one has been loaded for five seconds\<close>
  "calm_model fr s \<longleftrightarrow> \<not> fr_UsbGpuLoading fr \<and>
     \<not> fr_now_later fr < (if big_model_loading s then fr_now fr else big_model_ready_t s) + 5"

lemma start_settling: "big_model_settling fr (start_events fr s) \<longleftrightarrow> \<not> calm_model fr s"
proof -
  have "big_model_settling fr (t\<lparr>startup_event := None\<rparr>) = big_model_settling fr t" for t by (simp add: big_model_settling_def)
  then have startup: "big_model_settling fr (startup_events fr t) = big_model_settling fr t" for t
    by (simp add: startup_events_def Let_def split: option.split)
  have "big_model_settling fr (big_model_events fr t) \<longleftrightarrow>
      fr_UsbGpuLoading fr \<or> fr_now_later fr < (if big_model_loading t \<and> \<not> fr_UsbGpuLoading fr then fr_now fr else big_model_ready_t t) + 5" for t
    by (simp add: big_model_events_def add_events_def big_model_settling_def Let_def)
  then show ?thesis
    by (auto simp: start_events_def startup calm_model_def add_events_def Let_def)
qed

lemma start_loading_set: "set (map snd [(b, EN_bigModelLoading)]) \<inter> MUTABLE_EVENTS = {}"
  by (simp add: MUTABLE_EVENTS_def)

lemma start_loading: "raises [(fr_UsbGpuLoading fr, EN_bigModelLoading)] (start_events fr s)"
proof -
  let ?s = "s\<lparr>sd_events := ev_clear (sd_events s), sd_events_sp := ev_clear (sd_events_sp s)\<rparr>"
  have "raises [(fr_UsbGpuLoading fr, EN_bigModelLoading)] (big_model_events fr t)" for t
    by (simp add: big_model_events_def add_events_def Let_def)
  moreover have "block t (startup_events fr t)" for t
    unfolding startup_events_def Let_def
    by (rule block_trans [OF _ block_startup_event]) (intro block_if block_startup block_add_events block_refl; simp add: EVENTS_keys_iff)
  ultimately show ?thesis
    unfolding start_events_def Let_def using raises_block by (metis (no_types, lifting) start_loading_set)
qed

lemma update_cautions:
  assumes "stores_fine s" "frame_ok fr" "update_events c fr s = Some s'" "is_initialized s" "\<not> c_passive c"
  shows "raises ((fr_UsbGpuLoading fr, EN_bigModelLoading) # cautions c fr (calm_model fr s) s) s' \<and>
    (\<not> fr_all_checks fr \<and> calm_model fr s \<and> \<not> timeout_muted fr s \<longrightarrow>
      (\<exists>e. ev_has e (sd_events s') \<and> (e = EN_commIssue \<or> e = EN_commIssueAvgFreq \<or> NO_ENTRY \<in> set (mapping_types (EVENTS (c_mici c)) e))))"
proof -
  let ?a = "start_events fr s" let ?b = "add_events [(fr_userBookmark fr, EN_userBookmark)] ?a"
  have b: "block (cleared s) ?b" by (rule block_add_events [OF block_start]) (simp add: EVENTS_keys_iff)
  have m: "machines ?b = machines s" using block_machines [OF b] by (simp add: cleared_machines)
  have init: "is_initialized ?a" using machines_simps(4) [OF m] assms(4) by (simp add: add_events_def)
  have run: "running_events c fr ?b = Some s'" using assms(3,5) init by (simp add: update_events_def Let_def)
  have fine: "stores_fine ?b" by (rule block_fine [OF b cleared_fine [OF assms(1)]])
  from driver_and_car_ok [OF fine] assms(2) running_ok [OF fine _ _, of fr c] run have bs: "block ?b s'"
    unfolding frame_ok_def by auto
  have "raises [(fr_UsbGpuLoading fr, EN_bigModelLoading)] ?b" using start_loading [of fr s] by (simp add: add_events_def)
  then have "raises [(fr_UsbGpuLoading fr, EN_bigModelLoading)] s'" by (rule raises_block [OF _ bs]) (simp add: MUTABLE_EVENTS_def)
  moreover have "cautions c fr k ?b = cautions c fr k s" "timeout_muted fr ?b = timeout_muted fr s" for k
    using machines_simps(2,6) [OF m] by (simp_all add: cautions_def car_cautions_def car_signs_def timeout_caution_def timeout_muted_def)
  moreover have "big_model_settling fr ?b \<longleftrightarrow> \<not> calm_model fr s" by (simp add: start_settling)
  ultimately show ?thesis using running_cautions [OF fine _ _ run] assms(2) unfolding frame_ok_def by simp
qed

lemma data_sample_simps [simp]:
  "stores_fine (data_sample c fr s) = stores_fine s" "sd_mads (data_sample c fr s) = sd_mads s"
  "is_enabled (data_sample c fr s) = is_enabled s" "excessive_actuation (data_sample c fr s) = excessive_actuation s"
  "pedal_event fr' (data_sample c fr s) = pedal_event fr' s" "sd_CS_prev (data_sample c fr s) = sd_CS_prev s"
  "is_initialized s \<Longrightarrow> is_initialized (data_sample c fr s)"
  "\<not> REPLAY c \<Longrightarrow> sd_machine (data_sample c fr s) = sd_machine s"
  by (simp_all add: data_sample_def stores_fine_def pedal_event_def Let_def)

definition sd_inv :: "sd_config \<Rightarrow> selfdrived \<Rightarrow> bool" where
  "sd_inv c s \<longleftrightarrow> stores_fine s \<and> mads_ok (sd_mads s) \<and>
     (\<not> REPLAY c \<longrightarrow> (is_enabled s \<longleftrightarrow> ss_state (sd_machine s) \<noteq> Op_disabled))"

lemma machine_step_simps [simp]:
  "stores_fine (machine_step c s) = stores_fine s" "sd_mads (machine_step c s) = sd_mads s"
  "sd_events (machine_step c s) = sd_events s" "sd_events_sp (machine_step c s) = sd_events_sp s"
  "personality (machine_step c s) = personality s" "startup_event (machine_step c s) = startup_event s"
  "is_initialized (machine_step c s) = is_initialized s" "mismatch_counter (machine_step c s) = mismatch_counter s"
  by (simp_all add: machine_step_def stores_fine_def split: prod.split)

lemma machine_step_enabled:
  assumes "is_initialized s" "\<not> c_passive c"
  shows "sd_machine (machine_step c s) = ss_step (ev_contains (EVENTS (c_mici c)) (sd_events s)) (sd_machine s) \<and>
    is_enabled (machine_step c s) = (ss_state (ss_step (ev_contains (EVENTS (c_mici c)) (sd_events s)) (sd_machine s)) \<noteq> Op_disabled)"
proof -
  let ?c = "ev_contains (EVENTS (c_mici c)) (sd_events s)"
  obtain m en ac where u: "ss_update ?c (sd_machine s) = (m, en, ac)" by (metis prod.exhaust)
  have "m = ss_step ?c (sd_machine s)" by (simp add: ss_step_def u)
  moreover have "en = (ss_state m \<noteq> Op_disabled)"
    using ss_update_outputs [of ?c "sd_machine s"] \<open>m = _\<close> by (simp add: u)
  ultimately show ?thesis using assms by (simp add: machine_step_def u)
qed

lemma machine_step_idle: "\<not> (is_initialized s \<and> \<not> c_passive c) \<Longrightarrow> machine_step c s = s"
  by (auto simp: machine_step_def)

lemma mads_step_ok:
  assumes "stores_fine s" "mads_ok (sd_mads s)"
  shows "\<exists>s'. mads_step c fr s = Some s' \<and> stores_fine s' \<and> mads_ok (sd_mads s') \<and> is_enabled s' = is_enabled s \<and>
    ss_state (sd_machine s') = ss_state (sd_machine s) \<and> is_initialized s' = is_initialized s \<and> mismatch_counter s' = mismatch_counter s"
proof -
  have "stores_ok (sd_events s, sd_events_sp s)" using assms(1) by (simp add: stores_ok_def stores_fine_def)
  from mads_update_total [OF this assms(2), of "c_mici c" "mads_env_of c fr s" "sd_machine s"]
  obtain m sm st where "mads_update (c_mici c) (mads_env_of c fr s) (sd_mads s, sd_machine s, sd_events s, sd_events_sp s) = Some (m, sm, st)"
    "stores_ok st" "mads_ok m" "ss_state sm = ss_state (sd_machine s)" by (auto simp: returns_ex)
  with assms show ?thesis by (simp add: mads_step_def stores_fine_def stores_ok_def)
qed

lemma personality_named: "0 \<le> p \<Longrightarrow> p \<le> 2 \<Longrightarrow> \<exists>n. LONGITUDINAL_PERSONALITY_MAP p = Some n"
proof -
  assume "0 \<le> p" "p \<le> 2"
  then have "p = 0 \<or> p = 1 \<or> p = 2" by linarith
  then show ?thesis by (auto simp: LONGITUDINAL_PERSONALITY_MAP_def)
qed

lemma update_alerts_total:
  assumes "ev_ok EVENTS_keys ev" "ev_ok EVENTS_SP_keys sp"
  shows "\<exists>am'. update_alerts mici ctx frame enabled m (ev, sp) am = Some am'"
proof -
  obtain as where "create_alerts (EVENTS mici) EVENT_NAME ctx (current_alert_types m) ev = Some as"
    using create_alerts_total [OF assms(1), of "EVENTS mici" EVENT_NAME] EVENTS_total EVENT_NAME_total by blast
  moreover obtain bs where "create_alerts (EVENTS_SP mici) EVENT_NAME_SP ctx (current_alert_types m) sp = Some bs"
    using create_alerts_total [OF assms(2), of "EVENTS_SP mici" EVENT_NAME_SP] EVENTS_SP_total EVENT_NAME_SP_total by blast
  ultimately show ?thesis by (simp add: update_alerts_def)
qed

lemma alerts_step_ok:
  assumes "stores_fine s" shows "\<exists>am. alerts_step c fr s = Some (s\<lparr>sd_AM := am\<rparr>)"
proof -
  from assms obtain n where "LONGITUDINAL_PERSONALITY_MAP (personality s) = Some n"
    using personality_named by (auto simp: stores_fine_def)
  moreover obtain am' where "update_alerts (c_mici c)
      ((fr_ctx fr)\<lparr>ctx_metric := is_metric s, ctx_soft_disable_time := soft_disable_timer (sd_machine s), ctx_personality := n\<rparr>)
      (int (fr_frame fr)) (is_enabled s) (sd_machine s) (sd_events s, sd_events_sp s) (sd_AM s) = Some am'"
    using update_alerts_total [of "sd_events s" "sd_events_sp s"] assms unfolding stores_fine_def by blast
  ultimately have "alerts_step c fr s = Some (s\<lparr>sd_AM := am'\<rparr>)" by (simp add: alerts_step_def)
  then show ?thesis by blast
qed

text \<open>The step as a whole: it returns, and what the machine saw.\<close>

lemma sd_step_ok:
  assumes "sd_inv c s" "frame_ok (with_car_state fr s)"
  defines "f \<equiv> with_car_state fr s"
  shows "\<exists>u s'. sd_step c fr s = Some s' \<and> sd_inv c s' \<and> update_events c f (data_sample c f s) = Some u \<and>
    is_enabled s' = is_enabled (machine_step c u) \<and> is_initialized s' = is_initialized (data_sample c f s) \<and>
    mismatch_counter s' = mismatch_counter (data_sample c f s) \<and> machines u = machines (data_sample c f s) \<and>
    (is_initialized s' \<and> \<not> c_passive c \<longrightarrow> raises (watched c f (data_sample c f s)) u)"
proof -
  let ?d = "data_sample c f s"
  from assms(1) have fine: "stores_fine ?d" and mads: "mads_ok (sd_mads ?d)" by (simp_all add: sd_inv_def)
  from sd_update_events_ok [OF fine, of f c] assms(2) obtain u where
    u: "update_events c f ?d = Some u" "machines u = machines ?d" "stores_fine u"
    "is_initialized ?d \<and> \<not> c_passive c \<longrightarrow> raises (watched c f ?d) u" unfolding f_def by blast
  note mu = machines_simps [OF u(2)]
  have "mads_ok (sd_mads (machine_step c u))" using mads mu(6) by simp
  from mads_step_ok [OF _ this, of c f] u(3) obtain w where
    w: "mads_step c f (machine_step c u) = Some w" "stores_fine w" "mads_ok (sd_mads w)"
    "is_enabled w = is_enabled (machine_step c u)" "ss_state (sd_machine w) = ss_state (sd_machine (machine_step c u))"
    "is_initialized w = is_initialized u" "mismatch_counter w = mismatch_counter u" by auto
  from alerts_step_ok [OF w(2), of c f] obtain am where am: "alerts_step c f w = Some (w\<lparr>sd_AM := am\<rparr>)" by blast
  let ?s = "w\<lparr>sd_AM := am, sd_CS_prev := (fr_CS f, fr_flags f)\<rparr>"
  have step: "sd_step c fr s = Some ?s"
    by (simp add: sd_step_def f_def [symmetric] Let_def u(1) w(1) am)
  have "is_enabled (machine_step c u) \<longleftrightarrow> ss_state (sd_machine (machine_step c u)) \<noteq> Op_disabled" if "\<not> REPLAY c"
  proof (cases "is_initialized u \<and> \<not> c_passive c")
    case True
    then show ?thesis using machine_step_enabled [of u c] by simp
  next
    case False
    then show ?thesis using assms(1) that mu(3,5) by (simp add: machine_step_idle sd_inv_def)
  qed
  then have "sd_inv c ?s" using w(2,3,4,5) by (simp add: sd_inv_def stores_fine_def)
  then show ?thesis using step u w(4,6,7) mu(1,4) by auto
qed

section \<open>Disengaging and engaging\<close>

definition BLOCKING :: "nat set" where
  "BLOCKING = {EN_tooDistracted, EN_pedalPressed, EN_overheat, EN_outOfSpace, EN_lowMemory, EN_calibrationIncomplete,
     EN_calibrationRecalibrating, EN_calibrationInvalid, EN_excessiveActuation, EN_controlsMismatch,
     EN_relayMalfunction, EN_processNotRunning, EN_canError, EN_doorOpen, EN_seatbeltNotLatched, EN_wrongGear,
     EN_reverseGear, EN_wrongCarMode, EN_espDisabled, EN_espActive, EN_stockAeb, EN_stockLkas, EN_speedTooHigh,
     EN_wrongCruiseMode, EN_parkBrake, EN_accFaulted, EN_carNotReady, EN_steerDisengage, EN_vehicleSensorsInvalid,
     EN_invalidLkasSetting, EN_buttonCancel, EN_steerUnavailable, EN_resumeBlocked, EN_cameraMalfunction,
     EN_cameraFrameRate, EN_selfdrivedLagging, EN_radarTempUnavailable, EN_radarFault, EN_posenetInvalid,
     EN_locationdTemporaryError, EN_paramsdTemporaryError, EN_sensorDataInvalid, EN_modeldLagging, EN_canBusMissing,
     EN_commIssue, EN_commIssueAvgFreq, EN_bigModelLoading}"

definition DISENGAGING :: "nat set" where
  "DISENGAGING = {EN_controlsMismatch, EN_relayMalfunction, EN_canError, EN_canBusMissing}"

lemma watched_types:
  "list_all (\<lambda>(e, ts). (e \<in> BLOCKING \<longrightarrow> NO_ENTRY \<in> set ts) \<and> (e \<in> DISENGAGING \<longrightarrow> IMMEDIATE_DISABLE \<in> set ts))
     (table_types (EVENTS_list mici))"
  by (simp add: EVENTS_list_def EVENTS_defs BLOCKING_def DISENGAGING_def)

lemma watched_event_types:
  assumes "e \<in> BLOCKING"
  shows "NO_ENTRY \<in> set (mapping_types (EVENTS mici) e)"
    and "e \<in> DISENGAGING \<Longrightarrow> IMMEDIATE_DISABLE \<in> set (mapping_types (EVENTS mici) e)"
proof -
  have "e \<in> EVENTS_keys" using assms by (auto simp: BLOCKING_def EVENTS_keys_iff)
  then have "e \<in> fst ` set (EVENTS_list mici)" by (simp add: EVENTS_list_keys)
  from mapping_types_key [OF watched_types this] assms
  show "NO_ENTRY \<in> set (mapping_types (EVENTS mici) e)"
    and "e \<in> DISENGAGING \<Longrightarrow> IMMEDIATE_DISABLE \<in> set (mapping_types (EVENTS mici) e)"
    unfolding EVENTS_def [symmetric] by blast+
qed

lemma watched_blocking: "list_all (\<lambda>ce. snd ce \<in> BLOCKING) (watched c fr d)"
  by (simp add: watched_def BLOCKING_def)

lemma raises_contains:
  assumes "raises (watched c fr d) u" "(True, e) \<in> set (watched c fr d)"
  shows "ev_contains (EVENTS mici) (sd_events u) NO_ENTRY"
    and "e \<in> DISENGAGING \<Longrightarrow> ev_contains (EVENTS mici) (sd_events u) IMMEDIATE_DISABLE"
proof -
  have "case (True, e) of (b, e) \<Rightarrow> b \<longrightarrow> ev_has e (sd_events u)"
    using assms unfolding raises_def list_all_iff by (rule bspec)
  then have "ev_has e (sd_events u)" by simp
  moreover have "snd (True, e) \<in> BLOCKING"
    using watched_blocking [of c fr d] assms(2) unfolding list_all_iff by (rule bspec)
  then have "e \<in> BLOCKING" by (simp only: snd_conv)
  ultimately show "ev_contains (EVENTS mici) (sd_events u) NO_ENTRY"
    and "e \<in> DISENGAGING \<Longrightarrow> ev_contains (EVENTS mici) (sd_events u) IMMEDIATE_DISABLE"
    unfolding ev_contains_iff using watched_event_types by blast+
qed

text \<open>An engaged machine, or one that is off, after a frame with a watched condition.\<close>

lemma watched_not_engaging:
  assumes "sd_inv c s" "\<not> REPLAY c" "frame_ok (with_car_state fr s)" "sd_step c fr s = Some s'"
    and "(True, e) \<in> set (watched c (with_car_state fr s) (data_sample c (with_car_state fr s) s))"
    and "is_initialized s'" "\<not> c_passive c" "\<not> is_enabled s \<or> e \<in> DISENGAGING"
  shows "\<not> is_enabled s'"
proof -
  let ?f = "with_car_state fr s" let ?d = "data_sample c ?f s"
  from sd_step_ok [OF assms(1,3)] obtain u t where "sd_step c fr s = Some t"
    and v: "is_enabled t = is_enabled (machine_step c u)" "is_initialized t = is_initialized ?d"
    "machines u = machines ?d" "is_initialized t \<and> \<not> c_passive c \<longrightarrow> raises (watched c ?f ?d) u" by blast
  then have "t = s'" using assms(4) by simp
  note u = v [unfolded this]
  let ?c = "ev_contains (EVENTS (c_mici c)) (sd_events u)"
  have r: "raises (watched c ?f ?d) u" using u(4) assms(6,7) by simp
  have "is_initialized u" using machines_simps(4) [OF u(3)] u(2) assms(6) by simp
  then have en: "is_enabled s' \<longleftrightarrow> ss_state (ss_step ?c (sd_machine u)) \<noteq> Op_disabled"
    using machine_step_enabled [of u c] assms(7) u(1) by simp
  have m: "sd_machine u = sd_machine s" using machines_simps(5) [OF u(3)] assms(2) by simp
  note no = raises_contains [OF r assms(5), of "c_mici c"]
  show ?thesis
  proof (cases "ss_state (sd_machine s) = Op_disabled")
    case True
    then show ?thesis unfolding en m using no(1) by (simp add: ss_step_disabled)
  next
    case False
    then have "e \<in> DISENGAGING" using assms(1,2,8) by (simp add: sd_inv_def)
    then show ?thesis unfolding en m using no(2) False by (simp add: ss_step_kill)
  qed
qed

lemma watched_mem:
  "\<not> c_notCar c \<Longrightarrow> \<not> ascent_v8_test_alert_mode c \<Longrightarrow> dm_lockout f \<or> dm_alwaysOnLockout f \<Longrightarrow> (True, EN_tooDistracted) \<in> set (watched c f d)"
  "canValid (fr_CS f) \<Longrightarrow> pedal_event f d \<Longrightarrow> (True, EN_pedalPressed) \<in> set (watched c f d)"
  "2 \<le> fr_thermalStatus f \<Longrightarrow> (True, EN_overheat) \<in> set (watched c f d)"
  "fr_calStatus f = Cal_uncalibrated \<Longrightarrow> (True, EN_calibrationIncomplete) \<in> set (watched c f d)"
  "fr_calStatus f = Cal_recalibrating \<Longrightarrow> (True, EN_calibrationRecalibrating) \<in> set (watched c f d)"
  "fr_calStatus f = Cal_invalid \<Longrightarrow> (True, EN_calibrationInvalid) \<in> set (watched c f d)"
  "excessive_actuation d \<Longrightarrow> (True, EN_excessiveActuation) \<in> set (watched c f d)"
  "list_ex safetyRxChecksInvalid (fr_pandaStates f) \<Longrightarrow> (True, EN_controlsMismatch) \<in> set (watched c f d)"
  "fr_pandaStates f \<noteq> [] \<Longrightarrow> 200 \<le> mismatch_counter d \<Longrightarrow> (True, EN_controlsMismatch) \<in> set (watched c f d)"
  "list_ex relayMalfunction (fr_pandaStates f) \<Longrightarrow> (True, EN_relayMalfunction) \<in> set (watched c f d)"
  "fr_managerState f \<Longrightarrow> filter (\<lambda>p. p \<noteq> ''mapd'') (fr_not_running f) \<noteq> [] \<Longrightarrow> (True, EN_processNotRunning) \<in> set (watched c f d)"
  "\<not> canTimeout (fr_CS f) \<Longrightarrow> \<not> canValid (fr_CS f) \<Longrightarrow> (True, EN_canError) \<in> set (watched c f d)"
  unfolding watched_def by (simp_all only: list.set insert_iff prod.inject simp_thms)

lemma with_car_state_simps [simp]:
  "fr_pandaStates (with_car_state fr s) = fr_pandaStates fr" "fr_thermalStatus (with_car_state fr s) = fr_thermalStatus fr"
  "fr_calStatus (with_car_state fr s) = fr_calStatus fr" "fr_managerState (with_car_state fr s) = fr_managerState fr"
  "fr_not_running (with_car_state fr s) = fr_not_running fr" "dm_lockout (with_car_state fr s) = dm_lockout fr"
  "dm_alwaysOnLockout (with_car_state fr s) = dm_alwaysOnLockout fr"
  "fr_planSP_events (with_car_state fr s) = fr_planSP_events fr"
  "panda_mode_wrong c (with_car_state fr s) = panda_mode_wrong c fr" "radar_canError (with_car_state fr s) = radar_canError fr"
  by (simp_all add: with_car_state_def panda_mode_wrong_def)

lemma sd_step_obtains:
  assumes "sd_inv c s" "frame_ok (with_car_state fr s)" "sd_step c fr s = Some s'"
  shows "sd_inv c s'" "is_initialized s' = is_initialized (data_sample c (with_car_state fr s) s)"
    "mismatch_counter s' = mismatch_counter (data_sample c (with_car_state fr s) s)"
    "is_enabled s' \<Longrightarrow> \<not> is_enabled s \<Longrightarrow> \<not> REPLAY c \<Longrightarrow> is_initialized s' \<and> \<not> c_passive c"
proof -
  let ?f = "with_car_state fr s" let ?d = "data_sample c ?f s"
  from sd_step_ok [OF assms(1,2)] obtain u t where "sd_step c fr s = Some t"
    and v: "sd_inv c t" "is_enabled t = is_enabled (machine_step c u)" "is_initialized t = is_initialized ?d"
    "mismatch_counter t = mismatch_counter ?d" "machines u = machines ?d" by blast
  then have "t = s'" using assms(3) by simp
  note v = v [unfolded this]
  from v(1,3,4) show "sd_inv c s'" "is_initialized s' = is_initialized ?d" "mismatch_counter s' = mismatch_counter ?d" by simp_all
  assume "is_enabled s'" "\<not> is_enabled s"
  moreover have "is_enabled u = is_enabled s" "is_initialized u = is_initialized ?d"
    using machines_simps(3,4) [OF v(5)] by simp_all
  ultimately show "is_initialized s' \<and> \<not> c_passive c" using v(2,3) machine_step_idle [of u c] by auto
qed

text \<open>
  C3. The drive loop never raises on the frames it is sent. From any state with well formed stores,
  a step on a frame with known planner events (and a lateral acceleration that does not make the
  divisor of the saturation check zero) returns: through every event source, both engagement
  machines, the lookup of the personality's name and the alerts of both tables. The stores stay well
  formed, the personality stays in range, and outside of a replay the flag \<open>enabled\<close> agrees with
  the machine.
\<close>

theorem sd_step_returns:
  assumes "sd_inv c s" "frame_ok (with_car_state fr s)"
  shows "\<exists>s'. sd_step c fr s = Some s' \<and> sd_inv c s'"
  using sd_step_ok [OF assms] by blast

lemma list_ex_or: "list_ex (\<lambda>x. P x \<or> Q x) xs \<longleftrightarrow> list_ex P xs \<or> list_ex Q xs"
  by (induction xs) auto

lemma raises_tail: "raises (ce # ces) s \<Longrightarrow> raises ces s"
  by (simp add: raises_def)

lemma cautions_mem:
  "panda_mode_wrong c f \<Longrightarrow> (True, EN_controlsMismatch) \<in> set (cautions c f b s)"
  "op_long c \<Longrightarrow> radar_canError f \<Longrightarrow> (True, EN_canError) \<in> set (cautions c f b s)"
  "canTimeout (fr_CS f) \<Longrightarrow> \<not> timeout_muted f s \<Longrightarrow> (True, EN_canBusMissing) \<in> set (cautions c f b s)"
  unfolding cautions_def source_cautions_def timeout_caution_def
  by (simp_all only: set_append list.set Un_iff insert_iff prod.inject simp_thms)

text \<open>What the machine saw in a frame of the running loop.\<close>

lemma data_sample_cautions:
  "cautions c f b (data_sample c f s) = cautions c f b s" "calm_model f (data_sample c f s) = calm_model f s"
  "timeout_muted f (data_sample c f s) = timeout_muted f s"
  by (simp_all add: cautions_def car_cautions_def car_signs_def timeout_caution_def timeout_muted_def)
    (simp_all add: calm_model_def data_sample_def Let_def)

lemma frame_seen:
  assumes "sd_inv c s" "\<not> REPLAY c" "frame_ok (with_car_state fr s)" "sd_step c fr s = Some s'"
    and "is_initialized s'" "\<not> c_passive c"
  defines "f \<equiv> with_car_state fr s"
  obtains u where "update_events c f (data_sample c f s) = Some u" "raises (watched c f (data_sample c f s)) u"
    "raises ((fr_UsbGpuLoading f, EN_bigModelLoading) # cautions c f (calm_model f s) s) u"
    "\<not> fr_all_checks f \<and> calm_model f s \<and> \<not> timeout_muted f s \<Longrightarrow> ev_contains (EVENTS (c_mici c)) (sd_events u) NO_ENTRY"
    "is_enabled s' \<longleftrightarrow> ss_state (ss_step (ev_contains (EVENTS (c_mici c)) (sd_events u)) (sd_machine s)) \<noteq> Op_disabled"
proof -
  let ?d = "data_sample c f s"
  from sd_step_ok [OF assms(1,3)] obtain u t where "sd_step c fr s = Some t"
    and v: "is_enabled t = is_enabled (machine_step c u)" "is_initialized t = is_initialized ?d"
    "machines u = machines ?d" "is_initialized t \<and> \<not> c_passive c \<longrightarrow> raises (watched c f ?d) u"
    "update_events c f ?d = Some u" unfolding f_def by blast
  then have "t = s'" using assms(4) by simp
  note u = v [unfolded this]
  have init: "is_initialized ?d" "is_initialized u" using machines_simps(4) [OF u(3)] u(2) assms(5) by simp_all
  have fine: "stores_fine ?d" using assms(1) by (simp add: sd_inv_def)
  note more = update_cautions [OF fine assms(3) [folded f_def] u(5) init(1) assms(6), unfolded data_sample_cautions]
  have "ev_contains (EVENTS (c_mici c)) (sd_events u) NO_ENTRY"
    if "\<not> fr_all_checks f \<and> calm_model f s \<and> \<not> timeout_muted f s"
  proof -
    from more that obtain e where "ev_has e (sd_events u)"
      "e = EN_commIssue \<or> e = EN_commIssueAvgFreq \<or> NO_ENTRY \<in> set (mapping_types (EVENTS (c_mici c)) e)" by blast
    moreover have "EN_commIssue \<in> BLOCKING" "EN_commIssueAvgFreq \<in> BLOCKING" by (simp_all add: BLOCKING_def)
    ultimately show ?thesis unfolding ev_contains_iff using watched_event_types(1) by blast
  qed
  moreover have "is_enabled s' \<longleftrightarrow> ss_state (ss_step (ev_contains (EVENTS (c_mici c)) (sd_events u)) (sd_machine s)) \<noteq> Op_disabled"
    using machine_step_enabled [of u c] init(2) assms(2,6) u(1) machines_simps(5) [OF u(3)] by simp
  ultimately show thesis using that u(4,5) assms(5,6) more by blast
qed

text \<open>
  C2. A hardware fault disengages in its own frame. On an initialised loop of a car that is not
  passive, outside of a replay, the drive machine is off at the end of every frame in which a panda
  reports a relay malfunction or invalid receive checks, or runs after ten seconds in another safety
  mode than the car's, or the pandas have refused control for 200 frames, or the car's messages are
  invalid, or time out (in park with MADS engaged a timeout is passed over), or openpilot drives the
  pedals and the radar reports a CAN error.
\<close>

theorem hardware_fault_disengages:
  assumes "sd_inv c s" "\<not> REPLAY c" "frame_ok (with_car_state fr s)" "sd_step c fr s = Some s'"
    and "is_initialized s'" "\<not> c_passive c"
    and "list_ex (\<lambda>p. relayMalfunction p \<or> safetyRxChecksInvalid p) (fr_pandaStates fr) \<or>
      panda_mode_wrong c fr \<or> (fr_pandaStates fr \<noteq> [] \<and> 200 \<le> mismatch_counter s') \<or>
      (\<not> canTimeout (fr_CS (with_car_state fr s)) \<and> \<not> canValid (fr_CS (with_car_state fr s))) \<or>
      (canTimeout (fr_CS (with_car_state fr s)) \<and> \<not> timeout_muted (with_car_state fr s) s) \<or>
      (op_long c \<and> radar_canError fr)"
  shows "\<not> is_enabled s'"
proof -
  let ?f = "with_car_state fr s" let ?d = "data_sample c ?f s"
  from frame_seen [OF assms(1-6)] obtain u where u: "raises (watched c ?f ?d) u"
    "raises ((fr_UsbGpuLoading ?f, EN_bigModelLoading) # cautions c ?f (calm_model ?f s) s) u"
    "is_enabled s' \<longleftrightarrow> ss_state (ss_step (ev_contains (EVENTS (c_mici c)) (sd_events u)) (sd_machine s)) \<noteq> Op_disabled" by blast
  have "\<exists>e \<in> DISENGAGING. ev_has e (sd_events u)"
    using assms(7) u(1) raises_tail [OF u(2)] watched_mem(8-10,12) [where f = ?f and d = ?d and c = c]
      cautions_mem [where f = ?f and s = s and c = c and b = "calm_model ?f s"]
    unfolding sd_step_obtains(3) [OF assms(1,3,4)] DISENGAGING_def list_ex_or with_car_state_simps raises_mem by blast
  then obtain e where e: "e \<in> DISENGAGING" "ev_has e (sd_events u)" ..
  then have "e \<in> BLOCKING" by (auto simp: DISENGAGING_def BLOCKING_def)
  with e have "ev_contains (EVENTS (c_mici c)) (sd_events u) NO_ENTRY" "ev_contains (EVENTS (c_mici c)) (sd_events u) IMMEDIATE_DISABLE"
    unfolding ev_contains_iff using watched_event_types by blast+
  then show ?thesis unfolding u(3)
    by (cases "ss_state (sd_machine s) = Op_disabled") (simp_all add: ss_step_disabled ss_step_kill)
qed

definition driver_permits :: "sd_config \<Rightarrow> sd_frame \<Rightarrow> selfdrived \<Rightarrow> bool" where
  \<comment> \<open>not locked out, no new pedal press, a speed to resume to, no cancel button\<close>
  "driver_permits c fr s \<longleftrightarrow>
     (c_notCar c \<or> ascent_v8_test_alert_mode c \<or> \<not> (dm_lockout fr \<or> dm_alwaysOnLockout fr)) \<and>
     \<not> (canValid (fr_CS fr) \<and> pedal_event fr s) \<and>
     \<not> (\<not> ce_pcmCruise (c_car c) \<and> vCruise (fr_CS fr) > 250 \<and>
        button_pressed_or_released [B_accelCruise, B_resumeCruise] (fr_CS fr)) \<and>
     (car_heard c fr \<longrightarrow>
        \<not> (steeringDisengage (fr_flags fr) \<and> \<not> steeringDisengage (snd (sd_CS_prev s))) \<and>
        (ce_brand (c_car c) = ''hyundai'' \<and> ce_pcmCruise (c_car c) \<or>
         \<not> list_ex (\<lambda>b. be_type b = B_cancel) (buttonEvents (fr_CS fr))))"

definition car_permits :: "sd_config \<Rightarrow> sd_frame \<Rightarrow> bool" where
  \<comment> \<open>what a car that is heard must report\<close>
  "car_permits c fr \<longleftrightarrow> (car_heard c fr \<longrightarrow>
     (let cs = fr_CS fr; fl = fr_flags fr in
      \<not> doorOpen fl \<and> \<not> seatbeltUnlatched fl \<and> gearShifter cs \<noteq> Gear_reverse \<and>
      (gearShifter cs = Gear_drive \<or> gearShifter cs \<in> set (ce_DRIVABLE_GEARS (c_car c))) \<and>
      cruise_available (cruiseState cs) \<and> \<not> cruise_nonAdaptive fl \<and> \<not> parkingBrake fl \<and>
      \<not> espDisabled fl \<and> \<not> espActive fl \<and> \<not> stockAeb fl \<and> \<not> stockLkas fl \<and> vEgo cs \<le> ce_MAX_CTRL_SPEED (c_car c) \<and>
      \<not> accFaulted fl \<and> \<not> carNotReady fl \<and> \<not> vehicleSensorsInvalid fl \<and> \<not> invalidLkasSetting fl \<and> \<not> steerFaultPermanent fl))"

definition device_permits :: "sd_config \<Rightarrow> sd_frame \<Rightarrow> selfdrived \<Rightarrow> bool" where
  \<comment> \<open>heat, storage, memory, calibration, and no excessive actuation recorded\<close>
  "device_permits c fr s \<longleftrightarrow>
     fr_thermalStatus fr < 2 \<and> (SIMULATION c \<or> fr_freeSpacePercent fr \<ge> 7 \<and> fr_memoryUsagePercent fr \<le> 90) \<and>
     fr_calStatus fr = Cal_calibrated \<and> \<not> excessive_actuation s"

definition hardware_permits :: "sd_config \<Rightarrow> sd_frame \<Rightarrow> selfdrived \<Rightarrow> bool" where
  \<comment> \<open>the pandas, the CAN bus and the radar\<close>
  "hardware_permits c fr s \<longleftrightarrow>
     \<not> list_ex (\<lambda>p. relayMalfunction p \<or> safetyRxChecksInvalid p) (fr_pandaStates fr) \<and> \<not> panda_mode_wrong c fr \<and>
     (canTimeout (fr_CS fr) \<and> timeout_muted fr s \<or> \<not> canTimeout (fr_CS fr) \<and> canValid (fr_CS fr)) \<and>
     (op_long c \<longrightarrow> \<not> radar_canError fr \<and> \<not> radar_unavailableTemporary fr \<and> \<not> radar_any fr)"

definition processes_permit :: "sd_config \<Rightarrow> sd_frame \<Rightarrow> selfdrived \<Rightarrow> bool" where
  \<comment> \<open>the other processes, their messages, the camera and the driving model\<close>
  "processes_permit c fr s \<longleftrightarrow>
     \<not> processes_missing fr \<and> \<not> fr_UsbGpuLoading fr \<and> (REPLAY c \<or> \<not> fr_lagging fr) \<and>
     (SIMULATION c \<or> fr_lagging fr \<or> fr_camera_alive fr \<and> fr_camera_freq_ok fr) \<and>
     (calm_model fr s \<longrightarrow>
        (fr_all_checks fr \<or> timeout_muted fr s) \<and>
        (c_notCar c \<or> fr_posenetOK fr \<and> fr_inputsOK fr \<and>
           (fr_vehicleParameters_valid fr \<or> TESTING_CLOSET c \<or> SIMULATION c \<and> \<not> REPLAY c))) \<and>
     \<not> list_ex (\<lambda>r. (of_nat (fr_frame fr) - of_nat r) * DT_CTRL > (10 :: real)) (fr_sensor_recv fr) \<and>
     (SIMULATION c \<and> \<not> REPLAY c \<or> fr_frameDropPerc fr \<le> 1)"

lemma blocking_absent:
  assumes "raises ces u" "\<not> ev_contains (EVENTS mici) (sd_events u) NO_ENTRY" "list_all (\<lambda>ce. snd ce \<in> BLOCKING) ces"
  shows "list_all (\<lambda>ce. \<not> fst ce) ces"
proof -
  have "\<not> ev_has e (sd_events u)" if "e \<in> BLOCKING" for e
    using assms(2) watched_event_types(1) [OF that, of mici] unfolding ev_contains_iff by blast
  then show ?thesis using assms(1,3) unfolding raises_def list_all_iff by fastforce
qed

lemma cautions_blocking: "list_all (\<lambda>ce. snd ce \<in> BLOCKING) (cautions c fr b s)"
  by (simp add: cautions_def car_cautions_def car_signs_def resume_caution_def source_cautions_def pose_cautions_def
      lag_caution_def timeout_caution_def BLOCKING_def)

abbreviation none_of :: "(bool \<times> nat) list \<Rightarrow> bool" where
  \<comment> \<open>no condition of the list holds\<close>
  "none_of ces \<equiv> list_all (\<lambda>ce. \<not> fst ce) ces"

lemma guarded_none: "none_of (map (\<lambda>(b, e). (a \<and> b, e)) ces) \<longleftrightarrow> (a \<longrightarrow> none_of ces)"
  by (induction ces) auto

lemma none_of_cautions:
  assumes "none_of (cautions c fr b s)"
  shows "car_heard c fr \<Longrightarrow> none_of (car_signs c fr s)"
    "car_heard c fr \<Longrightarrow> \<not> (list_ex (\<lambda>b. be_type b = B_cancel) (buttonEvents (fr_CS fr)) \<and>
        (ce_brand (c_car c) \<noteq> ''hyundai'' \<or> \<not> ce_pcmCruise (c_car c))) \<and> \<not> steerFaultPermanent (fr_flags fr)"
    "none_of (resume_caution c fr)" "\<not> panda_mode_wrong c fr" "none_of (source_cautions c fr)" "none_of (pose_cautions c fr b)"
    "none_of (lag_caution c fr)" "none_of (timeout_caution fr s)"
  using assms unfolding cautions_def list_all_append car_cautions_def guarded_none list.pred_inject fst_conv simp_thms by blast+

lemma none_of_signs:
  assumes "none_of (car_signs c fr s)" "\<not> steerFaultPermanent (fr_flags fr)"
  shows "car_permits c fr" "\<not> (steeringDisengage (fr_flags fr) \<and> \<not> steeringDisengage (snd (sd_CS_prev s)))"
  using assms unfolding car_permits_def car_signs_def list.pred_inject fst_conv simp_thms Let_def not_less by blast+

lemma none_of_watched:
  assumes "none_of (watched c fr s)"
  shows "c_notCar c \<or> ascent_v8_test_alert_mode c \<or> \<not> (dm_lockout fr \<or> dm_alwaysOnLockout fr)"
    "\<not> (canValid (fr_CS fr) \<and> pedal_event fr s)" "fr_thermalStatus fr < 2" "\<not> excessive_actuation s"
    "SIMULATION c \<or> fr_freeSpacePercent fr \<ge> 7 \<and> fr_memoryUsagePercent fr \<le> 90" "fr_calStatus fr = Cal_calibrated"
    "\<not> list_ex (\<lambda>p. relayMalfunction p \<or> safetyRxChecksInvalid p) (fr_pandaStates fr)"
    "\<not> processes_missing fr" "canTimeout (fr_CS fr) \<or> canValid (fr_CS fr)"
proof -
  have "fr_calStatus fr \<in> {Cal_uncalibrated, Cal_calibrated, Cal_invalid, Cal_recalibrating}" by (cases "fr_calStatus fr") simp_all
  then show "c_notCar c \<or> ascent_v8_test_alert_mode c \<or> \<not> (dm_lockout fr \<or> dm_alwaysOnLockout fr)"
    "\<not> (canValid (fr_CS fr) \<and> pedal_event fr s)" "fr_thermalStatus fr < 2" "\<not> excessive_actuation s"
    "SIMULATION c \<or> fr_freeSpacePercent fr \<ge> 7 \<and> fr_memoryUsagePercent fr \<le> 90" "fr_calStatus fr = Cal_calibrated"
    "\<not> list_ex (\<lambda>p. relayMalfunction p \<or> safetyRxChecksInvalid p) (fr_pandaStates fr)"
    "\<not> processes_missing fr" "canTimeout (fr_CS fr) \<or> canValid (fr_CS fr)"
    using assms by (auto simp: watched_def list_ex_or processes_missing_def)
qed

lemma driver_permitsI:
  "none_of (watched c fr d) \<Longrightarrow> none_of (cautions c fr b s) \<Longrightarrow> pedal_event fr d = pedal_event fr s \<Longrightarrow> driver_permits c fr s"
  using none_of_watched(1,2) [of c fr d] none_of_cautions(1-3) [of c fr b s] none_of_signs(2) [of c fr s]
  unfolding driver_permits_def resume_caution_def list.pred_inject fst_conv simp_thms by blast

lemma car_permitsI: "none_of (cautions c fr b s) \<Longrightarrow> car_permits c fr"
  using none_of_cautions(1,2) [of c fr b s] none_of_signs(1) [of c fr s] unfolding car_permits_def [of c fr] by blast

lemma hardware_permitsI:
  "none_of (watched c fr d) \<Longrightarrow> none_of (cautions c fr b s) \<Longrightarrow> hardware_permits c fr s"
  using none_of_watched(7,9) [of c fr d] none_of_cautions(4,5,8) [of c fr b s]
  unfolding hardware_permits_def source_cautions_def timeout_caution_def list.pred_inject fst_conv simp_thms by blast

lemma processes_permitI:
  assumes "none_of (watched c fr d)" "none_of (cautions c fr (calm_model fr s) s)" "\<not> fr_UsbGpuLoading fr"
    "fr_all_checks fr \<or> \<not> calm_model fr s \<or> timeout_muted fr s"
  shows "processes_permit c fr s"
proof -
  note w = none_of_watched [OF assms(1)] and q = none_of_cautions [OF assms(2)]
  note src = q(5) [unfolded source_cautions_def list.pred_inject fst_conv]
    and pose = q(6) [unfolded pose_cautions_def list.pred_inject fst_conv]
  have "REPLAY c \<or> \<not> fr_lagging fr" "SIMULATION c \<or> fr_lagging fr \<or> fr_camera_alive fr \<and> fr_camera_freq_ok fr"
    using src w(8) by blast+
  moreover have "c_notCar c \<or> fr_posenetOK fr \<and> fr_inputsOK fr \<and>
      (fr_vehicleParameters_valid fr \<or> TESTING_CLOSET c \<or> SIMULATION c \<and> \<not> REPLAY c)" if "calm_model fr s"
    using pose w(6) that by blast
  moreover have "\<not> list_ex (\<lambda>r. (of_nat (fr_frame fr) - of_nat r) * DT_CTRL > (10 :: real)) (fr_sensor_recv fr)"
    using pose by blast
  moreover have "SIMULATION c \<and> \<not> REPLAY c \<or> fr_frameDropPerc fr \<le> 1"
    using q(7) by (auto simp: lag_caution_def)
  ultimately show ?thesis unfolding processes_permit_def using w(8) assms(3,4) by blast
qed

text \<open>
  C1. The drive machine engages only when nothing forbids an entry. A frame that takes the machine
  from off to engaged, outside of a replay, comes after the start phase, on a car that is not passive;
  the store of its events holds one that engages and none with the type \<open>NO_ENTRY\<close>; and, by name: the
  driver is not locked out, presses no pedal and no cancel button anew and has a speed to resume to; a
  car that is heard has its doors and belt closed, a drivable gear, cruise available, no brake set, no
  stability, braking or steering fault and no speed above the limit of control; the device is cool,
  calibrated, has storage and memory, and no excessive actuation is recorded; no panda reports a fault
  or runs in another mode than the car's, CAN is valid (or muted in park with MADS engaged) and the
  radar works; and the other processes run, are heard and sound, the camera, the sensors and the
  driving model among them. The checks of messages and pose wait while a big model settles.
\<close>

theorem engages_only_when_permitted:
  assumes "sd_inv c s" "\<not> REPLAY c" "frame_ok (with_car_state fr s)" "sd_step c fr s = Some s'"
    and "\<not> is_enabled s" "is_enabled s'"
  shows "is_initialized s' \<and> \<not> c_passive c \<and>
    (\<exists>u. update_events c (with_car_state fr s) (data_sample c (with_car_state fr s) s) = Some u \<and>
       ev_contains (EVENTS (c_mici c)) (sd_events u) ENABLE \<and> \<not> ev_contains (EVENTS (c_mici c)) (sd_events u) NO_ENTRY) \<and>
    driver_permits c (with_car_state fr s) s \<and> car_permits c (with_car_state fr s) \<and>
    device_permits c (with_car_state fr s) s \<and> hardware_permits c (with_car_state fr s) s \<and>
    processes_permit c (with_car_state fr s) s"
proof -
  let ?f = "with_car_state fr s" let ?d = "data_sample c ?f s"
  have on: "is_initialized s'" "\<not> c_passive c"
    using sd_step_obtains(4) [OF assms(1,3,4) assms(6,5,2)] by blast+
  from frame_seen [OF assms(1-4) on] obtain u where u: "update_events c ?f ?d = Some u" "raises (watched c ?f ?d) u"
    "raises ((fr_UsbGpuLoading ?f, EN_bigModelLoading) # cautions c ?f (calm_model ?f s) s) u"
    "\<not> fr_all_checks ?f \<and> calm_model ?f s \<and> \<not> timeout_muted ?f s \<Longrightarrow> ev_contains (EVENTS (c_mici c)) (sd_events u) NO_ENTRY"
    "is_enabled s' \<longleftrightarrow> ss_state (ss_step (ev_contains (EVENTS (c_mici c)) (sd_events u)) (sd_machine s)) \<noteq> Op_disabled" by blast
  have "ss_state (sd_machine s) = Op_disabled" using assms(1,2,5) by (simp add: sd_inv_def)
  then have no: "ev_contains (EVENTS (c_mici c)) (sd_events u) ENABLE" "\<not> ev_contains (EVENTS (c_mici c)) (sd_events u) NO_ENTRY"
    using ss_step_disabled [of "sd_machine s"] u(5) assms(6) by blast+
  have w: "none_of (watched c ?f ?d)" by (rule blocking_absent [OF u(2) no(2) watched_blocking])
  have l: "\<not> fr_UsbGpuLoading ?f" and q: "none_of (cautions c ?f (calm_model ?f s) s)"
    using blocking_absent [OF u(3) no(2)] cautions_blocking by (simp_all add: BLOCKING_def)
  have comm: "fr_all_checks ?f \<or> \<not> calm_model ?f s \<or> timeout_muted ?f s" using u(4) no(2) by blast
  have "device_permits c ?f s" using none_of_watched(3-6) [OF w] unfolding device_permits_def by simp
  then show ?thesis
    using on u(1) no driver_permitsI [OF w q] car_permitsI [OF q] hardware_permitsI [OF w q] processes_permitI [OF w q l comm] by simp
qed

section \<open>Refused control\<close>

definition control_refused :: "sd_frame \<Rightarrow> bool" where
  "control_refused fr \<longleftrightarrow>
     list_ex (\<lambda>p. safetyModel p \<notin> set IGNORED_SAFETY_MODES \<and> \<not> controlsAllowed p) (fr_pandaStates fr)"

lemma refused_counts:
  "is_enabled s \<Longrightarrow> control_refused f \<Longrightarrow> mismatch_counter (data_sample c f s) = mismatch_counter s + 1"
  by (simp add: data_sample_def control_refused_def)

lemma refused_run:
  assumes "\<not> REPLAY c" "\<not> c_passive c"
  shows "sd_inv c s \<Longrightarrow> is_initialized s \<Longrightarrow> is_enabled s \<Longrightarrow>
     \<forall>fr \<in> set frs. fr_received fr \<and> frame_ok fr \<and> control_refused fr \<Longrightarrow> 200 \<le> mismatch_counter s + length frs \<Longrightarrow>
     mismatch_counter s < 200 \<Longrightarrow>
     \<exists>n t. 1 \<le> n \<and> n \<le> length frs \<and> sd_run c (take n frs) s = Some t \<and> \<not> is_enabled t"
proof (induction frs arbitrary: s)
  case (Cons fr frs)
  have fr: "with_car_state fr s = fr" "frame_ok fr" "control_refused fr" using Cons.prems(4) by (simp_all add: with_car_state_def)
  obtain t where t: "sd_step c fr s = Some t" using sd_step_ok [OF Cons.prems(1), of fr] fr by auto
  note t' = sd_step_obtains [OF Cons.prems(1) _ t, unfolded fr(1), OF fr(2)]
  have n: "mismatch_counter t = mismatch_counter s + 1" using t'(3) refused_counts [OF Cons.prems(3) fr(3)] by simp
  have i: "is_initialized t" using t'(2) Cons.prems(2) by simp
  show ?case
  proof (cases "is_enabled t")
    case False
    then show ?thesis using t by (intro exI [of _ 1] exI [of _ t]) simp
  next
    case on: True
    have "fr_pandaStates fr \<noteq> []" using fr(3) by (auto simp: control_refused_def)
    moreover have "EN_controlsMismatch \<in> DISENGAGING" by (simp add: DISENGAGING_def)
    ultimately have "mismatch_counter t < 200"
      using watched_not_engaging [OF Cons.prems(1) assms(1) _ t _ i assms(2), unfolded fr(1), OF fr(2)] on
        watched_mem(9) [where f = fr and d = "data_sample c fr s" and c = c] t'(3) by (metis not_less)
    with Cons.IH [OF t'(1) i on] Cons.prems(4,5) n obtain k u where
      "1 \<le> k" "k \<le> length frs" "sd_run c (take k frs) t = Some u" "\<not> is_enabled u" by auto
    then show ?thesis using t by (intro exI [of _ "Suc k"] exI [of _ u]) simp
  qed
qed simp

text \<open>
  C4. Refused control disengages within 200 frames. When the pandas refuse control in every frame of a
  run that starts engaged, the drive machine is off at the end of one of the first 200 frames, the
  run having raised nothing up to there. (The comment in \<open>data_sample\<close> speaks of two samples.)
\<close>

theorem refused_control_disengages:
  assumes "\<not> REPLAY c" "\<not> c_passive c" "sd_inv c s" "is_initialized s" "is_enabled s" "mismatch_counter s < 200"
    and "\<forall>fr \<in> set frs. fr_received fr \<and> frame_ok fr \<and> control_refused fr" "length frs = 200"
  shows "\<exists>n t. 1 \<le> n \<and> n \<le> 200 \<and> sd_run c (take n frs) s = Some t \<and> \<not> is_enabled t"
  using refused_run [OF assms(1-5,7) _ assms(6)] assms(8) by auto

section \<open>Examples\<close>

definition ex_config :: sd_config where
  "ex_config =
     \<lparr>SIMULATION = False, REPLAY = False, TESTING_CLOSET = False, c_mici = False,
      c_car = \<lparr>ce_brand = ''subaru'', ce_pcmCruise = True, ce_openpilotLongitudinalControl = False, ce_minEnableSpeed = 0,
        ce_minSteerSpeed = 0, ce_networkLocation_fwdCamera = False, ce_toyota_hybrid = False, ce_RAM_DT = False,
        ce_enableGasInterceptor = False, ce_DRIVABLE_GEARS = [], ce_MAX_CTRL_SPEED = 40\<rparr>,
      c_passive = False, c_notCar = False, c_safetyConfigs = [(Safety_other 11, 0)], c_alternativeExperience = 0,
      c_pcmCruiseSpeed = True, c_hyst = (\<lambda>x _ _. x), c_ACCELERATION_DUE_TO_GRAVITY = 981 / 100,
      c_ISO_LATERAL_ACCEL = 3, c_ACCEL_MIN = -35 / 10, c_ACCEL_MAX = 2, ascent_v8_test_alert_mode = False\<rparr>"

definition ex_flags :: car_flags where
  "ex_flags = \<lparr>doorOpen = False, seatbeltUnlatched = False, espDisabled = False, espActive = False, stockFcw = False,
     stockAeb = False, stockLkas = False, cruise_nonAdaptive = False, brakeHoldActive = False, parkingBrake = False,
     accFaulted = False, carNotReady = False, steeringDisengage = False, vehicleSensorsInvalid = False,
     invalidLkasSetting = False, lowSpeedAlert = False, buttonEnable = False, steerFaultTemporary = False,
     steerFaultPermanent = False, blockPcmEnable = False\<rparr>"

definition ex_car :: car_state where
  "ex_car = cs_default\<lparr>vEgo := 20, canValid := True, gearShifter := Gear_drive,
     cruiseState := \<lparr>cruise_available = True, cruise_enabled = True, cruise_speed = 20, cruise_speedCluster = 20,
       cruise_standstill = False\<rparr>\<rparr>"

definition ex_panda :: "bool \<Rightarrow> bool \<Rightarrow> panda_state" where
  "ex_panda allowed relay = \<lparr>safetyModel = Safety_other 11, safetyParam = 0, alternativeExperience = 0,
     controlsAllowed = allowed, controlsAllowedLateral = allowed, safetyRxChecksInvalid = False, relayMalfunction = relay\<rparr>"

definition ex_sd_frame :: "alert_ctx \<Rightarrow> panda_state \<Rightarrow> sd_frame" where
  "ex_sd_frame ctx p =
     \<lparr>fr_frame = 700, fr_received = True, fr_CS = ex_car, fr_flags = ex_flags, fr_debugState = False, fr_UsbGpuLoading = False,
      fr_UsbGpuActive = None, fr_chestnutPresent = False, fr_modelV2_seen = True, fr_modelV2_alive = True, fr_now = 100,
      fr_now_later = 100, fr_lateralManeuverPlan = False, fr_alertDebug = False, fr_userBookmark = False, dm_lockout = False,
      dm_alwaysOnLockout = False, dm_activePolicy_vision = True, dm_alertLevel = 0, dm_uncertainPercent = 0,
      fr_planSP_events = [], fr_accel = 0, fr_longActive = False, fr_latActive = False,
      fr_control = \<lparr>cc_enabled = False, cc_override = False, cc_cancel = False, cc_resume = False\<rparr>,
      fr_thermalStatus = 0, fr_freeSpacePercent = 50, fr_memoryUsagePercent = 20, fr_panda_known = True, fr_fanSpeedRpm = 1000,
      fr_fanSpeedPercentDesired = 20, fr_calStatus = Cal_calibrated, fr_ldw_valid = False, fr_leftLaneDeparture = False,
      fr_rightLaneDeparture = False, fr_calibrated_pose = None, fr_roll = 0, fr_laneChangeState = LC_off,
      fr_laneChangeDirection = Dir_none, fr_leftEdgeBlock = False, fr_rightEdgeBlock = False, fr_laneTurnDirection = Turn_none,
      fr_pandaStates = [p], fr_managerState = True, fr_not_running = [], fr_lagging = False, fr_camera_alive = True,
      fr_camera_freq_ok = True, radar_canError = False, radar_unavailableTemporary = False, radar_any = False,
      fr_all_checks = True, fr_all_alive = True, fr_all_freq_ok = True, fr_posenetOK = True, fr_inputsOK = True,
      fr_vehicleParameters_valid = True, fr_sensor_recv = [699, 699], fr_lac_active = False, fr_lac_saturated = False,
      fr_curvature = 0, fr_desiredCurvature = 0, fr_hardBrakePredicted = False, fr_plan_fcw = False, fr_gps_recv = 690,
      fr_frameDropPerc = 0, fr_vTarget = 0, fr_ctx = ctx\<rparr>"

definition ex_sd_params :: sd_params where
  "ex_sd_params = \<lparr>q_IsMetric = True, q_IsLdwEnabled = False, q_DisengageOnAccelerator = False, q_ExperimentalMode = False,
     q_LongitudinalPersonality = 1,
     q_mads = \<lparr>p_Mads = False, p_MadsMainCruiseAllowed = False, p_MadsSteeringMode = 0, p_MadsUnifiedEngagementMode = False,
       p_DisengageOnAccelerator = False, p_tesla_screen_button_off = False\<rparr>\<rparr>"

definition ex_sd :: selfdrived where
  "ex_sd = sd_init ex_config \<lparr>b_remote_tested = True, b_car_recognized = True, b_secOc_key_missing = False,
     b_Offroad_ExcessiveActuation = False\<rparr> ex_sd_params
     \<lparr>brand = ''subaru'', hyundai_lda_or_canfd = False, tesla_has_vehicle_bus = False\<rparr> ex_flags"

lemma initial_startup_known: "initial_startup_event c b = Some e \<Longrightarrow> e \<in> EVENTS_keys"
  by (auto simp: initial_startup_event_def EVENTS_keys_iff Let_def split: if_splits)

lemma sd_init_inv: "sd_inv c (sd_init c b q mc flags)"
proof -
  have "ev_ok EVENTS_keys (ev_add_static e (Events_init (c_mici c)))" if "e \<in> EVENTS_keys" for e
    using that by (rule ev_ok_add_static [OF Events_init_ok])
  moreover have "EN_carUnrecognized \<in> EVENTS_keys" "EN_dashcamMode \<in> EVENTS_keys" by (simp_all add: EVENTS_keys_iff)
  ultimately show ?thesis
    using initial_startup_known [of c b] Events_init_ok [of "c_mici c"] EventsSP_init_ok [of "c_mici c"]
    by (simp add: sd_inv_def stores_fine_def sd_init_def mads_init_ok ss_init_def Let_def)
qed

lemma ex_frame_ok: "frame_ok (ex_sd_frame ctx p)"
  by (simp add: frame_ok_def ex_sd_frame_def no_zero_divisor_def)

lemma ex_received: "with_car_state (ex_sd_frame ctx p) s = ex_sd_frame ctx p"
  by (simp add: with_car_state_def ex_sd_frame_def)

theorem sd_step_returns_witness: "\<forall>ctx. \<exists>s'. sd_step ex_config (ex_sd_frame ctx (ex_panda True False)) ex_sd = Some s' \<and> sd_inv ex_config s'"
  using sd_step_returns [of ex_config ex_sd "ex_sd_frame _ (ex_panda True False)"] sd_init_inv ex_frame_ok
  by (simp add: ex_received ex_sd_def)

definition ex_engaged :: selfdrived where
  "ex_engaged = ex_sd\<lparr>is_initialized := True, is_enabled := True, sd_machine := ss_init\<lparr>ss_state := Op_enabled\<rparr>\<rparr>"

lemma ex_engaged_inv: "sd_inv ex_config ex_engaged"
  using sd_init_inv [of ex_config] by (simp add: sd_inv_def ex_engaged_def stores_fine_def ex_sd_def)

theorem hardware_fault_disengages_witness:
  "\<forall>ctx. \<exists>s'. sd_step ex_config (ex_sd_frame ctx (ex_panda True True)) ex_engaged = Some s' \<and> \<not> is_enabled s'"
proof
  fix ctx
  let ?fr = "ex_sd_frame ctx (ex_panda True True)"
  have ok: "frame_ok (with_car_state ?fr ex_engaged)" by (simp add: ex_received ex_frame_ok)
  obtain s' where s': "sd_step ex_config ?fr ex_engaged = Some s'" using sd_step_ok [OF ex_engaged_inv ok] by blast
  have "is_initialized s'" using sd_step_obtains(2) [OF ex_engaged_inv ok s'] by (simp add: ex_engaged_def)
  with hardware_fault_disengages [OF ex_engaged_inv _ ok s'] s'
  show "\<exists>s'. sd_step ex_config ?fr ex_engaged = Some s' \<and> \<not> is_enabled s'"
    by (simp add: ex_config_def ex_sd_frame_def ex_panda_def)
qed

theorem refused_control_disengages_witness:
  "\<forall>ctx. \<exists>n t. 1 \<le> n \<and> n \<le> 200 \<and> \<not> is_enabled t \<and>
     sd_run ex_config (take n (replicate 200 (ex_sd_frame ctx (ex_panda False False)))) ex_engaged = Some t"
proof
  fix ctx
  let ?frs = "replicate 200 (ex_sd_frame ctx (ex_panda False False))"
  have "fr_received (ex_sd_frame ctx (ex_panda False False)) \<and> control_refused (ex_sd_frame ctx (ex_panda False False))"
    by (simp add: ex_sd_frame_def control_refused_def ex_panda_def IGNORED_SAFETY_MODES_def)
  then have all: "\<forall>fr \<in> set ?frs. fr_received fr \<and> frame_ok fr \<and> control_refused fr" by (simp add: ex_frame_ok)
  have "\<not> REPLAY ex_config" "\<not> c_passive ex_config" "is_initialized ex_engaged" "is_enabled ex_engaged" "mismatch_counter ex_engaged < 200"
    by (simp_all add: ex_config_def ex_engaged_def ex_sd_def sd_init_def Let_def)
  from refused_control_disengages [OF this(1,2) ex_engaged_inv this(3-5) all]
  show "\<exists>n t. 1 \<le> n \<and> n \<le> 200 \<and> \<not> is_enabled t \<and> sd_run ex_config (take n ?frs) ex_engaged = Some t" by auto
qed

definition ex_ready :: selfdrived where
  "ex_ready = ex_sd\<lparr>is_initialized := True, startup_event := None\<rparr>"

lemma ex_ready_inv: "sd_inv ex_config ex_ready"
  using sd_init_inv [of ex_config] by (simp add: sd_inv_def ex_ready_def stores_fine_def ex_sd_def)

lemmas ex_frame_defs = ex_config_def ex_sd_frame_def ex_panda_def ex_car_def ex_flags_def cs_default_def

lemma ex_ready_data: "data_sample ex_config (ex_sd_frame ctx (ex_panda True False)) ex_ready = ex_ready"
  by (simp add: data_sample_def ex_frame_defs ex_ready_def ex_sd_def sd_init_def Let_def)

lemma add_events_quiet: "list_all (\<lambda>ce. \<not> fst ce) ces \<Longrightarrow> add_events ces s = s"
proof -
  assume "list_all (\<lambda>ce. \<not> fst ce) ces"
  then have "add_listed ces ev = ev" for ev
    by (induction ces arbitrary: ev) (auto simp: add_if_def)
  then show ?thesis by (simp add: add_events_def)
qed

abbreviation (input) ex_fr :: "alert_ctx \<Rightarrow> sd_frame" where "ex_fr ctx \<equiv> ex_sd_frame ctx (ex_panda True False)"

lemma ex_monitoring: "monitoring_events ex_config (ex_fr ctx) (resume_events ex_config (ex_fr ctx) s) = s"
  if "dm_lockout_set s = False"
  using that by (simp add: monitoring_events_def resume_events_def lockout_param_def driver_alert_def ex_frame_defs add_events_quiet Let_def)

lemma ex_watch: "watch_events ex_config (ex_fr ctx) s = s\<lparr>last_functional_fan_frame := 700\<rparr>"
  if "excessive_actuation s = False" "mismatch_counter s = 0" "is_ldw_enabled s = False"
  using that by (simp add: watch_events_def panda_events_def safety_mismatch_def lane_change_events_def actuation_events_def ldw_events_def
      calibration_events_def device_events_def ex_frame_defs add_events_quiet Let_def)

lemma ex_fault: "fault_events ex_config (ex_fr ctx) s = s\<lparr>cruise_mismatch_counter := 1\<rparr>"
  if "big_model_active s = False" "is_enabled s = False" "cruise_mismatch_counter s = 0"
  using that by (simp add: fault_events_def malfunction_events_def process_events_def radar_events_def can_events_def comm_events_def
      localization_events_def cruise_mismatch_events_def ex_frame_defs add_events_quiet py_int_def Let_def)

lemma ex_late: "sd_events (late_events ex_config (ex_fr ctx) s) = sd_events s" if "is_enabled s = False"
  using that by (simp add: late_events_def gps_events_def fcw_events_def ex_frame_defs add_events_quiet Let_def)

lemma ex_finish: "sd_events (button_management ex_config (ex_fr ctx) (personality_events ex_config (ex_fr ctx)
    (helper_events ex_config (ex_fr ctx) s))) = sd_events s"
  by (simp add: button_management_def personality_events_def helper_events_def cruise_helper_update_def ex_frame_defs split: prod.split)

lemma ex_car_events: "\<exists>ce. car_events_update False (c_car ex_config) (car_sample_of (ex_fr ctx) ex_ready) (sd_car_events ex_ready) =
    (ce, ev_add EN_pcmEnable (Events_init False))"
  by (simp add: car_events_update_def create_common_events_def plain_events_def cancel_events_def steer_fault_events_def pcm_events_def
      car_sample_of_def ex_frame_defs ex_ready_def ex_sd_def sd_init_def add_if_def Let_def)

lemma ex_start: "start_events (ex_fr ctx) ex_ready = cleared ex_ready"
  by (simp add: start_events_def startup_events_def big_model_events_def ex_frame_defs cleared_def ex_ready_def ex_sd_def sd_init_def
      add_events_quiet Let_def)

lemma ex_cleared_simps:
  "is_initialized (cleared ex_ready)" "dm_lockout_set (cleared ex_ready) = False" "is_enabled (cleared ex_ready) = False"
  "excessive_actuation (cleared ex_ready) = False" "mismatch_counter (cleared ex_ready) = 0" "is_ldw_enabled (cleared ex_ready) = False"
  "big_model_active (cleared ex_ready) = False" "cruise_mismatch_counter (cleared ex_ready) = 0"
  "sd_events (cleared ex_ready) = ev_clear (Events_init False)" "pedal_event (ex_fr ctx) (cleared ex_ready) = False"
  "sd_car_events (cleared ex_ready) = sd_car_events ex_ready"
  "car_sample_of (ex_fr ctx) (cleared ex_ready) = car_sample_of (ex_fr ctx) ex_ready"
  by (simp_all add: cleared_def ex_ready_def ex_sd_def sd_init_def ex_sd_params_def ex_frame_defs pedal_event_def car_sample_of_def Let_def)

lemma ex_config_simps: "c_passive ex_config = False" "c_notCar ex_config = False" "c_mici ex_config = False" "REPLAY ex_config = False"
    "ce_brand (c_car ex_config) = ''subaru''"
  by (simp_all add: ex_config_def)

lemma ex_fr_simps: "canValid (fr_CS (ex_fr ctx))" "fr_userBookmark (ex_fr ctx) = False" "gearShifter (fr_CS (ex_fr ctx)) = Gear_drive"
    "fr_lac_active (ex_fr ctx) = False" "steeringPressed (fr_CS (ex_fr ctx)) = False"
  by (simp_all add: ex_frame_defs)

lemma ex_car_state: "\<exists>r. driver_and_car_events ex_config (ex_fr ctx) (cleared ex_ready) = Some r \<and>
    ev_events (sd_events r) = [EN_pcmEnable] \<and> is_enabled r = False \<and> excessive_actuation r = False \<and> mismatch_counter r = 0 \<and>
    is_ldw_enabled r = False \<and> big_model_active r = False \<and> cruise_mismatch_counter r = 0"
proof -
  obtain ce where ce: "car_events_update False (c_car ex_config) (car_sample_of (ex_fr ctx) ex_ready) (sd_car_events ex_ready) =
      (ce, ev_add EN_pcmEnable (Events_init False))" using ex_car_events by blast
  show ?thesis
    using ex_monitoring [of "cleared ex_ready" ctx]
    by (simp add: driver_and_car_events_def car_state_events_def ex_cleared_simps ex_config_simps ex_fr_simps ce car_specific_sp_def
        pedal_event_fields add_events_quiet Let_def Events_init_def ev_init_def ev_add_def ev_clear_def)
qed

lemma ex_events: "\<exists>u. update_events ex_config (ex_fr ctx) ex_ready = Some u \<and> ev_events (sd_events u) = [EN_pcmEnable]"
proof -
  from ex_car_state obtain r where r: "driver_and_car_events ex_config (ex_fr ctx) (cleared ex_ready) = Some r"
    "ev_events (sd_events r) = [EN_pcmEnable]" "is_enabled r = False" "excessive_actuation r = False" "mismatch_counter r = 0"
    "is_ldw_enabled r = False" "big_model_active r = False" "cruise_mismatch_counter r = 0" by blast
  let ?f = "r\<lparr>last_functional_fan_frame := 700, cruise_mismatch_counter := 1\<rparr>"
  have sat: "saturation_events ex_config (ex_fr ctx) (fault_events ex_config (ex_fr ctx) (watch_events ex_config (ex_fr ctx) r)) = Some ?f"
    using r by (simp add: ex_watch ex_fault saturation_events_def ex_fr_simps)
  have mute: "mute_can_event (ex_fr ctx) (late_events ex_config (ex_fr ctx) ?f) = Some (late_events ex_config (ex_fr ctx) ?f)"
    by (simp add: mute_can_event_def ex_fr_simps)
  have "sd_events (late_events ex_config (ex_fr ctx) ?f) = sd_events r" using r(3) by (simp add: ex_late)
  with r(1,2) sat mute have "\<exists>u. running_events ex_config (ex_fr ctx) (cleared ex_ready) = Some u \<and> ev_events (sd_events u) = [EN_pcmEnable]"
    by (simp add: running_events_def ex_finish)
  then show ?thesis
    by (simp add: update_events_def ex_start ex_cleared_simps ex_config_simps ex_fr_simps add_events_quiet Let_def)
qed

lemma pcmEnable_types: "mapping_types (EVENTS mici) EN_pcmEnable = [ENABLE]"
proof -
  have "list_all (\<lambda>(e, ts). e = EN_pcmEnable \<longrightarrow> ts = [ENABLE]) (table_types (EVENTS_list mici))"
    by (simp add: EVENTS_list_def EVENTS_defs)
  from mapping_types_key [OF this, of EN_pcmEnable] show ?thesis
    by (simp add: EVENTS_def EVENTS_list_keys EVENTS_keys_iff)
qed

theorem engages_only_when_permitted_witness:
  "\<forall>ctx. \<exists>s'. sd_step ex_config (ex_fr ctx) ex_ready = Some s' \<and> is_enabled s' \<and> is_initialized s' \<and>
     device_permits ex_config (ex_fr ctx) ex_ready"
proof
  fix ctx
  let ?fr = "ex_fr ctx"
  have ok: "frame_ok (with_car_state ?fr ex_ready)" by (simp add: ex_received ex_frame_ok)
  from sd_step_ok [OF ex_ready_inv ok, unfolded ex_received ex_ready_data] obtain u s' where
    s': "sd_step ex_config ?fr ex_ready = Some s'" "update_events ex_config ?fr ex_ready = Some u"
    "is_enabled s' = is_enabled (machine_step ex_config u)" "machines u = machines ex_ready" by blast
  from ex_events s'(2) have u: "ev_events (sd_events u) = [EN_pcmEnable]" by (metis option.inject)
  have "ss_state (sd_machine u) = Op_disabled" "is_initialized u"
    using machines_simps(4,5) [OF s'(4)] by (simp_all add: ex_ready_def ex_sd_def sd_init_def ss_init_def Let_def)
  then have "is_enabled s'"
    using s'(3) machine_step_enabled [of u ex_config]
    by (simp add: ex_config_simps ss_step_defs ev_contains_def u pcmEnable_types)
  moreover have "\<not> is_enabled ex_ready" "\<not> REPLAY ex_config"
    by (simp_all add: ex_ready_def ex_sd_def sd_init_def ex_config_simps Let_def)
  note all = engages_only_when_permitted [OF ex_ready_inv this(2) ok s'(1) this(1) \<open>is_enabled s'\<close>]
  moreover from all have "is_initialized s'" by (rule conjunct1)
  moreover from all have "device_permits ex_config ?fr ex_ready" unfolding ex_received by (elim conjE)
  ultimately show "\<exists>s'. sd_step ex_config ?fr ex_ready = Some s' \<and> is_enabled s' \<and> is_initialized s' \<and>
      device_permits ex_config ?fr ex_ready"
    using s'(1) by (intro exI [of _ s'] conjI)
qed

end
