(* ===== verification/Dec.thy ===== *)
theory Dec
  imports CarState
begin

text \<open>
  Dynamic experimental control, \<^verbatim>\<open>sunnypilot/selfdrive/controls/lib/dec/dec.py\<close>: the filter of its
  measurements, the manager that changes between the two longitudinal modes, and the decisions of a
  frame. The crash counter comes from the planner's solver, which is generated code: it is an input.
  The fields for debugging (\<open>_endpoint_x\<close>, \<open>_expected_distance\<close>, \<open>_trajectory_valid\<close>) and the
  history of a filter, which nothing reads, are left out.
\<close>

section \<open>The filter\<close>

record smooth_filter =
  sf_x :: real
  sf_P :: real
  sf_R :: real
  sf_Q :: real
  sf_alpha :: real
  sf_smoothing :: real
  sf_initialized :: bool
  sf_confidence :: real

definition SmoothKalmanFilter :: "real \<Rightarrow> real \<Rightarrow> real \<Rightarrow> real \<Rightarrow> smooth_filter" where
  \<comment> \<open>measurement noise, process noise, alpha and smoothing factor\<close>
  "SmoothKalmanFilter measurement_noise process_noise alpha smoothing =
     \<lparr>sf_x = 0, sf_P = 1, sf_R = measurement_noise, sf_Q = process_noise, sf_alpha = alpha, sf_smoothing = smoothing,
      sf_initialized = False, sf_confidence = 0\<rparr>"

definition sf_add_data :: "real \<Rightarrow> smooth_filter \<Rightarrow> smooth_filter" where
  "sf_add_data measurement f =
     (if \<not> sf_initialized f then f\<lparr>sf_x := measurement, sf_initialized := True, sf_confidence := 1 / 10\<rparr>
      else let P = sf_alpha f * sf_P f + sf_Q f;
               K = P / (P + sf_R f);
               effective_K = K * (1 - sf_smoothing f) + sf_smoothing f * (1 / 10);
               innovation = measurement - sf_x f
           in f\<lparr>sf_x := sf_x f + effective_K * innovation, sf_P := (1 - effective_K) * P,
                sf_confidence := (if \<bar>innovation\<bar> < 1 / 10 then min 1 (sf_confidence f + 5 / 100)
                                  else max (1 / 10) (sf_confidence f - 2 / 100))\<rparr>)"

definition sf_get_value :: "smooth_filter \<Rightarrow> real option" where
  "sf_get_value f = (if sf_initialized f then Some (sf_x f) else None)"

definition sf_value :: "smooth_filter \<Rightarrow> real" where
  \<comment> \<open>\<open>get_value() or 0.0\<close>\<close>
  "sf_value f = (case sf_get_value f of None \<Rightarrow> 0 | Some x \<Rightarrow> x)"

section \<open>The mode manager\<close>

datatype dec_mode = Mode_acc | Mode_blended

abbreviation (input) SET_MODE_TIMEOUT :: int where "SET_MODE_TIMEOUT \<equiv> 15"

record mode_manager =
  current_mode :: dec_mode
  mode_confidence :: "dec_mode \<Rightarrow> real"
  transition_timeout :: int
  min_mode_duration :: int
  mode_duration :: int
  emergency_override :: bool

definition ModeTransitionManager :: mode_manager where
  "ModeTransitionManager =
     \<lparr>current_mode = Mode_acc, mode_confidence = (\<lambda>m. case m of Mode_acc \<Rightarrow> 1 | Mode_blended \<Rightarrow> 0),
      transition_timeout = 0, min_mode_duration = 10, mode_duration = 0, emergency_override = False\<rparr>"

definition raise_confidence :: "dec_mode \<Rightarrow> real \<Rightarrow> (dec_mode \<Rightarrow> real) \<Rightarrow> dec_mode \<Rightarrow> real" where
  "raise_confidence mode confidence mc =
     (\<lambda>m. if m = mode then min 1 (mc m + 1 / 10 * confidence) else max 0 (mc m - 5 / 100))"

definition request_mode :: "dec_mode \<Rightarrow> real \<Rightarrow> bool \<Rightarrow> mode_manager \<Rightarrow> mode_manager" where
  "request_mode mode confidence emergency g =
     (if emergency
      then g\<lparr>emergency_override := True, current_mode := mode, transition_timeout := SET_MODE_TIMEOUT, mode_duration := 0\<rparr>
      else let g = g\<lparr>mode_confidence := raise_confidence mode confidence (mode_confidence g)\<rparr>
           in if mode_duration g < min_mode_duration g \<and> \<not> emergency_override g then g
              else let threshold = (if mode \<noteq> current_mode g then 6 / 10 else 3 / 10)
                   in if mode_confidence g mode > threshold \<and> mode \<noteq> current_mode g \<and> transition_timeout g = 0
                      then g\<lparr>transition_timeout := SET_MODE_TIMEOUT, current_mode := mode, mode_duration := 0\<rparr>
                      else g)"

definition manager_update :: "mode_manager \<Rightarrow> mode_manager" where
  "manager_update g =
     g\<lparr>transition_timeout := (if transition_timeout g > 0 then transition_timeout g - 1 else transition_timeout g),
       mode_duration := mode_duration g + 1,
       emergency_override := emergency_override g \<and> \<not> mode_duration g + 1 > 20,
       mode_confidence := (\<lambda>m. mode_confidence g m * (98 / 100))\<rparr>"

section \<open>The controller\<close>

abbreviation (input) TRAJECTORY_SIZE :: nat where "TRAJECTORY_SIZE \<equiv> 33"
abbreviation (input) LEAD_PROB :: real where "LEAD_PROB \<equiv> 45 / 100"
abbreviation (input) SLOW_DOWN_PROB :: real where "SLOW_DOWN_PROB \<equiv> 3 / 10"
abbreviation (input) SLOWNESS_PROB :: real where "SLOWNESS_PROB \<equiv> 55 / 100"
abbreviation (input) SLOWNESS_CRUISE_OFFSET :: real where "SLOWNESS_CRUISE_OFFSET \<equiv> 1025 / 1000"

definition SLOW_DOWN_TABLE :: "(real \<times> real) list" where
  \<comment> \<open>\<open>SLOW_DOWN_BP\<close> and \<open>SLOW_DOWN_DIST\<close>\<close>
  "SLOW_DOWN_TABLE = [(0, 32), (10, 46), (20, 64), (30, 86), (40, 108), (50, 130), (55, 145), (60, 165)]"

record dec =
  dec_enabled :: bool
  dec_active :: bool
  dec_frame :: int
  dec_urgency :: real
  mode_mgr :: mode_manager
  lead_filter :: smooth_filter
  slow_down_filter :: smooth_filter
  slowness_filter :: smooth_filter
  mpc_fcw_filter :: smooth_filter
  has_lead_filtered :: bool
  has_slow_down :: bool
  has_slowness :: bool
  has_mpc_fcw :: bool
  dec_v_ego_kph :: real
  dec_v_cruise_kph :: real
  has_standstill :: bool
  mpc_fcw_crash_cnt :: real
  standstill_count :: int

definition dec_init :: "bool \<Rightarrow> dec" where
  \<comment> \<open>the parameter \<open>DynamicExperimentalControl\<close>\<close>
  "dec_init param =
     \<lparr>dec_enabled = param, dec_active = False, dec_frame = 0, dec_urgency = 0, mode_mgr = ModeTransitionManager,
      lead_filter = SmoothKalmanFilter (15 / 100) (5 / 100) (102 / 100) (8 / 10),
      slow_down_filter = SmoothKalmanFilter (1 / 10) (1 / 10) (105 / 100) (7 / 10),
      slowness_filter = SmoothKalmanFilter (1 / 10) (6 / 100) (1015 / 1000) (92 / 100),
      mpc_fcw_filter = SmoothKalmanFilter (2 / 10) (1 / 10) (11 / 10) (5 / 10),
      has_lead_filtered = False, has_slow_down = False, has_slowness = False, has_mpc_fcw = False,
      dec_v_ego_kph = 0, dec_v_cruise_kph = 0, has_standstill = False, mpc_fcw_crash_cnt = 0, standstill_count = 0\<rparr>"

record dec_input =
  dn_param :: bool
  dn_crash_cnt :: real
  dn_CS :: car_state
  dn_lead_present :: bool
  dn_position_x :: "real list"
  dn_orientation_len :: nat
  dn_radarUnavailable :: bool
  dn_experimentalMode :: bool

definition of_bool_real :: "bool \<Rightarrow> real" where "of_bool_real b = (if b then 1 else 0)"

definition trajectory_urgency :: "real \<Rightarrow> real \<Rightarrow> real" where
  \<comment> \<open>speed in km/h and the end of the trajectory\<close>
  "trajectory_urgency v_kph endpoint_x =
     (let expected = np_interp v_kph SLOW_DOWN_TABLE
      in if endpoint_x < expected
         then let u = min 1 ((expected - endpoint_x) / expected * 2);
                  u = (if endpoint_x < expected * (3 / 10) then min 1 (u * 2) else u)
              in if v_kph > 25 then min 1 (u * (1 + (v_kph - 25) / 80)) else u
         else 0)"

definition calculate_slow_down :: "dec_input \<Rightarrow> dec \<Rightarrow> dec" where
  "calculate_slow_down i d =
     (if \<not> (length (dn_position_x i) = TRAJECTORY_SIZE \<and> dn_orientation_len i = TRAJECTORY_SIZE)
      then let f = sf_add_data (if dec_v_ego_kph d > 20 then 3 / 10 else 0) (slow_down_filter d)
           in d\<lparr>slow_down_filter := f, has_slow_down := sf_value f > SLOW_DOWN_PROB, dec_urgency := sf_value f\<rparr>
      else let f = sf_add_data (trajectory_urgency (dec_v_ego_kph d) (dn_position_x i ! (TRAJECTORY_SIZE - 1))) (slow_down_filter d)
           in d\<lparr>slow_down_filter := f, has_slow_down := sf_value f > SLOW_DOWN_PROB * (8 / 10), dec_urgency := sf_value f\<rparr>)"

definition dec_update_calculations :: "dec_input \<Rightarrow> dec \<Rightarrow> dec" where
  "dec_update_calculations i d =
     (let cs = dn_CS i;
          lead = sf_add_data (of_bool_real (dn_lead_present i)) (lead_filter d);
          d = d\<lparr>dec_v_ego_kph := vEgo cs * (36 / 10), dec_v_cruise_kph := vCruise cs, has_standstill := standstill cs,
                standstill_count := (if standstill cs then min 20 (standstill_count d + 1) else max 0 (standstill_count d - 1)),
                lead_filter := lead, has_lead_filtered := sf_value lead > LEAD_PROB,
                has_mpc_fcw := sf_value (mpc_fcw_filter d) > 5 / 10,
                mpc_fcw_filter := sf_add_data (of_bool_real (mpc_fcw_crash_cnt d > 0)) (mpc_fcw_filter d)\<rparr>;
          d = calculate_slow_down i d
      in if \<not> standstill_count d > 5 \<and> \<not> has_slow_down d
         then let f = sf_add_data (of_bool_real (dec_v_ego_kph d \<le> dec_v_cruise_kph d * SLOWNESS_CRUISE_OFFSET)) (slowness_filter d)
              in d\<lparr>slowness_filter := f,
                   has_slowness := sf_value f > SLOWNESS_PROB * (if has_slowness d then 8 / 10 else 11 / 10)\<rparr>
         else d)"

record mode_request =
  rq_mode :: dec_mode
  rq_confidence :: real
  rq_emergency :: bool

definition ask :: "dec_mode \<Rightarrow> real \<Rightarrow> bool \<Rightarrow> mode_request" where
  "ask m c e = \<lparr>rq_mode = m, rq_confidence = c, rq_emergency = e\<rparr>"

definition radarless_request :: "dec \<Rightarrow> mode_request" where
  "radarless_request d =
     (if has_mpc_fcw d then ask Mode_blended 1 True
      else if standstill_count d > 3 then ask Mode_blended (9 / 10) False
      else if has_slow_down d then
        if dec_urgency d > 7 / 10 then ask Mode_blended 1 True else ask Mode_blended (min 1 (dec_urgency d * (15 / 10))) False
      else if has_slowness d \<and> \<not> has_slow_down d then ask Mode_acc (8 / 10) False
      else ask Mode_acc (7 / 10) False)"

definition radar_request :: "dec \<Rightarrow> mode_request" where
  "radar_request d =
     (if has_mpc_fcw d then ask Mode_blended 1 True
      else if has_lead_filtered d \<and> \<not> standstill_count d > 3 then ask Mode_acc 1 False
      else if has_slow_down d then
        if dec_urgency d > 7 / 10 then ask Mode_blended 1 True else ask Mode_blended (min 1 (dec_urgency d * (13 / 10))) False
      else if standstill_count d > 3 then ask Mode_blended (9 / 10) False
      else if has_slowness d \<and> \<not> has_slow_down d then ask Mode_acc (8 / 10) False
      else ask Mode_acc (7 / 10) False)"

definition dec_request :: "dec_input \<Rightarrow> dec \<Rightarrow> mode_request" where
  \<comment> \<open>what \<open>_radarless_mode\<close> or \<open>_radar_mode\<close> asks of the manager\<close>
  "dec_request i d = (if dn_radarUnavailable i then radarless_request d else radar_request d)"

definition serve :: "mode_request \<Rightarrow> mode_manager \<Rightarrow> mode_manager" where
  "serve r g = request_mode (rq_mode r) (rq_confidence r) (rq_emergency r) g"

definition dec_see :: "dec_input \<Rightarrow> dec \<Rightarrow> dec" where
  \<comment> \<open>\<open>_read_params\<close>, \<open>set_mpc_fcw_crash_cnt\<close> and \<open>_update_calculations\<close>\<close>
  "dec_see i d =
     (let d = (if dec_frame d mod 20 = 0 then d\<lparr>dec_enabled := dn_param i\<rparr> else d)
      in dec_update_calculations i (d\<lparr>mpc_fcw_crash_cnt := dn_crash_cnt i\<rparr>))"

definition dec_update :: "dec_input \<Rightarrow> dec \<Rightarrow> dec" where
  "dec_update i d =
     (let d = dec_see i d;
          g = serve (dec_request i d) (mode_mgr d)
      in d\<lparr>mode_mgr := manager_update g, dec_active := dn_experimentalMode i \<and> dec_enabled d, dec_frame := dec_frame d + 1\<rparr>)"

definition dec_mode_of :: "dec \<Rightarrow> dec_mode" where
  \<comment> \<open>\<open>mode()\<close>\<close>
  "dec_mode_of d = current_mode (mode_mgr d)"

end
