(* ===== verification/DecFacts.thy ===== *)
theory DecFacts
  imports Dec
begin

text \<open>
  What dynamic experimental control promises: its estimates and confidences stay between zero and
  one, it does not flicker between the modes, and a standing car is handed to the model in time.
\<close>

section \<open>Bounds\<close>

definition unit_interval :: "real \<Rightarrow> bool" where "unit_interval x \<longleftrightarrow> 0 \<le> x \<and> x \<le> 1"

definition filter_ok :: "smooth_filter \<Rightarrow> bool" where
  "filter_ok f \<longleftrightarrow> unit_interval (sf_x f) \<and> 0 < sf_P f \<and> 0 < sf_R f \<and> 0 \<le> sf_Q f \<and> 0 < sf_alpha f \<and>
     unit_interval (sf_smoothing f)"

lemma effective_gain:
  assumes "0 < P" "0 < R" "0 \<le> s" "s \<le> (1 :: real)"
  shows "0 \<le> P / (P + R) * (1 - s) + s * (1 / 10)" "P / (P + R) * (1 - s) + s * (1 / 10) < 1"
proof -
  define K where "K = P / (P + R)"
  have K: "0 < K" "K < 1" using assms by (simp_all add: K_def)
  show "0 \<le> P / (P + R) * (1 - s) + s * (1 / 10)" using K assms unfolding K_def [symmetric] by simp
  have less: "K * (1 - s) < 1 * (1 - s)" if "s < 1" using K that by (intro mult_strict_right_mono) simp_all
  have "s = 1 \<or> K * (1 - s) < 1 - s"
  proof (cases "s = 1")
    case False
    with assms(4) less show ?thesis by (metis less_eq_real_def mult_1)
  qed simp
  moreover have "K * (1 - s) = 0" if "s = 1" using that by simp
  ultimately show "P / (P + R) * (1 - s) + s * (1 / 10) < 1"
    using assms(3) unfolding K_def [symmetric] by linarith
qed

lemma between_step:
  assumes "unit_interval x" "unit_interval m" "0 \<le> k" "k \<le> 1"
  shows "unit_interval (x + k * (m - x))"
proof -
  have "x + k * (m - x) = (1 - k) * x + k * m" by (simp add: algebra_simps)
  moreover have "0 \<le> (1 - k) * x + k * m" using assms by (simp add: unit_interval_def)
  moreover have "(1 - k) * x + k * m \<le> (1 - k) * 1 + k * 1"
    using assms by (intro add_mono mult_left_mono) (auto simp: unit_interval_def)
  ultimately show ?thesis by (simp add: unit_interval_def)
qed

lemma filter_ok_add:
  assumes "filter_ok f" "unit_interval m" shows "filter_ok (sf_add_data m f)"
proof (cases "sf_initialized f")
  case True
  let ?P = "sf_alpha f * sf_P f + sf_Q f"
  have P: "0 < ?P" using assms(1) by (auto simp: filter_ok_def intro: add_pos_nonneg)
  from assms(1) have R: "0 < sf_R f" "0 \<le> sf_smoothing f" "sf_smoothing f \<le> 1"
    by (simp_all add: filter_ok_def unit_interval_def)
  from effective_gain [OF P R] between_step [OF _ assms(2)] P True assms(1)
  show ?thesis by (auto simp: filter_ok_def sf_add_data_def Let_def)
qed (use assms in \<open>simp add: filter_ok_def sf_add_data_def\<close>)

lemma sf_value_unit: "filter_ok f \<Longrightarrow> unit_interval (sf_value f)"
  by (simp add: sf_value_def sf_get_value_def filter_ok_def unit_interval_def)

lemma of_bool_unit [simp]: "unit_interval (of_bool_real b)"
  by (simp add: of_bool_real_def unit_interval_def)

lemma expected_distance: "32 \<le> np_interp v SLOW_DOWN_TABLE"
  by (simp add: SLOW_DOWN_TABLE_def)

lemma trajectory_urgency_unit: "unit_interval (trajectory_urgency v e)"
proof -
  let ?d = "np_interp v SLOW_DOWN_TABLE"
  have d: "0 < ?d" using expected_distance [of v] by linarith
  have "0 \<le> (?d - e) / ?d * 2" if "e < ?d" using that d by simp
  moreover have "0 \<le> min 1 (u * w) \<and> min 1 (u * w) \<le> 1" if "0 \<le> u" "0 \<le> w" for u w :: real
    using that by simp
  ultimately show ?thesis
    by (auto simp: trajectory_urgency_def Let_def unit_interval_def intro!: mult_nonneg_nonneg)
qed

definition manager_ok :: "mode_manager \<Rightarrow> bool" where
  "manager_ok g \<longleftrightarrow> (\<forall>m. unit_interval (mode_confidence g m)) \<and> 0 \<le> transition_timeout g \<and> transition_timeout g \<le> 15 \<and>
     min_mode_duration g = 10 \<and> 0 \<le> mode_duration g"

definition dec_ok :: "dec \<Rightarrow> bool" where
  "dec_ok d \<longleftrightarrow> filter_ok (lead_filter d) \<and> filter_ok (slow_down_filter d) \<and> filter_ok (slowness_filter d) \<and>
     filter_ok (mpc_fcw_filter d) \<and> manager_ok (mode_mgr d) \<and> 0 \<le> standstill_count d \<and> standstill_count d \<le> 20 \<and>
     unit_interval (dec_urgency d)"

lemma raise_confidence_unit:
  assumes "\<forall>m. unit_interval (mc m)" "unit_interval c" shows "unit_interval (raise_confidence mode c mc m)"
  using assms(1) [rule_format, of m] assms(2) by (auto simp: raise_confidence_def unit_interval_def)

lemma serve_ok: "manager_ok g \<Longrightarrow> unit_interval (rq_confidence r) \<Longrightarrow> manager_ok (serve r g)"
  by (auto simp: serve_def request_mode_def Let_def manager_ok_def raise_confidence_unit)

lemma decay_unit: "unit_interval x \<Longrightarrow> unit_interval (x * 49 / 50)"
  by (simp add: unit_interval_def)

lemma manager_update_ok: "manager_ok g \<Longrightarrow> manager_ok (manager_update g)"
  by (simp add: manager_ok_def manager_update_def decay_unit)

lemma request_confidence: "unit_interval (dec_urgency d) \<Longrightarrow> unit_interval (rq_confidence (dec_request i d))"
  by (auto simp: dec_request_def radarless_request_def radar_request_def ask_def unit_interval_def)

lemma unit_constants [simp]: "unit_interval 0" "unit_interval (3 / 10)" "unit_interval 1"
  by (simp_all add: unit_interval_def)

lemma slow_down_ok: "dec_ok d \<Longrightarrow> dec_ok (calculate_slow_down i d)"
  by (simp add: calculate_slow_down_def Let_def dec_ok_def filter_ok_add sf_value_unit trajectory_urgency_unit)

lemma dec_see_ok: "dec_ok d \<Longrightarrow> dec_ok (dec_see i d)"
proof -
  assume d: "dec_ok d"
  define e where "e = (if dec_frame d mod 20 = 0 then d\<lparr>dec_enabled := dn_param i\<rparr> else d)\<lparr>mpc_fcw_crash_cnt := dn_crash_cnt i\<rparr>"
  have e: "dec_ok e" using d by (simp add: e_def dec_ok_def)
  define m where "m = e\<lparr>dec_v_ego_kph := vEgo (dn_CS i) * (36 / 10), dec_v_cruise_kph := vCruise (dn_CS i), has_standstill := standstill (dn_CS i),
      standstill_count := (if standstill (dn_CS i) then min 20 (standstill_count e + 1) else max 0 (standstill_count e - 1)),
      lead_filter := sf_add_data (of_bool_real (dn_lead_present i)) (lead_filter e),
      has_lead_filtered := sf_value (sf_add_data (of_bool_real (dn_lead_present i)) (lead_filter e)) > LEAD_PROB,
      has_mpc_fcw := sf_value (mpc_fcw_filter e) > 5 / 10,
      mpc_fcw_filter := sf_add_data (of_bool_real (mpc_fcw_crash_cnt e > 0)) (mpc_fcw_filter e)\<rparr>"
  have "dec_ok m" using e by (auto simp: m_def dec_ok_def filter_ok_add)
  then have s: "dec_ok (calculate_slow_down i m)" by (rule slow_down_ok)
  have "dec_see i d = (if \<not> standstill_count (calculate_slow_down i m) > 5 \<and> \<not> has_slow_down (calculate_slow_down i m)
      then let f = sf_add_data (of_bool_real (dec_v_ego_kph (calculate_slow_down i m) \<le> dec_v_cruise_kph (calculate_slow_down i m) * SLOWNESS_CRUISE_OFFSET)) (slowness_filter (calculate_slow_down i m))
           in (calculate_slow_down i m)\<lparr>slowness_filter := f,
                has_slowness := sf_value f > SLOWNESS_PROB * (if has_slowness (calculate_slow_down i m) then 8 / 10 else 11 / 10)\<rparr>
      else calculate_slow_down i m)"
    unfolding dec_see_def dec_update_calculations_def m_def e_def Let_def ..
  with s show ?thesis by (simp add: dec_ok_def Let_def filter_ok_add)
qed

lemma dec_update_ok: "dec_ok d \<Longrightarrow> dec_ok (dec_update i d)"
  using dec_see_ok [of d i]
  by (simp add: dec_update_def Let_def dec_ok_def manager_update_ok serve_ok request_confidence)

definition dec_run :: "dec_input list \<Rightarrow> dec \<Rightarrow> dec" where
  "dec_run is d = foldl (\<lambda>d i. dec_update i d) d is"

lemma dec_run_simps [simp]:
  "dec_run [] d = d" "dec_run (i # is) d = dec_run is (dec_update i d)" "dec_run (is @ [i]) d = dec_update i (dec_run is d)"
  by (simp_all add: dec_run_def)

lemma dec_run_append: "dec_run (xs @ ys) d = dec_run ys (dec_run xs d)"
  by (simp add: dec_run_def)

lemma dec_run_ok: "dec_ok d \<Longrightarrow> dec_ok (dec_run is d)"
  by (induction "is" arbitrary: d) (simp_all add: dec_update_ok)

lemma dec_init_ok: "dec_ok (dec_init p)"
  by (simp add: dec_ok_def dec_init_def filter_ok_def unit_interval_def SmoothKalmanFilter_def manager_ok_def
      ModeTransitionManager_def split: dec_mode.split)

text \<open>
  The estimates stay estimates: whatever the frames bring, the urgency and both mode confidences
  stay between zero and one, every filter keeps a positive covariance and a value between zero and
  one, and the counters of standing frames and of the dwell time stay in their ranges.
\<close>
theorem estimates_stay_in_range: "dec_ok (dec_run is (dec_init p))"
  by (rule dec_run_ok [OF dec_init_ok])

section \<open>Dwell time\<close>

definition dec_asks :: "dec_input list \<Rightarrow> dec \<Rightarrow> nat \<Rightarrow> mode_request" where
  \<comment> \<open>what frame \<open>k\<close> of a run asks of the manager\<close>
  "dec_asks is d k = (let e = dec_run (take k is) d in dec_request (is ! k) (dec_see (is ! k) e))"

definition mode_at :: "dec_input list \<Rightarrow> dec \<Rightarrow> nat \<Rightarrow> dec_mode" where
  \<comment> \<open>the mode before frame \<open>k\<close>\<close>
  "mode_at is d k = dec_mode_of (dec_run (take k is) d)"

definition mode_events :: "dec_input list \<Rightarrow> dec \<Rightarrow> (nat \<times> bool) list" where
  \<comment> \<open>the frames that change the mode or ask for it as an emergency, each with whether it is one\<close>
  "mode_events is d =
     map (\<lambda>k. (k, rq_emergency (dec_asks is d k)))
       (filter (\<lambda>k. rq_emergency (dec_asks is d k) \<or> mode_at is d (Suc k) \<noteq> mode_at is d k) [0..<length is])"

lemma dec_update_manager:
  "mode_mgr (dec_update i d) = manager_update (serve (dec_request i (dec_see i d)) (mode_mgr (dec_see i d)))"
  by (simp add: dec_update_def Let_def)

lemma dec_see_manager [simp]: "mode_mgr (dec_see i d) = mode_mgr d"
  by (simp add: dec_see_def dec_update_calculations_def calculate_slow_down_def Let_def)

lemma timeout_after_event:
  assumes "rq_emergency r \<or> current_mode (serve r g) \<noteq> current_mode g"
  shows "transition_timeout (serve r g) = 15"
  using assms by (auto simp: serve_def request_mode_def Let_def split: if_splits)

lemma timeout_kept: "transition_timeout (serve r g) = transition_timeout g \<or> transition_timeout (serve r g) = 15"
  by (simp add: serve_def request_mode_def Let_def)

lemma quiet_change_needs_timeout:
  assumes "\<not> rq_emergency r" "current_mode (serve r g) \<noteq> current_mode g"
  shows "transition_timeout g = 0"
  using assms by (auto simp: serve_def request_mode_def Let_def split: if_splits)

lemma timeout_runs:
  assumes "t \<le> transition_timeout (mode_mgr d)" "t \<le> 14"
  shows "t - int (length is) \<le> transition_timeout (mode_mgr (dec_run is d))"
proof (induction "is" rule: rev_induct)
  case (snoc i "is")
  with timeout_kept [of "dec_request i (dec_see i (dec_run is d))" "mode_mgr (dec_run is d)"] assms(2)
  show ?case by (auto simp: dec_update_manager manager_update_def)
qed (use assms in simp)

lemma event_gap:
  assumes "j < k" "k < length is"
    and j: "rq_emergency (dec_asks is d j) \<or> mode_at is d (Suc j) \<noteq> mode_at is d j"
    and k: "\<not> rq_emergency (dec_asks is d k)" "mode_at is d (Suc k) \<noteq> mode_at is d k"
  shows "j + 15 \<le> k"
proof -
  let ?a = "dec_run (take j is) d" and ?c = "dec_run (take k is) d"
  have step: "dec_run (take (Suc n) is) d = dec_update (is ! n) (dec_run (take n is) d)" if "n < length is" for n
    using that by (simp add: take_Suc_conv_app_nth)
  have split: "take k is = take (Suc j) is @ drop (Suc j) (take k is)"
    using append_take_drop_id [of "Suc j" "take k is"] assms(1) by (simp add: min_def)
  have mode: "current_mode (manager_update g) = current_mode g" for g by (simp add: manager_update_def)
  have "transition_timeout (serve (dec_asks is d j) (mode_mgr ?a)) = 15"
    using j assms(1,2) by (intro timeout_after_event) (simp add: mode_at_def step dec_mode_of_def dec_update_manager mode dec_asks_def)
  then have "14 \<le> transition_timeout (mode_mgr (dec_run (take (Suc j) is) d))"
    using assms(1,2) by (simp add: step dec_update_manager manager_update_def dec_asks_def)
  from timeout_runs [OF this order.refl, of "drop (Suc j) (take k is)"]
  have "14 - int (k - Suc j) \<le> transition_timeout (mode_mgr ?c)"
    using assms(1,2) split by (simp add: min_def flip: dec_run_append)
  moreover have "transition_timeout (mode_mgr ?c) = 0"
    using k assms(2) by (intro quiet_change_needs_timeout [of "dec_asks is d k"])
      (simp_all add: mode_at_def step dec_mode_of_def dec_update_manager mode dec_asks_def)
  ultimately show ?thesis using assms(1) by linarith
qed

lemma sorted_wrt_filter_upt:
  assumes "\<And>j k. j < k \<Longrightarrow> k < n \<Longrightarrow> Q j \<Longrightarrow> Q k \<Longrightarrow> R (f j) (f k)"
  shows "sorted_wrt R (map f (filter Q [0..<n]))"
  using assms by (induction n) (auto simp: sorted_wrt_append less_Suc_eq)

text \<open>
  The modes do not flicker: once a frame has changed the longitudinal mode, or has asked for a
  mode as an emergency, every later change that is not itself an emergency comes at least fifteen
  frames after it.
\<close>
theorem modes_do_not_flicker:
  "sorted_wrt (\<lambda>(j, _) (k, emergency). emergency \<or> j + 15 \<le> k) (mode_events is (dec_init p))"
  unfolding mode_events_def using event_gap [of _ _ "is" "dec_init p"] by (intro sorted_wrt_filter_upt) auto

section \<open>A standing car\<close>

lemma see_standing: "standstill (dn_CS i) \<Longrightarrow> standstill_count (dec_see i d) = min 20 (standstill_count d + 1)"
  by (simp add: dec_see_def dec_update_calculations_def calculate_slow_down_def Let_def)

lemma see_slow_down: "has_slow_down (dec_see i d) \<Longrightarrow> 24 / 100 < dec_urgency (dec_see i d)"
  by (auto simp: dec_see_def dec_update_calculations_def calculate_slow_down_def Let_def split: if_splits)

lemma update_count [simp]: "standstill_count (dec_update i d) = standstill_count (dec_see i d)"
  by (simp add: dec_update_def Let_def)

lemma standing_request:
  assumes "standstill (dn_CS i)" "3 \<le> standstill_count d"
  shows "rq_mode (dec_request i (dec_see i d)) = Mode_blended" "3 / 10 \<le> rq_confidence (dec_request i (dec_see i d))"
  using see_standing [OF assms(1), of d] see_slow_down [of i d] assms(2)
  by (auto simp: dec_request_def radarless_request_def radar_request_def ask_def)

definition approaching :: "nat \<Rightarrow> mode_manager \<Rightarrow> bool" where
  \<comment> \<open>blended already, or \<open>n\<close> requests on the way there\<close>
  "approaching n g \<longleftrightarrow> current_mode g = Mode_blended \<or>
     min (9 / 10) (147 / 100 * (1 - (98 / 100) ^ n)) \<le> mode_confidence g Mode_blended \<and>
     transition_timeout g \<le> max 0 (15 - int n) \<and> int n \<le> mode_duration g"

lemma approach_step:
  assumes "approaching n g" "manager_ok g" "rq_mode r = Mode_blended" "3 / 10 \<le> rq_confidence r"
  shows "approaching (Suc n) (manager_update (serve r g))"
proof (cases "current_mode (serve r g) = Mode_blended")
  case False
  then have still: "current_mode g \<noteq> Mode_blended" "serve r g = g\<lparr>mode_confidence := raise_confidence Mode_blended (rq_confidence r) (mode_confidence g)\<rparr>"
    using assms(3) by (auto simp: serve_def request_mode_def Let_def split: if_splits)
  let ?c = "mode_confidence g Mode_blended" and ?L = "147 / 100 * (1 - (98 / 100 :: real) ^ n)"
  have step: "min (9 / 10) ((L + 3 / 100) * (98 / 100)) \<le> min 1 (c + k / 10) * (98 / 100)"
    if "min (9 / 10) L \<le> c" "3 / 10 \<le> k" for L c k :: real
    using that unfolding min_def by (auto split: if_splits)
  have "147 / 100 * (1 - (98 / 100) ^ Suc n) = (?L + 3 / 100) * (98 / 100)" by (simp add: algebra_simps)
  then have "min (9 / 10) (147 / 100 * (1 - (98 / 100) ^ Suc n)) \<le> min 1 (?c + rq_confidence r / 10) * (98 / 100)"
    using step [of ?L ?c "rq_confidence r"] assms(1,4) still(1) unfolding approaching_def by (simp only: simp_thms)
  with assms(1,2) still show ?thesis
    by (auto simp: approaching_def manager_update_def raise_confidence_def manager_ok_def)
qed (simp add: approaching_def manager_update_def)

lemma approach_done:
  assumes "approaching n g" "25 \<le> n" "manager_ok g" "rq_mode r = Mode_blended" "3 / 10 \<le> rq_confidence r"
  shows "current_mode (manager_update (serve r g)) = Mode_blended"
proof -
  have "(98 / 100 :: real) ^ n \<le> (98 / 100) ^ 25" using assms(2) by (intro power_decreasing) simp_all
  also have "\<dots> < 61 / 100" by (simp add: power_divide)
  finally have "57 / 100 < 147 / 100 * (1 - (98 / 100 :: real) ^ n)" by simp
  moreover have "6 / 10 < c + k / 10" if "min (9 / 10) L \<le> c" "3 / 10 \<le> k" "57 / 100 < L" for L c k :: real
    using that unfolding min_def by (auto split: if_splits)
  ultimately have "current_mode g = Mode_blended \<or> 6 / 10 < mode_confidence g Mode_blended + rq_confidence r / 10 \<and>
      transition_timeout g = 0 \<and> 10 \<le> mode_duration g"
    using assms by (auto simp: approaching_def manager_ok_def)
  then show ?thesis using assms(3,4)
    by (elim disjE) (use assms(2,3) in \<open>simp_all add: manager_update_def serve_def request_mode_def Let_def
        raise_confidence_def manager_ok_def\<close>)
qed

definition standing :: "dec_input list \<Rightarrow> bool" where "standing is \<longleftrightarrow> list_all (\<lambda>i. standstill (dn_CS i)) is"

lemma standing_counts:
  "standing is \<Longrightarrow> 0 \<le> standstill_count d \<Longrightarrow> min 20 (int (length is)) \<le> standstill_count (dec_run is d)"
proof (induction "is" rule: rev_induct)
  case (snoc i "is")
  then show ?case using see_standing [of i "dec_run is d"] by (simp add: standing_def)
qed simp

lemma standing_approaches:
  assumes "standing is" "dec_ok d" "3 \<le> standstill_count d"
  shows "approaching (length is) (mode_mgr (dec_run is d)) \<and> 3 \<le> standstill_count (dec_run is d)"
  using assms(1)
proof (induction "is" rule: rev_induct)
  case Nil
  then show ?case using assms(2,3) by (simp add: approaching_def dec_ok_def manager_ok_def unit_interval_def)
next
  case (snoc i "is")
  let ?d = "dec_run is d"
  from snoc have i: "standstill (dn_CS i)" "approaching (length is) (mode_mgr ?d)" "3 \<le> standstill_count ?d"
    by (simp_all add: standing_def)
  have "manager_ok (mode_mgr ?d)" using dec_run_ok [OF assms(2)] by (simp add: dec_ok_def)
  from approach_step [OF i(2) this standing_request [OF i(1,3)]] see_standing [OF i(1), of ?d] i(3)
  show ?case by (simp add: dec_update_manager)
qed

text \<open>
  A standing car is handed to the model: after any history, and whatever the radar, the lead and
  the trajectory say meanwhile, thirty frames of standstill put the controller in its blended mode,
  and it stays there as long as the car stands.
\<close>
theorem standstill_reaches_blended:
  assumes "list_all (\<lambda>i. standstill (dn_CS i)) is" "30 \<le> length is"
  shows "dec_mode_of (dec_run (history @ is) (dec_init p)) = Mode_blended"
proof -
  obtain js i where js: "is = js @ [i]" using assms(2) by (cases "is" rule: rev_cases) auto
  let ?d = "dec_run (history @ take 3 js) (dec_init p)" and ?e = "dec_run (history @ js) (dec_init p)"
  have s: "standing (take 3 js)" "standing (drop 3 js)" "standstill (dn_CS i)"
    using assms(1) by (auto simp: standing_def js list_all_iff dest: in_set_takeD in_set_dropD)
  have ok: "dec_ok (dec_run xs (dec_init p))" for xs by (rule dec_run_ok [OF dec_init_ok])
  have "0 \<le> standstill_count (dec_run history (dec_init p))" using ok [of history] by (simp add: dec_ok_def)
  from standing_counts [OF s(1) this] have "3 \<le> standstill_count ?d"
    using assms(2) by (simp add: js dec_run_append)
  from standing_approaches [OF s(2) ok this]
  have a: "approaching (length (drop 3 js)) (mode_mgr ?e)" "3 \<le> standstill_count ?e"
    by (simp_all flip: dec_run_append)
  have "25 \<le> length (drop 3 js)" "manager_ok (mode_mgr ?e)" using assms(2) js ok by (simp_all add: dec_ok_def)
  from approach_done [OF a(1) this standing_request [OF s(3) a(2)]]
  show ?thesis by (simp add: dec_mode_of_def js dec_update_manager flip: append_assoc)
qed

definition ex_standing :: dec_input where
  "ex_standing = \<lparr>dn_param = True, dn_crash_cnt = 0, dn_CS = cs_default\<lparr>standstill := True\<rparr>, dn_lead_present = True, dn_position_x = [],
     dn_orientation_len = 0, dn_radarUnavailable = False, dn_experimentalMode = True\<rparr>"

theorem standstill_reaches_blended_witness:
  "dec_mode_of (dec_run ([] @ replicate 30 ex_standing) (dec_init True)) = Mode_blended"
  by (rule standstill_reaches_blended) (simp_all add: ex_standing_def list_all_iff)

end
