(* ===== verification/LongMpc.thy ===== *)
theory LongMpc
  imports Prelude
begin

text \<open>
  The problem that the longitudinal planner poses to its solver,
  \<^verbatim>\<open>selfdrive/controls/lib/longitudinal_mpc_lib/long_mpc.py\<close>: where the two leads will be, the
  obstacle they make together, the weights, and the collision counter of the answer. The solver
  itself is generated code: it is a function \<open>solve\<close> from problems to solutions, another one in every
  frame since it keeps what it computed before. The limits \<open>ACCEL_MIN\<close> and \<open>ACCEL_MAX\<close> are opendbc's.
  Arrays over the horizon are lists of \<open>N + 1\<close> entries.
\<close>

datatype personality = P_aggressive | P_standard | P_relaxed

datatype plan_source = PS_cruise | PS_lead0 | PS_lead1 | PS_e2e

definition get_jerk_factor :: "personality \<Rightarrow> real" where
  "get_jerk_factor p = (case p of P_relaxed \<Rightarrow> 1 | P_standard \<Rightarrow> 1 | P_aggressive \<Rightarrow> 1 / 2)"

definition get_T_FOLLOW :: "personality \<Rightarrow> real" where
  "get_T_FOLLOW p = (case p of P_relaxed \<Rightarrow> 175 / 100 | P_standard \<Rightarrow> 145 / 100 | P_aggressive \<Rightarrow> 125 / 100)"

abbreviation (input) COMFORT_BRAKE :: real where "COMFORT_BRAKE \<equiv> 25 / 10"
abbreviation (input) STOP_DISTANCE :: real where "STOP_DISTANCE \<equiv> 6"
abbreviation (input) MIN_X_LEAD_FACTOR :: real where "MIN_X_LEAD_FACTOR \<equiv> 1 / 2"
abbreviation (input) CRASH_DISTANCE :: real where "CRASH_DISTANCE \<equiv> 1 / 4"
abbreviation (input) LEAD_DANGER_FACTOR :: real where "LEAD_DANGER_FACTOR \<equiv> 3 / 4"
abbreviation (input) LEAD_ACCEL_TAU :: real where "LEAD_ACCEL_TAU \<equiv> 15 / 10"

definition get_stopped_equivalence_factor :: "real \<Rightarrow> real" where
  "get_stopped_equivalence_factor v_lead = v_lead\<^sup>2 / (2 * COMFORT_BRAKE)"

definition index_function :: "real \<Rightarrow> real \<Rightarrow> nat \<Rightarrow> real" where
  "index_function max_val max_idx i = max_val * (real i / max_idx) ^ 2"

definition T_IDXS_MPC :: "real list" where
  "T_IDXS_MPC = map (index_function 10 12) [0..<13]"

definition T_DIFFS :: "real list" where
  \<comment> \<open>\<open>np.diff(T_IDXS, prepend=[0.])\<close>\<close>
  "T_DIFFS = map2 (-) T_IDXS_MPC (0 # butlast T_IDXS_MPC)"

fun cumsum_from :: "real \<Rightarrow> real list \<Rightarrow> real list" where
  "cumsum_from s [] = []"
| "cumsum_from s (x # xs) = (s + x) # cumsum_from (s + x) xs"

record lead_data =
  ld_present :: bool
  ld_dRel :: real
  ld_vLead :: real
  ld_aLeadK :: real
  ld_aLeadTau :: real
  ld_modelProb :: real

record mpc_solution =
  sol_x :: "(real \<times> real \<times> real) list"
  sol_j :: "real list"
  sol_failed :: bool

record mpc =
  mpc_x0 :: "real \<times> real"
  x_sol :: "(real \<times> real \<times> real) list"
  j_solution :: "real list"
  mpc_a_prev :: "real list"
  crash_cnt :: int
  mpc_source :: plan_source
  mpc_weights :: "real \<times> real"
  mpc_dt :: real

record mpc_problem =
  pb_x0 :: "real \<times> real"
  pb_accel_limits :: "real \<times> real"
  pb_obstacle :: "real list"
  pb_a_prev :: "real list"
  pb_t_follow :: real
  pb_lead_danger :: real
  pb_weights :: "real \<times> real"

definition set_weights :: "bool \<Rightarrow> personality \<Rightarrow> mpc \<Rightarrow> mpc" where
  \<comment> \<open>the two weights that vary: of a change of the acceleration and of the jerk\<close>
  "set_weights prev_accel_constraint p m =
     m\<lparr>mpc_weights := (get_jerk_factor p * (if prev_accel_constraint then 200 else 0), get_jerk_factor p * 5)\<rparr>"

definition mpc_reset :: "mpc \<Rightarrow> mpc" where
  "mpc_reset m =
     set_weights True P_standard
       (m\<lparr>x_sol := replicate 13 (0, 0, 0), j_solution := replicate 12 0, mpc_a_prev := replicate 13 0, crash_cnt := 0,
          mpc_x0 := (0, 0)\<rparr>)"

definition LongitudinalMpc :: "real \<Rightarrow> mpc" where
  "LongitudinalMpc dt =
     mpc_reset \<lparr>mpc_x0 = (0, 0), x_sol = [], j_solution = [], mpc_a_prev = [], crash_cnt = 0, mpc_source = PS_cruise,
                mpc_weights = (0, 0), mpc_dt = dt\<rparr>"

definition v_solution :: "mpc \<Rightarrow> real list" where "v_solution m = map (\<lambda>(x, v, a). v) (x_sol m)"
definition a_solution :: "mpc \<Rightarrow> real list" where "a_solution m = map (\<lambda>(x, v, a). a) (x_sol m)"

definition set_cur_state :: "real \<Rightarrow> real \<Rightarrow> mpc \<Rightarrow> mpc" where
  "set_cur_state v a m = m\<lparr>mpc_x0 := (v, a)\<rparr>"

definition extrapolate_lead :: "real \<Rightarrow> real \<Rightarrow> real \<Rightarrow> real \<Rightarrow> (real \<times> real) list" where
  "extrapolate_lead x_lead v_lead a_lead a_lead_tau =
     (let a_traj = map (\<lambda>t. a_lead * exp (- a_lead_tau * t\<^sup>2 / 2)) T_IDXS_MPC;
          v_traj = map (\<lambda>d. np_clip (v_lead + d) 0 (10 ^ 8)) (cumsum_from 0 (map2 (*) T_DIFFS a_traj));
          x_traj = map (\<lambda>d. x_lead + d) (cumsum_from 0 (map2 (*) T_DIFFS v_traj))
      in zip x_traj v_traj)"

definition process_lead :: "real \<Rightarrow> lead_data \<Rightarrow> mpc \<Rightarrow> (real \<times> real) list" where
  "process_lead accel_min lead m =
     (let v_ego = fst (mpc_x0 m);
          (x_lead, v_lead, a_lead, tau) =
            (if ld_present lead then (ld_dRel lead, ld_vLead lead, ld_aLeadK lead, ld_aLeadTau lead)
             else (50, v_ego + 10, 0, LEAD_ACCEL_TAU));
          min_x_lead = MIN_X_LEAD_FACTOR * (v_ego + v_lead) * (v_ego - v_lead) / (- accel_min * 2);
          x_lead = np_clip x_lead min_x_lead (10 ^ 8);
          v_lead = np_clip v_lead 0 (10 ^ 8);
          a_lead = np_clip a_lead (- 10) 5
      in extrapolate_lead x_lead v_lead a_lead tau)"

definition lead_obstacle :: "(real \<times> real) list \<Rightarrow> real list" where
  "lead_obstacle xv = map (\<lambda>(x, v). x + get_stopped_equivalence_factor v) xv"

definition mpc_problem_of :: "real \<times> real \<Rightarrow> real list \<Rightarrow> real list \<Rightarrow> personality \<Rightarrow> mpc \<Rightarrow> mpc_problem" where
  "mpc_problem_of limits o0 o1 p m =
     \<lparr>pb_x0 = mpc_x0 m, pb_accel_limits = limits, pb_obstacle = map2 min o0 o1, pb_a_prev = mpc_a_prev m,
      pb_t_follow = get_T_FOLLOW p, pb_lead_danger = LEAD_DANGER_FACTOR, pb_weights = mpc_weights m\<rparr>"

definition mpc_run :: "mpc_solution \<Rightarrow> mpc \<Rightarrow> mpc" where
  "mpc_run sol m =
     (let m = m\<lparr>x_sol := sol_x sol, j_solution := sol_j sol\<rparr>;
          m = m\<lparr>mpc_a_prev := map (\<lambda>t. np_interp (t + mpc_dt m) (zip T_IDXS_MPC (a_solution m))) T_IDXS_MPC\<rparr>
      in if sol_failed sol then mpc_reset m else m)"

definition crash_predicted :: "lead_data \<Rightarrow> (real \<times> real) list \<Rightarrow> mpc \<Rightarrow> bool" where
  \<comment> \<open>over the first five seconds\<close>
  "crash_predicted lead xv m \<longleftrightarrow>
     list_ex (\<lambda>(t, (xl, vl), x, v, a). t < 5 \<and> xl - x < CRASH_DISTANCE) (zip T_IDXS_MPC (zip xv (x_sol m))) \<and> ld_modelProb lead > 9 / 10"

definition mpc_update :: "real \<times> real \<Rightarrow> (mpc_problem \<Rightarrow> mpc_solution) \<Rightarrow> lead_data \<Rightarrow> lead_data \<Rightarrow> personality \<Rightarrow> mpc \<Rightarrow> mpc" where
  "mpc_update limits solve one two p m =
     (let xv0 = process_lead (fst limits) one m; xv1 = process_lead (fst limits) two m;
          o0 = lead_obstacle xv0; o1 = lead_obstacle xv1;
          m = m\<lparr>mpc_source := (if hd o1 < hd o0 then PS_lead1 else PS_lead0)\<rparr>;
          m = mpc_run (solve (mpc_problem_of limits o0 o1 p m)) m
      in m\<lparr>crash_cnt := (if crash_predicted one xv0 m then crash_cnt m + 1 else 0)\<rparr>)"

end
