(* ===== verification/SmartCruise.thy ===== *)
theory SmartCruise
  imports Prelude "HOL-Library.Monad_Syntax"
begin

text \<open>
  Smart cruise control, \<^verbatim>\<open>sunnypilot/selfdrive/controls/lib/smart_cruise_control/\<close>: the two speed
  sources that slow the car for a curve, one from the driving model's plan (\<open>vision_controller.py\<close>),
  one from the target speeds of the map (\<open>map_controller.py\<close>), and the object that runs both. The
  code's exceptions are \<open>None\<close>. A speed that numpy computes as an infinity or as no number is \<open>None\<close>
  where the result is a \<open>real option\<close>: neither is ever less than a number. The map daemon's target
  speeds and the position, read from parameters as JSON, are inputs.
\<close>

abbreviation (input) SCC_MIN_V :: real where "SCC_MIN_V \<equiv> 20 * KPH_TO_MS"
abbreviation (input) SCC_UNSET :: real where "SCC_UNSET \<equiv> 255"

section \<open>Vision\<close>

datatype vision_state = VS_disabled | VS_enabled | VS_entering | VS_turning | VS_leaving | VS_overriding

definition VISION_ACTIVE_STATES :: "vision_state list" where
  "VISION_ACTIVE_STATES = [VS_entering, VS_turning, VS_leaving]"

definition VISION_ENABLED_STATES :: "vision_state list" where
  "VISION_ENABLED_STATES = VS_enabled # VS_overriding # VISION_ACTIVE_STATES"

abbreviation (input) ENTERING_PRED_LAT_ACC_TH :: real where "ENTERING_PRED_LAT_ACC_TH \<equiv> 13 / 10"
abbreviation (input) ABORT_ENTERING_PRED_LAT_ACC_TH :: real where "ABORT_ENTERING_PRED_LAT_ACC_TH \<equiv> 11 / 10"
abbreviation (input) TURNING_LAT_ACC_TH :: real where "TURNING_LAT_ACC_TH \<equiv> 16 / 10"
abbreviation (input) LEAVING_LAT_ACC_TH :: real where "LEAVING_LAT_ACC_TH \<equiv> 13 / 10"
abbreviation (input) FINISH_LAT_ACC_TH :: real where "FINISH_LAT_ACC_TH \<equiv> 11 / 10"
abbreviation (input) A_LAT_REG_MAX :: real where "A_LAT_REG_MAX \<equiv> 2"
abbreviation (input) NO_OVERSHOOT_TIME_HORIZON :: real where "NO_OVERSHOOT_TIME_HORIZON \<equiv> 4"
abbreviation (input) LEAVING_ACC :: real where "LEAVING_ACC \<equiv> 1 / 2"

definition ENTERING_SMOOTH_DECEL :: "(real \<times> real) list" where
  "ENTERING_SMOOTH_DECEL = [(13 / 10, - 2 / 10), (3, - 1)]"

definition TURNING_ACC :: "(real \<times> real) list" where
  "TURNING_ACC = [(15 / 10, 5 / 10), (23 / 10, 0), (3, - 4 / 10)]"

record vision =
  vis_v_target :: "real option"
  vis_a_target :: real
  vis_v_ego :: real
  vis_a_ego :: real
  vis_output_v_target :: "real option"
  vis_output_a_target :: real
  vis_frame :: int
  vis_long_enabled :: bool
  vis_long_override :: bool
  vis_is_enabled :: bool
  vis_is_active :: bool
  vis_enabled :: bool
  vis_v_cruise_setpoint :: real
  vis_state :: vision_state
  vis_current_lat_acc :: real
  vis_max_pred_lat_acc :: real

record scc_input =
  \<comment> \<open>the arguments of \<open>update\<close>\<close>
  ci_long_enabled :: bool
  ci_long_override :: bool
  ci_v_ego :: real
  ci_a_ego :: real
  ci_v_cruise :: real

record vision_input =
  vi_param :: bool
  vi_rates :: "real list"
  vi_speeds :: "real list"
  vi_curvature :: real

definition vision_init :: "bool \<Rightarrow> vision" where
  "vision_init param =
     \<lparr>vis_v_target = Some 0, vis_a_target = 0, vis_v_ego = 0, vis_a_ego = 0, vis_output_v_target = Some SCC_UNSET,
      vis_output_a_target = 0, vis_frame = -1, vis_long_enabled = False, vis_long_override = False, vis_is_enabled = False,
      vis_is_active = False, vis_enabled = param, vis_v_cruise_setpoint = 0, vis_state = VS_disabled,
      vis_current_lat_acc = 0, vis_max_pred_lat_acc = 0\<rparr>"

definition np_times :: "real list \<Rightarrow> real list \<Rightarrow> real list option" where
  \<comment> \<open>the product of two arrays; an array of one element is stretched, other lengths must agree\<close>
  "np_times xs ys =
     (if length xs = length ys then Some (map2 (*) xs ys)
      else case (xs, ys) of ([x], _) \<Rightarrow> Some (map ((*) x) ys) | (_, [y]) \<Rightarrow> Some (map (\<lambda>x. x * y) xs) | _ \<Rightarrow> None)"

definition np_percentile :: "real list \<Rightarrow> real \<Rightarrow> real option" where
  \<comment> \<open>numpy's default method: linear between the two neighbours of the index\<close>
  "np_percentile xs q =
     (if xs = [] then None
      else let s = sort xs; v = real (length xs - 1) * (q / 100); k = nat \<lfloor>v\<rfloor>; hi = min (k + 1) (length xs - 1)
           in Some (s ! k + (s ! hi - s ! k) * (v - real k)))"

definition vision_v_target :: "real \<Rightarrow> real \<Rightarrow> real option" where
  \<comment> \<open>the square root of two over the curvature: infinite for none, no number for a negative one\<close>
  "vision_v_target v_ego max_pred =
     (let v_ego = max v_ego (1 / 10); max_curve = max_pred / v_ego\<^sup>2
      in if max_curve > 0 then Some (sqrt (A_LAT_REG_MAX / max_curve)) else None)"

definition vision_update_calculations :: "vision_input \<Rightarrow> vision \<Rightarrow> vision option" where
  "vision_update_calculations i s =
     (if \<not> vis_long_enabled s then Some s
      else do {
        let s = s\<lparr>vis_current_lat_acc := (vis_v_ego s)\<^sup>2 * \<bar>vi_curvature i\<bar>\<rparr>;
        accels \<leftarrow> np_times (map abs (vi_rates i)) (vi_speeds i);
        max_pred \<leftarrow> np_percentile accels 97;
        Some (s\<lparr>vis_max_pred_lat_acc := max_pred, vis_v_target := vision_v_target (vis_v_ego s) max_pred\<rparr>)
      })"

definition vision_next_state :: "vision \<Rightarrow> vision_state" where
  "vision_next_state s =
     (if vis_state s \<noteq> VS_disabled then
        if \<not> vis_long_enabled s \<or> \<not> vis_enabled s then VS_disabled
        else if vis_long_override s then VS_overriding
        else case vis_state s of
          VS_enabled \<Rightarrow>
            if vis_v_ego s \<le> SCC_MIN_V then VS_enabled
            else if vis_max_pred_lat_acc s \<ge> ENTERING_PRED_LAT_ACC_TH then VS_entering else VS_enabled
        | VS_overriding \<Rightarrow> if \<not> vis_long_override s then VS_enabled else VS_overriding
        | VS_entering \<Rightarrow>
            if vis_current_lat_acc s \<ge> TURNING_LAT_ACC_TH then VS_turning
            else if vis_max_pred_lat_acc s < ABORT_ENTERING_PRED_LAT_ACC_TH then VS_enabled else VS_entering
        | VS_turning \<Rightarrow> if vis_current_lat_acc s \<le> LEAVING_LAT_ACC_TH then VS_leaving else VS_turning
        | VS_leaving \<Rightarrow>
            if vis_current_lat_acc s \<ge> TURNING_LAT_ACC_TH then VS_turning
            else if vis_current_lat_acc s < FINISH_LAT_ACC_TH then VS_enabled else VS_leaving
        | VS_disabled \<Rightarrow> VS_disabled
      else if vis_long_enabled s \<and> vis_enabled s then (if vis_long_override s then VS_overriding else VS_enabled)
      else VS_disabled)"

definition vision_update_solution :: "vision \<Rightarrow> real" where
  "vision_update_solution s =
     (case vis_state s of
        VS_entering \<Rightarrow> np_interp (vis_max_pred_lat_acc s) ENTERING_SMOOTH_DECEL
      | VS_turning \<Rightarrow> np_interp (vis_current_lat_acc s) TURNING_ACC
      | VS_leaving \<Rightarrow> LEAVING_ACC
      | _ \<Rightarrow> vis_a_ego s)"

definition vision_v_target_from_control :: "vision \<Rightarrow> real option" where
  "vision_v_target_from_control s =
     (if vis_is_active s
      then map_option (\<lambda>v. max v SCC_MIN_V + vis_a_target s * NO_OVERSHOOT_TIME_HORIZON) (vis_v_target s)
      else Some SCC_UNSET)"

definition vision_update :: "scc_input \<Rightarrow> vision_input \<Rightarrow> vision \<Rightarrow> vision option" where
  "vision_update c i s =
     do {
       let s = s\<lparr>vis_long_enabled := ci_long_enabled c, vis_long_override := ci_long_override c, vis_v_ego := ci_v_ego c,
                 vis_a_ego := ci_a_ego c, vis_v_cruise_setpoint := ci_v_cruise c\<rparr>;
       let s = (if vis_frame s mod 60 = 0 then s\<lparr>vis_enabled := vi_param i\<rparr> else s);
       s \<leftarrow> vision_update_calculations i s;
       let s = s\<lparr>vis_state := vision_next_state s\<rparr>;
       let s = s\<lparr>vis_is_enabled := vis_state s \<in> set VISION_ENABLED_STATES, vis_is_active := vis_state s \<in> set VISION_ACTIVE_STATES\<rparr>;
       let s = s\<lparr>vis_a_target := vision_update_solution s\<rparr>;
       Some (s\<lparr>vis_output_v_target := vision_v_target_from_control s, vis_output_a_target := vis_a_target s,
               vis_frame := vis_frame s + 1\<rparr>)
     }"

section \<open>Map\<close>

datatype map_state = MS_disabled | MS_enabled | MS_turning | MS_overriding

definition MAP_ACTIVE_STATES :: "map_state list" where "MAP_ACTIVE_STATES = [MS_turning]"

definition MAP_ENABLED_STATES :: "map_state list" where
  "MAP_ENABLED_STATES = MS_enabled # MS_overriding # MAP_ACTIVE_STATES"

abbreviation (input) EARTH_R :: real where "EARTH_R \<equiv> 6373000"
abbreviation (input) TO_RADIANS :: real where "TO_RADIANS \<equiv> pi / 180"
abbreviation (input) TARGET_JERK :: real where "TARGET_JERK \<equiv> - 6 / 10"
abbreviation (input) TARGET_ACCEL :: real where "TARGET_ACCEL \<equiv> - 12 / 10"
abbreviation (input) TARGET_OFFSET :: real where "TARGET_OFFSET \<equiv> 1"

record map_point =
  mp_lat :: real
  mp_lon :: real
  mp_velocity :: real

record scc_map =
  map_v_target :: real
  map_v_ego :: real
  map_a_ego :: real
  map_output_v_target :: real
  map_output_a_target :: real
  map_enabled :: bool
  map_long_enabled :: bool
  map_long_override :: bool
  map_is_enabled :: bool
  map_is_active :: bool
  map_state_now :: map_state
  map_v_cruise :: real
  target_lat :: real
  target_lon :: real
  map_frame :: int
  last_position :: "real \<times> real"
  target_velocities :: "map_point list"

record map_input =
  mi_param :: bool
  mi_position :: "(real \<times> real) option"
  mi_velocities :: "map_point list option"

definition position_of :: "map_input \<Rightarrow> real \<times> real" where
  "position_of i = (case mi_position i of None \<Rightarrow> (0, 0) | Some p \<Rightarrow> p)"

definition velocities_of :: "map_input \<Rightarrow> map_point list" where
  "velocities_of i = (case mi_velocities i of None \<Rightarrow> [] | Some vs \<Rightarrow> vs)"

definition scc_map_init :: "map_input \<Rightarrow> scc_map" where
  "scc_map_init i =
     \<lparr>map_v_target = 0, map_v_ego = 0, map_a_ego = 0, map_output_v_target = SCC_UNSET, map_output_a_target = 0,
      map_enabled = mi_param i, map_long_enabled = False, map_long_override = False, map_is_enabled = False,
      map_is_active = False, map_state_now = MS_disabled, map_v_cruise = 0, target_lat = 0, target_lon = 0, map_frame = -1,
      last_position = position_of i, target_velocities = velocities_of i\<rparr>"

definition calculate_velocity :: "real \<Rightarrow> real \<Rightarrow> real \<Rightarrow> real \<Rightarrow> real" where
  "calculate_velocity t target_jerk a_ego v_ego = v_ego + a_ego * t + target_jerk / 2 * t ^ 2"

definition calculate_distance :: "real \<Rightarrow> real \<Rightarrow> real \<Rightarrow> real \<Rightarrow> real" where
  "calculate_distance t target_jerk a_ego v_ego = t * v_ego + a_ego / 2 * t ^ 2 + target_jerk / 6 * t ^ 3"

definition math_sqrt :: "real \<Rightarrow> real option" where
  \<comment> \<open>\<open>math.sqrt\<close> raises on a negative number\<close>
  "math_sqrt x = (if x < 0 then None else Some (sqrt x))"

definition atan2_pos :: "real \<Rightarrow> real \<Rightarrow> real" where
  \<comment> \<open>\<open>math.atan2(y, x)\<close> in the first quadrant, where two square roots lie\<close>
  "atan2_pos y x = (if x = 0 then if y = 0 then 0 else pi / 2 else arctan (y / x))"

definition distance_to_point :: "real \<Rightarrow> real \<Rightarrow> real \<Rightarrow> real \<Rightarrow> real option" where
  "distance_to_point ax ay bx b_y =
     do {
       let a = sin ((bx - ax) / 2) * sin ((bx - ax) / 2) + cos ax * cos bx * sin ((b_y - ay) / 2) * sin ((b_y - ay) / 2);
       y \<leftarrow> math_sqrt a;
       x \<leftarrow> math_sqrt (1 - a);
       Some (EARTH_R * (2 * atan2_pos y x))
     }"

fun map_distances :: "real \<times> real \<Rightarrow> map_point list \<Rightarrow> real list option" where
  "map_distances p [] = Some []"
| "map_distances p (t # ts) =
     do {
       d \<leftarrow> distance_to_point (fst p * TO_RADIANS) (snd p * TO_RADIANS) (mp_lat t * TO_RADIANS) (mp_lon t * TO_RADIANS);
       ds \<leftarrow> map_distances p ts;
       Some (d # ds)
     }"

fun closest_index :: "nat \<Rightarrow> real list \<Rightarrow> real \<times> nat \<Rightarrow> nat" where
  \<comment> \<open>the search for our location in the path: the first least distance below the bound\<close>
  "closest_index i [] (min_dist, min_idx) = min_idx"
| "closest_index i (d # ds) (min_dist, min_idx) =
     closest_index (Suc i) ds (if d < min_dist then (d, i) else (min_dist, min_idx))"

definition braking_distance :: "real \<Rightarrow> real \<Rightarrow> real \<Rightarrow> real option" where
  \<comment> \<open>how far ahead of a point the car must start to slow to its speed; \<open>None\<close> where the square root is complex\<close>
  "braking_distance v_ego a_ego tv =
     (let a_diff = a_ego - TARGET_ACCEL; accel_t = \<bar>a_diff / TARGET_JERK\<bar>;
          min_accel_v = calculate_velocity accel_t TARGET_JERK a_ego v_ego
      in if tv > min_accel_v then
           let a = 1 / 2 * TARGET_JERK; b = a_ego; c = v_ego - tv; disc = b\<^sup>2 - 4 * a * c
           in if disc < 0 then None
              else let t_a = -1 * (sqrt disc + b) / (2 * a); t_b = (sqrt disc - b) / (2 * a);
                       t = (if t_a > 0 then t_a else t_b)
                   in Some (calculate_distance t TARGET_JERK a_ego v_ego)
         else let t = \<bar>(min_accel_v - tv) / TARGET_ACCEL\<bar>
              in Some (calculate_distance accel_t TARGET_JERK a_ego v_ego + calculate_distance t 0 TARGET_ACCEL min_accel_v))"

definition point_counts :: "real \<Rightarrow> real \<Rightarrow> map_point \<times> real \<Rightarrow> bool" where
  "point_counts v_ego a_ego td =
     (let (t, d) = td; tv = mp_velocity t
      in \<not> tv > v_ego \<and> (case braking_distance v_ego a_ego tv of None \<Rightarrow> False | Some max_d \<Rightarrow> d < max_d + tv * TARGET_OFFSET))"

fun slowest_point :: "map_point list \<Rightarrow> real \<times> real \<times> real \<Rightarrow> real \<times> real \<times> real" where
  "slowest_point [] best = best"
| "slowest_point (t # ts) best =
     slowest_point ts (if mp_velocity t < fst best then (mp_velocity t, mp_lat t, mp_lon t) else best)"

definition target_still_ahead :: "scc_map \<Rightarrow> map_point list \<Rightarrow> bool" where
  "target_still_ahead s forward =
     list_ex (\<lambda>t. \<not> mp_velocity t > map_v_ego s \<and> mp_lat t = target_lat s \<and> mp_lon t = target_lon s \<and> mp_velocity t = map_v_target s) forward"

definition map_update_calculations :: "map_input \<Rightarrow> scc_map \<Rightarrow> scc_map option" where
  "map_update_calculations i s =
     do {
       let s = s\<lparr>last_position := position_of i, target_velocities := velocities_of i\<rparr>;
       distances \<leftarrow> map_distances (last_position s) (target_velocities s);
       let min_idx = closest_index 0 distances (1000, 0);
       let forward = drop min_idx (target_velocities s);
       let valid = map fst (filter (point_counts (map_v_ego s) (map_a_ego s)) (zip forward (drop min_idx distances)));
       let (min_v, lat, lon) = slowest_point valid (100, 0, 0);
       if map_v_target s < min_v \<and> \<not> (target_lat s = 0 \<and> target_lon s = 0) \<and> target_still_ahead s forward then Some s
       else Some (s\<lparr>map_v_target := min_v, target_lat := lat, target_lon := lon\<rparr>)
     }"

definition map_next_state :: "scc_map \<Rightarrow> map_state" where
  "map_next_state s =
     (let slower = map_v_cruise s > map_v_target s \<and> map_v_target s \<noteq> 0
      in if map_state_now s \<noteq> MS_disabled then
           if \<not> map_long_enabled s \<or> \<not> map_enabled s then MS_disabled
           else if map_long_override s then MS_overriding
           else case map_state_now s of
             MS_enabled \<Rightarrow> if slower then MS_turning else MS_enabled
           | MS_turning \<Rightarrow> if map_v_cruise s \<le> map_v_target s \<or> map_v_target s = 0 then MS_enabled else MS_turning
           | MS_overriding \<Rightarrow> if \<not> map_long_override s then (if slower then MS_turning else MS_enabled) else MS_overriding
           | MS_disabled \<Rightarrow> MS_disabled
         else if map_long_enabled s \<and> map_enabled s then (if map_long_override s then MS_overriding else MS_enabled)
         else MS_disabled)"

definition map_v_target_from_control :: "scc_map \<Rightarrow> real" where
  "map_v_target_from_control s = (if map_is_active s then max (map_v_target s) SCC_MIN_V else SCC_UNSET)"

definition scc_map_update :: "scc_input \<Rightarrow> map_input \<Rightarrow> scc_map \<Rightarrow> scc_map option" where
  "scc_map_update c i s =
     do {
       let s = s\<lparr>map_long_enabled := ci_long_enabled c, map_long_override := ci_long_override c, map_v_ego := ci_v_ego c,
                 map_a_ego := ci_a_ego c, map_v_cruise := ci_v_cruise c\<rparr>;
       let s = (if map_frame s mod 60 = 0 then s\<lparr>map_enabled := mi_param i\<rparr> else s);
       s \<leftarrow> map_update_calculations i s;
       let s = s\<lparr>map_state_now := map_next_state s\<rparr>;
       let s = s\<lparr>map_is_enabled := map_state_now s \<in> set MAP_ENABLED_STATES, map_is_active := map_state_now s \<in> set MAP_ACTIVE_STATES\<rparr>;
       Some (s\<lparr>map_output_v_target := map_v_target_from_control s, map_output_a_target := map_a_ego s,
               map_frame := map_frame s + 1\<rparr>)
     }"

section \<open>Both\<close>

record smart_cruise =
  scc_vision :: vision
  scc_map_of :: scc_map

definition smart_cruise_update :: "scc_input \<Rightarrow> vision_input \<Rightarrow> map_input \<Rightarrow> smart_cruise \<Rightarrow> smart_cruise option" where
  "smart_cruise_update c vi mi s =
     do {
       m \<leftarrow> scc_map_update c mi (scc_map_of s);
       v \<leftarrow> vision_update c vi (scc_vision s);
       Some (s\<lparr>scc_map_of := m, scc_vision := v\<rparr>)
     }"

end
