(* ===== verification/E2EAlerts.thy ===== *)
theory E2EAlerts
  imports CarState EventTableSP
begin

text \<open>
  The chimes for a green light and for a lead that drives off,
  \<^verbatim>\<open>sunnypilot/selfdrive/controls/lib/e2e_alerts_helper.py\<close>. The products of a frame count with
  \<open>DT_MDL\<close> are compared as the counts: in the double arithmetic of the code \<open>n * 0.05 > 0.3\<close> holds from
  six on (\<open>6 * 0.05\<close> is \<open>0.30000000000000004\<close>), \<open>n * 0.05 >= 1.0\<close> from twenty on and
  \<open>n * 0.05 < 2.0\<close> below forty.
\<close>

datatype e2e_state = E2E_inactive | E2E_armed | E2E_consumed

definition trigger_timer_over :: "int \<Rightarrow> bool" where
  \<comment> \<open>\<open>timer * DT_MDL > TRIGGER_TIMER_THRESHOLD\<close>\<close>
  "trigger_timer_over n \<longleftrightarrow> 6 \<le> n"

abbreviation (input) GREEN_LIGHT_X_THRESHOLD :: real where "GREEN_LIGHT_X_THRESHOLD \<equiv> 30"
abbreviation (input) LEAD_DEPART_DIST_THRESHOLD :: real where "LEAD_DEPART_DIST_THRESHOLD \<equiv> 1"

record e2e =
  e2e_frame :: int
  green_light_state :: e2e_state
  prev_green_light_state :: e2e_state
  lead_depart_state :: e2e_state
  prev_lead_depart_state :: e2e_state
  green_light_alert :: bool
  green_light_alert_enabled :: bool
  lead_depart_alert :: bool
  lead_depart_alert_enabled :: bool
  green_light_trigger_timer :: int
  lead_depart_trigger_timer :: int
  last_lead_distance :: real
  last_moving_frame :: int
  e2e_allowed :: bool
  last_allowed :: bool
  e2e_has_lead :: bool
  lead_depart_arm_timer :: int
  lead_depart_confirmed_lead :: bool
  lead_depart_armed :: bool

record e2e_input =
  e2_GreenLightAlert :: bool
  e2_LeadDepartAlert :: bool
  e2_CS :: car_state
  e2_CC_enabled :: bool
  e2_model_x :: "real list"
  e2_lead_present :: bool
  e2_lead_dRel :: real

definition e2e_init :: "bool \<Rightarrow> bool \<Rightarrow> e2e" where
  "e2e_init green lead =
     \<lparr>e2e_frame = -1, green_light_state = E2E_inactive, prev_green_light_state = E2E_inactive,
      lead_depart_state = E2E_inactive, prev_lead_depart_state = E2E_inactive, green_light_alert = False,
      green_light_alert_enabled = green, lead_depart_alert = False, lead_depart_alert_enabled = lead,
      green_light_trigger_timer = 0, lead_depart_trigger_timer = 0, last_lead_distance = -1, last_moving_frame = -1,
      e2e_allowed = False, last_allowed = False, e2e_has_lead = False, lead_depart_arm_timer = 0,
      lead_depart_confirmed_lead = False, lead_depart_armed = False\<rparr>"

definition see_stop :: "e2e_input \<Rightarrow> e2e \<Rightarrow> e2e" where
  \<comment> \<open>\<open>has_lead\<close>, \<open>last_moving_frame\<close> and \<open>allowed\<close>\<close>
  "see_stop i s =
     (let cs = e2_CS i;
          moving = (\<not> standstill cs \<and> vEgo cs > 1 / 10);
          last = (if moving then e2e_frame s else last_moving_frame s);
          recent_moving = (last = -1 \<or> e2e_frame s - last < 40)
      in s\<lparr>e2e_has_lead := e2_lead_present i, last_moving_frame := last,
           e2e_allowed := \<not> moving \<and> \<not> gasPressed cs \<and> \<not> e2_CC_enabled i \<and> \<not> recent_moving\<rparr>)"

definition green_light_trigger :: "e2e_input \<Rightarrow> e2e \<Rightarrow> (bool \<times> e2e) option" where
  \<comment> \<open>\<open>model_x[max_idx]\<close> raises on an empty list\<close>
  "green_light_trigger i s =
     (if green_light_state s = E2E_armed then
        if e2_model_x i = [] then None
        else let n = (if last (e2_model_x i) > GREEN_LIGHT_X_THRESHOLD then green_light_trigger_timer s + 1 else 0)
             in Some (trigger_timer_over n, s\<lparr>green_light_trigger_timer := n\<rparr>)
      else Some (False, s\<lparr>green_light_trigger_timer := 0\<rparr>))"

definition arm_lead :: "e2e_input \<Rightarrow> e2e \<Rightarrow> e2e" where
  "arm_lead i s =
     (let close_lead_valid = (e2e_has_lead s \<and> e2_lead_dRel i < 8);
          s = s\<lparr>lead_depart_confirmed_lead :=
                  (if e2e_allowed s \<and> \<not> last_allowed s \<and> close_lead_valid then True
                   else if \<not> e2e_allowed s then False else lead_depart_confirmed_lead s)\<rparr>
      in if e2e_allowed s \<and> lead_depart_confirmed_lead s \<and> close_lead_valid
         then let n = lead_depart_arm_timer s + 1
              in s\<lparr>lead_depart_arm_timer := n, lead_depart_armed := n \<ge> 20 \<or> lead_depart_armed s\<rparr>
         else s\<lparr>lead_depart_arm_timer := 0, lead_depart_armed := False\<rparr>)"

definition lead_depart_trigger :: "e2e_input \<Rightarrow> e2e \<Rightarrow> bool \<times> e2e" where
  "lead_depart_trigger i s =
     (if lead_depart_state s = E2E_armed then
        let d = e2_lead_dRel i;
            last = (if last_lead_distance s = -1 \<or> d < last_lead_distance s then d else last_lead_distance s);
            n = (if last \<noteq> -1 \<and> d - last > LEAD_DEPART_DIST_THRESHOLD then lead_depart_trigger_timer s + 1 else 0)
        in (trigger_timer_over n, s\<lparr>last_lead_distance := last, lead_depart_trigger_timer := n\<rparr>)
      else (False, s\<lparr>last_lead_distance := -1, lead_depart_trigger_timer := 0\<rparr>))"

definition update_alert_trigger :: "e2e_input \<Rightarrow> e2e \<Rightarrow> (bool \<times> bool \<times> e2e) option" where
  "update_alert_trigger i s =
     (case green_light_trigger i (see_stop i s) of None \<Rightarrow> None
      | Some (green, s) \<Rightarrow>
          let (lead, s) = lead_depart_trigger i (arm_lead i s)
          in Some (green, lead, s\<lparr>last_allowed := e2e_allowed s\<rparr>))"

definition e2e_next_state :: "e2e_state \<Rightarrow> bool \<Rightarrow> bool \<Rightarrow> bool \<Rightarrow> e2e_state" where
  "e2e_next_state state enabled allowed triggered =
     (if state \<noteq> E2E_inactive then
        if \<not> allowed \<or> \<not> enabled then E2E_inactive
        else if state = E2E_armed \<and> triggered then E2E_consumed else state
      else if allowed \<and> enabled then E2E_armed else state)"

definition e2e_update :: "e2e_input \<Rightarrow> e2e \<times> events_state \<Rightarrow> (e2e \<times> events_state) option" where
  "e2e_update i se =
     (let (s, ev) = se;
          s = (if e2e_frame s mod 60 = 0
               then s\<lparr>green_light_alert_enabled := e2_GreenLightAlert i, lead_depart_alert_enabled := e2_LeadDepartAlert i\<rparr> else s)
      in case update_alert_trigger i s of None \<Rightarrow> None
         | Some (green, lead, s) \<Rightarrow>
             let s = s\<lparr>prev_green_light_state := green_light_state s, prev_lead_depart_state := lead_depart_state s,
                       green_light_state := e2e_next_state (green_light_state s) (green_light_alert_enabled s)
                                              (e2e_allowed s \<and> \<not> e2e_has_lead s) green,
                       green_light_alert := green,
                       lead_depart_state := e2e_next_state (lead_depart_state s) (lead_depart_alert_enabled s)
                                              (e2e_allowed s \<and> lead_depart_armed s) lead,
                       lead_depart_alert := lead\<rparr>;
                 ev = (if green_light_alert s \<or> lead_depart_alert s then ev_add SP_e2eChime ev else ev)
             in Some (s\<lparr>e2e_frame := e2e_frame s + 1\<rparr>, ev))"

end
