(* ===== verification/LongPlanner.thy ===== *)
theory LongPlanner
  imports LongMpc SmartCruise E2EAlerts Dec SpeedLimitAssist LongControl StatLive
begin

unbundle bit_operations_syntax

text \<open>
  The longitudinal planner: the sources of a target speed and the choice between them,
  \<^verbatim>\<open>sunnypilot/selfdrive/controls/lib/longitudinal_planner.py\<close>, and the planner that turns the target
  into an acceleration, \<^verbatim>\<open>selfdrive/controls/lib/longitudinal_planner.py\<close>, with the loop of
  \<^verbatim>\<open>selfdrive/controls/plannerd.py\<close> around it and the lane departure warning it runs
  (\<^verbatim>\<open>selfdrive/controls/lib/ldw.py\<close>). \<open>None\<close> is an exception. The one attribute
  \<open>output_a_target\<close> that the two classes share is one field here.
\<close>

section \<open>Targets\<close>

datatype target_source = TS_cruise | TS_sccVision | TS_sccMap | TS_speedLimitAssist

definition clamp_speed_cap_accel :: "real \<Rightarrow> real \<Rightarrow> real" where
  "clamp_speed_cap_accel candidate_accel actual_accel = min candidate_accel actual_accel"

fun least_target :: "target_source \<times> real \<times> real \<Rightarrow> (target_source \<times> real option \<times> real) list \<Rightarrow> target_source \<times> real \<times> real" where
  \<comment> \<open>\<open>min(targets, key=...)\<close>: the first of the least speeds; an infinity or no number is never less\<close>
  "least_target best [] = best"
| "least_target best ((src, None, a) # ts) = least_target best ts"
| "least_target best ((src, Some v, a) # ts) = least_target (if v < fst (snd best) then (src, v, a) else best) ts"

record plan_car =
  pc_openpilotLongitudinalControl :: bool
  pc_steerRatio :: real
  pc_wheelbase :: real
  pc_longitudinalActuatorDelay :: real
  pc_radarUnavailable :: bool
  pc_sla :: sla_car
  pc_accel_limits :: "real \<times> real"

record planner =
  lp_mpc :: mpc
  lp_dec :: dec
  lp_scc :: smart_cruise
  lp_resolver :: resolver
  lp_sla :: sla
  lp_e2e :: e2e
  lp_events :: events_state
  lp_source :: target_source
  lp_output_v_target :: real
  lp_output_a_target :: real
  lp_fcw :: bool
  lp_dt :: real
  lp_allow_throttle :: bool
  lp_a_desired :: real
  lp_v_desired :: first_order_filter
  lp_a_cruise :: real
  lp_should_stop :: bool
  lp_v_trajectory :: "real list"
  lp_a_trajectory :: "real list"
  lp_j_trajectory :: "real list"

record plan_input =
  li_CS :: car_state
  li_CC_enabled :: bool
  li_CC_override :: bool
  li_orientationNED :: "real list"
  li_forceDecel :: bool
  li_long_off :: bool
  li_curvature :: real
  li_selfdrive_enabled :: bool
  li_experimentalMode :: bool
  li_personality :: personality
  li_angleOffsetDeg :: real
  li_gas_probs :: "real list"
  li_position_x :: "real list"
  li_velocity_x :: "real list"
  li_orientation_rate_z :: "real list"
  li_orientation_len :: nat
  li_e2e_accel :: real
  li_e2e_should_stop :: bool
  li_lead_one :: lead_data
  li_lead_two :: lead_data
  li_solve :: "mpc_problem \<Rightarrow> mpc_solution"
  li_road :: resolver_input
  li_resolver_params :: resolver_params
  li_map :: map_input
  li_SmartCruiseControlVision :: bool
  li_DynamicExperimentalControl :: bool
  li_GreenLightAlert :: bool
  li_LeadDepartAlert :: bool
  li_IsMetric :: bool
  li_IsReleaseSpBranch :: bool
  li_SpeedLimitMode :: speed_limit_mode
  li_now :: real

definition dec_input_of :: "plan_car \<Rightarrow> plan_input \<Rightarrow> planner \<Rightarrow> dec_input" where
  "dec_input_of cp i p =
     \<lparr>dn_param = li_DynamicExperimentalControl i, dn_crash_cnt = of_int (crash_cnt (lp_mpc p)), dn_CS = li_CS i,
      dn_lead_present = ld_present (li_lead_one i), dn_position_x = li_position_x i, dn_orientation_len = li_orientation_len i,
      dn_radarUnavailable = pc_radarUnavailable cp, dn_experimentalMode = li_experimentalMode i\<rparr>"

definition e2e_input_of :: "plan_input \<Rightarrow> e2e_input" where
  "e2e_input_of i =
     \<lparr>e2_GreenLightAlert = li_GreenLightAlert i, e2_LeadDepartAlert = li_LeadDepartAlert i, e2_CS = li_CS i,
      e2_CC_enabled = li_CC_enabled i, e2_model_x = li_position_x i, e2_lead_present = ld_present (li_lead_one i),
      e2_lead_dRel = ld_dRel (li_lead_one i)\<rparr>"

definition sp_update :: "plan_car \<Rightarrow> plan_input \<Rightarrow> planner \<Rightarrow> planner option" where
  \<comment> \<open>\<open>LongitudinalPlannerSP.update\<close>\<close>
  "sp_update cp i p =
     do {
       let p = p\<lparr>lp_events := ev_clear (lp_events p)\<rparr>;
       let p = p\<lparr>lp_dec := dec_update (dec_input_of cp i p) (lp_dec p)\<rparr>;
       (e, ev) \<leftarrow> e2e_update (e2e_input_of i) (lp_e2e p, lp_events p);
       Some (p\<lparr>lp_e2e := e, lp_events := ev\<rparr>)
     }"

definition is_e2e :: "plan_input \<Rightarrow> planner \<Rightarrow> bool" where
  "is_e2e i p =
     (if \<not> dec_active (lp_dec p) then li_experimentalMode i
      else li_experimentalMode i \<and> dec_mode_of (lp_dec p) = Mode_blended)"

definition source_offers :: "planner \<Rightarrow> (target_source \<times> real option \<times> real) list" where
  \<comment> \<open>the entries of \<open>targets\<close> after the cruise\<close>
  "source_offers p =
     [(TS_sccVision, vis_output_v_target (scc_vision (lp_scc p)), vis_output_a_target (scc_vision (lp_scc p))),
      (TS_sccMap, Some (map_output_v_target (scc_map_of (lp_scc p))), map_output_a_target (scc_map_of (lp_scc p))),
      (TS_speedLimitAssist, Some (output_v_target (lp_sla p)), output_a_target (lp_sla p))]"

definition plan_targets :: "real \<Rightarrow> real \<Rightarrow> planner \<Rightarrow> target_source \<times> real \<times> real" where
  "plan_targets v_cruise a_ego p = least_target (TS_cruise, v_cruise, a_ego) (source_offers p)"

definition sla_input_of :: "plan_input \<Rightarrow> real \<Rightarrow> real \<Rightarrow> planner \<Rightarrow> sla_input" where
  "sla_input_of i v_ego a_ego p =
     (let r = lp_resolver p
      in \<lparr>i_IsMetric = li_IsMetric i, i_IsReleaseSpBranch = li_IsReleaseSpBranch i, i_SpeedLimitMode = li_SpeedLimitMode i,
          i_long_enabled = li_CC_enabled i, i_v_ego = v_ego, i_a_ego = a_ego,
          i_v_cruise_cluster = min (vCruiseCluster (li_CS i)) 145 * KPH_TO_MS, i_speed_limit = speed_limit r,
          i_speed_limit_final_last = speed_limit_final_last r, i_has_speed_limit = speed_limit_valid r \<or> speed_limit_last_valid r,
          i_distance = r_distance r, i_now = li_now i, i_release_toggle = 0, i_buttons_now = 0\<rparr>)"

definition update_targets :: "plan_car \<Rightarrow> plan_input \<Rightarrow> real \<Rightarrow> real \<Rightarrow> real \<Rightarrow> planner \<Rightarrow> planner option" where
  "update_targets cp i v_ego a_ego v_cruise p =
     do {
       scc \<leftarrow> smart_cruise_update
         \<lparr>ci_long_enabled = li_CC_enabled i, ci_long_override = li_CC_override i, ci_v_ego = v_ego, ci_a_ego = a_ego, ci_v_cruise = v_cruise\<rparr>
         \<lparr>vi_param = li_SmartCruiseControlVision i, vi_rates = li_orientation_rate_z i, vi_speeds = li_velocity_x i, vi_curvature = li_curvature i\<rparr>
         (li_map i) (lp_scc p);
       let p = p\<lparr>lp_scc := scc\<rparr>;
       r \<leftarrow> resolver_update (li_resolver_params i) v_ego (li_road i) (lp_resolver p);
       let p = p\<lparr>lp_resolver := r\<rparr>;
       let (s, ev) = sla_update (pc_sla cp) (sla_input_of i v_ego a_ego p) (lp_sla p, lp_events p);
       let p = p\<lparr>lp_sla := s, lp_events := ev\<rparr>;
       let (src, v, a) = plan_targets v_cruise a_ego p;
       Some (p\<lparr>lp_source := src, lp_output_v_target := v, lp_output_a_target := clamp_speed_cap_accel a a_ego\<rparr>)
     }"

section \<open>Acceleration\<close>

definition A_CRUISE_MAX :: "(real \<times> real) list" where
  \<comment> \<open>\<open>A_CRUISE_MAX_VALS\<close> over \<open>A_CRUISE_MAX_BP\<close>\<close>
  "A_CRUISE_MAX = [(0, 16 / 10), (10, 12 / 10), (25, 8 / 10), (40, 6 / 10)]"

definition J_CRUISE :: "(real \<times> real) list" where
  "J_CRUISE = [(0, 16 / 10), (10, 12 / 10), (25, 8 / 10), (40, 6 / 10)]"

definition A_TOTAL_MAX :: "(real \<times> real) list" where
  "A_TOTAL_MAX = [(20, 17 / 10), (40, 32 / 10)]"

abbreviation (input) A_CRUISE_MIN :: real where "A_CRUISE_MIN \<equiv> - 12 / 10"
abbreviation (input) ALLOW_THROTTLE_THRESHOLD :: real where "ALLOW_THROTTLE_THRESHOLD \<equiv> 4 / 10"
abbreviation (input) MIN_ALLOW_THROTTLE_SPEED :: real where "MIN_ALLOW_THROTTLE_SPEED \<equiv> 25 / 10"

definition CONTROL_N_T_IDX :: "real list" where
  "CONTROL_N_T_IDX = map (index_function 10 32) [0..<17]"

definition get_max_accel :: "real \<Rightarrow> real" where
  "get_max_accel v_ego = np_interp v_ego A_CRUISE_MAX"

definition get_coast_accel :: "real \<Rightarrow> real" where
  "get_coast_accel pitch = sin pitch * (- 565 / 100) - 3 / 10"

definition cruise_max_accel :: "plan_car \<Rightarrow> real \<Rightarrow> real \<Rightarrow> real \<Rightarrow> bool \<Rightarrow> real" where
  \<comment> \<open>the limit of \<open>get_cruise_accel\<close> outside the end-to-end mode: the table, the turn, and the coasting\<close>
  "cruise_max_accel cp v_ego angle_steers accel_coast allow_throttle =
     (let a_total_max = np_interp v_ego A_TOTAL_MAX;
          a_y = v_ego\<^sup>2 * angle_steers * (pi / 180) / (pc_steerRatio cp * pc_wheelbase cp);
          a_x_allowed = sqrt (max (a_total_max\<^sup>2 - a_y\<^sup>2) 0);
          max_accel = min (get_max_accel v_ego) a_x_allowed
      in if allow_throttle then max_accel
         else let clipped_accel_coast = max accel_coast (fst (pc_accel_limits cp))
              in min max_accel (np_interp v_ego [(MIN_ALLOW_THROTTLE_SPEED, max_accel), (MIN_ALLOW_THROTTLE_SPEED * 2, clipped_accel_coast)]))"

definition get_cruise_accel :: "plan_car \<Rightarrow> bool \<Rightarrow> real \<Rightarrow> real \<Rightarrow> real \<Rightarrow> real \<Rightarrow> real \<Rightarrow> real \<Rightarrow> bool \<Rightarrow> real option" where
  \<comment> \<open>a zero steering ratio or wheelbase divides by zero\<close>
  "get_cruise_accel cp e2e v_cruise v_ego a_cruise_prev angle_steers dt accel_coast allow_throttle =
     (if e2e then Some (np_clip (v_cruise - v_ego) A_CRUISE_MIN (snd (pc_accel_limits cp)))
      else if pc_steerRatio cp * pc_wheelbase cp = 0 then None
      else let target = np_clip (v_cruise - v_ego) A_CRUISE_MIN (cruise_max_accel cp v_ego angle_steers accel_coast allow_throttle);
               j_cruise = np_interp v_ego J_CRUISE
           in Some (np_clip target (a_cruise_prev - j_cruise * dt) (a_cruise_prev + j_cruise * dt)))"

definition accel_coast_of :: "plan_car \<Rightarrow> plan_input \<Rightarrow> real" where
  "accel_coast_of cp i =
     (case li_orientationNED i of [_, pitch, _] \<Rightarrow> get_coast_accel pitch | _ \<Rightarrow> snd (pc_accel_limits cp))"

definition set_cruise_ms :: "plan_input \<Rightarrow> real" where
  "set_cruise_ms i = (if li_forceDecel i then 0 else min (vCruise (li_CS i)) 145 * KPH_TO_MS)"

definition planner_reset_state :: "plan_car \<Rightarrow> plan_input \<Rightarrow> bool" where
  "planner_reset_state cp i \<longleftrightarrow>
     (if pc_openpilotLongitudinalControl cp then li_long_off i else \<not> li_selfdrive_enabled i) \<or> \<not> vCruise (li_CS i) \<noteq> 255"

definition throttle_allowed :: "plan_input \<Rightarrow> bool" where
  "throttle_allowed i \<longleftrightarrow>
     (case li_gas_probs i of _ # q # _ \<Rightarrow> q | _ \<Rightarrow> 1) > ALLOW_THROTTLE_THRESHOLD \<or> vEgo (li_CS i) \<le> MIN_ALLOW_THROTTLE_SPEED"

definition begin_plan :: "plan_car \<Rightarrow> plan_input \<Rightarrow> planner \<Rightarrow> planner" where
  \<comment> \<open>the reset, and the speed smoothed towards the measured one\<close>
  "begin_plan cp i p =
     (let p = p\<lparr>lp_allow_throttle := throttle_allowed i\<rparr>;
          p = (if planner_reset_state cp i
               then p\<lparr>lp_v_desired := (lp_v_desired p)\<lparr>fo_x := vEgo (li_CS i)\<rparr>,
                      lp_a_desired := np_clip (aEgo (li_CS i)) (fst (pc_accel_limits cp)) (snd (pc_accel_limits cp))\<rparr>
               else p);
          f = fo_update (vEgo (li_CS i)) (lp_v_desired p)
      in p\<lparr>lp_v_desired := f\<lparr>fo_x := max 0 (fo_x f)\<rparr>\<rparr>)"

definition plan_mpc :: "plan_car \<Rightarrow> plan_input \<Rightarrow> planner \<Rightarrow> planner" where
  "plan_mpc cp i p =
     (let m = set_weights (\<not> (planner_reset_state cp i \<or> standstill (li_CS i))) (li_personality i) (lp_mpc p);
          m = set_cur_state (fo_x (lp_v_desired p)) (lp_a_desired p) m;
          m = mpc_update (pc_accel_limits cp) (li_solve i) (li_lead_one i) (li_lead_two i) (li_personality i) m
      in p\<lparr>lp_mpc := m,
           lp_v_trajectory := map (\<lambda>t. np_interp t (zip T_IDXS_MPC (v_solution m))) CONTROL_N_T_IDX,
           lp_a_trajectory := map (\<lambda>t. np_interp t (zip T_IDXS_MPC (a_solution m))) CONTROL_N_T_IDX,
           lp_j_trajectory := map (\<lambda>t. np_interp t (zip (butlast T_IDXS_MPC) (j_solution m))) CONTROL_N_T_IDX,
           lp_fcw := crash_cnt m > 2 \<and> \<not> standstill (li_CS i)\<rparr>)"

definition plan_candidates :: "plan_car \<Rightarrow> plan_input \<Rightarrow> real \<Rightarrow> planner \<Rightarrow> (real \<times> plan_source \<times> bool) list" where
  \<comment> \<open>after the first, which is the solver's: the cruise and, in the end-to-end mode, the model's\<close>
  "plan_candidates cp i v_ego p =
     (lp_a_cruise p, PS_cruise, should_stop_at v_ego (lp_a_cruise p)) #
     (if is_e2e i p then [(li_e2e_accel i, PS_e2e, li_e2e_should_stop i)] else [])"

definition finish_plan :: "plan_car \<Rightarrow> plan_input \<Rightarrow> real \<Rightarrow> planner \<Rightarrow> planner option" where
  "finish_plan cp i v_cruise p =
     do {
       let v_ego = vEgo (li_CS i);
       let a_prev = lp_a_desired p;
       a_mpc \<leftarrow> get_accel_from_plan (lp_v_trajectory p) (lp_a_trajectory p) CONTROL_N_T_IDX (pc_longitudinalActuatorDelay cp + DT_MDL);
       a_cruise \<leftarrow> get_cruise_accel cp (is_e2e i p) v_cruise v_ego (lp_a_cruise p)
                     (steeringAngleDeg (li_CS i) - li_angleOffsetDeg i) (lp_dt p) (accel_coast_of cp i) (lp_allow_throttle p);
       let p = p\<lparr>lp_a_cruise := a_cruise\<rparr>;
       let first = (a_mpc, mpc_source (lp_mpc p), should_stop_at v_ego a_mpc);
       let rest = plan_candidates cp i v_ego p;
       let (a, src, _) = min_by fst first rest;
       let out = np_clip a (fst (pc_accel_limits cp)) (snd (pc_accel_limits cp));
       Some (p\<lparr>lp_mpc := (lp_mpc p)\<lparr>mpc_source := src\<rparr>, lp_should_stop := list_ex (\<lambda>(_, _, stop). stop) (first # rest),
               lp_output_a_target := out, lp_a_desired := out,
               lp_v_desired := (lp_v_desired p)\<lparr>fo_x := fo_x (lp_v_desired p) + lp_dt p * (out + a_prev) / 2\<rparr>\<rparr>)
     }"

definition planner_update :: "plan_car \<Rightarrow> plan_input \<Rightarrow> planner \<Rightarrow> planner option" where
  "planner_update cp i p =
     do {
       p \<leftarrow> sp_update cp i p;
       let p = begin_plan cp i p;
       p \<leftarrow> update_targets cp i (fo_x (lp_v_desired p)) (lp_a_desired p) (set_cruise_ms i) p;
       let p = plan_mpc cp i (p\<lparr>lp_a_desired := lp_output_a_target p\<rparr>);
       finish_plan cp i (lp_output_v_target p) p
     }"

definition planner_init :: "plan_car \<Rightarrow> plan_input \<Rightarrow> real \<Rightarrow> real \<Rightarrow> planner" where
  \<comment> \<open>the parameters at start-up are those of an input\<close>
  "planner_init cp i init_v init_a =
     \<lparr>lp_mpc = LongitudinalMpc DT_MDL, lp_dec = dec_init (li_DynamicExperimentalControl i),
      lp_scc = \<lparr>scc_vision = vision_init (li_SmartCruiseControlVision i), scc_map_of = scc_map_init (li_map i)\<rparr>,
      lp_resolver = resolver_init (li_resolver_params i),
      lp_sla = sla_init (pc_sla cp) (li_IsMetric i) (li_IsReleaseSpBranch i) (li_SpeedLimitMode i),
      lp_e2e = e2e_init (li_GreenLightAlert i) (li_LeadDepartAlert i), lp_events = EventsSP_init False, lp_source = TS_cruise,
      lp_output_v_target = 0, lp_output_a_target = 0, lp_fcw = False, lp_dt = DT_MDL, lp_allow_throttle = True,
      lp_a_desired = init_a, lp_v_desired = FirstOrderFilter init_v 2 DT_MDL True, lp_a_cruise = 0, lp_should_stop = False,
      lp_v_trajectory = replicate 17 0, lp_a_trajectory = replicate 17 0, lp_j_trajectory = replicate 17 0\<rparr>"

section \<open>Lane departure\<close>

record lane_warning =
  ldw_left :: bool
  ldw_right :: bool
  last_blinker_frame :: int

record ldw_input =
  lw_frame :: int
  lw_CS :: car_state
  lw_latActive :: bool
  lw_desire_prediction :: "(real \<times> real) option"
  lw_left_prob :: real
  lw_right_prob :: real
  lw_left_y :: real
  lw_right_y :: real

definition ldw_update :: "ldw_input \<Rightarrow> lane_warning \<Rightarrow> lane_warning" where
  \<comment> \<open>the predictions of a change to the left and to the right, none when the model sends no list; the nearest points of
    the lane lines; \<open>n * 0.05 < 5.0\<close> holds below a hundred\<close>
  "ldw_update i s =
     (let s = (if leftBlinker (lw_CS i) \<or> rightBlinker (lw_CS i) then s\<lparr>last_blinker_frame := lw_frame i\<rparr> else s);
          recent_blinker = lw_frame i - last_blinker_frame s < 100;
          ldw_allowed = (vEgo (lw_CS i) > 31 * MPH_TO_MS \<and> \<not> recent_blinker \<and> \<not> lw_latActive i)
      in case lw_desire_prediction i of
           None \<Rightarrow> s\<lparr>ldw_left := False, ldw_right := False\<rparr>
         | Some (l_prob, r_prob) \<Rightarrow>
             if ldw_allowed
             then s\<lparr>ldw_left := l_prob > 1 / 10 \<and> lw_left_prob i > 5 / 10 \<and> lw_left_y i > - (108 / 100 + 4 / 100),
                    ldw_right := r_prob > 1 / 10 \<and> lw_right_prob i > 5 / 10 \<and> lw_right_y i < 108 / 100 - 4 / 100\<rparr>
             else s\<lparr>ldw_left := False, ldw_right := False\<rparr>)"

section \<open>The loop of plannerd\<close>

record plannerd =
  pd_planner :: planner
  pd_ldw :: lane_warning

record plannerd_input =
  pi_raw :: "button_type \<Rightarrow> nat"
  pi_buttons_now :: real
  pi_release_toggle :: int
  pi_model_updated :: bool
  pi_plan :: plan_input
  pi_ldw :: ldw_input

definition plannerd_step :: "plan_car \<Rightarrow> plannerd_input \<Rightarrow> plannerd \<Rightarrow> plannerd option" where
  "plannerd_step cp i d =
     do {
       let p = pd_planner d;
       let s = lp_sla p;
       let m = sla_update_buttons (pi_raw i) (pi_buttons_now i) (release_toggle_prev s XOR pi_release_toggle i) (machine s);
       let p = p\<lparr>lp_sla := s\<lparr>machine := m, release_toggle_prev := pi_release_toggle i\<rparr>\<rparr>;
       if pi_model_updated i then do {
         p \<leftarrow> planner_update cp (pi_plan i) p;
         Some (d\<lparr>pd_planner := p, pd_ldw := ldw_update (pi_ldw i) (pd_ldw d)\<rparr>)
       } else Some (d\<lparr>pd_planner := p\<rparr>)
     }"

end
