(* ===== verification/SmartCruiseFacts.thy ===== *)
theory SmartCruiseFacts
  imports SmartCruise Returns
begin

text \<open>
  What the curve speed sources promise: when they speak and what they then ask for, and that the
  braking distance of the map source is the way to the target speed under its jerk and deceleration.
\<close>

section \<open>When a source is active\<close>

definition vision_ok :: "vision \<Rightarrow> bool" where
  "vision_ok s \<longleftrightarrow> vis_output_v_target s = vision_v_target_from_control s \<and>
     (vis_is_active s \<longrightarrow> vis_long_enabled s \<and> \<not> vis_long_override s \<and> vis_enabled s)"

definition map_ok :: "scc_map \<Rightarrow> bool" where
  "map_ok s \<longleftrightarrow> map_output_v_target s = map_v_target_from_control s \<and>
     (map_is_active s \<longrightarrow> map_long_enabled s \<and> \<not> map_long_override s \<and> map_enabled s)"

lemma vision_next_active:
  "vision_next_state s \<in> set VISION_ACTIVE_STATES \<Longrightarrow> vis_long_enabled s \<and> \<not> vis_long_override s \<and> vis_enabled s"
  by (simp add: vision_next_state_def VISION_ACTIVE_STATES_def split: if_splits)

lemma map_next_active:
  "map_next_state s \<in> set MAP_ACTIVE_STATES \<Longrightarrow>
     map_long_enabled s \<and> \<not> map_long_override s \<and> map_enabled s \<and> map_v_target s < map_v_cruise s \<and> map_v_target s \<noteq> 0"
  by (auto simp: map_next_state_def MAP_ACTIVE_STATES_def Let_def split: if_splits map_state.splits)

lemma vision_calculations_keep:
  "vision_update_calculations i s = Some t \<Longrightarrow>
     vis_long_enabled t = vis_long_enabled s \<and> vis_long_override t = vis_long_override s \<and> vis_enabled t = vis_enabled s"
  by (auto simp: vision_update_calculations_def Let_def split: if_splits bind_splits)

lemma map_calculations_keep:
  "map_update_calculations i s = Some t \<Longrightarrow>
     map_long_enabled t = map_long_enabled s \<and> map_long_override t = map_long_override s \<and> map_enabled t = map_enabled s \<and>
     map_v_cruise t = map_v_cruise s"
  by (auto simp: map_update_calculations_def Let_def split: if_splits bind_splits prod.splits)

lemma vision_update_ok:
  assumes "vision_update c i s = Some t"
  shows "vision_ok t" "vis_long_enabled t = ci_long_enabled c" "vis_long_override t = ci_long_override c"
proof -
  from assms obtain u where u: "vision_update_calculations i
      (if vis_frame s mod 60 = 0 then (s\<lparr>vis_long_enabled := ci_long_enabled c, vis_long_override := ci_long_override c, vis_v_ego := ci_v_ego c,
         vis_a_ego := ci_a_ego c, vis_v_cruise_setpoint := ci_v_cruise c\<rparr>)\<lparr>vis_enabled := vi_param i\<rparr>
       else s\<lparr>vis_long_enabled := ci_long_enabled c, vis_long_override := ci_long_override c, vis_v_ego := ci_v_ego c,
         vis_a_ego := ci_a_ego c, vis_v_cruise_setpoint := ci_v_cruise c\<rparr>) = Some u"
    by (auto simp: vision_update_def Let_def split: bind_splits if_splits)
  from vision_calculations_keep [OF u] have k: "vis_long_enabled u = ci_long_enabled c" "vis_long_override u = ci_long_override c"
    by simp_all
  have t: "t = (let v = u\<lparr>vis_state := vision_next_state u\<rparr>;
        v = v\<lparr>vis_is_enabled := vis_state v \<in> set VISION_ENABLED_STATES, vis_is_active := vis_state v \<in> set VISION_ACTIVE_STATES\<rparr>;
        v = v\<lparr>vis_a_target := vision_update_solution v\<rparr>
      in v\<lparr>vis_output_v_target := vision_v_target_from_control v, vis_output_a_target := vis_a_target v, vis_frame := vis_frame v + 1\<rparr>)"
    using assms u by (auto simp: vision_update_def Let_def split: if_splits)
  show "vis_long_enabled t = ci_long_enabled c" "vis_long_override t = ci_long_override c" using k by (simp_all add: t Let_def)
  show "vision_ok t" using vision_next_active [of u]
    by (simp add: t Let_def vision_ok_def vision_v_target_from_control_def)
qed

lemma scc_map_update_ok:
  assumes "scc_map_update c i s = Some t"
  shows "map_ok t" "map_long_enabled t = ci_long_enabled c" "map_long_override t = ci_long_override c"
    "map_is_active t \<Longrightarrow> map_v_target t < ci_v_cruise c"
proof -
  from assms obtain u where u: "map_update_calculations i
      (if map_frame s mod 60 = 0 then (s\<lparr>map_long_enabled := ci_long_enabled c, map_long_override := ci_long_override c, map_v_ego := ci_v_ego c,
         map_a_ego := ci_a_ego c, map_v_cruise := ci_v_cruise c\<rparr>)\<lparr>map_enabled := mi_param i\<rparr>
       else s\<lparr>map_long_enabled := ci_long_enabled c, map_long_override := ci_long_override c, map_v_ego := ci_v_ego c,
         map_a_ego := ci_a_ego c, map_v_cruise := ci_v_cruise c\<rparr>) = Some u"
    by (auto simp: scc_map_update_def Let_def split: bind_splits if_splits)
  from map_calculations_keep [OF u]
  have k: "map_long_enabled u = ci_long_enabled c" "map_long_override u = ci_long_override c" "map_v_cruise u = ci_v_cruise c"
    by simp_all
  have t: "t = (let v = u\<lparr>map_state_now := map_next_state u\<rparr>;
        v = v\<lparr>map_is_enabled := map_state_now v \<in> set MAP_ENABLED_STATES, map_is_active := map_state_now v \<in> set MAP_ACTIVE_STATES\<rparr>
      in v\<lparr>map_output_v_target := map_v_target_from_control v, map_output_a_target := map_a_ego v, map_frame := map_frame v + 1\<rparr>)"
    using assms u by (auto simp: scc_map_update_def Let_def split: if_splits)
  show "map_long_enabled t = ci_long_enabled c" "map_long_override t = ci_long_override c" using k by (simp_all add: t Let_def)
  show "map_ok t" using map_next_active [of u] by (simp add: t Let_def map_ok_def map_v_target_from_control_def)
  show "map_is_active t \<Longrightarrow> map_v_target t < ci_v_cruise c" using map_next_active [of u] k by (simp add: t Let_def)
qed

section \<open>The way to a target speed\<close>

definition reaches_speed :: "real \<Rightarrow> real \<Rightarrow> real \<Rightarrow> real \<Rightarrow> bool" where
  \<comment> \<open>with the target jerk for a while, and then the target deceleration for a while, the speed comes down to \<open>tv\<close> over
    the distance \<open>d\<close>\<close>
  "reaches_speed v_ego a_ego tv d \<longleftrightarrow>
     (\<exists>t1 t2. 0 < t1 + t2 \<and> 0 \<le> t1 \<and> 0 \<le> t2 \<and> (t2 = 0 \<or> a_ego + TARGET_JERK * t1 = TARGET_ACCEL) \<and>
        (let v1 = calculate_velocity t1 TARGET_JERK a_ego v_ego
         in calculate_velocity t2 0 TARGET_ACCEL v1 = tv \<and>
            d = calculate_distance t1 TARGET_JERK a_ego v_ego + calculate_distance t2 0 TARGET_ACCEL v1))"

lemma jerk_time:
  fixes b c :: real
  defines "t \<equiv> -1 * (sqrt (b\<^sup>2 - 4 * (1 / 2 * TARGET_JERK) * c) + b) / (2 * (1 / 2 * TARGET_JERK))"
  assumes "0 < c"
  shows "0 \<le> b\<^sup>2 - 4 * (1 / 2 * TARGET_JERK) * c" "0 < t" "c + b * t + TARGET_JERK / 2 * t\<^sup>2 = 0"
proof -
  let ?D = "b\<^sup>2 - 4 * (1 / 2 * TARGET_JERK) * c"
  show D: "0 \<le> ?D" using assms by simp
  have "\<bar>b\<bar> = sqrt (b\<^sup>2)" by simp
  also have "\<dots> < sqrt ?D" using assms by (intro real_sqrt_less_mono) simp
  finally show "0 < t" unfolding t_def by (simp add: field_simps)
  define s where "s = sqrt ?D"
  have s: "s\<^sup>2 = b\<^sup>2 + 12 / 10 * c" using D by (simp add: s_def)
  have "t = (s + b) * (10 / 6)" unfolding t_def s_def by (simp add: field_simps)
  then have t: "t = (s + b) * (5 / 3)" by simp
  have "c + b * t + TARGET_JERK / 2 * t\<^sup>2 = c + (b\<^sup>2 - s\<^sup>2) * (10 / 12)"
    unfolding t by (simp add: power2_eq_square field_simps)
  then show "c + b * t + TARGET_JERK / 2 * t\<^sup>2 = 0" unfolding s by simp
qed

lemma distance_integrates_velocity:
  "((\<lambda>t. calculate_distance t j a v) has_real_derivative calculate_velocity t j a v) (at t)"
  unfolding calculate_distance_def calculate_velocity_def by (auto intro!: derivative_eq_intros simp: power2_eq_square)

lemma reaches_by_jerk:
  assumes "0 < t" "calculate_velocity t TARGET_JERK a v = tv"
  shows "reaches_speed v a tv (calculate_distance t TARGET_JERK a v)"
  unfolding reaches_speed_def Let_def using assms
  by (intro exI [of _ t] exI [of _ 0]) (simp add: calculate_velocity_def calculate_distance_def)

lemma reaches_by_both:
  assumes "0 \<le> t" "0 \<le> u" "0 < t + u" "a + TARGET_JERK * t = TARGET_ACCEL"
    "calculate_velocity t TARGET_JERK a v + TARGET_ACCEL * u = tv"
  shows "reaches_speed v a tv (calculate_distance t TARGET_JERK a v + calculate_distance u 0 TARGET_ACCEL (calculate_velocity t TARGET_JERK a v))"
  unfolding reaches_speed_def Let_def using assms
  by (intro exI [of _ t] exI [of _ u]) (simp add: calculate_velocity_def [where target_jerk = 0])

lemma jerk_phase:
  assumes "- 12 / 10 \<le> (a :: real)"
  shows "0 \<le> \<bar>(a - TARGET_ACCEL) / TARGET_JERK\<bar>" "a + TARGET_JERK * \<bar>(a - TARGET_ACCEL) / TARGET_JERK\<bar> = TARGET_ACCEL"
  using assms by (simp_all add: field_simps)

lemma accel_phase:
  assumes "tv \<le> (m :: real)"
  shows "0 \<le> \<bar>(m - tv) / TARGET_ACCEL\<bar>" "m + TARGET_ACCEL * \<bar>(m - tv) / TARGET_ACCEL\<bar> = tv"
  using assms by (simp_all add: field_simps)

text \<open>
  The map source brakes in time: for a target speed below the car's, while the car does not
  already brake harder than the planner's limit, the square root is never complex and the braking
  distance is what the car covers while it first builds up the deceleration with the target jerk and
  then holds it, until it has exactly the target speed.
\<close>
theorem braking_distance_reaches_target:
  assumes "tv < v_ego" "- 12 / 10 \<le> a_ego"
  shows "\<exists>d. braking_distance v_ego a_ego tv = Some d \<and> reaches_speed v_ego a_ego tv d"
proof -
  let ?t = "\<bar>(a_ego - TARGET_ACCEL) / TARGET_JERK\<bar>" and ?c = "v_ego - tv"
  let ?m = "calculate_velocity ?t TARGET_JERK a_ego v_ego" and ?ta = "-1 * (sqrt (a_ego\<^sup>2 - 4 * (1 / 2 * TARGET_JERK) * ?c) + a_ego) / (2 * (1 / 2 * TARGET_JERK))"
  have "0 < ?c" using assms(1) by simp
  note ta = jerk_time [OF this, of a_ego]
  show ?thesis
  proof (cases "tv > ?m")
    case True
    have D: "\<not> a_ego\<^sup>2 - 4 * (1 / 2 * TARGET_JERK) * ?c < 0" using ta(1) by (simp only: not_less)
    have "braking_distance v_ego a_ego tv = Some (calculate_distance ?ta TARGET_JERK a_ego v_ego)"
      unfolding braking_distance_def Let_def if_P [OF True] if_not_P [OF D] if_P [OF ta(2)] ..
    moreover have "calculate_velocity ?ta TARGET_JERK a_ego v_ego = tv" using ta(3) unfolding calculate_velocity_def by linarith
    note reaches_by_jerk [OF ta(2) this]
    ultimately show ?thesis by blast
  next
    case False
    note t = jerk_phase [OF assms(2)] and u = accel_phase [OF False [unfolded not_less]]
    let ?u = "\<bar>(?m - tv) / TARGET_ACCEL\<bar>"
    have "0 < ?u" if "?t = 0" using assms(1) unfolding that by (simp add: calculate_velocity_def)
    with t(1) u(1) have "0 < ?t + ?u" by linarith
    note reaches_by_both [OF t(1) u(1) this t(2) u(2)]
    moreover have "braking_distance v_ego a_ego tv = Some (calculate_distance ?t TARGET_JERK a_ego v_ego + calculate_distance ?u 0 TARGET_ACCEL ?m)"
      unfolding braking_distance_def Let_def if_not_P [OF False] ..
    ultimately show ?thesis by blast
  qed
qed

theorem braking_distance_reaches_target_witness:
  "\<exists>d. braking_distance 20 0 10 = Some d \<and> reaches_speed 20 0 10 d"
  by (rule braking_distance_reaches_target) simp_all

section \<open>A frame never raises\<close>

lemma haversine_unit:
  assumes "\<bar>ax\<bar> \<le> pi / 2" "\<bar>bx\<bar> \<le> pi / 2"
  shows "0 \<le> sin ((bx - ax) / 2) * sin ((bx - ax) / 2) + cos ax * cos bx * sin y * sin y"
    "sin ((bx - ax) / 2) * sin ((bx - ax) / 2) + cos ax * cos bx * sin y * sin y \<le> 1"
proof -
  let ?k = "cos ax * cos bx"
  have k: "0 \<le> ?k" using assms by (intro mult_nonneg_nonneg cos_ge_zero) simp_all
  have sy: "sin y * sin y \<le> 1" "0 \<le> sin y * sin y"
    using sin_cos_squared_add [of y] zero_le_power2 [of "cos y"] zero_le_power2 [of "sin y"] unfolding power2_eq_square by linarith+
  then have b: "?k * (sin y * sin y) \<le> ?k" "0 \<le> ?k * (sin y * sin y)" using k by (simp_all add: mult_left_le)
  have below: "(1 - (k + s)) / 2 + x \<le> 1" if "k - s \<le> 1" "x \<le> k" for k s x :: real using that by (simp add: field_simps)
  have half: "s = (1 - c) / 2" if "c = 1 - 2 * s" for s c :: real using that by simp
  have e: "2 * ((bx - ax) / 2) = bx - ax" by simp
  have h: "sin ((bx - ax) / 2) * sin ((bx - ax) / 2) = (1 - cos (bx - ax)) / 2"
    by (rule half) (rule cos_double_sin [of "(bx - ax) / 2", unfolded e power2_eq_square])
  have "cos (bx - ax) = ?k + sin bx * sin ax" by (simp add: cos_diff)
  moreover have "?k - sin bx * sin ax \<le> 1" using cos_le_one [of "bx + ax"] by (simp add: cos_add mult.commute)
  ultimately show "sin ((bx - ax) / 2) * sin ((bx - ax) / 2) + ?k * sin y * sin y \<le> 1"
    using b(1) below unfolding h by (simp only: mult.assoc)
  show "0 \<le> sin ((bx - ax) / 2) * sin ((bx - ax) / 2) + ?k * sin y * sin y" using b(2) by (simp add: mult.assoc)
qed

lemma distance_returns:
  assumes "\<bar>ax\<bar> \<le> pi / 2" "\<bar>bx\<bar> \<le> pi / 2" shows "\<exists>d. distance_to_point ax ay bx b_y = Some d"
  using haversine_unit [OF assms, of "(b_y - ay) / 2"] by (simp add: distance_to_point_def math_sqrt_def Let_def)

definition map_input_ok :: "map_input \<Rightarrow> bool" where
  \<comment> \<open>latitudes between the poles\<close>
  "map_input_ok i \<longleftrightarrow> \<bar>fst (position_of i)\<bar> \<le> 90 \<and> list_all (\<lambda>t. \<bar>mp_lat t\<bar> \<le> 90) (velocities_of i)"

lemma radians_bound: "\<bar>x\<bar> \<le> 90 \<Longrightarrow> \<bar>x * TO_RADIANS\<bar> \<le> pi / 2"
proof -
  assume "\<bar>x\<bar> \<le> 90"
  then have "\<bar>x\<bar> * (pi / 180) \<le> 90 * (pi / 180)" by (intro mult_right_mono) simp_all
  then show ?thesis by (simp add: abs_mult)
qed

lemma distances_return:
  "\<bar>fst p\<bar> \<le> 90 \<Longrightarrow> list_all (\<lambda>t. \<bar>mp_lat t\<bar> \<le> 90) ts \<Longrightarrow> \<exists>ds. map_distances p ts = Some ds"
proof (induction ts)
  case (Cons t ts)
  from Cons.prems distance_returns [OF radians_bound radians_bound, of "fst p" "mp_lat t" "snd p * TO_RADIANS" "mp_lon t * TO_RADIANS"]
  obtain d where "distance_to_point (fst p * TO_RADIANS) (snd p * TO_RADIANS) (mp_lat t * TO_RADIANS) (mp_lon t * TO_RADIANS) = Some d"
    by auto
  with Cons show ?case by auto
qed simp

lemma map_calculations_return: "map_input_ok i \<Longrightarrow> returns (map_update_calculations i s) (\<lambda>_. True)"
  using distances_return [of "position_of i" "velocities_of i"]
  by (auto simp: map_update_calculations_def map_input_ok_def Let_def split: prod.split)

lemma scc_map_update_returns: "map_input_ok i \<Longrightarrow> returns (scc_map_update c i s) (\<lambda>_. True)"
  unfolding scc_map_update_def by (intro returns_LetI returns_bindI map_calculations_return) simp_all

definition vision_input_ok :: "vision_input \<Rightarrow> bool" where
  \<comment> \<open>the model's arrays have the same number of entries, and some\<close>
  "vision_input_ok i \<longleftrightarrow> length (vi_rates i) = length (vi_speeds i) \<and> vi_speeds i \<noteq> []"

lemma vision_calculations_return: "vision_input_ok i \<Longrightarrow> returns (vision_update_calculations i s) (\<lambda>_. True)"
  by (auto simp: vision_update_calculations_def vision_input_ok_def np_times_def np_percentile_def Let_def)

lemma vision_update_returns: "vision_input_ok i \<Longrightarrow> returns (vision_update c i s) (\<lambda>_. True)"
  unfolding vision_update_def by (intro returns_LetI returns_bindI vision_calculations_return) simp_all

lemma smart_cruise_returns:
  "map_input_ok mi \<Longrightarrow> vision_input_ok vi \<Longrightarrow> returns (smart_cruise_update c vi mi s) (\<lambda>_. True)"
  unfolding smart_cruise_update_def
  by (intro returns_bindI scc_map_update_returns vision_update_returns) simp_all

end
