(* ===== verification/LongPlannerFacts.thy ===== *)
theory LongPlannerFacts
  imports LongPlanner SmartCruiseFacts DecFacts
begin

text \<open>
  What the planner promises of its sources of a target speed, of the acceleration it asks for, of its
  collision warning and of its chimes. The speed sources share one contract, the locale
  \<open>speed_source\<close>, which the vision, the map and the speed limit assist provide.
\<close>

section \<open>The contract of a speed source\<close>

locale speed_source =
  fixes ok :: "'s \<Rightarrow> bool" and offer :: "'s \<Rightarrow> real option" and active :: "'s \<Rightarrow> bool" and engaged :: "'s \<Rightarrow> bool"
  assumes silent: "ok s \<Longrightarrow> \<not> active s \<Longrightarrow> offer s = Some 255"
    and active_engaged: "ok s \<Longrightarrow> active s \<Longrightarrow> engaged s"
begin

lemma offer_engaged: "ok s \<Longrightarrow> offer s = Some v \<Longrightarrow> v < 255 \<Longrightarrow> active s \<and> engaged s"
  using silent [of s] active_engaged [of s] by auto

end

definition vision_engaged :: "vision \<Rightarrow> bool" where
  "vision_engaged s \<longleftrightarrow> vis_long_enabled s \<and> \<not> vis_long_override s \<and> vis_enabled s"

definition map_engaged :: "scc_map \<Rightarrow> bool" where
  "map_engaged s \<longleftrightarrow> map_long_enabled s \<and> \<not> map_long_override s \<and> map_enabled s"

definition sla_ok :: "sla \<Rightarrow> bool" where
  "sla_ok s \<longleftrightarrow> output_v_target s = get_v_target_from_control s \<and> (sla_is_active s \<longrightarrow> sla_is_enabled s) \<and>
     (sla_is_enabled s \<longrightarrow> long_enabled (seen s) \<and> sla_enabled (seen s))"

definition sla_engaged :: "sla \<Rightarrow> bool" where
  "sla_engaged s \<longleftrightarrow> long_enabled (seen s) \<and> sla_enabled (seen s) \<and> has_speed_limit (seen s)"

interpretation vision: speed_source vision_ok vis_output_v_target vis_is_active vision_engaged
  by unfold_locales (simp_all add: vision_ok_def vision_v_target_from_control_def vision_engaged_def)

interpretation curve_map: speed_source map_ok "\<lambda>s. Some (map_output_v_target s)" map_is_active map_engaged
  by unfold_locales (simp_all add: map_ok_def map_v_target_from_control_def map_engaged_def)

interpretation assist: speed_source sla_ok "\<lambda>s. Some (output_v_target s)"
    "\<lambda>s. has_speed_limit (seen s) \<and> (if sla_pcm_op_long (seen s) then sla_is_enabled s else sla_is_active s)" sla_engaged
  by unfold_locales (auto simp: sla_ok_def get_v_target_from_control_def Let_def sla_engaged_def split: if_splits)

lemma enabled_assist:
  assumes "sla_state (run_machine now c m) \<noteq> SLA_disabled" shows "long_enabled c \<and> sla_enabled c"
proof (rule ccontr)
  assume "\<not> (long_enabled c \<and> sla_enabled c)"
  then have "sla_state (run_machine now c m) = SLA_disabled"
    by (auto simp: run_machine_def update_state_machine_pcm_op_long_def update_state_machine_non_pcm_long_def Let_def sla_tick_def)
  with assms show False by simp
qed

lemma sla_update_facts:
  fixes cp i s ev
  defines "c \<equiv> see_frame cp i (sla_frame s) (seen s)" and "t \<equiv> fst (sla_update cp i (s, ev))"
  shows "sla_is_enabled t = (sla_state (run_machine (i_now i) c (machine s)) \<in> set SLA_ENABLED_STATES)"
    "sla_is_active t = (sla_state (run_machine (i_now i) c (machine s)) \<in> set SLA_ACTIVE_STATES)"
    "long_enabled (seen t) = i_long_enabled i" "sla_enabled (seen t) = sla_enabled c" "long_enabled c = i_long_enabled i"
    "output_v_target t = get_v_target_from_control t"
proof -
  show c: "long_enabled c = i_long_enabled i"
    by (simp add: c_def see_frame_def update_calculations_def Let_def split: prod.split)
  show "sla_is_enabled t = (sla_state (run_machine (i_now i) c (machine s)) \<in> set SLA_ENABLED_STATES)"
    "sla_is_active t = (sla_state (run_machine (i_now i) c (machine s)) \<in> set SLA_ACTIVE_STATES)" "sla_enabled (seen t) = sla_enabled c"
    "long_enabled (seen t) = i_long_enabled i"
    by (simp_all add: t_def c [symmetric] sla_update_def Let_def flip: c_def)
  show "output_v_target t = get_v_target_from_control t"
    by (simp add: t_def sla_update_def Let_def get_v_target_from_control_def flip: c_def)
qed

lemma sla_update_ok: "sla_ok (fst (sla_update cp i (s, ev)))"
  using enabled_assist [of "i_now i" "see_frame cp i (sla_frame s) (seen s)" "machine s"]
  by (cases "sla_state (run_machine (i_now i) (see_frame cp i (sla_frame s) (seen s)) (machine s))")
    (simp_all add: sla_ok_def sla_update_facts SLA_ENABLED_STATES_def SLA_ACTIVE_STATES_def)

section \<open>The choice of a target\<close>

lemma least_target_of:
  "least_target best ts = best \<or>
     (\<exists>src v a. least_target best ts = (src, v, a) \<and> (src, Some v, a) \<in> set ts \<and> v < fst (snd best))"
  by (induction best ts rule: least_target.induct) (auto split: if_splits)

lemma least_target_best: "fst (snd (least_target best ts)) \<le> fst (snd best)"
  by (induction best ts rule: least_target.induct) (auto split: if_splits)

lemma least_target_least: "(src, Some v, a) \<in> set ts \<Longrightarrow> fst (snd (least_target best ts)) \<le> v"
proof (induction best ts rule: least_target.induct)
  case (3 best src' v' a' ts)
  then show ?case using least_target_best [of "if v' < fst (snd best) then (src', v', a') else best" ts]
    by (auto split: if_splits)
qed auto

definition source_engaged :: "plan_input \<Rightarrow> planner \<Rightarrow> bool" where
  \<comment> \<open>the source of the plan's target may act: its feature is on and openpilot controls the speed, for the curve sources
    without the driver overriding it, for the speed limit with a limit known\<close>
  "source_engaged i p \<longleftrightarrow>
     (case lp_source p of
        TS_cruise \<Rightarrow> True
      | TS_sccVision \<Rightarrow> li_CC_enabled i \<and> \<not> li_CC_override i \<and> vis_enabled (scc_vision (lp_scc p)) \<and> vis_is_active (scc_vision (lp_scc p))
      | TS_sccMap \<Rightarrow> li_CC_enabled i \<and> \<not> li_CC_override i \<and> map_enabled (scc_map_of (lp_scc p)) \<and> map_is_active (scc_map_of (lp_scc p))
      | TS_speedLimitAssist \<Rightarrow> li_CC_enabled i \<and> sla_enabled (seen (lp_sla p)) \<and> has_speed_limit (seen (lp_sla p)))"

definition offered_speed :: "real \<Rightarrow> planner \<Rightarrow> target_source \<Rightarrow> real option" where
  \<comment> \<open>what a source offers in this frame; the vision source may offer no number\<close>
  "offered_speed v_cruise p src =
     (case src of
        TS_cruise \<Rightarrow> Some v_cruise
      | TS_sccVision \<Rightarrow> vis_output_v_target (scc_vision (lp_scc p))
      | TS_sccMap \<Rightarrow> Some (map_output_v_target (scc_map_of (lp_scc p)))
      | TS_speedLimitAssist \<Rightarrow> Some (output_v_target (lp_sla p)))"

definition slowest_of_sources :: "real \<Rightarrow> planner \<Rightarrow> bool" where
  \<comment> \<open>the target is what the plan's source offers, and the least of the speeds that the sources offer\<close>
  "slowest_of_sources v_cruise p \<longleftrightarrow>
     offered_speed v_cruise p (lp_source p) = Some (lp_output_v_target p) \<and>
     lp_output_v_target p \<le> v_cruise \<and> lp_output_v_target p \<le> map_output_v_target (scc_map_of (lp_scc p)) \<and>
     lp_output_v_target p \<le> output_v_target (lp_sla p) \<and>
     (case vis_output_v_target (scc_vision (lp_scc p)) of None \<Rightarrow> True | Some v \<Rightarrow> lp_output_v_target p \<le> v)"

lemma update_targets_facts:
  assumes "update_targets cp i v_ego a_ego v_cruise p = Some q"
  shows "vision_ok (scc_vision (lp_scc q))" "map_ok (scc_map_of (lp_scc q))" "sla_ok (lp_sla q)"
    "vis_long_enabled (scc_vision (lp_scc q)) = li_CC_enabled i" "vis_long_override (scc_vision (lp_scc q)) = li_CC_override i"
    "map_long_enabled (scc_map_of (lp_scc q)) = li_CC_enabled i" "map_long_override (scc_map_of (lp_scc q)) = li_CC_override i"
    "long_enabled (seen (lp_sla q)) = li_CC_enabled i"
    "(lp_source q, lp_output_v_target q) = (fst (plan_targets v_cruise a_ego q), fst (snd (plan_targets v_cruise a_ego q)))"
    "lp_output_a_target q \<le> a_ego"
proof -
  let ?c = "\<lparr>ci_long_enabled = li_CC_enabled i, ci_long_override = li_CC_override i, ci_v_ego = v_ego, ci_a_ego = a_ego, ci_v_cruise = v_cruise\<rparr>"
  let ?vi = "\<lparr>vi_param = li_SmartCruiseControlVision i, vi_rates = li_orientation_rate_z i, vi_speeds = li_velocity_x i, vi_curvature = li_curvature i\<rparr>"
  from assms obtain scc r where scc: "smart_cruise_update ?c ?vi (li_map i) (lp_scc p) = Some scc"
    and r: "resolver_update (li_resolver_params i) v_ego (li_road i) (lp_resolver p) = Some r"
    unfolding update_targets_def by (auto split: bind_splits simp: Let_def)
  from scc obtain m v where m: "scc_map_update ?c (li_map i) (scc_map_of (lp_scc p)) = Some m"
    and v: "vision_update ?c ?vi (scc_vision (lp_scc p)) = Some v"
    and "scc = (lp_scc p)\<lparr>scc_map_of := m, scc_vision := v\<rparr>"
    by (auto simp: smart_cruise_update_def split: bind_splits)
  then have "scc_map_of scc = m" "scc_vision scc = v" by simp_all
  define i' where "i' = sla_input_of i v_ego a_ego (p\<lparr>lp_scc := scc, lp_resolver := r\<rparr>)"
  define se where "se = sla_update (pc_sla cp) i' (lp_sla p, lp_events p)"
  define p' where "p' = p\<lparr>lp_scc := scc, lp_resolver := r, lp_sla := fst se, lp_events := snd se\<rparr>"
  define t where "t = plan_targets v_cruise a_ego p'"
  have q: "q = p'\<lparr>lp_source := fst t, lp_output_v_target := fst (snd t), lp_output_a_target := clamp_speed_cap_accel (snd (snd t)) a_ego\<rparr>"
    using assms scc r by (simp add: update_targets_def Let_def t_def p'_def se_def i'_def split: prod.splits)
  have same: "plan_targets v_cruise a_ego q = t" by (simp add: q t_def plan_targets_def source_offers_def)
  have parts: "lp_scc q = scc" "lp_sla q = fst se" by (simp_all add: q p'_def)
  show "vision_ok (scc_vision (lp_scc q))" "map_ok (scc_map_of (lp_scc q))"
    "vis_long_enabled (scc_vision (lp_scc q)) = li_CC_enabled i" "vis_long_override (scc_vision (lp_scc q)) = li_CC_override i"
    "map_long_enabled (scc_map_of (lp_scc q)) = li_CC_enabled i" "map_long_override (scc_map_of (lp_scc q)) = li_CC_override i"
    using vision_update_ok [OF v] scc_map_update_ok [OF m] \<open>scc_map_of scc = m\<close> \<open>scc_vision scc = v\<close> by (simp_all add: parts)
  show "sla_ok (lp_sla q)" by (simp add: parts se_def sla_update_ok)
  show "long_enabled (seen (lp_sla q)) = li_CC_enabled i"
    by (simp add: parts se_def sla_update_facts) (simp add: i'_def sla_input_of_def Let_def)
  show "(lp_source q, lp_output_v_target q) = (fst (plan_targets v_cruise a_ego q), fst (snd (plan_targets v_cruise a_ego q)))"
    unfolding same by (simp add: q)
  show "lp_output_a_target q \<le> a_ego" by (simp add: q clamp_speed_cap_accel_def)
qed

lemma set_cruise_bound: "set_cruise_ms i < 255"
proof -
  have "min (vCruise (li_CS i)) 145 \<le> 145" by simp
  then show ?thesis unfolding set_cruise_ms_def by (simp add: min.coboundedI2) linarith?
qed

text \<open>
  C5. The speed of the plan is safe to follow: whatever the sources have done before, the target of a
  frame is the speed that its source offers in this frame, and the least of the speeds that the
  driver's set speed, the curve sources and the speed limit assist offer; a source other than the set speed is only followed while its feature is on, openpilot
  is engaged, the driver does not override a curve source and a limit is known for the assist; and no
  source raises the acceleration above the one the plan already has.
\<close>
theorem plan_follows_least_engaged_source:
  "case update_targets cp i v_ego a_ego (set_cruise_ms i) p of
     None \<Rightarrow> True
   | Some q \<Rightarrow> slowest_of_sources (set_cruise_ms i) q \<and> source_engaged i q \<and> lp_output_a_target q \<le> a_ego"
proof (cases "update_targets cp i v_ego a_ego (set_cruise_ms i) p")
  case (Some q)
  note facts = update_targets_facts [OF Some]
  let ?best = "(TS_cruise, set_cruise_ms i, a_ego)"
  from facts(9) have src: "lp_source q = fst (plan_targets (set_cruise_ms i) a_ego q)"
    and out: "lp_output_v_target q = fst (snd (plan_targets (set_cruise_ms i) a_ego q))" by simp_all
  have offered: "offered_speed (set_cruise_ms i) q (lp_source q) = Some (lp_output_v_target q)"
    using least_target_of [of ?best "source_offers q"] unfolding src out plan_targets_def
    by (auto simp: source_offers_def offered_speed_def)
  have least: "slowest_of_sources (set_cruise_ms i) q"
    using offered least_target_best [of ?best] least_target_least [of _ _ _ _ ?best]
    unfolding slowest_of_sources_def out plan_targets_def by (auto simp: source_offers_def split: option.split)
  have "source_engaged i q"
    using least_target_of [of ?best "source_offers q"] unfolding plan_targets_def [symmetric]
  proof (elim disjE exE conjE)
    assume "plan_targets (set_cruise_ms i) a_ego q = ?best"
    then show ?thesis by (simp add: source_engaged_def src)
  next
    fix s v a
    assume t: "plan_targets (set_cruise_ms i) a_ego q = (s, v, a)" "v < fst (snd ?best)"
      and m: "(s, Some v, a) \<in> set (source_offers q)"
    then have v: "v < 255" using set_cruise_bound [of i] by simp
    from m consider "s = TS_sccVision" "vis_output_v_target (scc_vision (lp_scc q)) = Some v"
      | "s = TS_sccMap" "Some (map_output_v_target (scc_map_of (lp_scc q))) = Some v"
      | "s = TS_speedLimitAssist" "Some (output_v_target (lp_sla q)) = Some v" by (auto simp: source_offers_def)
    then show ?thesis
      using vision.offer_engaged [OF facts(1) _ v] curve_map.offer_engaged [OF facts(2) _ v] assist.offer_engaged [OF facts(3) _ v] facts(4-8)
      by cases (simp_all add: source_engaged_def src t vision_engaged_def map_engaged_def sla_engaged_def)
  qed
  with least facts(10) Some show ?thesis by simp
qed simp

section \<open>The acceleration\<close>

















section \<open>The chimes\<close>

fun e2e_states :: "e2e_input list \<Rightarrow> e2e \<times> events_state \<Rightarrow> e2e list option" where
  \<comment> \<open>the states after the frames of a run\<close>
  "e2e_states [] se = Some []"
| "e2e_states (i # is) se =
     (case e2e_update i se of None \<Rightarrow> None | Some (t, ev) \<Rightarrow> map_option ((#) t) (e2e_states is (t, ev)))"

definition green_stop :: "e2e \<Rightarrow> bool" where
  \<comment> \<open>the car stands at a light: nobody ahead, nobody driving, and the alert is on\<close>
  "green_stop s \<longleftrightarrow> e2e_allowed s \<and> \<not> e2e_has_lead s \<and> green_light_alert_enabled s"

definition lead_stop :: "e2e \<Rightarrow> bool" where
  "lead_stop s \<longleftrightarrow> e2e_allowed s \<and> lead_depart_armed s \<and> lead_depart_alert_enabled s"

lemma see_stop_keeps: "green_light_state (see_stop i s) = green_light_state s" "lead_depart_state (see_stop i s) = lead_depart_state s"
  by (simp_all add: see_stop_def Let_def)

lemma arm_lead_keeps: "green_light_state (arm_lead i s) = green_light_state s" "lead_depart_state (arm_lead i s) = lead_depart_state s"
  by (simp_all add: arm_lead_def Let_def)

lemma green_trigger_step:
  "green_light_trigger i s = Some (g, t) \<Longrightarrow> green_light_state t = green_light_state s \<and> lead_depart_state t = lead_depart_state s \<and>
     (g \<longrightarrow> green_light_state s = E2E_armed)"
  by (auto simp: green_light_trigger_def Let_def split: if_splits)

lemma lead_trigger_step:
  "green_light_state (snd (lead_depart_trigger i s)) = green_light_state s"
  "lead_depart_state (snd (lead_depart_trigger i s)) = lead_depart_state s"
  "fst (lead_depart_trigger i s) \<Longrightarrow> lead_depart_state s = E2E_armed"
  by (simp_all add: lead_depart_trigger_def Let_def split: if_splits)

lemma alert_trigger_step:
  assumes "update_alert_trigger i s = Some (g, l, t)"
  shows "green_light_state t = green_light_state s" "lead_depart_state t = lead_depart_state s"
    "g \<Longrightarrow> green_light_state s = E2E_armed" "l \<Longrightarrow> lead_depart_state s = E2E_armed"
proof -
  from assms obtain u where u: "green_light_trigger i (see_stop i s) = Some (g, u)"
    and l: "l = fst (lead_depart_trigger i (arm_lead i u))"
    and t: "t = snd (lead_depart_trigger i (arm_lead i u))\<lparr>last_allowed := e2e_allowed (snd (lead_depart_trigger i (arm_lead i u)))\<rparr>"
    by (auto simp: update_alert_trigger_def Let_def split: option.splits prod.splits)
  note s = green_trigger_step [OF u] see_stop_keeps [of i s] arm_lead_keeps [of i u] lead_trigger_step [of i "arm_lead i u"]
  show "green_light_state t = green_light_state s" "lead_depart_state t = lead_depart_state s"
    "g \<Longrightarrow> green_light_state s = E2E_armed" "l \<Longrightarrow> lead_depart_state s = E2E_armed"
    using s by (simp_all add: t l)
qed

lemma e2e_step:
  assumes "e2e_update i (s, ev) = Some (t, ev')"
  shows "green_light_state t = e2e_next_state (green_light_state s) True (green_stop t) (green_light_alert t)"
    "lead_depart_state t = e2e_next_state (lead_depart_state s) True (lead_stop t) (lead_depart_alert t)"
    "green_light_alert t \<Longrightarrow> green_light_state s = E2E_armed" "lead_depart_alert t \<Longrightarrow> lead_depart_state s = E2E_armed"
proof -
  let ?s = "if e2e_frame s mod 60 = 0
    then s\<lparr>green_light_alert_enabled := e2_GreenLightAlert i, lead_depart_alert_enabled := e2_LeadDepartAlert i\<rparr> else s"
  have same: "green_light_state ?s = green_light_state s" "lead_depart_state ?s = lead_depart_state s" by simp_all
  from assms obtain g l u where u: "update_alert_trigger i ?s = Some (g, l, u)"
    by (auto simp: e2e_update_def Let_def split: option.splits)
  have t: "green_light_state t = e2e_next_state (green_light_state u) (green_light_alert_enabled u) (e2e_allowed u \<and> \<not> e2e_has_lead u) g"
    "lead_depart_state t = e2e_next_state (lead_depart_state u) (lead_depart_alert_enabled u) (e2e_allowed u \<and> lead_depart_armed u) l"
    "green_stop t = green_stop u" "lead_stop t = lead_stop u" "green_light_alert t = g" "lead_depart_alert t = l"
    using assms u by (auto simp: e2e_update_def Let_def green_stop_def lead_stop_def)
  note trigger = alert_trigger_step [OF u, unfolded same]
  show "green_light_state t = e2e_next_state (green_light_state s) True (green_stop t) (green_light_alert t)"
    "lead_depart_state t = e2e_next_state (lead_depart_state s) True (lead_stop t) (lead_depart_alert t)"
    unfolding t using trigger(1,2)
    by (simp_all add: e2e_next_state_def green_stop_def lead_stop_def)
  show "green_light_alert t \<Longrightarrow> green_light_state s = E2E_armed" "lead_depart_alert t \<Longrightarrow> lead_depart_state s = E2E_armed"
    using trigger(3,4) by (simp_all add: t)
qed

lemma chimes_bound:
  assumes step: "\<And>i s ev t ev'. e2e_update i (s, ev) = Some (t, ev') \<Longrightarrow> st t = e2e_next_state (st s) True (stop t) (chime t)"
    and armed: "\<And>i s ev t ev'. e2e_update i (s, ev) = Some (t, ev') \<Longrightarrow> chime t \<Longrightarrow> st s = E2E_armed"
  shows "e2e_states is (s, ev) = Some ss \<Longrightarrow>
    length (filter chime ss) \<le> length (filter (\<lambda>t. \<not> stop t) ss) + (if st s = E2E_consumed then 0 else 1)"
proof (induction "is" arbitrary: s ev ss)
  case (Cons i "is")
  then obtain t ev' ts where u: "e2e_update i (s, ev) = Some (t, ev')" and ts: "e2e_states is (t, ev') = Some ts" "ss = t # ts"
    by (auto split: option.splits)
  from Cons.IH [OF ts(1)] step [OF u] armed [OF u] show ?case
    by (cases "st s") (auto simp: ts e2e_next_state_def split: if_splits)
qed simp

text \<open>
  One chime a stop: over any run there is at most one green light chime more than there are frames
  that end the stop at the light, and at most one chime for a departing lead more than frames that
  end the stop behind it, so that a second chime of a kind needs the car to drive, to be driven, or
  what it waited for to change in between.
\<close>
theorem one_chime_per_stop:
  "case e2e_states is (e2e_init green lead, ev) of
     None \<Rightarrow> True
   | Some ss \<Rightarrow> length (filter green_light_alert ss) \<le> length (filter (\<lambda>t. \<not> green_stop t) ss) + 1 \<and>
               length (filter lead_depart_alert ss) \<le> length (filter (\<lambda>t. \<not> lead_stop t) ss) + 1"
proof (cases "e2e_states is (e2e_init green lead, ev)")
  case (Some ss)
  from chimes_bound [where st = green_light_state and stop = green_stop and chime = green_light_alert, OF e2e_step(1,3) Some]
    chimes_bound [where st = lead_depart_state and stop = lead_stop and chime = lead_depart_alert, OF e2e_step(2,4) Some] Some
  show ?thesis by (simp add: e2e_init_def)
qed simp

text \<open>The chime of a frame does not ask whether the stop still lasts: the driver may already be on the gas.\<close>

lemma chime_although_not_allowed:
  assumes "green_light_state s = E2E_armed" "green_light_trigger_timer s = 5" "last (e2_model_x i) = 31" "e2_model_x i \<noteq> []"
    "gasPressed (e2_CS i)"
  shows "returns (e2e_update i (s, ev)) (\<lambda>(t, ev'). green_light_alert t \<and> \<not> e2e_allowed t \<and> ev' = ev_add SP_e2eChime ev)"
  using assms by (simp add: e2e_update_def update_alert_trigger_def green_light_trigger_def lead_depart_trigger_def
      see_stop_def arm_lead_def trigger_timer_over_def Let_def)

section \<open>A concrete frame\<close>





end
