(* ===== verification/Tlv.thy ===== *)
theory Tlv
  imports ByteStrings PyText "HOL-Library.Word"
begin

unbundle bit_operations_syntax

text \<open>
  The encodings of \<^verbatim>\<open>common/esim/lpa.py\<close>: BER-TLV records (\<open>iter_tlv\<close>, \<open>encode_tlv\<close>,
  \<open>find_tag\<close>), big endian integers, swapped BCD digits, base64 and the UTF-8 decoder with
  \<open>errors="ignore"\<close>. A text is the list of its UTF-8 bytes, as in \<open>PyText\<close>.
\<close>

section \<open>Big endian integers\<close>

definition nat_of_be :: "byte list \<Rightarrow> nat" where
  \<comment> \<open>\<open>int.from_bytes(bs, "big")\<close>\<close>
  "nat_of_be bs = foldl (\<lambda>n b. 256 * n + unat b) 0 bs"

primrec nat_to_be :: "nat \<Rightarrow> nat \<Rightarrow> byte list" where
  \<comment> \<open>\<open>n.to_bytes(k, "big")\<close> for \<open>n < 256 ^ k\<close>\<close>
  "nat_to_be 0 n = []"
| "nat_to_be (Suc k) n = nat_to_be k (n div 256) @ [of_nat n]"

fun bit_length :: "nat \<Rightarrow> nat" where
  "bit_length n = (if n = 0 then 0 else Suc (bit_length (n div 2)))"

declare bit_length.simps [simp del]

definition length_bytes :: "nat \<Rightarrow> byte list" where
  "length_bytes n = nat_to_be ((bit_length n + 7) div 8) n"

definition int_bytes :: "nat \<Rightarrow> byte list" where
  "int_bytes n = nat_to_be (if (bit_length n + 7) div 8 = 0 then 1 else (bit_length n + 7) div 8) n"

section \<open>TLV records\<close>

primrec more_tag :: "nat \<Rightarrow> byte list \<Rightarrow> nat \<times> byte list" where
  \<comment> \<open>the further bytes of a long tag: up to the first one without the high bit\<close>
  "more_tag v [] = (v, [])"
| "more_tag v (c # cs) = (if c AND 0x80 \<noteq> 0 then more_tag (256 * v + unat c) cs else (256 * v + unat c, cs))"

definition read_tag :: "byte \<Rightarrow> byte list \<Rightarrow> nat \<times> byte list" where
  "read_tag b bs = (if b AND 0x1F = 0x1F then more_tag (unat b) bs else (unat b, bs))"

fun read_size :: "byte list \<Rightarrow> (nat \<times> byte list) option" where
  "read_size [] = None"
| "read_size (b # bs) =
     (if b AND 0x80 \<noteq> 0
      then let n = unat (b AND 0x7F)
           in if length bs < n then None else Some (nat_of_be (take n bs), drop n bs)
      else Some (unat b, bs))"

fun read_tlv :: "byte list \<Rightarrow> (nat \<times> byte list \<times> byte list) option" where
  \<comment> \<open>one iteration of the loop: tag, value and the bytes after them; \<open>None\<close> ends the loop\<close>
  "read_tlv [] = None"
| "read_tlv (b # bs) =
     (let (tag, r) = read_tag b bs
      in case read_size r of
           None \<Rightarrow> None
         | Some (n, r) \<Rightarrow> if length r < n then None else Some (tag, take n r, drop n r))"

lemma length_more_tag: "length (snd (more_tag v cs)) \<le> length cs"
  by (induction cs arbitrary: v) (auto intro: le_SucI)

lemma length_read_size: "read_size bs = Some (n, r) \<Longrightarrow> length r < length bs"
  by (cases bs) (auto simp: Let_def split: if_splits)

lemma length_read_tlv: "read_tlv bs = Some (t, v, r) \<Longrightarrow> length r + length v < length bs"
proof (cases bs)
  case (Cons b cs)
  assume h: "read_tlv bs = Some (t, v, r)"
  have "length (snd (read_tag b cs)) \<le> length cs"
    by (simp add: read_tag_def length_more_tag)
  with h Cons show ?thesis
    by (auto simp: split_def Let_def split: option.splits if_splits dest!: length_read_size)
qed simp

function iter_tlv_from :: "nat \<Rightarrow> byte list \<Rightarrow> (nat \<times> byte list \<times> nat \<times> nat) list" where
  "iter_tlv_from pos bs =
     (case read_tlv bs of
        None \<Rightarrow> []
      | Some (tag, value, r) \<Rightarrow>
          let end_pos = pos + (length bs - length r)
          in (tag, value, pos, end_pos) # iter_tlv_from end_pos r)"
  by pat_completeness auto
termination
  by (relation "measure (\<lambda>(pos, bs). length bs)") (auto dest: length_read_tlv)

declare iter_tlv_from.simps [simp del]

definition iter_tlv_positions :: "byte list \<Rightarrow> (nat \<times> byte list \<times> nat \<times> nat) list" where
  \<comment> \<open>\<open>iter_tlv(data, with_positions=True)\<close>\<close>
  "iter_tlv_positions data = iter_tlv_from 0 data"

definition iter_tlv :: "byte list \<Rightarrow> (nat \<times> byte list) list" where
  "iter_tlv data = map (\<lambda>(t, v, _, _). (t, v)) (iter_tlv_positions data)"

definition find_tag :: "byte list \<Rightarrow> nat \<Rightarrow> byte list option" where
  "find_tag data target = map_option snd (find (\<lambda>(t, v). t = target) (iter_tlv data))"

definition tag_bytes :: "nat \<Rightarrow> byte list" where
  "tag_bytes tag = (if 255 < tag then [of_nat (drop_bit 8 tag AND 0xFF), of_nat (tag AND 0xFF)] else [of_nat tag])"

definition size_bytes :: "nat \<Rightarrow> byte list" where
  "size_bytes n = (if n \<le> 127 then [of_nat n] else (0x80 OR of_nat (length (length_bytes n))) # length_bytes n)"

definition encode_tlv :: "nat \<Rightarrow> byte list \<Rightarrow> byte list" where
  "encode_tlv tag v = tag_bytes tag @ size_bytes (length v) @ v"

section \<open>Swapped BCD digits\<close>

definition is_digit :: "char \<Rightarrow> bool" where
  "is_digit c \<longleftrightarrow> 48 \<le> (of_char c :: nat) \<and> (of_char c :: nat) \<le> 57"

definition tbcd_digits :: "byte \<Rightarrow> nat list" where
  "tbcd_digits b = filter (\<lambda>n. n \<le> 9) [unat (b AND 0x0F), unat (drop_bit 4 b)]"

definition tbcd_to_string :: "byte list \<Rightarrow> string" where
  "tbcd_to_string raw = concat (map (\<lambda>b. concat (map nat_str (tbcd_digits b))) raw)"

fun pack_digits :: "nat list \<Rightarrow> byte list" where
  "pack_digits [] = []"
| "pack_digits [d] = [of_nat d OR push_bit 4 0xF]"
| "pack_digits (d # e # ds) = (of_nat d OR push_bit 4 (of_nat e)) # pack_digits ds"

definition string_to_tbcd :: "string \<Rightarrow> byte list" where
  "string_to_tbcd s = pack_digits (map (\<lambda>c. of_char c - 48) (filter is_digit s))"

section \<open>UTF-8 with errors ignored\<close>

text \<open>
  Decoding drops what is not UTF-8. A bad lead byte is dropped alone; continuation bytes that
  Python drops together with it are then dropped one by one, with the same text left.
\<close>

definition is_cont :: "byte \<Rightarrow> bool" where "is_cont b \<longleftrightarrow> b AND 0xC0 = 0x80"

fun utf8_seq_len :: "byte list \<Rightarrow> nat" where
  \<comment> \<open>the length of the valid sequence at the front, 0 when there is none\<close>
  "utf8_seq_len (a # b # c # d # _) =
     (if a < 0x80 then 1
      else if 0xC2 \<le> a \<and> a \<le> 0xDF \<and> is_cont b then 2
      else if 0xE0 \<le> a \<and> a \<le> 0xEF \<and> is_cont b \<and> is_cont c \<and> (a = 0xE0 \<longrightarrow> 0xA0 \<le> b) \<and> (a = 0xED \<longrightarrow> b \<le> 0x9F) then 3
      else if 0xF0 \<le> a \<and> a \<le> 0xF4 \<and> is_cont b \<and> is_cont c \<and> is_cont d \<and> (a = 0xF0 \<longrightarrow> 0x90 \<le> b) \<and> (a = 0xF4 \<longrightarrow> b \<le> 0x8F) then 4
      else 0)"
| "utf8_seq_len [a, b, c] =
     (if a < 0x80 then 1
      else if 0xC2 \<le> a \<and> a \<le> 0xDF \<and> is_cont b then 2
      else if 0xE0 \<le> a \<and> a \<le> 0xEF \<and> is_cont b \<and> is_cont c \<and> (a = 0xE0 \<longrightarrow> 0xA0 \<le> b) \<and> (a = 0xED \<longrightarrow> b \<le> 0x9F) then 3
      else 0)"
| "utf8_seq_len [a, b] =
     (if a < 0x80 then 1 else if 0xC2 \<le> a \<and> a \<le> 0xDF \<and> is_cont b then 2 else 0)"
| "utf8_seq_len [a] = (if a < 0x80 then 1 else 0)"
| "utf8_seq_len [] = 0"

function utf8_valid :: "byte list \<Rightarrow> byte list" where
  "utf8_valid bs =
     (case bs of [] \<Rightarrow> []
      | b # cs \<Rightarrow> let n = utf8_seq_len bs
                in if n = 0 then utf8_valid cs else take n bs @ utf8_valid (drop n bs))"
  by pat_completeness auto
termination
  by (relation "measure length") auto

declare utf8_valid.simps [simp del]

definition text_of :: "byte list \<Rightarrow> string" where "text_of bs = map (\<lambda>b. char_of (unat b)) bs"

definition bytes_of :: "string \<Rightarrow> byte list" where
  \<comment> \<open>\<open>s.encode("utf-8")\<close>\<close>
  "bytes_of s = map (\<lambda>c. of_nat (of_char c)) s"

definition decode_ignore :: "byte list \<Rightarrow> string" where
  \<comment> \<open>\<open>v.decode("utf-8", errors="ignore")\<close>\<close>
  "decode_ignore bs = text_of (utf8_valid bs)"

section \<open>Base64\<close>

definition b64_alphabet :: string where
  "b64_alphabet = ''ABCDEFGHIJKLMNOPQRSTUVWXYZabcdefghijklmnopqrstuvwxyz0123456789+/''"

definition b64_char :: "nat \<Rightarrow> char" where "b64_char n = b64_alphabet ! n"

fun b64e :: "byte list \<Rightarrow> string" where
  "b64e (a # b # c # r) =
     b64_char (unat a div 4) # b64_char (unat a mod 4 * 16 + unat b div 16)
     # b64_char (unat b mod 16 * 4 + unat c div 64) # b64_char (unat c mod 64) # b64e r"
| "b64e [a, b] =
     [b64_char (unat a div 4), b64_char (unat a mod 4 * 16 + unat b div 16), b64_char (unat b mod 16 * 4), CHR ''='']"
| "b64e [a] = [b64_char (unat a div 4), b64_char (unat a mod 4 * 16), CHR ''='', CHR ''='']"
| "b64e [] = []"

definition base64_trim :: "string \<Rightarrow> string" where
  "base64_trim s = filter (\<lambda>c. c \<notin> set [CHR 0x0A, CHR 0x0D, CHR '' '', CHR 0x09]) s"

fun index_of :: "'a \<Rightarrow> 'a list \<Rightarrow> nat option" where
  "index_of x [] = None"
| "index_of x (y # ys) = (if x = y then Some 0 else map_option Suc (index_of x ys))"

definition b64_value :: "char \<Rightarrow> nat option" where "b64_value c = index_of c b64_alphabet"

fun b64_scan :: "nat \<Rightarrow> nat \<Rightarrow> nat \<Rightarrow> string \<Rightarrow> byte list option" where
  \<comment> \<open>the lenient decoder of \<open>binascii\<close>: position in the quad, bits left over, padding seen; other
      characters are skipped, an unfinished quad at the end is an error\<close>
  "b64_scan quad left pads [] = (if quad = 0 then Some [] else None)"
| "b64_scan quad left pads (c # cs) =
     (if c = CHR ''='' then
        if 2 \<le> quad \<and> 4 \<le> quad + Suc pads then Some []
        else b64_scan quad left (if 2 \<le> quad then Suc pads else pads) cs
      else case b64_value c of
        None \<Rightarrow> b64_scan quad left pads cs
      | Some s \<Rightarrow>
          if quad = 0 then b64_scan 1 s 0 cs
          else if quad = 1 then map_option ((#) (of_nat (left * 4 + s div 16))) (b64_scan 2 (s mod 16) 0 cs)
          else if quad = 2 then map_option ((#) (of_nat (left * 16 + s div 4))) (b64_scan 3 (s mod 4) 0 cs)
          else map_option ((#) (of_nat (left * 64 + s))) (b64_scan 0 0 0 cs))"

definition b64d :: "string \<Rightarrow> byte list option" where
  \<comment> \<open>\<open>None\<close> is \<open>binascii.Error\<close>, a \<open>ValueError\<close>\<close>
  "b64d s = b64_scan 0 0 0 (base64_trim s)"

end
