(* ===== verification/PyIO.thy ===== *)
theory PyIO
  imports Main
begin

text \<open>
  Programs with effects: an action takes the state and returns, raises an exception or does not
  end, always with the state it leaves behind. \<open>Hung\<close> is a loop whose fuel is spent. The
  combinators are Python's sequencing, \<open>try ... except\<close> and \<open>try ... finally\<close>; what an
  action changed before it raised stays changed.
\<close>

datatype ('e, 'a) outcome = Returned 'a | Raised 'e | Hung

type_synonym ('s, 'e, 'a) io = "'s \<Rightarrow> ('e, 'a) outcome \<times> 's"

definition io_return :: "'a \<Rightarrow> ('s, 'e, 'a) io" where "io_return x s = (Returned x, s)"

definition io_raise :: "'e \<Rightarrow> ('s, 'e, 'a) io" where "io_raise e s = (Raised e, s)"

definition io_hung :: "('s, 'e, 'a) io" where "io_hung s = (Hung, s)"

definition io_outcome :: "('e, 'a) outcome \<Rightarrow> ('s, 'e, 'a) io" where "io_outcome r s = (r, s)"

definition io_bind :: "('s, 'e, 'a) io \<Rightarrow> ('a \<Rightarrow> ('s, 'e, 'b) io) \<Rightarrow> ('s, 'e, 'b) io" where
  "io_bind m f s =
     (case m s of (Returned x, t) \<Rightarrow> f x t | (Raised e, t) \<Rightarrow> (Raised e, t) | (Hung, t) \<Rightarrow> (Hung, t))"

definition io_then :: "('s, 'e, 'a) io \<Rightarrow> ('s, 'e, 'b) io \<Rightarrow> ('s, 'e, 'b) io" where
  "io_then m n = io_bind m (\<lambda>_. n)"

definition io_try :: "('s, 'e, 'a) io \<Rightarrow> ('e \<Rightarrow> bool) \<Rightarrow> ('e \<Rightarrow> ('s, 'e, 'a) io) \<Rightarrow> ('s, 'e, 'a) io" where
  \<comment> \<open>the predicate says which exceptions the \<open>except\<close> clause names\<close>
  "io_try m caught h s =
     (case m s of (Raised e, t) \<Rightarrow> if caught e then h e t else (Raised e, t) | r \<Rightarrow> r)"

definition io_finally :: "('s, 'e, 'a) io \<Rightarrow> ('s, 'e, unit) io \<Rightarrow> ('s, 'e, 'a) io" where
  "io_finally m f s =
     (case m s of
        (Hung, t) \<Rightarrow> (Hung, t)
      | (r, t) \<Rightarrow> (case f t of (Returned _, u) \<Rightarrow> (r, u) | (Raised e, u) \<Rightarrow> (Raised e, u) | (Hung, u) \<Rightarrow> (Hung, u)))"

definition io_get :: "('s \<Rightarrow> 'a) \<Rightarrow> ('s, 'e, 'a) io" where "io_get f s = (Returned (f s), s)"

definition io_modify :: "('s \<Rightarrow> 's) \<Rightarrow> ('s, 'e, unit) io" where "io_modify f s = (Returned (), f s)"

definition io_when :: "bool \<Rightarrow> ('s, 'e, unit) io \<Rightarrow> ('s, 'e, unit) io" where
  "io_when b m = (if b then m else io_return ())"

primrec io_each :: "('a \<Rightarrow> ('s, 'e, unit) io) \<Rightarrow> 'a list \<Rightarrow> ('s, 'e, unit) io" where
  \<comment> \<open>\<open>for x in xs\<close>\<close>
  "io_each f [] = io_return ()"
| "io_each f (x # xs) = io_then (f x) (io_each f xs)"

lemma io_simps [simp]:
  "io_return x s = (Returned x, s)" "io_raise e s = (Raised e, s)" "io_hung s = (Hung, s)"
  "io_get f s = (Returned (f s), s)" "io_modify g s = (Returned (), g s)"
  "io_outcome r s = (r, s)"
  by (simp_all add: io_outcome_def io_return_def io_raise_def io_hung_def io_get_def io_modify_def)

lemma io_bind_simps:
  "m s = (Returned x, t) \<Longrightarrow> io_bind m f s = f x t"
  "m s = (Raised e, t) \<Longrightarrow> io_bind m f s = (Raised e, t)"
  "m s = (Hung, t) \<Longrightarrow> io_bind m f s = (Hung, t)"
  by (simp_all add: io_bind_def)

lemma io_then_simps:
  "m s = (Returned x, t) \<Longrightarrow> io_then m n s = n t"
  "m s = (Raised e, t) \<Longrightarrow> io_then m n s = (Raised e, t)"
  "m s = (Hung, t) \<Longrightarrow> io_then m n s = (Hung, t)"
  by (simp_all add: io_then_def io_bind_def)

lemma io_bind_return [simp]: "io_bind (io_return x) f = f x" "io_bind (io_get g) f s = f (g s) s"
  by (auto simp: io_bind_def)

lemma io_then_modify [simp]: "io_then (io_modify g) n s = n (g s)"
  by (simp add: io_then_def io_bind_def)

lemma io_when_simps [simp]: "io_when True m = m" "io_when False m = io_return ()"
  by (simp_all add: io_when_def)

lemma io_try_simps:
  "m s = (Returned x, t) \<Longrightarrow> io_try m c h s = (Returned x, t)"
  "m s = (Raised e, t) \<Longrightarrow> c e \<Longrightarrow> io_try m c h s = h e t"
  "m s = (Raised e, t) \<Longrightarrow> \<not> c e \<Longrightarrow> io_try m c h s = (Raised e, t)"
  "m s = (Hung, t) \<Longrightarrow> io_try m c h s = (Hung, t)"
  by (simp_all add: io_try_def)

text \<open>The ways an action can end, for case analysis.\<close>

lemma io_cases:
  obtains x t where "m s = (Returned x, t)" | e t where "m s = (Raised e, t)" | t where "m s = (Hung, t)"
  by (cases "m s"; cases "fst (m s)") auto

end
