(* ===== verification/AtClient.thy ===== *)
theory AtClient
  imports Tlv PyIO
begin

text \<open>
  \<open>AtClient\<close> of \<^verbatim>\<open>common/esim/lpa.py\<close>: AT commands over a serial port, opening the ISD-R
  applet of the eUICC, and APDUs through \<open>AT+CGLA\<close>. The port, the modem, the clock and the
  network are the functions of the record \<open>port\<close>, over a state \<open>'w\<close> of the outside world; each
  may raise. \<open>fuel\<close> bounds the lines that \<open>_expect\<close> reads for one command. Answers of a modem
  are ASCII, so \<open>strip\<close> only knows the ASCII white space.
\<close>

section \<open>Exceptions and the outside world\<close>

datatype lpa_exn = RuntimeError string | LPAError string | LPAProfileNotFoundError string
  | ValueError | TimeoutError | SerialException | OSError | TermiosError | IndexError | KeyError

fun is_RuntimeError :: "lpa_exn \<Rightarrow> bool" where
  "is_RuntimeError (RuntimeError _) = True"
| "is_RuntimeError (LPAError _) = True"
| "is_RuntimeError (LPAProfileNotFoundError _) = True"
| "is_RuntimeError _ = False"

record http_reply =
  reply_failed :: "(string option \<times> string option \<times> string option) option"
    \<comment> \<open>a \<open>functionExecutionStatus\<close> that says \<open>Failed\<close>: reason code, subject code, message\<close>
  reply_fields :: "string \<rightharpoonup> string"

record 'w port =
  port_open :: "('w, lpa_exn, unit) io"
  port_close :: "('w, lpa_exn, unit) io"
  port_reset_input :: "('w, lpa_exn, unit) io"
  port_write :: "byte list \<Rightarrow> ('w, lpa_exn, unit) io"
  port_readline :: "('w, lpa_exn, byte list) io"
  lte_start :: "('w, lpa_exn, unit) io"
  time_sleep :: "('w, lpa_exn, unit) io"
  system_time_valid :: "'w \<Rightarrow> bool"
  sha256 :: "byte list \<Rightarrow> byte list"
  http_post :: "string \<Rightarrow> (string \<times> string) list \<Rightarrow> ('w, lpa_exn, http_reply) io"

record 'w at_client =
  channel :: "string option"
  has_serial :: bool
  world :: 'w

type_synonym ('w, 'a) lpa = "('w at_client, lpa_exn, 'a) io"

definition outside :: "('w, lpa_exn, 'a) io \<Rightarrow> ('w, 'a) lpa" where
  "outside m s = (case m (world s) of (r, w) \<Rightarrow> (r, s\<lparr>world := w\<rparr>))"

section \<open>Texts\<close>

definition is_space :: "char \<Rightarrow> bool" where
  "is_space c \<longleftrightarrow> (let n = of_char c :: nat in (9 \<le> n \<and> n \<le> 13) \<or> (28 \<le> n \<and> n \<le> 32))"

definition py_strip :: "string \<Rightarrow> string" where
  "py_strip s = rev (dropWhile is_space (rev (dropWhile is_space s)))"

definition strip_quotes :: "string \<Rightarrow> string" where
  \<comment> \<open>\<open>s.strip('"')\<close>\<close>
  "strip_quotes s = rev (dropWhile (\<lambda>c. c = CHR 0x22) (rev (dropWhile (\<lambda>c. c = CHR 0x22) s)))"

definition hex_digits :: string where "hex_digits = ''0123456789ABCDEF''"

definition hex_upper :: "byte list \<Rightarrow> string" where
  \<comment> \<open>\<open>data.hex().upper()\<close>\<close>
  "hex_upper bs = concat (map (\<lambda>b. [hex_digits ! (unat b div 16), hex_digits ! (unat b mod 16)]) bs)"

definition hex_value :: "char \<Rightarrow> nat option" where "hex_value c = index_of (upper_char c) hex_digits"

fun from_hex :: "string \<Rightarrow> byte list option" where
  \<comment> \<open>\<open>bytes.fromhex\<close>: white space only between the pairs of digits\<close>
  "from_hex [] = Some []"
| "from_hex [c] = (if is_space c then Some [] else None)"
| "from_hex (c # d # cs) =
     (if is_space c then from_hex (d # cs)
      else case (hex_value c, hex_value d) of
        (Some h, Some l) \<Rightarrow> map_option ((#) (of_nat (16 * h + l))) (from_hex cs)
      | _ \<Rightarrow> None)"

definition ISDR_AID :: string where "ISDR_AID = ''A0000005591010FFFFFFFF8900000100''"
definition OPEN_ISDR_RETRIES :: nat where "OPEN_ISDR_RETRIES = 10"
definition OPEN_ISDR_RESET_ATTEMPT :: nat where "OPEN_ISDR_RESET_ATTEMPT = 5"
definition SEND_APDU_RETRIES :: nat where "SEND_APDU_RETRIES = 3"

section \<open>Commands\<close>

definition at_send :: "'w port \<Rightarrow> string \<Rightarrow> ('w, unit) lpa" where
  "at_send p cmd = outside (port_write p (bytes_of (cmd @ [CHR 0x0D])))"

primrec at_expect :: "'w port \<Rightarrow> nat \<Rightarrow> string list \<Rightarrow> ('w, string list) lpa" where
  "at_expect p 0 lines = io_hung"
| "at_expect p (Suc fuel) lines =
     io_bind (outside (port_readline p)) (\<lambda>raw.
       if raw = [] then io_raise TimeoutError
       else let line = py_strip (decode_ignore raw)
            in if line = [] then at_expect p fuel lines
               else if line = ''OK'' then io_return lines
               else if line = ''ERROR'' \<or> starts_with ''+CME ERROR'' line
                    then io_raise (RuntimeError (''AT command failed: '' @ line))
               else at_expect p fuel (lines @ [line]))"

definition ensure_serial :: "'w port \<Rightarrow> bool \<Rightarrow> ('w, unit) lpa" where
  "ensure_serial p reconnect =
     io_then
       (io_when reconnect
         (io_then (io_modify (\<lambda>s. s\<lparr>channel := None\<rparr>))
         (io_then (io_try (io_bind (io_get has_serial) (\<lambda>b. io_when b (outside (port_close p))))
                    (\<lambda>_. True) (\<lambda>_. io_return ()))
           (io_modify (\<lambda>s. s\<lparr>has_serial := False\<rparr>)))))
       (io_bind (io_get has_serial) (\<lambda>b.
          io_when (\<not> b) (io_then (outside (port_open p)) (io_modify (\<lambda>s. s\<lparr>has_serial := True\<rparr>)))))"

definition query :: "'w port \<Rightarrow> nat \<Rightarrow> string \<Rightarrow> ('w, string list) lpa" where
  "query p fuel cmd =
     io_then (ensure_serial p False)
       (io_try (io_then (at_send p cmd) (at_expect p fuel []))
         (\<lambda>e. e = SerialException)
         (\<lambda>_. io_then (ensure_serial p True) (io_then (at_send p cmd) (at_expect p fuel []))))"

definition close_command :: "string \<Rightarrow> string" where "close_command ch = ''AT+CCHC='' @ ch"

definition open_command :: string where "open_command = ''AT+CCHO='' @ [CHR 0x22] @ ISDR_AID @ [CHR 0x22]"

definition channel_in :: "string \<Rightarrow> string option" where
  \<comment> \<open>\<open>line.startswith("+CCHO:") and (ch := line.split(":", 1)[1].strip())\<close>\<close>
  "channel_in line =
     (if starts_with ''+CCHO:'' line
      then let ch = py_strip (snd (split_first (CHR '':'') line)) in if ch = [] then None else Some ch
      else None)"

fun first_channel :: "string list \<Rightarrow> string option" where
  "first_channel [] = None"
| "first_channel (l # ls) = (case channel_in l of Some ch \<Rightarrow> Some ch | None \<Rightarrow> first_channel ls)"

definition truthy :: "string option \<Rightarrow> bool" where
  "truthy x = (case x of None \<Rightarrow> False | Some s \<Rightarrow> s \<noteq> [])"

definition open_isdr_once :: "'w port \<Rightarrow> nat \<Rightarrow> ('w, unit) lpa" where
  "open_isdr_once p fuel =
     io_bind (io_get channel) (\<lambda>ch.
     io_then (io_when (truthy ch)
         (io_then (io_try (io_then (query p fuel (close_command (the ch))) (io_return ())) is_RuntimeError (\<lambda>_. io_return ()))
           (io_modify (\<lambda>s. s\<lparr>channel := None\<rparr>))))
     (io_then (io_bind (io_get has_serial) (\<lambda>b. io_when b
         (io_try (outside (port_reset_input p)) (\<lambda>e. e \<in> {OSError, TimeoutError, SerialException, TermiosError})
           (\<lambda>_. ensure_serial p True))))
     (io_bind (query p fuel open_command) (\<lambda>lines.
        case first_channel lines of
          Some ch \<Rightarrow> io_modify (\<lambda>s. s\<lparr>channel := Some ch\<rparr>)
        | None \<Rightarrow> io_raise (RuntimeError ''Failed to open ISD-R application'')))))"

definition reset_modem :: "'w port \<Rightarrow> ('w, unit) lpa" where
  "reset_modem p =
     io_then (io_bind (io_get has_serial) (\<lambda>b. io_when b
        (io_then (io_try (outside (port_close p)) (\<lambda>_. True) (\<lambda>_. io_return ()))
          (io_modify (\<lambda>s. s\<lparr>has_serial := False\<rparr>)))))
     (outside (lte_start p))"

primrec open_isdr_attempts :: "'w port \<Rightarrow> nat \<Rightarrow> nat list \<Rightarrow> ('w, unit) lpa" where
  "open_isdr_attempts p fuel [] = io_raise (RuntimeError ''Failed to open ISD-R after retries'')"
| "open_isdr_attempts p fuel (attempt # rest) =
     io_bind (io_try (io_then (open_isdr_once p fuel) (io_return True))
         (\<lambda>e. is_RuntimeError e \<or> e \<in> {TimeoutError, TermiosError, SerialException})
         (\<lambda>_. io_then (outside (time_sleep p))
              (io_then (io_when (attempt = OPEN_ISDR_RESET_ATTEMPT) (reset_modem p)) (io_return False))))
       (\<lambda>opened. if opened then io_return () else open_isdr_attempts p fuel rest)"

definition open_isdr :: "'w port \<Rightarrow> nat \<Rightarrow> ('w, unit) lpa" where
  "open_isdr p fuel = open_isdr_attempts p fuel [0..<OPEN_ISDR_RETRIES]"

section \<open>APDUs\<close>

type_synonym apdu_reply = "byte list \<times> byte \<times> byte"

fun find_cgla :: "string list \<Rightarrow> (lpa_exn, apdu_reply) outcome" where
  \<comment> \<open>the loop over the lines of the answer\<close>
  "find_cgla [] = Raised (RuntimeError ''Missing +CGLA response'')"
| "find_cgla (line # ls) =
     (if starts_with ''+CGLA:'' line
      then let rest = snd (split_first (CHR '':'') line)
           in if CHR '','' \<in> set rest
              then case from_hex (strip_quotes (py_strip (snd (split_first (CHR '','') rest)))) of
                     None \<Rightarrow> Raised ValueError
                   | Some d \<Rightarrow>
                       if 2 \<le> length d
                       then Returned (take (length d - 2) d, d ! (length d - 2), d ! (length d - 1))
                       else find_cgla ls
              else find_cgla ls
      else find_cgla ls)"

definition cgla_command :: "string \<Rightarrow> byte list \<Rightarrow> string" where
  "cgla_command ch apdu =
     (let h = hex_upper apdu
      in ''AT+CGLA='' @ ch @ '','' @ nat_str (length h) @ '','' @ [CHR 0x22] @ h @ [CHR 0x22])"

definition send_apdu_once :: "'w port \<Rightarrow> nat \<Rightarrow> byte list \<Rightarrow> ('w, apdu_reply) lpa" where
  "send_apdu_once p fuel apdu =
     io_then (io_bind (io_get channel) (\<lambda>ch. io_when (\<not> truthy ch) (open_isdr p fuel)))
     (io_bind (io_get channel) (\<lambda>ch.
      io_bind (query p fuel (cgla_command (the ch) apdu)) (\<lambda>lines. io_outcome (find_cgla lines))))"

primrec send_apdu_attempts :: "'w port \<Rightarrow> nat \<Rightarrow> byte list \<Rightarrow> nat list \<Rightarrow> ('w, apdu_reply) lpa" where
  "send_apdu_attempts p fuel apdu [] = io_raise (RuntimeError ''send_apdu failed'')"
| "send_apdu_attempts p fuel apdu (attempt # rest) =
     io_try (send_apdu_once p fuel apdu) (\<lambda>e. is_RuntimeError e \<or> e = ValueError)
       (\<lambda>e. io_then (io_modify (\<lambda>s. s\<lparr>channel := None\<rparr>))
          (if attempt = SEND_APDU_RETRIES - 1 then io_raise e else send_apdu_attempts p fuel apdu rest))"

definition send_apdu :: "'w port \<Rightarrow> nat \<Rightarrow> byte list \<Rightarrow> ('w, apdu_reply) lpa" where
  "send_apdu p fuel apdu = send_apdu_attempts p fuel apdu [0..<SEND_APDU_RETRIES]"

definition at_close :: "'w port \<Rightarrow> nat \<Rightarrow> ('w, unit) lpa" where
  "at_close p fuel =
     io_finally
       (io_bind (io_get channel) (\<lambda>ch. io_when (truthy ch)
         (io_then (io_try (io_then (query p fuel (close_command (the ch))) (io_return ()))
                    (\<lambda>e. is_RuntimeError e \<or> e = TimeoutError) (\<lambda>_. io_return ()))
           (io_modify (\<lambda>s. s\<lparr>channel := None\<rparr>)))))
       (io_bind (io_get has_serial) (\<lambda>b. io_when b (outside (port_close p))))"

end
