(* ===== verification/Lpa.thy ===== *)
theory Lpa
  imports AtClient
begin

text \<open>
  The profile assistant of \<^verbatim>\<open>common/esim/lpa.py\<close> over the client of \<open>AtClient\<close>: commands cut
  into APDUs, profiles and notifications, the download of a profile with its cancellation, and the
  methods of \<open>LPA\<close>. \<open>fuel\<close> bounds the lines read for an AT command and the pieces of an answer.
  The file lock that keeps other processes off the modem is left out.
\<close>

section \<open>Tags and names\<close>

abbreviation TAG_ICCID :: nat where "TAG_ICCID \<equiv> 0x5A"
abbreviation TAG_STATUS :: nat where "TAG_STATUS \<equiv> 0x80"
abbreviation TAG_EUICC_INFO :: nat where "TAG_EUICC_INFO \<equiv> 0xBF20"
abbreviation TAG_PREPARE_DOWNLOAD :: nat where "TAG_PREPARE_DOWNLOAD \<equiv> 0xBF21"
abbreviation TAG_BPP_COMMAND :: nat where "TAG_BPP_COMMAND \<equiv> 0xBF23"
abbreviation TAG_PROFILE_METADATA :: nat where "TAG_PROFILE_METADATA \<equiv> 0xBF25"
abbreviation TAG_INSTALL_RESULT_DATA :: nat where "TAG_INSTALL_RESULT_DATA \<equiv> 0xBF27"
abbreviation TAG_LIST_NOTIFICATION :: nat where "TAG_LIST_NOTIFICATION \<equiv> 0xBF28"
abbreviation TAG_SET_NICKNAME :: nat where "TAG_SET_NICKNAME \<equiv> 0xBF29"
abbreviation TAG_RETRIEVE_NOTIFICATION :: nat where "TAG_RETRIEVE_NOTIFICATION \<equiv> 0xBF2B"
abbreviation TAG_PROFILE_INFO_LIST :: nat where "TAG_PROFILE_INFO_LIST \<equiv> 0xBF2D"
abbreviation TAG_EUICC_CHALLENGE :: nat where "TAG_EUICC_CHALLENGE \<equiv> 0xBF2E"
abbreviation TAG_NOTIFICATION_METADATA :: nat where "TAG_NOTIFICATION_METADATA \<equiv> 0xBF2F"
abbreviation TAG_NOTIFICATION_SENT :: nat where "TAG_NOTIFICATION_SENT \<equiv> 0xBF30"
abbreviation TAG_ENABLE_PROFILE :: nat where "TAG_ENABLE_PROFILE \<equiv> 0xBF31"
abbreviation TAG_DELETE_PROFILE :: nat where "TAG_DELETE_PROFILE \<equiv> 0xBF33"
abbreviation TAG_BPP :: nat where "TAG_BPP \<equiv> 0xBF36"
abbreviation TAG_PROFILE_INSTALL_RESULT :: nat where "TAG_PROFILE_INSTALL_RESULT \<equiv> 0xBF37"
abbreviation TAG_AUTH_SERVER :: nat where "TAG_AUTH_SERVER \<equiv> 0xBF38"
abbreviation TAG_CANCEL_SESSION :: nat where "TAG_CANCEL_SESSION \<equiv> 0xBF41"
abbreviation TAG_OK :: nat where "TAG_OK \<equiv> 0xA0"

definition PROFILE_ERROR_CODES :: "nat \<rightharpoonup> string" where
  "PROFILE_ERROR_CODES = map_of
     [(1, ''iccidOrAidNotFound''), (2, ''profileNotInDisabledState''), (3, ''disallowedByPolicy''),
      (4, ''wrongProfileReenabling''), (5, ''catBusy''), (6, ''undefinedError'')]"

definition AUTH_SERVER_ERROR_CODES :: "nat \<rightharpoonup> string" where
  "AUTH_SERVER_ERROR_CODES = map_of
     [(1, ''eUICCVerificationFailed''), (2, ''eUICCCertificateExpired''), (3, ''eUICCCertificateRevoked''),
      (5, ''invalidServerSignature''), (6, ''euiccCiPKUnknown''), (0x0A, ''matchingIdRefused''), (0x10, ''insufficientMemory'')]"

definition BPP_COMMAND_NAMES :: "nat \<rightharpoonup> string" where
  "BPP_COMMAND_NAMES = map_of
     [(0, ''initialiseSecureChannel''), (1, ''configureISDP''), (2, ''storeMetadata''), (3, ''storeMetadata2''),
      (4, ''replaceSessionKeys''), (5, ''loadProfileElements'')]"

definition BPP_ERROR_REASONS :: "nat \<rightharpoonup> string" where
  "BPP_ERROR_REASONS = map_of
     [(1, ''incorrectInputValues''), (2, ''invalidSignature''), (3, ''invalidTransactionId''),
      (4, ''unsupportedCrtValues''), (5, ''unsupportedRemoteOperationType''), (6, ''unsupportedProfileClass''),
      (7, ''scp03tStructureError''), (8, ''scp03tSecurityError''), (9, ''iccidAlreadyExistsOnEuicc''),
      (10, ''insufficientMemoryForProfile''), (11, ''installInterrupted''), (12, ''peProcessingError''),
      (13, ''dataMismatch''), (14, ''invalidNAA'')]"

definition BPP_ERROR_MESSAGES :: "nat \<rightharpoonup> string" where
  "BPP_ERROR_MESSAGES = map_of
     [(9, ''This eSIM profile is already installed on this device.''),
      (10, ''Not enough memory on the eUICC to install this profile.''),
      (12, ''Profile installation failed. The QR code may have already been used.'')]"

definition ES9P_ERROR_MESSAGES :: "string \<times> string \<rightharpoonup> string" where
  "ES9P_ERROR_MESSAGES = map_of
     [((''3.8'', ''8.2.6''), ''This eSIM profile is already installed on another device. Please use a new QR code.''),
      ((''3.8'', ''8.2.1''), ''This eSIM profile has expired. Please request a new QR code.''),
      ((''3.8'', ''8.1''), ''The SM-DP+ server refused this request.''),
      ((''3.1'', ''8.2.6''), ''This eSIM profile has been revoked by the carrier.''),
      ((''3.9'', ''8.2.6''), ''This eSIM profile download has already been completed.''),
      ((''2.1'', ''8.8''), ''The device is not compatible with this eSIM profile.''),
      ((''1.2'', ''8.1''), ''The SM-DP+ server is temporarily unavailable. Try again later.'')]"

definition the_default :: "'a \<Rightarrow> 'a option \<Rightarrow> 'a" where "the_default d x = (case x of None \<Rightarrow> d | Some y \<Rightarrow> y)"

definition get_name :: "('k \<rightharpoonup> string) \<Rightarrow> 'k \<Rightarrow> string" where
  \<comment> \<open>\<open>names.get(k, "unknown")\<close>\<close>
  "get_name m k = (case m k of Some s \<Rightarrow> s | None \<Rightarrow> ''unknown'')"

definition STATE_LABELS :: "nat \<rightharpoonup> string" where "STATE_LABELS = map_of [(0, ''disabled''), (1, ''enabled''), (255, ''unknown'')]"
definition ICON_LABELS :: "nat \<rightharpoonup> string" where "ICON_LABELS = map_of [(0, ''jpeg''), (1, ''png''), (255, ''unknown'')]"
definition CLASS_LABELS :: "nat \<rightharpoonup> string" where
  "CLASS_LABELS = map_of [(0, ''test''), (1, ''provisioning''), (2, ''operational''), (255, ''unknown'')]"

definition notification_operation :: "byte list \<Rightarrow> string" where
  "notification_operation v =
     (case find (\<lambda>(m, n). 2 \<le> length v \<and> v ! 1 AND m \<noteq> 0)
             [(0x80, ''install''), (0x40, ''enable''), (0x20, ''disable''), (0x10, ''delete'')] of
        Some (m, n) \<Rightarrow> n | None \<Rightarrow> ''unknown'')"

section \<open>Structures\<close>

datatype field = FNone | FText string | FNat nat

type_synonym field_map = "(nat \<times> string \<times> (byte list \<Rightarrow> field option)) list"
  \<comment> \<open>tag, name and decoder; \<open>None\<close> is the \<open>IndexError\<close> of a decoder that reads an empty value\<close>

definition text_or_none :: "byte list \<Rightarrow> field" where
  "text_or_none v = (let s = decode_ignore v in if s = [] then FNone else FText s)"

definition label_field :: "(nat \<rightharpoonup> string) \<Rightarrow> byte list \<Rightarrow> field option" where
  "label_field labels v = (case v of [] \<Rightarrow> None | b # _ \<Rightarrow> Some (FText (get_name labels (unat b))))"

definition PROFILE :: field_map where
  "PROFILE =
     [(TAG_ICCID, ''iccid'', \<lambda>v. Some (FText (tbcd_to_string v))),
      (0x4F, ''isdpAid'', \<lambda>v. Some (FText (hex_upper v))),
      (0x9F70, ''profileState'', label_field STATE_LABELS),
      (0x90, ''profileNickname'', \<lambda>v. Some (text_or_none v)),
      (0x91, ''serviceProviderName'', \<lambda>v. Some (text_or_none v)),
      (0x92, ''profileName'', \<lambda>v. Some (text_or_none v)),
      (0x93, ''iconType'', label_field ICON_LABELS),
      (0x94, ''icon'', \<lambda>v. Some (FText (b64e v))),
      (0x95, ''profileClass'', label_field CLASS_LABELS)]"

definition NOTIFICATION :: field_map where
  "NOTIFICATION =
     [(TAG_STATUS, ''seqNumber'', \<lambda>v. Some (FNat (nat_of_be v))),
      (0x81, ''profileManagementOperation'', \<lambda>v. Some (FText (notification_operation v))),
      (0x0C, ''notificationAddress'', \<lambda>v. Some (FText (decode_ignore v))),
      (TAG_ICCID, ''iccid'', \<lambda>v. Some (FText (tbcd_to_string v)))]"

fun decode_records :: "field_map \<Rightarrow> (nat \<times> byte list) list \<Rightarrow> (string \<rightharpoonup> field) \<Rightarrow> (string \<rightharpoonup> field) option" where
  "decode_records fm [] result = Some result"
| "decode_records fm ((tag, v) # rs) result =
     (case map_of fm tag of
        None \<Rightarrow> decode_records fm rs result
      | Some (name, decode) \<Rightarrow>
          (case decode v of None \<Rightarrow> None | Some x \<Rightarrow> decode_records fm rs (result(name \<mapsto> x))))"

definition decode_struct :: "byte list \<Rightarrow> field_map \<Rightarrow> (string \<rightharpoonup> field) option" where
  "decode_struct data fm = decode_records fm (iter_tlv data) (map_of (map (\<lambda>(t, name, d). (name, FNone)) fm))"

definition field_text :: "field option \<Rightarrow> string option" where
  "field_text f = (case f of Some (FText s) \<Rightarrow> Some s | _ \<Rightarrow> None)"

definition index_error :: "'a option \<Rightarrow> (lpa_exn, 'a) outcome" where
  "index_error x = (case x of None \<Rightarrow> Raised IndexError | Some y \<Rightarrow> Returned y)"

definition require_tag :: "byte list \<Rightarrow> nat \<Rightarrow> string \<Rightarrow> (lpa_exn, byte list) outcome" where
  "require_tag data target label =
     (case find_tag data target of None \<Rightarrow> Raised (RuntimeError (''Missing '' @ label)) | Some v \<Rightarrow> Returned v)"

definition first_byte :: "byte list \<Rightarrow> (lpa_exn, nat) outcome" where
  \<comment> \<open>\<open>v[0]\<close>\<close>
  "first_byte v = (case v of [] \<Rightarrow> Raised IndexError | b # _ \<Rightarrow> Returned (unat b))"

fun nat_hex :: "nat \<Rightarrow> string" where
  "nat_hex n = (if n < 16 then [hex_digits ! n] else nat_hex (n div 16) @ [hex_digits ! (n mod 16)])"

declare nat_hex.simps [simp del]

definition hex_code :: "nat \<Rightarrow> string" where
  \<comment> \<open>\<open>f"0x{code:02X}"\<close>\<close>
  "hex_code n = ''0x'' @ (if n < 16 then ''0'' else []) @ nat_hex n"

section \<open>Commands to the card\<close>

definition ES10X_MSS :: nat where "ES10X_MSS = 120"

primrec more_data :: "(byte list \<Rightarrow> ('s, lpa_exn, apdu_reply) io) \<Rightarrow> nat \<Rightarrow> apdu_reply \<Rightarrow> byte list \<Rightarrow> ('s, lpa_exn, byte list) io" where
  \<comment> \<open>the loop over the status words of one chunk; the accumulator is the response so far\<close>
  "more_data send 0 r response = io_hung"
| "more_data send (Suc fuel) r response =
     (case r of (_, sw1, sw2) \<Rightarrow>
        if sw1 = 0x61
        then io_bind (send [0x80, 0xC0, 0x00, 0x00, sw2]) (\<lambda>r. more_data send fuel r (response @ fst r))
        else if sw1 AND 0xF0 = 0x90 then io_return response
        else io_raise (RuntimeError (''APDU failed with SW='' @ hex_upper [sw1, sw2])))"

function es10x_chunks ::
    "(byte list \<Rightarrow> ('s, lpa_exn, apdu_reply) io) \<Rightarrow> nat \<Rightarrow> byte list \<Rightarrow> nat \<Rightarrow> byte list \<Rightarrow> ('s, lpa_exn, byte list) io" where
  \<comment> \<open>the bytes not sent yet, the sequence number and the response so far\<close>
  "es10x_chunks send fuel data seq response =
     (if data = [] then io_return response
      else let chunk = take ES10X_MSS data; rest = drop ES10X_MSS data;
               apdu = [0x80, 0xE2, if rest = [] then 0x91 else 0x11, of_nat seq AND 0xFF, of_nat (length chunk)] @ chunk
           in io_bind (send apdu) (\<lambda>r.
              io_bind (more_data send fuel r (response @ fst r)) (\<lambda>response.
              es10x_chunks send fuel rest (seq + 1) response)))"
  by pat_completeness auto
termination
  by (relation "measure (\<lambda>(send, fuel, data, seq, response). length data)") (auto simp: ES10X_MSS_def)

declare es10x_chunks.simps [simp del]

definition es10x_command :: "(byte list \<Rightarrow> ('s, lpa_exn, apdu_reply) io) \<Rightarrow> nat \<Rightarrow> byte list \<Rightarrow> ('s, lpa_exn, byte list) io" where
  \<comment> \<open>\<open>send\<close> is \<open>client.send_apdu\<close>\<close>
  "es10x_command send fuel data = es10x_chunks send fuel data 0 []"

definition command :: "'w port \<Rightarrow> nat \<Rightarrow> byte list \<Rightarrow> ('w, byte list) lpa" where
  "command p fuel data = es10x_command (send_apdu p fuel) fuel data"

section \<open>Profiles\<close>

definition decode_profiles :: "byte list \<Rightarrow> (lpa_exn, (string \<rightharpoonup> field) list) outcome" where
  "decode_profiles blob =
     (case require_tag blob TAG_PROFILE_INFO_LIST ''ProfileInfoList'' of
        Returned body \<Rightarrow>
          (case find_tag body TAG_OK of
             None \<Rightarrow> Returned []
           | Some list_ok \<Rightarrow>
               index_error (those (map (\<lambda>(t, v). decode_struct v PROFILE) (filter (\<lambda>(t, v). t = 0xE3) (iter_tlv list_ok)))))
      | Raised e \<Rightarrow> Raised e | Hung \<Rightarrow> Hung)"

definition lpa_list_profiles :: "'w port \<Rightarrow> nat \<Rightarrow> ('w, (string \<rightharpoonup> field) list) lpa" where
  "lpa_list_profiles p fuel =
     io_bind (command p fuel [0xBF, 0x2D, 0x00]) (\<lambda>response. io_outcome (decode_profiles response))"

definition set_profile_nickname :: "'w port \<Rightarrow> nat \<Rightarrow> string \<Rightarrow> string \<Rightarrow> ('w, unit) lpa" where
  "set_profile_nickname p fuel iccid nickname =
     (if 64 < length (bytes_of nickname) then io_raise ValueError
      else let content = encode_tlv TAG_ICCID (string_to_tbcd iccid) @ encode_tlv 0x90 (bytes_of nickname)
           in io_bind (command p fuel (encode_tlv TAG_SET_NICKNAME content)) (\<lambda>response.
              io_bind (io_outcome (require_tag response TAG_SET_NICKNAME ''SetNicknameResponse'')) (\<lambda>body.
              io_bind (io_outcome (require_tag body TAG_STATUS ''SetNickname status'')) (\<lambda>status.
              io_bind (io_outcome (first_byte status)) (\<lambda>code.
                if code = 1 then io_raise (LPAError (''profile '' @ iccid @ '' not found''))
                else if code \<noteq> 0 then io_raise (RuntimeError (''SetNickname failed with status '' @ hex_code code))
                else io_return ())))))"

section \<open>Requests to the server\<close>

definition es9p_request ::
    "'w port \<Rightarrow> string \<Rightarrow> string \<Rightarrow> (string \<times> string) list \<Rightarrow> string \<Rightarrow> ('w, string \<rightharpoonup> string) lpa" where
  "es9p_request p smdp_address endpoint payload error_prefix =
     io_bind (outside (http_post p (''https://'' @ smdp_address @ ''/gsma/rsp2/es9plus/'' @ endpoint) payload)) (\<lambda>reply.
       case reply_failed reply of
         None \<Rightarrow> io_return (reply_fields reply)
       | Some (reason, subject, message) \<Rightarrow>
           let reason = the_default ''unknown'' reason; subject = the_default ''unknown'' subject
           in io_raise (RuntimeError
                (case ES9P_ERROR_MESSAGES (reason, subject) of
                   Some text \<Rightarrow> text
                 | None \<Rightarrow> error_prefix @ '' failed: '' @ reason @ ''/'' @ subject @ '' - '' @ the_default ''unknown'' message)))"

definition b64_field :: "(string \<rightharpoonup> string) \<Rightarrow> string \<Rightarrow> (lpa_exn, string) outcome" where
  "b64_field data key = (case data key of None \<Rightarrow> Raised KeyError | Some s \<Rightarrow> Returned (base64_trim s))"

definition b64_decoded :: "string \<Rightarrow> (lpa_exn, byte list) outcome" where
  "b64_decoded s = (case b64d s of None \<Rightarrow> Raised ValueError | Some bs \<Rightarrow> Returned bs)"

section \<open>Notifications\<close>

definition decode_notifications :: "byte list \<Rightarrow> (lpa_exn, (string \<rightharpoonup> field) list) outcome" where
  "decode_notifications response =
     (case require_tag response TAG_LIST_NOTIFICATION ''ListNotificationResponse'' of
        Returned body \<Rightarrow>
          (case find_tag body TAG_OK of
             None \<Rightarrow> Returned []
           | Some metadata_list \<Rightarrow>
               index_error (those (map (\<lambda>(t, v). decode_struct v NOTIFICATION)
                 (filter (\<lambda>(t, v). t = TAG_NOTIFICATION_METADATA) (iter_tlv metadata_list)))))
      | Raised e \<Rightarrow> Raised e | Hung \<Rightarrow> Hung)"

definition list_notifications :: "'w port \<Rightarrow> nat \<Rightarrow> ('w, (string \<rightharpoonup> field) list) lpa" where
  "list_notifications p fuel =
     io_bind (command p fuel (encode_tlv TAG_LIST_NOTIFICATION [])) (\<lambda>response. io_outcome (decode_notifications response))"

definition pending_notification :: "byte list \<Rightarrow> (lpa_exn, byte list) outcome" where
  "pending_notification content =
     (case find (\<lambda>(t, _, _, _). t = TAG_PROFILE_INSTALL_RESULT \<or> t = 0x30) (iter_tlv_positions content) of
        None \<Rightarrow> Raised (RuntimeError ''Missing PendingNotification'')
      | Some (_, _, st, en) \<Rightarrow> Returned (take (en - st) (drop st content)))"

definition python_text :: "field option \<Rightarrow> string" where
  \<comment> \<open>the value in an f-string\<close>
  "python_text f = (case f of Some (FText s) \<Rightarrow> s | Some (FNat n) \<Rightarrow> nat_str n | _ \<Rightarrow> ''None'')"

definition sequence_bytes :: "field option \<Rightarrow> (lpa_exn, byte list) outcome" where
  \<comment> \<open>\<open>int_bytes(None)\<close> raises; the exception is swallowed with all others\<close>
  "sequence_bytes f = (case f of Some (FNat n) \<Rightarrow> Returned (int_bytes n) | _ \<Rightarrow> Raised ValueError)"

definition process_notification :: "'w port \<Rightarrow> nat \<Rightarrow> (string \<rightharpoonup> field) \<Rightarrow> ('w, unit) lpa" where
  "process_notification p fuel notification =
     (let seq_number = notification ''seqNumber''; smdp_address = python_text (notification ''notificationAddress'')
      in io_bind (io_outcome (sequence_bytes seq_number)) (\<lambda>number.
         io_bind (command p fuel (encode_tlv TAG_RETRIEVE_NOTIFICATION (encode_tlv TAG_OK (encode_tlv TAG_STATUS number)))) (\<lambda>response.
         io_bind (io_outcome (require_tag response TAG_RETRIEVE_NOTIFICATION ''RetrieveNotificationsListResponse'')) (\<lambda>body.
         io_bind (io_outcome (require_tag body TAG_OK ''RetrieveNotificationsListResponse'')) (\<lambda>content.
         io_bind (io_outcome (pending_notification content)) (\<lambda>pending.
         io_then (es9p_request p smdp_address ''handleNotification'' [(''pendingNotification'', b64e pending)] ''HandleNotification'')
         (io_bind (command p fuel (encode_tlv TAG_NOTIFICATION_SENT (encode_tlv TAG_STATUS number))) (\<lambda>response.
          io_bind (io_outcome (require_tag response TAG_NOTIFICATION_SENT ''NotificationSentResponse'')) (\<lambda>body.
          io_bind (io_outcome (require_tag body TAG_STATUS ''RemoveNotificationFromList status'')) (\<lambda>status.
            if nat_of_be status \<noteq> 0 then io_raise (RuntimeError ''RemoveNotificationFromList failed'') else io_return ()))))))))))"

definition process_notifications :: "'w port \<Rightarrow> nat \<Rightarrow> ('w, unit) lpa" where
  "process_notifications p fuel =
     io_bind (list_notifications p fuel)
       (io_each (\<lambda>n. io_try (process_notification p fuel n) (\<lambda>_. True) (\<lambda>_. io_return ())))"

section \<open>Authentication\<close>

definition get_challenge_and_info :: "'w port \<Rightarrow> nat \<Rightarrow> ('w, byte list \<times> byte list) lpa" where
  "get_challenge_and_info p fuel =
     io_bind (command p fuel (encode_tlv TAG_EUICC_CHALLENGE [])) (\<lambda>challenge_resp.
     io_bind (io_outcome (require_tag challenge_resp TAG_EUICC_CHALLENGE ''GetEuiccDataResponse'')) (\<lambda>body.
     io_bind (io_outcome (require_tag body TAG_STATUS ''challenge in response'')) (\<lambda>challenge.
     io_bind (command p fuel (encode_tlv TAG_EUICC_INFO [])) (\<lambda>info_resp.
     io_bind (io_outcome (require_tag info_resp TAG_EUICC_INFO ''GetEuiccInfo1Response'')) (\<lambda>_.
       io_return (challenge, info_resp))))))"

definition server_error :: "byte list \<Rightarrow> (lpa_exn, unit) outcome" where
  "server_error body =
     (case find_tag body 0xA1 of
        None \<Rightarrow> Returned ()
      | Some e \<Rightarrow>
          let code = nat_of_be e
          in Raised (RuntimeError (''AuthenticateServer rejected by eUICC: '' @ get_name AUTH_SERVER_ERROR_CODES code
               @ '' ('' @ hex_code code @ '')'')))"

definition authenticate_server ::
    "'w port \<Rightarrow> nat \<Rightarrow> string \<Rightarrow> string \<Rightarrow> string \<Rightarrow> string \<Rightarrow> string \<Rightarrow> ('w, string) lpa" where
  "authenticate_server p fuel b64_signed1 b64_sig1 b64_pk_id b64_cert matching_id =
     (let tac = [0x35, 0x29, 0x06, 0x11];
          device_info = encode_tlv TAG_STATUS tac @ encode_tlv 0xA1 [];
          ctx_inner = encode_tlv TAG_STATUS (bytes_of matching_id) @ encode_tlv 0xA1 device_info
      in io_bind (io_outcome (b64_decoded b64_signed1)) (\<lambda>signed1.
         io_bind (io_outcome (b64_decoded b64_sig1)) (\<lambda>sig1.
         io_bind (io_outcome (b64_decoded b64_pk_id)) (\<lambda>pk_id.
         io_bind (io_outcome (b64_decoded b64_cert)) (\<lambda>cert.
         io_bind (command p fuel (encode_tlv TAG_AUTH_SERVER (signed1 @ sig1 @ pk_id @ cert @ encode_tlv 0xA0 ctx_inner))) (\<lambda>response.
         io_bind (io_outcome (require_tag response TAG_AUTH_SERVER ''AuthenticateServerResponse'')) (\<lambda>body.
         io_bind (io_outcome (server_error body)) (\<lambda>_. io_return (b64e response)))))))))"

definition confirmation ::
    "'w port \<Rightarrow> byte list \<Rightarrow> string option \<Rightarrow> (lpa_exn, byte list) outcome" where
  \<comment> \<open>the confirmation code that \<open>smdpSigned2\<close> asks for, if it does\<close>
  "confirmation p smdp_signed2 cc =
     (case find_tag smdp_signed2 0x30 of
        None \<Rightarrow> Raised (RuntimeError ''Invalid smdpSigned2'')
      | Some signed2_root \<Rightarrow>
          (case (find_tag signed2_root TAG_STATUS, find_tag signed2_root 0x01) of
             (Some transaction_id, Some flag) \<Rightarrow>
               if nat_of_be flag \<noteq> 0
               then if truthy cc
                    then Returned (encode_tlv 0x04 (sha256 p (sha256 p (bytes_of (the cc)) @ transaction_id)))
                    else Raised (RuntimeError ''Confirmation code required but not provided'')
               else Returned []
           | _ \<Rightarrow> Raised (RuntimeError ''Invalid smdpSigned2'')))"

definition prepare_download ::
    "'w port \<Rightarrow> nat \<Rightarrow> string \<Rightarrow> string \<Rightarrow> string \<Rightarrow> string option \<Rightarrow> ('w, string) lpa" where
  "prepare_download p fuel b64_signed2 b64_sig2 b64_cert cc =
     io_bind (io_outcome (b64_decoded b64_signed2)) (\<lambda>smdp_signed2.
     io_bind (io_outcome (b64_decoded b64_sig2)) (\<lambda>smdp_signature2.
     io_bind (io_outcome (b64_decoded b64_cert)) (\<lambda>smdp_certificate.
     io_bind (io_outcome (confirmation p smdp_signed2 cc)) (\<lambda>code.
     io_bind (command p fuel (encode_tlv TAG_PREPARE_DOWNLOAD (smdp_signed2 @ smdp_signature2 @ code @ smdp_certificate))) (\<lambda>response.
     io_bind (io_outcome (require_tag response TAG_PREPARE_DOWNLOAD ''PrepareDownloadResponse'')) (\<lambda>_.
       io_return (b64e response)))))))"

section \<open>The bound profile package\<close>

definition header_len :: "byte list \<Rightarrow> nat" where
  \<comment> \<open>\<open>_parse_tlv_header_len\<close> of a record that \<open>iter_tlv\<close> has yielded\<close>
  "header_len data =
     (let tag_len = (if data ! 0 AND 0x1F = 0x1F then 2 else 1); length_byte = data ! tag_len
      in tag_len + (if length_byte AND 0x80 \<noteq> 0 then 1 + unat (length_byte AND 0x7F) else 1))"

definition slice :: "nat \<Rightarrow> nat \<Rightarrow> 'a list \<Rightarrow> 'a list" where
  \<comment> \<open>\<open>xs[a:b]\<close>\<close>
  "slice a b xs = take (b - a) (drop a xs)"

fun bpp_chunks :: "byte list \<Rightarrow> nat \<Rightarrow> byte list \<Rightarrow> nat \<times> byte list \<times> nat \<times> nat \<Rightarrow> byte list list" where
  \<comment> \<open>the chunks of one record of the package, whose value is \<open>body\<close> and starts at \<open>val_start\<close>\<close>
  "bpp_chunks bpp val_start body (tag, v, st, en) =
     (if tag = TAG_BPP_COMMAND then [slice 0 (val_start + en) bpp]
      else if tag = 0xA0 \<or> tag = 0xA2 then [slice (val_start + st) (val_start + en) bpp]
      else if tag = 0xA1 \<or> tag = 0xA3
      then slice (val_start + st) (val_start + st + header_len (slice st en body)) bpp
           # map (\<lambda>(_, _, cs, ce). slice cs ce v) (iter_tlv_positions v)
      else [])"

definition split_bpp :: "byte list \<Rightarrow> byte list list option" where
  \<comment> \<open>\<open>None\<close> is \<open>RuntimeError("Invalid BoundProfilePackage")\<close>\<close>
  "split_bpp bpp =
     (case find (\<lambda>(t, _, _, _). t = TAG_BPP) (iter_tlv_positions bpp) of
        None \<Rightarrow> None
      | Some (_, body, st, en) \<Rightarrow>
          let val_start = st + header_len (slice st en bpp)
          in Some (concat (map (bpp_chunks bpp val_start body) (iter_tlv_positions body))))"

record install_result =
  ir_seqNumber :: nat
  ir_success :: bool
  ir_bppCommandId :: "nat option"
  ir_errorReason :: "nat option"

definition tag_number :: "byte list \<Rightarrow> nat \<Rightarrow> nat option" where
  \<comment> \<open>the number under a tag, when it is there and not empty\<close>
  "tag_number data t = (case find_tag data t of None \<Rightarrow> None | Some v \<Rightarrow> if v = [] then None else Some (nat_of_be v))"

fun final_result :: "nat \<times> byte list \<Rightarrow> install_result \<Rightarrow> install_result" where
  "final_result (tag, v) r =
     (if tag = 0xA0 then r\<lparr>ir_success := True\<rparr>
      else if tag = 0xA1
      then r\<lparr>ir_bppCommandId := (case tag_number v TAG_STATUS of Some n \<Rightarrow> Some n | None \<Rightarrow> ir_bppCommandId r),
             ir_errorReason := (case tag_number v 0x81 of Some n \<Rightarrow> Some n | None \<Rightarrow> ir_errorReason r)\<rparr>
      else r)"

definition nonempty_tag :: "byte list \<Rightarrow> nat \<Rightarrow> byte list option" where
  "nonempty_tag data t = (case find_tag data t of Some v \<Rightarrow> if v = [] then None else Some v | None \<Rightarrow> None)"

definition parse_install_result :: "byte list \<Rightarrow> install_result option" where
  "parse_install_result response =
     (case nonempty_tag response TAG_PROFILE_INSTALL_RESULT of
        None \<Rightarrow> None
      | Some body \<Rightarrow>
          (case nonempty_tag body TAG_INSTALL_RESULT_DATA of
             None \<Rightarrow> None
           | Some data \<Rightarrow>
               let seq_number = (case nonempty_tag data TAG_NOTIFICATION_METADATA of
                                   None \<Rightarrow> 0 | Some meta \<Rightarrow> the_default 0 (tag_number meta TAG_STATUS));
                   start = \<lparr>ir_seqNumber = seq_number, ir_success = False, ir_bppCommandId = None, ir_errorReason = None\<rparr>
               in Some (case nonempty_tag data 0xA2 of
                          None \<Rightarrow> start | Some final \<Rightarrow> fold final_result (iter_tlv final) start)))"

primrec load_chunks :: "'w port \<Rightarrow> nat \<Rightarrow> byte list list \<Rightarrow> ('w, install_result option) lpa" where
  "load_chunks p fuel [] = io_return None"
| "load_chunks p fuel (chunk # chunks) =
     io_bind (command p fuel chunk) (\<lambda>response.
       case (if response = [] then None else parse_install_result response) of
         Some r \<Rightarrow> io_return (Some r)
       | None \<Rightarrow> load_chunks p fuel chunks)"

definition unknown_number :: "nat option \<Rightarrow> string" where
  "unknown_number n = ''unknown('' @ (case n of None \<Rightarrow> ''None'' | Some k \<Rightarrow> nat_str k) @ '')''"

definition install_error :: "install_result \<Rightarrow> nat \<Rightarrow> string" where
  "install_error r reason =
     (case BPP_ERROR_MESSAGES reason of
        Some text \<Rightarrow> text
      | None \<Rightarrow>
          ''Profile installation failed at ''
          @ (case Option.bind (ir_bppCommandId r) BPP_COMMAND_NAMES of Some s \<Rightarrow> s | None \<Rightarrow> unknown_number (ir_bppCommandId r))
          @ '': '' @ (case BPP_ERROR_REASONS reason of Some s \<Rightarrow> s | None \<Rightarrow> unknown_number (Some reason)))"

definition load_bpp :: "'w port \<Rightarrow> nat \<Rightarrow> string \<Rightarrow> ('w, install_result) lpa" where
  "load_bpp p fuel b64_bpp =
     io_bind (io_outcome (b64_decoded b64_bpp)) (\<lambda>bpp.
     io_bind (case split_bpp bpp of
                None \<Rightarrow> io_raise (RuntimeError ''Invalid BoundProfilePackage'')
              | Some chunks \<Rightarrow> load_chunks p fuel chunks) (\<lambda>result.
       case result of
         None \<Rightarrow> io_raise (RuntimeError ''Profile installation failed: no result from eUICC'')
       | Some r \<Rightarrow>
           if ir_success r then io_return r
           else (case ir_errorReason r of
                   Some reason \<Rightarrow> io_raise (RuntimeError (install_error r reason))
                 | None \<Rightarrow> io_raise (RuntimeError ''Profile installation failed: no result from eUICC''))))"

definition parse_metadata :: "string \<Rightarrow> (lpa_exn, string \<rightharpoonup> field) outcome" where
  "parse_metadata b64_metadata =
     (case b64_decoded b64_metadata of
        Returned data \<Rightarrow>
          (case find_tag data TAG_PROFILE_METADATA of
             None \<Rightarrow> Raised (RuntimeError ''Invalid profileMetadata'')
           | Some body \<Rightarrow> index_error (decode_struct body PROFILE))
      | Raised e \<Rightarrow> Raised e | Hung \<Rightarrow> Hung)"

section \<open>Downloads\<close>

definition cancel_session :: "'w port \<Rightarrow> nat \<Rightarrow> byte list \<Rightarrow> nat \<Rightarrow> ('w, string) lpa" where
  "cancel_session p fuel transaction_id reason =
     io_bind (command p fuel (encode_tlv TAG_CANCEL_SESSION
        (encode_tlv 0x80 transaction_id @ encode_tlv 0x81 [of_nat reason]))) (\<lambda>response. io_return (b64e response))"

fun split_at :: "'a \<Rightarrow> 'a list \<Rightarrow> 'a list list" where
  \<comment> \<open>\<open>s.split(c)\<close>\<close>
  "split_at c [] = [[]]"
| "split_at c (x # xs) =
     (if x = c then [] # split_at c xs
      else (case split_at c xs of [] \<Rightarrow> [[x]] | p # ps \<Rightarrow> (x # p) # ps))"

definition parse_lpa_activation_code :: "string \<Rightarrow> (string \<times> string) option" where
  \<comment> \<open>\<open>None\<close> is a \<open>ValueError\<close>\<close>
  "parse_lpa_activation_code code =
     (if \<not> starts_with ''LPA:'' code then None
      else (case split_at (CHR ''$'') (drop 4 code) of [_, smdp, matching_id] \<Rightarrow> Some (smdp, matching_id) | _ \<Rightarrow> None))"

definition cancel_session_safe :: "'w port \<Rightarrow> nat \<Rightarrow> string \<Rightarrow> string \<Rightarrow> ('w, unit) lpa" where
  "cancel_session_safe p fuel smdp tx_id =
     io_bind (io_try (io_bind (io_outcome (b64_decoded tx_id)) (\<lambda>t. cancel_session p fuel t 127)) (\<lambda>_. True) (\<lambda>_. io_return [])) (\<lambda>b64_cancel.
     io_try (io_then (es9p_request p smdp ''cancelSession''
          [(''transactionId'', tx_id), (''cancelSessionResponse'', b64_cancel)] ''CancelSession'') (io_return ()))
       (\<lambda>_. True) (\<lambda>_. io_return ()))"

definition download_steps ::
    "'w port \<Rightarrow> nat \<Rightarrow> string \<Rightarrow> string \<Rightarrow> (string \<rightharpoonup> string) \<Rightarrow> string \<Rightarrow> ('w, string option) lpa" where
  \<comment> \<open>steps 2 to 5, after the server has opened the transaction\<close>
  "download_steps p fuel smdp matching_id auth tx_id =
     io_bind (io_outcome (b64_field auth ''serverSigned1'')) (\<lambda>signed1.
     io_bind (io_outcome (b64_field auth ''serverSignature1'')) (\<lambda>sig1.
     io_bind (io_outcome (b64_field auth ''euiccCiPKIdToBeUsed'')) (\<lambda>pk_id.
     io_bind (io_outcome (b64_field auth ''serverCertificate'')) (\<lambda>cert.
     io_bind (authenticate_server p fuel signed1 sig1 pk_id cert matching_id) (\<lambda>b64_auth.
     io_bind (es9p_request p smdp ''authenticateClient''
        [(''transactionId'', tx_id), (''authenticateServerResponse'', b64_auth)] ''Authentication'') (\<lambda>cli.
     io_bind (io_outcome (b64_field cli ''profileMetadata'')) (\<lambda>metadata.
     io_bind (io_outcome (parse_metadata metadata)) (\<lambda>fields.
     io_bind (io_outcome (b64_field cli ''smdpSigned2'')) (\<lambda>signed2.
     io_bind (io_outcome (b64_field cli ''smdpSignature2'')) (\<lambda>sig2.
     io_bind (io_outcome (b64_field cli ''smdpCertificate'')) (\<lambda>smdp_cert.
     io_bind (prepare_download p fuel signed2 sig2 smdp_cert None) (\<lambda>b64_prep.
     io_bind (es9p_request p smdp ''getBoundProfilePackage''
        [(''transactionId'', tx_id), (''prepareDownloadResponse'', b64_prep)] ''GetBoundProfilePackage'') (\<lambda>bpp.
     io_bind (io_outcome (b64_field bpp ''boundProfilePackage'')) (\<lambda>package.
     io_then (load_bpp p fuel package) (io_return (field_text (fields ''iccid'')))))))))))))))))"

definition download_profile :: "'w port \<Rightarrow> nat \<Rightarrow> string \<Rightarrow> ('w, string option) lpa" where
  "download_profile p fuel activation_code =
     io_bind (io_get (system_time_valid p \<circ> world)) (\<lambda>valid.
     if \<not> valid then io_raise (RuntimeError ''System time is not set; TLS certificate validation requires a valid clock'')
     else (case parse_lpa_activation_code activation_code of
       None \<Rightarrow> io_raise ValueError
     | Some (smdp, matching_id) \<Rightarrow>
         io_bind (get_challenge_and_info p fuel) (\<lambda>(challenge, euicc_info).
         io_bind (es9p_request p smdp ''initiateAuthentication''
            [(''smdpAddress'', smdp), (''euiccChallenge'', b64e challenge), (''euiccInfo1'', b64e euicc_info), (''matchingId'', matching_id)]
            ''Authentication'') (\<lambda>auth.
         io_bind (io_outcome (b64_field auth ''transactionId'')) (\<lambda>tx_id.
         io_try (download_steps p fuel smdp matching_id auth tx_id) (\<lambda>_. True)
           (\<lambda>e. io_then (io_when (tx_id \<noteq> []) (cancel_session_safe p fuel smdp tx_id)) (io_raise e)))))))"

section \<open>The methods of LPA\<close>

record profile =
  prof_iccid :: "string option"
  prof_nickname :: string
  prof_enabled :: bool
  prof_provider :: string

definition is_comma :: "profile \<Rightarrow> bool" where
  "is_comma pr \<longleftrightarrow> prof_provider pr = ''Webbing'' \<and> starts_with ''8985235'' (the_default [] (prof_iccid pr))"

definition profile_of :: "(string \<rightharpoonup> field) \<Rightarrow> profile" where
  "profile_of d =
     \<lparr>prof_iccid = field_text (d ''iccid''),
      prof_nickname = the_default [] (field_text (d ''profileNickname'')),
      prof_enabled = (field_text (d ''profileState'') = Some ''enabled''),
      prof_provider = the_default [] (field_text (d ''serviceProviderName''))\<rparr>"

definition release_channel :: "'w port \<Rightarrow> nat \<Rightarrow> ('w, unit) lpa" where
  "release_channel p fuel =
     io_bind (io_get channel) (\<lambda>ch. io_when (truthy ch)
       (io_then (io_try (io_then (query p fuel (close_command (the ch))) (io_return ()))
                  (\<lambda>e. is_RuntimeError e \<or> e = TimeoutError) (\<lambda>_. io_return ()))
         (io_modify (\<lambda>s. s\<lparr>channel := None\<rparr>))))"

definition with_channel :: "'w port \<Rightarrow> nat \<Rightarrow> ('w, 'a) lpa \<Rightarrow> ('w, 'a) lpa" where
  \<comment> \<open>\<open>with self._acquire_channel():\<close>\<close>
  "with_channel p fuel m = io_finally (io_then (open_isdr p fuel) m) (release_channel p fuel)"

definition LPA_list_profiles :: "'w port \<Rightarrow> nat \<Rightarrow> ('w, profile list) lpa" where
  "LPA_list_profiles p fuel =
     with_channel p fuel (io_bind (lpa_list_profiles p fuel) (\<lambda>ds. io_return (map profile_of ds)))"

definition LPA_process_notifications :: "'w port \<Rightarrow> nat \<Rightarrow> ('w, unit) lpa" where
  "LPA_process_notifications p fuel =
     io_bind (io_get (system_time_valid p \<circ> world)) (\<lambda>valid.
     if \<not> valid then io_raise (RuntimeError ''System time is not set; TLS certificate validation requires a valid clock'')
     else with_channel p fuel (process_notifications p fuel))"

definition profile_status :: "byte list \<Rightarrow> nat \<Rightarrow> string \<Rightarrow> string \<Rightarrow> (lpa_exn, nat) outcome" where
  "profile_status response tag response_name status_name =
     (case require_tag response tag response_name of
        Returned body \<Rightarrow> (case require_tag body TAG_STATUS status_name of Returned v \<Rightarrow> first_byte v | Raised e \<Rightarrow> Raised e | Hung \<Rightarrow> Hung)
      | Raised e \<Rightarrow> Raised e | Hung \<Rightarrow> Hung)"

definition delete_command :: "string \<Rightarrow> byte list" where
  "delete_command iccid = encode_tlv TAG_DELETE_PROFILE (encode_tlv TAG_ICCID (string_to_tbcd iccid))"

definition delete_profile :: "'w port \<Rightarrow> nat \<Rightarrow> string \<Rightarrow> ('w, unit) lpa" where
  "delete_profile p fuel iccid =
     io_bind (LPA_list_profiles p fuel) (\<lambda>profiles.
       case find (\<lambda>pr. prof_iccid pr = Some iccid) profiles of
         None \<Rightarrow> io_raise (LPAProfileNotFoundError (''profile not found: '' @ iccid))
       | Some pr \<Rightarrow>
           if is_comma pr then io_raise (LPAError ''refusing to delete a comma profile'')
           else io_bind (with_channel p fuel
                    (io_bind (command p fuel (delete_command iccid)) (\<lambda>response.
                       io_outcome (profile_status response TAG_DELETE_PROFILE ''DeleteProfileResponse'' ''DeleteProfile status'')))) (\<lambda>code.
                if code \<noteq> 0
                then io_raise (LPAError (''DeleteProfile failed: '' @ get_name PROFILE_ERROR_CODES code @ '' ('' @ hex_code code @ '')''))
                else io_return ()))"

definition LPA_download_profile :: "'w port \<Rightarrow> nat \<Rightarrow> string \<Rightarrow> string option \<Rightarrow> ('w, unit) lpa" where
  "LPA_download_profile p fuel qr nickname =
     with_channel p fuel (io_bind (download_profile p fuel qr) (\<lambda>iccid.
       io_when (truthy nickname \<and> truthy iccid) (set_profile_nickname p fuel (the iccid) (the nickname))))"

definition nickname_profile :: "'w port \<Rightarrow> nat \<Rightarrow> string \<Rightarrow> string \<Rightarrow> ('w, unit) lpa" where
  "nickname_profile p fuel iccid nickname = with_channel p fuel (set_profile_nickname p fuel iccid nickname)"

definition enable_profile :: "'w port \<Rightarrow> nat \<Rightarrow> string \<Rightarrow> ('w, nat) lpa" where
  "enable_profile p fuel iccid =
     (let inner = encode_tlv TAG_OK (encode_tlv TAG_ICCID (string_to_tbcd iccid)) @ [1, 1, 1]
      in io_bind (command p fuel (encode_tlv TAG_ENABLE_PROFILE inner)) (\<lambda>response.
         io_outcome (profile_status response TAG_ENABLE_PROFILE ''EnableProfileResponse'' ''EnableProfile status'')))"

definition switch_profile :: "'w port \<Rightarrow> nat \<Rightarrow> string \<Rightarrow> ('w, unit) lpa" where
  "switch_profile p fuel iccid =
     with_channel p fuel
       (io_bind (enable_profile p fuel iccid) (\<lambda>code.
        io_bind (if code = 5
                 then io_then (reset_modem p) (io_then (open_isdr p fuel) (enable_profile p fuel iccid))
                 else io_return code) (\<lambda>code.
          if code \<notin> {0, 2}
          then io_raise (LPAError (''EnableProfile failed: '' @ get_name PROFILE_ERROR_CODES code @ '' ('' @ hex_code code @ '')''))
          else io_return ())))"

definition is_euicc :: "'w port \<Rightarrow> nat \<Rightarrow> ('w, bool) lpa" where
  "is_euicc p fuel =
     io_bind (io_try (io_bind (query p fuel open_command) (\<lambda>ls. io_return (Some ls))) is_RuntimeError (\<lambda>_. io_return None)) (\<lambda>lines.
       case Option.bind lines first_channel of
         None \<Rightarrow> io_return False
       | Some ch \<Rightarrow>
           io_then (io_try (io_then (query p fuel (close_command ch)) (io_return ()))
                     (\<lambda>e. is_RuntimeError e \<or> e = TimeoutError) (\<lambda>_. io_return ()))
           (io_then (io_modify (\<lambda>s. s\<lparr>channel := None\<rparr>)) (io_return True)))"

end
