(* ===== verification/TlvFacts.thy ===== *)
theory TlvFacts
  imports Tlv
begin

text \<open>
  The encodings of \<open>Tlv\<close> read back what they write: big endian integers, TLV records and
  sequences of records, swapped BCD, base64.
\<close>

section \<open>Big endian integers\<close>

lemma nat_of_be_snoc [simp]: "nat_of_be (bs @ [b]) = 256 * nat_of_be bs + unat b"
  by (simp add: nat_of_be_def)

lemma nat_of_be_Nil [simp]: "nat_of_be [] = 0"
  by (simp add: nat_of_be_def)

lemma length_nat_to_be [simp]: "length (nat_to_be k n) = k"
  by (induction k arbitrary: n) simp_all

lemma unat_byte_of_nat [simp]: "unat (of_nat n :: byte) = n mod 256"
  by (simp add: unat_of_nat)

lemma nat_of_to_be: "n < 256 ^ k \<Longrightarrow> nat_of_be (nat_to_be k n) = n"
proof (induction k arbitrary: n)
  case (Suc k)
  then have "n div 256 < 256 ^ k" by (simp add: div_less_iff_less_mult mult.commute)
  with Suc show ?case by simp
qed simp

lemma bit_length_0 [simp]: "bit_length 0 = 0"
  by (subst bit_length.simps) simp

lemma bit_length_pos: "0 < n \<Longrightarrow> bit_length n = Suc (bit_length (n div 2))"
  by (subst bit_length.simps) simp

lemma less_bit_length: "n < 2 ^ bit_length n"
proof (induction n rule: less_induct)
  case (less n)
  show ?case
  proof (cases "n = 0")
    case False
    with less [of "n div 2"] have "n div 2 < 2 ^ bit_length (n div 2)" by simp
    with False show ?thesis by (simp add: bit_length_pos)
  qed simp
qed

lemma bit_length_le: "n < 2 ^ k \<Longrightarrow> bit_length n \<le> k"
proof (induction k arbitrary: n)
  case (Suc k)
  show ?case
  proof (cases "n = 0")
    case False
    from Suc.prems have "n div 2 < 2 ^ k" by simp
    with Suc.IH False show ?thesis by (simp add: bit_length_pos)
  qed simp
qed simp

lemma less_byte_length:
  assumes "(bit_length n + 7) div 8 \<le> k" shows "n < 256 ^ k"
proof -
  have "n < 2 ^ bit_length n" by (rule less_bit_length)
  also have "\<dots> \<le> 2 ^ (8 * k)" using assms by (intro power_increasing) auto
  finally show ?thesis by (simp add: power_mult)
qed

lemma nat_of_length_bytes [simp]: "nat_of_be (length_bytes n) = n"
  unfolding length_bytes_def by (rule nat_of_to_be) (rule less_byte_length [OF order_refl])

lemma nat_of_int_bytes [simp]: "nat_of_be (int_bytes n) = n"
  unfolding int_bytes_def by (rule nat_of_to_be, rule less_byte_length) auto

lemma length_length_bytes: "n < 256 ^ k \<Longrightarrow> length (length_bytes n) \<le> k"
  using bit_length_le [of n "8 * k"] by (simp add: length_bytes_def power_mult)

section \<open>TLV records\<close>

definition tag_ok :: "nat \<Rightarrow> bool" where
  \<comment> \<open>a BER tag of one or two bytes\<close>
  "tag_ok t \<longleftrightarrow> (if t < 256 then t mod 32 \<noteq> 31 else t < 65536 \<and> t div 256 mod 32 = 31 \<and> t mod 256 < 128)"

lemma nat_and_mask: "x AND mask k = x mod 2 ^ k" for x :: nat
  by (simp only: take_bit_eq_mask [symmetric] take_bit_eq_mod)

lemma unat_low_bits:
  "unat (b AND 0x0F) = unat b mod 16" "unat (b AND 0x1F) = unat b mod 32" "unat (b AND 0x7F) = unat b mod 128" for b :: byte
  using nat_and_mask [of "unat b" 4] nat_and_mask [of "unat b" 5] nat_and_mask [of "unat b" 7]
  by (simp_all add: unsigned_and_eq mask_eq_exp_minus_1)

lemma low_bits_31: "b AND 0x1F = 0x1F \<longleftrightarrow> unat b mod 32 = 31" for b :: byte
  by (simp flip: unat_low_bits add: word_unat_eq_iff)

lemma nat_and_128: "n AND 128 = 0 \<longleftrightarrow> even (n div 128)" for n :: nat
  using and_exp_eq_0_iff_not_bit [of n 7] by (simp add: bit_iff_odd)

lemma unat_and_128: "unat (b AND 0x80) = unat b AND 128" for b :: byte
  by (simp add: unsigned_and_eq)

lemma high_bit: "b AND 0x80 = 0 \<longleftrightarrow> unat b < 128" for b :: byte
proof -
  have "b AND 0x80 = 0 \<longleftrightarrow> unat b AND 128 = 0"
    unfolding unat_and_128 [symmetric] by (rule unat_eq_zero [symmetric])
  also have "\<dots> \<longleftrightarrow> unat b < 128"
  proof (cases "unat b < 128")
    case False
    have "unat b < 2 ^ LENGTH(8)" by (rule unsigned_less)
    with False have "unat b div 128 = 1" by (intro div_nat_eqI) simp_all
    with False show ?thesis unfolding nat_and_128 by simp
  next
    case True
    then show ?thesis unfolding nat_and_128 by simp
  qed
  finally show ?thesis .
qed

lemma long_size_byte:
  assumes "n < 128"
  shows "unat ((0x80 :: byte) OR of_nat n) = 128 + n"
proof -
  have "of_nat n AND (0x80 :: byte) = 0"
    unfolding high_bit using assms by simp
  then have "(0x80 :: byte) AND of_nat n = 0" by (simp only: and.commute)
  then have "(0x80 :: byte) OR of_nat n = of_nat (128 + n)" by (simp add: disjunctive_add_eq_or)
  with assms show ?thesis by (simp del: of_nat_add)
qed

lemma nat_and_255: "n AND 255 = n mod 256" for n :: nat
  using nat_and_mask [of n 8] by (simp add: mask_eq_exp_minus_1)

lemma read_tag_bytes:
  assumes "tag_ok t"
  obtains b cs where "tag_bytes t = b # cs" "\<forall>r. read_tag b (cs @ r) = (t, r)"
proof (cases "t < 256")
  case True
  with assms have "read_tag (of_nat t) r = (t, r)" for r
    by (simp add: read_tag_def low_bits_31 tag_ok_def)
  with True that [of "of_nat t" "[]"] show ?thesis by (simp add: tag_bytes_def)
next
  case False
  let ?h = "of_nat (drop_bit 8 t AND 255) :: byte" and ?l = "of_nat (t AND 255) :: byte"
  from False assms have t: "t div 256 < 256" "t div 256 mod 32 = 31" "t mod 256 < 128"
    by (auto simp: tag_ok_def)
  have h: "unat ?h = t div 256" "unat ?l = t mod 256"
    using t(1) by (simp_all add: nat_and_255 drop_bit_eq_div)
  have "read_tag ?h (?l # r) = (t, r)" for r
    using t h by (simp add: read_tag_def low_bits_31 high_bit del: unat_byte_of_nat)
  with False that [of ?h "[?l]"] show ?thesis by (simp add: tag_bytes_def)
qed

lemma read_size_bytes:
  assumes "n < 256 ^ 127" shows "read_size (size_bytes n @ r) = Some (n, r)"
proof (cases "n \<le> 127")
  case True
  then show ?thesis by (simp add: size_bytes_def high_bit)
next
  case False
  let ?k = "length (length_bytes n)" and ?b = "(0x80 :: byte) OR of_nat (length (length_bytes n))"
  have k: "?k < 128" using length_length_bytes [OF assms] by simp
  have b: "unat ?b = 128 + ?k" by (rule long_size_byte [OF k])
  then have "?b AND 0x80 \<noteq> 0" "unat (?b AND 0x7F) = ?k"
    using k by (simp_all add: high_bit unat_low_bits)
  with False show ?thesis by (simp add: size_bytes_def)
qed

lemma read_tlv_encode:
  assumes "tag_ok t" "length v < 256 ^ 127"
  shows "read_tlv (encode_tlv t v @ r) = Some (t, v, r)"
proof -
  from assms(1) obtain b cs where "tag_bytes t = b # cs" "\<forall>r. read_tag b (cs @ r) = (t, r)"
    by (rule read_tag_bytes)
  with read_size_bytes [OF assms(2), of "v @ r"] show ?thesis
    by (simp add: encode_tlv_def)
qed

lemma iter_tlv_from_Nil [simp]: "iter_tlv_from pos [] = []"
  by (subst iter_tlv_from.simps) simp

lemma iter_tlv_from_encode:
  assumes "tag_ok t" "length v < 256 ^ 127"
  shows "iter_tlv_from pos (encode_tlv t v @ r) =
    (t, v, pos, pos + length (encode_tlv t v)) # iter_tlv_from (pos + length (encode_tlv t v)) r"
  by (subst iter_tlv_from.simps) (simp add: read_tlv_encode [OF assms] Let_def)

text \<open>A record list and its encoding, with the positions of the records.\<close>

definition record_ok :: "nat \<times> byte list \<Rightarrow> bool" where
  "record_ok = (\<lambda>(t, v). tag_ok t \<and> length v < 256 ^ 127)"

definition encode_records :: "(nat \<times> byte list) list \<Rightarrow> byte list" where
  "encode_records rs = concat (map (\<lambda>(t, v). encode_tlv t v) rs)"

fun record_positions :: "nat \<Rightarrow> (nat \<times> byte list) list \<Rightarrow> (nat \<times> byte list \<times> nat \<times> nat) list" where
  "record_positions pos [] = []"
| "record_positions pos ((t, v) # rs) =
     (t, v, pos, pos + length (encode_tlv t v)) # record_positions (pos + length (encode_tlv t v)) rs"

lemma encode_records_simps [simp]:
  "encode_records [] = []" "encode_records ((t, v) # rs) = encode_tlv t v @ encode_records rs"
  "encode_records (xs @ ys) = encode_records xs @ encode_records ys"
  by (simp_all add: encode_records_def)

lemma iter_tlv_from_records:
  "list_all record_ok rs \<Longrightarrow> iter_tlv_from pos (encode_records rs) = record_positions pos rs"
  by (induction rs arbitrary: pos) (auto simp: record_ok_def iter_tlv_from_encode)

lemma record_positions_records: "map (\<lambda>(t, v, _, _). (t, v)) (record_positions pos rs) = rs"
  by (induction pos rs rule: record_positions.induct) auto

lemma iter_tlv_records: "list_all record_ok rs \<Longrightarrow> iter_tlv (encode_records rs) = rs"
  by (simp add: iter_tlv_def iter_tlv_positions_def iter_tlv_from_records record_positions_records)

lemma iter_tlv_single: "record_ok (t, v) \<Longrightarrow> iter_tlv (encode_tlv t v) = [(t, v)]"
  using iter_tlv_records [of "[(t, v)]"] by simp

section \<open>Swapped BCD digits\<close>

lemma nibbles_nat: "d < 16 \<Longrightarrow> d OR push_bit 4 e = d + 16 * e" for d e :: nat
proof -
  assume "d < 16"
  then have "d = take_bit 4 d" by (simp add: take_bit_eq_mod)
  moreover have "take_bit 4 d AND push_bit 4 e = 0"
    by (rule bit_eqI) (auto simp: bit_simps)
  ultimately have "d AND push_bit 4 e = 0" by simp
  then show ?thesis by (simp add: push_bit_eq_mult flip: disjunctive_add_eq_or)
qed

lemma nibbles:
  assumes "d < 16" "e < 16"
  shows "unat ((of_nat d :: byte) OR push_bit 4 (of_nat e)) = d + 16 * e"
proof -
  have "(of_nat d :: byte) OR push_bit 4 (of_nat e) = of_nat (d + 16 * e)"
    by (simp only: nibbles_nat [OF assms(1), symmetric] of_nat_or_eq push_bit_of_nat)
  with assms show ?thesis by (simp del: of_nat_add of_nat_mult)
qed

lemma unat_drop_4: "unat (drop_bit 4 b) = unat b div 16" for b :: byte
proof -
  have "unat (drop_bit 4 b) = drop_bit 4 (unat b)" by (rule unat_drop_bit_eq)
  then show ?thesis by (simp add: drop_bit_eq_div)
qed

lemma tbcd_byte:
  assumes "d < 16" "e < 16"
  shows "tbcd_digits ((of_nat d :: byte) OR push_bit 4 (of_nat e)) = filter (\<lambda>n. n \<le> 9) [d, e]"
proof -
  let ?b = "(of_nat d :: byte) OR push_bit 4 (of_nat e)"
  have "unat (?b AND 0x0F) = d" using assms by (simp add: unat_low_bits nibbles)
  moreover have "unat (drop_bit 4 ?b) = e"
    by (simp only: unat_drop_4 nibbles [OF assms]) (use assms in simp)
  ultimately show ?thesis by (simp only: tbcd_digits_def)
qed

lemma tbcd_pack:
  "\<forall>d \<in> set ds. d \<le> 9 \<Longrightarrow> tbcd_to_string (pack_digits ds) = concat (map nat_str ds)"
proof (induction ds rule: pack_digits.induct)
  case (2 d)
  then show ?case using tbcd_byte [of d 15] by (simp add: tbcd_to_string_def)
next
  case (3 d e ds)
  then show ?case using tbcd_byte [of d e] by (simp add: tbcd_to_string_def)
qed (simp add: tbcd_to_string_def)

lemma digit_text: "is_digit c \<Longrightarrow> nat_str (of_char c - 48) = [c]"
proof -
  assume "is_digit c"
  then have "of_char c - 48 < (10 :: nat)" "48 + (of_char c - 48) = (of_char c :: nat)" by (auto simp: is_digit_def)
  then show ?thesis by (simp only: nat_str_small digit_char_def char_of_char)
qed

lemma tbcd_digits_text: "tbcd_to_string (string_to_tbcd s) = filter is_digit s"
proof -
  have "concat (map nat_str (map (\<lambda>c. of_char c - 48) (filter is_digit s))) = filter is_digit s"
    by (induction s) (simp_all add: digit_text)
  moreover have "\<forall>d \<in> set (map (\<lambda>c. of_char c - 48) (filter is_digit s)). d \<le> (9 :: nat)"
    by (auto simp: is_digit_def)
  ultimately show ?thesis by (simp only: string_to_tbcd_def tbcd_pack)
qed

section \<open>Base64\<close>

lemma b64_alphabet_values: "list_all (\<lambda>n. b64_value (b64_char n) = Some n \<and>
    list_all (\<lambda>c. b64_char n \<noteq> c) [CHR ''='', CHR 0x0A, CHR 0x0D, CHR '' '', CHR 0x09]) [0..<64]"
  by code_simp

lemma b64_char_simps [simp]:
  assumes "n < 64"
  shows "b64_value (b64_char n) = Some n" "b64_char n \<noteq> CHR ''=''"
    "b64_char n \<noteq> CHR 0x0A" "b64_char n \<noteq> CHR 0x0D" "b64_char n \<noteq> CHR '' ''" "b64_char n \<noteq> CHR 0x09"
  using b64_alphabet_values assms unfolding list_all_iff by auto

lemma b64_parts:
  "unat a div 4 < 64" "unat a mod 4 * 16 + unat b div 16 < 64" "unat b mod 16 * 4 + unat c div 64 < 64"
  "unat c mod 64 < 64" "unat a mod 4 * 16 < 64" "unat b mod 16 * 4 < 64" for a b c :: byte
proof -
  have "unat a < 2 ^ LENGTH(8)" "unat b < 2 ^ LENGTH(8)" "unat c < 2 ^ LENGTH(8)" by (rule unsigned_less)+
  then have "unat b div 16 < 16" "unat c div 64 < 4" "unat a div 4 < 64" by simp_all
  moreover have "unat a mod 4 < 4" "unat b mod 16 < 16" by simp_all
  ultimately show "unat a div 4 < 64" "unat a mod 4 * 16 + unat b div 16 < 64" "unat b mod 16 * 4 + unat c div 64 < 64"
    "unat c mod 64 < 64" "unat a mod 4 * 16 < 64" "unat b mod 16 * 4 < 64" by simp_all
qed

lemma b64_join:
  "unat a div 4 * 4 + (unat a mod 4 * 16 + unat b div 16) div 16 = unat a"
  "(unat a mod 4 * 16 + unat b div 16) mod 16 = unat b div 16"
  "unat b div 16 * 16 + (unat b mod 16 * 4 + unat c div 64) div 4 = unat b"
  "(unat b mod 16 * 4 + unat c div 64) mod 4 = unat c div 64"
  "unat c div 64 * 64 + unat c mod 64 = unat c" for a b c :: byte
proof -
  have "unat b < 2 ^ LENGTH(8)" "unat c < 2 ^ LENGTH(8)" by (rule unsigned_less)+
  then have b: "unat b div 16 < 16" "unat c div 64 < 4" by simp_all
  then have "(unat a mod 4 * 16 + unat b div 16) div 16 = unat a mod 4"
    "(unat b mod 16 * 4 + unat c div 64) div 4 = unat b mod 16" by (simp_all add: div_add1_eq)
  then show "unat a div 4 * 4 + (unat a mod 4 * 16 + unat b div 16) div 16 = unat a"
    "unat b div 16 * 16 + (unat b mod 16 * 4 + unat c div 64) div 4 = unat b" by simp_all
  show "(unat a mod 4 * 16 + unat b div 16) mod 16 = unat b div 16"
    "(unat b mod 16 * 4 + unat c div 64) mod 4 = unat c div 64"
    "unat c div 64 * 64 + unat c mod 64 = unat c" using b by simp_all
qed

lemma b64_scan_encoded: "b64_scan 0 left pads (b64e bs) = Some bs"
proof (induction bs arbitrary: left pads rule: b64e.induct)
  case (1 a b c r)
  show ?case
    by (simp only: b64e.simps b64_scan.simps b64_parts b64_char_simps if_False option.case 1)
      (simp only: b64_join if_True if_False option.map zero_neq_one refl simp_thms of_nat_unat one_neq_zero, simp)
next
  case (2 a b)
  have "unat a div 4 * 4 + (unat a mod 4 * 16 + unat b div 16) div 16 = unat a"
    "(unat a mod 4 * 16 + unat b div 16) mod 16 = unat b div 16" by (rule b64_join)+
  moreover have "unat b div 16 * 16 + unat b mod 16 * 4 div 4 = unat b" by simp
  ultimately show ?case by (simp add: b64_parts del: of_nat_add of_nat_mult)
qed (simp_all add: b64_parts)

lemma b64_trim_encoded: "base64_trim (b64e bs) = b64e bs"
  unfolding base64_trim_def
  by (induction bs rule: b64e.induct) (simp_all add: b64_parts)

lemma b64d_b64e: "b64d (b64e bs) = Some bs"
  by (simp add: b64d_def b64_trim_encoded b64_scan_encoded)

end
