(* ===== verification/Es10x.thy ===== *)
theory Es10x
  imports Lpa TlvFacts
begin

text \<open>
  The transport of commands, from \<open>es10x_command\<close> down to the lines of the serial port. The card
  is an environment: it collects the blocks of a STORE DATA command, runs it when the last block
  has arrived (any function \<open>exec\<close> on a memory of any type) and hands out the answer in pieces of
  any size (\<open>piece\<close>), as SGP.22 and ETSI TS 102 221 have it. The modem passes APDUs on in
  \<open>AT+CGLA\<close> commands (3GPP TS 27.007) and may print other lines before its answer. The
  locale \<open>apdu_channel\<close> is what \<open>es10x_command\<close> expects of \<open>send_apdu\<close>.
\<close>

section \<open>The card\<close>

record 'x card =
  card_in :: "byte list"
  card_seq :: nat
  card_out :: "byte list"
  card_mem :: 'x

definition idle :: "'x card \<Rightarrow> bool" where
  "idle c \<longleftrightarrow> card_in c = [] \<and> card_seq c = 0 \<and> card_out c = []"

definition deliver :: "(byte list \<Rightarrow> nat) \<Rightarrow> byte list \<Rightarrow> 'x card \<Rightarrow> apdu_reply \<times> 'x card" where
  "deliver piece out c =
     (let rest = drop (piece out) out
      in ((take (piece out) out, if rest = [] then (0x90, 0x00) else (0x61, of_nat (min 255 (length rest)))),
          c\<lparr>card_out := rest\<rparr>))"

definition card_answer ::
    "(byte list \<Rightarrow> 'x \<Rightarrow> byte list \<times> 'x) \<Rightarrow> (byte list \<Rightarrow> nat) \<Rightarrow> byte list \<Rightarrow> 'x card \<Rightarrow> apdu_reply \<times> 'x card" where
  "card_answer exec piece apdu c =
     (case apdu of
        cla # ins # p1 # p2 # lc # data \<Rightarrow>
          if cla = 0x80 \<and> ins = 0xC0 then deliver piece (card_out c) c
          else if cla = 0x80 \<and> ins = 0xE2 \<and> unat lc = length data \<and> p2 = of_nat (card_seq c)
          then if p1 = 0x91
               then case exec (card_in c @ data) (card_mem c) of (r, m) \<Rightarrow>
                      deliver piece r (c\<lparr>card_in := [], card_seq := 0, card_mem := m\<rparr>)
               else (([], 0x90, 0x00), c\<lparr>card_in := card_in c @ data, card_seq := card_seq c + 1\<rparr>)
          else (([], 0x6D, 0x00), c)
      | _ \<Rightarrow> (([], 0x67, 0x00), c))"

definition makes_progress :: "(byte list \<Rightarrow> nat) \<Rightarrow> bool" where
  "makes_progress piece \<longleftrightarrow> (\<forall>out. out \<noteq> [] \<longrightarrow> 1 \<le> piece out)"

section \<open>Commands over any channel to the card\<close>

locale apdu_channel =
  fixes send :: "byte list \<Rightarrow> ('s, lpa_exn, apdu_reply) io"
    and up :: "'s \<Rightarrow> bool"
    and card :: "'s \<Rightarrow> 'x card"
    and exec :: "byte list \<Rightarrow> 'x \<Rightarrow> byte list \<times> 'x"
    and piece :: "byte list \<Rightarrow> nat"
  assumes send_card: "up s \<Longrightarrow> \<exists>t. send apdu s = (Returned (fst (card_answer exec piece apdu (card s))), t) \<and> up t \<and>
      card t = snd (card_answer exec piece apdu (card s))"
begin

lemma more_data_delivers:
  assumes "makes_progress piece" "length out < fuel" "up s" "card s = snd (deliver piece out c)"
  shows "\<exists>t. more_data send fuel (fst (deliver piece out c)) acc s = (Returned (acc @ drop (piece out) out), t) \<and> up t \<and>
    card t = c\<lparr>card_out := []\<rparr>"
  using assms(2-4)
proof (induction fuel arbitrary: out s acc c)
  case (Suc fuel)
  let ?rest = "drop (piece out) out"
  show ?case
  proof (cases "?rest = []")
    case True
    then show ?thesis using Suc.prems by (simp add: deliver_def Let_def)
  next
    case False
    then have "out \<noteq> []" by auto
    with assms(1) have "1 \<le> piece out" by (simp add: makes_progress_def)
    moreover have "0 < length out" using \<open>out \<noteq> []\<close> by simp
    ultimately have lt: "length ?rest < fuel" using Suc.prems(1) unfolding length_drop by linarith
    obtain r where r: "r = ?rest" by blast
    let ?le = "of_nat (min 255 (length r)) :: byte"
    have d: "fst (deliver piece out c) = (take (piece out) out, 0x61, ?le)"
      using False by (simp add: deliver_def Let_def r del: drop_eq_Nil)
    have c: "card s = c\<lparr>card_out := r\<rparr>" using Suc.prems(3) by (simp add: deliver_def Let_def r)
    have "card_answer exec piece [0x80, 0xC0, 0x00, 0x00, ?le] (card s) = deliver piece r c"
      by (simp add: card_answer_def c deliver_def Let_def)
    with send_card [OF Suc.prems(2), of "[0x80, 0xC0, 0x00, 0x00, ?le]"] obtain t where
      t: "send [0x80, 0xC0, 0x00, 0x00, ?le] s = (Returned (fst (deliver piece r c)), t)" "up t"
        "card t = snd (deliver piece r c)" by auto
    have "fst (fst (deliver piece r c)) = take (piece r) r" by (simp add: deliver_def Let_def)
    with t(1) have m: "more_data send (Suc fuel) (fst (deliver piece out c)) acc s =
        more_data send fuel (fst (deliver piece r c)) (acc @ take (piece r) r) t"
      by (simp add: d io_bind_simps)
    from Suc.IH [OF lt [folded r] t(2,3), of "acc @ take (piece r) r"] show ?thesis
      unfolding m r [symmetric] append_assoc append_take_drop_id .
  qed
qed simp

lemma es10x_chunks_delivers:
  assumes "makes_progress piece" "data \<noteq> []" "length (fst (exec (card_in (card s) @ data) (card_mem (card s)))) < fuel" "up s"
    "card_seq (card s) = seq" "card_out (card s) = []"
  shows "\<exists>t. es10x_chunks send fuel data seq acc s =
      (Returned (acc @ fst (exec (card_in (card s) @ data) (card_mem (card s)))), t) \<and> up t \<and> idle (card t) \<and>
      card_mem (card t) = snd (exec (card_in (card s) @ data) (card_mem (card s)))"
  using assms(2-)
proof (induction data arbitrary: s seq acc rule: length_induct)
  case (1 data)
  let ?chunk = "take ES10X_MSS data" and ?rest = "drop ES10X_MSS data"
  let ?apdu = "[0x80, 0xE2, if ?rest = [] then 0x91 else 0x11, of_nat seq AND 0xFF, of_nat (length ?chunk)] @ ?chunk"
  let ?r = "exec (card_in (card s) @ data) (card_mem (card s))"
  have lc: "unat (of_nat (length ?chunk) :: byte) = length ?chunk" by (simp add: ES10X_MSS_def)
  have p2: "(of_nat seq :: byte) AND 0xFF = of_nat seq"
  proof -
    have "(0xFF :: byte) = -1" by simp
    then show ?thesis by (metis and.right_neutral)
  qed
  note step = es10x_chunks.simps [of send fuel data seq acc]
  from send_card [OF 1(4), of ?apdu] obtain t where
    t: "send ?apdu s = (Returned (fst (card_answer exec piece ?apdu (card s))), t)" "up t"
      "card t = snd (card_answer exec piece ?apdu (card s))" by blast
  show ?case
  proof (cases "?rest = []")
    case True
    then have all: "?chunk = data" by simp
    let ?c = "(card s)\<lparr>card_in := [], card_seq := 0, card_mem := snd ?r\<rparr>"
    have a: "card_answer exec piece ?apdu (card s) = deliver piece (fst ?r) ?c"
      using True 1(5) lc p2 by (simp add: card_answer_def all split_def)
    from more_data_delivers [OF assms(1) 1(3) t(2), of ?c "acc @ take (piece (fst ?r)) (fst ?r)"] t(3) a
    obtain u where u: "more_data send fuel (fst (deliver piece (fst ?r) ?c)) (acc @ take (piece (fst ?r)) (fst ?r)) t =
        (Returned (acc @ fst ?r), u)" "up u" "card u = ?c\<lparr>card_out := []\<rparr>" by auto
    have "fst (fst (deliver piece (fst ?r) ?c)) = take (piece (fst ?r)) (fst ?r)" by (simp add: deliver_def Let_def)
    with u t(1) a True 1(2) show ?thesis
      by (simp add: step Let_def io_bind_simps idle_def es10x_chunks.simps [of send fuel "[]"])
  next
    case False
    then have "0 < length data" "length ?rest < length data" by (auto simp: ES10X_MSS_def)
    have a: "card_answer exec piece ?apdu (card s) =
        (([], 0x90, 0x00), (card s)\<lparr>card_in := card_in (card s) @ ?chunk, card_seq := seq + 1\<rparr>)"
      using False 1(5) lc p2 by (simp add: card_answer_def)
    have m: "more_data send fuel ([], 0x90, 0x00) acc t = (Returned acc, t)"
      using 1(3) by (cases fuel) simp_all
    have "\<exists>u. es10x_chunks send fuel ?rest (seq + 1) acc t = (Returned (acc @ fst ?r), u) \<and> up u \<and> idle (card u) \<and>
        card_mem (card u) = snd ?r"
      using 1(1) [rule_format, OF \<open>length ?rest < length data\<close>, of t "seq + 1" acc] False t a 1(3,6) by simp
    with t(1) a m False 1(2) show ?thesis by (simp add: step Let_def io_bind_simps)
  qed
qed

lemma es10x_command_answers:
  assumes "makes_progress piece" "data \<noteq> []" "up s" "idle (card s)" "length (fst (exec data (card_mem (card s)))) < fuel"
  shows "\<exists>t. es10x_command send fuel data s = (Returned (fst (exec data (card_mem (card s)))), t) \<and> up t \<and> idle (card t) \<and>
    card_mem (card t) = snd (exec data (card_mem (card s)))"
  using es10x_chunks_delivers [OF assms(1,2), of s fuel 0 "[]"] assms(3-5) by (simp add: idle_def es10x_command_def)

end

end
