(* ===== verification/AtModem.thy ===== *)
theory AtModem
  imports Es10x
begin

text \<open>
  A modem with a card behind it, as the serial port sees it, and the proof that
  \<open>send_apdu\<close> provides the channel that \<open>es10x_command\<close> expects: hexadecimal texts, lines and
  the split of the answer read back what the modem was told.
\<close>

section \<open>Hexadecimal texts\<close>

lemma hex_digits_values: "list_all (\<lambda>n. hex_value (hex_digits ! n) = Some n \<and> \<not> is_space (hex_digits ! n) \<and>
    (of_char (hex_digits ! n) :: nat) < 128 \<and> list_all (\<lambda>c. hex_digits ! n \<noteq> c) [CHR 0x22, CHR '':'', CHR '','']) [0..<16]"
  by code_simp

lemma hex_digit_simps [simp]:
  assumes "n < 16"
  shows "hex_value (hex_digits ! n) = Some n" "\<not> is_space (hex_digits ! n)"
    "(of_char (hex_digits ! n) :: nat) < 128" "hex_digits ! n \<noteq> CHR 0x22"
  using hex_digits_values assms unfolding list_all_iff by auto

lemma byte_halves: "unat b div 16 < 16" "unat b mod 16 < 16" for b :: byte
proof -
  have "unat b < 2 ^ LENGTH(8)" by (rule unsigned_less)
  then show "unat b div 16 < 16" "unat b mod 16 < 16" by simp_all
qed

lemma from_hex_upper: "from_hex (hex_upper bs) = Some bs"
proof (induction bs)
  case (Cons b bs)
  have "of_nat (16 * (unat b div 16) + unat b mod 16) = b" by simp
  with Cons show ?case by (simp add: hex_upper_def byte_halves del: of_nat_add of_nat_mult)
qed (simp add: hex_upper_def)

lemma hex_upper_chars: "c \<in> set (hex_upper bs) \<Longrightarrow> \<exists>n < 16. c = hex_digits ! n"
  unfolding hex_upper_def by (auto intro: byte_halves exI [of _ "unat _ mod 16"])

lemma hex_upper_no_quote: "CHR 0x22 \<notin> set (hex_upper bs)"
  by (auto dest!: hex_upper_chars) (metis hex_digit_simps(4))

lemma length_hex_upper [simp]: "length (hex_upper bs) = 2 * length bs"
  by (induction bs) (simp_all add: hex_upper_def)

section \<open>Lines\<close>

definition ascii :: "string \<Rightarrow> bool" where "ascii s \<longleftrightarrow> list_all (\<lambda>c. (of_char c :: nat) < 128) s"

definition clean_line :: "string \<Rightarrow> bool" where
  \<comment> \<open>an ASCII line without white space at its ends\<close>
  "clean_line s \<longleftrightarrow> ascii s \<and> s \<noteq> [] \<and> \<not> is_space (hd s) \<and> \<not> is_space (last s)"

lemma utf8_valid_ascii: "list_all (\<lambda>b. b < 0x80) bs \<Longrightarrow> utf8_valid bs = bs"
proof (induction bs)
  case (Cons b bs)
  then have "utf8_seq_len (b # bs) = 1" by (cases "b # bs" rule: utf8_seq_len.cases) auto
  with Cons show ?case by (subst utf8_valid.simps) simp
qed (subst utf8_valid.simps, simp)

lemma text_bytes [simp]: "text_of (bytes_of s) = s"
proof -
  have "char_of (of_char c mod 256 :: nat) = c" for c by (simp add: char_of_mod_256)
  then show ?thesis by (simp add: text_of_def bytes_of_def comp_def)
qed

lemma decode_ascii: "ascii s \<Longrightarrow> decode_ignore (bytes_of s) = s"
proof -
  assume "ascii s"
  then have "list_all (\<lambda>b. b < 0x80) (bytes_of s)"
    by (auto simp: ascii_def bytes_of_def list_all_iff word_less_nat_alt)
  then show ?thesis by (simp add: decode_ignore_def utf8_valid_ascii)
qed

definition line_bytes :: "string \<Rightarrow> byte list" where "line_bytes s = bytes_of (s @ [CHR 0x0D, CHR 0x0A])"

lemma read_line:
  assumes "clean_line s"
  shows "line_bytes s \<noteq> []" "py_strip (decode_ignore (line_bytes s)) = s"
proof -
  show "line_bytes s \<noteq> []" by (simp add: line_bytes_def bytes_of_def)
  have "ascii (s @ [CHR 0x0D, CHR 0x0A])" using assms by (simp add: clean_line_def ascii_def)
  then have d: "decode_ignore (line_bytes s) = s @ [CHR 0x0D, CHR 0x0A]"
    unfolding line_bytes_def by (rule decode_ascii)
  have front: "dropWhile is_space xs = xs" if "xs \<noteq> []" "\<not> is_space (hd xs)" for xs
    using that by (cases xs) auto
  have "dropWhile is_space (s @ xs) = s @ xs" for xs
    by (rule front) (use assms in \<open>auto simp: clean_line_def\<close>)
  moreover have "dropWhile is_space (rev s) = rev s"
    by (rule front) (use assms in \<open>auto simp: clean_line_def hd_rev\<close>)
  ultimately show "py_strip (decode_ignore (line_bytes s)) = s"
    unfolding d by (simp add: py_strip_def is_space_def Let_def)
qed

section \<open>The modem\<close>

record 'x modem =
  mdm_lines :: "byte list list"
  mdm_card :: "'x card"

definition cgla_reply :: "apdu_reply \<Rightarrow> string" where
  "cgla_reply r =
     (case r of (d, sw1, sw2) \<Rightarrow>
        let h = hex_upper (d @ [sw1, sw2])
        in ''+CGLA: '' @ nat_str (length h) @ '','' @ [CHR 0x22] @ h @ [CHR 0x22])"

definition quoted :: "string \<Rightarrow> string" where
  "quoted s = takeWhile (\<lambda>c. c \<noteq> CHR 0x22) (tl (dropWhile (\<lambda>c. c \<noteq> CHR 0x22) s))"

definition modem_says :: "string list \<Rightarrow> 'x modem \<Rightarrow> (lpa_exn, unit) outcome \<times> 'x modem" where
  "modem_says ls w = (Returned (), w\<lparr>mdm_lines := mdm_lines w @ map line_bytes ls\<rparr>)"

definition modem_write ::
    "(byte list \<Rightarrow> 'x \<Rightarrow> byte list \<times> 'x) \<Rightarrow> (byte list \<Rightarrow> nat) \<Rightarrow> string list \<Rightarrow> byte list \<Rightarrow> ('x modem, lpa_exn, unit) io" where
  "modem_write exec piece noise bs w =
     (let cmd = text_of bs
      in if starts_with ''AT+CGLA='' cmd
         then (case from_hex (quoted cmd) of
                 None \<Rightarrow> modem_says (noise @ [''ERROR'']) w
               | Some apdu \<Rightarrow>
                   (case card_answer exec piece apdu (mdm_card w) of
                      (r, c) \<Rightarrow> modem_says (noise @ [cgla_reply r, ''OK'']) (w\<lparr>mdm_card := c\<rparr>)))
         else if starts_with ''AT+CCHO='' cmd
         then modem_says (noise @ [''+CCHO: 1'', ''OK'']) (w\<lparr>mdm_card := (mdm_card w)\<lparr>card_in := [], card_seq := 0, card_out := []\<rparr>\<rparr>)
         else modem_says (noise @ [''OK'']) w)"

definition modem_readline :: "('x modem, lpa_exn, byte list) io" where
  "modem_readline w =
     (case mdm_lines w of [] \<Rightarrow> (Returned [], w) | l # ls \<Rightarrow> (Returned l, w\<lparr>mdm_lines := ls\<rparr>))"

definition modem_port ::
    "(byte list \<Rightarrow> 'x \<Rightarrow> byte list \<times> 'x) \<Rightarrow> (byte list \<Rightarrow> nat) \<Rightarrow> string list \<Rightarrow> 'x modem port" where
  "modem_port exec piece noise =
     \<lparr>port_open = io_return (), port_close = io_return (),
      port_reset_input = io_modify (\<lambda>w. w\<lparr>mdm_lines := []\<rparr>),
      port_write = modem_write exec piece noise, port_readline = modem_readline,
      lte_start = io_return (), time_sleep = io_return (), system_time_valid = (\<lambda>_. True), sha256 = (\<lambda>x. x),
      http_post = (\<lambda>_ _. io_raise OSError)\<rparr>"

definition noise_ok :: "string list \<Rightarrow> bool" where
  \<comment> \<open>lines that are no answer to a command\<close>
  "noise_ok noise \<longleftrightarrow> list_all (\<lambda>l. clean_line l \<and> l \<noteq> ''OK'' \<and> l \<noteq> ''ERROR'' \<and> \<not> starts_with ''+CME ERROR'' l \<and>
     \<not> starts_with ''+CGLA:'' l \<and> \<not> starts_with ''+CCHO:'' l) noise"

definition modem_up :: "string list \<Rightarrow> nat \<Rightarrow> 'x modem at_client \<Rightarrow> bool" where
  \<comment> \<open>the applet is open, nothing is left unread, and the fuel covers the lines of an answer\<close>
  "modem_up noise fuel s \<longleftrightarrow> truthy (channel s) \<and> CHR 0x22 \<notin> set (the (channel s)) \<and> has_serial s \<and>
     mdm_lines (world s) = [] \<and> noise_ok noise \<and> length noise + 1 < fuel"

lemma at_expect_lines:
  assumes "list_all (\<lambda>l. clean_line l \<and> l \<noteq> ''OK'' \<and> l \<noteq> ''ERROR'' \<and> \<not> starts_with ''+CME ERROR'' l) ls"
    "length ls < fuel" "mdm_lines (world s) = map line_bytes (ls @ [''OK''])"
  shows "at_expect (modem_port exec piece noise) fuel acc s =
    (Returned (acc @ ls), s\<lparr>world := (world s)\<lparr>mdm_lines := []\<rparr>\<rparr>)"
  using assms
proof (induction ls arbitrary: fuel acc s)
  case Nil
  have "clean_line ''OK''" by (simp add: clean_line_def ascii_def is_space_def)
  with Nil read_line [of "''OK''"] show ?case
    by (cases fuel) (simp_all add: outside_def modem_port_def modem_readline_def io_bind_def)
next
  case (Cons l ls)
  let ?s = "s\<lparr>world := (world s)\<lparr>mdm_lines := map line_bytes (ls @ [''OK''])\<rparr>\<rparr>"
  from Cons.prems obtain k where k: "fuel = Suc k" "length ls < k" by (cases fuel) auto
  from Cons.prems(1) have l: "clean_line l" "l \<noteq> []" by (auto simp: clean_line_def)
  have "at_expect (modem_port exec piece noise) fuel acc s = at_expect (modem_port exec piece noise) k (acc @ [l]) ?s"
    using Cons.prems k l read_line [OF l(1)]
    by (simp add: outside_def modem_port_def modem_readline_def io_bind_def Let_def)
  also have "\<dots> = (Returned (acc @ l # ls), s\<lparr>world := (world s)\<lparr>mdm_lines := []\<rparr>\<rparr>)"
    using Cons.IH [of k ?s "acc @ [l]"] Cons.prems(1) k by simp
  finally show ?case .
qed

lemma nat_str_digits: "c \<in> set (nat_str n) \<Longrightarrow> is_digit c"
proof (induction n arbitrary: c rule: nat_str.induct)
  case (1 n)
  have d: "is_digit (digit_char k)" if "k < 10" for k
    using that by (simp add: is_digit_def digit_char_def of_char_of)
  show ?case
  proof (cases "n < 10")
    case True
    then show ?thesis using 1(2) d by (simp add: nat_str_small)
  next
    case False
    then show ?thesis using 1 d [of "n mod 10"] by (auto simp: nat_str_big)
  qed
qed

lemma nat_str_no: "\<not> is_digit c \<Longrightarrow> c \<notin> set (nat_str n)"
  using nat_str_digits by blast

lemma front_strip: "xs \<noteq> [] \<Longrightarrow> \<not> P (hd xs) \<Longrightarrow> dropWhile P xs = xs"
  by (cases xs) auto

lemma find_cgla_reply:
  assumes "list_all (\<lambda>l. \<not> starts_with ''+CGLA:'' l) noise"
  shows "find_cgla (noise @ [cgla_reply r]) = Returned r"
proof -
  obtain d sw1 sw2 where r: "r = (d, sw1, sw2)" by (cases r)
  let ?h = "hex_upper (d @ [sw1, sw2])" let ?q = "CHR 0x22"
  let ?rest = "CHR '' '' # nat_str (length ?h) @ CHR '','' # ?q # ?h @ [?q]"
  have "length ?h \<noteq> 0" by simp
  then have h: "?h \<noteq> []" "?q \<notin> set ?h" by (simp_all only: length_0_conv hex_upper_no_quote not_False_eq_True)
  have line: "cgla_reply r = ''+CGLA'' @ CHR '':'' # ?rest" by (simp add: cgla_reply_def r Let_def)
  have colon: "split_first (CHR '':'') (cgla_reply r) = (''+CGLA'', ?rest)"
    unfolding line by (rule split_first_append) simp
  have "CHR '','' \<notin> set (CHR '' '' # nat_str (length ?h))"
    using nat_str_no [of "CHR '',''"] by (simp add: is_digit_def)
  from split_first_append [OF this, of "?q # ?h @ [?q]"]
  have comma: "split_first (CHR '','') ?rest = (CHR '' '' # nat_str (length ?h), ?q # ?h @ [?q])" by simp
  have strip: "py_strip (?q # ?h @ [?q]) = ?q # ?h @ [?q]"
    by (simp add: py_strip_def is_space_def)
  have ends: "hd ?h \<noteq> ?q" "last ?h \<noteq> ?q" using h hd_in_set last_in_set by metis+
  with h have "dropWhile (\<lambda>c. c = ?q) (?h @ [?q]) = ?h @ [?q]" "dropWhile (\<lambda>c. c = ?q) (rev ?h) = rev ?h"
    by (intro front_strip; simp add: hd_rev)+
  then have sq: "strip_quotes (?q # ?h @ [?q]) = ?h" by (simp add: strip_quotes_def)
  have start: "starts_with ''+CGLA:'' (cgla_reply r)" unfolding line by simp
  have mem: "(CHR '','' \<in> set ?rest) = True" by simp
  have "find_cgla [cgla_reply r] = Returned r"
    by (simp only: find_cgla.simps start if_True Let_def colon snd_conv mem comma strip sq from_hex_upper option.case)
      (simp add: r nth_append)
  moreover have "find_cgla (noise @ ls) = find_cgla ls" for ls
    using assms by (induction noise) auto
  ultimately show ?thesis by simp
qed

lemma clean_reply: "clean_line (cgla_reply r)"
proof -
  obtain d sw1 sw2 where r: "r = (d, sw1, sw2)" by (cases r)
  have "(of_char c :: nat) < 128" if "is_digit c" for c using that by (simp add: is_digit_def)
  then have "ascii (nat_str n)" for n by (auto simp: ascii_def list_all_iff dest!: nat_str_digits)
  moreover have "ascii (hex_upper bs)" for bs by (auto simp: ascii_def list_all_iff dest!: hex_upper_chars)
  ultimately show ?thesis by (simp add: clean_line_def cgla_reply_def r Let_def ascii_def is_space_def)
qed

lemma quoted_command:
  assumes "CHR 0x22 \<notin> set ch" shows "quoted (cgla_command ch apdu @ [CHR 0x0D]) = hex_upper apdu"
proof -
  let ?q = "CHR 0x22" let ?h = "hex_upper apdu"
  let ?pre = "''AT+CGLA='' @ ch @ '','' @ nat_str (length ?h) @ '',''"
  have pre: "?q \<notin> set ?pre" using assms nat_str_no [of ?q] by (simp add: is_digit_def)
  have "cgla_command ch apdu @ [CHR 0x0D] = ?pre @ ?q # (?h @ [?q, CHR 0x0D])"
    by (simp add: cgla_command_def Let_def)
  moreover have "dropWhile (\<lambda>c. c \<noteq> ?q) (?pre @ ?q # xs) = ?q # xs" for xs
    using pre by (induction ?pre) (auto simp: dropWhile_append)
  moreover have "takeWhile (\<lambda>c. c \<noteq> ?q) (?h @ [?q, CHR 0x0D]) = ?h"
    using hex_upper_no_quote [of apdu] by (subst takeWhile_append2) (auto simp: takeWhile_eq_all_conv)
  ultimately show ?thesis by (simp add: quoted_def)
qed

lemma cgla_writes:
  assumes "CHR 0x22 \<notin> set ch"
  shows "modem_write exec piece noise (bytes_of (cgla_command ch apdu @ [CHR 0x0D])) w =
    (case card_answer exec piece apdu (mdm_card w) of (r, c) \<Rightarrow> modem_says (noise @ [cgla_reply r, ''OK'']) (w\<lparr>mdm_card := c\<rparr>))"
proof -
  have "starts_with ''AT+CGLA='' (cgla_command ch apdu @ [CHR 0x0D])"
    by (simp add: cgla_command_def Let_def)
  then show ?thesis unfolding modem_write_def Let_def text_bytes
    by (simp add: quoted_command [OF assms] from_hex_upper)
qed

lemma send_apdu_once_modem:
  assumes "modem_up noise fuel s"
  shows "send_apdu_once (modem_port exec piece noise) fuel apdu s =
    (Returned (fst (card_answer exec piece apdu (mdm_card (world s)))),
     s\<lparr>world := (world s)\<lparr>mdm_card := snd (card_answer exec piece apdu (mdm_card (world s)))\<rparr>\<rparr>)"
proof -
  let ?p = "modem_port exec piece noise"
  obtain r c where rc: "card_answer exec piece apdu (mdm_card (world s)) = (r, c)" by (cases "card_answer exec piece apdu (mdm_card (world s))")
  from assms have up: "truthy (channel s)" "CHR 0x22 \<notin> set (the (channel s))" "has_serial s" "mdm_lines (world s) = []"
    "noise_ok noise" "length noise + 1 < fuel" by (simp_all add: modem_up_def)
  let ?t = "s\<lparr>world := (world s)\<lparr>mdm_card := c, mdm_lines := map line_bytes ((noise @ [cgla_reply r]) @ [''OK''])\<rparr>\<rparr>"
  have send: "at_send ?p (cgla_command (the (channel s)) apdu) s = (Returned (), ?t)"
    using up(4) by (simp add: at_send_def outside_def modem_port_def cgla_writes [OF up(2)] rc modem_says_def)
  have lines: "list_all (\<lambda>l. clean_line l \<and> l \<noteq> ''OK'' \<and> l \<noteq> ''ERROR'' \<and> \<not> starts_with ''+CME ERROR'' l) (noise @ [cgla_reply r])"
    using up(5) clean_reply by (auto simp: noise_ok_def list_all_iff cgla_reply_def split_def Let_def)
  have "at_expect ?p fuel [] ?t = (Returned (noise @ [cgla_reply r]), s\<lparr>world := (world s)\<lparr>mdm_card := c\<rparr>\<rparr>)"
    using at_expect_lines [OF lines, of fuel ?t exec piece noise "[]"] up(4,6) by simp
  with send up(3) have q: "query ?p fuel (cgla_command (the (channel s)) apdu) s =
      (Returned (noise @ [cgla_reply r]), s\<lparr>world := (world s)\<lparr>mdm_card := c\<rparr>\<rparr>)"
    by (simp add: query_def ensure_serial_def io_then_def io_bind_def io_try_def)
  have "find_cgla (noise @ [cgla_reply r]) = Returned r"
    by (rule find_cgla_reply) (use up(5) in \<open>auto simp: noise_ok_def list_all_iff\<close>)
  with q up(1) show ?thesis by (simp add: send_apdu_once_def io_then_def io_bind_def rc)
qed

lemma send_apdu_modem:
  assumes "modem_up noise fuel s"
  shows "\<exists>t. send_apdu (modem_port exec piece noise) fuel apdu s =
      (Returned (fst (card_answer exec piece apdu (mdm_card (world s)))), t) \<and> modem_up noise fuel t \<and>
    mdm_card (world t) = snd (card_answer exec piece apdu (mdm_card (world s)))"
  using assms
  by (simp add: send_apdu_def SEND_APDU_RETRIES_def upt_rec io_try_def send_apdu_once_modem [OF assms])
    (simp add: modem_up_def)

interpretation modem: apdu_channel "send_apdu (modem_port exec piece noise) fuel" "modem_up noise fuel"
    "\<lambda>s. mdm_card (world s)" exec piece for exec piece noise fuel
  by unfold_locales (rule send_apdu_modem)

text \<open>
  C25. Commands reach the card whole. Through a modem that prints any lines before its answers, to a
  card that runs commands by any function and hands out its answer in pieces of any size,
  \<open>es10x_command\<close> returns exactly the answer of the card to the command: cutting into APDUs of 120
  bytes, sequence numbers, hexadecimal texts, lines and the collection of the pieces lose nothing;
  the card has run the command once, and card and modem are ready for the next one.
\<close>

theorem command_reaches_card:
  assumes "data \<noteq> []" "modem_up noise fuel s" "idle (mdm_card (world s))" "makes_progress piece"
    "length (fst (exec data (card_mem (mdm_card (world s))))) < fuel"
  shows "\<exists>t. command (modem_port exec piece noise) fuel data s =
      (Returned (fst (exec data (card_mem (mdm_card (world s))))), t) \<and>
    modem_up noise fuel t \<and> idle (mdm_card (world t)) \<and>
    card_mem (mdm_card (world t)) = snd (exec data (card_mem (mdm_card (world s))))"
  unfolding command_def by (rule modem.es10x_command_answers) (use assms in auto)

definition ex_client :: "nat modem at_client" where
  "ex_client = \<lparr>channel = Some ''1'', has_serial = True,
     world = \<lparr>mdm_lines = [], mdm_card = \<lparr>card_in = [], card_seq = 0, card_out = [], card_mem = 0\<rparr>\<rparr>\<rparr>"

theorem command_reaches_card_witness:
  "\<exists>t. command (modem_port (\<lambda>d runs. (map ((+) 1) d, runs + 1)) (\<lambda>_. 50) [''+CREG: 1'']) 400 (replicate 250 7) ex_client =
      (Returned (replicate 250 8), t) \<and> idle (mdm_card (world t)) \<and> card_mem (mdm_card (world t)) = (1 :: nat)"
  using command_reaches_card [of "replicate 250 7" "[''+CREG: 1'']" 400 ex_client "\<lambda>_. 50" "\<lambda>d runs. (map ((+) 1) d, runs + 1)"]
  by (auto simp: ex_client_def modem_up_def truthy_def noise_ok_def clean_line_def ascii_def is_space_def idle_def makes_progress_def)

end
