(* ===== verification/LpaFacts.thy ===== *)
theory LpaFacts
  imports Lpa TlvFacts
begin

text \<open>
  What the profile assistant promises without a card: the encodings read back, and a bound profile
  package is cut into exactly its parts. \<open>bpp_section\<close> is the abstract form of a package, as
  SGP.22 section 2.5 describes it.
\<close>

section \<open>Encodings\<close>

text \<open>
  The encodings read back. Records written one after the other by \<open>encode_tlv\<close>, with tags of
  one or two bytes and values of any length below \<open>256 ^ 127\<close>, are read by \<open>iter_tlv\<close> as exactly
  these records, at the positions where they were written; the digits of a number survive the
  swapped BCD form, an odd number of digits included; base64 decodes what it encodes; and
  \<open>int_bytes\<close> writes the number that is read.
\<close>

theorem encodings_read_back:
  assumes "list_all record_ok rs"
  shows "iter_tlv_positions (encode_records rs) = record_positions 0 rs \<and> iter_tlv (encode_records rs) = rs \<and>
    tbcd_to_string (string_to_tbcd s) = filter is_digit s \<and> b64d (b64e bs) = Some bs \<and> nat_of_be (int_bytes n) = n"
  using assms by (simp add: iter_tlv_positions_def iter_tlv_from_records iter_tlv_records tbcd_digits_text b64d_b64e)

theorem encodings_read_back_witness:
  "iter_tlv (encode_records [(0x5A, [0x89, 0x01]), (0xBF2D, replicate 300 7), (0x80, [])]) =
     [(0x5A, [0x89, 0x01]), (0xBF2D, replicate 300 7), (0x80, [])] \<and>
   tbcd_to_string (string_to_tbcd ''89 852'') = ''89852'' \<and> b64d (b64e [255, 0, 1, 2]) = Some [255, 0, 1, 2] \<and>
   nat_of_be (int_bytes 65536) = 65536"
  using encodings_read_back [of "[(0x5A, [0x89, 0x01]), (0xBF2D, replicate 300 7), (0x80, [])]" "''89 852''" "[255, 0, 1, 2]" 65536]
  by (simp add: record_ok_def tag_ok_def is_digit_def)

section \<open>Bound profile packages\<close>

datatype bpp_section =
  Whole nat "byte list"
| Segmented nat "(nat \<times> byte list) list"

fun section_record :: "bpp_section \<Rightarrow> nat \<times> byte list" where
  "section_record (Whole t v) = (t, v)"
| "section_record (Segmented t segs) = (t, encode_records segs)"

definition record_header :: "nat \<Rightarrow> byte list \<Rightarrow> byte list" where
  "record_header t v = tag_bytes t @ size_bytes (length v)"

fun section_chunks :: "bpp_section \<Rightarrow> byte list list" where
  "section_chunks (Whole t v) = [encode_tlv t v]"
| "section_chunks (Segmented t segs) = record_header t (encode_records segs) # map (\<lambda>(t, v). encode_tlv t v) segs"

fun section_ok :: "bpp_section \<Rightarrow> bool" where
  "section_ok (Whole t v) \<longleftrightarrow> t \<in> {0xA0, 0xA2} \<and> length v < 256 ^ 127"
| "section_ok (Segmented t segs) \<longleftrightarrow> t \<in> {0xA1, 0xA3} \<and> list_all record_ok segs \<and> length (encode_records segs) < 256 ^ 127"

definition package_body :: "byte list \<Rightarrow> bpp_section list \<Rightarrow> byte list" where
  "package_body first secs = encode_records ((TAG_BPP_COMMAND, first) # map section_record secs)"

lemma encode_tlv_header: "encode_tlv t v = record_header t v @ v"
  by (simp add: encode_tlv_def record_header_def)

lemma header_len_encode:
  assumes "tag_ok t" "length v < 256 ^ 127"
  shows "header_len (encode_tlv t v) = length (record_header t v)"
proof -
  have size: "\<exists>b r. size_bytes n = b # r \<and> length r = (if b AND 0x80 \<noteq> 0 then unat (b AND 0x7F) else 0)" if "n < 256 ^ 127" for n
  proof (cases "n \<le> 127")
    case True
    then show ?thesis by (simp add: size_bytes_def high_bit)
  next
    case False
    let ?k = "length (length_bytes n)" and ?b = "(0x80 :: byte) OR of_nat (length (length_bytes n))"
    have k: "?k < 128" using length_length_bytes [OF that] by simp
    have b: "unat ?b = 128 + ?k" by (rule long_size_byte [OF k])
    then have "?b AND 0x80 \<noteq> 0" "unat (?b AND 0x7F) = ?k" using k by (simp_all add: high_bit unat_low_bits)
    with False show ?thesis by (simp add: size_bytes_def)
  qed
  have tag: "(tag_bytes t ! 0 AND 0x1F = 0x1F) = (length (tag_bytes t) = 2)" "tag_bytes t \<noteq> []" "length (tag_bytes t) \<in> {1, 2}"
  proof -
    show "tag_bytes t \<noteq> []" "length (tag_bytes t) \<in> {1, 2}" by (simp_all add: tag_bytes_def)
    show "(tag_bytes t ! 0 AND 0x1F = 0x1F) = (length (tag_bytes t) = 2)"
    proof (cases "t < 256")
      case True
      with assms(1) show ?thesis by (simp add: tag_bytes_def low_bits_31 tag_ok_def)
    next
      case False
      with assms(1) have "t div 256 mod 32 = 31" "t div 256 < 256" by (auto simp: tag_ok_def)
      with False show ?thesis by (simp add: tag_bytes_def low_bits_31 nat_and_255 drop_bit_eq_div)
    qed
  qed
  from size [OF assms(2)] obtain b r where b: "size_bytes (length v) = b # r"
    "length r = (if b AND 0x80 \<noteq> 0 then unat (b AND 0x7F) else 0)" by blast
  have "encode_tlv t v ! 0 = tag_bytes t ! 0" using tag(2) by (simp add: encode_tlv_def nth_append)
  moreover have "encode_tlv t v ! length (tag_bytes t) = b" by (simp add: encode_tlv_def b nth_append)
  ultimately show ?thesis using tag b(2) by (auto simp: header_len_def record_header_def b(1) Let_def)
qed

lemma slice_middle: "length pre = st \<Longrightarrow> slice st (st + length xs) (pre @ xs @ post) = xs"
  by (simp add: slice_def)

lemma slices_records:
  assumes "list_all record_ok rs"
  shows "map (\<lambda>(_, _, cs, ce). slice cs ce (pre @ encode_records rs)) (record_positions (length pre) rs) =
    map (\<lambda>(t, v). encode_tlv t v) rs"
  using assms
proof (induction rs arbitrary: pre)
  case (Cons r rs)
  obtain t v where r: "r = (t, v)" by (cases r)
  from Cons.IH [of "pre @ encode_tlv t v"] Cons.prems
  show ?case by (simp add: r slice_middle)
qed simp

lemma bpp_chunks_section:
  assumes "section_ok sec" "section_record sec = (t, v)" "length hdr = vs" "length pre = st"
  shows "bpp_chunks (hdr @ pre @ encode_tlv t v @ post) vs (pre @ encode_tlv t v @ post) (t, v, st, st + length (encode_tlv t v)) =
    section_chunks sec"
proof (cases sec)
  case (Whole t' v')
  with assms(1,2) have "t = t'" "v = v'" "t \<noteq> TAG_BPP_COMMAND" "t = 0xA0 \<or> t = 0xA2" by auto
  moreover have "slice (vs + st) (vs + (st + length (encode_tlv t v))) (hdr @ pre @ encode_tlv t v @ post) = encode_tlv t v"
    using slice_middle [of "hdr @ pre" "vs + st" "encode_tlv t v" post] assms(3,4) by (simp add: add.assoc)
  ultimately show ?thesis using Whole by simp
next
  case (Segmented t' segs)
  with assms(1,2) have t: "t = t'" "v = encode_records segs" "t = 0xA1 \<or> t = 0xA3" "list_all record_ok segs" "length v < 256 ^ 127" by auto
  then have tag: "tag_ok t" by (auto simp: tag_ok_def)
  have "slice st (st + length (encode_tlv t v)) (pre @ encode_tlv t v @ post) = encode_tlv t v"
    by (rule slice_middle [OF assms(4)])
  with header_len_encode [OF tag t(5)] have h: "header_len (slice st (st + length (encode_tlv t v)) (pre @ encode_tlv t v @ post)) =
    length (record_header t v)" by simp
  have "slice (vs + st) (vs + st + length (record_header t v)) (hdr @ pre @ encode_tlv t v @ post) = record_header t v"
    using slice_middle [of "hdr @ pre" "vs + st" "record_header t v" "v @ post"] assms(3,4) by (simp add: encode_tlv_header)
  moreover have "map (\<lambda>(_, _, cs, ce). slice cs ce v) (iter_tlv_positions v) = map (\<lambda>(t, v). encode_tlv t v) segs"
    using slices_records [OF t(4), of "[]"] t(2,4) by (simp add: iter_tlv_positions_def iter_tlv_from_records)
  ultimately show ?thesis using t h by (auto simp: Segmented)
qed

lemma section_record_ok: "section_ok sec \<Longrightarrow> record_ok (section_record sec)"
  by (cases sec) (auto simp: record_ok_def tag_ok_def)

lemma bpp_chunks_sections:
  assumes "list_all section_ok secs" "length hdr = vs"
  shows "concat (map (bpp_chunks (hdr @ pre @ encode_records (map section_record secs)) vs (pre @ encode_records (map section_record secs)))
      (record_positions (length pre) (map section_record secs))) = concat (map section_chunks secs)"
  using assms(1)
proof (induction secs arbitrary: pre)
  case (Cons sec secs)
  obtain t v where r: "section_record sec = (t, v)" by (cases "section_record sec")
  from bpp_chunks_section [OF _ r assms(2) refl, of pre "encode_records (map section_record secs)"] Cons.prems
    Cons.IH [of "pre @ encode_tlv t v"]
  show ?case by (simp add: r del: bpp_chunks.simps)
qed simp

text \<open>
  A bound profile package is cut into its parts. For a package with an
  InitialiseSecureChannel record and any number of further sections, \<open>_split_bpp\<close> returns the header
  of the package together with the first record, then every plain section whole, and for every
  segmented section its header followed by its segments, in order; sent one after the other, the
  chunks are the package itself, byte by byte.
\<close>

theorem package_is_split_into_its_parts:
  assumes "list_all section_ok secs" "length first < 256 ^ 127" "length (package_body first secs) < 256 ^ 127"
  shows "split_bpp (encode_tlv TAG_BPP (package_body first secs)) =
      Some ((record_header TAG_BPP (package_body first secs) @ encode_tlv TAG_BPP_COMMAND first) # concat (map section_chunks secs)) \<and>
    concat ((record_header TAG_BPP (package_body first secs) @ encode_tlv TAG_BPP_COMMAND first) # concat (map section_chunks secs)) =
      encode_tlv TAG_BPP (package_body first secs)"
proof
  let ?b = "package_body first secs" let ?bpp = "encode_tlv TAG_BPP ?b" let ?h = "record_header TAG_BPP ?b"
  let ?e = "encode_tlv TAG_BPP_COMMAND first" let ?r = "encode_records (map section_record secs)"
  have tags: "tag_ok TAG_BPP" "tag_ok TAG_BPP_COMMAND" by (simp_all add: tag_ok_def)
  have body: "?b = ?e @ ?r" by (simp add: package_body_def)
  have "list_all record_ok (map section_record secs)"
    using assms(1) by (auto simp: list_all_iff section_record_ok)
  then have items: "iter_tlv_positions ?b = (TAG_BPP_COMMAND, first, 0, length ?e) # record_positions (length ?e) (map section_record secs)"
    unfolding body iter_tlv_positions_def by (simp add: iter_tlv_from_encode [OF tags(2) assms(2)] iter_tlv_from_records)
  have whole: "iter_tlv_positions ?bpp = [(TAG_BPP, ?b, 0, length ?bpp)]"
    using iter_tlv_from_encode [OF tags(1) assms(3), of 0 "[]"] by (simp add: iter_tlv_positions_def)
  have hl: "header_len (slice 0 (length ?bpp) ?bpp) = length ?h"
    using header_len_encode [OF tags(1) assms(3)] by (simp add: slice_def)
  have bpp: "?bpp = ?h @ ?e @ ?r" unfolding encode_tlv_header [of TAG_BPP] body ..
  have "slice 0 (length ?h + length ?e) ?bpp = ?h @ ?e" unfolding bpp by (simp add: slice_def)
  moreover have "concat (map (bpp_chunks ?bpp (length ?h) ?b) (record_positions (length ?e) (map section_record secs))) =
      concat (map section_chunks secs)"
    using bpp_chunks_sections [OF assms(1) refl, of ?h ?e] by (simp only: body [symmetric] encode_tlv_header [symmetric])
  ultimately show "split_bpp ?bpp = Some ((?h @ ?e) # concat (map section_chunks secs))"
    by (simp add: split_bpp_def whole hl items)
  have "concat (section_chunks sec) = encode_records [section_record sec]" for sec
    by (cases sec) (simp_all add: encode_records_def flip: encode_tlv_header)
  then have "concat (concat (map section_chunks secs)) = ?r" by (induction secs) (auto simp: encode_records_def)
  then show "concat ((?h @ ?e) # concat (map section_chunks secs)) = ?bpp" by (simp add: bpp)
qed

theorem package_is_split_into_its_parts_witness:
  "split_bpp (encode_tlv TAG_BPP (package_body [1] [Whole 0xA0 [2], Segmented 0xA1 [(0x88, [3]), (0x88, [4, 5])]])) =
     Some [[0xBF, 0x36, 16, 0xBF, 0x23, 1, 1], [0xA0, 1, 2], [0xA1, 7], [0x88, 1, 3], [0x88, 2, 4, 5]]"
  using package_is_split_into_its_parts [of "[Whole 0xA0 [2], Segmented 0xA1 [(0x88, [3]), (0x88, [4, 5])]]" "[1]"]
  by (simp add: record_ok_def tag_ok_def package_body_def encode_tlv_def tag_bytes_def size_bytes_def record_header_def
      nat_and_255 drop_bit_eq_div)

end
