(* ===== verification/LpaModem.thy ===== *)
theory LpaModem
  imports AtModem LpaFacts
begin

text \<open>
  The methods of \<open>LPA\<close> over the modem and card of \<open>AtModem\<close>: a channel is opened, used and given
  back, and deleting a profile touches the card only when the profile may be deleted. Then, over
  any outside world that keeps a log of requests: a failed download cancels its transaction.
\<close>

section \<open>Channels\<close>

definition modem_closed :: "string list \<Rightarrow> nat \<Rightarrow> 'x modem at_client \<Rightarrow> bool" where
  "modem_closed noise fuel s \<longleftrightarrow> channel s = None \<and> mdm_lines (world s) = [] \<and> noise_ok noise \<and> length noise + 1 < fuel"

definition line_ok :: "string \<Rightarrow> bool" where
  "line_ok l \<longleftrightarrow> clean_line l \<and> l \<noteq> ''OK'' \<and> l \<noteq> ''ERROR'' \<and> \<not> starts_with ''+CME ERROR'' l"

lemma noise_line_ok: "noise_ok noise \<Longrightarrow> list_all line_ok noise"
  by (auto simp: noise_ok_def line_ok_def list_all_iff)

lemma query_modem:
  assumes "modem_write exec piece noise (bytes_of (cmd @ [CHR 0x0D])) (world s) = modem_says (noise @ ls @ [''OK'']) w"
    "mdm_lines w = []" "noise_ok noise" "list_all line_ok ls" "length noise + length ls < fuel"
  shows "query (modem_port exec piece noise) fuel cmd s = (Returned (noise @ ls), s\<lparr>has_serial := True, world := w\<rparr>)"
proof -
  let ?p = "modem_port exec piece noise"
  let ?t = "s\<lparr>has_serial := True, world := w\<lparr>mdm_lines := map line_bytes ((noise @ ls) @ [''OK''])\<rparr>\<rparr>"
  have e: "ensure_serial ?p False s = (Returned (), s\<lparr>has_serial := True\<rparr>)"
    by (cases "has_serial s") (simp_all add: ensure_serial_def io_then_def io_bind_def outside_def modem_port_def)
  have w: "at_send ?p cmd (s\<lparr>has_serial := True\<rparr>) = (Returned (), ?t)"
    using assms(1,2) by (simp add: at_send_def outside_def modem_port_def modem_says_def)
  have "list_all line_ok (noise @ ls)" using assms(4) noise_line_ok [OF assms(3)] by simp
  from at_expect_lines [OF this [unfolded line_ok_def], of fuel ?t exec piece noise "[]"] assms(2,5)
  have "at_expect ?p fuel [] ?t = (Returned (noise @ ls), s\<lparr>has_serial := True, world := w\<rparr>)" by simp
  with e w show ?thesis by (simp add: query_def io_then_def io_bind_def io_try_def)
qed

lemma first_channel_noise:
  "list_all (\<lambda>l. \<not> starts_with ''+CCHO:'' l) noise \<Longrightarrow> first_channel (noise @ ls) = first_channel ls"
  by (induction noise) (auto simp: channel_in_def)

lemma first_channel_open: "first_channel [''+CCHO: 1''] = Some ''1''"
  by code_simp

lemma open_isdr_modem:
  assumes "modem_closed noise fuel s"
  shows "\<exists>t. open_isdr (modem_port exec piece noise) fuel s = (Returned (), t) \<and> modem_up noise fuel t \<and>
    mdm_card (world t) = (mdm_card (world s))\<lparr>card_in := [], card_seq := 0, card_out := []\<rparr>"
proof -
  let ?p = "modem_port exec piece noise"
  let ?w = "(world s)\<lparr>mdm_card := (mdm_card (world s))\<lparr>card_in := [], card_seq := 0, card_out := []\<rparr>\<rparr>"
  from assms have a: "channel s = None" "mdm_lines (world s) = []" "noise_ok noise" "length noise + 1 < fuel"
    by (simp_all add: modem_closed_def)
  have "list_all line_ok [''+CCHO: 1'']" by (simp add: line_ok_def clean_line_def ascii_def is_space_def)
  moreover have "modem_write exec piece noise (bytes_of (open_command @ [CHR 0x0D])) (world s) =
      modem_says (noise @ [''+CCHO: 1''] @ [''OK'']) ?w"
    unfolding modem_write_def Let_def text_bytes by (simp add: open_command_def)
  ultimately have q: "query ?p fuel open_command s = (Returned (noise @ [''+CCHO: 1'']), s\<lparr>has_serial := True, world := ?w\<rparr>)"
    using a by (intro query_modem) simp_all
  have r: "outside (port_reset_input ?p) s = (Returned (), s)"
    using a(2) by (simp add: outside_def modem_port_def)
  have ch: "first_channel (noise @ [''+CCHO: 1'']) = Some ''1''"
    using a(3) by (subst first_channel_noise) (auto simp: noise_ok_def list_all_iff first_channel_open simp del: first_channel.simps)
  have once: "open_isdr_once ?p fuel s = (Returned (), s\<lparr>has_serial := True, world := ?w, channel := Some ''1''\<rparr>)"
    using q r ch a(1) by (cases "has_serial s") (simp_all add: open_isdr_once_def truthy_def io_then_def io_bind_def io_try_def)
  have "open_isdr ?p fuel s = (Returned (), s\<lparr>has_serial := True, world := ?w, channel := Some ''1''\<rparr>)"
    by (simp add: open_isdr_def OPEN_ISDR_RETRIES_def upt_conv_Cons io_then_def io_bind_def io_try_def once)
  with a show ?thesis by (simp add: modem_up_def truthy_def)
qed

lemma release_channel_modem:
  assumes "modem_up noise fuel s"
  shows "\<exists>t. release_channel (modem_port exec piece noise) fuel s = (Returned (), t) \<and> modem_closed noise fuel t \<and>
    mdm_card (world t) = mdm_card (world s)"
proof -
  from assms have a: "truthy (channel s)" "mdm_lines (world s) = []" "noise_ok noise" "length noise + 1 < fuel"
    by (simp_all add: modem_up_def)
  have "modem_write exec piece noise (bytes_of (close_command ch @ [CHR 0x0D])) (world s) =
      modem_says (noise @ [] @ [''OK'']) (world s)" for ch
    unfolding modem_write_def Let_def text_bytes by (simp add: close_command_def)
  then have "query (modem_port exec piece noise) fuel (close_command ch) s = (Returned (noise @ []), s\<lparr>has_serial := True, world := world s\<rparr>)" for ch
    using a by (intro query_modem) simp_all
  with a show ?thesis
    by (simp add: release_channel_def io_then_def io_bind_def io_try_def modem_closed_def)
qed

definition serves :: "string list \<Rightarrow> nat \<Rightarrow> ('x modem, 'a) lpa \<Rightarrow> 'x \<Rightarrow> (lpa_exn, 'a) outcome \<Rightarrow> 'x \<Rightarrow> bool" where
  \<comment> \<open>on an open channel with memory \<open>m\<close>, the action ends like \<open>r\<close> and leaves memory \<open>m'\<close>\<close>
  "serves noise fuel act m r m' \<longleftrightarrow>
     (\<forall>s. modem_up noise fuel s \<longrightarrow> idle (mdm_card (world s)) \<longrightarrow> card_mem (mdm_card (world s)) = m \<longrightarrow>
       (\<exists>t. act s = (r, t) \<and> modem_up noise fuel t \<and> idle (mdm_card (world t)) \<and> card_mem (mdm_card (world t)) = m'))"

lemma with_channel_serves:
  assumes "serves noise fuel act (card_mem (mdm_card (world s))) r m'" "r \<noteq> Hung" "modem_closed noise fuel s"
  shows "\<exists>t. with_channel (modem_port exec piece noise) fuel act s = (r, t) \<and> modem_closed noise fuel t \<and>
    card_mem (mdm_card (world t)) = m'"
proof -
  let ?p = "modem_port exec piece noise"
  from open_isdr_modem [OF assms(3)] obtain t where t: "open_isdr ?p fuel s = (Returned (), t)" "modem_up noise fuel t"
    "mdm_card (world t) = (mdm_card (world s))\<lparr>card_in := [], card_seq := 0, card_out := []\<rparr>" by blast
  then have "idle (mdm_card (world t))" "card_mem (mdm_card (world t)) = card_mem (mdm_card (world s))"
    by (simp_all add: idle_def)
  with assms(1) t(2) obtain u where u: "act t = (r, u)" "modem_up noise fuel u" "card_mem (mdm_card (world u)) = m'"
    unfolding serves_def by blast
  from release_channel_modem [OF u(2)] obtain v where v: "release_channel ?p fuel u = (Returned (), v)" "modem_closed noise fuel v"
    "mdm_card (world v) = mdm_card (world u)" by blast
  have "io_then (open_isdr ?p fuel) act s = (r, u)" using t(1) u(1) by (simp add: io_then_def io_bind_def)
  with v u(3) assms(2) show ?thesis by (cases r) (simp_all add: with_channel_def io_finally_def)
qed

lemma command_serves:
  assumes "data \<noteq> []" "makes_progress piece" "length (fst (exec data m)) < fuel"
  shows "serves noise fuel (command (modem_port exec piece noise) fuel data) m (Returned (fst (exec data m))) (snd (exec data m))"
  unfolding serves_def
proof (intro allI impI)
  fix s :: "'a modem at_client"
  assume "modem_up noise fuel s" "idle (mdm_card (world s))" "card_mem (mdm_card (world s)) = m"
  with modem.es10x_command_answers [OF assms(2,1), of noise fuel s exec] assms(3)
  show "\<exists>t. command (modem_port exec piece noise) fuel data s = (Returned (fst (exec data m)), t) \<and> modem_up noise fuel t \<and>
      idle (mdm_card (world t)) \<and> card_mem (mdm_card (world t)) = snd (exec data m)"
    by (simp add: command_def)
qed

lemma serves_bind_pure:
  assumes "serves noise fuel act m (Returned x) m'"
  shows "serves noise fuel (io_bind act (\<lambda>x. io_outcome (f x))) m (f x) m'"
  unfolding serves_def
proof (intro allI impI)
  fix s :: "'a modem at_client"
  assume "modem_up noise fuel s" "idle (mdm_card (world s))" "card_mem (mdm_card (world s)) = m"
  with assms obtain t where "act s = (Returned x, t)" "modem_up noise fuel t" "idle (mdm_card (world t))" "card_mem (mdm_card (world t)) = m'"
    unfolding serves_def by blast
  then show "\<exists>t. io_bind act (\<lambda>x. io_outcome (f x)) s = (f x, t) \<and> modem_up noise fuel t \<and>
      idle (mdm_card (world t)) \<and> card_mem (mdm_card (world t)) = m'" by (simp add: io_bind_def)
qed

section \<open>Deleting a profile\<close>

lemma outcome_return: "io_outcome (Returned x) = io_return x" "io_outcome (Raised e) = io_raise e"
  by (rule ext, simp)+

lemma list_profiles_modem:
  assumes "modem_closed noise fuel s" "makes_progress piece" "exec [0xBF, 0x2D, 0x00] (card_mem (mdm_card (world s))) = (blob, m)"
    "decode_profiles blob = Returned ds" "length blob < fuel"
  shows "\<exists>t. LPA_list_profiles (modem_port exec piece noise) fuel s = (Returned (map profile_of ds), t) \<and>
    modem_closed noise fuel t \<and> card_mem (mdm_card (world t)) = m"
proof -
  let ?p = "modem_port exec piece noise" let ?m = "card_mem (mdm_card (world s))"
  have "serves noise fuel (command ?p fuel [0xBF, 0x2D, 0x00]) ?m (Returned blob) m"
    using command_serves [of "[0xBF, 0x2D, 0x00]" piece exec ?m fuel noise] assms by simp
  from serves_bind_pure [OF this, of decode_profiles] assms(4)
  have "serves noise fuel (lpa_list_profiles ?p fuel) ?m (Returned ds) m" by (simp add: lpa_list_profiles_def)
  from serves_bind_pure [OF this, of "\<lambda>ds. Returned (map profile_of ds)"]
  have "serves noise fuel (io_bind (lpa_list_profiles ?p fuel) (\<lambda>ds. io_return (map profile_of ds))) ?m
      (Returned (map profile_of ds)) m" by (simp only: outcome_return)
  with assms(1) show ?thesis unfolding LPA_list_profiles_def by (intro with_channel_serves) simp_all
qed

text \<open>
  C26. Profiles of comma are never deleted. Let the card answer the listing with profiles \<open>ds\<close>. If
  the first listed profile with this number is a comma profile, or there is none,
  \<open>delete_profile\<close> raises and the memory of the card is the one the listing left: no command to
  delete has reached the card. In the other case the card runs exactly the command that deletes
  this number, and \<open>delete_profile\<close> returns if and only if the card reports success. The channel is
  given back in every case.
\<close>

theorem comma_profiles_are_not_deleted:
  assumes "modem_closed noise fuel s" "makes_progress piece"
    "exec [0xBF, 0x2D, 0x00] (card_mem (mdm_card (world s))) = (blob, m)" "decode_profiles blob = Returned ds"
    "length blob < fuel" "length (fst (exec (delete_command iccid) m)) < fuel"
  shows "\<exists>r t. delete_profile (modem_port exec piece noise) fuel iccid s = (r, t) \<and> modem_closed noise fuel t \<and>
    (case find (\<lambda>pr. prof_iccid pr = Some iccid) (map profile_of ds) of
       None \<Rightarrow> r = Raised (LPAProfileNotFoundError (''profile not found: '' @ iccid)) \<and> card_mem (mdm_card (world t)) = m
     | Some pr \<Rightarrow>
         if is_comma pr
         then r = Raised (LPAError ''refusing to delete a comma profile'') \<and> card_mem (mdm_card (world t)) = m
         else card_mem (mdm_card (world t)) = snd (exec (delete_command iccid) m) \<and>
           (r = Returned () \<longleftrightarrow> profile_status (fst (exec (delete_command iccid) m)) TAG_DELETE_PROFILE
              ''DeleteProfileResponse'' ''DeleteProfile status'' = Returned 0))"
proof -
  let ?p = "modem_port exec piece noise" let ?resp = "fst (exec (delete_command iccid) m)"
  let ?status = "\<lambda>response. profile_status response TAG_DELETE_PROFILE ''DeleteProfileResponse'' ''DeleteProfile status''"
  from list_profiles_modem [where exec = exec, OF assms(1-5)] obtain t where t: "LPA_list_profiles ?p fuel s = (Returned (map profile_of ds), t)"
    "modem_closed noise fuel t" "card_mem (mdm_card (world t)) = m" by blast
  show ?thesis
  proof (cases "find (\<lambda>pr. prof_iccid pr = Some iccid) (map profile_of ds)")
    case None
    with t show ?thesis by (simp add: delete_profile_def io_bind_def)
  next
    case (Some pr)
    show ?thesis
    proof (cases "is_comma pr")
      case True
      with Some t show ?thesis by (simp add: delete_profile_def io_bind_def)
    next
      case False
      have "delete_command iccid \<noteq> []" by (simp add: delete_command_def encode_tlv_def tag_bytes_def)
      from serves_bind_pure [OF command_serves [where exec = exec, OF this assms(2,6), of noise], of ?status]
      have s: "serves noise fuel (io_bind (command ?p fuel (delete_command iccid)) (\<lambda>response. io_outcome (?status response)))
          (card_mem (mdm_card (world t))) (?status ?resp) (snd (exec (delete_command iccid) m))" by (simp add: t(3))
      have st: "?status ?resp \<noteq> Hung" by (simp add: profile_status_def require_tag_def first_byte_def split: option.splits list.splits)
      from with_channel_serves [OF s st t(2)] obtain u where
        "with_channel ?p fuel (io_bind (command ?p fuel (delete_command iccid)) (\<lambda>response. io_outcome (?status response))) t =
          (?status ?resp, u)" "modem_closed noise fuel u" "card_mem (mdm_card (world u)) = snd (exec (delete_command iccid) m)" by blast
      with Some False t(1) st show ?thesis
        by (cases "?status ?resp") (auto simp: delete_profile_def io_bind_def)
    qed
  qed
qed

text \<open>A card with a comma profile and another one; its memory counts the deletions.\<close>

definition ex_blob :: "byte list" where
  "ex_blob =
     encode_tlv TAG_PROFILE_INFO_LIST (encode_tlv TAG_OK
       (encode_tlv 0xE3 (encode_tlv TAG_ICCID (string_to_tbcd ''8985235000'') @ encode_tlv 0x91 (bytes_of ''Webbing'')) @
        encode_tlv 0xE3 (encode_tlv TAG_ICCID (string_to_tbcd ''89101'') @ encode_tlv 0x91 (bytes_of ''Webbing''))))"

definition ex_exec :: "byte list \<Rightarrow> nat \<Rightarrow> byte list \<times> nat" where
  "ex_exec cmd n =
     (if take 2 cmd = [0xBF, 0x33] then (encode_tlv TAG_DELETE_PROFILE (encode_tlv TAG_STATUS [0]), n + 1)
      else (ex_blob, n))"

definition ex_profile :: "string \<Rightarrow> string \<Rightarrow> (string \<rightharpoonup> field)" where
  "ex_profile iccid provider = (map_of (map (\<lambda>(t, name, d). (name, FNone)) PROFILE))
     (''iccid'' \<mapsto> FText iccid, ''serviceProviderName'' \<mapsto> FText provider)"

lemma record_ok_small: "tag_ok t \<Longrightarrow> length v < 256 \<Longrightarrow> record_ok (t, v)"
  by (simp add: record_ok_def)

lemma ex_blob_profiles:
  "decode_profiles ex_blob = Returned [ex_profile ''8985235000'' ''Webbing'', ex_profile ''89101'' ''Webbing'']"
proof -
  let ?rec = "\<lambda>n. [(TAG_ICCID, string_to_tbcd n), (0x91, bytes_of ''Webbing'')]"
  let ?lst = "[(0xE3, encode_records (?rec ''8985235000'')), (0xE3, encode_records (?rec ''89101''))]"
  have small: "length (string_to_tbcd ''8985235000'') = 5" "length (string_to_tbcd ''89101'') = 3"
    "length (bytes_of ''Webbing'') = 7" by code_simp+
  have blob: "ex_blob = encode_tlv TAG_PROFILE_INFO_LIST (encode_tlv TAG_OK (encode_records ?lst))"
    by (simp add: ex_blob_def)
  have ok: "list_all record_ok (?rec ''8985235000'')" "list_all record_ok (?rec ''89101'')"
    using small by (simp_all add: record_ok_def tag_ok_def)
  have "length (encode_records (?rec ''8985235000'')) < 256" "length (encode_records (?rec ''89101'')) < 256"
    using small by (simp_all add: encode_tlv_def tag_bytes_def size_bytes_def)
  then have ok2: "list_all record_ok ?lst"
    by (simp add: record_ok_small tag_ok_def del: encode_records_simps)
  have outer: "iter_tlv ex_blob = [(TAG_PROFILE_INFO_LIST, encode_tlv TAG_OK (encode_records ?lst))]"
    "iter_tlv (encode_tlv TAG_OK (encode_records ?lst)) = [(TAG_OK, encode_records ?lst)]"
    unfolding blob using small
    by (intro iter_tlv_single; simp add: record_ok_def tag_ok_def encode_tlv_def tag_bytes_def size_bytes_def)+
  have inner: "decode_struct (encode_records (?rec n)) PROFILE =
      Some ((map_of (map (\<lambda>(t, name, d). (name, FNone)) PROFILE))(''iccid'' \<mapsto> FText (tbcd_to_string (string_to_tbcd n)),
        ''serviceProviderName'' \<mapsto> text_or_none (bytes_of ''Webbing'')))" if "list_all record_ok (?rec n)" for n
    by (simp only: decode_struct_def iter_tlv_records [OF that]) (simp add: PROFILE_def)
  have "text_or_none (bytes_of ''Webbing'') = FText ''Webbing''"
    by (simp add: text_or_none_def decode_ascii ascii_def)
  moreover have "filter is_digit ''8985235000'' = ''8985235000''" "filter is_digit ''89101'' = ''89101''" by code_simp+
  ultimately have "decode_struct (encode_records (?rec ''8985235000'')) PROFILE = Some (ex_profile ''8985235000'' ''Webbing'')"
    "decode_struct (encode_records (?rec ''89101'')) PROFILE = Some (ex_profile ''89101'' ''Webbing'')"
    using inner [OF ok(1)] inner [OF ok(2)] by (simp_all only: tbcd_digits_text ex_profile_def)
  then show ?thesis
    using outer iter_tlv_records [OF ok2]
    by (simp add: decode_profiles_def require_tag_def find_tag_def index_error_def del: encode_records_simps)
qed

definition ex_closed :: "nat modem at_client" where
  "ex_closed = \<lparr>channel = None, has_serial = True,
     world = \<lparr>mdm_lines = [], mdm_card = \<lparr>card_in = [], card_seq = 0, card_out = [], card_mem = 0\<rparr>\<rparr>\<rparr>"

lemma ex_delete_commands:
  "take 2 (delete_command n) = [0xBF, 0x33]"
  by (simp add: delete_command_def encode_tlv_def tag_bytes_def)

lemma ex_blob_length: "length ex_blob < 100"
proof -
  have "length (string_to_tbcd ''8985235000'') = 5" "length (string_to_tbcd ''89101'') = 3"
    "length (bytes_of ''Webbing'') = 7" by code_simp+
  then show ?thesis by (simp add: ex_blob_def encode_tlv_def tag_bytes_def size_bytes_def)
qed

lemma ex_exec_simps [simp]:
  "ex_exec [0xBF, 0x2D, 0x00] n = (ex_blob, n)"
  "ex_exec (delete_command i) n = (encode_tlv TAG_DELETE_PROFILE (encode_tlv TAG_STATUS [0]), n + 1)"
  by (simp_all add: ex_exec_def ex_delete_commands)

lemma ex_profiles_simps [simp]:
  "prof_iccid (profile_of (ex_profile i p)) = Some i" "is_comma (profile_of (ex_profile i p)) \<longleftrightarrow> p = ''Webbing'' \<and> starts_with ''8985235'' i"
  by (simp_all add: profile_of_def ex_profile_def field_text_def is_comma_def the_default_def)

theorem comma_profiles_are_not_deleted_witness:
  "(\<exists>r t. delete_profile (modem_port ex_exec (\<lambda>_. 20) []) 200 ''8985235000'' ex_closed = (r, t) \<and>
      r = Raised (LPAError ''refusing to delete a comma profile'') \<and> card_mem (mdm_card (world t)) = 0) \<and>
   (\<exists>r t. delete_profile (modem_port ex_exec (\<lambda>_. 20) []) 200 ''89101'' ex_closed = (r, t) \<and> card_mem (mdm_card (world t)) = 1)"
proof -
  have c: "modem_closed [] 200 ex_closed" "makes_progress (\<lambda>_. 20)"
    by (simp_all add: modem_closed_def ex_closed_def noise_ok_def makes_progress_def)
  have e: "ex_exec [0xBF, 0x2D, 0x00] (card_mem (mdm_card (world ex_closed))) = (ex_blob, 0)" by (simp add: ex_closed_def)
  have l: "length ex_blob < 200" using ex_blob_length by simp
  have d: "length (fst (ex_exec (delete_command i) 0)) < 200" for i
    by (simp add: encode_tlv_def tag_bytes_def size_bytes_def)
  note deleting = comma_profiles_are_not_deleted [where exec = ex_exec, OF c e ex_blob_profiles l d]
  from deleting [of "''8985235000''"] deleting [of "''89101''"] show ?thesis
    by (simp only: list.map find.simps ex_profiles_simps option.inject refl if_True option.case) (auto simp: ex_profiles_simps)
qed

section \<open>Failed downloads\<close>

definition quiet :: "('w \<Rightarrow> string list) \<Rightarrow> ('w, 'a) lpa \<Rightarrow> bool" where
  \<comment> \<open>the action posts nothing\<close>
  "quiet posts m \<longleftrightarrow> (\<forall>s. posts (world (snd (m s))) = posts (world s))"

lemma quietD: "quiet posts m \<Longrightarrow> posts (world (snd (m s))) = posts (world s)"
  by (simp add: quiet_def)

lemma quiet_basic [simp, intro]:
  "quiet posts (io_return x)" "quiet posts (io_raise e)" "quiet posts io_hung" "quiet posts (io_outcome r)"
  "quiet posts (io_get f)" "quiet posts (io_modify (\<lambda>s. s\<lparr>channel := c\<rparr>))" "quiet posts (io_modify (\<lambda>s. s\<lparr>has_serial := b\<rparr>))"
  by (simp_all add: quiet_def)

lemma quiet_Pair [simp, intro]: "quiet posts (Pair r)"
  by (simp add: quiet_def)

lemma quiet_bind [intro]:
  assumes "quiet posts m" "\<And>x. quiet posts (f x)" shows "quiet posts (io_bind m f)"
  unfolding quiet_def
proof
  fix s
  show "posts (world (snd (io_bind m f s))) = posts (world s)"
    using quietD [OF assms(1), of s] quietD [OF assms(2)]
    by (cases m s rule: io_cases) (simp_all add: io_bind_def)
qed

lemma quiet_then [intro]: "quiet posts m \<Longrightarrow> quiet posts n \<Longrightarrow> quiet posts (io_then m n)"
  unfolding io_then_def by (rule quiet_bind)

lemma quiet_when [intro]: "quiet posts m \<Longrightarrow> quiet posts (io_when b m)"
  by (simp add: io_when_def)

lemma quiet_try [intro]:
  assumes "quiet posts m" "\<And>e. quiet posts (h e)" shows "quiet posts (io_try m c h)"
  unfolding quiet_def
proof
  fix s
  show "posts (world (snd (io_try m c h s))) = posts (world s)"
    using quietD [OF assms(1), of s] quietD [OF assms(2)]
    by (cases m s rule: io_cases) (simp_all add: io_try_def)
qed

text \<open>What the assistant asks of a world whose state holds a log of the addresses posted to.\<close>

locale request_log =
  fixes p :: "'w port" and posts :: "'w \<Rightarrow> string list"
  assumes post_logged: "posts (snd (http_post p url payload w)) = posts w @ [url]"
    and port_quiet: "posts (snd (port_open p w)) = posts w" "posts (snd (port_close p w)) = posts w"
      "posts (snd (port_reset_input p w)) = posts w" "posts (snd (port_write p bs w)) = posts w"
      "posts (snd (port_readline p w)) = posts w" "posts (snd (lte_start p w)) = posts w"
      "posts (snd (time_sleep p w)) = posts w"
begin

lemma quiet_outside:
  "quiet posts (outside (port_open p))" "quiet posts (outside (port_close p))" "quiet posts (outside (port_reset_input p))"
  "quiet posts (outside (port_write p bs))" "quiet posts (outside (port_readline p))" "quiet posts (outside (lte_start p))"
  "quiet posts (outside (time_sleep p))"
  by (simp_all add: quiet_def outside_def split_def port_quiet)

lemma quiet_expect: "quiet posts (at_expect p fuel lines)"
  by (induction fuel arbitrary: lines) (auto simp: Let_def intro!: quiet_bind quiet_outside)

lemma quiet_serial: "quiet posts (ensure_serial p b)"
  unfolding ensure_serial_def by (intro quiet_then quiet_when quiet_try quiet_bind quiet_basic quiet_outside)

lemma quiet_query: "quiet posts (query p fuel cmd)"
  unfolding query_def at_send_def by (intro quiet_then quiet_try quiet_serial quiet_expect quiet_outside)

lemma quiet_open: "quiet posts (open_isdr p fuel)"
proof -
  have once: "quiet posts (open_isdr_once p fuel)"
    unfolding open_isdr_once_def
    by (intro quiet_then quiet_when quiet_try quiet_bind quiet_basic quiet_outside quiet_serial quiet_query)
      (auto split: option.split intro: quiet_basic)
  have reset: "quiet posts (reset_modem p)"
    unfolding reset_modem_def by (intro quiet_then quiet_when quiet_try quiet_bind quiet_basic quiet_outside)
  have "quiet posts (open_isdr_attempts p fuel attempts)" for attempts
    by (induction attempts)
      (auto intro!: quiet_bind quiet_try quiet_then quiet_when once reset quiet_outside)
  then show ?thesis by (simp add: open_isdr_def)
qed

lemma quiet_apdu: "quiet posts (send_apdu p fuel apdu)"
proof -
  have once: "quiet posts (send_apdu_once p fuel apdu)"
    unfolding send_apdu_once_def by (intro quiet_then quiet_bind quiet_when quiet_basic quiet_open quiet_query)
  have "quiet posts (send_apdu_attempts p fuel apdu attempts)" for attempts
    by (induction attempts) (auto intro!: quiet_try quiet_then once)
  then show ?thesis by (simp add: send_apdu_def)
qed

lemma quiet_command: "quiet posts (command p fuel data)"
proof -
  have more: "quiet posts (more_data (send_apdu p fuel) n r acc)" for n r acc
    by (induction n arbitrary: r acc) (auto split: prod.split intro!: quiet_bind quiet_apdu)
  have "quiet posts (es10x_chunks (send_apdu p fuel) fuel data seq acc)" for seq acc
  proof (induction data arbitrary: seq acc rule: length_induct)
    case (1 data)
    show ?case
    proof (cases "data = []")
      case False
      then have "length (drop ES10X_MSS data) < length data" by (simp add: ES10X_MSS_def)
      with 1 False show ?thesis
        by (subst es10x_chunks.simps) (auto simp: Let_def intro!: quiet_bind quiet_apdu more)
    qed (simp add: es10x_chunks.simps [of _ _ "[]"] quiet_basic)
  qed
  then show ?thesis by (simp add: command_def es10x_command_def)
qed

lemma request_posts:
  "posts (world (snd (es9p_request p smdp endpoint payload pre s))) =
     posts (world s) @ [''https://'' @ smdp @ ''/gsma/rsp2/es9plus/'' @ endpoint]"
proof -
  let ?post = "outside (http_post p (''https://'' @ smdp @ ''/gsma/rsp2/es9plus/'' @ endpoint) payload)"
  have "posts (world (snd (?post s))) = posts (world s) @ [''https://'' @ smdp @ ''/gsma/rsp2/es9plus/'' @ endpoint]"
    using post_logged [of _ payload "world s"] by (simp add: outside_def split_def)
  then show ?thesis
    by (cases ?post s rule: io_cases) (auto simp: es9p_request_def io_bind_def Let_def split: option.split prod.split)
qed

lemma cancellation_posted:
  assumes "cancel_session_safe p fuel smdp tx_id s = (Returned x, t)"
  shows "last (posts (world t)) = ''https://'' @ smdp @ ''/gsma/rsp2/es9plus/cancelSession''"
proof -
  let ?first = "io_try (io_bind (io_outcome (b64_decoded tx_id)) (\<lambda>t. cancel_session p fuel t 127)) (\<lambda>_. True) (\<lambda>_. io_return [])"
  let ?req = "\<lambda>b. es9p_request p smdp ''cancelSession'' [(''transactionId'', tx_id), (''cancelSessionResponse'', b)] ''CancelSession''"
  from assms obtain b u where b: "?first s = (Returned b, u)"
    "io_try (io_then (?req b) (io_return ())) (\<lambda>_. True) (\<lambda>_. io_return ()) u = (Returned x, t)"
    by (cases ?first s rule: io_cases) (auto simp: cancel_session_safe_def io_bind_def)
  from b(2) have "t = snd (?req b u)"
    by (cases "?req b" u rule: io_cases) (simp_all add: io_try_def io_then_def io_bind_def)
  then show ?thesis by (simp add: request_posts)
qed

end

definition with_log :: "('w, 'e, 'a) io \<Rightarrow> ('w \<times> string list, 'e, 'a) io" where
  "with_log m = (\<lambda>(w, l). case m w of (r, w') \<Rightarrow> (r, (w', l)))"

definition logged :: "'w port \<Rightarrow> ('w \<times> string list) port" where
  \<comment> \<open>any outside world, with a log of the addresses posted to\<close>
  "logged p =
     \<lparr>port_open = with_log (port_open p), port_close = with_log (port_close p), port_reset_input = with_log (port_reset_input p),
      port_write = (\<lambda>bs. with_log (port_write p bs)), port_readline = with_log (port_readline p),
      lte_start = with_log (lte_start p), time_sleep = with_log (time_sleep p),
      system_time_valid = system_time_valid p \<circ> fst, sha256 = sha256 p,
      http_post = (\<lambda>url payload (w, l). case http_post p url payload w of (r, w') \<Rightarrow> (r, (w', l @ [url])))\<rparr>"

interpretation log: request_log "logged p" snd for p
  by unfold_locales (simp_all add: logged_def with_log_def split_def)

lemma swallow_never_raises [simp]: "io_try m (\<lambda>_. True) (\<lambda>_. io_return d) w \<noteq> (Raised e, u)"
  by (cases m w rule: io_cases) (simp_all add: io_try_def)

text \<open>
  A failed download is reported to the server. In any outside world: once the server has opened
  a transaction (a non-empty \<open>transactionId\<close>), a download that then raises - a bad reply, a missing
  field, a card that refuses, a failed installation - has posted \<open>cancelSession\<close> to the same server
  last, and raises the exception of the step that failed.
\<close>

theorem failed_download_cancels:
  fixes p :: "'w port"
  assumes "parse_lpa_activation_code code = Some (smdp, matching_id)"
    "get_challenge_and_info (logged p) fuel s = (Returned (challenge, info), s1)"
    "es9p_request (logged p) smdp ''initiateAuthentication''
       [(''smdpAddress'', smdp), (''euiccChallenge'', b64e challenge), (''euiccInfo1'', b64e info), (''matchingId'', matching_id)]
       ''Authentication'' s1 = (Returned auth, s2)"
    "b64_field auth ''transactionId'' = Returned tx_id" "tx_id \<noteq> []"
    "download_profile (logged p) fuel code s = (Raised e, t)" "system_time_valid p (fst (world s))"
  shows "last (snd (world t)) = ''https://'' @ smdp @ ''/gsma/rsp2/es9plus/cancelSession'' \<and>
    (\<exists>s3. download_steps (logged p) fuel smdp matching_id auth tx_id s2 = (Raised e, s3))"
proof -
  let ?steps = "download_steps (logged p) fuel smdp matching_id auth tx_id"
  let ?cancel = "cancel_session_safe (logged p) fuel smdp tx_id"
  have valid: "system_time_valid (logged p) (world s)" using assms(7) by (simp add: logged_def)
  have run: "download_profile (logged p) fuel code s =
      io_try ?steps (\<lambda>_. True) (\<lambda>e. io_then ?cancel (io_raise e)) s2"
    using assms(1-5) valid by (simp add: download_profile_def io_bind_def)
  have "\<exists>e' s3. ?steps s2 = (Raised e', s3) \<and> io_then ?cancel (io_raise e' :: ('w \<times> string list, string option) lpa) s3 = (Raised e, t)"
    using assms(6) unfolding run by (cases ?steps s2 rule: io_cases) (simp_all add: io_try_def)
  then obtain e' s3 where e: "?steps s2 = (Raised e', s3)" "io_then ?cancel (io_raise e' :: ('w \<times> string list, string option) lpa) s3 = (Raised e, t)" by blast
  have "\<exists>x u. ?cancel s3 = (Returned x, u) \<and> e' = e \<and> u = t"
  proof (cases ?cancel s3 rule: io_cases)
    case (2 e'' u)
    then show ?thesis by (auto simp: cancel_session_safe_def io_bind_def split: outcome.splits prod.splits)
  qed (use e(2) in \<open>auto simp: io_then_def io_bind_def\<close>)
  then obtain x where "?cancel s3 = (Returned x, t)" "e' = e" by blast
  with log.cancellation_posted e(1) show ?thesis by blast
qed

text \<open>A scripted modem that answers the first two commands, and a server that opens a transaction and says no more.\<close>

definition ex_port :: "byte list list port" where
  "ex_port =
     \<lparr>port_open = io_return (), port_close = io_return (), port_reset_input = io_return (), port_write = (\<lambda>_. io_return ()),
      port_readline = (\<lambda>ls. case ls of [] \<Rightarrow> (Returned [], []) | l # r \<Rightarrow> (Returned l, r)),
      lte_start = io_return (), time_sleep = io_return (), system_time_valid = (\<lambda>_. True), sha256 = (\<lambda>x. x),
      http_post = (\<lambda>_ _. io_return \<lparr>reply_failed = None, reply_fields = [''transactionId'' \<mapsto> ''AAAA'']\<rparr>)\<rparr>"

definition ex_session :: "byte list list \<Rightarrow> string list \<Rightarrow> (byte list list \<times> string list) at_client" where
  "ex_session script posts = \<lparr>channel = Some ''1'', has_serial = True, world = (script, posts)\<rparr>"

lemma ex_expect:
  assumes "line_ok l"
  shows "at_expect (logged ex_port) (Suc (Suc n)) [] (ex_session (line_bytes l # line_bytes ''OK'' # r) g) = (Returned [l], ex_session r g)"
proof -
  have "clean_line ''OK''" by (simp add: clean_line_def ascii_def is_space_def)
  then show ?thesis using assms read_line [of l] read_line [of "''OK''"]
    by (auto simp: line_ok_def clean_line_def outside_def io_bind_def logged_def with_log_def ex_port_def ex_session_def Let_def)
qed

lemma ex_silence: "at_expect (logged ex_port) (Suc n) [] (ex_session [] g) = (Raised TimeoutError, ex_session [] g)"
  by (simp add: outside_def io_bind_def logged_def with_log_def ex_port_def ex_session_def)

lemma ex_query: "query (logged ex_port) fuel cmd (ex_session script g) =
    io_try (at_expect (logged ex_port) fuel []) (\<lambda>e. e = SerialException)
      (\<lambda>_. io_then (ensure_serial (logged ex_port) True) (io_then (at_send (logged ex_port) cmd) (at_expect (logged ex_port) fuel [])))
      (ex_session script g)"
  by (simp add: query_def ensure_serial_def at_send_def outside_def io_then_def io_bind_def io_try_def logged_def with_log_def
      ex_port_def ex_session_def)

lemma ex_apdu:
  "send_apdu (logged ex_port) (Suc (Suc n)) apdu (ex_session (line_bytes (cgla_reply r) # line_bytes ''OK'' # script) g) =
     (Returned r, ex_session script g)"
  "send_apdu (logged ex_port) (Suc (Suc n)) apdu (ex_session [] g) = (Raised TimeoutError, ex_session [] g)"
proof -
  have up: "truthy (Some ''1'')" "channel (ex_session s g) = Some ''1''" for s g
    by (simp_all add: ex_session_def truthy_def)
  have l: "line_ok (cgla_reply r)" using clean_reply [of r] by (simp add: line_ok_def cgla_reply_def split_def Let_def)
  show "send_apdu (logged ex_port) (Suc (Suc n)) apdu (ex_session (line_bytes (cgla_reply r) # line_bytes ''OK'' # script) g) =
     (Returned r, ex_session script g)"
    using find_cgla_reply [of "[]" r]
    by (simp add: send_apdu_def SEND_APDU_RETRIES_def upt_rec send_apdu_once_def io_try_def io_then_def io_bind_def up ex_query ex_expect [OF l]
        del: at_expect.simps find_cgla.simps)
  show "send_apdu (logged ex_port) (Suc (Suc n)) apdu (ex_session [] g) = (Raised TimeoutError, ex_session [] g)"
    by (simp add: send_apdu_def SEND_APDU_RETRIES_def upt_rec send_apdu_once_def io_try_def io_then_def io_bind_def up ex_query ex_silence
        del: at_expect.simps)
qed

lemma ex_command:
  "data \<noteq> [] \<Longrightarrow> length data \<le> 120 \<Longrightarrow>
    command (logged ex_port) (Suc (Suc n)) data (ex_session (line_bytes (cgla_reply (d, 0x90, 0)) # line_bytes ''OK'' # script) g) =
      (Returned d, ex_session script g)"
  "data \<noteq> [] \<Longrightarrow> command (logged ex_port) (Suc (Suc n)) data (ex_session [] g) = (Raised TimeoutError, ex_session [] g)"
  by (simp_all add: command_def es10x_command_def es10x_chunks.simps [of _ _ data] es10x_chunks.simps [of _ _ "[]"]
      ES10X_MSS_def io_bind_def ex_apdu Let_def)

lemma ex_challenge:
  "get_challenge_and_info (logged ex_port) (Suc (Suc n)) (ex_session (map line_bytes
      [cgla_reply (encode_tlv TAG_EUICC_CHALLENGE (encode_tlv TAG_STATUS [1, 2]), 0x90, 0), ''OK'',
       cgla_reply (encode_tlv TAG_EUICC_INFO [], 0x90, 0), ''OK'']) []) =
     (Returned ([1, 2], encode_tlv TAG_EUICC_INFO []), ex_session [] [])"
proof -
  have tlv: "iter_tlv (encode_tlv TAG_EUICC_CHALLENGE (encode_tlv TAG_STATUS [1, 2])) = [(TAG_EUICC_CHALLENGE, encode_tlv TAG_STATUS [1, 2])]"
    "iter_tlv (encode_tlv TAG_STATUS [1, 2]) = [(TAG_STATUS, [1, 2])]" "iter_tlv (encode_tlv TAG_EUICC_INFO []) = [(TAG_EUICC_INFO, [])]"
    by (intro iter_tlv_single record_ok_small; simp add: tag_ok_def encode_tlv_def tag_bytes_def size_bytes_def)+
  have "length (encode_tlv TAG_EUICC_CHALLENGE []) = 3" "length (encode_tlv TAG_EUICC_INFO []) = 3"
    by (simp_all add: encode_tlv_def tag_bytes_def size_bytes_def)
  then have "encode_tlv TAG_EUICC_CHALLENGE [] \<noteq> []" "length (encode_tlv TAG_EUICC_CHALLENGE []) \<le> 120"
    "encode_tlv TAG_EUICC_INFO [] \<noteq> []" "length (encode_tlv TAG_EUICC_INFO []) \<le> 120" by auto
  note c = ex_command(1) [OF this(1,2)] ex_command(1) [OF this(3,4)]
  show ?thesis by (simp add: get_challenge_and_info_def io_bind_def c require_tag_def find_tag_def tlv)
qed

lemma ex_post: "es9p_request (logged ex_port) smdp endpoint payload pre (ex_session script g) =
    (Returned [''transactionId'' \<mapsto> ''AAAA''], ex_session script (g @ [''https://'' @ smdp @ ''/gsma/rsp2/es9plus/'' @ endpoint]))"
  by (simp add: es9p_request_def outside_def io_bind_def logged_def ex_port_def ex_session_def)

lemma ex_cancel:
  "cancel_session_safe (logged ex_port) (Suc (Suc n)) smdp tx (ex_session [] g) =
     (Returned (), ex_session [] (g @ [''https://'' @ smdp @ ''/gsma/rsp2/es9plus/cancelSession'']))"
proof -
  have "encode_tlv t v \<noteq> []" for t v by (simp add: encode_tlv_def tag_bytes_def)
  note c = ex_command(2) [OF this]
  show ?thesis
    by (simp add: cancel_session_safe_def cancel_session_def b64_decoded_def io_bind_def io_try_def io_then_def ex_post c split: option.split)
qed

theorem failed_download_cancels_witness:
  "last (snd (world (snd (download_profile (logged ex_port) 5 ''LPA:1$smdp.io$M'' (ex_session (map line_bytes
      [cgla_reply (encode_tlv TAG_EUICC_CHALLENGE (encode_tlv TAG_STATUS [1, 2]), 0x90, 0), ''OK'',
       cgla_reply (encode_tlv TAG_EUICC_INFO [], 0x90, 0), ''OK'']) []))))) = ''https://smdp.io/gsma/rsp2/es9plus/cancelSession''"
proof -
  let ?s = "ex_session (map line_bytes [cgla_reply (encode_tlv TAG_EUICC_CHALLENGE (encode_tlv TAG_STATUS [1, 2]), 0x90, 0), ''OK'',
       cgla_reply (encode_tlv TAG_EUICC_INFO [], 0x90, 0), ''OK'']) []"
  let ?t = "ex_session [] [''https://smdp.io/gsma/rsp2/es9plus/initiateAuthentication'', ''https://smdp.io/gsma/rsp2/es9plus/cancelSession'']"
  have n: "(5 :: nat) = Suc (Suc 3)" by simp
  have code: "parse_lpa_activation_code ''LPA:1$smdp.io$M'' = Some (''smdp.io'', ''M'')" by code_simp
  have tx: "b64_field [''transactionId'' \<mapsto> ''AAAA''] ''transactionId'' = Returned ''AAAA''" by (simp add: b64_field_def base64_trim_def)
  have valid: "system_time_valid ex_port w" "system_time_valid (logged ex_port) w'" for w w' by (simp_all add: logged_def ex_port_def)
  note challenge = ex_challenge [where n = 3, folded n] and cancel = ex_cancel [where n = 3, folded n]
  have run: "download_profile (logged ex_port) 5 ''LPA:1$smdp.io$M'' ?s = (Raised KeyError, ?t)"
    using tx by (simp add: download_profile_def io_bind_def valid code challenge ex_post download_steps_def b64_field_def
        io_try_def io_then_def cancel del: list.map)
  from failed_download_cancels [OF code challenge ex_post tx _ run valid(1)] run show ?thesis by simp
qed

end
