(* ===== verification/PyNumbers.thy ===== *)
theory PyNumbers
  imports Lpa
begin

text \<open>
  \<open>int(s)\<close> for a text, with the signs, spaces and underscores that Python allows, and the cutting of a
  text at its last double dash, with which the names of log segments are taken apart.
\<close>

definition digits_value :: "string \<Rightarrow> nat" where
  "digits_value s = foldl (\<lambda>n c. 10 * n + (of_char c - 48)) 0 s"

fun underscored :: "bool \<Rightarrow> string \<Rightarrow> string option" where
  \<comment> \<open>the digits of a literal in which single underscores stand between digits; the flag: a digit came before\<close>
  "underscored digit [] = (if digit then Some [] else None)"
| "underscored digit (c # cs) =
     (if is_digit c then map_option ((#) c) (underscored True cs)
      else if c = CHR ''_'' \<and> digit then underscored False cs else None)"

definition py_int_of :: "string \<Rightarrow> int option" where
  \<comment> \<open>\<open>int(s)\<close> for ASCII text; \<open>None\<close> is a \<open>ValueError\<close>\<close>
  "py_int_of s =
     (case py_strip s of
        [] \<Rightarrow> None
      | c # cs \<Rightarrow>
          let (neg, body) = (if c = CHR ''-'' then (True, cs) else if c = CHR ''+'' then (False, cs) else (False, c # cs))
          in map_option (\<lambda>ds. if neg then - int (digits_value ds) else int (digits_value ds)) (underscored False body))"

fun split_last_dashes :: "string \<Rightarrow> (string \<times> string) option" where
  \<comment> \<open>what is before and after the last \<open>--\<close>\<close>
  "split_last_dashes [] = None"
| "split_last_dashes (c # cs) =
     (case split_last_dashes cs of
        Some (a, b) \<Rightarrow> Some (c # a, b)
      | None \<Rightarrow> if starts_with ''--'' (c # cs) then Some ([], drop 1 cs) else None)"

definition ends_with :: "string \<Rightarrow> string \<Rightarrow> bool" where
  "ends_with e s \<longleftrightarrow> starts_with (rev e) (rev s)"

end
