(* ===== verification/Modem.thy ===== *)
theory Modem
  imports PyNumbers
begin

text \<open>
  The connection manager of the cellular modem, \<^verbatim>\<open>common/hardware/comma/modem.py\<close>: its five states,
  the PPP session it starts and retries, and what it reads of the modem's answers. What the operating
  system and the modem say in one pass of the loop is an input: the answer lines to every AT command
  (none when the command fails or the port is taken), whether the port exists, whether pppd has
  exited, the parameters, the addresses of the interface (\<open>None\<close> when the command that shows them
  fails), and the results of the commands that set up routes. What the manager does
  to the system is recorded as a list of actions. Errors of the operating system that a pass does not
  catch itself, the file with the published status and its time are left out.
\<close>

section \<open>Addresses in text\<close>

definition isdigit :: "string \<Rightarrow> bool" where
  "isdigit s \<longleftrightarrow> s \<noteq> [] \<and> list_all is_digit s"

definition valid_octet :: "string \<Rightarrow> bool" where
  "valid_octet s \<longleftrightarrow> isdigit s \<and> length s \<le> 3 \<and> \<not> (length s > 1 \<and> hd s = CHR ''0'') \<and> digits_value s \<le> 255"

definition valid_ipv4 :: "string \<Rightarrow> bool" where
  \<comment> \<open>\<open>IPv4Address(s)\<close> raises nothing\<close>
  "valid_ipv4 s \<longleftrightarrow> (let ps = split_at (CHR ''.'') s in length ps = 4 \<and> list_all valid_octet ps)"

definition rstrip_F :: "string \<Rightarrow> string" where
  "rstrip_F s = rev (dropWhile (\<lambda>c. c = CHR ''F'') (rev s))"

definition remove_quotes :: "string \<Rightarrow> string" where
  "remove_quotes s = filter (\<lambda>c. c \<noteq> CHR 0x22) s"

definition after_colon :: "string \<Rightarrow> string" where
  "after_colon s = drop 1 (dropWhile (\<lambda>c. c \<noteq> CHR '':'') s)"

definition fields_of :: "string \<Rightarrow> string list" where
  "fields_of s = split_at (CHR '','') s"

section \<open>State\<close>

datatype modem_phase = INITIALIZING | SEARCHING | CONNECTING | CONNECTED | DISCONNECTING

datatype modem_action = Start_pppd | Kill_pppd | Cleanup_routes | Reset_data_port | Install_routes string string
  | Install_dns "string list" | At_command string

record modem_status =
  ms_connected :: bool
  ms_ip_address :: string
  ms_iccid :: string
  ms_mcc_mnc :: string
  ms_imei :: string
  ms_modem_version :: string
  ms_signal_strength :: int
  ms_signal_quality :: int
  ms_network_type :: string
  ms_operator :: string
  ms_band :: string
  ms_channel :: int
  ms_registration :: string
  ms_temperatures :: "int list"
  ms_extra :: string
  ms_tx_bytes :: int
  ms_rx_bytes :: int

definition INITIAL_STATE :: modem_status where
  "INITIAL_STATE =
     \<lparr>ms_connected = False, ms_ip_address = [], ms_iccid = [], ms_mcc_mnc = [], ms_imei = [], ms_modem_version = [],
      ms_signal_strength = 0, ms_signal_quality = 0, ms_network_type = ''unknown'', ms_operator = [], ms_band = [],
      ms_channel = 0, ms_registration = ''unknown'', ms_temperatures = [], ms_extra = [], ms_tx_bytes = 0, ms_rx_bytes = 0\<rparr>"

record modem =
  mo_phase :: modem_phase
  mo_fails :: nat
  mo_peer :: string
  mo_sim_change :: bool
  mo_apn :: string
  mo_roaming_allowed :: bool
  mo_S :: modem_status
  mo_actions :: "modem_action list"

definition modem_init :: modem where
  \<comment> \<open>as \<open>run\<close> enters its loop\<close>
  "modem_init =
     \<lparr>mo_phase = INITIALIZING, mo_fails = 0, mo_peer = [], mo_sim_change = False, mo_apn = [], mo_roaming_allowed = True,
      mo_S = INITIAL_STATE, mo_actions = [Kill_pppd]\<rparr>"

record modem_env =
  me_at :: "string \<Rightarrow> string list"
  me_port :: bool
  me_port_later :: bool
  me_GsmApn :: string
  me_GsmRoaming :: string
  me_exited :: bool
  me_addr_lines :: "string list option"
  me_routes_ok :: bool
  me_dns_ok :: bool
  me_counters :: "(int \<times> int) option"

abbreviation (input) DIAL_CID :: string where "DIAL_CID \<equiv> ''1''"
abbreviation (input) WEBBING_ICCID_PREFIX :: string where "WEBBING_ICCID_PREFIX \<equiv> ''8985235''"
abbreviation (input) MAX_FAILS :: nat where "MAX_FAILS \<equiv> 3"

definition act :: "modem_action \<Rightarrow> modem \<Rightarrow> modem" where
  "act a m = m\<lparr>mo_actions := mo_actions m @ [a]\<rparr>"

definition publish :: "(modem_status \<Rightarrow> modem_status) \<Rightarrow> modem \<Rightarrow> modem" where
  "publish f m = m\<lparr>mo_S := f (mo_S m)\<rparr>"

section \<open>The PPP session\<close>

definition ppp_start :: "modem \<Rightarrow> modem" where
  "ppp_start m = act Start_pppd (m\<lparr>mo_peer := []\<rparr>)"

definition ppp_kill :: "modem \<Rightarrow> modem" where
  "ppp_kill m = act Kill_pppd (m\<lparr>mo_peer := []\<rparr>)"

definition maybe_install_routes :: "modem_env \<Rightarrow> string \<Rightarrow> string \<Rightarrow> modem \<Rightarrow> bool \<times> modem" where
  "maybe_install_routes e ip peer m =
     (if peer = [] \<or> peer = mo_peer m then (False, m)
      else if \<not> (valid_ipv4 ip \<and> valid_ipv4 peer) then (False, ppp_kill m)
      else let m = act (Install_routes ip peer) (act Cleanup_routes m)
           in if \<not> me_routes_ok e then (False, ppp_kill (act Cleanup_routes m)) else (True, m\<lparr>mo_peer := peer\<rparr>))"

definition maybe_install_dns :: "modem_env \<Rightarrow> string list \<Rightarrow> modem \<Rightarrow> modem" where
  "maybe_install_dns e servers m =
     (if servers = [] then m
      else let m = act (Install_dns servers) m in if \<not> me_dns_ok e then ppp_kill m else m)"

section \<open>Reading the modem\<close>

definition CREG :: "int \<Rightarrow> string option" where
  "CREG = map_of [(0, ''not_registered''), (1, ''home''), (2, ''searching''), (3, ''denied''), (4, ''unknown''), (5, ''roaming'')]"

definition NETWORK_TYPE :: "int \<Rightarrow> string option" where
  "NETWORK_TYPE = map_of [(0, ''gsm''), (1, ''gsm''), (3, ''gsm''), (8, ''gsm''), (2, ''utran''), (4, ''utran''), (5, ''utran''),
     (6, ''utran''), (7, ''lte''), (9, ''lte''), (10, ''lte''), (11, ''nr''), (12, ''nr''), (13, ''nr'')]"

definition atv :: "modem_env \<Rightarrow> string \<Rightarrow> string \<Rightarrow> string option" where
  "atv e cmd pfx =
     map_option (\<lambda>line. py_strip (after_colon line)) (find (\<lambda>line. substring_in pfx line \<and> CHR '':'' \<in> set line) (me_at e cmd))"

definition some_text :: "string option \<Rightarrow> string" where
  \<comment> \<open>\<open>v or ""\<close>\<close>
  "some_text v = the_default [] v"

definition parse_reg :: "string \<Rightarrow> string" where
  "parse_reg v =
     (case fields_of v of
        _ # f # _ \<Rightarrow> (case py_int_of (strip_quotes f) of None \<Rightarrow> ''unknown'' | Some n \<Rightarrow> the_default ''unknown'' (CREG n))
      | _ \<Rightarrow> ''unknown'')"

definition is_roaming_allowed :: "modem_env \<Rightarrow> modem \<Rightarrow> bool" where
  "is_roaming_allowed e m \<longleftrightarrow> starts_with WEBBING_ICCID_PREFIX (ms_iccid (mo_S m)) \<or> me_GsmRoaming e = ''1''"

definition card_iccid :: "modem_env \<Rightarrow> string" where
  "card_iccid e = rstrip_F (some_text (atv e ''AT+QCCID'' ''+QCCID:''))"

definition AT_INIT :: "string list" where
  "AT_INIT = [''ATE0'', ''ATV1'', ''AT+CMEE=1'', ''ATX4'', ''AT&C1'', ''AT+CREG=2'', ''AT+CGREG=2'']"

definition init_at_channel :: "modem_env \<Rightarrow> modem \<Rightarrow> bool \<times> modem" where
  "init_at_channel e m =
     (let m = fold (\<lambda>c. act (At_command c)) AT_INIT m; r = me_at e ''AT+CGMI''
      in (r \<noteq> [] \<and> \<not> starts_with ''AT'' (hd r), m))"

definition configure_modem :: "string \<Rightarrow> modem \<Rightarrow> modem" where
  "configure_modem version m =
     (if \<not> starts_with ''EG25'' version then m
      else fold (\<lambda>c. act (At_command c))
        [''AT+CGDCONT=0,'' @ [CHR 0x22] @ ''IP'' @ [CHR 0x22, CHR '','', CHR 0x22, CHR 0x22], ''AT+QSIMDET=1,0'', ''AT+QSIMSTAT=1'',
         ''AT+QNVW=5280,0,'' @ [CHR 0x22] @ ''0102000000000000'' @ [CHR 0x22],
         ''AT+QNVFW='' @ [CHR 0x22] @ ''/nv/item_files/ims/IMS_enable'' @ [CHR 0x22] @ '',00'',
         ''AT+QNVFW='' @ [CHR 0x22] @ ''/nv/item_files/modem/mmode/ue_usage_setting'' @ [CHR 0x22] @ '',01''] m)"

record modem_identity =
  id_imei :: string
  id_iccid :: string
  id_mcc_mnc :: string
  id_modem_version :: string

definition first_line :: "modem_env \<Rightarrow> string \<Rightarrow> string" where
  "first_line e cmd = (case me_at e cmd of [] \<Rightarrow> [] | l # _ \<Rightarrow> py_strip l)"

definition read_identity :: "modem_env \<Rightarrow> modem_identity" where
  "read_identity e =
     (let imei = first_line e ''AT+CGSN''; iccid = card_iccid e; imsi = first_line e ''AT+CIMI''
      in \<lparr>id_imei = (if isdigit imei \<and> 14 \<le> length imei \<and> length imei \<le> 17 then imei else []),
          id_iccid = (if isdigit iccid then iccid else []),
          id_mcc_mnc = (if isdigit imsi \<and> length imsi \<ge> 6 then take 6 imsi else []),
          id_modem_version = first_line e ''AT+GMR''\<rparr>)"

section \<open>Polling\<close>

definition poll_signal :: "modem_env \<Rightarrow> modem_status \<Rightarrow> modem_status" where
  "poll_signal e S =
     (case atv e ''AT+CSQ'' ''+CSQ:'' of
        None \<Rightarrow> S
      | Some v \<Rightarrow>
          if v = [] then S
          else (case py_int_of (hd (fields_of v)) of
                  None \<Rightarrow> S
                | Some rssi \<Rightarrow>
                    if rssi = 99 then S
                    else S\<lparr>ms_signal_strength := rssi, ms_signal_quality := min 100 (py_int (of_int rssi / 31 * 100))\<rparr>))"

definition poll_operator :: "modem_env \<Rightarrow> modem_status \<Rightarrow> modem_status" where
  "poll_operator e S =
     (case atv e ''AT+COPS?'' ''+COPS:'' of
        None \<Rightarrow> S
      | Some v \<Rightarrow>
          if v = [] then S
          else let p = fields_of v;
                   S = (if length p \<ge> 3 then S\<lparr>ms_operator := strip_quotes (p ! 2)\<rparr> else S)
               in if length p \<ge> 4
                  then (case py_int_of (p ! 3) of None \<Rightarrow> S | Some n \<Rightarrow> S\<lparr>ms_network_type := the_default ''unknown'' (NETWORK_TYPE n)\<rparr>)
                  else S)"

definition poll_band :: "modem_env \<Rightarrow> modem_status \<Rightarrow> modem_status" where
  "poll_band e S =
     (case atv e ''AT+QNWINFO'' ''+QNWINFO:'' of
        None \<Rightarrow> S
      | Some v \<Rightarrow>
          if v = [] then S
          else let info = fields_of (remove_quotes v)
               in if length info \<ge> 4
                  then (case py_int_of (info ! 3) of None \<Rightarrow> S | Some n \<Rightarrow> S\<lparr>ms_band := info ! 2, ms_channel := n\<rparr>)
                  else S)"

definition poll_extra :: "modem_env \<Rightarrow> modem_status \<Rightarrow> modem_status" where
  "poll_extra e S =
     (case atv e (''AT+QENG='' @ [CHR 0x22] @ ''servingcell'' @ [CHR 0x22]) ''+QENG:'' of
        None \<Rightarrow> S | Some v \<Rightarrow> if v = [] then S else S\<lparr>ms_extra := remove_quotes v\<rparr>)"

definition poll_temps :: "modem_env \<Rightarrow> modem_status \<Rightarrow> modem_status" where
  "poll_temps e S =
     (case atv e ''AT+QTEMP'' ''+QTEMP:'' of
        None \<Rightarrow> S
      | Some v \<Rightarrow>
          if v = [] then S
          else (case those (map py_int_of (filter (\<lambda>x. py_strip x \<noteq> []) (fields_of v))) of
                  None \<Rightarrow> S | Some ts \<Rightarrow> S\<lparr>ms_temperatures := filter (\<lambda>t. t \<noteq> 255) ts\<rparr>))"

fun words_from :: "string \<Rightarrow> string \<Rightarrow> string list" where
  \<comment> \<open>\<open>s.split()\<close>, with the word begun so far\<close>
  "words_from w [] = (if w = [] then [] else [w])"
| "words_from w (c # cs) = (if is_space c then (if w = [] then words_from [] cs else w # words_from [] cs) else words_from (w @ [c]) cs)"

fun word_after :: "string \<Rightarrow> string list \<Rightarrow> string option" where
  \<comment> \<open>\<open>parts[parts.index(w) + 1]\<close>, \<open>None\<close> an \<open>IndexError\<close>\<close>
  "word_after w [] = None"
| "word_after w (x # xs) = (if x = w then (case xs of [] \<Rightarrow> None | y # _ \<Rightarrow> Some y) else word_after w xs)"

definition before_slash :: "string \<Rightarrow> string" where
  "before_slash s = takeWhile (\<lambda>c. c \<noteq> CHR ''/'') s"

definition iface_addresses :: "string list \<Rightarrow> (string \<times> string) option" where
  \<comment> \<open>the address and the peer of the first \<open>inet\<close> line; \<open>None\<close> is an exception\<close>
  "iface_addresses ls =
     (case find (\<lambda>ws. ''inet'' \<in> set ws) (map (words_from []) ls) of
        None \<Rightarrow> Some ([], [])
      | Some ws \<Rightarrow>
          (case word_after ''inet'' ws of
             None \<Rightarrow> None
           | Some ip \<Rightarrow>
               if ''peer'' \<in> set ws then map_option (\<lambda>peer. (before_slash ip, before_slash peer)) (word_after ''peer'' ws)
               else Some (before_slash ip, [])))"

definition read_cellular_dns :: "modem_env \<Rightarrow> string list" where
  "read_cellular_dns e =
     (case atv e ''AT+CGCONTRDP=1'' ''+CGCONTRDP:'' of
        None \<Rightarrow> []
      | Some v \<Rightarrow>
          if v = [] then []
          else let servers = filter valid_ipv4 (take 2 (drop 5 (map (\<lambda>f. strip_quotes (py_strip f)) (fields_of v))))
               in if servers = [] then [''8.8.8.8'', ''1.1.1.1''] else servers)"

definition poll_iface :: "modem_env \<Rightarrow> modem \<Rightarrow> (modem_status \<Rightarrow> modem_status) \<times> modem" where
  \<comment> \<open>the updates of the status, and the routes it installs on the way\<close>
  "poll_iface e m =
     (case Option.bind (me_addr_lines e) iface_addresses of
        None \<Rightarrow> (id, m)
      | Some (ip, peer) \<Rightarrow>
          if ip \<noteq> [] then
            let (installed, m) = maybe_install_routes e ip peer m;
                m = (if installed then maybe_install_dns e (read_cellular_dns e) m else m)
            in (\<lambda>S. S\<lparr>ms_ip_address := ip, ms_connected := True\<rparr>, m)
          else if ms_connected (mo_S m) then (\<lambda>S. S\<lparr>ms_connected := False, ms_ip_address := []\<rparr>, m)
          else (id, m))"

definition poll_byte_counters :: "modem_env \<Rightarrow> modem_status \<Rightarrow> modem_status" where
  "poll_byte_counters e S = (case me_counters e of None \<Rightarrow> S | Some (tx, rx) \<Rightarrow> S\<lparr>ms_tx_bytes := tx, ms_rx_bytes := rx\<rparr>)"

definition modem_poll :: "modem_env \<Rightarrow> modem \<Rightarrow> modem" where
  "modem_poll e m =
     (let (iface, m) = poll_iface e m
      in publish (poll_byte_counters e \<circ> iface \<circ> poll_temps e \<circ> poll_extra e \<circ> poll_band e \<circ> poll_operator e \<circ> poll_signal e) m)"

section \<open>The states\<close>

definition do_initializing :: "modem_env \<Rightarrow> modem \<Rightarrow> modem_phase \<times> modem" where
  "do_initializing e m =
     (if \<not> me_port e then (INITIALIZING, m)
      else let m = act Cleanup_routes (ppp_kill m); (ready, m) = init_at_channel e m
           in if \<not> ready then (INITIALIZING, m)
              else let d = read_identity e
                   in if id_iccid d = [] \<or> id_imei d = [] then (INITIALIZING, m)
                      else let m = configure_modem (id_modem_version d) m;
                               m = publish (\<lambda>S. S\<lparr>ms_imei := id_imei d, ms_iccid := id_iccid d, ms_mcc_mnc := id_mcc_mnc d,
                                                   ms_modem_version := id_modem_version d\<rparr>) m;
                               m = m\<lparr>mo_apn := me_GsmApn e\<rparr>;
                               m = m\<lparr>mo_roaming_allowed := is_roaming_allowed e m\<rparr>;
                               m = act (At_command (''AT+CGDCONT='' @ DIAL_CID @ '','' @ [CHR 0x22] @ ''IP'' @ [CHR 0x22, CHR '','', CHR 0x22]
                                                    @ mo_apn m @ [CHR 0x22])) m
                           in (SEARCHING, m\<lparr>mo_sim_change := False\<rparr>))"

definition searching_idle :: "modem_env \<Rightarrow> modem \<Rightarrow> modem_phase" where
  "searching_idle e m = (if mo_sim_change m \<or> \<not> me_port e then DISCONNECTING else SEARCHING)"

definition set_registration :: "string \<Rightarrow> modem \<Rightarrow> modem" where
  "set_registration reg m = publish (\<lambda>S. S\<lparr>ms_registration := reg\<rparr>) m"

definition do_searching :: "modem_env \<Rightarrow> modem \<Rightarrow> modem_phase \<times> modem" where
  "do_searching e m =
     (let m = m\<lparr>mo_roaming_allowed := is_roaming_allowed e m\<rparr>
      in case atv e ''AT+CREG?'' ''+CREG:'' of
           None \<Rightarrow> (searching_idle e m, m)
         | Some v \<Rightarrow>
             if v = [] then (searching_idle e m, m)
             else let reg = parse_reg v; greg = parse_reg (some_text (atv e ''AT+CGREG?'' ''+CGREG:''))
                  in if reg = ''roaming'' \<and> \<not> mo_roaming_allowed m then (SEARCHING, set_registration reg m)
                     else if reg \<in> {''home'', ''roaming''} \<and> greg \<in> {''home'', ''roaming''} then (CONNECTING, set_registration reg m)
                     else (searching_idle e m, if reg \<noteq> ms_registration (mo_S m) then set_registration reg m else m))"

definition do_connecting :: "modem \<Rightarrow> modem_phase \<times> modem" where
  "do_connecting m = (CONNECTED, ppp_start (m\<lparr>mo_fails := 0, mo_sim_change := False\<rparr>))"

definition handle_pppd_exit :: "modem_env \<Rightarrow> modem \<Rightarrow> modem_phase \<times> modem" where
  "handle_pppd_exit e m =
     (if mo_sim_change m \<or> \<not> me_port e then (DISCONNECTING, m)
      else let m = m\<lparr>mo_fails := mo_fails m + 1\<rparr>
           in if mo_fails m \<ge> MAX_FAILS then (DISCONNECTING, m)
              else let m = act Reset_data_port m
                   in if \<not> me_port_later e then (DISCONNECTING, m) else (CONNECTED, ppp_start m))"

definition params_changed :: "modem_env \<Rightarrow> modem \<Rightarrow> bool" where
  "params_changed e m \<longleftrightarrow> me_GsmApn e \<noteq> mo_apn m \<or> is_roaming_allowed e m \<noteq> mo_roaming_allowed m"

definition do_connected :: "modem_env \<Rightarrow> modem \<Rightarrow> modem_phase \<times> modem" where
  "do_connected e m =
     (if me_exited e then handle_pppd_exit e m
      else if mo_sim_change m \<or> \<not> me_port e \<or> params_changed e m then (DISCONNECTING, m)
      else (CONNECTED, modem_poll e m))"

definition do_disconnecting :: "modem \<Rightarrow> modem_phase \<times> modem" where
  "do_disconnecting m =
     (INITIALIZING, (act Reset_data_port (act Cleanup_routes (ppp_kill (publish (\<lambda>_. INITIAL_STATE) m))))\<lparr>mo_sim_change := False\<rparr>)"

definition check_iccid :: "modem_env \<Rightarrow> modem \<Rightarrow> modem" where
  "check_iccid e m =
     (if mo_phase m \<in> {INITIALIZING, DISCONNECTING} \<or> ms_iccid (mo_S m) = [] then m
      else let iccid = card_iccid e
           in if iccid \<noteq> [] \<and> iccid \<noteq> ms_iccid (mo_S m) then m\<lparr>mo_sim_change := True\<rparr> else m)"

definition phase_handler :: "modem_env \<Rightarrow> modem \<Rightarrow> modem_phase \<times> modem" where
  "phase_handler e m =
     (case mo_phase m of
        INITIALIZING \<Rightarrow> do_initializing e m
      | SEARCHING \<Rightarrow> do_searching e m
      | CONNECTING \<Rightarrow> do_connecting m
      | CONNECTED \<Rightarrow> do_connected e m
      | DISCONNECTING \<Rightarrow> do_disconnecting m)"

definition modem_pass :: "modem_env \<Rightarrow> modem \<Rightarrow> modem" where
  \<comment> \<open>one pass of the loop of \<open>run\<close>\<close>
  "modem_pass e m = (let (phase, m) = phase_handler e (check_iccid e m) in m\<lparr>mo_phase := phase\<rparr>)"

definition modem_stop :: "modem \<Rightarrow> modem" where
  "modem_stop m = act Cleanup_routes (ppp_kill m)"

section \<open>Runs\<close>

definition modem_run :: "modem_env list \<Rightarrow> modem \<Rightarrow> modem" where
  "modem_run es m = foldl (\<lambda>m e. modem_pass e m) m es"

lemma modem_run_simps [simp]:
  "modem_run [] m = m" "modem_run (e # es) m = modem_run es (modem_pass e m)" "modem_run (es @ [e]) m = modem_pass e (modem_run es m)"
  by (simp_all add: modem_run_def)

end
