(* ===== verification/ModemFacts.thy ===== *)
theory ModemFacts
  imports Modem
begin

text \<open>
  What the connection manager of the modem promises: how often it dials, that a changed SIM is read
  again, and the one state in which it is not.
\<close>

section \<open>Dialling\<close>

definition dials :: "modem \<Rightarrow> nat" where
  "dials m = length (filter (\<lambda>a. a = Start_pppd) (mo_actions m))"

definition connecting_passes :: "modem_env list \<Rightarrow> modem \<Rightarrow> nat" where
  "connecting_passes es m = length (filter (\<lambda>k. mo_phase (modem_run (take k es) m) = CONNECTING) [0..<length es])"

lemma connecting_passes_snoc:
  "connecting_passes (es @ [e]) m = connecting_passes es m + (if mo_phase (modem_run es m) = CONNECTING then 1 else 0)"
proof -
  have "filter (\<lambda>k. mo_phase (modem_run (take k (es @ [e])) m) = CONNECTING) [0..<length es]
      = filter (\<lambda>k. mo_phase (modem_run (take k es) m) = CONNECTING) [0..<length es]"
    by (rule filter_cong) auto
  then show ?thesis by (simp add: connecting_passes_def)
qed

lemma dials_act [simp]: "dials (act a m) = dials m + (if a = Start_pppd then 1 else 0)"
  by (simp add: dials_def act_def)

lemma act_keeps [simp]:
  "mo_fails (act a m) = mo_fails m" "mo_phase (act a m) = mo_phase m" "mo_S (act a m) = mo_S m"
  "mo_sim_change (act a m) = mo_sim_change m" "mo_apn (act a m) = mo_apn m" "mo_roaming_allowed (act a m) = mo_roaming_allowed m"
  "mo_peer (act a m) = mo_peer m"
  by (simp_all add: act_def)

lemma dials_update [simp]:
  "dials (m\<lparr>mo_fails := n\<rparr>) = dials m" "dials (m\<lparr>mo_peer := s\<rparr>) = dials m" "dials (m\<lparr>mo_sim_change := b\<rparr>) = dials m"
  "dials (m\<lparr>mo_apn := s\<rparr>) = dials m" "dials (m\<lparr>mo_roaming_allowed := b\<rparr>) = dials m" "dials (m\<lparr>mo_S := S\<rparr>) = dials m"
  "dials (m\<lparr>mo_phase := ph\<rparr>) = dials m"
  by (simp_all add: dials_def)

lemma publish_keeps [simp]:
  "dials (publish f m) = dials m" "mo_fails (publish f m) = mo_fails m" "mo_phase (publish f m) = mo_phase m"
  "mo_sim_change (publish f m) = mo_sim_change m" "mo_S (publish f m) = f (mo_S m)" "mo_apn (publish f m) = mo_apn m"
  "mo_roaming_allowed (publish f m) = mo_roaming_allowed m"
  by (simp_all add: publish_def)

lemma at_commands [simp]:
  "dials (fold (\<lambda>c. act (At_command c)) cs m) = dials m" "mo_fails (fold (\<lambda>c. act (At_command c)) cs m) = mo_fails m"
  by (induction cs arbitrary: m) simp_all

lemma routes_keep:
  "dials (snd (maybe_install_routes e ip peer m)) = dials m" "mo_fails (snd (maybe_install_routes e ip peer m)) = mo_fails m"
  by (simp_all add: maybe_install_routes_def ppp_kill_def Let_def)

lemma dns_keep: "dials (maybe_install_dns e s m) = dials m" "mo_fails (maybe_install_dns e s m) = mo_fails m"
  by (simp_all add: maybe_install_dns_def ppp_kill_def Let_def)

lemma poll_keeps: "dials (modem_poll e m) = dials m" "mo_fails (modem_poll e m) = mo_fails m"
proof -
  have routes: "n = snd (maybe_install_routes e ip peer m)" if "maybe_install_routes e ip peer m = (b, n)" for ip peer b n
    by (simp add: that)
  have "dials (snd (poll_iface e m)) = dials m \<and> mo_fails (snd (poll_iface e m)) = mo_fails m"
    by (auto simp: poll_iface_def Let_def dns_keep routes_keep dest!: routes split: option.split prod.split)
  then show "dials (modem_poll e m) = dials m" "mo_fails (modem_poll e m) = mo_fails m"
    by (auto simp: modem_poll_def split: prod.split)
qed

lemma initializing_keeps: "dials (snd (do_initializing e m)) = dials m" "fst (do_initializing e m) \<in> {INITIALIZING, SEARCHING}"
  by (simp_all add: do_initializing_def init_at_channel_def configure_modem_def ppp_kill_def Let_def split: prod.split)

lemma searching_keeps: "dials (snd (do_searching e m)) = dials m" "fst (do_searching e m) \<noteq> CONNECTED"
  by (simp_all add: do_searching_def searching_idle_def set_registration_def Let_def split: option.split)

lemma check_iccid_keeps [simp]:
  "dials (check_iccid e m) = dials m" "mo_fails (check_iccid e m) = mo_fails m" "mo_phase (check_iccid e m) = mo_phase m"
  "mo_S (check_iccid e m) = mo_S m" "mo_apn (check_iccid e m) = mo_apn m" "mo_roaming_allowed (check_iccid e m) = mo_roaming_allowed m"
  by (simp_all add: check_iccid_def Let_def)

definition dials_left :: "modem \<Rightarrow> nat" where
  "dials_left m = (if mo_phase m = CONNECTED then 2 - mo_fails m else 0)"

lemma exit_dials:
  assumes "mo_fails m \<le> 2"
  shows "dials (snd (handle_pppd_exit e m)) + (if fst (handle_pppd_exit e m) = CONNECTED then 2 - mo_fails (snd (handle_pppd_exit e m)) else 0)
           \<le> dials m + (2 - mo_fails m)"
    "fst (handle_pppd_exit e m) = CONNECTED \<Longrightarrow> mo_fails (snd (handle_pppd_exit e m)) \<le> 2"
  using assms by (auto simp: handle_pppd_exit_def ppp_start_def Let_def split: if_splits)

lemma connected_dials:
  assumes "mo_fails m \<le> 2"
  shows "dials (snd (do_connected e m)) + (if fst (do_connected e m) = CONNECTED then 2 - mo_fails (snd (do_connected e m)) else 0)
           \<le> dials m + (2 - mo_fails m)"
    "fst (do_connected e m) = CONNECTED \<Longrightarrow> mo_fails (snd (do_connected e m)) \<le> 2"
  using assms exit_dials [OF assms, of e] by (auto simp: do_connected_def poll_keeps split: if_splits)

lemma pass_dials:
  assumes "mo_phase m = CONNECTED \<Longrightarrow> mo_fails m \<le> 2"
  shows "dials (modem_pass e m) + dials_left (modem_pass e m) \<le> dials m + dials_left m + (if mo_phase m = CONNECTING then 3 else 0)"
    "mo_phase (modem_pass e m) = CONNECTED \<Longrightarrow> mo_fails (modem_pass e m) \<le> 2"
proof -
  let ?c = "check_iccid e m"
  have pass: "modem_pass e m = (snd (phase_handler e ?c))\<lparr>mo_phase := fst (phase_handler e ?c)\<rparr>"
    by (simp add: modem_pass_def split: prod.split)
  have "dials (modem_pass e m) + dials_left (modem_pass e m) \<le> dials m + dials_left m + (if mo_phase m = CONNECTING then 3 else 0) \<and>
      (mo_phase (modem_pass e m) = CONNECTED \<longrightarrow> mo_fails (modem_pass e m) \<le> 2)"
  proof (cases "mo_phase m")
    case INITIALIZING
    then show ?thesis using initializing_keeps [of e ?c] by (auto simp: pass phase_handler_def dials_left_def)
  next
    case SEARCHING
    then show ?thesis using searching_keeps [of e ?c] by (simp add: pass phase_handler_def dials_left_def)
  next
    case CONNECTED
    then show ?thesis using connected_dials [of ?c e] assms
      by (auto simp: pass phase_handler_def dials_left_def split: if_splits)
  qed (simp_all add: pass phase_handler_def dials_left_def do_connecting_def do_disconnecting_def ppp_start_def ppp_kill_def)
  then show "dials (modem_pass e m) + dials_left (modem_pass e m) \<le> dials m + dials_left m + (if mo_phase m = CONNECTING then 3 else 0)"
    "mo_phase (modem_pass e m) = CONNECTED \<Longrightarrow> mo_fails (modem_pass e m) \<le> 2" by blast+
qed

text \<open>
  The modem does not hammer the network: whatever it and the operating system answer, the manager
  has started pppd at most three times for each time it has found the modem registered and gone to
  connect; after the third failure it goes through a full reconnection first.
\<close>
theorem at_most_three_dials_per_connection:
  "dials (modem_run es modem_init) \<le> 3 * connecting_passes es modem_init"
proof -
  have "dials (modem_run es modem_init) + dials_left (modem_run es modem_init) \<le> 3 * connecting_passes es modem_init \<and>
      (mo_phase (modem_run es modem_init) = CONNECTED \<longrightarrow> mo_fails (modem_run es modem_init) \<le> 2)"
  proof (induction es rule: rev_induct)
    case (snoc e es)
    then show ?case using pass_dials [of "modem_run es modem_init" e] by (auto simp: connecting_passes_snoc)
  qed (simp add: connecting_passes_def modem_init_def dials_def dials_left_def)
  then show ?thesis by simp
qed

section \<open>A changed SIM\<close>

definition roaming_denied :: "modem_env \<Rightarrow> modem \<Rightarrow> bool" where
  \<comment> \<open>the modem is registered as roaming, which neither the SIM nor the parameter allows\<close>
  "roaming_denied e m \<longleftrightarrow>
     (case atv e ''AT+CREG?'' ''+CREG:'' of None \<Rightarrow> False | Some v \<Rightarrow> v \<noteq> [] \<and> parse_reg v = ''roaming'') \<and> \<not> is_roaming_allowed e m"

definition reports :: "string \<Rightarrow> modem_env \<Rightarrow> bool" where
  \<comment> \<open>the card answers with this number\<close>
  "reports iccid e \<longleftrightarrow> card_iccid e = iccid"

lemma noticed:
  assumes "reports iccid e" "iccid \<notin> {[], ms_iccid (mo_S m)}" "ms_iccid (mo_S m) \<noteq> []" "mo_phase m \<in> {SEARCHING, CONNECTING, CONNECTED}"
  shows "mo_sim_change (check_iccid e m)"
  using assms by (auto simp: check_iccid_def reports_def)

lemma roaming_by_iccid: "ms_iccid (mo_S n) = ms_iccid (mo_S m) \<Longrightarrow> roaming_denied e n = roaming_denied e m"
  by (simp add: roaming_denied_def is_roaming_allowed_def)

lemma disconnecting_pass:
  assumes "mo_phase m = DISCONNECTING"
  shows "mo_phase (modem_pass e m) = INITIALIZING" "mo_S (modem_pass e m) = INITIAL_STATE"
  using assms by (simp_all add: modem_pass_def phase_handler_def do_disconnecting_def ppp_kill_def)

lemma connected_pass:
  assumes "mo_phase m = CONNECTED" "mo_sim_change (check_iccid e m)"
  shows "mo_phase (modem_pass e m) = DISCONNECTING"
  using assms by (simp add: modem_pass_def phase_handler_def do_connected_def handle_pppd_exit_def)

lemma connecting_pass:
  assumes "mo_phase m = CONNECTING"
  shows "mo_phase (modem_pass e m) = CONNECTED" "mo_S (modem_pass e m) = mo_S m"
  using assms by (simp_all add: modem_pass_def phase_handler_def do_connecting_def ppp_start_def)

lemma searching_pass:
  assumes "mo_phase m = SEARCHING" "mo_sim_change (check_iccid e m)" "\<not> roaming_denied e m"
  shows "mo_phase (modem_pass e m) \<in> {CONNECTING, DISCONNECTING}" "ms_iccid (mo_S (modem_pass e m)) = ms_iccid (mo_S m)"
proof -
  have allowed: "is_roaming_allowed e (check_iccid e m\<lparr>mo_roaming_allowed := b\<rparr>) = is_roaming_allowed e m"
    "is_roaming_allowed e (check_iccid e m) = is_roaming_allowed e m" for b
    by (simp_all add: is_roaming_allowed_def)
  show "mo_phase (modem_pass e m) \<in> {CONNECTING, DISCONNECTING}" "ms_iccid (mo_S (modem_pass e m)) = ms_iccid (mo_S m)"
    using assms
    by (auto simp: modem_pass_def phase_handler_def do_searching_def searching_idle_def set_registration_def Let_def roaming_denied_def allowed split: option.splits)
qed

lemma denied_pass:
  assumes "mo_phase m = SEARCHING" "roaming_denied e m"
  shows "mo_phase (modem_pass e m) = SEARCHING" "ms_iccid (mo_S (modem_pass e m)) = ms_iccid (mo_S m)"
proof -
  have allowed: "is_roaming_allowed e (check_iccid e m) = is_roaming_allowed e m"
    by (simp add: is_roaming_allowed_def)
  show "mo_phase (modem_pass e m) = SEARCHING" "ms_iccid (mo_S (modem_pass e m)) = ms_iccid (mo_S m)"
    using assms
    by (auto simp: modem_pass_def phase_handler_def do_searching_def set_registration_def Let_def roaming_denied_def allowed split: option.splits)
qed

definition starts_over :: "modem \<Rightarrow> bool" where
  \<comment> \<open>the identity of the card is forgotten and will be read again\<close>
  "starts_over m \<longleftrightarrow> mo_phase m = INITIALIZING \<and> mo_S m = INITIAL_STATE"

definition sees_new_sim :: "string \<Rightarrow> modem \<Rightarrow> modem_env \<Rightarrow> bool" where
  "sees_new_sim iccid m e \<longleftrightarrow> reports iccid e \<and> \<not> roaming_denied e m"

lemma from_connected:
  assumes "mo_phase m = CONNECTED" "ms_iccid (mo_S m) \<noteq> []" "iccid \<notin> {[], ms_iccid (mo_S m)}" "sees_new_sim iccid m e"
  shows "starts_over (modem_pass e2 (modem_pass e m))"
  using connected_pass [of m e] disconnecting_pass [of "modem_pass e m" e2] noticed [of iccid e m] assms
  by (simp add: starts_over_def sees_new_sim_def)

lemma from_connecting:
  assumes "mo_phase m = CONNECTING" "ms_iccid (mo_S m) \<noteq> []" "iccid \<notin> {[], ms_iccid (mo_S m)}" "sees_new_sim iccid m e2"
  shows "starts_over (modem_pass e3 (modem_pass e2 (modem_pass e m)))"
proof (rule from_connected)
  note c = connecting_pass [OF assms(1), of e]
  show "mo_phase (modem_pass e m) = CONNECTED" "ms_iccid (mo_S (modem_pass e m)) \<noteq> []" "iccid \<notin> {[], ms_iccid (mo_S (modem_pass e m))}"
    using assms c by auto
  show "sees_new_sim iccid (modem_pass e m) e2"
    using assms(4) c roaming_by_iccid [of "modem_pass e m" m] by (simp add: sees_new_sim_def)
qed

text \<open>
  A SIM that is changed while the modem searches, connects or is connected is noticed: if each
  pass reads the new number from the card and roaming is not denied to the old one, then after at most
  four passes the manager has hung up, forgotten what it knew of the old SIM, and starts over.
\<close>
theorem changed_sim_starts_over:
  assumes "mo_phase m \<in> {SEARCHING, CONNECTING, CONNECTED}" "ms_iccid (mo_S m) \<noteq> []" "iccid \<notin> {[], ms_iccid (mo_S m)}"
    "list_all (sees_new_sim iccid m) es" "length es = 4"
  shows "list_ex (\<lambda>n. starts_over (modem_run (take n es) m)) [2, 3, 4]"
proof -
  obtain e1 e2 e3 e4 where es: "es = [e1, e2, e3, e4]"
    using assms(5) by (auto simp: numeral_eq_Suc length_Suc_conv)
  consider "mo_phase m = CONNECTED" | "mo_phase m = CONNECTING" | "mo_phase m = SEARCHING" using assms(1) by auto
  then show ?thesis
  proof cases
    case 1
    then show ?thesis using from_connected [of m iccid e1 e2] assms by (simp add: es)
  next
    case 2
    then show ?thesis using from_connecting [of m iccid e2 e3 e1] assms by (simp add: es)
  next
    case 3
    let ?n = "modem_pass e1 m"
    have sees: "sees_new_sim iccid m e1" "sees_new_sim iccid m e3" using assms(4) by (simp_all add: es)
    then have n: "mo_phase ?n \<in> {CONNECTING, DISCONNECTING}" "ms_iccid (mo_S ?n) = ms_iccid (mo_S m)"
      using searching_pass [OF 3, of e1] noticed [of iccid e1 m] assms by (auto simp: sees_new_sim_def)
    then have "sees_new_sim iccid ?n e3" using sees roaming_by_iccid [of ?n m] by (simp add: sees_new_sim_def)
    then have "starts_over (modem_pass e2 ?n) \<or> starts_over (modem_pass e4 (modem_pass e3 (modem_pass e2 ?n)))"
      using n from_connecting [of ?n iccid e3 e4 e2] disconnecting_pass [of ?n e2] assms by (auto simp: starts_over_def)
    then show ?thesis by (auto simp: es)
  qed
qed

text \<open>
  The one place where a new SIM is not noticed: as long as the modem answers that it is registered
  as roaming and roaming is not allowed to the SIM it has read, the manager stays searching with that
  SIM's number, whatever number the card reports.
\<close>
theorem denied_roaming_keeps_old_sim:
  assumes "mo_phase m = SEARCHING" "list_all (\<lambda>e. roaming_denied e m) es"
  shows "mo_phase (modem_run es m) = SEARCHING \<and> ms_iccid (mo_S (modem_run es m)) = ms_iccid (mo_S m)"
  using assms
proof (induction es rule: rev_induct)
  case (snoc e es)
  then have "mo_phase (modem_run es m) = SEARCHING" "ms_iccid (mo_S (modem_run es m)) = ms_iccid (mo_S m)" "roaming_denied e (modem_run es m)"
    using roaming_by_iccid [of "modem_run es m" m] by simp_all
  then show ?case using denied_pass [of "modem_run es m" e] by simp
qed simp

section \<open>Witnesses\<close>

definition answering :: "(string \<times> string list) list \<Rightarrow> modem_env" where
  "answering table =
     \<lparr>me_at = (\<lambda>cmd. the_default [] (map_of table cmd)), me_port = True, me_port_later = True, me_GsmApn = [], me_GsmRoaming = ''0'',
      me_exited = False, me_addr_lines = Some [], me_routes_ok = True, me_dns_ok = True, me_counters = None\<rparr>"

definition searching_with :: "string \<Rightarrow> modem" where
  "searching_with iccid = modem_init\<lparr>mo_phase := SEARCHING, mo_S := INITIAL_STATE\<lparr>ms_iccid := iccid\<rparr>\<rparr>"

abbreviation (input) home_with_new_sim :: modem_env where
  "home_with_new_sim \<equiv> answering [(''AT+QCCID'', [''+QCCID: 8901260''])]"

abbreviation (input) roaming_with_webbing_sim :: modem_env where
  "roaming_with_webbing_sim \<equiv> answering [(''AT+CREG?'', [''+CREG: 2,5'']), (''AT+QCCID'', [''+QCCID: 89852351F''])]"

theorem changed_sim_starts_over_witness:
  "list_ex (\<lambda>n. starts_over (modem_run (take n (replicate 4 home_with_new_sim)) (searching_with ''8944100''))) [2, 3, 4]"
  by (rule changed_sim_starts_over [of _ "''8901260''"]) code_simp+

theorem denied_roaming_keeps_old_sim_witness:
  "starts_with ''8985235'' (card_iccid roaming_with_webbing_sim) \<and>
   ms_iccid (mo_S (modem_run (replicate 100 roaming_with_webbing_sim) (searching_with ''8944100''))) = ''8944100''"
proof
  show "starts_with ''8985235'' (card_iccid roaming_with_webbing_sim)" by code_simp
  have "roaming_denied roaming_with_webbing_sim (searching_with ''8944100'')" by code_simp
  then have "list_all (\<lambda>e. roaming_denied e (searching_with ''8944100'')) (replicate 100 roaming_with_webbing_sim)"
    by (simp add: list_all_iff)
  from denied_roaming_keeps_old_sim [OF _ this]
  show "ms_iccid (mo_S (modem_run (replicate 100 roaming_with_webbing_sim) (searching_with ''8944100''))) = ''8944100''"
    by (simp add: searching_with_def)
qed

end
