(* ===== verification/PowerMonitor.thy ===== *)
theory PowerMonitor
  imports LongControl StatLive
begin

text \<open>
  The parts \<^verbatim>\<open>system/hardware/hardwared.py\<close> is made of: the fan controller
  (\<^verbatim>\<open>fan_controller.py\<close>), the estimate of the charge the car battery can give and the decision to
  shut down (\<^verbatim>\<open>power_monitoring.py\<close>), the flashing of an external accelerator, the threads that read
  the slow hardware state and the touch screen. \<open>mici\<close> says that the device is of that type; the clock,
  the parameters and what the hardware answers are arguments, \<open>None\<close> where a call raises.
\<close>

abbreviation DT_HW :: real where "DT_HW \<equiv> 1 / 2"

section \<open>Fan\<close>

record fan =
  fan_last_ignition :: bool
  fan_pid :: pid

definition fan_offset :: "bool \<Rightarrow> real" where
  "fan_offset mici = (if mici then 0 else 5)"

definition FanController :: "real \<Rightarrow> fan" where
  "FanController rate =
     \<lparr>fan_last_ignition = False,
      fan_pid = PIDController (scalar_gain 0) (scalar_gain (4 / 1000)) (scalar_gain 0) (10 ^ 308) (- (10 ^ 308)) rate\<rparr>"

definition fan_update :: "bool \<Rightarrow> real \<Rightarrow> bool \<Rightarrow> fan \<Rightarrow> int \<times> fan" where
  "fan_update mici cur_temp ignition f =
     (let c = set_limits (if ignition then 100 else 30) (if ignition then 30 else 0) (fan_pid f);
          c = (if ignition \<noteq> fan_last_ignition f then pid_reset c else c);
          c = pid_update (cur_temp - (75 + fan_offset mici)) 0 0
                (np_interp cur_temp [(60 + fan_offset mici, 0), (100 + fan_offset mici, 100)]) False c
      in (py_int (pid_control c), \<lparr>fan_last_ignition = ignition, fan_pid = c\<rparr>))"

section \<open>Power monitoring\<close>

abbreviation CAR_VOLTAGE_LOW_PASS_K :: real where "CAR_VOLTAGE_LOW_PASS_K \<equiv> 11 / 1000"
abbreviation CAR_BATTERY_CAPACITY_uWh :: real where "CAR_BATTERY_CAPACITY_uWh \<equiv> 30000000"
abbreviation CAR_CHARGING_RATE_W :: real where "CAR_CHARGING_RATE_W \<equiv> 45"
abbreviation VBATT_PAUSE_CHARGING :: real where "VBATT_PAUSE_CHARGING \<equiv> 118 / 10"
abbreviation MAX_TIME_OFFROAD_S :: real where "MAX_TIME_OFFROAD_S \<equiv> 30 * 3600"
abbreviation MIN_ON_TIME_S :: real where "MIN_ON_TIME_S \<equiv> 3600"
abbreviation DELAY_SHUTDOWN_TIME_S :: real where "DELAY_SHUTDOWN_TIME_S \<equiv> 300"
abbreviation VOLTAGE_SHUTDOWN_MIN_OFFROAD_TIME_S :: real where "VOLTAGE_SHUTDOWN_MIN_OFFROAD_TIME_S \<equiv> 60"

record power_monitor =
  pm_last_measurement :: "real option"
  pm_last_save :: real
  pm_power_used :: real
  pm_voltage :: real
  pm_voltage_instant :: real
  pm_capacity :: real
  pm_saved :: "int option"  \<comment> \<open>the parameter \<open>CarBatteryCapacity\<close>\<close>

definition PowerMonitoring :: "int option \<Rightarrow> power_monitor" where
  "PowerMonitoring saved =
     \<lparr>pm_last_measurement = None, pm_last_save = 0, pm_power_used = 0, pm_voltage = 12000, pm_voltage_instant = 12000,
      pm_capacity = max (CAR_BATTERY_CAPACITY_uWh / 10) (case saved of None \<Rightarrow> 0 | Some n \<Rightarrow> of_int n), pm_saved = saved\<rparr>"

definition perform_integration :: "real \<Rightarrow> real \<Rightarrow> power_monitor \<Rightarrow> power_monitor" where
  "perform_integration t current_power p =
     (case pm_last_measurement p of
        None \<Rightarrow> p
      | Some before \<Rightarrow>
          if before = 0 then p
          else let power_used = current_power * 1000000 * ((t - before) / 3600)
               in if power_used < 0 then p
                  else p\<lparr>pm_power_used := pm_power_used p + power_used, pm_capacity := pm_capacity p - power_used,
                         pm_last_measurement := Some t\<rparr>)"

definition charge :: "real \<Rightarrow> real \<Rightarrow> power_monitor \<Rightarrow> power_monitor" where
  \<comment> \<open>the ignition is on; \<open>before\<close> is the time of the measurement before\<close>
  "charge now before p =
     (let p = p\<lparr>pm_power_used := 0\<rparr>; integration_time_h = (now - before) / 3600
      in if integration_time_h < 0 then p
         else p\<lparr>pm_capacity := pm_capacity p + CAR_CHARGING_RATE_W * 1000000 * integration_time_h, pm_last_measurement := Some now\<rparr>)"

definition cap_battery :: "power_monitor \<Rightarrow> power_monitor" where
  "cap_battery p = p\<lparr>pm_capacity := min (max (pm_capacity p) 0) CAR_BATTERY_CAPACITY_uWh\<rparr>"

definition pm_calculate :: "real \<Rightarrow> int option \<Rightarrow> bool \<Rightarrow> real option \<Rightarrow> power_monitor \<Rightarrow> power_monitor" where
  \<comment> \<open>the time, the voltage, the ignition and the answer of \<open>get_current_power_draw\<close>\<close>
  "pm_calculate now voltage ignition draw p =
     (case voltage of
        None \<Rightarrow> p\<lparr>pm_last_measurement := None, pm_power_used := 0\<rparr>
      | Some v \<Rightarrow>
          let p = p\<lparr>pm_voltage_instant := of_int v,
                    pm_voltage := of_int v * CAR_VOLTAGE_LOW_PASS_K + pm_voltage p * (1 - CAR_VOLTAGE_LOW_PASS_K)\<rparr>;
              p = cap_battery p;
              p = (if now - pm_last_save p \<ge> 10 then p\<lparr>pm_saved := Some (py_int (pm_capacity p)), pm_last_save := now\<rparr> else p)
          in case pm_last_measurement p of
               None \<Rightarrow> p\<lparr>pm_last_measurement := Some now\<rparr>
             | Some before \<Rightarrow>
                 if ignition then charge now before p
                 else (case draw of None \<Rightarrow> p | Some watts \<Rightarrow> perform_integration now watts p))"

definition get_power_used :: "power_monitor \<Rightarrow> int" where
  "get_power_used p = py_int (pm_power_used p)"

definition get_car_battery_capacity :: "power_monitor \<Rightarrow> int" where
  "get_car_battery_capacity p = py_int (pm_capacity p)"

definition max_time_offroad_exceeded :: "int option \<Rightarrow> real \<Rightarrow> bool" where
  "max_time_offroad_exceeded param offroad_time \<longleftrightarrow>
     (case param of
        Some p \<Rightarrow> if p \<ge> 0 then 0 < p * 60 \<and> of_int (p * 60) \<le> offroad_time else offroad_time > MAX_TIME_OFFROAD_S
      | None \<Rightarrow> offroad_time > MAX_TIME_OFFROAD_S)"

record shutdown_params =
  sd_MaxTimeOffroad :: "int option"
  sd_DisablePowerDown :: bool
  sd_ForcePowerDown :: bool

definition should_shutdown :: "shutdown_params \<Rightarrow> real \<Rightarrow> bool \<Rightarrow> bool \<Rightarrow> real option \<Rightarrow> bool \<Rightarrow> power_monitor \<Rightarrow> bool" where
  "should_shutdown params now ignition in_car offroad_timestamp started_seen p \<longleftrightarrow>
     (case offroad_timestamp of
        None \<Rightarrow> False
      | Some since \<Rightarrow>
          let offroad_time = now - since;
              low_voltage_shutdown = (pm_voltage p < VBATT_PAUSE_CHARGING * 1000 \<and> offroad_time > VOLTAGE_SHUTDOWN_MIN_OFFROAD_TIME_S);
              down = (max_time_offroad_exceeded (sd_MaxTimeOffroad params) offroad_time \<or> low_voltage_shutdown \<or> pm_capacity p \<le> 0);
              down = (down \<and> \<not> ignition \<and> \<not> sd_DisablePowerDown params \<and> in_car \<and> offroad_time > DELAY_SHUTDOWN_TIME_S)
          in (down \<or> sd_ForcePowerDown params) \<and> (started_seen \<or> now > MIN_ON_TIME_S))"

section \<open>Flashing the external accelerator\<close>

record usb_device =
  usb_vendorId :: nat
  usb_productId :: nat
  usb_product :: string

abbreviation (input) CHESTNUT_FW_VERSION :: string where "CHESTNUT_FW_VERSION \<equiv> ''ed4e39b7''"
abbreviation (input) MAX_ATTEMPTS :: nat where "MAX_ATTEMPTS \<equiv> 3"
abbreviation RETRY_INTERVAL :: real where "RETRY_INTERVAL \<equiv> 20"

definition CHESTNUT_USB_IDS :: "(nat \<times> nat) list" where
  "CHESTNUT_USB_IDS = [(0xADD1, 0x0001), (0x3801, 0x0001)]"

definition CHESTNUT_ROM_USB_IDS :: "(nat \<times> nat) list" where
  "CHESTNUT_ROM_USB_IDS = [(0x174C, 0x2464), (0x174C, 0x2463)]"

definition chestnut_present :: "usb_device list \<Rightarrow> bool" where
  "chestnut_present ds = list_ex (\<lambda>d. (usb_vendorId d, usb_productId d) \<in> set CHESTNUT_USB_IDS) ds"

record chestnut =
  ch_started :: bool  \<comment> \<open>a thread was created\<close>
  ch_attempts :: nat
  ch_last_attempt :: real
  ch_flashed :: bool

definition Chestnut :: chestnut where
  "Chestnut = \<lparr>ch_started = False, ch_attempts = 0, ch_last_attempt = 0, ch_flashed = False\<rparr>"

definition chestnut_flash :: "bool \<Rightarrow> chestnut \<Rightarrow> chestnut" where
  \<comment> \<open>the end of the thread: whether the command returned 0\<close>
  "chestnut_flash ok c = c\<lparr>ch_flashed := ok\<rparr>"

definition chestnut_update :: "real \<Rightarrow> bool \<Rightarrow> bool \<Rightarrow> usb_device list \<Rightarrow> chestnut \<Rightarrow> bool \<times> chestnut" where
  \<comment> \<open>the time, whether the thread is alive; the result says whether a flash is started\<close>
  "chestnut_update now alive offroad usb_state c =
     (if \<not> list_ex (\<lambda>d. (usb_vendorId d, usb_productId d) \<in> set (CHESTNUT_USB_IDS @ CHESTNUT_ROM_USB_IDS) \<and>
                        usb_product d \<noteq> ''custom '' @ CHESTNUT_FW_VERSION @ ''-CLEAN'') usb_state
      then (False, c\<lparr>ch_flashed := False\<rparr>)
      else if \<not> offroad \<or> ch_flashed c \<or> ch_attempts c \<ge> MAX_ATTEMPTS then (False, c)
      else if ch_started c \<and> alive then (False, c)
      else if now - ch_last_attempt c < RETRY_INTERVAL then (False, c)
      else (True, c\<lparr>ch_attempts := ch_attempts c + 1, ch_last_attempt := now, ch_started := True\<rparr>))"

section \<open>The thread of the slow hardware state\<close>

record hardware_state =
  hs_network_type :: nat
  hs_network_info :: "string option"
  hs_network_strength :: nat
  hs_network_stats :: "int \<times> int"
  hs_network_metered :: bool
  hs_modem_temps :: "int list"
  hs_usb_state :: "usb_device list"

record hw_thread =
  ht_count :: nat
  ht_prev :: "hardware_state option"
  ht_topology :: "string set"
  ht_queue :: "hardware_state option"  \<comment> \<open>the queue of one place\<close>

definition hw_thread_init :: hw_thread where
  "hw_thread_init = \<lparr>ht_count = 0, ht_prev = None, ht_topology = {}, ht_queue = None\<rparr>"

definition hw_state_step :: "string set \<Rightarrow> hardware_state option \<Rightarrow> hw_thread \<Rightarrow> hw_thread" where
  \<comment> \<open>the USB topology and what the hardware answers\<close>
  "hw_state_step topology answer t =
     (if ht_count t mod 20 = 0 \<or> topology \<noteq> ht_topology t then
        let t = t\<lparr>ht_topology := topology\<rparr>
        in case answer of
             None \<Rightarrow> t\<lparr>ht_count := ht_count t + 1\<rparr>
           | Some s \<Rightarrow>
               let s = (case ht_prev t of
                          Some prev \<Rightarrow> if hs_modem_temps s = [] then s\<lparr>hs_modem_temps := hs_modem_temps prev\<rparr> else s
                        | None \<Rightarrow> s)
               in t\<lparr>ht_queue := (case ht_queue t of None \<Rightarrow> Some s | Some q \<Rightarrow> Some q), ht_prev := Some s, ht_count := ht_count t + 1\<rparr>
      else t\<lparr>ht_count := ht_count t + 1\<rparr>)"

section \<open>The touch thread\<close>

record touch =
  to_sec :: int
  to_usec :: int
  to_type :: nat
  to_code :: nat
  to_value :: int

definition touch_step :: "touch option \<Rightarrow> nat \<times> touch list \<Rightarrow> touch list option \<times> (nat \<times> touch list)" where
  \<comment> \<open>one round: the event read, if there is one; the frame that is published\<close>
  "touch_step event st =
     (let (count, frame) = st
      in if count mod 2 = 0 then
           (case event of
              None \<Rightarrow> (None, (count + 1, frame))
            | Some e \<Rightarrow>
                if to_type e \<noteq> 0 \<or> to_code e \<noteq> 0 \<or> to_value e \<noteq> 0 then (None, (count, frame @ [e]))
                else (Some frame, (count, [])))
         else (None, (count + 1, frame)))"

end
