(* ===== verification/Hardware.thy ===== *)
theory Hardware
  imports PowerMonitor
begin

text \<open>
  The loop of \<^verbatim>\<open>system/hardware/hardwared.py\<close>: thermal status, the conditions to go and stay onroad,
  the transitions, the fan and the shutdown of the device. One pass is one turn of the loop of
  \<open>hardware_thread\<close>; what it reads is a record, and the clock is read once per pass. The messages for
  statistics and the log are left out; of the texts of offroad alerts only the temperature is kept.
\<close>

section \<open>Thermal status\<close>

datatype thermal_status = TS_ok | TS_overheated | TS_critical

definition thermal_value :: "thermal_status \<Rightarrow> nat" where
  "thermal_value t = (case t of TS_ok \<Rightarrow> 0 | TS_overheated \<Rightarrow> 2 | TS_critical \<Rightarrow> 3)"

record thermal_band =
  min_temp :: "real option"
  max_temp :: "real option"

definition THERMAL_BANDS :: "bool \<Rightarrow> (thermal_status \<times> thermal_band) list" where
  "THERMAL_BANDS mici =
     (if mici then
        [(TS_ok, \<lparr>min_temp = None, max_temp = Some 100\<rparr>), (TS_overheated, \<lparr>min_temp = Some 92, max_temp = Some 107\<rparr>),
         (TS_critical, \<lparr>min_temp = Some 98, max_temp = None\<rparr>)]
      else
        [(TS_ok, \<lparr>min_temp = None, max_temp = Some 96\<rparr>), (TS_overheated, \<lparr>min_temp = Some 88, max_temp = Some 107\<rparr>),
         (TS_critical, \<lparr>min_temp = Some 94, max_temp = None\<rparr>)])"

definition OFFROAD_DANGER_TEMP :: "bool \<Rightarrow> real" where
  "OFFROAD_DANGER_TEMP mici = (if mici then 85 else 75)"

fun band_index :: "thermal_status \<Rightarrow> (thermal_status \<times> thermal_band) list \<Rightarrow> nat" where
  "band_index t [] = 0"
| "band_index t ((k, b) # bs) = (if k = t then 0 else Suc (band_index t bs))"

definition next_band :: "bool \<Rightarrow> real \<Rightarrow> thermal_status \<Rightarrow> thermal_status" where
  "next_band mici temp t =
     (let bands = THERMAL_BANDS mici; idx = band_index t bands; band = snd (bands ! idx)
      in if (case min_temp band of None \<Rightarrow> False | Some lo \<Rightarrow> temp < lo) then fst (bands ! (idx - 1))
         else if (case max_temp band of None \<Rightarrow> False | Some hi \<Rightarrow> temp > hi) then fst (bands ! (idx + 1))
         else t)"

section \<open>Inputs\<close>

record panda =
  pa_unknown :: bool
  pa_ignitionLine :: bool
  pa_ignitionCan :: bool
  pa_harness_connected :: bool

record hardware_params =
  hp_OnroadCycleRequested :: bool
  hp_ConnectivityNeeded :: bool
  hp_DisableUpdates :: bool
  hp_SnoozeUpdate :: bool
  hp_ExcessiveActuation :: bool
  hp_DoUninstall :: bool
  hp_terms_accepted :: bool
  hp_terms_sp_accepted :: bool
  hp_training_completed :: bool
  hp_IsDriverViewEnabled :: bool
  hp_OffroadMode :: bool
  hp_shutdown :: shutdown_params

record hardware_env =
  he_now :: real
  he_params :: hardware_params
  he_pandas :: "panda list option"  \<comment> \<open>the pandaStates message of this pass, if one came\<close>
  he_voltage :: "int option"  \<comment> \<open>\<open>None\<close>: the peripheral panda is unknown\<close>
  he_selfdrive_enabled :: "bool option"  \<comment> \<open>the selfdriveState message of this pass\<close>
  he_hw_state :: "hardware_state option"
  he_flash_alive :: bool
  he_flash_result :: "bool option"  \<comment> \<open>the flash that has ended since the last pass\<close>
  he_memory_temp :: real
  he_cpu_temps :: "real list"
  he_gpu_temps :: "real list"
  he_pmic_temps :: "real list"
  he_free_space :: real
  he_brightness :: real
  he_booted :: bool
  he_power_draw :: "real option"
  he_channel_tici :: bool

record hardware_config =
  hc_mici :: bool
  hc_tici :: bool
  hc_comma_hardware :: bool
  hc_big_model :: bool

definition unsupported_combo :: "hardware_config \<Rightarrow> hardware_env \<Rightarrow> bool" where
  "unsupported_combo k e \<longleftrightarrow> hc_comma_hardware k \<and> hc_tici k \<and> \<not> he_channel_tici e"

section \<open>State\<close>

record startup_conditions =
  st_up_to_date :: bool
  st_no_excessive_actuation :: bool
  st_not_uninstalling :: bool
  st_accepted_terms :: bool
  st_accepted_terms_sp :: bool
  st_free_space :: bool
  st_completed_training :: bool
  st_not_driver_view :: bool
  st_device_temp_engageable :: bool
  st_device_booted :: bool
  st_not_always_offroad :: bool
  st_not_tici :: bool

record onroad_conditions =
  on_ignition :: bool
  on_not_onroad_cycle :: bool
  on_device_temp_good :: bool
  on_not_always_offroad :: bool  \<comment> \<open>this and the next are absent until the first pass has set them\<close>
  on_not_tici :: bool

definition all_onroad :: "onroad_conditions \<Rightarrow> bool" where
  "all_onroad c \<longleftrightarrow> on_ignition c \<and> on_not_onroad_cycle c \<and> on_device_temp_good c \<and> on_not_always_offroad c \<and> on_not_tici c"

definition all_startup :: "startup_conditions \<Rightarrow> bool" where
  "all_startup c \<longleftrightarrow>
     st_up_to_date c \<and> st_no_excessive_actuation c \<and> st_not_uninstalling c \<and> st_accepted_terms c \<and> st_accepted_terms_sp c \<and>
     st_free_space c \<and> st_completed_training c \<and> st_not_driver_view c \<and> st_device_temp_engageable c \<and> st_device_booted c \<and>
     st_not_always_offroad c \<and> st_not_tici c"

record hardware =
  hw_frame :: int
  hw_recv_time :: real
  hw_count :: nat
  hw_onroad :: onroad_conditions
  hw_booted :: bool
  hw_startup_prev :: "startup_conditions option"
  hw_off_ts :: "real option"
  hw_started_ts :: "real option"
  hw_started_seen :: bool
  hw_blocked_ts :: "real option"
  hw_thermal :: thermal_status
  hw_last_state :: "hardware_state"
  hw_all_temp :: first_order_filter
  hw_offroad_temp :: first_order_filter
  hw_should_start_prev :: bool
  hw_in_car :: bool
  hw_engaged_prev :: bool
  hw_pwrsave :: bool
  hw_cycle_count :: int
  hw_power :: power_monitor
  hw_uptime_offroad :: real
  hw_uptime_onroad :: real
  hw_last_uptime_ts :: real
  hw_fan :: fan
  hw_chestnut :: chestnut
  hw_alerts :: "string \<Rightarrow> (bool \<times> real option) option"

definition hardware_init :: "real \<Rightarrow> int option \<Rightarrow> real \<Rightarrow> real \<Rightarrow> hardware" where
  \<comment> \<open>the time, the saved charge of the battery and the saved uptimes\<close>
  "hardware_init now saved offroad onroad =
     \<lparr>hw_frame = -1, hw_recv_time = 0, hw_count = 0,
      hw_onroad = \<lparr>on_ignition = False, on_not_onroad_cycle = True, on_device_temp_good = True, on_not_always_offroad = True, on_not_tici = True\<rparr>,
      hw_booted = False, hw_startup_prev = None, hw_off_ts = None, hw_started_ts = None, hw_started_seen = False,
      hw_blocked_ts = None, hw_thermal = TS_ok,
      hw_last_state = \<lparr>hs_network_type = 0, hs_network_info = None, hs_network_strength = 0, hs_network_stats = (-1, -1),
                       hs_network_metered = False, hs_modem_temps = [], hs_usb_state = []\<rparr>,
      hw_all_temp = FirstOrderFilter 0 5 DT_HW False, hw_offroad_temp = FirstOrderFilter 0 5 DT_HW False,
      hw_should_start_prev = False, hw_in_car = False, hw_engaged_prev = False, hw_pwrsave = False, hw_cycle_count = 0,
      hw_power = PowerMonitoring saved, hw_uptime_offroad = offroad, hw_uptime_onroad = onroad, hw_last_uptime_ts = now,
      hw_fan = FanController 2, hw_chestnut = Chestnut, hw_alerts = (\<lambda>_. None)\<rparr>"

section \<open>One pass\<close>

definition update_conditions :: "hardware_env \<Rightarrow> hardware \<Rightarrow> hardware" where
  \<comment> \<open>the messages of the pass: the request of an onroad cycle and the ignition\<close>
  "update_conditions e h =
     (let h = h\<lparr>hw_frame := hw_frame h + 1\<rparr>;
          h = (if he_pandas e \<noteq> None then h\<lparr>hw_recv_time := he_now e\<rparr> else h);
          h = (if hp_OnroadCycleRequested (he_params e) then h\<lparr>hw_cycle_count := hw_frame h\<rparr> else h);
          h = h\<lparr>hw_onroad := hw_onroad h\<lparr>on_not_onroad_cycle := hw_frame h - hw_cycle_count h \<ge> 10\<rparr>\<rparr>
      in case he_pandas e of
           Some (p # ps) \<Rightarrow>
             h\<lparr>hw_onroad := hw_onroad h\<lparr>on_ignition :=
                  list_ex (\<lambda>p. \<not> pa_unknown p \<and> (pa_ignitionLine p \<or> pa_ignitionCan p)) (p # ps)\<rparr>,
               hw_in_car := pa_harness_connected p\<rparr>
         | _ \<Rightarrow>
             if he_now e - hw_recv_time h > 5 then h\<lparr>hw_onroad := hw_onroad h\<lparr>on_ignition := False\<rparr>\<rparr> else h)"

definition ign_edge :: "hardware \<Rightarrow> bool" where
  "ign_edge h \<longleftrightarrow> (hw_started_ts h \<noteq> None) \<noteq> all_onroad (hw_onroad h)"

definition max_default :: "real list \<Rightarrow> real" where
  \<comment> \<open>\<open>max(xs, default=0.)\<close>\<close>
  "max_default xs = (case xs of [] \<Rightarrow> 0 | x # xs \<Rightarrow> foldl max x xs)"

definition offroad_temp_source :: "hardware_env \<Rightarrow> real" where
  "offroad_temp_source e = max (max (he_memory_temp e) (max_default (he_cpu_temps e))) (max_default (he_gpu_temps e))"

definition all_temp_source :: "hardware_env \<Rightarrow> real" where
  "all_temp_source e = max (offroad_temp_source e) (max_default (he_pmic_temps e))"

definition update_temps :: "hardware_env \<Rightarrow> hardware \<Rightarrow> hardware" where
  "update_temps e h =
     h\<lparr>hw_offroad_temp := fo_update (offroad_temp_source e) (hw_offroad_temp h),
       hw_all_temp := fo_update (all_temp_source e) (hw_all_temp h)\<rparr>"

definition offroad_for_5_min :: "hardware_env \<Rightarrow> hardware \<Rightarrow> bool" where
  "offroad_for_5_min e h \<longleftrightarrow>
     hw_started_ts h = None \<and>
     (\<not> hw_started_seen h \<or> (case hw_off_ts h of None \<Rightarrow> True | Some t \<Rightarrow> he_now e - t > 60 * 5))"

definition update_thermal :: "hardware_config \<Rightarrow> hardware_env \<Rightarrow> hardware \<Rightarrow> hardware" where
  "update_thermal k e h =
     h\<lparr>hw_thermal := (if offroad_for_5_min e h \<and> fo_x (hw_offroad_temp h) > OFFROAD_DANGER_TEMP (hc_mici k) then TS_critical
                      else next_band (hc_mici k) (fo_x (hw_all_temp h)) (hw_thermal h))\<rparr>"

definition startup_of :: "hardware_config \<Rightarrow> hardware_env \<Rightarrow> hardware \<Rightarrow> startup_conditions" where
  "startup_of k e h =
     (let p = he_params e
      in \<lparr>st_up_to_date = (\<not> hp_ConnectivityNeeded p \<or> hp_DisableUpdates p \<or> hp_SnoozeUpdate p),
          st_no_excessive_actuation = (\<not> hp_ExcessiveActuation p), st_not_uninstalling = (\<not> hp_DoUninstall p),
          st_accepted_terms = hp_terms_accepted p, st_accepted_terms_sp = hp_terms_sp_accepted p,
          st_free_space = (he_free_space e > 2), st_completed_training = hp_training_completed p,
          st_not_driver_view = (\<not> hp_IsDriverViewEnabled p),
          st_device_temp_engageable = (thermal_value (hw_thermal h) < thermal_value TS_overheated),
          st_device_booted = (hw_booted h \<or> he_booted e), st_not_always_offroad = (\<not> hp_OffroadMode p),
          st_not_tici = (\<not> unsupported_combo k e)\<rparr>)"

definition update_onroad :: "hardware_config \<Rightarrow> hardware_env \<Rightarrow> hardware \<Rightarrow> hardware" where
  "update_onroad k e h =
     h\<lparr>hw_onroad := (hw_onroad h)\<lparr>on_not_always_offroad := \<not> hp_OffroadMode (he_params e), on_not_tici := \<not> unsupported_combo k e,
                                  on_device_temp_good := thermal_value (hw_thermal h) < thermal_value TS_critical\<rparr>,
       hw_booted := hw_booted h \<or> he_booted e\<rparr>"

definition show_temp_alert :: "startup_conditions \<Rightarrow> hardware \<Rightarrow> bool" where
  "show_temp_alert s h \<longleftrightarrow> (\<not> on_device_temp_good (hw_onroad h) \<or> \<not> st_device_temp_engageable s) \<and> on_ignition (hw_onroad h)"

definition should_start_of :: "startup_conditions \<Rightarrow> hardware \<Rightarrow> bool" where
  "should_start_of s h \<longleftrightarrow> all_onroad (hw_onroad h) \<and> (hw_started_ts h = None \<longrightarrow> all_startup s)"

definition transition :: "hardware_env \<Rightarrow> startup_conditions \<Rightarrow> bool \<Rightarrow> hardware \<Rightarrow> hardware" where
  "transition e s should_start h =
     (if should_start then
        (case hw_started_ts h of
           None \<Rightarrow> h\<lparr>hw_off_ts := None, hw_started_ts := Some (he_now e), hw_started_seen := True, hw_blocked_ts := None\<rparr>
         | Some _ \<Rightarrow> h\<lparr>hw_off_ts := None, hw_blocked_ts := None\<rparr>)
      else
        let h = (if on_ignition (hw_onroad h) \<and> hw_startup_prev h \<noteq> Some s
                 then h\<lparr>hw_startup_prev := Some s, hw_blocked_ts := Some (he_now e)\<rparr> else h)
        in h\<lparr>hw_started_ts := None, hw_off_ts := (case hw_off_ts h of None \<Rightarrow> Some (he_now e) | Some t \<Rightarrow> Some t)\<rparr>)"

definition set_offroad_alert_if_changed :: "string \<Rightarrow> bool \<Rightarrow> real option \<Rightarrow> hardware \<Rightarrow> (string \<times> bool \<times> real option) list \<times> hardware" where
  \<comment> \<open>the alert that is written, if any\<close>
  "set_offroad_alert_if_changed alert show extra h =
     (if hw_alerts h alert = Some (show, extra) then ([], h)
      else ([(alert, show, extra)], h\<lparr>hw_alerts := (hw_alerts h)(alert \<mapsto> (show, extra))\<rparr>))"

record hardware_out =
  ho_fan :: int
  ho_started :: bool
  ho_startedMonoTime :: int
  ho_thermal :: thermal_status
  ho_max_temp :: real
  ho_offroad_power_used :: int
  ho_car_battery_capacity :: int
  ho_IsEngaged :: "bool list"  \<comment> \<open>the writes of the parameter\<close>
  ho_kmsg :: "bool option"
  ho_power_save :: "bool option"
  ho_sufficient_voltage :: bool
  ho_DoShutdown :: bool
  ho_alerts :: "(string \<times> bool \<times> real option) list"
  ho_flash :: bool
  ho_status_packet :: bool
  ho_save_status :: bool
  ho_network_metered :: bool
  ho_saved_uptimes :: "(real \<times> real) option"

definition update_engaged :: "hardware_env \<Rightarrow> bool \<Rightarrow> hardware \<Rightarrow> bool list \<times> hardware" where
  \<comment> \<open>the parameter \<open>IsEngaged\<close>: cleared when the device starts or stops, then what selfdrived says\<close>
  "update_engaged e should_start h =
     (let (w, h) = (if should_start \<noteq> hw_should_start_prev h \<or> hw_count h = 0 then ([False], h\<lparr>hw_engaged_prev := False\<rparr>) else ([], h))
      in case he_selfdrive_enabled e of
           None \<Rightarrow> (w, h)
         | Some engaged \<Rightarrow> if engaged \<noteq> hw_engaged_prev h then (w @ [engaged], h\<lparr>hw_engaged_prev := engaged\<rparr>) else (w, h))"

definition update_pwrsave :: "hardware_env \<Rightarrow> hardware \<Rightarrow> bool option \<times> hardware" where
  "update_pwrsave e h =
     (let should = (\<not> on_ignition (hw_onroad h) \<and> he_brightness e < 1 / 1000)
      in (if should \<noteq> hw_pwrsave h \<or> hw_count h = 0 then Some should else None, h\<lparr>hw_pwrsave := should\<rparr>))"

definition ts_true :: "real option \<Rightarrow> bool" where
  \<comment> \<open>the truth of a time that may be \<open>None\<close>\<close>
  "ts_true t \<longleftrightarrow> t \<noteq> None \<and> t \<noteq> Some 0"

definition update_uptime :: "hardware_env \<Rightarrow> hardware \<Rightarrow> hardware" where
  "update_uptime e h =
     (let now = he_now e;
          h = (if ts_true (hw_off_ts h) then
                 h\<lparr>hw_uptime_offroad := hw_uptime_offroad h + (now - max (hw_last_uptime_ts h) (the (hw_off_ts h)))\<rparr>
               else if ts_true (hw_started_ts h) then
                 h\<lparr>hw_uptime_onroad := hw_uptime_onroad h + (now - max (hw_last_uptime_ts h) (the (hw_started_ts h)))\<rparr>
               else h)
      in h\<lparr>hw_last_uptime_ts := now\<rparr>)"

definition run_chestnut :: "hardware_env \<Rightarrow> hardware \<Rightarrow> bool \<times> hardware" where
  "run_chestnut e h =
     (let c = (case he_flash_result e of None \<Rightarrow> hw_chestnut h | Some ok \<Rightarrow> chestnut_flash ok (hw_chestnut h));
          (flash, c) = chestnut_update (he_now e) (he_flash_alive e) (hw_started_ts h = None) (hs_usb_state (hw_last_state h)) c
      in (flash, h\<lparr>hw_chestnut := c\<rparr>))"

definition take_hw_state :: "hardware_env \<Rightarrow> hardware \<Rightarrow> hardware" where
  "take_hw_state e h = (case he_hw_state e of None \<Rightarrow> h | Some s \<Rightarrow> h\<lparr>hw_last_state := s\<rparr>)"

definition thermal_pass :: "hardware_config \<Rightarrow> hardware_env \<Rightarrow> hardware \<Rightarrow> int \<times> hardware" where
  \<comment> \<open>temperatures, fan and thermal status\<close>
  "thermal_pass k e h =
     (let h = update_temps e h;
          (speed, f) = fan_update (hc_mici k) (fo_x (hw_all_temp h)) (on_ignition (hw_onroad h)) (hw_fan h)
      in (speed, update_thermal k e (h\<lparr>hw_fan := f\<rparr>)))"

definition start_pass :: "hardware_config \<Rightarrow> hardware_env \<Rightarrow> hardware \<Rightarrow> hardware" where
  \<comment> \<open>the conditions and the transition they lead to\<close>
  "start_pass k e h =
     (let s = startup_of k e h; h = update_onroad k e h in transition e s (should_start_of s h) h)"

definition power_pass :: "hardware_env \<Rightarrow> hardware \<Rightarrow> bool \<times> hardware" where
  \<comment> \<open>whether the device is to be shut down\<close>
  "power_pass e h =
     (let h = h\<lparr>hw_power := pm_calculate (he_now e) (he_voltage e) (on_ignition (hw_onroad h)) (he_power_draw e) (hw_power h)\<rparr>
      in (should_shutdown (hp_shutdown (he_params e)) (he_now e) (on_ignition (hw_onroad h)) (hw_in_car h) (hw_off_ts h)
            (hw_started_seen h) (hw_power h), h))"

definition hardware_body :: "hardware_config \<Rightarrow> hardware_env \<Rightarrow> hardware \<Rightarrow> hardware_out \<times> hardware" where
  "hardware_body k e h =
     (let h = take_hw_state e h;
          (flash, h) = run_chestnut e h;
          (alerts1, h) = set_offroad_alert_if_changed ''Offroad_ChestnutBranch''
                           (chestnut_present (hs_usb_state (hw_last_state h)) \<and> \<not> hc_big_model k) None h;
          (speed, h) = thermal_pass k e h;
          s = startup_of k e h;
          hc = update_onroad k e h;
          show = show_temp_alert s hc;
          should_start = should_start_of s hc;
          (alerts2, h) = set_offroad_alert_if_changed ''Offroad_TemperatureTooHigh'' show (Some (py_round1 (fo_x (hw_offroad_temp h)))) h;
          (engaged, h) = update_engaged e should_start h;
          (save, h) = update_pwrsave e h;
          h = start_pass k e h;
          (down, h) = power_pass e h;
          rising = (should_start \<and> \<not> hw_should_start_prev h);
          h = update_uptime e h;
          out = \<lparr>ho_fan = (if show then 100 else speed),
                 ho_started = (hw_started_ts h \<noteq> None \<and> \<not> hp_OffroadMode (he_params e)),
                 ho_startedMonoTime = py_int (1000000000 * (case hw_started_ts h of None \<Rightarrow> 0 | Some t \<Rightarrow> t)),
                 ho_thermal = hw_thermal h, ho_max_temp = fo_x (hw_all_temp h),
                 ho_offroad_power_used = get_power_used (hw_power h),
                 ho_car_battery_capacity = max 0 (get_car_battery_capacity (hw_power h)),
                 ho_IsEngaged = engaged, ho_kmsg = he_selfdrive_enabled e, ho_power_save = save,
                 ho_sufficient_voltage = (case he_voltage e of None \<Rightarrow> False | Some v \<Rightarrow> v > 9000),
                 ho_DoShutdown = down,
                 ho_alerts = alerts1 @ (''Offroad_TiciSupport'', unsupported_combo k e, None) # alerts2,
                 ho_flash = flash,
                 ho_status_packet = (rising \<or> hw_count h mod (if show then 2 else 1200) = 0),
                 ho_save_status = rising,
                 ho_network_metered = hs_network_metered (hw_last_state h),
                 ho_saved_uptimes = (if hw_count h mod 120 = 0 then Some (hw_uptime_offroad h, hw_uptime_onroad h) else None)\<rparr>
      in (out, h\<lparr>hw_count := hw_count h + 1, hw_should_start_prev := should_start\<rparr>))"

definition hardware_pass :: "hardware_config \<Rightarrow> hardware_env \<Rightarrow> hardware \<Rightarrow> hardware_out option \<times> hardware" where
  \<comment> \<open>no message: the pass only looks at the conditions\<close>
  "hardware_pass k e h =
     (let h = update_conditions e h
      in if hw_frame h mod 5 \<noteq> 0 \<and> \<not> ign_edge h then (None, h)
         else (let (out, h) = hardware_body k e h in (Some out, h)))"

definition hardware_run :: "hardware_config \<Rightarrow> hardware_env list \<Rightarrow> hardware \<Rightarrow> hardware" where
  "hardware_run k es h = foldl (\<lambda>h e. snd (hardware_pass k e h)) h es"

end
