(* ===== verification/HardwareFacts.thy ===== *)
theory HardwareFacts
  imports Hardware
begin

text \<open>
  What \<^verbatim>\<open>hardwared.py\<close> and its parts promise: when the device may be onroad, that it cools down before
  it drives again, that the fan stays in its range, and when the device is shut down.
\<close>

section \<open>What the parts leave alone\<close>

lemma take_hw_state_keeps [simp]:
  "hw_frame (take_hw_state e h) = hw_frame h" "hw_onroad (take_hw_state e h) = hw_onroad h" "hw_thermal (take_hw_state e h) = hw_thermal h"
  "hw_started_ts (take_hw_state e h) = hw_started_ts h" "hw_off_ts (take_hw_state e h) = hw_off_ts h"
  "hw_started_seen (take_hw_state e h) = hw_started_seen h" "hw_all_temp (take_hw_state e h) = hw_all_temp h"
  "hw_offroad_temp (take_hw_state e h) = hw_offroad_temp h" "hw_power (take_hw_state e h) = hw_power h" "hw_booted (take_hw_state e h) = hw_booted h"
  "hw_in_car (take_hw_state e h) = hw_in_car h" "hw_fan (take_hw_state e h) = hw_fan h" "hw_recv_time (take_hw_state e h) = hw_recv_time h"
  by (simp_all add: take_hw_state_def split: option.split)

lemma run_chestnut_keeps [simp]:
  "hw_frame (snd (run_chestnut e h)) = hw_frame h" "hw_onroad (snd (run_chestnut e h)) = hw_onroad h" "hw_thermal (snd (run_chestnut e h)) = hw_thermal h"
  "hw_started_ts (snd (run_chestnut e h)) = hw_started_ts h" "hw_off_ts (snd (run_chestnut e h)) = hw_off_ts h"
  "hw_started_seen (snd (run_chestnut e h)) = hw_started_seen h" "hw_all_temp (snd (run_chestnut e h)) = hw_all_temp h"
  "hw_offroad_temp (snd (run_chestnut e h)) = hw_offroad_temp h" "hw_power (snd (run_chestnut e h)) = hw_power h" "hw_booted (snd (run_chestnut e h)) = hw_booted h"
  "hw_in_car (snd (run_chestnut e h)) = hw_in_car h" "hw_fan (snd (run_chestnut e h)) = hw_fan h" "hw_recv_time (snd (run_chestnut e h)) = hw_recv_time h"
  by (simp_all add: run_chestnut_def Let_def case_prod_beta)

lemma set_offroad_alert_keeps [simp]:
  "hw_frame (snd (set_offroad_alert_if_changed a b x h)) = hw_frame h" "hw_onroad (snd (set_offroad_alert_if_changed a b x h)) = hw_onroad h"
  "hw_thermal (snd (set_offroad_alert_if_changed a b x h)) = hw_thermal h" "hw_started_ts (snd (set_offroad_alert_if_changed a b x h)) = hw_started_ts h"
  "hw_off_ts (snd (set_offroad_alert_if_changed a b x h)) = hw_off_ts h" "hw_started_seen (snd (set_offroad_alert_if_changed a b x h)) = hw_started_seen h"
  "hw_all_temp (snd (set_offroad_alert_if_changed a b x h)) = hw_all_temp h" "hw_offroad_temp (snd (set_offroad_alert_if_changed a b x h)) = hw_offroad_temp h"
  "hw_power (snd (set_offroad_alert_if_changed a b x h)) = hw_power h" "hw_booted (snd (set_offroad_alert_if_changed a b x h)) = hw_booted h"
  "hw_in_car (snd (set_offroad_alert_if_changed a b x h)) = hw_in_car h" "hw_fan (snd (set_offroad_alert_if_changed a b x h)) = hw_fan h"
  "hw_recv_time (snd (set_offroad_alert_if_changed a b x h)) = hw_recv_time h"
  by (simp_all add: set_offroad_alert_if_changed_def)

lemma update_engaged_keeps [simp]:
  "hw_frame (snd (update_engaged e b h)) = hw_frame h" "hw_onroad (snd (update_engaged e b h)) = hw_onroad h" "hw_thermal (snd (update_engaged e b h)) = hw_thermal h"
  "hw_started_ts (snd (update_engaged e b h)) = hw_started_ts h" "hw_off_ts (snd (update_engaged e b h)) = hw_off_ts h"
  "hw_started_seen (snd (update_engaged e b h)) = hw_started_seen h" "hw_all_temp (snd (update_engaged e b h)) = hw_all_temp h"
  "hw_offroad_temp (snd (update_engaged e b h)) = hw_offroad_temp h" "hw_power (snd (update_engaged e b h)) = hw_power h" "hw_booted (snd (update_engaged e b h)) = hw_booted h"
  "hw_in_car (snd (update_engaged e b h)) = hw_in_car h" "hw_fan (snd (update_engaged e b h)) = hw_fan h" "hw_recv_time (snd (update_engaged e b h)) = hw_recv_time h"
  by (simp_all add: update_engaged_def Let_def split: option.split)

lemma update_pwrsave_keeps [simp]:
  "hw_frame (snd (update_pwrsave e h)) = hw_frame h" "hw_onroad (snd (update_pwrsave e h)) = hw_onroad h" "hw_thermal (snd (update_pwrsave e h)) = hw_thermal h"
  "hw_started_ts (snd (update_pwrsave e h)) = hw_started_ts h" "hw_off_ts (snd (update_pwrsave e h)) = hw_off_ts h"
  "hw_started_seen (snd (update_pwrsave e h)) = hw_started_seen h" "hw_all_temp (snd (update_pwrsave e h)) = hw_all_temp h"
  "hw_offroad_temp (snd (update_pwrsave e h)) = hw_offroad_temp h" "hw_power (snd (update_pwrsave e h)) = hw_power h" "hw_booted (snd (update_pwrsave e h)) = hw_booted h"
  "hw_in_car (snd (update_pwrsave e h)) = hw_in_car h" "hw_fan (snd (update_pwrsave e h)) = hw_fan h" "hw_recv_time (snd (update_pwrsave e h)) = hw_recv_time h"
  by (simp_all add: update_pwrsave_def Let_def)

lemma update_uptime_keeps [simp]:
  "hw_frame (update_uptime e h) = hw_frame h" "hw_onroad (update_uptime e h) = hw_onroad h" "hw_thermal (update_uptime e h) = hw_thermal h"
  "hw_started_ts (update_uptime e h) = hw_started_ts h" "hw_off_ts (update_uptime e h) = hw_off_ts h"
  "hw_started_seen (update_uptime e h) = hw_started_seen h" "hw_all_temp (update_uptime e h) = hw_all_temp h"
  "hw_offroad_temp (update_uptime e h) = hw_offroad_temp h" "hw_power (update_uptime e h) = hw_power h" "hw_booted (update_uptime e h) = hw_booted h"
  "hw_in_car (update_uptime e h) = hw_in_car h" "hw_fan (update_uptime e h) = hw_fan h" "hw_recv_time (update_uptime e h) = hw_recv_time h"
  by (simp_all add: update_uptime_def Let_def)

section \<open>What a pass changes\<close>

definition new_thermal :: "hardware_config \<Rightarrow> hardware_env \<Rightarrow> hardware \<Rightarrow> thermal_status" where
  "new_thermal k e h = hw_thermal (update_thermal k e (update_temps e h))"

lemma thermal_pass_fields [simp]:
  "hw_frame (snd (thermal_pass k e h)) = hw_frame h" "hw_onroad (snd (thermal_pass k e h)) = hw_onroad h"
  "hw_thermal (snd (thermal_pass k e h)) = new_thermal k e h" "hw_started_ts (snd (thermal_pass k e h)) = hw_started_ts h"
  "hw_off_ts (snd (thermal_pass k e h)) = hw_off_ts h" "hw_started_seen (snd (thermal_pass k e h)) = hw_started_seen h"
  "hw_all_temp (snd (thermal_pass k e h)) = fo_update (all_temp_source e) (hw_all_temp h)" "hw_power (snd (thermal_pass k e h)) = hw_power h"
  "hw_booted (snd (thermal_pass k e h)) = hw_booted h" "hw_in_car (snd (thermal_pass k e h)) = hw_in_car h"
  "hw_recv_time (snd (thermal_pass k e h)) = hw_recv_time h"
  by (simp_all add: thermal_pass_def update_thermal_def update_temps_def new_thermal_def offroad_for_5_min_def Let_def case_prod_beta)

definition starts_from :: "hardware_config \<Rightarrow> hardware_env \<Rightarrow> hardware \<Rightarrow> bool" where
  \<comment> \<open>the device may start, or stay started, with the thermal status of \<open>h\<close>\<close>
  "starts_from k e h \<longleftrightarrow> should_start_of (startup_of k e h) (update_onroad k e h)"

lemma starts_from_fields:
  assumes "hw_thermal h = hw_thermal g" "hw_onroad h = hw_onroad g" "hw_booted h = hw_booted g" "hw_started_ts h = hw_started_ts g"
  shows "starts_from k e h = starts_from k e g"
  using assms by (simp add: starts_from_def should_start_of_def startup_of_def update_onroad_def Let_def)

lemma start_pass_fields [simp]:
  "hw_frame (start_pass k e h) = hw_frame h" "hw_onroad (start_pass k e h) = hw_onroad (update_onroad k e h)" "hw_thermal (start_pass k e h) = hw_thermal h"
  "hw_started_ts (start_pass k e h) =
     (if starts_from k e h then (case hw_started_ts h of None \<Rightarrow> Some (he_now e) | Some t \<Rightarrow> Some t) else None)"
  "hw_off_ts (start_pass k e h) = (if starts_from k e h then None else (case hw_off_ts h of None \<Rightarrow> Some (he_now e) | Some t \<Rightarrow> Some t))"
  "hw_all_temp (start_pass k e h) = hw_all_temp h" "hw_power (start_pass k e h) = hw_power h" "hw_in_car (start_pass k e h) = hw_in_car h"
  "hw_recv_time (start_pass k e h) = hw_recv_time h"
  by (simp_all add: start_pass_def transition_def update_onroad_def starts_from_def Let_def split: option.split)

lemma power_pass_fields [simp]:
  "hw_frame (snd (power_pass e h)) = hw_frame h" "hw_onroad (snd (power_pass e h)) = hw_onroad h" "hw_thermal (snd (power_pass e h)) = hw_thermal h"
  "hw_started_ts (snd (power_pass e h)) = hw_started_ts h" "hw_off_ts (snd (power_pass e h)) = hw_off_ts h"
  "hw_all_temp (snd (power_pass e h)) = hw_all_temp h" "hw_in_car (snd (power_pass e h)) = hw_in_car h"
  "hw_recv_time (snd (power_pass e h)) = hw_recv_time h"
  by (simp_all add: power_pass_def Let_def)

definition after_thermal :: "hardware_config \<Rightarrow> hardware_env \<Rightarrow> hardware \<Rightarrow> hardware" where
  \<comment> \<open>the state with the thermal status and the conditions of the pass\<close>
  "after_thermal k e h = h\<lparr>hw_thermal := new_thermal k e h\<rparr>"

lemma new_thermal_fields:
  assumes "hw_thermal h = hw_thermal g" "hw_started_ts h = hw_started_ts g" "hw_started_seen h = hw_started_seen g" "hw_off_ts h = hw_off_ts g"
    "hw_all_temp h = hw_all_temp g" "hw_offroad_temp h = hw_offroad_temp g"
  shows "new_thermal k e h = new_thermal k e g"
  using assms by (simp add: new_thermal_def update_thermal_def update_temps_def offroad_for_5_min_def)

lemma startup_of_fields:
  assumes "hw_thermal h = hw_thermal g" "hw_booted h = hw_booted g"
  shows "startup_of k e h = startup_of k e g"
  using assms by (simp add: startup_of_def)

lemma update_onroad_fields:
  assumes "hw_thermal h = hw_thermal g" "hw_onroad h = hw_onroad g"
  shows "hw_onroad (update_onroad k e h) = hw_onroad (update_onroad k e g)"
  using assms by (simp add: update_onroad_def)

definition body_before :: "hardware_config \<Rightarrow> hardware_env \<Rightarrow> hardware \<Rightarrow> hardware" where
  \<comment> \<open>the state when the thermal status is known\<close>
  "body_before k e h =
     snd (thermal_pass k e (snd (set_offroad_alert_if_changed ''Offroad_ChestnutBranch''
       (chestnut_present (hs_usb_state (hw_last_state (snd (run_chestnut e (take_hw_state e h))))) \<and> \<not> hc_big_model k) None
       (snd (run_chestnut e (take_hw_state e h))))))"

lemma body_before_fields [simp]:
  "hw_frame (body_before k e h) = hw_frame h" "hw_onroad (body_before k e h) = hw_onroad h" "hw_thermal (body_before k e h) = new_thermal k e h"
  "hw_started_ts (body_before k e h) = hw_started_ts h" "hw_off_ts (body_before k e h) = hw_off_ts h"
  "hw_all_temp (body_before k e h) = fo_update (all_temp_source e) (hw_all_temp h)" "hw_power (body_before k e h) = hw_power h"
  "hw_booted (body_before k e h) = hw_booted h" "hw_in_car (body_before k e h) = hw_in_car h" "hw_recv_time (body_before k e h) = hw_recv_time h"
proof -
  show "hw_thermal (body_before k e h) = new_thermal k e h"
    unfolding body_before_def thermal_pass_fields by (rule new_thermal_fields) simp_all
qed (simp_all add: body_before_def)

definition body_mid :: "hardware_config \<Rightarrow> hardware_env \<Rightarrow> hardware \<Rightarrow> hardware" where
  \<comment> \<open>the state the transition starts from\<close>
  "body_mid k e h =
     (let h = body_before k e h; s = startup_of k e h; g = update_onroad k e h
      in snd (update_pwrsave e (snd (update_engaged e (should_start_of s g)
           (snd (set_offroad_alert_if_changed ''Offroad_TemperatureTooHigh'' (show_temp_alert s g) (Some (py_round1 (fo_x (hw_offroad_temp h)))) h))))))"

lemma body_mid_fields [simp]:
  "hw_frame (body_mid k e h) = hw_frame h" "hw_onroad (body_mid k e h) = hw_onroad h" "hw_thermal (body_mid k e h) = new_thermal k e h"
  "hw_started_ts (body_mid k e h) = hw_started_ts h" "hw_off_ts (body_mid k e h) = hw_off_ts h"
  "hw_all_temp (body_mid k e h) = fo_update (all_temp_source e) (hw_all_temp h)" "hw_power (body_mid k e h) = hw_power h"
  "hw_booted (body_mid k e h) = hw_booted h" "hw_in_car (body_mid k e h) = hw_in_car h" "hw_recv_time (body_mid k e h) = hw_recv_time h"
  by (simp_all add: body_mid_def Let_def)

abbreviation starts :: "hardware_config \<Rightarrow> hardware_env \<Rightarrow> hardware \<Rightarrow> bool" where
  "starts k e h \<equiv> starts_from k e (after_thermal k e h)"

lemma body_mid_starts [simp]: "starts_from k e (body_mid k e h) = starts k e h"
  by (rule starts_from_fields) (simp_all add: after_thermal_def)

lemma body_mid_onroad [simp]: "hw_onroad (update_onroad k e (body_mid k e h)) = hw_onroad (update_onroad k e (after_thermal k e h))"
  by (rule update_onroad_fields) (simp_all add: after_thermal_def)

lemma hardware_body_state:
  "\<exists>c b. snd (hardware_body k e h) = (update_uptime e (snd (power_pass e (start_pass k e (body_mid k e h)))))\<lparr>hw_count := c, hw_should_start_prev := b\<rparr>"
  by (auto simp: hardware_body_def body_mid_def body_before_def Let_def case_prod_beta)

lemma hardware_body_fields [simp]:
  "hw_frame (snd (hardware_body k e h)) = hw_frame h"
  "hw_onroad (snd (hardware_body k e h)) = hw_onroad (update_onroad k e (after_thermal k e h))"
  "hw_thermal (snd (hardware_body k e h)) = new_thermal k e h"
  "hw_started_ts (snd (hardware_body k e h)) = 
     (if starts k e h then (case hw_started_ts h of None \<Rightarrow> Some (he_now e) | Some t \<Rightarrow> Some t) else None)"
  "hw_off_ts (snd (hardware_body k e h)) = (if starts k e h then None else (case hw_off_ts h of None \<Rightarrow> Some (he_now e) | Some t \<Rightarrow> Some t))"
  "hw_all_temp (snd (hardware_body k e h)) = fo_update (all_temp_source e) (hw_all_temp h)"
  "hw_in_car (snd (hardware_body k e h)) = hw_in_car h" "hw_recv_time (snd (hardware_body k e h)) = hw_recv_time h"
  "hw_power (snd (hardware_body k e h)) =
     pm_calculate (he_now e) (he_voltage e) (on_ignition (hw_onroad h)) (he_power_draw e) (hw_power h)"
proof -
  have ign: "on_ignition (hw_onroad (update_onroad k e (after_thermal k e h))) = on_ignition (hw_onroad h)"
    by (simp add: update_onroad_def after_thermal_def)
  obtain c b where *: "snd (hardware_body k e h) = (update_uptime e (snd (power_pass e (start_pass k e (body_mid k e h)))))\<lparr>hw_count := c, hw_should_start_prev := b\<rparr>"
    using hardware_body_state by blast
  show "hw_power (snd (hardware_body k e h)) = pm_calculate (he_now e) (he_voltage e) (on_ignition (hw_onroad h)) (he_power_draw e) (hw_power h)"
    unfolding * by (simp add: power_pass_def Let_def ign)
qed (use hardware_body_state [of k e h] in auto)

lemma hardware_body_out:
  "ho_started (fst (hardware_body k e h)) \<longleftrightarrow> hw_started_ts (snd (hardware_body k e h)) \<noteq> None \<and> \<not> hp_OffroadMode (he_params e)"
  "ho_DoShutdown (fst (hardware_body k e h)) = fst (power_pass e (start_pass k e (body_mid k e h)))"
  "ho_fan (fst (hardware_body k e h)) \<in>
     {fst (fan_update (hc_mici k) (fo_x (fo_update (all_temp_source e) (hw_all_temp h))) (on_ignition (hw_onroad h)) (hw_fan h)),
      if on_ignition (hw_onroad h) then 100
      else fst (fan_update (hc_mici k) (fo_x (fo_update (all_temp_source e) (hw_all_temp h))) (on_ignition (hw_onroad h)) (hw_fan h))}"
proof -
  show "ho_started (fst (hardware_body k e h)) \<longleftrightarrow> hw_started_ts (snd (hardware_body k e h)) \<noteq> None \<and> \<not> hp_OffroadMode (he_params e)"
    "ho_DoShutdown (fst (hardware_body k e h)) = fst (power_pass e (start_pass k e (body_mid k e h)))"
    by (simp_all add: hardware_body_def body_mid_def body_before_def Let_def case_prod_beta del: start_pass_fields)
  have speed: "fst (thermal_pass k e g) =
      fst (fan_update (hc_mici k) (fo_x (fo_update (all_temp_source e) (hw_all_temp g))) (on_ignition (hw_onroad g)) (hw_fan g))" for g
    by (simp add: thermal_pass_def update_temps_def Let_def case_prod_beta)
  have alert: "show_temp_alert s (update_onroad k e g) \<Longrightarrow> on_ignition (hw_onroad g)" for s g
    by (simp add: show_temp_alert_def update_onroad_def)
  let ?g = "snd (thermal_pass k e (snd (set_offroad_alert_if_changed ''Offroad_ChestnutBranch''
       (chestnut_present (hs_usb_state (hw_last_state (snd (run_chestnut e (take_hw_state e h))))) \<and> \<not> hc_big_model k) None
       (snd (run_chestnut e (take_hw_state e h))))))"
  have "ho_fan (fst (hardware_body k e h)) =
      (if show_temp_alert (startup_of k e ?g) (update_onroad k e ?g) then 100
       else fst (fan_update (hc_mici k) (fo_x (fo_update (all_temp_source e) (hw_all_temp h))) (on_ignition (hw_onroad h)) (hw_fan h)))"
    by (simp add: hardware_body_def Let_def case_prod_beta speed)
  then show "ho_fan (fst (hardware_body k e h)) \<in>
     {fst (fan_update (hc_mici k) (fo_x (fo_update (all_temp_source e) (hw_all_temp h))) (on_ignition (hw_onroad h)) (hw_fan h)),
      if on_ignition (hw_onroad h) then 100
      else fst (fan_update (hc_mici k) (fo_x (fo_update (all_temp_source e) (hw_all_temp h))) (on_ignition (hw_onroad h)) (hw_fan h))}"
    using alert [of "startup_of k e ?g" ?g] by (simp split: if_splits)
qed

definition runs_body :: "hardware_env \<Rightarrow> hardware \<Rightarrow> bool" where
  "runs_body e h \<longleftrightarrow> hw_frame (update_conditions e h) mod 5 = 0 \<or> ign_edge (update_conditions e h)"

lemma hardware_pass_cases:
  "hardware_pass k e h =
     (if runs_body e h
      then (Some (fst (hardware_body k e (update_conditions e h))), snd (hardware_body k e (update_conditions e h)))
      else (None, update_conditions e h))"
  by (simp add: hardware_pass_def runs_body_def Let_def case_prod_beta)

lemma update_conditions_keeps [simp]:
  "hw_thermal (update_conditions e h) = hw_thermal h" "hw_started_ts (update_conditions e h) = hw_started_ts h"
  "hw_off_ts (update_conditions e h) = hw_off_ts h" "hw_started_seen (update_conditions e h) = hw_started_seen h"
  "hw_all_temp (update_conditions e h) = hw_all_temp h" "hw_offroad_temp (update_conditions e h) = hw_offroad_temp h"
  "hw_power (update_conditions e h) = hw_power h" "hw_booted (update_conditions e h) = hw_booted h" "hw_fan (update_conditions e h) = hw_fan h"
  "hw_frame (update_conditions e h) = hw_frame h + 1"
  "on_device_temp_good (hw_onroad (update_conditions e h)) = on_device_temp_good (hw_onroad h)"
  by (simp_all add: update_conditions_def Let_def split: option.split list.split)

lemma starts_conditions: "starts k e h \<longleftrightarrow>
   all_onroad (hw_onroad (update_onroad k e (after_thermal k e h))) \<and> (hw_started_ts h = None \<longrightarrow> all_startup (startup_of k e (after_thermal k e h)))"
  by (simp add: starts_from_def should_start_of_def update_onroad_def after_thermal_def)

section \<open>Going offroad\<close>

lemma started_meets_conditions:
  assumes "hw_started_ts (snd (hardware_pass k e h)) \<noteq> None"
  shows "all_onroad (hw_onroad (snd (hardware_pass k e h)))"
proof (cases "runs_body e h")
  case True
  then show ?thesis using assms by (simp add: hardware_pass_cases starts_conditions split: if_splits)
next
  case False
  then show ?thesis using assms by (simp add: hardware_pass_cases runs_body_def ign_edge_def)
qed

definition ignition_lost :: "hardware_env \<Rightarrow> hardware \<Rightarrow> bool" where
  \<comment> \<open>no panda with a known type reports the ignition, or none has reported anything for five seconds\<close>
  "ignition_lost e h \<longleftrightarrow>
     (case he_pandas e of
        None \<Rightarrow> he_now e - hw_recv_time h > 5
      | Some ps \<Rightarrow> ps \<noteq> [] \<and> list_all (\<lambda>p. pa_unknown p \<or> \<not> (pa_ignitionLine p \<or> pa_ignitionCan p)) ps)"

lemma lost_conditions:
  assumes "hp_OnroadCycleRequested (he_params e) \<or> ignition_lost e h"
  shows "\<not> all_onroad (hw_onroad (update_conditions e h))"
proof -
  have "ignition_lost e h \<Longrightarrow> \<not> on_ignition (hw_onroad (update_conditions e h))"
    by (auto simp: ignition_lost_def update_conditions_def Let_def list_all_iff list_ex_iff split: option.splits list.splits)
  moreover have "hp_OnroadCycleRequested (he_params e) \<Longrightarrow> \<not> on_not_onroad_cycle (hw_onroad (update_conditions e h))"
    by (auto simp: update_conditions_def Let_def split: option.splits list.splits)
  ultimately show ?thesis using assms by (auto simp: all_onroad_def)
qed

lemma lost_no_start:
  assumes "hp_OnroadCycleRequested (he_params e) \<or> ignition_lost e h"
  shows "\<not> starts k e (update_conditions e h)"
proof -
  have "\<not> all_onroad (hw_onroad (update_onroad k e (after_thermal k e (update_conditions e h))))"
    using assms by (auto simp: all_onroad_def update_onroad_def after_thermal_def
        ignition_lost_def update_conditions_def Let_def list_all_iff list_ex_iff split: option.splits list.splits)
  then show ?thesis by (simp add: starts_conditions)
qed

text \<open>
  C22. A device that loses the ignition on all pandas, hears no panda for five seconds, or is asked for
  an onroad cycle is offroad at the end of that pass, also between the passes that run at 2 Hz; if
  it was onroad, the change is published in that pass.
\<close>
theorem lost_ignition_goes_offroad_at_once:
  assumes "hp_OnroadCycleRequested (he_params e) \<or> ignition_lost e h"
  shows "hw_started_ts (snd (hardware_pass k e h)) = None \<and>
    (hw_started_ts h = None \<or> map_option ho_started (fst (hardware_pass k e h)) = Some False)"
proof -
  let ?u = "update_conditions e h"
  have off: "\<not> all_onroad (hw_onroad ?u)" by (rule lost_conditions [OF assms])
  have no: "hw_started_ts (snd (hardware_body k e ?u)) = None" using lost_no_start [OF assms] by simp
  show ?thesis
  proof (cases "runs_body e h")
    case True
    then show ?thesis using no by (simp add: hardware_pass_cases hardware_body_out)
  next
    case False
    then have "hw_started_ts h = None" using off by (simp add: runs_body_def ign_edge_def)
    then show ?thesis using False by (simp add: hardware_pass_cases)
  qed
qed

section \<open>Cooling down\<close>

lemma next_band_cases:
  "next_band mici temp t =
     (case t of
        TS_ok \<Rightarrow> if temp > (if mici then 100 else 96) then TS_overheated else TS_ok
      | TS_overheated \<Rightarrow> if temp < (if mici then 92 else 88) then TS_ok else if temp > 107 then TS_critical else TS_overheated
      | TS_critical \<Rightarrow> if temp < (if mici then 98 else 94) then TS_overheated else TS_critical)"
  by (cases t; cases mici) (simp_all add: next_band_def THERMAL_BANDS_def)

definition cool_temp :: "hardware_config \<Rightarrow> real" where
  \<comment> \<open>the temperature under which an overheated device is cool again\<close>
  "cool_temp k = (if hc_mici k then 92 else 88)"

definition hardware_inv :: "hardware \<Rightarrow> bool" where
  "hardware_inv h \<longleftrightarrow>
     fo_alpha (hw_all_temp h) = 1 / 11 \<and> (on_device_temp_good (hw_onroad h) \<longleftrightarrow> hw_thermal h \<noteq> TS_critical) \<and>
     (hw_started_ts h \<noteq> None \<longrightarrow> all_onroad (hw_onroad h))"

lemma fo_update_alpha_same [simp]: "fo_alpha (fo_update x f) = fo_alpha f"
  by (simp add: fo_update_def)

lemma thermal_value_critical: "thermal_value t < thermal_value TS_critical \<longleftrightarrow> t \<noteq> TS_critical"
  by (cases t) (simp_all add: thermal_value_def)

lemma pass_keeps_inv: "hardware_inv h \<Longrightarrow> hardware_inv (snd (hardware_pass k e h))"
  using started_meets_conditions [of k e h]
  by (auto simp: hardware_inv_def hardware_pass_cases update_onroad_def after_thermal_def thermal_value_critical)

lemma hardware_run_snoc [simp]: "hardware_run k (es @ [e]) h = snd (hardware_pass k e (hardware_run k es h))"
  by (simp add: hardware_run_def)

lemma hardware_run_simps [simp]: "hardware_run k [] h = h" "hardware_run k (e # es) h = hardware_run k es (snd (hardware_pass k e h))"
  by (simp_all add: hardware_run_def)

lemma run_keeps_inv: "hardware_inv h \<Longrightarrow> hardware_inv (hardware_run k es h)"
  by (induction es arbitrary: h) (simp_all add: pass_keeps_inv)

lemma init_inv: "hardware_inv (hardware_init now saved a b)"
  by (simp add: hardware_inv_def hardware_init_def FirstOrderFilter_def)

lemma filter_above:
  fixes c :: real
  assumes "fo_alpha f = 1 / 11" "c \<le> fo_x f" "c \<le> x"
  shows "c \<le> fo_x (fo_update x f)"
  using assms(2,3) by (simp add: fo_update_def assms(1))

lemma filter_strictly_above:
  fixes c :: real
  assumes "fo_alpha f = 1 / 11" "c < fo_x f" "c < x"
  shows "c < fo_x (fo_update x f)"
  using assms(2,3) by (simp add: fo_update_def assms(1))

lemma pass_all_temp:
  "hw_all_temp (snd (hardware_pass k e h)) \<in> {hw_all_temp h, fo_update (all_temp_source e) (hw_all_temp h)}"
  by (simp add: hardware_pass_cases)

lemma new_thermal_cases:
  "new_thermal k e h \<in> {TS_critical, next_band (hc_mici k) (fo_x (fo_update (all_temp_source e) (hw_all_temp h))) (hw_thermal h)}"
  by (simp add: new_thermal_def update_thermal_def update_temps_def)

definition too_hot :: "hardware_config \<Rightarrow> hardware \<Rightarrow> bool" where
  "too_hot k h \<longleftrightarrow> hw_thermal h \<noteq> TS_ok \<and> hw_started_ts h = None \<and> cool_temp k \<le> fo_x (hw_all_temp h)"

lemma pass_stays_hot:
  assumes "hardware_inv h" "too_hot k h" "cool_temp k \<le> all_temp_source e"
  shows "too_hot k (snd (hardware_pass k e h))"
proof -
  let ?u = "update_conditions e h"
  have x: "cool_temp k \<le> fo_x (fo_update (all_temp_source e) (hw_all_temp h))"
    using assms by (intro filter_above) (simp_all add: hardware_inv_def too_hot_def)
  then have t: "new_thermal k e ?u \<noteq> TS_ok"
    using new_thermal_cases [of k e ?u] assms(2)
    by (auto simp: next_band_cases too_hot_def cool_temp_def split: thermal_status.splits if_splits)
  then have "\<not> st_device_temp_engageable (startup_of k e (after_thermal k e ?u))"
    by (simp add: startup_of_def after_thermal_def thermal_value_def Let_def split: thermal_status.split)
  then have "\<not> starts k e ?u" using assms(2) by (simp add: starts_conditions all_startup_def too_hot_def)
  then show ?thesis using assms(2) x t by (simp add: hardware_pass_cases too_hot_def)
qed

text \<open>
  C23. A device that has gone offroad because of its temperature does not drive again before it has
  cooled down: from any point of any run at which its status is critical, it stays offroad and above
  the ok status for as long as no sensor maximum falls below 88 degrees (92 on a mici), whatever
  the ignition and the parameters do.
\<close>
theorem hot_device_cools_before_driving:
  assumes "hw_thermal (hardware_run k before (hardware_init now saved a b)) = TS_critical"
    "cool_temp k \<le> fo_x (hw_all_temp (hardware_run k before (hardware_init now saved a b)))"
    "list_all (\<lambda>e. cool_temp k \<le> all_temp_source e) es"
  shows "hw_started_ts (hardware_run k (before @ es) (hardware_init now saved a b)) = None \<and>
    hw_thermal (hardware_run k (before @ es) (hardware_init now saved a b)) \<noteq> TS_ok"
proof -
  define h where "h = hardware_run k before (hardware_init now saved a b)"
  have run: "hardware_run k (before @ es) (hardware_init now saved a b) = hardware_run k es h"
    by (simp add: hardware_run_def h_def)
  have inv: "hardware_inv h" unfolding h_def by (intro run_keeps_inv init_inv)
  then have hot: "too_hot k h"
    using assms(1,2) by (auto simp: too_hot_def hardware_inv_def all_onroad_def h_def)
  have "hardware_inv g \<Longrightarrow> too_hot k g \<Longrightarrow> list_all (\<lambda>e. cool_temp k \<le> all_temp_source e) es \<Longrightarrow> too_hot k (hardware_run k es g)" for g
    by (induction es arbitrary: g) (simp_all add: pass_stays_hot pass_keeps_inv)
  then show ?thesis using inv hot assms(3) by (simp add: run too_hot_def)
qed

section \<open>Overheating\<close>

definition heat :: "thermal_status \<Rightarrow> nat" where
  "heat t = (case t of TS_ok \<Rightarrow> 0 | TS_overheated \<Rightarrow> 1 | TS_critical \<Rightarrow> 2)"

definition above :: "hardware \<Rightarrow> bool" where
  "above h \<longleftrightarrow> hardware_inv h \<and> 107 < fo_x (hw_all_temp h)"

lemma pass_above:
  assumes "above h" "107 < all_temp_source e"
  shows "above (snd (hardware_pass k e h))" "heat (hw_thermal h) \<le> heat (hw_thermal (snd (hardware_pass k e h)))"
    "(hw_frame h + 1) mod 5 = 0 \<Longrightarrow> min 2 (heat (hw_thermal h) + 1) \<le> heat (hw_thermal (snd (hardware_pass k e h)))"
    "hw_frame (snd (hardware_pass k e h)) = hw_frame h + 1"
proof -
  let ?u = "update_conditions e h"
  have x: "107 < fo_x (fo_update (all_temp_source e) (hw_all_temp h))"
    using assms by (intro filter_strictly_above) (simp_all add: above_def hardware_inv_def)
  then show "above (snd (hardware_pass k e h))" using assms(1) pass_keeps_inv [of h k e]
    by (auto simp: above_def hardware_pass_cases)
  have n: "min 2 (heat (hw_thermal h) + 1) \<le> heat (new_thermal k e ?u)"
    using x new_thermal_cases [of k e ?u] by (auto simp: next_band_cases heat_def split: thermal_status.splits if_splits)
  then show "(hw_frame h + 1) mod 5 = 0 \<Longrightarrow> min 2 (heat (hw_thermal h) + 1) \<le> heat (hw_thermal (snd (hardware_pass k e h)))"
    by (simp add: hardware_pass_cases runs_body_def)
  have "heat (hw_thermal h) \<le> 2" by (simp add: heat_def split: thermal_status.split)
  then show "heat (hw_thermal h) \<le> heat (hw_thermal (snd (hardware_pass k e h)))"
    using n by (auto simp: hardware_pass_cases)
  show "hw_frame (snd (hardware_pass k e h)) = hw_frame h + 1" by (simp add: hardware_pass_cases)
qed


lemma five_passes_heat:
  assumes "above h" "list_all (\<lambda>e. 107 < all_temp_source e) es" "length es \<ge> nat (- (hw_frame h + 1) mod 5) + 1"
  shows "min 2 (heat (hw_thermal h) + 1) \<le> heat (hw_thermal (hardware_run k es h))"
  using assms
proof (induction es arbitrary: h)
  case (Cons e es)
  note p = pass_above [OF Cons.prems(1), of e k]
  have mono: "above g \<Longrightarrow> list_all (\<lambda>e. 107 < all_temp_source e) es \<Longrightarrow> heat (hw_thermal g) \<le> heat (hw_thermal (hardware_run k es g))" for g es
    by (induction es arbitrary: g) (auto dest: pass_above [where k = k] intro: order_trans pass_above [where k = k])
  show ?case
  proof (cases "(hw_frame h + 1) mod 5 = 0")
    case True
    then show ?thesis using p Cons.prems mono [of "snd (hardware_pass k e h)" es] by simp
  next
    case False
    have "(- (f + 1 + 1)) mod 5 + 1 \<le> (- (f + 1)) mod 5" if "(f + 1) mod 5 \<noteq> 0" for f :: int
      using that by presburger
    from this [OF False] have "nat (- (hw_frame h + 1 + 1) mod 5) + 1 \<le> nat (- (hw_frame h + 1) mod 5)"
      using pos_mod_sign [of 5 "- (hw_frame h + 1 + 1)"] by linarith
    then have "min 2 (heat (hw_thermal (snd (hardware_pass k e h))) + 1) \<le> heat (hw_thermal (hardware_run k es (snd (hardware_pass k e h))))"
      using Cons p by simp
    then show ?thesis using p Cons.prems by simp
  qed
qed simp

lemma run_above: "above h \<Longrightarrow> list_all (\<lambda>e. 107 < all_temp_source e) es \<Longrightarrow> above (hardware_run k es h)"
  by (induction es arbitrary: h) (simp_all add: pass_above)

text \<open>
  An overheating device goes offroad: in any run, if the filtered temperature is above 107 degrees
  and the sensors stay above it for the next ten passes (one second), then the status is critical
  and the device is offroad, wherever in the cycle of five passes they begin.
\<close>
theorem overheating_goes_offroad:
  assumes "107 < fo_x (hw_all_temp (hardware_run k before (hardware_init now saved a b)))"
    "list_all (\<lambda>e. 107 < all_temp_source e) es" "length es = 10"
  shows "hw_thermal (hardware_run k (before @ es) (hardware_init now saved a b)) = TS_critical \<and>
    hw_started_ts (hardware_run k (before @ es) (hardware_init now saved a b)) = None"
proof -
  define h where "h = hardware_run k before (hardware_init now saved a b)"
  have run: "hardware_run k (before @ es) (hardware_init now saved a b) = hardware_run k (drop 5 es) (hardware_run k (take 5 es) h)"
    using append_take_drop_id [of 5 es] by (metis foldl_append h_def hardware_run_def)
  have h: "above h" using assms(1) by (simp add: above_def h_def run_keeps_inv init_inv)
  have take: "list_all (\<lambda>e. 107 < all_temp_source e) (take 5 es)" "list_all (\<lambda>e. 107 < all_temp_source e) (drop 5 es)"
    using assms(2) by (auto simp: list_all_iff dest: in_set_takeD in_set_dropD)
  have five: "nat (i mod 5) + 1 \<le> 5" for i :: int
    using pos_mod_bound [of 5 i] pos_mod_sign [of 5 i] by linarith
  have one: "min 2 (heat (hw_thermal h) + 1) \<le> heat (hw_thermal (hardware_run k (take 5 es) h))"
    by (rule five_passes_heat [OF h take(1)]) (use assms(3) five in simp)
  have mid: "above (hardware_run k (take 5 es) h)" by (rule run_above [OF h take(1)])
  have "min 2 (heat (hw_thermal (hardware_run k (take 5 es) h)) + 1) \<le> heat (hw_thermal (hardware_run k (drop 5 es) (hardware_run k (take 5 es) h)))"
    by (rule five_passes_heat [OF mid take(2)]) (use assms(3) five in simp)
  then have c: "hw_thermal (hardware_run k (drop 5 es) (hardware_run k (take 5 es) h)) = TS_critical"
    using one by (auto simp: heat_def split: thermal_status.splits if_splits)
  moreover have "hardware_inv (hardware_run k (drop 5 es) (hardware_run k (take 5 es) h))"
    using run_above [OF mid take(2)] by (simp add: above_def)
  ultimately show ?thesis by (auto simp: run hardware_inv_def all_onroad_def)
qed

section \<open>Shutting down\<close>

text \<open>
  C24. The device is not shut down in use: a pass that asks for the shutdown leaves the device offroad,
  and unless the shutdown is forced by its parameter the car is connected and parked, the device has been
  offroad for more than five minutes and powering down is not disabled.
\<close>
theorem shutdown_only_when_parked:
  assumes "map_option ho_DoShutdown (fst (hardware_pass k e h)) = Some True"
  shows "hw_started_ts (snd (hardware_pass k e h)) = None \<and>
    (sd_ForcePowerDown (hp_shutdown (he_params e)) \<or>
     \<not> sd_DisablePowerDown (hp_shutdown (he_params e)) \<and> hw_in_car (snd (hardware_pass k e h)) \<and>
     \<not> on_ignition (hw_onroad (snd (hardware_pass k e h))) \<and>
     (\<exists>t. hw_off_ts (snd (hardware_pass k e h)) = Some t \<and> he_now e - t > 300))"
proof -
  let ?u = "update_conditions e h"
  have ign: "on_ignition (hw_onroad (update_onroad k e g)) = on_ignition (hw_onroad g)" for g by (simp add: update_onroad_def)
  have runs: "runs_body e h" and down: "fst (power_pass e (start_pass k e (body_mid k e ?u)))"
    using assms by (simp_all add: hardware_pass_cases hardware_body_out split: if_splits)
  obtain t where t: "hw_off_ts (start_pass k e (body_mid k e ?u)) = Some t"
    using down by (auto simp: power_pass_def should_shutdown_def Let_def split: option.splits)
  then have no: "\<not> starts k e ?u" by (simp split: if_splits)
  then show ?thesis
    using down runs by (auto simp: hardware_pass_cases power_pass_def should_shutdown_def Let_def ign after_thermal_def split: option.splits)
qed

section \<open>The battery of a parked car\<close>

type_synonym measurement = "real \<times> int \<times> real"  \<comment> \<open>time, voltage, power draw\<close>

definition parked :: "measurement list \<Rightarrow> power_monitor \<Rightarrow> power_monitor" where
  "parked ms p = foldl (\<lambda>p (now, v, w). pm_calculate now (Some v) False (Some w) p) p ms"

fun measured :: "real \<Rightarrow> measurement list \<Rightarrow> bool" where
  \<comment> \<open>times go on, and power is drawn\<close>
  "measured t [] \<longleftrightarrow> True"
| "measured t ((now, v, w) # ms) \<longleftrightarrow> t \<le> now \<and> 0 \<le> w \<and> measured now ms"

fun energy :: "real \<Rightarrow> measurement list \<Rightarrow> real" where
  \<comment> \<open>the energy drawn since the time, in microwatt hours\<close>
  "energy t [] = 0"
| "energy t ((now, v, w) # ms) = w * 1000000 * ((now - t) / 3600) + energy now ms"

lemma energy_nonneg: "measured t ms \<Longrightarrow> 0 \<le> energy t ms"
  by (induction t ms rule: energy.induct) auto

lemma calculate_parked:
  assumes "pm_last_measurement p = Some t" "0 < t" "t \<le> now" "0 \<le> w"
  shows "pm_last_measurement (pm_calculate now (Some v) False (Some w) p) = Some now"
    "pm_capacity (pm_calculate now (Some v) False (Some w) p)
       = min (max (pm_capacity p) 0) CAR_BATTERY_CAPACITY_uWh - w * 1000000 * ((now - t) / 3600)"
proof -
  have "0 \<le> w * 1000000 * ((now - t) / 3600)" using assms by simp
  then have "\<not> w * 1000000 * ((now - t) / 3600) < 0" by linarith
  then show "pm_last_measurement (pm_calculate now (Some v) False (Some w) p) = Some now"
    "pm_capacity (pm_calculate now (Some v) False (Some w) p)
       = min (max (pm_capacity p) 0) CAR_BATTERY_CAPACITY_uWh - w * 1000000 * ((now - t) / 3600)"
    using assms by (simp_all add: pm_calculate_def cap_battery_def perform_integration_def Let_def)
qed

lemma parked_capacity:
  assumes "pm_last_measurement p = Some t" "0 < t" "measured t ms"
  shows "pm_capacity (parked ms p) \<le> max (pm_capacity p - energy t ms) 0"
  using assms
proof (induction ms arbitrary: p t)
  case (Cons m ms)
  obtain now v w where m: "m = (now, v, w)" by (cases m)
  let ?q = "pm_calculate now (Some v) False (Some w) p"
  note q = calculate_parked [OF Cons.prems(1,2), of now w v]
  have "pm_capacity (parked ms ?q) \<le> max (pm_capacity ?q - energy now ms) 0"
    using Cons.prems q by (intro Cons.IH) (simp_all add: m)
  moreover have "pm_capacity ?q \<le> max (pm_capacity p) 0 - w * 1000000 * ((now - t) / 3600)"
    using q Cons.prems by (simp add: m)
  moreover have "0 \<le> energy now ms" "0 \<le> w * 1000000 * ((now - t) / 3600)" using Cons.prems energy_nonneg by (simp_all add: m)
  ultimately have "pm_capacity (parked ms ?q) \<le> max (pm_capacity p - energy t (m # ms)) 0"
    unfolding m energy.simps by linarith
  then show ?case by (simp add: parked_def m)
qed (simp add: parked_def)

lemma parked_capacity_capped:
  assumes "pm_last_measurement p = Some t" "0 < t" "measured t (m # ms)"
  shows "pm_capacity (parked (m # ms) p) \<le> max (CAR_BATTERY_CAPACITY_uWh - energy t (m # ms)) 0"
proof -
  obtain now v w where m: "m = (now, v, w)" by (cases m)
  let ?q = "pm_calculate now (Some v) False (Some w) p"
  have q: "pm_last_measurement ?q = Some now" "pm_capacity ?q \<le> CAR_BATTERY_CAPACITY_uWh - w * 1000000 * ((now - t) / 3600)"
    using calculate_parked [OF assms(1,2), of now w v] assms(3) by (simp_all add: m)
  have "pm_capacity (parked ms ?q) \<le> max (pm_capacity ?q - energy now ms) 0"
    using assms q(1) by (intro parked_capacity) (simp_all add: m)
  then have "pm_capacity (parked ms ?q) \<le> max (CAR_BATTERY_CAPACITY_uWh - energy t (m # ms)) 0"
    using q(2) unfolding m energy.simps by linarith
  then show ?thesis by (simp add: parked_def m)
qed

text \<open>
  A parked car is not drained: whatever the estimate of its battery was, once the measurements
  since the ignition went off add up to the assumed capacity of 30 Wh, the device asks to be shut
  down (in a car, five minutes after going offroad, unless powering down is disabled).
\<close>
theorem parked_car_is_not_drained:
  assumes "pm_last_measurement p = Some t" "0 < t" "ms \<noteq> []" "measured t ms" "energy t ms \<ge> CAR_BATTERY_CAPACITY_uWh"
    "\<not> sd_DisablePowerDown params" "now - since > 300"
  shows "should_shutdown params now False True (Some since) True (parked ms p)"
proof -
  obtain m ms' where ms: "ms = m # ms'" using assms(3) by (cases ms) simp_all
  have "pm_capacity (parked ms p) \<le> max (CAR_BATTERY_CAPACITY_uWh - energy t ms) 0"
    unfolding ms by (rule parked_capacity_capped) (use assms ms in simp_all)
  then have "pm_capacity (parked ms p) \<le> 0" using assms(5) by linarith
  then show ?thesis using assms by (simp add: should_shutdown_def)
qed

section \<open>The fan\<close>

lemma py_int_bounds:
  assumes "of_int a \<le> x" "x \<le> of_int b"
  shows "a \<le> py_int x" "py_int x \<le> b"
  using assms by (auto simp: py_int_def) linarith+

lemma pid_control_clipped: "\<exists>x. pid_control (pid_update error rate speed ff freeze c) = np_clip x (neg_limit c) (pos_limit c)"
proof -
  have lim: "neg_limit (pid_integrate err d) = neg_limit d" "pos_limit (pid_integrate err d) = pos_limit d" for err d
    by (simp_all add: pid_integrate_def Let_def)
  show ?thesis by (cases freeze) (auto simp: pid_update_def Let_def lim)
qed

lemma fan_range: "fst (fan_update mici temp ignition f) \<in> (if ignition then {30..100} else {0..30})"
proof -
  define lo hi :: real where "lo = (if ignition then 30 else 0)" and "hi = (if ignition then 100 else 30)"
  have fst_fan: "\<exists>x. fst (fan_update mici temp ignition f) = py_int (np_clip x lo hi)"
  proof -
    let ?c = "set_limits (if ignition then 100 else 30) (if ignition then 30 else 0) (fan_pid f)"
    let ?d = "if ignition \<noteq> fan_last_ignition f then pid_reset ?c else ?c"
    have "neg_limit ?d = lo" "pos_limit ?d = hi" by (simp_all add: pid_reset_def set_limits_def lo_def hi_def)
    then show ?thesis using pid_control_clipped [where c = ?d] by (metis fan_update_def fst_conv)
  qed
  then obtain x where x: "fst (fan_update mici temp ignition f) = py_int (np_clip x lo hi)" by blast
  have "lo \<le> np_clip x lo hi" "np_clip x lo hi \<le> hi" by (simp_all add: np_clip_lower lo_def hi_def)
  then show ?thesis using py_int_bounds [of "if ignition then 30 else 0" "np_clip x lo hi" "if ignition then 100 else 30"]
    unfolding x by (cases ignition) (simp_all add: lo_def hi_def)
qed

text \<open>
  The speed asked of the fan is a percentage between 30 and 100 with the ignition on and between
  0 and 30 with the ignition off, in every message that is published.
\<close>
theorem fan_stays_in_range:
  "case fst (hardware_pass k e h) of
     None \<Rightarrow> True
   | Some out \<Rightarrow> ho_fan out \<in> (if on_ignition (hw_onroad (snd (hardware_pass k e h))) then {30..100} else {0..30})"
proof -
  have ign: "on_ignition (hw_onroad (update_onroad k e g)) = on_ignition (hw_onroad g)" for g by (simp add: update_onroad_def)
  let ?u = "update_conditions e h"
  have "ho_fan (fst (hardware_body k e ?u)) \<in> (if on_ignition (hw_onroad ?u) then {30..100} else {0..30})"
    using hardware_body_out(3) [of k e ?u]
      fan_range [of "hc_mici k" "fo_x (fo_update (all_temp_source e) (hw_all_temp ?u))" "on_ignition (hw_onroad ?u)" "hw_fan ?u"]
    by (auto split: if_splits)
  then show ?thesis by (simp add: hardware_pass_cases ign after_thermal_def)
qed

section \<open>Witnesses\<close>

definition parameters_ok :: hardware_params where
  "parameters_ok =
     \<lparr>hp_OnroadCycleRequested = False, hp_ConnectivityNeeded = False, hp_DisableUpdates = False, hp_SnoozeUpdate = False,
      hp_ExcessiveActuation = False, hp_DoUninstall = False, hp_terms_accepted = True, hp_terms_sp_accepted = True,
      hp_training_completed = True, hp_IsDriverViewEnabled = False, hp_OffroadMode = False,
      hp_shutdown = \<lparr>sd_MaxTimeOffroad = None, sd_DisablePowerDown = False, sd_ForcePowerDown = False\<rparr>\<rparr>"

definition quiet_pass :: "real \<Rightarrow> bool \<Rightarrow> real \<Rightarrow> hardware_env" where
  \<comment> \<open>the time, the ignition and the temperature of all sensors\<close>
  "quiet_pass now ignition temp =
     \<lparr>he_now = now, he_params = parameters_ok,
      he_pandas = Some [\<lparr>pa_unknown = False, pa_ignitionLine = ignition, pa_ignitionCan = False, pa_harness_connected = True\<rparr>],
      he_voltage = Some 12500, he_selfdrive_enabled = None, he_hw_state = None, he_flash_alive = False, he_flash_result = None,
      he_memory_temp = temp, he_cpu_temps = [temp], he_gpu_temps = [temp], he_pmic_temps = [temp], he_free_space = 50,
      he_brightness = 1, he_booted = True, he_power_draw = Some 1, he_channel_tici = False\<rparr>"

definition tizi :: hardware_config where
  "tizi = \<lparr>hc_mici = False, hc_tici = False, hc_comma_hardware = True, hc_big_model = True\<rparr>"


lemma quiet_source [simp]: "0 \<le> temp \<Longrightarrow> all_temp_source (quiet_pass now ignition temp) = temp"
  by (simp add: all_temp_source_def offroad_temp_source_def max_default_def quiet_pass_def)

theorem lost_ignition_goes_offroad_at_once_witness:
  "hw_started_ts (snd (hardware_pass tizi (quiet_pass 7 False 40) ((hardware_init 0 None 0 0)\<lparr>hw_started_ts := Some 5\<rparr>))) = None"
  using lost_ignition_goes_offroad_at_once [of "quiet_pass 7 False 40" "(hardware_init 0 None 0 0)\<lparr>hw_started_ts := Some 5\<rparr>" tizi]
  by (simp add: ignition_lost_def quiet_pass_def)

lemma first_hot_pass:
  assumes "100 \<le> temp"
  shows "hw_thermal (hardware_run tizi [quiet_pass 1 True temp] (hardware_init 0 None 0 0)) = TS_critical"
    "fo_x (hw_all_temp (hardware_run tizi [quiet_pass 1 True temp] (hardware_init 0 None 0 0))) = temp"
proof -
  have r: "runs_body (quiet_pass 1 True temp) (hardware_init 0 None 0 0)"
    by (simp add: runs_body_def) (simp add: hardware_init_def)
  have "offroad_temp_source (quiet_pass 1 True temp) = temp" "all_temp_source (quiet_pass 1 True temp) = temp"
    using assms by (simp_all add: offroad_temp_source_def max_default_def quiet_pass_def all_temp_source_def)
  then show "hw_thermal (hardware_run tizi [quiet_pass 1 True temp] (hardware_init 0 None 0 0)) = TS_critical"
    "fo_x (hw_all_temp (hardware_run tizi [quiet_pass 1 True temp] (hardware_init 0 None 0 0))) = temp"
    using r assms
    by (simp_all add: hardware_pass_cases new_thermal_def update_thermal_def update_temps_def offroad_for_5_min_def hardware_init_def
        fo_update_def FirstOrderFilter_def OFFROAD_DANGER_TEMP_def tizi_def)
qed

theorem hot_device_cools_before_driving_witness:
  "hw_started_ts (hardware_run tizi ([quiet_pass 1 True 100] @ replicate 600 (quiet_pass 2 True 90)) (hardware_init 0 None 0 0)) = None"
  using hot_device_cools_before_driving [of tizi "[quiet_pass 1 True 100]" 0 None 0 0 "replicate 600 (quiet_pass 2 True 90)"] first_hot_pass [of 100]
  by (simp add: cool_temp_def tizi_def list_all_iff)

theorem overheating_goes_offroad_witness:
  "hw_thermal (hardware_run tizi ([quiet_pass 1 True 110] @ replicate 10 (quiet_pass 2 True 109)) (hardware_init 0 None 0 0)) = TS_critical"
  using overheating_goes_offroad [of tizi "[quiet_pass 1 True 110]" 0 None 0 0 "replicate 10 (quiet_pass 2 True 109)"] first_hot_pass [of 110]
  by (simp add: list_all_iff)

definition forced_down :: hardware_env where
  "forced_down = (quiet_pass 4000 False 40)\<lparr>he_params := parameters_ok\<lparr>hp_shutdown :=
     \<lparr>sd_MaxTimeOffroad = None, sd_DisablePowerDown = False, sd_ForcePowerDown = True\<rparr>\<rparr>\<rparr>"

theorem shutdown_only_when_parked_witness:
  "hw_started_ts (snd (hardware_pass tizi forced_down (hardware_init 0 None 0 0))) = None"
proof -
  let ?h = "hardware_init 0 None 0 0"
  have lost: "\<not> starts tizi forced_down (update_conditions forced_down ?h)"
    by (rule lost_no_start) (simp add: ignition_lost_def forced_down_def quiet_pass_def)
  have "runs_body forced_down ?h"
    by (simp add: runs_body_def) (simp add: hardware_init_def)
  then have "map_option ho_DoShutdown (fst (hardware_pass tizi forced_down ?h)) = Some True"
    using lost by (simp add: hardware_pass_cases hardware_body_out power_pass_def should_shutdown_def Let_def split: option.split)
      (simp add: forced_down_def quiet_pass_def hardware_init_def)
  from shutdown_only_when_parked [OF this] show ?thesis by blast
qed

theorem parked_car_is_not_drained_witness:
  "should_shutdown \<lparr>sd_MaxTimeOffroad = None, sd_DisablePowerDown = False, sd_ForcePowerDown = False\<rparr> 40000 False True (Some 1) True
     (parked [(40000, 12500, 3)] ((PowerMonitoring None)\<lparr>pm_last_measurement := Some 1\<rparr>))"
  by (rule parked_car_is_not_drained [of _ 1]) simp_all

end
