(* ===== verification/PyFloat.thy ===== *)
theory PyFloat
  imports Prelude
begin

text \<open>
  Python floats with the values that are no numbers, for code that tests \<open>isfinite\<close>. Numbers are exact
  reals: rounding and overflow of finite results are left out. Comparisons with \<open>nan\<close> are false, and
  \<open>min\<close> and \<open>max\<close> keep their first argument unless the second compares below or above it.
\<close>

datatype pyfloat = Fin real | PInf | NInf | NaN

instantiation pyfloat :: "{zero, one, ord, uminus, plus, minus, times, abs}"
begin

definition zero_pyfloat :: pyfloat where "0 = Fin 0"
definition one_pyfloat :: pyfloat where "1 = Fin 1"

fun less_eq_pyfloat :: "pyfloat \<Rightarrow> pyfloat \<Rightarrow> bool" where
  "NaN \<le> y \<longleftrightarrow> False"
| "x \<le> NaN \<longleftrightarrow> False"
| "NInf \<le> y \<longleftrightarrow> True"
| "Fin a \<le> NInf \<longleftrightarrow> False"
| "Fin a \<le> Fin b \<longleftrightarrow> a \<le> b"
| "Fin a \<le> PInf \<longleftrightarrow> True"
| "PInf \<le> y \<longleftrightarrow> y = PInf"

definition less_pyfloat :: "pyfloat \<Rightarrow> pyfloat \<Rightarrow> bool" where
  "x < (y::pyfloat) \<longleftrightarrow> x \<le> y \<and> x \<noteq> y"

fun uminus_pyfloat :: "pyfloat \<Rightarrow> pyfloat" where
  "- Fin a = Fin (- a)" | "- PInf = NInf" | "- NInf = PInf" | "- NaN = NaN"

fun plus_pyfloat :: "pyfloat \<Rightarrow> pyfloat \<Rightarrow> pyfloat" where
  "Fin a + Fin b = Fin (a + b)"
| "NaN + y = NaN"
| "x + NaN = NaN"
| "PInf + y = (if y = NInf then NaN else PInf)"
| "NInf + y = (if y = PInf then NaN else NInf)"
| "Fin a + y = y"

definition minus_pyfloat :: "pyfloat \<Rightarrow> pyfloat \<Rightarrow> pyfloat" where
  "x - y = x + - (y::pyfloat)"

fun signed_inf :: "real \<Rightarrow> pyfloat" where
  "signed_inf a = (if a = 0 then NaN else if a > 0 then PInf else NInf)"

fun times_pyfloat :: "pyfloat \<Rightarrow> pyfloat \<Rightarrow> pyfloat" where
  "Fin a * Fin b = Fin (a * b)"
| "NaN * y = NaN"
| "x * NaN = NaN"
| "Fin a * PInf = signed_inf a"
| "Fin a * NInf = signed_inf (- a)"
| "PInf * Fin b = signed_inf b"
| "NInf * Fin b = signed_inf (- b)"
| "PInf * PInf = PInf"
| "NInf * NInf = PInf"
| "PInf * NInf = NInf"
| "NInf * PInf = NInf"

fun abs_pyfloat :: "pyfloat \<Rightarrow> pyfloat" where
  "\<bar>Fin a\<bar> = Fin \<bar>a\<bar>" | "\<bar>PInf\<bar> = PInf" | "\<bar>NInf\<bar> = PInf" | "\<bar>NaN\<bar> = NaN"

instance ..

end

fun pf_div :: "pyfloat \<Rightarrow> pyfloat \<Rightarrow> pyfloat" where
  \<comment> \<open>division by something that is not zero\<close>
  "pf_div (Fin a) (Fin b) = Fin (a / b)"
| "pf_div NaN y = NaN"
| "pf_div x NaN = NaN"
| "pf_div (Fin a) y = Fin 0"
| "pf_div PInf (Fin b) = (if b < 0 then NInf else PInf)"
| "pf_div NInf (Fin b) = (if b < 0 then PInf else NInf)"
| "pf_div x y = NaN"

fun isfinite :: "pyfloat \<Rightarrow> bool" where
  "isfinite (Fin a) \<longleftrightarrow> True" | "isfinite PInf \<longleftrightarrow> False" | "isfinite NInf \<longleftrightarrow> False" | "isfinite NaN \<longleftrightarrow> False"

fun real_of :: "pyfloat \<Rightarrow> real" where
  "real_of (Fin a) = a" | "real_of PInf = 0" | "real_of NInf = 0" | "real_of NaN = 0"

definition pf_min :: "pyfloat \<Rightarrow> pyfloat \<Rightarrow> pyfloat" where
  "pf_min x y = (if y < x then y else x)"

definition pf_max :: "pyfloat \<Rightarrow> pyfloat \<Rightarrow> pyfloat" where
  "pf_max x y = (if y > x then y else x)"

definition pf_max_list :: "pyfloat \<Rightarrow> pyfloat list \<Rightarrow> pyfloat" where
  \<comment> \<open>\<open>max(xs, default=d)\<close>\<close>
  "pf_max_list d xs = (case xs of [] \<Rightarrow> d | x # xs \<Rightarrow> foldl pf_max x xs)"

lemma isfinite_iff: "isfinite x \<longleftrightarrow> x = Fin (real_of x)"
  by (cases x) simp_all

lemma isfiniteE [elim]: "isfinite x \<Longrightarrow> (\<And>a. x = Fin a \<Longrightarrow> P) \<Longrightarrow> P"
  by (cases x) simp_all

lemma pf_less [simp]:
  "Fin a < Fin b \<longleftrightarrow> a < b" "Fin a < PInf" "NInf < Fin a" "NInf < PInf" "\<not> PInf < x" "\<not> x < NInf" "\<not> NaN < x" "\<not> x < NaN"
  by (cases x; auto simp: less_pyfloat_def)+

lemma pf_le_simps [simp]:
  "\<not> NaN \<le> x" "\<not> x \<le> NaN" "PInf \<le> x \<longleftrightarrow> x = PInf" "Fin a \<le> PInf" "\<not> Fin a \<le> NInf"
  by (cases x; simp)+

lemma pf_minus_Fin [simp]: "Fin a - Fin b = Fin (a - b)"
  by (simp add: minus_pyfloat_def)

lemma pf_min_max_Fin [simp]: "pf_min (Fin a) (Fin b) = Fin (min a b)" "pf_max (Fin a) (Fin b) = Fin (max a b)"
  by (simp_all add: pf_min_def pf_max_def min_def max_def)

lemma pf_le_real: "x \<le> Fin b \<longleftrightarrow> x = NInf \<or> (\<exists>a. x = Fin a \<and> a \<le> b)"
  by (cases x) auto

lemma pf_ge_real: "Fin b \<le> x \<longleftrightarrow> x = PInf \<or> (\<exists>a. x = Fin a \<and> b \<le> a)"
  by (cases x) auto

definition fromkeys :: "'a list \<Rightarrow> 'a list" where
  \<comment> \<open>\<open>dict.fromkeys(xs)\<close>: the first occurrences, in order\<close>
  "fromkeys xs = rev (remdups (rev xs))"

lemma set_fromkeys [simp]: "set (fromkeys xs) = set xs"
  by (simp add: fromkeys_def)

lemma fromkeys_Nil [simp]: "fromkeys xs = [] \<longleftrightarrow> xs = []"
  using set_fromkeys [of xs] by (metis set_empty)

lemma distinct_fromkeys [simp]: "distinct (fromkeys xs)"
  by (simp add: fromkeys_def)

end
