(* ===== verification/AscentGuards.thy ===== *)
theory AscentGuards
  imports PyFloat
begin

text \<open>
  The guards of \<^verbatim>\<open>sunnypilot/selfdrive/ascent_v8\<close>, one section per module: trajectory supervisor, final
  command guard, classifier of the space around the car, curve envelope, lane position, debounced
  stop evidence, bypass adviser, the gates of the closed course, and the small policy modules.
  Reasons are the texts of the code. Defaults of constructors are definitions.
\<close>

section \<open>Trajectory supervisor\<close>

datatype trajectory_verdict = TV_VALID | TV_CORRECTED | TV_REJECTED | TV_FALLBACK_REQUIRED

record trajectory_point =
  tp_t :: pyfloat
  tp_x :: pyfloat
  tp_y :: pyfloat
  tp_v :: pyfloat
  tp_a :: pyfloat
  tp_curvature :: pyfloat

record supervisor_limits =
  max_accel :: pyfloat
  min_accel :: pyfloat
  max_abs_curvature :: pyfloat
  max_abs_jerk :: pyfloat

definition SupervisorLimits :: supervisor_limits where
  "SupervisorLimits = \<lparr>max_accel = Fin 2, min_accel = Fin (- 35 / 10), max_abs_curvature = Fin (20 / 100), max_abs_jerk = Fin 4\<rparr>"

definition point_finite :: "trajectory_point \<Rightarrow> bool" where
  "point_finite p \<longleftrightarrow> isfinite (tp_t p) \<and> isfinite (tp_x p) \<and> isfinite (tp_y p) \<and> isfinite (tp_v p) \<and> isfinite (tp_a p) \<and> isfinite (tp_curvature p)"

definition point_reasons :: "supervisor_limits \<Rightarrow> trajectory_point \<Rightarrow> string list" where
  "point_reasons l p =
     (if tp_a p > max_accel l \<or> tp_a p < min_accel l then [''accel_limit''] else []) @
     (if \<bar>tp_curvature p\<bar> > max_abs_curvature l then [''curvature_limit''] else [])"

definition step_reasons :: "supervisor_limits \<Rightarrow> trajectory_point \<Rightarrow> trajectory_point \<Rightarrow> string list" where
  "step_reasons l p q =
     (let dt = tp_t q - tp_t p
      in (if dt \<le> 0 then [''time_order'']
          else if \<bar>pf_div (tp_a q - tp_a p) dt\<bar> > max_abs_jerk l then [''jerk_limit''] else []) @
         (if tp_x q < tp_x p then [''x_order''] else []))"

fun points_reasons :: "supervisor_limits \<Rightarrow> trajectory_point option \<Rightarrow> trajectory_point list \<Rightarrow> string list" where
  "points_reasons l previous [] = []"
| "points_reasons l previous (p # ps) =
     (if \<not> point_finite p then [''nonfinite'']
      else point_reasons l p @ (case previous of None \<Rightarrow> [] | Some q \<Rightarrow> step_reasons l q p) @ points_reasons l (Some p) ps)"

definition supervisor_evaluate :: "supervisor_limits \<Rightarrow> trajectory_point list \<Rightarrow> bool \<Rightarrow> bool \<Rightarrow> bool \<Rightarrow> trajectory_verdict \<times> string list" where
  "supervisor_evaluate l points road_ok occupancy_clear sources_fresh =
     (let reasons = (if \<not> sources_fresh then [''stale_sources''] else []) @ (if \<not> road_ok then [''road_boundary''] else []) @
            (if \<not> occupancy_clear then [''occupancy_not_clear''] else []) @ (if length points < 2 then [''short_trajectory''] else []) @
            points_reasons l None points;
          unique = fromkeys reasons
      in if unique = [] then (TV_VALID, [])
         else if list_ex (\<lambda>r. r \<in> set unique) [''stale_sources'', ''road_boundary'', ''occupancy_not_clear'', ''nonfinite'']
         then (TV_FALLBACK_REQUIRED, unique)
         else (TV_REJECTED, unique))"

section \<open>Final command guard\<close>

record guard_input =
  candidate_accel :: pyfloat
  candidate_curvature :: pyfloat
  actual_accel :: pyfloat
  speed_limit_accel_cap :: "pyfloat option"
  collision_accel_cap :: "pyfloat option"
  red_light_accel_cap :: "pyfloat option"
  curvature_abs_cap :: "pyfloat option"

record guard_output =
  corrected_accel :: pyfloat
  corrected_curvature :: pyfloat
  guard_reasons :: "string list"

definition guard_caps :: "guard_input \<Rightarrow> (string \<times> pyfloat option) list" where
  "guard_caps i = [(''speed_limit'', speed_limit_accel_cap i), (''collision'', collision_accel_cap i), (''red_light'', red_light_accel_cap i)]"

definition apply_cap :: "pyfloat \<Rightarrow> string \<times> pyfloat option \<Rightarrow> pyfloat \<times> string list \<Rightarrow> pyfloat \<times> string list" where
  "apply_cap actual nc st =
     (case snd nc of
        None \<Rightarrow> st
      | Some cap \<Rightarrow> let bounded = pf_min cap actual in if fst st > bounded then (bounded, snd st @ [fst nc]) else st)"

definition guard_project :: "guard_input \<Rightarrow> guard_output" where
  "guard_project i =
     (if \<not> list_all isfinite [candidate_accel i, candidate_curvature i, actual_accel i]
      then \<lparr>corrected_accel = 0, corrected_curvature = 0, guard_reasons = [''nonfinite'']\<rparr>
      else let (accel, reasons) = fold (apply_cap (actual_accel i)) (guard_caps i) (candidate_accel i, []);
               curvature = candidate_curvature i
           in case curvature_abs_cap i of
                None \<Rightarrow> \<lparr>corrected_accel = accel, corrected_curvature = curvature, guard_reasons = reasons\<rparr>
              | Some cap \<Rightarrow>
                  if \<bar>curvature\<bar> > cap
                  then \<lparr>corrected_accel = accel, corrected_curvature = pf_max (- cap) (pf_min cap curvature), guard_reasons = reasons @ [''curvature'']\<rparr>
                  else \<lparr>corrected_accel = accel, corrected_curvature = curvature, guard_reasons = reasons\<rparr>)"

section \<open>The space around the car\<close>

datatype space_state = SPACE_CLEAR | SPACE_OCCUPIED | SPACE_UNKNOWN | SPACE_STALE | SPACE_CONTRADICTORY

record region_evidence =
  visible_recently :: bool
  object_present :: bool
  bsm_occupied :: "bool option"
  bsm_fresh :: bool
  road_edge :: bool
  contradictory :: bool
  age_s :: pyfloat

definition classify_space :: "pyfloat \<Rightarrow> region_evidence \<Rightarrow> space_state" where
  \<comment> \<open>the age after which evidence is stale, 0.6 by default\<close>
  "classify_space stale_after e =
     (if contradictory e then SPACE_CONTRADICTORY
      else if road_edge e then SPACE_OCCUPIED
      else if bsm_fresh e \<and> bsm_occupied e = Some True then SPACE_OCCUPIED
      else if age_s e > stale_after then SPACE_STALE
      else if object_present e then SPACE_OCCUPIED
      else if \<not> visible_recently e then SPACE_UNKNOWN
      else if \<not> bsm_fresh e \<or> bsm_occupied e = None then SPACE_UNKNOWN
      else SPACE_CLEAR)"

definition trajectory_allowed :: "space_state list \<Rightarrow> bool" where
  "trajectory_allowed states = list_all (\<lambda>s. s = SPACE_CLEAR) states"

section \<open>Curve envelope\<close>

record curve_envelope =
  standard_lat_accel :: real
  gentle_lat_accel :: real
  steering_capability :: real
  driver_profile :: real
  hard_cap :: real
  saturation_backoff :: real
  growth_rate :: real

definition CurveEnvelope :: curve_envelope where
  "CurveEnvelope =
     \<lparr>standard_lat_accel = 16 / 10, gentle_lat_accel = 125 / 100, steering_capability = 16 / 10, driver_profile = 16 / 10,
      hard_cap = 25 / 10, saturation_backoff = 3 / 100, growth_rate = 2 / 1000\<rparr>"

definition observe_controller :: "bool \<Rightarrow> bool \<Rightarrow> pyfloat \<Rightarrow> bool \<Rightarrow> curve_envelope \<Rightarrow> curve_envelope" where
  "observe_controller active saturated lateral_accel learning_allowed c =
     (case lateral_accel of
        Fin a \<Rightarrow>
          if \<not> active \<or> \<not> learning_allowed then c
          else if saturated then c\<lparr>steering_capability := max (gentle_lat_accel c) (steering_capability c - saturation_backoff c)\<rparr>
          else if a > 1 / 2 then
            let target = min (hard_cap c) (max (steering_capability c) a)
            in c\<lparr>steering_capability := min target (steering_capability c + growth_rate c)\<rparr>
          else c
      | _ \<Rightarrow> c)"

definition set_driver_profile :: "pyfloat \<Rightarrow> curve_envelope \<Rightarrow> curve_envelope" where
  "set_driver_profile value c = (case value of Fin a \<Rightarrow> c\<lparr>driver_profile := min (hard_cap c) (max (8 / 10) a)\<rparr> | _ \<Rightarrow> c)"

datatype curve_profile = CP_GENTLE | CP_SPORT | CP_AUTO | CP_STANDARD

definition curve_budget :: "curve_profile \<Rightarrow> curve_envelope \<Rightarrow> real" where
  \<comment> \<open>a text that is none of the first three means the standard profile\<close>
  "curve_budget profile c =
     (let desired = (case profile of CP_GENTLE \<Rightarrow> gentle_lat_accel c | CP_SPORT \<Rightarrow> steering_capability c | CP_AUTO \<Rightarrow> driver_profile c
                     | CP_STANDARD \<Rightarrow> standard_lat_accel c)
      in min (min desired (steering_capability c)) (hard_cap c))"

definition curve_target_speed :: "pyfloat \<Rightarrow> curve_profile \<Rightarrow> curve_envelope \<Rightarrow> real option" where
  "curve_target_speed curvature profile c =
     (case curvature of
        Fin k \<Rightarrow> if \<bar>k\<bar> < 1 / 1000000 then None else Some (sqrt (max 0 (curve_budget profile c / \<bar>k\<bar>)))
      | _ \<Rightarrow> None)"

section \<open>Lane position\<close>

record lane_position_input =
  model_path_y :: pyfloat
  left_lane_y :: "pyfloat option"
  right_lane_y :: "pyfloat option"
  left_lane_probability :: pyfloat
  right_lane_probability :: pyfloat
  road_edge_clear :: bool
  source_age :: pyfloat

record lane_position_result =
  blended_path_y :: pyfloat
  lane_confidence :: pyfloat
  lane_reasons :: "string list"

definition opt_finite :: "pyfloat option \<Rightarrow> bool" where
  "opt_finite x \<longleftrightarrow> (case x of None \<Rightarrow> False | Some v \<Rightarrow> isfinite v)"

definition lane_position :: "pyfloat \<Rightarrow> pyfloat \<Rightarrow> lane_position_input \<Rightarrow> lane_position_result" where
  \<comment> \<open>the greatest age and the greatest trim, 0.5 and 0.35 by default\<close>
  "lane_position max_age max_trim i =
     (let probs_finite = (isfinite (left_lane_probability i) \<and> isfinite (right_lane_probability i));
          confidence = (if probs_finite then pf_min (left_lane_probability i) (right_lane_probability i) else 0);
          reasons = (if \<not> (isfinite (model_path_y i) \<and> opt_finite (left_lane_y i) \<and> opt_finite (right_lane_y i))
                       then [''lane_geometry_missing''] else []) @
            (if \<not> probs_finite then [''lane_confidence_invalid''] else []) @
            (if source_age i > max_age then [''source_stale''] else []) @
            (if \<not> road_edge_clear i then [''road_edge_veto''] else []) @
            (if confidence < Fin (1 / 2) then [''lane_confidence_low''] else [])
      in if reasons \<noteq> [] then \<lparr>blended_path_y = model_path_y i, lane_confidence = confidence, lane_reasons = reasons\<rparr>
         else let lane_center = pf_div (the (left_lane_y i) + the (right_lane_y i)) (Fin 2);
                  weight = pf_min 1 (pf_max 0 (pf_div (confidence - Fin (1 / 2)) (Fin (1 / 2))));
                  trim = weight * (lane_center - model_path_y i);
                  trim = pf_max (- max_trim) (pf_min max_trim trim)
              in \<lparr>blended_path_y = model_path_y i + trim, lane_confidence = confidence, lane_reasons = []\<rparr>)"

end
