(* ===== verification/AscentEvidence.thy ===== *)
theory AscentEvidence
  imports AscentGuards
begin

text \<open>
  The evidence of \<^verbatim>\<open>sunnypilot/selfdrive/ascent_v8\<close>: the debounced stop prediction
  (\<^verbatim>\<open>traffic_control_shadow.py\<close>), the bypass adviser (\<^verbatim>\<open>pass_adviser.py\<close>), the closed course gate and
  planner, the small policy modules, and the maintenance policy of \<^verbatim>\<open>sunnypilot/system/ascent_maintenance\<close>.
\<close>

section \<open>Stop evidence\<close>

record traffic_input =
  ti_enabled :: bool
  model_should_stop :: bool
  desired_accel :: pyfloat
  ti_ego_speed :: pyfloat
  model_path_length :: pyfloat
  model_terminal_speed :: pyfloat
  lead_probability :: pyfloat
  ti_lead_distance :: "pyfloat option"
  peak_curvature :: pyfloat
  ti_source_fresh :: bool
  ti_trajectory_valid :: bool

record traffic_evidence =
  model_stop_prediction :: bool
  raw_candidate :: bool
  te_confidence :: pyfloat
  te_reasons :: "string list"
  te_asserted_frames :: nat
  te_clear_frames :: nat

record traffic_shadow =
  asserted_frames :: nat
  clear_frames :: nat
  ts_active :: bool
  ts_confidence :: real

definition TrafficControlShadow :: traffic_shadow where
  "TrafficControlShadow = \<lparr>asserted_frames = 0, clear_frames = 0, ts_active = False, ts_confidence = 0\<rparr>"

definition traffic_vetoes :: "traffic_input \<Rightarrow> string list" where
  \<comment> \<open>the reasons before the intent of the model is read\<close>
  "traffic_vetoes i =
     (if \<not> list_all isfinite [desired_accel i, ti_ego_speed i, model_path_length i, model_terminal_speed i, lead_probability i, peak_curvature i]
      then [''nonfinite''] else []) @
     (if \<not> ti_source_fresh i then [''stale_sources''] else []) @
     (if \<not> ti_trajectory_valid i then [''trajectory_invalid''] else []) @
     (if ti_ego_speed i < Fin (1 / 2) then [''standstill''] else []) @
     (if ti_ego_speed i > Fin (335 / 10) then [''speed_veto''] else []) @
     (if peak_curvature i > Fin (45 / 1000) then [''curve_veto''] else [])"

definition stop_distance :: "traffic_input \<Rightarrow> pyfloat" where
  "stop_distance i = pf_max 0 (ti_ego_speed i) * Fin 6"

definition lead_relevant :: "traffic_input \<Rightarrow> bool" where
  "lead_relevant i \<longleftrightarrow>
     (case ti_lead_distance i of None \<Rightarrow> False | Some d \<Rightarrow> lead_probability i \<ge> Fin (1 / 2) \<and> d < stop_distance i + Fin 15)"

definition short_stopping_path :: "bool \<Rightarrow> traffic_input \<Rightarrow> bool" where
  \<comment> \<open>the flag: the prediction is active\<close>
  "short_stopping_path active i \<longleftrightarrow>
     model_path_length i < pf_max 0 (stop_distance i + (if active then Fin 4 else Fin (- 25 / 10))) \<and>
     model_terminal_speed i \<le> Fin 2 \<and> desired_accel i < Fin (- 1 / 10)"

definition stop_corroborated :: "bool \<Rightarrow> traffic_input \<Rightarrow> bool" where
  "stop_corroborated active i \<longleftrightarrow>
     model_should_stop i \<and> (desired_accel i < Fin (- 1 / 10) \<or> model_terminal_speed i \<le> Fin 2 \<or> short_stopping_path active i)"

definition model_intent :: "bool \<Rightarrow> traffic_input \<Rightarrow> bool" where
  "model_intent active i \<longleftrightarrow> stop_corroborated active i \<or> short_stopping_path active i"

definition hard_veto :: "traffic_input \<Rightarrow> bool" where
  \<comment> \<open>each of these reasons is in the list the code searches\<close>
  "hard_veto i \<longleftrightarrow> traffic_vetoes i \<noteq> [] \<or> lead_relevant i"

definition raw_stop_candidate :: "bool \<Rightarrow> traffic_input \<Rightarrow> bool" where
  "raw_stop_candidate active i \<longleftrightarrow> model_intent active i \<and> \<not> hard_veto i"

definition stop_confidence :: "bool \<Rightarrow> traffic_input \<Rightarrow> real" where
  "stop_confidence active i =
     55 / 100 + (if stop_corroborated active i then 25 / 100 else 0) + (if short_stopping_path active i then 1 / 10 else 0)
       + (if desired_accel i \<le> Fin (- 1 / 2) then 1 / 10 else 0)"

definition traffic_debounce :: "traffic_input \<Rightarrow> traffic_shadow \<Rightarrow> traffic_shadow" where
  "traffic_debounce i s =
     (if hard_veto i then s\<lparr>asserted_frames := 0, clear_frames := clear_frames s + 1, ts_active := False, ts_confidence := 0\<rparr>
      else if raw_stop_candidate (ts_active s) i then
        s\<lparr>asserted_frames := asserted_frames s + 1, clear_frames := 0, ts_active := ts_active s \<or> asserted_frames s + 1 \<ge> 7\<rparr>
      else
        let s = s\<lparr>asserted_frames := 0, clear_frames := clear_frames s + 1\<rparr>
        in if clear_frames s \<ge> 5 then s\<lparr>ts_active := False, ts_confidence := 0\<rparr> else s)"

definition traffic_update :: "traffic_input \<Rightarrow> traffic_shadow \<Rightarrow> traffic_evidence \<times> traffic_shadow" where
  "traffic_update i s =
     (if \<not> ti_enabled i then
        (\<lparr>model_stop_prediction = False, raw_candidate = False, te_confidence = 0, te_reasons = [''disabled''], te_asserted_frames = 0,
          te_clear_frames = 0\<rparr>, TrafficControlShadow)
      else
        let active = ts_active s; raw = raw_stop_candidate active i;
            reasons = traffic_vetoes i @ (if lead_relevant i then [''lead_veto''] else []) @
              (if \<not> model_intent active i then [if model_should_stop i then ''uncorroborated_should_stop'' else ''no_model_stop_intent''] else []);
            s = traffic_debounce i s;
            confidence = (if raw then stop_confidence active i else if ts_active s then ts_confidence s else 0);
            reasons = (if \<not> raw \<and> ts_active s then reasons @ [''debounce_hold''] else reasons);
            s = (if raw then s\<lparr>ts_confidence := min confidence 1\<rparr> else s)
        in (\<lparr>model_stop_prediction = ts_active s, raw_candidate = raw, te_confidence = Fin (min confidence 1), te_reasons = reasons,
             te_asserted_frames = asserted_frames s, te_clear_frames = clear_frames s\<rparr>, s))"

section \<open>Bypass adviser\<close>

record pass_input =
  pi_enabled :: bool
  pi_ego_speed :: pyfloat
  pi_lead_distance :: "pyfloat option"
  pi_lead_speed :: "pyfloat option"
  pi_left_space :: space_state
  left_adjacent_lane_geometry :: bool
  left_blinker :: bool
  pi_lane_confidence :: pyfloat
  pi_source_fresh :: bool
  pi_trajectory_valid :: bool

record pass_advice =
  left_lane_geometry_ready :: bool
  driver_left_lane_change_candidate :: bool
  pa_reasons :: "string list"
  pa_ready_frames :: nat

record pass_adviser =
  ready_frames :: nat
  pass_ready :: bool

definition PassAdviser :: pass_adviser where
  "PassAdviser = \<lparr>ready_frames = 0, pass_ready = False\<rparr>"

definition slow_lead :: "pass_input \<Rightarrow> bool" where
  "slow_lead i \<longleftrightarrow>
     (case (pi_lead_distance i, pi_lead_speed i) of
        (Some d, Some v) \<Rightarrow>
          isfinite d \<and> isfinite v \<and> 0 < d \<and> d < pf_max (Fin 35) (pi_ego_speed i * Fin 4) \<and> v \<le> pi_ego_speed i - Fin (15 / 10)
      | _ \<Rightarrow> False)"

definition pass_objections :: "pass_input \<Rightarrow> string list" where
  "pass_objections i =
     (if \<not> slow_lead i then [''no_slow_lead''] else []) @
     (if pi_ego_speed i < Fin (89 / 10) then [''below_lane_change_speed''] else []) @
     (if pi_left_space i \<noteq> SPACE_CLEAR then [''left_space_not_clear''] else []) @
     (if \<not> left_adjacent_lane_geometry i then [''left_adjacent_lane_geometry_unknown''] else []) @
     (if pi_lane_confidence i < Fin (55 / 100) then [''lane_confidence''] else []) @
     (if \<not> pi_source_fresh i then [''stale_sources''] else []) @
     (if \<not> pi_trajectory_valid i then [''trajectory_invalid''] else [])"

definition pass_update :: "pass_input \<Rightarrow> pass_adviser \<Rightarrow> pass_advice \<times> pass_adviser" where
  "pass_update i s =
     (if \<not> pi_enabled i then
        (\<lparr>left_lane_geometry_ready = False, driver_left_lane_change_candidate = False, pa_reasons = [''disabled''], pa_ready_frames = 0\<rparr>, PassAdviser)
      else
        let reasons = pass_objections i; raw_ready = (reasons = []);
            s = (if raw_ready then \<lparr>ready_frames = ready_frames s + 1, pass_ready = pass_ready s \<or> ready_frames s + 1 \<ge> 3\<rparr>
                 else PassAdviser)
        in (\<lparr>left_lane_geometry_ready = pass_ready s, driver_left_lane_change_candidate = pass_ready s \<and> raw_ready \<and> left_blinker i,
             pa_reasons = reasons, pa_ready_frames = ready_frames s\<rparr>, s))"

section \<open>Closed course\<close>

datatype gate_state = GATE_DISABLED | GATE_READY | GATE_BLOCKED

record lab_inputs =
  master_enabled :: bool
  exact_vehicle :: bool
  build_hash_ok :: bool
  geofence_ok :: bool
  gps_fresh :: bool
  laptop_heartbeat_fresh :: bool
  estop_healthy :: bool
  panda_state_valid :: bool
  vehicle_fault_free :: bool
  model_fresh :: bool
  occupancy_known :: bool
  speed_within_phase :: bool
  update_in_progress :: bool

definition lab_checks :: "lab_inputs \<Rightarrow> (string \<times> bool) list" where
  "lab_checks i =
     [(''wrong_vehicle'', exact_vehicle i), (''wrong_build'', build_hash_ok i), (''outside_geofence'', geofence_ok i),
      (''gps_stale'', gps_fresh i), (''laptop_heartbeat_lost'', laptop_heartbeat_fresh i), (''estop_unhealthy'', estop_healthy i),
      (''panda_invalid'', panda_state_valid i), (''vehicle_fault'', vehicle_fault_free i), (''model_stale'', model_fresh i),
      (''occupancy_unknown'', occupancy_known i), (''phase_speed_exceeded'', speed_within_phase i),
      (''update_in_progress'', \<not> update_in_progress i)]"

definition lab_evaluate :: "lab_inputs \<Rightarrow> gate_state \<times> string list" where
  "lab_evaluate i =
     (if \<not> master_enabled i then (GATE_DISABLED, [''master_disabled''])
      else let reasons = map fst (filter (\<lambda>(name, passed). \<not> passed) (lab_checks i))
           in (if reasons \<noteq> [] then GATE_BLOCKED else GATE_READY, reasons))"

datatype planner_action = PA_HOLD | PA_PASS_CANDIDATE | PA_RETURN_CANDIDATE | PA_STOP_CANDIDATE

record course_inputs =
  lab_gate :: "gate_state \<times> string list"
  target_space :: space_state
  lead_present :: bool
  ci_slow_lead :: bool
  driver_lane_change_requested :: bool
  pass_complete :: bool
  traffic_control_stop :: bool
  blind_spot_fresh_occupied :: bool
  ci_road_edge :: bool

definition course_evaluate :: "course_inputs \<Rightarrow> planner_action \<times> string list \<times> bool" where
  \<comment> \<open>the action, the reasons, and whether a simulation is requested\<close>
  "course_evaluate i =
     (let reasons = (if fst (lab_gate i) \<noteq> GATE_READY then [''lab_gate_blocked''] else []) @
            (if target_space i \<noteq> SPACE_CLEAR then [''target_space_not_clear''] else []) @
            (if blind_spot_fresh_occupied i then [''blind_spot''] else []) @ (if ci_road_edge i then [''road_edge''] else [])
      in if reasons \<noteq> [] then (PA_HOLD, reasons, False)
         else if traffic_control_stop i then (PA_STOP_CANDIDATE, [], True)
         else if pass_complete i then (PA_RETURN_CANDIDATE, [], True)
         else if lead_present i \<and> ci_slow_lead i \<and> driver_lane_change_requested i then (PA_PASS_CANDIDATE, [], True)
         else (PA_HOLD, [''no_candidate''], False))"

section \<open>Evidence for the longitudinal workbench and for speed limits\<close>

record direct_long_evidence =
  exact_firmware_allowed :: bool
  pre_engine_disable_confirmed :: bool
  crank_survival_confirmed :: bool
  replacement_messages_validated :: bool
  actuation_api_characterized :: bool
  speed_dependent_long_safety_passed :: bool
  longitudinal_maneuver_report_passed :: bool
  panda_long_tests_passed :: bool

definition panda_long_ready :: "direct_long_evidence \<Rightarrow> bool" where
  "panda_long_ready e \<longleftrightarrow>
     exact_firmware_allowed e \<and> pre_engine_disable_confirmed e \<and> crank_survival_confirmed e \<and> replacement_messages_validated e \<and>
     actuation_api_characterized e \<and> speed_dependent_long_safety_passed e \<and> longitudinal_maneuver_report_passed e \<and> panda_long_tests_passed e"

record envelope_point =
  ep_speed :: real
  ep_gas_max :: real
  ep_brake_max :: real
  ep_rpm_max :: real

fun points_valid :: "envelope_point option \<Rightarrow> envelope_point list \<Rightarrow> bool" where
  "points_valid previous [] \<longleftrightarrow> True"
| "points_valid previous (p # ps) \<longleftrightarrow>
     \<not> min (min (min (ep_speed p) (ep_gas_max p)) (ep_brake_max p)) (ep_rpm_max p) < 0 \<and>
     (case previous of None \<Rightarrow> True | Some q \<Rightarrow> \<not> ep_speed p \<le> ep_speed q) \<and> points_valid (Some p) ps"

definition structurally_valid :: "envelope_point list \<Rightarrow> bool" where
  \<comment> \<open>the constructor sorts the points by speed\<close>
  "structurally_valid points = (let ps = sort_key ep_speed points in \<not> length ps < 2 \<and> points_valid None ps)"

record speed_limit_evidence =
  sle_way_id :: int
  sle_speed :: real
  sle_lat :: real
  sle_lon :: real
  sle_heading :: real
  sle_confidence :: real

definition speed_limit_evidence_valid :: "speed_limit_evidence \<Rightarrow> bool" where
  "speed_limit_evidence_valid e \<longleftrightarrow>
     sle_way_id e > 0 \<and> sle_speed e \<ge> 1 \<and> - 90 \<le> sle_lat e \<and> sle_lat e \<le> 90 \<and> - 180 \<le> sle_lon e \<and> sle_lon e \<le> 180 \<and>
     0 \<le> sle_heading e \<and> sle_heading e < 360 \<and> 0 \<le> sle_confidence e \<and> sle_confidence e \<le> 1"

definition same_way_for_revalidation :: "int \<Rightarrow> int \<Rightarrow> bool" where
  "same_way_for_revalidation saved returned \<longleftrightarrow> saved > 0 \<and> saved = returned"

section \<open>Maintenance policy\<close>

record vehicle_gate_inputs =
  vg_is_offroad :: bool
  vg_is_engaged :: bool
  vg_controls_ready :: bool

definition evaluate_mutation_gate :: "vehicle_gate_inputs \<Rightarrow> bool \<times> string list" where
  "evaluate_mutation_gate i =
     (let reasons = (if \<not> vg_is_offroad i then [''vehicle_not_offroad''] else []) @ (if vg_is_engaged i then [''controls_engaged''] else []) @
            (if vg_controls_ready i then [''controls_ready''] else [])
      in (reasons = [], reasons))"

lemma points_valid_sorted:
  "points_valid (Some q) ps \<longleftrightarrow>
     list_all (\<lambda>p. 0 \<le> ep_speed p \<and> 0 \<le> ep_gas_max p \<and> 0 \<le> ep_brake_max p \<and> 0 \<le> ep_rpm_max p) ps \<and> sorted_wrt (\<lambda>p q. ep_speed p < ep_speed q) (q # ps)"
proof (induction ps arbitrary: q)
  case (Cons p ps)
  then show ?case by (auto simp: list_all_iff not_less not_le intro: less_trans)
qed simp

end
