(* ===== verification/AscentShadow.thy ===== *)
theory AscentShadow
  imports AscentEvidence
begin

text \<open>
  \<^verbatim>\<open>sunnypilot/selfdrive/ascent_v8/shadowd.py\<close>: one evaluation of all guards on the messages of a frame,
  the telemetry that counts the results, and one pass of the daemon's loop; and the recorder of
  calibration samples (\<^verbatim>\<open>calibration_recorder.py\<close>), whose directory is a list of files. The messages are
  records of what the code reads. The car parameters of opendbc are an argument.
\<close>

section \<open>Messages\<close>

record lead_message =
  ld_prob :: pyfloat
  ld_x :: "pyfloat list"
  ld_v :: "pyfloat list"

record radar_lead =
  rl_status :: bool
  rl_dRel :: pyfloat
  rl_vLead :: pyfloat
  rl_vRel :: pyfloat

record shadow_model =
  sm_x :: "pyfloat list"
  sm_y :: "pyfloat list"
  sm_t :: "pyfloat list"
  sm_velocity :: "pyfloat list"
  sm_acceleration :: "pyfloat list"
  sm_yaw_rates :: "pyfloat list"
  sm_road_edge_stds :: "pyfloat list"
  sm_road_edges :: "pyfloat list list"
  sm_lane_lines :: "pyfloat list list"
  sm_lane_probs :: "pyfloat list"
  sm_leads :: "lead_message list"
  sm_desired_accel :: pyfloat
  sm_desired_curvature :: pyfloat
  sm_should_stop :: bool
  sm_frame_id :: nat
  sm_big :: bool

record shadow_car =
  sc_vEgo :: pyfloat
  sc_aEgo :: pyfloat
  sc_leftBlindspot :: bool
  sc_rightBlindspot :: bool
  sc_leftBlinker :: bool

record shadow_controls =
  sco_curvature :: pyfloat
  sco_saturated :: bool

record shadow_input =
  si_car :: shadow_car
  si_model :: shadow_model
  si_controls :: "shadow_controls option"
  si_lat_active :: "bool option"  \<comment> \<open>\<open>latActive\<close> of the car control, if it is valid\<close>
  si_radar :: "radar_lead option"
  si_model_age :: pyfloat
  si_car_age :: pyfloat
  si_controls_age :: pyfloat
  si_radar_age :: pyfloat
  si_traffic_enabled :: bool
  si_pass_enabled :: bool

section \<open>Helpers\<close>

abbreviation SOURCE_FRESH_S :: pyfloat where "SOURCE_FRESH_S \<equiv> Fin (1 / 2)"

definition value_at :: "pyfloat list \<Rightarrow> nat \<Rightarrow> pyfloat \<Rightarrow> pyfloat" where
  "value_at values index d = (if index < length values then values ! index else d)"

definition first_of :: "pyfloat list list \<Rightarrow> nat \<Rightarrow> nat \<Rightarrow> pyfloat option" where
  \<comment> \<open>the first value of the line with the index, if there are more lines than \<open>least\<close>\<close>
  "first_of lines least index = (if length lines > least \<and> lines ! index \<noteq> [] then Some (hd (lines ! index)) else None)"

definition finite_or_none :: "pyfloat \<Rightarrow> pyfloat option" where
  "finite_or_none v = (if isfinite v then Some v else None)"

definition observe_lead :: "lead_message \<Rightarrow> pyfloat \<times> pyfloat option \<times> pyfloat option \<Rightarrow> pyfloat \<times> pyfloat option \<times> pyfloat option" where
  "observe_lead l st =
     (case st of (probability, closest, closest_speed) \<Rightarrow>
        if \<not> isfinite (ld_prob l) then st
        else let probability = pf_max probability (ld_prob l)
             in if ld_prob l < Fin (1 / 2) \<or> ld_x l = [] then (probability, closest, closest_speed)
                else let distance = hd (ld_x l)
                     in if isfinite distance \<and> distance > 0 \<and> (case closest of None \<Rightarrow> True | Some c \<Rightarrow> distance < c)
                        then (probability, Some distance, finite_or_none (if ld_v l \<noteq> [] then hd (ld_v l) else NaN))
                        else (probability, closest, closest_speed))"

definition observe_radar :: "pyfloat \<Rightarrow> radar_lead option \<Rightarrow> pyfloat \<times> pyfloat option \<times> pyfloat option \<Rightarrow> pyfloat \<times> pyfloat option \<times> pyfloat option" where
  "observe_radar v_ego radar st =
     (case radar of
        None \<Rightarrow> st
      | Some r \<Rightarrow>
          (case st of (probability, closest, closest_speed) \<Rightarrow>
             if \<not> rl_status r then st
             else let velocity = (if isfinite (rl_vLead r) then rl_vLead r
                                  else if isfinite (rl_vRel r) then v_ego + rl_vRel r else NaN)
                  in if isfinite (rl_dRel r) \<and> rl_dRel r > 0 \<and> (case closest of None \<Rightarrow> True | Some c \<Rightarrow> rl_dRel r < c)
                     then (1, Some (rl_dRel r), finite_or_none velocity) else st))"

definition lead_observation :: "lead_message list \<Rightarrow> pyfloat \<Rightarrow> radar_lead option \<Rightarrow> pyfloat \<times> pyfloat option \<times> pyfloat option \<times> bool" where
  "lead_observation leads v_ego radar =
     (let (probability, closest, closest_speed) = observe_radar v_ego radar (fold observe_lead leads (0, None, None));
          close_horizon = pf_max (Fin 10) (pf_max 0 v_ego * Fin 3)
      in (probability, closest, closest_speed, case closest of None \<Rightarrow> False | Some c \<Rightarrow> c \<le> close_horizon))"

definition message_age :: "int \<Rightarrow> int \<Rightarrow> pyfloat" where
  "message_age now_ns log_mono_time = (if log_mono_time > 0 then pf_max 0 (Fin (of_int (now_ns - log_mono_time) / 1000000000)) else PInf)"

definition adjacent_lane_available :: "pyfloat option \<Rightarrow> pyfloat option \<Rightarrow> pyfloat \<Rightarrow> pyfloat \<Rightarrow> bool" where
  "adjacent_lane_available inner outer inner_prob outer_prob \<longleftrightarrow>
     (case (inner, outer) of
        (Some a, Some b) \<Rightarrow>
          isfinite a \<and> isfinite b \<and> inner_prob \<ge> Fin (1 / 2) \<and> outer_prob \<ge> Fin (1 / 2) \<and>
          Fin (25 / 10) \<le> \<bar>b - a\<bar> \<and> \<bar>b - a\<bar> \<le> Fin (48 / 10)
      | _ \<Rightarrow> False)"

section \<open>One evaluation\<close>

definition shadow_count :: "shadow_model \<Rightarrow> nat" where
  "shadow_count m = min (min (min (length (sm_x m)) (length (sm_y m))) (length (sm_velocity m))) (length (sm_acceleration m))"

definition shadow_curvature :: "shadow_model \<Rightarrow> nat \<Rightarrow> pyfloat" where
  "shadow_curvature m i =
     (let yaw = value_at (sm_yaw_rates m) i NaN; v = sm_velocity m ! i
      in if \<not> isfinite yaw \<or> \<not> isfinite v then NaN else if \<bar>v\<bar> > Fin (1 / 2) then pf_div yaw v else 0)"

definition shadow_points :: "shadow_model \<Rightarrow> trajectory_point list" where
  "shadow_points m =
     map (\<lambda>i. \<lparr>tp_t = value_at (sm_t m) i NaN, tp_x = sm_x m ! i, tp_y = sm_y m ! i, tp_v = sm_velocity m ! i,
               tp_a = sm_acceleration m ! i, tp_curvature = shadow_curvature m i\<rparr>) [0..<shadow_count m]"

definition edge_y :: "shadow_model \<Rightarrow> nat \<Rightarrow> pyfloat" where
  "edge_y m i = (if i < length (sm_road_edges m) \<and> sm_road_edges m ! i \<noteq> [] then hd (sm_road_edges m ! i) else NaN)"

definition edge_near :: "shadow_model \<Rightarrow> nat \<Rightarrow> bool" where
  "edge_near m i \<longleftrightarrow> isfinite (edge_y m i) \<and> \<bar>edge_y m i\<bar> < Fin (15 / 10)"

definition edge_geometry_present :: "shadow_model \<Rightarrow> bool" where
  "edge_geometry_present m \<longleftrightarrow> isfinite (edge_y m 0) \<and> isfinite (edge_y m 1)"

definition edge_confident :: "shadow_model \<Rightarrow> bool" where
  "edge_confident m \<longleftrightarrow>
     (case sm_road_edge_stds m of
        a # b # _ \<Rightarrow> isfinite a \<and> isfinite b \<and> pf_max a b < Fin (7 / 10)
      | _ \<Rightarrow> False)"

definition shadow_road_clear :: "shadow_model \<Rightarrow> bool" where
  "shadow_road_clear m \<longleftrightarrow> edge_geometry_present m \<and> edge_confident m \<and> \<not> (edge_near m 0 \<or> edge_near m 1)"

definition shadow_space :: "shadow_input \<Rightarrow> bool \<Rightarrow> space_state" where
  \<comment> \<open>the space around the car, given whether an object is close\<close>
  "shadow_space i close =
     (let m = si_model i; c = si_car i
      in classify_space (Fin (6 / 10))
           \<lparr>visible_recently = edge_geometry_present m, object_present = close,
            bsm_occupied = Some (sc_leftBlindspot c \<or> sc_rightBlindspot c), bsm_fresh = si_car_age i \<le> SOURCE_FRESH_S,
            road_edge = edge_near m 0 \<or> edge_near m 1, contradictory = False, age_s = pf_max (si_model_age i) (si_car_age i)\<rparr>)"

definition shadow_side_space :: "shadow_input \<Rightarrow> bool \<Rightarrow> nat \<Rightarrow> space_state" where
  \<comment> \<open>one side: its blind spot and its road edge\<close>
  "shadow_side_space i blindspot side =
     classify_space (Fin (6 / 10))
       \<lparr>visible_recently = edge_geometry_present (si_model i), object_present = False, bsm_occupied = Some blindspot,
        bsm_fresh = si_car_age i \<le> SOURCE_FRESH_S, road_edge = edge_near (si_model i) side, contradictory = False,
        age_s = pf_max (si_model_age i) (si_car_age i)\<rparr>"

definition shadow_lane :: "shadow_input \<Rightarrow> lane_position_result" where
  "shadow_lane i =
     (let m = si_model i; y = sm_y m
      in lane_position (Fin (1 / 2)) (Fin (35 / 100))
           \<lparr>model_path_y = (if y \<noteq> [] \<and> isfinite (hd y) then hd y else 0), left_lane_y = first_of (sm_lane_lines m) 2 1,
            right_lane_y = first_of (sm_lane_lines m) 2 2, left_lane_probability = value_at (sm_lane_probs m) 1 0,
            right_lane_probability = value_at (sm_lane_probs m) 2 0, road_edge_clear = shadow_road_clear m, source_age = si_model_age i\<rparr>)"

definition shadow_left_adjacent :: "shadow_model \<Rightarrow> bool" where
  "shadow_left_adjacent m =
     adjacent_lane_available (first_of (sm_lane_lines m) 2 1) (first_of (sm_lane_lines m) 3 0) (value_at (sm_lane_probs m) 1 0)
       (value_at (sm_lane_probs m) 0 0)"

definition shadow_right_adjacent :: "shadow_model \<Rightarrow> bool" where
  "shadow_right_adjacent m =
     adjacent_lane_available (first_of (sm_lane_lines m) 2 2) (first_of (sm_lane_lines m) 3 3) (value_at (sm_lane_probs m) 2 0)
       (value_at (sm_lane_probs m) 3 0)"

definition shadow_sources_fresh :: "shadow_input \<Rightarrow> bool" where
  "shadow_sources_fresh i \<longleftrightarrow> pf_max (pf_max (si_model_age i) (si_car_age i)) (si_controls_age i) \<le> SOURCE_FRESH_S"

definition shadow_trajectory :: "shadow_input \<Rightarrow> space_state \<Rightarrow> trajectory_verdict \<times> string list" where
  "shadow_trajectory i space =
     supervisor_evaluate SupervisorLimits (shadow_points (si_model i)) (shadow_road_clear (si_model i)) (trajectory_allowed [space])
       (shadow_sources_fresh i)"

definition geometry_valid :: "trajectory_verdict \<times> string list \<Rightarrow> bool" where
  "geometry_valid tr \<longleftrightarrow> fst tr = TV_VALID \<or> fst tr = TV_FALLBACK_REQUIRED \<and> set (snd tr) = {''occupancy_not_clear''}"

definition shadow_envelope :: "shadow_input \<Rightarrow> curve_envelope \<Rightarrow> curve_envelope" where
  "shadow_envelope i c =
     (let controls = si_controls i;
          curvature = (case controls of None \<Rightarrow> 0 | Some s \<Rightarrow> sco_curvature s);
          lateral = \<bar>curvature\<bar> * (sc_vEgo (si_car i) * sc_vEgo (si_car i))
      in observe_controller (si_lat_active i = Some True) (case controls of None \<Rightarrow> False | Some s \<Rightarrow> sco_saturated s) lateral
           (shadow_sources_fresh i) c)"

definition shadow_peak_curvature :: "shadow_model \<Rightarrow> pyfloat" where
  "shadow_peak_curvature m = pf_max_list 0 (map abs (filter isfinite (map (shadow_curvature m) [0..<shadow_count m])))"

definition predicted_lateral :: "shadow_model \<Rightarrow> pyfloat" where
  "predicted_lateral m =
     pf_max_list 0 (map (\<lambda>i. \<bar>shadow_curvature m i\<bar> * (sm_velocity m ! i * sm_velocity m ! i))
       (filter (\<lambda>i. isfinite (shadow_curvature m i) \<and> isfinite (sm_velocity m ! i)) [0..<shadow_count m]))"

definition shadow_guard :: "shadow_input \<Rightarrow> guard_output" where
  "shadow_guard i =
     guard_project \<lparr>candidate_accel = sm_desired_accel (si_model i), candidate_curvature = sm_desired_curvature (si_model i),
       actual_accel = sc_aEgo (si_car i), speed_limit_accel_cap = None, collision_accel_cap = None, red_light_accel_cap = None,
       curvature_abs_cap = Some (max_abs_curvature SupervisorLimits)\<rparr>"

definition shadow_path_length :: "shadow_model \<Rightarrow> pyfloat" where
  "shadow_path_length m = (let xs = filter isfinite (sm_x m) in if length xs \<ge> 2 then pf_max 0 (last xs - hd xs) else NaN)"

definition shadow_terminal_speed :: "shadow_model \<Rightarrow> pyfloat" where
  "shadow_terminal_speed m = (let vs = filter isfinite (sm_velocity m) in if vs \<noteq> [] then last vs else NaN)"

record shadow_state =
  sh_envelope :: curve_envelope
  sh_traffic :: traffic_shadow
  sh_pass :: pass_adviser

definition shadow_init :: shadow_state where
  "shadow_init = \<lparr>sh_envelope = CurveEnvelope, sh_traffic = TrafficControlShadow, sh_pass = PassAdviser\<rparr>"

record shadow_result =
  sr_can_actuate :: bool
  sr_frame_id :: nat
  sr_big :: bool
  sr_source_fresh :: bool
  sr_space :: space_state
  sr_left_space :: space_state
  sr_right_space :: space_state
  sr_left_adjacent :: bool
  sr_right_adjacent :: bool
  sr_lead_probability :: pyfloat
  sr_lead_distance :: "pyfloat option"
  sr_lead_speed :: "pyfloat option"
  sr_trajectory :: "trajectory_verdict \<times> string list"
  sr_lane :: lane_position_result
  sr_peak_curvature :: pyfloat
  sr_predicted_lateral :: pyfloat
  sr_curve_capability :: real
  sr_curve_target :: "real option"
  sr_guard :: guard_output
  sr_traffic :: traffic_evidence
  sr_traffic_enabled :: bool
  sr_path_length :: pyfloat
  sr_terminal_speed :: pyfloat
  sr_pass :: pass_advice
  sr_pass_enabled :: bool

definition shadow_traffic_input :: "shadow_input \<Rightarrow> traffic_input" where
  "shadow_traffic_input i =
     (let (prob, distance, _, close) = lead_observation (sm_leads (si_model i)) (sc_vEgo (si_car i)) (si_radar i)
      in \<lparr>ti_enabled = si_traffic_enabled i, model_should_stop = sm_should_stop (si_model i), desired_accel = sm_desired_accel (si_model i),
          ti_ego_speed = sc_vEgo (si_car i), model_path_length = shadow_path_length (si_model i),
          model_terminal_speed = shadow_terminal_speed (si_model i), lead_probability = prob, ti_lead_distance = distance,
          peak_curvature = shadow_peak_curvature (si_model i), ti_source_fresh = shadow_sources_fresh i,
          ti_trajectory_valid = geometry_valid (shadow_trajectory i (shadow_space i close))\<rparr>)"

definition shadow_pass_input :: "shadow_input \<Rightarrow> pass_input" where
  "shadow_pass_input i =
     (let (_, distance, speed, close) = lead_observation (sm_leads (si_model i)) (sc_vEgo (si_car i)) (si_radar i);
          lead_fresh = (si_model_age i \<le> SOURCE_FRESH_S \<and> (si_radar i = None \<or> si_radar_age i \<le> SOURCE_FRESH_S))
      in \<lparr>pi_enabled = si_pass_enabled i, pi_ego_speed = sc_vEgo (si_car i), pi_lead_distance = distance, pi_lead_speed = speed,
          pi_left_space = shadow_side_space i (sc_leftBlindspot (si_car i)) 0, left_adjacent_lane_geometry = shadow_left_adjacent (si_model i),
          left_blinker = sc_leftBlinker (si_car i), pi_lane_confidence = lane_confidence (shadow_lane i),
          pi_source_fresh = shadow_sources_fresh i \<and> lead_fresh,
          pi_trajectory_valid = geometry_valid (shadow_trajectory i (shadow_space i close))\<rparr>)"

definition evaluate_shadow :: "shadow_input \<Rightarrow> shadow_state \<Rightarrow> shadow_result \<times> shadow_state" where
  "evaluate_shadow i s =
     (let m = si_model i;
          (prob, distance, speed, close) = lead_observation (sm_leads m) (sc_vEgo (si_car i)) (si_radar i);
          space = shadow_space i close;
          envelope = shadow_envelope i (sh_envelope s);
          peak = shadow_peak_curvature m;
          (traffic, ts) = traffic_update (shadow_traffic_input i) (sh_traffic s);
          (advice, pass) = pass_update (shadow_pass_input i) (sh_pass s)
      in (\<lparr>sr_can_actuate = False, sr_frame_id = sm_frame_id m, sr_big = sm_big m, sr_source_fresh = shadow_sources_fresh i,
           sr_space = space, sr_left_space = shadow_side_space i (sc_leftBlindspot (si_car i)) 0,
           sr_right_space = shadow_side_space i (sc_rightBlindspot (si_car i)) 1, sr_left_adjacent = shadow_left_adjacent m,
           sr_right_adjacent = shadow_right_adjacent m, sr_lead_probability = prob, sr_lead_distance = distance, sr_lead_speed = speed,
           sr_trajectory = shadow_trajectory i space, sr_lane = shadow_lane i, sr_peak_curvature = peak,
           sr_predicted_lateral = predicted_lateral m, sr_curve_capability = steering_capability envelope,
           sr_curve_target = curve_target_speed peak CP_AUTO envelope, sr_guard = shadow_guard i, sr_traffic = traffic,
           sr_traffic_enabled = si_traffic_enabled i, sr_path_length = shadow_path_length m, sr_terminal_speed = shadow_terminal_speed m,
           sr_pass = advice, sr_pass_enabled = si_pass_enabled i\<rparr>,
          \<lparr>sh_envelope = envelope, sh_traffic = ts, sh_pass = pass\<rparr>))"

section \<open>Telemetry\<close>

record shadow_telemetry =
  st_evaluations :: nat
  st_errors :: nat
  st_trajectory_counts :: "trajectory_verdict \<Rightarrow> nat"
  st_space_counts :: "space_state \<Rightarrow> nat"
  st_reason_counts :: "string \<Rightarrow> nat"
  st_stop_predictions :: nat
  st_stop_candidates :: nat
  st_ready_samples :: nat
  st_driver_candidates :: nat
  st_last :: "shadow_result option"
  st_last_error :: "string option"

definition ShadowTelemetry :: shadow_telemetry where
  "ShadowTelemetry =
     \<lparr>st_evaluations = 0, st_errors = 0, st_trajectory_counts = (\<lambda>_. 0), st_space_counts = (\<lambda>_. 0), st_reason_counts = (\<lambda>_. 0),
      st_stop_predictions = 0, st_stop_candidates = 0, st_ready_samples = 0, st_driver_candidates = 0, st_last = None, st_last_error = None\<rparr>"

definition count_one :: "'a \<Rightarrow> ('a \<Rightarrow> nat) \<Rightarrow> 'a \<Rightarrow> nat" where
  "count_one x c = c(x := c x + 1)"

definition result_reasons :: "shadow_result \<Rightarrow> string list" where
  "result_reasons r =
     snd (sr_trajectory r) @ lane_reasons (sr_lane r) @ guard_reasons (sr_guard r) @ te_reasons (sr_traffic r) @ pa_reasons (sr_pass r)"

definition telemetry_observe :: "shadow_result \<Rightarrow> shadow_telemetry \<Rightarrow> shadow_telemetry" where
  "telemetry_observe r t =
     t\<lparr>st_evaluations := st_evaluations t + 1, st_trajectory_counts := count_one (fst (sr_trajectory r)) (st_trajectory_counts t),
       st_space_counts := count_one (sr_space r) (st_space_counts t), st_reason_counts := fold count_one (result_reasons r) (st_reason_counts t),
       st_stop_predictions := st_stop_predictions t + of_bool (model_stop_prediction (sr_traffic r)),
       st_stop_candidates := st_stop_candidates t + of_bool (raw_candidate (sr_traffic r)),
       st_ready_samples := st_ready_samples t + of_bool (left_lane_geometry_ready (sr_pass r)),
       st_driver_candidates := st_driver_candidates t + of_bool (driver_left_lane_change_candidate (sr_pass r)), st_last := Some r\<rparr>"

definition telemetry_observe_error :: "string \<Rightarrow> shadow_telemetry \<Rightarrow> shadow_telemetry" where
  "telemetry_observe_error text t = t\<lparr>st_errors := st_errors t + 1, st_last_error := Some (take 240 text)\<rparr>"

section \<open>Calibration recorder\<close>

record calibration_file =
  cf_name :: string
  cf_mtime :: int
  cf_lines :: "string list"

definition cf_size :: "calibration_file \<Rightarrow> nat" where
  \<comment> \<open>every line ends with a newline\<close>
  "cf_size f = sum_list (map (\<lambda>l. length l + 1) (cf_lines f))"

record calibration_recorder =
  cr_route :: string
  cr_path :: "string option"
  cr_samples :: nat
  cr_last_record :: int
  cr_last_status :: int
  cr_files :: "calibration_file list"
  cr_viewed :: "string list"  \<comment> \<open>the parameter \<open>AthenadRecentlyViewedRoutes\<close>\<close>

abbreviation (input) MAX_FILES :: nat where "MAX_FILES \<equiv> 8"
abbreviation (input) MAX_TOTAL_BYTES :: nat where "MAX_TOTAL_BYTES \<equiv> 256 * 1024 * 1024"
abbreviation (input) RECORD_INTERVAL_NS :: int where "RECORD_INTERVAL_NS \<equiv> 100000000"
abbreviation (input) STATUS_INTERVAL_NS :: int where "STATUS_INTERVAL_NS \<equiv> 1000000000"

definition CalibrationRecorder :: "calibration_file list \<Rightarrow> string list \<Rightarrow> calibration_recorder" where
  "CalibrationRecorder files viewed =
     \<lparr>cr_route = [], cr_path = None, cr_samples = 0, cr_last_record = 0, cr_last_status = - STATUS_INTERVAL_NS, cr_files = files, cr_viewed = viewed\<rparr>"

definition mark_route_for_upload :: "string \<Rightarrow> calibration_recorder \<Rightarrow> calibration_recorder" where
  "mark_route_for_upload route c =
     (if route = ''route-starting'' \<or> route \<in> set (cr_viewed c) then c
      else let routes = cr_viewed c @ [route] in c\<lparr>cr_viewed := drop (length routes - 10) routes\<rparr>)"

fun prune_from :: "nat \<Rightarrow> nat \<Rightarrow> calibration_file list \<Rightarrow> calibration_file list" where
  \<comment> \<open>index and bytes so far, files from the newest to the oldest\<close>
  "prune_from index used [] = []"
| "prune_from index used (f # fs) =
     (let used = used + cf_size f; rest = prune_from (index + 1) used fs
      in if index \<ge> MAX_FILES \<or> (index > 0 \<and> used > MAX_TOTAL_BYTES) then rest else f # rest)"

definition prune :: "calibration_file list \<Rightarrow> calibration_file list" where
  "prune files = prune_from 0 0 (sort_key (\<lambda>f. - cf_mtime f) files)"

definition safe_char :: "char \<Rightarrow> bool" where
  "safe_char c \<longleftrightarrow>
     (let n = of_char c :: nat
      in (65 \<le> n \<and> n \<le> 90) \<or> (97 \<le> n \<and> n \<le> 122) \<or> (48 \<le> n \<and> n \<le> 57) \<or> c \<in> {CHR ''_'', CHR ''.'', CHR ''-''})"

definition route_file :: "string \<Rightarrow> string" where
  "route_file route = take 120 (map (\<lambda>c. if safe_char c then c else CHR ''_'') route) @ ''.jsonl''"

definition append_line :: "string \<Rightarrow> string \<Rightarrow> int \<Rightarrow> calibration_file list \<Rightarrow> calibration_file list" where
  \<comment> \<open>a write in mode \<open>a\<close>, which makes the file if there is none\<close>
  "append_line name l now files =
     (if list_ex (\<lambda>f. cf_name f = name) files
      then map (\<lambda>f. if cf_name f = name then f\<lparr>cf_lines := cf_lines f @ [l], cf_mtime := now\<rparr> else f) files
      else files @ [\<lparr>cf_name = name, cf_mtime = now, cf_lines = [l]\<rparr>])"

definition open_route :: "(string \<Rightarrow> string) \<Rightarrow> string \<Rightarrow> int \<Rightarrow> calibration_recorder \<Rightarrow> calibration_recorder" where
  \<comment> \<open>the header line of a route and the parameter \<open>CurrentRoute\<close>, which may be empty\<close>
  "open_route header current now c =
     (let route = (if current = [] then ''route-starting'' else current)
      in if route = cr_route c \<and> cr_path c \<noteq> None then c
         else let name = route_file route;
                  c = c\<lparr>cr_route := route, cr_path := Some name\<rparr>;
                  c = (if list_ex (\<lambda>f. cf_name f = name) (cr_files c) then c
                       else c\<lparr>cr_files := append_line name (header route) now (cr_files c)\<rparr>);
                  c = mark_route_for_upload route c
              in c\<lparr>cr_files := prune (cr_files c), cr_last_record := now - RECORD_INTERVAL_NS\<rparr>)"

definition record_sample :: "(string \<Rightarrow> string) \<Rightarrow> string \<Rightarrow> string \<Rightarrow> int \<Rightarrow> calibration_recorder \<Rightarrow> bool \<times> calibration_recorder" where
  "record_sample header current sample now c =
     (let c = open_route header current now c
      in case cr_path c of
           None \<Rightarrow> (False, c)
         | Some name \<Rightarrow>
             if now - cr_last_record c < RECORD_INTERVAL_NS then (False, c)
             else let c = c\<lparr>cr_files := append_line name sample now (cr_files c), cr_samples := cr_samples c + 1, cr_last_record := now\<rparr>
                  in (True, if now - cr_last_status c \<ge> STATUS_INTERVAL_NS then c\<lparr>cr_last_status := now\<rparr> else c))"

record subaru_params =
  sp_throttle :: "int \<times> int \<times> int"  \<comment> \<open>inactive, least, greatest\<close>
  sp_rpm :: "int \<times> int"
  sp_brake :: "int \<times> int"
  sp_throttle_lookup :: "(real \<times> real) \<times> (real \<times> real)"
  sp_rpm_lookup :: "(real \<times> real) \<times> (real \<times> real)"
  sp_brake_lookup :: "(real \<times> real) \<times> (real \<times> real)"

definition interpolate2 :: "real \<Rightarrow> (real \<times> real) \<times> (real \<times> real) \<Rightarrow> real" where
  "interpolate2 value t =
     (case t of ((x0, y0), (x1, y1)) \<Rightarrow>
        if value \<le> x0 then y0 else if value \<ge> x1 then y1 else y0 + (value - x0) * (y1 - y0) / (x1 - x0))"

definition subaru_longitudinal_command :: "subaru_params \<Rightarrow> real \<Rightarrow> bool \<Rightarrow> int \<times> int \<times> int" where
  \<comment> \<open>throttle, rpm and brake; the values of the car are parameters\<close>
  "subaru_longitudinal_command p accel long_active =
     (case sp_throttle p of (inactive, tmin, tmax) \<Rightarrow>
        if \<not> long_active then (inactive, fst (sp_rpm p), fst (sp_brake p))
        else (max tmin (min tmax (py_round (interpolate2 accel (sp_throttle_lookup p)))),
              max (fst (sp_rpm p)) (min (snd (sp_rpm p)) (py_round (interpolate2 accel (sp_rpm_lookup p)))),
              max (fst (sp_brake p)) (min (snd (sp_brake p)) (py_round (interpolate2 accel (sp_brake_lookup p))))))"

end
