(* ===== verification/AscentFacts.thy ===== *)
theory AscentFacts
  imports AscentShadow
begin

text \<open>
  What the Ascent guards promise: which trajectories the supervisor accepts, what stands behind a stop
  prediction and a bypass candidate over the whole history of the daemon, the lateral acceleration of
  a curve speed, and what a cap that is no number does to the command guard.
\<close>

section \<open>Accepted trajectories\<close>

definition point_ok :: "trajectory_point \<Rightarrow> bool" where
  "point_ok p \<longleftrightarrow> point_finite p \<and> - 35 / 10 \<le> real_of (tp_a p) \<and> real_of (tp_a p) \<le> 2 \<and> \<bar>real_of (tp_curvature p)\<bar> \<le> 2 / 10"

definition step_ok :: "trajectory_point \<Rightarrow> trajectory_point \<Rightarrow> bool" where
  \<comment> \<open>time goes on, the jerk is bounded and the path does not turn back\<close>
  "step_ok p q \<longleftrightarrow>
     real_of (tp_t p) < real_of (tp_t q) \<and>
     \<bar>real_of (tp_a q) - real_of (tp_a p)\<bar> \<le> 4 * (real_of (tp_t q) - real_of (tp_t p)) \<and> real_of (tp_x p) \<le> real_of (tp_x q)"

definition safe_trajectory :: "trajectory_point list \<Rightarrow> bool" where
  "safe_trajectory ps \<longleftrightarrow> 2 \<le> length ps \<and> list_all point_ok ps \<and> successively step_ok ps"

lemma point_finiteE:
  assumes "point_finite p"
  obtains t x y v a k where "p = \<lparr>tp_t = Fin t, tp_x = Fin x, tp_y = Fin y, tp_v = Fin v, tp_a = Fin a, tp_curvature = Fin k\<rparr>"
  using assms by (cases p) (auto simp: point_finite_def elim!: isfiniteE)

lemma point_reasons_none: "point_finite p \<Longrightarrow> point_reasons SupervisorLimits p = [] \<longleftrightarrow> point_ok p"
  by (erule point_finiteE) (auto simp: point_reasons_def point_ok_def point_finite_def SupervisorLimits_def)

lemma step_reasons_none:
  assumes "point_finite p" "point_finite q"
  shows "step_reasons SupervisorLimits p q = [] \<longleftrightarrow> step_ok p q"
proof -
  have jerk: "\<bar>d / h\<bar> \<le> 4 \<longleftrightarrow> \<bar>d\<bar> \<le> 4 * h" if "0 < h" for d h :: real
    using that by (simp add: abs_divide pos_divide_le_eq mult.commute)
  obtain t x y v a k where p: "p = \<lparr>tp_t = Fin t, tp_x = Fin x, tp_y = Fin y, tp_v = Fin v, tp_a = Fin a, tp_curvature = Fin k\<rparr>"
    using assms(1) by (rule point_finiteE)
  obtain t' x' y' v' a' k' where q: "q = \<lparr>tp_t = Fin t', tp_x = Fin x', tp_y = Fin y', tp_v = Fin v', tp_a = Fin a', tp_curvature = Fin k'\<rparr>"
    using assms(2) by (rule point_finiteE)
  show ?thesis
  proof (cases "t < t'")
    case True
    then show ?thesis using jerk [of "t' - t" "a' - a"]
      by (auto simp: p q step_reasons_def step_ok_def SupervisorLimits_def zero_pyfloat_def Let_def not_less)
  qed (simp add: p q step_reasons_def step_ok_def SupervisorLimits_def zero_pyfloat_def Let_def)
qed

lemma points_reasons_none:
  "points_reasons SupervisorLimits (Some q) ps = [] \<longleftrightarrow> list_all point_ok ps \<and> successively step_ok (q # ps)" if "point_finite q"
  using that
proof (induction ps arbitrary: q)
  case (Cons p ps)
  then show ?case
  proof (cases "point_finite p")
    case True
    then show ?thesis using Cons by (auto simp: point_reasons_none step_reasons_none)
  qed (simp add: point_ok_def)
qed simp

lemma points_reasons_start:
  "points_reasons SupervisorLimits None ps = [] \<longleftrightarrow> list_all point_ok ps \<and> successively step_ok ps"
proof (cases ps)
  case (Cons p qs)
  then show ?thesis by (cases "point_finite p") (auto simp: point_reasons_none points_reasons_none point_ok_def)
qed simp

lemma supervisor_valid:
  "fst (supervisor_evaluate SupervisorLimits ps road_ok occupancy_clear sources_fresh) = TV_VALID \<longleftrightarrow>
     sources_fresh \<and> road_ok \<and> occupancy_clear \<and> safe_trajectory ps"
proof -
  have "fst (supervisor_evaluate SupervisorLimits ps road_ok occupancy_clear sources_fresh) = TV_VALID \<longleftrightarrow>
      sources_fresh \<and> road_ok \<and> occupancy_clear \<and> \<not> length ps < 2 \<and> points_reasons SupervisorLimits None ps = []"
    by (auto simp: supervisor_evaluate_def Let_def)
  then show ?thesis by (auto simp: points_reasons_start safe_trajectory_def not_less)
qed

lemma reasons_texts:
  "''occupancy_not_clear'' \<notin> set (point_reasons l p)" "''occupancy_not_clear'' \<notin> set (step_reasons l q p)"
  by (simp_all add: point_reasons_def step_reasons_def Let_def)

lemma points_reasons_texts: "''occupancy_not_clear'' \<notin> set (points_reasons l q ps)"
proof (induction ps arbitrary: q)
  case (Cons p ps)
  then show ?case using reasons_texts [of l] by (cases q) simp_all
qed simp

lemma supervisor_only_occupied:
  assumes "set (snd (supervisor_evaluate SupervisorLimits ps road_ok occupancy_clear sources_fresh)) = {''occupancy_not_clear''}"
  shows "safe_trajectory ps" "sources_fresh" "road_ok"
proof -
  let ?r = "(if \<not> sources_fresh then [''stale_sources''] else []) @ (if \<not> road_ok then [''road_boundary''] else []) @
            (if \<not> occupancy_clear then [''occupancy_not_clear''] else []) @ (if length ps < 2 then [''short_trajectory''] else []) @
            points_reasons SupervisorLimits None ps"
  have "set (snd (supervisor_evaluate SupervisorLimits ps road_ok occupancy_clear sources_fresh)) = set ?r"
    by (simp add: supervisor_evaluate_def Let_def)
  with assms have r: "set ?r = {''occupancy_not_clear''}" by simp
  have mem: "x = ''occupancy_not_clear''" if "x \<in> set ?r" for x
    using that unfolding r by simp
  show "sources_fresh" using mem [of "''stale_sources''"] by (cases sources_fresh) simp_all
  show "road_ok" using mem [of "''road_boundary''"] by (cases road_ok) simp_all
  have "x = ''occupancy_not_clear''" if "x \<in> set (points_reasons SupervisorLimits None ps)" for x
    by (rule mem) (use that in simp)
  then have "points_reasons SupervisorLimits None ps = []"
    using points_reasons_texts [of SupervisorLimits None ps] by (metis list.set_intros(1) neq_Nil_conv)
  moreover have "\<not> length ps < 2" using mem [of "''short_trajectory''"] by (cases "length ps < 2") simp_all
  ultimately show "safe_trajectory ps" by (simp add: points_reasons_start safe_trajectory_def)
qed

lemma geometry_valid_safe: "geometry_valid (shadow_trajectory i space) \<Longrightarrow> safe_trajectory (shadow_points (si_model i))"
  using supervisor_only_occupied(1) by (auto simp: geometry_valid_def shadow_trajectory_def supervisor_valid)

text \<open>
  The supervisor calls a trajectory valid exactly when the sources are fresh, the road and the
  space are clear, and the trajectory is safe: at least two points, all numbers finite, acceleration
  and curvature in their limits at every point, times that grow, a bounded jerk and a path that does
  not turn back between successive points.
\<close>
theorem supervisor_accepts_safe_trajectories:
  "fst (supervisor_evaluate SupervisorLimits ps road_ok occupancy_clear sources_fresh) = TV_VALID \<longleftrightarrow>
     sources_fresh \<and> road_ok \<and> occupancy_clear \<and> safe_trajectory ps"
  by (rule supervisor_valid)

section \<open>A cap that is no number\<close>

text \<open>
  The command guard is open for a cap that is \<open>nan\<close>: whatever is asked for, it then does what it
  does when there is no such cap at all, and gives no reason.
\<close>
theorem nan_cap_is_ignored:
  "guard_project (i\<lparr>speed_limit_accel_cap := Some NaN\<rparr>) = guard_project (i\<lparr>speed_limit_accel_cap := None\<rparr>) \<and>
   guard_project (i\<lparr>collision_accel_cap := Some NaN\<rparr>) = guard_project (i\<lparr>collision_accel_cap := None\<rparr>) \<and>
   guard_project (i\<lparr>red_light_accel_cap := Some NaN\<rparr>) = guard_project (i\<lparr>red_light_accel_cap := None\<rparr>) \<and>
   guard_project (i\<lparr>curvature_abs_cap := Some NaN\<rparr>) = guard_project (i\<lparr>curvature_abs_cap := None\<rparr>)"
proof -
  have "apply_cap a (n, Some NaN) st = apply_cap a (n, None) st" for a n st
    by (simp add: apply_cap_def pf_min_def)
  then show ?thesis by (simp add: guard_project_def guard_caps_def)
qed

section \<open>Curve speeds\<close>

definition shadow_run :: "shadow_input list \<Rightarrow> shadow_state \<Rightarrow> shadow_state" where
  "shadow_run is s = foldl (\<lambda>s i. snd (evaluate_shadow i s)) s is"

lemma shadow_run_simps [simp]: "shadow_run [] s = s" "shadow_run (is @ [i]) s = snd (evaluate_shadow i (shadow_run is s))"
  by (simp_all add: shadow_run_def)

lemma evaluate_shadow_state [simp]:
  "sh_envelope (snd (evaluate_shadow i s)) = shadow_envelope i (sh_envelope s)"
  "sh_traffic (snd (evaluate_shadow i s)) = snd (traffic_update (shadow_traffic_input i) (sh_traffic s))"
  "sh_pass (snd (evaluate_shadow i s)) = snd (pass_update (shadow_pass_input i) (sh_pass s))"
  by (simp_all add: evaluate_shadow_def Let_def split: prod.split)

lemma evaluate_shadow_result [simp]:
  "sr_traffic (fst (evaluate_shadow i s)) = fst (traffic_update (shadow_traffic_input i) (sh_traffic s))"
  "sr_pass (fst (evaluate_shadow i s)) = fst (pass_update (shadow_pass_input i) (sh_pass s))"
  "sr_curve_target (fst (evaluate_shadow i s)) = curve_target_speed (shadow_peak_curvature (si_model i)) CP_AUTO (shadow_envelope i (sh_envelope s))"
  "sr_peak_curvature (fst (evaluate_shadow i s)) = shadow_peak_curvature (si_model i)"
  "sr_curve_capability (fst (evaluate_shadow i s)) = steering_capability (shadow_envelope i (sh_envelope s))"
  by (simp_all add: evaluate_shadow_def Let_def split: prod.split)

definition envelope_ok :: "curve_envelope \<Rightarrow> bool" where
  "envelope_ok c \<longleftrightarrow>
     gentle_lat_accel c = 125 / 100 \<and> driver_profile c = 16 / 10 \<and> hard_cap c = 25 / 10 \<and> growth_rate c = 2 / 1000 \<and>
     saturation_backoff c = 3 / 100 \<and> 125 / 100 \<le> steering_capability c \<and> steering_capability c \<le> 25 / 10"

lemma observe_controller_ok: "envelope_ok c \<Longrightarrow> envelope_ok (observe_controller active saturated a learning c)"
  by (cases a) (auto simp: observe_controller_def envelope_ok_def Let_def min_def max_def)

lemma shadow_envelope_ok: "envelope_ok c \<Longrightarrow> envelope_ok (shadow_envelope i c)"
  by (simp add: shadow_envelope_def Let_def observe_controller_ok)

lemma curve_budget_ok: "envelope_ok c \<Longrightarrow> 125 / 100 \<le> curve_budget CP_AUTO c \<and> curve_budget CP_AUTO c \<le> 16 / 10 \<and> curve_budget CP_AUTO c \<le> steering_capability c"
  by (auto simp: curve_budget_def envelope_ok_def)


lemma run_envelope_ok: "envelope_ok (sh_envelope (shadow_run is shadow_init))"
proof (induction "is" rule: rev_induct)
  case Nil
  show ?case by (simp add: shadow_init_def CurveEnvelope_def envelope_ok_def)
qed (simp add: shadow_envelope_ok)

lemma curve_target_speed_lateral:
  assumes "curve_target_speed (Fin k) profile c = Some v" "0 \<le> curve_budget profile c"
  shows "v\<^sup>2 * \<bar>k\<bar> = curve_budget profile c"
  using assms by (auto simp: curve_target_speed_def real_sqrt_pow2 split: if_splits)

text \<open>
  The speed the daemon suggests for a curve is one the car can steer: after any history of
  observations, driving the sharpest curvature of the plan at that speed takes a lateral
  acceleration of at most 1.6 m/s2 and at most what the controller has been seen to hold.
\<close>
theorem curve_speed_is_steerable:
  "case sr_curve_target (fst (evaluate_shadow i (shadow_run is shadow_init))) of
     None \<Rightarrow> True
   | Some v \<Rightarrow>
       v\<^sup>2 * \<bar>real_of (sr_peak_curvature (fst (evaluate_shadow i (shadow_run is shadow_init))))\<bar>
         \<le> min (16 / 10) (sr_curve_capability (fst (evaluate_shadow i (shadow_run is shadow_init))))"
proof -
  let ?c = "shadow_envelope i (sh_envelope (shadow_run is shadow_init))"
  have b: "125 / 100 \<le> curve_budget CP_AUTO ?c" "curve_budget CP_AUTO ?c \<le> min (16 / 10) (steering_capability ?c)"
    using curve_budget_ok [OF shadow_envelope_ok [OF run_envelope_ok]] by simp_all
  show ?thesis
  proof (cases "shadow_peak_curvature (si_model i)")
    case (Fin k)
    show ?thesis
      using b curve_target_speed_lateral [of k CP_AUTO ?c] by (simp add: Fin split: option.split)
  qed (simp_all add: curve_target_speed_def)
qed

section \<open>Bypass candidates\<close>

definition lead_at :: "lead_message \<Rightarrow> pyfloat \<Rightarrow> bool" where
  \<comment> \<open>the model sees the lead, more likely than not, at this distance\<close>
  "lead_at l d \<longleftrightarrow> isfinite (ld_prob l) \<and> \<not> ld_prob l < Fin (1 / 2) \<and> ld_x l \<noteq> [] \<and> d = hd (ld_x l) \<and> isfinite d \<and> d > 0"

definition radar_at :: "radar_lead option \<Rightarrow> pyfloat \<Rightarrow> bool" where
  "radar_at radar d \<longleftrightarrow> (\<exists>r. radar = Some r \<and> rl_status r \<and> d = rl_dRel r \<and> isfinite d \<and> d > 0)"

definition model_speed :: "lead_message \<Rightarrow> pyfloat \<Rightarrow> bool" where
  "model_speed l v \<longleftrightarrow> ld_v l \<noteq> [] \<and> v = hd (ld_v l) \<and> isfinite v"

definition radar_speed :: "pyfloat \<Rightarrow> radar_lead option \<Rightarrow> pyfloat \<Rightarrow> bool" where
  "radar_speed v_ego radar v \<longleftrightarrow>
     (\<exists>r. radar = Some r \<and> v = (if isfinite (rl_vLead r) then rl_vLead r else v_ego + rl_vRel r) \<and> isfinite v)"

definition slow_lead_ahead :: "shadow_input \<Rightarrow> bool" where
  \<comment> \<open>the nearest lead of model and radar is near and at least 1.5 m/s slower than the car\<close>
  "slow_lead_ahead i \<longleftrightarrow>
     (\<exists>d v. ((\<exists>l\<in>set (sm_leads (si_model i)). lead_at l d \<and> model_speed l v) \<or>
             radar_at (si_radar i) d \<and> radar_speed (sc_vEgo (si_car i)) (si_radar i) v) \<and>
       (\<forall>l\<in>set (sm_leads (si_model i)). \<forall>d'. lead_at l d' \<longrightarrow> \<not> d' < d) \<and> (\<forall>d'. radar_at (si_radar i) d' \<longrightarrow> \<not> d' < d) \<and>
       d < pf_max (Fin 35) (sc_vEgo (si_car i) * Fin 4) \<and> v \<le> sc_vEgo (si_car i) - Fin (15 / 10))"

definition lane_confident :: "shadow_input \<Rightarrow> bool" where
  \<comment> \<open>both lines of the own lane are seen with a probability of at least 0.55\<close>
  "lane_confident i \<longleftrightarrow>
     (\<exists>p0 p1 p2 ps. sm_lane_probs (si_model i) = p0 # p1 # p2 # ps \<and> isfinite p1 \<and> isfinite p2 \<and> Fin (55 / 100) \<le> p1 \<and> Fin (55 / 100) \<le> p2)"

definition data_fresh :: "shadow_input \<Rightarrow> bool" where
  \<comment> \<open>no message the evaluation uses is older than half a second\<close>
  "data_fresh i \<longleftrightarrow>
     si_model_age i \<le> Fin (1 / 2) \<and> si_car_age i \<le> Fin (1 / 2) \<and> \<not> Fin (1 / 2) < si_controls_age i \<and>
     (si_radar i = None \<or> si_radar_age i \<le> Fin (1 / 2))"

definition bypass_frame :: "shadow_input \<Rightarrow> bool" where
  \<comment> \<open>what has to hold in a frame for the bypass to become ready\<close>
  "bypass_frame i \<longleftrightarrow>
     si_pass_enabled i \<and> slow_lead_ahead i \<and> Fin (89 / 10) \<le> sc_vEgo (si_car i) \<and> \<not> sc_leftBlindspot (si_car i) \<and>
     shadow_road_clear (si_model i) \<and> shadow_left_adjacent (si_model i) \<and> lane_confident i \<and> data_fresh i \<and>
     safe_trajectory (shadow_points (si_model i))"

lemma nobody_nearer:
  assumes "case c of None \<Rightarrow> \<forall>l\<in>S. \<forall>d. \<not> lead_at l d | Some e \<Rightarrow> \<forall>l\<in>S. \<forall>d'. lead_at l d' \<longrightarrow> \<not> d' < e"
    and "case c of None \<Rightarrow> True | Some e \<Rightarrow> (d :: pyfloat) < e"
  shows "\<forall>l\<in>S. \<forall>d'. lead_at l d' \<longrightarrow> \<not> d' < d"
proof (cases c)
  case None
  then show ?thesis using assms(1) by simp
next
  case (Some e)
  have "\<not> d' < d" if "\<not> d' < e" "d < e" for d' using that by (cases d; cases d'; cases e) auto
  then show ?thesis using assms by (simp add: Some)
qed

lemma observe_leads:
  "case fold observe_lead ls (0, None, None) of (_, closest, speed) \<Rightarrow>
     case closest of
       None \<Rightarrow> speed = None \<and> (\<forall>l\<in>set ls. \<forall>d. \<not> lead_at l d)
     | Some d \<Rightarrow> isfinite d \<and> d > 0 \<and> (\<forall>l\<in>set ls. \<forall>d'. lead_at l d' \<longrightarrow> \<not> d' < d) \<and>
         (\<exists>l\<in>set ls. lead_at l d \<and> (\<forall>v. speed = Some v \<longrightarrow> model_speed l v))"
proof (induction ls rule: rev_induct)
  case (snoc l ls)
  obtain p c s where st: "fold observe_lead ls (0, None, None) = (p, c, s)" by (cases "fold observe_lead ls (0, None, None)")
  have irr: "\<not> d < d" for d :: pyfloat by (cases d) auto
  consider (new) d where "lead_at l d" "case c of None \<Rightarrow> True | Some e \<Rightarrow> d < e"
    | (farther) d e where "lead_at l d" "c = Some e" "\<not> d < e" | (unseen) "\<forall>d. \<not> lead_at l d"
    by (cases c) auto
  then show ?case
  proof cases
    case new
    then have "observe_lead l (p, c, s) = (pf_max p (ld_prob l), Some d, finite_or_none (if ld_v l \<noteq> [] then hd (ld_v l) else NaN))"
      by (simp add: observe_lead_def lead_at_def Let_def split: option.splits)
    moreover have "\<forall>v. finite_or_none (if ld_v l \<noteq> [] then hd (ld_v l) else NaN) = Some v \<longrightarrow> model_speed l v"
      by (auto simp: finite_or_none_def model_speed_def split: if_splits)
    moreover have "\<forall>k\<in>set ls. \<forall>d'. lead_at k d' \<longrightarrow> \<not> d' < d"
      using snoc by (intro nobody_nearer [OF _ new(2)]) (simp add: st split: option.splits)
    moreover have "lead_at l d' \<longrightarrow> \<not> d' < d" for d' using new irr by (auto simp: lead_at_def)
    ultimately show ?thesis using new(1) by (auto simp: st lead_at_def)
  next
    case farther
    then have "snd (observe_lead l (p, c, s)) = (c, s)" by (auto simp: observe_lead_def lead_at_def Let_def)
    then show ?thesis using snoc farther by (cases "observe_lead l (p, c, s)") (auto simp: st lead_at_def)
  next
    case unseen
    then have "snd (observe_lead l (p, c, s)) = (c, s)" by (auto simp: observe_lead_def lead_at_def Let_def)
    then show ?thesis using snoc unseen by (cases "observe_lead l (p, c, s)") (auto simp: st split: option.splits)
  qed
qed simp

lemma observed_slow_lead:
  assumes "lead_observation (sm_leads (si_model i)) (sc_vEgo (si_car i)) (si_radar i) = (prob, Some d, Some v, close)"
  shows "((\<exists>l\<in>set (sm_leads (si_model i)). lead_at l d \<and> model_speed l v) \<or>
          radar_at (si_radar i) d \<and> radar_speed (sc_vEgo (si_car i)) (si_radar i) v) \<and>
    (\<forall>l\<in>set (sm_leads (si_model i)). \<forall>d'. lead_at l d' \<longrightarrow> \<not> d' < d) \<and> (\<forall>d'. radar_at (si_radar i) d' \<longrightarrow> \<not> d' < d)"
proof -
  let ?ls = "sm_leads (si_model i)" and ?r = "si_radar i" and ?e = "sc_vEgo (si_car i)"
  obtain p c s where st: "fold observe_lead ?ls (0, None, None) = (p, c, s)" by (cases "fold observe_lead ?ls (0, None, None)")
  have m: "case c of None \<Rightarrow> s = None \<and> (\<forall>l\<in>set ?ls. \<forall>d. \<not> lead_at l d)
     | Some d \<Rightarrow> isfinite d \<and> d > 0 \<and> (\<forall>l\<in>set ?ls. \<forall>d'. lead_at l d' \<longrightarrow> \<not> d' < d) \<and>
         (\<exists>l\<in>set ?ls. lead_at l d \<and> (\<forall>v. s = Some v \<longrightarrow> model_speed l v))"
    using observe_leads [of ?ls] by (simp add: st)
  have o: "snd (observe_radar ?e ?r (p, c, s)) = (Some d, Some v)"
    using assms by (auto simp: lead_observation_def st Let_def split: prod.splits)
  have irr: "\<not> d < d" for d :: pyfloat by (cases d) auto
  consider (radar) r where "?r = Some r" "radar_at ?r (rl_dRel r)" "case c of None \<Rightarrow> True | Some e \<Rightarrow> rl_dRel r < e"
    | (model) "\<forall>d' e. radar_at ?r d' \<longrightarrow> c = Some e \<longrightarrow> \<not> d' < e" "c = None \<Longrightarrow> \<forall>d'. \<not> radar_at ?r d'"
    by (cases c) (auto simp: radar_at_def)
  then show ?thesis
  proof cases
    case radar
    then have dv: "d = rl_dRel r" "finite_or_none (if isfinite (rl_vLead r) then rl_vLead r else if isfinite (rl_vRel r) then ?e + rl_vRel r else NaN) = Some v"
      using o by (auto simp: observe_radar_def radar_at_def Let_def)
    have "radar_speed ?e ?r v" using dv(2) radar(1) by (auto simp: radar_speed_def finite_or_none_def split: if_splits)
    moreover have "\<forall>l\<in>set ?ls. \<forall>d'. lead_at l d' \<longrightarrow> \<not> d' < d"
      using m unfolding dv(1) by (intro nobody_nearer [OF _ radar(3)]) (simp split: option.splits)
    moreover have "\<forall>d'. radar_at ?r d' \<longrightarrow> \<not> d' < d" using radar(1) irr dv(1) by (auto simp: radar_at_def)
    ultimately show ?thesis using radar(2) dv(1) by simp
  next
    case model
    have "snd (observe_radar ?e ?r (p, c, s)) = (c, s)"
    proof (cases ?r)
      case (Some r)
      have "(isfinite (rl_dRel r) \<and> rl_dRel r > 0 \<and> (case c of None \<Rightarrow> True | Some e \<Rightarrow> rl_dRel r < e)) = False" if "rl_status r"
        using model that by (cases c) (auto simp: radar_at_def Some)
      then show ?thesis
        by (cases "rl_status r") (simp_all only: observe_radar_def Some Let_def option.case prod.case simp_thms if_True if_False snd_conv)
    qed (simp add: observe_radar_def)
    then have "c = Some d" "s = Some v" using o by simp_all
    then show ?thesis using m model by auto
  qed
qed

lemma slow_lead_speed: "slow_lead i \<Longrightarrow> pi_ego_speed i \<noteq> NaN"
  by (auto simp: slow_lead_def minus_pyfloat_def split: option.splits)

lemma not_less_ge: "x \<noteq> NaN \<Longrightarrow> \<not> x < Fin b \<Longrightarrow> Fin b \<le> x"
  by (cases x) auto

lemma pass_lead:
  assumes "slow_lead (shadow_pass_input i)"
  shows "slow_lead_ahead i"
proof -
  obtain prob distance speed close where lead: "lead_observation (sm_leads (si_model i)) (sc_vEgo (si_car i)) (si_radar i) = (prob, distance, speed, close)"
    by (cases "lead_observation (sm_leads (si_model i)) (sc_vEgo (si_car i)) (si_radar i)")
  then have f: "pi_ego_speed (shadow_pass_input i) = sc_vEgo (si_car i)" "pi_lead_distance (shadow_pass_input i) = distance"
    "pi_lead_speed (shadow_pass_input i) = speed"
    by (simp_all add: shadow_pass_input_def)
  then obtain d v where dv: "distance = Some d" "speed = Some v" "d < pf_max (Fin 35) (sc_vEgo (si_car i) * Fin 4)" "v \<le> sc_vEgo (si_car i) - Fin (15 / 10)"
    using assms by (auto simp: slow_lead_def split: option.splits)
  show ?thesis
    unfolding slow_lead_ahead_def using observed_slow_lead [OF lead [unfolded dv(1,2)]] dv(3,4) by blast
qed

lemma lane_confidence_min [simp]:
  "lane_confidence (lane_position max_age max_trim p) =
     (if isfinite (left_lane_probability p) \<and> isfinite (right_lane_probability p)
      then pf_min (left_lane_probability p) (right_lane_probability p) else 0)"
  unfolding lane_position_def Let_def by (simp only: if_distrib [of lane_confidence] lane_position_result.select_convs if_cancel)

lemma pass_lane:
  assumes "\<not> pi_lane_confidence (shadow_pass_input i) < Fin (55 / 100)"
  shows "lane_confident i"
proof -
  let ?probs = "sm_lane_probs (si_model i)"
  let ?l = "value_at ?probs 1 0" and ?r = "value_at ?probs 2 0"
  have "pi_lane_confidence (shadow_pass_input i) = (if isfinite ?l \<and> isfinite ?r then pf_min ?l ?r else 0)"
    by (simp add: shadow_pass_input_def shadow_lane_def Let_def split: prod.split)
  then have "\<not> (if isfinite ?l \<and> isfinite ?r then pf_min ?l ?r else 0) < Fin (55 / 100)" using assms by simp
  then have lr: "isfinite ?l" "isfinite ?r" "Fin (55 / 100) \<le> ?l" "Fin (55 / 100) \<le> ?r"
    by (auto simp: pf_min_def zero_pyfloat_def elim!: isfiniteE split: if_splits)
  then have "2 < length ?probs" by (auto simp: value_at_def zero_pyfloat_def split: if_splits)
  then obtain p0 p1 p2 ps where "?probs = p0 # p1 # p2 # ps"
    by (cases ?probs; cases "tl ?probs"; cases "tl (tl ?probs)") auto
  then show ?thesis using lr by (simp add: lane_confident_def value_at_def)
qed

lemma ages_fresh: "pf_max a c \<le> Fin h \<Longrightarrow> \<not> Fin h < c"
  by (cases a; cases c) (auto simp: pf_max_def split: if_splits)

lemma geometry_valid_road: "geometry_valid (shadow_trajectory i space) \<Longrightarrow> shadow_road_clear (si_model i)"
  using supervisor_only_occupied(3) by (auto simp: geometry_valid_def shadow_trajectory_def supervisor_valid)

lemma no_objections:
  assumes "si_pass_enabled i" "pass_objections (shadow_pass_input i) = []"
  shows "bypass_frame i"
proof -
  let ?p = "shadow_pass_input i"
  obtain prob distance speed close where lead: "lead_observation (sm_leads (si_model i)) (sc_vEgo (si_car i)) (si_radar i) = (prob, distance, speed, close)"
    by (cases "lead_observation (sm_leads (si_model i)) (sc_vEgo (si_car i)) (si_radar i)")
  have o: "slow_lead ?p" "\<not> pi_ego_speed ?p < Fin (89 / 10)" "pi_left_space ?p = SPACE_CLEAR" "left_adjacent_lane_geometry ?p"
    "\<not> pi_lane_confidence ?p < Fin (55 / 100)" "pi_source_fresh ?p" "pi_trajectory_valid ?p"
    using assms(2) by (auto simp: pass_objections_def split: if_splits)
  have f: "pi_ego_speed ?p = sc_vEgo (si_car i)" "pi_left_space ?p = shadow_side_space i (sc_leftBlindspot (si_car i)) 0"
    "left_adjacent_lane_geometry ?p = shadow_left_adjacent (si_model i)"
    "pi_source_fresh ?p = (shadow_sources_fresh i \<and> si_model_age i \<le> Fin (1 / 2) \<and> (si_radar i = None \<or> si_radar_age i \<le> Fin (1 / 2)))"
    "pi_trajectory_valid ?p = geometry_valid (shadow_trajectory i (shadow_space i close))"
    by (simp_all add: shadow_pass_input_def lead)
  have "Fin (89 / 10) \<le> sc_vEgo (si_car i)" using o(1,2) slow_lead_speed [of ?p] not_less_ge f(1) by metis
  moreover have s: "\<not> sc_leftBlindspot (si_car i)" "si_car_age i \<le> Fin (1 / 2)"
    using o(3) unfolding f(2) by (auto simp: shadow_side_space_def classify_space_def split: if_splits)
  moreover have "data_fresh i"
    using o(6) s(2) ages_fresh [of _ "si_controls_age i" "1 / 2"]
    unfolding f(4) shadow_sources_fresh_def data_fresh_def by blast
  moreover have "safe_trajectory (shadow_points (si_model i))" "shadow_road_clear (si_model i)"
    using o(7) f(5) geometry_valid_safe geometry_valid_road by simp_all
  ultimately show ?thesis
    using assms(1) o(4) f(3) pass_lead [OF o(1)] pass_lane [OF o(5)] by (simp add: bypass_frame_def)
qed

lemma pass_history:
  "ready_frames (sh_pass (shadow_run is shadow_init)) \<le> length is \<and>
   list_all bypass_frame (drop (length is - ready_frames (sh_pass (shadow_run is shadow_init))) is) \<and>
   (pass_ready (sh_pass (shadow_run is shadow_init)) \<longrightarrow> 3 \<le> ready_frames (sh_pass (shadow_run is shadow_init)))"
proof (induction "is" rule: rev_induct)
  case Nil
  show ?case by (simp add: shadow_init_def PassAdviser_def)
next
  case (snoc i "is")
  let ?s = "sh_pass (shadow_run is shadow_init)"
  have en: "pi_enabled (shadow_pass_input i) = si_pass_enabled i" by (simp add: shadow_pass_input_def split: prod.split)
  show ?case
  proof (cases "si_pass_enabled i \<and> pass_objections (shadow_pass_input i) = []")
    case True
    then have "bypass_frame i" by (simp add: no_objections)
    moreover have "Suc (length is) - Suc (ready_frames ?s) = length is - ready_frames ?s" by simp
    ultimately show ?thesis using True snoc by (auto simp: pass_update_def en Let_def)
  next
    case False
    then show ?thesis by (auto simp: pass_update_def en Let_def PassAdviser_def)
  qed
qed

text \<open>
  C29. A bypass is only suggested after three frames of evidence: when the daemon reports the left
  lane change as a candidate, the driver's left blinker is on, and in this and each of the two frames before it the
  evaluation was enabled; the nearest lead that the model (more likely than not) or the radar sees was nearer than
  35 m or four seconds, whichever is more, and at least 1.5 m/s slower than the car; the car drove at least 8.9 m/s; the left
  blind spot was free; both road edges were seen with confidence and neither was near; a left lane of plausible width
  was seen; both lines of the own lane were seen with a probability of at least 0.55; no message of model, car, controls
  and (if valid) radar was older than half a second; and the plan was a safe trajectory.
\<close>
theorem bypass_candidate_has_evidence:
  assumes "driver_left_lane_change_candidate (sr_pass (fst (evaluate_shadow i (shadow_run is shadow_init))))"
  shows "sc_leftBlinker (si_car i) \<and> 2 \<le> length is \<and> list_all bypass_frame (drop (length is - 2) is @ [i])"
proof -
  let ?s = "sh_pass (shadow_run is shadow_init)"
  have h: "ready_frames (sh_pass (shadow_run (is @ [i]) shadow_init)) \<le> Suc (length is)"
    "list_all bypass_frame (drop (Suc (length is) - ready_frames (sh_pass (shadow_run (is @ [i]) shadow_init))) (is @ [i]))"
    "pass_ready (sh_pass (shadow_run (is @ [i]) shadow_init)) \<Longrightarrow> 3 \<le> ready_frames (sh_pass (shadow_run (is @ [i]) shadow_init))"
    using pass_history [of "is @ [i]"] by simp_all
  have c: "pass_ready (sh_pass (shadow_run (is @ [i]) shadow_init))" "left_blinker (shadow_pass_input i)"
    using assms by (auto simp: pass_update_def Let_def split: if_splits)
  then have n: "3 \<le> ready_frames (sh_pass (shadow_run (is @ [i]) shadow_init))" by (intro h(3))
  then have "drop (length is - 2) is @ [i] = drop (Suc (length is) - 3) (is @ [i])" using h(1) by simp
  moreover have "list_all bypass_frame (drop (Suc (length is) - 3) (is @ [i]))"
  proof -
    have "set (drop (Suc (length is) - 3) (is @ [i])) \<subseteq> set (drop (Suc (length is) - ready_frames (sh_pass (shadow_run (is @ [i]) shadow_init))) (is @ [i]))"
      by (rule set_drop_subset_set_drop) (use n in simp)
    then show ?thesis using h(2) by (auto simp: list_all_iff)
  qed
  moreover have "sc_leftBlinker (si_car i)" using c(2) by (simp add: shadow_pass_input_def split: prod.splits)
  ultimately show ?thesis using n h(1) by simp
qed


section \<open>Stop predictions\<close>

definition stop_frame :: "shadow_input \<Rightarrow> bool" where
  \<comment> \<open>no veto: fresh sources, a valid trajectory, no relevant lead, speed and curvature in their ranges\<close>
  "stop_frame i \<longleftrightarrow> si_traffic_enabled i \<and> \<not> hard_veto (shadow_traffic_input i)"

definition stop_intended :: "shadow_input \<Rightarrow> bool" where
  "stop_intended i \<longleftrightarrow> model_intent True (shadow_traffic_input i) \<or> model_intent False (shadow_traffic_input i)"

definition backed :: "shadow_input list \<Rightarrow> bool" where
  "backed is \<longleftrightarrow> (\<exists>pre seven post. is = pre @ seven @ post \<and> length seven = 7 \<and> list_all stop_frame (seven @ post) \<and> list_all stop_intended seven)"

lemma backed_snoc: "backed is \<Longrightarrow> stop_frame i \<Longrightarrow> backed (is @ [i])"
proof -
  assume "stop_frame i" and "backed is"
  then obtain pre seven post where "is = pre @ seven @ post" "length seven = 7" "list_all stop_frame (seven @ post)" "list_all stop_intended seven"
    unfolding backed_def by blast
  then have "is @ [i] = pre @ seven @ (post @ [i]) \<and> length seven = 7 \<and> list_all stop_frame (seven @ post @ [i]) \<and> list_all stop_intended seven"
    using \<open>stop_frame i\<close> by simp
  then show "backed (is @ [i])" unfolding backed_def by blast
qed

lemma backed_suffix:
  assumes "list_all (\<lambda>i. stop_frame i \<and> stop_intended i) (drop (length is - n) is)" "7 \<le> n" "n \<le> length is"
  shows "backed is"
proof -
  let ?S = "drop (length is - n) is"
  have "is = take (length is - n) is @ take 7 ?S @ drop 7 ?S" by (simp only: append_take_drop_id)
  moreover have "length (take 7 ?S) = 7" using assms(2,3) by simp
  moreover have "list_all stop_frame ?S" "list_all stop_intended ?S" using assms(1) by (simp_all add: list_all_iff)
  then have "list_all stop_frame (take 7 ?S @ drop 7 ?S)" "list_all stop_intended (take 7 ?S)"
    by (simp_all only: append_take_drop_id) (metis append_take_drop_id list_all_append)
  ultimately show ?thesis unfolding backed_def by blast
qed

lemma traffic_enabled [simp]: "ti_enabled (shadow_traffic_input i) = si_traffic_enabled i"
  by (simp add: shadow_traffic_input_def split: prod.split)

lemma traffic_update_state:
  "ts_active (snd (traffic_update i s)) = (ti_enabled i \<and> ts_active (traffic_debounce i s))"
  "asserted_frames (snd (traffic_update i s)) = (if ti_enabled i then asserted_frames (traffic_debounce i s) else 0)"
  "model_stop_prediction (fst (traffic_update i s)) = ts_active (snd (traffic_update i s))"
  by (simp_all add: traffic_update_def TrafficControlShadow_def Let_def)

lemma stop_history:
  "asserted_frames (sh_traffic (shadow_run is shadow_init)) \<le> length is \<and>
   list_all (\<lambda>i. stop_frame i \<and> stop_intended i) (drop (length is - asserted_frames (sh_traffic (shadow_run is shadow_init))) is) \<and>
   (ts_active (sh_traffic (shadow_run is shadow_init)) \<longrightarrow> backed is)"
proof (induction "is" rule: rev_induct)
  case Nil
  show ?case by (simp add: shadow_init_def TrafficControlShadow_def)
next
  case (snoc i "is")
  let ?s = "sh_traffic (shadow_run is shadow_init)"
  let ?t = "sh_traffic (shadow_run (is @ [i]) shadow_init)"
  have t: "ts_active ?t = (si_traffic_enabled i \<and> ts_active (traffic_debounce (shadow_traffic_input i) ?s))"
    "asserted_frames ?t = (if si_traffic_enabled i then asserted_frames (traffic_debounce (shadow_traffic_input i) ?s) else 0)"
    by (simp_all add: traffic_update_state)
  consider (off) "\<not> si_traffic_enabled i \<or> hard_veto (shadow_traffic_input i)"
    | (raw) "stop_frame i" "raw_stop_candidate (ts_active ?s) (shadow_traffic_input i)"
    | (hold) "stop_frame i" "\<not> raw_stop_candidate (ts_active ?s) (shadow_traffic_input i)"
    by (auto simp: stop_frame_def)
  then show ?case
  proof cases
    case off
    then show ?thesis unfolding t by (auto simp: traffic_debounce_def)
  next
    case raw
    then have int: "stop_intended i" by (cases "ts_active ?s") (simp_all add: stop_intended_def raw_stop_candidate_def)
    have d: "asserted_frames ?t = Suc (asserted_frames ?s)" "ts_active ?t \<longleftrightarrow> ts_active ?s \<or> 7 \<le> Suc (asserted_frames ?s)"
      unfolding t using raw by (auto simp: traffic_debounce_def stop_frame_def)
    have suffix: "list_all (\<lambda>i. stop_frame i \<and> stop_intended i) (drop (length (is @ [i]) - Suc (asserted_frames ?s)) (is @ [i]))"
      using snoc raw(1) int by simp
    have "backed (is @ [i])" if "ts_active ?t"
    proof (cases "ts_active ?s")
      case True
      then show ?thesis using snoc backed_snoc raw(1) by blast
    next
      case False
      then show ?thesis using backed_suffix [OF suffix] that d snoc by simp
    qed
    then show ?thesis using suffix snoc by (simp only: d) simp
  next
    case hold
    then show ?thesis unfolding t using snoc backed_snoc [of "is" i] by (auto simp: traffic_debounce_def stop_frame_def Let_def)
  qed
qed

text \<open>
  A stop prediction is debounced evidence: whenever the daemon predicts a stop, seven frames in a
  row in its history had the model's intent to stop without any veto, and no frame since, this one
  included, had a veto - stale sources, an invalid trajectory, a number that is not finite, a relevant lead, or a
  speed or curvature out of range.
\<close>
theorem stop_prediction_is_debounced:
  assumes "model_stop_prediction (sr_traffic (fst (evaluate_shadow i (shadow_run is shadow_init))))"
  shows "\<exists>pre seven post. is @ [i] = pre @ seven @ post \<and> length seven = 7 \<and> list_all stop_frame (seven @ post) \<and> list_all stop_intended seven"
  using assms stop_history [of "is @ [i]"] by (simp add: traffic_update_state backed_def)


section \<open>Witnesses\<close>

definition bypass_example :: shadow_input where
  "bypass_example =
     \<lparr>si_car = \<lparr>sc_vEgo = Fin 20, sc_aEgo = Fin 0, sc_leftBlindspot = False, sc_rightBlindspot = False, sc_leftBlinker = True\<rparr>,
      si_model = \<lparr>sm_x = [Fin 0, Fin 20], sm_y = [Fin 0, Fin 0], sm_t = [Fin 0, Fin 1], sm_velocity = [Fin 20, Fin 20],
        sm_acceleration = [Fin 0, Fin 0], sm_yaw_rates = [Fin 0, Fin 0], sm_road_edge_stds = [Fin 0, Fin 0],
        sm_road_edges = [[Fin (- 6)], [Fin 6]], sm_lane_lines = [[Fin (- 5)], [Fin (- 2)], [Fin 2], [Fin 5]],
        sm_lane_probs = [Fin 1, Fin 1, Fin 1, Fin 1], sm_leads = [\<lparr>ld_prob = Fin 1, ld_x = [Fin 40], ld_v = [Fin 10]\<rparr>],
        sm_desired_accel = Fin 0, sm_desired_curvature = Fin 0, sm_should_stop = False, sm_frame_id = 0, sm_big = False\<rparr>,
      si_controls = None, si_lat_active = None, si_radar = None, si_model_age = Fin 0, si_car_age = Fin 0, si_controls_age = Fin 0,
      si_radar_age = Fin 0, si_traffic_enabled = True, si_pass_enabled = True\<rparr>"

definition stop_example :: shadow_input where
  "stop_example = bypass_example
     \<lparr>si_car := (si_car bypass_example)\<lparr>sc_vEgo := Fin 10\<rparr>,
      si_model := (si_model bypass_example)\<lparr>sm_velocity := [Fin 10, Fin 1], sm_leads := [], sm_desired_accel := Fin (- 1), sm_should_stop := True\<rparr>\<rparr>"

lemma bypass_example_ready: "pass_objections (shadow_pass_input bypass_example) = []"
  by code_simp

lemma stop_example_candidate: "\<not> hard_veto (shadow_traffic_input stop_example)" "model_intent active (shadow_traffic_input stop_example)"
  by (cases active; code_simp)+


lemma bypass_example_enabled [simp]:
  "pi_enabled (shadow_pass_input bypass_example) = True" "left_blinker (shadow_pass_input bypass_example) = True"
  by code_simp+

theorem bypass_candidate_has_evidence_witness:
  "driver_left_lane_change_candidate (sr_pass (fst (evaluate_shadow bypass_example (shadow_run [bypass_example, bypass_example] shadow_init)))) \<and>
   bypass_frame bypass_example"
proof
  show c: "driver_left_lane_change_candidate (sr_pass (fst (evaluate_shadow bypass_example (shadow_run [bypass_example, bypass_example] shadow_init))))"
    by (simp add: shadow_run_def pass_update_def bypass_example_ready shadow_init_def PassAdviser_def Let_def)
  show "bypass_frame bypass_example" using bypass_candidate_has_evidence [OF c] by simp
qed

lemma stop_example_enabled [simp]: "ti_enabled (shadow_traffic_input stop_example) = True"
  by code_simp

lemma stop_example_debounce:
  "traffic_debounce (shadow_traffic_input stop_example) s =
     s\<lparr>asserted_frames := asserted_frames s + 1, clear_frames := 0, ts_active := ts_active s \<or> asserted_frames s + 1 \<ge> 7\<rparr>"
  by (simp add: traffic_debounce_def raw_stop_candidate_def stop_example_candidate)

lemma stop_example_update:
  "asserted_frames (snd (traffic_update (shadow_traffic_input stop_example) s)) = asserted_frames s + 1"
  "ts_active (snd (traffic_update (shadow_traffic_input stop_example) s)) \<longleftrightarrow> ts_active s \<or> asserted_frames s + 1 \<ge> 7"
  by (simp_all add: traffic_update_state stop_example_debounce del: traffic_enabled)

theorem stop_prediction_is_debounced_witness:
  "\<exists>pre seven post. replicate 7 stop_example = pre @ seven @ post \<and> length seven = 7 \<and> list_all stop_frame (seven @ post) \<and> list_all stop_intended seven"
proof -
  have "model_stop_prediction (sr_traffic (fst (evaluate_shadow stop_example (shadow_run (replicate 6 stop_example) shadow_init))))"
    by (simp add: shadow_run_def numeral_eq_Suc traffic_update_state(3) stop_example_update shadow_init_def TrafficControlShadow_def)
  from stop_prediction_is_debounced [OF this] show ?thesis by (simp add: numeral_eq_Suc)
qed

end
