(* ===== verification/LogFiles.thy ===== *)
theory LogFiles
  imports PyNumbers "HOL-Library.Char_ord" "HOL-Library.List_Lexorder"
begin

text \<open>
  The log directory: \<^verbatim>\<open>system/loggerd/deleter.py\<close> and \<^verbatim>\<open>system/loggerd/uploader.py\<close>. A directory entry is a
  record with what the operating system answers about it; \<open>None\<close> is an \<open>OSError\<close>. The order in which
  the system lists entries is the order of the lists. Extended attributes are read through the cache of
  \<^verbatim>\<open>xattr_cache.py\<close>, which each process keeps for its whole life.
\<close>

section \<open>Directories\<close>

record log_dir =
  ld_name :: string
  ld_entries :: "string list option"
  ld_xattr :: "string option option"  \<comment> \<open>the attribute \<open>user.preserve\<close>\<close>
  ld_removable :: bool

definition rjust10 :: "string \<Rightarrow> string" where
  "rjust10 s = replicate (10 - length s) (CHR ''0'') @ s"

definition get_directory_sort :: "string \<Rightarrow> string list" where
  "get_directory_sort d = map rjust10 (case split_last_dashes d of None \<Rightarrow> [d] | Some (a, b) \<Rightarrow> [a, b])"

definition listdir_by_creation :: "log_dir list \<Rightarrow> log_dir list" where
  "listdir_by_creation ds = sort_key (\<lambda>d. get_directory_sort (ld_name d)) ds"

type_synonym xattr_cache = "string \<Rightarrow> string option option"

definition cached_xattr :: "log_dir \<Rightarrow> xattr_cache \<Rightarrow> (string option \<times> xattr_cache) option" where
  "cached_xattr d cache =
     (case cache (ld_name d) of
        Some v \<Rightarrow> Some (v, cache)
      | None \<Rightarrow> map_option (\<lambda>v. (v, cache(ld_name d \<mapsto> v))) (ld_xattr d))"

section \<open>Deleter\<close>

abbreviation (input) PRESERVE_COUNT :: nat where "PRESERVE_COUNT \<equiv> 5"

definition DELETE_LAST :: "string list" where
  "DELETE_LAST = [''boot'', ''crash'']"

definition preserved_by :: "string \<Rightarrow> string set" where
  \<comment> \<open>the segment and the two before it\<close>
  "preserved_by d =
     (case split_last_dashes d of
        None \<Rightarrow> {}
      | Some (date, seg) \<Rightarrow>
          if date = [] then {}
          else (case py_int_of seg of
                  None \<Rightarrow> {}
                | Some n \<Rightarrow> set (map (\<lambda>i. date @ ''--'' @ int_str i) [max 0 (n - 2)..n])))"

fun preserved_from :: "nat \<Rightarrow> log_dir list \<Rightarrow> string set \<Rightarrow> xattr_cache \<Rightarrow> (string set \<times> xattr_cache) option" where
  "preserved_from n [] acc cache = Some (acc, cache)"
| "preserved_from n (d # ds) acc cache =
     (case cached_xattr d cache of
        None \<Rightarrow> None
      | Some (v, cache) \<Rightarrow>
          if v \<noteq> Some ''1'' then preserved_from n ds acc cache
          else if n = PRESERVE_COUNT then Some (acc, cache)
          else preserved_from (n + 1) ds (acc \<union> preserved_by (ld_name d)) cache)"

definition get_preserved_segments :: "log_dir list \<Rightarrow> xattr_cache \<Rightarrow> (string set \<times> xattr_cache) option" where
  "get_preserved_segments dirs cache = preserved_from 0 (rev dirs) {} cache"

definition delete_rank :: "string set \<Rightarrow> log_dir \<Rightarrow> nat" where
  \<comment> \<open>the order of the pairs of truth values\<close>
  "delete_rank preserved d = 2 * of_bool (ld_name d \<in> set DELETE_LAST) + of_bool (ld_name d \<in> preserved)"

definition has_lock :: "string list \<Rightarrow> bool" where
  "has_lock names = list_ex (ends_with ''.lock'') names"

fun delete_first :: "log_dir list \<Rightarrow> string option option" where
  \<comment> \<open>the directory that is deleted; the outer \<open>None\<close> is an exception\<close>
  "delete_first [] = Some None"
| "delete_first (d # ds) =
     (case ld_entries d of
        None \<Rightarrow> None
      | Some names \<Rightarrow> if has_lock names then delete_first ds else if ld_removable d then Some (Some (ld_name d)) else delete_first ds)"

definition delete_order :: "string set \<Rightarrow> log_dir list \<Rightarrow> log_dir list" where
  "delete_order preserved dirs = sort_key (delete_rank preserved) dirs"

definition deleter_step :: "bool \<Rightarrow> log_dir list \<Rightarrow> xattr_cache \<Rightarrow> ((bool \<times> string option) \<times> xattr_cache) option" where
  \<comment> \<open>whether space is short\<close>
  "deleter_step out_of_space ds cache =
     (if \<not> out_of_space then Some ((False, None), cache)
      else let dirs = listdir_by_creation ds
           in Option.bind (get_preserved_segments dirs cache) (\<lambda>(preserved, cache).
                map_option (\<lambda>d. ((True, d), cache)) (delete_first (delete_order preserved dirs))))"

datatype log_action = Deleted string | Deleted_external string | Moved string

record external_drive =
  ex_mounted :: bool
  ex_out_of_space :: bool
  ex_dirs :: "(string \<times> bool) list"  \<comment> \<open>name and whether it can be removed\<close>
  ex_move_ok :: "string \<Rightarrow> bool"

definition delete_external :: "external_drive \<Rightarrow> log_action list \<times> external_drive" where
  "delete_external x =
     (if \<not> ex_out_of_space x then ([], x)
      else case find snd (sort_key fst (ex_dirs x)) of
             None \<Rightarrow> ([], x)
           | Some (d, _) \<Rightarrow> ([Deleted_external d], x\<lparr>ex_dirs := filter (\<lambda>e. fst e \<noteq> d) (ex_dirs x)\<rparr>))"

fun free_space :: "external_drive \<Rightarrow> log_dir list \<Rightarrow> log_action list option" where
  \<comment> \<open>the loop of one pass of \<open>deleter_thread\<close>\<close>
  "free_space x [] = Some []"
| "free_space x (d # ds) =
     (case ld_entries d of
        None \<Rightarrow> None
      | Some names \<Rightarrow>
          if has_lock names then free_space x ds
          else if ex_mounted x then
            let (acts, x) = delete_external x
            in if ex_move_ok x (ld_name d) then Some (acts @ [Moved (ld_name d)])
               else if ld_removable d then Some (acts @ [Deleted (ld_name d)])
               else map_option (\<lambda>rest. acts @ rest) (free_space x ds)
          else if ld_removable d then Some [Deleted (ld_name d)] else free_space x ds)"

definition deleter_pass :: "bool \<Rightarrow> external_drive \<Rightarrow> log_dir list \<Rightarrow> xattr_cache \<Rightarrow> (log_action list \<times> xattr_cache) option" where
  "deleter_pass out_of_space x ds cache =
     (if \<not> out_of_space then Some ([], cache)
      else let dirs = listdir_by_creation ds
           in Option.bind (get_preserved_segments dirs cache) (\<lambda>(preserved, cache).
                map_option (\<lambda>acts. (acts, cache)) (free_space x (delete_order preserved dirs))))"

section \<open>Uploader\<close>

record log_file =
  lf_name :: string
  lf_ctime :: "real option"  \<comment> \<open>\<open>None\<close>: the file is gone\<close>
  lf_uploaded :: "bool option"
  lf_size :: "nat option"

record upload_dir =
  ud_name :: string
  ud_files :: "log_file list option"

definition immediate_folders :: "string list" where
  "immediate_folders = [''crash/'', ''boot/'']"

definition immediate_priority :: "string \<Rightarrow> nat option" where
  "immediate_priority = map_of [(''qlog'', 0), (''qlog.zst'', 0), (''qcamera.ts'', 1)]"

definition file_rank :: "log_file \<Rightarrow> nat" where
  "file_rank f = (case immediate_priority (lf_name f) of None \<Rightarrow> 1000 | Some p \<Rightarrow> p)"

definition after_bar :: "string \<Rightarrow> string" where
  \<comment> \<open>\<open>r.split('|')[-1]\<close>\<close>
  "after_bar r = last (split_at (CHR ''|'') r)"

definition upload_key :: "string \<Rightarrow> string \<Rightarrow> string" where
  "upload_key logdir name = logdir @ ''/'' @ name"

definition wanted :: "bool \<Rightarrow> real \<Rightarrow> string list \<Rightarrow> string \<Rightarrow> log_file \<Rightarrow> bool" where
  \<comment> \<open>metered, the time, the routes that were asked for and the directory\<close>
  "wanted metered now requested logdir f \<longleftrightarrow>
     (case (lf_ctime f, lf_uploaded f) of
        (Some ctime, Some uploaded) \<Rightarrow>
          \<not> uploaded \<and>
          (\<not> metered \<or>
           \<not> (logdir \<in> set immediate_folders \<and> now - ctime < 12 * 3600) \<and>
           \<not> (lf_name f = ''qcamera.ts'' \<and> \<not> list_ex (\<lambda>r. starts_with (after_bar r) logdir) requested))
      | _ \<Rightarrow> False)"

definition list_upload_files :: "bool \<Rightarrow> real \<Rightarrow> string list \<Rightarrow> upload_dir list \<Rightarrow> (string \<times> log_file) list" where
  "list_upload_files metered now requested ds =
     concat (map (\<lambda>d. case ud_files d of
                        None \<Rightarrow> []
                      | Some fs \<Rightarrow>
                          if has_lock (map lf_name fs) then []
                          else map (Pair (ud_name d)) (filter (wanted metered now requested (ud_name d)) (sort_key file_rank fs)))
       (sort_key (\<lambda>d. get_directory_sort (ud_name d)) ds))"

definition in_immediate_folder :: "string \<Rightarrow> string \<times> log_file \<Rightarrow> bool" where
  \<comment> \<open>the root directory; the test is on the whole path\<close>
  "in_immediate_folder rt df = list_ex (\<lambda>f. substring_in f (rt @ ''/'' @ upload_key (fst df) (lf_name (snd df)))) immediate_folders"

definition next_file_to_upload :: "string \<Rightarrow> bool \<Rightarrow> real \<Rightarrow> string list \<Rightarrow> upload_dir list \<Rightarrow> (string \<times> log_file) option" where
  "next_file_to_upload rt metered now requested ds =
     (let files = list_upload_files metered now requested ds
      in case find (in_immediate_folder rt) files of
           Some df \<Rightarrow> Some df
         | None \<Rightarrow> find (\<lambda>df. immediate_priority (lf_name (snd df)) \<noteq> None) files)"

definition MAX_UPLOAD_SIZES :: "string \<Rightarrow> nat option" where
  "MAX_UPLOAD_SIZES = map_of [(''qlog'', 25000000), (''qcam'', 5000000)]"

definition zst_key :: "string \<Rightarrow> string" where
  \<comment> \<open>the key under which a file is uploaded\<close>
  "zst_key key =
     (if ends_with ''qlog'' key \<or> ends_with ''rlog'' key \<or> (starts_with ''boot/'' key \<and> \<not> ends_with ''.zst'' key)
      then key @ ''.zst'' else key)"

definition upload_file :: "(string \<Rightarrow> nat option) \<Rightarrow> string \<Rightarrow> log_file \<Rightarrow> bool" where
  \<comment> \<open>the server's status for a key, \<open>None\<close> when the request raises; the result is success\<close>
  "upload_file server key f =
     (case lf_size f of
        None \<Rightarrow> False
      | Some sz \<Rightarrow>
          if sz = 0 then True
          else if (case MAX_UPLOAD_SIZES (lf_name f) of None \<Rightarrow> False | Some m \<Rightarrow> sz > m) then True
          else (case server key of None \<Rightarrow> False | Some status \<Rightarrow> status \<in> {200, 201, 401, 403, 412}))"

definition mark_uploaded :: "string \<Rightarrow> string \<Rightarrow> upload_dir list \<Rightarrow> upload_dir list" where
  "mark_uploaded logdir name ds =
     map (\<lambda>d. if ud_name d = logdir
              then d\<lparr>ud_files := map_option (map (\<lambda>f. if lf_name f = name then f\<lparr>lf_uploaded := Some True\<rparr> else f)) (ud_files d)\<rparr>
              else d) ds"

definition clear_locks :: "upload_dir list \<Rightarrow> upload_dir list" where
  \<comment> \<open>where every removal succeeds\<close>
  "clear_locks ds = map (\<lambda>d. d\<lparr>ud_files := map_option (filter (\<lambda>f. \<not> ends_with ''.lock'' (lf_name f))) (ud_files d)\<rparr>) ds"

record upload_env =
  ue_root :: string
  ue_metered :: bool
  ue_now :: real
  ue_requested :: "string list"
  ue_server :: "string \<Rightarrow> nat option"
  ue_setxattr_ok :: bool

definition uploader_step :: "upload_env \<Rightarrow> upload_dir list \<Rightarrow> bool option \<times> upload_dir list" where
  "uploader_step e ds =
     (case next_file_to_upload (ue_root e) (ue_metered e) (ue_now e) (ue_requested e) ds of
        None \<Rightarrow> (None, ds)
      | Some (logdir, f) \<Rightarrow>
          if upload_file (ue_server e) (zst_key (upload_key logdir (lf_name f))) f
          then (Some True, if ue_setxattr_ok e then mark_uploaded logdir (lf_name f) ds else ds)
          else (Some False, ds))"

definition next_backoff :: "bool \<Rightarrow> bool option \<Rightarrow> real \<Rightarrow> real" where
  "next_backoff offroad success backoff =
     (case success of None \<Rightarrow> if offroad then 60 else 5 | Some True \<Rightarrow> 1 / 10 | Some False \<Rightarrow> min (backoff * 2) 120)"

end
