(* ===== verification/LogFilesFacts.thy ===== *)
theory LogFilesFacts
  imports LogFiles AtModem
begin

text \<open>
  Which directory is deleted when the disk is full, what happens to the mark that keeps a segment, and
  that the uploader comes to rest.
\<close>

section \<open>Numbers in the names of segments\<close>

lemma nat_str_ne: "nat_str n \<noteq> []"
  by (subst nat_str.simps) simp

lemma digits_value_snoc: "digits_value (s @ [c]) = 10 * digits_value s + (of_char c - 48)"
  by (simp add: digits_value_def)

lemma digits_value_nat_str: "digits_value (nat_str n) = n"
proof (induction n rule: nat_str.induct)
  case (1 n)
  have d: "(of_char (digit_char k) :: nat) - 48 = k" if "k < 10" for k
    using that by (simp add: digit_char_def of_char_of)
  show ?case
  proof (cases "n < 10")
    case True
    then show ?thesis by (subst nat_str.simps) (simp add: digits_value_def d)
  next
    case False
    then show ?thesis using 1 by (subst nat_str.simps) (simp add: digits_value_snoc d)
  qed
qed

lemma underscored_digits: "list_all is_digit s \<Longrightarrow> (digit \<or> s \<noteq> []) \<Longrightarrow> underscored digit s = Some s"
  by (induction s arbitrary: digit) auto

lemma py_int_of_nat_str: "py_int_of (nat_str n) = Some (int n)"
proof -
  have all: "list_all is_digit (nat_str n)" using nat_str_digits by (auto simp: list_all_iff)
  have no: "\<not> is_space c" if "c \<in> set (nat_str n)" for c
    using nat_str_digits [OF that] by (simp add: is_digit_def is_space_def Let_def)
  have "hd (nat_str n) \<in> set (nat_str n)" "hd (rev (nat_str n)) \<in> set (nat_str n)"
    using nat_str_ne [of n] by (simp_all add: hd_rev)
  then have "py_strip (nat_str n) = nat_str n"
    using no nat_str_ne [of n] by (simp add: py_strip_def front_strip)
  moreover obtain c cs where s: "nat_str n = c # cs" using nat_str_ne [of n] by (cases "nat_str n") auto
  moreover have "c \<noteq> CHR ''-''" "c \<noteq> CHR ''+''" using all s by (auto simp: is_digit_def)
  ultimately show ?thesis
    using underscored_digits [OF all, of False] digits_value_nat_str [of n] by (simp add: py_int_of_def)
qed

lemma no_dashes: "CHR ''-'' \<notin> set s \<Longrightarrow> split_last_dashes s = None"
  by (induction s) auto

lemma split_last_dashes_name:
  assumes "CHR ''-'' \<notin> set s" shows "split_last_dashes (date @ ''--'' @ s) = Some (date, s)"
proof (induction date)
  case Nil
  have "split_last_dashes (CHR ''-'' # s) = None"
    using no_dashes [OF assms] assms by (cases s) auto
  then show ?case by simp
qed simp

lemma preserved_by_segment:
  assumes "date \<noteq> []"
  shows "preserved_by (date @ ''--'' @ nat_str n) = (\<lambda>i. date @ ''--'' @ nat_str i) ` {n - 2..n}"
proof -
  have "CHR ''-'' \<notin> set (nat_str n)" by (rule nat_str_no) (simp add: is_digit_def)
  moreover have "max 0 (int n - 2) = int (n - 2)" by simp
  then have "{max 0 (int n - 2)..int n} = int ` {n - 2..n}" by (simp only: image_int_atLeastAtMost)
  ultimately show ?thesis
    unfolding preserved_by_def
    using assms by (subst split_last_dashes_name) (simp_all add: py_int_of_nat_str image_image int_str_def)
qed

section \<open>The order of deletion\<close>

definition stuck :: "external_drive \<Rightarrow> log_dir \<Rightarrow> bool" where
  \<comment> \<open>locked, or it can neither be moved to the external drive nor be removed\<close>
  "stuck x d \<longleftrightarrow>
     (\<exists>names. ld_entries d = Some names \<and>
       (has_lock names \<or> \<not> ld_removable d \<and> \<not> (ex_mounted x \<and> ex_move_ok x (ld_name d))))"

definition freed :: "log_action list \<Rightarrow> string \<Rightarrow> bool" where
  \<comment> \<open>the directory leaves the device\<close>
  "freed acts name \<longleftrightarrow> Deleted name \<in> set acts \<or> Moved name \<in> set acts"

lemma freed_simps [simp]:
  "\<not> freed [] n" "freed (Deleted d # acts) n \<longleftrightarrow> n = d \<or> freed acts n" "freed (Moved d # acts) n \<longleftrightarrow> n = d \<or> freed acts n"
  "freed (acts @ acts') n \<longleftrightarrow> freed acts n \<or> freed acts' n"
  by (auto simp: freed_def)

lemma delete_external_keeps [simp]:
  "\<not> freed (fst (delete_external x)) n" "ex_mounted (snd (delete_external x)) = ex_mounted x"
  "ex_move_ok (snd (delete_external x)) = ex_move_ok x"
  by (auto simp: delete_external_def freed_def split: option.split)

lemma stuck_external [simp]: "stuck (snd (delete_external x)) d = stuck x d"
  by (simp add: stuck_def)

lemma free_space_head:
  assumes "ld_entries d = Some names"
  shows "free_space x (d # ds) =
    (if has_lock names then free_space x ds
     else if ex_mounted x \<and> ex_move_ok x (ld_name d) then Some (fst (delete_external x) @ [Moved (ld_name d)])
     else if ld_removable d then Some ((if ex_mounted x then fst (delete_external x) else []) @ [Deleted (ld_name d)])
     else if ex_mounted x then map_option ((@) (fst (delete_external x))) (free_space (snd (delete_external x)) ds)
     else free_space x ds)"
  using assms by (simp add: case_prod_unfold Let_def)

lemma free_space_skips:
  assumes "stuck x d" "free_space x (d # ds) = Some acts"
  obtains acts' x' where "free_space x' ds = Some acts'" "freed acts = freed acts'" "stuck x' = stuck x"
proof -
  obtain names where e: "ld_entries d = Some names" using assms(1) by (auto simp: stuck_def)
  show ?thesis
  proof (cases "has_lock names \<or> \<not> ex_mounted x")
    case True
    then have "free_space x ds = Some acts" using assms e by (auto simp only: free_space_head [OF e] stuck_def split: if_splits)
    then show ?thesis using that by blast
  next
    case False
    then obtain acts' where "free_space (snd (delete_external x)) ds = Some acts'" "acts = fst (delete_external x) @ acts'"
      using assms e by (auto simp only: free_space_head [OF e] stuck_def map_option_eq_Some if_False if_True simp_thms split: if_splits)
    then show ?thesis using that [of "snd (delete_external x)" acts'] by (auto simp: fun_eq_iff)
  qed
qed

lemma free_space_frees:
  "free_space x ds = Some acts \<Longrightarrow> freed acts n \<Longrightarrow>
   \<exists>pre d post. ds = pre @ d # post \<and> ld_name d = n \<and> \<not> stuck x d \<and> (\<forall>p \<in> set pre. stuck x p)"
proof (induction ds arbitrary: x acts)
  case (Cons d ds)
  obtain names where e: "ld_entries d = Some names" using Cons.prems by (cases "ld_entries d") auto
  show ?case
  proof (cases "stuck x d")
    case True
    obtain acts' x' where f: "free_space x' ds = Some acts'" "freed acts = freed acts'" "stuck x' = stuck x"
      using free_space_skips [OF True Cons.prems(1)] .
    from Cons.IH [OF f(1)] Cons.prems(2) f(2,3)
    obtain pre y post where "ds = pre @ y # post \<and> ld_name y = n \<and> \<not> stuck x y \<and> (\<forall>p \<in> set pre. stuck x p)" by auto
    then show ?thesis using True by (intro exI [of _ "d # pre"] exI [of _ y] exI [of _ post]) auto
  next
    case False
    then have "ld_name d = n" using Cons.prems e
      by (auto simp add: free_space_head [OF e] stuck_def simp del: free_space.simps split: if_splits)
    then show ?thesis using False by (intro exI [of _ "[]"] exI [of _ d] exI [of _ ds]) simp
  qed
qed simp

lemma free_space_without_drive:
  "\<not> ex_mounted x \<Longrightarrow> free_space x ds = map_option (\<lambda>d. case d of None \<Rightarrow> [] | Some n \<Rightarrow> [Deleted n]) (delete_first ds)"
  by (induction ds) (auto split: option.split)

definition goes_before :: "string set \<Rightarrow> log_dir \<Rightarrow> log_dir \<Rightarrow> bool" where
  "goes_before preserved d e \<longleftrightarrow>
     delete_rank preserved d < delete_rank preserved e \<or>
     delete_rank preserved d = delete_rank preserved e \<and> get_directory_sort (ld_name d) < get_directory_sort (ld_name e)"

lemma sort_key_prefix:
  fixes f :: "'a \<Rightarrow> 'b::linorder" and g :: "'a \<Rightarrow> 'c::linorder"
  assumes eq: "sort_key f (sort_key g xs) = pre @ x # post" and y: "y \<in> set xs"
    and less: "f y < f x \<or> f y = f x \<and> g y < g x"
  shows "y \<in> set pre"
proof (rule ccontr)
  assume no: "y \<notin> set pre"
  have "y \<in> set (sort_key f (sort_key g xs))" using y by simp
  then have "y \<in> set (pre @ x # post)" unfolding eq .
  moreover have "y \<noteq> x" using less by auto
  ultimately have y: "y \<in> set post" using no by simp
  have "sorted (map f (pre @ x # post))" unfolding eq [symmetric] by simp
  then have "f x \<le> f y" using y by (simp add: sorted_append)
  with less have f: "f y = f x" and g: "g y < g x" by auto
  have "filter (\<lambda>z. f z = f x) (pre @ x # post) = filter (\<lambda>z. f z = f x) (sort_key g xs)"
    unfolding eq [symmetric] by (rule sort_key_stable)
  moreover have "sorted (map g (filter (\<lambda>z. f z = f x) (sort_key g xs)))" by (rule sorted_filter) simp
  ultimately have "sorted (map g (filter (\<lambda>z. f z = f x) (pre @ x # post)))" by simp
  then have "g x \<le> g y" using y f by (simp add: sorted_append)
  with g show False by simp
qed

lemma deleter_pass_full:
  assumes "deleter_pass True x ds cache = Some (acts, cache')"
  obtains preserved where "get_preserved_segments (listdir_by_creation ds) cache = Some (preserved, cache')"
    "free_space x (delete_order preserved (listdir_by_creation ds)) = Some acts"
proof (cases "get_preserved_segments (listdir_by_creation ds) cache")
  case None
  then show ?thesis using assms by (simp add: deleter_pass_def Let_def)
next
  case (Some pc)
  obtain preserved c where pc: "pc = (preserved, c)" by (cases pc)
  obtain a where "free_space x (delete_order preserved (listdir_by_creation ds)) = Some a" "acts = a" "c = cache'"
    using assms Some pc
    by (cases "free_space x (delete_order preserved (listdir_by_creation ds))") (simp_all add: deleter_pass_def Let_def)
  then show ?thesis using that Some pc by simp
qed

lemma frees_oldest:
  assumes "deleter_pass True x ds cache = Some (acts, cache')" "freed acts n"
  shows "\<exists>preserved d. get_preserved_segments (listdir_by_creation ds) cache = Some (preserved, cache') \<and>
    d \<in> set ds \<and> ld_name d = n \<and> \<not> stuck x d \<and> (\<forall>e \<in> set ds. goes_before preserved e d \<longrightarrow> stuck x e)"
proof -
  obtain preserved where p: "get_preserved_segments (listdir_by_creation ds) cache = Some (preserved, cache')"
    and "free_space x (delete_order preserved (listdir_by_creation ds)) = Some acts"
    using assms(1) by (rule deleter_pass_full)
  from free_space_frees [OF this(2) assms(2)]
  obtain pre d post where o: "delete_order preserved (listdir_by_creation ds) = pre @ d # post"
    and d: "ld_name d = n" "\<not> stuck x d" and b: "\<forall>p \<in> set pre. stuck x p"
    by blast
  have "set (delete_order preserved (listdir_by_creation ds)) = set ds"
    by (simp add: delete_order_def listdir_by_creation_def)
  then have "d \<in> set ds" unfolding o by auto
  moreover have "stuck x e" if "e \<in> set ds" "goes_before preserved e d" for e
    using sort_key_prefix [OF o [unfolded delete_order_def listdir_by_creation_def] that(1)] that(2) b
    by (auto simp: goes_before_def)
  ultimately show ?thesis using p d by blast
qed

section \<open>Marked segments\<close>

definition marked :: "log_dir \<Rightarrow> bool" where
  "marked d \<longleftrightarrow> ld_xattr d = Some (Some ''1'')"

definition true_cache :: "log_dir list \<Rightarrow> xattr_cache \<Rightarrow> bool" where
  \<comment> \<open>what was remembered is what the system would answer\<close>
  "true_cache ds cache \<longleftrightarrow> (\<forall>d \<in> set ds. cache (ld_name d) = None \<or> cache (ld_name d) = ld_xattr d)"

lemma cached_xattr_true:
  assumes "true_cache ds cache" "distinct (map ld_name ds)" "d \<in> set ds" "cached_xattr d cache = Some (v, cache')"
  shows "ld_xattr d = Some v" "true_cache ds cache'"
proof -
  have "cache (ld_name d) = None \<or> cache (ld_name d) = ld_xattr d" using assms(1,3) by (simp add: true_cache_def)
  then have *: "ld_xattr d = Some v \<and> (cache' = cache \<or> cache' = cache(ld_name d \<mapsto> v))"
    using assms(4) by (auto simp: cached_xattr_def split: option.splits)
  then show "ld_xattr d = Some v" by simp
  have "cache' (ld_name e) = None \<or> cache' (ld_name e) = ld_xattr e" if e: "e \<in> set ds" for e
  proof (cases "ld_name e = ld_name d")
    case True
    then have "e = d" using e assms(2,3) by (simp add: distinct_map inj_on_def)
    then show ?thesis using * assms(1) e by (auto simp: true_cache_def)
  next
    case False
    then show ?thesis using * assms(1) e by (auto simp: true_cache_def)
  qed
  then show "true_cache ds cache'" by (simp add: true_cache_def)
qed

lemma preserved_from_grows: "preserved_from n ds acc cache = Some (s, cache') \<Longrightarrow> acc \<subseteq> s"
proof (induction n ds acc cache rule: preserved_from.induct)
  case (2 n d ds acc cache)
  obtain v c where v: "cached_xattr d cache = Some (v, c)" using "2.prems" by (cases "cached_xattr d cache") auto
  show ?case using "2.IH" [OF v refl] "2.prems" v by (auto split: if_splits)
qed simp

lemma preserved_from_marked:
  assumes "distinct (map ld_name all)"
  shows "preserved_from n (pre @ d # post) acc cache = Some (s, cache') \<Longrightarrow> set (pre @ [d]) \<subseteq> set all \<Longrightarrow> true_cache all cache \<Longrightarrow>
    marked d \<Longrightarrow> n + length (filter marked pre) < PRESERVE_COUNT \<Longrightarrow> preserved_by (ld_name d) \<subseteq> s"
proof (induction pre arbitrary: n acc cache)
  case Nil
  obtain v c where v: "cached_xattr d cache = Some (v, c)" using Nil.prems(1) by (cases "cached_xattr d cache") auto
  have "v = Some ''1''" using cached_xattr_true [OF Nil.prems(3) assms _ v] Nil.prems by (simp add: marked_def)
  then have "preserved_from (n + 1) post (acc \<union> preserved_by (ld_name d)) c = Some (s, cache')"
    using Nil.prems v by simp
  then show ?case using preserved_from_grows by blast
next
  case (Cons p pre)
  obtain v c where v: "cached_xattr p cache = Some (v, c)" using Cons.prems(1) by (cases "cached_xattr p cache") auto
  have t: "ld_xattr p = Some v" "true_cache all c" using cached_xattr_true [OF Cons.prems(3) assms _ v] Cons.prems(2) by auto
  show ?case
  proof (cases "v = Some ''1''")
    case True
    then have "marked p" using t by (simp add: marked_def)
    then have "n + 1 + length (filter marked pre) < PRESERVE_COUNT" "n \<noteq> PRESERVE_COUNT" using Cons.prems(5) by simp_all
    then show ?thesis using Cons.IH [of "n + 1"] Cons.prems t v True by auto
  next
    case False
    then have "\<not> marked p" using t by (simp add: marked_def)
    then show ?thesis using Cons.IH [of n acc c] Cons.prems t v False by auto
  qed
qed

lemma mark_kept:
  assumes "distinct (map ld_name ds)" "true_cache ds cache" "listdir_by_creation ds = earlier @ d # later" "marked d"
    "length (filter marked later) < PRESERVE_COUNT" "ld_name d = date @ ''--'' @ nat_str n" "date \<noteq> []"
    "get_preserved_segments (listdir_by_creation ds) cache = Some (s, cache')" "i \<in> {n - 2..n}"
  shows "date @ ''--'' @ nat_str i \<in> s"
proof -
  have e: "set (earlier @ d # later) = set ds" unfolding assms(3) [symmetric] by (simp add: listdir_by_creation_def)
  have "preserved_by (ld_name d) \<subseteq> s"
    using preserved_from_marked [OF assms(1), of 0 "rev later" d "rev earlier" "{}" cache s cache'] assms(2,4,5,8) e
    by (auto simp: get_preserved_segments_def assms(3) rev_filter [symmetric])
  then show ?thesis using preserved_by_segment [OF assms(7), of n] assms(6,9) by auto
qed

section \<open>The uploader\<close>

definition files_left :: "upload_dir list \<Rightarrow> nat" where
  "files_left ds =
     (\<Sum>d\<leftarrow>ds. case ud_files d of None \<Rightarrow> 0 | Some fs \<Rightarrow> length (filter (\<lambda>f. lf_uploaded f = Some False) fs))"

definition sizes_known :: "upload_dir list \<Rightarrow> bool" where
  "sizes_known ds \<longleftrightarrow> (\<forall>d \<in> set ds. \<forall>fs. ud_files d = Some fs \<longrightarrow> (\<forall>f \<in> set fs. lf_size f \<noteq> None))"

definition server_takes_all :: "upload_env \<Rightarrow> bool" where
  "server_takes_all e \<longleftrightarrow> ue_setxattr_ok e \<and> (\<forall>key. \<exists>st. ue_server e key = Some st \<and> st \<in> {200, 201, 401, 403, 412})"

lemma wanted_not_uploaded: "wanted metered now req logdir f \<Longrightarrow> lf_uploaded f = Some False"
  by (auto simp: wanted_def split: option.splits)

lemma list_upload_files_from:
  assumes "(logdir, f) \<in> set (list_upload_files metered now req ds)"
  obtains d fs where "d \<in> set ds" "ud_name d = logdir" "ud_files d = Some fs" "f \<in> set fs" "wanted metered now req logdir f"
proof -
  from assms obtain d where d: "d \<in> set ds" and f: "(logdir, f) \<in> set (case ud_files d of None \<Rightarrow> []
      | Some fs \<Rightarrow> if has_lock (map lf_name fs) then []
          else map (Pair (ud_name d)) (filter (wanted metered now req (ud_name d)) (sort_key file_rank fs)))"
    by (auto simp: list_upload_files_def)
  show ?thesis
  proof (cases "ud_files d")
    case None
    then show ?thesis using f by simp
  next
    case (Some fs)
    then show ?thesis using f d that by (auto split: if_splits)
  qed
qed

lemma find_some_in: "find P xs = Some x \<Longrightarrow> x \<in> set xs \<and> P x"
  by (induction xs) (auto split: if_splits)

lemma next_file_from:
  assumes "next_file_to_upload rt metered now req ds = Some (logdir, f)"
  shows "(logdir, f) \<in> set (list_upload_files metered now req ds)"
  using assms by (auto simp: next_file_to_upload_def Let_def dest: find_some_in split: option.splits)

lemma next_file_none:
  "next_file_to_upload rt metered now req ds = None \<longleftrightarrow>
   (\<forall>df \<in> set (list_upload_files metered now req ds). \<not> in_immediate_folder rt df \<and> immediate_priority (lf_name (snd df)) = None)"
  by (force simp: next_file_to_upload_def Let_def find_None_iff dest: find_some_in split: option.splits)

definition mark_in :: "string \<Rightarrow> log_file list \<Rightarrow> log_file list" where
  "mark_in name fs = map (\<lambda>f. if lf_name f = name then f\<lparr>lf_uploaded := Some True\<rparr> else f) fs"

lemma mark_uploaded_def':
  "mark_uploaded logdir name ds =
   map (\<lambda>d. if ud_name d = logdir then d\<lparr>ud_files := map_option (mark_in name) (ud_files d)\<rparr> else d) ds"
  by (simp add: mark_uploaded_def mark_in_def [abs_def])

lemma mark_in_le: "length (filter (\<lambda>f. lf_uploaded f = Some False) (mark_in name fs)) \<le> length (filter (\<lambda>f. lf_uploaded f = Some False) fs)"
  by (induction fs) (auto simp: mark_in_def)

lemma mark_in_less:
  "f \<in> set fs \<Longrightarrow> lf_uploaded f = Some False \<Longrightarrow>
   length (filter (\<lambda>f. lf_uploaded f = Some False) (mark_in (lf_name f) fs)) < length (filter (\<lambda>f. lf_uploaded f = Some False) fs)"
proof (induction fs)
  case (Cons g fs)
  then show ?case using mark_in_le [of "lf_name f" fs] by (cases "g = f") (auto simp: mark_in_def)
qed simp

lemma files_left_Cons:
  "files_left (d # ds) =
   (case ud_files d of None \<Rightarrow> 0 | Some fs \<Rightarrow> length (filter (\<lambda>f. lf_uploaded f = Some False) fs)) + files_left ds"
  by (simp add: files_left_def)

lemma mark_uploaded_Cons:
  "mark_uploaded logdir name (d # ds) =
   (if ud_name d = logdir then d\<lparr>ud_files := map_option (mark_in name) (ud_files d)\<rparr> else d) # mark_uploaded logdir name ds"
  by (simp add: mark_uploaded_def')

lemma files_left_le: "files_left (mark_uploaded logdir name ds) \<le> files_left ds"
proof (induction ds)
  case (Cons d ds)
  then show ?case using mark_in_le by (auto simp: files_left_Cons mark_uploaded_Cons add_mono split: option.splits)
qed (simp add: mark_uploaded_def)

lemma files_left_less:
  "d \<in> set ds \<Longrightarrow> ud_files d = Some fs \<Longrightarrow> f \<in> set fs \<Longrightarrow> lf_uploaded f = Some False \<Longrightarrow>
   files_left (mark_uploaded (ud_name d) (lf_name f) ds) < files_left ds"
proof (induction ds)
  case (Cons x ds)
  show ?case
  proof (cases "x = d")
    case True
    then show ?thesis
      using mark_in_less [OF Cons.prems(3,4)] files_left_le [of "ud_name d" "lf_name f" ds] Cons.prems(2)
      by (simp add: files_left_Cons mark_uploaded_Cons add_less_le_mono)
  next
    case False
    then have "files_left (mark_uploaded (ud_name d) (lf_name f) ds) < files_left ds" using Cons by simp
    moreover have "files_left [if ud_name x = ud_name d then x\<lparr>ud_files := map_option (mark_in (lf_name f)) (ud_files x)\<rparr> else x] \<le> files_left [x]"
      using files_left_le [of "ud_name d" "lf_name f" "[x]"] by (simp add: mark_uploaded_def')
    ultimately show ?thesis
      by (simp only: mark_uploaded_Cons) (simp add: files_left_Cons [of _ ds] files_left_Cons [of _ "mark_uploaded _ _ ds"] files_left_Cons [of _ "[]"] add_le_less_mono files_left_def [of "[]"])
  qed
qed simp

lemma sizes_known_mark: "sizes_known ds \<Longrightarrow> sizes_known (mark_uploaded logdir name ds)"
  by (fastforce simp: sizes_known_def mark_uploaded_def)

lemma upload_succeeds:
  assumes "server_takes_all e" "lf_size f \<noteq> None" shows "upload_file (ue_server e) key f"
proof -
  obtain st where "ue_server e key = Some st" "st \<in> {200, 201, 401, 403, 412}"
    using assms(1) unfolding server_takes_all_def by blast
  then show ?thesis using assms(2) by (auto simp: upload_file_def split: option.splits)
qed

lemma uploader_step_cases:
  assumes "server_takes_all e" "sizes_known ds"
  shows "fst (uploader_step e ds) = None \<and> snd (uploader_step e ds) = ds \<or>
    fst (uploader_step e ds) = Some True \<and> files_left (snd (uploader_step e ds)) < files_left ds \<and> sizes_known (snd (uploader_step e ds))"
proof (cases "next_file_to_upload (ue_root e) (ue_metered e) (ue_now e) (ue_requested e) ds")
  case None
  then show ?thesis by (simp add: uploader_step_def)
next
  case (Some df)
  obtain logdir f where df: "df = (logdir, f)" by (cases df)
  obtain d fs where d: "d \<in> set ds" "ud_name d = logdir" "ud_files d = Some fs" "f \<in> set fs"
    "wanted (ue_metered e) (ue_now e) (ue_requested e) logdir f"
    using list_upload_files_from [OF next_file_from [OF Some [unfolded df]]] .
  have "lf_size f \<noteq> None" using assms(2) d unfolding sizes_known_def by blast
  then have u: "upload_file (ue_server e) k f" for k by (rule upload_succeeds [OF assms(1)])
  have "ue_setxattr_ok e" using assms(1) by (simp add: server_takes_all_def)
  then have "uploader_step e ds = (Some True, mark_uploaded logdir (lf_name f) ds)"
    using Some df u by (simp add: uploader_step_def)
  then show ?thesis
    using files_left_less [OF d(1,3,4) wanted_not_uploaded [OF d(5)]] sizes_known_mark [OF assms(2)] d(2) by simp
qed

definition uploader_rounds :: "upload_env \<Rightarrow> nat \<Rightarrow> upload_dir list \<Rightarrow> upload_dir list" where
  "uploader_rounds e n ds = ((\<lambda>x. snd (uploader_step e x)) ^^ n) ds"

lemma uploader_rests:
  assumes "server_takes_all e"
  shows "sizes_known ds \<Longrightarrow> \<exists>n \<le> files_left ds. fst (uploader_step e (uploader_rounds e n ds)) = None"
proof (induction "files_left ds" arbitrary: ds rule: less_induct)
  case less
  show ?case
  proof (cases "fst (uploader_step e ds) = None")
    case True
    then show ?thesis by (intro exI [of _ 0]) (simp add: uploader_rounds_def)
  next
    case False
    let ?ds = "snd (uploader_step e ds)"
    have l: "files_left ?ds < files_left ds" "sizes_known ?ds" using uploader_step_cases [OF assms less.prems] False by auto
    then obtain n where "n \<le> files_left ?ds" "fst (uploader_step e (uploader_rounds e n ?ds)) = None"
      using less.hyps by blast
    then show ?thesis using l(1)
      by (intro exI [of _ "Suc n"]) (simp add: uploader_rounds_def funpow_Suc_right del: funpow.simps)
  qed
qed

lemma step_rests:
  "fst (uploader_step e ds) = None \<longleftrightarrow>
   (\<forall>df \<in> set (list_upload_files (ue_metered e) (ue_now e) (ue_requested e) ds).
      \<not> in_immediate_folder (ue_root e) df \<and> immediate_priority (lf_name (snd df)) = None)"
  unfolding next_file_none [symmetric] by (auto simp: uploader_step_def split: option.split)

section \<open>Properties\<close>

text \<open>C27. When the disk is full, the directory that is deleted or moved to the external drive is one that is not locked, and
  every directory that goes before it is locked or can be neither moved nor removed: first the segments that are not
  preserved, then the preserved ones, then \<open>boot\<close> and \<open>crash\<close>, and of the same kind the one with the smaller name. The
  preserved segments are those that \<open>get_preserved_segments\<close> gives for the directories and the cache of the attributes; and
  among them are a segment that is marked to be kept and the two before it, if at most four later directories are marked and the
  cache holds no attribute that has changed since it was read (C29 says what happens otherwise).\<close>

theorem marked_segments_go_last:
  assumes "deleter_pass True drive ds cache = Some (acts, cache')" "freed acts name"
  shows "\<exists>s e. get_preserved_segments (listdir_by_creation ds) cache = Some (s, cache') \<and>
    e \<in> set ds \<and> ld_name e = name \<and> \<not> stuck drive e \<and> (\<forall>x \<in> set ds. goes_before s x e \<longrightarrow> stuck drive x) \<and>
    (\<forall>earlier d later date n. distinct (map ld_name ds) \<and> true_cache ds cache \<and> listdir_by_creation ds = earlier @ d # later \<and>
       marked d \<and> length (filter marked later) < PRESERVE_COUNT \<and> ld_name d = date @ ''--'' @ nat_str n \<and> date \<noteq> [] \<longrightarrow>
       (\<forall>i \<in> {n - 2..n}. date @ ''--'' @ nat_str i \<in> s))"
proof -
  obtain s e where s: "get_preserved_segments (listdir_by_creation ds) cache = Some (s, cache')"
    and e: "e \<in> set ds" "ld_name e = name" "\<not> stuck drive e" "\<forall>x \<in> set ds. goes_before s x e \<longrightarrow> stuck drive x"
    using frees_oldest [OF assms] by blast
  then show ?thesis using mark_kept [of ds cache, OF _ _ _ _ _ _ _ s] by (intro exI [of _ s] exI [of _ e]) blast
qed

definition seg :: "string \<Rightarrow> string option \<Rightarrow> log_dir" where
  "seg name mark = \<lparr>ld_name = name, ld_entries = Some [''rlog.zst''], ld_xattr = Some mark, ld_removable = True\<rparr>"

definition full_drive :: external_drive where
  "full_drive = \<lparr>ex_mounted = True, ex_out_of_space = True, ex_dirs = [(''z--3'', True), (''y--1'', True)], ex_move_ok = (\<lambda>_. True)\<rparr>"

abbreviation four_dirs :: "log_dir list" where
  "four_dirs \<equiv> [seg ''boot'' None, seg ''a--2'' (Some ''1''), seg ''a--1'' None, seg ''b--0'' None]"

lemma marked_segments_go_last_witness:
  "\<exists>s e. (\<forall>i \<in> {2 - 2..2}. ''a'' @ ''--'' @ nat_str i \<in> s) \<and> e \<in> set four_dirs \<and> ld_name e = ''b--0'' \<and> \<not> stuck full_drive e \<and>
    (\<forall>x \<in> set four_dirs. goes_before s x e \<longrightarrow> stuck full_drive x)"
proof -
  have "map_option fst (deleter_pass True full_drive four_dirs Map.empty) = Some [Deleted_external ''y--1'', Moved ''b--0'']"
    by code_simp
  then obtain c where c: "deleter_pass True full_drive four_dirs Map.empty = Some ([Deleted_external ''y--1'', Moved ''b--0''], c)" by auto
  have 1: "distinct (map ld_name four_dirs)"
    and 2: "listdir_by_creation four_dirs = [seg ''a--1'' None] @ seg ''a--2'' (Some ''1'') # [seg ''b--0'' None, seg ''boot'' None]"
    and 3: "ld_name (seg ''a--2'' (Some ''1'')) = ''a'' @ ''--'' @ nat_str 2"
    and 4: "length (filter marked [seg ''b--0'' None, seg ''boot'' None]) < 5" "marked (seg ''a--2'' (Some ''1''))" by code_simp+
  have 5: "true_cache four_dirs Map.empty" by (simp add: true_cache_def)
  have 6: "freed [Deleted_external ''y--1'', Moved ''b--0''] ''b--0''" by (simp add: freed_def)
  from marked_segments_go_last [OF c 6] obtain s e where
    e: "e \<in> set four_dirs" "ld_name e = ''b--0''" "\<not> stuck full_drive e" "\<forall>x \<in> set four_dirs. goes_before s x e \<longrightarrow> stuck full_drive x"
    and kept: "\<forall>earlier d later date n. distinct (map ld_name four_dirs) \<and> true_cache four_dirs Map.empty \<and>
       listdir_by_creation four_dirs = earlier @ d # later \<and> marked d \<and> length (filter marked later) < 5 \<and>
       ld_name d = date @ ''--'' @ nat_str n \<and> date \<noteq> [] \<longrightarrow> (\<forall>i \<in> {n - 2..n}. date @ ''--'' @ nat_str i \<in> s)" by blast
  have "\<forall>i \<in> {2 - 2..2}. ''a'' @ ''--'' @ nat_str i \<in> s"
    using kept [rule_format, OF conjI [OF 1 conjI [OF 5 conjI [OF 2 conjI [OF 4(2) conjI [OF 4(1) conjI [OF 3]]]]]]] by simp
  with e show ?thesis by blast
qed

section \<open>A mark that comes too late\<close>

definition with_mark :: "string \<Rightarrow> string option option \<Rightarrow> log_dir \<Rightarrow> log_dir" where
  \<comment> \<open>the directory of that name, with another answer of the system about its mark\<close>
  "with_mark name v d = (if ld_name d = name then d\<lparr>ld_xattr := v\<rparr> else d)"

lemma with_mark_simps [simp]:
  "ld_name (with_mark name v d) = ld_name d" "ld_entries (with_mark name v d) = ld_entries d"
  "ld_removable (with_mark name v d) = ld_removable d"
  by (simp_all add: with_mark_def)

fun deleter_run :: "(bool \<times> external_drive \<times> log_dir list) list \<Rightarrow> xattr_cache \<Rightarrow> xattr_cache option" where
  \<comment> \<open>passes of the same process: whether space is short, the external drive and the directories at each\<close>
  "deleter_run [] cache = Some cache"
| "deleter_run ((short, drive, ds) # ps) cache = Option.bind (deleter_pass short drive ds cache) (\<lambda>(acts, cache). deleter_run ps cache)"

lemma cached_keeps: "cache n = Some v \<Longrightarrow> cached_xattr d cache = Some (w, cache') \<Longrightarrow> cache' n = Some v"
  by (auto simp: cached_xattr_def split: option.splits)

lemma preserved_keeps: "cache n = Some v \<Longrightarrow> preserved_from k ds acc cache = Some (s, cache') \<Longrightarrow> cache' n = Some v"
proof (induction k ds acc cache rule: preserved_from.induct)
  case (2 k d ds acc cache)
  obtain w c where v: "cached_xattr d cache = Some (w, c)" using "2.prems"(2) by (cases "cached_xattr d cache") auto
  have "c n = Some v" using cached_keeps [OF "2.prems"(1) v] .
  then show ?case using "2.IH" [OF v refl] "2.prems"(2) v by (auto split: if_splits)
qed simp

lemma pass_keeps: "cache n = Some v \<Longrightarrow> deleter_pass short x ds cache = Some (acts, cache') \<Longrightarrow> cache' n = Some v"
proof (cases short)
  case True
  assume c: "cache n = Some v" and p: "deleter_pass short x ds cache = Some (acts, cache')"
  from p True obtain s where "get_preserved_segments (listdir_by_creation ds) cache = Some (s, cache')" by (auto elim: deleter_pass_full)
  then show ?thesis using preserved_keeps [of cache n v] c by (simp add: get_preserved_segments_def)
qed (simp add: deleter_pass_def)

lemma run_keeps: "deleter_run ps cache = Some cache' \<Longrightarrow> cache n = Some v \<Longrightarrow> cache' n = Some v"
proof (induction ps cache rule: deleter_run.induct)
  case (2 short x ds ps cache)
  from "2.prems"(1) obtain acts c where p: "deleter_pass short x ds cache = Some (acts, c)" and r: "deleter_run ps c = Some cache'"
    by (auto simp: Option.bind_eq_Some_conv)
  show ?case by (rule "2.IH" [OF p refl r pass_keeps [OF "2.prems"(2) p]])
qed simp

lemma preserved_looks:
  assumes "distinct (map ld_name all)" "ld_xattr d = Some None"
  shows "preserved_from n ds acc cache = Some (s, cache') \<Longrightarrow> set ds \<subseteq> set all \<Longrightarrow> true_cache all cache \<Longrightarrow>
    d \<in> set ds \<Longrightarrow> n + length (filter marked ds) \<le> PRESERVE_COUNT \<Longrightarrow> cache' (ld_name d) = Some None"
proof (induction ds arbitrary: n acc cache)
  case (Cons p ds)
  obtain v c where v: "cached_xattr p cache = Some (v, c)" using Cons.prems(1) by (cases "cached_xattr p cache") auto
  have t: "ld_xattr p = Some v" "true_cache all c" using cached_xattr_true [OF Cons.prems(3) assms(1) _ v] Cons.prems(2) by auto
  have c: "c (ld_name p) = Some v" using v by (auto simp: cached_xattr_def split: option.splits)
  have rest: "\<exists>m acc. preserved_from m ds acc c = Some (s, cache') \<and> m + length (filter marked ds) \<le> PRESERVE_COUNT"
  proof (cases "v = Some ''1''")
    case True
    then have "marked p" using t by (simp add: marked_def)
    then have "n + 1 + length (filter marked ds) \<le> PRESERVE_COUNT" "n \<noteq> PRESERVE_COUNT" using Cons.prems(5) by simp_all
    then show ?thesis using Cons.prems(1) v True by (intro exI [of _ "n + 1"]) auto
  next
    case False
    then have "\<not> marked p" using t by (simp add: marked_def)
    then show ?thesis using Cons.prems(1,5) v False by (intro exI [of _ n]) auto
  qed
  then obtain m acc' where m: "preserved_from m ds acc' c = Some (s, cache')" "m + length (filter marked ds) \<le> PRESERVE_COUNT" by blast
  show ?case
  proof (cases "d = p")
    case True
    then show ?thesis using preserved_keeps [OF _ m(1)] c t(1) assms(2) by simp
  next
    case False
    then show ?thesis using Cons.IH [OF m(1) _ t(2) _ m(2)] Cons.prems(2,4) by simp
  qed
qed simp

lemma insort_key_map: "insort_key k (f x) (map f xs) = map f (insort_key (\<lambda>x. k (f x)) x xs)"
  by (induction xs) simp_all

lemma sort_key_map: "sort_key k (map f xs) = map f (sort_key (\<lambda>x. k (f x)) xs)"
  by (induction xs) (simp_all add: insort_key_map)

lemma preserved_with_mark:
  "cache name = Some w \<Longrightarrow> preserved_from n (map (with_mark name v) ds) acc cache = preserved_from n ds acc cache"
proof (induction ds arbitrary: n acc cache)
  case (Cons d ds)
  have "cached_xattr (with_mark name v d) cache = cached_xattr d cache"
    using Cons.prems by (auto simp: cached_xattr_def with_mark_def)
  then show ?case using Cons.IH cached_keeps [of cache name w] Cons.prems by (auto split: option.split)
qed simp

lemma free_with_mark: "free_space x (map (with_mark name v) ds) = free_space x ds"
  by (induction ds arbitrary: x) (simp_all add: Let_def split: option.split prod.split)

lemma pass_with_mark:
  assumes "cache name = Some w"
  shows "deleter_pass short x (map (with_mark name v) ds) cache = deleter_pass short x ds cache"
proof -
  have l: "listdir_by_creation (map (with_mark name v) ds) = map (with_mark name v) (listdir_by_creation ds)"
    by (simp add: listdir_by_creation_def sort_key_map)
  have o: "delete_order s (map (with_mark name v) xs) = map (with_mark name v) (delete_order s xs)" for s xs
  proof -
    have "(\<lambda>d. delete_rank s (with_mark name v d)) = delete_rank s" by (simp add: delete_rank_def fun_eq_iff)
    then show ?thesis by (simp add: delete_order_def sort_key_map)
  qed
  have "get_preserved_segments (map (with_mark name v) xs) cache = get_preserved_segments xs cache" for xs
    using preserved_with_mark [of cache name w] assms by (simp add: get_preserved_segments_def rev_map)
  then show ?thesis by (simp add: deleter_pass_def l o free_with_mark Let_def)
qed

text \<open>C28. A mark that is set after the deleter first looked is lost. Of a directory that was there and not marked at the first pass
  with a full disk, in which at most five directories were marked, no later pass of the same process reads the mark again: whatever
  passes came between, whatever directories there are then and whatever the system would answer about the mark, the pass does
  the same, as if the directory were still unmarked.\<close>

theorem later_mark_is_never_seen:
  assumes "deleter_pass True drive ds Map.empty = Some (first_acts, cache)" "distinct (map ld_name ds)"
    "length (filter marked ds) \<le> PRESERVE_COUNT" "d \<in> set ds" "ld_xattr d = Some None" "deleter_run passes cache = Some cache'"
  shows "cache' (ld_name d) = Some None \<and>
    deleter_pass short drive' ds' cache' = deleter_pass short drive' (map (with_mark (ld_name d) v) ds') cache'"
proof -
  obtain s where "get_preserved_segments (listdir_by_creation ds) Map.empty = Some (s, cache)"
    using assms(1) by (rule deleter_pass_full)
  moreover have "length (filter marked (rev (listdir_by_creation ds))) = length (filter marked ds)"
    by (simp add: rev_filter [symmetric] listdir_by_creation_def filter_sort)
  ultimately have "cache (ld_name d) = Some None"
    using preserved_looks [OF assms(2,5), of 0 "rev (listdir_by_creation ds)" "{}" Map.empty] assms(3,4)
    by (simp add: get_preserved_segments_def listdir_by_creation_def true_cache_def)
  then have c: "cache' (ld_name d) = Some None" by (rule run_keeps [OF assms(6)])
  then show ?thesis using pass_with_mark [of cache' "ld_name d" None] by simp
qed

lemma later_mark_is_never_seen_witness:
  "\<exists>c. deleter_pass True full_drive [seg ''a--2'' None, seg ''b--0'' None] c =
    deleter_pass True full_drive (map (with_mark ''a--2'' (Some (Some ''1''))) [seg ''a--2'' None, seg ''b--0'' None]) c \<and> c ''a--2'' = Some None"
proof -
  let ?first = "[seg ''a--1'' None, seg ''a--2'' None, seg ''b--0'' None]" and ?then = "[seg ''a--2'' (Some ''1''), seg ''b--0'' None]"
  have "map_option (\<lambda>(r, c). map_option (\<lambda>_. ()) (deleter_run [(True, full_drive, ?then)] c)) (deleter_pass True full_drive ?first Map.empty) = Some (Some ())"
    by code_simp
  then obtain r c c' where 1: "deleter_pass True full_drive ?first Map.empty = Some (r, c)"
    and 2: "deleter_run [(True, full_drive, ?then)] c = Some c'" by auto
  have 3: "distinct (map ld_name ?first)" "length (filter marked ?first) \<le> 5" "seg ''a--2'' None \<in> set ?first" "ld_xattr (seg ''a--2'' None) = Some None"
    by (simp_all add: seg_def marked_def)
  from later_mark_is_never_seen [OF 1 3 2, of True full_drive "[seg ''a--2'' None, seg ''b--0'' None]" "Some (Some ''1'')"]
  show ?thesis by (intro exI [of _ c'] conjI) (simp_all add: seg_def)
qed

text \<open>
  The twelve hours that crash and boot logs are meant to wait on a metered connection never pass: which files are
  to be uploaded, and the next one, do not depend on the time, since no directory's name ends in a slash.\<close>

theorem metered_delay_never_applies:
  assumes "\<forall>d \<in> set ds. CHR ''/'' \<notin> set (ud_name d)"
  shows "list_upload_files metered now requested ds = list_upload_files metered now' requested ds \<and>
    next_file_to_upload rt metered now requested ds = next_file_to_upload rt metered now' requested ds"
proof -
  have "ud_name d \<notin> set immediate_folders" if "d \<in> set ds" for d
    using assms that by (auto simp: immediate_folders_def)
  then have "wanted metered now requested (ud_name d) = wanted metered now' requested (ud_name d)" if "d \<in> set ds" for d
    using that by (intro ext) (simp add: wanted_def split: option.split)
  then have "list_upload_files metered now requested ds = list_upload_files metered now' requested ds"
    unfolding list_upload_files_def by (intro arg_cong [of _ _ concat] map_cong) (auto split: option.split)
  then show ?thesis by (simp add: next_file_to_upload_def)
qed

definition boot_log :: upload_dir where
  "boot_log = \<lparr>ud_name = ''boot'', ud_files = Some [\<lparr>lf_name = ''0'', lf_ctime = Some 100, lf_uploaded = Some False, lf_size = Some 10\<rparr>]\<rparr>"

lemma metered_delay_never_applies_witness:
  "list_upload_files True 100 [] [boot_log] = list_upload_files True 1000000 [] [boot_log] \<and>
    next_file_to_upload ''/data'' True 100 [] [boot_log] = next_file_to_upload ''/data'' True 1000000 [] [boot_log] \<and>
    length (list_upload_files True 100 [] [boot_log]) = 1"
proof -
  have "\<forall>d \<in> set [boot_log]. CHR ''/'' \<notin> set (ud_name d)" by (simp add: boot_log_def)
  moreover have "length (list_upload_files True 100 [] [boot_log]) = 1"
    by (simp add: list_upload_files_def boot_log_def has_lock_def ends_with_def wanted_def immediate_folders_def)
  ultimately show ?thesis
    using metered_delay_never_applies [of "[boot_log]" True 100 "[]" 1000000 "''/data''"] by simp
qed

text \<open>
  Where the server answers every request with a status that ends the upload, the sizes can be read and the mark can be
  set, the uploader comes to rest: within as many steps as there are files that are not marked as uploaded, no crash or
  boot log, driving log or preview that it wants is left.\<close>

theorem uploader_comes_to_rest:
  assumes "server_takes_all e" "sizes_known ds"
  shows "\<exists>n \<le> files_left ds. fst (uploader_step e (uploader_rounds e n ds)) = None \<and>
    (\<forall>df \<in> set (list_upload_files (ue_metered e) (ue_now e) (ue_requested e) (uploader_rounds e n ds)).
       \<not> in_immediate_folder (ue_root e) df \<and> immediate_priority (lf_name (snd df)) = None)"
  unfolding step_rests [symmetric] using uploader_rests [OF assms] by simp

definition good_env :: upload_env where
  "good_env = \<lparr>ue_root = ''/data'', ue_metered = False, ue_now = 0, ue_requested = [], ue_server = (\<lambda>_. Some 200), ue_setxattr_ok = True\<rparr>"

lemma uploader_comes_to_rest_witness:
  "\<exists>n \<le> files_left [boot_log]. fst (uploader_step good_env (uploader_rounds good_env n [boot_log])) = None \<and>
    (\<forall>df \<in> set (list_upload_files (ue_metered good_env) (ue_now good_env) (ue_requested good_env) (uploader_rounds good_env n [boot_log])).
       \<not> in_immediate_folder (ue_root good_env) df \<and> immediate_priority (lf_name (snd df)) = None)"
  by (rule uploader_comes_to_rest) (simp_all add: server_takes_all_def good_env_def sizes_known_def boot_log_def)

end
