(* ===== verification/Processes.thy ===== *)
theory Processes
  imports PyText
begin

text \<open>
  The process manager: \<^verbatim>\<open>system/manager/process.py\<close>, \<^verbatim>\<open>process_config.py\<close> and \<^verbatim>\<open>manager.py\<close>. What the operating
  system does - the exit of a process, its number, the table of daemons - is an input of each pass; the signals that
  are sent and the processes that are started are the actions of a pass. A process that gets \<open>SIGKILL\<close> exits with -9.
  Parameters of the program are a map; other processes may change them between passes.
\<close>

section \<open>Parameters\<close>

datatype pval = PBool bool | PInt int | PStr string | PBundle int int  \<comment> \<open>minimum selector version and runner of a model bundle\<close>

type_synonym params = "string \<Rightarrow> pval option"

definition get_bool :: "params \<Rightarrow> string \<Rightarrow> bool" where
  "get_bool ps k = (ps k = Some (PBool True))"

definition get_pid :: "params \<Rightarrow> string \<Rightarrow> int option" where
  "get_pid ps k = (case ps k of Some (PInt n) \<Rightarrow> Some n | _ \<Rightarrow> None)"

datatype param_flag = CLEAR_ON_MANAGER_START | CLEAR_ON_ONROAD_TRANSITION | CLEAR_ON_OFFROAD_TRANSITION | CLEAR_ON_IGNITION_ON

definition clear_all :: "(string \<Rightarrow> param_flag list) \<Rightarrow> param_flag \<Rightarrow> params \<Rightarrow> params" where
  \<comment> \<open>the flags of each key are an argument\<close>
  "clear_all flags f ps = (\<lambda>k. if f \<in> set (flags k) then None else ps k)"

section \<open>Conditions\<close>

record run_env =
  re_params :: params
  re_notCar :: bool
  re_ttyHS0 :: bool
  re_use_quectel :: bool
  re_mapd_root :: bool

type_synonym run_cond = "bool \<Rightarrow> run_env \<Rightarrow> bool \<times> run_env"

definition reads :: "(bool \<Rightarrow> run_env \<Rightarrow> bool) \<Rightarrow> run_cond" where
  "reads f started e = (f started e, e)"

definition param_on :: "string \<Rightarrow> run_env \<Rightarrow> bool" where
  "param_on k e = get_bool (re_params e) k"

definition driverview :: run_cond where
  "driverview = reads (\<lambda>started e. started \<or> param_on ''IsDriverViewEnabled'' e)"

definition notcar :: run_cond where
  "notcar = reads (\<lambda>started e. started \<and> re_notCar e)"

definition iscar :: run_cond where
  "iscar = reads (\<lambda>started e. started \<and> \<not> re_notCar e)"

definition logging :: run_cond where
  "logging = reads (\<lambda>started e. started \<and> (\<not> re_notCar e \<or> \<not> param_on ''DisableLogging'' e))"

definition ublox_available :: "run_env \<Rightarrow> bool" where
  "ublox_available e \<longleftrightarrow> re_ttyHS0 e \<and> \<not> re_use_quectel e"

definition ublox :: run_cond where
  "ublox started e =
     (started \<and> ublox_available e,
      if ublox_available e \<noteq> param_on ''UbloxAvailable'' e
      then e\<lparr>re_params := (re_params e)(''UbloxAvailable'' \<mapsto> PBool (ublox_available e))\<rparr> else e)"

definition joystick :: run_cond where
  "joystick = reads (\<lambda>started e. started \<and> param_on ''JoystickDebugMode'' e)"

definition not_joystick :: run_cond where
  "not_joystick = reads (\<lambda>started e. started \<and> \<not> param_on ''JoystickDebugMode'' e)"

definition long_maneuver :: run_cond where
  "long_maneuver = reads (\<lambda>started e. started \<and> param_on ''LongitudinalManeuverMode'' e)"

definition lat_maneuver :: run_cond where
  "lat_maneuver = reads (\<lambda>started e. started \<and> param_on ''LateralManeuverMode'' e)"

definition not_long_maneuver :: run_cond where
  "not_long_maneuver = reads (\<lambda>started e. started \<and> \<not> param_on ''LongitudinalManeuverMode'' e)"

definition qcomgps :: run_cond where
  "qcomgps = reads (\<lambda>started e. started \<and> \<not> ublox_available e)"

definition always_run :: run_cond where
  "always_run = reads (\<lambda>started e. True)"

definition only_onroad :: run_cond where
  "only_onroad = reads (\<lambda>started e. started)"

definition only_offroad :: run_cond where
  "only_offroad = reads (\<lambda>started e. \<not> started)"

definition livestream :: run_cond where
  "livestream = reads (\<lambda>started e. param_on ''IsLiveStreaming'' e)"

definition use_github_runner :: "bool \<Rightarrow> run_cond" where
  "use_github_runner PC = reads (\<lambda>started e. \<not> PC \<and> param_on ''EnableGithubRunner'' e \<and>
     \<not> param_on ''NetworkMetered'' e \<and> \<not> param_on ''GithubRunnerSufficientVoltage'' e)"

definition use_copyparty :: run_cond where
  "use_copyparty = reads (\<lambda>started e. param_on ''EnableCopyparty'' e)"

abbreviation (input) UNREGISTERED_DONGLE_ID :: string where
  "UNREGISTERED_DONGLE_ID \<equiv> ''UnregisteredDevice''"

definition registered :: "string \<Rightarrow> params \<Rightarrow> bool" where
  "registered k ps \<longleftrightarrow> ps k \<noteq> None \<and> ps k \<noteq> Some (PStr UNREGISTERED_DONGLE_ID)"

definition sunnylink_ready :: "run_env \<Rightarrow> bool" where
  "sunnylink_ready e \<longleftrightarrow>
     param_on ''SunnylinkEnabled'' e \<and> registered ''SunnylinkDongleId'' (re_params e) \<and> \<not> param_on ''SunnylinkTempFault'' e"

definition sunnylink_need_register :: "run_env \<Rightarrow> bool" where
  "sunnylink_need_register e \<longleftrightarrow>
     param_on ''SunnylinkEnabled'' e \<and> \<not> registered ''SunnylinkDongleId'' (re_params e) \<and> \<not> param_on ''SunnylinkTempFault'' e"

definition use_sunnylink_uploader :: "run_env \<Rightarrow> bool" where
  "use_sunnylink_uploader e \<longleftrightarrow> \<not> param_on ''NetworkMetered'' e \<and> sunnylink_ready e \<and> param_on ''EnableSunnylinkUploader'' e"

definition sunnylink_ready_shim :: run_cond where
  "sunnylink_ready_shim = reads (\<lambda>started. sunnylink_ready)"

definition sunnylink_need_register_shim :: run_cond where
  "sunnylink_need_register_shim = reads (\<lambda>started. sunnylink_need_register)"

definition use_sunnylink_uploader_shim :: run_cond where
  "use_sunnylink_uploader_shim = reads (\<lambda>started. use_sunnylink_uploader)"

abbreviation (input) Runner_snpe :: int where "Runner_snpe \<equiv> 0"
abbreviation (input) Runner_tinygrad :: int where "Runner_tinygrad \<equiv> 1"
abbreviation (input) Runner_stock :: int where "Runner_stock \<equiv> 2"
abbreviation (input) REQUIRED_JSON_VERSION :: int where "REQUIRED_JSON_VERSION \<equiv> 17"

definition get_active_bundle :: "params \<Rightarrow> int option" where
  \<comment> \<open>the runner of the bundle\<close>
  "get_active_bundle ps =
     (case ps ''ModelManager_ActiveBundle'' of
        Some (PBundle version runner) \<Rightarrow> if version = REQUIRED_JSON_VERSION then Some runner else None
      | _ \<Rightarrow> None)"

definition get_active_model_runner :: "bool \<Rightarrow> run_env \<Rightarrow> int \<times> run_env" where
  "get_active_model_runner force_check e =
     (let ps = re_params e; cached = get_pid ps ''ModelRunnerTypeCache''
      in if cached \<noteq> None \<and> \<not> force_check then (the cached, e)
         else let runner = (case get_active_bundle ps of None \<Rightarrow> Runner_stock | Some r \<Rightarrow> r)
              in (runner, if cached \<noteq> Some runner then e\<lparr>re_params := ps(''ModelRunnerTypeCache'' \<mapsto> PInt runner)\<rparr> else e))"

definition is_tinygrad_model :: run_cond where
  "is_tinygrad_model started e = (case get_active_model_runner (\<not> started) e of (r, e) \<Rightarrow> (r = Runner_tinygrad, e))"

definition is_stock_model :: run_cond where
  "is_stock_model started e = (case get_active_model_runner (\<not> started) e of (r, e) \<Rightarrow> (r = Runner_stock, e))"

definition mapd_ready :: run_cond where
  "mapd_ready = reads (\<lambda>started. re_mapd_root)"

definition uploader_ready :: run_cond where
  "uploader_ready started e = (if \<not> param_on ''OnroadUploads'' e then only_offroad started e else always_run started e)"

definition or_c :: "run_cond \<Rightarrow> run_cond \<Rightarrow> run_cond" where
  "or_c f g started e = (case f started e of (a, e) \<Rightarrow> case g started e of (b, e) \<Rightarrow> (a \<or> b, e))"

definition and_c :: "run_cond \<Rightarrow> run_cond \<Rightarrow> run_cond" where
  "and_c f g started e = (case f started e of (a, e) \<Rightarrow> case g started e of (b, e) \<Rightarrow> (a \<and> b, e))"

definition not_c :: "run_cond \<Rightarrow> run_cond" where
  "not_c f started e = (case f started e of (a, e) \<Rightarrow> (\<not> a, e))"

section \<open>Processes\<close>

datatype proc_kind = Native | Python | Daemon string string  \<comment> \<open>module and parameter of the pid\<close>

record child =
  ch_pid :: int
  ch_exit :: "int option"

record manager_process =
  mp_name :: string
  mp_kind :: proc_kind
  mp_should_run :: run_cond
  mp_enabled :: bool
  mp_sigkill :: bool
  mp_child :: "child option"
  mp_shutting_down :: bool

abbreviation (input) SIGINT :: int where "SIGINT \<equiv> 2"
abbreviation (input) SIGKILL :: int where "SIGKILL \<equiv> 9"

datatype os_action = Signal string int | Start string int

record os =
  os_joined :: "string \<Rightarrow> int option"  \<comment> \<open>the exit code after waiting for five seconds\<close>
  os_pid :: "string \<Rightarrow> int"  \<comment> \<open>the number that a new process gets\<close>
  os_cmdline :: "int \<Rightarrow> string option"  \<comment> \<open>the command of a daemon that is alive\<close>

definition is_daemon :: "manager_process \<Rightarrow> bool" where
  "is_daemon p = (case mp_kind p of Daemon m k \<Rightarrow> True | _ \<Rightarrow> False)"

definition should_run :: "manager_process \<Rightarrow> run_cond" where
  "should_run p = (if is_daemon p then always_run else mp_should_run p)"

definition reap :: "manager_process \<Rightarrow> child \<Rightarrow> manager_process" where
  \<comment> \<open>the end of \<open>stop\<close>\<close>
  "reap p c = (if ch_exit c \<noteq> None then p\<lparr>mp_shutting_down := False, mp_child := None\<rparr> else p\<lparr>mp_child := Some c\<rparr>)"

definition stop_process :: "os \<Rightarrow> bool \<Rightarrow> bool \<Rightarrow> int option \<Rightarrow> manager_process \<Rightarrow> manager_process \<times> os_action list" where
  \<comment> \<open>\<open>stop(retry, block, sig)\<close>\<close>
  "stop_process os retry block sig p =
     (if is_daemon p then (p, [])
      else case mp_child p of
        None \<Rightarrow> (p, [])
      | Some c \<Rightarrow>
          if ch_exit c \<noteq> None then (reap p c, [])
          else
            let acts = (if mp_shutting_down p then []
                        else [Signal (mp_name p) (case sig of Some s \<Rightarrow> s | None \<Rightarrow> if mp_sigkill p then SIGKILL else SIGINT)])
            in if \<not> mp_shutting_down p \<and> \<not> block then (p\<lparr>mp_shutting_down := True\<rparr>, acts)
               else let c = c\<lparr>ch_exit := os_joined os (mp_name p)\<rparr>;
                        p = p\<lparr>mp_shutting_down := True\<rparr>
                    in if ch_exit c = None \<and> retry
                       then (reap p (c\<lparr>ch_exit := Some (- SIGKILL)\<rparr>), acts @ [Signal (mp_name p) SIGKILL])
                       else (reap p c, acts))"

definition start_daemon :: "os \<Rightarrow> string \<Rightarrow> string \<Rightarrow> string \<Rightarrow> params \<Rightarrow> params \<times> os_action list" where
  "start_daemon os name modl key ps =
     (if (case get_pid ps key of
            None \<Rightarrow> False
          | Some pid \<Rightarrow> case os_cmdline os pid of None \<Rightarrow> False | Some line \<Rightarrow> substring_in modl line)
      then (ps, [])
      else (ps(key \<mapsto> PInt (os_pid os name)), [Start name (os_pid os name)]))"

definition start_process :: "os \<Rightarrow> manager_process \<Rightarrow> params \<Rightarrow> (manager_process \<times> params) \<times> os_action list" where
  "start_process os p ps =
     (case mp_kind p of
        Daemon modl key \<Rightarrow> case start_daemon os (mp_name p) modl key ps of (ps, acts) \<Rightarrow> ((p, ps), acts)
      | _ \<Rightarrow>
        let (p, acts) = (if mp_shutting_down p then stop_process os True True None p else (p, []))
        in if mp_child p \<noteq> None then ((p, ps), acts)
           else ((p\<lparr>mp_child := Some \<lparr>ch_pid = os_pid os (mp_name p), ch_exit = None\<rparr>, mp_shutting_down := False\<rparr>, ps),
                 acts @ [Start (mp_name p) (os_pid os (mp_name p))]))"

definition may_run :: "string list \<Rightarrow> manager_process \<Rightarrow> bool" where
  "may_run not_run p \<longleftrightarrow> mp_enabled p \<and> mp_name p \<notin> set not_run"

fun select_running :: "os \<Rightarrow> string list \<Rightarrow> bool \<Rightarrow> run_env \<Rightarrow> manager_process list \<Rightarrow>
    ((bool \<times> manager_process) list \<times> run_env) \<times> os_action list" where
  \<comment> \<open>the first loop of \<open>ensure_running\<close>: which processes are to run; the others are stopped\<close>
  "select_running os not_run started e [] = (([], e), [])"
| "select_running os not_run started e (p # ps) =
     (let (run, e) = (if may_run not_run p then should_run p started e else (False, e));
          (q, acts) = (if run then (p, []) else stop_process os True False None p);
          ((qs, e), acts') = select_running os not_run started e ps
      in (((run, q) # qs, e), acts @ acts'))"

fun start_running :: "os \<Rightarrow> params \<Rightarrow> (bool \<times> manager_process) list \<Rightarrow> (manager_process list \<times> params) \<times> os_action list" where
  "start_running os ps [] = (([], ps), [])"
| "start_running os ps ((run, p) # rest) =
     (let ((q, ps), acts) = (if run then start_process os p ps else ((p, ps), []));
          ((qs, ps), acts') = start_running os ps rest
      in ((q # qs, ps), acts @ acts'))"

definition ensure_running :: "os \<Rightarrow> string list \<Rightarrow> bool \<Rightarrow> run_env \<Rightarrow> manager_process list \<Rightarrow>
    (manager_process list \<times> run_env) \<times> os_action list" where
  "ensure_running os not_run started e procs =
     (let ((sel, e), acts) = select_running os not_run started e procs;
          ((procs, ps), acts') = start_running os (re_params e) sel
      in ((procs, e\<lparr>re_params := ps\<rparr>), acts @ acts'))"

record process_state =
  st_name :: string
  st_running :: bool
  st_shouldBeRunning :: bool
  st_pid :: int
  st_exitCode :: int

definition get_process_state_msg :: "manager_process \<Rightarrow> process_state" where
  "get_process_state_msg p =
     (case mp_child p of
        None \<Rightarrow> \<lparr>st_name = mp_name p, st_running = False, st_shouldBeRunning = False, st_pid = 0, st_exitCode = 0\<rparr>
      | Some c \<Rightarrow> \<lparr>st_name = mp_name p, st_running = (ch_exit c = None), st_shouldBeRunning = (\<not> mp_shutting_down p),
                   st_pid = ch_pid c, st_exitCode = (case ch_exit c of None \<Rightarrow> 0 | Some n \<Rightarrow> n)\<rparr>)"

section \<open>The list of processes\<close>

record platform =
  PC :: bool
  WEBCAM :: bool
  DARWIN :: bool
  COMMA_HARDWARE :: bool
  github_runner_exists :: bool
  sunnylink_uploader_exists :: bool
  copyparty_exists :: bool

definition PythonProcess :: "string \<Rightarrow> run_cond \<Rightarrow> bool \<Rightarrow> manager_process" where
  "PythonProcess name cond enabled =
     \<lparr>mp_name = name, mp_kind = Python, mp_should_run = cond, mp_enabled = enabled, mp_sigkill = False,
      mp_child = None, mp_shutting_down = False\<rparr>"

definition NativeProcess :: "string \<Rightarrow> run_cond \<Rightarrow> bool \<Rightarrow> manager_process" where
  "NativeProcess name cond enabled = (PythonProcess name cond enabled)\<lparr>mp_kind := Native\<rparr>"

definition DaemonProcess :: "string \<Rightarrow> string \<Rightarrow> string \<Rightarrow> manager_process" where
  "DaemonProcess name modl key = (PythonProcess name always_run True)\<lparr>mp_kind := Daemon modl key\<rparr>"

definition procs :: "platform \<Rightarrow> manager_process list" where
  "procs pf =
    [DaemonProcess ''manage_athenad'' ''openpilot.system.athena.manage_athenad'' ''AthenadPid'',
     NativeProcess ''loggerd'' logging True,
     NativeProcess ''encoderd'' only_onroad True,
     NativeProcess ''stream_encoderd'' (or_c (and_c livestream (not_c iscar)) notcar) True,
     PythonProcess ''logmessaged'' always_run True,
     NativeProcess ''camerad'' (or_c driverview livestream) (\<not> WEBCAM pf),
     PythonProcess ''webcamerad'' driverview (WEBCAM pf),
     PythonProcess ''proclogd'' only_onroad (\<not> DARWIN pf),
     PythonProcess ''journald'' only_onroad (\<not> DARWIN pf),
     PythonProcess ''micd'' iscar True,
     PythonProcess ''timed'' always_run (\<not> PC pf),
     PythonProcess ''modeld'' (and_c only_onroad is_stock_model) True,
     PythonProcess ''dmonitoringmodeld'' driverview (WEBCAM pf \<or> \<not> PC pf),
     PythonProcess ''sensord'' only_onroad (\<not> PC pf),
     PythonProcess ''ui'' always_run True,
     PythonProcess ''soundd'' driverview True,
     PythonProcess ''locationd'' only_onroad True,
     NativeProcess ''_pandad'' always_run False,
     PythonProcess ''calibrationd'' only_onroad True,
     PythonProcess ''torqued'' only_onroad True,
     PythonProcess ''controlsd'' (and_c not_joystick iscar) True,
     PythonProcess ''joystickd'' (or_c joystick notcar) True,
     PythonProcess ''selfdrived'' only_onroad True,
     PythonProcess ''card'' only_onroad True,
     PythonProcess ''deleter'' always_run True,
     PythonProcess ''dmonitoringd'' driverview (WEBCAM pf \<or> \<not> PC pf),
     PythonProcess ''qcomgpsd'' qcomgps (COMMA_HARDWARE pf),
     PythonProcess ''pandad'' always_run True,
     PythonProcess ''paramsd'' only_onroad True,
     PythonProcess ''lagd'' only_onroad True,
     PythonProcess ''ubloxd'' ublox (COMMA_HARDWARE pf),
     PythonProcess ''pigeond'' ublox (COMMA_HARDWARE pf),
     PythonProcess ''plannerd'' not_long_maneuver True,
     PythonProcess ''maneuversd'' long_maneuver True,
     PythonProcess ''lateral_maneuversd'' lat_maneuver True,
     PythonProcess ''radard'' only_onroad True,
     PythonProcess ''hardwared'' always_run True,
     PythonProcess ''modem'' always_run (COMMA_HARDWARE pf),
     PythonProcess ''tombstoned'' always_run (\<not> PC pf),
     PythonProcess ''updated'' only_offroad (\<not> PC pf),
     PythonProcess ''uploader'' uploader_ready True,
     PythonProcess ''statsd'' always_run True,
     PythonProcess ''ascentmaintenanced'' always_run (COMMA_HARDWARE pf),
     PythonProcess ''ascentv8shadowd'' only_onroad (COMMA_HARDWARE pf),
     NativeProcess ''bridge'' notcar True,
     PythonProcess ''webrtcd'' (or_c (and_c livestream (not_c iscar)) notcar) True,
     PythonProcess ''joystick'' (and_c joystick iscar) True,
     DaemonProcess ''manage_sunnylinkd'' ''openpilot.sunnypilot.sunnylink.athena.manage_sunnylinkd'' ''SunnylinkdPid'',
     PythonProcess ''sunnylink_registration_manager'' sunnylink_need_register_shim True,
     PythonProcess ''statsd_sp'' (and_c always_run sunnylink_ready_shim) True,
     PythonProcess ''models_manager'' only_offroad True,
     NativeProcess ''modeld_tinygrad'' (and_c only_onroad is_tinygrad_model) True,
     PythonProcess ''backup_manager'' (and_c only_offroad sunnylink_ready_shim) True,
     NativeProcess ''mapd'' mapd_ready True,
     PythonProcess ''mapd_manager'' always_run True,
     NativeProcess ''locationd_llk'' only_onroad True] @
    (if github_runner_exists pf
     then [NativeProcess ''github_runner_start'' (and_c only_offroad (use_github_runner (PC pf))) True] else []) @
    (if sunnylink_uploader_exists pf then [PythonProcess ''sunnylink_uploader'' use_sunnylink_uploader_shim True] else []) @
    (if copyparty_exists pf then [NativeProcess ''copyparty-sfx'' (and_c only_offroad use_copyparty) True] else [])"

section \<open>The manager\<close>

record manager =
  mg_procs :: "manager_process list"
  mg_started_prev :: bool
  mg_ignition_prev :: bool

record panda_ignition =
  pi_known :: bool
  pi_ignitionLine :: bool
  pi_ignitionCan :: bool

record manager_input =
  mi_started :: bool
  mi_pandas :: "panda_ignition list"
  mi_exits :: "string \<Rightarrow> int option"  \<comment> \<open>which processes exited since the last pass\<close>
  mi_os :: os
  mi_env :: run_env  \<comment> \<open>the parameters are those at the beginning of the pass\<close>

record manager_output =
  mo_actions :: "os_action list"
  mo_processes :: "process_state list"
  mo_exit_reasons :: "string list"

definition child_exits :: "(string \<Rightarrow> int option) \<Rightarrow> manager_process \<Rightarrow> manager_process" where
  "child_exits exits p =
     (case mp_child p of
        None \<Rightarrow> p
      | Some c \<Rightarrow> if ch_exit c = None then p\<lparr>mp_child := Some (c\<lparr>ch_exit := exits (mp_name p)\<rparr>)\<rparr> else p)"

definition split_block :: "string \<Rightarrow> string list" where
  \<comment> \<open>the environment variable \<open>BLOCK\<close>, cut at its commas\<close>
  "split_block s = filter (\<lambda>x. x \<noteq> []) (foldr (\<lambda>c acc. if c = CHR '','' then [] # acc else (c # hd acc) # tl acc) s [[]])"

definition manager_ignore :: "params \<Rightarrow> bool \<Rightarrow> string \<Rightarrow> string list" where
  \<comment> \<open>whether \<open>NOBOARD\<close> is set, and \<open>BLOCK\<close>\<close>
  "manager_ignore ps noboard block =
     (if \<not> registered ''DongleId'' ps then [''manage_athenad'', ''uploader''] else []) @
     (if noboard then [''pandad''] else []) @ split_block block"

definition manager_start :: "platform \<Rightarrow> os \<Rightarrow> string list \<Rightarrow> run_env \<Rightarrow> (manager \<times> run_env) \<times> os_action list" where
  \<comment> \<open>what \<open>manager_thread\<close> does before its loop\<close>
  "manager_start pf os ignore e =
     (let e = e\<lparr>re_params := (re_params e)(''IsOffroad'' \<mapsto> PBool True)\<rparr>;
          ((ps, e), acts) = ensure_running os ignore False e (procs pf)
      in ((\<lparr>mg_procs = ps, mg_started_prev = False, mg_ignition_prev = False\<rparr>, e), acts))"

definition ignition_on :: "panda_ignition list \<Rightarrow> bool" where
  "ignition_on pandas = list_ex (\<lambda>p. pi_known p \<and> (pi_ignitionLine p \<or> pi_ignitionCan p)) pandas"

definition transition_params :: "(string \<Rightarrow> param_flag list) \<Rightarrow> manager \<Rightarrow> bool \<Rightarrow> bool \<Rightarrow> params \<Rightarrow> params" where
  "transition_params flags m started ignition ps =
     (let ps = (if started \<and> \<not> mg_started_prev m then clear_all flags CLEAR_ON_ONROAD_TRANSITION ps
                else if \<not> started \<and> mg_started_prev m then clear_all flags CLEAR_ON_OFFROAD_TRANSITION ps else ps);
          ps = (if ignition \<and> \<not> mg_ignition_prev m then clear_all flags CLEAR_ON_IGNITION_ON ps else ps)
      in if started \<noteq> mg_started_prev m then ps(''IsOffroad'' \<mapsto> PBool (\<not> started)) else ps)"

definition manager_pass :: "(string \<Rightarrow> param_flag list) \<Rightarrow> string list \<Rightarrow> manager_input \<Rightarrow> manager \<Rightarrow>
    (manager \<times> run_env) \<times> manager_output" where
  \<comment> \<open>one turn of the loop of \<open>manager_thread\<close>; the loop ends when there are reasons to exit\<close>
  "manager_pass flags ignore i m =
     (let started = mi_started i;
          ignition = ignition_on (mi_pandas i);
          e = mi_env i;
          e = e\<lparr>re_params := transition_params flags m started ignition (re_params e)\<rparr>;
          ((ps, e), acts) = ensure_running (mi_os i) ignore started e (map (child_exits (mi_exits i)) (mg_procs m))
      in ((\<lparr>mg_procs = ps, mg_started_prev = started, mg_ignition_prev = ignition\<rparr>, e),
          \<lparr>mo_actions = acts, mo_processes = map get_process_state_msg ps,
           mo_exit_reasons = filter (get_bool (re_params e)) [''DoUninstall'', ''DoShutdown'', ''DoReboot'']\<rparr>))"

definition manager_cleanup :: "os \<Rightarrow> manager_process list \<Rightarrow> manager_process list \<times> os_action list" where
  "manager_cleanup os ps =
     (let first = map (stop_process os True False None) ps;
          second = map (stop_process os True True None) (map fst first)
      in (map fst second, concat (map snd first) @ concat (map snd second)))"

datatype power_off = Uninstall | Reboot | Shutdown

definition manager_end :: "params \<Rightarrow> power_off option" where
  "manager_end ps =
     (if get_bool ps ''DoUninstall'' then Some Uninstall
      else if get_bool ps ''DoReboot'' then Some Reboot
      else if get_bool ps ''DoShutdown'' then Some Shutdown else None)"

end
