(* ===== verification/ProcessFacts.thy ===== *)
theory ProcessFacts
  imports Processes SelfdriveD
begin

text \<open>
  What the process manager promises: that processes stop, which run together, and what happens to one that died. The
  conditions of the processes write two parameters while they are asked; \<open>steady\<close> says that no answer depends on it,
  so that a pass treats every process by itself.
\<close>

section \<open>Conditions do not disturb each other\<close>

definition same_inputs :: "bool \<Rightarrow> run_env \<Rightarrow> run_env \<Rightarrow> bool" where
  "same_inputs st e e' \<longleftrightarrow>
     re_notCar e = re_notCar e' \<and> re_ttyHS0 e = re_ttyHS0 e' \<and> re_use_quectel e = re_use_quectel e' \<and>
     re_mapd_root e = re_mapd_root e' \<and>
     (\<forall>k. k \<noteq> ''UbloxAvailable'' \<and> k \<noteq> ''ModelRunnerTypeCache'' \<longrightarrow> re_params e k = re_params e' k) \<and>
     fst (get_active_model_runner (\<not> st) e) = fst (get_active_model_runner (\<not> st) e')"

lemma same_refl [simp]: "same_inputs st e e"
  by (simp add: same_inputs_def)

lemma same_trans: "same_inputs st a b \<Longrightarrow> same_inputs st b c \<Longrightarrow> same_inputs st a c"
  unfolding same_inputs_def by metis

lemma same_sym: "same_inputs st a b \<Longrightarrow> same_inputs st b a"
  unfolding same_inputs_def by metis

lemma same_param:
  "same_inputs st e e' \<Longrightarrow> k \<noteq> ''UbloxAvailable'' \<Longrightarrow> k \<noteq> ''ModelRunnerTypeCache'' \<Longrightarrow> re_params e k = re_params e' k"
  by (simp add: same_inputs_def)

lemma same_param_on:
  "same_inputs st e e' \<Longrightarrow> k \<noteq> ''UbloxAvailable'' \<Longrightarrow> k \<noteq> ''ModelRunnerTypeCache'' \<Longrightarrow> param_on k e = param_on k e'"
  by (simp add: param_on_def get_bool_def same_param)

definition steady :: "run_cond \<Rightarrow> bool" where
  "steady c \<longleftrightarrow> (\<forall>st e e'. same_inputs st e e' \<longrightarrow> fst (c st e) = fst (c st e') \<and> same_inputs st e (snd (c st e)))"

lemma steadyD:
  assumes "steady c" "same_inputs st e e'"
  shows "fst (c st e) = fst (c st e')" "same_inputs st e (snd (c st e))"
  using assms by (auto simp: steady_def)

lemma steady_reads: "(\<And>st e e'. same_inputs st e e' \<Longrightarrow> f st e = f st e') \<Longrightarrow> steady (reads f)"
  by (simp add: steady_def reads_def)

named_theorems steady_intros

lemma steady_simple [steady_intros]:
  "steady driverview" "steady notcar" "steady iscar" "steady logging" "steady joystick" "steady not_joystick"
  "steady long_maneuver" "steady lat_maneuver" "steady not_long_maneuver" "steady qcomgps" "steady always_run"
  "steady only_onroad" "steady only_offroad" "steady livestream" "steady (use_github_runner pc)" "steady use_copyparty"
  "steady mapd_ready"
  unfolding driverview_def notcar_def iscar_def logging_def joystick_def not_joystick_def long_maneuver_def lat_maneuver_def
    not_long_maneuver_def qcomgps_def always_run_def only_onroad_def only_offroad_def livestream_def use_github_runner_def
    use_copyparty_def mapd_ready_def
  by (rule steady_reads; simp add: same_param_on ublox_available_def same_inputs_def [of _ _ _] param_on_def get_bool_def)+

lemma same_sunnylink: "same_inputs st e e' \<Longrightarrow> sunnylink_ready e = sunnylink_ready e'"
  "same_inputs st e e' \<Longrightarrow> sunnylink_need_register e = sunnylink_need_register e'"
  by (simp_all add: sunnylink_ready_def sunnylink_need_register_def registered_def same_param_on [of st e e'] same_param [of st e e'])

lemma steady_sunnylink [steady_intros]:
  "steady sunnylink_ready_shim" "steady sunnylink_need_register_shim" "steady use_sunnylink_uploader_shim"
  unfolding sunnylink_ready_shim_def sunnylink_need_register_shim_def use_sunnylink_uploader_shim_def
  by (rule steady_reads; simp add: same_sunnylink use_sunnylink_uploader_def same_param_on)+

lemma steady_both:
  assumes "steady f" "steady g" "same_inputs st e e'"
  shows "fst (g st (snd (f st e))) = fst (g st (snd (f st e')))" "same_inputs st e (snd (g st (snd (f st e))))"
proof -
  have f: "same_inputs st e (snd (f st e))" "same_inputs st e' (snd (f st e'))" using steadyD(2) [OF assms(1) same_refl] by simp_all
  then have "same_inputs st (snd (f st e)) (snd (f st e'))" using assms(3) same_trans same_sym by meson
  then show "fst (g st (snd (f st e))) = fst (g st (snd (f st e')))" using assms(2) by (auto dest: steadyD)
  show "same_inputs st e (snd (g st (snd (f st e))))" using f(1) steadyD(2) [OF assms(2) same_refl] same_trans by meson
qed

lemma steady_combined [steady_intros]:
  "steady f \<Longrightarrow> steady g \<Longrightarrow> steady (or_c f g)" "steady f \<Longrightarrow> steady g \<Longrightarrow> steady (and_c f g)" "steady f \<Longrightarrow> steady (not_c f)"
  using steady_both [of f g] steadyD [of f]
  by (auto simp: steady_def [of "or_c f g"] steady_def [of "and_c f g"] steady_def [of "not_c f"] or_c_def and_c_def not_c_def case_prod_unfold)

lemma steady_uploader [steady_intros]: "steady uploader_ready"
proof -
  have eq: "uploader_ready = reads (\<lambda>st e. param_on ''OnroadUploads'' e \<or> \<not> st)"
    by (intro ext) (simp add: uploader_ready_def reads_def only_offroad_def always_run_def)
  show ?thesis unfolding eq by (rule steady_reads) (simp add: same_param_on)
qed

lemma steady_ublox [steady_intros]: "steady ublox"
proof -
  have "fst (get_active_model_runner f (e\<lparr>re_params := (re_params e)(''UbloxAvailable'' \<mapsto> v)\<rparr>)) = fst (get_active_model_runner f e)" for f e v
    by (simp add: get_active_model_runner_def get_pid_def get_active_bundle_def Let_def)
  then have "same_inputs st e (e\<lparr>re_params := (re_params e)(''UbloxAvailable'' \<mapsto> v)\<rparr>)" for st e v by (simp add: same_inputs_def)
  moreover have "same_inputs st e e' \<Longrightarrow> ublox_available e = ublox_available e'" for st e e'
    by (simp add: same_inputs_def ublox_available_def)
  ultimately show ?thesis by (simp add: steady_def ublox_def)
qed

lemma runner_cached: "fst (get_active_model_runner force (snd (get_active_model_runner force e))) = fst (get_active_model_runner force e)"
  by (auto simp: get_active_model_runner_def get_pid_def get_active_bundle_def Let_def)

lemma runner_same: "same_inputs st e (snd (get_active_model_runner (\<not> st) e))"
proof -
  have "re_notCar (snd (get_active_model_runner f e)) = re_notCar e" "re_ttyHS0 (snd (get_active_model_runner f e)) = re_ttyHS0 e"
    "re_use_quectel (snd (get_active_model_runner f e)) = re_use_quectel e"
    "re_mapd_root (snd (get_active_model_runner f e)) = re_mapd_root e"
    "k \<noteq> ''ModelRunnerTypeCache'' \<longrightarrow> re_params (snd (get_active_model_runner f e)) k = re_params e k" for f k
    by (auto simp: get_active_model_runner_def Let_def)
  then show ?thesis by (simp add: same_inputs_def runner_cached)
qed

lemma steady_model [steady_intros]: "steady is_tinygrad_model" "steady is_stock_model"
  using runner_same by (auto simp: steady_def is_tinygrad_model_def is_stock_model_def case_prod_unfold same_inputs_def)

lemma procs_steady: "list_all (\<lambda>p. steady (mp_should_run p)) (procs pf)"
  by (simp add: procs_def PythonProcess_def NativeProcess_def DaemonProcess_def steady_intros)

section \<open>A pass treats every process by itself\<close>

definition wanted_run :: "string list \<Rightarrow> bool \<Rightarrow> run_env \<Rightarrow> manager_process \<Rightarrow> bool" where
  "wanted_run not_run st e p \<longleftrightarrow> may_run not_run p \<and> fst (should_run p st e)"

definition started :: "os \<Rightarrow> manager_process \<Rightarrow> manager_process" where
  "started os p = fst (fst (start_process os p Map.empty))"

definition stopped :: "os \<Rightarrow> manager_process \<Rightarrow> manager_process" where
  "stopped os p = fst (stop_process os True False None p)"

definition ensured :: "os \<Rightarrow> string list \<Rightarrow> bool \<Rightarrow> run_env \<Rightarrow> manager_process \<Rightarrow> manager_process" where
  "ensured os not_run st e p = (if wanted_run not_run st e p then started os p else stopped os p)"

lemma start_process_started: "fst (fst (start_process os p ps)) = started os p"
  by (auto simp: started_def start_process_def Let_def split: proc_kind.split prod.split)

lemma steady_should_run: "steady (mp_should_run p) \<Longrightarrow> steady (should_run p)"
  by (simp add: should_run_def steady_simple)

lemma select_running_each:
  "list_all (\<lambda>p. steady (mp_should_run p)) ps \<Longrightarrow> same_inputs st e0 e \<Longrightarrow>
   fst (fst (select_running os not_run st e ps)) =
     map (\<lambda>p. (wanted_run not_run st e0 p, if wanted_run not_run st e0 p then p else stopped os p)) ps"
proof (induction ps arbitrary: e)
  case (Cons p ps)
  have s: "steady (should_run p)" using Cons.prems(1) by (simp add: steady_should_run)
  have eq: "fst (should_run p st e) = fst (should_run p st e0)" using steadyD(1) [OF s Cons.prems(2)] by simp
  have next_same: "same_inputs st e0 (snd (if may_run not_run p then should_run p st e else (False, e)))"
    using steadyD(2) [OF s same_refl, of st e] same_trans [OF Cons.prems(2)] Cons.prems(2) by auto
  have run: "fst (if may_run not_run p then should_run p st e else (False, e)) = wanted_run not_run st e0 p"
    using eq by (simp add: wanted_run_def)
  show ?case
    using Cons.IH [OF _ next_same] Cons.prems(1) run
    by (simp add: case_prod_unfold Let_def stopped_def)
qed simp

lemma start_running_each: "fst (fst (start_running os ps sel)) = map (\<lambda>(run, p). if run then started os p else p) sel"
proof (induction sel arbitrary: ps)
  case (Cons x sel)
  obtain run p where x: "x = (run, p)" by (cases x)
  show ?case using Cons.IH by (cases run) (simp_all add: x case_prod_unfold start_process_started Let_def)
qed simp

lemma ensure_running_each:
  assumes "list_all (\<lambda>p. steady (mp_should_run p)) ps"
  shows "fst (fst (ensure_running os not_run st e ps)) = map (ensured os not_run st e) ps"
  using select_running_each [OF assms same_refl]
  by (auto simp: ensure_running_def case_prod_unfold Let_def start_running_each ensured_def)

section \<open>What starting and stopping leave\<close>

definition like :: "manager_process \<Rightarrow> manager_process \<Rightarrow> bool" where
  \<comment> \<open>the same entry of the list of processes\<close>
  "like p q \<longleftrightarrow> mp_name p = mp_name q \<and> mp_kind p = mp_kind q \<and> mp_should_run p = mp_should_run q \<and> mp_enabled p = mp_enabled q"

lemma like_trans: "like p q \<Longrightarrow> like q r \<Longrightarrow> like p r"
  by (simp add: like_def)

lemma like_refl [simp]: "like p p"
  by (simp add: like_def)

lemma like_reap [simp]: "like p (reap q c) = like p q"
  by (simp add: like_def reap_def)

lemma like_stop [simp]: "like p (fst (stop_process os r b s q)) = like p q"
  by (auto simp: stop_process_def Let_def like_def reap_def split: option.split)

lemma like_started [simp]: "like p (started os q) = like p q"
proof -
  have "like p (q\<lparr>mp_child := c, mp_shutting_down := b\<rparr>) = like p q" for q c b by (simp add: like_def)
  then show ?thesis by (simp add: started_def start_process_def Let_def case_prod_unfold split: proc_kind.split)
qed

lemma like_exits [simp]: "like p (child_exits ex q) = like p q"
  by (simp add: child_exits_def like_def split: option.split)

lemma like_ensured [simp]: "like p (ensured os nr st e q) = like p q"
  by (simp add: ensured_def stopped_def)

lemma like_wanted: "like p q \<Longrightarrow> wanted_run nr st e q = wanted_run nr st e p"
  by (simp add: like_def wanted_run_def may_run_def should_run_def is_daemon_def)

lemma like_daemon: "like p q \<Longrightarrow> is_daemon q = is_daemon p"
  by (simp add: like_def is_daemon_def)

lemma reap_dead: "ch_exit c \<noteq> None \<Longrightarrow> mp_child (reap p c) = None \<and> \<not> mp_shutting_down (reap p c)"
  by (simp add: reap_def)

lemma stop_gone:
  assumes "\<not> is_daemon p" "b \<or> mp_shutting_down p"
  shows "mp_child (fst (stop_process os True b s p)) = None"
  using assms by (auto simp: stop_process_def Let_def reap_def split: option.split)

lemma stopped_or_stopping:
  assumes "\<not> is_daemon p" shows "mp_child (stopped os p) = None \<or> mp_shutting_down (stopped os p)"
  using assms by (auto simp: stopped_def stop_process_def Let_def reap_def split: option.split)

lemma stopped_daemon: "is_daemon p \<Longrightarrow> stopped os p = p" "is_daemon p \<Longrightarrow> started os p = p"
  by (auto simp: stopped_def stop_process_def started_def start_process_def is_daemon_def Let_def case_prod_unfold split: proc_kind.splits)

lemma stopped_gone: "\<not> is_daemon p \<Longrightarrow> mp_shutting_down p \<or> mp_child p = None \<Longrightarrow> mp_child (stopped os p) = None"
  using stop_gone [of p False] by (auto simp: stopped_def) (simp add: stop_process_def)

lemma started_up:
  assumes "\<not> is_daemon p"
  shows "mp_child (started os p) \<noteq> None \<and> \<not> mp_shutting_down (started os p)"
  using assms stop_gone [of p True os None]
  by (auto simp: started_def start_process_def is_daemon_def Let_def case_prod_unfold split: proc_kind.split)

lemma started_keeps_child:
  assumes "\<not> mp_shutting_down p" "mp_child p = Some c" shows "started os p = p"
  using assms by (auto simp: started_def start_process_def Let_def case_prod_unfold split: proc_kind.split)

lemma exits_keep [simp]:
  "mp_shutting_down (child_exits ex p) = mp_shutting_down p" "mp_child (child_exits ex p) = None \<longleftrightarrow> mp_child p = None"
  "is_daemon (child_exits ex p) = is_daemon p"
  by (auto simp: child_exits_def is_daemon_def split: option.split)

section \<open>Runs of the manager\<close>

definition manager_run :: "(string \<Rightarrow> param_flag list) \<Rightarrow> string list \<Rightarrow> manager_input list \<Rightarrow> manager \<Rightarrow> manager" where
  "manager_run flags ignore is m = foldl (\<lambda>m i. fst (fst (manager_pass flags ignore i m))) m is"

definition pass_env :: "(string \<Rightarrow> param_flag list) \<Rightarrow> manager_input \<Rightarrow> manager \<Rightarrow> run_env" where
  "pass_env flags i m =
     (mi_env i)\<lparr>re_params := transition_params flags m (mi_started i) (ignition_on (mi_pandas i)) (re_params (mi_env i))\<rparr>"

definition always_names :: "string list" where
  "always_names = [''logmessaged'', ''ui'', ''deleter'', ''pandad'', ''hardwared'', ''statsd'', ''mapd_manager'']"

definition managed :: "platform \<Rightarrow> string list \<Rightarrow> manager_process list \<Rightarrow> bool" where
  \<comment> \<open>the list of processes, with no child at a daemon and a child at what always runs\<close>
  "managed pf ignore ps \<longleftrightarrow>
     list_all2 like (procs pf) ps \<and> (\<forall>p \<in> set ps. is_daemon p \<longrightarrow> mp_child p = None) \<and>
     (\<forall>p \<in> set ps. mp_name p \<in> set always_names \<and> mp_name p \<notin> set ignore \<longrightarrow> \<not> mp_shutting_down p)"

lemma managed_entry:
  assumes "managed pf ignore ps" "p \<in> set ps" obtains q where "q \<in> set (procs pf)" "like q p"
proof -
  from assms(2) obtain i where "i < length ps" "ps ! i = p" by (auto simp: in_set_conv_nth)
  moreover from this have "procs pf ! i \<in> set (procs pf)" "like (procs pf ! i) p"
    using assms(1) by (auto simp: managed_def list_all2_conv_all_nth)
  ultimately show ?thesis using that by blast
qed

lemma managed_position:
  assumes "managed pf ignore ps" "q \<in> set (procs pf)" obtains p where "p \<in> set ps" "like q p"
  using assms by (fastforce simp: managed_def list_all2_conv_all_nth in_set_conv_nth)

lemma managed_steady: "managed pf ignore ps \<Longrightarrow> list_all (\<lambda>p. steady (mp_should_run p)) ps"
  using procs_steady [of pf] by (fastforce simp: list_all_iff like_def elim: managed_entry)

lemma always_wanted:
  "list_all (\<lambda>p. mp_name p \<in> set always_names \<longrightarrow> mp_should_run p = always_run \<and> mp_enabled p \<and> \<not> is_daemon p) (procs pf)"
  by (simp add: procs_def PythonProcess_def NativeProcess_def DaemonProcess_def always_names_def is_daemon_def)

lemma managed_always:
  assumes "managed pf ignore ps" "p \<in> set ps" "mp_name p \<in> set always_names" "mp_name p \<notin> set ignore"
  shows "\<not> is_daemon p" "wanted_run ignore st e p"
proof -
  obtain q where q: "q \<in> set (procs pf)" "like q p" using managed_entry [OF assms(1,2)] .
  with assms(3) have "mp_should_run q = always_run \<and> mp_enabled q \<and> \<not> is_daemon q"
    using always_wanted [of pf] by (auto simp: list_all_iff like_def)
  with q(2) have "mp_should_run p = always_run \<and> mp_enabled p \<and> \<not> is_daemon p" by (auto simp: like_def is_daemon_def)
  then show "\<not> is_daemon p" "wanted_run ignore st e p"
    using assms(4) by (simp_all add: wanted_run_def may_run_def should_run_def always_run_def reads_def)
qed

lemma ensured_daemon: "is_daemon p \<Longrightarrow> ensured os ignore st e p = p"
  by (simp add: ensured_def stopped_daemon)

lemma like_eqs: "like p q \<Longrightarrow> mp_name q = mp_name p" "like p q \<Longrightarrow> is_daemon q = is_daemon p"
  by (simp_all add: like_def is_daemon_def)

lemma managed_ensured:
  assumes "managed pf ignore ps"
  shows "managed pf ignore (map (\<lambda>p. ensured os ignore st e (child_exits ex p)) ps)"
proof -
  let ?f = "\<lambda>p. ensured os ignore st e (child_exits ex p)"
  have l: "like p (?f p)" for p by simp
  have "list_all2 like (procs pf) (map ?f ps)"
    using assms by (auto simp: managed_def list_all2_conv_all_nth)
  moreover have "mp_child (?f p) = None" if "p \<in> set ps" "is_daemon (?f p)" for p
    using that like_eqs(2) [OF l, of p] assms by (simp add: ensured_daemon managed_def)
  moreover have "\<not> mp_shutting_down (?f p)" if "p \<in> set ps" "mp_name (?f p) \<in> set always_names" "mp_name (?f p) \<notin> set ignore" for p
  proof -
    have n: "mp_name p \<in> set always_names" "mp_name p \<notin> set ignore" using that like_eqs(1) [OF l, of p] by simp_all
    have "like p (child_exits ex p)" by simp
    from like_wanted [OF this] have "wanted_run ignore st e (child_exits ex p)" "\<not> is_daemon (child_exits ex p)"
      using managed_always [OF assms that(1) n] by simp_all
    then show ?thesis by (simp add: ensured_def started_up)
  qed
  ultimately show ?thesis by (auto simp: managed_def)
qed

lemma pass_procs:
  assumes "managed pf ignore (mg_procs m)"
  shows "mg_procs (fst (fst (manager_pass flags ignore i m))) =
    map (\<lambda>p. ensured (mi_os i) ignore (mi_started i) (pass_env flags i m) (child_exits (mi_exits i) p)) (mg_procs m)"
proof -
  have "mp_should_run (child_exits ex p) = mp_should_run p" for ex p by (simp add: child_exits_def split: option.split)
  then have "list_all (\<lambda>p. steady (mp_should_run p)) (map (child_exits (mi_exits i)) (mg_procs m))"
    using managed_steady [OF assms] by (simp add: list_all_iff)
  from ensure_running_each [OF this] show ?thesis
    by (simp add: manager_pass_def Let_def case_prod_unfold pass_env_def comp_def)
qed

lemma pass_managed:
  "managed pf ignore (mg_procs m) \<Longrightarrow> managed pf ignore (mg_procs (fst (fst (manager_pass flags ignore i m))))"
  by (simp only: pass_procs managed_ensured)

lemma pass_messages: "mo_processes (snd (manager_pass flags ignore i m)) = map get_process_state_msg (mg_procs (fst (fst (manager_pass flags ignore i m))))"
  by (simp add: manager_pass_def Let_def case_prod_unfold)

lemma run_managed: "managed pf ignore (mg_procs m) \<Longrightarrow> managed pf ignore (mg_procs (manager_run flags ignore is m))"
  by (induction "is" arbitrary: m) (simp_all add: manager_run_def pass_managed)

lemma procs_fresh: "list_all (\<lambda>p. mp_child p = None \<and> \<not> mp_shutting_down p) (procs pf)"
  by (simp add: procs_def PythonProcess_def NativeProcess_def DaemonProcess_def)

lemma start_managed: "managed pf ignore (mg_procs (fst (fst (manager_start pf os ignore e))))"
proof -
  have "managed pf ignore (procs pf)"
    using procs_fresh [of pf] by (auto simp: managed_def list_all_iff list_all2_conv_all_nth)
  from managed_ensured [OF this, of os False _ "\<lambda>_. None"] 
  have "managed pf ignore (map (ensured os ignore False (e\<lparr>re_params := (re_params e)(''IsOffroad'' \<mapsto> PBool True)\<rparr>)) (procs pf))"
    using procs_fresh [of pf] by (simp add: child_exits_def list_all_iff cong: map_cong)
  then show ?thesis
    by (simp add: manager_start_def Let_def case_prod_unfold ensure_running_each [OF procs_steady])
qed

lemma reachable_managed: "managed pf ignore (mg_procs (manager_run flags ignore is (fst (fst (manager_start pf os ignore e)))))"
  by (rule run_managed) (rule start_managed)

section \<open>What a pass reports\<close>

definition should_be :: "manager_output \<Rightarrow> string \<Rightarrow> bool" where
  "should_be out n \<longleftrightarrow> list_ex (\<lambda>s. st_name s = n \<and> st_shouldBeRunning s) (mo_processes out)"

lemma message_of_ensured:
  assumes "\<not> is_daemon p"
  shows "st_shouldBeRunning (get_process_state_msg (ensured os ignore st e p)) = wanted_run ignore st e p"
  using started_up [OF assms, of os] stopped_or_stopping [OF assms, of os]
  by (auto simp: get_process_state_msg_def ensured_def split: option.split)

lemma message_name [simp]: "st_name (get_process_state_msg p) = mp_name p"
  by (simp add: get_process_state_msg_def split: option.split)

lemma reported_as_wanted:
  assumes "managed pf ignore (mg_procs m)" "list_all (\<lambda>q. mp_name q = n \<longrightarrow> \<not> is_daemon q) (procs pf)"
  shows "should_be (snd (manager_pass flags ignore i m)) n \<longleftrightarrow>
    list_ex (\<lambda>q. mp_name q = n \<and> wanted_run ignore (mi_started i) (pass_env flags i m) q) (procs pf)"
proof -
  let ?f = "\<lambda>p. ensured (mi_os i) ignore (mi_started i) (pass_env flags i m) (child_exits (mi_exits i) p)"
  let ?w = "wanted_run ignore (mi_started i) (pass_env flags i m)"
  have "(mp_name (?f p) = n \<and> st_shouldBeRunning (get_process_state_msg (?f p))) = (mp_name q = n \<and> ?w q)"
    if "q \<in> set (procs pf)" "like q p" for p q
  proof -
    have l: "like q (child_exits (mi_exits i) p)" "like q (?f p)" using that(2) by simp_all
    show ?thesis
    proof (cases "mp_name q = n")
      case True
      then have "\<not> is_daemon q" using assms(2) that(1) by (simp add: list_all_iff)
      then show ?thesis
        using True like_eqs [OF l(1)] like_eqs [OF l(2)] like_wanted [OF l(1)] message_of_ensured by simp
    next
      case False
      then show ?thesis using like_eqs [OF l(2)] by simp
    qed
  qed
  then have "(\<exists>p \<in> set (mg_procs m). mp_name (?f p) = n \<and> st_shouldBeRunning (get_process_state_msg (?f p))) =
    (\<exists>q \<in> set (procs pf). mp_name q = n \<and> ?w q)"
    using managed_entry [OF assms(1)] managed_position [OF assms(1)] by metis
  then show ?thesis by (simp add: should_be_def pass_messages pass_procs [OF assms(1)] list_ex_iff)
qed

definition driving_names :: "string list" where
  \<comment> \<open>what drives, or watches the driving\<close>
  "driving_names = [''encoderd'', ''micd'', ''modeld'', ''modeld_tinygrad'', ''sensord'', ''locationd'', ''locationd_llk'', ''calibrationd'',
     ''torqued'', ''controlsd'', ''joystickd'', ''selfdrived'', ''card'', ''paramsd'', ''lagd'', ''plannerd'', ''maneuversd'',
     ''lateral_maneuversd'', ''radard'', ''ascentv8shadowd'']"

lemma driving_offroad:
  "list_all (\<lambda>p. mp_name p \<in> set driving_names \<longrightarrow> \<not> is_daemon p \<and> (\<forall>e. \<not> fst (mp_should_run p False e))) (procs pf)"
  by (simp add: procs_def PythonProcess_def NativeProcess_def DaemonProcess_def driving_names_def is_daemon_def only_onroad_def
      iscar_def and_c_def or_c_def joystick_def not_joystick_def notcar_def not_long_maneuver_def long_maneuver_def lat_maneuver_def
      reads_def case_prod_unfold)

lemma driving_unwanted:
  assumes "managed pf ignore ps" "p \<in> set ps" "mp_name p \<in> set driving_names"
  shows "\<not> is_daemon p" "\<not> wanted_run ignore False e p"
proof -
  obtain q where q: "q \<in> set (procs pf)" "like q p" using managed_entry [OF assms(1,2)] .
  then have "\<not> is_daemon q \<and> (\<forall>e. \<not> fst (mp_should_run q False e))"
    using driving_offroad [of pf] assms(3) like_eqs [OF q(2)] by (auto simp: list_all_iff)
  then show "\<not> is_daemon p" "\<not> wanted_run ignore False e p"
    using like_eqs [OF q(2)] like_wanted [OF q(2)] by (simp_all add: wanted_run_def should_run_def)
qed

lemma two_passes_stop:
  assumes m: "managed pf ignore (mg_procs m)" and off: "\<not> mi_started i" "\<not> mi_started j"
    and p: "p \<in> set (mg_procs (manager_run flags ignore [i, j] m))" "mp_name p \<in> set driving_names"
  shows "mp_child p = None"
proof -
  let ?n = "fst (fst (manager_pass flags ignore i m))"
  have n: "managed pf ignore (mg_procs ?n)" using m by (rule pass_managed)
  obtain q where q: "q \<in> set (mg_procs ?n)"
    and pq: "p = ensured (mi_os j) ignore False (pass_env flags j ?n) (child_exits (mi_exits j) q)"
    using p(1) off(2) by (auto simp: manager_run_def pass_procs [OF n])
  obtain r where r: "r \<in> set (mg_procs m)"
    and qr: "q = ensured (mi_os i) ignore False (pass_env flags i m) (child_exits (mi_exits i) r)"
    using q off(1) by (auto simp: pass_procs [OF m])
  have l: "like q p" "like r q" unfolding pq qr by simp_all
  then have names: "mp_name q \<in> set driving_names" "mp_name r \<in> set driving_names" using p(2) by (simp_all add: like_def)
  have w: "\<not> wanted_run ignore False e (child_exits ex x)" if "\<not> wanted_run ignore False e x" for e ex x
    using that like_wanted [of x "child_exits ex x"] by simp
  have "\<not> is_daemon r" "\<not> is_daemon q"
    using driving_unwanted(1) [OF m r names(2)] driving_unwanted(1) [OF n q names(1)] .
  moreover have "q = stopped (mi_os i) (child_exits (mi_exits i) r)"
    unfolding qr using w [OF driving_unwanted(2) [OF m r names(2)]] by (simp add: ensured_def)
  moreover have "p = stopped (mi_os j) (child_exits (mi_exits j) q)"
    unfolding pq using w [OF driving_unwanted(2) [OF n q names(1)]] by (simp add: ensured_def)
  ultimately show ?thesis using stopped_or_stopping [of "child_exits (mi_exits i) r"] stopped_gone [of "child_exits (mi_exits j) q"] by auto
qed

lemma cleanup_child:
  assumes "is_daemon p \<longrightarrow> mp_child p = None"
  shows "mp_child (fst (stop_process os True True None (fst (stop_process os True False None p)))) = None"
proof (cases "is_daemon p")
  case True
  then show ?thesis using assms by (simp add: stop_process_def)
next
  case False
  have "\<not> is_daemon (fst (stop_process os True False None p))" using False like_eqs(2) [of p "fst (stop_process os True False None p)"] by simp
  then show ?thesis by (simp add: stop_gone)
qed

section \<open>A process that died\<close>

definition not_running :: "process_state list \<Rightarrow> string list" where
  \<comment> \<open>what the drive loop reads of the message\<close>
  "not_running msgs = map st_name (filter (\<lambda>p. \<not> st_running p \<and> st_shouldBeRunning p) msgs)"

lemma dead_stays:
  assumes "managed pf ignore ps" "p \<in> set ps" "mp_name p \<in> set always_names" "mp_name p \<notin> set ignore"
    "mp_child p = Some c" "ch_exit c = Some code"
  shows "ensured os ignore st e (child_exits ex p) = p"
proof -
  have "child_exits ex p = p" using assms(5,6) by (simp add: child_exits_def)
  moreover have "\<not> mp_shutting_down p" using assms(1-4) by (simp add: managed_def)
  ultimately show ?thesis using managed_always(2) [OF assms(1-4)] started_keeps_child assms(5) by (simp add: ensured_def)
qed

lemma dead_stays_in_pass:
  assumes "managed pf ignore (mg_procs m)" "p \<in> set (mg_procs m)" "mp_name p \<in> set always_names" "mp_name p \<notin> set ignore"
    "mp_child p = Some c" "ch_exit c = Some code"
  shows "p \<in> set (mg_procs (fst (fst (manager_pass flags ignore i m))))"
  using dead_stays [OF assms, of "mi_os i" "mi_started i" "pass_env flags i m" "mi_exits i"] assms(2)
  by (force simp: pass_procs [OF assms(1)])

lemma dead_stays_in_run:
  assumes "mp_name p \<in> set always_names" "mp_name p \<notin> set ignore" "mp_child p = Some c" "ch_exit c = Some code"
  shows "managed pf ignore (mg_procs m) \<Longrightarrow> p \<in> set (mg_procs m) \<Longrightarrow> p \<in> set (mg_procs (manager_run flags ignore is m))"
proof (induction "is" arbitrary: m)
  case (Cons i "is")
  show ?case
    using Cons.IH [OF pass_managed [OF Cons.prems(1)] dead_stays_in_pass [OF Cons.prems assms]] by (simp add: manager_run_def)
qed (simp add: manager_run_def)

section \<open>Properties\<close>

text \<open>C18. Two passes after the car was switched off no process that drives or watches the driving is left, whatever happened
  before and however the processes react to their signals: the first pass interrupts them, the second waits five seconds
  and kills what is still there.\<close>

theorem driving_stops_offroad:
  assumes "\<not> mi_started i" "\<not> mi_started j"
  shows "filter (\<lambda>p. mp_name p \<in> set driving_names \<and> mp_child p \<noteq> None)
    (mg_procs (manager_run flags ignore (is @ [i, j]) (fst (fst (manager_start pf os ignore e))))) = []"
proof -
  let ?m = "manager_run flags ignore is (fst (fst (manager_start pf os ignore e)))"
  have "manager_run flags ignore (is @ [i, j]) (fst (fst (manager_start pf os ignore e))) = manager_run flags ignore [i, j] ?m"
    by (simp add: manager_run_def)
  then show ?thesis
    using two_passes_stop [OF reachable_managed assms] by (auto simp: filter_empty_conv)
qed

definition plain_os :: os where
  "plain_os = \<lparr>os_joined = (\<lambda>_. None), os_pid = (\<lambda>_. 100), os_cmdline = (\<lambda>_. None)\<rparr>"

definition device :: platform where
  "device = \<lparr>PC = False, WEBCAM = False, DARWIN = False, COMMA_HARDWARE = True, github_runner_exists = False,
     sunnylink_uploader_exists = False, copyparty_exists = False\<rparr>"

definition plain_env :: run_env where
  "plain_env = \<lparr>re_params = Map.empty, re_notCar = False, re_ttyHS0 = False, re_use_quectel = False, re_mapd_root = False\<rparr>"

definition plain_input :: "bool \<Rightarrow> manager_input" where
  "plain_input st = \<lparr>mi_started = st, mi_pandas = [], mi_exits = (\<lambda>_. None), mi_os = plain_os, mi_env = plain_env\<rparr>"

abbreviation plain_start :: manager where
  "plain_start \<equiv> fst (fst (manager_start device plain_os [] plain_env))"

lemma driving_stops_offroad_witness:
  "filter (\<lambda>p. mp_name p \<in> set driving_names \<and> mp_child p \<noteq> None)
     (mg_procs (manager_run (\<lambda>_. []) [] ([plain_input True] @ [plain_input False, plain_input False]) plain_start)) = [] \<and>
   list_ex (\<lambda>p. mp_name p = ''controlsd'' \<and> mp_child p \<noteq> None) (mg_procs (manager_run (\<lambda>_. []) [] [plain_input True] plain_start))"
proof
  show "filter (\<lambda>p. mp_name p \<in> set driving_names \<and> mp_child p \<noteq> None)
     (mg_procs (manager_run (\<lambda>_. []) [] ([plain_input True] @ [plain_input False, plain_input False]) plain_start)) = []"
    by (rule driving_stops_offroad) (simp_all add: plain_input_def)
  show "list_ex (\<lambda>p. mp_name p = ''controlsd'' \<and> mp_child p \<noteq> None) (mg_procs (manager_run (\<lambda>_. []) [] [plain_input True] plain_start))"
    by code_simp
qed

text \<open>
  Nothing survives the manager: when its loop has ended, at whatever point, the two rounds of signals of its cleanup leave no
  process that it started, except the daemons, which it never holds.\<close>

theorem nothing_survives_cleanup:
  "filter (\<lambda>p. mp_child p \<noteq> None)
    (fst (manager_cleanup os (mg_procs (manager_run flags ignore is (fst (fst (manager_start pf os' ignore e))))))) = []"
proof -
  have "is_daemon p \<longrightarrow> mp_child p = None"
    if "p \<in> set (mg_procs (manager_run flags ignore is (fst (fst (manager_start pf os' ignore e)))))" for p
    using reachable_managed [of pf ignore flags "is" os' e] that by (auto simp: managed_def)
  then show ?thesis by (auto simp: manager_cleanup_def Let_def filter_empty_conv cleanup_child)
qed

text \<open>C19. A process that always runs and died is not started again. One of \<open>logmessaged\<close>, \<open>ui\<close>, \<open>deleter\<close>, \<open>pandad\<close>,
  \<open>hardwared\<close>, \<open>statsd\<close> and \<open>mapd_manager\<close>, when it is not ignored, stays dead through every later pass of the manager, and each
  pass tells the drive loop of it, which raises \<open>processNotRunning\<close>.\<close>

theorem dead_process_is_reported_for_good:
  assumes "m = manager_run flags ignore is (fst (fst (manager_start pf os ignore e)))" "p \<in> set (mg_procs m)"
    "mp_name p \<in> set always_names" "mp_name p \<notin> set ignore" "mp_child p = Some c" "ch_exit c = Some code"
    "out = snd (manager_pass flags ignore i (manager_run flags ignore later m))"
  shows "p \<in> set (mg_procs (manager_run flags ignore later m)) \<and> mp_name p \<in> set (not_running (mo_processes out)) \<and>
    (True, EN_processNotRunning) \<in> set (process_events config (fr\<lparr>fr_managerState := True, fr_not_running := not_running (mo_processes out)\<rparr>))"
proof -
  let ?m = "manager_run flags ignore later m"
  have m: "managed pf ignore (mg_procs m)" unfolding assms(1) by (rule reachable_managed)
  have p: "p \<in> set (mg_procs ?m)" using m assms(2) by (rule dead_stays_in_run [OF assms(3-6)])
  have m': "managed pf ignore (mg_procs ?m)" using m by (rule run_managed)
  have "p \<in> set (mg_procs (fst (fst (manager_pass flags ignore i ?m))))" using dead_stays_in_pass [OF m' p assms(3-6)] .
  moreover have "\<not> mp_shutting_down p" using m' p assms(3,4) by (simp add: managed_def)
  ultimately have n: "mp_name p \<in> set (not_running (mo_processes out))"
    using assms(5,6) by (force simp: assms(7) pass_messages not_running_def get_process_state_msg_def)
  moreover have "mp_name p \<noteq> ''mapd''" using assms(3) by (auto simp: always_names_def)
  ultimately have "filter (\<lambda>p. p \<noteq> ''mapd'') (not_running (mo_processes out)) \<noteq> []" by (auto simp: filter_empty_conv)
  then show ?thesis using p n by (simp add: process_events_def)
qed

definition ui_dies :: manager_input where
  "ui_dies = (plain_input False)\<lparr>mi_exits := (\<lambda>n. if n = ''ui'' then Some (- 11) else None)\<rparr>"

lemma dead_process_is_reported_for_good_witness:
  "\<forall>config fr. (True, EN_processNotRunning) \<in> set (process_events config (fr\<lparr>fr_managerState := True,
     fr_not_running := not_running (mo_processes (snd (manager_pass (\<lambda>_. []) [] (plain_input True)
       (manager_run (\<lambda>_. []) [] [plain_input True, plain_input False] (manager_run (\<lambda>_. []) [] [ui_dies] plain_start)))))\<rparr>))"
proof -
  let ?m = "manager_run (\<lambda>_. []) [] [ui_dies] plain_start"
  have "list_ex (\<lambda>p. mp_name p = ''ui'' \<and> mp_child p = Some \<lparr>ch_pid = 100, ch_exit = Some (- 11)\<rparr>) (mg_procs ?m)" by code_simp
  then obtain p where p: "p \<in> set (mg_procs ?m)" and n: "mp_name p = ''ui''" and c: "mp_child p = Some \<lparr>ch_pid = 100, ch_exit = Some (- 11)\<rparr>"
    by (auto simp: list_ex_iff)
  have "mp_name p \<in> set always_names" "mp_name p \<notin> set []" by (simp_all add: n always_names_def)
  from dead_process_is_reported_for_good [OF refl p this c _ refl] show ?thesis by simp
qed

lemma control_conditions:
  "list_ex (\<lambda>q. mp_name q = ''controlsd'' \<and> wanted_run ignore st e q) (procs pf) \<longleftrightarrow>
     ''controlsd'' \<notin> set ignore \<and> st \<and> \<not> re_notCar e \<and> \<not> param_on ''JoystickDebugMode'' e"
  "list_ex (\<lambda>q. mp_name q = ''joystickd'' \<and> wanted_run ignore st e q) (procs pf) \<longleftrightarrow>
     ''joystickd'' \<notin> set ignore \<and> st \<and> (re_notCar e \<or> param_on ''JoystickDebugMode'' e)"
  by (auto simp: procs_def PythonProcess_def NativeProcess_def DaemonProcess_def wanted_run_def may_run_def should_run_def is_daemon_def
      and_c_def or_c_def not_joystick_def iscar_def joystick_def notcar_def reads_def)

lemma model_conditions:
  "list_ex (\<lambda>q. mp_name q = ''modeld'' \<and> wanted_run ignore st e q) (procs pf) \<longleftrightarrow>
     ''modeld'' \<notin> set ignore \<and> st \<and> fst (get_active_model_runner False e) = Runner_stock"
  "list_ex (\<lambda>q. mp_name q = ''modeld_tinygrad'' \<and> wanted_run ignore st e q) (procs pf) \<longleftrightarrow>
     ''modeld_tinygrad'' \<notin> set ignore \<and> st \<and> fst (get_active_model_runner False e) = Runner_tinygrad"
  by (auto simp: procs_def PythonProcess_def NativeProcess_def DaemonProcess_def wanted_run_def may_run_def should_run_def is_daemon_def
      and_c_def only_onroad_def is_stock_model_def is_tinygrad_model_def reads_def case_prod_unfold)

lemma no_daemons_among:
  "list_all (\<lambda>q. mp_name q \<in> {''controlsd'', ''joystickd'', ''modeld'', ''modeld_tinygrad''} \<longrightarrow> \<not> is_daemon q) (procs pf)"
  by (simp add: procs_def PythonProcess_def NativeProcess_def DaemonProcess_def is_daemon_def)

text \<open>C20. On the road exactly one of the two processes that command the car, \<open>controlsd\<close> and \<open>joystickd\<close>, is to run, off the road none,
  in every pass of every run.\<close>

theorem one_controller_on_the_road:
  assumes "''controlsd'' \<notin> set ignore" "''joystickd'' \<notin> set ignore"
    "out = snd (manager_pass flags ignore i (manager_run flags ignore is (fst (fst (manager_start pf os ignore e)))))"
  shows "(should_be out ''controlsd'' \<noteq> should_be out ''joystickd'') = mi_started i \<and>
    \<not> (should_be out ''controlsd'' \<and> should_be out ''joystickd'')"
proof -
  have d: "list_all (\<lambda>q. mp_name q = ''controlsd'' \<longrightarrow> \<not> is_daemon q) (procs pf)" "list_all (\<lambda>q. mp_name q = ''joystickd'' \<longrightarrow> \<not> is_daemon q) (procs pf)"
    using no_daemons_among [of pf] by (auto simp: list_all_iff)
  show ?thesis
    using assms(1,2) unfolding assms(3) reported_as_wanted [OF reachable_managed d(1)] reported_as_wanted [OF reachable_managed d(2)] control_conditions
    by auto
qed

lemma one_controller_on_the_road_witness:
  "(should_be (snd (manager_pass (\<lambda>_. []) [] (plain_input True) (manager_run (\<lambda>_. []) [] [plain_input False] plain_start))) ''controlsd'' \<noteq>
     should_be (snd (manager_pass (\<lambda>_. []) [] (plain_input True) (manager_run (\<lambda>_. []) [] [plain_input False] plain_start))) ''joystickd'')
    = mi_started (plain_input True)"
  using one_controller_on_the_road [of "[]" _ "\<lambda>_. []" "plain_input True" "[plain_input False]" device plain_os plain_env, OF _ _ refl] by simp

section \<open>A drive with a bundle that names no runner\<close>

lemma select_running_same:
  "list_all (\<lambda>p. steady (mp_should_run p)) ps \<Longrightarrow> same_inputs st e0 e \<Longrightarrow>
   same_inputs st e0 (snd (fst (select_running os not_run st e ps)))"
proof (induction ps arbitrary: e)
  case (Cons p ps)
  have s: "steady (should_run p)" using Cons.prems(1) by (simp add: steady_should_run)
  have "same_inputs st e0 (snd (if may_run not_run p then should_run p st e else (False, e)))"
    using steadyD(2) [OF s same_refl, of st e] same_trans [OF Cons.prems(2)] Cons.prems(2) by auto
  from Cons.IH [OF _ this] Cons.prems(1) show ?case by (simp add: case_prod_unfold Let_def)
qed simp

definition daemon_keys :: "manager_process \<Rightarrow> string set" where
  \<comment> \<open>the parameters that starting the process writes\<close>
  "daemon_keys p = (case mp_kind p of Daemon _ key \<Rightarrow> {key} | _ \<Rightarrow> {})"

lemma start_process_key: "k \<notin> daemon_keys p \<Longrightarrow> snd (fst (start_process os p ps)) k = ps k"
  by (auto simp: start_process_def start_daemon_def daemon_keys_def Let_def case_prod_unfold split: proc_kind.splits option.splits if_splits)

lemma start_running_key:
  "list_all (\<lambda>(run, p). k \<notin> daemon_keys p) sel \<Longrightarrow> snd (fst (start_running os ps sel)) k = ps k"
proof (induction sel arbitrary: ps)
  case (Cons x sel)
  obtain run p where x: "x = (run, p)" by (cases x)
  have "snd (fst (if run then start_process os p ps else ((p, ps), []))) k = ps k"
    using Cons.prems start_process_key [of k p os ps] by (simp add: x)
  with Cons show ?case by (simp add: x case_prod_unfold Let_def)
qed simp

lemma select_running_keys:
  "list_all (\<lambda>p. k \<notin> daemon_keys p) ps \<Longrightarrow>
   list_all (\<lambda>(run, p). k \<notin> daemon_keys p) (fst (fst (select_running os not_run st e ps)))"
proof (induction ps arbitrary: e)
  case (Cons p ps)
  have "daemon_keys (fst (stop_process os True False None p)) = daemon_keys p"
    using like_stop [of p os True False None p] by (simp add: like_def daemon_keys_def)
  with Cons show ?case by (simp add: case_prod_unfold Let_def)
qed simp

lemma procs_keys: "list_all (\<lambda>p. daemon_keys p \<subseteq> {''AthenadPid'', ''SunnylinkdPid''}) (procs pf)"
  by (simp add: procs_def PythonProcess_def NativeProcess_def DaemonProcess_def daemon_keys_def)

definition model_keys :: "string set" where
  "model_keys = {''ModelRunnerTypeCache'', ''ModelManager_ActiveBundle''}"

lemma runner_cong:
  "\<forall>k\<in>model_keys. re_params e k = re_params e' k \<Longrightarrow> fst (get_active_model_runner f e) = fst (get_active_model_runner f e')"
  by (simp add: model_keys_def get_active_model_runner_def get_pid_def get_active_bundle_def Let_def)

lemma pass_keeps_runner:
  assumes "managed pf ignore (mg_procs m)" "mi_started i"
  shows "fst (get_active_model_runner False (snd (fst (manager_pass flags ignore i m)))) = fst (get_active_model_runner False (pass_env flags i m))"
proof -
  let ?ps = "map (child_exits (mi_exits i)) (mg_procs m)"
  let ?sel = "select_running (mi_os i) ignore True (pass_env flags i m) ?ps"
  have st: "mp_should_run (child_exits ex p) = mp_should_run p" for ex p by (simp add: child_exits_def split: option.split)
  then have "list_all (\<lambda>p. steady (mp_should_run p)) ?ps" using managed_steady [OF assms(1)] by (simp add: list_all_iff)
  from select_running_same [where os = "mi_os i" and not_run = ignore, OF this same_refl [of True "pass_env flags i m"]]
  have "fst (get_active_model_runner False (snd (fst ?sel))) = fst (get_active_model_runner False (pass_env flags i m))"
    by (simp add: same_inputs_def)
  moreover have "list_all (\<lambda>p. daemon_keys p \<subseteq> {''AthenadPid'', ''SunnylinkdPid''}) ?ps"
  proof -
    have "daemon_keys (child_exits ex p) = daemon_keys q" if "like q p" for ex p q
      using that by (auto simp: daemon_keys_def like_def child_exits_def split: option.split)
    then show ?thesis using procs_keys [of pf] by (fastforce simp: list_all_iff elim: managed_entry [OF assms(1)])
  qed
  then have "list_all (\<lambda>p. k \<notin> daemon_keys p) ?ps" if "k \<in> model_keys" for k
    using that by (auto simp: list_all_iff model_keys_def)
  from start_running_key [OF select_running_keys [OF this], of _ "mi_os i" "re_params (snd (fst ?sel))" "mi_os i" ignore True "pass_env flags i m"]
  have "\<forall>k\<in>model_keys. snd (fst (start_running (mi_os i) (re_params (snd (fst ?sel))) (fst (fst ?sel)))) k = re_params (snd (fst ?sel)) k" by blast
  then have "fst (get_active_model_runner False ((snd (fst ?sel))\<lparr>re_params := snd (fst (start_running (mi_os i) (re_params (snd (fst ?sel))) (fst (fst ?sel))))\<rparr>))
      = fst (get_active_model_runner False (snd (fst ?sel)))" by (intro runner_cong) simp
  ultimately show ?thesis
    using assms(2) by (simp add: manager_pass_def ensure_running_def pass_env_def Let_def case_prod_unfold)
qed

fun drive_kept :: "(string \<Rightarrow> param_flag list) \<Rightarrow> string list \<Rightarrow> manager_input list \<Rightarrow> manager \<Rightarrow> run_env \<Rightarrow> bool" where
  \<comment> \<open>passes on the road, each starting with the model's parameters as the one before left them\<close>
  "drive_kept flags ignore [] m e \<longleftrightarrow> True"
| "drive_kept flags ignore (i # is) m e \<longleftrightarrow>
     mi_started i \<and> (\<forall>k\<in>model_keys. re_params (mi_env i) k = re_params e k) \<and>
     drive_kept flags ignore is (fst (fst (manager_pass flags ignore i m))) (snd (fst (manager_pass flags ignore i m)))"

fun manager_outputs :: "(string \<Rightarrow> param_flag list) \<Rightarrow> string list \<Rightarrow> manager_input list \<Rightarrow> manager \<Rightarrow> manager_output list" where
  "manager_outputs flags ignore [] m = []"
| "manager_outputs flags ignore (i # is) m =
     snd (manager_pass flags ignore i m) # manager_outputs flags ignore is (fst (fst (manager_pass flags ignore i m)))"

definition model_flags :: "(string \<Rightarrow> param_flag list) \<Rightarrow> bool" where
  \<comment> \<open>\<open>common/params_keys.h\<close>: the cache is cleared when a drive begins, the bundle is persistent\<close>
  "model_flags flags \<longleftrightarrow> flags ''ModelRunnerTypeCache'' = [CLEAR_ON_ONROAD_TRANSITION] \<and> flags ''ModelManager_ActiveBundle'' = []"

lemma pass_env_later:
  assumes "model_flags flags" "mg_started_prev m" "mi_started i" "k \<in> model_keys"
  shows "re_params (pass_env flags i m) k = re_params (mi_env i) k"
  using assms by (auto simp: pass_env_def transition_params_def clear_all_def model_flags_def model_keys_def Let_def)

lemma pass_env_first:
  assumes "model_flags flags" "\<not> mg_started_prev m" "mi_started i"
  shows "re_params (pass_env flags i m) ''ModelRunnerTypeCache'' = None"
    "re_params (pass_env flags i m) ''ModelManager_ActiveBundle'' = re_params (mi_env i) ''ModelManager_ActiveBundle''"
  using assms by (auto simp: pass_env_def transition_params_def clear_all_def model_flags_def Let_def)

lemma no_model_wanted:
  assumes "managed pf ignore (mg_procs m)" "fst (get_active_model_runner False (pass_env flags i m)) = Runner_snpe"
  shows "\<not> should_be (snd (manager_pass flags ignore i m)) ''modeld'' \<and> \<not> should_be (snd (manager_pass flags ignore i m)) ''modeld_tinygrad''"
proof -
  have d: "list_all (\<lambda>q. mp_name q = ''modeld'' \<longrightarrow> \<not> is_daemon q) (procs pf)" "list_all (\<lambda>q. mp_name q = ''modeld_tinygrad'' \<longrightarrow> \<not> is_daemon q) (procs pf)"
    using no_daemons_among [of pf] by (auto simp: list_all_iff)
  show ?thesis
    unfolding reported_as_wanted [OF assms(1) d(1)] reported_as_wanted [OF assms(1) d(2)] model_conditions assms(2) by simp
qed

lemma no_model_in_drive:
  assumes "model_flags flags"
  shows "managed pf ignore (mg_procs m) \<Longrightarrow> mg_started_prev m \<Longrightarrow> drive_kept flags ignore is m e \<Longrightarrow>
    fst (get_active_model_runner False e) = Runner_snpe \<Longrightarrow> out \<in> set (manager_outputs flags ignore is m) \<Longrightarrow>
    \<not> should_be out ''modeld'' \<and> \<not> should_be out ''modeld_tinygrad''"
proof (induction "is" arbitrary: m e)
  case (Cons i "is")
  let ?p = "manager_pass flags ignore i m"
  have i: "mi_started i" "\<forall>k\<in>model_keys. re_params (pass_env flags i m) k = re_params e k"
    using Cons.prems(3) pass_env_later [OF assms Cons.prems(2)] by simp_all
  have r: "fst (get_active_model_runner False (pass_env flags i m)) = Runner_snpe"
    using runner_cong [OF i(2)] Cons.prems(4) by simp
  have prev: "mg_started_prev (fst (fst ?p))" using i(1) by (simp add: manager_pass_def Let_def case_prod_unfold)
  show ?case
    using Cons.IH [OF pass_managed [OF Cons.prems(1)] prev] Cons.prems(3,5) no_model_wanted [OF Cons.prems(1) r]
      pass_keeps_runner [OF Cons.prems(1) i(1), of flags] r by auto
qed simp

text \<open>C21. With a model bundle for a runner that is neither the stock one nor tinygrad no model process is to run in any pass of the
  drive, although the car is on the road: not in the first, which reads the bundle, and not in the later ones, which read the
  cache that the first has written. The bundle is there when the drive begins, nothing else writes the two parameters during the
  drive, and their flags are those of \<open>common/params_keys.h\<close>. The fetcher enters such a runner for every bundle whose description
  names none.\<close>

theorem bundle_without_runner_runs_no_model:
  assumes "model_flags flags" "m = manager_run flags ignore past (fst (fst (manager_start pf os ignore e)))" "\<not> mg_started_prev m"
    "re_params (mi_env i) ''ModelManager_ActiveBundle'' = Some (PBundle REQUIRED_JSON_VERSION Runner_snpe)"
    "drive_kept flags ignore (i # is) m (mi_env i)" "out \<in> set (manager_outputs flags ignore (i # is) m)"
  shows "\<not> should_be out ''modeld'' \<and> \<not> should_be out ''modeld_tinygrad''"
proof -
  let ?p = "manager_pass flags ignore i m"
  have on: "mi_started i" using assms(5) by simp
  have r: "managed pf ignore (mg_procs m)" unfolding assms(2) by (rule reachable_managed)
  have first: "fst (get_active_model_runner False (pass_env flags i m)) = Runner_snpe"
    using pass_env_first [OF assms(1,3) on] assms(4) by (simp add: get_active_model_runner_def get_active_bundle_def get_pid_def Let_def)
  have prev: "mg_started_prev (fst (fst ?p))" using on by (simp add: manager_pass_def Let_def case_prod_unfold)
  show ?thesis
    using no_model_in_drive [OF assms(1) pass_managed [OF r] prev] assms(5,6) no_model_wanted [OF r first]
      pass_keeps_runner [OF r on, of flags] first by auto
qed

definition snpe_input :: manager_input where
  "snpe_input = (plain_input True)\<lparr>mi_env := plain_env\<lparr>re_params := [''ModelManager_ActiveBundle'' \<mapsto> PBundle 17 0]\<rparr>\<rparr>"

definition key_flags :: "string \<Rightarrow> param_flag list" where
  "key_flags k = (if k = ''ModelRunnerTypeCache'' then [CLEAR_ON_ONROAD_TRANSITION] else [])"

definition snpe_later :: manager_input where
  \<comment> \<open>a second pass, with the parameters as the first left them\<close>
  "snpe_later = snpe_input\<lparr>mi_env := snd (fst (manager_pass key_flags [] snpe_input plain_start))\<rparr>"

lemma bundle_without_runner_runs_no_model_witness:
  "let m = fst (fst (manager_pass key_flags [] snpe_input plain_start)); out = snd (manager_pass key_flags [] snpe_later m)
   in \<not> should_be out ''modeld'' \<and> \<not> should_be out ''modeld_tinygrad''"
proof -
  have st: "mi_started snpe_input" "mi_started snpe_later" by (simp_all add: snpe_later_def snpe_input_def plain_input_def)
  have e: "mi_env snpe_later = snd (fst (manager_pass key_flags [] snpe_input plain_start))" by (simp add: snpe_later_def)
  show ?thesis unfolding Let_def
    by (rule bundle_without_runner_runs_no_model [of key_flags plain_start "[]" "[]" device plain_os plain_env snpe_input "[snpe_later]"])
      (simp_all add: st e model_flags_def key_flags_def manager_run_def, simp_all add: manager_start_def snpe_input_def case_prod_unfold Let_def)
qed

end
