(* ===== verification/Radar.thy ===== *)
theory Radar
  imports StatLive "HOL-Library.AList"
begin

text \<open>
  The fusion of radar and camera: \<^verbatim>\<open>selfdrive/controls/radard.py\<close> and \<^verbatim>\<open>common/simple_kalman.py\<close>. A dictionary of tracks
  is an association list in the order of insertion. Whether the lateral position of a lead is taken from the camera
  (Hyundai's camera controlled cruise control) is a field of the configuration, computed from flags of opendbc. The lists
  of a model lead are its first elements.
\<close>

section \<open>The filter of a track\<close>

record kf1d =
  kf_x0 :: real
  kf_x1 :: real
  A_K_0 :: real
  A_K_1 :: real
  A_K_2 :: real
  A_K_3 :: real
  kf_K0 :: real
  kf_K1 :: real

record kalman_params =
  km_A :: "(real \<times> real) \<times> (real \<times> real)"
  km_C :: "real \<times> real"
  km_K :: "real \<times> real"

definition KF1D :: "real \<Rightarrow> real \<Rightarrow> kalman_params \<Rightarrow> kf1d" where
  "KF1D x0 x1 k =
     (case (km_A k, km_C k, km_K k) of
        (((a00, a01), (a10, a11)), (c0, c1), (k0, k1)) \<Rightarrow>
          \<lparr>kf_x0 = x0, kf_x1 = x1, A_K_0 = a00 - k0 * c0, A_K_1 = a01 - k0 * c1, A_K_2 = a10 - k1 * c0, A_K_3 = a11 - k1 * c1,
           kf_K0 = k0, kf_K1 = k1\<rparr>)"

definition kf_update :: "real \<Rightarrow> kf1d \<Rightarrow> kf1d" where
  "kf_update meas k =
     k\<lparr>kf_x0 := A_K_0 k * kf_x0 k + A_K_1 k * kf_x1 k + kf_K0 k * meas,
       kf_x1 := A_K_2 k * kf_x0 k + A_K_3 k * kf_x1 k + kf_K1 k * meas\<rparr>"

definition kalman_dts :: "real list" where
  "kalman_dts = map (\<lambda>i. real i * (1 / 100)) [1..<21]"

definition kalman_K0 :: "real list" where
  "kalman_K0 = [0.12287673, 0.14556536, 0.16522756, 0.18281627, 0.1988689, 0.21372394, 0.22761098, 0.24069424, 0.253096, 0.26491023,
     0.27621103, 0.28705801, 0.29750003, 0.30757767, 0.31732515, 0.32677158, 0.33594201, 0.34485814, 0.35353899, 0.36200124]"

definition kalman_K1 :: "real list" where
  "kalman_K1 = [0.29666309, 0.29330885, 0.29042818, 0.28787125, 0.28555364, 0.28342219, 0.28144091, 0.27958406, 0.27783249, 0.27617149,
     0.27458948, 0.27307714, 0.27162685, 0.27023228, 0.26888809, 0.26758976, 0.26633338, 0.26511557, 0.26393339, 0.26278425]"

definition KalmanParams :: "real \<Rightarrow> kalman_params option" where
  \<comment> \<open>\<open>None\<close>: the assertion fails\<close>
  "KalmanParams dt =
     (if 1 / 100 < dt \<and> dt < 2 / 10
      then Some \<lparr>km_A = ((1, dt), (0, 1)), km_C = (1, 0),
                 km_K = (np_interp dt (zip kalman_dts kalman_K0), np_interp dt (zip kalman_dts kalman_K1))\<rparr>
      else None)"

section \<open>Tracks\<close>

abbreviation (input) RADAR_TO_CAMERA :: real where "RADAR_TO_CAMERA \<equiv> 152 / 100"
abbreviation (input) V_EGO_STATIONARY :: real where "V_EGO_STATIONARY \<equiv> 4"
abbreviation (input) LEAD_ACCEL_TAU :: real where "LEAD_ACCEL_TAU \<equiv> 15 / 10"
abbreviation (input) DT_MDL :: real where "DT_MDL \<equiv> 5 / 100"

record track =
  tk_identifier :: int
  tk_cnt :: nat
  tk_aLeadTau :: first_order_filter
  tk_kf :: kf1d
  tk_dRel :: real
  tk_yRel :: real
  tk_vRel :: real
  tk_vLead :: real
  tk_vLeadK :: real
  tk_aLeadK :: real

definition Track :: "int \<Rightarrow> real \<Rightarrow> kalman_params \<Rightarrow> track" where
  \<comment> \<open>the fields that only \<open>update\<close> sets are zero\<close>
  "Track identifier v_lead k =
     \<lparr>tk_identifier = identifier, tk_cnt = 0, tk_aLeadTau = FirstOrderFilter LEAD_ACCEL_TAU (45 / 100) DT_MDL True,
      tk_kf = KF1D v_lead 0 k, tk_dRel = 0, tk_yRel = 0, tk_vRel = 0, tk_vLead = 0, tk_vLeadK = 0, tk_aLeadK = 0\<rparr>"

definition track_update :: "real \<Rightarrow> real \<Rightarrow> real \<Rightarrow> real \<Rightarrow> track \<Rightarrow> track" where
  "track_update d_rel y_rel v_rel v_lead t =
     (let kf = (if 0 < tk_cnt t then kf_update v_lead (tk_kf t) else tk_kf t)
      in t\<lparr>tk_dRel := d_rel, tk_yRel := y_rel, tk_vRel := v_rel, tk_vLead := v_lead, tk_kf := kf,
           tk_vLeadK := kf_x0 kf, tk_aLeadK := kf_x1 kf,
           tk_aLeadTau := (if \<bar>kf_x1 kf\<bar> < 5 / 10 then (tk_aLeadTau t)\<lparr>fo_x := LEAD_ACCEL_TAU\<rparr> else fo_update 0 (tk_aLeadTau t)),
           tk_cnt := tk_cnt t + 1\<rparr>)"

record radar_lead =
  rl_present :: bool
  rl_dRel :: real
  rl_yRel :: real
  rl_vRel :: real
  rl_vLead :: real
  rl_vLeadK :: real
  rl_aLeadK :: real
  rl_aLeadTau :: real
  rl_modelProb :: real
  rl_radar :: bool
  rl_radarTrackId :: int

definition no_lead :: radar_lead where
  \<comment> \<open>the default of the message\<close>
  "no_lead = \<lparr>rl_present = False, rl_dRel = 0, rl_yRel = 0, rl_vRel = 0, rl_vLead = 0, rl_vLeadK = 0, rl_aLeadK = 0, rl_aLeadTau = 0,
     rl_modelProb = 0, rl_radar = False, rl_radarTrackId = 0\<rparr>"

definition get_RadarState :: "real \<Rightarrow> track \<Rightarrow> radar_lead" where
  "get_RadarState model_prob t =
     \<lparr>rl_present = True, rl_dRel = tk_dRel t, rl_yRel = tk_yRel t, rl_vRel = tk_vRel t, rl_vLead = tk_vLead t, rl_vLeadK = tk_vLeadK t,
      rl_aLeadK = tk_aLeadK t, rl_aLeadTau = fo_x (tk_aLeadTau t), rl_modelProb = model_prob, rl_radar = True,
      rl_radarTrackId = tk_identifier t\<rparr>"

definition potential_low_speed_lead :: "real \<Rightarrow> track \<Rightarrow> bool" where
  "potential_low_speed_lead v_ego t \<longleftrightarrow> \<bar>tk_yRel t\<bar> < 1 \<and> v_ego < V_EGO_STATIONARY \<and> 75 / 100 < tk_dRel t \<and> tk_dRel t < 25"

section \<open>Leads\<close>

record vision_lead =
  vl_x :: real
  vl_y :: real
  vl_v :: real
  vl_a :: real
  vl_xStd :: real
  vl_yStd :: real
  vl_vStd :: real
  vl_prob :: real

definition laplacian_pdf :: "real \<Rightarrow> real \<Rightarrow> real \<Rightarrow> real" where
  "laplacian_pdf x mu b = exp (- \<bar>x - mu\<bar> / max b (1 / 10000))"

definition match_prob :: "real \<Rightarrow> vision_lead \<Rightarrow> track \<Rightarrow> real" where
  "match_prob v_ego lead c =
     laplacian_pdf (tk_dRel c) (vl_x lead - RADAR_TO_CAMERA) (vl_xStd lead) * laplacian_pdf (tk_yRel c) (- vl_y lead) (vl_yStd lead) *
     laplacian_pdf (tk_vRel c + v_ego) (vl_v lead) (vl_vStd lead)"

definition sane_match :: "real \<Rightarrow> vision_lead \<Rightarrow> track \<Rightarrow> bool" where
  "sane_match v_ego lead t \<longleftrightarrow>
     (let offset_vision_dist = vl_x lead - RADAR_TO_CAMERA
      in \<bar>tk_dRel t - offset_vision_dist\<bar> < max (offset_vision_dist * (25 / 100)) 5 \<and>
         (\<bar>tk_vRel t + v_ego - vl_v lead\<bar> < 10 \<or> 3 < v_ego + tk_vRel t))"

definition match_vision_to_track :: "real \<Rightarrow> vision_lead \<Rightarrow> track \<Rightarrow> track list \<Rightarrow> track option" where
  \<comment> \<open>the first track and the others\<close>
  "match_vision_to_track v_ego lead t ts =
     (let best = min_by (\<lambda>c. - match_prob v_ego lead c) t ts in if sane_match v_ego lead best then Some best else None)"

definition get_RadarState_from_vision :: "vision_lead \<Rightarrow> real \<Rightarrow> real \<Rightarrow> real \<Rightarrow> radar_lead" where
  "get_RadarState_from_vision lead v_ego model_v_ego lead_prob =
     (let v_rel = vl_v lead - model_v_ego
      in \<lparr>rl_present = True, rl_dRel = vl_x lead - RADAR_TO_CAMERA, rl_yRel = - vl_y lead, rl_vRel = v_rel, rl_vLead = v_ego + v_rel,
          rl_vLeadK = v_ego + v_rel, rl_aLeadK = vl_a lead, rl_aLeadTau = 3 / 10, rl_modelProb = lead_prob, rl_radar = False,
          rl_radarTrackId = - 1\<rparr>)"

record radar_config =
  rc_kalman :: kalman_params
  rc_delay :: real
  rc_custom_yrel :: bool

definition get_custom_yrel :: "radar_config \<Rightarrow> vision_lead \<Rightarrow> radar_lead \<Rightarrow> radar_lead" where
  "get_custom_yrel cf lead r = (if rc_custom_yrel cf then r\<lparr>rl_yRel := - vl_y lead\<rparr> else r)"

definition get_lead :: "radar_config \<Rightarrow> real \<Rightarrow> bool \<Rightarrow> track list \<Rightarrow> vision_lead \<Rightarrow> real \<Rightarrow> real \<Rightarrow> bool \<Rightarrow> radar_lead" where
  "get_lead cf v_ego ready tracks lead model_v_ego lead_prob low_speed_override =
     (let track = (if ready \<and> lead_prob > 5 / 10 then case tracks of [] \<Rightarrow> None | t # ts \<Rightarrow> match_vision_to_track v_ego lead t ts else None);
          r = (case track of
                 Some t \<Rightarrow> get_custom_yrel cf lead (get_RadarState lead_prob t)
               | None \<Rightarrow> if ready \<and> lead_prob > 5 / 10 then get_RadarState_from_vision lead v_ego model_v_ego lead_prob else no_lead)
      in if low_speed_override
         then case filter (potential_low_speed_lead v_ego) tracks of
                [] \<Rightarrow> r
              | c # cs \<Rightarrow>
                  let closest = min_by tk_dRel c cs
                  in if \<not> rl_present r \<or> tk_dRel closest < rl_dRel r then get_RadarState 0 closest else r
         else r)"

section \<open>The process\<close>

record radar_point =
  rp_trackId :: int
  rp_dRel :: real
  rp_yRel :: real
  rp_vRel :: real

record radard =
  rd_tracks :: "(int \<times> track) list"
  rd_prob_one :: first_order_filter
  rd_prob_two :: first_order_filter
  rd_v_ego :: real
  rd_v_ego_hist :: "real list"
  rd_last_v_ego_frame :: int

definition RadarD :: radard where
  "RadarD = \<lparr>rd_tracks = [], rd_prob_one = FirstOrderFilter 0 (2 / 10) DT_MDL True, rd_prob_two = FirstOrderFilter 0 (2 / 10) DT_MDL True,
     rd_v_ego = 0, rd_v_ego_hist = [0], rd_last_v_ego_frame = - 1\<rparr>"

record radar_input =
  ri_model_seen :: bool
  ri_carState_frame :: int
  ri_vEgo :: real
  ri_points :: "radar_point list"
  ri_model_v :: "real option"
  ri_leads :: "vision_lead list"

definition hist_append :: "nat \<Rightarrow> real \<Rightarrow> real list \<Rightarrow> real list" where
  \<comment> \<open>a \<open>deque\<close> with a maximal length\<close>
  "hist_append n x xs = (let ys = xs @ [x] in drop (length ys - n) ys)"

definition take_v_ego :: "radar_config \<Rightarrow> radar_input \<Rightarrow> radard \<Rightarrow> radard" where
  "take_v_ego cf i s =
     (if ri_carState_frame i \<noteq> rd_last_v_ego_frame s
      then s\<lparr>rd_v_ego := ri_vEgo i, rd_v_ego_hist := hist_append (nat (py_round (rc_delay cf / DT_MDL)) + 1) (ri_vEgo i) (rd_v_ego_hist s),
             rd_last_v_ego_frame := ri_carState_frame i\<rparr>
      else s)"

definition ar_pts :: "radar_point list \<Rightarrow> (int \<times> real \<times> real \<times> real) list" where
  "ar_pts ps = foldl (\<lambda>d p. AList.update (rp_trackId p) (rp_dRel p, rp_yRel p, rp_vRel p) d) [] ps"

definition drop_missing :: "(int \<times> 'a) list \<Rightarrow> (int \<times> track) list \<Rightarrow> (int \<times> track) list" where
  "drop_missing pts tracks = filter (\<lambda>t. fst t \<in> set (map fst pts)) tracks"

definition point_update :: "radar_config \<Rightarrow> real \<Rightarrow> int \<times> real \<times> real \<times> real \<Rightarrow> (int \<times> track) list \<Rightarrow> (int \<times> track) list" where
  "point_update cf v_hist p tracks =
     (case p of (ids, d, y, v) \<Rightarrow>
        let v_lead = v + v_hist;
            t = (case map_of tracks ids of None \<Rightarrow> Track ids v_lead (rc_kalman cf) | Some t \<Rightarrow> t)
        in AList.update ids (track_update d y v v_lead t) tracks)"

definition update_tracks :: "radar_config \<Rightarrow> real \<Rightarrow> radar_point list \<Rightarrow> (int \<times> track) list \<Rightarrow> (int \<times> track) list" where
  "update_tracks cf v_hist points tracks =
     (let pts = ar_pts points in foldl (\<lambda>ts p. point_update cf v_hist p ts) (drop_missing pts tracks) pts)"

definition prob_step :: "real \<Rightarrow> first_order_filter \<Rightarrow> first_order_filter" where
  \<comment> \<open>up at once, down slowly\<close>
  "prob_step p f = (if p > fo_x f then f\<lparr>fo_x := p\<rparr> else fo_update p f)"

definition radard_update :: "radar_config \<Rightarrow> radar_input \<Rightarrow> radard \<Rightarrow> (radar_lead \<times> radar_lead) \<times> radard" where
  "radard_update cf i s =
     (let s = take_v_ego cf i s;
          s = s\<lparr>rd_tracks := update_tracks cf (hd (rd_v_ego_hist s)) (ri_points i) (rd_tracks s)\<rparr>;
          model_v_ego = (case ri_model_v i of Some v \<Rightarrow> v | None \<Rightarrow> rd_v_ego s)
      in case ri_leads i of
           one # two # _ \<Rightarrow>
             let s = s\<lparr>rd_prob_one := prob_step (vl_prob one) (rd_prob_one s), rd_prob_two := prob_step (vl_prob two) (rd_prob_two s)\<rparr>;
                 tracks = map snd (rd_tracks s)
             in ((get_lead cf (rd_v_ego s) (ri_model_seen i) tracks one model_v_ego (fo_x (rd_prob_one s)) True,
                  get_lead cf (rd_v_ego s) (ri_model_seen i) tracks two model_v_ego (fo_x (rd_prob_two s)) False), s)
         | _ \<Rightarrow> ((no_lead, no_lead), s))"

end
