(* ===== verification/RadarFacts.thy ===== *)
theory RadarFacts
  imports Radar
begin

text \<open>
  What the fusion of radar and camera promises: an obstacle seen by the radar in front of a slow car is never
  overlooked, a lead of the camera is held for some frames and then dropped, and the filter of a track converges.
\<close>

section \<open>Tracks follow the points\<close>

lemma map_of_ar_pts:
  assumes "distinct (map rp_trackId ps)" "p \<in> set ps"
  shows "map_of (ar_pts ps) (rp_trackId p) = Some (rp_dRel p, rp_yRel p, rp_vRel p)"
  using assms
proof (induction ps rule: rev_induct)
  case (snoc q ps)
  show ?case
  proof (cases "p = q")
    case True
    then show ?thesis by (simp add: ar_pts_def AList.update_conv')
  next
    case False
    then have "p \<in> set ps" "rp_trackId p \<noteq> rp_trackId q" using snoc.prems by (auto simp: image_iff)
    then show ?thesis using snoc by (simp add: ar_pts_def AList.update_conv')
  qed
qed simp

lemma distinct_ar_pts: "distinct (map fst (ar_pts ps))"
  by (induction ps rule: rev_induct) (simp_all add: ar_pts_def AList.distinct_update)

definition at_point :: "real \<times> real \<times> real \<Rightarrow> track \<Rightarrow> bool" where
  "at_point p t \<longleftrightarrow> (tk_dRel t, tk_yRel t, tk_vRel t) = p"

lemma track_update_at [simp]: "at_point p (track_update d y v l t) \<longleftrightarrow> (d, y, v) = p"
  by (simp add: at_point_def track_update_def Let_def)

lemma point_updates_keep:
  "ids \<notin> fst ` set pts \<Longrightarrow> map_of (foldl (\<lambda>ts p. point_update cf h p ts) ts pts) ids = map_of ts ids"
  by (induction pts arbitrary: ts) (auto simp: point_update_def Let_def AList.update_conv')

lemma point_updates_at:
  "distinct (map fst pts) \<Longrightarrow> (ids, p) \<in> set pts \<Longrightarrow>
   \<exists>t. map_of (foldl (\<lambda>ts p. point_update cf h p ts) ts pts) ids = Some t \<and> at_point p t"
proof (induction pts arbitrary: ts)
  case (Cons q pts)
  obtain k r where q: "q = (k, r)" by (cases q)
  obtain d y v where r: "r = (d, y, v)" by (cases r)
  show ?case
  proof (cases "(ids, p) = q")
    case True
    then have "fst q = ids" by auto
    then have "ids \<notin> fst ` set pts" using Cons.prems(1) by simp
    then have "map_of (foldl (\<lambda>ts p. point_update cf h p ts) ts (q # pts)) ids = map_of (point_update cf h q ts) ids"
      by (simp add: point_updates_keep)
    then show ?thesis using True by (simp add: q r point_update_def Let_def AList.update_conv')
  next
    case False
    then show ?thesis using Cons by simp
  qed
qed simp

lemma point_is_tracked:
  assumes "distinct (map rp_trackId ps)" "p \<in> set ps"
  obtains t where "t \<in> snd ` set (update_tracks cf h ps ts)" "tk_dRel t = rp_dRel p" "tk_yRel t = rp_yRel p" "tk_vRel t = rp_vRel p"
proof -
  have "(rp_trackId p, rp_dRel p, rp_yRel p, rp_vRel p) \<in> set (ar_pts ps)" using map_of_ar_pts [OF assms] by (rule map_of_SomeD)
  from point_updates_at [OF distinct_ar_pts this, of cf h "drop_missing (ar_pts ps) ts"]
  obtain t where "map_of (update_tracks cf h ps ts) (rp_trackId p) = Some t" "at_point (rp_dRel p, rp_yRel p, rp_vRel p) t"
    by (auto simp: update_tracks_def Let_def)
  then show ?thesis using that by (force simp: at_point_def dest: map_of_SomeD)
qed

lemma low_speed_lead:
  assumes "t \<in> set ts" "potential_low_speed_lead v t"
  shows "rl_present (get_lead cf v ready ts lead mv prob True) \<and> rl_dRel (get_lead cf v ready ts lead mv prob True) \<le> tk_dRel t"
proof -
  have "t \<in> set (filter (potential_low_speed_lead v) ts)" using assms by simp
  then obtain c cs where f: "filter (potential_low_speed_lead v) ts = c # cs" and t: "t \<in> insert c (set cs)"
    by (cases "filter (potential_low_speed_lead v) ts") (simp_all del: set_filter)
  have "tk_dRel (min_by tk_dRel c cs) \<le> tk_dRel t" using t by (rule min_by_least)
  then show ?thesis by (auto simp: get_lead_def Let_def f get_RadarState_def)
qed

section \<open>The certainty of a lead\<close>

definition radard_run :: "radar_config \<Rightarrow> radar_input list \<Rightarrow> radard \<Rightarrow> radard" where
  "radard_run cf is s = foldl (\<lambda>s i. snd (radard_update cf i s)) s is"

definition prob_filter_ok :: "first_order_filter \<Rightarrow> bool" where
  "prob_filter_ok f \<longleftrightarrow> fo_alpha f = 1 / 5 \<and> fo_initialized f \<and> 0 \<le> fo_x f \<and> fo_x f \<le> 1"

definition lead_probs :: "radar_input \<Rightarrow> (real \<times> real) option" where
  "lead_probs i = (case ri_leads i of one # two # _ \<Rightarrow> Some (vl_prob one, vl_prob two) | _ \<Rightarrow> None)"

definition probs_ok :: "radar_input \<Rightarrow> bool" where
  "probs_ok i \<longleftrightarrow> list_all (\<lambda>l. 0 \<le> vl_prob l \<and> vl_prob l \<le> 1) (ri_leads i)"

lemma prob_step_value:
  assumes "prob_filter_ok f" shows "fo_x (prob_step p f) = (if p > fo_x f then p else 4 / 5 * fo_x f + p / 5)"
proof -
  have a: "fo_alpha f = 1 / 5" "fo_initialized f" using assms by (simp_all add: prob_filter_ok_def)
  show ?thesis by (simp add: prob_step_def fo_update_def a)
qed

lemma prob_step_ok:
  assumes "prob_filter_ok f" "0 \<le> p" "p \<le> 1" shows "prob_filter_ok (prob_step p f)"
proof -
  have "fo_alpha (prob_step p f) = fo_alpha f" "fo_initialized (prob_step p f) \<or> \<not> fo_initialized f"
    by (simp_all add: prob_step_def fo_update_def)
  moreover have "0 \<le> fo_x (prob_step p f) \<and> fo_x (prob_step p f) \<le> 1"
    using assms by (auto simp: prob_step_value prob_filter_ok_def)
  ultimately show ?thesis using assms(1) by (simp add: prob_filter_ok_def)
qed

lemma update_probs:
  "rd_prob_two (snd (radard_update cf i s)) = (case lead_probs i of None \<Rightarrow> rd_prob_two s | Some (p, q) \<Rightarrow> prob_step q (rd_prob_two s))"
  "rd_prob_one (snd (radard_update cf i s)) = (case lead_probs i of None \<Rightarrow> rd_prob_one s | Some (p, q) \<Rightarrow> prob_step p (rd_prob_one s))"
  by (simp_all add: radard_update_def lead_probs_def take_v_ego_def Let_def split: list.split)

lemma run_probs_ok:
  "list_all probs_ok is \<Longrightarrow> prob_filter_ok (rd_prob_two s) \<Longrightarrow> prob_filter_ok (rd_prob_two (radard_run cf is s))"
proof (induction "is" arbitrary: s)
  case (Cons i "is")
  have "prob_filter_ok (rd_prob_two (snd (radard_update cf i s)))"
    using Cons.prems by (auto simp: update_probs lead_probs_def probs_ok_def intro: prob_step_ok split: list.split)
  then show ?case using Cons by (simp add: radard_run_def)
qed (simp add: radard_run_def)

lemma start_prob_ok: "prob_filter_ok (rd_prob_two RadarD)"
  by (simp add: RadarD_def FirstOrderFilter_def prob_filter_ok_def)

lemma lead_two_present:
  assumes "ri_leads i = one # two # rest"
  shows "rl_present (snd (fst (radard_update cf i s))) \<longleftrightarrow> ri_model_seen i \<and> 1 / 2 < fo_x (rd_prob_two (snd (radard_update cf i s)))"
  using assms
  by (auto simp: radard_update_def Let_def get_lead_def no_lead_def get_RadarState_def get_custom_yrel_def get_RadarState_from_vision_def
      split: list.split option.split)

lemma run_keeps_probability:
  "list_all probs_ok js \<Longrightarrow> list_all (\<lambda>j. lead_probs j \<noteq> None) js \<Longrightarrow> prob_filter_ok (rd_prob_two s) \<Longrightarrow>
   (4 / 5) ^ length js * fo_x (rd_prob_two s) \<le> fo_x (rd_prob_two (radard_run cf js s))"
proof (induction js arbitrary: s)
  case (Cons j js)
  let ?s = "snd (radard_update cf j s)"
  have ok: "prob_filter_ok (rd_prob_two ?s)" using run_probs_ok [of "[j]" s cf] Cons.prems by (simp add: radard_run_def)
  obtain p q where pq: "lead_probs j = Some (p, q)" using Cons.prems(2) by auto
  have "0 \<le> q" using pq Cons.prems(1) by (auto simp: lead_probs_def probs_ok_def split: list.splits)
  then have step: "4 / 5 * fo_x (rd_prob_two s) \<le> fo_x (rd_prob_two ?s)"
    using prob_step_value [OF Cons.prems(3), of q] Cons.prems(3) by (auto simp: update_probs pq prob_filter_ok_def)
  have "(4 / 5) ^ length (j # js) * fo_x (rd_prob_two s) \<le> (4 / 5) ^ length js * fo_x (rd_prob_two ?s)"
    using mult_left_mono [OF step, of "(4 / 5) ^ length js"] by (simp add: ac_simps)
  also have "\<dots> \<le> fo_x (rd_prob_two (radard_run cf js ?s))" using Cons.IH [OF _ _ ok] Cons.prems by simp
  finally show ?case by (simp add: radard_run_def)
qed (simp add: radard_run_def)

lemma run_loses_probability:
  "list_all (\<lambda>j. \<exists>p. lead_probs j = Some (p, 0)) js \<Longrightarrow> prob_filter_ok (rd_prob_two s) \<Longrightarrow>
   fo_x (rd_prob_two (radard_run cf js s)) = (4 / 5) ^ length js * fo_x (rd_prob_two s)"
proof (induction js arbitrary: s)
  case (Cons j js)
  let ?s = "snd (radard_update cf j s)"
  obtain p where p: "lead_probs j = Some (p, 0)" using Cons.prems(1) by auto
  have "fo_x (rd_prob_two ?s) = 4 / 5 * fo_x (rd_prob_two s)" "prob_filter_ok (rd_prob_two ?s)"
    using prob_step_value [OF Cons.prems(2), of 0] prob_step_ok [OF Cons.prems(2), of 0] Cons.prems(2)
    by (auto simp: update_probs p prob_filter_ok_def)
  then show ?case using Cons by (simp add: radard_run_def)
qed (simp add: radard_run_def)

section \<open>Convergence of the filter\<close>

abbreviation (input) gain_0 :: real where "gain_0 \<equiv> 0.1988689"
abbreviation (input) gain_1 :: real where "gain_1 \<equiv> 0.28555364"

definition model_gains :: "kf1d \<Rightarrow> bool" where
  \<comment> \<open>the filter of a track at the rate of the models\<close>
  "model_gains k \<longleftrightarrow> A_K_0 k = 1 - gain_0 \<and> A_K_1 k = DT_MDL \<and> A_K_2 k = - gain_1 \<and> A_K_3 k = 1 \<and> kf_K0 k = gain_0 \<and> kf_K1 k = gain_1"

lemma kalman_params_model: "KalmanParams DT_MDL = Some \<lparr>km_A = ((1, DT_MDL), (0, 1)), km_C = (1, 0), km_K = (gain_0, gain_1)\<rparr>"
  by (simp add: KalmanParams_def kalman_dts_def kalman_K0_def kalman_K1_def upt_rec numeral_eq_Suc)

definition error_energy :: "real \<Rightarrow> real \<Rightarrow> real \<Rightarrow> real" where
  \<comment> \<open>the quadratic form that an update with the true speed scales by the determinant of the filter\<close>
  "error_energy v x0 x1 = gain_1 * (x0 - v)\<^sup>2 - gain_0 * (x0 - v) * x1 + DT_MDL * x1\<^sup>2"

lemma quadratic_scales:
  fixes a b d e x :: real
  shows "b * ((1 - a) * e + d * x)\<^sup>2 - a * ((1 - a) * e + d * x) * (x - b * e) + d * (x - b * e)\<^sup>2 =
    (1 - a + d * b) * (b * e\<^sup>2 - a * e * x + d * x\<^sup>2)"
  by (simp add: power2_eq_square algebra_simps)

lemma quadratic_bound:
  fixes a b d e x c :: real
  assumes "0 < d" "0 \<le> c * b - c * a\<^sup>2 / (4 * d) - 1" "0 \<le> c" shows "e\<^sup>2 \<le> c * (b * e\<^sup>2 - a * e * x + d * x\<^sup>2)"
proof -
  have "c * (b * e\<^sup>2 - a * e * x + d * x\<^sup>2) - e\<^sup>2 = c * d * (x - a / (2 * d) * e)\<^sup>2 + (c * b - c * a\<^sup>2 / (4 * d) - 1) * e\<^sup>2"
    using assms(1) by (simp add: power2_eq_square field_simps)
  moreover have "0 \<le> c * d * (x - a / (2 * d) * e)\<^sup>2" using assms by simp
  moreover have "0 \<le> (c * b - c * a\<^sup>2 / (4 * d) - 1) * e\<^sup>2" using assms(2) by simp
  ultimately show ?thesis by linarith
qed

lemma energy_scales:
  assumes "model_gains k"
  shows "error_energy v (kf_x0 (kf_update v k)) (kf_x1 (kf_update v k)) = (1 - gain_0 + DT_MDL * gain_1) * error_energy v (kf_x0 k) (kf_x1 k)"
proof -
  have g: "A_K_0 k = 1 - gain_0" "A_K_1 k = DT_MDL" "A_K_2 k = - gain_1" "A_K_3 k = 1" "kf_K0 k = gain_0" "kf_K1 k = gain_1"
    using assms by (simp_all only: model_gains_def)
  have "kf_x0 (kf_update v k) - v = (1 - gain_0) * (kf_x0 k - v) + DT_MDL * kf_x1 k"
    "kf_x1 (kf_update v k) = kf_x1 k - gain_1 * (kf_x0 k - v)"
    by (simp_all add: kf_update_def g) (simp_all add: field_simps)
  then show ?thesis by (simp only: error_energy_def quadratic_scales)
qed

lemma energy_bounds: "(x0 - v)\<^sup>2 \<le> 12 * error_energy v x0 x1" "x1\<^sup>2 \<le> 66 * error_energy v x0 x1"
proof -
  show "(x0 - v)\<^sup>2 \<le> 12 * error_energy v x0 x1"
    unfolding error_energy_def by (rule quadratic_bound) (simp_all add: power2_eq_square)
  have "x1\<^sup>2 \<le> 66 * (DT_MDL * x1\<^sup>2 - gain_0 * x1 * (x0 - v) + gain_1 * (x0 - v)\<^sup>2)"
    by (rule quadratic_bound) (simp_all add: power2_eq_square)
  then show "x1\<^sup>2 \<le> 66 * error_energy v x0 x1" by (simp add: error_energy_def algebra_simps)
qed

lemma track_energy_nonneg: "0 \<le> error_energy v x0 x1"
  using energy_bounds(2) [of x1 v x0] zero_le_power2 [of x1] by linarith

definition track_life :: "(real \<times> real \<times> real \<times> real) list \<Rightarrow> track \<Rightarrow> track" where
  "track_life ms t = foldl (\<lambda>t (d, y, v_rel, v_lead). track_update d y v_rel v_lead t) t ms"

definition tracked :: "track \<Rightarrow> bool" where
  \<comment> \<open>a track that was updated\<close>
  "tracked t \<longleftrightarrow> 0 < tk_cnt t \<and> model_gains (tk_kf t) \<and> tk_vLeadK t = kf_x0 (tk_kf t) \<and> tk_aLeadK t = kf_x1 (tk_kf t)"

lemma gains_keep: "model_gains k \<Longrightarrow> model_gains (kf_update m k)"
  by (simp add: model_gains_def kf_update_def)

lemma tracked_update: "model_gains (tk_kf t) \<Longrightarrow> tracked (track_update d y vr vl t)"
  by (simp add: tracked_def track_update_def Let_def gains_keep)

lemma tracked_life: "model_gains (tk_kf t) \<Longrightarrow> ms \<noteq> [] \<Longrightarrow> tracked (track_life ms t)"
proof (induction ms arbitrary: t)
  case (Cons m ms)
  obtain d y vr vl where m: "m = (d, y, vr, vl)" by (cases m)
  have t: "tracked (track_update d y vr vl t)" using Cons.prems(1) by (rule tracked_update)
  show ?case
  proof (cases "ms = []")
    case True
    then show ?thesis using t by (simp add: track_life_def m)
  next
    case False
    then show ?thesis using Cons.IH [of "track_update d y vr vl t"] t by (simp add: track_life_def m tracked_def)
  qed
qed simp

lemma new_track_gains:
  assumes "KalmanParams DT_MDL = Some k" shows "model_gains (tk_kf (Track ids v k))"
proof -
  have "k = \<lparr>km_A = ((1, DT_MDL), (0, 1)), km_C = (1, 0), km_K = (gain_0, gain_1)\<rparr>" using assms by (simp only: kalman_params_model option.inject)
  then show ?thesis by (simp add: Track_def KF1D_def model_gains_def)
qed

lemma update_energy:
  assumes "tracked t"
  shows "error_energy v (tk_vLeadK (track_update d y vr v t)) (tk_aLeadK (track_update d y vr v t)) =
    (1 - gain_0 + DT_MDL * gain_1) * error_energy v (tk_vLeadK t) (tk_aLeadK t)"
proof -
  have t: "0 < tk_cnt t" "model_gains (tk_kf t)" "tk_vLeadK t = kf_x0 (tk_kf t)" "tk_aLeadK t = kf_x1 (tk_kf t)"
    using assms by (simp_all add: tracked_def)
  have "tk_vLeadK (track_update d y vr v t) = kf_x0 (kf_update v (tk_kf t))" "tk_aLeadK (track_update d y vr v t) = kf_x1 (kf_update v (tk_kf t))"
    using t(1) by (simp_all add: track_update_def Let_def)
  then show ?thesis using energy_scales [OF t(2), of v] t(3,4) by simp
qed

lemma life_energy:
  "tracked t \<Longrightarrow> error_energy v (tk_vLeadK (track_life (map (\<lambda>(d, y, vr). (d, y, vr, v)) ms) t)) (tk_aLeadK (track_life (map (\<lambda>(d, y, vr). (d, y, vr, v)) ms) t)) \<le>
   (82 / 100) ^ length ms * error_energy v (tk_vLeadK t) (tk_aLeadK t)"
proof (induction ms arbitrary: t)
  case (Cons m ms)
  obtain d y vr where m: "m = (d, y, vr)" by (cases m)
  let ?t = "track_update d y vr v t"
  have "tracked ?t" using Cons.prems by (intro tracked_update) (simp add: tracked_def)
  note IH = Cons.IH [OF this]
  have "error_energy v (tk_vLeadK ?t) (tk_aLeadK ?t) \<le> 82 / 100 * error_energy v (tk_vLeadK t) (tk_aLeadK t)"
    unfolding update_energy [OF Cons.prems] by (intro mult_right_mono track_energy_nonneg) simp
  from mult_left_mono [OF this, of "(82 / 100) ^ length ms"]
  have "(82 / 100) ^ length ms * error_energy v (tk_vLeadK ?t) (tk_aLeadK ?t) \<le> (82 / 100) ^ length (m # ms) * error_energy v (tk_vLeadK t) (tk_aLeadK t)"
    by (simp add: ac_simps)
  from order_trans [OF IH this] show ?case by (simp only: track_life_def m list.map foldl.simps prod.case)
qed (simp add: track_life_def)

section \<open>Properties\<close>

text \<open>C15. In front of a car slower than 4 m/s no radar point close ahead is overlooked: in a frame with at least two leads of the model,
  whatever their probabilities are and whatever happened before, the first lead is present and no farther away than any point of
  the frame that is less than 1 m to either side and between 0.75 m and 25 m ahead.\<close>

theorem slow_car_sees_obstacles:
  assumes "distinct (map rp_trackId (ri_points i))" "p \<in> set (ri_points i)" "\<bar>rp_yRel p\<bar> < 1" "75 / 100 < rp_dRel p" "rp_dRel p < 25"
    "rd_v_ego (snd (radard_update cf i s)) < V_EGO_STATIONARY" "ri_leads i = one # two # rest"
  shows "rl_present (fst (fst (radard_update cf i s))) \<and> rl_dRel (fst (fst (radard_update cf i s))) \<le> rp_dRel p"
proof -
  let ?s = "take_v_ego cf i s"
  let ?tracks = "map snd (update_tracks cf (hd (rd_v_ego_hist ?s)) (ri_points i) (rd_tracks ?s))"
  obtain t where t: "t \<in> set ?tracks" and at: "tk_dRel t = rp_dRel p" "tk_yRel t = rp_yRel p"
    using point_is_tracked [OF assms(1,2)] by (metis list.set_map)
  have v: "rd_v_ego (snd (radard_update cf i s)) = rd_v_ego ?s"
    by (simp add: radard_update_def Let_def assms(7))
  have "potential_low_speed_lead (rd_v_ego ?s) t" using assms(3-6) at v by (simp add: potential_low_speed_lead_def)
  from low_speed_lead [OF t this, of cf "ri_model_seen i" one] show ?thesis
    using at(1) by (simp add: radard_update_def Let_def assms(7))
qed

definition model_kalman :: kalman_params where
  "model_kalman = \<lparr>km_A = ((1, 5 / 100), (0, 1)), km_C = (1, 0), km_K = (gain_0, gain_1)\<rparr>"

definition plain_config :: radar_config where
  "plain_config = \<lparr>rc_kalman = model_kalman, rc_delay = 0, rc_custom_yrel = False\<rparr>"

definition far_lead :: "real \<Rightarrow> vision_lead" where
  "far_lead p = \<lparr>vl_x = 80, vl_y = 0, vl_v = 0, vl_a = 0, vl_xStd = 1, vl_yStd = 1, vl_vStd = 1, vl_prob = p\<rparr>"

definition cone_ahead :: radar_input where
  "cone_ahead = \<lparr>ri_model_seen = True, ri_carState_frame = 1, ri_vEgo = 2,
     ri_points = [\<lparr>rp_trackId = 7, rp_dRel = 4, rp_yRel = 1 / 2, rp_vRel = - 2\<rparr>], ri_model_v = None, ri_leads = [far_lead 0, far_lead 0]\<rparr>"

lemma slow_car_sees_obstacles_witness:
  "rl_present (fst (fst (radard_update plain_config cone_ahead RadarD))) \<and> rl_dRel (fst (fst (radard_update plain_config cone_ahead RadarD))) \<le> 4"
  using slow_car_sees_obstacles [of cone_ahead "\<lparr>rp_trackId = 7, rp_dRel = 4, rp_yRel = 1 / 2, rp_vRel = - 2\<rparr>" plain_config RadarD
      "far_lead 0" "far_lead 0" "[]"]
  by (simp add: cone_ahead_def radard_update_def take_v_ego_def RadarD_def Let_def)

text \<open>C16. The second lead does not flicker and does not linger. In every run with probabilities between 0 and 1, whose frames after one
  frame all have two leads of the model: if in that frame the second lead had a probability of at least 0.98, it is present
  through the three following frames whatever their probabilities are, while the model is seen; and after four frames or more with a
  probability of zero it is gone.\<close>

theorem lead_is_held_and_dropped:
  assumes "list_all probs_ok (is @ i # js @ [k])" "list_all (\<lambda>j. lead_probs j \<noteq> None) js" "ri_leads k = one # two # rest"
  shows "(lead_probs i = Some (p, q) \<and> 98 / 100 \<le> q \<and> length js \<le> 2 \<and> ri_model_seen k \<longrightarrow>
      rl_present (snd (fst (radard_update cf k (radard_run cf (is @ i # js) RadarD))))) \<and>
    (list_all (\<lambda>j. \<exists>p. lead_probs j = Some (p, 0)) (js @ [k]) \<and> 4 \<le> length (js @ [k]) \<longrightarrow>
      \<not> rl_present (snd (fst (radard_update cf k (radard_run cf (is @ i # js) RadarD)))))"
proof -
  let ?a = "radard_run cf is RadarD"
  let ?b = "snd (radard_update cf i ?a)"
  let ?c = "radard_run cf js ?b"
  have run: "radard_run cf (is @ i # js) RadarD = ?c" by (simp add: radard_run_def)
  have last: "snd (radard_update cf k ?c) = radard_run cf (js @ [k]) ?b" by (simp add: radard_run_def)
  have a: "prob_filter_ok (rd_prob_two ?a)" using assms(1) run_probs_ok [OF _ start_prob_ok] by simp
  have b: "prob_filter_ok (rd_prob_two ?b)" using assms(1) run_probs_ok [of "[i]", OF _ a] by (simp add: radard_run_def)
  have k: "lead_probs k \<noteq> None" using assms(3) by (simp add: lead_probs_def)
  have present: "rl_present (snd (fst (radard_update cf k ?c))) \<longleftrightarrow> ri_model_seen k \<and> 1 / 2 < fo_x (rd_prob_two (radard_run cf (js @ [k]) ?b))"
    using lead_two_present [OF assms(3), of cf ?c] unfolding last .
  have "rl_present (snd (fst (radard_update cf k (radard_run cf (is @ i # js) RadarD))))"
    if h: "lead_probs i = Some (p, q) \<and> 98 / 100 \<le> q \<and> length js \<le> 2 \<and> ri_model_seen k"
  proof -
    have "98 / 100 \<le> fo_x (rd_prob_two ?b)" using h prob_step_value [OF a, of q] by (auto simp: update_probs)
    then have "(4 / 5) ^ 3 * (98 / 100) \<le> (4 / 5) ^ length (js @ [k]) * fo_x (rd_prob_two ?b)"
      using h by (intro mult_mono power_decreasing) simp_all
    also have "\<dots> \<le> fo_x (rd_prob_two (radard_run cf (js @ [k]) ?b))"
      using assms(1,2) k by (intro run_keeps_probability b) simp_all
    finally have "1 / 2 < fo_x (rd_prob_two (radard_run cf (js @ [k]) ?b))" by (simp add: power3_eq_cube)
    then show ?thesis unfolding run present using h by simp
  qed
  moreover have "\<not> rl_present (snd (fst (radard_update cf k (radard_run cf (is @ i # js) RadarD))))"
    if h: "list_all (\<lambda>j. \<exists>p. lead_probs j = Some (p, 0)) (js @ [k]) \<and> 4 \<le> length (js @ [k])"
  proof -
    have "(4 / 5) ^ length (js @ [k]) * fo_x (rd_prob_two ?b) \<le> (4 / 5) ^ 4 * 1"
      using h b by (intro mult_mono power_decreasing) (simp_all add: prob_filter_ok_def)
    also have "\<dots> < (1 / 2 :: real)" by (simp add: eval_nat_numeral)
    finally have "\<not> 1 / 2 < fo_x (rd_prob_two (radard_run cf (js @ [k]) ?b))"
      using run_loses_probability [OF conjunct1 [OF h] b, of cf] by simp
    then show ?thesis unfolding run present by simp
  qed
  ultimately show ?thesis by blast
qed

definition lead_frame :: "real \<Rightarrow> radar_input" where
  "lead_frame p = \<lparr>ri_model_seen = True, ri_carState_frame = 1, ri_vEgo = 20, ri_points = [], ri_model_v = None, ri_leads = [far_lead p, far_lead p]\<rparr>"

lemma lead_is_held_and_dropped_witness:
  "rl_present (snd (fst (radard_update plain_config (lead_frame 0) (radard_run plain_config ([] @ lead_frame 1 # [lead_frame 0, lead_frame 0]) RadarD)))) \<and>
   \<not> rl_present (snd (fst (radard_update plain_config (lead_frame 0)
       (radard_run plain_config ([] @ lead_frame 1 # [lead_frame 0, lead_frame 0, lead_frame 0]) RadarD))))"
proof -
  have l: "ri_leads (lead_frame 0) = far_lead 0 # far_lead 0 # []" "lead_probs (lead_frame x) = Some (x, x)" "ri_model_seen (lead_frame x)"
    and ok: "list_all probs_ok [lead_frame 1, lead_frame 0]" for x
    by (simp_all add: lead_frame_def far_lead_def lead_probs_def probs_ok_def)
  show ?thesis
    using lead_is_held_and_dropped [of "[]" "lead_frame 1" "[lead_frame 0, lead_frame 0]" "lead_frame 0", OF _ _ l(1), of 1 1 plain_config]
      lead_is_held_and_dropped [of "[]" "lead_frame 1" "[lead_frame 0, lead_frame 0, lead_frame 0]" "lead_frame 0", OF _ _ l(1), of 1 1 plain_config]
      ok by (simp add: l)
qed

text \<open>C17. The estimates of a track converge: from whatever speed and acceleration a track has reached, measurements of a constant
  speed take the estimated speed to that speed and the estimated acceleration to zero, at a rate of 0.82 of the error's
  energy in every frame.\<close>

theorem track_converges:
  assumes "KalmanParams DT_MDL = Some k" "t = track_life (h # hs) (Track ids v0 k)"
    "t' = track_life (map (\<lambda>(d, y, v_rel). (d, y, v_rel, v)) ms) t"
  shows "(tk_vLeadK t' - v)\<^sup>2 \<le> 12 * ((82 / 100) ^ length ms * error_energy v (tk_vLeadK t) (tk_aLeadK t)) \<and>
    (tk_aLeadK t')\<^sup>2 \<le> 66 * ((82 / 100) ^ length ms * error_energy v (tk_vLeadK t) (tk_aLeadK t))"
proof -
  have "tracked t" unfolding assms(2) by (intro tracked_life new_track_gains [OF assms(1)]) simp
  from life_energy [OF this, of v ms]
  have "error_energy v (tk_vLeadK t') (tk_aLeadK t') \<le> (82 / 100) ^ length ms * error_energy v (tk_vLeadK t) (tk_aLeadK t)"
    unfolding assms(3) .
  then have e: "12 * error_energy v (tk_vLeadK t') (tk_aLeadK t') \<le> 12 * ((82 / 100) ^ length ms * error_energy v (tk_vLeadK t) (tk_aLeadK t))"
    "66 * error_energy v (tk_vLeadK t') (tk_aLeadK t') \<le> 66 * ((82 / 100) ^ length ms * error_energy v (tk_vLeadK t) (tk_aLeadK t))"
    by (simp_all only: mult_left_mono zero_le_numeral)
  show ?thesis by (rule conjI [OF order_trans [OF energy_bounds(1) e(1)] order_trans [OF energy_bounds(2) e(2)]])
qed

abbreviation one_track :: track where
  "one_track \<equiv> track_life [(30, 0, - 5, 15)] (Track 3 15 model_kalman)"

abbreviation ten_meters :: "(real \<times> real \<times> real) list" where
  "ten_meters \<equiv> [(29, 0, - 5), (28, 0, - 5)]"

lemma track_converges_witness:
  "(tk_vLeadK (track_life (map (\<lambda>(d, y, v_rel). (d, y, v_rel, 10)) ten_meters) one_track) - 10)\<^sup>2 \<le>
     12 * ((82 / 100) ^ length ten_meters * error_energy 10 (tk_vLeadK one_track) (tk_aLeadK one_track)) \<and>
   (tk_aLeadK (track_life (map (\<lambda>(d, y, v_rel). (d, y, v_rel, 10)) ten_meters) one_track))\<^sup>2 \<le>
     66 * ((82 / 100) ^ length ten_meters * error_energy 10 (tk_vLeadK one_track) (tk_aLeadK one_track))"
  by (rule track_converges [OF kalman_params_model [folded model_kalman_def] refl refl])

end
