(* ===== verification/LatTorqueExt.thy ===== *)
theory LatTorqueExt
  imports LongControl LongMpc StatLive
begin

text \<open>
  The extension of the torque controller for steering: \<^verbatim>\<open>latcontrol_torque_ext_base.py\<close>,
  \<^verbatim>\<open>latcontrol_torque_jerk_aware.py\<close>, \<^verbatim>\<open>latcontrol_torque_ext_override.py\<close> and \<^verbatim>\<open>nnlc\<close> under
  \<^verbatim>\<open>sunnypilot/selfdrive/controls/lib\<close>. What opendbc computes (the vehicle model, friction, torque from lateral
  acceleration) is in the configuration. The extension keeps a PID controller of its own until its first update, and from then on
  a reference to the one of the torque controller: \<open>te_shared\<close> says which. The weights of a neural network are data; its
  inputs are as long as the model's size or shorter, else numpy raises.
\<close>

section \<open>Surroundings\<close>

record torque_params =
  tp_latAccelFactor :: real
  tp_latAccelOffset :: real
  tp_friction :: real

record lat_in =
  \<comment> \<open>what a steering controller reads in a frame\<close>
  li_CS :: car_state
  li_steeringRateDeg :: real
  li_stiffness :: real
  li_steerRatio :: real
  li_angleOffsetDeg :: real
  li_roll :: real
  li_pitch :: "real option"  \<comment> \<open>of the calibrated pose, when there is one\<close>

definition math_radians :: "real \<Rightarrow> real" where
  "math_radians x = x * pi / 180"

definition math_degrees :: "real \<Rightarrow> real" where
  "math_degrees x = x * 180 / pi"

datatype activation = Act_sigmoid | Act_identity

record nn_model =
  nn_input_size :: nat
  nn_input_mean :: "real list"
  nn_input_std :: "real list"
  nn_layers :: "(real list list \<times> real list \<times> activation) list"  \<comment> \<open>columns of the weights, biases\<close>

record lat_config =
  \<comment> \<open>of opendbc\<close>
  lk_calc_curvature :: "real \<Rightarrow> real \<Rightarrow> real \<Rightarrow> real \<Rightarrow> real \<Rightarrow> real"  \<comment> \<open>stiffness, steer ratio, angle, speed, roll\<close>
  lk_get_steer_from_curvature :: "real \<Rightarrow> real \<Rightarrow> real \<Rightarrow> real \<Rightarrow> real \<Rightarrow> real"
  lk_torque_from_lateral_accel :: "real \<Rightarrow> torque_params \<Rightarrow> real"
  lk_lateral_accel_from_torque :: "real \<Rightarrow> torque_params \<Rightarrow> real"
  lk_torque_space :: "real \<Rightarrow> real \<Rightarrow> real \<Rightarrow> real \<Rightarrow> torque_params \<Rightarrow> bool \<Rightarrow> real"  \<comment> \<open>lateral acceleration, roll compensation, speed, acceleration\<close>
  lk_get_friction :: "real \<Rightarrow> real \<Rightarrow> real \<Rightarrow> torque_params \<Rightarrow> real"
  lk_get_friction_torque_space :: "real \<Rightarrow> real \<Rightarrow> real \<Rightarrow> torque_params \<Rightarrow> real"
  lk_FRICTION_THRESHOLD :: real
  lk_get_steer_feedforward :: "real \<Rightarrow> real \<Rightarrow> real"
  \<comment> \<open>of the car and its parameters\<close>
  lk_steerLimitTimer :: real
  lk_deadzone_deg :: real
  lk_pid_kp :: "(real \<times> real) list"
  lk_pid_ki :: "(real \<times> real) list"
  lk_pid_kf :: real
  lk_curvature_pid :: bool
  lk_use_steer_limited :: bool  \<comment> \<open>Tesla or Hyundai\<close>
  lk_steerActuatorDelay :: real
  lk_jerk_aware :: bool
  lk_nn_enabled :: bool
  lk_nn :: "nn_model option"
  lk_enforce_torque :: bool

definition curvature_at :: "lat_config \<Rightarrow> lat_in \<Rightarrow> real \<Rightarrow> real \<Rightarrow> real" where
  \<comment> \<open>\<open>VM.calc_curvature(radians(angle), CS.vEgo, roll)\<close>\<close>
  "curvature_at k i angle_deg roll = lk_calc_curvature k (li_stiffness i) (li_steerRatio i) (math_radians angle_deg) (vEgo (li_CS i)) roll"

abbreviation (input) LAT_PLAN_MIN_IDX :: nat where "LAT_PLAN_MIN_IDX \<equiv> 5"
abbreviation (input) STEER_MAX :: real where "STEER_MAX \<equiv> 1"

definition T_IDXS_MODEL :: "real list" where
  "T_IDXS_MODEL = map (index_function 10 32) [0..<33]"

section \<open>Look ahead\<close>

definition py_diff :: "real list \<Rightarrow> real list" where
  "py_diff xs = map2 (\<lambda>a b. b - a) xs (tl xs)"

definition get_predicted_lateral_jerk :: "real list \<Rightarrow> real list \<Rightarrow> real list" where
  "get_predicted_lateral_jerk lat_accels t_diffs = map2 (/) (py_diff lat_accels) t_diffs"

definition py_sign :: "real \<Rightarrow> real" where
  "py_sign x = (if x > 0 then 1 else if x < 0 then - 1 else 0)"

definition get_lookahead_value :: "real list \<Rightarrow> real \<Rightarrow> real" where
  "get_lookahead_value future_vals current_val =
     (if future_vals = [] then current_val
      else let same = filter (\<lambda>v. py_sign v = py_sign current_val) future_vals
           in if length same < length future_vals then 0
              else case same @ [current_val] of [] \<Rightarrow> 0 | x # xs \<Rightarrow> min_by abs x xs)"

section \<open>State\<close>

record lat_ext =
  te_model_valid :: bool
  te_accel_y :: "real list"
  te_orientation_x :: "real list"
  te_orientation_y :: "real list"
  te_actual_lateral_jerk :: real
  te_lateral_jerk_setpoint :: real
  te_lateral_jerk_measurement :: real
  te_lookahead_lateral_jerk :: real
  te_own_pid :: pid
  te_shared :: bool
  te_lat_accel_friction_factor :: real
  te_desired_lat_jerk_time :: real
  te_pitch :: first_order_filter
  te_pitch_last :: real
  te_roll_deque :: "real list"
  te_accel_deque :: "real list"
  te_frame :: int
  te_override_enabled :: bool

definition lat_ext_init :: "lat_config \<Rightarrow> bool \<Rightarrow> lat_ext" where
  \<comment> \<open>the flag: the parameter \<open>TorqueParamsOverrideEnabled\<close>\<close>
  "lat_ext_init k override_enabled =
     \<lparr>te_model_valid = False, te_accel_y = [], te_orientation_x = [], te_orientation_y = [], te_actual_lateral_jerk = 0,
      te_lateral_jerk_setpoint = 0, te_lateral_jerk_measurement = 0, te_lookahead_lateral_jerk = 0,
      te_own_pid = PIDController (scalar_gain 1) (scalar_gain (3 / 10)) (scalar_gain 0) (10 ^ 308) (- (10 ^ 308)) 100, te_shared = False,
      te_lat_accel_friction_factor = 7 / 10, te_desired_lat_jerk_time = lk_steerActuatorDelay k,
      te_pitch = FirstOrderFilter 0 (1 / 2) (1 / 100) True, te_pitch_last = 0, te_roll_deque = [], te_accel_deque = [],
      te_frame = - 1, te_override_enabled = override_enabled\<rparr>"

definition nnlc_enabled :: "lat_config \<Rightarrow> lat_ext \<Rightarrow> bool" where
  "nnlc_enabled k x \<longleftrightarrow> lk_nn_enabled k \<and> te_model_valid x \<and> lk_nn k \<noteq> None"

definition update_model_v2 :: "real list \<Rightarrow> real list \<Rightarrow> real list \<Rightarrow> lat_ext \<Rightarrow> lat_ext" where
  \<comment> \<open>\<open>acceleration.y\<close>, \<open>orientation.x\<close>, \<open>orientation.y\<close>\<close>
  "update_model_v2 accel_y ori_x ori_y x =
     x\<lparr>te_accel_y := accel_y, te_orientation_x := ori_x, te_orientation_y := ori_y, te_model_valid := 17 \<le> length ori_x\<rparr>"

definition update_lateral_lag :: "real \<Rightarrow> lat_ext \<Rightarrow> lat_ext" where
  "update_lateral_lag lag x = x\<lparr>te_desired_lat_jerk_time := max (1 / 100) lag + 0\<rparr>"

definition on_pid :: "(pid \<Rightarrow> pid) \<Rightarrow> lat_ext \<Rightarrow> pid \<Rightarrow> lat_ext \<times> pid" where
  \<comment> \<open>an operation on \<open>self._pid\<close>\<close>
  "on_pid f x c = (if te_shared x then (x, f c) else (x\<lparr>te_own_pid := f (te_own_pid x)\<rparr>, c))"

definition ext_update_limits :: "lat_config \<Rightarrow> lat_ext \<Rightarrow> pid \<Rightarrow> lat_ext \<times> pid" where
  "ext_update_limits k x c =
     (let (x, c) = (if lk_jerk_aware k then on_pid (set_limits STEER_MAX (- STEER_MAX)) x c else (x, c))
      in if nnlc_enabled k x then on_pid (set_limits STEER_MAX (- STEER_MAX)) x c else (x, c))"

record override_params =
  op_enabled :: bool
  op_latAccelFactor :: real
  op_friction :: real

definition update_override_torque_params :: "lat_config \<Rightarrow> override_params \<Rightarrow> lat_ext \<Rightarrow> torque_params \<Rightarrow> (bool \<times> torque_params) \<times> lat_ext" where
  "update_override_torque_params k op x tp =
     (if \<not> lk_enforce_torque k then ((False, tp), x)
      else let x = x\<lparr>te_frame := te_frame x + 1\<rparr>
           in if te_frame x mod 300 = 0
              then let x = x\<lparr>te_override_enabled := op_enabled op\<rparr>
                   in if \<not> te_override_enabled x then ((False, tp), x)
                      else ((True, tp\<lparr>tp_latAccelFactor := op_latAccelFactor op, tp_friction := op_friction op\<rparr>), x)
              else ((False, tp), x))"

definition friction_input :: "lat_ext \<Rightarrow> real \<Rightarrow> real \<Rightarrow> real" where
  \<comment> \<open>\<open>update_friction_input\<close>; the factor of the jerk is 0.4\<close>
  "friction_input x val_1 val_2 = te_lat_accel_friction_factor x * (val_1 - val_2) + 4 / 10 * te_lookahead_lateral_jerk x"

definition friction_upper_idx :: "real \<Rightarrow> nat" where
  "friction_upper_idx lookahead =
     (case find (\<lambda>i. T_IDXS_MODEL ! i > lookahead) [0..<33] of None \<Rightarrow> 16 | Some i \<Rightarrow> i)"

definition update_calculations :: "lat_config \<Rightarrow> lat_in \<Rightarrow> real \<Rightarrow> lat_ext \<Rightarrow> lat_ext" where
  "update_calculations k i desired_lateral_accel x =
     (let v = vEgo (li_CS i);
          x = x\<lparr>te_actual_lateral_jerk := - curvature_at k i (li_steeringRateDeg i) 0 * v\<^sup>2,
                te_lateral_jerk_setpoint := 0, te_lateral_jerk_measurement := 0, te_lookahead_lateral_jerk := 0\<rparr>
      in if \<not> te_model_valid x then x
         else let lookahead = np_interp v [(9, 14 / 10), (30, 2)];
                  predicted = get_predicted_lateral_jerk (te_accel_y x) (py_diff T_IDXS_MODEL);
                  t = te_desired_lat_jerk_time x;
                  desired_jerk = (np_interp t (zip T_IDXS_MODEL (te_accel_y x)) - desired_lateral_accel) / t;
                  x = x\<lparr>te_lookahead_lateral_jerk :=
                    get_lookahead_value (drop LAT_PLAN_MIN_IDX (take (friction_upper_idx lookahead) predicted)) desired_jerk\<rparr>;
                  x = (if te_lookahead_lateral_jerk x = 0 then x\<lparr>te_actual_lateral_jerk := 0, te_lat_accel_friction_factor := 1\<rparr> else x)
              in x\<lparr>te_lateral_jerk_setpoint := 4 / 10 * te_lookahead_lateral_jerk x,
                   te_lateral_jerk_measurement := 4 / 10 * te_actual_lateral_jerk x\<rparr>)"

section \<open>Update\<close>

record ext_in =
  ei_in :: lat_in
  ei_params :: torque_params
  ei_ff :: real
  ei_error :: real
  ei_setpoint :: real
  ei_measurement :: real
  ei_roll_compensation :: real
  ei_desired_lateral_accel :: real
  ei_actual_lateral_accel :: real
  ei_deadzone :: real
  ei_gravity_adjusted :: real
  ei_desired_curvature :: real
  ei_actual_curvature :: real
  ei_steer_limited :: bool
  ei_output_torque :: real

definition output_by_pid :: "ext_in \<Rightarrow> real \<Rightarrow> real \<Rightarrow> pid \<Rightarrow> pid" where
  \<comment> \<open>\<open>update_output_torque\<close>, with the error and the feedforward; the output is the field \<open>pid_control\<close>\<close>
  "output_by_pid e error ff c =
     (let cs = li_CS (ei_in e)
      in pid_update error 0 (vEgo cs) ff (ei_steer_limited e \<or> steeringPressed cs \<or> vEgo cs < 5) c)"

definition in_torque_space :: "lat_config \<Rightarrow> ext_in \<Rightarrow> real \<Rightarrow> bool \<Rightarrow> real" where
  "in_torque_space k e accel gravity =
     lk_torque_space k accel (ei_roll_compensation e) (vEgo (li_CS (ei_in e))) (aEgo (li_CS (ei_in e))) (ei_params e) gravity"

definition jerk_aware_control :: "lat_config \<Rightarrow> ext_in \<Rightarrow> lat_ext \<Rightarrow> pid \<Rightarrow> (real \<times> real) \<times> pid" where
  \<comment> \<open>the error of the log and the output torque\<close>
  "jerk_aware_control k e x c =
     (let error = in_torque_space k e (ei_setpoint e) False - in_torque_space k e (ei_measurement e) False;
          ff = in_torque_space k e (ei_gravity_adjusted e) True +
               lk_get_friction_torque_space k (friction_input x (ei_desired_lateral_accel e) (ei_actual_lateral_accel e)) (ei_deadzone e)
                 (lk_FRICTION_THRESHOLD k) (ei_params e);
          c = output_by_pid e error ff c
      in ((error, pid_control c), c))"

definition safe_exp :: "real \<Rightarrow> real" where
  "safe_exp x = exp (min x 11)"

definition nn_activate :: "activation \<Rightarrow> real \<Rightarrow> real" where
  "nn_activate a y = (case a of Act_sigmoid \<Rightarrow> 1 / (1 + safe_exp (- y)) | Act_identity \<Rightarrow> y)"

definition nn_layer :: "real list list \<times> real list \<times> activation \<Rightarrow> real list \<Rightarrow> real list" where
  "nn_layer l xs = (case l of (cols, b, a) \<Rightarrow> map2 (\<lambda>w c. nn_activate a (sum_list (map2 (*) xs w) + c)) cols b)"

definition nn_evaluate :: "nn_model \<Rightarrow> real list \<Rightarrow> real" where
  "nn_evaluate m xs =
     (let xs = xs @ replicate (nn_input_size m - length xs) 0;
          xs = map2 (/) (map2 (-) xs (nn_input_mean m)) (nn_input_std m);
          out = fold nn_layer (nn_layers m) xs
      in case out of [] \<Rightarrow> 0 | y # _ \<Rightarrow> y)"

definition friction_override :: "nn_model \<Rightarrow> bool" where
  "friction_override m = (nn_evaluate m [10, 0, 2 / 10] < 1 / 10)"

definition roll_pitch_adjust :: "real \<Rightarrow> real \<Rightarrow> real" where
  "roll_pitch_adjust roll pitch = roll * cos pitch"

definition past_values :: "real list \<Rightarrow> real list" where
  \<comment> \<open>the offsets are 0, 10 and 20\<close>
  "past_values deque = map (\<lambda>i. deque ! min (length deque - 1) i) [0, 10, 20]"

definition append30 :: "real \<Rightarrow> real list \<Rightarrow> real list" where
  "append30 v deque = (let d = deque @ [v] in drop (length d - 30) d)"

definition future_times :: "lat_ext \<Rightarrow> real list" where
  "future_times x = map (\<lambda>t. t + te_desired_lat_jerk_time x) [3 / 10, 6 / 10, 1, 15 / 10]"

definition nn_rolls :: "ext_in \<Rightarrow> lat_ext \<Rightarrow> real \<times> lat_ext" where
  \<comment> \<open>the past data\<close>
  "nn_rolls e x =
     (let (roll, x) = (case li_pitch (ei_in e) of
            None \<Rightarrow> (li_roll (ei_in e), x)
          | Some p \<Rightarrow> let f = fo_update p (te_pitch x)
                      in (roll_pitch_adjust (li_roll (ei_in e)) (fo_x f), x\<lparr>te_pitch := f, te_pitch_last := fo_x f\<rparr>))
      in (roll, x\<lparr>te_roll_deque := append30 roll (te_roll_deque x),
                  te_accel_deque := append30 (ei_desired_lateral_accel e) (te_accel_deque x)\<rparr>))"

definition nn_control :: "lat_config \<Rightarrow> nn_model \<Rightarrow> ext_in \<Rightarrow> lat_ext \<Rightarrow> pid \<Rightarrow> ((real \<times> real) \<times> lat_ext) \<times> pid" where
  "nn_control k m e x c =
     (let cs = li_CS (ei_in e);
          factor = (np_interp (vEgo cs) [(0, 12), (10, 3), (20, 1), (30, 0)])\<^sup>2;
          setpoint = ei_desired_lateral_accel e + factor * ei_desired_curvature e;
          measurement = ei_actual_lateral_accel e + factor * ei_actual_curvature e;
          (roll, x) = nn_rolls e x;
          times = map (\<lambda>t. t + 1 / 2 * aEgo cs * (t / max (vEgo cs) 1)) (future_times x);
          past_rolls = past_values (te_roll_deque x);
          future_rolls = map (\<lambda>t. roll_pitch_adjust (np_interp t (zip T_IDXS_MODEL (te_orientation_x x)) + roll)
                           (np_interp t (zip T_IDXS_MODEL (te_orientation_y x)) + te_pitch_last x)) times;
          past_accels = past_values (te_accel_deque x);
          future_accels = map (\<lambda>t. np_interp t (zip T_IDXS_MODEL (te_accel_y x))) times;
          from_setpoint = nn_evaluate m ([vEgo cs, setpoint, te_lateral_jerk_setpoint x, roll] @ replicate 7 setpoint @ past_rolls @ future_rolls);
          from_measurement = nn_evaluate m ([vEgo cs, measurement, te_lateral_jerk_measurement x, roll] @ replicate 7 measurement @ past_rolls @ future_rolls);
          error = from_setpoint - from_measurement;
          blend = np_interp \<bar>ei_desired_lateral_accel e\<bar> [(1, 0), (2, 1)];
          from_error = nn_evaluate m [vEgo cs, setpoint - measurement, te_lateral_jerk_setpoint x - te_lateral_jerk_measurement x, 0];
          error = (if blend > 0 \<and> py_sign error = py_sign from_error \<and> \<bar>error\<bar> < \<bar>from_error\<bar>
                   then error * (1 - blend) + from_error * blend else error);
          fi = friction_input x setpoint measurement;
          ff = nn_evaluate m ([vEgo cs, ei_desired_lateral_accel e, fi, roll] @ past_accels @ future_accels @ past_rolls @ future_rolls);
          error = (if friction_override m then error + lk_get_friction k fi (ei_deadzone e) (lk_FRICTION_THRESHOLD k) (ei_params e) else error);
          c = output_by_pid e error ff c
      in (((error, pid_control c), x), c))"

definition ext_update :: "lat_config \<Rightarrow> ext_in \<Rightarrow> lat_ext \<Rightarrow> pid \<Rightarrow> ((real \<times> real) \<times> lat_ext) \<times> pid" where
  \<comment> \<open>the error of the log and the output torque, the extension and the controller it shares\<close>
  "ext_update k e x c =
     (let x = x\<lparr>te_shared := True\<rparr>;
          x = update_calculations k (ei_in e) (ei_desired_lateral_accel e) x;
          (out, c) = (if lk_jerk_aware k then jerk_aware_control k e x c else ((ei_error e, ei_output_torque e), c))
      in case lk_nn k of
           Some m \<Rightarrow> if nnlc_enabled k x then nn_control k m e x c else ((out, x), c)
         | None \<Rightarrow> ((out, x), c))"

end
