(* ===== verification/LatControl.thy ===== *)
theory LatControl
  imports LatTorqueExt
begin

text \<open>
  The controllers for steering under \<^verbatim>\<open>selfdrive/controls/lib\<close>: \<^verbatim>\<open>latcontrol.py\<close> with the detection of saturation,
  \<^verbatim>\<open>latcontrol_pid.py\<close>, \<^verbatim>\<open>latcontrol_angle.py\<close>, \<^verbatim>\<open>latcontrol_curvature.py\<close> and \<^verbatim>\<open>latcontrol_torque.py\<close>, and the other
  version of the last, \<^verbatim>\<open>latcontrol_torque_v0.py\<close> of sunnypilot. An update returns the torque, the angle or curvature, and of
  the log whether the controller is active, its error and whether it is saturated.
\<close>

section \<open>Saturation\<close>

definition check_saturation :: "real \<Rightarrow> real \<Rightarrow> bool \<Rightarrow> car_state \<Rightarrow> bool \<Rightarrow> bool \<Rightarrow> real \<Rightarrow> bool \<times> real" where
  \<comment> \<open>the limit of the timer, the least speed, the flags and the timer\<close>
  "check_saturation limit min_speed saturated cs steer_limited curvature_limited sat_time =
     (let t = (if (saturated \<or> curvature_limited) \<and> vEgo cs > min_speed \<and> \<not> steer_limited \<and> \<not> steeringPressed cs
               then sat_time + DT_CTRL else sat_time - DT_CTRL);
          t = np_clip t 0 limit
      in (t > limit - 1 / 1000, t))"

record lat_log =
  lg_active :: bool
  lg_error :: real
  lg_saturated :: bool

record lat_out =
  lo_torque :: real
  lo_angle :: real  \<comment> \<open>or the curvature\<close>
  lo_log :: lat_log

record lat_frame =
  \<comment> \<open>what \<open>controlsd\<close> passes besides the messages\<close>
  lf_steer_limited :: bool
  lf_desired_curvature :: real
  lf_curvature_limited :: bool
  lf_lat_delay :: real

section \<open>PID\<close>

record lat_pid =
  lp_sat_time :: real
  lp_pid :: pid

definition lat_pid_init :: "lat_config \<Rightarrow> lat_pid" where
  "lat_pid_init k = \<lparr>lp_sat_time = 0, lp_pid = PIDController (lk_pid_kp k) (lk_pid_ki k) (scalar_gain 0) STEER_MAX (- STEER_MAX) 100\<rparr>"

definition lat_pid_update :: "lat_config \<Rightarrow> bool \<Rightarrow> lat_in \<Rightarrow> lat_frame \<Rightarrow> lat_pid \<Rightarrow> lat_out \<times> lat_pid" where
  "lat_pid_update k active i f s =
     (let cs = li_CS i;
          no_offset = math_degrees (lk_get_steer_from_curvature k (li_stiffness i) (li_steerRatio i) (- lf_desired_curvature f) (vEgo cs) (li_roll i));
          desired = no_offset + li_angleOffsetDeg i;
          error = desired - steeringAngleDeg cs
      in if \<not> active then (\<lparr>lo_torque = 0, lo_angle = desired, lo_log = \<lparr>lg_active = False, lg_error = error, lg_saturated = False\<rparr>\<rparr>, s)
         else let ff = lk_pid_kf k * lk_get_steer_feedforward k no_offset (vEgo cs);
                  c = pid_update error 0 (vEgo cs) ff (lf_steer_limited f \<or> steeringPressed cs \<or> vEgo cs < 5) (lp_pid s);
                  out = pid_control c;
                  (sat, t) = check_saturation (lk_steerLimitTimer k) 10 (STEER_MAX - \<bar>out\<bar> < 1 / 1000) cs (lf_steer_limited f)
                               (lf_curvature_limited f) (lp_sat_time s)
              in (\<lparr>lo_torque = out, lo_angle = desired, lo_log = \<lparr>lg_active = True, lg_error = error, lg_saturated = sat\<rparr>\<rparr>,
                  \<lparr>lp_sat_time = t, lp_pid = c\<rparr>))"

section \<open>Angle\<close>

abbreviation (input) STEER_ANGLE_SATURATION_THRESHOLD :: real where "STEER_ANGLE_SATURATION_THRESHOLD \<equiv> 25 / 10"

definition lat_angle_update :: "lat_config \<Rightarrow> bool \<Rightarrow> lat_in \<Rightarrow> lat_frame \<Rightarrow> real \<Rightarrow> lat_out \<times> real" where
  \<comment> \<open>the state is the timer of the saturation\<close>
  "lat_angle_update k active i f t =
     (let cs = li_CS i;
          desired = (if \<not> active then steeringAngleDeg cs
                     else math_degrees (lk_get_steer_from_curvature k (li_stiffness i) (li_steerRatio i) (- lf_desired_curvature f) (vEgo cs) (li_roll i))
                          + li_angleOffsetDeg i);
          saturated = (if lk_use_steer_limited k then lf_steer_limited f
                       else \<bar>desired - steeringAngleDeg cs\<bar> > STEER_ANGLE_SATURATION_THRESHOLD);
          (sat, t) = check_saturation (lk_steerLimitTimer k) 5 saturated cs False (lf_curvature_limited f) t
      in (\<lparr>lo_torque = 0, lo_angle = desired, lo_log = \<lparr>lg_active = active, lg_error = 0, lg_saturated = sat\<rparr>\<rparr>, t))"

section \<open>Curvature\<close>

record lat_curvature =
  lc_sat_time :: real
  lc_curv_pid :: "pid option"
  lc_kf :: real

definition lat_curvature_init :: "lat_config \<Rightarrow> lat_curvature" where
  "lat_curvature_init k =
     (if lk_curvature_pid k
      then \<lparr>lc_sat_time = 0, lc_curv_pid = Some (PIDController (lk_pid_kp k) (lk_pid_ki k) (scalar_gain 0) MAX_CURVATURE (- MAX_CURVATURE) (1 / DT_CTRL)),
            lc_kf = lk_pid_kf k\<rparr>
      else \<lparr>lc_sat_time = 0, lc_curv_pid = None, lc_kf = 1\<rparr>)"

definition lat_curvature_reset :: "lat_curvature \<Rightarrow> lat_curvature" where
  "lat_curvature_reset s = s\<lparr>lc_sat_time := 0, lc_curv_pid := map_option pid_reset (lc_curv_pid s)\<rparr>"

definition lat_curvature_update :: "lat_config \<Rightarrow> bool \<Rightarrow> lat_in \<Rightarrow> lat_frame \<Rightarrow> lat_curvature \<Rightarrow> lat_out \<times> lat_curvature" where
  "lat_curvature_update k active i f s =
     (let cs = li_CS i;
          actual = - curvature_at k i (steeringAngleDeg cs - li_angleOffsetDeg i) (li_roll i);
          error = lf_desired_curvature f - actual;
          (out, s) =
            (if \<not> active then (0, s\<lparr>lc_curv_pid := map_option pid_reset (lc_curv_pid s)\<rparr>)
             else if lc_curv_pid s = None \<or> steeringPressed cs
             then (lc_kf s * lf_desired_curvature f, s\<lparr>lc_curv_pid := map_option pid_reset (lc_curv_pid s)\<rparr>)
             else let c = pid_update error 0 (vEgo cs) (lc_kf s * lf_desired_curvature f) False (the (lc_curv_pid s))
                  in (pid_control c, s\<lparr>lc_curv_pid := Some c\<rparr>));
          (sat, t) = check_saturation (lk_steerLimitTimer k) 5 (\<bar>error\<bar> > 1 / 1000) cs False (lf_curvature_limited f) (lc_sat_time s)
      in (\<lparr>lo_torque = 0, lo_angle = out, lo_log = \<lparr>lg_active = active, lg_error = error, lg_saturated = sat\<rparr>\<rparr>, s\<lparr>lc_sat_time := t\<rparr>))"

section \<open>Torque\<close>

definition INTERP_SPEEDS :: "real list" where
  "INTERP_SPEEDS = [1, 15 / 10, 2, 3, 5, 75 / 10, 10, 15, 30]"

definition KP_INTERP :: "real \<Rightarrow> real list" where
  "KP_INTERP kp = [250, 120, 65, 30, 115 / 10, 55 / 10, 35 / 10, 2, kp]"

abbreviation (input) REQUEST_BUFFER_LEN :: nat where "REQUEST_BUFFER_LEN \<equiv> 100"  \<comment> \<open>1 s of frames\<close>
abbreviation (input) LOOKAHEAD_FRAMES :: int where "LOOKAHEAD_FRAMES \<equiv> 19"

record lat_torque =
  lt_sat_time :: real
  lt_pid :: pid
  lt_params :: torque_params
  lt_buffer :: "real list"
  lt_filter :: first_order_filter  \<comment> \<open>of the jerk, or of the rate of the measurement\<close>
  lt_previous_measurement :: real
  lt_ext :: lat_ext

definition torque_limits :: "lat_config \<Rightarrow> lat_torque \<Rightarrow> lat_torque" where
  \<comment> \<open>\<open>update_limits\<close>\<close>
  "torque_limits k s =
     s\<lparr>lt_pid := set_limits (lk_lateral_accel_from_torque k STEER_MAX (lt_params s)) (lk_lateral_accel_from_torque k (- STEER_MAX) (lt_params s)) (lt_pid s)\<rparr>"

definition lat_torque_init :: "lat_config \<Rightarrow> bool \<Rightarrow> torque_params \<Rightarrow> bool \<Rightarrow> lat_torque" where
  \<comment> \<open>whether it is the version v0, the tuning of the car, and \<open>TorqueParamsOverrideEnabled\<close>\<close>
  "lat_torque_init k v0 tp override =
     torque_limits k
       \<lparr>lt_sat_time = 0,
        lt_pid = (if v0 then PIDController (zip INTERP_SPEEDS (KP_INTERP 1)) (scalar_gain (3 / 10)) (scalar_gain 0) (10 ^ 308) (- (10 ^ 308)) 100
                  else PIDController (zip INTERP_SPEEDS (KP_INTERP (8 / 10))) (scalar_gain (15 / 100)) (scalar_gain 0) (10 ^ 308) (- (10 ^ 308)) 100),
        lt_params = tp, lt_buffer = replicate REQUEST_BUFFER_LEN 0,
        lt_filter = FirstOrderFilter 0 (1 / (2 * pi * (12 / 10))) DT_CTRL True, lt_previous_measurement = 0, lt_ext = lat_ext_init k override\<rparr>"

definition update_torque_parameters :: "lat_config \<Rightarrow> torque_params \<Rightarrow> lat_torque \<Rightarrow> lat_torque" where
  "update_torque_parameters k tp s = torque_limits k (s\<lparr>lt_params := tp\<rparr>)"

definition lat_reset :: "lat_torque \<Rightarrow> lat_torque" where
  \<comment> \<open>the reset of the base class\<close>
  "lat_reset s = s\<lparr>lt_sat_time := 0\<rparr>"

definition push_request :: "real \<Rightarrow> real list \<Rightarrow> real list" where
  "push_request v buf = (let b = buf @ [v] in drop (length b - REQUEST_BUFFER_LEN) b)"

definition from_end :: "real list \<Rightarrow> int \<Rightarrow> real" where
  \<comment> \<open>\<open>buf[k]\<close> for a negative index\<close>
  "from_end buf k = buf ! nat (int (length buf) + k)"

definition override_limits :: "lat_config \<Rightarrow> override_params \<Rightarrow> lat_torque \<Rightarrow> lat_torque" where
  "override_limits k op s =
     (case update_override_torque_params k op (lt_ext s) (lt_params s) of
        ((changed, tp), x) \<Rightarrow>
          let s = s\<lparr>lt_ext := x, lt_params := tp\<rparr> in if changed then torque_limits k s else s)"

definition torque_output :: "lat_config \<Rightarrow> lat_in \<Rightarrow> lat_frame \<Rightarrow> ext_in \<Rightarrow> real \<Rightarrow> lat_torque \<Rightarrow> lat_out \<times> lat_torque" where
  \<comment> \<open>the end of both versions: the controller, with the rate of the error, the extension and the saturation\<close>
  "torque_output k i f e error_rate s =
     (let cs = li_CS i;
          c = pid_update (ei_error e) error_rate (vEgo cs) (ei_ff e) (lf_steer_limited f \<or> steeringPressed cs \<or> vEgo cs < 5) (lt_pid s);
          torque = lk_torque_from_lateral_accel k (pid_control c) (lt_params s);
          (((error, torque), x), c) = ext_update k (e\<lparr>ei_output_torque := torque\<rparr>) (lt_ext s) c;
          (sat, t) = check_saturation (lk_steerLimitTimer k) 10 (STEER_MAX - \<bar>torque\<bar> < 1 / 1000) cs (lf_steer_limited f)
                       (lf_curvature_limited f) (lt_sat_time s)
      in (\<lparr>lo_torque = - torque, lo_angle = 0, lo_log = \<lparr>lg_active = True, lg_error = error, lg_saturated = sat\<rparr>\<rparr>,
          s\<lparr>lt_pid := c, lt_ext := x, lt_sat_time := t\<rparr>))"

definition torque_inactive :: lat_out where
  "torque_inactive = \<lparr>lo_torque = 0, lo_angle = 0, lo_log = \<lparr>lg_active = False, lg_error = 0, lg_saturated = False\<rparr>\<rparr>"

definition ext_input :: "lat_config \<Rightarrow> lat_in \<Rightarrow> lat_frame \<Rightarrow> torque_params \<Rightarrow> real \<Rightarrow> real \<Rightarrow> real \<Rightarrow> ext_in" where
  \<comment> \<open>what the extension is given, with the feedforward's friction argument, the setpoint and the desired acceleration\<close>
  "ext_input k i f tp friction_error setpoint desired =
     (let cs = li_CS i;
          measured = - curvature_at k i (steeringAngleDeg cs - li_angleOffsetDeg i) (li_roll i);
          measurement = measured * (vEgo cs)\<^sup>2;
          roll_compensation = li_roll i * ACCELERATION_DUE_TO_GRAVITY;
          deadzone = \<bar>curvature_at k i (lk_deadzone_deg k) 0\<bar> * (vEgo cs)\<^sup>2;
          adjusted = desired - roll_compensation
      in \<lparr>ei_in = i, ei_params = tp,
          ei_ff = adjusted - tp_latAccelOffset tp + lk_get_friction k friction_error deadzone (lk_FRICTION_THRESHOLD k) tp,
          ei_error = setpoint - measurement, ei_setpoint = setpoint, ei_measurement = measurement, ei_roll_compensation = roll_compensation,
          ei_desired_lateral_accel = desired, ei_actual_lateral_accel = measurement, ei_deadzone = deadzone, ei_gravity_adjusted = adjusted,
          ei_desired_curvature = lf_desired_curvature f, ei_actual_curvature = measured, ei_steer_limited = lf_steer_limited f, ei_output_torque = 0\<rparr>)"

definition measurement_at :: "lat_config \<Rightarrow> lat_in \<Rightarrow> real" where
  "measurement_at k i =
     - curvature_at k i (steeringAngleDeg (li_CS i) - li_angleOffsetDeg i) (li_roll i) * (vEgo (li_CS i))\<^sup>2"

definition lat_torque_update :: "lat_config \<Rightarrow> override_params \<Rightarrow> bool \<Rightarrow> lat_in \<Rightarrow> lat_frame \<Rightarrow> lat_torque \<Rightarrow> lat_out \<times> lat_torque" where
  "lat_torque_update k op active i f s =
     (let s = override_limits k op s;
          desired = lf_desired_curvature f * (vEgo (li_CS i))\<^sup>2;
          s = s\<lparr>lt_buffer := push_request desired (lt_buffer s)\<rparr>;
          delay_frames = \<lfloor>np_clip (lf_lat_delay f / DT_CTRL + 1) 1 (real REQUEST_BUFFER_LEN)\<rfloor>;
          setpoint = from_end (lt_buffer s) (- delay_frames);
          idx = np_clip (- delay_frames + LOOKAHEAD_FRAMES) (- int REQUEST_BUFFER_LEN + 1) (- 2);
          raw_jerk = (from_end (lt_buffer s) (idx + 1) - from_end (lt_buffer s) (idx - 1)) / (2 * DT_CTRL);
          s = s\<lparr>lt_filter := fo_update raw_jerk (lt_filter s)\<rparr>
      in if \<not> active then (torque_inactive, s)
         else torque_output k i f (ext_input k i f (lt_params s) (setpoint - measurement_at k i + 3 / 10 * fo_x (lt_filter s)) setpoint desired) 0 s)"

definition lat_torque_v0_update :: "lat_config \<Rightarrow> override_params \<Rightarrow> bool \<Rightarrow> lat_in \<Rightarrow> lat_frame \<Rightarrow> lat_torque \<Rightarrow> lat_out \<times> lat_torque" where
  "lat_torque_v0_update k op active i f s =
     (let s = override_limits k op s
      in if \<not> active then (torque_inactive, s)
         else let delay_frames = \<lfloor>np_clip (lf_lat_delay f / DT_CTRL) 1 (real REQUEST_BUFFER_LEN)\<rfloor>;
                  expected = from_end (lt_buffer s) (- delay_frames);
                  desired = lf_desired_curvature f * (vEgo (li_CS i))\<^sup>2;
                  jerk = (desired - expected) / max (lf_lat_delay f) DT_CTRL;
                  measurement = measurement_at k i;
                  filter = fo_update ((measurement - lt_previous_measurement s) / DT_CTRL) (lt_filter s);
                  s = s\<lparr>lt_buffer := push_request desired (lt_buffer s), lt_filter := filter, lt_previous_measurement := measurement\<rparr>;
                  setpoint = lf_lat_delay f * jerk + expected;
                  e = ext_input k i f (lt_params s) (setpoint - measurement) setpoint desired
              in torque_output k i f (e\<lparr>ei_ff := ei_gravity_adjusted e - tp_latAccelOffset (lt_params s) +
                     lk_get_friction k (setpoint - measurement) (ei_deadzone e) (3 / 10) (lt_params s)\<rparr>) (- fo_x filter) s)"

section \<open>Any of them\<close>

datatype lat_control = Lat_angle real | Lat_curvature lat_curvature | Lat_pid lat_pid | Lat_torque lat_torque | Lat_torque_v0 lat_torque

definition lat_control_reset :: "lat_control \<Rightarrow> lat_control" where
  "lat_control_reset l =
     (case l of
        Lat_angle t \<Rightarrow> Lat_angle 0
      | Lat_curvature s \<Rightarrow> Lat_curvature (lat_curvature_reset s)
      | Lat_pid s \<Rightarrow> Lat_pid (s\<lparr>lp_sat_time := 0\<rparr>)
      | Lat_torque s \<Rightarrow> Lat_torque (lat_reset s)
      | Lat_torque_v0 s \<Rightarrow> Lat_torque_v0 (lat_reset s))"

definition lat_control_update :: "lat_config \<Rightarrow> override_params \<Rightarrow> bool \<Rightarrow> lat_in \<Rightarrow> lat_frame \<Rightarrow> lat_control \<Rightarrow> lat_out \<times> lat_control" where
  "lat_control_update k op active i f l =
     (case l of
        Lat_angle t \<Rightarrow> map_prod id Lat_angle (lat_angle_update k active i f t)
      | Lat_curvature s \<Rightarrow> map_prod id Lat_curvature (lat_curvature_update k active i f s)
      | Lat_pid s \<Rightarrow> map_prod id Lat_pid (lat_pid_update k active i f s)
      | Lat_torque s \<Rightarrow> map_prod id Lat_torque (lat_torque_update k op active i f s)
      | Lat_torque_v0 s \<Rightarrow> map_prod id Lat_torque_v0 (lat_torque_v0_update k op active i f s))"

end
