(* ===== verification/Controls.thy ===== *)
theory Controls
  imports LatControl LaneChange
begin

unbundle bit_operations_syntax

text \<open>
  The process that commands the car: \<^verbatim>\<open>selfdrive/controls/controlsd.py\<close> with \<^verbatim>\<open>sunnypilot/selfdrive/controls/controlsd_ext.py\<close>.
  A frame is \<open>state_control\<close>, \<open>publish\<close> and the reading of parameters. The messages of a frame are its input. What is passed
  through to the display and the copies of messages for other processes are left out. Numbers are finite reals, so the test for
  infinite actuators has no effect.
\<close>

datatype steer_control_type = Steer_torque | Steer_angle | Steer_curvature

record controls_config =
  kc_lat :: lat_config
  kc_long :: long_car
  kc_steerControlType :: steer_control_type
  kc_torque_tuning :: bool  \<comment> \<open>else the tuning is \<open>pid\<close>\<close>
  kc_minSteerSpeed :: real
  kc_steerAtStandstill :: bool
  kc_op_long :: bool
  kc_pcmCruise :: bool
  kc_pcmCruiseSpeed :: bool
  kc_accel_limits :: "real \<Rightarrow> real \<Rightarrow> real \<times> real"  \<comment> \<open>of opendbc, from the speed and the set speed\<close>
  kc_ENABLE_MADS :: int
  kc_tune :: torque_params

record controls_in =
  ci_lat :: lat_in
  ci_steerFaultTemporary :: bool
  ci_steerFaultPermanent :: bool
  ci_enabled :: bool
  ci_active :: bool
  ci_engageable :: bool
  ci_softDisabling :: bool
  ci_mads_available :: bool
  ci_mads_active :: bool
  ci_alternativeExperience :: "int list"  \<comment> \<open>of the pandas\<close>
  ci_overrideLongitudinal :: bool
  ci_laneChangeState :: lane_change_state_t
  ci_laneChangeDirection :: lane_change_direction_t
  ci_model_curvature :: real
  ci_model_accel_y :: "real list"
  ci_model_orientation_x :: "real list"
  ci_model_orientation_y :: "real list"
  ci_maneuver_curvature :: "real option"  \<comment> \<open>when \<open>lateralManeuverPlan\<close> is valid\<close>
  ci_aTarget :: real
  ci_shouldStop :: bool
  ci_torque_params :: "torque_params option"  \<comment> \<open>when they are fresh and meant for use\<close>
  ci_lateralDelay :: real
  ci_override_params :: override_params
  ci_out_angle :: real
  ci_out_torque :: real
  ci_noResponseForceDecel :: bool
  ci_frame :: nat
  ci_params_due :: bool  \<comment> \<open>three seconds since the parameters were read\<close>
  ci_blinker_params :: "bool \<times> bool \<times> real \<times> real"
  ci_lagd_toggle :: bool
  ci_lagd_value :: real

record controls =
  ct_steer_limited :: bool
  ct_curvature :: real
  ct_desired_curvature :: real
  ct_LoC :: long_control
  ct_LaC :: lat_control
  ct_blinker_pause :: blinker_pause
  ct_lat_delay :: real

record car_control =
  cc_enabled :: bool
  cc_latActive :: bool
  cc_longActive :: bool
  cc_leftBlinker :: bool
  cc_rightBlinker :: bool
  cc_accel :: real
  cc_torque :: real
  cc_steeringAngleDeg :: real
  cc_curvature :: real
  cc_longControlState :: long_ctrl_state
  cc_override :: bool
  cc_cancel :: bool
  cc_resume :: bool
  cc_currentCurvature :: real
  cc_driverMonitoringEscalation :: bool

abbreviation (input) BOOT_CANCEL_GRACE_S :: real where "BOOT_CANCEL_GRACE_S \<equiv> 10"

definition cruise_cancel_allowed :: "bool \<Rightarrow> nat \<Rightarrow> bool" where
  "cruise_cancel_allowed engageable control_frame \<longleftrightarrow> engageable \<or> real control_frame * DT_CTRL \<ge> BOOT_CANCEL_GRACE_S"

definition initialize_lateral_control :: "controls_config \<Rightarrow> bool \<Rightarrow> real option \<Rightarrow> bool \<Rightarrow> lat_control \<Rightarrow> lat_control" where
  \<comment> \<open>\<open>EnforceTorqueControl\<close>, \<open>TorqueControlTune\<close> and \<open>TorqueParamsOverrideEnabled\<close>\<close>
  "initialize_lateral_control k enforce tune override lac =
     (let v0 = Lat_torque_v0 (lat_torque_init (kc_lat k) True (kc_tune k) override)
      in if \<not> enforce then if kc_torque_tuning k then v0 else lac
         else if tune = Some 0 then v0 else lac)"

definition controls_init :: "controls_config \<Rightarrow> real option \<Rightarrow> bool \<Rightarrow> bool \<Rightarrow> bool \<Rightarrow> real \<Rightarrow> controls" where
  \<comment> \<open>the tune, the override, the two parameters of the blinker helper, the cached delay\<close>
  "controls_init k tune override blinker metric lagd =
     (let lac = (case kc_steerControlType k of
            Steer_angle \<Rightarrow> Lat_angle 0
          | Steer_curvature \<Rightarrow> Lat_curvature (lat_curvature_init (kc_lat k))
          | Steer_torque \<Rightarrow> if \<not> kc_torque_tuning k then Lat_pid (lat_pid_init (kc_lat k))
                            else Lat_torque (lat_torque_init (kc_lat k) False (kc_tune k) override))
      in \<lparr>ct_steer_limited = False, ct_curvature = 0, ct_desired_curvature = 0, ct_LoC = long_control_init (kc_long k),
          ct_LaC = initialize_lateral_control k (lk_enforce_torque (kc_lat k)) tune override lac,
          ct_blinker_pause = blinker_pause_init blinker metric, ct_lat_delay = lagd\<rparr>)"

definition may_steer :: "controls_config \<Rightarrow> controls_in \<Rightarrow> bool" where
  \<comment> \<open>\<open>get_lat_active\<close> after the test of the blinker\<close>
  "may_steer k i =
     (if ci_mads_available i
      then if \<not> ci_mads_active i then False
           else if cruise_enabled (cruiseState (li_CS (ci_lat i))) then True
           else case ci_alternativeExperience i of
                  [] \<Rightarrow> False
                | a # _ \<Rightarrow> a AND kc_ENABLE_MADS k \<noteq> 0
      else ci_active i)"

definition get_lat_active :: "controls_config \<Rightarrow> controls_in \<Rightarrow> blinker_pause \<Rightarrow> bool \<times> blinker_pause" where
  "get_lat_active k i b =
     (case blinker_pause_update (li_CS (ci_lat i)) DT_CTRL b of (paused, b) \<Rightarrow> (\<not> paused \<and> may_steer k i, b))"

definition on_torque :: "(lat_torque \<Rightarrow> lat_torque) \<Rightarrow> lat_control \<Rightarrow> lat_control" where
  "on_torque g l = (case l of Lat_torque s \<Rightarrow> Lat_torque (g s) | Lat_torque_v0 s \<Rightarrow> Lat_torque_v0 (g s) | _ \<Rightarrow> l)"

definition feed_torque :: "controls_config \<Rightarrow> controls_in \<Rightarrow> real \<Rightarrow> lat_torque \<Rightarrow> lat_torque" where
  \<comment> \<open>what a car with torque tuning is given before the update\<close>
  "feed_torque k i lat_delay s =
     (let s = (case ci_torque_params i of
            None \<Rightarrow> s
          | Some tp \<Rightarrow> let s = update_torque_parameters (kc_lat k) tp s;
                          (x, c) = ext_update_limits (kc_lat k) (lt_ext s) (lt_pid s)
                      in s\<lparr>lt_ext := x, lt_pid := c\<rparr>)
      in s\<lparr>lt_ext := update_lateral_lag lat_delay
             (update_model_v2 (ci_model_accel_y i) (ci_model_orientation_x i) (ci_model_orientation_y i) (lt_ext s))\<rparr>)"

definition standing :: "controls_config \<Rightarrow> car_state \<Rightarrow> bool" where
  "standing k cs \<longleftrightarrow> \<bar>vEgo cs\<bar> \<le> max (kc_minSteerSpeed k) (3 / 10) \<or> standstill cs"

definition vehicle_limits :: "lat_in \<Rightarrow> lat_in" where
  \<comment> \<open>the parameters the vehicle model is given\<close>
  "vehicle_limits i = i\<lparr>li_stiffness := max (li_stiffness i) (1 / 10), li_steerRatio := max (li_steerRatio i) (1 / 10)\<rparr>"

definition lat_command :: "controls_config \<Rightarrow> controls_in \<Rightarrow> bool \<Rightarrow> controls \<Rightarrow> lat_out \<times> controls" where
  \<comment> \<open>the desired curvature and the steering controller\<close>
  "lat_command k i latActive s =
     (let li = vehicle_limits (ci_lat i); cs = li_CS li;
          new = (if latActive then case ci_maneuver_curvature i of Some c \<Rightarrow> c | None \<Rightarrow> ci_model_curvature i else ct_curvature s);
          (desired, limited) = clip_curvature (vEgo cs) (ct_desired_curvature s) new (li_roll li);
          (out, lac) = lat_control_update (kc_lat k) (ci_override_params i) latActive li
            \<lparr>lf_steer_limited = ct_steer_limited s, lf_desired_curvature = desired, lf_curvature_limited = limited,
             lf_lat_delay = ci_lateralDelay i + 0\<rparr> (ct_LaC s)
      in (out, s\<lparr>ct_desired_curvature := desired, ct_LaC := lac\<rparr>))"

definition state_control :: "controls_config \<Rightarrow> controls_in \<Rightarrow> controls \<Rightarrow> (car_control \<times> lat_log) \<times> controls" where
  "state_control k i s =
     (let li = vehicle_limits (ci_lat i); cs = li_CS li;
          s = s\<lparr>ct_curvature := - curvature_at (kc_lat k) li (steeringAngleDeg cs - li_angleOffsetDeg li) (li_roll li)\<rparr>;
          s = (if kc_torque_tuning k then s\<lparr>ct_LaC := on_torque (feed_torque k i (ct_lat_delay s)) (ct_LaC s)\<rparr> else s);
          (lat_active, b) = get_lat_active k i (ct_blinker_pause s);
          s = s\<lparr>ct_blinker_pause := b\<rparr>;
          latActive = (lat_active \<and> \<not> ci_steerFaultTemporary i \<and> \<not> ci_steerFaultPermanent i \<and>
                       (\<not> standing k cs \<or> kc_steerAtStandstill k));
          longActive = (ci_enabled i \<and> \<not> ci_overrideLongitudinal i \<and> (kc_op_long k \<or> \<not> kc_pcmCruiseSpeed k));
          long_state = long_control_state (ct_LoC s);
          changing = (ci_laneChangeState i \<noteq> LC_off);
          s = (if \<not> latActive then s\<lparr>ct_LaC := lat_control_reset (ct_LaC s)\<rparr> else s);
          s = (if \<not> longActive then s\<lparr>ct_LoC := long_control_reset (ct_LoC s)\<rparr> else s);
          s = s\<lparr>ct_LoC := long_control_update (kc_long k) longActive cs (ci_aTarget i) (ci_shouldStop i)
                 (kc_accel_limits k (vEgo cs) (vCruise cs * KPH_TO_MS)) (ct_LoC s)\<rparr>;
          (out, s) = lat_command k i latActive s
      in ((\<lparr>cc_enabled = ci_enabled i, cc_latActive = latActive, cc_longActive = longActive,
            cc_leftBlinker = (changing \<and> ci_laneChangeDirection i = Dir_left), cc_rightBlinker = (changing \<and> ci_laneChangeDirection i = Dir_right),
            cc_accel = last_output_accel (ct_LoC s), cc_torque = lo_torque out,
            cc_steeringAngleDeg = (if kc_steerControlType k = Steer_curvature then 0 else lo_angle out),
            cc_curvature = (if kc_steerControlType k = Steer_curvature then lo_angle out else ct_desired_curvature s),
            cc_longControlState = long_state, cc_override = False, cc_cancel = False, cc_resume = False, cc_currentCurvature = 0,
            cc_driverMonitoringEscalation = False\<rparr>, lo_log out), s))"

definition publish :: "controls_config \<Rightarrow> controls_in \<Rightarrow> car_control \<Rightarrow> controls \<Rightarrow> car_control \<times> controls" where
  "publish k i cc s =
     (let cs = li_CS (ci_lat i);
          cc = cc\<lparr>cc_currentCurvature := ct_curvature s,
                  cc_override := cc_enabled cc \<and> \<not> cc_longActive cc \<and> (kc_op_long k \<or> \<not> kc_pcmCruiseSpeed k),
                  cc_cancel := cruise_enabled (cruiseState cs) \<and> (\<not> cc_enabled cc \<or> \<not> kc_pcmCruise k) \<and>
                                 cruise_cancel_allowed (ci_engageable i) (ci_frame i),
                  cc_resume := cc_enabled cc \<and> cruise_standstill (cruiseState cs) \<and> \<not> ci_shouldStop i,
                  cc_driverMonitoringEscalation := ci_noResponseForceDecel i \<or> ci_softDisabling i\<rparr>;
          (lat_active, b) = get_lat_active k i (ct_blinker_pause s);
          s = s\<lparr>ct_blinker_pause := b\<rparr>;
          s = (if \<not> lat_active then s
               else s\<lparr>ct_steer_limited :=
                 (if kc_steerControlType k = Steer_angle
                  then \<bar>cc_steeringAngleDeg cc - ci_out_angle i\<bar> > STEER_ANGLE_SATURATION_THRESHOLD
                  else \<bar>cc_torque cc - ci_out_torque i\<bar> > 1 / 100)\<rparr>)
      in (cc, s))"

definition get_lat_delay :: "controls_in \<Rightarrow> real" where
  "get_lat_delay i = (if ci_lagd_toggle i then ci_lagd_value i else ci_lateralDelay i)"

definition lagd_toggle_update :: "real \<Rightarrow> bool \<Rightarrow> real \<Rightarrow> real \<Rightarrow> real" where
  \<comment> \<open>what \<open>lagd\<close> writes to \<open>LagdValueCache\<close>: from the delay of the actuator, \<open>LagdToggle\<close>, \<open>LagdToggleDelay\<close> and its message\<close>
  "lagd_toggle_update steerActuatorDelay lagd_toggle software_delay lateral_delay =
     (if \<not> lagd_toggle then steerActuatorDelay + software_delay else lateral_delay)"

definition get_params_sp :: "controls_config \<Rightarrow> controls_in \<Rightarrow> controls \<Rightarrow> controls" where
  "get_params_sp k i s =
     (if \<not> ci_params_due i then s
      else case ci_blinker_params i of (en, metric, speed, delay) \<Rightarrow>
        let s = s\<lparr>ct_blinker_pause := blinker_get_params en metric speed delay (ct_blinker_pause s)\<rparr>
        in if kc_torque_tuning k then s\<lparr>ct_lat_delay := get_lat_delay i\<rparr> else s)"

definition controls_frame :: "controls_config \<Rightarrow> controls_in \<Rightarrow> controls \<Rightarrow> (car_control \<times> lat_log) \<times> controls" where
  \<comment> \<open>one turn of \<open>run\<close>\<close>
  "controls_frame k i s =
     (let ((cc, log), s) = state_control k i s;
          (cc, s) = publish k i cc s
      in ((cc, log), get_params_sp k i s))"

end
