(* ===== verification/ControlsFacts.thy ===== *)
theory ControlsFacts
  imports Controls
begin

text \<open>
  What is proved of the process that commands the car. First the shape of a frame: whether steering is active, the controller
  before its update and its output. Then who may steer, the bounds of the command, how long the pause after a blinker lasts, and
  the factor of the friction that never returns.
\<close>

section \<open>The shape of a frame\<close>

definition lat_active_now :: "controls_config \<Rightarrow> controls_in \<Rightarrow> controls \<Rightarrow> bool" where
  "lat_active_now k i s \<longleftrightarrow>
     fst (get_lat_active k i (ct_blinker_pause s)) \<and> \<not> ci_steerFaultTemporary i \<and> \<not> ci_steerFaultPermanent i \<and>
     (\<not> standing k (li_CS (ci_lat i)) \<or> kc_steerAtStandstill k)"

definition lac_before :: "controls_config \<Rightarrow> controls_in \<Rightarrow> controls \<Rightarrow> lat_control" where
  \<comment> \<open>the controller for steering when its update is called\<close>
  "lac_before k i s =
     (let l = (if kc_torque_tuning k then on_torque (feed_torque k i (ct_lat_delay s)) (ct_LaC s) else ct_LaC s)
      in if lat_active_now k i s then l else lat_control_reset l)"

definition desired_now :: "controls_config \<Rightarrow> controls_in \<Rightarrow> controls \<Rightarrow> real \<times> bool" where
  "desired_now k i s =
     clip_curvature (vEgo (li_CS (ci_lat i))) (ct_desired_curvature s)
       (if lat_active_now k i s then case ci_maneuver_curvature i of Some c \<Rightarrow> c | None \<Rightarrow> ci_model_curvature i
        else - curvature_at (kc_lat k) (vehicle_limits (ci_lat i)) (steeringAngleDeg (li_CS (ci_lat i)) - li_angleOffsetDeg (ci_lat i)) (li_roll (ci_lat i)))
       (li_roll (ci_lat i))"

definition lat_step :: "controls_config \<Rightarrow> controls_in \<Rightarrow> controls \<Rightarrow> lat_out \<times> lat_control" where
  "lat_step k i s =
     lat_control_update (kc_lat k) (ci_override_params i) (lat_active_now k i s) (vehicle_limits (ci_lat i))
       \<lparr>lf_steer_limited = ct_steer_limited s, lf_desired_curvature = fst (desired_now k i s), lf_curvature_limited = snd (desired_now k i s),
        lf_lat_delay = ci_lateralDelay i\<rparr> (lac_before k i s)"

lemma vehicle_limits_simps [simp]:
  "li_CS (vehicle_limits i) = li_CS i" "li_roll (vehicle_limits i) = li_roll i" "li_angleOffsetDeg (vehicle_limits i) = li_angleOffsetDeg i"
  by (simp_all add: vehicle_limits_def)

lemma get_lat_active_simps:
  "fst (get_lat_active k i b) \<longleftrightarrow> \<not> fst (blinker_pause_update (li_CS (ci_lat i)) DT_CTRL b) \<and> may_steer k i"
  "snd (get_lat_active k i b) = snd (blinker_pause_update (li_CS (ci_lat i)) DT_CTRL b)"
  by (simp_all add: get_lat_active_def split_def)

lemma lat_command_simps:
  assumes "ct_desired_curvature s' = ct_desired_curvature s" "ct_steer_limited s' = ct_steer_limited s" "ct_LaC s' = lac_before k i s"
    "ct_curvature s' = - curvature_at (kc_lat k) (vehicle_limits (ci_lat i)) (steeringAngleDeg (li_CS (ci_lat i)) - li_angleOffsetDeg (ci_lat i)) (li_roll (ci_lat i))"
    "a = lat_active_now k i s"
  shows "lat_command k i a s' = (fst (lat_step k i s), s'\<lparr>ct_desired_curvature := fst (desired_now k i s), ct_LaC := snd (lat_step k i s)\<rparr>)"
  using assms by (simp add: lat_command_def lat_step_def desired_now_def split_def Let_def)

lemma state_control_lat:
  assumes "state_control k i s = ((cc, lg), t)"
  shows "cc_latActive cc = lat_active_now k i s" "cc_torque cc = lo_torque (fst (lat_step k i s))"
    "cc_steeringAngleDeg cc = (if kc_steerControlType k = Steer_curvature then 0 else lo_angle (fst (lat_step k i s)))"
    "cc_curvature cc = (if kc_steerControlType k = Steer_curvature then lo_angle (fst (lat_step k i s)) else fst (desired_now k i s))"
    "lg = lo_log (fst (lat_step k i s))" "ct_desired_curvature t = fst (desired_now k i s)" "ct_LaC t = snd (lat_step k i s)"
    "ct_blinker_pause t = snd (get_lat_active k i (ct_blinker_pause s))" "ct_lat_delay t = ct_lat_delay s"
proof -
  let ?cs = "li_CS (ci_lat i)"
  define s1 where "s1 = s\<lparr>ct_curvature := - curvature_at (kc_lat k) (vehicle_limits (ci_lat i)) (steeringAngleDeg ?cs - li_angleOffsetDeg (ci_lat i)) (li_roll (ci_lat i))\<rparr>"
  define s2 where "s2 = (if kc_torque_tuning k then s1\<lparr>ct_LaC := on_torque (feed_torque k i (ct_lat_delay s1)) (ct_LaC s1)\<rparr> else s1)"
  define s3 where "s3 = s2\<lparr>ct_blinker_pause := snd (get_lat_active k i (ct_blinker_pause s2))\<rparr>"
  define a where "a = lat_active_now k i s"
  define s4 where "s4 = (if \<not> a then s3\<lparr>ct_LaC := lat_control_reset (ct_LaC s3)\<rparr> else s3)"
  define g where "g = (ci_enabled i \<and> \<not> ci_overrideLongitudinal i \<and> (kc_op_long k \<or> \<not> kc_pcmCruiseSpeed k))"
  define s5 where "s5 = (if \<not> g then s4\<lparr>ct_LoC := long_control_reset (ct_LoC s4)\<rparr> else s4)"
  define s6 where "s6 = s5\<lparr>ct_LoC := long_control_update (kc_long k) g ?cs (ci_aTarget i) (ci_shouldStop i)
                 (kc_accel_limits k (vEgo ?cs) (vCruise ?cs * KPH_TO_MS)) (ct_LoC s5)\<rparr>"
  have b2: "ct_blinker_pause s2 = ct_blinker_pause s" by (simp add: s2_def s1_def)
  have l: "ct_LaC s6 = lac_before k i s"
    by (simp add: s6_def s5_def s4_def s3_def s2_def s1_def lac_before_def a_def Let_def)
  have eq: "lat_command k i a s6 = (fst (lat_step k i s), s6\<lparr>ct_desired_curvature := fst (desired_now k i s), ct_LaC := snd (lat_step k i s)\<rparr>)"
    by (rule lat_command_simps [OF _ _ l]) (simp_all add: s6_def s5_def s4_def s3_def s2_def s1_def a_def)
  have a': "a = (fst (get_lat_active k i (ct_blinker_pause s2)) \<and> \<not> ci_steerFaultTemporary i \<and> \<not> ci_steerFaultPermanent i \<and>
                       (\<not> standing k ?cs \<or> kc_steerAtStandstill k))"
    by (simp add: a_def lat_active_now_def b2)
  have e: "((cc, lg), t) = (let (out, s) = lat_command k i a s6
      in ((\<lparr>cc_enabled = ci_enabled i, cc_latActive = a, cc_longActive = g,
            cc_leftBlinker = (ci_laneChangeState i \<noteq> LC_off \<and> ci_laneChangeDirection i = Dir_left), cc_rightBlinker = (ci_laneChangeState i \<noteq> LC_off \<and> ci_laneChangeDirection i = Dir_right),
            cc_accel = last_output_accel (ct_LoC s), cc_torque = lo_torque out,
            cc_steeringAngleDeg = (if kc_steerControlType k = Steer_curvature then 0 else lo_angle out),
            cc_curvature = (if kc_steerControlType k = Steer_curvature then lo_angle out else ct_desired_curvature s),
            cc_longControlState = long_control_state (ct_LoC s3), cc_override = False, cc_cancel = False, cc_resume = False, cc_currentCurvature = 0,
            cc_driverMonitoringEscalation = False\<rparr>, lo_log out), s))"
    unfolding assms [symmetric] state_control_def Let_def split_def s6_def s5_def s4_def a' g_def s3_def s2_def s1_def vehicle_limits_simps ..
  show "cc_latActive cc = lat_active_now k i s" "cc_torque cc = lo_torque (fst (lat_step k i s))"
    "cc_steeringAngleDeg cc = (if kc_steerControlType k = Steer_curvature then 0 else lo_angle (fst (lat_step k i s)))"
    "cc_curvature cc = (if kc_steerControlType k = Steer_curvature then lo_angle (fst (lat_step k i s)) else fst (desired_now k i s))"
    "lg = lo_log (fst (lat_step k i s))" "ct_desired_curvature t = fst (desired_now k i s)" "ct_LaC t = snd (lat_step k i s)"
    using e unfolding eq by (simp_all add: a_def)
  show "ct_blinker_pause t = snd (get_lat_active k i (ct_blinker_pause s))" "ct_lat_delay t = ct_lat_delay s"
    using e unfolding eq by (simp_all add: s6_def s5_def s4_def s3_def b2) (simp_all add: s2_def s1_def)
qed

lemma publish_lat:
  assumes "publish k i cc s = (cc', t)"
  shows "cc_latActive cc' = cc_latActive cc" "cc_torque cc' = cc_torque cc" "cc_steeringAngleDeg cc' = cc_steeringAngleDeg cc"
    "cc_curvature cc' = cc_curvature cc" "ct_desired_curvature t = ct_desired_curvature s" "ct_LaC t = ct_LaC s"
    "ct_blinker_pause t = snd (get_lat_active k i (ct_blinker_pause s))" "ct_lat_delay t = ct_lat_delay s"
  using assms by (auto simp: publish_def Let_def split_def)

lemma frame_lat:
  assumes "controls_frame k i s = ((cc, lg), t)"
  shows "cc_latActive cc = lat_active_now k i s" "cc_torque cc = lo_torque (fst (lat_step k i s))"
    "cc_steeringAngleDeg cc = (if kc_steerControlType k = Steer_curvature then 0 else lo_angle (fst (lat_step k i s)))"
    "cc_curvature cc = (if kc_steerControlType k = Steer_curvature then lo_angle (fst (lat_step k i s)) else fst (desired_now k i s))"
    "lg = lo_log (fst (lat_step k i s))" "ct_desired_curvature t = fst (desired_now k i s)" "ct_LaC t = snd (lat_step k i s)"
    "ct_blinker_pause t =
       (let b = snd (get_lat_active k i (snd (get_lat_active k i (ct_blinker_pause s))))
        in if ci_params_due i then case ci_blinker_params i of (en, metric, speed, delay) \<Rightarrow> blinker_get_params en metric speed delay b else b)"
proof -
  obtain cc1 lg1 s1 where 1: "state_control k i s = ((cc1, lg1), s1)" by (metis surj_pair)
  obtain cc2 s2 where 2: "publish k i cc1 s1 = (cc2, s2)" by (metis surj_pair)
  have e: "cc = cc2" "lg = lg1" "t = get_params_sp k i s2" using assms by (simp_all add: controls_frame_def 1 2)
  note st = state_control_lat [OF 1] and pu = publish_lat [OF 2]
  show "cc_latActive cc = lat_active_now k i s" "cc_torque cc = lo_torque (fst (lat_step k i s))"
    "cc_steeringAngleDeg cc = (if kc_steerControlType k = Steer_curvature then 0 else lo_angle (fst (lat_step k i s)))"
    "cc_curvature cc = (if kc_steerControlType k = Steer_curvature then lo_angle (fst (lat_step k i s)) else fst (desired_now k i s))"
    "lg = lo_log (fst (lat_step k i s))" unfolding e using st pu by simp_all
  show "ct_desired_curvature t = fst (desired_now k i s)" "ct_LaC t = snd (lat_step k i s)"
    unfolding e using st pu by (simp_all add: get_params_sp_def Let_def split_def)
  show "ct_blinker_pause t =
       (let b = snd (get_lat_active k i (snd (get_lat_active k i (ct_blinker_pause s))))
        in if ci_params_due i then case ci_blinker_params i of (en, metric, speed, delay) \<Rightarrow> blinker_get_params en metric speed delay b else b)"
    unfolding e using st pu by (simp add: get_params_sp_def Let_def split_def)
qed

definition controls_run :: "controls_config \<Rightarrow> controls_in list \<Rightarrow> controls \<Rightarrow> controls" where
  "controls_run k is s = fold (\<lambda>i s. snd (controls_frame k i s)) is s"

lemma controls_run_simps [simp]:
  "controls_run k [] s = s" "controls_run k (i # is) s = controls_run k is (snd (controls_frame k i s))"
  by (simp_all add: controls_run_def)

lemma snd_frame_lat:
  "ct_LaC (snd (controls_frame k i s)) = snd (lat_step k i s)"
  "ct_blinker_pause (snd (controls_frame k i s)) =
     (let b = snd (get_lat_active k i (snd (get_lat_active k i (ct_blinker_pause s))))
      in if ci_params_due i then case ci_blinker_params i of (en, metric, speed, delay) \<Rightarrow> blinker_get_params en metric speed delay b else b)"
proof -
  obtain cc lg t where "controls_frame k i s = ((cc, lg), t)" by (metis surj_pair)
  from frame_lat(7,8) [OF this] this show "ct_LaC (snd (controls_frame k i s)) = snd (lat_step k i s)"
    "ct_blinker_pause (snd (controls_frame k i s)) =
     (let b = snd (get_lat_active k i (snd (get_lat_active k i (ct_blinker_pause s))))
      in if ci_params_due i then case ci_blinker_params i of (en, metric, speed, delay) \<Rightarrow> blinker_get_params en metric speed delay b else b)" by simp_all
qed

section \<open>Who may steer\<close>

lemma inactive_output:
  "lo_torque (fst (lat_control_update k op False i f l)) = 0"
  "lg_active (lo_log (fst (lat_control_update k op False i f l))) = False"
  "l = Lat_angle x \<Longrightarrow> lo_angle (fst (lat_control_update k op False i f l)) = steeringAngleDeg (li_CS i)"
  "l = Lat_curvature c \<Longrightarrow> lo_angle (fst (lat_control_update k op False i f l)) = 0"
  by (cases l; simp add: lat_control_update_def lat_pid_update_def lat_angle_update_def lat_curvature_update_def
      lat_torque_update_def lat_torque_v0_update_def torque_inactive_def Let_def split_def)+

lemma lac_before_kind:
  "ct_LaC s = Lat_angle x \<Longrightarrow> \<exists>y. lac_before k i s = Lat_angle y"
  "ct_LaC s = Lat_curvature c \<Longrightarrow> \<exists>d. lac_before k i s = Lat_curvature d"
  by (auto simp: lac_before_def Let_def on_torque_def lat_control_reset_def)

lemma may_steer_iff:
  "may_steer k i \<longleftrightarrow>
     (if ci_mads_available i
      then ci_mads_active i \<and> (cruise_enabled (cruiseState (li_CS (ci_lat i))) \<or>
             (ci_alternativeExperience i \<noteq> [] \<and> hd (ci_alternativeExperience i) AND kc_ENABLE_MADS k \<noteq> 0))
      else ci_active i)"
  by (cases "ci_alternativeExperience i") (auto simp: may_steer_def)

definition blinker_holds :: "car_state \<Rightarrow> blinker_pause \<Rightarrow> bool" where
  \<comment> \<open>one blinker below the speed that was set\<close>
  "blinker_holds cs b \<longleftrightarrow> bp_enabled b \<and> one_blinker cs \<and> vEgo cs < bp_min_speed b * (if bp_is_metric b then KPH_TO_MS else MPH_TO_MS)"

lemma blinker_pause_cases:
  "fst (blinker_pause_update cs dt b) \<longleftrightarrow> blinker_holds cs b \<or> bp_enabled b \<and> blinker_off_timer (snd (blinker_pause_update cs dt b)) > 0"
  "blinker_holds cs b \<Longrightarrow> snd (blinker_pause_update cs dt b) = b\<lparr>blinker_off_timer := bp_reengage_delay b\<rparr>"
  "\<not> blinker_holds cs b \<Longrightarrow> snd (blinker_pause_update cs dt b) =
     (if bp_enabled b \<and> blinker_off_timer b > 0 then b\<lparr>blinker_off_timer := blinker_off_timer b - dt\<rparr> else b)"
  by (auto simp: blinker_pause_update_def blinker_holds_def Let_def)

text \<open>
  C7. The car is only steered with authority. Steering is active in a frame only if MADS is active, and besides the cruise control
  of the car is engaged or the panda has allowed MADS, or, without MADS, if the drive loop is active; and if the car reports no
  fault of the steering, does not stand (unless it steers at a standstill) and no blinker holds the control. When steering is
  not active the torque is zero, an angle command is the measured angle and a curvature command is zero. The state of the
  process before the frame is any.
\<close>

theorem steering_needs_authority:
  assumes "controls_frame k i s = ((cc, lg), t)"
  shows "(cc_latActive cc \<longrightarrow>
      (if ci_mads_available i
       then ci_mads_active i \<and> (cruise_enabled (cruiseState (li_CS (ci_lat i))) \<or>
              (ci_alternativeExperience i \<noteq> [] \<and> hd (ci_alternativeExperience i) AND kc_ENABLE_MADS k \<noteq> 0))
       else ci_active i) \<and>
      \<not> ci_steerFaultTemporary i \<and> \<not> ci_steerFaultPermanent i \<and>
      (kc_steerAtStandstill k \<or> \<not> standstill (li_CS (ci_lat i)) \<and> \<bar>vEgo (li_CS (ci_lat i))\<bar> > 3 / 10 \<and> \<bar>vEgo (li_CS (ci_lat i))\<bar> > kc_minSteerSpeed k) \<and>
      \<not> blinker_holds (li_CS (ci_lat i)) (ct_blinker_pause s)) \<and>
    (\<not> cc_latActive cc \<longrightarrow> cc_torque cc = 0 \<and> \<not> lg_active lg \<and>
      (\<forall>x. ct_LaC s = Lat_angle x \<and> kc_steerControlType k = Steer_angle \<longrightarrow> cc_steeringAngleDeg cc = steeringAngleDeg (li_CS (ci_lat i))) \<and>
      (\<forall>c. ct_LaC s = Lat_curvature c \<and> kc_steerControlType k = Steer_curvature \<longrightarrow> cc_curvature cc = 0))"
proof -
  note f = frame_lat [OF assms]
  have on: "cc_latActive cc \<longrightarrow> may_steer k i \<and> \<not> ci_steerFaultTemporary i \<and> \<not> ci_steerFaultPermanent i \<and>
      (\<not> standing k (li_CS (ci_lat i)) \<or> kc_steerAtStandstill k) \<and> \<not> blinker_holds (li_CS (ci_lat i)) (ct_blinker_pause s)"
    using f(1) by (auto simp: lat_active_now_def get_lat_active_simps blinker_pause_cases(1))
  have off: "cc_torque cc = 0 \<and> \<not> lg_active lg \<and>
      (\<forall>x. ct_LaC s = Lat_angle x \<and> kc_steerControlType k = Steer_angle \<longrightarrow> cc_steeringAngleDeg cc = steeringAngleDeg (li_CS (ci_lat i))) \<and>
      (\<forall>c. ct_LaC s = Lat_curvature c \<and> kc_steerControlType k = Steer_curvature \<longrightarrow> cc_curvature cc = 0)" if "\<not> cc_latActive cc"
  proof -
    have n: "lat_active_now k i s = False" using that f(1) by simp
    have a: "cc_steeringAngleDeg cc = steeringAngleDeg (li_CS (ci_lat i))" if "ct_LaC s = Lat_angle x" "kc_steerControlType k = Steer_angle" for x
      using lac_before_kind(1) [OF that(1), of k i] that(2) f(3) by (auto simp: lat_step_def n inactive_output(3))
    have c: "cc_curvature cc = 0" if "ct_LaC s = Lat_curvature c" "kc_steerControlType k = Steer_curvature" for c
      using lac_before_kind(2) [OF that(1), of k i] that(2) f(4) by (auto simp: lat_step_def n inactive_output(4))
    have "cc_torque cc = 0" "\<not> lg_active lg" using f(2,5) by (simp_all add: lat_step_def n inactive_output)
    with a c show ?thesis by blast
  qed
  from on off show ?thesis by (auto simp: may_steer_iff standing_def)
qed

section \<open>The bounds of the command\<close>

definition torque_laws :: "lat_config \<Rightarrow> bool" where
  \<comment> \<open>opendbc: with a positive factor more acceleration takes more torque, and the full torques are those of the limits\<close>
  "torque_laws c \<longleftrightarrow> (\<forall>tp. 0 < tp_latAccelFactor tp \<longrightarrow>
     mono (\<lambda>a. lk_torque_from_lateral_accel c a tp) \<and>
     lk_torque_from_lateral_accel c (lk_lateral_accel_from_torque c STEER_MAX tp) tp = STEER_MAX \<and>
     lk_torque_from_lateral_accel c (lk_lateral_accel_from_torque c (- STEER_MAX) tp) tp = - STEER_MAX)"

definition torque_in_range :: "lat_config \<Rightarrow> lat_torque \<Rightarrow> bool" where
  "torque_in_range c s \<longleftrightarrow> 0 < tp_latAccelFactor (lt_params s) \<and>
     pos_limit (lt_pid s) = lk_lateral_accel_from_torque c STEER_MAX (lt_params s) \<and>
     neg_limit (lt_pid s) = lk_lateral_accel_from_torque c (- STEER_MAX) (lt_params s)"

definition lat_in_range :: "lat_config \<Rightarrow> lat_control \<Rightarrow> bool" where
  "lat_in_range c l = (case l of
      Lat_pid s \<Rightarrow> pos_limit (lp_pid s) = STEER_MAX \<and> neg_limit (lp_pid s) = - STEER_MAX
    | Lat_torque s \<Rightarrow> torque_in_range c s | Lat_torque_v0 s \<Rightarrow> torque_in_range c s | _ \<Rightarrow> True)"

definition plain_torque :: "lat_config \<Rightarrow> bool" where
  \<comment> \<open>neither the controller that is aware of the jerk nor a neural network\<close>
  "plain_torque c \<longleftrightarrow> \<not> lk_jerk_aware c \<and> \<not> lk_nn_enabled c"

definition good_factors :: "controls_in \<Rightarrow> bool" where
  "good_factors i \<longleftrightarrow> (case ci_torque_params i of None \<Rightarrow> True | Some tp \<Rightarrow> 0 < tp_latAccelFactor tp) \<and>
     0 < op_latAccelFactor (ci_override_params i)"

lemma set_limits_simps [simp]:
  "pos_limit (set_limits p n c) = p" "neg_limit (set_limits p n c) = n"
  by (simp_all add: set_limits_def)

lemma torque_limits_in_range: "0 < tp_latAccelFactor (lt_params s) \<Longrightarrow> torque_in_range c (torque_limits c s)"
  by (simp add: torque_in_range_def torque_limits_def)

lemma torque_in_range_reset: "torque_in_range c (lat_reset s) \<longleftrightarrow> torque_in_range c s"
  by (simp add: torque_in_range_def lat_reset_def)

lemma plain_ext_limits: "plain_torque c \<Longrightarrow> ext_update_limits c x p = (x, p)"
  by (simp add: ext_update_limits_def plain_torque_def nnlc_enabled_def)

lemma plain_ext_update:
  assumes "plain_torque c"
  shows "snd (ext_update c e x p) = p" "snd (fst (fst (ext_update c e x p))) = ei_output_torque e"
  using assms by (auto simp: ext_update_def plain_torque_def nnlc_enabled_def Let_def split: option.splits)

lemma feed_in_range:
  assumes "plain_torque (kc_lat k)" "good_factors i" "torque_in_range (kc_lat k) s"
  shows "torque_in_range (kc_lat k) (feed_torque k i d s)"
proof (cases "ci_torque_params i")
  case None
  with assms show ?thesis by (simp add: feed_torque_def Let_def torque_in_range_def)
next
  case (Some tp)
  with assms have "torque_in_range (kc_lat k) (update_torque_parameters (kc_lat k) tp s)"
    by (simp add: update_torque_parameters_def torque_limits_in_range good_factors_def)
  with Some assms show ?thesis by (simp add: feed_torque_def Let_def plain_ext_limits torque_in_range_def)
qed

lemma override_in_range:
  assumes "0 < op_latAccelFactor op" "torque_in_range c s"
  shows "torque_in_range c (override_limits c op s)"
  using assms by (simp add: override_limits_def update_override_torque_params_def Let_def torque_limits_in_range)
    (simp add: torque_in_range_def)

lemma clipped_torque:
  assumes "torque_laws c" "torque_in_range c s"
  shows "\<bar>lk_torque_from_lateral_accel c (np_clip x (neg_limit (lt_pid s)) (pos_limit (lt_pid s))) (lt_params s)\<bar> \<le> STEER_MAX"
proof -
  let ?t = "\<lambda>a. lk_torque_from_lateral_accel c a (lt_params s)"
  let ?lo = "neg_limit (lt_pid s)" and ?hi = "pos_limit (lt_pid s)"
  have m: "mono ?t" and hi: "?t ?hi = 1" and lo: "?t ?lo = - 1"
    using assms by (auto simp: torque_laws_def torque_in_range_def)
  have "?lo \<le> ?hi"
  proof (rule ccontr)
    assume "\<not> ?lo \<le> ?hi"
    then have "?hi \<le> ?lo" by simp
    from monoD [OF m this] show False by (simp add: hi lo)
  qed
  then have "?lo \<le> np_clip x ?lo ?hi" "np_clip x ?lo ?hi \<le> ?hi" by (simp_all add: np_clip_lower)
  from monoD [OF m this(1)] monoD [OF m this(2)] show ?thesis by (simp add: hi lo)
qed

lemma pid_update_clips: "\<exists>x. pid_control (pid_update e r v ff fr p) = np_clip x (neg_limit p) (pos_limit p)"
  by (auto simp: pid_update_def pid_integrate_def Let_def)

lemma torque_output_in_range:
  assumes "torque_laws c" "plain_torque c" "torque_in_range c s"
  shows "\<bar>lo_torque (fst (torque_output c i f e r s))\<bar> \<le> STEER_MAX \<and> torque_in_range c (snd (torque_output c i f e r s))"
proof -
  let ?p = "pid_update (ei_error e) r (vEgo (li_CS i)) (ei_ff e) (lf_steer_limited f \<or> steeringPressed (li_CS i) \<or> vEgo (li_CS i) < 5) (lt_pid s)"
  obtain x where x: "pid_control ?p = np_clip x (neg_limit (lt_pid s)) (pos_limit (lt_pid s))" using pid_update_clips by blast
  have "lo_torque (fst (torque_output c i f e r s)) = - lk_torque_from_lateral_accel c (pid_control ?p) (lt_params s)"
    by (simp add: torque_output_def Let_def split_def plain_ext_update [OF assms(2)])
  then have "\<bar>lo_torque (fst (torque_output c i f e r s))\<bar> \<le> STEER_MAX"
    using clipped_torque [OF assms(1,3), of x] by (simp add: x)
  moreover have "torque_in_range c (snd (torque_output c i f e r s))"
    using assms(3) by (simp add: torque_output_def Let_def split_def plain_ext_update [OF assms(2)] torque_in_range_def pid_update_simps)
  ultimately show ?thesis ..
qed

lemma lat_update_in_range:
  assumes "torque_laws c" "plain_torque c" "0 < op_latAccelFactor op" "lat_in_range c l"
  shows "\<bar>lo_torque (fst (lat_control_update c op a i f l))\<bar> \<le> STEER_MAX \<and> lat_in_range c (snd (lat_control_update c op a i f l))"
proof (cases l)
  case (Lat_pid s)
  let ?e = "\<lambda>d. d + li_angleOffsetDeg i - steeringAngleDeg (li_CS i)"
  show ?thesis
    using assms(4) by (auto simp: Lat_pid lat_control_update_def lat_pid_update_def lat_in_range_def Let_def split_def pid_update_simps)
      (auto simp: pid_update_def Let_def abs_le_iff np_clip_def min_def max_def pid_integrate_def)
next
  case (Lat_torque s)
  have r: "torque_in_range c (override_limits c op s)" using assms by (simp add: override_in_range Lat_torque lat_in_range_def)
  show ?thesis
  proof (cases a)
    case True
    have "torque_in_range c (override_limits c op s\<lparr>lt_buffer := b, lt_filter := g\<rparr>)" for b g using r by (simp add: torque_in_range_def)
    from torque_output_in_range [OF assms(1,2) this] show ?thesis
      by (simp add: Lat_torque lat_control_update_def lat_torque_update_def lat_in_range_def Let_def True)
  qed (use r in \<open>simp add: Lat_torque lat_control_update_def lat_torque_update_def lat_in_range_def Let_def torque_inactive_def torque_in_range_def\<close>)
next
  case (Lat_torque_v0 s)
  have r: "torque_in_range c (override_limits c op s)" using assms by (simp add: override_in_range Lat_torque_v0 lat_in_range_def)
  show ?thesis
  proof (cases a)
    case True
    have "torque_in_range c (override_limits c op s\<lparr>lt_buffer := b, lt_filter := g, lt_previous_measurement := m\<rparr>)" for b g m
      using r by (simp add: torque_in_range_def)
    from torque_output_in_range [OF assms(1,2) this] show ?thesis
      by (simp add: Lat_torque_v0 lat_control_update_def lat_torque_v0_update_def lat_in_range_def Let_def True)
  qed (use r in \<open>simp add: Lat_torque_v0 lat_control_update_def lat_torque_v0_update_def lat_in_range_def Let_def torque_inactive_def torque_in_range_def\<close>)
qed (simp_all add: lat_control_update_def lat_angle_update_def lat_curvature_update_def lat_in_range_def Let_def split_def)

lemma lac_before_in_range:
  assumes "plain_torque (kc_lat k)" "good_factors i" "lat_in_range (kc_lat k) (ct_LaC s)"
  shows "lat_in_range (kc_lat k) (lac_before k i s)"
  using assms by (cases "ct_LaC s")
    (auto simp: lac_before_def Let_def on_torque_def lat_control_reset_def lat_in_range_def feed_in_range torque_in_range_reset)

lemma frame_in_range:
  assumes "torque_laws (kc_lat k)" "plain_torque (kc_lat k)" "good_factors i" "lat_in_range (kc_lat k) (ct_LaC s)"
  shows "\<bar>lo_torque (fst (lat_step k i s))\<bar> \<le> STEER_MAX \<and> lat_in_range (kc_lat k) (snd (lat_step k i s))"
  unfolding lat_step_def
  by (rule lat_update_in_range) (use assms lac_before_in_range in \<open>auto simp: good_factors_def\<close>)

lemma run_in_range:
  assumes "torque_laws (kc_lat k)" "plain_torque (kc_lat k)" "\<forall>i\<in>set is. good_factors i" "lat_in_range (kc_lat k) (ct_LaC s)"
  shows "lat_in_range (kc_lat k) (ct_LaC (controls_run k is s))"
  using assms(3,4) by (induction "is" arbitrary: s) (simp_all add: frame_in_range [OF assms(1,2)] snd_frame_lat)

lemma init_in_range:
  assumes "0 < tp_latAccelFactor (kc_tune k)"
  shows "lat_in_range (kc_lat k) (ct_LaC (controls_init k tune override blinker metric lagd))"
proof -
  have "lat_in_range c (Lat_torque (lat_torque_init c v (kc_tune k) override))" "lat_in_range c (Lat_torque_v0 (lat_torque_init c v (kc_tune k) override))" for c v
    unfolding lat_in_range_def lat_torque_init_def lat_control.case by (rule torque_limits_in_range, simp add: assms)+
  moreover have "lat_in_range c (Lat_pid (lat_pid_init c))" for c
    by (simp add: lat_in_range_def lat_pid_init_def PIDController_def pid_reset_def)
  moreover have "lat_in_range c (Lat_angle x)" "lat_in_range c (Lat_curvature y)" for c x y by (simp_all add: lat_in_range_def)
  ultimately show ?thesis
    by (cases "kc_steerControlType k") (simp_all add: controls_init_def initialize_lateral_control_def Let_def)
qed

lemma curvature_at_most: "\<bar>fst (clip_curvature v prev new roll)\<bar> \<le> MAX_CURVATURE"
proof -
  have "\<bar>fst (clamp x (- MAX_CURVATURE) MAX_CURVATURE)\<bar> \<le> MAX_CURVATURE" for x
    by (simp add: clamp_def np_clip_def Let_def abs_le_iff)
  then show ?thesis by (simp only: clip_curvature_def Let_def case_prod_beta fst_conv)
qed

text \<open>
  C8. In a run of the process from its start the command for steering keeps its bounds, if opendbc converts accelerations and
  torques by its laws, the controller that is aware of the jerk and the neural network are off, and the factors of the tuning, of
  the learned parameters and of the override are positive. The torque is at most the full torque and the curvature asked for is at
  most the largest; on a road whose roll takes no more than 3 m/s\<open>\<^sup>2\<close> the curvature keeps the lateral acceleration within
  3 m/s\<open>\<^sup>2\<close> of what the roll gives, and if the curvature before was within these limits it moves in the frame by no more than
  the jerk allows.
\<close>

theorem steering_command_is_bounded:
  assumes "torque_laws (kc_lat k)" "plain_torque (kc_lat k)" "0 < tp_latAccelFactor (kc_tune k)" "\<forall>i\<in>set (is @ [i]). good_factors i"
    and "s = controls_run k is (controls_init k tune override blinker metric lagd)" "controls_frame k i s = ((cc, lg), t)"
  shows "\<bar>cc_torque cc\<bar> \<le> STEER_MAX \<and> \<bar>ct_desired_curvature t\<bar> \<le> MAX_CURVATURE \<and>
    (\<bar>li_roll (ci_lat i) * ACCELERATION_DUE_TO_GRAVITY\<bar> \<le> MAX_LATERAL_ACCEL_NO_ROLL \<longrightarrow>
      lateral_limits (vEgo (li_CS (ci_lat i))) (li_roll (ci_lat i)) (ct_desired_curvature t) \<and>
      (\<bar>ct_desired_curvature s\<bar> \<le> MAX_CURVATURE \<and> lateral_limits (vEgo (li_CS (ci_lat i))) (li_roll (ci_lat i)) (ct_desired_curvature s) \<longrightarrow>
        \<bar>ct_desired_curvature t - ct_desired_curvature s\<bar> \<le> jerk_step (vEgo (li_CS (ci_lat i)))))"
proof -
  note f = frame_lat [OF assms(6)]
  have "lat_in_range (kc_lat k) (ct_LaC s)"
    unfolding assms(5) by (rule run_in_range [OF assms(1,2)]) (use assms(3,4) init_in_range in auto)
  with frame_in_range [OF assms(1,2), of i s] assms(4) f(2) have "\<bar>cc_torque cc\<bar> \<le> STEER_MAX" by simp
  moreover have "\<bar>ct_desired_curvature t\<bar> \<le> MAX_CURVATURE" unfolding f(6) desired_now_def by (rule curvature_at_most)
  moreover obtain new where d: "ct_desired_curvature t =
      fst (clip_curvature (vEgo (li_CS (ci_lat i))) (ct_desired_curvature s) new (li_roll (ci_lat i)))"
    using f(6) by (simp add: desired_now_def)
  ultimately show ?thesis
    using curvature_limited [of "li_roll (ci_lat i)" "vEgo (li_CS (ci_lat i))" "ct_desired_curvature s" new]
    unfolding d [symmetric] case_prod_beta Let_def by blast
qed

section \<open>The pause after a blinker\<close>

definition keeps_blinker :: "blinker_pause \<Rightarrow> controls_in \<Rightarrow> bool" where
  \<comment> \<open>no blinker holds the control, and the parameters stay as they are\<close>
  "keeps_blinker b i \<longleftrightarrow> \<not> blinker_holds (li_CS (ci_lat i)) b \<and>
     (ci_params_due i \<longrightarrow> ci_blinker_params i = (bp_enabled b, bp_is_metric b, bp_min_speed b, bp_reengage_delay b))"

definition tick_down :: "nat \<Rightarrow> real \<Rightarrow> real" where
  "tick_down n d = ((\<lambda>d. if d > 0 then d - DT_CTRL else d) ^^ n) d"

lemma tick_down_simps [simp]:
  "tick_down 0 d = d" "tick_down (Suc n) d = (if tick_down n d > 0 then tick_down n d - DT_CTRL else tick_down n d)"
  by (simp_all add: tick_down_def)

lemma tick_down_add: "tick_down m (tick_down n d) = tick_down (m + n) d"
  by (simp add: tick_down_def funpow_add)

lemma tick_down_value:
  assumes "0 < d"
  shows "(real n * DT_CTRL < d \<longrightarrow> tick_down n d = d - real n * DT_CTRL) \<and> (d \<le> real n * DT_CTRL \<longrightarrow> tick_down n d \<le> 0)"
proof (induction n)
  case (Suc n)
  have "real (Suc n) * DT_CTRL = real n * DT_CTRL + DT_CTRL" by (simp add: field_simps)
  moreover have "0 < DT_CTRL" by simp
  ultimately show ?case using Suc unfolding tick_down_simps by (cases "real n * DT_CTRL < d"; cases "0 < tick_down n d") (simp_all only: if_True if_False, linarith+)
qed (use assms in simp)

lemma tick_down_pos: "0 < d \<Longrightarrow> 0 < tick_down n d \<longleftrightarrow> real n * DT_CTRL < d"
  using tick_down_value [of d n] by (cases "real n * DT_CTRL < d") auto

lemma blinker_holds_timer [simp]: "blinker_holds cs (b\<lparr>blinker_off_timer := d\<rparr>) \<longleftrightarrow> blinker_holds cs b"
  by (simp add: blinker_holds_def)

lemma keeps_blinker_timer [simp]: "keeps_blinker (b\<lparr>blinker_off_timer := d\<rparr>) i \<longleftrightarrow> keeps_blinker b i"
  by (simp add: keeps_blinker_def)

lemma blinker_tick:
  assumes "\<not> blinker_holds (li_CS (ci_lat i)) b" "bp_enabled b"
  shows "snd (get_lat_active k i b) = b\<lparr>blinker_off_timer := tick_down 1 (blinker_off_timer b)\<rparr>"
  using assms by (simp add: get_lat_active_simps blinker_pause_cases(3))

lemma blinker_frame:
  assumes "keeps_blinker (ct_blinker_pause s) i" "bp_enabled (ct_blinker_pause s)"
  shows "ct_blinker_pause (snd (controls_frame k i s)) =
    ct_blinker_pause s\<lparr>blinker_off_timer := tick_down 2 (blinker_off_timer (ct_blinker_pause s))\<rparr>"
proof -
  let ?b = "ct_blinker_pause s"
  have h: "\<not> blinker_holds (li_CS (ci_lat i)) (?b\<lparr>blinker_off_timer := d\<rparr>)" for d using assms(1) by (simp add: keeps_blinker_def)
  have "snd (get_lat_active k i (snd (get_lat_active k i ?b))) = ?b\<lparr>blinker_off_timer := tick_down 2 (blinker_off_timer ?b)\<rparr>"
    using blinker_tick [of i ?b] blinker_tick [OF h] assms h [of "blinker_off_timer ?b"]
    by (simp add: numeral_2_eq_2)
  with assms(1) show ?thesis by (simp add: snd_frame_lat(2) Let_def keeps_blinker_def blinker_get_params_def)
qed

lemma blinker_run:
  assumes "\<forall>i\<in>set is. keeps_blinker (ct_blinker_pause s) i" "bp_enabled (ct_blinker_pause s)"
  shows "ct_blinker_pause (controls_run k is s) =
    ct_blinker_pause s\<lparr>blinker_off_timer := tick_down (2 * length is) (blinker_off_timer (ct_blinker_pause s))\<rparr>"
  using assms
proof (induction "is" arbitrary: s)
  case (Cons i "is")
  let ?s = "snd (controls_frame k i s)"
  have b: "ct_blinker_pause ?s = ct_blinker_pause s\<lparr>blinker_off_timer := tick_down 2 (blinker_off_timer (ct_blinker_pause s))\<rparr>"
    by (rule blinker_frame) (use Cons.prems in auto)
  have "ct_blinker_pause (controls_run k is ?s) =
      ct_blinker_pause ?s\<lparr>blinker_off_timer := tick_down (2 * length is) (blinker_off_timer (ct_blinker_pause ?s))\<rparr>"
    by (rule Cons.IH) (use Cons.prems b in auto)
  then show ?case by (simp add: b tick_down_add)
qed simp

text \<open>
  C9. The pause after a blinker lasts half the time that is set. When the blinker no longer holds the control, the timer has the
  delay \<open>d\<close>; after \<open>n\<close> frames of a hundredth of a second steering is released exactly when \<open>2 n + 1\<close> hundredths have
  reached \<open>d\<close>, because \<open>get_lat_active\<close> counts the timer down in \<open>state_control\<close> and again in \<open>publish\<close>.
\<close>

theorem blinker_pause_lasts_half:
  assumes "bp_enabled (ct_blinker_pause s)" "blinker_off_timer (ct_blinker_pause s) = d" "0 < d"
    and "\<forall>i\<in>set (is @ [i]). keeps_blinker (ct_blinker_pause s) i"
    and "may_steer k i" "\<not> ci_steerFaultTemporary i" "\<not> ci_steerFaultPermanent i" "\<not> standing k (li_CS (ci_lat i))"
    and "controls_frame k i (controls_run k is s) = ((cc, lg), t)"
  shows "cc_latActive cc \<longleftrightarrow> d \<le> real (2 * length is + 1) * DT_CTRL"
proof -
  let ?b = "ct_blinker_pause (controls_run k is s)"
  have b: "?b = ct_blinker_pause s\<lparr>blinker_off_timer := tick_down (2 * length is) d\<rparr>"
    using blinker_run [of "is" s k] assms(1,2,4) by simp
  have h: "\<not> blinker_holds (li_CS (ci_lat i)) (ct_blinker_pause s)" using assms(4) by (simp add: keeps_blinker_def)
  have n: "blinker_pause_update (li_CS (ci_lat i)) DT_CTRL ?b = (tick_down (2 * length is + 1) d > 0, ct_blinker_pause s\<lparr>blinker_off_timer := tick_down (2 * length is + 1) d\<rparr>)"
    using blinker_pause_cases(1) [of "li_CS (ci_lat i)" DT_CTRL ?b] blinker_pause_cases(3) [of "li_CS (ci_lat i)" ?b DT_CTRL] h assms(1)
    by (intro prod_eqI) (auto simp: b)
  have "cc_latActive cc \<longleftrightarrow> \<not> tick_down (2 * length is + 1) d > 0"
    using frame_lat(1) [OF assms(9)] assms(5-8) by (simp add: lat_active_now_def get_lat_active_simps n)
  also have "\<dots> \<longleftrightarrow> d \<le> real (2 * length is + 1) * DT_CTRL"
    using tick_down_pos [OF assms(3), of "2 * length is + 1"] by linarith
  finally show ?thesis .
qed

section \<open>The factor of the friction\<close>

definition ext_of :: "lat_control \<Rightarrow> lat_ext option" where
  "ext_of l = (case l of Lat_torque s \<Rightarrow> Some (lt_ext s) | Lat_torque_v0 s \<Rightarrow> Some (lt_ext s) | _ \<Rightarrow> None)"

abbreviation friction_factor :: "lat_control \<Rightarrow> real option" where
  "friction_factor l \<equiv> map_option te_lat_accel_friction_factor (ext_of l)"

lemma on_pid_ext [simp]: "te_lat_accel_friction_factor (fst (on_pid g x p)) = te_lat_accel_friction_factor x"
  by (simp add: on_pid_def)

lemma ext_update_limits_factor [simp]:
  "te_lat_accel_friction_factor (fst (ext_update_limits k x p)) = te_lat_accel_friction_factor x"
  by (auto simp: ext_update_limits_def Let_def split_def)

lemma feed_factor [simp]: "te_lat_accel_friction_factor (lt_ext (feed_torque k i d s)) = te_lat_accel_friction_factor (lt_ext s)"
  by (cases "ci_torque_params i")
    (simp_all add: feed_torque_def Let_def split_def update_lateral_lag_def update_model_v2_def update_torque_parameters_def torque_limits_def)

lemma lac_before_factor: "friction_factor (lac_before k i s) = friction_factor (ct_LaC s)"
  by (cases "ct_LaC s") (simp_all add: lac_before_def Let_def on_torque_def lat_control_reset_def lat_reset_def ext_of_def)

lemma override_factor [simp]: "te_lat_accel_friction_factor (lt_ext (override_limits c op s)) = te_lat_accel_friction_factor (lt_ext s)"
  by (simp add: override_limits_def update_override_torque_params_def Let_def torque_limits_def)

lemma calculations_factor:
  "te_lat_accel_friction_factor (update_calculations k i a x) =
    (if te_model_valid x \<and> te_lookahead_lateral_jerk (update_calculations k i a x) = 0 then 1 else te_lat_accel_friction_factor x)"
  by (simp add: update_calculations_def Let_def)

lemma nn_control_ext [simp]:
  "te_lat_accel_friction_factor (snd (fst (nn_control k m e x p))) = te_lat_accel_friction_factor x"
  "te_lookahead_lateral_jerk (snd (fst (nn_control k m e x p))) = te_lookahead_lateral_jerk x"
  by (auto simp: nn_control_def nn_rolls_def Let_def split_def split: option.splits)

lemma ext_update_factor:
  "te_lat_accel_friction_factor (snd (fst (ext_update k e x p))) =
    (if te_model_valid x \<and> te_lookahead_lateral_jerk (snd (fst (ext_update k e x p))) = 0 then 1 else te_lat_accel_friction_factor x)"
  by (simp add: ext_update_def Let_def split_def calculations_factor split: option.splits)

lemma torque_output_factor:
  "te_lat_accel_friction_factor (lt_ext (snd (torque_output k i f e r s))) =
    (if te_model_valid (lt_ext s) \<and> te_lookahead_lateral_jerk (lt_ext (snd (torque_output k i f e r s))) = 0 then 1
     else te_lat_accel_friction_factor (lt_ext s))"
  by (simp add: torque_output_def Let_def split_def ext_update_factor)

lemma update_factor:
  "friction_factor (snd (lat_control_update c op a i f l)) =
    (case ext_of l of None \<Rightarrow> None
     | Some x \<Rightarrow> Some (if a \<and> te_model_valid x \<and> map_option te_lookahead_lateral_jerk (ext_of (snd (lat_control_update c op a i f l))) = Some 0
                      then 1 else te_lat_accel_friction_factor x))"
proof (cases l)
  case (Lat_torque s)
  have v: "te_model_valid (lt_ext (override_limits c op s)) = te_model_valid (lt_ext s)"
    by (simp add: override_limits_def update_override_torque_params_def Let_def torque_limits_def)
  show ?thesis
    by (simp add: Lat_torque lat_control_update_def lat_torque_update_def ext_of_def Let_def torque_output_factor v)
next
  case (Lat_torque_v0 s)
  have v: "te_model_valid (lt_ext (override_limits c op s)) = te_model_valid (lt_ext s)"
    by (simp add: override_limits_def update_override_torque_params_def Let_def torque_limits_def)
  show ?thesis
    by (simp add: Lat_torque_v0 lat_control_update_def lat_torque_v0_update_def ext_of_def Let_def torque_output_factor v)
qed (simp_all add: lat_control_update_def lat_pid_update_def lat_angle_update_def lat_curvature_update_def ext_of_def Let_def split_def)

lemma step_factor:
  "friction_factor (snd (lat_step k i s)) =
    (case ext_of (lac_before k i s) of None \<Rightarrow> None
     | Some x \<Rightarrow> Some (if lat_active_now k i s \<and> te_model_valid x \<and> map_option te_lookahead_lateral_jerk (ext_of (snd (lat_step k i s))) = Some 0
                      then 1 else te_lat_accel_friction_factor x))"
  unfolding lat_step_def by (rule update_factor)

lemma step_keeps_one: "friction_factor (ct_LaC s) = Some 1 \<Longrightarrow> friction_factor (snd (lat_step k i s)) = Some 1"
  using lac_before_factor [of k i s] by (auto simp: step_factor)

lemma run_keeps_one: "friction_factor (ct_LaC s) = Some 1 \<Longrightarrow> friction_factor (ct_LaC (controls_run k is s)) = Some 1"
proof (induction "is" arbitrary: s)
  case (Cons i "is")
  have "friction_factor (ct_LaC (snd (controls_frame k i s))) = Some 1"
    unfolding snd_frame_lat(1) by (rule step_keeps_one [OF Cons.prems])
  from Cons.IH [OF this] show ?case by simp
qed simp

lemma feed_valid [simp]: "te_model_valid (lt_ext (feed_torque k i d s)) \<longleftrightarrow> 17 \<le> length (ci_model_orientation_x i)"
  by (cases "ci_torque_params i") (simp_all add: feed_torque_def Let_def split_def update_lateral_lag_def update_model_v2_def)

lemma lac_before_valid:
  assumes "kc_torque_tuning k" "ext_of (lac_before k i s) = Some x"
  shows "te_model_valid x \<longleftrightarrow> 17 \<le> length (ci_model_orientation_x i)"
  using assms by (cases "ct_LaC s") (auto simp: lac_before_def Let_def on_torque_def lat_control_reset_def lat_reset_def ext_of_def split: if_splits)

lemma lat_step_ext: "ext_of (snd (lat_step k i s)) = Some x \<Longrightarrow> \<exists>y. ext_of (lac_before k i s) = Some y"
  using step_factor [of k i s] by (cases "ext_of (lac_before k i s)") auto

text \<open>
  C10. A car with torque tuning starts with the factor 0.7 for the acceleration in the input of the friction, and loses it for
  good: after one frame of active steering in which the model is valid and the jerk looked ahead is zero, the factor is one in
  every later state of the run, because \<open>update_calculations\<close> sets it there and nothing sets it back.
\<close>

theorem friction_factor_never_returns:
  assumes "kc_torque_tuning k" "17 \<le> length (ci_model_orientation_x i)" "controls_frame k i s = ((cc, lg), t)" "cc_latActive cc"
    and "ext_of (ct_LaC t) = Some x" "te_lookahead_lateral_jerk x = 0"
  shows "friction_factor (ct_LaC (controls_run k is t)) = Some 1 \<and>
    friction_factor (Lat_torque_v0 (lat_torque_init (kc_lat k) True (kc_tune k) override)) = Some (7 / 10)"
proof -
  note f = frame_lat [OF assms(3)]
  obtain y where y: "ext_of (lac_before k i s) = Some y" using lat_step_ext assms(5) f(7) by metis
  have "friction_factor (ct_LaC t) = Some 1"
    using assms(2,4-6) f(1,7) lac_before_valid [OF assms(1) y] step_factor [of k i s] y by simp
  then have "friction_factor (ct_LaC (controls_run k is t)) = Some 1" by (rule run_keeps_one)
  moreover have "friction_factor (Lat_torque_v0 (lat_torque_init (kc_lat k) True (kc_tune k) override)) = Some (7 / 10)"
    by (simp add: ext_of_def lat_torque_init_def torque_limits_def lat_ext_init_def)
  ultimately show ?thesis ..
qed

section \<open>The controller that is aware of the jerk\<close>

definition slip_lat :: "bool \<Rightarrow> real \<Rightarrow> lat_config" where
  \<comment> \<open>a linear car, whose steering gives a constant curvature\<close>
  "slip_lat jerk curv = \<lparr>lk_calc_curvature = (\<lambda>_ _ _ _ _. curv), lk_get_steer_from_curvature = (\<lambda>_ _ c _ _. c),
     lk_torque_from_lateral_accel = (\<lambda>a tp. a / tp_latAccelFactor tp), lk_lateral_accel_from_torque = (\<lambda>t tp. t * tp_latAccelFactor tp),
     lk_torque_space = (\<lambda>a _ _ _ tp _. a / tp_latAccelFactor tp), lk_get_friction = (\<lambda>_ _ _ _. 0),
     lk_get_friction_torque_space = (\<lambda>_ _ _ _. 0), lk_FRICTION_THRESHOLD = 3 / 10, lk_get_steer_feedforward = (\<lambda>a v. a * v\<^sup>2),
     lk_steerLimitTimer = 1, lk_deadzone_deg = 0, lk_pid_kp = [(0, 1)], lk_pid_ki = [(0, 1)], lk_pid_kf = 0, lk_curvature_pid = False,
     lk_use_steer_limited = False, lk_steerActuatorDelay = 2 / 10, lk_jerk_aware = jerk, lk_nn_enabled = False, lk_nn = None,
     lk_enforce_torque = False\<rparr>"

definition torque_car :: "lat_config \<Rightarrow> real \<Rightarrow> controls_config" where
  "torque_car c F = \<lparr>kc_lat = c, kc_long = \<lparr>lc_gas_interceptor = False, lc_stopAccel = - 2, lc_ki = [(0, 1)]\<rparr>,
     kc_steerControlType = Steer_torque, kc_torque_tuning = True, kc_minSteerSpeed = 0, kc_steerAtStandstill = False, kc_op_long = True,
     kc_pcmCruise = False, kc_pcmCruiseSpeed = False, kc_accel_limits = (\<lambda>_ _. (- 3, 2)), kc_ENABLE_MADS = 1024,
     kc_tune = \<lparr>tp_latAccelFactor = F, tp_latAccelOffset = 0, tp_friction = 0\<rparr>\<rparr>"

definition straight_frame :: "real \<Rightarrow> controls_in" where
  \<comment> \<open>an engaged car that drives straight on at the speed\<close>
  "straight_frame v = \<lparr>ci_lat = \<lparr>li_CS = cs_default\<lparr>vEgo := v\<rparr>, li_steeringRateDeg = 0, li_stiffness = 1, li_steerRatio = 15, li_angleOffsetDeg = 0,
       li_roll = 0, li_pitch = None\<rparr>,
     ci_steerFaultTemporary = False, ci_steerFaultPermanent = False, ci_enabled = True, ci_active = True, ci_engageable = True,
     ci_softDisabling = False, ci_mads_available = False, ci_mads_active = False, ci_alternativeExperience = [],
     ci_overrideLongitudinal = False, ci_laneChangeState = LC_off, ci_laneChangeDirection = Dir_none, ci_model_curvature = 0,
     ci_model_accel_y = [], ci_model_orientation_x = [], ci_model_orientation_y = [], ci_maneuver_curvature = None, ci_aTarget = 0,
     ci_shouldStop = False, ci_torque_params = None, ci_lateralDelay = 2 / 10,
     ci_override_params = \<lparr>op_enabled = False, op_latAccelFactor = 2, op_friction = 0\<rparr>, ci_out_angle = 0, ci_out_torque = 0,
     ci_noResponseForceDecel = False, ci_frame = 0, ci_params_due = False, ci_blinker_params = (False, False, 0, 0),
     ci_lagd_toggle = False, ci_lagd_value = 0\<rparr>"

definition torque_start :: "controls_config \<Rightarrow> controls" where
  "torque_start k = controls_init k None False False False 0"

lemma torque_car_simps [simp]:
  "kc_lat (torque_car c F) = c" "kc_steerControlType (torque_car c F) = Steer_torque" "kc_torque_tuning (torque_car c F) = True"
  "kc_minSteerSpeed (torque_car c F) = 0" "kc_tune (torque_car c F) = \<lparr>tp_latAccelFactor = F, tp_latAccelOffset = 0, tp_friction = 0\<rparr>"
  by (simp_all add: torque_car_def)

lemma straight_frame_simps [simp]:
  "li_CS (ci_lat (straight_frame v)) = cs_default\<lparr>vEgo := v\<rparr>" "li_roll (ci_lat (straight_frame v)) = 0" "li_angleOffsetDeg (ci_lat (straight_frame v)) = 0"
  "ci_steerFaultTemporary (straight_frame v) = False" "ci_steerFaultPermanent (straight_frame v) = False" "may_steer k (straight_frame v)"
  "ci_maneuver_curvature (straight_frame v) = None" "ci_model_curvature (straight_frame v) = 0" "ci_torque_params (straight_frame v) = None"
  "ci_lateralDelay (straight_frame v) = 2 / 10" "ci_override_params (straight_frame v) = \<lparr>op_enabled = False, op_latAccelFactor = 2, op_friction = 0\<rparr>"
  "ci_model_orientation_x (straight_frame v) = []"
  by (simp_all add: straight_frame_def may_steer_def)

lemma cs_default_simps [simp]:
  "steeringAngleDeg cs_default = 0" "standstill cs_default = False" "steeringPressed cs_default = False"
  "one_blinker (cs_default\<lparr>vEgo := v\<rparr>) = False" "aEgo cs_default = 0"
  by (simp_all add: cs_default_def one_blinker_def)

lemma slip_simps [simp]:
  "curvature_at (slip_lat jerk c) i a r = c" "lk_jerk_aware (slip_lat jerk c) = jerk" "lk_nn_enabled (slip_lat jerk c) = False"
  "lk_nn (slip_lat jerk c) = None" "lk_enforce_torque (slip_lat jerk c) = False"
  "lk_torque_space (slip_lat jerk c) a b d e tp g = a / tp_latAccelFactor tp" "lk_get_friction_torque_space (slip_lat jerk c) a b d tp = 0"
  "lk_get_friction (slip_lat jerk c) a b d tp = 0" "lk_lateral_accel_from_torque (slip_lat jerk c) x tp = x * tp_latAccelFactor tp"
  by (simp_all add: curvature_at_def slip_lat_def)

lemma slip_laws: "torque_laws (slip_lat jerk curv)"
  by (auto simp: torque_laws_def slip_lat_def mono_def divide_right_mono)

lemma torque_start_simps [simp]:
  "ct_steer_limited (torque_start (torque_car (slip_lat jerk c) F)) = False"
  "ct_desired_curvature (torque_start (torque_car (slip_lat jerk c) F)) = 0"
  "ct_LaC (torque_start (torque_car (slip_lat jerk c) F)) =
     Lat_torque_v0 (lat_torque_init (slip_lat jerk c) True (kc_tune (torque_car (slip_lat jerk c) F)) False)"
  "ct_blinker_pause (torque_start (torque_car (slip_lat jerk c) F)) = blinker_pause_init False False"
  "ct_lat_delay (torque_start (torque_car (slip_lat jerk c) F)) = 0"
  by (simp_all add: torque_start_def controls_init_def initialize_lateral_control_def Let_def)

lemma slip_active [simp]: "1 / 2 \<le> v \<Longrightarrow> lat_active_now (torque_car (slip_lat jerk c) F) (straight_frame v) (torque_start (torque_car (slip_lat jerk c) F))"
  by (simp add: lat_active_now_def get_lat_active_simps blinker_pause_init_def blinker_pause_update_def standing_def)

lemma straight_on: "1 / 2 \<le> v \<Longrightarrow> clip_curvature v 0 0 0 = (0, False)"
  by (simp add: clip_curvature_def clamp_def np_clip_def Let_def min_def max_def divide_le_0_iff)

lemma slip_desired [simp]: "1 / 2 \<le> v \<Longrightarrow> desired_now (torque_car (slip_lat jerk c) F) (straight_frame v) (torque_start (torque_car (slip_lat jerk c) F)) = (0, False)"
  by (simp add: desired_now_def straight_on)

lemma feed_idle:
  assumes "ci_torque_params i = None"
  shows "lt_pid (feed_torque k i d s) = lt_pid s" "lt_params (feed_torque k i d s) = lt_params s" "lt_buffer (feed_torque k i d s) = lt_buffer s"
  using assms by (simp_all add: feed_torque_def Let_def)

lemma fresh_torque:
  "lt_params (lat_torque_init c True tp ov) = tp" "lt_buffer (lat_torque_init c True tp ov) = replicate 100 0"
  "neg_limit (lt_pid (lat_torque_init c True tp ov)) = lk_lateral_accel_from_torque c (- 1) tp"
  "pos_limit (lt_pid (lat_torque_init c True tp ov)) = lk_lateral_accel_from_torque c 1 tp"
  "pid_i (lt_pid (lat_torque_init c True tp ov)) = 0"
  "pid_k_p (lt_pid (lat_torque_init c True tp ov)) = zip INTERP_SPEEDS (KP_INTERP 1)"
  "pid_k_d (lt_pid (lat_torque_init c True tp ov)) = [(0, 0)]"
  by (simp_all add: lat_torque_init_def torque_limits_def PIDController_def pid_reset_def set_limits_def scalar_gain_def)

lemma gain_at_1: "np_interp 1 (zip INTERP_SPEEDS (KP_INTERP 1)) = 250"
  by (simp add: INTERP_SPEEDS_def KP_INTERP_def)

text \<open>The limits of the torque controller when nothing is learned or overridden.\<close>

definition jerk_aware_alone :: "controls_config \<Rightarrow> bool" where
  \<comment> \<open>a car with a tuning for torque, the jerk-aware controller on, the neural network and the enforced tuning off\<close>
  "jerk_aware_alone k \<longleftrightarrow> kc_torque_tuning k \<and> lk_jerk_aware (kc_lat k) \<and> \<not> lk_nn_enabled (kc_lat k) \<and> \<not> lk_enforce_torque (kc_lat k)"

definition limits_of :: "lat_config \<Rightarrow> torque_params \<Rightarrow> lat_control \<Rightarrow> bool" where
  "limits_of c tp l = (case l of
      Lat_torque_v0 s \<Rightarrow> pos_limit (lt_pid s) = lk_lateral_accel_from_torque c STEER_MAX tp \<and>
        neg_limit (lt_pid s) = lk_lateral_accel_from_torque c (- STEER_MAX) tp
    | _ \<Rightarrow> False)"

lemma accel_limits_ordered:
  assumes "torque_laws c" "0 < tp_latAccelFactor tp"
  shows "lk_lateral_accel_from_torque c (- STEER_MAX) tp \<le> lk_lateral_accel_from_torque c STEER_MAX tp"
proof (rule ccontr)
  let ?t = "\<lambda>a. lk_torque_from_lateral_accel c a tp"
  have m: "mono ?t" and hi: "?t (lk_lateral_accel_from_torque c STEER_MAX tp) = 1" and lo: "?t (lk_lateral_accel_from_torque c (- STEER_MAX) tp) = - 1"
    using assms by (auto simp: torque_laws_def)
  assume "\<not> ?thesis"
  then have "lk_lateral_accel_from_torque c STEER_MAX tp \<le> lk_lateral_accel_from_torque c (- STEER_MAX) tp" by simp
  from monoD [OF m this] show False by (simp add: hi lo)
qed

lemma jerk_aware_ext:
  assumes "lk_jerk_aware c" "\<not> lk_nn_enabled c"
  shows "\<exists>er ff. snd (ext_update c e x p) = output_by_pid e er ff p \<and> snd (fst (fst (ext_update c e x p))) = pid_control (output_by_pid e er ff p)"
proof -
  define y where "y = update_calculations c (ei_in e) (ei_desired_lateral_accel e) (x\<lparr>te_shared := True\<rparr>)"
  obtain er ff where j: "jerk_aware_control c e y p = ((er, pid_control (output_by_pid e er ff p)), output_by_pid e er ff p)"
    unfolding jerk_aware_control_def Let_def by blast
  have "ext_update c e x p = (((er, pid_control (output_by_pid e er ff p)), y), output_by_pid e er ff p)"
    using assms by (cases "lk_nn c") (simp_all add: ext_update_def y_def [symmetric] j nnlc_enabled_def Let_def)
  then show ?thesis by auto
qed

lemma jerk_aware_output:
  assumes "lk_jerk_aware c" "\<not> lk_nn_enabled c" "neg_limit (lt_pid s) \<le> pos_limit (lt_pid s)"
  shows "- pos_limit (lt_pid s) \<le> lo_torque (fst (torque_output c i f e r s)) \<and>
    lo_torque (fst (torque_output c i f e r s)) \<le> - neg_limit (lt_pid s) \<and>
    pos_limit (lt_pid (snd (torque_output c i f e r s))) = pos_limit (lt_pid s) \<and>
    neg_limit (lt_pid (snd (torque_output c i f e r s))) = neg_limit (lt_pid s)"
proof -
  let ?p = "pid_update (ei_error e) r (vEgo (li_CS i)) (ei_ff e) (lf_steer_limited f \<or> steeringPressed (li_CS i) \<or> vEgo (li_CS i) < 5) (lt_pid s)"
  let ?e = "e\<lparr>ei_output_torque := lk_torque_from_lateral_accel c (pid_control ?p) (lt_params s)\<rparr>"
  from jerk_aware_ext [OF assms(1,2), of ?e "lt_ext s" ?p] obtain er ff where u: "snd (ext_update c ?e (lt_ext s) ?p) = output_by_pid ?e er ff ?p"
    "snd (fst (fst (ext_update c ?e (lt_ext s) ?p))) = pid_control (output_by_pid ?e er ff ?p)" by blast
  obtain y where y: "pid_control (output_by_pid ?e er ff ?p) = np_clip y (neg_limit (lt_pid s)) (pos_limit (lt_pid s))"
    unfolding output_by_pid_def Let_def using pid_update_clips [of _ _ _ _ _ ?p] by (metis pid_update_simps)
  have "lo_torque (fst (torque_output c i f e r s)) = - pid_control (output_by_pid ?e er ff ?p)"
    "lt_pid (snd (torque_output c i f e r s)) = output_by_pid ?e er ff ?p"
    by (simp_all add: torque_output_def Let_def split_def u)
  then show ?thesis using assms(3) unfolding y
    by (simp add: output_by_pid_def Let_def pid_update_simps np_clip_lower)
qed

lemma override_off: "\<not> lk_enforce_torque c \<Longrightarrow> lt_pid (override_limits c op s) = lt_pid s"
  by (simp add: override_limits_def update_override_torque_params_def)

lemma jerk_aware_update:
  assumes "lk_jerk_aware c" "\<not> lk_nn_enabled c" "\<not> lk_enforce_torque c" "limits_of c tp l"
    and "lk_lateral_accel_from_torque c (- STEER_MAX) tp \<le> lk_lateral_accel_from_torque c STEER_MAX tp"
  shows "limits_of c tp (snd (lat_control_update c op a i f l))"
    "a \<Longrightarrow> - lk_lateral_accel_from_torque c STEER_MAX tp \<le> lo_torque (fst (lat_control_update c op a i f l)) \<and>
       lo_torque (fst (lat_control_update c op a i f l)) \<le> - lk_lateral_accel_from_torque c (- STEER_MAX) tp"
proof -
  from assms(4) obtain s where l: "l = Lat_torque_v0 s" by (cases l) (simp_all add: limits_of_def)
  define o' where "o' = override_limits c op s"
  have lim: "pos_limit (lt_pid o') = lk_lateral_accel_from_torque c STEER_MAX tp" "neg_limit (lt_pid o') = lk_lateral_accel_from_torque c (- STEER_MAX) tp"
    using assms(4) by (simp_all add: o'_def override_off [OF assms(3)] l limits_of_def)
  have "neg_limit (lt_pid (o'\<lparr>lt_buffer := b, lt_filter := g, lt_previous_measurement := m\<rparr>)) \<le>
      pos_limit (lt_pid (o'\<lparr>lt_buffer := b, lt_filter := g, lt_previous_measurement := m\<rparr>))" for b g m
    using assms(5) by (simp add: lim)
  note out = jerk_aware_output [OF assms(1,2) this]
  show "limits_of c tp (snd (lat_control_update c op a i f l))"
    using lim out by (simp add: l lat_control_update_def lat_torque_v0_update_def limits_of_def Let_def o'_def [symmetric])
  assume a
  then show "- lk_lateral_accel_from_torque c STEER_MAX tp \<le> lo_torque (fst (lat_control_update c op a i f l)) \<and>
       lo_torque (fst (lat_control_update c op a i f l)) \<le> - lk_lateral_accel_from_torque c (- STEER_MAX) tp"
    using lim out by (simp add: l lat_control_update_def lat_torque_v0_update_def Let_def o'_def [symmetric])
qed

lemma limits_before:
  assumes "ci_torque_params i = None" "limits_of c tp (ct_LaC s)"
  shows "limits_of c tp (lac_before k i s)"
  using assms by (cases "ct_LaC s")
    (simp_all add: limits_of_def lac_before_def on_torque_def lat_control_reset_def lat_reset_def feed_torque_def Let_def)

lemma jerk_aware_run:
  assumes "jerk_aware_alone k" "torque_laws (kc_lat k)" "0 < tp_latAccelFactor (kc_tune k)"
  shows "\<forall>i\<in>set is. ci_torque_params i = None \<Longrightarrow> limits_of (kc_lat k) (kc_tune k) (ct_LaC s) \<Longrightarrow>
    limits_of (kc_lat k) (kc_tune k) (ct_LaC (controls_run k is s))"
proof (induction "is" arbitrary: s)
  case (Cons i "is")
  have j: "lk_jerk_aware (kc_lat k)" "\<not> lk_nn_enabled (kc_lat k)" "\<not> lk_enforce_torque (kc_lat k)"
    using assms(1) by (simp_all add: jerk_aware_alone_def)
  have "limits_of (kc_lat k) (kc_tune k) (ct_LaC (snd (controls_frame k i s)))"
    unfolding snd_frame_lat lat_step_def using Cons.prems
    by (intro jerk_aware_update(1) j limits_before accel_limits_ordered assms(2,3)) simp_all
  with Cons show ?case by simp
qed simp

lemma jerk_aware_start:
  "jerk_aware_alone k \<Longrightarrow> limits_of (kc_lat k) (kc_tune k) (ct_LaC (controls_init k tune override blinker metric lagd))"
  by (simp add: jerk_aware_alone_def controls_init_def initialize_lateral_control_def limits_of_def fresh_torque Let_def)

lemma jerk_aware_full_torque:
  assumes "0 < F"
  shows "\<exists>c. jerk_aware_alone (torque_car (slip_lat True c) F) \<and> torque_laws (kc_lat (torque_car (slip_lat True c) F)) \<and>
    cc_torque (fst (fst (controls_frame (torque_car (slip_lat True c) F) (straight_frame 1) (torque_start (torque_car (slip_lat True c) F))))) = - F"
proof -
  define c where "c = F\<^sup>2 / 100"
  let ?k = "torque_car (slip_lat True c) F"
  obtain cc lg t where fr: "controls_frame ?k (straight_frame 1) (torque_start ?k) = ((cc, lg), t)" by (metis surj_pair)
  have big: "F \<le> 250 * (c / F)" using assms by (simp add: c_def power2_eq_square)
  let ?s = "feed_torque ?k (straight_frame 1) 0 (lat_torque_init (slip_lat True c) True (kc_tune ?k) False)"
  have "cc_torque cc = lo_torque (fst (lat_torque_v0_update (slip_lat True c) (ci_override_params (straight_frame 1)) True (vehicle_limits (ci_lat (straight_frame 1)))
       \<lparr>lf_steer_limited = False, lf_desired_curvature = 0, lf_curvature_limited = False, lf_lat_delay = 2 / 10\<rparr> ?s))"
    using frame_lat(2) [OF fr] by (simp add: lat_step_def lac_before_def on_torque_def Let_def lat_control_update_def)
  also have "\<dots> = - F"
    using big assms
    by (simp add: lat_torque_v0_update_def Let_def override_limits_def update_override_torque_params_def torque_output_def split_def ext_update_def
        jerk_aware_control_def output_by_pid_def pid_update_simps feed_idle fresh_torque ext_input_def measurement_at_def)
      (simp add: pid_update_def Let_def k_p_def k_d_def k_i_def fresh_torque np_clip_def c_def in_torque_space_def gain_at_1)
  finally have "cc_torque cc = - F" .
  then show ?thesis using fr slip_laws by (intro exI [of _ c]) (simp add: jerk_aware_alone_def)
qed

text \<open>
  C11. With the controller that is aware of the jerk, the torque is bounded by an acceleration. That controller computes in torque,
  but uses the PID controller of the other, whose limits are the lateral accelerations of full torque; \<open>update_limits\<close> is
  only called with learned parameters. So on every car with torque tuning, as opendbc converts accelerations and torques by its
  laws, with the neural network and the enforced tuning off and no learned parameters received, the torque of every active frame of
  a run from the start lies within these accelerations; and the bound is the true one: for every factor of the tuning there is a
  linear car with that factor and an engaged frame at 1 m/s whose torque is the factor, above full torque when the factor is.
\<close>

theorem jerk_aware_torque_has_wrong_limit:
  assumes "jerk_aware_alone k" "torque_laws (kc_lat k)" "0 < tp_latAccelFactor (kc_tune k)" "\<forall>j\<in>set (is @ [i]). ci_torque_params j = None"
    and "s = controls_run k is (controls_init k tune override blinker metric lagd)" "controls_frame k i s = ((cc, lg), t)"
  shows "(cc_latActive cc \<longrightarrow> - lk_lateral_accel_from_torque (kc_lat k) STEER_MAX (kc_tune k) \<le> cc_torque cc \<and>
      cc_torque cc \<le> - lk_lateral_accel_from_torque (kc_lat k) (- STEER_MAX) (kc_tune k)) \<and>
    (\<exists>c. let car = torque_car (slip_lat True c) (tp_latAccelFactor (kc_tune k)) in
      jerk_aware_alone car \<and> torque_laws (kc_lat car) \<and>
      cc_torque (fst (fst (controls_frame car (straight_frame 1) (torque_start car)))) = - tp_latAccelFactor (kc_tune k))"
proof -
  have j: "lk_jerk_aware (kc_lat k)" "\<not> lk_nn_enabled (kc_lat k)" "\<not> lk_enforce_torque (kc_lat k)"
    using assms(1) by (simp_all add: jerk_aware_alone_def)
  have lim: "limits_of (kc_lat k) (kc_tune k) (lac_before k i s)"
    unfolding assms(5) using assms(4) by (intro limits_before jerk_aware_run assms(1-3) jerk_aware_start) simp_all
  note u = jerk_aware_update(2) [OF j lim accel_limits_ordered [OF assms(2,3)]]
  show ?thesis
    using u jerk_aware_full_torque [OF assms(3)] unfolding frame_lat(1,2) [OF assms(6)] lat_step_def Let_def by blast
qed

theorem jerk_aware_torque_has_wrong_limit_witness:
  "let cc = fst (fst (controls_frame (torque_car (slip_lat True 0) 3) (straight_frame 1) (torque_start (torque_car (slip_lat True 0) 3))))
   in - 3 \<le> cc_torque cc \<and> cc_torque cc \<le> 3"
proof -
  let ?k = "torque_car (slip_lat True 0) 3"
  obtain cc lg t where fr: "controls_frame ?k (straight_frame 1) (torque_start ?k) = ((cc, lg), t)" by (metis surj_pair)
  have st: "torque_start ?k = controls_run ?k [] (controls_init ?k None False False False 0)" by (simp add: torque_start_def)
  have "jerk_aware_alone ?k" by (simp add: jerk_aware_alone_def)
  from jerk_aware_torque_has_wrong_limit [OF this _ _ _ st fr] slip_laws
  have "cc_latActive cc \<Longrightarrow> - 3 \<le> cc_torque cc \<and> cc_torque cc \<le> 3" by simp
  moreover have "cc_latActive cc" using frame_lat(1) [OF fr] by simp
  ultimately show ?thesis using fr by simp
qed

section \<open>Concrete frames\<close>

abbreviation plain_car :: controls_config where
  "plain_car \<equiv> torque_car (slip_lat False 0) 3"

lemma plain_car_plain: "plain_torque (slip_lat False c)"
  by (simp add: plain_torque_def)

theorem steering_needs_authority_witness:
  "let i = straight_frame 20\<lparr>ci_mads_available := True, ci_mads_active := True\<rparr>;
       cc = fst (fst (controls_frame plain_car i (torque_start plain_car)))
   in \<not> cc_latActive cc \<and> cc_torque cc = 0"
proof -
  define i where "i = straight_frame 20\<lparr>ci_mads_available := True, ci_mads_active := True\<rparr>"
  obtain cc lg t where fr: "controls_frame plain_car i (torque_start plain_car) = ((cc, lg), t)" by (metis surj_pair)
  have "\<not> cc_latActive cc" "cc_torque cc = 0"
    using steering_needs_authority [OF fr] by (auto simp: i_def) (auto simp: straight_frame_def cs_default_def)
  then show ?thesis unfolding i_def [symmetric] Let_def fr by simp
qed

theorem steering_command_is_bounded_witness:
  "let cc = fst (fst (controls_frame plain_car (straight_frame 20) (torque_start plain_car))) in \<bar>cc_torque cc\<bar> \<le> STEER_MAX"
proof -
  obtain cc lg t where fr: "controls_frame plain_car (straight_frame 20) (torque_start plain_car) = ((cc, lg), t)" by (metis surj_pair)
  have "torque_start plain_car = controls_run plain_car [] (controls_init plain_car None False False False 0)"
    by (simp add: torque_start_def)
  from steering_command_is_bounded [OF _ _ _ _ this fr] show ?thesis
    by (simp add: slip_laws plain_car_plain good_factors_def fr)
qed

definition blinker_start :: controls where
  \<comment> \<open>a blinker has just gone out, and two seconds are set\<close>
  "blinker_start = torque_start plain_car\<lparr>ct_blinker_pause := \<lparr>bp_enabled = True, bp_is_metric = False, bp_min_speed = 30,
     bp_reengage_delay = 2, blinker_off_timer = 2\<rparr>\<rparr>"

theorem blinker_pause_lasts_half_witness:
  "cc_latActive (fst (fst (controls_frame plain_car (straight_frame 10) (controls_run plain_car (replicate 100 (straight_frame 10)) blinker_start))))"
proof -
  let ?s = "controls_run plain_car (replicate 100 (straight_frame 10)) blinker_start"
  obtain cc lg t where fr: "controls_frame plain_car (straight_frame 10) ?s = ((cc, lg), t)" by (metis surj_pair)
  have q: "keeps_blinker (ct_blinker_pause blinker_start) (straight_frame 10)"
    by (simp add: keeps_blinker_def blinker_holds_def) (simp add: straight_frame_def)
  have "cc_latActive cc \<longleftrightarrow> 2 \<le> real (2 * length (replicate 100 (straight_frame 10)) + 1) * DT_CTRL"
    by (rule blinker_pause_lasts_half [OF _ _ _ _ _ _ _ _ fr]) (use q in \<open>auto simp: blinker_start_def standing_def\<close>)
  then show ?thesis by (simp add: fr)
qed

lemma zero_lookahead: "\<forall>v\<in>set vs. v = 0 \<Longrightarrow> get_lookahead_value vs 0 = 0"
proof -
  assume z: "\<forall>v\<in>set vs. v = 0"
  then have f: "filter (\<lambda>v. py_sign v = py_sign 0) vs = vs" by (intro filter_True) auto
  show ?thesis
  proof (cases vs)
    case (Cons v us)
    have "min_by abs v (us @ [0]) \<in> set (v # us @ [0])" using min_by_in by fastforce
    with z Cons have "min_by abs v (us @ [0]) = 0" by auto
    with f Cons show ?thesis by (simp add: get_lookahead_value_def)
  qed (simp add: get_lookahead_value_def)
qed

lemma zero_interp_from: "\<forall>p\<in>set ps. snd p = 0 \<Longrightarrow> interp_from x (a, 0) ps = 0"
  by (induction ps arbitrary: a) auto

lemma zero_interp: "\<forall>p\<in>set ps. snd p = 0 \<Longrightarrow> np_interp x ps = 0"
  by (cases ps) (auto simp: zero_interp_from)

definition zero_plan :: controls_in where
  \<comment> \<open>the model plans to go straight on\<close>
  "zero_plan = straight_frame 20\<lparr>ci_model_orientation_x := replicate 33 0, ci_model_accel_y := replicate 33 0\<rparr>"

lemma zero_jerks: "\<forall>v\<in>set (get_predicted_lateral_jerk (replicate 33 0) ts). v = 0"
  by (auto simp: get_predicted_lateral_jerk_def py_diff_def set_zip)

lemma zero_calculations:
  assumes "te_model_valid x" "te_accel_y x = replicate 33 0"
  shows "te_lookahead_lateral_jerk (update_calculations k i 0 x) = 0"
proof -
  have "np_interp t (zip T_IDXS_MODEL (replicate 33 0)) = 0" for t by (rule zero_interp) (auto simp: set_zip)
  moreover have "get_lookahead_value (drop 5 (take n (get_predicted_lateral_jerk (replicate 33 0) ts))) 0 = 0" for n ts
    by (rule zero_lookahead) (use zero_jerks in \<open>meson in_set_dropD in_set_takeD\<close>)
  ultimately show ?thesis using assms by (simp add: update_calculations_def Let_def)
qed

lemma zero_plan_simps [simp]:
  "li_CS (ci_lat zero_plan) = cs_default\<lparr>vEgo := 20\<rparr>" "li_roll (ci_lat zero_plan) = 0" "li_angleOffsetDeg (ci_lat zero_plan) = 0"
  "ci_steerFaultTemporary zero_plan = False" "ci_steerFaultPermanent zero_plan = False" "may_steer k zero_plan"
  "ci_maneuver_curvature zero_plan = None" "ci_model_curvature zero_plan = 0" "ci_torque_params zero_plan = None"
  "ci_lateralDelay zero_plan = 2 / 10" "ci_override_params zero_plan = \<lparr>op_enabled = False, op_latAccelFactor = 2, op_friction = 0\<rparr>"
  "ci_model_orientation_x zero_plan = replicate 33 0" "ci_model_accel_y zero_plan = replicate 33 0"
  by (simp_all add: zero_plan_def may_steer_def) (simp_all add: straight_frame_def)

lemma zero_plan_active [simp]: "lat_active_now plain_car zero_plan (torque_start plain_car)"
  by (simp add: lat_active_now_def get_lat_active_simps blinker_pause_init_def blinker_pause_update_def standing_def)

lemma zero_plan_desired [simp]: "desired_now plain_car zero_plan (torque_start plain_car) = (0, False)"
  by (simp add: desired_now_def straight_on)

lemma feed_plan:
  assumes "ci_torque_params i = None"
  shows "te_accel_y (lt_ext (feed_torque k i d s)) = ci_model_accel_y i"
  using assms by (simp add: feed_torque_def Let_def update_lateral_lag_def update_model_v2_def)

lemma zero_plan_lookahead:
  "\<exists>x. ext_of (snd (lat_step plain_car zero_plan (torque_start plain_car))) = Some x \<and> te_lookahead_lateral_jerk x = 0"
proof -
  let ?s = "feed_torque plain_car zero_plan 0 (lat_torque_init (slip_lat False 0) True (kc_tune plain_car) False)"
  have "te_lookahead_lateral_jerk (update_calculations (slip_lat False 0) (vehicle_limits (ci_lat zero_plan)) 0 (lt_ext ?s\<lparr>te_shared := True\<rparr>)) = 0"
    by (rule zero_calculations) (simp_all add: feed_plan)
  then show ?thesis
    by (simp add: lat_step_def lac_before_def on_torque_def Let_def lat_control_update_def ext_of_def)
      (simp add: lat_torque_v0_update_def Let_def override_limits_def update_override_torque_params_def torque_output_def split_def ext_update_def
        feed_idle fresh_torque ext_input_def measurement_at_def)
qed

theorem friction_factor_never_returns_witness:
  "friction_factor (ct_LaC (controls_run plain_car (replicate 1000 (straight_frame 20)) (snd (controls_frame plain_car zero_plan (torque_start plain_car))))) = Some 1"
proof -
  obtain cc lg t where fr: "controls_frame plain_car zero_plan (torque_start plain_car) = ((cc, lg), t)" by (metis surj_pair)
  obtain x where x: "ext_of (ct_LaC t) = Some x" "te_lookahead_lateral_jerk x = 0"
    using zero_plan_lookahead frame_lat(7) [OF fr] by auto
  have "friction_factor (ct_LaC (controls_run plain_car (replicate 1000 (straight_frame 20)) t)) = Some 1 \<and>
      friction_factor (Lat_torque_v0 (lat_torque_init (kc_lat plain_car) True (kc_tune plain_car) False)) = Some (7 / 10)"
    by (rule friction_factor_never_returns [OF _ _ fr _ x]) (simp_all add: frame_lat(1) [OF fr])
  then show ?thesis by (simp only: fr snd_conv)
qed

end
