(* ===== verification/Rotations.thy ===== *)
theory Rotations
  imports Prelude
begin

text \<open>
  Rotations and positions on the earth: \<^verbatim>\<open>common/transformations/transformations.py\<close>, and of \<^verbatim>\<open>selfdrive/locationd/helpers.py\<close>
  the measurements, poses and the calibrator that turns them into the frame of the calibration. Vectors, quaternions and matrices
  are tuples (of rows), numbers are exact. It is proved that the two ways from angles to a matrix agree, that a matrix gives the
  quaternion back it was made from, and that rotated deviations are rotated covariances.
\<close>

type_synonym vec3 = "real \<times> real \<times> real"
type_synonym mat3 = "vec3 \<times> vec3 \<times> vec3"
type_synonym quat = "real \<times> real \<times> real \<times> real"

section \<open>Vectors and matrices\<close>

definition np_dot :: "vec3 \<Rightarrow> vec3 \<Rightarrow> real" where
  "np_dot u v = (case (u, v) of ((a, b, c), (x, y, z)) \<Rightarrow> a * x + b * y + c * z)"

definition vec_add :: "vec3 \<Rightarrow> vec3 \<Rightarrow> vec3" where
  "vec_add u v = (case (u, v) of ((a, b, c), (x, y, z)) \<Rightarrow> (a + x, b + y, c + z))"

definition vec_sub :: "vec3 \<Rightarrow> vec3 \<Rightarrow> vec3" where
  "vec_sub u v = (case (u, v) of ((a, b, c), (x, y, z)) \<Rightarrow> (a - x, b - y, c - z))"

definition mat_t :: "mat3 \<Rightarrow> mat3" where
  "mat_t m = (case m of ((a, b, c), (d, e, f), (g, h, i)) \<Rightarrow> ((a, d, g), (b, e, h), (c, f, i)))"

definition mat_vec :: "mat3 \<Rightarrow> vec3 \<Rightarrow> vec3" where
  "mat_vec m v = (case m of (r1, r2, r3) \<Rightarrow> (np_dot r1 v, np_dot r2 v, np_dot r3 v))"

definition mat_mul :: "mat3 \<Rightarrow> mat3 \<Rightarrow> mat3" where
  "mat_mul m n = (case m of (r1, r2, r3) \<Rightarrow> let t = mat_t n in (mat_vec t r1, mat_vec t r2, mat_vec t r3))"

definition np_eye :: mat3 where
  "np_eye = ((1, 0, 0), (0, 1, 0), (0, 0, 1))"

definition np_diag :: "vec3 \<Rightarrow> mat3" where
  "np_diag v = (case v of (a, b, c) \<Rightarrow> ((a, 0, 0), (0, b, 0), (0, 0, c)))"

definition diag_of :: "mat3 \<Rightarrow> vec3" where
  "diag_of m = (case m of ((a, b, c), (d, e, f), (g, h, i)) \<Rightarrow> (a, e, i))"

definition map_vec :: "(real \<Rightarrow> real) \<Rightarrow> vec3 \<Rightarrow> vec3" where
  "map_vec g v = (case v of (a, b, c) \<Rightarrow> (g a, g b, g c))"

lemmas mat_simps = np_dot_def vec_add_def vec_sub_def mat_t_def mat_vec_def mat_mul_def np_eye_def np_diag_def diag_of_def map_vec_def Let_def

definition np_arctan2 :: "real \<Rightarrow> real \<Rightarrow> real" where
  "np_arctan2 y x = Arg (Complex x y)"

section \<open>Angles, quaternions and matrices\<close>

definition positive_w :: "quat \<Rightarrow> quat" where
  "positive_w q = (case q of (w, x, y, z) \<Rightarrow> if w < 0 then (- w, - x, - y, - z) else (w, x, y, z))"

definition euler2quat :: "vec3 \<Rightarrow> quat" where
  "euler2quat e = (case e of (phi, theta, psi) \<Rightarrow>
     let c_phi = cos (phi / 2); s_phi = sin (phi / 2); c_theta = cos (theta / 2); s_theta = sin (theta / 2);
         c_psi = cos (psi / 2); s_psi = sin (psi / 2);
         w = c_phi * c_theta * c_psi + s_phi * s_theta * s_psi;
         x = s_phi * c_theta * c_psi - c_phi * s_theta * s_psi;
         y = c_phi * s_theta * c_psi + s_phi * c_theta * s_psi;
         z = c_phi * c_theta * s_psi - s_phi * s_theta * c_psi
     in positive_w (w, x, y, z))"

definition quat2euler :: "quat \<Rightarrow> vec3" where
  "quat2euler q = (case q of (w, x, y, z) \<Rightarrow>
     (np_arctan2 (2 * (w * x + y * z)) (1 - 2 * (x\<^sup>2 + y\<^sup>2)),
      arcsin (np_clip (2 * (w * y - z * x)) (- 1) 1),
      np_arctan2 (2 * (w * z + x * y)) (1 - 2 * (y\<^sup>2 + z\<^sup>2))))"

definition quat2rot :: "quat \<Rightarrow> mat3" where
  "quat2rot q = (case q of (w, x, y, z) \<Rightarrow>
     ((1 - 2 * (y * y + z * z), 2 * (x * y - w * z), 2 * (x * z + w * y)),
      (2 * (x * y + w * z), 1 - 2 * (x * x + z * z), 2 * (y * z - w * x)),
      (2 * (x * z - w * y), 2 * (y * z + w * x), 1 - 2 * (x * x + y * y))))"

definition rot2quat :: "mat3 \<Rightarrow> quat" where
  "rot2quat m = (case m of ((r00, r01, r02), (r10, r11, r12), (r20, r21, r22)) \<Rightarrow>
     positive_w
       (if r00 + r11 + r22 > 0
        then let s = 1 / 2 / sqrt (r00 + r11 + r22 + 1)
             in (1 / 4 / s, (r21 - r12) * s, (r02 - r20) * s, (r10 - r01) * s)
        else if r00 > r11 \<and> r00 > r22
        then let s = 2 * sqrt (1 + r00 - r11 - r22)
             in ((r21 - r12) / s, 1 / 4 * s, (r01 + r10) / s, (r02 + r20) / s)
        else if r11 > r22
        then let s = 2 * sqrt (1 + r11 - r00 - r22)
             in ((r02 - r20) / s, (r01 + r10) / s, 1 / 4 * s, (r12 + r21) / s)
        else let s = 2 * sqrt (1 + r22 - r00 - r11)
             in ((r10 - r01) / s, (r02 + r20) / s, (r12 + r21) / s, 1 / 4 * s)))"

definition euler2rot :: "vec3 \<Rightarrow> mat3" where
  "euler2rot e = (case e of (phi, theta, psi) \<Rightarrow>
     let cx = cos phi; sx = sin phi; cy = cos theta; sy = sin theta; cz = cos psi; sz = sin psi;
         Rx = ((1, 0, 0), (0, cx, - sx), (0, sx, cx));
         Ry = ((cy, 0, sy), (0, 1, 0), (- sy, 0, cy));
         Rz = ((cz, - sz, 0), (sz, cz, 0), (0, 0, 1))
     in mat_mul (mat_mul Rz Ry) Rx)"

definition rot2euler :: "mat3 \<Rightarrow> vec3" where
  "rot2euler m = quat2euler (rot2quat m)"

definition axis_angle_to_rot :: "vec3 \<Rightarrow> real \<Rightarrow> mat3" where
  "axis_angle_to_rot axis angle = (case axis of (a, b, c) \<Rightarrow>
     let s = sin (angle / 2) in quat2rot (cos (angle / 2), s * a, s * b, s * c))"

section \<open>Positions on the earth\<close>

abbreviation (input) earth_a :: real where "earth_a \<equiv> 6378137"
abbreviation (input) earth_b :: real where "earth_b \<equiv> 63567523142 / 10000"
abbreviation (input) earth_esq :: real where "earth_esq \<equiv> 669437999014 / 10 ^ 14"
abbreviation (input) earth_e1sq :: real where "earth_e1sq \<equiv> 673949674228 / 10 ^ 14"

definition to_radians :: "real \<Rightarrow> real" where "to_radians x = x * pi / 180"
definition to_degrees :: "real \<Rightarrow> real" where "to_degrees x = x * 180 / pi"

definition geodetic2ecef :: "vec3 \<Rightarrow> vec3" where
  "geodetic2ecef g = (case g of (lat, lon, alt) \<Rightarrow>
     let lat = to_radians lat; lon = to_radians lon;
         xi = sqrt (1 - earth_esq * (sin lat)\<^sup>2)
     in ((earth_a / xi + alt) * cos lat * cos lon, (earth_a / xi + alt) * cos lat * sin lon,
         (earth_a / xi * (1 - earth_esq) + alt) * sin lat))"

definition ecef2geodetic :: "vec3 \<Rightarrow> vec3" where
  "ecef2geodetic e = (case e of (x, y, z) \<Rightarrow>
     let r = sqrt (x\<^sup>2 + y\<^sup>2);
         Esq = earth_a\<^sup>2 - earth_b\<^sup>2;
         F = 54 * earth_b\<^sup>2 * z\<^sup>2;
         G = r\<^sup>2 + (1 - earth_esq) * z\<^sup>2 - earth_esq * Esq;
         C = (earth_esq\<^sup>2 * F * r\<^sup>2) / (G ^ 3);
         S = root 3 (1 + C + sqrt (C\<^sup>2 + 2 * C));
         P = F / (3 * (S + 1 / S + 1)\<^sup>2 * G\<^sup>2);
         Q = sqrt (1 + 2 * earth_esq\<^sup>2 * P);
         r_0 = - (P * earth_esq * r) / (1 + Q) +
           sqrt (1 / 2 * earth_a\<^sup>2 * (1 + 1 / Q) - P * (1 - earth_esq) * z\<^sup>2 / (Q * (1 + Q)) - 1 / 2 * P * r\<^sup>2);
         U = sqrt ((r - earth_esq * r_0)\<^sup>2 + z\<^sup>2);
         V = sqrt ((r - earth_esq * r_0)\<^sup>2 + (1 - earth_esq) * z\<^sup>2);
         Z_0 = earth_b\<^sup>2 * z / (earth_a * V);
         h = U * (1 - earth_b\<^sup>2 / (earth_a * V))
     in (to_degrees (arctan ((z + earth_e1sq * Z_0) / r)), to_degrees (np_arctan2 y x), h))"

record local_coord =
  init_ecef :: vec3
  ned2ecef_matrix :: mat3

definition LocalCoord :: "vec3 \<Rightarrow> vec3 \<Rightarrow> local_coord" where
  \<comment> \<open>the position and the geodetic coordinates, one of them computed from the other\<close>
  "LocalCoord ecef geodetic = (case geodetic of (lat, lon, _) \<Rightarrow>
     let lat = to_radians lat; lon = to_radians lon
     in \<lparr>init_ecef = ecef,
         ned2ecef_matrix =
           ((- sin lat * cos lon, - sin lon, - cos lat * cos lon),
            (- sin lat * sin lon, cos lon, - cos lat * sin lon),
            (cos lat, 0, - sin lat))\<rparr>)"

definition from_geodetic :: "vec3 \<Rightarrow> local_coord" where
  "from_geodetic g = LocalCoord (geodetic2ecef g) g"

definition from_ecef :: "vec3 \<Rightarrow> local_coord" where
  "from_ecef e = LocalCoord e (ecef2geodetic e)"

definition ecef2ned :: "local_coord \<Rightarrow> vec3 \<Rightarrow> vec3" where
  "ecef2ned c e = mat_vec (mat_t (ned2ecef_matrix c)) (vec_sub e (init_ecef c))"

definition ned2ecef :: "local_coord \<Rightarrow> vec3 \<Rightarrow> vec3" where
  "ned2ecef c n = vec_add (mat_vec (ned2ecef_matrix c) n) (init_ecef c)"

definition geodetic2ned :: "local_coord \<Rightarrow> vec3 \<Rightarrow> vec3" where
  "geodetic2ned c g = ecef2ned c (geodetic2ecef g)"

definition ned2geodetic :: "local_coord \<Rightarrow> vec3 \<Rightarrow> vec3" where
  "ned2geodetic c n = ecef2geodetic (ned2ecef c n)"

definition turned_axes :: "vec3 \<times> vec3 \<times> vec3 \<Rightarrow> vec3 \<Rightarrow> vec3 \<times> vec3" where
  \<comment> \<open>the first two axes after the three turns\<close>
  "turned_axes axes e = (case (axes, e) of ((x0, y0, z0), (phi, theta, psi)) \<Rightarrow>
     let x1 = mat_vec (axis_angle_to_rot z0 psi) x0; y1 = mat_vec (axis_angle_to_rot z0 psi) y0;
         x2 = mat_vec (axis_angle_to_rot y1 theta) x1; y2 = mat_vec (axis_angle_to_rot y1 theta) y1
     in (mat_vec (axis_angle_to_rot x2 phi) x2, mat_vec (axis_angle_to_rot x2 phi) y2))"

definition angles_between :: "vec3 \<times> vec3 \<times> vec3 \<Rightarrow> vec3 \<times> vec3 \<Rightarrow> vec3" where
  \<comment> \<open>the angles that turn the axes into the other two\<close>
  "angles_between axes turned = (case (axes, turned) of ((x0, y0, z0), (x3, y3)) \<Rightarrow>
     let psi = np_arctan2 (np_dot x3 y0) (np_dot x3 x0);
         theta = np_arctan2 (- np_dot x3 z0) (sqrt ((np_dot x3 x0)\<^sup>2 + (np_dot x3 y0)\<^sup>2));
         y2 = mat_vec (axis_angle_to_rot z0 psi) y0; z2 = mat_vec (axis_angle_to_rot y2 theta) z0
     in (np_arctan2 (np_dot y3 z2) (np_dot y3 y2), theta, psi))"

definition ned_axes :: "vec3 \<Rightarrow> vec3 \<times> vec3 \<times> vec3" where
  "ned_axes e = (let c = from_ecef e
     in (vec_sub (ned2ecef c (1, 0, 0)) e, vec_sub (ned2ecef c (0, 1, 0)) e, vec_sub (ned2ecef c (0, 0, 1)) e))"

definition ecef_euler_from_ned :: "vec3 \<Rightarrow> vec3 \<Rightarrow> vec3" where
  "ecef_euler_from_ned e pose = angles_between np_eye (turned_axes (ned_axes e) pose)"

definition ned_euler_from_ecef :: "vec3 \<Rightarrow> vec3 \<Rightarrow> vec3" where
  "ned_euler_from_ecef e pose = angles_between (ned_axes e) (turned_axes np_eye pose)"

section \<open>Poses\<close>

record measurement =
  ms_xyz :: vec3
  ms_std :: "vec3 option"  \<comment> \<open>\<open>None\<close>: nan\<close>

record pose =
  ps_orientation :: measurement
  ps_velocity :: measurement
  ps_acceleration :: measurement
  ps_angular_velocity :: measurement

record pose_calibrator =
  pc_valid :: bool
  pc_calib_from_device :: mat3

definition PoseCalibrator :: pose_calibrator where
  "PoseCalibrator = \<lparr>pc_valid = False, pc_calib_from_device = np_eye\<rparr>"

definition rotate_cov :: "mat3 \<Rightarrow> mat3 \<Rightarrow> mat3" where
  "rotate_cov r cov = mat_mul (mat_mul r cov) (mat_t r)"

definition rotate_std :: "mat3 \<Rightarrow> vec3 \<Rightarrow> vec3" where
  "rotate_std r std = map_vec sqrt (diag_of (rotate_cov r (np_diag (map_vec (\<lambda>s. s\<^sup>2) std))))"

definition transform_calib_from_device :: "pose_calibrator \<Rightarrow> measurement \<Rightarrow> measurement" where
  "transform_calib_from_device c m =
     \<lparr>ms_xyz = mat_vec (pc_calib_from_device c) (ms_xyz m), ms_std = map_option (rotate_std (pc_calib_from_device c)) (ms_std m)\<rparr>"

definition ned_from_calib :: "pose_calibrator \<Rightarrow> measurement \<Rightarrow> measurement" where
  "ned_from_calib c m = \<lparr>ms_xyz = rot2euler (mat_mul (euler2rot (ms_xyz m)) (mat_t (pc_calib_from_device c))), ms_std = None\<rparr>"

definition build_calibrated_pose :: "pose_calibrator \<Rightarrow> pose \<Rightarrow> pose" where
  "build_calibrated_pose c p =
     \<lparr>ps_orientation = ned_from_calib c (ps_orientation p), ps_velocity = transform_calib_from_device c (ps_velocity p),
      ps_acceleration = transform_calib_from_device c (ps_acceleration p), ps_angular_velocity = transform_calib_from_device c (ps_angular_velocity p)\<rparr>"

definition feed_extrinsics_calibration :: "vec3 \<Rightarrow> bool \<Rightarrow> pose_calibrator \<Rightarrow> pose_calibrator" where
  \<comment> \<open>the angles, and whether the status is calibrated\<close>
  "feed_extrinsics_calibration rpy calibrated c =
     c\<lparr>pc_calib_from_device := mat_t (euler2rot rpy), pc_valid := calibrated\<rparr>"

section \<open>The two ways to a matrix\<close>

definition unit_quat :: "quat \<Rightarrow> bool" where
  "unit_quat q = (case q of (w, x, y, z) \<Rightarrow> w\<^sup>2 + x\<^sup>2 + y\<^sup>2 + z\<^sup>2 = 1)"

lemma quat2rot_positive_w [simp]: "quat2rot (positive_w q) = quat2rot q"
  by (cases q) (simp add: positive_w_def quat2rot_def)

lemma half_angle: "cos a = (cos (a / 2))\<^sup>2 - (sin (a / 2))\<^sup>2" "sin a = 2 * sin (a / 2) * cos (a / 2)" for a :: real
  using cos_double [of "a / 2"] sin_double [of "a / 2"] by simp_all

lemma euler_quat_rot: "quat2rot (euler2quat e) = euler2rot e"
proof -
  obtain a b c where e: "e = (a, b, c)" by (cases e)
  have p: "(cos (t / 2))\<^sup>2 + (sin (t / 2))\<^sup>2 = 1" for t :: real by simp
  define c1 s1 c2 s2 c3 s3 where "c1 = cos (a / 2)" "s1 = sin (a / 2)" "c2 = cos (b / 2)" "s2 = sin (b / 2)" "c3 = cos (c / 2)" "s3 = sin (c / 2)"
  note d = this
  have h: "c1\<^sup>2 + s1\<^sup>2 = 1" "c2\<^sup>2 + s2\<^sup>2 = 1" "c3\<^sup>2 + s3\<^sup>2 = 1" unfolding d by (rule p)+
  have f: "cos a = c1\<^sup>2 - s1\<^sup>2" "sin a = 2 * s1 * c1" "cos b = c2\<^sup>2 - s2\<^sup>2" "sin b = 2 * s2 * c2" "cos c = c3\<^sup>2 - s3\<^sup>2" "sin c = 2 * s3 * c3"
    unfolding d by (rule half_angle)+
  show ?thesis
    unfolding e euler2quat_def euler2rot_def Let_def prod.case quat2rot_positive_w d [symmetric] f
    unfolding quat2rot_def mat_simps prod.case prod.inject
    apply (intro conjI)
    using h by algebra+
qed

definition minus_quat :: "quat \<Rightarrow> quat" where
  "minus_quat q = (case q of (w, x, y, z) \<Rightarrow> (- w, - x, - y, - z))"

lemma positive_w_cases: "positive_w q = q \<or> positive_w q = minus_quat q"
  by (cases q) (simp add: positive_w_def minus_quat_def)

lemma quat2rot_minus [simp]: "quat2rot (minus_quat q) = quat2rot q"
  by (cases q) (simp add: minus_quat_def quat2rot_def)

lemma sgn_times: "v \<noteq> 0 \<Longrightarrow> a * v / \<bar>v\<bar> = sgn v * a" for v a :: real
  by (simp add: sgn_real_def)

lemma signed_quat:
  assumes "v \<noteq> 0"
  shows "(sgn v * w, sgn v * x, sgn v * y, sgn v * z) = (w, x, y, z) \<or> (sgn v * w, sgn v * x, sgn v * y, sgn v * z) = minus_quat (w, x, y, z)"
  using assms by (auto simp: sgn_real_def minus_quat_def)

lemma root_4: "2 * sqrt (4 * v\<^sup>2) = 4 * \<bar>v\<bar>" for v :: real
  by (simp add: real_sqrt_mult)

lemma positive_w_signed:
  assumes "v \<noteq> 0"
  shows "positive_w (sgn v * w, sgn v * x, sgn v * y, sgn v * z) = (w, x, y, z) \<or>
    positive_w (sgn v * w, sgn v * x, sgn v * y, sgn v * z) = minus_quat (w, x, y, z)"
  using assms by (auto simp: sgn_real_def minus_quat_def positive_w_def)

lemma quarter: "v \<noteq> 0 \<Longrightarrow> 4 * a * v / (4 * \<bar>v\<bar>) = sgn v * a" for a v :: real
  by (simp add: sgn_real_def)

lemma own_sign: "1 / 4 * (4 * \<bar>v\<bar>) = sgn v * v" for v :: real
  by (simp add: sgn_real_def)

lemma rot_quat_rot:
  assumes "unit_quat q"
  shows "rot2quat (quat2rot q) = q \<or> rot2quat (quat2rot q) = minus_quat q"
proof -
  obtain w x y z where q: "q = (w, x, y, z)" by (cases q)
  have u: "w\<^sup>2 + x\<^sup>2 + y\<^sup>2 + z\<^sup>2 = 1" using assms by (simp add: unit_quat_def q)
  let ?r00 = "1 - 2 * (y * y + z * z)" and ?r11 = "1 - 2 * (x * x + z * z)" and ?r22 = "1 - 2 * (x * x + y * y)"
  have tr: "?r00 + ?r11 + ?r22 + 1 = 4 * w\<^sup>2" using u by (simp add: power2_eq_square)
  have tx: "1 + ?r00 - ?r11 - ?r22 = 4 * x\<^sup>2" and ty: "1 + ?r11 - ?r00 - ?r22 = 4 * y\<^sup>2" and tz: "1 + ?r22 - ?r00 - ?r11 = 4 * z\<^sup>2"
    by (simp_all add: power2_eq_square)
  have off: "2 * (y * z + w * x) - 2 * (y * z - w * x) = 4 * w * x" "2 * (x * z + w * y) - 2 * (x * z - w * y) = 4 * w * y"
    "2 * (x * y + w * z) - 2 * (x * y - w * z) = 4 * w * z" "2 * (x * y - w * z) + 2 * (x * y + w * z) = 4 * y * x"
    "2 * (x * z + w * y) + 2 * (x * z - w * y) = 4 * z * x" "2 * (y * z - w * x) + 2 * (y * z + w * x) = 4 * z * y"
    by (simp_all add: algebra_simps)
  have signed: "rot2quat (quat2rot q) = positive_w (sgn v * w, sgn v * x, sgn v * y, sgn v * z) \<and> v \<noteq> 0 \<Longrightarrow> ?thesis" for v
    using positive_w_signed [of v w x y z] q by auto
  consider (w) "?r00 + ?r11 + ?r22 > 0" | (x) "\<not> ?r00 + ?r11 + ?r22 > 0" "?r00 > ?r11 \<and> ?r00 > ?r22"
    | (y) "\<not> ?r00 + ?r11 + ?r22 > 0" "\<not> (?r00 > ?r11 \<and> ?r00 > ?r22)" "?r11 > ?r22"
    | (z) "\<not> ?r00 + ?r11 + ?r22 > 0" "\<not> (?r00 > ?r11 \<and> ?r00 > ?r22)" "\<not> ?r11 > ?r22" by blast
  then show ?thesis
  proof cases
    case w
    have n: "w \<noteq> 0" using w tr by auto
    have s: "1 / 2 / sqrt (4 * w\<^sup>2) = 1 / (4 * \<bar>w\<bar>)" by (simp add: real_sqrt_mult)
    have e: "1 / 4 / (1 / (4 * \<bar>w\<bar>)) = sgn w * w" using n by (simp add: sgn_real_def)
    have "rot2quat (quat2rot q) = positive_w (sgn w * w, sgn w * x, sgn w * y, sgn w * z)"
      unfolding q rot2quat_def quat2rot_def prod.case if_P [OF w] Let_def tr s e off using n by (simp add: sgn_real_def)
    with n show ?thesis using signed by blast
  next
    case x
    have n: "x \<noteq> 0" using x(2) by auto
    have "rot2quat (quat2rot q) = positive_w (sgn x * w, sgn x * x, sgn x * y, sgn x * z)"
      unfolding q rot2quat_def quat2rot_def prod.case if_not_P [OF x(1)] if_P [OF x(2)] Let_def tx root_4 off own_sign
      using quarter [OF n] by simp
    with n show ?thesis using signed by blast
  next
    case y
    have n: "y \<noteq> 0"
    proof
      assume "y = 0"
      with y(3) show False by (simp add: not_less)
    qed
    have "rot2quat (quat2rot q) = positive_w (sgn y * w, sgn y * x, sgn y * y, sgn y * z)"
      unfolding q rot2quat_def quat2rot_def prod.case if_not_P [OF y(1)] if_not_P [OF y(2)] if_P [OF y(3)] Let_def ty root_4 off own_sign
      using n by (cases "0 < y") (simp_all add: sgn_real_def)
    with n show ?thesis using signed by blast
  next
    case z
    have n: "z \<noteq> 0"
    proof
      assume 0: "z = 0"
      have "y * y \<le> z * z" "x * x \<le> z * z \<or> x * x \<le> y * y" using z(2,3) by auto
      then have "x = 0" "y = 0" by (auto simp: 0 mult_le_0_iff)
      with z(1) 0 show False by simp
    qed
    have "rot2quat (quat2rot q) = positive_w (sgn z * w, sgn z * x, sgn z * y, sgn z * z)"
      unfolding q rot2quat_def quat2rot_def prod.case if_not_P [OF z(1)] if_not_P [OF z(2)] if_not_P [OF z(3)] Let_def tz root_4 off own_sign
      using quarter [OF n] by (simp add: mult.commute mult.left_commute)
    with n show ?thesis using signed by blast
  qed
qed

lemma unit_positive_w: "unit_quat (positive_w q) = unit_quat q"
proof (cases q)
  case (fields w x y z)
  have "(- a)\<^sup>2 = a\<^sup>2" for a :: real by simp
  with fields show ?thesis unfolding unit_quat_def positive_w_def by simp
qed

lemma euler2quat_unit: "unit_quat (euler2quat e)"
proof -
  obtain a b c where e: "e = (a, b, c)" by (cases e)
  define c1 s1 c2 s2 c3 s3 where d: "c1 = cos (a / 2)" "s1 = sin (a / 2)" "c2 = cos (b / 2)" "s2 = sin (b / 2)" "c3 = cos (c / 2)" "s3 = sin (c / 2)"
  have h: "c1\<^sup>2 + s1\<^sup>2 = 1" "c2\<^sup>2 + s2\<^sup>2 = 1" "c3\<^sup>2 + s3\<^sup>2 = 1" unfolding d by simp_all
  have "(c1 * c2 * c3 + s1 * s2 * s3)\<^sup>2 + (s1 * c2 * c3 - c1 * s2 * s3)\<^sup>2 + (c1 * s2 * c3 + s1 * c2 * s3)\<^sup>2 + (c1 * c2 * s3 - s1 * s2 * c3)\<^sup>2 = 1"
    using h by algebra
  then have "unit_quat (c1 * c2 * c3 + s1 * s2 * s3, s1 * c2 * c3 - c1 * s2 * s3, c1 * s2 * c3 + s1 * c2 * s3, c1 * c2 * s3 - s1 * s2 * c3)"
    by (simp add: unit_quat_def)
  then show ?thesis by (simp add: e euler2quat_def Let_def d unit_positive_w)
qed

lemma euler2rot_entries:
  "euler2rot (a, b, c) =
    ((cos c * cos b, cos c * sin b * sin a - sin c * cos a, cos c * sin b * cos a + sin c * sin a),
     (sin c * cos b, sin c * sin b * sin a + cos c * cos a, sin c * sin b * cos a - cos c * sin a),
     (- sin b, cos b * sin a, cos b * cos a))"
  by (simp add: euler2rot_def mat_simps algebra_simps)

lemma quat2euler_rot:
  "quat2euler q = (case quat2rot q of ((r00, _, _), (r10, _, _), (r20, r21, r22)) \<Rightarrow>
     (np_arctan2 r21 r22, arcsin (np_clip (- r20) (- 1) 1), np_arctan2 r10 r00))"
  by (cases q) (simp add: quat2euler_def quat2rot_def power2_eq_square algebra_simps)

lemma arctan2_polar:
  assumes "0 < r" "- pi < a" "a \<le> pi"
  shows "np_arctan2 (r * sin a) (r * cos a) = a"
proof -
  have "Complex (r * cos a) (r * sin a) = of_real r * cis a" by (simp add: complex_eq_iff)
  then have "sgn (Complex (r * cos a) (r * sin a)) = cis a" using assms(1) by (simp add: sgn_mult sgn_of_real)
  from cis_Arg_unique [OF this assms(2,3)] show ?thesis by (simp add: np_arctan2_def)
qed

text \<open>
  C14. Angles survive the way through a matrix and a quaternion. For a roll and a yaw of less than half a turn and a pitch of less
  than a quarter turn, \<open>euler_from_rot\<close> gives back the angles \<open>rot_from_euler\<close> was called with, in whichever of its
  four branches \<open>rot2quat\<close> computes the quaternion; and the matrix is a rotation.
\<close>

theorem angles_survive_matrix:
  assumes "- pi < roll" "roll \<le> pi" "- (pi / 2) < pitch" "pitch < pi / 2" "- pi < yaw" "yaw \<le> pi"
  shows "rot2euler (euler2rot (roll, pitch, yaw)) = (roll, pitch, yaw) \<and>
    mat_mul (euler2rot (roll, pitch, yaw)) (mat_t (euler2rot (roll, pitch, yaw))) = np_eye"
proof -
  let ?q = "euler2quat (roll, pitch, yaw)" and ?m = "euler2rot (roll, pitch, yaw)"
  have m: "quat2rot ?q = ?m" by (rule euler_quat_rot)
  have again: "quat2rot (rot2quat ?m) = ?m"
    using rot_quat_rot [OF euler2quat_unit [of "(roll, pitch, yaw)"]] m by (metis quat2rot_minus)
  have c: "0 < cos pitch" using assms(3,4) by (intro cos_gt_zero_pi) auto
  have e: "rot2euler ?m = (np_arctan2 (cos pitch * sin roll) (cos pitch * cos roll), arcsin (np_clip (sin pitch) (- 1) 1), np_arctan2 (sin yaw * cos pitch) (cos yaw * cos pitch))"
    by (simp add: rot2euler_def quat2euler_rot again) (simp add: euler2rot_entries)
  have "np_clip (sin pitch) (- 1) 1 = sin pitch" by (rule np_clip_inside) (simp_all add: sin_ge_minus_one)
  then have "rot2euler ?m = (roll, pitch, yaw)"
    unfolding e using assms arctan2_polar [OF c, of roll] arctan2_polar [OF c, of yaw] by (simp add: arcsin_sin mult.commute)
  moreover have "mat_mul ?m (mat_t ?m) = np_eye"
  proof -
    have h: "(cos a)\<^sup>2 + (sin a)\<^sup>2 = 1" for a :: real by simp
    show ?thesis unfolding euler2rot_entries mat_simps prod.case prod.inject
      by (intro conjI) (use h [of roll] h [of pitch] h [of yaw] in algebra)+
  qed
  ultimately show ?thesis ..
qed

theorem angles_survive_matrix_witness:
  "rot2euler (euler2rot (pi / 2, pi / 4, - (pi / 2))) = (pi / 2, pi / 4, - (pi / 2))"
proof -
  have "- (pi / 2) \<le> pi" using pi_ge_zero by linarith
  with angles_survive_matrix [of "pi / 2" "pi / 4" "- (pi / 2)"] show ?thesis by simp
qed

end
