(* ===== verification/Calibration.thy ===== *)
theory Calibration
  imports Rotations PyFloat StatLive
begin

text \<open>
  The calibration of the camera's angles: \<^verbatim>\<open>selfdrive/locationd/calibrationd.py\<close>. Observed angles of straight and fast driving are
  averaged in blocks of a hundred frames, fifty of them in a ring; their mean is the calibration, and a spread that is too large
  starts over from the last block. The values of a message saved by an earlier run may be no numbers, those of the camera are
  finite. A saved message has three angles and at most fifty blocks, as the program writes it.
\<close>

section \<open>Limits\<close>

abbreviation (input) MIN_SPEED_FILTER :: real where "MIN_SPEED_FILTER \<equiv> 15 * MPH_TO_MS"
definition MAX_VEL_ANGLE_STD :: real where "MAX_VEL_ANGLE_STD = to_radians (1 / 4)"
definition MAX_YAW_RATE_FILTER :: real where "MAX_YAW_RATE_FILTER = to_radians 2"
definition MAX_HEIGHT_STD :: real where "MAX_HEIGHT_STD = exp (- 35 / 10)"
abbreviation (input) SMOOTH_CYCLES :: real where "SMOOTH_CYCLES \<equiv> 10"
abbreviation (input) BLOCK_SIZE :: nat where "BLOCK_SIZE \<equiv> 100"
abbreviation (input) INPUTS_NEEDED :: nat where "INPUTS_NEEDED \<equiv> 5"
abbreviation (input) INPUTS_WANTED :: nat where "INPUTS_WANTED \<equiv> 50"
definition MAX_ALLOWED_YAW_SPREAD :: real where "MAX_ALLOWED_YAW_SPREAD = to_radians 2"
definition MAX_ALLOWED_PITCH_SPREAD :: real where "MAX_ALLOWED_PITCH_SPREAD = to_radians 4"
abbreviation (input) RPY_INIT :: vec3 where "RPY_INIT \<equiv> (0, 0, 0)"
abbreviation (input) WIDE_FROM_DEVICE_EULER_INIT :: vec3 where "WIDE_FROM_DEVICE_EULER_INIT \<equiv> (0, 0, 0)"
abbreviation (input) HEIGHT_INIT :: real where "HEIGHT_INIT \<equiv> 122 / 100"

definition PITCH_LIMITS :: "bool \<Rightarrow> real \<times> real" where
  \<comment> \<open>whether the device is a \<open>mici\<close>\<close>
  "PITCH_LIMITS mici = (if mici then (- 143101 / 10 ^ 6, 22235988 / 10 ^ 8) else (- 9074112085129739 / 10 ^ 17, 17 / 100))"

definition YAW_LIMITS :: "real \<times> real" where
  "YAW_LIMITS = (- 6912048084718224 / 10 ^ 17, 6912048084718235 / 10 ^ 17)"

definition is_calibration_valid :: "bool \<Rightarrow> vec3 \<Rightarrow> bool" where
  "is_calibration_valid mici rpy = (case rpy of (_, pitch, yaw) \<Rightarrow>
     fst (PITCH_LIMITS mici) < pitch \<and> pitch < snd (PITCH_LIMITS mici) \<and> fst YAW_LIMITS < yaw \<and> yaw < snd YAW_LIMITS)"

definition sanity_clip :: "bool \<Rightarrow> vec3 \<Rightarrow> vec3" where
  "sanity_clip mici rpy = (case rpy of (roll, pitch, yaw) \<Rightarrow>
     (roll, np_clip pitch (fst (PITCH_LIMITS mici) - 5 / 1000) (snd (PITCH_LIMITS mici) + 5 / 1000),
            np_clip yaw (fst YAW_LIMITS - 5 / 1000) (snd YAW_LIMITS + 5 / 1000)))"

definition vec_scale :: "real \<Rightarrow> vec3 \<Rightarrow> vec3" where
  "vec_scale a = map_vec (\<lambda>x. a * x)"

definition moving_avg :: "vec3 \<Rightarrow> vec3 \<Rightarrow> nat \<Rightarrow> vec3" where
  \<comment> \<open>\<open>moving_avg_with_linear_decay\<close> with the size of a block\<close>
  "moving_avg prev new i =
     map_vec (\<lambda>x. x / real BLOCK_SIZE) (vec_add (vec_scale (real i) prev) (vec_scale (real BLOCK_SIZE - real i) new))"

section \<open>The calibrator\<close>

datatype cal_status = Cal_uncalibrated | Cal_calibrated | Cal_invalid | Cal_recalibrating

record calibrator =
  cal_rpy :: vec3
  cal_height :: real
  cal_wide :: vec3
  cal_valid_blocks :: nat
  cal_rpys :: "vec3 list"
  cal_wides :: "vec3 list"
  cal_heights :: "real list"
  cal_idx :: nat
  cal_block_idx :: nat
  cal_v_ego :: real
  cal_old_rpy :: vec3
  cal_old_weight :: real
  cal_state :: cal_status
  cal_spread :: vec3

definition cal_reset :: "vec3 \<Rightarrow> nat \<Rightarrow> vec3 \<Rightarrow> real \<Rightarrow> vec3 option \<Rightarrow> calibrator \<Rightarrow> calibrator" where
  \<comment> \<open>\<open>reset\<close> with finite arguments\<close>
  "cal_reset rpy valid wide height smooth_from c =
     c\<lparr>cal_rpy := rpy, cal_height := height, cal_wide := wide, cal_valid_blocks := valid,
       cal_rpys := replicate INPUTS_WANTED rpy, cal_wides := replicate INPUTS_WANTED wide, cal_heights := replicate INPUTS_WANTED height,
       cal_idx := 0, cal_block_idx := 0, cal_v_ego := 0,
       cal_old_rpy := (case smooth_from of None \<Rightarrow> RPY_INIT | Some r \<Rightarrow> r),
       cal_old_weight := (case smooth_from of None \<Rightarrow> 0 | Some r \<Rightarrow> 1)\<rparr>"

definition get_valid_idxs :: "calibrator \<Rightarrow> nat list" where
  "get_valid_idxs c = [0..<cal_block_idx c] @ [min (cal_valid_blocks c) (cal_block_idx c + 1)..<cal_valid_blocks c]"

definition mean_vec :: "vec3 list \<Rightarrow> vec3" where
  "mean_vec vs = (mean_of (map fst vs), mean_of (map (\<lambda>v. fst (snd v)) vs), mean_of (map (\<lambda>v. snd (snd v)) vs))"

definition spread_of :: "real list \<Rightarrow> real" where
  "spread_of xs = \<bar>Max (set xs) - Min (set xs)\<bar>"

definition take_means :: "calibrator \<Rightarrow> calibrator" where
  "take_means c =
     (let idxs = get_valid_idxs c
      in if idxs = [] then c\<lparr>cal_spread := (0, 0, 0)\<rparr>
         else let rpys = map (\<lambda>i. cal_rpys c ! i) idxs
              in c\<lparr>cal_wide := mean_vec (map (\<lambda>i. cal_wides c ! i) idxs), cal_height := mean_of (map (\<lambda>i. cal_heights c ! i) idxs),
                   cal_rpy := mean_vec rpys,
                   cal_spread := (spread_of (map fst rpys), spread_of (map (\<lambda>v. fst (snd v)) rpys), spread_of (map (\<lambda>v. snd (snd v)) rpys))\<rparr>)"

definition judge :: "bool \<Rightarrow> calibrator \<Rightarrow> calibrator" where
  "judge mici c =
     c\<lparr>cal_state :=
        if cal_valid_blocks c < INPUTS_NEEDED then (if cal_state c = Cal_recalibrating then Cal_recalibrating else Cal_uncalibrated)
        else if is_calibration_valid mici (cal_rpy c) then Cal_calibrated else Cal_invalid\<rparr>"

definition last_block :: "calibrator \<Rightarrow> vec3" where
  \<comment> \<open>\<open>rpys[block_idx - 1]\<close>\<close>
  "last_block c = cal_rpys c ! (if cal_block_idx c = 0 then length (cal_rpys c) - 1 else cal_block_idx c - 1)"

definition spread_too_high :: "calibrator \<Rightarrow> bool" where
  "spread_too_high c = (case cal_spread c of (_, p, y) \<Rightarrow> p > MAX_ALLOWED_PITCH_SPREAD \<or> y > MAX_ALLOWED_YAW_SPREAD)"

definition start_over :: "calibrator \<Rightarrow> calibrator" where
  "start_over c =
     (if spread_too_high c \<and> cal_state c = Cal_calibrated
      then (cal_reset (last_block c) 1 WIDE_FROM_DEVICE_EULER_INIT HEIGHT_INIT (Some (cal_rpy c)) c)\<lparr>cal_state := Cal_recalibrating\<rparr>
      else c)"

definition get_smooth_rpy :: "calibrator \<Rightarrow> vec3" where
  "get_smooth_rpy c =
     (if cal_old_weight c > 0 then vec_add (vec_scale (cal_old_weight c) (cal_old_rpy c)) (vec_scale (1 - cal_old_weight c) (cal_rpy c))
      else cal_rpy c)"

record calibration_msg =
  cm_validBlocks :: nat
  cm_calStatus :: cal_status
  cm_calPerc :: nat
  cm_rpyCalib :: vec3
  cm_rpyCalibSpread :: vec3
  cm_wideFromDeviceEuler :: vec3
  cm_height :: real

definition cal_get_msg :: "bool \<Rightarrow> calibrator \<Rightarrow> calibration_msg" where
  \<comment> \<open>\<open>not_car\<close>\<close>
  "cal_get_msg not_car c =
     (let m = \<lparr>cm_validBlocks = cal_valid_blocks c, cm_calStatus = cal_state c,
               cm_calPerc = min (100 * (cal_valid_blocks c * BLOCK_SIZE + cal_idx c) div (INPUTS_NEEDED * BLOCK_SIZE)) 100,
               cm_rpyCalib = get_smooth_rpy c, cm_rpyCalibSpread = cal_spread c, cm_wideFromDeviceEuler = cal_wide c, cm_height = cal_height c\<rparr>
      in if not_car
         then m\<lparr>cm_validBlocks := INPUTS_NEEDED, cm_calStatus := Cal_calibrated, cm_calPerc := 100, cm_rpyCalib := (0, 0, 0)\<rparr>
         else m)"

definition cal_update_status :: "bool \<Rightarrow> bool \<Rightarrow> calibrator \<Rightarrow> calibrator \<times> calibration_msg option" where
  \<comment> \<open>also what is written to \<open>CalibrationParams\<close>\<close>
  "cal_update_status mici not_car c =
     (let c = start_over (judge mici (take_means c))
      in (c, if cal_idx c = 0 \<and> cal_block_idx c mod (INPUTS_WANTED div 5) = 5 then Some (cal_get_msg not_car c) else None))"

record saved_calibration =
  sv_rpy :: "pyfloat \<times> pyfloat \<times> pyfloat"
  sv_validBlocks :: int
  sv_wide :: "pyfloat list"
  sv_height :: "pyfloat list"

fun real_of_py :: "pyfloat \<Rightarrow> real option" where
  "real_of_py (Fin x) = Some x"
| "real_of_py _ = None"

definition finite_vec :: "pyfloat list \<Rightarrow> vec3 option" where
  \<comment> \<open>three finite numbers\<close>
  "finite_vec xs = (case those (map real_of_py xs) of Some [a, b, c] \<Rightarrow> Some (a, b, c) | _ \<Rightarrow> None)"

definition finite_one :: "pyfloat list \<Rightarrow> real option" where
  "finite_one xs = (case those (map real_of_py xs) of Some [a] \<Rightarrow> Some a | _ \<Rightarrow> None)"

definition calibrator_init :: "bool \<Rightarrow> saved_calibration option \<Rightarrow> calibrator \<times> calibration_msg option" where
  \<comment> \<open>\<open>not_car\<close> is set after this\<close>
  "calibrator_init mici saved =
     (let c0 = \<lparr>cal_rpy = RPY_INIT, cal_height = HEIGHT_INIT, cal_wide = WIDE_FROM_DEVICE_EULER_INIT, cal_valid_blocks = 0, cal_rpys = [],
                cal_wides = [], cal_heights = [], cal_idx = 0, cal_block_idx = 0, cal_v_ego = 0, cal_old_rpy = RPY_INIT, cal_old_weight = 0,
                cal_state = Cal_uncalibrated, cal_spread = (0, 0, 0)\<rparr>
      in cal_update_status mici False
           (case saved of
              None \<Rightarrow> cal_reset RPY_INIT 0 WIDE_FROM_DEVICE_EULER_INIT HEIGHT_INIT None c0
            | Some s \<Rightarrow>
                cal_reset (case sv_rpy s of (a, b, c) \<Rightarrow> case finite_vec [a, b, c] of None \<Rightarrow> RPY_INIT | Some v \<Rightarrow> v)
                  (if sv_validBlocks s < 0 then 0 else nat (sv_validBlocks s))
                  (case finite_vec (sv_wide s) of None \<Rightarrow> WIDE_FROM_DEVICE_EULER_INIT | Some v \<Rightarrow> v)
                  (case finite_one (sv_height s) of None \<Rightarrow> HEIGHT_INIT | Some h \<Rightarrow> h) None c0))"

section \<open>Observations\<close>

record cam_odom =
  od_trans :: vec3
  od_rot :: vec3
  od_wide :: "real list"
  od_trans_std :: vec3
  od_road_trans :: "real list"
  od_road_trans_std :: "real list"

definition straight_and_fast :: "cam_odom \<Rightarrow> calibrator \<Rightarrow> bool" where
  "straight_and_fast od c \<longleftrightarrow> cal_v_ego c > MIN_SPEED_FILTER \<and> fst (od_trans od) > MIN_SPEED_FILTER \<and> \<bar>snd (snd (od_rot od))\<bar> < MAX_YAW_RATE_FILTER"

definition certain :: "cam_odom \<Rightarrow> bool" where
  "certain od \<longleftrightarrow> np_arctan2 (fst (snd (od_trans_std od))) (fst (od_trans od)) < MAX_VEL_ANGLE_STD \<and>
     (case od_road_trans_std od of [_, _, h] \<Rightarrow> h < MAX_HEIGHT_STD | _ \<Rightarrow> True)"

definition observed_rpy :: "bool \<Rightarrow> cam_odom \<Rightarrow> calibrator \<Rightarrow> vec3" where
  \<comment> \<open>\<open>new_rpy\<close>\<close>
  "observed_rpy mici od c = (case od_trans od of (x, y, z) \<Rightarrow>
     sanity_clip mici (rot2euler (mat_mul (euler2rot (get_smooth_rpy c)) (euler2rot (0, - np_arctan2 z x, np_arctan2 y x)))))"

definition store_sample :: "vec3 \<Rightarrow> vec3 \<Rightarrow> real \<Rightarrow> calibrator \<Rightarrow> calibrator" where
  \<comment> \<open>the averages of the block and the indices\<close>
  "store_sample rpy wide height c =
     (let b = cal_block_idx c; i = cal_idx c;
          c = c\<lparr>cal_rpys := (cal_rpys c)[b := moving_avg (cal_rpys c ! b) rpy i],
                cal_wides := (cal_wides c)[b := moving_avg (cal_wides c ! b) wide i],
                cal_heights := (cal_heights c)[b := (real i * (cal_heights c ! b) + (real BLOCK_SIZE - real i) * height) / real BLOCK_SIZE],
                cal_idx := (i + 1) mod BLOCK_SIZE\<rparr>
      in if cal_idx c = 0
         then c\<lparr>cal_block_idx := (b + 1) mod INPUTS_WANTED, cal_valid_blocks := max (b + 1) (cal_valid_blocks c)\<rparr>
         else c)"

definition odom_wide :: "cam_odom \<Rightarrow> vec3" where
  "odom_wide od = (case od_wide od of [x, y, z] \<Rightarrow> (x, y, z) | _ \<Rightarrow> WIDE_FROM_DEVICE_EULER_INIT)"

definition odom_height :: "cam_odom \<Rightarrow> real" where
  "odom_height od = (case od_road_trans od of [_, _, h] \<Rightarrow> h | _ \<Rightarrow> HEIGHT_INIT)"

definition handle_cam_odom :: "bool \<Rightarrow> bool \<Rightarrow> cam_odom \<Rightarrow> calibrator \<Rightarrow> vec3 option \<times> calibrator \<times> calibration_msg option" where
  "handle_cam_odom mici not_car od c =
     (let c = c\<lparr>cal_old_weight := max 0 (cal_old_weight c - 1 / SMOOTH_CYCLES)\<rparr>
      in if \<not> (straight_and_fast od c \<and> (certain od \<or> cal_valid_blocks c < INPUTS_NEEDED)) then (None, c, None)
         else let rpy = observed_rpy mici od c
              in (Some rpy, cal_update_status mici not_car (store_sample rpy (odom_wide od) (odom_height od) c)))"

record cal_in =
  cal_odom :: "cam_odom option"  \<comment> \<open>when it is new\<close>
  cal_in_v_ego :: real

definition calibration_pass :: "bool \<Rightarrow> bool \<Rightarrow> nat \<Rightarrow> cal_in \<Rightarrow> calibrator \<Rightarrow> calibrator \<times> calibration_msg option \<times> calibration_msg option" where
  \<comment> \<open>a turn of \<open>main\<close>, with the frame: also what is saved and what is sent\<close>
  "calibration_pass mici not_car frame i c =
     (let (c, saved) = (case cal_odom i of None \<Rightarrow> (c, None)
            | Some od \<Rightarrow> snd (handle_cam_odom mici not_car od (c\<lparr>cal_v_ego := cal_in_v_ego i\<rparr>)))
      in (c, saved, if frame mod 5 = 0 then Some (cal_get_msg not_car c) else None))"

end
