(* ===== verification/CalibrationFacts.thy ===== *)
theory CalibrationFacts
  imports Calibration
begin

text \<open>
  What is proved of the calibration: in every run its angles stay within the limits a frame is clipped to, its indices within
  their tables and what it saves is fit to be read again; and five hundred frames of straight and fast driving, no fewer, bring
  the first calibration.
\<close>

section \<open>Angles within the limits\<close>

definition within_pitch :: "bool \<Rightarrow> real \<Rightarrow> bool" where
  "within_pitch mici p \<longleftrightarrow> fst (PITCH_LIMITS mici) - 5 / 1000 \<le> p \<and> p \<le> snd (PITCH_LIMITS mici) + 5 / 1000"

definition within_yaw :: "real \<Rightarrow> bool" where
  "within_yaw y \<longleftrightarrow> fst YAW_LIMITS - 5 / 1000 \<le> y \<and> y \<le> snd YAW_LIMITS + 5 / 1000"

definition in_box :: "bool \<Rightarrow> vec3 \<Rightarrow> bool" where
  "in_box mici v \<longleftrightarrow> within_pitch mici (fst (snd v)) \<and> within_yaw (snd (snd v))"

lemma in_box_zero [simp]: "in_box mici (0, 0, 0)"
  by (simp add: in_box_def within_pitch_def within_yaw_def PITCH_LIMITS_def YAW_LIMITS_def)

lemma sanity_clip_in_box: "in_box mici (sanity_clip mici v)"
proof -
  have "fst (PITCH_LIMITS mici) - 5 / 1000 \<le> snd (PITCH_LIMITS mici) + 5 / 1000" "fst YAW_LIMITS - 5 / 1000 \<le> snd YAW_LIMITS + 5 / 1000"
    by (simp_all add: PITCH_LIMITS_def YAW_LIMITS_def)
  then show ?thesis
    unfolding sanity_clip_def in_box_def within_pitch_def within_yaw_def
    by (cases v) (simp only: prod.case fst_conv snd_conv np_clip_upper np_clip_lower simp_thms)
qed

lemma convex_le:
  fixes a b l u x y :: real
  assumes "0 \<le> a" "0 \<le> b" "a + b = 1" "l \<le> x" "l \<le> y" "x \<le> u" "y \<le> u"
  shows "l \<le> a * x + b * y \<and> a * x + b * y \<le> u"
proof -
  have "a * l + b * l \<le> a * x + b * y" "a * x + b * y \<le> a * u + b * u"
    using assms by (auto intro!: add_mono mult_left_mono)
  moreover have "a * l + b * l = l" "a * u + b * u = u" using assms(3) by (simp_all flip: distrib_right)
  ultimately show ?thesis by simp
qed

lemma convex_in_box:
  assumes "0 \<le> a" "0 \<le> b" "a + b = 1" "in_box mici u" "in_box mici v"
  shows "in_box mici (vec_add (vec_scale a u) (vec_scale b v))"
proof -
  have p: "within_pitch mici (a * x + b * y)" if "within_pitch mici x" "within_pitch mici y" for x y
    using that unfolding within_pitch_def by (intro convex_le assms(1-3)) auto
  have y: "within_yaw (a * x + b * y)" if "within_yaw x" "within_yaw y" for x y
    using that unfolding within_yaw_def by (intro convex_le assms(1-3)) auto
  show ?thesis
    using assms(4,5) p y by (cases u; cases v) (simp add: in_box_def vec_add_def vec_scale_def map_vec_def)
qed

lemma moving_avg_convex: "moving_avg u v i = vec_add (vec_scale (real i / 100) u) (vec_scale (1 - real i / 100) v)"
  by (cases u; cases v) (simp add: moving_avg_def vec_add_def vec_scale_def map_vec_def field_simps)

lemma moving_avg_in_box: "i < 100 \<Longrightarrow> in_box mici u \<Longrightarrow> in_box mici v \<Longrightarrow> in_box mici (moving_avg u v i)"
  unfolding moving_avg_convex by (rule convex_in_box) (auto simp: field_simps)

lemma mean_of_between:
  assumes "xs \<noteq> []" "\<forall>x\<in>set xs. l \<le> x \<and> x \<le> u"
  shows "l \<le> mean_of xs \<and> mean_of xs \<le> u"
proof -
  have "real (length xs) * l \<le> sum_list xs \<and> sum_list xs \<le> real (length xs) * u"
    using assms(2) by (induction xs) (auto simp: algebra_simps)
  with assms(1) show ?thesis by (simp add: mean_of_def field_simps)
qed

lemma mean_vec_in_box:
  assumes "vs \<noteq> []" "\<forall>v\<in>set vs. in_box mici v"
  shows "in_box mici (mean_vec vs)"
proof -
  have "within_pitch mici (mean_of (map (\<lambda>v. fst (snd v)) vs))"
    unfolding within_pitch_def by (rule mean_of_between) (use assms in \<open>auto simp: in_box_def within_pitch_def\<close>)
  moreover have "within_yaw (mean_of (map (\<lambda>v. snd (snd v)) vs))"
    unfolding within_yaw_def by (rule mean_of_between) (use assms in \<open>auto simp: in_box_def within_yaw_def\<close>)
  ultimately show ?thesis by (simp add: in_box_def mean_vec_def)
qed

section \<open>The invariant\<close>

definition tables_ok :: "bool \<Rightarrow> calibrator \<Rightarrow> bool" where
  "tables_ok mici c \<longleftrightarrow> length (cal_rpys c) = 50 \<and> length (cal_wides c) = 50 \<and> length (cal_heights c) = 50 \<and>
     cal_idx c < 100 \<and> cal_block_idx c < 50 \<and> cal_block_idx c \<le> cal_valid_blocks c \<and> cal_valid_blocks c \<le> 50 \<and>
     (\<forall>v\<in>set (cal_rpys c). in_box mici v) \<and> in_box mici (cal_old_rpy c) \<and> 0 \<le> cal_old_weight c \<and> cal_old_weight c \<le> 1"

definition calibrator_ok :: "bool \<Rightarrow> calibrator \<Rightarrow> bool" where
  "calibrator_ok mici c \<longleftrightarrow> tables_ok mici c \<and> in_box mici (cal_rpy c)"

lemma valid_idxs_in_range: "tables_ok mici c \<Longrightarrow> i \<in> set (get_valid_idxs c) \<Longrightarrow> i < 50"
  by (auto simp: tables_ok_def get_valid_idxs_def)

lemma take_means_simps [simp]:
  "cal_valid_blocks (take_means c) = cal_valid_blocks c" "cal_rpys (take_means c) = cal_rpys c" "cal_idx (take_means c) = cal_idx c"
  "cal_block_idx (take_means c) = cal_block_idx c" "cal_state (take_means c) = cal_state c"
  "cal_old_rpy (take_means c) = cal_old_rpy c" "cal_old_weight (take_means c) = cal_old_weight c"
  by (simp_all add: take_means_def Let_def)

lemma take_means_ok:
  assumes "tables_ok mici c" "in_box mici (cal_rpy c)"
  shows "calibrator_ok mici (take_means c)"
proof -
  have "tables_ok mici (take_means c)" using assms(1) by (simp add: tables_ok_def take_means_def Let_def)
  moreover have "in_box mici (cal_rpy (take_means c))"
  proof (cases "get_valid_idxs c = []")
    case False
    have "\<forall>v\<in>set (map (\<lambda>i. cal_rpys c ! i) (get_valid_idxs c)). in_box mici v"
      using assms(1) valid_idxs_in_range [OF assms(1)] by (auto simp: tables_ok_def)
    with False have "in_box mici (mean_vec (map (\<lambda>i. cal_rpys c ! i) (get_valid_idxs c)))" by (intro mean_vec_in_box) auto
    with False show ?thesis by (simp add: take_means_def Let_def)
  qed (use assms(2) in \<open>simp add: take_means_def\<close>)
  ultimately show ?thesis by (simp add: calibrator_ok_def)
qed

lemma judge_ok: "calibrator_ok mici (judge m c) \<longleftrightarrow> calibrator_ok mici c"
  by (simp add: judge_def calibrator_ok_def tables_ok_def)

lemma reset_ok:
  assumes "in_box mici rpy" "valid \<le> 50" "case old of None \<Rightarrow> True | Some r \<Rightarrow> in_box mici r"
  shows "calibrator_ok mici (cal_reset rpy valid wide height old c)"
  using assms by (auto simp: cal_reset_def calibrator_ok_def tables_ok_def split: option.splits)

lemma last_block_in_box: "calibrator_ok mici c \<Longrightarrow> in_box mici (last_block c)"
  by (auto simp: calibrator_ok_def tables_ok_def last_block_def)

lemma start_over_ok:
  assumes "calibrator_ok mici c"
  shows "calibrator_ok mici (start_over c)"
proof (cases "spread_too_high c \<and> cal_state c = Cal_calibrated")
  case True
  have "calibrator_ok mici (cal_reset (last_block c) 1 WIDE_FROM_DEVICE_EULER_INIT HEIGHT_INIT (Some (cal_rpy c)) c)"
    by (rule reset_ok) (use assms last_block_in_box in \<open>auto simp: calibrator_ok_def\<close>)
  with True show ?thesis by (simp add: start_over_def calibrator_ok_def tables_ok_def)
next
  case False
  with assms show ?thesis by (auto simp: start_over_def)
qed

lemma smooth_in_box:
  assumes "calibrator_ok mici c"
  shows "in_box mici (get_smooth_rpy c)"
  using assms convex_in_box [of "cal_old_weight c" "1 - cal_old_weight c" mici "cal_old_rpy c" "cal_rpy c"]
  by (auto simp: get_smooth_rpy_def calibrator_ok_def tables_ok_def)

definition msg_ok :: "bool \<Rightarrow> calibration_msg \<Rightarrow> bool" where
  "msg_ok mici m \<longleftrightarrow> in_box mici (cm_rpyCalib m) \<and> cm_validBlocks m \<le> 50 \<and> cm_calPerc m \<le> 100"

lemma get_msg_ok: "calibrator_ok mici c \<Longrightarrow> msg_ok mici (cal_get_msg not_car c)"
  using smooth_in_box [of mici c] by (auto simp: cal_get_msg_def Let_def msg_ok_def calibrator_ok_def tables_ok_def)

lemma update_status_ok:
  assumes "tables_ok mici c" "in_box mici (cal_rpy c)"
  shows "calibrator_ok mici (fst (cal_update_status mici not_car c)) \<and> pred_option (msg_ok mici) (snd (cal_update_status mici not_car c))"
proof -
  have "calibrator_ok mici (start_over (judge mici (take_means c)))"
    by (intro start_over_ok) (simp add: judge_ok take_means_ok [OF assms])
  then show ?thesis by (auto simp: cal_update_status_def Let_def get_msg_ok)
qed

lemma store_sample_ok:
  assumes "calibrator_ok mici c" "in_box mici rpy"
  shows "calibrator_ok mici (store_sample rpy wide height c)"
proof -
  let ?b = "cal_block_idx c"
  have "in_box mici (moving_avg (cal_rpys c ! ?b) rpy (cal_idx c))"
    by (rule moving_avg_in_box) (use assms in \<open>auto simp: calibrator_ok_def tables_ok_def\<close>)
  moreover have "set ((cal_rpys c)[?b := v]) \<subseteq> insert v (set (cal_rpys c))" for v by (rule set_update_subset_insert)
  moreover have "\<forall>v\<in>set (cal_rpys c). in_box mici v" using assms(1) by (simp add: calibrator_ok_def tables_ok_def)
  ultimately have "\<forall>v\<in>set ((cal_rpys c)[?b := moving_avg (cal_rpys c ! ?b) rpy (cal_idx c)]). in_box mici v"
    by (metis insert_iff subset_iff)
  moreover have "(?b + 1) mod 50 \<le> max (?b + 1) (cal_valid_blocks c)" by (meson le_max_iff_disj mod_less_eq_dividend)
  ultimately show ?thesis
    using assms(1) by (simp add: store_sample_def Let_def calibrator_ok_def tables_ok_def)
qed

lemma handle_cam_odom_ok:
  assumes "calibrator_ok mici c"
  shows "calibrator_ok mici (fst (snd (handle_cam_odom mici nc od c))) \<and> pred_option (msg_ok mici) (snd (snd (handle_cam_odom mici nc od c)))"
proof -
  let ?c = "c\<lparr>cal_old_weight := max 0 (cal_old_weight c - 1 / SMOOTH_CYCLES)\<rparr>"
  have c: "calibrator_ok mici ?c" using assms by (simp add: calibrator_ok_def tables_ok_def)
  show ?thesis
  proof (cases "straight_and_fast od ?c \<and> (certain od \<or> cal_valid_blocks ?c < INPUTS_NEEDED)")
    case True
    have "in_box mici (observed_rpy mici od ?c)" by (simp add: observed_rpy_def sanity_clip_in_box split: prod.split)
    from store_sample_ok [OF c this] have s: "calibrator_ok mici (store_sample (observed_rpy mici od ?c) w h ?c)" for w h .
    have "snd (handle_cam_odom mici nc od c) = cal_update_status mici nc (store_sample (observed_rpy mici od ?c) (odom_wide od) (odom_height od) ?c)"
      unfolding handle_cam_odom_def Let_def using True by auto
    then show ?thesis using update_status_ok s by (simp add: calibrator_ok_def)
  qed (use c in \<open>simp add: handle_cam_odom_def\<close>)
qed

lemma pass_ok:
  assumes "calibrator_ok mici c" "calibration_pass mici nc frame i c = (c', saved, sent)"
  shows "calibrator_ok mici c' \<and> pred_option (msg_ok mici) saved \<and> pred_option (msg_ok mici) sent"
proof -
  have c: "calibrator_ok mici (c\<lparr>cal_v_ego := v\<rparr>)" for v using assms(1) by (simp add: calibrator_ok_def tables_ok_def)
  show ?thesis
    using assms handle_cam_odom_ok [OF c] by (cases "cal_odom i") (auto simp: calibration_pass_def split_def Let_def get_msg_ok)
qed

primrec calibration_run :: "bool \<Rightarrow> bool \<Rightarrow> nat \<Rightarrow> cal_in list \<Rightarrow> calibrator \<Rightarrow> calibrator" where
  \<comment> \<open>passes from a frame on\<close>
  "calibration_run mici nc frame [] c = c"
| "calibration_run mici nc frame (i # is) c = calibration_run mici nc (frame + 1) is (fst (calibration_pass mici nc frame i c))"

lemma run_ok: "calibrator_ok mici c \<Longrightarrow> calibrator_ok mici (calibration_run mici nc frame is c)"
proof (induction "is" arbitrary: frame c)
  case (Cons i "is")
  obtain c' sv st where p: "calibration_pass mici nc frame i c = (c', sv, st)" by (metis surj_pair)
  with pass_ok [OF Cons.prems p] Cons.IH show ?case by simp
qed simp

definition saved_ok :: "bool \<Rightarrow> saved_calibration \<Rightarrow> bool" where
  \<comment> \<open>finite angles are within the limits, and no more blocks than there are\<close>
  "saved_ok mici s \<longleftrightarrow> sv_validBlocks s \<le> 50 \<and>
     (case sv_rpy s of (a, b, c) \<Rightarrow> case finite_vec [a, b, c] of None \<Rightarrow> True | Some v \<Rightarrow> in_box mici v)"

lemma init_ok:
  assumes "pred_option (saved_ok mici) saved"
  shows "calibrator_ok mici (fst (calibrator_init mici saved))"
proof -
  have "calibrator_ok mici (cal_reset r n w h None c)" if "in_box mici r" "n \<le> 50" for r n w h c
    by (rule reset_ok) (use that in auto)
  then show ?thesis
    using assms update_status_ok unfolding calibrator_init_def Let_def
    by (cases saved) (auto simp: calibrator_ok_def saved_ok_def split: prod.splits option.splits)
qed

text \<open>
  C12. The calibration stays within its limits. In every run, from nothing or from what an earlier run saved, the angles sent and
  saved are within the limits of pitch and yaw that an observation is clipped to, whatever the camera reports; the percentage is at
  most a hundred; and no more than fifty blocks are counted, so what is saved may be read by the next run.
\<close>

theorem calibration_stays_in_limits:
  assumes "pred_option (saved_ok mici) saved"
    and "calibration_pass mici nc frame i (calibration_run mici nc 0 is (fst (calibrator_init mici saved))) = (c, save, sent)"
  shows "calibrator_ok mici c \<and> pred_option (msg_ok mici) save \<and> pred_option (msg_ok mici) sent"
  by (rule pass_ok [OF run_ok [OF init_ok [OF assms(1)]] assms(2)])

section \<open>The first calibration\<close>

definition good_frame :: "cal_in \<Rightarrow> bool" where
  \<comment> \<open>fast and straight\<close>
  "good_frame i \<longleftrightarrow> (case cal_odom i of None \<Rightarrow> False
     | Some od \<Rightarrow> cal_in_v_ego i > MIN_SPEED_FILTER \<and> fst (od_trans od) > MIN_SPEED_FILTER \<and> \<bar>snd (snd (od_rot od))\<bar> < MAX_YAW_RATE_FILTER)"

definition counting :: "nat \<Rightarrow> calibrator \<Rightarrow> bool" where
  "counting n c \<longleftrightarrow> n < 500 \<and> cal_idx c = n mod 100 \<and> cal_block_idx c = n div 100 \<and> cal_valid_blocks c = n div 100 \<and> cal_state c = Cal_uncalibrated"

definition first_result :: "calibrator \<Rightarrow> bool" where
  "first_result c \<longleftrightarrow> cal_state c \<in> {Cal_calibrated, Cal_invalid} \<and> cm_calPerc (cal_get_msg False c) = 100 \<or>
     cal_state c = Cal_recalibrating \<and> spread_too_high c"

lemma store_sample_state: "cal_state (store_sample rpy w h c) = cal_state c"
  unfolding store_sample_def by (simp add: Let_def)

lemma store_sample_idx: "cal_idx (store_sample rpy w h c) = (cal_idx c + 1) mod 100"
  unfolding store_sample_def Let_def by simp

lemma store_sample_block:
  "cal_block_idx (store_sample rpy w h c) = (if (cal_idx c + 1) mod 100 = 0 then (cal_block_idx c + 1) mod 50 else cal_block_idx c)"
  unfolding store_sample_def Let_def by (simp del: mod_Suc)

lemma store_sample_valid:
  "cal_valid_blocks (store_sample rpy w h c) =
    (if (cal_idx c + 1) mod 100 = 0 then max (cal_block_idx c + 1) (cal_valid_blocks c) else cal_valid_blocks c)"
  unfolding store_sample_def Let_def by (simp del: max.absorb1)

lemma stored_counts:
  assumes "n < 500" "cal_idx c = n mod 100" "cal_block_idx c = n div 100" "cal_valid_blocks c = n div 100"
  shows "cal_idx (store_sample rpy w h c) = (n + 1) mod 100 \<and> cal_block_idx (store_sample rpy w h c) = (n + 1) div 100 \<and>
    cal_valid_blocks (store_sample rpy w h c) = (n + 1) div 100"
proof -
  have j: "(cal_idx c + 1) mod 100 = (n + 1) mod 100" unfolding assms(2) by (rule mod_add_left_eq)
  note s = store_sample_idx store_sample_block store_sample_valid
  show ?thesis
  proof (cases "(n + 1) mod 100 = 0")
    case True
    then have d: "(n + 1) div 100 = n div 100 + 1" by (simp add: div_Suc)
    have m: "(n div 100 + 1) mod 50 = n div 100 + 1" using assms(1) by simp
    show ?thesis unfolding s j if_P [OF True] assms(3,4) d m by simp
  next
    case False
    then have d: "(n + 1) div 100 = n div 100" by (simp add: div_Suc)
    show ?thesis unfolding s j if_not_P [OF False] assms(3,4) d by simp
  qed
qed

lemma judge_simps [simp]:
  "cal_valid_blocks (judge m c) = cal_valid_blocks c" "cal_idx (judge m c) = cal_idx c" "cal_block_idx (judge m c) = cal_block_idx c"
  "cal_spread (judge m c) = cal_spread c"
  by (simp_all add: judge_def)

lemma status_counting:
  assumes "n < 500" "cal_idx c = n mod 100" "cal_block_idx c = n div 100" "cal_valid_blocks c = n div 100" "cal_state c = Cal_uncalibrated"
  shows "counting n (fst (cal_update_status mici nc c))"
proof -
  have "n div 100 < 5" using assms(1) less_mult_imp_div_less [of n 5 100] by simp
  then have "start_over (judge mici (take_means c)) = judge mici (take_means c)" "cal_state (judge mici (take_means c)) = Cal_uncalibrated"
    using assms by (simp_all add: start_over_def judge_def)
  then show ?thesis using assms by (simp add: cal_update_status_def Let_def counting_def)
qed

lemma status_first:
  assumes "cal_idx c = 0" "cal_block_idx c = 5" "cal_valid_blocks c = 5"
  shows "first_result (fst (cal_update_status mici nc c))"
proof -
  let ?j = "judge mici (take_means c)"
  have s: "cal_state ?j \<in> {Cal_calibrated, Cal_invalid}" using assms by (auto simp: judge_def)
  show ?thesis
  proof (cases "spread_too_high ?j \<and> cal_state ?j = Cal_calibrated")
    case True
    then have "cal_state (start_over ?j) = Cal_recalibrating" "spread_too_high (start_over ?j)"
      by (simp_all add: start_over_def spread_too_high_def cal_reset_def)
    then show ?thesis by (simp add: cal_update_status_def Let_def first_result_def)
  next
    case False
    then have "start_over ?j = ?j" by (auto simp: start_over_def)
    with s assms show ?thesis by (auto simp: cal_update_status_def Let_def first_result_def cal_get_msg_def)
  qed
qed

lemma pass_counting:
  assumes "counting n c"
  shows "if good_frame i then (if n < 499 then counting (n + 1) (fst (calibration_pass mici nc f i c)) else first_result (fst (calibration_pass mici nc f i c)))
    else counting n (fst (calibration_pass mici nc f i c))"
proof (cases "cal_odom i")
  case None
  with assms show ?thesis by (simp add: good_frame_def calibration_pass_def)
next
  case (Some od)
  let ?c = "c\<lparr>cal_v_ego := cal_in_v_ego i, cal_old_weight := max 0 (cal_old_weight c - 1 / SMOOTH_CYCLES)\<rparr>"
  have few: "cal_valid_blocks ?c < INPUTS_NEEDED" using assms less_mult_imp_div_less [of n 5 100] by (simp add: counting_def)
  have g: "straight_and_fast od ?c \<longleftrightarrow> good_frame i" by (simp add: straight_and_fast_def good_frame_def Some)
  have p: "fst (calibration_pass mici nc f i c) = (if good_frame i
      then fst (cal_update_status mici nc (store_sample (observed_rpy mici od ?c) (odom_wide od) (odom_height od) ?c)) else ?c)"
    using few g by (simp add: calibration_pass_def Some handle_cam_odom_def Let_def split_def)
  show ?thesis
  proof (cases "good_frame i")
    case True
    let ?s = "store_sample (observed_rpy mici od ?c) (odom_wide od) (odom_height od) ?c"
    have s: "cal_idx ?s = (n + 1) mod 100" "cal_block_idx ?s = (n + 1) div 100" "cal_valid_blocks ?s = (n + 1) div 100" "cal_state ?s = Cal_uncalibrated"
      using assms stored_counts [of n ?c "observed_rpy mici od ?c" "odom_wide od" "odom_height od"] by (simp_all add: counting_def store_sample_state)
    show ?thesis
    proof (cases "n < 499")
      case True
      have "counting (n + 1) (fst (cal_update_status mici nc ?s))" by (rule status_counting) (use s True in auto)
      with p True \<open>good_frame i\<close> show ?thesis by simp
    next
      case False
      then have "n = 499" using assms by (simp add: counting_def)
      with s have "first_result (fst (cal_update_status mici nc ?s))" by (intro status_first) simp_all
      with p False \<open>good_frame i\<close> show ?thesis by simp
    qed
  qed (use assms p in \<open>simp add: counting_def\<close>)
qed

lemma run_counting:
  assumes "counting n c" "n + length (filter good_frame is) < 500"
  shows "counting (n + length (filter good_frame is)) (calibration_run mici nc f is c)"
  using assms
proof (induction "is" arbitrary: n f c)
  case (Cons i "is")
  let ?c = "fst (calibration_pass mici nc f i c)"
  show ?case
  proof (cases "good_frame i")
    case True
    with Cons.prems pass_counting [OF Cons.prems(1), where i = i and mici = mici and nc = nc and f = f] have "counting (n + 1) ?c" by simp
    from Cons.IH [OF this] Cons.prems(2) True show ?thesis by simp
  next
    case False
    with pass_counting [OF Cons.prems(1), where i = i and mici = mici and nc = nc and f = f] have "counting n ?c" by simp
    from Cons.IH [OF this] Cons.prems(2) False show ?thesis by simp
  qed
qed simp

lemma calibration_run_snoc:
  "calibration_run mici nc f (is @ [i]) c = fst (calibration_pass mici nc (f + length is) i (calibration_run mici nc f is c))"
  by (induction "is" arbitrary: f c) simp_all

lemma init_counting: "counting 0 (fst (calibrator_init mici None))"
  unfolding calibrator_init_def Let_def by (simp, rule status_counting) (simp_all add: cal_reset_def)

text \<open>
  C13. Without a saved calibration five hundred straight and fast frames bring the first one, however they are spread over
  the drive. Before, the status is uncalibrated and the percentage a fifth of their number; with the five hundredth the
  status is calibrated or invalid and the percentage a hundred, or the angles were spread too far, and the calibration starts over.
\<close>

theorem first_calibration_takes_500_frames:
  assumes "c = calibration_run mici nc 0 ins (fst (calibrator_init mici None))"
  shows "(length (filter good_frame ins) < 500 \<longrightarrow>
      cal_state c = Cal_uncalibrated \<and> cm_calPerc (cal_get_msg False c) = length (filter good_frame ins) div 5) \<and>
    (length (filter good_frame ins) = 499 \<and> good_frame i \<longrightarrow> first_result (fst (calibration_pass mici nc (length ins) i c)))"
proof -
  let ?n = "length (filter good_frame ins)"
  have k: "counting ?n c" if "?n < 500" using run_counting [OF init_counting [of mici], of ins mici nc 0] that by (simp add: assms)
  have "cm_calPerc (cal_get_msg False c) = ?n div 5" if "?n < 500"
  proof -
    have "cal_valid_blocks c * 100 + cal_idx c = ?n" using k [OF that] by (simp add: counting_def)
    moreover have "100 * ?n div (100 * 5) = ?n div 5" by (rule div_mult_mult1) simp
    moreover have "?n div 5 \<le> 100" using that by linarith
    ultimately show ?thesis by (simp add: cal_get_msg_def Let_def)
  qed
  moreover have "first_result (fst (calibration_pass mici nc (length ins) i c))" if "?n = 499" "good_frame i"
    using pass_counting [where n = 499 and c = c and i = i and mici = mici and nc = nc and f = "length ins"] k that by simp
  ultimately show ?thesis using k by (auto simp: counting_def)
qed

section \<open>Concrete values\<close>

definition straight_input :: cal_in where
  "straight_input = \<lparr>cal_odom = Some \<lparr>od_trans = (20, 0, 0), od_rot = (0, 0, 0), od_wide = [], od_trans_std = (0, 0, 0), od_road_trans = [],
     od_road_trans_std = []\<rparr>, cal_in_v_ego = 20\<rparr>"

theorem calibration_stays_in_limits_witness:
  "calibrator_ok True (fst (calibration_pass True False 0 straight_input (fst (calibrator_init True None))))"
proof -
  obtain c sv st where p: "calibration_pass True False 0 straight_input (calibration_run True False 0 [] (fst (calibrator_init True None))) = (c, sv, st)"
    by (metis surj_pair)
  from calibration_stays_in_limits [OF _ p] have "calibrator_ok True c" by simp
  with p show ?thesis by simp
qed

theorem first_calibration_takes_500_frames_witness:
  "first_result (fst (calibration_pass True False 499 straight_input (calibration_run True False 0 (replicate 499 straight_input) (fst (calibrator_init True None)))))"
proof -
  have "good_frame straight_input"
    by (simp add: good_frame_def straight_input_def MAX_YAW_RATE_FILTER_def to_radians_def)
  with first_calibration_takes_500_frames [OF refl, where ins = "replicate 499 straight_input" and i = straight_input and mici = True and nc = False] show ?thesis by simp
qed

end
