(* ===== verification/Spec2Isabelle.thy ===== *)
theory Spec2Isabelle
  imports AlertManager Mads MonitoringFacts SpeedLimitAssistFacts CruiseFacts LaneChangeFacts LongControl Hdlc UbxFramer
    SelfdriveDFacts DecFacts LongPlannerFacts LpaModem ModemFacts HardwareFacts AscentFacts LogFilesFacts ProcessFacts RadarFacts ControlsFacts CalibrationFacts
begin

text \<open>
  A verification library of the decision logic of openpilot with its sunnypilot extensions and the
  Ascent modules, \<^verbatim>\<open>src/openpilot\<close>. All paths below are relative to that directory.

  \<^bold>\<open>The program.\<close> In every frame of 10 ms the drive loop (\<^verbatim>\<open>selfdrive/selfdrived/selfdrived.py\<close>) turns
  messages of the other processes into events, gives them to two engagement machines - the drive
  machine and the lateral one of MADS - and shows one alert. Driver monitoring, the planner's speed
  limit assist, the set speed, lane changes and the longitudinal controller run in their own
  processes at their own rates; they read each other's messages. The planner chooses the slowest of
  several sources of a target speed, dynamic experimental control chooses who drives the speed, and
  the planner turns both into an acceleration. The satellite receivers and the modem are read through
  framed byte streams, and the eSIM of the modem is managed through AT commands and a server.

  \<^bold>\<open>Conventions.\<close> Python's floats are exact reals (with nan and infinities where the code tests for them); what the code rounds (\<open>int\<close>, \<open>round\<close>,
  \<open>round(x, 1)\<close>) is rounded in the model. Python's unbounded integers are \<open>int\<close>, or \<open>nat\<close> where they
  only count; bytes are \<open>8 word\<close>. A raised exception is \<open>None\<close> or the left part of a sum. A class is a
  record and its methods are functions on the record; a message is an input record, and parameters
  of the program, clocks and device data are inputs of the frame that reads them. What belongs to
  the opendbc submodule, which is not under \<^verbatim>\<open>src/\<close> (flags of cars, its limits, the hysteresis of the
  set speed), is a field of the configuration or an argument.

  \<^bold>\<open>The theories.\<close>
  \<^item> \<open>Prelude\<close>, \<open>PyText\<close>, \<open>Returns\<close>, \<open>ByteStrings\<close>: rounding, clipping, interpolation, sorted insertion,
    \<open>min\<close> with a key; texts; total correctness in the option monad (the collection \<open>wp\<close>); \<open>bytes\<close>.
  \<^item> \<open>Events\<close>: \<^verbatim>\<open>sunnypilot/selfdrive/selfdrived/events_base.py\<close>, alerts and the event store. The
    locale \<open>event_store\<close> is the interface of the store towards its producers: a multiset of events.
    \<open>AlertCallbacks\<close>, \<open>EventTable\<close>, \<open>EventTableSP\<close>: the tables of \<^verbatim>\<open>selfdrive/selfdrived/events.py\<close> and
    of the sunnypilot events, entry by entry. \<open>EventFacts\<close>: building alerts never fails; which events
    end, block and request engagement.
  \<^item> \<open>SelfdriveState\<close>: \<^verbatim>\<open>selfdrive/selfdrived/state.py\<close>. The locales \<open>engagement\<close> and \<open>soft_disabling\<close>
    state what any engagement machine promises, and are interpreted on this machine and, in
    \<open>MadsState\<close> (\<^verbatim>\<open>sunnypilot/mads/state.py\<close>), on the two machines running together. The abstract
    specification is the step relation \<open>eng_step\<close> on three levels, which the machine refines.
  \<^item> \<open>Mads\<close>: \<^verbatim>\<open>sunnypilot/mads/mads.py\<close>, the rewriting of events around the lateral machine. The
    locale \<open>stores_invariant\<close> carries an invariant of the stores through the whole rewriting.
  \<^item> \<open>AlertManager\<close>: \<^verbatim>\<open>selfdrive/selfdrived/alertmanager.py\<close>, which alert is shown and for how long.
  \<^item> \<open>CarState\<close>, \<open>CarEvents\<close>: the car state, \<^verbatim>\<open>selfdrive/car/car_events.py\<close> and
    \<^verbatim>\<open>sunnypilot/selfdrive/car/car_specific.py\<close>.
  \<^item> \<open>SelfdriveD\<close>: the drive loop itself, one definition per block of \<open>update_events\<close>, composed with the
    theories above into \<open>sd_step\<close>. \<open>SelfdriveDFacts\<close>: the relation \<open>block\<close> says what every block of
    events keeps (both machines, well-formed stores, events already raised); \<open>raises\<close> says which
    conditions are certain to raise which events. From these follow that a step returns, that a
    hardware fault disengages in its frame, that engaging needs a frame without objections, and that
    refused control ends an engagement within 200 frames.
  \<^item> \<open>StatLive\<close>, \<open>Monitoring\<close>, \<open>MonitoringFacts\<close>: \<^verbatim>\<open>common/stat_live.py\<close>, \<^verbatim>\<open>common/filter_simple.py\<close>,
    \<^verbatim>\<open>selfdrive/monitoring/policy.py\<close> and the Ascent test alert mode: the invariant of awareness, the
    terminal red alert, how long alerts and lockouts take.
  \<^item> \<open>SpeedLimit\<close>, \<open>SpeedLimitAssist\<close>, \<open>SpeedLimitAssistFacts\<close>: the resolver of the speed limit, and the
    assist; an active assist goes back to an agreement of the driver.
  \<^item> \<open>Cruise\<close>, \<open>CruiseFacts\<close>: \<^verbatim>\<open>selfdrive/car/cruise.py\<close> with its extension, the set speed.
    \<open>ButtonManagement\<close>: the controller that presses the buttons of stock cruise control, that
    presses come only when they are due, and that they come then, whatever the car does.
  \<^item> \<open>LaneChange\<close>, \<open>LaneChangeFacts\<close>: \<^verbatim>\<open>selfdrive/controls/lib/desire_helper.py\<close> with automatic lane
    changes and turns.
  \<^item> \<open>LongControl\<close>: \<^verbatim>\<open>common/pid.py\<close>, \<^verbatim>\<open>selfdrive/controls/lib/longcontrol.py\<close> and
    \<^verbatim>\<open>drive_helpers.py\<close>: the PID controller, stopping, limits of the curvature.
  \<^item> \<open>Dec\<close>, \<open>DecFacts\<close>: \<^verbatim>\<open>sunnypilot/selfdrive/controls/lib/dec/dec.py\<close>, the filters of its estimates and
    the manager of its two modes: estimates in range, the dwell time, a standing car.
  \<^item> \<open>SmartCruise\<close>, \<open>SmartCruiseFacts\<close>: \<^verbatim>\<open>sunnypilot/selfdrive/controls/lib/smart_cruise_control\<close>, the speed
    sources for curves seen by the model and known to the map. \<open>E2EAlerts\<close>: \<^verbatim>\<open>e2e_alerts_helper.py\<close>, the
    chimes at lights and behind departing leads.
  \<^item> \<open>LongMpc\<close>: \<^verbatim>\<open>selfdrive/controls/lib/longitudinal_mpc_lib/long_mpc.py\<close>, the problem posed to the solver,
    which is a function in the input of every frame. \<open>LongPlanner\<close>: the two \<^verbatim>\<open>longitudinal_planner.py\<close> of
    \<^verbatim>\<open>sunnypilot\<close> and \<^verbatim>\<open>selfdrive\<close>, \<^verbatim>\<open>ldw.py\<close> and the loop of \<^verbatim>\<open>plannerd.py\<close>. \<open>LongPlannerFacts\<close>: the locale
    \<open>speed_source\<close> is the contract of a source of a target speed, interpreted on the vision, the map
    and the speed limit assist; a frame never raises, follows the least engaged source, and keeps the
    limits of acceleration and, outside the end-to-end mode, of the jerk of the cruise acceleration; one
    chime a stop.
  \<^item> \<open>LatTorqueExt\<close>, \<open>LatControl\<close>: \<^verbatim>\<open>selfdrive/controls/lib/latcontrol*.py\<close> and
    \<^verbatim>\<open>sunnypilot/selfdrive/controls/lib/latcontrol_torque_*.py\<close> with \<^verbatim>\<open>nnlc\<close>, the controllers for steering.
    \<open>Controls\<close>, \<open>ControlsFacts\<close>: \<^verbatim>\<open>selfdrive/controls/controlsd.py\<close> with its extension, the frame that commands
    the car. Who may steer, the bounds of the command in every run, and the faults that the model shows.
  \<^item> \<open>Rotations\<close>: \<^verbatim>\<open>common/transformations/transformations.py\<close> and the poses of
    \<^verbatim>\<open>selfdrive/locationd/helpers.py\<close>; angles survive the way through a matrix. \<open>Calibration\<close>,
    \<open>CalibrationFacts\<close>: \<^verbatim>\<open>selfdrive/locationd/calibrationd.py\<close>, angles within their limits in every run, and
    when the first calibration is there.
  \<^item> \<open>Radar\<close>, \<open>RadarFacts\<close>: \<^verbatim>\<open>selfdrive/controls/radard.py\<close> and \<^verbatim>\<open>common/simple_kalman.py\<close>, the tracks and the
    leads. Obstacles in front of a slow car, how long the second lead is held, the convergence of a track's filter.
  \<^item> \<open>Tlv\<close>, \<open>TlvFacts\<close>, \<open>PyIO\<close>, \<open>AtClient\<close>, \<open>Lpa\<close>: \<^verbatim>\<open>common/esim/lpa.py\<close>, the encodings of eSIM
    messages, programs over a port with exceptions (\<open>outcome\<close>), the AT client with its retries and the
    operations of the local profile assistant. The port (serial line, modem reset, HTTP, clock) is a
    parameter. \<open>Es10x\<close>: a card that collects the chunks of a command, and the locale \<open>apdu_channel\<close> of what
    carries an APDU to it; \<open>AtModem\<close> interprets it on a modem that answers AT commands line by line.
    \<open>LpaFacts\<close>, \<open>LpaModem\<close>: round trips, the cutting of packages, what is never deleted, and the
    cancelling of failed downloads, with the locale \<open>request_log\<close> for what a program sends.
  \<^item> \<open>Modem\<close>, \<open>ModemFacts\<close>: \<^verbatim>\<open>common/hardware/comma/modem.py\<close>, the connection manager of the modem: five
    states, the PPP session and its routes, what it reads of the modem. Bounded dialling, a changed SIM,
    and the state in which it is not noticed.
  \<^item> \<open>PowerMonitor\<close>, \<open>Hardware\<close>, \<open>HardwareFacts\<close>: \<^verbatim>\<open>system/hardware\<close>, the loop of \<^verbatim>\<open>hardwared.py\<close> with
    \<^verbatim>\<open>power_monitoring.py\<close> and \<^verbatim>\<open>fan_controller.py\<close>: when the device goes on- and offroad, cools down, and is
    shut down. The facts rest on lemmas of what each part of a pass leaves alone.
  \<^item> \<open>PyFloat\<close>, \<open>AscentGuards\<close>, \<open>AscentEvidence\<close>, \<open>AscentShadow\<close>, \<open>AscentFacts\<close>:
    \<^verbatim>\<open>sunnypilot/selfdrive/ascent_v8\<close>. Floats with nan and infinities as an instance of the ordering
    and arithmetic classes; the guards, one definition per module; the evaluation of a frame in
    \<^verbatim>\<open>shadowd.py\<close>; what is behind a bypass candidate and a stop prediction over the whole history.
  \<^item> \<open>PyNumbers\<close>, \<open>LogFiles\<close>, \<open>LogFilesFacts\<close>: \<^verbatim>\<open>system/loggerd/deleter.py\<close> and \<^verbatim>\<open>uploader.py\<close>, which
    directory goes when the disk is full, what is uploaded next. The order of deletion, the fate of
    marked segments, and that the uploader comes to rest.
  \<^item> \<open>Processes\<close>, \<open>ProcessFacts\<close>: \<^verbatim>\<open>system/manager\<close>, the conditions and the list of processes, starting and
    stopping, the loop of the manager. A pass is shown to treat each process by itself; from that, which run
    together, that processes stop, and that the drive loop hears of one that died.
  \<^item> \<open>Hdlc\<close>: \<^verbatim>\<open>system/qcomgpsd/modemdiag.py\<close>, frames, checksum and receiver of the modem.
    \<open>UbxFramer\<close>: the framer of \<^verbatim>\<open>system/ubloxd/ubloxd.py\<close>.

  \<^bold>\<open>Fuel and bounds.\<close> Only the loop of the UBX framer carries fuel; one more than the number of bytes
  held is proved to be enough, for every buffer. The AT client waits for lines and asks for the rest of
  an answer with fuel as well: more than the lines of an answer and its pieces is proved to be enough
  on the modelled modem. All other loops are recursions over lists, or
  functions with a termination proof. Clients wait (\<open>recv\<close>) by running out of input chunks, which is
  \<open>None\<close>.

  \<^bold>\<open>Not modelled.\<close> Rounding errors; infinities and nan of floats outside of the guards of Ascent; message transport, processes, threads
  (the parameter thread of the drive loop is modelled pass by pass, between steps), files and
  network; user interface; vision models and the optimisation of the planner, which is generated
  code; the vehicle model, friction and torque conversions of opendbc, which are parameters; the Kalman
  filters of localisation and the learning of vehicle parameters and delays; the connections of the WiFi manager, remote control and updates. Logging is left out everywhere.
\<close>

end
